(* ===== verification/PyPrelude.thy ===== *)
theory PyPrelude
  imports Main "HOL-Library.Char_ord" "HOL-Library.List_Lexorder" "HOL-Library.AList"
begin

text \<open>
  What every component shares: Python's exceptions as values, the result type with its bind,
  the loops over sequences that may raise, ordered de-duplication (\<open>dict.fromkeys\<close> and the
  \<open>seen\<close> loops), sorting by a key, and the insertion-ordered dictionaries.

  Strings are char lists. A Python string is represented when all its code points are below
  256, and \<open>of_char\<close> is then the code point; the order of strings is Python's, by code point.
\<close>

section \<open>Exceptions and results\<close>

text \<open>
  The exceptions the modelled code raises. \<open>OperationError\<close> and \<open>AuthorityProofError\<close> derive
  from \<open>ValueError\<close> in the source, and \<open>ReceiptWriteError\<close> from \<open>AuthorityProofError\<close>;
  \<open>PathViolation\<close> is \<open>WorkspacePathViolation\<close> and \<open>DecodeError\<close> Python's \<open>UnicodeDecodeError\<close>, two
  more of them, and \<open>WorkspaceError\<close> is \<open>PatchApplyWorkspaceError\<close>, a \<open>RuntimeError\<close>;
  \<open>is_value_error\<close> is what an \<open>except ValueError\<close> clause catches. \<open>InvalidTokenError\<close> is PyJWT's,
  and \<open>OtherError\<close> an exception of a library that no modelled clause catches.
\<close>

datatype py_error =
    ValueError string
  | KeyError string
  | TypeError string
  | OSError string
  | SqliteError string
  | OperationError string int
  | AuthorityProofError string
  | ReceiptWriteError bool string
  | InvalidTokenError string
  | PathViolation string
  | DecodeError string
  | WorkspaceError string
  | OtherError string

type_synonym 'a res = "py_error + 'a"

fun is_value_error :: "py_error \<Rightarrow> bool" where
  "is_value_error (ValueError _) = True"
| "is_value_error (OperationError _ _) = True"
| "is_value_error (AuthorityProofError _) = True"
| "is_value_error (ReceiptWriteError _ _) = True"
| "is_value_error (PathViolation _) = True"
| "is_value_error (DecodeError _) = True"
| "is_value_error _ = False"

fun is_os_error :: "py_error \<Rightarrow> bool" where
  "is_os_error (OSError _) = True"
| "is_os_error _ = False"

text \<open>The text \<open>str(exc)\<close> of an exception.\<close>

fun error_text :: "py_error \<Rightarrow> string" where
  "error_text (ValueError m) = m"
| "error_text (KeyError m) = m"
| "error_text (TypeError m) = m"
| "error_text (OSError m) = m"
| "error_text (SqliteError m) = m"
| "error_text (OperationError m _) = m"
| "error_text (AuthorityProofError m) = m"
| "error_text (InvalidTokenError m) = m"
| "error_text (PathViolation m) = m"
| "error_text (DecodeError m) = m"
| "error_text (WorkspaceError m) = m"
| "error_text (OtherError m) = m"
| "error_text (ReceiptWriteError _ _) = ''Required authority proof could not be persisted.''"

definition res_bind :: "'e + 'a \<Rightarrow> ('a \<Rightarrow> 'e + 'b) \<Rightarrow> 'e + 'b" where
  "res_bind m f = (case m of Inl e \<Rightarrow> Inl e | Inr x \<Rightarrow> f x)"

named_theorems res_simps \<open>the equations of results and their combinators\<close>

lemma res_bind_Inl [simp, res_simps]: "res_bind (Inl e) f = Inl e"
  by (simp add: res_bind_def)

lemma res_bind_Inr [simp, res_simps]: "res_bind (Inr x) f = f x"
  by (simp add: res_bind_def)

lemma res_bind_eq_Inr [res_simps]:
  "res_bind m f = Inr y \<longleftrightarrow> (\<exists>x. m = Inr x \<and> f x = Inr y)"
  by (cases m) simp_all

lemma res_bind_InrE [elim]:
  assumes "res_bind m f = Inr y"
  obtains x where "m = Inr x" "f x = Inr y"
  using assms by (cases m) simp_all

lemma res_bind_eq_Inl [res_simps]:
  "res_bind m f = Inl e \<longleftrightarrow> m = Inl e \<or> (\<exists>x. m = Inr x \<and> f x = Inl e)"
  by (cases m) auto

lemma res_bind_cong [fundef_cong]:
  "m = m' \<Longrightarrow> (\<And>x. m' = Inr x \<Longrightarrow> f x = f' x) \<Longrightarrow> res_bind m f = res_bind m' f'"
  by (cases m') simp_all

text \<open>
  \<open>ensures P m\<close>: if \<open>m\<close> returns, its value satisfies \<open>P\<close>. The rules in \<open>ensures_intro\<close> follow
  the structure of a function body, so \<open>intro ensures_intro\<close> leaves one goal for each return.
\<close>

definition ensures :: "('a \<Rightarrow> bool) \<Rightarrow> 'e + 'a \<Rightarrow> bool" where
  "ensures P m \<longleftrightarrow> (\<forall>x. m = Inr x \<longrightarrow> P x)"

named_theorems ensures_intro \<open>introduction rules that follow a function body\<close>

lemma ensuresD: "ensures P m \<Longrightarrow> m = Inr x \<Longrightarrow> P x"
  by (simp add: ensures_def)

lemma ensures_Inl [ensures_intro, simp]: "ensures P (Inl e)"
  by (simp add: ensures_def)

lemma ensures_Inr [ensures_intro]: "P x \<Longrightarrow> ensures P (Inr x)"
  by (simp add: ensures_def)

lemma ensures_Inr_iff [simp]: "ensures P (Inr x) = P x"
  by (simp add: ensures_def)

lemma ensures_bind [ensures_intro]:
  "(\<And>x. m = Inr x \<Longrightarrow> ensures P (f x)) \<Longrightarrow> ensures P (res_bind m f)"
  by (auto simp: ensures_def res_bind_eq_Inr)

lemma ensures_if [ensures_intro]:
  "(b \<Longrightarrow> ensures P x) \<Longrightarrow> (\<not> b \<Longrightarrow> ensures P y) \<Longrightarrow> ensures P (if b then x else y)"
  by simp

lemma ensures_option [ensures_intro]:
  "(v = None \<Longrightarrow> ensures P x) \<Longrightarrow> (\<And>a. v = Some a \<Longrightarrow> ensures P (f a))
     \<Longrightarrow> ensures P (case v of None \<Rightarrow> x | Some a \<Rightarrow> f a)"
  by (cases v) simp_all

lemma find_Some_in: "List.find P xs = Some x \<Longrightarrow> x \<in> set xs \<and> P x"
  by (auto simp: find_Some_iff)

lemma ensures_find [ensures_intro]:
  "(\<And>x. x \<in> set xs \<Longrightarrow> q x \<Longrightarrow> ensures P (f x)) \<Longrightarrow> (List.find q xs = None \<Longrightarrow> ensures P y)
     \<Longrightarrow> ensures P (case List.find q xs of None \<Rightarrow> y | Some x \<Rightarrow> f x)"
  by (auto split: option.splits dest: find_Some_in)

lemma ensures_sum [ensures_intro]:
  "(\<And>e. v = Inl e \<Longrightarrow> ensures P (f e)) \<Longrightarrow> (\<And>x. v = Inr x \<Longrightarrow> ensures P (g x))
     \<Longrightarrow> ensures P (case v of Inl e \<Rightarrow> f e | Inr x \<Rightarrow> g x)"
  by (cases v) simp_all

lemma ensures_prod [ensures_intro]:
  "(\<And>a b. v = (a, b) \<Longrightarrow> ensures P (f a b)) \<Longrightarrow> ensures P (case v of (a, b) \<Rightarrow> f a b)"
  by (cases v) simp_all

lemma ensures_Let [ensures_intro]: "ensures P (f x) \<Longrightarrow> ensures P (let y = x in f y)"
  by simp

lemma ensures_mono: "ensures P m \<Longrightarrow> (\<And>x. P x \<Longrightarrow> Q x) \<Longrightarrow> ensures Q m"
  by (simp add: ensures_def)

text \<open>A loop \<open>for x in xs: out.append(f(x))\<close> that stops at the first exception.\<close>

fun res_map :: "('a \<Rightarrow> 'e + 'b) \<Rightarrow> 'a list \<Rightarrow> 'e + 'b list" where
  "res_map f [] = Inr []"
| "res_map f (x # xs) = res_bind (f x) (\<lambda>y. res_bind (res_map f xs) (\<lambda>ys. Inr (y # ys)))"

lemma res_map_cong [fundef_cong]:
  "xs = ys \<Longrightarrow> (\<And>x. x \<in> set ys \<Longrightarrow> f x = g x) \<Longrightarrow> res_map f xs = res_map g ys"
  by (induction ys arbitrary: xs) auto

lemma res_map_Inr_list_all2:
  "res_map f xs = Inr ys \<longleftrightarrow> list_all2 (\<lambda>x y. f x = Inr y) xs ys"
  by (induction xs arbitrary: ys) (auto simp: res_simps list_all2_Cons1)

lemma res_map_Inr_length: "res_map f xs = Inr ys \<Longrightarrow> length ys = length xs"
  by (auto simp: res_map_Inr_list_all2 dest: list_all2_lengthD)

lemma res_map_Inr_in: "res_map f xs = Inr ys \<Longrightarrow> y \<in> set ys \<Longrightarrow> \<exists>x \<in> set xs. f x = Inr y"
  by (induction xs arbitrary: ys) (auto simp: res_simps)

lemma res_map_Inr_ex: "res_map f xs = Inr ys \<Longrightarrow> x \<in> set xs \<Longrightarrow> \<exists>y \<in> set ys. f x = Inr y"
  by (induction xs arbitrary: ys) (auto simp: res_simps)

lemma res_map_fixed: "(\<And>x. x \<in> set xs \<Longrightarrow> f x = Inr x) \<Longrightarrow> res_map f xs = Inr xs"
  by (induction xs) auto

text \<open>A loop that threads an accumulator and may raise.\<close>

fun res_fold :: "('a \<Rightarrow> 's \<Rightarrow> 'e + 's) \<Rightarrow> 'a list \<Rightarrow> 's \<Rightarrow> 'e + 's" where
  "res_fold f [] s = Inr s"
| "res_fold f (x # xs) s = res_bind (f x s) (res_fold f xs)"

lemma res_fold_append:
  "res_fold f (xs @ ys) s = res_bind (res_fold f xs s) (res_fold f ys)"
proof (induction xs arbitrary: s)
  case (Cons x xs)
  then show ?case by (cases "f x s") simp_all
qed simp

lemma res_fold_invariant:
  assumes "res_fold f xs s = Inr s'" and "P s"
    and "\<And>x s s'. x \<in> set xs \<Longrightarrow> P s \<Longrightarrow> f x s = Inr s' \<Longrightarrow> P s'"
  shows "P s'"
  using assms by (induction xs arbitrary: s) (auto simp: res_simps)

text \<open>A comprehension \<open>tuple(x for x in xs if p(x))\<close> whose test may raise.\<close>

fun res_filter :: "('a \<Rightarrow> 'e + bool) \<Rightarrow> 'a list \<Rightarrow> 'e + 'a list" where
  "res_filter p [] = Inr []"
| "res_filter p (x # xs) = res_bind (p x) (\<lambda>b. res_bind (res_filter p xs) (\<lambda>ys.
     Inr (if b then x # ys else ys)))"

lemma res_filter_Inr:
  "res_filter p xs = Inr ys \<Longrightarrow> ys = filter (\<lambda>x. p x = Inr True) xs \<and> (\<forall>x \<in> set xs. \<exists>b. p x = Inr b)"
  by (induction xs arbitrary: ys) (auto simp: res_simps)

lemma res_filter_total:
  "(\<And>x. x \<in> set xs \<Longrightarrow> p x = Inr (q x)) \<Longrightarrow> res_filter p xs = Inr (filter q xs)"
  by (induction xs) auto

text \<open>\<open>any(p(x) for x in xs)\<close> and \<open>next((x for x in xs if p(x)), None)\<close>, stopping at the first hit.\<close>

fun res_any :: "('a \<Rightarrow> 'e + bool) \<Rightarrow> 'a list \<Rightarrow> 'e + bool" where
  "res_any p [] = Inr False"
| "res_any p (x # xs) = res_bind (p x) (\<lambda>b. if b then Inr True else res_any p xs)"

section \<open>Order-preserving de-duplication\<close>

text \<open>\<open>tuple(dict.fromkeys(xs))\<close>, and the loops that append an item not yet in \<open>seen\<close>.\<close>

fun uniq :: "'a list \<Rightarrow> 'a list" where
  "uniq [] = []"
| "uniq (x # xs) = x # filter (\<lambda>y. y \<noteq> x) (uniq xs)"

lemma set_uniq [simp]: "set (uniq xs) = set xs"
  by (induction xs) auto

lemma distinct_uniq [simp]: "distinct (uniq xs)"
  by (induction xs) auto

lemma uniq_distinct_id: "distinct xs \<Longrightarrow> uniq xs = xs"
proof (induction xs)
  case (Cons x xs)
  then have "filter (\<lambda>y. y \<noteq> x) xs = xs" by (auto simp: filter_id_conv)
  with Cons show ?case by simp
qed simp

lemma uniq_eq_Nil [simp]: "uniq xs = [] \<longleftrightarrow> xs = []"
  by (cases xs) auto

lemma length_uniq_le: "length (uniq xs) \<le> length xs"
proof (induction xs)
  case (Cons x xs)
  have "length (filter (\<lambda>y. y \<noteq> x) (uniq xs)) \<le> length (uniq xs)" by simp
  also note Cons.IH
  finally show ?case by simp
qed simp

section \<open>Sorting\<close>

text \<open>
  \<open>sorted(xs)\<close> is \<open>sort\<close> and \<open>sorted(xs, key=f)\<close>, which is stable, is \<open>sort_key f\<close>.
  \<open>tuple(sorted(set(xs)))\<close> is \<open>sort (remdups xs)\<close>, whatever order the set has.
\<close>

lemma sort_key_Nil [simp]: "sort_key f xs = [] \<longleftrightarrow> xs = []"
  by (metis length_0_conv length_sort)

definition sorted_set :: "'a::linorder list \<Rightarrow> 'a list" where
  "sorted_set xs = sort (remdups xs)"

lemma set_sorted_set [simp]: "set (sorted_set xs) = set xs"
  by (simp add: sorted_set_def)

lemma sorted_sorted_set [simp]: "sorted (sorted_set xs)"
  by (simp add: sorted_set_def)

lemma distinct_sorted_set [simp]: "distinct (sorted_set xs)"
  by (simp add: sorted_set_def)

lemma sorted_set_Nil [simp]: "sorted_set xs = [] \<longleftrightarrow> xs = []"
  by (metis set_empty set_sorted_set)

lemma sort_uniq_sorted_set: "sort (uniq xs) = sorted_set xs"
  by (simp add: sorted_set_def sorted_distinct_set_unique)

lemma sorted_set_id: "sorted xs \<Longrightarrow> distinct xs \<Longrightarrow> sorted_set xs = xs"
  by (simp add: sorted_distinct_set_unique)

lemma sorted_set_cong: "set xs = set ys \<Longrightarrow> sorted_set xs = sorted_set ys"
  by (simp add: sorted_distinct_set_unique)

section \<open>Dictionaries\<close>

text \<open>
  A Python dict is an association list in insertion order: assignment replaces the value in
  place or appends, deletion removes, lookup is by key. These are the operations of
  \<open>HOL-Library.AList\<close>.
\<close>

type_synonym 'v dict = "(string \<times> 'v) list"

abbreviation dict_get :: "'v dict \<Rightarrow> string \<Rightarrow> 'v option" where
  "dict_get d k \<equiv> map_of d k"

abbreviation dict_set :: "string \<Rightarrow> 'v \<Rightarrow> 'v dict \<Rightarrow> 'v dict" where
  "dict_set k v d \<equiv> AList.update k v d"

abbreviation dict_del :: "string \<Rightarrow> 'v dict \<Rightarrow> 'v dict" where
  "dict_del k d \<equiv> AList.delete k d"

abbreviation dict_keys :: "'v dict \<Rightarrow> string list" where
  "dict_keys d \<equiv> map fst d"

lemma dict_get_set: "dict_get (dict_set k v d) k' = (if k' = k then Some v else dict_get d k')"
  by (simp add: update_conv')

lemma dict_get_del: "dict_get (dict_del k d) k' = (if k' = k then None else dict_get d k')"
  by (simp add: delete_conv')

lemma dict_get_in: "dict_get d k = Some v \<Longrightarrow> (k, v) \<in> set d"
  by (rule map_of_SomeD)

lemma dict_get_keys: "dict_get d k \<noteq> None \<longleftrightarrow> k \<in> set (dict_keys d)"
  by (metis domIff dom_map_of_conv_image_fst set_map)

lemma distinct_dict_set: "distinct (dict_keys d) \<Longrightarrow> distinct (dict_keys (dict_set k v d))"
  by (rule distinct_update)

lemma set_dict_set_keys: "set (dict_keys (dict_set k v d)) = insert k (set (dict_keys d))"
  by (induction d) auto

end
