(* ===== verification/PyText.thy ===== *)
theory PyText
  imports PyPrelude
begin

text \<open>
  The string methods the code uses, on strings whose code points are below 256: \<open>strip\<close>,
  \<open>lower\<close>, \<open>replace\<close>, \<open>split\<close>, \<open>join\<close>, \<open>startswith\<close>, the character classes of the code's
  regular expressions, and \<open>pathlib.PurePosixPath\<close> as far as the code looks at it.
\<close>

section \<open>Characters\<close>

definition code_point :: "char \<Rightarrow> nat" where
  "code_point c = of_char c"

text \<open>\<open>str.isspace\<close>, which \<open>strip()\<close> and \<open>split()\<close> use.\<close>

definition is_space :: "char \<Rightarrow> bool" where
  "is_space c = (let n = code_point c in
     (9 \<le> n \<and> n \<le> 13) \<or> (28 \<le> n \<and> n \<le> 32) \<or> n = 133 \<or> n = 160)"

definition is_digit :: "char \<Rightarrow> bool" where
  "is_digit c = (let n = code_point c in 48 \<le> n \<and> n \<le> 57)"

text \<open>The regular-expression class \<open>[A-Za-z0-9]\<close>.\<close>

definition is_ascii_alnum :: "char \<Rightarrow> bool" where
  "is_ascii_alnum c = (let n = code_point c in
     (48 \<le> n \<and> n \<le> 57) \<or> (65 \<le> n \<and> n \<le> 90) \<or> (97 \<le> n \<and> n \<le> 122))"

text \<open>The test \<open>character not in "0123456789abcdef"\<close>, negated.\<close>

definition is_lower_hex :: "char \<Rightarrow> bool" where
  "is_lower_hex c = (let n = code_point c in (48 \<le> n \<and> n \<le> 57) \<or> (97 \<le> n \<and> n \<le> 102))"

text \<open>\<open>str.lower\<close>: A to Z, and the Latin-1 capitals except the multiplication sign.\<close>

definition lower_char :: "char \<Rightarrow> char" where
  "lower_char c = (let n = code_point c in
     if (65 \<le> n \<and> n \<le> 90) \<or> (192 \<le> n \<and> n \<le> 222 \<and> n \<noteq> 215) then char_of (n + 32) else c)"

definition lower :: "string \<Rightarrow> string" where
  "lower s = map lower_char s"

lemma code_point_less: "code_point c < 256"
  by (simp add: code_point_def of_char_of)

lemma code_point_char_of: "n < 256 \<Longrightarrow> code_point (char_of n) = n"
  by (simp add: code_point_def)

lemma lower_char_idem [simp]: "lower_char (lower_char c) = lower_char c"
  by (auto simp: lower_char_def Let_def code_point_char_of)

lemma lower_idem [simp]: "lower (lower s) = lower s"
  by (simp add: lower_def)

lemma lower_append: "lower (s @ t) = lower s @ lower t"
  by (simp add: lower_def)

lemma is_space_lower_char [simp]: "is_space (lower_char c) \<longleftrightarrow> is_space c"
  by (auto simp: lower_char_def is_space_def Let_def code_point_char_of)

section \<open>strip\<close>

definition lstrip_by :: "(char \<Rightarrow> bool) \<Rightarrow> string \<Rightarrow> string" where
  "lstrip_by p s = dropWhile p s"

definition strip_by :: "(char \<Rightarrow> bool) \<Rightarrow> string \<Rightarrow> string" where
  "strip_by p s = rev (dropWhile p (rev (dropWhile p s)))"

definition strip :: "string \<Rightarrow> string" where
  "strip s = strip_by is_space s"

text \<open>\<open>s.strip("-")\<close> and \<open>s.strip("/")\<close>.\<close>

definition strip_char :: "char \<Rightarrow> string \<Rightarrow> string" where
  "strip_char a s = strip_by (\<lambda>c. c = a) s"

text \<open>\<open>not s.strip()\<close>: the blank strings.\<close>

definition blank :: "string \<Rightarrow> bool" where
  "blank s = (strip s = [])"

lemma dropWhile_rev_Nil: "dropWhile p (rev s) = [] \<longleftrightarrow> (\<forall>c \<in> set s. p c)"
  by (simp add: dropWhile_eq_Nil_conv)

lemma strip_by_Nil: "strip_by p s = [] \<longleftrightarrow> (\<forall>c \<in> set s. p c)"
proof
  assume "strip_by p s = []"
  then have *: "\<forall>c \<in> set (dropWhile p s). p c"
    by (simp add: strip_by_def dropWhile_rev_Nil)
  show "\<forall>c \<in> set s. p c"
  proof (rule ccontr)
    assume "\<not> (\<forall>c \<in> set s. p c)"
    then have t: "dropWhile p s \<noteq> []" by (simp add: dropWhile_eq_Nil_conv)
    then have "\<not> p (hd (dropWhile p s))" by (rule hd_dropWhile)
    with * t show False by (metis hd_in_set)
  qed
next
  assume "\<forall>c \<in> set s. p c"
  then have "dropWhile p s = []" by (simp add: dropWhile_eq_Nil_conv)
  then show "strip_by p s = []" unfolding strip_by_def by (metis dropWhile.simps(1) rev.simps(1))
qed

lemma blank_iff: "blank s \<longleftrightarrow> (\<forall>c \<in> set s. is_space c)"
  by (simp add: blank_def strip_def strip_by_Nil)

lemma blank_Nil [simp]: "blank []"
  by (simp add: blank_iff)

text \<open>A string that neither starts nor ends with a character of the class is unchanged.\<close>

definition trimmed_by :: "(char \<Rightarrow> bool) \<Rightarrow> string \<Rightarrow> bool" where
  "trimmed_by p s \<longleftrightarrow> s = [] \<or> (\<not> p (hd s) \<and> \<not> p (last s))"

lemma dropWhile_hd_id: "s \<noteq> [] \<Longrightarrow> \<not> p (hd s) \<Longrightarrow> dropWhile p s = s"
  by (cases s) simp_all

lemma strip_by_trimmed_id: "trimmed_by p s \<Longrightarrow> strip_by p s = s"
proof (cases "s = []")
  case False
  assume "trimmed_by p s"
  with False have "\<not> p (hd s)" "\<not> p (hd (rev s))" by (auto simp: trimmed_by_def hd_rev)
  with False show ?thesis by (simp add: strip_by_def dropWhile_hd_id)
qed (simp add: strip_by_def)

lemma last_dropWhile: "dropWhile p s \<noteq> [] \<Longrightarrow> last (dropWhile p s) = last s"
  by (metis append_Nil2 last_append takeWhile_dropWhile_id)

lemma trimmed_strip_by: "trimmed_by p (strip_by p s)"
proof (cases "strip_by p s = []")
  case False
  let ?t = "dropWhile p s" and ?u = "dropWhile p (rev (dropWhile p s))"
  from False have u: "?u \<noteq> []" by (simp add: strip_by_def)
  then have t: "?t \<noteq> []" by (metis dropWhile.simps(1) rev.simps(1))
  have "\<not> p (last (strip_by p s))"
    using u by (simp add: strip_by_def last_rev hd_dropWhile)
  moreover have "hd (strip_by p s) = hd ?t"
    using u t by (simp add: strip_by_def hd_rev last_dropWhile last_rev)
  ultimately show ?thesis using t False by (simp add: trimmed_by_def hd_dropWhile)
qed (simp add: trimmed_by_def)

lemma strip_by_idem [simp]: "strip_by p (strip_by p s) = strip_by p s"
  by (rule strip_by_trimmed_id) (rule trimmed_strip_by)

lemma strip_idem [simp]: "strip (strip s) = strip s"
  by (simp add: strip_def)

lemma set_strip_by: "set (strip_by p s) \<subseteq> set s"
proof -
  have "set (strip_by p s) \<subseteq> set (dropWhile p s)"
    by (auto simp: strip_by_def dest: set_dropWhileD)
  then show ?thesis by (auto dest: set_dropWhileD)
qed

lemma strip_not_blank: "\<not> blank s \<Longrightarrow> strip s \<noteq> []"
  by (simp add: blank_def)

section \<open>replace, split, join\<close>

definition replace_char :: "char \<Rightarrow> char \<Rightarrow> string \<Rightarrow> string" where
  "replace_char a b s = map (\<lambda>c. if c = a then b else c) s"

text \<open>\<open>s.split(sep)\<close> for a one-character separator: always at least one piece.\<close>

fun split_on :: "char \<Rightarrow> string \<Rightarrow> string list" where
  "split_on a [] = [[]]"
| "split_on a (c # s) =
     (if c = a then [] # split_on a s
      else case split_on a s of [] \<Rightarrow> [[c]] | w # ws \<Rightarrow> (c # w) # ws)"

text \<open>\<open>s.split()\<close>: the maximal runs without white space.\<close>

definition split_space :: "string \<Rightarrow> string list" where
  "split_space s = filter (\<lambda>w. w \<noteq> [])
     (split_on CHR '' '' (map (\<lambda>c. if is_space c then CHR '' '' else c) s))"

fun join :: "string \<Rightarrow> string list \<Rightarrow> string" where
  "join sep [] = []"
| "join sep [w] = w"
| "join sep (w # ws) = w @ sep @ join sep ws"

definition starts_with :: "string \<Rightarrow> string \<Rightarrow> bool" where
  "starts_with s pre = (take (length pre) s = pre)"

definition ends_with :: "string \<Rightarrow> string \<Rightarrow> bool" where
  "ends_with s suf = starts_with (rev s) (rev suf)"

text \<open>\<open>pat in s\<close>\<close>

fun has_infix :: "string \<Rightarrow> string \<Rightarrow> bool" where
  "has_infix pat [] = (pat = [])"
| "has_infix pat (c # s) = (starts_with (c # s) pat \<or> has_infix pat s)"

lemma split_on_not_Nil [simp]: "split_on a s \<noteq> []"
  by (cases s) (auto split: list.splits)

lemma split_on_no_sep: "w \<in> set (split_on a s) \<Longrightarrow> a \<notin> set w"
proof (induction s arbitrary: w)
  case (Cons c s)
  show ?case
  proof (cases "split_on a s")
    case (Cons v vs)
    with Cons.prems Cons.IH show ?thesis by (auto split: if_splits)
  qed simp
qed simp

lemma split_on_chars: "w \<in> set (split_on a s) \<Longrightarrow> set w \<subseteq> set s"
proof (induction s arbitrary: w)
  case (Cons c s)
  show ?case
  proof (cases "split_on a s")
    case (Cons v vs)
    with Cons.prems Cons.IH show ?thesis by (fastforce split: if_splits)
  qed simp
qed simp

lemma split_on_free: "a \<notin> set s \<Longrightarrow> split_on a s = [s]"
  by (induction s) auto

lemma split_on_append: "a \<notin> set w \<Longrightarrow> split_on a (w @ a # s) = w # split_on a s"
  by (induction w) auto

lemma split_on_join:
  assumes "ws \<noteq> []" and "\<And>w. w \<in> set ws \<Longrightarrow> a \<notin> set w"
  shows "split_on a (join [a] ws) = ws"
  using assms
proof (induction "[a]" ws rule: join.induct)
  case (2 w)
  then show ?case by (simp add: split_on_free)
next
  case (3 w v vs)
  then show ?case by (simp add: split_on_append)
qed simp

lemma join_eq_Nil: "(\<And>w. w \<in> set ws \<Longrightarrow> w \<noteq> []) \<Longrightarrow> join sep ws = [] \<longleftrightarrow> ws = []"
  by (cases "(sep, ws)" rule: join.cases) auto

lemma hd_join: "ws \<noteq> [] \<Longrightarrow> hd ws \<noteq> [] \<Longrightarrow> hd (join sep ws) = hd (hd ws)"
  by (cases "(sep, ws)" rule: join.cases) auto

lemma last_join:
  "ws \<noteq> [] \<Longrightarrow> (\<And>w. w \<in> set ws \<Longrightarrow> w \<noteq> []) \<Longrightarrow> last (join sep ws) = last (last ws)"
proof (induction sep ws rule: join.induct)
  case (3 sep w v vs)
  then have "join sep (v # vs) \<noteq> []" by (subst join_eq_Nil) auto
  with 3 show ?case by simp
qed auto

lemma set_join: "set (join sep ws) \<subseteq> set sep \<union> \<Union> (set ` set ws)"
  by (induction sep ws rule: join.induct) auto

lemma starts_with_append: "starts_with s pre \<longleftrightarrow> (\<exists>t. s = pre @ t)"
  by (metis append_take_drop_id starts_with_def append_eq_conv_conj)

section \<open>PurePosixPath\<close>

text \<open>
  \<open>PurePosixPath(s)\<close>: \<open>is_absolute()\<close> looks at a leading slash, \<open>parts\<close> drops the empty and
  the \<open>.\<close> components, \<open>as_posix()\<close> of a relative path joins the parts and is \<open>.\<close> when there
  are none.
\<close>

definition path_is_absolute :: "string \<Rightarrow> bool" where
  "path_is_absolute s = (s \<noteq> [] \<and> hd s = CHR ''/'')"

definition path_parts :: "string \<Rightarrow> string list" where
  "path_parts s = filter (\<lambda>w. w \<noteq> [] \<and> w \<noteq> ''.'') (split_on CHR ''/'' s)"

definition path_as_posix :: "string \<Rightarrow> string" where
  "path_as_posix s = (let ps = path_parts s in if ps = [] then ''.'' else join ''/'' ps)"

lemma path_parts_mem:
  "w \<in> set (path_parts s) \<Longrightarrow> w \<noteq> [] \<and> w \<noteq> ''.'' \<and> CHR ''/'' \<notin> set w"
  by (auto simp: path_parts_def dest: split_on_no_sep)

lemma path_parts_as_posix [simp]: "path_parts (path_as_posix s) = path_parts s"
proof (cases "path_parts s = []")
  case True
  then show ?thesis by (simp add: path_as_posix_def path_parts_def split_on_free)
next
  case False
  have "split_on CHR ''/'' (join ''/'' (path_parts s)) = path_parts s"
    using False by (intro split_on_join) (auto dest: path_parts_mem)
  moreover have "filter (\<lambda>w. w \<noteq> [] \<and> w \<noteq> ''.'') (path_parts s) = path_parts s"
    by (simp add: path_parts_def)
  ultimately show ?thesis
    using False by (simp add: path_as_posix_def path_parts_def [of "join _ _"])
qed

lemma path_as_posix_idem [simp]: "path_as_posix (path_as_posix s) = path_as_posix s"
proof -
  have "path_parts (path_as_posix s) = path_parts s" by simp
  then show ?thesis unfolding path_as_posix_def [of "path_as_posix s"]
    by (simp add: path_as_posix_def [of s] Let_def)
qed

lemma path_as_posix_not_Nil [simp]: "path_as_posix s \<noteq> []"
proof (cases "path_parts s = []")
  case False
  then have "join ''/'' (path_parts s) \<noteq> []"
    by (subst join_eq_Nil) (auto dest: path_parts_mem)
  with False show ?thesis by (simp add: path_as_posix_def)
qed (simp add: path_as_posix_def)

lemma path_as_posix_relative: "\<not> path_is_absolute (path_as_posix s)"
proof (cases "path_parts s = []")
  case False
  then have h: "hd (path_parts s) \<in> set (path_parts s)" by simp
  then have "hd (path_parts s) \<noteq> []" "CHR ''/'' \<notin> set (hd (path_parts s))"
    by (auto dest: path_parts_mem)
  then have "hd (hd (path_parts s)) \<noteq> CHR ''/''" by (metis hd_in_set)
  then show ?thesis
    using False \<open>hd (path_parts s) \<noteq> []\<close>
    by (simp add: path_as_posix_def path_is_absolute_def hd_join)
qed (simp add: path_as_posix_def path_is_absolute_def)

end
