(* ===== verification/Normalize.thy ===== *)
theory Normalize
  imports PyText
begin

text \<open>
  The normalisers of \<open>operating/models.py\<close> and \<open>operating/registry.py\<close>, through which every
  identifier, text, digest and repository path of the authority layers passes, with what they
  guarantee of their results. A normaliser takes the value and the label of its error message.
\<close>

section \<open>Identifiers\<close>

text \<open>\<open>"--" in s\<close>, one pass of \<open>s.replace("--", "-")\<close>, and the loop around it.\<close>

fun has_double_dash :: "string \<Rightarrow> bool" where
  "has_double_dash (a # b # s) =
     ((a = CHR ''-'' \<and> b = CHR ''-'') \<or> has_double_dash (b # s))"
| "has_double_dash _ = False"

fun replace_double_dash :: "string \<Rightarrow> string" where
  "replace_double_dash (a # b # s) =
     (if a = CHR ''-'' \<and> b = CHR ''-'' then CHR ''-'' # replace_double_dash s
      else a # replace_double_dash (b # s))"
| "replace_double_dash s = s"

lemma length_replace_double_dash_le: "length (replace_double_dash s) \<le> length s"
  by (induction s rule: replace_double_dash.induct) auto

lemma length_replace_double_dash:
  "has_double_dash s \<Longrightarrow> length (replace_double_dash s) < length s"
proof (induction s rule: replace_double_dash.induct)
  case (1 a b s)
  show ?case
  proof (cases "a = CHR ''-'' \<and> b = CHR ''-''")
    case True
    then show ?thesis using length_replace_double_dash_le [of s] by simp
  next
    case False
    with 1 show ?thesis by auto
  qed
qed simp_all

function collapse_dashes :: "string \<Rightarrow> string" where
  "collapse_dashes s =
     (if has_double_dash s then collapse_dashes (replace_double_dash s) else s)"
  by pat_completeness auto
termination
  by (relation "measure length") (auto simp: length_replace_double_dash)

declare collapse_dashes.simps [simp del]

text \<open>What the loop computes: every run of hyphens becomes one.\<close>

fun squeeze_dashes :: "string \<Rightarrow> string" where
  "squeeze_dashes (a # b # s) =
     (if a = CHR ''-'' \<and> b = CHR ''-'' then squeeze_dashes (b # s)
      else a # squeeze_dashes (b # s))"
| "squeeze_dashes s = s"

lemma squeeze_dashes_Nil [simp]: "squeeze_dashes s = [] \<longleftrightarrow> s = []"
  by (induction s rule: squeeze_dashes.induct) auto

lemma hd_squeeze_dashes: "s \<noteq> [] \<Longrightarrow> hd (squeeze_dashes s) = hd s"
  by (induction s rule: squeeze_dashes.induct) auto

lemma last_squeeze_dashes: "s \<noteq> [] \<Longrightarrow> last (squeeze_dashes s) = last s"
  by (induction s rule: squeeze_dashes.induct) auto

lemma set_squeeze_dashes [simp]: "set (squeeze_dashes s) = set s"
  by (induction s rule: squeeze_dashes.induct) auto

lemma squeeze_dashes_Cons:
  "squeeze_dashes (c # s) =
     (if s \<noteq> [] \<and> c = CHR ''-'' \<and> hd (squeeze_dashes s) = CHR ''-'' then squeeze_dashes s
      else c # squeeze_dashes s)"
  by (cases s) (auto simp: hd_squeeze_dashes)

lemma replace_double_dash_Nil [simp]: "replace_double_dash s = [] \<longleftrightarrow> s = []"
  by (cases s rule: replace_double_dash.cases) auto

lemma squeeze_replace: "squeeze_dashes (replace_double_dash s) = squeeze_dashes s"
proof (induction s rule: replace_double_dash.induct)
  case (1 a b s)
  show ?case
  proof (cases "a = CHR ''-'' \<and> b = CHR ''-''")
    case True
    with 1(1) show ?thesis
      by (simp add: squeeze_dashes_Cons [of _ "replace_double_dash s"] squeeze_dashes_Cons [of _ s])
  next
    case False
    with 1(2) have IH: "squeeze_dashes (replace_double_dash (b # s)) = squeeze_dashes (b # s)"
      by simp
    moreover have "hd (squeeze_dashes (b # s)) = b" by (simp add: hd_squeeze_dashes)
    moreover have "replace_double_dash (a # b # s) = a # replace_double_dash (b # s)"
      using False by auto
    ultimately show ?thesis
      using False by (auto simp: squeeze_dashes_Cons [of a "replace_double_dash (b # s)"])
  qed
qed simp_all

lemma squeeze_no_double: "\<not> has_double_dash s \<Longrightarrow> squeeze_dashes s = s"
  by (induction s rule: squeeze_dashes.induct) auto

lemma no_double_squeeze: "\<not> has_double_dash (squeeze_dashes s)"
proof (induction s rule: squeeze_dashes.induct)
  case (1 a b s)
  show ?case
  proof (cases "a = CHR ''-'' \<and> b = CHR ''-''")
    case True
    with 1 show ?thesis by simp
  next
    case False
    moreover have "hd (squeeze_dashes (b # s)) = b" by (simp add: hd_squeeze_dashes)
    moreover obtain c t where "squeeze_dashes (b # s) = c # t"
      by (metis list.exhaust list.distinct(1) squeeze_dashes_Nil)
    ultimately show ?thesis using 1(2) by auto
  qed
qed simp_all

lemma collapse_dashes_eq_squeeze: "collapse_dashes s = squeeze_dashes s"
proof (induction s rule: collapse_dashes.induct)
  case (1 s)
  then show ?case
    by (subst collapse_dashes.simps) (simp add: squeeze_replace squeeze_no_double)
qed

definition normalize_identifier :: "string \<Rightarrow> string \<Rightarrow> string res" where
  "normalize_identifier label value =
     (let cleaned = replace_char CHR '' '' CHR ''-''
            (replace_char CHR ''_'' CHR ''-'' (lower (strip value)));
          cleaned = strip_char CHR ''-'' (collapse_dashes cleaned)
      in if cleaned = [] then Inl (ValueError (label @ '' must not be empty.''))
         else Inr cleaned)"

text \<open>
  The identifiers the normaliser leaves as they are: lower case, no white space, no underscore,
  no doubled and no outer hyphen.
\<close>

definition canonical_identifier :: "string \<Rightarrow> bool" where
  "canonical_identifier s \<longleftrightarrow>
     s \<noteq> [] \<and> lower s = s \<and> (\<forall>c \<in> set s. \<not> is_space c \<and> c \<noteq> CHR ''_'')
     \<and> \<not> has_double_dash s \<and> trimmed_by (\<lambda>c. c = CHR ''-'') s"

definition only_plain_spaces :: "string \<Rightarrow> bool" where
  "only_plain_spaces s \<longleftrightarrow> (\<forall>c \<in> set s. is_space c \<longrightarrow> c = CHR '' '')"

lemma is_space_dash [simp]: "\<not> is_space CHR ''-''"
  by (simp add: is_space_def code_point_def)

lemma is_space_blank [simp]: "is_space CHR '' ''"
  by (simp add: is_space_def code_point_def)

lemma lower_char_dash [simp]: "lower_char CHR ''-'' = CHR ''-''"
  by (simp add: lower_char_def code_point_def)

lemma lower_char_blank [simp]: "lower_char CHR '' '' = CHR '' ''"
  by (simp add: lower_char_def code_point_def)

lemma replace_char_id: "a \<notin> set s \<Longrightarrow> replace_char a b s = s"
  by (auto simp: replace_char_def intro: map_idI)

lemma trimmed_nospace: "(\<forall>c \<in> set s. \<not> is_space c) \<Longrightarrow> trimmed_by is_space s"
  by (cases "s = []") (simp_all add: trimmed_by_def)

lemma normalize_identifier_canonical:
  assumes "canonical_identifier s"
  shows "normalize_identifier label s = Inr s"
proof -
  have "strip s = s"
    using assms by (simp add: strip_def canonical_identifier_def strip_by_trimmed_id trimmed_nospace)
  moreover have chars: "\<forall>c \<in> set s. \<not> is_space c \<and> c \<noteq> CHR ''_''"
    using assms by (simp add: canonical_identifier_def)
  moreover from chars is_space_blank have "CHR '' '' \<notin> set s" "CHR ''_'' \<notin> set s" by blast+
  then have "replace_char CHR '' '' CHR ''-'' s = s" "replace_char CHR ''_'' CHR ''-'' s = s"
    by (simp_all add: replace_char_id)
  moreover have "lower s = s" "s \<noteq> []"
    using assms by (simp_all add: canonical_identifier_def)
  moreover have "collapse_dashes s = s"
    using assms by (simp add: collapse_dashes_eq_squeeze squeeze_no_double canonical_identifier_def)
  moreover have "strip_char CHR ''-'' s = s"
    using assms by (simp add: strip_char_def strip_by_trimmed_id canonical_identifier_def)
  ultimately show ?thesis by (simp add: normalize_identifier_def)
qed

lemma has_double_dash_append:
  "has_double_dash s \<Longrightarrow> has_double_dash (t @ s)"
proof (induction t)
  case (Cons c t)
  then show ?case by (cases "t @ s") auto
qed simp

lemma has_double_dash_appendI:
  "has_double_dash s \<Longrightarrow> has_double_dash (s @ t)"
  by (induction s rule: has_double_dash.induct) auto

lemma strip_by_infix: "\<exists>t u. s = t @ strip_by p s @ u"
proof -
  have a: "s = takeWhile p s @ dropWhile p s" by simp
  have "rev (dropWhile p s) = takeWhile p (rev (dropWhile p s)) @ dropWhile p (rev (dropWhile p s))"
    by simp
  then have "dropWhile p s = strip_by p s @ rev (takeWhile p (rev (dropWhile p s)))"
    unfolding strip_by_def by (metis rev_append rev_rev_ident)
  with a show ?thesis by metis
qed

lemma no_double_dash_strip: "\<not> has_double_dash s \<Longrightarrow> \<not> has_double_dash (strip_by p s)"
  by (metis has_double_dash_append has_double_dash_appendI strip_by_infix)

lemma normalize_identifier_result:
  assumes "normalize_identifier label value = Inr y" and "only_plain_spaces value"
  shows "canonical_identifier y"
proof -
  let ?b = "replace_char CHR '' '' CHR ''-''
              (replace_char CHR ''_'' CHR ''-'' (lower (strip value)))"
  have y: "y = strip_by (\<lambda>c. c = CHR ''-'') (squeeze_dashes ?b)" "y \<noteq> []"
    using assms(1)
    by (auto simp: normalize_identifier_def Let_def strip_char_def collapse_dashes_eq_squeeze
        split: if_splits)
  have sub: "set y \<subseteq> set ?b" using y(1) set_strip_by [of _ "squeeze_dashes ?b"] by auto
  have b: "lower_char c = c \<and> \<not> is_space c \<and> c \<noteq> CHR ''_''" if "c \<in> set ?b" for c
  proof -
    from that obtain d where d: "d \<in> set (strip value)"
      "c = (if lower_char d = CHR ''_'' \<or> lower_char d = CHR '' '' then CHR ''-'' else lower_char d)"
      by (auto simp: replace_char_def lower_def split: if_splits)
    then have "d \<in> set value" using set_strip_by by (auto simp: strip_def)
    with assms(2) have "is_space d \<Longrightarrow> d = CHR '' ''" by (simp add: only_plain_spaces_def)
    then have "is_space (lower_char d) \<Longrightarrow> lower_char d = CHR '' ''" by simp
    with d(2) show ?thesis by auto
  qed
  have "lower y = y" unfolding lower_def using b sub by (auto intro!: map_idI)
  moreover have "\<forall>c \<in> set y. \<not> is_space c \<and> c \<noteq> CHR ''_''" using b sub by auto
  moreover have "\<not> has_double_dash y"
    using y(1) no_double_squeeze no_double_dash_strip by blast
  moreover have "trimmed_by (\<lambda>c. c = CHR ''-'') y" using y(1) trimmed_strip_by by simp
  ultimately show ?thesis using y(2) by (simp add: canonical_identifier_def)
qed


text \<open>
  The result may still hold white space other than the blank: after the outer hyphens are
  stripped, nothing strips a tab they protected. The normaliser is then not idempotent.
\<close>

lemma normalize_identifier_tab:
  "normalize_identifier label [CHR ''-'', CHR 0x09, CHR ''a''] = Inr [CHR 0x09, CHR ''a'']"
  "normalize_identifier label [CHR 0x09, CHR ''a''] = Inr ''a''"
  by (simp_all add: normalize_identifier_def Let_def strip_def strip_char_def strip_by_def
      lower_def lower_char_def is_space_def code_point_def replace_char_def
      collapse_dashes_eq_squeeze)

section \<open>Texts, digests, dotted names\<close>

definition normalize_text :: "string \<Rightarrow> string \<Rightarrow> string res" where
  "normalize_text label value =
     (let cleaned = join '' '' (split_space (strip value))
      in if cleaned = [] then Inl (ValueError (label @ '' must not be empty.''))
         else Inr cleaned)"

definition normalize_optional_text :: "string \<Rightarrow> string \<Rightarrow> string res" where
  "normalize_optional_text label value =
     (if blank value then Inr [] else normalize_text label value)"

definition normalize_sha256 :: "string \<Rightarrow> string res" where
  "normalize_sha256 value =
     (let cleaned = lower (strip value)
      in if length cleaned \<noteq> 64 \<or> \<not> list_all is_lower_hex cleaned
         then Inl (ValueError ''sha256 must be a 64-character lowercase hexadecimal digest.'')
         else Inr cleaned)"

definition normalize_dotted_name :: "string \<Rightarrow> string \<Rightarrow> string res" where
  "normalize_dotted_name label value =
     (let cleaned = replace_char CHR ''/'' CHR ''.'' (strip value);
          cleaned = join ''.'' (map strip (filter (\<lambda>p. \<not> blank p) (split_on CHR ''.'' cleaned)))
      in if cleaned = [] then Inl (ValueError (label @ '' must not be empty.''))
         else Inr cleaned)"

definition is_sha256 :: "string \<Rightarrow> bool" where
  "is_sha256 s \<longleftrightarrow> length s = 64 \<and> list_all is_lower_hex s"

definition canonical_text :: "string \<Rightarrow> bool" where
  "canonical_text s \<longleftrightarrow> (\<exists>ws. ws \<noteq> [] \<and> s = join '' '' ws
     \<and> (\<forall>w \<in> set ws. w \<noteq> [] \<and> (\<forall>c \<in> set w. \<not> is_space c)))"

lemma split_space_words:
  assumes "w \<in> set (split_space s)"
  shows "w \<noteq> [] \<and> (\<forall>c \<in> set w. \<not> is_space c)"
proof -
  let ?m = "map (\<lambda>c. if is_space c then CHR '' '' else c) s"
  from assms have w: "w \<noteq> []" "w \<in> set (split_on CHR '' '' ?m)" by (auto simp: split_space_def)
  have "\<not> is_space c" if c: "c \<in> set w" for c
  proof
    assume "is_space c"
    from w(2) c have "c \<in> set ?m" "c \<noteq> CHR '' ''"
      using split_on_chars [OF w(2)] split_on_no_sep [OF w(2)] by blast+
    then show False using \<open>is_space c\<close> by (auto split: if_splits)
  qed
  with w(1) show ?thesis by simp
qed

lemma split_space_join:
  assumes "ws \<noteq> []" and "\<And>w. w \<in> set ws \<Longrightarrow> w \<noteq> [] \<and> (\<forall>c \<in> set w. \<not> is_space c)"
  shows "split_space (join '' '' ws) = ws"
proof -
  have "map (\<lambda>c. if is_space c then CHR '' '' else c) (join '' '' ws) = join '' '' ws"
    using set_join [of "'' ''" ws] assms(2) by (intro map_idI) force
  moreover have "split_on CHR '' '' (join '' '' ws) = ws"
    using assms is_space_blank by (intro split_on_join) blast+
  moreover have "filter (\<lambda>w. w \<noteq> []) ws = ws" using assms(2) by simp
  ultimately show ?thesis by (simp add: split_space_def)
qed

lemma canonical_text_trimmed: "canonical_text s \<Longrightarrow> trimmed_by is_space s \<and> s \<noteq> []"
proof -
  assume "canonical_text s"
  then obtain ws where ws: "ws \<noteq> []" "s = join '' '' ws"
    "\<forall>w \<in> set ws. w \<noteq> [] \<and> (\<forall>c \<in> set w. \<not> is_space c)" by (auto simp: canonical_text_def)
  then have h: "hd ws \<in> set ws" "last ws \<in> set ws" by auto
  with ws have ne: "hd ws \<noteq> []" "last ws \<noteq> []" by auto
  then have "hd (hd ws) \<in> set (hd ws)" "last (last ws) \<in> set (last ws)" by auto
  with ws h have "\<not> is_space (hd (hd ws))" "\<not> is_space (last (last ws))" by blast+
  moreover have "hd s = hd (hd ws)" "last s = last (last ws)"
    using ws ne by (simp_all add: hd_join last_join)
  moreover have "s \<noteq> []" using ws join_eq_Nil [of ws "'' ''"] by auto
  ultimately show ?thesis by (simp add: trimmed_by_def)
qed

lemma normalize_text_result: "normalize_text label value = Inr y \<Longrightarrow> canonical_text y"
proof -
  assume "normalize_text label value = Inr y"
  then have y: "y = join '' '' (split_space (strip value))" "y \<noteq> []"
    by (auto simp: normalize_text_def Let_def split: if_splits)
  then have "split_space (strip value) \<noteq> []" by auto
  with y(1) split_space_words show ?thesis unfolding canonical_text_def by blast
qed

lemma normalize_text_canonical:
  assumes "canonical_text s"
  shows "normalize_text label s = Inr s"
proof -
  obtain ws where ws: "ws \<noteq> []" "s = join '' '' ws"
    "\<forall>w \<in> set ws. w \<noteq> [] \<and> (\<forall>c \<in> set w. \<not> is_space c)"
    using assms by (auto simp: canonical_text_def)
  have "strip s = s" "s \<noteq> []"
    using canonical_text_trimmed [OF assms] by (simp_all add: strip_def strip_by_trimmed_id)
  moreover have "split_space s = ws" using ws split_space_join by simp
  ultimately show ?thesis using ws(2) by (simp add: normalize_text_def)
qed

lemma normalize_sha256_result:
  "normalize_sha256 value = Inr y \<Longrightarrow> is_sha256 y \<and> y = lower (strip value)"
  by (auto simp: normalize_sha256_def is_sha256_def Let_def split: if_splits)

section \<open>Repository-relative paths\<close>

definition normalize_relative_path :: "string \<Rightarrow> string res" where
  "normalize_relative_path value =
     (let cleaned = replace_char CHR 0x5C CHR ''/'' (strip value)
      in if cleaned = [] then Inl (ValueError ''path must not be empty.'')
         else if path_is_absolute cleaned
           then Inl (ValueError ''path must be repository-relative.'')
         else if ''..'' \<in> set (path_parts cleaned)
           then Inl (ValueError ''path traversal is not allowed.'')
         else Inr (path_as_posix cleaned))"

text \<open>
  What a normalised path promises: it is relative, never climbs, and is written with single
  slashes and no \<open>.\<close> component.
\<close>

definition safe_relative_path :: "string \<Rightarrow> bool" where
  "safe_relative_path s \<longleftrightarrow>
     s \<noteq> [] \<and> \<not> path_is_absolute s \<and> ''..'' \<notin> set (path_parts s)
     \<and> CHR 0x5C \<notin> set s \<and> path_as_posix s = s"

lemma normalize_relative_path_safe:
  assumes "normalize_relative_path value = Inr y"
  shows "safe_relative_path y"
proof -
  let ?c = "replace_char CHR 0x5C CHR ''/'' (strip value)"
  have y: "y = path_as_posix ?c" "''..'' \<notin> set (path_parts ?c)"
    using assms by (auto simp: normalize_relative_path_def Let_def split: if_splits)
  have "CHR 0x5C \<notin> set ?c" by (auto simp: replace_char_def)
  moreover have "set (join ''/'' (path_parts ?c)) \<subseteq> insert CHR ''/'' (set ?c)"
    using set_join [of "''/''" "path_parts ?c"]
    by (fastforce simp: path_parts_def dest: split_on_chars)
  ultimately have "CHR 0x5C \<notin> set (path_as_posix ?c)"
    by (auto simp: path_as_posix_def Let_def split: if_splits)
  with y show ?thesis by (simp add: safe_relative_path_def path_as_posix_relative)
qed

text \<open>
  White space at the ends of the result is possible (\<open>./ a\<close> gives \<open> a\<close>), so the paths the
  normaliser leaves alone are the safe ones without it.
\<close>

lemma normalize_relative_path_canonical:
  assumes "safe_relative_path s" and "trimmed_by is_space s"
  shows "normalize_relative_path s = Inr s"
proof -
  have "strip s = s" using assms(2) by (simp add: strip_def strip_by_trimmed_id)
  moreover have "replace_char CHR 0x5C CHR ''/'' s = s"
    using assms(1) by (simp add: safe_relative_path_def replace_char_id)
  ultimately show ?thesis
    using assms(1) by (simp add: normalize_relative_path_def safe_relative_path_def)
qed

section \<open>Tuples of normalised values\<close>

text \<open>
  \<open>normalize_identifier_tuple\<close>, \<open>normalize_path_tuple\<close> and the text tuples are the same loop
  over different normalisers: normalise, drop what was seen, sort.
\<close>

definition normalize_identifier_tuple :: "string \<Rightarrow> string list \<Rightarrow> string list res" where
  "normalize_identifier_tuple label values =
     res_bind (res_map (normalize_identifier label) values) (\<lambda>items. Inr (sort (uniq items)))"

definition normalize_path_tuple :: "string \<Rightarrow> string list \<Rightarrow> string list res" where
  "normalize_path_tuple label values =
     res_bind (res_map normalize_relative_path values) (\<lambda>items. Inr (sort (uniq items)))"

text \<open>\<open>unique_sorted_enum_tuple\<close>: enum members by their value strings.\<close>

definition unique_sorted_enum_tuple :: "('e \<Rightarrow> string) \<Rightarrow> 'e list \<Rightarrow> 'e list" where
  "unique_sorted_enum_tuple val xs = sort_key val (uniq xs)"

locale normalizer =
  fixes norm :: "string \<Rightarrow> string res"
    and good :: "string \<Rightarrow> bool"
    and canonical :: "string \<Rightarrow> bool"
  assumes norm_result: "good s \<Longrightarrow> norm s = Inr t \<Longrightarrow> canonical t"
    and norm_canonical: "canonical t \<Longrightarrow> norm t = Inr t"
begin

lemma norm_idempotent: "good s \<Longrightarrow> norm s = Inr t \<Longrightarrow> norm t = Inr t"
  by (simp add: norm_canonical norm_result)

lemma tuple_canonical:
  assumes "res_map norm xs = Inr ys" and "\<forall>x \<in> set xs. good x"
  shows "\<forall>t \<in> set (sort (uniq ys)). canonical t"
  using res_map_Inr_in [OF assms(1)] assms(2) norm_result by fastforce

lemma tuple_idempotent:
  assumes "res_map norm xs = Inr ys" and "\<forall>x \<in> set xs. good x"
  shows "res_bind (res_map norm (sort (uniq ys))) (\<lambda>zs. Inr (sort (uniq zs))) = Inr (sort (uniq ys))"
proof -
  have "res_map norm (sort (uniq ys)) = Inr (sort (uniq ys))"
    using tuple_canonical [OF assms] by (intro res_map_fixed norm_canonical) blast
  then show ?thesis by (simp add: uniq_distinct_id sorted_sort_id)
qed

lemma tuple_members:
  assumes "res_map norm xs = Inr ys" and "canonical t"
  shows "t \<in> set xs \<Longrightarrow> t \<in> set (sort (uniq ys))"
proof -
  assume "t \<in> set xs"
  with assms(1) obtain y where "y \<in> set ys" "norm t = Inr y" by (metis res_map_Inr_ex)
  with norm_canonical [OF assms(2)] show ?thesis by simp
qed

end

interpretation ident: normalizer "normalize_identifier label" only_plain_spaces canonical_identifier
  for label
  by unfold_locales (auto intro: normalize_identifier_result normalize_identifier_canonical)

interpretation words: normalizer "normalize_text label" "\<lambda>_. True" canonical_text
  for label
  by unfold_locales (auto intro: normalize_text_result normalize_text_canonical)

definition trimmed_path :: "string \<Rightarrow> bool" where
  "trimmed_path s \<longleftrightarrow>
     (\<forall>w \<in> set (path_parts (replace_char CHR 0x5C CHR ''/'' (strip s))). trimmed_by is_space w)"

lemma as_posix_trimmed:
  assumes "\<forall>w \<in> set (path_parts s). trimmed_by is_space w"
  shows "trimmed_by is_space (path_as_posix s)"
proof (cases "path_parts s = []")
  case True
  then show ?thesis
    by (simp add: path_as_posix_def trimmed_by_def is_space_def code_point_def)
next
  case False
  let ?ws = "path_parts s"
  from False have m: "hd ?ws \<in> set ?ws" "last ?ws \<in> set ?ws" by auto
  then have n: "hd ?ws \<noteq> []" "last ?ws \<noteq> []" by (auto dest: path_parts_mem)
  with assms m have "\<not> is_space (hd (hd ?ws))" "\<not> is_space (last (last ?ws))"
    by (auto simp: trimmed_by_def)
  moreover have "hd (join ''/'' ?ws) = hd (hd ?ws)" using False n by (simp add: hd_join)
  moreover have "last (join ''/'' ?ws) = last (last ?ws)"
    using False by (intro last_join) (auto dest: path_parts_mem)
  ultimately show ?thesis using False by (simp add: path_as_posix_def trimmed_by_def)
qed

lemma normalize_relative_path_trimmed:
  assumes "normalize_relative_path value = Inr y" and "trimmed_path value"
  shows "trimmed_by is_space y"
  using assms as_posix_trimmed
  by (auto simp: normalize_relative_path_def trimmed_path_def Let_def split: if_splits)

interpretation rel_path: normalizer normalize_relative_path trimmed_path
    "\<lambda>s. safe_relative_path s \<and> trimmed_by is_space s"
  by unfold_locales
    (auto intro: normalize_relative_path_safe normalize_relative_path_trimmed
      normalize_relative_path_canonical)

lemma normalize_identifier_tuple_distinct:
  "normalize_identifier_tuple label xs = Inr ys \<Longrightarrow> sorted ys \<and> distinct ys"
  by (auto simp: normalize_identifier_tuple_def res_simps)

lemma normalize_identifier_tuple_idempotent:
  assumes "normalize_identifier_tuple label xs = Inr ys" and "\<forall>x \<in> set xs. only_plain_spaces x"
  shows "normalize_identifier_tuple label ys = Inr ys"
  using assms ident.tuple_idempotent
  by (auto simp: normalize_identifier_tuple_def res_bind_eq_Inr)

lemma normalize_path_tuple_safe:
  assumes "normalize_path_tuple label xs = Inr ys"
  shows "sorted ys \<and> distinct ys \<and> (\<forall>y \<in> set ys. safe_relative_path y)"
proof -
  obtain zs where zs: "res_map normalize_relative_path xs = Inr zs" "ys = sort (uniq zs)"
    using assms by (auto simp: normalize_path_tuple_def res_simps)
  have "safe_relative_path z" if "z \<in> set zs" for z
    using res_map_Inr_in [OF zs(1) that] normalize_relative_path_safe by blast
  with zs(2) show ?thesis by simp
qed

lemma set_unique_sorted_enum [simp]: "set (unique_sorted_enum_tuple val xs) = set xs"
  by (simp add: unique_sorted_enum_tuple_def)

end
