(* ===== verification/PyJson.thy ===== *)
theory PyJson
  imports PyText
begin

text \<open>
  JSON values and the two encodings the code digests: \<open>canonical_bytes\<close> of
  \<open>authority_crypto/encoding.py\<close> and the older ASCII-escaped profile of \<open>digest_payload\<close> in
  \<open>operating/models.py\<close>. SHA-256 itself is a parameter \<open>H\<close>, a function on byte strings, so
  every theorem holds for any digest; where a theorem needs that two texts do not collide,
  it says so.

  The main lemma of this theory is that the canonical text determines the value up to the
  order of object keys, which is what lets a digest bind the value it was computed from.
\<close>

section \<open>Values\<close>

text \<open>
  A finite float is represented by its \<open>repr\<close>, which is what \<open>json.dumps\<close> writes. A float
  that is not finite is \<open>JNonFinite\<close>. An object is a dict in insertion order. \<open>JOther\<close> is a
  Python object that is no JSON value, such as bytes.
\<close>

datatype json =
    JNull
  | JBool bool
  | JInt int
  | JFloat string
  | JNonFinite
  | JStr string
  | JList "json list"
  | JObj "(string \<times> json) list"
  | JOther

fun json_str :: "json \<Rightarrow> string option" where
  "json_str (JStr s) = Some s"
| "json_str _ = None"

fun json_int :: "json \<Rightarrow> int option" where
  "json_int (JInt i) = Some i"
| "json_int _ = None"

fun json_list :: "json \<Rightarrow> json list option" where
  "json_list (JList xs) = Some xs"
| "json_list _ = None"

fun json_obj :: "json \<Rightarrow> json dict option" where
  "json_obj (JObj d) = Some d"
| "json_obj _ = None"

section \<open>json.dumps\<close>

definition digit_char :: "nat \<Rightarrow> char" where
  "digit_char n = char_of (if n < 10 then 48 + n else 87 + n)"

fun show_nat :: "nat \<Rightarrow> string" where
  "show_nat n = (if n < 10 then [digit_char n] else show_nat (n div 10) @ [digit_char (n mod 10)])"

declare show_nat.simps [simp del]

definition show_int :: "int \<Rightarrow> string" where
  "show_int i = (if i < 0 then CHR ''-'' # show_nat (nat (- i)) else show_nat (nat i))"

text \<open>
  \<open>str(x)\<close> and \<open>int(x)\<close> of a decoded value. What the interpreter alone can say, the \<open>repr\<close> of a
  container, the integer part of a float, the text of a time difference in seconds, its whole
  milliseconds after the floating-point product, and the text of an instant in UTC, are the
  functions of \<open>py_runtime\<close>.
\<close>

record py_runtime =
  py_repr :: "json \<Rightarrow> string"
  py_float_int :: "string \<Rightarrow> int"
  py_total_seconds :: "int \<Rightarrow> string"
  py_millis :: "int \<Rightarrow> int"
  py_isoformat :: "int \<Rightarrow> string"

fun py_str :: "py_runtime \<Rightarrow> json \<Rightarrow> string" where
  "py_str rt JNull = ''None''"
| "py_str rt (JBool b) = (if b then ''True'' else ''False'')"
| "py_str rt (JInt i) = show_int i"
| "py_str rt (JFloat s) = s"
| "py_str rt (JStr s) = s"
| "py_str rt v = py_repr rt v"

text \<open>Decimal digits, single underscores between them; white space around and a sign are allowed.\<close>

fun parse_digits :: "nat \<Rightarrow> string \<Rightarrow> nat option" where
  "parse_digits n [] = Some n"
| "parse_digits n [c] = (if is_digit c then Some (10 * n + (code_point c - 48)) else None)"
| "parse_digits n (c # d # s) =
     (if is_digit c
      then (if d = CHR ''_'' then (if s = [] then None else parse_digits (10 * n + (code_point c - 48)) s)
            else parse_digits (10 * n + (code_point c - 48)) (d # s))
      else None)"

definition parse_int :: "string \<Rightarrow> int option" where
  "parse_int t = (let s = strip t in
     case s of
       [] \<Rightarrow> None
     | c # r \<Rightarrow>
        if c = CHR ''-'' then (if r = [] then None else map_option (\<lambda>n. - int n) (parse_digits 0 r))
        else if c = CHR ''+'' then (if r = [] then None else map_option int (parse_digits 0 r))
        else map_option int (parse_digits 0 s))"

fun py_int :: "py_runtime \<Rightarrow> json \<Rightarrow> int res" where
  "py_int rt (JBool b) = Inr (if b then 1 else 0)"
| "py_int rt (JInt i) = Inr i"
| "py_int rt (JFloat s) = Inr (py_float_int rt s)"
| "py_int rt JNonFinite = Inl (OtherError ''cannot convert float infinity to integer'')"
| "py_int rt (JStr s) = (case parse_int s of
     None \<Rightarrow> Inl (ValueError ''invalid literal for int() with base 10'')
   | Some i \<Rightarrow> Inr i)"
| "py_int rt _ = Inl (TypeError ''int() argument must be a string or a real number'')"

text \<open>\<open>d.get(key, default)\<close>\<close>

definition dict_get_or :: "json dict \<Rightarrow> string \<Rightarrow> json \<Rightarrow> json" where
  "dict_get_or d k v = (case dict_get d k of None \<Rightarrow> v | Some x \<Rightarrow> x)"

text \<open>
  The escapes of \<open>ensure_ascii=False\<close>, and of \<open>ensure_ascii=True\<close>, which also escapes every
  character that is not printable ASCII.
\<close>

definition unicode_escape :: "nat \<Rightarrow> string" where
  "unicode_escape n = [CHR 0x5C, CHR ''u'', CHR ''0'', CHR ''0'',
     digit_char (n div 16), digit_char (n mod 16)]"

definition escape_char :: "bool \<Rightarrow> char \<Rightarrow> string" where
  "escape_char ascii c = (let n = code_point c in
     if n = 34 then [CHR 0x5C, CHR 0x22]
     else if n = 92 then [CHR 0x5C, CHR 0x5C]
     else if n = 10 then [CHR 0x5C, CHR ''n'']
     else if n = 13 then [CHR 0x5C, CHR ''r'']
     else if n = 9 then [CHR 0x5C, CHR ''t'']
     else if n = 12 then [CHR 0x5C, CHR ''f'']
     else if n = 8 then [CHR 0x5C, CHR ''b'']
     else if n < 32 \<or> (ascii \<and> 126 < n) then unicode_escape n
     else [c])"

definition quote :: "bool \<Rightarrow> string \<Rightarrow> string" where
  "quote ascii s = CHR 0x22 # concat (map (escape_char ascii) s) @ [CHR 0x22]"

text \<open>\<open>sort_keys=True\<close> on every object, and the text without white space.\<close>

primrec sort_keys :: "json \<Rightarrow> json" where
  "sort_keys JNull = JNull"
| "sort_keys (JBool b) = JBool b"
| "sort_keys (JInt i) = JInt i"
| "sort_keys (JFloat s) = JFloat s"
| "sort_keys JNonFinite = JNonFinite"
| "sort_keys (JStr s) = JStr s"
| "sort_keys (JList xs) = JList (map sort_keys xs)"
| "sort_keys (JObj kvs) = JObj (sort_key fst (map (map_prod id sort_keys) kvs))"
| "sort_keys JOther = JOther"

primrec json_text :: "bool \<Rightarrow> json \<Rightarrow> string" where
  "json_text ascii JNull = ''null''"
| "json_text ascii (JBool b) = (if b then ''true'' else ''false'')"
| "json_text ascii (JInt i) = show_int i"
| "json_text ascii (JFloat s) = s"
| "json_text ascii JNonFinite = ''NaN''"
| "json_text ascii (JStr s) = quote ascii s"
| "json_text ascii (JList xs) = CHR ''['' # join '','' (map (json_text ascii) xs) @ '']''"
| "json_text ascii (JObj kvs) = CHR ''{'' #
     join '','' (map (\<lambda>(k, t). quote ascii k @ CHR '':'' # t)
       (map (map_prod id (json_text ascii)) kvs)) @ ''}''"
| "json_text ascii JOther = []"

definition json_dumps :: "bool \<Rightarrow> json \<Rightarrow> string" where
  "json_dumps ascii v = json_text ascii (sort_keys v)"

text \<open>UTF-8 of a string whose code points are below 256.\<close>

definition utf8_char :: "char \<Rightarrow> string" where
  "utf8_char c = (let n = code_point c in
     if n < 128 then [c] else [char_of (192 + n div 64), char_of (128 + n mod 64)])"

definition utf8 :: "string \<Rightarrow> string" where
  "utf8 s = concat (map utf8_char s)"

section \<open>canonical_bytes and the digests\<close>

text \<open>
  \<open>_validate\<close>: the first complaint in the order the value is walked. Surrogates cannot occur in
  a string of code points below 256, and keys are strings by construction.
\<close>

fun validate_json :: "json \<Rightarrow> unit res" where
  "validate_json JNull = Inr ()"
| "validate_json (JBool b) = Inr ()"
| "validate_json (JStr s) = Inr ()"
| "validate_json (JInt i) =
     (if 2 ^ 53 - 1 < \<bar>i\<bar>
      then Inl (AuthorityProofError ''Integer exceeds interoperable exact range.'') else Inr ())"
| "validate_json (JFloat s) = Inr ()"
| "validate_json JNonFinite = Inl (AuthorityProofError ''Non-finite JSON number.'')"
| "validate_json (JList xs) = res_bind (res_map validate_json xs) (\<lambda>_. Inr ())"
| "validate_json (JObj kvs) =
     res_bind (res_map (\<lambda>kv. validate_json (snd kv)) kvs) (\<lambda>_. Inr ())"
| "validate_json JOther = Inl (AuthorityProofError ''Unsupported JSON value.'')"

definition MAX_DOCUMENT_BYTES :: int where
  "MAX_DOCUMENT_BYTES = 64 * 1024 * 1024"

definition canonical_bytes :: "json \<Rightarrow> string res" where
  "canonical_bytes v =
     (case validate_json v of
        Inl _ \<Rightarrow> Inl (AuthorityProofError ''Invalid canonical JSON.'')
      | Inr _ \<Rightarrow>
         (let result = utf8 (json_dumps False v)
          in if MAX_DOCUMENT_BYTES < int (length result)
             then Inl (AuthorityProofError ''Proof exceeds document size limit.'')
             else Inr result))"

definition digest :: "(string \<Rightarrow> string) \<Rightarrow> json \<Rightarrow> string res" where
  "digest H v = res_bind (canonical_bytes v) (\<lambda>b. Inr (H b))"

text \<open>
  \<open>digest_payload\<close>: \<open>allow_nan=False\<close> makes a non-finite float a ValueError, an object that is
  no JSON value a TypeError.
\<close>

fun dumps_error :: "json \<Rightarrow> py_error option" where
  "dumps_error JNonFinite = Some (ValueError ''Out of range float values are not JSON compliant'')"
| "dumps_error JOther = Some (TypeError ''Object is not JSON serializable'')"
| "dumps_error (JList xs) = fold (\<lambda>x acc. case acc of None \<Rightarrow> dumps_error x | Some e \<Rightarrow> Some e) xs None"
| "dumps_error (JObj kvs) =
     fold (\<lambda>kv acc. case acc of None \<Rightarrow> dumps_error (snd kv) | Some e \<Rightarrow> Some e) kvs None"
| "dumps_error _ = None"

definition digest_payload :: "(string \<Rightarrow> string) \<Rightarrow> json \<Rightarrow> string res" where
  "digest_payload H v =
     (case dumps_error (sort_keys v) of
        Some e \<Rightarrow> Inl e
      | None \<Rightarrow> Inr (H (utf8 (json_dumps True v))))"

fun holds_other :: "json \<Rightarrow> bool" where
  "holds_other JOther = True"
| "holds_other (JList xs) = list_ex holds_other xs"
| "holds_other (JObj kvs) = list_ex (\<lambda>kv. holds_other (snd kv)) kvs"
| "holds_other _ = False"

text \<open>\<open>json.dumps(..., sort_keys=True, ensure_ascii=False)\<close>, hashed: only a value that is no JSON is refused.\<close>

definition plain_digest :: "(string \<Rightarrow> string) \<Rightarrow> json \<Rightarrow> string res" where
  "plain_digest H v =
     (if holds_other v then Inl (TypeError ''Object is not JSON serializable'')
      else Inr (H (utf8 (json_dumps False v))))"

text \<open>
  \<open>strict_json\<close> after \<open>json.loads\<close>: the parser of the standard library is the parameter
  \<open>parsed\<close>, which holds the objects as lists of pairs, repetitions included (None: the bytes
  are no UTF-8 JSON text, or hold one of the constants the \<open>invalid\<close> hook refuses). The
  \<open>pairs\<close> hook refuses a repeated key anywhere.
\<close>

fun repeated_key :: "json \<Rightarrow> bool" where
  "repeated_key (JList xs) = list_ex repeated_key xs"
| "repeated_key (JObj kvs) = (\<not> distinct (map fst kvs) \<or> list_ex (\<lambda>kv. repeated_key (snd kv)) kvs)"
| "repeated_key _ = False"

definition strict_json :: "(string \<Rightarrow> json option) \<Rightarrow> string \<Rightarrow> json dict res" where
  "strict_json parsed raw =
     (if MAX_DOCUMENT_BYTES < int (length raw)
      then Inl (AuthorityProofError ''Proof exceeds document size limit.'')
      else case parsed raw of
        None \<Rightarrow> Inl (AuthorityProofError ''Invalid or ambiguous JSON.'')
      | Some v \<Rightarrow>
         if repeated_key v
         then Inl (AuthorityProofError ''Invalid or ambiguous JSON.'')
         else case v of
           JObj d \<Rightarrow> res_bind (canonical_bytes v) (\<lambda>_. Inr d)
         | _ \<Rightarrow> Inl (AuthorityProofError ''Document must be a JSON object.''))"

text \<open>\<open>fields(value, expected)\<close>: an object with exactly these keys.\<close>

definition has_fields :: "string list \<Rightarrow> json dict \<Rightarrow> bool" where
  "has_fields names d = (set (dict_keys d) = set names)"

lemma has_fields_code [code]:
  "has_fields names d =
     (list_all (\<lambda>k. k \<in> set names) (dict_keys d) \<and> list_all (\<lambda>k. k \<in> set (dict_keys d)) names)"
  by (auto simp: has_fields_def list_all_iff)

end
