(* ===== verification/AgentModels.thy ===== *)
theory AgentModels
  imports Normalize PyJson
begin

text \<open>
  The identities of \<open>agents/models.py\<close>: the enums with their value strings, a capability scope,
  a grant and a registered agent as records, each with its \<open>__post_init__\<close> as a function from
  the raw fields to the normalised value or the exception, and their \<open>to_dict\<close> documents,
  which the authority digests are computed from. \<open>OperatingDomain\<close> is from
  \<open>operating/models.py\<close>.
\<close>

section \<open>Enums\<close>

datatype operating_domain =
  MULTI_REPO | MULTI_TEAM | POLICY_GOVERNED | MEASURABLE | REPLAYABLE | REVIEWABLE

fun operating_domain_value :: "operating_domain \<Rightarrow> string" where
  "operating_domain_value MULTI_REPO = ''multi_repo''"
| "operating_domain_value MULTI_TEAM = ''multi_team''"
| "operating_domain_value POLICY_GOVERNED = ''policy_governed''"
| "operating_domain_value MEASURABLE = ''measurable''"
| "operating_domain_value REPLAYABLE = ''replayable''"
| "operating_domain_value REVIEWABLE = ''reviewable''"

datatype agent_kind =
    HUMAN_OPERATOR | MODEL_BRAIN | TOOL | SYSTEM_SERVICE | CI_RUNNER | POLICY_ENGINE
  | REPOSITORY | EXTERNAL_AGENT | KIND_UNKNOWN

fun agent_kind_value :: "agent_kind \<Rightarrow> string" where
  "agent_kind_value HUMAN_OPERATOR = ''human_operator''"
| "agent_kind_value MODEL_BRAIN = ''model_brain''"
| "agent_kind_value TOOL = ''tool''"
| "agent_kind_value SYSTEM_SERVICE = ''system_service''"
| "agent_kind_value CI_RUNNER = ''ci_runner''"
| "agent_kind_value POLICY_ENGINE = ''policy_engine''"
| "agent_kind_value REPOSITORY = ''repository''"
| "agent_kind_value EXTERNAL_AGENT = ''external_agent''"
| "agent_kind_value KIND_UNKNOWN = ''unknown''"

datatype agent_trust_tier =
    HUMAN_AUTHORITY | GOVERNED_AUTOMATION | REGISTERED_TOOL | REGISTERED_REPOSITORY
  | OBSERVER | TIER_UNKNOWN

fun agent_trust_tier_value :: "agent_trust_tier \<Rightarrow> string" where
  "agent_trust_tier_value HUMAN_AUTHORITY = ''human_authority''"
| "agent_trust_tier_value GOVERNED_AUTOMATION = ''governed_automation''"
| "agent_trust_tier_value REGISTERED_TOOL = ''registered_tool''"
| "agent_trust_tier_value REGISTERED_REPOSITORY = ''registered_repository''"
| "agent_trust_tier_value OBSERVER = ''observer''"
| "agent_trust_tier_value TIER_UNKNOWN = ''unknown''"

datatype agent_lifecycle_state = ACTIVE | SUSPENDED | REVOKED

fun agent_lifecycle_state_value :: "agent_lifecycle_state \<Rightarrow> string" where
  "agent_lifecycle_state_value ACTIVE = ''active''"
| "agent_lifecycle_state_value SUSPENDED = ''suspended''"
| "agent_lifecycle_state_value REVOKED = ''revoked''"

datatype capability_risk_tier = LOW | MEDIUM | HIGH | CRITICAL

fun capability_risk_tier_value :: "capability_risk_tier \<Rightarrow> string" where
  "capability_risk_tier_value LOW = ''low''"
| "capability_risk_tier_value MEDIUM = ''medium''"
| "capability_risk_tier_value HIGH = ''high''"
| "capability_risk_tier_value CRITICAL = ''critical''"

text \<open>\<open>_RISK_ORDER\<close>, the same table in \<open>capabilities.py\<close> and \<open>authorization.py\<close>.\<close>

fun risk_order :: "capability_risk_tier \<Rightarrow> nat" where
  "risk_order LOW = 1"
| "risk_order MEDIUM = 2"
| "risk_order HIGH = 3"
| "risk_order CRITICAL = 4"

lemma risk_order_inj: "risk_order a = risk_order b \<Longrightarrow> a = b"
  by (cases a; cases b) simp_all

instantiation capability_risk_tier :: linorder
begin

definition less_eq_capability_risk_tier :: "capability_risk_tier \<Rightarrow> capability_risk_tier \<Rightarrow> bool" where
  "less_eq_capability_risk_tier a b = (risk_order a \<le> risk_order b)"

definition less_capability_risk_tier :: "capability_risk_tier \<Rightarrow> capability_risk_tier \<Rightarrow> bool" where
  "less_capability_risk_tier a b = (risk_order a < risk_order b)"

instance
  by standard
    (auto simp: less_eq_capability_risk_tier_def less_capability_risk_tier_def dest: risk_order_inj)

end

datatype agent_capability =
    PROPOSE_PATCH | REVIEW_PATCH | APPLY_PATCH | RUN_TESTS | RUN_PROCESS | READ_WORKSPACE
  | WRITE_WORKSPACE | INSPECT_POLICY | EXPORT_EVIDENCE | APPROVE_RELEASE | APPROVE_SECURITY
  | APPROVE_COMPLIANCE | APPROVE_SANDBOX_EGRESS | MUTATE_SYSTEM | ACCESS_SECRET
  | ACCESS_NETWORK | REGISTER_AGENT | DELEGATE_CAPABILITY | REVOKE_AGENT

fun agent_capability_value :: "agent_capability \<Rightarrow> string" where
  "agent_capability_value PROPOSE_PATCH = ''propose_patch''"
| "agent_capability_value REVIEW_PATCH = ''review_patch''"
| "agent_capability_value APPLY_PATCH = ''apply_patch''"
| "agent_capability_value RUN_TESTS = ''run_tests''"
| "agent_capability_value RUN_PROCESS = ''run_process''"
| "agent_capability_value READ_WORKSPACE = ''read_workspace''"
| "agent_capability_value WRITE_WORKSPACE = ''write_workspace''"
| "agent_capability_value INSPECT_POLICY = ''inspect_policy''"
| "agent_capability_value EXPORT_EVIDENCE = ''export_evidence''"
| "agent_capability_value APPROVE_RELEASE = ''approve_release''"
| "agent_capability_value APPROVE_SECURITY = ''approve_security''"
| "agent_capability_value APPROVE_COMPLIANCE = ''approve_compliance''"
| "agent_capability_value APPROVE_SANDBOX_EGRESS = ''approve_sandbox_egress''"
| "agent_capability_value MUTATE_SYSTEM = ''mutate_system''"
| "agent_capability_value ACCESS_SECRET = ''access_secret''"
| "agent_capability_value ACCESS_NETWORK = ''access_network''"
| "agent_capability_value REGISTER_AGENT = ''register_agent''"
| "agent_capability_value DELEGATE_CAPABILITY = ''delegate_capability''"
| "agent_capability_value REVOKE_AGENT = ''revoke_agent''"

section \<open>Capability scopes\<close>

record capability_scope =
  scope_repository_ids :: "string list"
  scope_domains :: "operating_domain list"
  scope_tool_ids :: "string list"
  scope_pack_ids :: "string list"
  scope_path_roots :: "string list"
  max_risk_tier :: capability_risk_tier
  requires_human_review :: bool
  scope_evidence_artifact_ids :: "string list"
  delegated_by :: string
  scope_expires_at :: string
  scope_metadata :: "json dict"

definition has_boundary :: "capability_scope \<Rightarrow> bool" where
  "has_boundary s =
     (scope_repository_ids s \<noteq> [] \<or> scope_domains s \<noteq> [] \<or> scope_tool_ids s \<noteq> []
      \<or> scope_pack_ids s \<noteq> [] \<or> scope_path_roots s \<noteq> [] \<or> scope_evidence_artifact_ids s \<noteq> [])"

definition capability_scope_init :: "capability_scope \<Rightarrow> capability_scope res" where
  "capability_scope_init s =
     res_bind (normalize_identifier_tuple ''repository_ids'' (scope_repository_ids s)) (\<lambda>repos.
     res_bind (normalize_identifier_tuple ''tool_ids'' (scope_tool_ids s)) (\<lambda>tools.
     res_bind (normalize_identifier_tuple ''pack_ids'' (scope_pack_ids s)) (\<lambda>packs.
     res_bind (normalize_path_tuple ''path_roots'' (scope_path_roots s)) (\<lambda>roots.
     res_bind (normalize_identifier_tuple ''evidence_artifact_ids'' (scope_evidence_artifact_ids s))
       (\<lambda>evidence.
     res_bind (normalize_optional_text ''delegated_by'' (delegated_by s)) (\<lambda>by.
     res_bind (normalize_optional_text ''expires_at'' (scope_expires_at s)) (\<lambda>expires.
       let s' = s\<lparr>scope_repository_ids := repos,
                  scope_domains := unique_sorted_enum_tuple operating_domain_value (scope_domains s),
                  scope_tool_ids := tools, scope_pack_ids := packs, scope_path_roots := roots,
                  scope_evidence_artifact_ids := evidence, delegated_by := by,
                  scope_expires_at := expires\<rparr>
       in if \<not> has_boundary s'
          then Inl (ValueError ''AgentCapabilityScope must include at least one boundary.'')
          else Inr s')))))))"

definition covers_repository :: "capability_scope \<Rightarrow> string \<Rightarrow> bool res" where
  "covers_repository s repository_id =
     (if scope_repository_ids s = [] then Inr True
      else res_bind (normalize_identifier ''repository_id'' repository_id)
        (\<lambda>normalized. Inr (normalized \<in> set (scope_repository_ids s))))"

definition covers_domain :: "capability_scope \<Rightarrow> operating_domain \<Rightarrow> bool" where
  "covers_domain s d = (scope_domains s = [] \<or> d \<in> set (scope_domains s))"

abbreviation json_strs :: "string list \<Rightarrow> json" where
  "json_strs xs \<equiv> JList (map JStr xs)"

definition capability_scope_dict :: "capability_scope \<Rightarrow> json" where
  "capability_scope_dict s = JObj
     [(''repository_ids'', json_strs (scope_repository_ids s)),
      (''domains'', json_strs (map operating_domain_value (scope_domains s))),
      (''tool_ids'', json_strs (scope_tool_ids s)),
      (''pack_ids'', json_strs (scope_pack_ids s)),
      (''path_roots'', json_strs (scope_path_roots s)),
      (''max_risk_tier'', JStr (capability_risk_tier_value (max_risk_tier s))),
      (''requires_human_review'', JBool (requires_human_review s)),
      (''evidence_artifact_ids'', json_strs (scope_evidence_artifact_ids s)),
      (''delegated_by'', JStr (delegated_by s)),
      (''expires_at'', JStr (scope_expires_at s)),
      (''metadata'', JObj (scope_metadata s))]"

section \<open>Capability grants\<close>

record capability_grant =
  grant_id :: string
  grant_capability :: agent_capability
  grant_scope :: capability_scope
  grant_active :: bool
  grant_rationale :: string
  grant_metadata :: "json dict"

definition capability_grant_init :: "capability_grant \<Rightarrow> capability_grant res" where
  "capability_grant_init g =
     res_bind (normalize_identifier ''grant_id'' (grant_id g)) (\<lambda>gid.
     res_bind (normalize_optional_text ''rationale'' (grant_rationale g)) (\<lambda>rationale.
       Inr (g\<lparr>grant_id := gid, grant_rationale := rationale\<rparr>)))"

text \<open>\<open>to_dict(include_digest=False)\<close>, the digest of it, and \<open>to_dict()\<close>.\<close>

definition capability_grant_body :: "capability_grant \<Rightarrow> json dict" where
  "capability_grant_body g =
     [(''grant_id'', JStr (grant_id g)),
      (''capability'', JStr (agent_capability_value (grant_capability g))),
      (''scope'', capability_scope_dict (grant_scope g)),
      (''active'', JBool (grant_active g)),
      (''rationale'', JStr (grant_rationale g)),
      (''metadata'', JObj (grant_metadata g))]"

definition with_digest :: "(string \<Rightarrow> string) \<Rightarrow> json dict \<Rightarrow> json res" where
  "with_digest H body =
     res_bind (digest_payload H (JObj body)) (\<lambda>d. Inr (JObj (dict_set ''digest'' (JStr d) body)))"

definition capability_grant_dict :: "(string \<Rightarrow> string) \<Rightarrow> capability_grant \<Rightarrow> json res" where
  "capability_grant_dict H g = with_digest H (capability_grant_body g)"

section \<open>Registered agents\<close>

record agent_identity =
  agent_id :: string
  display_name :: string
  agent_kind :: agent_kind
  trust_tier :: agent_trust_tier
  capability_grants :: "capability_grant list"
  lifecycle_state :: agent_lifecycle_state
  agent_issuer :: string
  agent_subject :: string
  agent_metadata :: "json dict"

definition agent_active :: "agent_identity \<Rightarrow> bool" where
  "agent_active a = (lifecycle_state a = ACTIVE)"

definition can_hold_human_authority :: "agent_identity \<Rightarrow> bool" where
  "can_hold_human_authority a = (agent_active a \<and> agent_kind a = HUMAN_OPERATOR)"

definition active_grants :: "agent_identity \<Rightarrow> capability_grant list" where
  "active_grants a = filter grant_active (capability_grants a)"

definition agent_capabilities :: "agent_identity \<Rightarrow> agent_capability list" where
  "agent_capabilities a =
     unique_sorted_enum_tuple agent_capability_value (map grant_capability (active_grants a))"

definition has_capability :: "agent_identity \<Rightarrow> agent_capability \<Rightarrow> bool" where
  "has_capability a c = (c \<in> set (agent_capabilities a))"

definition grants_for :: "agent_identity \<Rightarrow> agent_capability \<Rightarrow> capability_grant list" where
  "grants_for a c = filter (\<lambda>g. grant_capability g = c) (active_grants a)"

definition validate_identity_boundary :: "agent_identity \<Rightarrow> unit res" where
  "validate_identity_boundary a =
     (if agent_kind a = KIND_UNKNOWN \<and> trust_tier a \<noteq> TIER_UNKNOWN
      then Inl (ValueError ''UNKNOWN agent kind must use UNKNOWN trust tier.'')
      else if agent_kind a \<noteq> HUMAN_OPERATOR \<and> trust_tier a = HUMAN_AUTHORITY
      then Inl (ValueError ''Only human operators may hold HUMAN_AUTHORITY trust tier.'')
      else if lifecycle_state a = REVOKED \<and> active_grants a \<noteq> []
      then Inl (ValueError ''Revoked agents must not retain active grants.'')
      else Inr ())"

definition agent_identity_init :: "agent_identity \<Rightarrow> agent_identity res" where
  "agent_identity_init a =
     res_bind (normalize_identifier ''agent_id'' (agent_id a)) (\<lambda>aid.
     res_bind (normalize_text ''display_name'' (display_name a)) (\<lambda>name.
     if capability_grants a = []
     then Inl (ValueError ''AgentIdentity capability_grants must not be empty.'')
     else let grants = sort_key grant_id (capability_grants a) in
     if \<not> distinct (map grant_id grants)
     then Inl (ValueError ''AgentIdentity grant_id values must be unique.'')
     else
     res_bind (normalize_optional_text ''issuer'' (agent_issuer a)) (\<lambda>issuer.
     res_bind (normalize_optional_text ''subject'' (agent_subject a)) (\<lambda>subject.
       let a' = a\<lparr>agent_id := aid, display_name := name, capability_grants := grants,
                  agent_issuer := issuer, agent_subject := subject\<rparr>
       in res_bind (validate_identity_boundary a') (\<lambda>_. Inr a')))))"

definition normalize_capability_grants :: "capability_grant list \<Rightarrow> capability_grant list res" where
  "normalize_capability_grants grants =
     (let normalized = sort_key grant_id grants in
      if \<not> distinct (map grant_id normalized)
      then Inl (ValueError ''capability grant_id values must be unique.'')
      else Inr normalized)"

definition agent_identity_body :: "(string \<Rightarrow> string) \<Rightarrow> agent_identity \<Rightarrow> json dict res" where
  "agent_identity_body H a =
     res_bind (res_map (capability_grant_dict H) (capability_grants a)) (\<lambda>grants.
       Inr [(''agent_id'', JStr (agent_id a)),
            (''display_name'', JStr (display_name a)),
            (''kind'', JStr (agent_kind_value (agent_kind a))),
            (''trust_tier'', JStr (agent_trust_tier_value (trust_tier a))),
            (''lifecycle_state'', JStr (agent_lifecycle_state_value (lifecycle_state a))),
            (''issuer'', JStr (agent_issuer a)),
            (''subject'', JStr (agent_subject a)),
            (''active'', JBool (agent_active a)),
            (''can_hold_human_authority'', JBool (can_hold_human_authority a)),
            (''capabilities'', json_strs (map agent_capability_value (agent_capabilities a))),
            (''capability_grants'', JList grants),
            (''metadata'', JObj (agent_metadata a))])"

definition agent_identity_digest :: "(string \<Rightarrow> string) \<Rightarrow> agent_identity \<Rightarrow> string res" where
  "agent_identity_digest H a =
     res_bind (agent_identity_body H a) (\<lambda>body. digest_payload H (JObj body))"

section \<open>What a constructed identity satisfies\<close>

definition wf_agent :: "agent_identity \<Rightarrow> bool" where
  "wf_agent a \<longleftrightarrow>
     agent_id a \<noteq> [] \<and> capability_grants a \<noteq> []
     \<and> sorted (map grant_id (capability_grants a)) \<and> distinct (map grant_id (capability_grants a))
     \<and> validate_identity_boundary a = Inr ()"

lemma normalize_identifier_not_Nil: "normalize_identifier label s = Inr y \<Longrightarrow> y \<noteq> []"
  by (auto simp: normalize_identifier_def Let_def split: if_splits)

lemma agent_identity_init_wf: "agent_identity_init a = Inr b \<Longrightarrow> wf_agent b"
  by (auto simp: agent_identity_init_def wf_agent_def Let_def res_simps
      split: if_splits dest: normalize_identifier_not_Nil)

lemma wf_agent_human_tier:
  "wf_agent a \<Longrightarrow> trust_tier a = HUMAN_AUTHORITY \<Longrightarrow> agent_kind a = HUMAN_OPERATOR"
  by (auto simp: wf_agent_def validate_identity_boundary_def split: if_splits)

lemma wf_agent_revoked: "wf_agent a \<Longrightarrow> lifecycle_state a = REVOKED \<Longrightarrow> active_grants a = []"
  by (auto simp: wf_agent_def validate_identity_boundary_def split: if_splits)

lemma grants_for_iff:
  "g \<in> set (grants_for a c) \<longleftrightarrow> g \<in> set (capability_grants a) \<and> grant_active g \<and> grant_capability g = c"
  by (auto simp: grants_for_def active_grants_def)

lemma has_capability_grants_for: "has_capability a c \<longleftrightarrow> grants_for a c \<noteq> []"
  by (auto simp: has_capability_def agent_capabilities_def grants_for_def filter_empty_conv)

lemma capability_scope_init_bounded: "capability_scope_init s = Inr t \<Longrightarrow> has_boundary t"
  by (auto simp: capability_scope_init_def Let_def res_simps split: if_splits)

lemma capability_scope_init_paths:
  "capability_scope_init s = Inr t \<Longrightarrow> \<forall>r \<in> set (scope_path_roots t). safe_relative_path r"
  by (auto simp: capability_scope_init_def Let_def res_simps split: if_splits
      dest: normalize_path_tuple_safe)

end
