(* ===== verification/Capabilities.thy ===== *)
theory Capabilities
  imports AgentModels
begin

text \<open>
  The capability posture of \<open>agents/capabilities.py\<close>: which capabilities only a human may hold,
  which need human review, which a tool or a model is denied, the default risk tiers, and the
  findings \<open>validate_agent_capability_posture\<close> reports for an agent.
\<close>

section \<open>Capability tables\<close>

definition HUMAN_ONLY_CAPABILITIES :: "agent_capability list" where
  "HUMAN_ONLY_CAPABILITIES =
     [APPROVE_RELEASE, APPROVE_SECURITY, APPROVE_COMPLIANCE, APPROVE_SANDBOX_EGRESS,
      REGISTER_AGENT, DELEGATE_CAPABILITY, REVOKE_AGENT]"

definition REQUIRES_HUMAN_REVIEW_CAPABILITIES :: "agent_capability list" where
  "REQUIRES_HUMAN_REVIEW_CAPABILITIES =
     [APPLY_PATCH, RUN_PROCESS, WRITE_WORKSPACE, EXPORT_EVIDENCE, MUTATE_SYSTEM, ACCESS_SECRET,
      ACCESS_NETWORK] @ HUMAN_ONLY_CAPABILITIES"

definition TOOL_DENIED_CAPABILITIES :: "agent_capability list" where
  "TOOL_DENIED_CAPABILITIES =
     [APPROVE_RELEASE, APPROVE_SECURITY, APPROVE_COMPLIANCE, APPROVE_SANDBOX_EGRESS,
      REGISTER_AGENT, DELEGATE_CAPABILITY, REVOKE_AGENT, MUTATE_SYSTEM, ACCESS_SECRET]"

definition MODEL_DENIED_CAPABILITIES :: "agent_capability list" where
  "MODEL_DENIED_CAPABILITIES =
     HUMAN_ONLY_CAPABILITIES @ [APPLY_PATCH, MUTATE_SYSTEM, ACCESS_SECRET]"

fun capability_default_risk_tier :: "agent_capability \<Rightarrow> capability_risk_tier" where
  "capability_default_risk_tier PROPOSE_PATCH = LOW"
| "capability_default_risk_tier REVIEW_PATCH = MEDIUM"
| "capability_default_risk_tier APPLY_PATCH = HIGH"
| "capability_default_risk_tier RUN_TESTS = MEDIUM"
| "capability_default_risk_tier RUN_PROCESS = HIGH"
| "capability_default_risk_tier READ_WORKSPACE = LOW"
| "capability_default_risk_tier WRITE_WORKSPACE = HIGH"
| "capability_default_risk_tier INSPECT_POLICY = LOW"
| "capability_default_risk_tier EXPORT_EVIDENCE = HIGH"
| "capability_default_risk_tier APPROVE_RELEASE = CRITICAL"
| "capability_default_risk_tier APPROVE_SECURITY = CRITICAL"
| "capability_default_risk_tier APPROVE_COMPLIANCE = CRITICAL"
| "capability_default_risk_tier APPROVE_SANDBOX_EGRESS = CRITICAL"
| "capability_default_risk_tier MUTATE_SYSTEM = CRITICAL"
| "capability_default_risk_tier ACCESS_SECRET = CRITICAL"
| "capability_default_risk_tier ACCESS_NETWORK = HIGH"
| "capability_default_risk_tier REGISTER_AGENT = CRITICAL"
| "capability_default_risk_tier DELEGATE_CAPABILITY = CRITICAL"
| "capability_default_risk_tier REVOKE_AGENT = CRITICAL"

definition capability_requires_human_review :: "agent_capability \<Rightarrow> bool" where
  "capability_requires_human_review c = (c \<in> set REQUIRES_HUMAN_REVIEW_CAPABILITIES)"

definition capability_is_human_only :: "agent_capability \<Rightarrow> bool" where
  "capability_is_human_only c = (c \<in> set HUMAN_ONLY_CAPABILITIES)"

section \<open>Findings\<close>

datatype capability_finding_code =
    AGENT_REVOKED | AGENT_SUSPENDED | UNKNOWN_AGENT_KIND | HUMAN_ONLY_CAPABILITY
  | TRUST_TIER_MISMATCH | INACTIVE_GRANT | RISK_TIER_TOO_LOW | HUMAN_REVIEW_REQUIRED
  | TOOL_APPROVAL_BLOCKED | MODEL_APPROVAL_BLOCKED | SYSTEM_SELF_AUTHORITY_BLOCKED

fun capability_finding_code_value :: "capability_finding_code \<Rightarrow> string" where
  "capability_finding_code_value AGENT_REVOKED = ''agent_revoked''"
| "capability_finding_code_value AGENT_SUSPENDED = ''agent_suspended''"
| "capability_finding_code_value UNKNOWN_AGENT_KIND = ''unknown_agent_kind''"
| "capability_finding_code_value HUMAN_ONLY_CAPABILITY = ''human_only_capability''"
| "capability_finding_code_value TRUST_TIER_MISMATCH = ''trust_tier_mismatch''"
| "capability_finding_code_value INACTIVE_GRANT = ''inactive_grant''"
| "capability_finding_code_value RISK_TIER_TOO_LOW = ''risk_tier_too_low''"
| "capability_finding_code_value HUMAN_REVIEW_REQUIRED = ''human_review_required''"
| "capability_finding_code_value TOOL_APPROVAL_BLOCKED = ''tool_approval_blocked''"
| "capability_finding_code_value MODEL_APPROVAL_BLOCKED = ''model_approval_blocked''"
| "capability_finding_code_value SYSTEM_SELF_AUTHORITY_BLOCKED = ''system_self_authority_blocked''"

record capability_finding =
  finding_code :: capability_finding_code
  finding_summary :: string
  finding_capability :: "agent_capability option"
  finding_grant_id :: string
  finding_blocking :: bool

record capability_policy_result =
  result_agent_id :: string
  result_findings :: "capability_finding list"

definition blocking_findings :: "capability_policy_result \<Rightarrow> capability_finding list" where
  "blocking_findings r = filter finding_blocking (result_findings r)"

definition warning_findings :: "capability_policy_result \<Rightarrow> capability_finding list" where
  "warning_findings r = filter (\<lambda>f. \<not> finding_blocking f) (result_findings r)"

definition posture_allowed :: "capability_policy_result \<Rightarrow> bool" where
  "posture_allowed r = (blocking_findings r = [])"

definition grant_finding ::
  "capability_grant \<Rightarrow> capability_finding_code \<Rightarrow> string \<Rightarrow> bool \<Rightarrow> capability_finding" where
  "grant_finding g code summary blocking =
     \<lparr>finding_code = code, finding_summary = summary,
      finding_capability = Some (grant_capability g), finding_grant_id = grant_id g,
      finding_blocking = blocking\<rparr>"

definition agent_finding ::
  "capability_finding_code \<Rightarrow> string \<Rightarrow> bool \<Rightarrow> capability_finding" where
  "agent_finding code summary blocking =
     \<lparr>finding_code = code, finding_summary = summary, finding_capability = None,
      finding_grant_id = [], finding_blocking = blocking\<rparr>"

definition validate_grant :: "agent_identity \<Rightarrow> capability_grant \<Rightarrow> capability_finding list" where
  "validate_grant a g =
     (let c = grant_capability g in
      if \<not> grant_active g
      then [grant_finding g INACTIVE_GRANT
              ''Inactive capability grant is retained for audit only.'' False]
      else
        (if risk_order (max_risk_tier (grant_scope g)) < risk_order (capability_default_risk_tier c)
         then [grant_finding g RISK_TIER_TOO_LOW
           ''Capability grant max_risk_tier is lower than the default risk tier required for this capability.'' True]
         else [])
        @ (if capability_is_human_only c \<and> \<not> can_hold_human_authority a
           then [grant_finding g HUMAN_ONLY_CAPABILITY
             ''Capability is restricted to active human authority agents.'' True]
           else [])
        @ (if c \<in> set REQUIRES_HUMAN_REVIEW_CAPABILITIES
              \<and> \<not> requires_human_review (grant_scope g) \<and> trust_tier a \<noteq> HUMAN_AUTHORITY
           then [grant_finding g HUMAN_REVIEW_REQUIRED
             ''Capability requires a human-review scope boundary.'' True]
           else [])
        @ (if agent_kind a = TOOL \<and> c \<in> set TOOL_DENIED_CAPABILITIES
           then [grant_finding g TOOL_APPROVAL_BLOCKED
             ''Tool agents cannot hold approval, secret, mutation, or delegation authority.'' True]
           else [])
        @ (if agent_kind a = MODEL_BRAIN \<and> c \<in> set MODEL_DENIED_CAPABILITIES
           then [grant_finding g MODEL_APPROVAL_BLOCKED
             ''Model agents cannot hold approval, mutation, secret, or delegation authority.'' True]
           else [])
        @ (if agent_kind a \<in> {SYSTEM_SERVICE, CI_RUNNER} \<and> c \<in> set HUMAN_ONLY_CAPABILITIES
           then [grant_finding g SYSTEM_SELF_AUTHORITY_BLOCKED
             ''System actors cannot hold human-only authority capabilities.'' True]
           else []))"

definition validate_agent_capability_posture :: "agent_identity \<Rightarrow> capability_policy_result" where
  "validate_agent_capability_posture a =
     \<lparr>result_agent_id = agent_id a,
      result_findings = sort_key (\<lambda>f. capability_finding_code_value (finding_code f))
        ((if lifecycle_state a = REVOKED
          then [agent_finding AGENT_REVOKED
                  ''Revoked agents may not hold or exercise capability grants.'' True]
          else if lifecycle_state a = SUSPENDED
          then [agent_finding AGENT_SUSPENDED
                  ''Suspended agents require review before capability use.'' False]
          else [])
         @ (if agent_kind a = KIND_UNKNOWN
            then [agent_finding UNKNOWN_AGENT_KIND
                    ''Unknown agent kind cannot be trusted for active authority.'' True]
            else [])
         @ concat (map (validate_grant a) (capability_grants a)))\<rparr>"

section \<open>What an unblocked posture says\<close>

text \<open>The rule a grant must satisfy, without the report.\<close>

definition grant_posture_ok :: "agent_identity \<Rightarrow> capability_grant \<Rightarrow> bool" where
  "grant_posture_ok a g \<longleftrightarrow>
     (grant_active g \<longrightarrow>
        capability_default_risk_tier (grant_capability g) \<le> max_risk_tier (grant_scope g)
        \<and> (capability_is_human_only (grant_capability g) \<longrightarrow> can_hold_human_authority a)
        \<and> (capability_requires_human_review (grant_capability g) \<longrightarrow>
             requires_human_review (grant_scope g) \<or> trust_tier a = HUMAN_AUTHORITY)
        \<and> (agent_kind a = TOOL \<longrightarrow> grant_capability g \<notin> set TOOL_DENIED_CAPABILITIES)
        \<and> (agent_kind a = MODEL_BRAIN \<longrightarrow> grant_capability g \<notin> set MODEL_DENIED_CAPABILITIES))"

lemma can_hold_human_authority_kind:
  "can_hold_human_authority a \<Longrightarrow> agent_kind a = HUMAN_OPERATOR \<and> lifecycle_state a = ACTIVE"
  by (simp add: can_hold_human_authority_def agent_active_def)

lemma validate_grant_blocking:
  "filter finding_blocking (validate_grant a g) = [] \<longleftrightarrow> grant_posture_ok a g"
proof (cases "grant_active g")
  case False
  then show ?thesis by (simp add: validate_grant_def grant_posture_ok_def grant_finding_def)
next
  case True
  have "capability_default_risk_tier (grant_capability g) \<le> max_risk_tier (grant_scope g)
    \<longleftrightarrow> \<not> risk_order (max_risk_tier (grant_scope g))
        < risk_order (capability_default_risk_tier (grant_capability g))"
    by (simp add: less_eq_capability_risk_tier_def not_less)
  moreover have "capability_is_human_only c \<longleftrightarrow> c \<in> set HUMAN_ONLY_CAPABILITIES"
    "capability_requires_human_review c \<longleftrightarrow> c \<in> set REQUIRES_HUMAN_REVIEW_CAPABILITIES" for c
    by (simp_all add: capability_is_human_only_def capability_requires_human_review_def)
  moreover have "can_hold_human_authority a \<Longrightarrow> agent_kind a \<notin> {SYSTEM_SERVICE, CI_RUNNER}"
    by (auto dest: can_hold_human_authority_kind)
  ultimately show ?thesis
    using True by (auto simp: validate_grant_def grant_posture_ok_def grant_finding_def Let_def)
qed

lemma posture_blocking_iff:
  "blocking_findings (validate_agent_capability_posture a) = [] \<longleftrightarrow>
     lifecycle_state a \<noteq> REVOKED \<and> agent_kind a \<noteq> KIND_UNKNOWN
     \<and> (\<forall>g \<in> set (capability_grants a). grant_posture_ok a g)"
proof -
  have "filter finding_blocking (concat (map (validate_grant a) gs)) = []
      \<longleftrightarrow> (\<forall>g \<in> set gs. grant_posture_ok a g)" for gs
    by (induction gs) (auto simp: validate_grant_blocking)
  then show ?thesis
    by (auto simp: blocking_findings_def validate_agent_capability_posture_def
        filter_sort agent_finding_def)
qed

end
