(* ===== verification/Registry.thy ===== *)
theory Registry
  imports Capabilities
begin

text \<open>
  The agent registry of \<open>agents/registry.py\<close>: a sorted tuple of agents with unique ids,
  \<open>register\<close>, \<open>replace\<close>, \<open>lookup\<close>, \<open>require\<close>, the finders and the snapshot. The interface a
  client relies on is the locale \<open>keyed_directory\<close>; the registry is an interpretation of it.
\<close>

section \<open>A directory of entries by key\<close>

text \<open>
  What the authority layers rely on when they look an actor up: an entry that was added is the
  one found, no other key is disturbed, adding refuses a taken key and replacing a free one.
\<close>

locale keyed_directory =
  fixes find :: "'d \<Rightarrow> string \<Rightarrow> 'v option"
    and add :: "'d \<Rightarrow> 'v \<Rightarrow> 'd res"
    and update :: "'d \<Rightarrow> 'v \<Rightarrow> 'd res"
    and key :: "'v \<Rightarrow> string"
    and inv :: "'d \<Rightarrow> bool"
  assumes add_ok: "inv d \<Longrightarrow> (\<exists>d'. add d v = Inr d') \<longleftrightarrow> find d (key v) = None"
    and find_add: "inv d \<Longrightarrow> add d v = Inr d' \<Longrightarrow> find d' k = (if k = key v then Some v else find d k)"
    and inv_add: "inv d \<Longrightarrow> add d v = Inr d' \<Longrightarrow> inv d'"
    and update_ok: "inv d \<Longrightarrow> (\<exists>d'. update d v = Inr d') \<longleftrightarrow> find d (key v) \<noteq> None"
    and find_update:
      "inv d \<Longrightarrow> update d v = Inr d' \<Longrightarrow> find d' k = (if k = key v then Some v else find d k)"
    and inv_update: "inv d \<Longrightarrow> update d v = Inr d' \<Longrightarrow> inv d'"
begin

lemma add_twice: "inv d \<Longrightarrow> add d v = Inr d' \<Longrightarrow> key w = key v \<Longrightarrow> \<exists>e. add d' w = Inl e"
  by (metis add_ok find_add inv_add option.distinct(1) sum.exhaust)

lemma update_after_add:
  "inv d \<Longrightarrow> add d v = Inr d' \<Longrightarrow> key w = key v \<Longrightarrow> \<exists>d''. update d' w = Inr d'' \<and> find d'' (key v) = Some w"
  by (metis find_add find_update inv_add option.distinct(1) update_ok)

lemma fold_add_find:
  assumes "inv d" and "res_fold (\<lambda>v d. add d v) vs d = Inr d'"
  shows "inv d' \<and> (\<forall>k. find d' k \<noteq> None \<longleftrightarrow> find d k \<noteq> None \<or> k \<in> key ` set vs)"
  using assms
proof (induction vs arbitrary: d)
  case (Cons v vs)
  then obtain d1 where d1: "add d v = Inr d1" "res_fold (\<lambda>v d. add d v) vs d1 = Inr d'"
    by (auto simp: res_simps)
  have "inv d1" using inv_add [OF Cons.prems(1) d1(1)] .
  from Cons.IH [OF this d1(2)] find_add [OF Cons.prems(1) d1(1)] show ?case by auto
qed simp

end

section \<open>The registry\<close>

record agent_registry =
  registry_id :: string
  registry_agents :: "agent_identity list"
  registry_metadata :: "json dict"

definition agent_ids :: "agent_registry \<Rightarrow> string list" where
  "agent_ids r = map agent_id (registry_agents r)"

definition agent_registry_init :: "agent_registry \<Rightarrow> agent_registry res" where
  "agent_registry_init r =
     res_bind (normalize_identifier ''registry_id'' (registry_id r)) (\<lambda>rid.
     let agents = sort_key agent_id (registry_agents r) in
     if \<not> distinct (map agent_id agents)
     then Inl (ValueError ''AgentRegistry agent_id values must be unique.'')
     else Inr (r\<lparr>registry_id := rid, registry_agents := agents\<rparr>))"

definition registry_register :: "agent_registry \<Rightarrow> agent_identity \<Rightarrow> agent_registry res" where
  "registry_register r a =
     (if agent_id a \<in> set (agent_ids r)
      then Inl (ValueError (''agent already registered: '' @ agent_id a))
      else agent_registry_init (r\<lparr>registry_agents := registry_agents r @ [a]\<rparr>))"

definition registry_replace :: "agent_registry \<Rightarrow> agent_identity \<Rightarrow> agent_registry res" where
  "registry_replace r a =
     (if agent_id a \<notin> set (agent_ids r)
      then Inl (ValueError (''agent is not registered: '' @ agent_id a))
      else agent_registry_init
        (r\<lparr>registry_agents := map (\<lambda>current. if agent_id current = agent_id a then a else current)
              (registry_agents r)\<rparr>))"

text \<open>\<open>next((agent for agent in self.agents if ...), None)\<close> is \<open>find\<close>.\<close>

definition registry_lookup :: "agent_registry \<Rightarrow> string \<Rightarrow> agent_identity option res" where
  "registry_lookup r aid =
     res_bind (normalize_identifier ''agent_id'' aid) (\<lambda>normalized.
       Inr (find (\<lambda>a. agent_id a = normalized) (registry_agents r)))"

definition registry_require :: "agent_registry \<Rightarrow> string \<Rightarrow> agent_identity res" where
  "registry_require r aid =
     res_bind (registry_lookup r aid) (\<lambda>found. case found of
       Some a \<Rightarrow> Inr a
     | None \<Rightarrow> res_bind (normalize_identifier ''agent_id'' aid) (\<lambda>normalized.
         Inl (KeyError (''agent is not registered: '' @ normalized))))"

definition active_agents :: "agent_registry \<Rightarrow> agent_identity list" where
  "active_agents r = filter agent_active (registry_agents r)"

definition revoked_agents :: "agent_registry \<Rightarrow> agent_identity list" where
  "revoked_agents r = filter (\<lambda>a. lifecycle_state a = REVOKED) (registry_agents r)"

definition find_by_kind :: "agent_registry \<Rightarrow> agent_kind \<Rightarrow> agent_identity list" where
  "find_by_kind r k = filter (\<lambda>a. agent_kind a = k) (registry_agents r)"

definition find_by_capability :: "agent_registry \<Rightarrow> agent_capability \<Rightarrow> bool \<Rightarrow> agent_identity list" where
  "find_by_capability r c active_only =
     filter (\<lambda>a. has_capability a c) (if active_only then active_agents r else registry_agents r)"

definition build_agent_registry :: "string \<Rightarrow> agent_identity list \<Rightarrow> json dict \<Rightarrow> agent_registry res" where
  "build_agent_registry rid agents meta =
     agent_registry_init \<lparr>registry_id = rid, registry_agents = agents, registry_metadata = meta\<rparr>"

section \<open>Snapshots\<close>

record registry_snapshot =
  snapshot_registry_id :: string
  snapshot_agents :: "agent_identity list"
  snapshot_results :: "capability_policy_result list"

definition registry_snapshot_init :: "registry_snapshot \<Rightarrow> registry_snapshot res" where
  "registry_snapshot_init s =
     res_bind (normalize_identifier ''registry_id'' (snapshot_registry_id s)) (\<lambda>rid.
     let agents = sort_key agent_id (snapshot_agents s);
         results = sort_key result_agent_id (snapshot_results s) in
     if \<not> distinct (map agent_id agents)
     then Inl (ValueError ''AgentRegistrySnapshot agent_id values must be unique.'')
     else if map agent_id agents \<noteq> map result_agent_id results
     then Inl (ValueError ''AgentRegistrySnapshot policy results must match agents.'')
     else Inr (s\<lparr>snapshot_registry_id := rid, snapshot_agents := agents,
                 snapshot_results := results\<rparr>))"

definition registry_snapshot_of :: "agent_registry \<Rightarrow> registry_snapshot res" where
  "registry_snapshot_of r = registry_snapshot_init
     \<lparr>snapshot_registry_id = registry_id r, snapshot_agents = registry_agents r,
      snapshot_results = map validate_agent_capability_posture (registry_agents r)\<rparr>"

definition blocking_finding_count :: "registry_snapshot \<Rightarrow> nat" where
  "blocking_finding_count s = sum_list (map (\<lambda>r. length (blocking_findings r)) (snapshot_results s))"

definition snapshot_ready :: "registry_snapshot \<Rightarrow> bool" where
  "snapshot_ready s = (blocking_finding_count s = 0)"

section \<open>The registry is a directory\<close>

definition registry_inv :: "agent_registry \<Rightarrow> bool" where
  "registry_inv r \<longleftrightarrow> canonical_identifier (registry_id r)
     \<and> sorted (agent_ids r) \<and> distinct (agent_ids r)"

text \<open>The lookup by a key that is already normalised.\<close>

definition registry_find :: "agent_registry \<Rightarrow> string \<Rightarrow> agent_identity option" where
  "registry_find r k = find (\<lambda>a. agent_id a = k) (registry_agents r)"

lemma registry_lookup_canonical:
  "canonical_identifier k \<Longrightarrow> registry_lookup r k = Inr (registry_find r k)"
  by (simp add: registry_lookup_def registry_find_def normalize_identifier_canonical)

lemma registry_find_Some: "registry_find r k = Some a \<Longrightarrow> a \<in> set (registry_agents r) \<and> agent_id a = k"
  by (auto simp: registry_find_def find_Some_iff)

lemma registry_find_None: "registry_find r k = None \<longleftrightarrow> k \<notin> set (agent_ids r)"
  by (auto simp: registry_find_def agent_ids_def find_None_iff)

lemma find_distinct:
  "distinct (map f xs) \<Longrightarrow> find (\<lambda>x. f x = k) xs = Some x \<longleftrightarrow> x \<in> set xs \<and> f x = k"
  by (induction xs) auto

lemma find_cong_set:
  assumes "distinct (map f xs)" "distinct (map f ys)" "set xs = set ys"
  shows "find (\<lambda>x. f x = k) xs = find (\<lambda>x. f x = k) ys"
  using find_distinct [OF assms(1), of k] find_distinct [OF assms(2), of k] assms(3)
  by (metis option.exhaust)

lemma distinct_map_sort_key [simp]: "distinct (map f (sort_key g xs)) \<longleftrightarrow> distinct (map f xs)"
  by (simp add: distinct_map)

lemma registry_init_iff:
  "agent_registry_init r = Inr r' \<longleftrightarrow>
     (\<exists>rid. normalize_identifier ''registry_id'' (registry_id r) = Inr rid \<and> distinct (agent_ids r)
        \<and> r' = r\<lparr>registry_id := rid, registry_agents := sort_key agent_id (registry_agents r)\<rparr>)"
  by (auto simp: agent_registry_init_def agent_ids_def Let_def res_simps)

lemma registry_register_Inr:
  assumes "registry_inv r"
  shows "registry_register r a = Inr r' \<longleftrightarrow> agent_id a \<notin> set (agent_ids r)
    \<and> r' = r\<lparr>registry_agents := sort_key agent_id (registry_agents r @ [a])\<rparr>"
  using assms
  by (auto simp: registry_register_def registry_init_iff registry_inv_def agent_ids_def
      normalize_identifier_canonical)

lemma agent_ids_replace:
  "map agent_id (map (\<lambda>current. if agent_id current = agent_id a then a else current) xs)
    = map agent_id xs"
  by auto

lemma registry_replace_Inr:
  assumes "registry_inv r"
  shows "registry_replace r a = Inr r' \<longleftrightarrow> agent_id a \<in> set (agent_ids r)
    \<and> r' = r\<lparr>registry_agents := map (\<lambda>current. if agent_id current = agent_id a then a else current)
              (registry_agents r)\<rparr>"
proof -
  let ?as = "map (\<lambda>current. if agent_id current = agent_id a then a else current) (registry_agents r)"
  have ids: "map agent_id ?as = agent_ids r" by (simp add: agent_ids_replace agent_ids_def)
  with assms have "sort_key agent_id ?as = ?as"
    by (simp add: registry_inv_def sort_key_id_if_sorted)
  with ids assms show ?thesis
    by (auto simp: registry_replace_def registry_init_iff registry_inv_def agent_ids_def
        normalize_identifier_canonical simp del: map_map)
qed

lemma find_append_fresh:
  "k0 \<notin> f ` set xs \<Longrightarrow> f a = k0 \<Longrightarrow>
    find (\<lambda>x. f x = k) (xs @ [a]) = (if k = k0 then Some a else find (\<lambda>x. f x = k) xs)"
  by (induction xs) auto

lemma find_map_replace:
  "f a \<in> f ` set xs \<Longrightarrow>
    find (\<lambda>x. f x = k) (map (\<lambda>c. if f c = f a then a else c) xs)
      = (if k = f a then Some a else find (\<lambda>x. f x = k) xs)"
proof (induction xs)
  case (Cons x xs)
  show ?case
  proof (cases "f a \<in> f ` set xs")
    case True
    with Cons.IH show ?thesis by auto
  next
    case False
    then have "map (\<lambda>c. if f c = f a then a else c) xs = xs" by (intro map_idI) (metis image_eqI)
    with Cons.prems False show ?thesis by auto
  qed
qed simp

interpretation registry: keyed_directory registry_find registry_register registry_replace
    agent_id registry_inv
proof (unfold_locales, goal_cases)
  case (1 d v)
  then show ?case by (simp add: registry_register_Inr registry_find_None)
next
  case (2 d v d' k)
  then have fresh: "agent_id v \<notin> set (agent_ids d)"
    and d': "d' = d\<lparr>registry_agents := sort_key agent_id (registry_agents d @ [v])\<rparr>"
    by (simp_all add: registry_register_Inr)
  have "distinct (map agent_id (registry_agents d @ [v]))"
    using 2(1) fresh by (auto simp: registry_inv_def agent_ids_def)
  moreover from this have "distinct (map agent_id (registry_agents d'))" by (simp add: d')
  moreover have "set (registry_agents d') = set (registry_agents d @ [v])" by (simp add: d')
  ultimately have "registry_find d' k = find (\<lambda>a. agent_id a = k) (registry_agents d @ [v])"
    unfolding registry_find_def by (intro find_cong_set)
  also have "\<dots> = (if k = agent_id v then Some v else registry_find d k)"
    using fresh find_append_fresh [of "agent_id v" agent_id "registry_agents d" v k]
    by (simp add: registry_find_def agent_ids_def)
  finally show ?case .
next
  case (3 d v d')
  then show ?case by (auto simp: registry_register_Inr registry_inv_def agent_ids_def)
next
  case (4 d v)
  then show ?case by (simp add: registry_replace_Inr registry_find_None)
next
  case (5 d v d' k)
  then show ?case
    using find_map_replace [of agent_id v "registry_agents d" k]
    by (simp add: registry_replace_Inr registry_find_def agent_ids_def)
next
  case (6 d v d')
  then show ?case
    by (auto simp: registry_replace_Inr registry_inv_def agent_ids_def agent_ids_replace simp del: map_map)
qed

text \<open>A registry that was built satisfies the invariant, and its snapshot never fails.\<close>

lemma build_agent_registry_inv:
  assumes "build_agent_registry rid agents meta = Inr r" and "only_plain_spaces rid"
  shows "registry_inv r \<and> set (registry_agents r) = set agents"
  using assms normalize_identifier_result
  by (auto simp: build_agent_registry_def registry_init_iff registry_inv_def agent_ids_def)

lemma map_result_id: "map result_agent_id (map validate_agent_capability_posture xs) = map agent_id xs"
  by (simp add: validate_agent_capability_posture_def)

lemma registry_snapshot_of_Inr:
  assumes "registry_inv r"
  shows "registry_snapshot_of r = Inr \<lparr>snapshot_registry_id = registry_id r,
    snapshot_agents = registry_agents r,
    snapshot_results = map validate_agent_capability_posture (registry_agents r)\<rparr>"
proof -
  have s: "sort_key agent_id (registry_agents r) = registry_agents r"
    using assms by (simp add: registry_inv_def agent_ids_def sort_key_id_if_sorted)
  have "sort_key result_agent_id (map validate_agent_capability_posture (registry_agents r))
      = map validate_agent_capability_posture (registry_agents r)"
    using assms by (intro sort_key_id_if_sorted) (simp add: map_result_id registry_inv_def agent_ids_def
        del: map_map)
  with s assms show ?thesis
    by (simp add: registry_snapshot_of_def registry_snapshot_init_def registry_inv_def agent_ids_def
        normalize_identifier_canonical map_result_id Let_def del: map_map)
qed

lemma snapshot_ready_iff:
  "snapshot_ready s \<longleftrightarrow> (\<forall>r \<in> set (snapshot_results s). posture_allowed r)"
  by (simp add: snapshot_ready_def blocking_finding_count_def posture_allowed_def
      sum_list_eq_0_iff)

end
