(* ===== verification/PyTime.thy ===== *)
theory PyTime
  imports PyText
begin

text \<open>
  Points in time. A \<open>datetime\<close> is naive (no offset) or aware; an aware one is its instant in
  microseconds since the epoch. \<open>datetime.fromisoformat\<close> of the standard library is a parameter
  \<open>parse\<close>: the theorems hold whatever texts it accepts. Comparing a naive with an aware value
  raises TypeError, which the model keeps.
\<close>

datatype datetime = Naive int | Aware int

type_synonym iso_parser = "string \<Rightarrow> datetime option"

text \<open>\<open>value.replace("Z", "+00:00")\<close>\<close>

fun replace_zulu :: "string \<Rightarrow> string" where
  "replace_zulu [] = []"
| "replace_zulu (c # s) = (if c = CHR ''Z'' then ''+00:00'' @ replace_zulu s else c # replace_zulu s)"

text \<open>\<open>a <= b\<close> on datetimes.\<close>

fun datetime_le :: "datetime \<Rightarrow> datetime \<Rightarrow> bool res" where
  "datetime_le (Naive a) (Naive b) = Inr (a \<le> b)"
| "datetime_le (Aware a) (Aware b) = Inr (a \<le> b)"
| "datetime_le _ _ = Inl (TypeError ''can't compare offset-naive and offset-aware datetimes'')"

definition fromisoformat :: "iso_parser \<Rightarrow> string \<Rightarrow> datetime res" where
  "fromisoformat parse s = (case parse s of
     None \<Rightarrow> Inl (ValueError ''Invalid isoformat string'')
   | Some d \<Rightarrow> Inr d)"

definition seconds :: "int \<Rightarrow> int" where
  "seconds n = n * 1000000"

end
