(* ===== verification/Authorization.thy ===== *)
theory Authorization
  imports Registry PyTime
begin

text \<open>
  \<open>agents/authorization.py\<close>: a request of a registered actor, the decision on it, and the
  evaluator that decides. Every exception the code can raise is a branch: a grant whose expiry
  is no timestamp, a repository name that normalises to nothing, a decision whose constructor
  refuses its fields.
\<close>

section \<open>Enums\<close>

datatype agent_action =
    ACT_PROPOSE | ACT_REVIEW | ACT_APPLY | ACT_RUN | ACT_READ | ACT_WRITE | ACT_INSPECT
  | ACT_EXPORT | ACT_APPROVE | ACT_MUTATE | ACT_ACCESS | ACT_REGISTER | ACT_DELEGATE | ACT_REVOKE

fun agent_action_value :: "agent_action \<Rightarrow> string" where
  "agent_action_value ACT_PROPOSE = ''propose''"
| "agent_action_value ACT_REVIEW = ''review''"
| "agent_action_value ACT_APPLY = ''apply''"
| "agent_action_value ACT_RUN = ''run''"
| "agent_action_value ACT_READ = ''read''"
| "agent_action_value ACT_WRITE = ''write''"
| "agent_action_value ACT_INSPECT = ''inspect''"
| "agent_action_value ACT_EXPORT = ''export''"
| "agent_action_value ACT_APPROVE = ''approve''"
| "agent_action_value ACT_MUTATE = ''mutate''"
| "agent_action_value ACT_ACCESS = ''access''"
| "agent_action_value ACT_REGISTER = ''register''"
| "agent_action_value ACT_DELEGATE = ''delegate''"
| "agent_action_value ACT_REVOKE = ''revoke''"

datatype authorization_status = ALLOW | REQUIRE_REVIEW | BLOCK

fun authorization_status_value :: "authorization_status \<Rightarrow> string" where
  "authorization_status_value ALLOW = ''allow''"
| "authorization_status_value REQUIRE_REVIEW = ''require_review''"
| "authorization_status_value BLOCK = ''block''"

datatype authorization_reason =
    ALLOWED | REVIEW_REQUIRED_BY_SCOPE | UNKNOWN_AGENT | REVOKED_AGENT | SUSPENDED_AGENT
  | MISSING_CAPABILITY | CAPABILITY_OUT_OF_SCOPE | HUMAN_AUTHORITY_REQUIRED
  | MODEL_SELF_APPROVAL_BLOCKED | SYSTEM_SELF_APPROVAL_BLOCKED | TOOL_CAPABILITY_NOT_DECLARED
  | EVIDENCE_MISSING | DELEGATION_INVALID | EXPIRED_GRANT | RESTRICTED_DOMAIN
  | POLICY_FINDING_BLOCKED

fun authorization_reason_value :: "authorization_reason \<Rightarrow> string" where
  "authorization_reason_value ALLOWED = ''allowed''"
| "authorization_reason_value REVIEW_REQUIRED_BY_SCOPE = ''review_required_by_scope''"
| "authorization_reason_value UNKNOWN_AGENT = ''unknown_agent''"
| "authorization_reason_value REVOKED_AGENT = ''revoked_agent''"
| "authorization_reason_value SUSPENDED_AGENT = ''suspended_agent''"
| "authorization_reason_value MISSING_CAPABILITY = ''missing_capability''"
| "authorization_reason_value CAPABILITY_OUT_OF_SCOPE = ''capability_out_of_scope''"
| "authorization_reason_value HUMAN_AUTHORITY_REQUIRED = ''human_authority_required''"
| "authorization_reason_value MODEL_SELF_APPROVAL_BLOCKED = ''model_self_approval_blocked''"
| "authorization_reason_value SYSTEM_SELF_APPROVAL_BLOCKED = ''system_self_approval_blocked''"
| "authorization_reason_value TOOL_CAPABILITY_NOT_DECLARED = ''tool_capability_not_declared''"
| "authorization_reason_value EVIDENCE_MISSING = ''evidence_missing''"
| "authorization_reason_value DELEGATION_INVALID = ''delegation_invalid''"
| "authorization_reason_value EXPIRED_GRANT = ''expired_grant''"
| "authorization_reason_value RESTRICTED_DOMAIN = ''restricted_domain''"
| "authorization_reason_value POLICY_FINDING_BLOCKED = ''policy_finding_blocked''"

section \<open>Targets and requests\<close>

record authorization_target =
  target_repository_id :: string
  target_domain :: "operating_domain option"
  target_tool_id :: string
  target_pack_id :: string
  target_path :: string
  target_work_package_id :: string
  target_artifact_ids :: "string list"
  target_risk_tier :: capability_risk_tier
  target_metadata :: "json dict"

definition authorization_target_init :: "authorization_target \<Rightarrow> authorization_target res" where
  "authorization_target_init t =
     res_bind (normalize_optional_text ''repository_id'' (target_repository_id t)) (\<lambda>repo.
     res_bind (normalize_optional_text ''tool_id'' (target_tool_id t)) (\<lambda>tool.
     res_bind (normalize_optional_text ''pack_id'' (target_pack_id t)) (\<lambda>pack.
     res_bind (if target_path t \<noteq> [] then normalize_relative_path (target_path t) else Inr [])
       (\<lambda>path.
     res_bind (normalize_optional_text ''work_package_id'' (target_work_package_id t)) (\<lambda>package.
     res_bind (normalize_identifier_tuple ''artifact_ids'' (target_artifact_ids t)) (\<lambda>artifacts.
       Inr (t\<lparr>target_repository_id := repo, target_tool_id := tool, target_pack_id := pack,
              target_path := path, target_work_package_id := package,
              target_artifact_ids := artifacts\<rparr>)))))))"

definition target_bounded :: "authorization_target \<Rightarrow> bool" where
  "target_bounded t =
     (target_repository_id t \<noteq> [] \<or> target_domain t \<noteq> None \<or> target_tool_id t \<noteq> []
      \<or> target_pack_id t \<noteq> [] \<or> target_path t \<noteq> [] \<or> target_work_package_id t \<noteq> []
      \<or> target_artifact_ids t \<noteq> [])"

definition authorization_target_dict :: "authorization_target \<Rightarrow> json" where
  "authorization_target_dict t = JObj
     [(''repository_id'', JStr (target_repository_id t)),
      (''domain'', JStr (case target_domain t of None \<Rightarrow> [] | Some d \<Rightarrow> operating_domain_value d)),
      (''tool_id'', JStr (target_tool_id t)),
      (''pack_id'', JStr (target_pack_id t)),
      (''path'', JStr (target_path t)),
      (''work_package_id'', JStr (target_work_package_id t)),
      (''artifact_ids'', json_strs (target_artifact_ids t)),
      (''risk_tier'', JStr (capability_risk_tier_value (target_risk_tier t))),
      (''metadata'', JObj (target_metadata t))]"

record authorization_request =
  request_id :: string
  request_agent_id :: string
  request_action :: agent_action
  request_capability :: agent_capability
  request_target :: authorization_target
  requested_at :: string
  request_evidence_ids :: "string list"
  justification :: string
  request_metadata :: "json dict"

definition authorization_request_init :: "authorization_request \<Rightarrow> authorization_request res" where
  "authorization_request_init r =
     res_bind (normalize_identifier ''request_id'' (request_id r)) (\<lambda>rid.
     res_bind (normalize_identifier ''agent_id'' (request_agent_id r)) (\<lambda>aid.
     res_bind (normalize_text ''requested_at'' (requested_at r)) (\<lambda>at.
     res_bind (normalize_identifier_tuple ''evidence_artifact_ids'' (request_evidence_ids r))
       (\<lambda>evidence.
     res_bind (normalize_optional_text ''justification'' (justification r)) (\<lambda>why.
       if \<not> target_bounded (request_target r)
       then Inl (ValueError ''AgentAuthorizationRequest target must be bounded.'')
       else Inr (r\<lparr>request_id := rid, request_agent_id := aid, requested_at := at,
                   request_evidence_ids := evidence, justification := why\<rparr>))))))"

definition authorization_request_body :: "authorization_request \<Rightarrow> json dict" where
  "authorization_request_body r =
     [(''request_id'', JStr (request_id r)),
      (''agent_id'', JStr (request_agent_id r)),
      (''action'', JStr (agent_action_value (request_action r))),
      (''capability'', JStr (agent_capability_value (request_capability r))),
      (''target'', authorization_target_dict (request_target r)),
      (''requested_at'', JStr (requested_at r)),
      (''evidence_artifact_ids'', json_strs (request_evidence_ids r)),
      (''justification'', JStr (justification r)),
      (''metadata'', JObj (request_metadata r))]"

definition authorization_request_digest ::
  "(string \<Rightarrow> string) \<Rightarrow> authorization_request \<Rightarrow> string res" where
  "authorization_request_digest H r = digest_payload H (JObj (authorization_request_body r))"

section \<open>Decisions\<close>

record authorization_decision =
  decision_id :: string
  decision_request :: authorization_request
  decision_status :: authorization_status
  decision_reasons :: "authorization_reason list"
  decision_decided_at :: string
  reviewer_agent_id :: string
  decision_evidence_ids :: "string list"
  decision_metadata :: "json dict"

definition authorization_decision_init :: "authorization_decision \<Rightarrow> authorization_decision res" where
  "authorization_decision_init d =
     res_bind (normalize_identifier ''decision_id'' (decision_id d)) (\<lambda>did.
     let reasons = unique_sorted_enum_tuple authorization_reason_value (decision_reasons d) in
     res_bind (normalize_text ''decided_at'' (decision_decided_at d)) (\<lambda>at.
     res_bind (normalize_optional_text ''reviewer_agent_id'' (reviewer_agent_id d)) (\<lambda>reviewer.
     res_bind (normalize_identifier_tuple ''evidence_artifact_ids'' (decision_evidence_ids d))
       (\<lambda>evidence.
       if reasons = []
       then Inl (ValueError ''AgentAuthorizationDecision reasons must not be empty.'')
       else if decision_status d = ALLOW \<and> reviewer \<noteq> []
       then Inl (ValueError ''ALLOW decisions must not imply human review authority.'')
       else if decision_status d = REQUIRE_REVIEW \<and> reviewer = []
       then Inl (ValueError ''REQUIRE_REVIEW decisions must name a reviewer agent id.'')
       else Inr (d\<lparr>decision_id := did, decision_reasons := reasons, decision_decided_at := at,
                   reviewer_agent_id := reviewer, decision_evidence_ids := evidence\<rparr>)))))"

definition build_decision_id ::
  "(string \<Rightarrow> string) \<Rightarrow> authorization_request \<Rightarrow> authorization_status \<Rightarrow> string res" where
  "build_decision_id H r st =
     res_bind (authorization_request_digest H r) (\<lambda>rd.
     res_bind (digest_payload H (JObj [(''request_digest'', JStr rd),
                 (''status'', JStr (authorization_status_value st))])) (\<lambda>d.
       Inr (''agent-auth-'' @ take 24 d)))"

section \<open>Scope checks\<close>

text \<open>\<open>_parse_datetime\<close> and \<open>_grant_is_expired\<close>.\<close>

definition parse_datetime :: "iso_parser \<Rightarrow> string \<Rightarrow> datetime res" where
  "parse_datetime parse s = fromisoformat parse (replace_zulu s)"

definition grant_is_expired ::
  "iso_parser \<Rightarrow> capability_grant \<Rightarrow> authorization_request \<Rightarrow> bool res" where
  "grant_is_expired parse g r =
     (if scope_expires_at (grant_scope g) = [] then Inr False
      else res_bind (parse_datetime parse (scope_expires_at (grant_scope g))) (\<lambda>e.
           res_bind (parse_datetime parse (requested_at r)) (\<lambda>t. datetime_le e t)))"

definition repository_in_scope :: "capability_grant \<Rightarrow> authorization_request \<Rightarrow> bool res" where
  "repository_in_scope g r =
     (if scope_repository_ids (grant_scope g) = [] then Inr True
      else if target_repository_id (request_target r) = [] then Inr False
      else res_bind (normalize_identifier ''repository_id'' (target_repository_id (request_target r)))
        (\<lambda>rid. Inr (rid \<in> set (scope_repository_ids (grant_scope g)))))"

definition domain_in_scope :: "capability_grant \<Rightarrow> authorization_request \<Rightarrow> bool" where
  "domain_in_scope g r =
     (if scope_domains (grant_scope g) = [] then True
      else case target_domain (request_target r) of
        None \<Rightarrow> False
      | Some d \<Rightarrow> d \<in> set (scope_domains (grant_scope g)))"

definition tool_in_scope :: "capability_grant \<Rightarrow> authorization_request \<Rightarrow> bool res" where
  "tool_in_scope g r =
     (if scope_tool_ids (grant_scope g) = [] then Inr True
      else if target_tool_id (request_target r) = [] then Inr False
      else res_bind (normalize_identifier ''tool_id'' (target_tool_id (request_target r)))
        (\<lambda>tid. Inr (tid \<in> set (scope_tool_ids (grant_scope g)))))"

definition pack_in_scope :: "capability_grant \<Rightarrow> authorization_request \<Rightarrow> bool res" where
  "pack_in_scope g r =
     (if scope_pack_ids (grant_scope g) = [] then Inr True
      else if target_pack_id (request_target r) = [] then Inr False
      else res_bind (normalize_identifier ''pack_id'' (target_pack_id (request_target r)))
        (\<lambda>pid. Inr (pid \<in> set (scope_pack_ids (grant_scope g)))))"

definition path_in_scope :: "capability_grant \<Rightarrow> authorization_request \<Rightarrow> bool" where
  "path_in_scope g r =
     (if scope_path_roots (grant_scope g) = [] then True
      else if target_path (request_target r) = [] then True
      else list_ex (\<lambda>root. target_path (request_target r) = root
             \<or> starts_with (target_path (request_target r)) (root @ ''/''))
           (scope_path_roots (grant_scope g)))"

definition grant_covers_request :: "capability_grant \<Rightarrow> authorization_request \<Rightarrow> bool res" where
  "grant_covers_request g r =
     (if \<not> grant_active g then Inr False
      else if risk_order (max_risk_tier (grant_scope g)) < risk_order (target_risk_tier (request_target r))
      then Inr False
      else res_bind (repository_in_scope g r) (\<lambda>repo.
      if \<not> repo then Inr False
      else if \<not> domain_in_scope g r then Inr False
      else res_bind (tool_in_scope g r) (\<lambda>tool.
      if \<not> tool then Inr False
      else res_bind (pack_in_scope g r) (\<lambda>pack.
      if \<not> pack then Inr False
      else Inr (path_in_scope g r)))))"

definition requires_review ::
  "agent_identity \<Rightarrow> authorization_request \<Rightarrow> capability_grant list \<Rightarrow> bool" where
  "requires_review a r grants =
     (if lifecycle_state a = SUSPENDED then True
      else if list_ex (\<lambda>g. requires_human_review (grant_scope g)) grants then True
      else capability_requires_human_review (request_capability r) \<and> trust_tier a \<noteq> HUMAN_AUTHORITY)"

section \<open>The evaluator\<close>

record authorization_evaluator =
  evaluator_registry :: agent_registry
  default_reviewer_agent_id :: string

definition authorization_evaluator_init :: "authorization_evaluator \<Rightarrow> authorization_evaluator res" where
  "authorization_evaluator_init e =
     res_bind (normalize_identifier ''default_reviewer_agent_id'' (default_reviewer_agent_id e))
       (\<lambda>rid. Inr (e\<lparr>default_reviewer_agent_id := rid\<rparr>))"

text \<open>\<open>AgentAuthorizationEvaluator._decision\<close>\<close>

definition make_decision ::
  "(string \<Rightarrow> string) \<Rightarrow> authorization_evaluator \<Rightarrow> authorization_request \<Rightarrow> authorization_status
    \<Rightarrow> authorization_reason list \<Rightarrow> string \<Rightarrow> string \<Rightarrow> string list \<Rightarrow> authorization_decision res" where
  "make_decision H e r st reasons at reviewer evidence =
     res_bind (build_decision_id H r st) (\<lambda>did.
       authorization_decision_init
         \<lparr>decision_id = did, decision_request = r, decision_status = st,
          decision_reasons = reasons, decision_decided_at = at,
          reviewer_agent_id =
            (if st = REQUIRE_REVIEW
             then (if reviewer \<noteq> [] then reviewer else default_reviewer_agent_id e) else []),
          decision_evidence_ids = evidence, decision_metadata = []\<rparr>)"

definition lifecycle_decision ::
  "(string \<Rightarrow> string) \<Rightarrow> authorization_evaluator \<Rightarrow> agent_identity \<Rightarrow> authorization_request
    \<Rightarrow> string \<Rightarrow> string list \<Rightarrow> string \<Rightarrow> authorization_decision option res" where
  "lifecycle_decision H e a r at evidence reviewer =
     (if lifecycle_state a = REVOKED
      then res_bind (make_decision H e r BLOCK [REVOKED_AGENT] at [] evidence) (\<lambda>d. Inr (Some d))
      else if lifecycle_state a = SUSPENDED
      then res_bind (make_decision H e r REQUIRE_REVIEW [SUSPENDED_AGENT] at reviewer evidence)
             (\<lambda>d. Inr (Some d))
      else Inr None)"

text \<open>
  \<open>evaluate\<close>. The last two comprehensions each test expiry again, as the code does; the second
  tests coverage only of grants that are not expired.
\<close>

definition evaluate ::
  "(string \<Rightarrow> string) \<Rightarrow> iso_parser \<Rightarrow> authorization_evaluator \<Rightarrow> authorization_request
    \<Rightarrow> string \<Rightarrow> string \<Rightarrow> string list \<Rightarrow> authorization_decision res" where
  "evaluate H parse e r at reviewer extra_evidence =
     res_bind (registry_lookup (evaluator_registry e) (request_agent_id r)) (\<lambda>agent.
     res_bind (normalize_identifier_tuple ''evidence_artifact_ids''
                 (request_evidence_ids r @ extra_evidence)) (\<lambda>evidence.
     case agent of
       None \<Rightarrow> make_decision H e r BLOCK [UNKNOWN_AGENT] at [] evidence
     | Some a \<Rightarrow>
     res_bind (lifecycle_decision H e a r at evidence reviewer) (\<lambda>early.
     case early of
       Some d \<Rightarrow> Inr d
     | None \<Rightarrow>
     if blocking_findings (validate_agent_capability_posture a) \<noteq> []
     then make_decision H e r BLOCK [POLICY_FINDING_BLOCKED] at [] evidence
     else let grants = grants_for a (request_capability r) in
     if grants = []
     then make_decision H e r BLOCK [MISSING_CAPABILITY] at [] evidence
     else
     res_bind (res_filter (\<lambda>g. grant_is_expired parse g r) grants) (\<lambda>expired.
     res_bind (res_filter (\<lambda>g. res_bind (grant_is_expired parse g r) (\<lambda>x.
                  if x then Inr False else grant_covers_request g r)) grants) (\<lambda>scoped.
     if scoped = []
     then make_decision H e r BLOCK
            [if length expired = length grants then EXPIRED_GRANT else CAPABILITY_OUT_OF_SCOPE]
            at [] evidence
     else if requires_review a r scoped
     then make_decision H e r REQUIRE_REVIEW
            (REVIEW_REQUIRED_BY_SCOPE # (if evidence = [] then [EVIDENCE_MISSING] else []))
            at reviewer evidence
     else make_decision H e r ALLOW [ALLOWED] at [] evidence)))))"

section \<open>Properties of the evaluator\<close>

lemma make_decision_Inr:
  assumes "make_decision H e r st reasons at reviewer evidence = Inr d"
  shows "decision_status d = st" "decision_request d = r" "set (decision_reasons d) = set reasons"
  using assms
  by (auto simp: make_decision_def authorization_decision_init_def Let_def res_simps split: if_splits)

lemma make_decision_reviewer:
  "make_decision H e r st reasons at reviewer evidence = Inr d \<Longrightarrow>
     (decision_status d = REQUIRE_REVIEW \<longleftrightarrow> reviewer_agent_id d \<noteq> [])"
  by (cases st)
    (auto simp: make_decision_def authorization_decision_init_def Let_def res_simps
      normalize_optional_text_def split: if_splits)

lemma make_decision_fields:
  "make_decision H e r st reasons at reviewer evidence = Inr d \<Longrightarrow>
     decision_status d = st \<and> decision_request d = r \<and> set (decision_reasons d) = set reasons"
  by (intro conjI make_decision_Inr)

text \<open>When a grant covers a request, without the order of the checks.\<close>

definition scope_covers :: "iso_parser \<Rightarrow> capability_grant \<Rightarrow> authorization_request \<Rightarrow> bool" where
  "scope_covers parse g r \<longleftrightarrow>
     grant_is_expired parse g r = Inr False \<and> grant_active g
     \<and> target_risk_tier (request_target r) \<le> max_risk_tier (grant_scope g)
     \<and> repository_in_scope g r = Inr True \<and> domain_in_scope g r
     \<and> tool_in_scope g r = Inr True \<and> pack_in_scope g r = Inr True \<and> path_in_scope g r"

lemma grant_covers_request_True:
  "grant_covers_request g r = Inr True \<longleftrightarrow>
     grant_active g \<and> target_risk_tier (request_target r) \<le> max_risk_tier (grant_scope g)
     \<and> repository_in_scope g r = Inr True \<and> domain_in_scope g r
     \<and> tool_in_scope g r = Inr True \<and> pack_in_scope g r = Inr True \<and> path_in_scope g r"
  by (auto simp: grant_covers_request_def res_simps less_eq_capability_risk_tier_def not_less)

lemma scope_test_True:
  "res_bind (grant_is_expired parse g r) (\<lambda>x. if x then Inr False else grant_covers_request g r)
     = Inr True \<longleftrightarrow> scope_covers parse g r"
  by (auto simp: res_simps scope_covers_def grant_covers_request_True)

lemmas evaluate_unfold = evaluate_def lifecycle_decision_def Let_def

text \<open>Every way \<open>evaluate\<close> can return, with what was checked on the way.\<close>

lemma evaluate_cases:
  assumes "evaluate H parse e r at reviewer extra = Inr d"
  obtains
    (unknown) "registry_lookup (evaluator_registry e) (request_agent_id r) = Inr None"
      "decision_status d = BLOCK" "set (decision_reasons d) = {UNKNOWN_AGENT}"
  | (revoked) a where "registry_lookup (evaluator_registry e) (request_agent_id r) = Inr (Some a)"
      "lifecycle_state a = REVOKED" "decision_status d = BLOCK"
      "set (decision_reasons d) = {REVOKED_AGENT}"
  | (suspended) a where "registry_lookup (evaluator_registry e) (request_agent_id r) = Inr (Some a)"
      "lifecycle_state a = SUSPENDED" "decision_status d = REQUIRE_REVIEW"
      "set (decision_reasons d) = {SUSPENDED_AGENT}"
  | (posture) a where "registry_lookup (evaluator_registry e) (request_agent_id r) = Inr (Some a)"
      "lifecycle_state a = ACTIVE"
      "blocking_findings (validate_agent_capability_posture a) \<noteq> []" "decision_status d = BLOCK"
      "set (decision_reasons d) = {POLICY_FINDING_BLOCKED}"
  | (missing) a where "registry_lookup (evaluator_registry e) (request_agent_id r) = Inr (Some a)"
      "lifecycle_state a = ACTIVE"
      "blocking_findings (validate_agent_capability_posture a) = []"
      "grants_for a (request_capability r) = []" "decision_status d = BLOCK"
      "set (decision_reasons d) = {MISSING_CAPABILITY}"
  | (scope) a where "registry_lookup (evaluator_registry e) (request_agent_id r) = Inr (Some a)"
      "lifecycle_state a = ACTIVE"
      "blocking_findings (validate_agent_capability_posture a) = []"
      "\<forall>g \<in> set (grants_for a (request_capability r)). \<not> scope_covers parse g r"
      "decision_status d = BLOCK"
      "set (decision_reasons d) \<subseteq> {EXPIRED_GRANT, CAPABILITY_OUT_OF_SCOPE}"
  | (review) a scoped where
      "registry_lookup (evaluator_registry e) (request_agent_id r) = Inr (Some a)"
      "lifecycle_state a = ACTIVE"
      "blocking_findings (validate_agent_capability_posture a) = []"
      "scoped = filter (\<lambda>g. scope_covers parse g r) (grants_for a (request_capability r))"
      "scoped \<noteq> []" "requires_review a r scoped" "decision_status d = REQUIRE_REVIEW"
      "REVIEW_REQUIRED_BY_SCOPE \<in> set (decision_reasons d)"
  | (allowed) a scoped where
      "registry_lookup (evaluator_registry e) (request_agent_id r) = Inr (Some a)"
      "lifecycle_state a = ACTIVE"
      "blocking_findings (validate_agent_capability_posture a) = []"
      "scoped = filter (\<lambda>g. scope_covers parse g r) (grants_for a (request_capability r))"
      "scoped \<noteq> []" "\<not> requires_review a r scoped" "decision_status d = ALLOW"
      "set (decision_reasons d) = {ALLOWED}"
proof -
  from assms obtain found evidence where
    look: "registry_lookup (evaluator_registry e) (request_agent_id r) = Inr found"
    and rest: "(case found of None \<Rightarrow> make_decision H e r BLOCK [UNKNOWN_AGENT] at [] evidence
      | Some a \<Rightarrow>
        res_bind (lifecycle_decision H e a r at evidence reviewer) (\<lambda>early.
        case early of
          Some d \<Rightarrow> Inr d
        | None \<Rightarrow>
        if blocking_findings (validate_agent_capability_posture a) \<noteq> []
        then make_decision H e r BLOCK [POLICY_FINDING_BLOCKED] at [] evidence
        else let grants = grants_for a (request_capability r) in
        if grants = []
        then make_decision H e r BLOCK [MISSING_CAPABILITY] at [] evidence
        else
        res_bind (res_filter (\<lambda>g. grant_is_expired parse g r) grants) (\<lambda>expired.
        res_bind (res_filter (\<lambda>g. res_bind (grant_is_expired parse g r) (\<lambda>x.
                     if x then Inr False else grant_covers_request g r)) grants) (\<lambda>scoped.
        if scoped = []
        then make_decision H e r BLOCK
               [if length expired = length grants then EXPIRED_GRANT else CAPABILITY_OUT_OF_SCOPE]
               at [] evidence
        else if requires_review a r scoped
        then make_decision H e r REQUIRE_REVIEW
               (REVIEW_REQUIRED_BY_SCOPE # (if evidence = [] then [EVIDENCE_MISSING] else []))
               at reviewer evidence
        else make_decision H e r ALLOW [ALLOWED] at [] evidence)))) = Inr d"
    unfolding evaluate_def by (elim res_bind_InrE) blast
  show thesis
  proof (cases found)
    case None
    with rest look unknown show thesis by (auto dest!: make_decision_fields)
  next
    case (Some a)
    show thesis
    proof (cases "lifecycle_state a")
      case REVOKED
      with rest Some look revoked [of a] show thesis
        by (auto simp: lifecycle_decision_def res_simps dest!: make_decision_fields)
    next
      case SUSPENDED
      with rest Some look suspended [of a] show thesis
        by (auto simp: lifecycle_decision_def res_simps dest!: make_decision_fields)
    next
      case ACTIVE
      let ?gs = "grants_for a (request_capability r)"
      show thesis
      proof (cases "blocking_findings (validate_agent_capability_posture a) = [] \<and> ?gs \<noteq> []")
        case False
        with rest Some look ACTIVE posture [of a] missing [of a] show thesis
          by (auto simp: lifecycle_decision_def Let_def split: if_splits dest!: make_decision_fields)
      next
        case True
        with rest Some ACTIVE obtain expired :: "capability_grant list" and scoped where
          sc: "res_filter (\<lambda>g. res_bind (grant_is_expired parse g r) (\<lambda>x.
              if x then Inr False else grant_covers_request g r)) ?gs = Inr scoped"
          and out: "(if scoped = []
            then make_decision H e r BLOCK
               [if length expired = length ?gs then EXPIRED_GRANT else CAPABILITY_OUT_OF_SCOPE]
               at [] evidence
            else if requires_review a r scoped
            then make_decision H e r REQUIRE_REVIEW
               (REVIEW_REQUIRED_BY_SCOPE # (if evidence = [] then [EVIDENCE_MISSING] else []))
               at reviewer evidence
            else make_decision H e r ALLOW [ALLOWED] at [] evidence) = Inr d"
          by (simp add: lifecycle_decision_def Let_def) (elim res_bind_InrE, rule that, assumption+)
        have scoped: "scoped = filter (\<lambda>g. scope_covers parse g r) ?gs"
          using res_filter_Inr [OF sc] by (simp add: scope_test_True)
        show thesis
        proof (cases "scoped = []")
          case True
          with scoped have "\<forall>g \<in> set ?gs. \<not> scope_covers parse g r"
            by (metis (no_types, lifting) filter_empty_conv)
          moreover from True out have "make_decision H e r BLOCK
              [if length expired = length ?gs then EXPIRED_GRANT else CAPABILITY_OUT_OF_SCOPE]
              at [] evidence = Inr d" by (simp only: if_True refl)
          from make_decision_fields [OF this] have "decision_status d = BLOCK"
            "set (decision_reasons d) \<subseteq> {EXPIRED_GRANT, CAPABILITY_OUT_OF_SCOPE}" by auto
          ultimately show thesis using scope [of a] look Some ACTIVE
            \<open>blocking_findings (validate_agent_capability_posture a) = [] \<and> ?gs \<noteq> []\<close> by blast
        next
          case False
          show thesis
          proof (cases "requires_review a r scoped")
            case True
            with False out have "make_decision H e r REQUIRE_REVIEW
                (REVIEW_REQUIRED_BY_SCOPE # (if evidence = [] then [EVIDENCE_MISSING] else []))
                at reviewer evidence = Inr d" by (simp only: if_False if_True)
            from make_decision_fields [OF this] have "decision_status d = REQUIRE_REVIEW"
              "REVIEW_REQUIRED_BY_SCOPE \<in> set (decision_reasons d)" by simp_all
            with review [of a scoped] False True scoped look Some ACTIVE
              \<open>blocking_findings (validate_agent_capability_posture a) = [] \<and> ?gs \<noteq> []\<close>
            show thesis by blast
          next
            case f: False
            with False out have "make_decision H e r ALLOW [ALLOWED] at [] evidence = Inr d"
              by (simp only: if_False)
            from make_decision_fields [OF this]
            have "decision_status d = ALLOW" "set (decision_reasons d) = {ALLOWED}" by simp_all
            with allowed [of a scoped] False f scoped look Some ACTIVE
              \<open>blocking_findings (validate_agent_capability_posture a) = [] \<and> ?gs \<noteq> []\<close>
            show thesis by blast
          qed
        qed
      qed
    qed
  qed
qed

text \<open>What each verdict says, read off the cases.\<close>

definition clear_to_act ::
  "iso_parser \<Rightarrow> agent_identity \<Rightarrow> authorization_request \<Rightarrow> bool" where
  "clear_to_act parse a r \<longleftrightarrow>
     lifecycle_state a = ACTIVE
     \<and> blocking_findings (validate_agent_capability_posture a) = []
     \<and> (\<exists>g \<in> set (grants_for a (request_capability r)). scope_covers parse g r)"

definition covering_grants ::
  "iso_parser \<Rightarrow> agent_identity \<Rightarrow> authorization_request \<Rightarrow> capability_grant list" where
  "covering_grants parse a r = filter (\<lambda>g. scope_covers parse g r) (grants_for a (request_capability r))"

lemma covering_grants_not_Nil:
  "covering_grants parse a r \<noteq> [] \<longleftrightarrow>
     (\<exists>g \<in> set (grants_for a (request_capability r)). scope_covers parse g r)"
  by (auto simp: covering_grants_def filter_empty_conv)

lemma evaluate_allow:
  assumes "evaluate H parse e r at reviewer extra = Inr d" "decision_status d = ALLOW"
  obtains a where "registry_lookup (evaluator_registry e) (request_agent_id r) = Inr (Some a)"
    "clear_to_act parse a r" "\<not> requires_review a r (covering_grants parse a r)"
proof (cases rule: evaluate_cases [OF assms(1)])
  case (8 a scoped)
  then have "covering_grants parse a r \<noteq> []" by (simp add: covering_grants_def)
  with 8 that [of a] show thesis
    by (simp add: clear_to_act_def covering_grants_not_Nil covering_grants_def [symmetric])
qed (use assms(2) in simp_all)

lemma evaluate_review:
  assumes "evaluate H parse e r at reviewer extra = Inr d" "decision_status d = REQUIRE_REVIEW"
  obtains a where "registry_lookup (evaluator_registry e) (request_agent_id r) = Inr (Some a)"
    "lifecycle_state a = SUSPENDED
     \<or> clear_to_act parse a r \<and> requires_review a r (covering_grants parse a r)"
proof (cases rule: evaluate_cases [OF assms(1)])
  case (3 a)
  then show thesis using that by blast
next
  case (7 a scoped)
  then have "covering_grants parse a r \<noteq> []" by (simp add: covering_grants_def)
  with 7 that [of a] show thesis
    by (simp add: clear_to_act_def covering_grants_not_Nil covering_grants_def [symmetric])
qed (use assms(2) in simp_all)

lemma evaluate_request:
  assumes "evaluate H parse e r at reviewer extra = Inr d"
  shows "decision_request d = r"
proof -
  have m: "ensures (\<lambda>d. decision_request d = r) (make_decision H e r st rs at rev ev)" for st rs rev ev
    by (auto simp: ensures_def dest: make_decision_fields)
  have l: "ensures (\<lambda>x. \<forall>d. x = Some d \<longrightarrow> decision_request d = r)
    (lifecycle_decision H e a r at ev reviewer)" for a ev
    unfolding lifecycle_decision_def
    by (intro ensures_intro) (auto dest: make_decision_fields)
  have "ensures (\<lambda>d. decision_request d = r) (evaluate H parse e r at reviewer extra)"
    unfolding evaluate_def
    by (intro ensures_intro m) (use l in \<open>auto simp: ensures_def\<close>)
  with assms show ?thesis by (rule ensuresD [rotated])
qed

lemma evaluate_reviewer:
  assumes "evaluate H parse e r at reviewer extra = Inr d"
  shows "decision_status d = REQUIRE_REVIEW \<longleftrightarrow> reviewer_agent_id d \<noteq> []"
proof -
  let ?P = "\<lambda>d. decision_status d = REQUIRE_REVIEW \<longleftrightarrow> reviewer_agent_id d \<noteq> []"
  have m: "ensures ?P (make_decision H e r st rs at rev ev)" for st rs rev ev
    by (auto simp: ensures_def dest: make_decision_reviewer)
  have l: "ensures (\<lambda>x. \<forall>d. x = Some d \<longrightarrow> ?P d) (lifecycle_decision H e a r at ev reviewer)" for a ev
    unfolding lifecycle_decision_def
    by (intro ensures_intro) (auto dest: make_decision_reviewer)
  have "ensures ?P (evaluate H parse e r at reviewer extra)"
    unfolding evaluate_def
    by (intro ensures_intro m) (use l in \<open>auto simp: ensures_def\<close>)
  with assms show ?thesis by (rule ensuresD [rotated])
qed

end
