(* ===== verification/HumanAuthority.thy ===== *)
theory HumanAuthority
  imports Authorization
begin

text \<open>
  \<open>agents/authority.py\<close>: the separate check that a decision did not turn a review into
  self-approval. It looks requester and reviewer up again in the registry and reports findings;
  authority is preserved when none of them blocks.
\<close>

section \<open>Findings and the evaluation\<close>

datatype authority_finding_code =
    HUMAN_REVIEW_NOT_REQUIRED | HUMAN_REVIEW_SATISFIED | REVIEWER_MISSING | REVIEWER_UNKNOWN
  | REVIEWER_NOT_HUMAN_AUTHORITY | SELF_APPROVAL_BLOCKED | HUMAN_ONLY_CAPABILITY_BLOCKED
  | REQUESTER_UNKNOWN

fun authority_finding_code_value :: "authority_finding_code \<Rightarrow> string" where
  "authority_finding_code_value HUMAN_REVIEW_NOT_REQUIRED = ''human_review_not_required''"
| "authority_finding_code_value HUMAN_REVIEW_SATISFIED = ''human_review_satisfied''"
| "authority_finding_code_value REVIEWER_MISSING = ''reviewer_missing''"
| "authority_finding_code_value REVIEWER_UNKNOWN = ''reviewer_unknown''"
| "authority_finding_code_value REVIEWER_NOT_HUMAN_AUTHORITY = ''reviewer_not_human_authority''"
| "authority_finding_code_value SELF_APPROVAL_BLOCKED = ''self_approval_blocked''"
| "authority_finding_code_value HUMAN_ONLY_CAPABILITY_BLOCKED = ''human_only_capability_blocked''"
| "authority_finding_code_value REQUESTER_UNKNOWN = ''requester_unknown''"

record authority_finding =
  authority_code :: authority_finding_code
  authority_summary :: string
  authority_blocking :: bool
  authority_agent_id :: string

definition authority_finding_init :: "authority_finding \<Rightarrow> authority_finding res" where
  "authority_finding_init f =
     (if authority_agent_id f \<noteq> []
      then res_bind (normalize_identifier ''agent_id'' (authority_agent_id f))
             (\<lambda>aid. Inr (f\<lparr>authority_agent_id := aid\<rparr>))
      else Inr f)"

definition authority_finding_dict :: "authority_finding \<Rightarrow> json" where
  "authority_finding_dict f = JObj
     [(''code'', JStr (authority_finding_code_value (authority_code f))),
      (''summary'', JStr (authority_summary f)),
      (''blocking'', JBool (authority_blocking f)),
      (''agent_id'', JStr (authority_agent_id f))]"

record authority_evaluation =
  evaluation_request_id :: string
  evaluation_decision_id :: string
  requester_agent_id :: string
  evaluation_reviewer_id :: string
  authority_findings :: "authority_finding list"
  evaluation_metadata :: "json dict"

definition authority_evaluation_init :: "authority_evaluation \<Rightarrow> authority_evaluation res" where
  "authority_evaluation_init v =
     res_bind (normalize_identifier ''request_id'' (evaluation_request_id v)) (\<lambda>rid.
     res_bind (normalize_identifier ''decision_id'' (evaluation_decision_id v)) (\<lambda>did.
     res_bind (normalize_identifier ''requester_agent_id'' (requester_agent_id v)) (\<lambda>requester.
     res_bind (if evaluation_reviewer_id v \<noteq> []
               then normalize_identifier ''reviewer_agent_id'' (evaluation_reviewer_id v) else Inr [])
       (\<lambda>reviewer.
       Inr (v\<lparr>evaluation_request_id := rid, evaluation_decision_id := did,
              requester_agent_id := requester, evaluation_reviewer_id := reviewer,
              authority_findings :=
                sort_key (\<lambda>f. authority_finding_code_value (authority_code f)) (authority_findings v)\<rparr>)))))"

definition blocking_authority_findings :: "authority_evaluation \<Rightarrow> authority_finding list" where
  "blocking_authority_findings v = filter authority_blocking (authority_findings v)"

definition authority_preserved :: "authority_evaluation \<Rightarrow> bool" where
  "authority_preserved v = (blocking_authority_findings v = [])"

definition authority_evaluation_body :: "authority_evaluation \<Rightarrow> json dict" where
  "authority_evaluation_body v =
     [(''request_id'', JStr (evaluation_request_id v)),
      (''decision_id'', JStr (evaluation_decision_id v)),
      (''requester_agent_id'', JStr (requester_agent_id v)),
      (''reviewer_agent_id'', JStr (evaluation_reviewer_id v)),
      (''authority_preserved'', JBool (authority_preserved v)),
      (''blocking_finding_count'', JInt (int (length (blocking_authority_findings v)))),
      (''findings'', JList (map authority_finding_dict (authority_findings v))),
      (''metadata'', JObj (evaluation_metadata v))]"

definition authority_evaluation_digest ::
  "(string \<Rightarrow> string) \<Rightarrow> authority_evaluation \<Rightarrow> string res" where
  "authority_evaluation_digest H v = digest_payload H (JObj (authority_evaluation_body v))"

section \<open>The check\<close>

definition lookup_reviewer :: "agent_registry \<Rightarrow> string \<Rightarrow> agent_identity option res" where
  "lookup_reviewer reg reviewer_id =
     (if reviewer_id = [] then Inr None else registry_lookup reg reviewer_id)"

definition authority_note ::
  "authority_finding_code \<Rightarrow> string \<Rightarrow> bool \<Rightarrow> string \<Rightarrow> authority_finding res" where
  "authority_note code summary blocking aid =
     authority_finding_init \<lparr>authority_code = code, authority_summary = summary,
       authority_blocking = blocking, authority_agent_id = aid\<rparr>"

text \<open>\<open>if condition: findings.append(finding)\<close>\<close>

definition note_if :: "bool \<Rightarrow> authority_finding res \<Rightarrow> authority_finding list res" where
  "note_if b f = (if b then res_bind f (\<lambda>x. Inr [x]) else Inr [])"

definition review_findings ::
  "authorization_decision \<Rightarrow> agent_identity option \<Rightarrow> agent_identity option
    \<Rightarrow> authority_finding list res" where
  "review_findings d requester reviewer =
     (if reviewer_agent_id d = []
      then note_if True (authority_note REVIEWER_MISSING
             ''Review-required decision does not identify a reviewer.'' True [])
      else case reviewer of
        None \<Rightarrow> note_if True (authority_note REVIEWER_UNKNOWN
                  ''Reviewer agent is not registered.'' True (reviewer_agent_id d))
      | Some who \<Rightarrow>
        res_bind (note_if (case requester of None \<Rightarrow> False | Some q \<Rightarrow> agent_id who = agent_id q)
          (authority_note SELF_APPROVAL_BLOCKED
             ''Requester cannot serve as its own human authority reviewer.'' True (agent_id who)))
          (\<lambda>self.
        res_bind (note_if (\<not> can_hold_human_authority who)
          (authority_note REVIEWER_NOT_HUMAN_AUTHORITY
             ''Reviewer is not an active human authority agent.'' True (agent_id who)))
          (\<lambda>nonhuman.
        res_bind (note_if (\<not> list_ex authority_blocking (self @ nonhuman))
          (authority_note HUMAN_REVIEW_SATISFIED
             ''Review-required decision names a separate active human authority reviewer.''
             False (agent_id who)))
          (\<lambda>satisfied. Inr (self @ nonhuman @ satisfied)))))"

definition evaluate_human_authority ::
  "agent_registry \<Rightarrow> authorization_request \<Rightarrow> authorization_decision \<Rightarrow> authority_evaluation res" where
  "evaluate_human_authority reg r d =
     res_bind (registry_lookup reg (request_agent_id r)) (\<lambda>requester.
     res_bind (lookup_reviewer reg (reviewer_agent_id d)) (\<lambda>reviewer.
     res_bind (note_if (requester = None)
       (authority_note REQUESTER_UNKNOWN ''Requesting agent is not registered.'' True
          (request_agent_id r))) (\<lambda>unknown.
     res_bind (if decision_status d = REQUIRE_REVIEW
       then review_findings d requester reviewer
       else note_if True (authority_note HUMAN_REVIEW_NOT_REQUIRED
              ''Decision does not require a human reviewer.'' False [])) (\<lambda>review.
     res_bind (note_if (capability_is_human_only (request_capability r)
         \<and> (case requester of None \<Rightarrow> True | Some q \<Rightarrow> \<not> can_hold_human_authority q))
       (authority_note HUMAN_ONLY_CAPABILITY_BLOCKED
          ''Human-only capability was requested by a non-human authority agent.'' True
          (request_agent_id r))) (\<lambda>human_only.
       authority_evaluation_init
         \<lparr>evaluation_request_id = request_id r, evaluation_decision_id = decision_id d,
          requester_agent_id = request_agent_id r, evaluation_reviewer_id = reviewer_agent_id d,
          authority_findings = unknown @ review @ human_only,
          evaluation_metadata =
            [(''decision_status'', JStr (authorization_status_value (decision_status d)))]\<rparr>)))))"

section \<open>What preserved authority means\<close>

text \<open>The contract, stated without the report.\<close>

definition human_review_separate ::
  "agent_identity option \<Rightarrow> agent_identity option \<Rightarrow> bool" where
  "human_review_separate requester reviewer \<longleftrightarrow>
     (\<exists>who. reviewer = Some who \<and> can_hold_human_authority who
        \<and> (\<forall>q. requester = Some q \<longrightarrow> agent_id who \<noteq> agent_id q))"

lemma note_if_Inr:
  "note_if b (authority_note c s blk aid) = Inr fs \<Longrightarrow>
     filter authority_blocking fs = [] \<longleftrightarrow> \<not> b \<or> \<not> blk"
  by (auto simp: note_if_def authority_note_def authority_finding_init_def res_simps split: if_splits)

lemma note_if_any:
  "note_if b (authority_note c s blk aid) = Inr fs \<Longrightarrow> list_ex authority_blocking fs \<longleftrightarrow> b \<and> blk"
  by (auto simp: note_if_def authority_note_def authority_finding_init_def res_simps split: if_splits)

lemma review_findings_blocking:
  assumes "review_findings d requester reviewer = Inr fs"
  shows "filter authority_blocking fs = [] \<longleftrightarrow>
     reviewer_agent_id d \<noteq> [] \<and> human_review_separate requester reviewer"
proof (cases "reviewer_agent_id d = []")
  case True
  with assms have "note_if True (authority_note REVIEWER_MISSING
     ''Review-required decision does not identify a reviewer.'' True []) = Inr fs"
    by (simp only: review_findings_def if_True refl)
  from note_if_Inr [OF this] True show ?thesis by simp
next
  case named: False
  show ?thesis
  proof (cases reviewer)
    case None
    with assms named have "note_if True (authority_note REVIEWER_UNKNOWN
      ''Reviewer agent is not registered.'' True (reviewer_agent_id d)) = Inr fs"
      by (simp only: review_findings_def if_False option.case)
    from note_if_Inr [OF this] None show ?thesis by (simp add: human_review_separate_def)
  next
    case (Some who)
    let ?self = "case requester of None \<Rightarrow> False | Some q \<Rightarrow> agent_id who = agent_id q"
    obtain a b c where
      n: "note_if ?self (authority_note SELF_APPROVAL_BLOCKED
            ''Requester cannot serve as its own human authority reviewer.'' True (agent_id who)) = Inr a"
        "note_if (\<not> can_hold_human_authority who) (authority_note REVIEWER_NOT_HUMAN_AUTHORITY
            ''Reviewer is not an active human authority agent.'' True (agent_id who)) = Inr b"
        "note_if (\<not> list_ex authority_blocking (a @ b)) (authority_note HUMAN_REVIEW_SATISFIED
            ''Review-required decision names a separate active human authority reviewer.''
            False (agent_id who)) = Inr c"
      and fs: "fs = a @ b @ c"
      using assms named Some
      by (simp only: review_findings_def if_False option.case)
        (elim res_bind_InrE, simp)
    have "?self \<longleftrightarrow> (\<exists>q. requester = Some q \<and> agent_id who = agent_id q)"
      by (cases requester) simp_all
    with note_if_Inr [OF n(1)] note_if_Inr [OF n(2)] note_if_Inr [OF n(3)] fs named Some
    show ?thesis by (auto simp: human_review_separate_def)
  qed
qed

lemma authority_evaluation_init_preserved:
  "authority_evaluation_init v = Inr w \<Longrightarrow>
     authority_preserved w \<longleftrightarrow> filter authority_blocking (authority_findings v) = []"
  by (auto simp: authority_evaluation_init_def authority_preserved_def
      blocking_authority_findings_def res_simps filter_sort split: if_splits)

lemma evaluate_human_authority_preserved:
  assumes "evaluate_human_authority reg r d = Inr v"
  obtains requester reviewer where
    "registry_lookup reg (request_agent_id r) = Inr requester"
    "lookup_reviewer reg (reviewer_agent_id d) = Inr reviewer"
    "authority_preserved v \<longleftrightarrow>
       requester \<noteq> None
       \<and> (decision_status d = REQUIRE_REVIEW \<longrightarrow> human_review_separate requester reviewer)
       \<and> (capability_is_human_only (request_capability r) \<longrightarrow>
            (\<exists>q. requester = Some q \<and> can_hold_human_authority q))"
proof -
  from assms obtain requester reviewer unknown review human_only where
    look: "registry_lookup reg (request_agent_id r) = Inr requester"
      "lookup_reviewer reg (reviewer_agent_id d) = Inr reviewer"
    and u: "note_if (requester = None) (authority_note REQUESTER_UNKNOWN
      ''Requesting agent is not registered.'' True (request_agent_id r)) = Inr unknown"
    and rv: "(if decision_status d = REQUIRE_REVIEW
       then review_findings d requester reviewer
       else note_if True (authority_note HUMAN_REVIEW_NOT_REQUIRED
              ''Decision does not require a human reviewer.'' False [])) = Inr review"
    and h: "note_if (capability_is_human_only (request_capability r)
         \<and> (case requester of None \<Rightarrow> True | Some q \<Rightarrow> \<not> can_hold_human_authority q))
       (authority_note HUMAN_ONLY_CAPABILITY_BLOCKED
          ''Human-only capability was requested by a non-human authority agent.'' True
          (request_agent_id r)) = Inr human_only"
    and v: "authority_evaluation_init
         \<lparr>evaluation_request_id = request_id r, evaluation_decision_id = decision_id d,
          requester_agent_id = request_agent_id r, evaluation_reviewer_id = reviewer_agent_id d,
          authority_findings = unknown @ review @ human_only,
          evaluation_metadata =
            [(''decision_status'', JStr (authorization_status_value (decision_status d)))]\<rparr> = Inr v"
    unfolding evaluate_human_authority_def by (elim res_bind_InrE) blast
  have named: "human_review_separate requester reviewer \<Longrightarrow> reviewer_agent_id d \<noteq> []"
    using look(2) by (auto simp: lookup_reviewer_def human_review_separate_def)
  have "filter authority_blocking review = [] \<longleftrightarrow>
      (decision_status d = REQUIRE_REVIEW \<longrightarrow> human_review_separate requester reviewer)"
  proof (cases "decision_status d = REQUIRE_REVIEW")
    case True
    with rv have "review_findings d requester reviewer = Inr review" by (simp only: if_True refl)
    from review_findings_blocking [OF this] named True show ?thesis by blast
  next
    case False
    with rv have "note_if True (authority_note HUMAN_REVIEW_NOT_REQUIRED
      ''Decision does not require a human reviewer.'' False []) = Inr review" by (simp only: if_False)
    from note_if_Inr [OF this] False show ?thesis by simp
  qed
  then have "authority_preserved v \<longleftrightarrow>
       requester \<noteq> None
       \<and> (decision_status d = REQUIRE_REVIEW \<longrightarrow> human_review_separate requester reviewer)
       \<and> (capability_is_human_only (request_capability r) \<longrightarrow>
            (\<exists>q. requester = Some q \<and> can_hold_human_authority q))"
    using authority_evaluation_init_preserved [OF v] note_if_Inr [OF u] note_if_Inr [OF h]
    by (auto split: option.splits)
  with look that show thesis by blast
qed

end
