(* ===== verification/ToolRequests.thy ===== *)
theory ToolRequests
  imports HumanAuthority
begin

text \<open>
  The invocation contract of \<open>tools/contracts.py\<close> and its agent preflight of
  \<open>agents/tool_gateway.py\<close>: how a tool request becomes an authorization request, and the wrapper
  that lets the governed gateway run only on ALLOW. The gateway behind the wrapper is a
  parameter here, a function on a state of its own.
\<close>

section \<open>Tool invocation contract\<close>

datatype tool_capability =
    FILE_READ | FILE_WRITE | DIRECTORY_LIST | PATCH_PLAN | PATCH_APPLY | COMMAND_EXECUTION
  | TEST_EXECUTION | STATIC_ANALYSIS | REPORT_GENERATION | POLICY_INSPECTION | ARTIFACT_EXPORT
  | SERVICE_WRITE

fun tool_capability_value :: "tool_capability \<Rightarrow> string" where
  "tool_capability_value FILE_READ = ''file_read''"
| "tool_capability_value FILE_WRITE = ''file_write''"
| "tool_capability_value DIRECTORY_LIST = ''directory_list''"
| "tool_capability_value PATCH_PLAN = ''patch_plan''"
| "tool_capability_value PATCH_APPLY = ''patch_apply''"
| "tool_capability_value COMMAND_EXECUTION = ''command_execution''"
| "tool_capability_value TEST_EXECUTION = ''test_execution''"
| "tool_capability_value STATIC_ANALYSIS = ''static_analysis''"
| "tool_capability_value REPORT_GENERATION = ''report_generation''"
| "tool_capability_value POLICY_INSPECTION = ''policy_inspection''"
| "tool_capability_value ARTIFACT_EXPORT = ''artifact_export''"
| "tool_capability_value SERVICE_WRITE = ''service_write''"

datatype invocation_status =
  INVOCATION_SUCCEEDED | INVOCATION_FAILED | INVOCATION_BLOCKED | INVOCATION_REVIEW | INVOCATION_TIMED_OUT

fun invocation_status_value :: "invocation_status \<Rightarrow> string" where
  "invocation_status_value INVOCATION_SUCCEEDED = ''succeeded''"
| "invocation_status_value INVOCATION_FAILED = ''failed''"
| "invocation_status_value INVOCATION_BLOCKED = ''blocked''"
| "invocation_status_value INVOCATION_REVIEW = ''review_required''"
| "invocation_status_value INVOCATION_TIMED_OUT = ''timed_out''"

datatype tool_failure_kind =
    INVALID_REQUEST | TOOL_NOT_FOUND | UNSUPPORTED_CAPABILITY | POLICY_BLOCKED | APPROVAL_REQUIRED
  | PATH_VIOLATION | FAILURE_TIMEOUT | EXECUTION_ERROR | PROTOCOL_ERROR

fun tool_failure_kind_value :: "tool_failure_kind \<Rightarrow> string" where
  "tool_failure_kind_value INVALID_REQUEST = ''invalid_request''"
| "tool_failure_kind_value TOOL_NOT_FOUND = ''tool_not_found''"
| "tool_failure_kind_value UNSUPPORTED_CAPABILITY = ''unsupported_capability''"
| "tool_failure_kind_value POLICY_BLOCKED = ''policy_blocked''"
| "tool_failure_kind_value APPROVAL_REQUIRED = ''approval_required''"
| "tool_failure_kind_value PATH_VIOLATION = ''path_violation''"
| "tool_failure_kind_value FAILURE_TIMEOUT = ''timeout''"
| "tool_failure_kind_value EXECUTION_ERROR = ''execution_error''"
| "tool_failure_kind_value PROTOCOL_ERROR = ''protocol_error''"

definition tool_identifier :: "string \<Rightarrow> string \<Rightarrow> string res" where
  "tool_identifier label s =
     (let cleaned = replace_char CHR '' '' CHR ''-'' (lower (strip s)) in
      if cleaned = [] then Inl (ValueError (label @ '' must not be empty.'')) else Inr cleaned)"

definition optional_tool_identifier :: "string option \<Rightarrow> string option res" where
  "optional_tool_identifier v =
     (case v of None \<Rightarrow> Inr None
      | Some s \<Rightarrow> res_bind (tool_identifier ''optional_identifier'' s) (\<lambda>x. Inr (Some x)))"

definition tool_text :: "string \<Rightarrow> string \<Rightarrow> string res" where
  "tool_text label s =
     (if blank s then Inl (ValueError (label @ '' must not be empty.'')) else Inr (strip s))"

definition tool_labels :: "string list \<Rightarrow> string list" where
  "tool_labels values =
     uniq (filter (\<lambda>c. c \<noteq> []) (map (\<lambda>s. replace_char CHR '' '' CHR ''-'' (lower (strip s))) values))"

record tool_failure =
  failure_kind :: tool_failure_kind
  failure_message :: string
  failure_retryable :: bool
  failure_metadata :: "json dict"

definition tool_failure_init :: "tool_failure \<Rightarrow> tool_failure res" where
  "tool_failure_init f =
     res_bind (tool_text ''message'' (failure_message f)) (\<lambda>m. Inr (f\<lparr>failure_message := m\<rparr>))"

text \<open>A text or None as a JSON value.\<close>

definition json_opt :: "string option \<Rightarrow> json" where
  "json_opt v = (case v of None \<Rightarrow> JNull | Some s \<Rightarrow> JStr s)"

definition tool_failure_dict :: "tool_failure \<Rightarrow> json dict" where
  "tool_failure_dict f =
     [(''kind'', JStr (tool_failure_kind_value (failure_kind f))),
      (''message'', JStr (failure_message f)),
      (''retryable'', JBool (failure_retryable f)),
      (''metadata'', JObj (failure_metadata f))]"

record tool_artifact =
  artifact_id :: string
  artifact_name :: string
  artifact_uri :: string
  artifact_media_type :: string
  artifact_sha256 :: "string option"
  artifact_metadata :: "json dict"

definition tool_artifact_init :: "tool_artifact \<Rightarrow> tool_artifact res" where
  "tool_artifact_init a =
     res_bind (tool_identifier ''artifact_id'' (artifact_id a)) (\<lambda>aid.
     res_bind (tool_text ''name'' (artifact_name a)) (\<lambda>name.
     res_bind (tool_text ''uri'' (artifact_uri a)) (\<lambda>uri.
     res_bind (tool_text ''media_type'' (artifact_media_type a)) (\<lambda>media.
     let sha = (case artifact_sha256 a of None \<Rightarrow> None
                | Some s \<Rightarrow> if blank s then None else Some (strip s)) in
     if (case sha of None \<Rightarrow> False | Some s \<Rightarrow> length s \<noteq> 64)
     then Inl (ValueError ''ToolOutputArtifact sha256 must be a 64-character digest.'')
     else Inr (a\<lparr>artifact_id := aid, artifact_name := name, artifact_uri := uri,
                 artifact_media_type := media, artifact_sha256 := sha\<rparr>)))))"

text \<open>
  A timeout is kept in microseconds; \<open>created_at\<close> is the datetime itself.
\<close>

record tool_request =
  invocation_id :: string
  request_tool_id :: string
  tool_capability :: tool_capability
  tool_arguments :: "json dict"
  tool_task_id :: "string option"
  tool_run_id :: "string option"
  requested_by :: "string option"
  timeout_micros :: "int option"
  tool_request_labels :: "string list"
  tool_metadata :: "json dict"
  tool_created_at :: datetime

definition tool_request_init :: "tool_request \<Rightarrow> tool_request res" where
  "tool_request_init r =
     res_bind (tool_identifier ''invocation_id'' (invocation_id r)) (\<lambda>iid.
     res_bind (tool_identifier ''tool_id'' (request_tool_id r)) (\<lambda>tid.
     res_bind (optional_tool_identifier (tool_task_id r)) (\<lambda>task.
     res_bind (optional_tool_identifier (tool_run_id r)) (\<lambda>run.
     res_bind (optional_tool_identifier (requested_by r)) (\<lambda>by.
     if (case timeout_micros r of None \<Rightarrow> False | Some t \<Rightarrow> t \<le> 0)
     then Inl (ValueError ''ToolInvocationRequest timeout_seconds must be positive.'')
     else if (case tool_created_at r of Naive _ \<Rightarrow> True | Aware _ \<Rightarrow> False)
     then Inl (ValueError ''ToolInvocationRequest created_at must be timezone-aware.'')
     else Inr (r\<lparr>invocation_id := iid, request_tool_id := tid, tool_task_id := task,
                 tool_run_id := run, requested_by := by,
                 tool_request_labels := tool_labels (tool_request_labels r)\<rparr>))))))"

record tool_result =
  result_invocation_id :: string
  result_tool_id :: string
  result_status :: invocation_status
  result_output :: "json dict"
  result_artifacts :: "tool_artifact list"
  result_failure :: "tool_failure option"
  result_started_at :: datetime
  result_finished_at :: datetime
  result_metadata :: "json dict"

definition tool_result_init :: "tool_result \<Rightarrow> tool_result res" where
  "tool_result_init r =
     res_bind (tool_identifier ''invocation_id'' (result_invocation_id r)) (\<lambda>iid.
     res_bind (tool_identifier ''tool_id'' (result_tool_id r)) (\<lambda>tid.
     case (result_started_at r, result_finished_at r) of
       (Naive _, _) \<Rightarrow> Inl (ValueError ''ToolInvocationResult started_at must be timezone-aware.'')
     | (Aware _, Naive _) \<Rightarrow> Inl (ValueError ''ToolInvocationResult finished_at must be timezone-aware.'')
     | (Aware s, Aware f) \<Rightarrow>
         if f < s
         then Inl (ValueError ''ToolInvocationResult finished_at cannot predate started_at.'')
         else if result_status r = INVOCATION_SUCCEEDED \<and> result_failure r \<noteq> None
         then Inl (ValueError ''Successful tool invocations must not include failure details.'')
         else if result_status r \<noteq> INVOCATION_SUCCEEDED \<and> result_failure r = None
         then Inl (ValueError ''Unsuccessful tool invocations must include failure details.'')
         else Inr (r\<lparr>result_invocation_id := iid, result_tool_id := tid\<rparr>)))"

text \<open>\<open>ToolInvocationResult.failed\<close> without explicit times: the clock is read twice.\<close>

definition tool_result_failed ::
  "tool_request \<Rightarrow> invocation_status \<Rightarrow> tool_failure \<Rightarrow> json dict \<Rightarrow> json dict \<Rightarrow> int \<Rightarrow> int
    \<Rightarrow> tool_result res" where
  "tool_result_failed req status failure output metadata started finished =
     (if status = INVOCATION_SUCCEEDED
      then Inl (ValueError ''Use ToolInvocationResult.succeeded for successful results.'')
      else tool_result_init
        \<lparr>result_invocation_id = invocation_id req, result_tool_id = request_tool_id req,
         result_status = status, result_output = output, result_artifacts = [],
         result_failure = Some failure,
         result_started_at = Aware started, result_finished_at = Aware finished,
         result_metadata = metadata\<rparr>)"

definition tool_result_succeeded ::
  "tool_request \<Rightarrow> json dict \<Rightarrow> tool_artifact list \<Rightarrow> json dict \<Rightarrow> int \<Rightarrow> int \<Rightarrow> tool_result res" where
  "tool_result_succeeded req output artifacts metadata started finished =
     tool_result_init
       \<lparr>result_invocation_id = invocation_id req, result_tool_id = request_tool_id req,
        result_status = INVOCATION_SUCCEEDED, result_output = output, result_artifacts = artifacts,
        result_failure = None,
        result_started_at = Aware started, result_finished_at = Aware finished,
        result_metadata = metadata\<rparr>"

text \<open>\<open>latency_ms\<close>; a result holds aware datetimes, and of naive ones Python takes the same difference.\<close>

fun datetime_micros :: "datetime \<Rightarrow> int" where
  "datetime_micros (Naive t) = t"
| "datetime_micros (Aware t) = t"

definition latency_ms :: "py_runtime \<Rightarrow> tool_result \<Rightarrow> int" where
  "latency_ms rt r = py_millis rt
     (datetime_micros (result_finished_at r) - datetime_micros (result_started_at r))"

section \<open>Mapping a tool request to an authorization request\<close>

fun agent_capability_for_tool_capability :: "tool_capability \<Rightarrow> agent_capability" where
  "agent_capability_for_tool_capability FILE_READ = READ_WORKSPACE"
| "agent_capability_for_tool_capability FILE_WRITE = WRITE_WORKSPACE"
| "agent_capability_for_tool_capability DIRECTORY_LIST = READ_WORKSPACE"
| "agent_capability_for_tool_capability PATCH_PLAN = PROPOSE_PATCH"
| "agent_capability_for_tool_capability PATCH_APPLY = APPLY_PATCH"
| "agent_capability_for_tool_capability COMMAND_EXECUTION = RUN_PROCESS"
| "agent_capability_for_tool_capability TEST_EXECUTION = RUN_TESTS"
| "agent_capability_for_tool_capability STATIC_ANALYSIS = INSPECT_POLICY"
| "agent_capability_for_tool_capability REPORT_GENERATION = EXPORT_EVIDENCE"
| "agent_capability_for_tool_capability POLICY_INSPECTION = INSPECT_POLICY"
| "agent_capability_for_tool_capability ARTIFACT_EXPORT = EXPORT_EVIDENCE"
| "agent_capability_for_tool_capability SERVICE_WRITE = ACCESS_NETWORK"

fun agent_action_for_tool_capability :: "tool_capability \<Rightarrow> agent_action" where
  "agent_action_for_tool_capability FILE_READ = ACT_READ"
| "agent_action_for_tool_capability FILE_WRITE = ACT_WRITE"
| "agent_action_for_tool_capability DIRECTORY_LIST = ACT_READ"
| "agent_action_for_tool_capability PATCH_PLAN = ACT_PROPOSE"
| "agent_action_for_tool_capability PATCH_APPLY = ACT_APPLY"
| "agent_action_for_tool_capability COMMAND_EXECUTION = ACT_RUN"
| "agent_action_for_tool_capability TEST_EXECUTION = ACT_RUN"
| "agent_action_for_tool_capability STATIC_ANALYSIS = ACT_INSPECT"
| "agent_action_for_tool_capability REPORT_GENERATION = ACT_EXPORT"
| "agent_action_for_tool_capability POLICY_INSPECTION = ACT_INSPECT"
| "agent_action_for_tool_capability ARTIFACT_EXPORT = ACT_EXPORT"
| "agent_action_for_tool_capability SERVICE_WRITE = ACT_WRITE"

text \<open>A metadata value that is a string with a character that is no white space.\<close>

definition filled_text :: "json option \<Rightarrow> string option" where
  "filled_text v = (case v of Some (JStr s) \<Rightarrow> if blank s then None else Some s | _ \<Rightarrow> None)"

definition repository_id_from_metadata :: "json dict \<Rightarrow> string" where
  "repository_id_from_metadata d =
     (case filled_text (dict_get d ''repository_id'') of Some s \<Rightarrow> s | None \<Rightarrow> ''ix-blackfox'')"

text \<open>\<open>Enum(value)\<close>: the member with that value.\<close>

definition enum_member :: "('e \<Rightarrow> string) \<Rightarrow> 'e list \<Rightarrow> string \<Rightarrow> string \<Rightarrow> 'e res" where
  "enum_member val members label s =
     (case List.find (\<lambda>m. val m = s) members of
        Some m \<Rightarrow> Inr m
      | None \<Rightarrow> Inl (ValueError (s @ '' is not a valid '' @ label)))"

definition domain_from_metadata :: "json dict \<Rightarrow> operating_domain res" where
  "domain_from_metadata d =
     (case filled_text (dict_get d ''operating_domain'') of
        Some s \<Rightarrow> enum_member operating_domain_value
          [MULTI_REPO, MULTI_TEAM, POLICY_GOVERNED, MEASURABLE, REPLAYABLE, REVIEWABLE]
          ''OperatingDomain'' s
      | None \<Rightarrow> Inr POLICY_GOVERNED)"

definition risk_tier_from_metadata ::
  "json dict \<Rightarrow> capability_risk_tier \<Rightarrow> capability_risk_tier res" where
  "risk_tier_from_metadata d fallback =
     (case filled_text (case dict_get d ''agent_risk_tier'' of
              Some v \<Rightarrow> Some v | None \<Rightarrow> dict_get d ''risk_tier'') of
        Some s \<Rightarrow> enum_member capability_risk_tier_value [LOW, MEDIUM, HIGH, CRITICAL]
          ''CapabilityRiskTier'' s
      | None \<Rightarrow> Inr fallback)"

definition path_from_arguments :: "json dict \<Rightarrow> string" where
  "path_from_arguments d =
     (case List.find (\<lambda>k. filled_text (dict_get d k) \<noteq> None)
             [''path'', ''file_path'', ''target_path'', ''output_path'', ''root''] of
        Some k \<Rightarrow> (case filled_text (dict_get d k) of Some s \<Rightarrow> s | None \<Rightarrow> [])
      | None \<Rightarrow> [])"

definition datetime_isoformat :: "py_runtime \<Rightarrow> datetime \<Rightarrow> string" where
  "datetime_isoformat rt d = (case d of Aware t \<Rightarrow> py_isoformat rt t | Naive t \<Rightarrow> py_isoformat rt t)"

definition build_tool_authorization_request ::
  "py_runtime \<Rightarrow> string \<Rightarrow> tool_request \<Rightarrow> authorization_request res" where
  "build_tool_authorization_request rt aid req =
     (let capability = agent_capability_for_tool_capability (tool_capability req) in
     res_bind (domain_from_metadata (tool_metadata req)) (\<lambda>domain.
     res_bind (normalize_identifier ''tool_id'' (request_tool_id req)) (\<lambda>tid.
     res_bind (risk_tier_from_metadata (tool_metadata req) (capability_default_risk_tier capability))
       (\<lambda>tier.
     res_bind (authorization_target_init
       \<lparr>target_repository_id = repository_id_from_metadata (tool_metadata req),
        target_domain = Some domain, target_tool_id = tid, target_pack_id = [],
        target_path = path_from_arguments (tool_arguments req),
        target_work_package_id = (case tool_task_id req of Some t \<Rightarrow> t | None \<Rightarrow> []),
        target_artifact_ids = (case tool_run_id req of Some r \<Rightarrow> [r] | None \<Rightarrow> []),
        target_risk_tier = tier,
        target_metadata =
          [(''tool_invocation_id'', JStr (invocation_id req)),
           (''tool_capability'', JStr (tool_capability_value (tool_capability req))),
           (''tool_id'', JStr (request_tool_id req))]\<rparr>) (\<lambda>target.
     authorization_request_init
       \<lparr>request_id = ''tool-auth-'' @ invocation_id req, request_agent_id = aid,
        request_action = agent_action_for_tool_capability (tool_capability req),
        request_capability = capability, request_target = target,
        requested_at = datetime_isoformat rt (tool_created_at req),
        request_evidence_ids =
          [''tool-invocation-'' @ invocation_id req, ''tool-manifest-'' @ request_tool_id req],
        justification = ''Wave 11 agent authorization preflight for governed tool invocation.'',
        request_metadata =
          [(''tool_invocation_id'', JStr (invocation_id req)),
           (''tool_id'', JStr (request_tool_id req)),
           (''tool_capability'', JStr (tool_capability_value (tool_capability req))),
           (''requested_by'', JStr (case requested_by req of Some b \<Rightarrow> b | None \<Rightarrow> []))]\<rparr>)))))"

lemma build_tool_request_fields:
  assumes "build_tool_authorization_request rt aid req = Inr r"
  shows "request_capability r = agent_capability_for_tool_capability (tool_capability req)"
    and "normalize_identifier ''agent_id'' aid = Inr (request_agent_id r)"
    and "target_path (request_target r) \<noteq> [] \<Longrightarrow> safe_relative_path (target_path (request_target r))"
  using assms
  by (auto simp: build_tool_authorization_request_def authorization_request_init_def
      authorization_target_init_def Let_def res_simps
      split: if_splits dest: normalize_relative_path_safe)

section \<open>The authorized gateway\<close>

text \<open>
  \<open>authorize_and_invoke\<close>: the decision, the gateway's report when it ran, the result, and the
  gateway's state after. The failure documents carry the decision's digest, so building them can
  raise; \<open>t0\<close> and \<open>t1\<close> are the clock readings of the result.
\<close>

record ('r) authorized_report =
  report_agent_id :: string
  report_tool_request :: tool_request
  report_request :: authorization_request
  report_decision :: authorization_decision
  report_gateway :: "'r option"
  report_result :: tool_result
  report_metadata :: "json dict"

definition authorization_decision_body ::
  "(string \<Rightarrow> string) \<Rightarrow> authorization_decision \<Rightarrow> json dict res" where
  "authorization_decision_body H d =
     res_bind (with_digest H (authorization_request_body (decision_request d))) (\<lambda>request.
       Inr [(''decision_id'', JStr (decision_id d)),
            (''request'', request),
            (''status'', JStr (authorization_status_value (decision_status d))),
            (''reasons'', json_strs (map authorization_reason_value (decision_reasons d))),
            (''decided_at'', JStr (decision_decided_at d)),
            (''reviewer_agent_id'', JStr (reviewer_agent_id d)),
            (''evidence_artifact_ids'', json_strs (decision_evidence_ids d)),
            (''allowed'', JBool (decision_status d = ALLOW)),
            (''requires_review'', JBool (decision_status d = REQUIRE_REVIEW)),
            (''blocked'', JBool (decision_status d = BLOCK)),
            (''metadata'', JObj (decision_metadata d))])"

definition authorization_decision_digest ::
  "(string \<Rightarrow> string) \<Rightarrow> authorization_decision \<Rightarrow> string res" where
  "authorization_decision_digest H d =
     res_bind (authorization_decision_body H d) (\<lambda>b. digest_payload H (JObj b))"

definition refused_result ::
  "(string \<Rightarrow> string) \<Rightarrow> tool_request \<Rightarrow> authorization_decision \<Rightarrow> invocation_status
    \<Rightarrow> tool_failure_kind \<Rightarrow> string \<Rightarrow> int \<Rightarrow> int \<Rightarrow> tool_result res" where
  "refused_result H req d status kind message t0 t1 =
     res_bind (authorization_decision_digest H d) (\<lambda>dd.
     res_bind (tool_failure_init \<lparr>failure_kind = kind, failure_message = message,
        failure_retryable = False,
        failure_metadata =
          [(''decision_id'', JStr (decision_id d)),
           (''decision_status'', JStr (authorization_status_value (decision_status d))),
           (''decision_reasons'', json_strs (map authorization_reason_value (decision_reasons d))),
           (''decision_digest'', JStr dd),
           (''reviewer_agent_id'', JStr (reviewer_agent_id d))]\<rparr>) (\<lambda>failure.
     res_bind (res_bind (authorization_decision_body H d) (with_digest H)) (\<lambda>doc.
       tool_result_failed req status failure [(''agent_authorization_decision'', doc)]
         [(''agent_authorization_status'', JStr (authorization_status_value (decision_status d))),
          (''gateway_executed'', JBool False)] t0 t1)))"

definition authorize_and_invoke ::
  "(string \<Rightarrow> string) \<Rightarrow> iso_parser \<Rightarrow> py_runtime \<Rightarrow> authorization_evaluator
    \<Rightarrow> (tool_request \<Rightarrow> 's \<Rightarrow> (('r \<times> tool_result) res \<times> 's)) \<Rightarrow> string \<Rightarrow> tool_request \<Rightarrow> string
    \<Rightarrow> string \<Rightarrow> string list \<Rightarrow> json dict \<Rightarrow> int \<Rightarrow> int \<Rightarrow> 's \<Rightarrow> 'r authorized_report res \<times> 's" where
  "authorize_and_invoke H parse rt e invoke aid req at reviewer evidence metadata t0 t1 s =
     (let report = (\<lambda>r d g result. \<lparr>report_agent_id = request_agent_id r, report_tool_request = req,
            report_request = r, report_decision = d, report_gateway = g, report_result = result,
            report_metadata = fold (\<lambda>kv. dict_set (fst kv) (snd kv)) metadata
              [(''gateway_executed'', JBool (g \<noteq> None))]\<rparr>) in
      case build_tool_authorization_request rt aid req of
        Inl err \<Rightarrow> (Inl err, s)
      | Inr r \<Rightarrow>
       (case evaluate H parse e r at reviewer evidence of
          Inl err \<Rightarrow> (Inl err, s)
        | Inr d \<Rightarrow>
         (case decision_status d of
            BLOCK \<Rightarrow>
              (res_bind (refused_result H req d INVOCATION_BLOCKED POLICY_BLOCKED
                 ''Tool invocation blocked by Wave 11 agent authorization.'' t0 t1)
                 (\<lambda>result. Inr (report r d None result)), s)
          | REQUIRE_REVIEW \<Rightarrow>
              (res_bind (refused_result H req d INVOCATION_REVIEW APPROVAL_REQUIRED
                 ''Tool invocation requires human review by Wave 11 agent authorization.'' t0 t1)
                 (\<lambda>result. Inr (report r d None result)), s)
          | ALLOW \<Rightarrow>
             (case invoke req s of
                (Inl err, s') \<Rightarrow> (Inl err, s')
              | (Inr (g, result), s') \<Rightarrow> (Inr (report r d (Some g) result), s')))))"

text \<open>The gateway's state moves only when the evaluator answers ALLOW.\<close>

lemma authorize_and_invoke_gated:
  assumes "authorize_and_invoke H parse rt e invoke aid req at reviewer evidence metadata t0 t1 s = (res, s')"
    and "s' \<noteq> s"
  obtains r d where "build_tool_authorization_request rt aid req = Inr r"
    "evaluate H parse e r at reviewer evidence = Inr d" "decision_status d = ALLOW"
    "snd (invoke req s) = s'"
  using assms
  by (auto simp: authorize_and_invoke_def Let_def
      split: sum.splits authorization_status.splits prod.splits)

end
