(* ===== verification/JsonEncoding.thy ===== *)
theory JsonEncoding
  imports PyJson
begin

text \<open>
  The canonical text of a JSON value is unambiguous: two values with the same text are equal
  up to the order of object keys. The proof shows that each piece of the text is a prefix code
  as long as what follows is a comma, a closing bracket or nothing.
\<close>

section \<open>Digits and numbers\<close>

lemma digit_char_code: "n < 16 \<Longrightarrow> code_point (digit_char n) = (if n < 10 then 48 + n else 87 + n)"
  by (simp add: digit_char_def code_point_def)

lemma digit_char_inj: "m < 16 \<Longrightarrow> n < 16 \<Longrightarrow> digit_char m = digit_char n \<Longrightarrow> m = n"
  by (drule arg_cong [where f = code_point]) (auto simp: digit_char_code split: if_splits)

definition numeral_char :: "char \<Rightarrow> bool" where
  "numeral_char c = (is_digit c \<or> c \<in> set ''+-.e'')"

text \<open>The \<open>repr\<close> of a finite float is a numeral with a point or an exponent.\<close>

definition float_repr :: "string \<Rightarrow> bool" where
  "float_repr s \<longleftrightarrow> s \<noteq> [] \<and> (\<forall>c \<in> set s. numeral_char c) \<and> (CHR ''.'' \<in> set s \<or> CHR ''e'' \<in> set s)"

lemma is_digit_digit_char: "n < 10 \<Longrightarrow> is_digit (digit_char n)"
  by (simp add: is_digit_def digit_char_code)

lemma show_nat_digits: "c \<in> set (show_nat n) \<Longrightarrow> is_digit c"
proof (induction n rule: show_nat.induct)
  case (1 n)
  then show ?case
    by (subst (asm) (2) show_nat.simps) (auto split: if_splits simp: is_digit_digit_char)
qed

lemma show_nat_not_Nil [simp]: "show_nat n \<noteq> []"
  by (subst show_nat.simps) simp

lemma show_nat_inj: "show_nat m = show_nat n \<Longrightarrow> m = n"
proof (induction m arbitrary: n rule: show_nat.induct)
  case (1 m)
  have m: "show_nat m = (if m < 10 then [] else show_nat (m div 10)) @ [digit_char (m mod 10)]"
    by (subst show_nat.simps) simp
  have n: "show_nat n = (if n < 10 then [] else show_nat (n div 10)) @ [digit_char (n mod 10)]"
    by (subst show_nat.simps) simp
  from 1(2) m n have d: "digit_char (m mod 10) = digit_char (n mod 10)"
    and p: "(if m < 10 then [] else show_nat (m div 10)) = (if n < 10 then [] else show_nat (n div 10))"
    by simp_all
  have mods: "m mod 10 = n mod 10" by (rule digit_char_inj [OF _ _ d]) simp_all
  have "m div 10 = n div 10"
  proof (cases "m < 10")
    case True
    with p have "n < 10" by (metis show_nat_not_Nil)
    with True show ?thesis by simp
  next
    case False
    with p have "\<not> n < 10" by (auto split: if_splits)
    with False p have "show_nat (m div 10) = show_nat (n div 10)" by simp
    with 1(1) [OF False] show ?thesis by simp
  qed
  with mods show ?case by (metis div_mult_mod_eq)
qed

lemma digit_not_minus: "is_digit c \<Longrightarrow> c \<noteq> CHR ''-'' \<and> c \<noteq> CHR ''.'' \<and> c \<noteq> CHR ''e''"
  by (auto simp: is_digit_def code_point_def)

lemma show_int_inj: "show_int i = show_int j \<Longrightarrow> i = j"
proof -
  assume eq: "show_int i = show_int j"
  have no: "show_nat n \<noteq> CHR ''-'' # s" for n s
    by (metis digit_not_minus list.set_intros(1) show_nat_digits)
  show "i = j"
    using eq no no [symmetric]
    by (auto simp: show_int_def split: if_splits dest!: show_nat_inj)
qed

lemma show_int_chars: "c \<in> set (show_int i) \<Longrightarrow> is_digit c \<or> c = CHR ''-''"
  by (auto simp: show_int_def split: if_splits dest: show_nat_digits)

lemma show_int_numeral: "c \<in> set (show_int i) \<Longrightarrow> numeral_char c"
  by (auto simp: numeral_char_def dest: show_int_chars)

lemma show_int_not_Nil [simp]: "show_int i \<noteq> []"
  by (simp add: show_int_def)

lemma show_int_no_point: "CHR ''.'' \<notin> set (show_int i)" "CHR ''e'' \<notin> set (show_int i)"
  using digit_not_minus show_int_chars by fastforce+

section \<open>Strings\<close>

lemma escape_char_not_Nil [simp]: "escape_char a c \<noteq> []"
  by (simp add: escape_char_def unicode_escape_def Let_def)

lemma code_point_inj: "code_point c = code_point d \<Longrightarrow> c = d"
  by (simp add: code_point_def)

lemma hd_escape_char: "hd (escape_char a c) \<noteq> CHR 0x22"
proof
  assume q: "hd (escape_char a c) = CHR 0x22"
  then have "hd (escape_char a c) = c"
    by (auto simp: escape_char_def unicode_escape_def Let_def split: if_splits)
  with q have "code_point c = 34" by (simp add: code_point_def)
  with q show False by (simp add: escape_char_def)
qed

definition escape_kind :: "nat \<Rightarrow> char" where
  "escape_kind n = (if n = 34 then CHR 0x22 else if n = 92 then CHR 0x5C
     else if n = 10 then CHR ''n'' else if n = 13 then CHR ''r'' else if n = 9 then CHR ''t''
     else if n = 12 then CHR ''f'' else if n = 8 then CHR ''b'' else CHR ''u'')"

lemma escape_char_kind:
  assumes "code_point c = 92 \<or> code_point c = 34 \<or> code_point c < 32 \<or> (a \<and> 126 < code_point c)"
  shows "escape_char a c = CHR 0x5C # escape_kind (code_point c) #
    (if escape_kind (code_point c) = CHR ''u''
     then [CHR ''0'', CHR ''0'', digit_char (code_point c div 16), digit_char (code_point c mod 16)]
     else [])"
  using assms
  by (auto simp: escape_char_def escape_kind_def unicode_escape_def Let_def)

lemma escape_kind_inj:
  "escape_kind m = escape_kind n \<Longrightarrow> escape_kind m \<noteq> CHR ''u'' \<Longrightarrow> m = n"
  by (simp add: escape_kind_def split: if_splits)

lemma escape_char_prefix:
  assumes eq: "escape_char a c @ r = escape_char a d @ r'"
  shows "c = d \<and> r = r'"
proof -
  let ?s = "\<lambda>c. code_point c = 92 \<or> code_point c = 34 \<or> code_point c < 32 \<or> (a \<and> 126 < code_point c)"
  have plain: "escape_char a c = [c]" "c \<noteq> CHR 0x5C" if "\<not> ?s c" for c
    using that by (auto simp: escape_char_def code_point_def)
  show ?thesis
  proof (cases "?s c"; cases "?s d")
    assume s: "?s c" "?s d"
    from eq have k: "escape_kind (code_point c) = escape_kind (code_point d)"
      by (simp add: escape_char_kind [OF s(1)] escape_char_kind [OF s(2)])
    show ?thesis
    proof (cases "escape_kind (code_point c) = CHR ''u''")
      case True
      with eq k have "digit_char (code_point c div 16) = digit_char (code_point d div 16)"
        "digit_char (code_point c mod 16) = digit_char (code_point d mod 16)" "r = r'"
        by (simp_all add: escape_char_kind [OF s(1)] escape_char_kind [OF s(2)])
      moreover have "code_point c div 16 < 16" "code_point d div 16 < 16"
        using code_point_less [of c] code_point_less [of d] by auto
      ultimately have "code_point c div 16 = code_point d div 16"
        "code_point c mod 16 = code_point d mod 16" "r = r'"
        by (auto intro: digit_char_inj)
      then show ?thesis by (metis code_point_inj div_mult_mod_eq)
    next
      case False
      with k eq have "r = r'"
        by (simp add: escape_char_kind [OF s(1)] escape_char_kind [OF s(2)])
      with False k show ?thesis by (metis code_point_inj escape_kind_inj)
    qed
  next
    assume s: "?s c" "\<not> ?s d"
    with eq plain [OF s(2)] show ?thesis by (simp add: escape_char_kind [OF s(1)])
  next
    assume s: "\<not> ?s c" "?s d"
    with eq plain [OF s(1)] show ?thesis by (simp add: escape_char_kind [OF s(2)])
  next
    assume s: "\<not> ?s c" "\<not> ?s d"
    with eq plain show ?thesis by simp
  qed
qed

lemma escapes_prefix:
  "concat (map (escape_char a) s) @ CHR 0x22 # r = concat (map (escape_char a) t) @ CHR 0x22 # r'
    \<Longrightarrow> s = t \<and> r = r'"
proof (induction s arbitrary: t)
  case Nil
  have "t = []"
  proof (rule ccontr)
    assume "t \<noteq> []"
    then obtain d u where "t = d # u" by (cases t) auto
    with Nil have "hd (escape_char a d) = CHR 0x22" by (cases "escape_char a d") auto
    then show False using hd_escape_char by blast
  qed
  with Nil show ?case by simp
next
  case (Cons c s)
  show ?case
  proof (cases t)
    case Nil
    with Cons.prems have "hd (escape_char a c) = CHR 0x22" by (cases "escape_char a c") auto
    then show ?thesis using hd_escape_char by blast
  next
    case (Cons d u)
    with Cons.prems have "escape_char a c @ (concat (map (escape_char a) s) @ CHR 0x22 # r)
        = escape_char a d @ (concat (map (escape_char a) u) @ CHR 0x22 # r')" by simp
    from escape_char_prefix [OF this] Cons.IH Cons show ?thesis by blast
  qed
qed

lemma quote_prefix: "quote a s @ r = quote a t @ r' \<Longrightarrow> s = t \<and> r = r'"
  using escapes_prefix [of a s r t r'] by (simp add: quote_def)


section \<open>Values\<close>

definition stop :: "string \<Rightarrow> bool" where
  "stop r \<longleftrightarrow> r = [] \<or> hd r = CHR '','' \<or> hd r = CHR '']'' \<or> hd r = CHR ''}''"

lemma stop_not_numeral: "stop r \<Longrightarrow> r = [] \<or> \<not> numeral_char (hd r)"
  by (auto simp: stop_def numeral_char_def is_digit_def code_point_def)

lemma numeral_prefix:
  assumes "\<forall>c \<in> set x. numeral_char c" "\<forall>c \<in> set y. numeral_char c"
    and "x @ r = y @ r'" and "stop r" "stop r'"
  shows "x = y \<and> r = r'"
proof -
  have t: "takeWhile numeral_char r = []" if "stop r" for r
    using stop_not_numeral [OF that] by (cases r) auto
  have "takeWhile numeral_char (x @ r) = x" "takeWhile numeral_char (y @ r') = y"
    using assms(1,2) t [OF assms(4)] t [OF assms(5)] by (auto simp: takeWhile_append2)
  with assms(3) show ?thesis by simp
qed

text \<open>The values that have a canonical text: finite, JSON, with floats written as \<open>repr\<close> does.\<close>

fun encodable :: "json \<Rightarrow> bool" where
  "encodable (JFloat s) = float_repr s"
| "encodable JNonFinite = False"
| "encodable JOther = False"
| "encodable (JList xs) = list_all encodable xs"
| "encodable (JObj kvs) = list_all (\<lambda>kv. encodable (snd kv)) kvs"
| "encodable _ = True"

fun value_kind :: "json \<Rightarrow> nat" where
  "value_kind JNull = 0"
| "value_kind (JBool b) = (if b then 1 else 2)"
| "value_kind (JInt _) = 3"
| "value_kind (JFloat _) = 3"
| "value_kind (JStr _) = 4"
| "value_kind (JList _) = 5"
| "value_kind (JObj _) = 6"
| "value_kind _ = 7"

definition head_kind :: "char \<Rightarrow> nat" where
  "head_kind c = (if c = CHR ''n'' then 0 else if c = CHR ''t'' then 1 else if c = CHR ''f'' then 2
     else if numeral_char c then 3 else if c = CHR 0x22 then 4 else if c = CHR ''['' then 5 else 6)"

lemma head_kind_numeral: "numeral_char c \<Longrightarrow> head_kind c = 3"
  by (auto simp: head_kind_def numeral_char_def is_digit_def code_point_def)

lemma json_text_head:
  "encodable v \<Longrightarrow> \<exists>c t. json_text a v = c # t \<and> head_kind c = value_kind v \<and> \<not> stop [c]"
proof (cases v)
  case (JInt i)
  obtain c t where "show_int i = c # t" by (cases "show_int i") auto
  moreover then have n: "numeral_char c" using show_int_numeral [of c i] by simp
  moreover have "\<not> stop [c]" using n stop_not_numeral by fastforce
  ultimately show ?thesis using JInt by (simp add: head_kind_numeral)
next
  case (JFloat s)
  assume "encodable v"
  with JFloat obtain c t where "s = c # t" "numeral_char c"
    by (cases s) (auto simp: float_repr_def)
  moreover then have "\<not> stop [c]" using stop_not_numeral by fastforce
  ultimately show ?thesis using JFloat by (simp add: head_kind_numeral)
qed (auto simp: head_kind_def stop_def quote_def numeral_char_def is_digit_def code_point_def)

lemma json_text_kind:
  assumes "encodable v" "encodable w" "json_text a v @ r = json_text a w @ r'"
  shows "value_kind v = value_kind w"
  using assms json_text_head [of v a] json_text_head [of w a] by auto

definition prefix_code :: "('a \<Rightarrow> string) \<Rightarrow> 'a \<Rightarrow> ('a \<Rightarrow> bool) \<Rightarrow> bool" where
  "prefix_code f x ok \<longleftrightarrow> (\<forall>y r r'. ok y \<longrightarrow> f x @ r = f y @ r' \<longrightarrow> stop r \<longrightarrow> stop r'
     \<longrightarrow> x = y \<and> r = r')"

lemma prefix_codeD:
  "prefix_code f x ok \<Longrightarrow> ok y \<Longrightarrow> f x @ r = f y @ r' \<Longrightarrow> stop r \<Longrightarrow> stop r' \<Longrightarrow> x = y \<and> r = r'"
  by (simp add: prefix_code_def)

definition more_items :: "('a \<Rightarrow> string) \<Rightarrow> 'a list \<Rightarrow> string" where
  "more_items f xs = concat (map (\<lambda>x. CHR '','' # f x) xs)"

lemma join_Cons: "join '','' (f x # map f xs) = f x @ more_items f xs"
  by (induction xs arbitrary: x) (simp_all add: more_items_def)

lemma stop_more_items: "stop (c # r) \<Longrightarrow> stop (more_items f xs @ c # r)"
  by (cases xs) (simp_all add: more_items_def stop_def)

lemma more_items_prefix:
  assumes "\<forall>x \<in> set xs. prefix_code f x ok" and "\<forall>y \<in> set ys. ok y"
    and "c = CHR '']'' \<or> c = CHR ''}''"
    and "more_items f xs @ c # r = more_items f ys @ c # r'"
  shows "xs = ys \<and> r = r'"
  using assms
proof (induction xs arbitrary: ys)
  case Nil
  then show ?case by (cases ys) (auto simp: more_items_def)
next
  case (Cons x xs)
  then obtain y zs where ys: "ys = y # zs" by (cases ys) (auto simp: more_items_def)
  have st: "stop (more_items f us @ c # q)" for us q
    using Cons.prems(3) by (intro stop_more_items) (auto simp: stop_def)
  from Cons.prems(4) ys
  have "f x @ (more_items f xs @ c # r) = f y @ (more_items f zs @ c # r')"
    by (simp add: more_items_def)
  with Cons.prems(1,2) ys st have "x = y" "more_items f xs @ c # r = more_items f zs @ c # r'"
    by (auto dest!: prefix_codeD)
  with Cons ys show ?case by auto
qed

lemma join_prefix:
  assumes "\<forall>x \<in> set xs. prefix_code f x ok" and "\<forall>y \<in> set ys. ok y"
    and c: "c = CHR '']'' \<or> c = CHR ''}''"
    and ne: "\<forall>x \<in> set xs \<union> set ys. f x \<noteq> [] \<and> \<not> stop [hd (f x)]"
    and eq: "join '','' (map f xs) @ c # r = join '','' (map f ys) @ c # r'"
  shows "xs = ys \<and> r = r'"
proof -
  have c_stop: "stop [c]" using c by (auto simp: stop_def)
  have st: "stop (more_items f us @ c # q)" for us q
    using c by (intro stop_more_items) (auto simp: stop_def)
  have diff: "c # q \<noteq> f z @ s" if z: "z \<in> set xs \<union> set ys" for z q s
  proof
    assume "c # q = f z @ s"
    moreover from ne z have "f z \<noteq> []" "\<not> stop [hd (f z)]" by blast+
    ultimately show False using c_stop by (cases "f z") auto
  qed
  show ?thesis
  proof (cases xs)
    case Nil
    with eq diff show ?thesis by (cases ys) (auto simp: join_Cons)
  next
    case (Cons x us)
    with eq diff obtain y vs where ys: "ys = y # vs"
      by (cases ys) (auto simp: join_Cons, metis)
    from eq Cons ys have "f x @ (more_items f us @ c # r) = f y @ (more_items f vs @ c # r')"
      by (simp add: join_Cons)
    with assms(1,2) Cons ys st have "x = y" "more_items f us @ c # r = more_items f vs @ c # r'"
      by (auto dest!: prefix_codeD)
    with more_items_prefix [of us f ok vs c r r'] assms(1,2) c Cons ys show ?thesis by simp
  qed
qed

definition member_text :: "bool \<Rightarrow> string \<times> json \<Rightarrow> string" where
  "member_text a kv = quote a (fst kv) @ CHR '':'' # json_text a (snd kv)"

lemma json_text_JObj:
  "json_text a (JObj kvs) = CHR ''{'' # join '','' (map (member_text a) kvs) @ ''}''"
proof -
  have "map (\<lambda>(k, t). quote a k @ CHR '':'' # t) (map (map_prod id (json_text a)) kvs)
      = map (member_text a) kvs"
    by (auto simp: member_text_def)
  then show ?thesis by (simp only: json_text.simps)
qed

lemma member_text_head: "member_text a kv \<noteq> [] \<and> \<not> stop [hd (member_text a kv)]"
  by (simp add: member_text_def quote_def stop_def)

lemma member_prefix:
  assumes "prefix_code (json_text a) v encodable"
  shows "prefix_code (member_text a) (k, v) (\<lambda>kv. encodable (snd kv))"
  unfolding prefix_code_def member_text_def
proof (intro allI impI)
  fix y r r'
  assume y: "encodable (snd y)" "stop r" "stop r'"
    and eq: "(quote a (fst (k, v)) @ CHR '':'' # json_text a (snd (k, v))) @ r
      = (quote a (fst y) @ CHR '':'' # json_text a (snd y)) @ r'"
  then have "k = fst y" "json_text a v @ r = json_text a (snd y) @ r'"
    using quote_prefix [of a k "CHR '':'' # json_text a v @ r" "fst y"] by auto
  with prefix_codeD [OF assms y(1)] y show "(k, v) = y \<and> r = r'" by (metis prod.collapse)
qed

lemma json_text_prefix: "encodable v \<Longrightarrow> prefix_code (json_text a) v encodable"
proof (induction v)
  case (JList xs)
  show ?case unfolding prefix_code_def
  proof (intro allI impI)
    fix w r r'
    assume w: "encodable w" and eq: "json_text a (JList xs) @ r = json_text a w @ r'"
    then have "value_kind w = 5" using json_text_kind [OF JList.prems w eq] by simp
    then obtain ys where ys: "w = JList ys" by (cases w) (auto split: if_splits)
    have "\<forall>x \<in> set xs. prefix_code (json_text a) x encodable"
      using JList by (simp add: list_all_iff)
    moreover have "\<forall>y \<in> set ys. encodable y" using w ys by (simp add: list_all_iff)
    moreover have "\<forall>x \<in> set xs \<union> set ys. json_text a x \<noteq> [] \<and> \<not> stop [hd (json_text a x)]"
      using JList.prems w ys json_text_head [of _ a] by (fastforce simp: list_all_iff)
    moreover have "join '','' (map (json_text a) xs) @ CHR '']'' # r
        = join '','' (map (json_text a) ys) @ CHR '']'' # r'" using eq ys by simp
    ultimately show "JList xs = w \<and> r = r'"
      using join_prefix [of xs "json_text a" encodable ys "CHR '']''" r r'] ys by simp
  qed
next
  case (JObj kvs)
  show ?case unfolding prefix_code_def
  proof (intro allI impI)
    fix w r r'
    assume w: "encodable w" and eq: "json_text a (JObj kvs) @ r = json_text a w @ r'"
    then have "value_kind w = 6" using json_text_kind [OF JObj.prems w eq] by simp
    then obtain ys where ys: "w = JObj ys" by (cases w) (auto split: if_splits)
    have "prefix_code (member_text a) kv (\<lambda>kv. encodable (snd kv))" if "kv \<in> set kvs" for kv
      using JObj.IH [of kv "snd kv"] JObj.prems that member_prefix [of a "snd kv" "fst kv"]
      by (auto simp: list_all_iff snds.simps)
    moreover have "\<forall>y \<in> set ys. encodable (snd y)" using w ys by (simp add: list_all_iff)
    moreover have "join '','' (map (member_text a) kvs) @ CHR ''}'' # r
        = join '','' (map (member_text a) ys) @ CHR ''}'' # r'"
      using eq ys by (simp only: json_text_JObj) simp
    ultimately show "JObj kvs = w \<and> r = r'"
      using join_prefix [of kvs "member_text a" "\<lambda>kv. encodable (snd kv)" ys "CHR ''}''" r r']
        member_text_head ys by blast
  qed
next
  case (JInt i)
  show ?case unfolding prefix_code_def
  proof (intro allI impI)
    fix w r r'
    assume w: "encodable w" "stop r" "stop r'" and eq: "json_text a (JInt i) @ r = json_text a w @ r'"
    then have "value_kind w = 3" using json_text_kind [OF JInt.prems w(1) eq] by simp
    then consider j where "w = JInt j" | s where "w = JFloat s" by (cases w) (auto split: if_splits)
    then show "JInt i = w \<and> r = r'"
    proof cases
      case 1
      with eq w numeral_prefix [of "show_int i" "show_int j" r r'] show ?thesis
        by (auto dest: show_int_numeral show_int_inj)
    next
      case 2
      with eq w numeral_prefix [of "show_int i" s r r'] show_int_no_point [of i] show ?thesis
        by (auto simp: float_repr_def dest: show_int_numeral)
    qed
  qed
next
  case (JFloat s)
  show ?case unfolding prefix_code_def
  proof (intro allI impI)
    fix w r r'
    assume w: "encodable w" "stop r" "stop r'" and eq: "json_text a (JFloat s) @ r = json_text a w @ r'"
    then have "value_kind w = 3" using json_text_kind [OF JFloat.prems w(1) eq] by simp
    then consider j where "w = JInt j" | t where "w = JFloat t" by (cases w) (auto split: if_splits)
    then show "JFloat s = w \<and> r = r'"
    proof cases
      case 1
      with JFloat.prems eq w numeral_prefix [of s "show_int j" r r'] show_int_no_point [of j]
      show ?thesis by (auto simp: float_repr_def dest: show_int_numeral)
    next
      case 2
      with JFloat.prems eq w numeral_prefix [of s t r r'] show ?thesis
        by (auto simp: float_repr_def)
    qed
  qed
next
  case (JStr s)
  show ?case unfolding prefix_code_def
  proof (intro allI impI)
    fix w r r'
    assume w: "encodable w" and eq: "json_text a (JStr s) @ r = json_text a w @ r'"
    then have "value_kind w = 4" using json_text_kind [OF JStr.prems w eq] by simp
    then obtain t where "w = JStr t" by (cases w) (auto split: if_splits)
    with eq show "JStr s = w \<and> r = r'" by (auto dest: quote_prefix)
  qed
next
  case JNull
  show ?case unfolding prefix_code_def
  proof (intro allI impI)
    fix w r r'
    assume w: "encodable w" and eq: "json_text a JNull @ r = json_text a w @ r'"
    then have "value_kind w = 0" using json_text_kind [of JNull w a r r'] by simp
    then have "w = JNull" by (cases w) (auto split: if_splits)
    with eq show "JNull = w \<and> r = r'" by auto
  qed
next
  case (JBool b)
  show ?case unfolding prefix_code_def
  proof (intro allI impI)
    fix w r r'
    assume w: "encodable w" and eq: "json_text a (JBool b) @ r = json_text a w @ r'"
    then have "value_kind w = (if b then 1 else 2)" using json_text_kind [of "JBool b" w a r r'] by simp
    then have "w = JBool b" by (cases w) (auto split: if_splits)
    with eq show "JBool b = w \<and> r = r'" by auto
  qed
qed simp_all

lemma json_text_inj:
  "encodable v \<Longrightarrow> encodable w \<Longrightarrow> json_text a v = json_text a w \<Longrightarrow> v = w"
  using prefix_codeD [OF json_text_prefix, of v w a "[]" "[]"] by (simp add: stop_def)


section \<open>Canonical bytes\<close>

lemma utf8_char_cases:
  obtains "code_point c < 128" "utf8_char c = [c]"
    | "128 \<le> code_point c" "utf8_char c = [char_of (192 + code_point c div 64), char_of (128 + code_point c mod 64)]"
  by (cases "code_point c < 128") (auto simp: utf8_char_def Let_def)

lemma utf8_char_prefix: "utf8_char c @ r = utf8_char d @ r' \<Longrightarrow> c = d \<and> r = r'"
proof -
  assume eq: "utf8_char c @ r = utf8_char d @ r'"
  have lead: "code_point (char_of (192 + code_point c div 64)) = 192 + code_point c div 64" for c
    using code_point_less [of c] by (intro code_point_char_of) auto
  have trail: "code_point (char_of (128 + code_point c mod 64)) = 128 + code_point c mod 64" for c
    by (intro code_point_char_of) auto
  show ?thesis
  proof (cases c rule: utf8_char_cases; cases d rule: utf8_char_cases)
    assume "128 \<le> code_point c" "128 \<le> code_point d"
      "utf8_char c = [char_of (192 + code_point c div 64), char_of (128 + code_point c mod 64)]"
      "utf8_char d = [char_of (192 + code_point d div 64), char_of (128 + code_point d mod 64)]"
    with eq have "char_of (192 + code_point c div 64) = (char_of (192 + code_point d div 64) :: char)"
      "char_of (128 + code_point c mod 64) = (char_of (128 + code_point d mod 64) :: char)" "r = r'"
      by auto
    then have "192 + code_point c div 64 = 192 + code_point d div 64"
      "128 + code_point c mod 64 = 128 + code_point d mod 64"
      by (metis lead, metis trail)
    then have "code_point c = code_point d" by (metis add_left_cancel div_mult_mod_eq)
    with \<open>r = r'\<close> show ?thesis by (simp add: code_point_inj)
  qed (use eq lead in auto)
qed

lemma utf8_inj: "utf8 s = utf8 t \<Longrightarrow> s = t"
proof (induction s arbitrary: t)
  case Nil
  then show ?case by (cases t) (auto simp: utf8_def utf8_char_def Let_def split: if_splits)
next
  case (Cons c s)
  then obtain d u where t: "t = d # u"
    by (cases t) (auto simp: utf8_def utf8_char_def Let_def split: if_splits)
  with Cons.prems have "utf8_char c @ utf8 s = utf8_char d @ utf8 u" by (simp add: utf8_def)
  from utf8_char_prefix [OF this] Cons.IH t show ?case by simp
qed

fun floats_ok :: "json \<Rightarrow> bool" where
  "floats_ok (JFloat s) = float_repr s"
| "floats_ok (JList xs) = list_all floats_ok xs"
| "floats_ok (JObj kvs) = list_all (\<lambda>kv. floats_ok (snd kv)) kvs"
| "floats_ok _ = True"

lemma encodable_validate: "validate_json v = Inr () \<Longrightarrow> floats_ok v \<Longrightarrow> encodable v"
proof (induction v rule: validate_json.induct)
  case (7 xs)
  then show ?case
    by (auto simp: list_all_iff res_bind_eq_Inr dest: res_map_Inr_ex)
next
  case (8 kvs)
  then show ?case
    by (fastforce simp: list_all_iff res_bind_eq_Inr dest: res_map_Inr_ex)
qed simp_all

lemma encodable_sort_keys [simp]: "encodable (sort_keys v) = encodable v"
proof (induction v)
  case (JObj kvs)
  then show ?case by (force simp: list_all_iff snds.simps)
qed (auto simp: list_all_iff)

lemma canonical_bytes_Inr:
  assumes "canonical_bytes v = Inr b"
  shows "validate_json v = Inr ()" "b = utf8 (json_dumps False v)"
proof -
  show v: "validate_json v = Inr ()"
    using assms by (cases "validate_json v") (simp_all add: canonical_bytes_def)
  show "b = utf8 (json_dumps False v)"
    using assms v by (simp add: canonical_bytes_def Let_def split: if_splits)
qed

theorem canonical_bytes_inj:
  assumes "canonical_bytes v = Inr b" "canonical_bytes w = Inr b" "floats_ok v" "floats_ok w"
  shows "sort_keys v = sort_keys w"
proof -
  have enc: "encodable x \<and> b = utf8 (json_dumps False x)"
    if "canonical_bytes x = Inr b" "floats_ok x" for x
    using canonical_bytes_Inr [OF that(1)] encodable_validate that(2) by blast
  have "encodable (sort_keys v)" "encodable (sort_keys w)"
    using enc [OF assms(1,3)] enc [OF assms(2,4)] unfolding encodable_sort_keys by blast+
  moreover have "json_text False (sort_keys v) = json_text False (sort_keys w)"
  proof (rule utf8_inj)
    have "b = utf8 (json_text False (sort_keys v))" "b = utf8 (json_text False (sort_keys w))"
      using enc [OF assms(1,3)] enc [OF assms(2,4)] unfolding json_dumps_def by blast+
    then show "utf8 (json_text False (sort_keys v)) = utf8 (json_text False (sort_keys w))"
      by (rule subst)
  qed
  ultimately show ?thesis by (rule json_text_inj)
qed

text \<open>
  A digest binds its value as far as the hash does: equal digests of two values whose canonical
  bytes the hash keeps apart come from values equal up to key order.
\<close>

definition collision_free_on :: "(string \<Rightarrow> string) \<Rightarrow> json set \<Rightarrow> bool" where
  "collision_free_on H V \<longleftrightarrow> (\<forall>v \<in> V. \<forall>w \<in> V. \<forall>a b.
     canonical_bytes v = Inr a \<longrightarrow> canonical_bytes w = Inr b \<longrightarrow> H a = H b \<longrightarrow> a = b)"

lemma digest_binds:
  assumes "digest H v = Inr d" "digest H w = Inr d" "collision_free_on H {v, w}"
    and "floats_ok v" "floats_ok w"
  shows "sort_keys v = sort_keys w"
proof -
  obtain a where a: "canonical_bytes v = Inr a" "H a = d"
    using assms(1) by (cases "canonical_bytes v") (simp_all add: digest_def)
  obtain b where b: "canonical_bytes w = Inr b" "H b = d"
    using assms(2) by (cases "canonical_bytes w") (simp_all add: digest_def)
  have "H a = H b" using a(2) b(2) by (rule trans [OF _ sym])
  then have "a = b" using assms(3) a(1) b(1) unfolding collision_free_on_def by blast
  then show ?thesis using canonical_bytes_inj [OF a(1) _ assms(4,5)] b(1) by blast
qed

lemma dumps_error_encodable:
  "dumps_error v = None \<Longrightarrow> floats_ok v \<Longrightarrow> encodable v"
proof (induction v rule: dumps_error.induct)
  case (3 xs)
  have keep: "fold (\<lambda>x acc. case acc of None \<Rightarrow> dumps_error x | Some e \<Rightarrow> Some e) ys (Some e) = Some e"
    for ys e by (induction ys) simp_all
  have "fold (\<lambda>x acc. case acc of None \<Rightarrow> dumps_error x | Some e \<Rightarrow> Some e) ys None = None
      \<Longrightarrow> \<forall>x \<in> set ys. dumps_error x = None" for ys
  proof (induction ys)
    case (Cons y ys)
    then show ?case by (cases "dumps_error y") (simp_all add: keep)
  qed simp
  with 3 show ?case by (simp add: list_all_iff)
next
  case (4 kvs)
  have keep: "fold (\<lambda>kv acc. case acc of None \<Rightarrow> dumps_error (snd kv) | Some e \<Rightarrow> Some e) ys (Some e) = Some e"
    for ys :: "(string \<times> json) list" and e by (induction ys) simp_all
  have "fold (\<lambda>kv acc. case acc of None \<Rightarrow> dumps_error (snd kv) | Some e \<Rightarrow> Some e) ys None = None
      \<Longrightarrow> \<forall>kv \<in> set ys. dumps_error (snd kv) = None" for ys :: "(string \<times> json) list"
  proof (induction ys)
    case (Cons y ys)
    then show ?case by (cases "dumps_error (snd y)") (simp_all add: keep)
  qed simp
  with 4 show ?case by (force simp: list_all_iff)
qed simp_all

lemma floats_ok_sort_keys: "floats_ok (sort_keys v) = floats_ok v"
proof (induction v)
  case (JObj kvs)
  then show ?case by (force simp: list_all_iff snds.simps)
qed (auto simp: list_all_iff)

text \<open>The same for the ASCII profile of \<open>digest_payload\<close>.\<close>

definition payload_bytes :: "json \<Rightarrow> string" where
  "payload_bytes v = utf8 (json_dumps True v)"

lemma digest_payload_Inr:
  "digest_payload H v = Inr d \<Longrightarrow> dumps_error (sort_keys v) = None \<and> d = H (payload_bytes v)"
  by (auto simp: digest_payload_def payload_bytes_def split: option.splits)

lemma digest_payload_binds:
  assumes "digest_payload H v = Inr d" "digest_payload H w = Inr d"
    and "inj_on H {payload_bytes v, payload_bytes w}" "floats_ok v" "floats_ok w"
  shows "sort_keys v = sort_keys w"
proof -
  have v: "encodable (sort_keys v)" "d = H (payload_bytes v)"
    using digest_payload_Inr [OF assms(1)] dumps_error_encodable assms(4)
    by (simp_all add: floats_ok_sort_keys del: encodable_sort_keys)
  have w: "encodable (sort_keys w)" "d = H (payload_bytes w)"
    using digest_payload_Inr [OF assms(2)] dumps_error_encodable assms(5)
    by (simp_all add: floats_ok_sort_keys del: encodable_sort_keys)
  have "H (payload_bytes v) = H (payload_bytes w)" using v(2) w(2) by (rule trans [OF sym])
  with assms(3) have "payload_bytes v = payload_bytes w" by (rule inj_onD) simp_all
  then have "json_text True (sort_keys v) = json_text True (sort_keys w)"
    unfolding payload_bytes_def json_dumps_def by (rule utf8_inj)
  with v(1) w(1) show ?thesis by (rule json_text_inj)
qed

text \<open>Values that agree after sorting keys look alike member by member.\<close>

definition sorted_members :: "json dict \<Rightarrow> json dict" where
  "sorted_members d = sort_key fst (map (map_prod id sort_keys) d)"

lemma sort_keys_JObj: "sort_keys (JObj d) = JObj (sorted_members d)"
  by (simp add: sorted_members_def)

lemma dict_get_sorted_members:
  assumes "distinct (dict_keys d)"
  shows "dict_get (sorted_members d) k = map_option sort_keys (dict_get d k)"
proof -
  let ?m = "map (map_prod id sort_keys) d"
  have keys: "map fst ?m = map fst d" by (induction d) auto
  with assms have "distinct (map fst ?m)" by simp
  moreover have "distinct (map fst (sort_key fst ?m))"
    using \<open>distinct (map fst ?m)\<close> distinct_map by (metis distinct_sort set_sort)
  ultimately have "map_of (sort_key fst ?m) = map_of ?m" by (simp add: map_of_inject_set)
  moreover have "map_of ?m k = map_option sort_keys (map_of d k)" by (induction d) auto
  ultimately show ?thesis by (simp add: sorted_members_def)
qed

lemma sort_keys_JObj_get:
  assumes "sort_keys (JObj d) = sort_keys (JObj e)" "distinct (dict_keys d)" "distinct (dict_keys e)"
  shows "map_option sort_keys (dict_get d k) = map_option sort_keys (dict_get e k)"
proof -
  from assms(1) have "sorted_members d = sorted_members e" by (simp add: sort_keys_JObj del: sort_keys.simps)
  then show ?thesis
    using dict_get_sorted_members [OF assms(2), of k] dict_get_sorted_members [OF assms(3), of k] by simp
qed

lemma insort_key_map:
  "(\<And>y. f (g y) = f y) \<Longrightarrow> map g (insort_key f x xs) = insort_key f (g x) (map g xs)"
  by (induction xs) simp_all

lemma sort_key_map: "(\<And>y. f (g y) = f y) \<Longrightarrow> map g (sort_key f xs) = sort_key f (map g xs)"
  by (induction xs) (simp_all add: insort_key_map)

lemma sort_keys_idem [simp]: "sort_keys (sort_keys v) = sort_keys v"
proof (induction v)
  case (JObj kvs)
  let ?g = "map_prod id sort_keys :: string \<times> json \<Rightarrow> string \<times> json"
  have "map ?g (map ?g kvs) = map ?g kvs"
    using JObj by (auto simp: snds.simps)
  moreover have "map ?g (sort_key fst (map ?g kvs)) = sort_key fst (map ?g (map ?g kvs))"
    by (rule sort_key_map) (simp add: case_prod_unfold)
  ultimately have "map ?g (sort_key fst (map ?g kvs)) = sort_key fst (map ?g kvs)" by (simp only:)
  then show ?case by (simp only: sort_keys.simps) (simp only: sort_key_id_if_sorted sorted_sort_key)
qed (simp_all add: comp_def)

lemma digest_payload_sort_keys: "digest_payload H (sort_keys v) = digest_payload H v"
  unfolding digest_payload_def json_dumps_def sort_keys_idem ..

end
