(* ===== verification/Evidence.thy ===== *)
theory Evidence
  imports ToolRequests JsonEncoding
begin

text \<open>
  \<open>live_gateway/models.py\<close> and \<open>live_gateway/evidence.py\<close>: the exact action subject, the evidence
  policy, a signed artifact, the store that loads and verifies artifacts, and the combined
  evaluation. HMAC-SHA256 and \<open>json.loads\<close> are parameters; the evidence directory is a map
  from evidence ids to the file behind \<open><id>.json\<close>.
\<close>

section \<open>The authority subject\<close>

record authority_subject =
  subject_agent_id :: string
  subject_tool_name :: string
  subject_capability :: string
  subject_repository_id :: string
  subject_revision :: string
  subject_path :: string
  arguments_digest :: string
  authority_context_digest :: string
  subject_protocol :: string
  subject_metadata :: "json dict"

definition authority_subject_init :: "authority_subject \<Rightarrow> authority_subject res" where
  "authority_subject_init s =
     res_bind (normalize_text ''agent_id'' (subject_agent_id s)) (\<lambda>aid.
     res_bind (normalize_text ''tool_name'' (subject_tool_name s)) (\<lambda>tool.
     res_bind (normalize_text ''capability'' (subject_capability s)) (\<lambda>cap.
     res_bind (normalize_optional_text ''repository_id'' (subject_repository_id s)) (\<lambda>repo.
     res_bind (normalize_optional_text ''revision'' (subject_revision s)) (\<lambda>rev_id.
     res_bind (if \<not> blank (subject_path s) then normalize_relative_path (subject_path s) else Inr [])
       (\<lambda>path.
     res_bind (normalize_text ''arguments_digest'' (arguments_digest s)) (\<lambda>args.
     res_bind (normalize_text ''authority_context_digest'' (authority_context_digest s)) (\<lambda>ctx.
     if \<not> is_sha256 args
     then Inl (ValueError ''arguments_digest must be a lowercase SHA-256 digest.'')
     else if \<not> is_sha256 ctx
     then Inl (ValueError ''authority_context_digest must be a lowercase SHA-256 digest.'')
     else res_bind (normalize_text ''protocol'' (subject_protocol s)) (\<lambda>proto.
       Inr (s\<lparr>subject_agent_id := aid, subject_tool_name := tool, subject_capability := cap,
              subject_repository_id := repo, subject_revision := rev_id, subject_path := path,
              arguments_digest := args, authority_context_digest := ctx,
              subject_protocol := proto\<rparr>))))))))))"

definition authority_subject_body :: "authority_subject \<Rightarrow> json dict" where
  "authority_subject_body s =
     [(''schema_version'', JStr ''wave14.authority_subject.v1''),
      (''agent_id'', JStr (subject_agent_id s)),
      (''tool_name'', JStr (subject_tool_name s)),
      (''capability'', JStr (subject_capability s)),
      (''repository_id'', JStr (subject_repository_id s)),
      (''revision'', JStr (subject_revision s)),
      (''path'', JStr (subject_path s)),
      (''arguments_digest'', JStr (arguments_digest s)),
      (''authority_context_digest'', JStr (authority_context_digest s)),
      (''protocol'', JStr (subject_protocol s)),
      (''metadata'', JObj (subject_metadata s))]"

definition subject_digest :: "(string \<Rightarrow> string) \<Rightarrow> authority_subject \<Rightarrow> string res" where
  "subject_digest H s = digest_payload H (JObj (authority_subject_body s))"

definition authority_subject_dict :: "(string \<Rightarrow> string) \<Rightarrow> authority_subject \<Rightarrow> json res" where
  "authority_subject_dict H s = with_digest H (authority_subject_body s)"

section \<open>Issuers and policies\<close>

record trusted_issuer =
  issuer_name :: string
  issuer_key_id :: string
  issuer_secret_env :: string
  issuer_allowed_kinds :: "string list"

text \<open>\<open>tuple(sorted({value.strip() for value in values if value.strip()}))\<close>\<close>

definition stripped_set :: "string list \<Rightarrow> string list" where
  "stripped_set xs = sorted_set (map strip (filter (\<lambda>x. \<not> blank x) xs))"

definition trusted_issuer_init :: "trusted_issuer \<Rightarrow> trusted_issuer res" where
  "trusted_issuer_init t =
     (if blank (issuer_name t) \<or> blank (issuer_key_id t) \<or> blank (issuer_secret_env t)
      then Inl (ValueError ''TrustedEvidenceIssuer fields must not be empty.'')
      else let kinds = stripped_set (issuer_allowed_kinds t) in
      if kinds = []
      then Inl (ValueError ''TrustedEvidenceIssuer allowed_kinds must not be empty.'')
      else Inr (t\<lparr>issuer_allowed_kinds := kinds\<rparr>))"

record evidence_policy =
  policy_id :: string
  required_kinds :: "string list"
  human_approval_kind :: string
  target_bound_kinds :: "string list"
  single_use_kinds :: "string list"
  accepted_statuses :: "string list"
  allowed_issuers :: "string list"
  human_approval_issuers :: "string list"
  max_age_seconds :: int
  require_signature :: bool
  require_repository_match :: bool
  require_revision_match :: bool

definition evidence_policy_init :: "evidence_policy \<Rightarrow> evidence_policy res" where
  "evidence_policy_init raw =
     (if blank (policy_id raw)
      then Inl (ValueError ''EvidencePolicy policy_id must not be empty.'')
      else let p = raw\<lparr>required_kinds := stripped_set (required_kinds raw),
             target_bound_kinds := stripped_set (target_bound_kinds raw),
             single_use_kinds := stripped_set (single_use_kinds raw),
             accepted_statuses := stripped_set (accepted_statuses raw),
             allowed_issuers := stripped_set (allowed_issuers raw),
             human_approval_issuers := stripped_set (human_approval_issuers raw),
             human_approval_kind := strip (human_approval_kind raw)\<rparr> in
      if human_approval_kind p \<noteq> [] \<and> \<not> require_signature p
      then Inl (ValueError ''Human approval evidence must require signatures.'')
      else if human_approval_kind p \<noteq> [] \<and> human_approval_kind p \<notin> set (target_bound_kinds p)
      then Inl (ValueError ''Human approval evidence must be exact-subject bound.'')
      else if human_approval_kind p \<noteq> [] \<and> human_approval_issuers p = []
      then Inl (ValueError ''Human approval evidence must name trusted human approval issuers.'')
      else if human_approval_kind p \<noteq> [] \<and> human_approval_kind p \<notin> set (single_use_kinds p)
      then Inl (ValueError ''Human approval evidence must be single-use to prevent replay.'')
      else if human_approval_kind p \<noteq> [] \<and> allowed_issuers p \<noteq> []
        \<and> \<not> list_all (\<lambda>i. i \<in> set (allowed_issuers p)) (human_approval_issuers p)
      then Inl (ValueError ''human_approval_issuers must be included in allowed_issuers.'')
      else if \<not> list_all (\<lambda>k. k \<in> set (target_bound_kinds p)) (single_use_kinds p)
      then Inl (ValueError ''single_use_kinds must also be exact-subject target_bound_kinds.'')
      else if max_age_seconds p \<le> 0
      then Inl (ValueError ''EvidencePolicy max_age_seconds must be positive.'')
      else Inr p)"

definition no_evidence_policy :: "string \<Rightarrow> evidence_policy res" where
  "no_evidence_policy pid = evidence_policy_init
     \<lparr>policy_id = pid, required_kinds = [], human_approval_kind = [], target_bound_kinds = [],
      single_use_kinds = [], accepted_statuses = [''passed'', ''approved'', ''verified''],
      allowed_issuers = [], human_approval_issuers = [], max_age_seconds = 86400,
      require_signature = False, require_repository_match = False,
      require_revision_match = False\<rparr>"

section \<open>Artifacts\<close>

record evidence_artifact =
  evidence_id :: string
  evidence_kind :: string
  evidence_issuer :: string
  evidence_key_id :: string
  evidence_status :: string
  evidence_repository_id :: string
  evidence_revision :: string
  produced_at :: string
  target_digest :: string
  evidence_payload :: "json dict"
  evidence_digest :: string
  evidence_signature :: string

text \<open>\<open>[A-Za-z0-9][A-Za-z0-9._:-]{2,127}\<close>, matched in full.\<close>

definition evidence_id_ok :: "string \<Rightarrow> bool" where
  "evidence_id_ok s = (case s of [] \<Rightarrow> False
     | c # r \<Rightarrow> is_ascii_alnum c \<and> 2 \<le> length r \<and> length r \<le> 127
         \<and> list_all (\<lambda>d. is_ascii_alnum d \<or> d \<in> {CHR ''.'', CHR ''_'', CHR '':'', CHR ''-''}) r)"

definition parse_timestamp :: "iso_parser \<Rightarrow> string \<Rightarrow> int res" where
  "parse_timestamp parse s =
     res_bind (fromisoformat parse (replace_zulu s)) (\<lambda>d.
     case d of
       Naive _ \<Rightarrow> Inl (ValueError ''Evidence produced_at must be timezone-aware.'')
     | Aware t \<Rightarrow> Inr t)"

definition evidence_artifact_init :: "iso_parser \<Rightarrow> evidence_artifact \<Rightarrow> evidence_artifact res" where
  "evidence_artifact_init parse a =
     (if \<not> evidence_id_ok (evidence_id a) then Inl (ValueError ''Invalid evidence_id.'')
      else if blank (evidence_kind a) then Inl (ValueError ''kind must not be empty.'')
      else if blank (evidence_issuer a) then Inl (ValueError ''issuer must not be empty.'')
      else if blank (evidence_key_id a) then Inl (ValueError ''key_id must not be empty.'')
      else if blank (evidence_status a) then Inl (ValueError ''status must not be empty.'')
      else if blank (evidence_repository_id a) then Inl (ValueError ''repository_id must not be empty.'')
      else if blank (evidence_revision a) then Inl (ValueError ''revision must not be empty.'')
      else if blank (produced_at a) then Inl (ValueError ''produced_at must not be empty.'')
      else if target_digest a \<noteq> [] \<and> \<not> is_sha256 (target_digest a)
      then Inl (ValueError ''target_digest must be a lowercase SHA-256 digest.'')
      else if evidence_digest a \<noteq> [] \<and> \<not> is_sha256 (evidence_digest a)
      then Inl (ValueError ''digest must be a lowercase SHA-256 digest.'')
      else if evidence_signature a \<noteq> [] \<and> \<not> is_sha256 (evidence_signature a)
      then Inl (ValueError ''signature must be a lowercase HMAC-SHA256 value.'')
      else res_bind (parse_timestamp parse (produced_at a)) (\<lambda>_. Inr a))"

definition unsigned_payload :: "evidence_artifact \<Rightarrow> json dict" where
  "unsigned_payload a =
     [(''schema_version'', JStr ''wave14.authority_evidence.v1''),
      (''evidence_id'', JStr (evidence_id a)),
      (''kind'', JStr (evidence_kind a)),
      (''issuer'', JStr (evidence_issuer a)),
      (''key_id'', JStr (evidence_key_id a)),
      (''status'', JStr (evidence_status a)),
      (''repository_id'', JStr (evidence_repository_id a)),
      (''revision'', JStr (evidence_revision a)),
      (''produced_at'', JStr (produced_at a)),
      (''target_digest'', JStr (target_digest a)),
      (''payload'', JObj (evidence_payload a))]"

definition computed_digest :: "(string \<Rightarrow> string) \<Rightarrow> evidence_artifact \<Rightarrow> string res" where
  "computed_digest H a = digest_payload H (JObj (unsigned_payload a))"

definition evidence_artifact_dict :: "(string \<Rightarrow> string) \<Rightarrow> evidence_artifact \<Rightarrow> json res" where
  "evidence_artifact_dict H a =
     res_bind (if evidence_digest a \<noteq> [] then Inr (evidence_digest a) else computed_digest H a) (\<lambda>d.
       Inr (JObj (unsigned_payload a
         @ [(''digest'', JStr d), (''signature'', JStr (evidence_signature a))])))"

text \<open>\<open>_text\<close>\<close>

definition evidence_text :: "py_runtime \<Rightarrow> json dict \<Rightarrow> string \<Rightarrow> string res" where
  "evidence_text rt d k =
     (case filled_text (dict_get d k) of
        Some s \<Rightarrow> Inr (strip s)
      | None \<Rightarrow> Inl (ValueError (''Evidence field '' @ py_repr rt (JStr k)
                  @ '' must be a non-empty string.'')))"

definition evidence_artifact_from_mapping ::
  "py_runtime \<Rightarrow> iso_parser \<Rightarrow> json dict \<Rightarrow> evidence_artifact res" where
  "evidence_artifact_from_mapping rt parse d =
     (if dict_get d ''schema_version'' \<noteq> Some (JStr ''wave14.authority_evidence.v1'')
      then Inl (ValueError ''Unsupported Wave 14 evidence schema_version.'')
      else case dict_get_or d ''payload'' (JObj []) of
        JObj payload \<Rightarrow>
          res_bind (evidence_text rt d ''evidence_id'') (\<lambda>eid.
          res_bind (evidence_text rt d ''kind'') (\<lambda>kind.
          res_bind (evidence_text rt d ''issuer'') (\<lambda>issuer.
          res_bind (evidence_text rt d ''key_id'') (\<lambda>key.
          res_bind (evidence_text rt d ''status'') (\<lambda>status.
          res_bind (evidence_text rt d ''repository_id'') (\<lambda>repo.
          res_bind (evidence_text rt d ''revision'') (\<lambda>rev_id.
          res_bind (evidence_text rt d ''produced_at'') (\<lambda>at.
          res_bind (evidence_text rt d ''digest'') (\<lambda>dg.
          evidence_artifact_init parse
            \<lparr>evidence_id = eid, evidence_kind = kind, evidence_issuer = issuer,
             evidence_key_id = key, evidence_status = status, evidence_repository_id = repo,
             evidence_revision = rev_id, produced_at = at,
             target_digest = py_str rt (dict_get_or d ''target_digest'' (JStr [])),
             evidence_payload = payload, evidence_digest = dg,
             evidence_signature = py_str rt (dict_get_or d ''signature'' (JStr []))\<rparr>)))))))))
      | _ \<Rightarrow> Inl (ValueError ''Evidence payload must be an object.''))"

text \<open>\<open>issue_signed_evidence\<close>: the same fields twice, the second time with digest and signature.\<close>

definition issue_signed_evidence ::
  "(string \<Rightarrow> string) \<Rightarrow> (string \<Rightarrow> string \<Rightarrow> string) \<Rightarrow> iso_parser \<Rightarrow> string \<Rightarrow> evidence_artifact
    \<Rightarrow> evidence_artifact res" where
  "issue_signed_evidence H hmac parse secret raw =
     res_bind (evidence_artifact_init parse (raw\<lparr>evidence_digest := [], evidence_signature := []\<rparr>))
       (\<lambda>unsigned.
     res_bind (computed_digest H unsigned) (\<lambda>d.
       evidence_artifact_init parse
         (unsigned\<lparr>evidence_digest := d, evidence_signature := hmac secret d\<rparr>)))"

section \<open>The store\<close>

text \<open>
  What stands behind a path of the evidence root: a regular file with its text and size, or a
  link whose target lies outside the root, which \<open>_path_for\<close> refuses after \<open>resolve\<close>.
\<close>

datatype evidence_file = EvidenceFile nat string | LinkOutside

record evidence_store =
  evidence_files :: "(string \<times> evidence_file) list"
  trusted_keys :: "((string \<times> string) \<times> string) list"
  trusted_issuer_kinds :: "((string \<times> string) \<times> string list) list"
  max_evidence_bytes :: int

definition evidence_store_init :: "evidence_store \<Rightarrow> evidence_store res" where
  "evidence_store_init s =
     (if max_evidence_bytes s \<le> 0
      then Inl (ValueError ''max_evidence_bytes must be positive.'')
      else Inr (s\<lparr>trusted_issuer_kinds :=
             map (\<lambda>kv. (fst kv, sorted_set (snd kv))) (trusted_issuer_kinds s)\<rparr>))"

text \<open>\<open>json.loads\<close> of a text; None is \<open>JSONDecodeError\<close>, a \<open>ValueError\<close>.\<close>

type_synonym json_loads = "string \<Rightarrow> json option"

definition load_evidence ::
  "py_runtime \<Rightarrow> iso_parser \<Rightarrow> json_loads \<Rightarrow> evidence_store \<Rightarrow> string \<Rightarrow> evidence_artifact res" where
  "load_evidence rt parse loads st eid =
     (if \<not> evidence_id_ok eid then Inl (ValueError ''Invalid evidence id.'')
      else case map_of (evidence_files st) eid of
        None \<Rightarrow> Inl (OSError ''No such file or directory'')
      | Some LinkOutside \<Rightarrow> Inl (ValueError ''Evidence path escaped the configured evidence root.'')
      | Some (EvidenceFile bytes content) \<Rightarrow>
          if max_evidence_bytes st < int bytes
          then Inl (ValueError ''Evidence artifact exceeded the configured size limit.'')
          else case loads content of
            None \<Rightarrow> Inl (ValueError ''Expecting value'')
          | Some (JObj d) \<Rightarrow> evidence_artifact_from_mapping rt parse d
          | Some _ \<Rightarrow> Inl (ValueError ''Evidence artifact root must be an object.''))"

record evidence_issue =
  issue_code :: string
  issue_summary :: string
  issue_evidence_id :: string
  issue_metadata :: "json dict"

record evidence_verification =
  verified_evidence_id :: string
  verified_kind :: string
  verified_issuer :: string
  verification_passed :: bool
  verified_digest :: string
  verified_status :: string
  verification_issues :: "evidence_issue list"

definition artifact_issue ::
  "evidence_artifact \<Rightarrow> string \<Rightarrow> string \<Rightarrow> json dict \<Rightarrow> evidence_issue" where
  "artifact_issue a code summary metadata =
     \<lparr>issue_code = code, issue_summary = summary, issue_evidence_id = evidence_id a,
      issue_metadata = metadata\<rparr>"

definition issue_if :: "bool \<Rightarrow> evidence_issue \<Rightarrow> evidence_issue list" where
  "issue_if b i = (if b then [i] else [])"

text \<open>The issues of an artifact that was loaded, in the order of the checks.\<close>

definition evidence_issues ::
  "(string \<Rightarrow> string) \<Rightarrow> (string \<Rightarrow> string \<Rightarrow> string) \<Rightarrow> py_runtime \<Rightarrow> iso_parser \<Rightarrow> evidence_store
    \<Rightarrow> string \<Rightarrow> authority_subject \<Rightarrow> evidence_policy \<Rightarrow> int \<Rightarrow> evidence_artifact
    \<Rightarrow> evidence_issue list res" where
  "evidence_issues H hmac rt parse st eid subject p now a =
     res_bind (computed_digest H a) (\<lambda>computed.
     let who = (evidence_issuer a, evidence_key_id a);
         allowed = (case map_of (trusted_issuer_kinds st) who of None \<Rightarrow> [] | Some ks \<Rightarrow> ks) in
     res_bind (if evidence_kind a \<in> set (target_bound_kinds p)
               then res_bind (subject_digest H subject) (\<lambda>sd. Inr (target_digest a \<noteq> sd))
               else Inr False) (\<lambda>unbound.
     res_bind (parse_timestamp parse (produced_at a)) (\<lambda>produced.
       let age = now - produced in
       Inr (issue_if (evidence_id a \<noteq> eid) (artifact_issue a ''evidence_id_mismatch''
              ''Evidence id does not match requested reference.'' [])
         @ issue_if (evidence_digest a \<noteq> computed) (artifact_issue a ''evidence_digest_mismatch''
              ''Evidence canonical digest is invalid.'' [])
         @ (if require_signature p
            then case map_of (trusted_keys st) who of
              None \<Rightarrow> [artifact_issue a ''evidence_issuer_untrusted''
                ''Evidence issuer/key is not trusted by the gateway.'' []]
            | Some key \<Rightarrow> issue_if (hmac key (evidence_digest a) \<noteq> evidence_signature a)
                (artifact_issue a ''evidence_signature_invalid'' ''Evidence HMAC signature is invalid.'' [])
            else [])
         @ issue_if (allowed \<noteq> [] \<and> evidence_kind a \<notin> set allowed)
             (artifact_issue a ''evidence_kind_not_allowed_for_issuer''
                ''Evidence issuer/key is not trusted to assert this evidence kind.''
                [(''allowed_kinds'', json_strs allowed)])
         @ issue_if (allowed_issuers p \<noteq> [] \<and> evidence_issuer a \<notin> set (allowed_issuers p))
             (artifact_issue a ''evidence_issuer_not_allowed''
                ''Evidence issuer is not allowed by this policy.'' [])
         @ issue_if (human_approval_kind p \<noteq> [] \<and> evidence_kind a = human_approval_kind p
               \<and> evidence_issuer a \<notin> set (human_approval_issuers p))
             (artifact_issue a ''human_approval_issuer_not_allowed''
                ''Human approval evidence was not issued by a configured human authority issuer.'' [])
         @ issue_if (lower (evidence_status a) \<notin> set (map lower (accepted_statuses p)))
             (artifact_issue a ''evidence_status_rejected''
                ''Evidence status is not accepted by policy.'' [])
         @ issue_if (require_repository_match p \<and> evidence_repository_id a \<noteq> subject_repository_id subject)
             (artifact_issue a ''evidence_repository_mismatch''
                ''Evidence repository does not match the authority subject.'' [])
         @ issue_if (require_revision_match p \<and> evidence_revision a \<noteq> subject_revision subject)
             (artifact_issue a ''evidence_revision_mismatch''
                ''Evidence revision does not match the authority subject.'' [])
         @ issue_if unbound
             (artifact_issue a ''evidence_target_mismatch''
                ''Evidence is not bound to the exact authority subject.'' [])
         @ (if age < seconds (- 300)
            then [artifact_issue a ''evidence_from_future''
                    ''Evidence timestamp is materially in the future.'' []]
            else issue_if (seconds (max_age_seconds p) < age)
              (artifact_issue a ''evidence_stale'' ''Evidence exceeds the configured maximum age.''
                 [(''age_seconds'', JFloat (py_total_seconds rt age))]))))))"

definition verify_one ::
  "(string \<Rightarrow> string) \<Rightarrow> (string \<Rightarrow> string \<Rightarrow> string) \<Rightarrow> py_runtime \<Rightarrow> iso_parser \<Rightarrow> json_loads
    \<Rightarrow> evidence_store \<Rightarrow> string \<Rightarrow> authority_subject \<Rightarrow> evidence_policy \<Rightarrow> int
    \<Rightarrow> (evidence_verification \<times> evidence_artifact option) res" where
  "verify_one H hmac rt parse loads st eid subject p now =
     (case load_evidence rt parse loads st eid of
        Inl e \<Rightarrow>
          if is_value_error e \<or> is_os_error e
          then Inr (\<lparr>verified_evidence_id = eid, verified_kind = [], verified_issuer = [],
                     verification_passed = False, verified_digest = [], verified_status = [],
                     verification_issues =
                       [\<lparr>issue_code = ''evidence_load_failed'',
                         issue_summary = ''Evidence could not be loaded: '' @ error_text e,
                         issue_evidence_id = eid, issue_metadata = []\<rparr>]\<rparr>, None)
          else Inl e
      | Inr a \<Rightarrow>
          res_bind (evidence_issues H hmac rt parse st eid subject p now a) (\<lambda>issues.
            Inr (\<lparr>verified_evidence_id = evidence_id a, verified_kind = evidence_kind a,
                  verified_issuer = evidence_issuer a, verification_passed = (issues = []),
                  verified_digest = evidence_digest a, verified_status = evidence_status a,
                  verification_issues = issues\<rparr>, Some a)))"

record evidence_evaluation =
  evaluated_policy_id :: string
  evaluated_required_kinds :: "string list"
  valid_evidence_ids :: "string list"
  missing_kinds :: "string list"
  human_approval_satisfied :: bool
  verifications :: "evidence_verification list"
  evaluation_issues :: "evidence_issue list"

definition evaluation_passed :: "evidence_evaluation \<Rightarrow> bool" where
  "evaluation_passed v = (missing_kinds v = [] \<and> evaluation_issues v = [])"

definition human_approval_artifact :: "py_runtime \<Rightarrow> evidence_artifact \<Rightarrow> bool" where
  "human_approval_artifact rt a =
     (let field = (\<lambda>k. strip (py_str rt (dict_get_or (evidence_payload a) k (JStr [])))) in
      lower (evidence_status a) = ''approved'' \<and> lower (field ''decision'') = ''approve''
      \<and> lower (field ''reviewer_kind'') = ''human'' \<and> field ''reviewer_id'' \<noteq> [])"

text \<open>\<open>valid_by_kind\<close> is the list of the valid artifacts; its entry for a kind is a filter of it.\<close>

definition passing_artifacts ::
  "(evidence_verification \<times> evidence_artifact option) list \<Rightarrow> evidence_artifact list" where
  "passing_artifacts results =
     map (\<lambda>x. the (snd x)) (filter (\<lambda>x. verification_passed (fst x) \<and> snd x \<noteq> None) results)"

definition artifacts_of_kind :: "string \<Rightarrow> evidence_artifact list \<Rightarrow> evidence_artifact list" where
  "artifacts_of_kind k as = filter (\<lambda>a. evidence_kind a = k) as"

definition missing_issue :: "string \<Rightarrow> evidence_issue" where
  "missing_issue k =
     \<lparr>issue_code = ''required_evidence_missing'',
      issue_summary = ''Required evidence kind is missing or invalid: '' @ k @ ''.'',
      issue_evidence_id = [], issue_metadata = []\<rparr>"

definition passing_ids :: "(evidence_verification \<times> evidence_artifact option) list \<Rightarrow> string list" where
  "passing_ids results =
     sort (map (\<lambda>x. verified_evidence_id (fst x)) (filter (\<lambda>x. verification_passed (fst x)) results))"

definition verify_many ::
  "(string \<Rightarrow> string) \<Rightarrow> (string \<Rightarrow> string \<Rightarrow> string) \<Rightarrow> py_runtime \<Rightarrow> iso_parser \<Rightarrow> json_loads
    \<Rightarrow> evidence_store \<Rightarrow> string list \<Rightarrow> authority_subject \<Rightarrow> evidence_policy \<Rightarrow> int
    \<Rightarrow> evidence_evaluation res" where
  "verify_many H hmac rt parse loads st eids subject p now =
     res_bind (res_map (\<lambda>eid. verify_one H hmac rt parse loads st eid subject p now) (uniq eids))
       (\<lambda>results.
     let valid = passing_artifacts results;
         missing = filter (\<lambda>k. artifacts_of_kind k valid = []) (required_kinds p)
     in Inr
       \<lparr>evaluated_policy_id = policy_id p, evaluated_required_kinds = required_kinds p,
        valid_evidence_ids = passing_ids results, missing_kinds = missing,
        human_approval_satisfied = (human_approval_kind p \<noteq> []
          \<and> list_ex (human_approval_artifact rt) (artifacts_of_kind (human_approval_kind p) valid)),
        verifications = map fst results, evaluation_issues = map missing_issue missing\<rparr>)"

definition empty_evidence_evaluation :: "string \<Rightarrow> evidence_evaluation" where
  "empty_evidence_evaluation pid =
     \<lparr>evaluated_policy_id = pid, evaluated_required_kinds = [], valid_evidence_ids = [],
      missing_kinds = [], human_approval_satisfied = False, verifications = [],
      evaluation_issues = []\<rparr>"

section \<open>What a passing artifact is\<close>

text \<open>The conditions of \<open>verify_one\<close>, without the report.\<close>

definition evidence_holds ::
  "(string \<Rightarrow> string) \<Rightarrow> (string \<Rightarrow> string \<Rightarrow> string) \<Rightarrow> iso_parser \<Rightarrow> evidence_store \<Rightarrow> string
    \<Rightarrow> authority_subject \<Rightarrow> evidence_policy \<Rightarrow> int \<Rightarrow> evidence_artifact \<Rightarrow> bool" where
  "evidence_holds H hmac parse st eid subject p now a \<longleftrightarrow>
     evidence_id a = eid
     \<and> computed_digest H a = Inr (evidence_digest a)
     \<and> (require_signature p \<longrightarrow>
          (\<exists>key. map_of (trusted_keys st) (evidence_issuer a, evidence_key_id a) = Some key
             \<and> hmac key (evidence_digest a) = evidence_signature a))
     \<and> (\<forall>ks. map_of (trusted_issuer_kinds st) (evidence_issuer a, evidence_key_id a) = Some ks
          \<longrightarrow> ks = [] \<or> evidence_kind a \<in> set ks)
     \<and> (allowed_issuers p = [] \<or> evidence_issuer a \<in> set (allowed_issuers p))
     \<and> (human_approval_kind p \<noteq> [] \<and> evidence_kind a = human_approval_kind p
          \<longrightarrow> evidence_issuer a \<in> set (human_approval_issuers p))
     \<and> lower (evidence_status a) \<in> lower ` set (accepted_statuses p)
     \<and> (require_repository_match p \<longrightarrow> evidence_repository_id a = subject_repository_id subject)
     \<and> (require_revision_match p \<longrightarrow> evidence_revision a = subject_revision subject)
     \<and> (evidence_kind a \<in> set (target_bound_kinds p) \<longrightarrow>
          subject_digest H subject = Inr (target_digest a))
     \<and> (\<exists>t. parse_timestamp parse (produced_at a) = Inr t \<and> now - seconds (max_age_seconds p) \<le> t
          \<and> t \<le> now + seconds 300)"

lemma issue_if_Nil [simp]: "issue_if b i = [] \<longleftrightarrow> \<not> b"
  by (simp add: issue_if_def)

lemma signature_issues_Nil:
  "(if req then case m of None \<Rightarrow> [i] | Some key \<Rightarrow> issue_if (f key) j else []) = []
     \<longleftrightarrow> (req \<longrightarrow> (\<exists>key. m = Some key \<and> \<not> f key))"
  by (cases m) simp_all

lemma age_issues_Nil: "(if b then [i] else issue_if c j) = [] \<longleftrightarrow> \<not> b \<and> \<not> c"
  by simp

lemma kinds_allowed:
  "\<not> ((case m of None \<Rightarrow> [] | Some ks \<Rightarrow> ks) \<noteq> [] \<and> k \<notin> set (case m of None \<Rightarrow> [] | Some ks \<Rightarrow> ks))
     \<longleftrightarrow> (\<forall>ks. m = Some ks \<longrightarrow> ks = [] \<or> k \<in> set ks)"
  by (cases m) auto

lemmas issues_Nil = append_is_Nil_conv issue_if_Nil signature_issues_Nil age_issues_Nil kinds_allowed

lemma evidence_issues_Nil_iff:
  "evidence_issues H hmac rt parse st eid subject p now a = Inr [] \<longleftrightarrow>
     (\<exists>computed unbound produced. computed_digest H a = Inr computed
        \<and> (if evidence_kind a \<in> set (target_bound_kinds p)
           then res_bind (subject_digest H subject) (\<lambda>sd. Inr (target_digest a \<noteq> sd))
           else Inr False) = Inr unbound
        \<and> parse_timestamp parse (produced_at a) = Inr produced
        \<and> evidence_id a = eid \<and> evidence_digest a = computed
        \<and> (require_signature p \<longrightarrow>
             (\<exists>key. map_of (trusted_keys st) (evidence_issuer a, evidence_key_id a) = Some key
                \<and> hmac key (evidence_digest a) = evidence_signature a))
        \<and> (\<forall>ks. map_of (trusted_issuer_kinds st) (evidence_issuer a, evidence_key_id a) = Some ks
             \<longrightarrow> ks = [] \<or> evidence_kind a \<in> set ks)
        \<and> (allowed_issuers p = [] \<or> evidence_issuer a \<in> set (allowed_issuers p))
        \<and> (human_approval_kind p \<noteq> [] \<and> evidence_kind a = human_approval_kind p
             \<longrightarrow> evidence_issuer a \<in> set (human_approval_issuers p))
        \<and> lower (evidence_status a) \<in> lower ` set (accepted_statuses p)
        \<and> (require_repository_match p \<longrightarrow> evidence_repository_id a = subject_repository_id subject)
        \<and> (require_revision_match p \<longrightarrow> evidence_revision a = subject_revision subject)
        \<and> \<not> unbound \<and> \<not> now - produced < seconds (- 300)
        \<and> \<not> seconds (max_age_seconds p) < now - produced)"
  unfolding evidence_issues_def Let_def res_bind_eq_Inr sum.inject issues_Nil set_map
  by blast

lemma unbound_iff:
  "(if k then res_bind m (\<lambda>sd. Inr (t \<noteq> sd)) else Inr False) = Inr False \<longleftrightarrow> (k \<longrightarrow> m = Inr t)"
  by (cases m) auto

lemma evidence_issues_Nil:
  "evidence_issues H hmac rt parse st eid subject p now a = Inr []
     \<longleftrightarrow> evidence_holds H hmac parse st eid subject p now a"
proof -
  have t: "(\<not> now - x < seconds (- 300) \<and> \<not> seconds (max_age_seconds p) < now - x)
      \<longleftrightarrow> (now - seconds (max_age_seconds p) \<le> x \<and> x \<le> now + seconds 300)" for x
    by (auto simp: seconds_def)
  show ?thesis
  proof
    assume "evidence_issues H hmac rt parse st eid subject p now a = Inr []"
    then obtain computed unbound produced where c: "computed_digest H a = Inr computed"
        "(if evidence_kind a \<in> set (target_bound_kinds p)
           then res_bind (subject_digest H subject) (\<lambda>sd. Inr (target_digest a \<noteq> sd))
           else Inr False) = Inr unbound" "\<not> unbound"
        "parse_timestamp parse (produced_at a) = Inr produced" "evidence_digest a = computed"
        "\<not> now - produced < seconds (- 300) \<and> \<not> seconds (max_age_seconds p) < now - produced"
      and rest: "evidence_id a = eid"
        "require_signature p \<longrightarrow>
             (\<exists>key. map_of (trusted_keys st) (evidence_issuer a, evidence_key_id a) = Some key
                \<and> hmac key (evidence_digest a) = evidence_signature a)"
        "\<forall>ks. map_of (trusted_issuer_kinds st) (evidence_issuer a, evidence_key_id a) = Some ks
             \<longrightarrow> ks = [] \<or> evidence_kind a \<in> set ks"
        "allowed_issuers p = [] \<or> evidence_issuer a \<in> set (allowed_issuers p)"
        "human_approval_kind p \<noteq> [] \<and> evidence_kind a = human_approval_kind p
             \<longrightarrow> evidence_issuer a \<in> set (human_approval_issuers p)"
        "lower (evidence_status a) \<in> lower ` set (accepted_statuses p)"
        "require_repository_match p \<longrightarrow> evidence_repository_id a = subject_repository_id subject"
        "require_revision_match p \<longrightarrow> evidence_revision a = subject_revision subject"
      unfolding evidence_issues_Nil_iff by (elim exE conjE) (rule that; (assumption | intro conjI))
    from c(2,3) have "evidence_kind a \<in> set (target_bound_kinds p) \<longrightarrow>
        subject_digest H subject = Inr (target_digest a)"
      by (simp only: unbound_iff [symmetric] HOL.simp_thms)
    moreover from c(1,5) have "computed_digest H a = Inr (evidence_digest a)" by simp
    moreover from c(4,6) t have "\<exists>x. parse_timestamp parse (produced_at a) = Inr x
        \<and> now - seconds (max_age_seconds p) \<le> x \<and> x \<le> now + seconds 300" by blast
    ultimately show "evidence_holds H hmac parse st eid subject p now a"
      unfolding evidence_holds_def by (intro conjI rest)
  next
    assume h: "evidence_holds H hmac parse st eid subject p now a"
    then obtain x where x: "parse_timestamp parse (produced_at a) = Inr x"
      "now - seconds (max_age_seconds p) \<le> x \<and> x \<le> now + seconds 300"
      unfolding evidence_holds_def by (elim conjE exE) (rule that, assumption, rule conjI, assumption+)
    from x(2) [folded t] have "\<not> now - x < seconds (- 300)"
      "\<not> seconds (max_age_seconds p) < now - x" by blast+
    moreover note x(1)
    moreover from h have "(if evidence_kind a \<in> set (target_bound_kinds p)
           then res_bind (subject_digest H subject) (\<lambda>sd. Inr (target_digest a \<noteq> sd))
           else Inr False) = Inr False"
      unfolding evidence_holds_def unbound_iff by (elim conjE)
    ultimately show "evidence_issues H hmac rt parse st eid subject p now a = Inr []"
      unfolding evidence_issues_Nil_iff
      apply (intro exI [of _ "evidence_digest a"] exI [of _ False] exI [of _ x])
      using h unfolding evidence_holds_def by (elim conjE) (intro conjI; (assumption | rule refl | rule not_False_eq_True [THEN eqTrueE]))
  qed
qed

lemma verify_one_cases:
  assumes "verify_one H hmac rt parse loads st eid subject p now = Inr (v, found)"
  shows "verification_passed v \<longleftrightarrow>
      (\<exists>a. found = Some a \<and> load_evidence rt parse loads st eid = Inr a
         \<and> evidence_issues H hmac rt parse st eid subject p now a = Inr [])"
    and "found = Some a \<Longrightarrow> load_evidence rt parse loads st eid = Inr a"
  using assms
  by (auto simp: verify_one_def res_simps split: sum.splits if_splits)

text \<open>A passing verification, seen from the artifact it found.\<close>

lemma verify_one_passed:
  assumes "verify_one H hmac rt parse loads st eid subject p now = Inr (v, found)"
    and "verification_passed v"
  obtains a where "found = Some a" "load_evidence rt parse loads st eid = Inr a"
    "evidence_holds H hmac parse st eid subject p now a" "verified_evidence_id v = eid"
proof -
  from verify_one_cases(1) [OF assms(1)] assms(2) obtain a where
    a: "found = Some a" "load_evidence rt parse loads st eid = Inr a"
      "evidence_issues H hmac rt parse st eid subject p now a = Inr []" by blast
  have h: "evidence_holds H hmac parse st eid subject p now a"
    using a(3) by (simp only: evidence_issues_Nil)
  moreover have "verified_evidence_id v = evidence_id a"
    using assms(1) a(2,3) by (auto simp: verify_one_def)
  ultimately show thesis using that a by (simp add: evidence_holds_def)
qed

definition valid_artifacts ::
  "(string \<Rightarrow> string) \<Rightarrow> (string \<Rightarrow> string \<Rightarrow> string) \<Rightarrow> py_runtime \<Rightarrow> iso_parser \<Rightarrow> json_loads
    \<Rightarrow> evidence_store \<Rightarrow> string list \<Rightarrow> authority_subject \<Rightarrow> evidence_policy \<Rightarrow> int
    \<Rightarrow> evidence_artifact set" where
  "valid_artifacts H hmac rt parse loads st eids subject p now =
     {a. \<exists>eid \<in> set eids. load_evidence rt parse loads st eid = Inr a
        \<and> evidence_holds H hmac parse st eid subject p now a}"

lemma verify_many_valid:
  assumes "verify_many H hmac rt parse loads st eids subject p now = Inr ev"
  obtains valid where
    "set valid \<subseteq> valid_artifacts H hmac rt parse loads st eids subject p now"
    "missing_kinds ev = filter (\<lambda>k. artifacts_of_kind k valid = []) (required_kinds p)"
    "human_approval_satisfied ev \<longleftrightarrow> human_approval_kind p \<noteq> []
       \<and> (\<exists>a \<in> set valid. evidence_kind a = human_approval_kind p \<and> human_approval_artifact rt a)"
    "evaluation_passed ev \<longleftrightarrow> missing_kinds ev = []"
    "set (valid_evidence_ids ev) = evidence_id ` set valid"
proof -
  from assms obtain results where
    r: "res_map (\<lambda>eid. verify_one H hmac rt parse loads st eid subject p now) (uniq eids) = Inr results"
    by (auto simp: verify_many_def res_simps)
  let ?valid = "passing_artifacts results"
  define good where "good = filter (\<lambda>x. verification_passed (fst x) \<and> snd x \<noteq> None) results"
  have valid: "?valid = map (\<lambda>x. the (snd x)) good" by (simp add: passing_artifacts_def good_def)
  have each: "\<exists>eid \<in> set eids. verify_one H hmac rt parse loads st eid subject p now = Inr x"
    if "x \<in> set results" for x
    using res_map_Inr_in [OF r that] by simp
  have found: "snd x \<noteq> None" if x: "x \<in> set results" "verification_passed (fst x)" for x
  proof -
    obtain eid where "verify_one H hmac rt parse loads st eid subject p now = Inr (fst x, snd x)"
      using each [OF x(1)] by auto
    then show ?thesis using verify_one_passed x(2) by blast
  qed
  have one: "the (snd x) \<in> valid_artifacts H hmac rt parse loads st eids subject p now
      \<and> verified_evidence_id (fst x) = evidence_id (the (snd x))" if "x \<in> set good" for x
  proof -
    from that have x: "x \<in> set results" "verification_passed (fst x)" by (simp_all add: good_def)
    obtain eid where e: "eid \<in> set eids"
      "verify_one H hmac rt parse loads st eid subject p now = Inr (fst x, snd x)"
      using each [OF x(1)] by auto
    obtain a where a: "snd x = Some a" "load_evidence rt parse loads st eid = Inr a"
      "evidence_holds H hmac parse st eid subject p now a" "verified_evidence_id (fst x) = eid"
      using verify_one_passed [OF e(2) x(2)] by blast
    then have "evidence_id a = eid" by (simp add: evidence_holds_def)
    with a e(1) show ?thesis by (auto simp: valid_artifacts_def)
  qed
  have good: "good = filter (\<lambda>x. verification_passed (fst x)) results"
    unfolding good_def by (rule filter_cong) (use found in auto)
  have sub: "set ?valid \<subseteq> valid_artifacts H hmac rt parse loads st eids subject p now"
    unfolding valid using one by auto
  have ids: "set (passing_ids results) = evidence_id ` set ?valid"
    unfolding valid passing_ids_def good [symmetric] using one by force
  have human: "list_ex (human_approval_artifact rt) (artifacts_of_kind k ?valid) \<longleftrightarrow>
      (\<exists>a \<in> set ?valid. evidence_kind a = k \<and> human_approval_artifact rt a)" for k
    by (auto simp: artifacts_of_kind_def list_ex_iff)
  from assms r have ev: "ev =
       \<lparr>evaluated_policy_id = policy_id p, evaluated_required_kinds = required_kinds p,
        valid_evidence_ids = passing_ids results,
        missing_kinds = filter (\<lambda>k. artifacts_of_kind k ?valid = []) (required_kinds p),
        human_approval_satisfied = (human_approval_kind p \<noteq> []
          \<and> list_ex (human_approval_artifact rt) (artifacts_of_kind (human_approval_kind p) ?valid)),
        verifications = map fst results,
        evaluation_issues =
          map missing_issue (filter (\<lambda>k. artifacts_of_kind k ?valid = []) (required_kinds p))\<rparr>"
    by (simp add: verify_many_def Let_def)
  show thesis
    by (rule that [OF sub]) (simp_all add: ev ids human evaluation_passed_def)
qed

section \<open>Exact-subject binding\<close>

text \<open>
  A target-bound artifact passes for one subject only: two subjects it passes for have the same
  digest, so, where the hash does not collide on them, they are the same action.
\<close>

lemma subject_digest_binds:
  assumes "subject_digest H s = Inr d" "subject_digest H t = Inr d"
    and "inj_on H {payload_bytes (JObj (authority_subject_body s)),
                   payload_bytes (JObj (authority_subject_body t))}"
    and "floats_ok (JObj (subject_metadata s))" "floats_ok (JObj (subject_metadata t))"
  shows "subject_agent_id s = subject_agent_id t" "subject_tool_name s = subject_tool_name t"
    "subject_capability s = subject_capability t"
    "subject_repository_id s = subject_repository_id t" "subject_revision s = subject_revision t"
    "subject_path s = subject_path t" "arguments_digest s = arguments_digest t"
    "authority_context_digest s = authority_context_digest t"
    "subject_protocol s = subject_protocol t"
proof -
  let ?d = "authority_subject_body s" and ?e = "authority_subject_body t"
  have "sort_keys (JObj ?d) = sort_keys (JObj ?e)"
    using digest_payload_binds [OF assms(1,2) [unfolded subject_digest_def] assms(3)] assms(4,5)
    by (simp add: authority_subject_body_def)
  moreover have "distinct (dict_keys ?d)" "distinct (dict_keys ?e)"
    by (simp_all add: authority_subject_body_def)
  ultimately have get: "map_option sort_keys (dict_get ?d k) = map_option sort_keys (dict_get ?e k)"
    for k by (rule sort_keys_JObj_get)
  note fields = get [unfolded authority_subject_body_def]
  show "subject_agent_id s = subject_agent_id t" using fields [of "''agent_id''"] by simp
  show "subject_tool_name s = subject_tool_name t" using fields [of "''tool_name''"] by simp
  show "subject_capability s = subject_capability t" using fields [of "''capability''"] by simp
  show "subject_repository_id s = subject_repository_id t"
    using fields [of "''repository_id''"] by simp
  show "subject_revision s = subject_revision t" using fields [of "''revision''"] by simp
  show "subject_path s = subject_path t" using fields [of "''path''"] by simp
  show "arguments_digest s = arguments_digest t" using fields [of "''arguments_digest''"] by simp
  show "authority_context_digest s = authority_context_digest t"
    using fields [of "''authority_context_digest''"] by simp
  show "subject_protocol s = subject_protocol t" using fields [of "''protocol''"] by simp
qed

section \<open>Issuing and loading\<close>

definition plain_text :: "string \<Rightarrow> bool" where
  "plain_text s \<longleftrightarrow> s \<noteq> [] \<and> strip s = s"

definition plain_artifact :: "evidence_artifact \<Rightarrow> bool" where
  "plain_artifact a \<longleftrightarrow> list_all plain_text [evidence_id a, evidence_kind a, evidence_issuer a,
     evidence_key_id a, evidence_status a, evidence_repository_id a, evidence_revision a,
     produced_at a, evidence_digest a]"

lemma evidence_text_plain:
  "plain_text s \<Longrightarrow> dict_get d k = Some (JStr s) \<Longrightarrow> evidence_text rt d k = Inr s"
  by (simp add: evidence_text_def filled_text_def plain_text_def blank_def)

lemma evidence_artifact_roundtrip:
  assumes "evidence_artifact_init parse a = Inr a" "plain_artifact a"
  obtains d where "evidence_artifact_dict H a = Inr (JObj d)"
    "evidence_artifact_from_mapping rt parse d = Inr a"
proof -
  let ?d = "unsigned_payload a @ [(''digest'', JStr (evidence_digest a)),
     (''signature'', JStr (evidence_signature a))]"
  have p: "plain_text (evidence_id a)" "plain_text (evidence_kind a)" "plain_text (evidence_issuer a)"
    "plain_text (evidence_key_id a)" "plain_text (evidence_status a)"
    "plain_text (evidence_repository_id a)" "plain_text (evidence_revision a)"
    "plain_text (produced_at a)" "plain_text (evidence_digest a)"
    using assms(2) by (simp_all add: plain_artifact_def)
  have get: "dict_get ?d ''schema_version'' = Some (JStr ''wave14.authority_evidence.v1'')"
    "dict_get_or ?d ''payload'' (JObj []) = JObj (evidence_payload a)"
    "dict_get_or ?d ''target_digest'' (JStr []) = JStr (target_digest a)"
    "dict_get_or ?d ''signature'' (JStr []) = JStr (evidence_signature a)"
    by (simp_all add: unsigned_payload_def dict_get_or_def)
  have texts: "evidence_text rt ?d ''evidence_id'' = Inr (evidence_id a)"
    "evidence_text rt ?d ''kind'' = Inr (evidence_kind a)"
    "evidence_text rt ?d ''issuer'' = Inr (evidence_issuer a)"
    "evidence_text rt ?d ''key_id'' = Inr (evidence_key_id a)"
    "evidence_text rt ?d ''status'' = Inr (evidence_status a)"
    "evidence_text rt ?d ''repository_id'' = Inr (evidence_repository_id a)"
    "evidence_text rt ?d ''revision'' = Inr (evidence_revision a)"
    "evidence_text rt ?d ''produced_at'' = Inr (produced_at a)"
    "evidence_text rt ?d ''digest'' = Inr (evidence_digest a)"
    by (rule evidence_text_plain; use p in \<open>simp add: unsigned_payload_def\<close>)+
  have "\<lparr>evidence_id = evidence_id a, evidence_kind = evidence_kind a,
     evidence_issuer = evidence_issuer a, evidence_key_id = evidence_key_id a,
     evidence_status = evidence_status a, evidence_repository_id = evidence_repository_id a,
     evidence_revision = evidence_revision a, produced_at = produced_at a,
     target_digest = target_digest a, evidence_payload = evidence_payload a,
     evidence_digest = evidence_digest a, evidence_signature = evidence_signature a\<rparr> = a"
    by (cases a) simp
  moreover have "evidence_artifact_from_mapping rt parse ?d = evidence_artifact_init parse
    \<lparr>evidence_id = evidence_id a, evidence_kind = evidence_kind a,
     evidence_issuer = evidence_issuer a, evidence_key_id = evidence_key_id a,
     evidence_status = evidence_status a, evidence_repository_id = evidence_repository_id a,
     evidence_revision = evidence_revision a, produced_at = produced_at a,
     target_digest = target_digest a, evidence_payload = evidence_payload a,
     evidence_digest = evidence_digest a, evidence_signature = evidence_signature a\<rparr>"
    by (simp add: evidence_artifact_from_mapping_def get texts del: map_of_append)
  ultimately have "evidence_artifact_from_mapping rt parse ?d = Inr a"
    using assms(1) by (simp only:)
  moreover have "evidence_artifact_dict H a = Inr (JObj ?d)"
    using p(9) by (simp add: evidence_artifact_dict_def plain_text_def)
  ultimately show thesis using that by blast
qed

text \<open>What \<open>from_mapping\<close> returns is stripped and filled, whatever the mapping held.\<close>

lemma evidence_text_reads: "evidence_text rt d k = Inr s \<Longrightarrow> plain_text s"
  by (auto simp: evidence_text_def filled_text_def plain_text_def blank_def split: option.splits json.splits if_splits)

lemma evidence_artifact_read:
  assumes "evidence_artifact_from_mapping rt parse d = Inr a"
  shows "evidence_artifact_init parse a = Inr a \<and> plain_artifact a"
proof -
  have init: "evidence_artifact_init parse x = Inr y \<Longrightarrow> y = x" for x y
    by (auto simp: evidence_artifact_init_def res_simps split: if_splits)
  have "\<exists>x. evidence_artifact_init parse x = Inr a \<and> plain_artifact x"
    using assms unfolding evidence_artifact_from_mapping_def plain_artifact_def
    by (auto elim!: res_bind_InrE dest!: evidence_text_reads split: if_split_asm json.split_asm)
  with init show ?thesis by blast
qed

end
