(* ===== verification/LiveAuthority.thy ===== *)
theory LiveAuthority
  imports Evidence
begin

text \<open>
  \<open>live_gateway/authority.py\<close>: the pre-tool decision that combines the agent authorization with
  the verified evidence, and the decision document of \<open>live_gateway/models.py\<close>.
\<close>

section \<open>Documents of the evidence layer\<close>

definition evidence_issue_dict :: "evidence_issue \<Rightarrow> json" where
  "evidence_issue_dict i = JObj
     [(''code'', JStr (issue_code i)), (''summary'', JStr (issue_summary i)),
      (''evidence_id'', JStr (issue_evidence_id i)), (''metadata'', JObj (issue_metadata i))]"

definition evidence_verification_dict :: "evidence_verification \<Rightarrow> json" where
  "evidence_verification_dict v = JObj
     [(''evidence_id'', JStr (verified_evidence_id v)),
      (''kind'', JStr (verified_kind v)),
      (''issuer'', JStr (verified_issuer v)),
      (''passed'', JBool (verification_passed v)),
      (''digest'', JStr (verified_digest v)),
      (''status'', JStr (verified_status v)),
      (''issue_count'', JInt (int (length (verification_issues v)))),
      (''issues'', JList (map evidence_issue_dict (verification_issues v))),
      (''metadata'', JObj [])]"

definition evidence_evaluation_dict :: "evidence_evaluation \<Rightarrow> json" where
  "evidence_evaluation_dict v = JObj
     [(''policy_id'', JStr (evaluated_policy_id v)),
      (''passed'', JBool (evaluation_passed v)),
      (''required_kinds'', json_strs (evaluated_required_kinds v)),
      (''valid_evidence_ids'', json_strs (valid_evidence_ids v)),
      (''missing_kinds'', json_strs (missing_kinds v)),
      (''human_approval_satisfied'', JBool (human_approval_satisfied v)),
      (''verification_count'', JInt (int (length (verifications v)))),
      (''verifications'', JList (map evidence_verification_dict (verifications v))),
      (''issue_count'', JInt (int (length (evaluation_issues v)))),
      (''issues'', JList (map evidence_issue_dict (evaluation_issues v)))]"

section \<open>The live decision\<close>

datatype live_status = LIVE_ALLOW | LIVE_BLOCK | REVIEW_REQUIRED | EVIDENCE_REQUIRED

fun live_status_value :: "live_status \<Rightarrow> string" where
  "live_status_value LIVE_ALLOW = ''allow''"
| "live_status_value LIVE_BLOCK = ''block''"
| "live_status_value REVIEW_REQUIRED = ''review_required''"
| "live_status_value EVIDENCE_REQUIRED = ''evidence_required''"

record live_decision =
  live_subject :: authority_subject
  live_status :: live_status
  reason_codes :: "string list"
  live_authorization :: authorization_decision
  live_evidence :: evidence_evaluation
  live_decided_at :: string

definition live_decision_init :: "live_decision \<Rightarrow> live_decision res" where
  "live_decision_init d =
     res_bind (normalize_text ''decided_at'' (live_decided_at d)) (\<lambda>at.
     if reason_codes d = []
     then Inl (ValueError ''LiveAuthorityDecision reason_codes must not be empty.'')
     else Inr (d\<lparr>reason_codes := sorted_set (reason_codes d), live_decided_at := at\<rparr>))"

definition live_decision_body :: "(string \<Rightarrow> string) \<Rightarrow> live_decision \<Rightarrow> json dict res" where
  "live_decision_body H d =
     res_bind (authority_subject_dict H (live_subject d)) (\<lambda>subject.
     res_bind (res_bind (authorization_decision_body H (live_authorization d)) (with_digest H))
       (\<lambda>auth.
       Inr [(''schema_version'', JStr ''wave14.live_authority_decision.v1''),
            (''subject'', subject),
            (''status'', JStr (live_status_value (live_status d))),
            (''reason_codes'', json_strs (reason_codes d)),
            (''agent_authorization'', auth),
            (''evidence'', evidence_evaluation_dict (live_evidence d)),
            (''decided_at'', JStr (live_decided_at d)),
            (''allowed'', JBool (live_status d = LIVE_ALLOW))]))"

definition live_decision_digest :: "(string \<Rightarrow> string) \<Rightarrow> live_decision \<Rightarrow> string res" where
  "live_decision_digest H d = res_bind (live_decision_body H d) (\<lambda>b. digest_payload H (JObj b))"

text \<open>
  What the decision reads from outside: the authorization evaluator, the evidence store and the
  parameters of the library. \<open>now\<close> is the clock of \<open>verify_many\<close>, \<open>timestamp\<close> the text of
  \<open>decided_at\<close>.
\<close>

record gateway_env =
  env_hash :: "string \<Rightarrow> string"
  env_hmac :: "string \<Rightarrow> string \<Rightarrow> string"
  env_runtime :: py_runtime
  env_parse :: iso_parser
  env_loads :: json_loads

text \<open>The branches of \<open>evaluate_live_authority\<close> after both evaluations: status and reasons.\<close>

definition live_verdict ::
  "evidence_policy \<Rightarrow> authorization_decision \<Rightarrow> evidence_evaluation \<Rightarrow> live_status \<times> string list" where
  "live_verdict p d ev =
     (if decision_status d = BLOCK
      then (LIVE_BLOCK, map authorization_reason_value (decision_reasons d))
      else if \<not> evaluation_passed ev
      then (EVIDENCE_REQUIRED, [''evidence_conditions_unsatisfied''])
      else if human_approval_kind p \<noteq> [] \<and> \<not> human_approval_satisfied ev
      then (REVIEW_REQUIRED, [''human_authority_required''])
      else if decision_status d = REQUIRE_REVIEW
      then (if human_approval_kind p \<noteq> [] \<and> human_approval_satisfied ev
            then (LIVE_ALLOW, [''verified_human_approval_satisfied''])
            else (REVIEW_REQUIRED, [''human_authority_required'']))
      else (LIVE_ALLOW, [if human_approval_kind p \<noteq> [] then ''verified_human_approval_satisfied''
                         else ''identity_scope_and_evidence_satisfied'']))"

definition evaluate_live_authority ::
  "gateway_env \<Rightarrow> authorization_evaluator \<Rightarrow> evidence_store \<Rightarrow> authority_subject \<Rightarrow> tool_request
    \<Rightarrow> evidence_policy \<Rightarrow> string list \<Rightarrow> string \<Rightarrow> int \<Rightarrow> live_decision res" where
  "evaluate_live_authority env e st subject invocation p eids timestamp now =
     res_bind (build_tool_authorization_request (env_runtime env) (subject_agent_id subject) invocation)
       (\<lambda>r.
     res_bind (evaluate (env_hash env) (env_parse env) e r timestamp [] eids) (\<lambda>d.
     res_bind (verify_many (env_hash env) (env_hmac env) (env_runtime env) (env_parse env)
                 (env_loads env) st eids subject p now) (\<lambda>ev.
       live_decision_init
         \<lparr>live_subject = subject, live_status = fst (live_verdict p d ev),
          reason_codes = snd (live_verdict p d ev), live_authorization = d, live_evidence = ev,
          live_decided_at = timestamp\<rparr>)))"

section \<open>When a call is allowed\<close>

lemma live_verdict_allow:
  "fst (live_verdict p d ev) = LIVE_ALLOW \<longleftrightarrow>
     decision_status d \<noteq> BLOCK \<and> evaluation_passed ev
     \<and> (human_approval_kind p \<noteq> [] \<longrightarrow> human_approval_satisfied ev)
     \<and> (decision_status d = REQUIRE_REVIEW \<longrightarrow> human_approval_kind p \<noteq> [])"
  by (auto simp: live_verdict_def)

lemma live_decision_init_fields:
  "live_decision_init d = Inr d' \<Longrightarrow> live_status d' = live_status d \<and> live_subject d' = live_subject d
     \<and> live_authorization d' = live_authorization d \<and> live_evidence d' = live_evidence d
     \<and> set (reason_codes d') = set (reason_codes d)"
  by (auto simp: live_decision_init_def res_simps split: if_splits)

lemma evaluate_live_authority_Inr:
  assumes "evaluate_live_authority env e st subject invocation p eids timestamp now = Inr ld"
  obtains r where
    "build_tool_authorization_request (env_runtime env) (subject_agent_id subject) invocation = Inr r"
    "evaluate (env_hash env) (env_parse env) e r timestamp [] eids = Inr (live_authorization ld)"
    "verify_many (env_hash env) (env_hmac env) (env_runtime env) (env_parse env)
       (env_loads env) st eids subject p now = Inr (live_evidence ld)"
    "live_status ld = fst (live_verdict p (live_authorization ld) (live_evidence ld))"
    "live_subject ld = subject"
  using assms unfolding evaluate_live_authority_def
  by (elim res_bind_InrE) (drule live_decision_init_fields, simp)

text \<open>
  An allowed call: the agent is known and either clear to act or suspended, every required kind
  has a passing artifact, and where the policy or the authorization asks for a human, a passing
  artifact of the approval kind records one.
\<close>

lemma live_allow:
  assumes "evaluate_live_authority env e st subject invocation p eids timestamp now = Inr ld"
    and "live_status ld = LIVE_ALLOW"
  obtains r a where
    "build_tool_authorization_request (env_runtime env) (subject_agent_id subject) invocation = Inr r"
    "registry_lookup (evaluator_registry e) (request_agent_id r) = Inr (Some a)"
    "clear_to_act (env_parse env) a r \<or> lifecycle_state a = SUSPENDED"
    "\<forall>k \<in> set (required_kinds p). \<exists>x \<in> valid_artifacts (env_hash env) (env_hmac env)
       (env_runtime env) (env_parse env) (env_loads env) st eids subject p now. evidence_kind x = k"
    "human_approval_kind p \<noteq> [] \<or> lifecycle_state a = SUSPENDED
       \<or> requires_review a r (covering_grants (env_parse env) a r) \<Longrightarrow>
     \<exists>x \<in> valid_artifacts (env_hash env) (env_hmac env) (env_runtime env) (env_parse env)
       (env_loads env) st eids subject p now.
       human_approval_kind p \<noteq> [] \<and> evidence_kind x = human_approval_kind p
       \<and> human_approval_artifact (env_runtime env) x"
proof -
  let ?V = "valid_artifacts (env_hash env) (env_hmac env) (env_runtime env) (env_parse env)
    (env_loads env) st eids subject p now"
  let ?d = "live_authorization ld" and ?ev = "live_evidence ld"
  obtain r where r: "build_tool_authorization_request (env_runtime env) (subject_agent_id subject)
      invocation = Inr r"
    "evaluate (env_hash env) (env_parse env) e r timestamp [] eids = Inr ?d"
    "verify_many (env_hash env) (env_hmac env) (env_runtime env) (env_parse env)
       (env_loads env) st eids subject p now = Inr ?ev"
    "live_status ld = fst (live_verdict p ?d ?ev)"
    using assms(1) by (rule evaluate_live_authority_Inr)
  from assms(2) r(4) have v: "decision_status ?d \<noteq> BLOCK" "evaluation_passed ?ev"
    "human_approval_kind p \<noteq> [] \<longrightarrow> human_approval_satisfied ?ev"
    "decision_status ?d = REQUIRE_REVIEW \<longrightarrow> human_approval_kind p \<noteq> []"
    by (simp_all add: live_verdict_allow)
  obtain valid where valid: "set valid \<subseteq> ?V"
    "missing_kinds ?ev = filter (\<lambda>k. artifacts_of_kind k valid = []) (required_kinds p)"
    "human_approval_satisfied ?ev \<longleftrightarrow> human_approval_kind p \<noteq> []
       \<and> (\<exists>a \<in> set valid. evidence_kind a = human_approval_kind p
            \<and> human_approval_artifact (env_runtime env) a)"
    "evaluation_passed ?ev \<longleftrightarrow> missing_kinds ?ev = []"
    using r(3) by (rule verify_many_valid)
  have kinds: "\<forall>k \<in> set (required_kinds p). \<exists>x \<in> ?V. evidence_kind x = k"
  proof
    fix k assume "k \<in> set (required_kinds p)"
    with v(2) valid(2,4) have "artifacts_of_kind k valid \<noteq> []" by (auto simp: filter_empty_conv)
    then obtain x where "x \<in> set valid" "evidence_kind x = k"
      by (auto simp: artifacts_of_kind_def filter_empty_conv)
    with valid(1) show "\<exists>x \<in> ?V. evidence_kind x = k" by blast
  qed
  have human: "\<exists>x \<in> ?V. human_approval_kind p \<noteq> [] \<and> evidence_kind x = human_approval_kind p
       \<and> human_approval_artifact (env_runtime env) x" if "human_approval_kind p \<noteq> []"
    using v(3) valid(1,3) that by blast
  show thesis
  proof (cases "decision_status ?d")
    case ALLOW
    from r(2) this obtain a where a: "registry_lookup (evaluator_registry e) (request_agent_id r) = Inr (Some a)"
      "clear_to_act (env_parse env) a r" "\<not> requires_review a r (covering_grants (env_parse env) a r)"
      by (rule evaluate_allow)
    then have "lifecycle_state a \<noteq> SUSPENDED" by (simp add: clear_to_act_def)
    with a show thesis by (intro that [OF r(1) a(1) _ kinds] human) auto
  next
    case REQUIRE_REVIEW
    from r(2) this obtain a where a: "registry_lookup (evaluator_registry e) (request_agent_id r) = Inr (Some a)"
      "lifecycle_state a = SUSPENDED
       \<or> clear_to_act (env_parse env) a r \<and> requires_review a r (covering_grants (env_parse env) a r)"
      by (rule evaluate_review)
    moreover have "human_approval_kind p \<noteq> []" using v(4) REQUIRE_REVIEW by blast
    ultimately show thesis by (intro that [OF r(1) a(1) _ kinds] human) auto
  next
    case BLOCK
    with v(1) show thesis by blast
  qed
qed

end
