(* ===== verification/ReceiptStore.thy ===== *)
theory ReceiptStore
  imports LiveAuthority
begin

text \<open>
  \<open>live_gateway/receipts.py\<close> without a signing controller: the hash-chained receipt table, the
  single-use evidence claims, and \<open>verify_chain\<close>. Each method that opens a transaction is one
  function on the database; the tables are lists of rows. The reserved columns are written from
  the receipt, so a payload that overrides one of them with a value of another type is an error
  of the database here. \<open>json.loads\<close> is the parameter \<open>loads\<close>.
\<close>

section \<open>Tables\<close>

record receipt_row =
  row_sequence :: int
  row_receipt_id :: string
  row_digest :: string
  row_previous :: string
  row_payload :: string

record claim_row =
  claim_evidence_id :: string
  claim_subject_digest :: string
  claim_time :: string
  claim_digest :: string

record receipt_db =
  receipt_rows :: "receipt_row list"
  claim_rows :: "claim_row list"

text \<open>\<open>ORDER BY sequence\<close>\<close>

definition ordered_rows :: "receipt_db \<Rightarrow> receipt_row list" where
  "ordered_rows db = sort_key row_sequence (receipt_rows db)"

definition dict_update :: "json dict \<Rightarrow> json dict \<Rightarrow> json dict" where
  "dict_update d e = fold (\<lambda>kv. dict_set (fst kv) (snd kv)) e d"

section \<open>append\<close>

definition make_receipt ::
  "(string \<Rightarrow> string) \<Rightarrow> json dict \<Rightarrow> int \<Rightarrow> string \<Rightarrow> json dict res" where
  "make_receipt H payload sequence previous =
     (let receipt = dict_update
            [(''schema_version'', JStr ''wave14.authority_receipt.v1''),
             (''sequence'', JInt sequence), (''previous_receipt_digest'', JStr previous)] payload in
     res_bind (digest_payload H (JObj receipt)) (\<lambda>d.
     let receipt = dict_set ''receipt_id'' (JStr (''wave14-receipt-'' @ take 24 d)) receipt in
     res_bind (digest_payload H (JObj receipt)) (\<lambda>rd.
       Inr (dict_set ''receipt_digest'' (JStr rd) receipt))))"

text \<open>
  \<open>_insert\<close>: \<open>json.dumps\<close> refuses a value that is not finite, the table refuses a taken sequence
  or receipt id.
\<close>

definition insert_receipt :: "json dict \<Rightarrow> receipt_db \<Rightarrow> receipt_db res" where
  "insert_receipt receipt db =
     (case dumps_error (sort_keys (JObj receipt)) of
        Some e \<Rightarrow> Inl e
      | None \<Rightarrow>
        (case (dict_get receipt ''sequence'', dict_get receipt ''receipt_id'',
               dict_get receipt ''receipt_digest'', dict_get receipt ''previous_receipt_digest'') of
           (Some (JInt n), Some (JStr rid), Some (JStr rd), Some (JStr prev)) \<Rightarrow>
             if n \<in> row_sequence ` set (receipt_rows db) \<or> rid \<in> row_receipt_id ` set (receipt_rows db)
             then Inl (SqliteError ''UNIQUE constraint failed'')
             else Inr (db\<lparr>receipt_rows := receipt_rows db
               @ [\<lparr>row_sequence = n, row_receipt_id = rid, row_digest = rd, row_previous = prev,
                   row_payload = json_dumps False (JObj receipt)\<rparr>]\<rparr>)
         | _ \<Rightarrow> Inl (SqliteError ''datatype mismatch'')))"

definition append_receipt ::
  "(string \<Rightarrow> string) \<Rightarrow> json dict \<Rightarrow> receipt_db \<Rightarrow> (json dict \<times> receipt_db) res" where
  "append_receipt H payload db =
     (let rows = ordered_rows db;
          sequence = (if rows = [] then 1 else row_sequence (last rows) + 1);
          previous = (if rows = [] then [] else row_digest (last rows)) in
     res_bind (make_receipt H payload sequence previous) (\<lambda>receipt.
     res_bind (insert_receipt receipt db) (\<lambda>db'. Inr (receipt, db'))))"

section \<open>Single-use evidence\<close>

definition claim_body :: "string \<Rightarrow> string \<Rightarrow> string \<Rightarrow> json dict" where
  "claim_body eid sd at =
     [(''evidence_id'', JStr eid), (''subject_digest'', JStr sd), (''claimed_at'', JStr at)]"

definition new_claim ::
  "(string \<Rightarrow> string) \<Rightarrow> string \<Rightarrow> string \<Rightarrow> string \<Rightarrow> claim_row res" where
  "new_claim H sd at eid =
     res_bind (digest_payload H (JObj (claim_body eid sd at))) (\<lambda>d.
       Inr \<lparr>claim_evidence_id = eid, claim_subject_digest = sd, claim_time = at, claim_digest = d\<rparr>)"

definition claim_single_use_evidence ::
  "(string \<Rightarrow> string) \<Rightarrow> string list \<Rightarrow> string \<Rightarrow> string \<Rightarrow> receipt_db
    \<Rightarrow> (string list \<times> receipt_db) res" where
  "claim_single_use_evidence H eids sd at db =
     (let ids = uniq eids in
      if ids = [] then Inr ([], db)
      else let conflicts =
             sort (map claim_evidence_id
               (filter (\<lambda>c. claim_evidence_id c \<in> set ids) (claim_rows db))) in
      if conflicts \<noteq> [] then Inr (conflicts, db)
      else res_bind (res_map (new_claim H sd at) ids) (\<lambda>rows.
        Inr ([], db\<lparr>claim_rows := claim_rows db @ rows\<rparr>)))"

section \<open>Reading\<close>

definition get_receipt :: "json_loads \<Rightarrow> string \<Rightarrow> receipt_db \<Rightarrow> json dict option res" where
  "get_receipt loads rid db =
     (case List.find (\<lambda>r. row_receipt_id r = rid) (receipt_rows db) of
        None \<Rightarrow> Inr None
      | Some r \<Rightarrow> (case loads (row_payload r) of
          None \<Rightarrow> Inl (ValueError ''Expecting value'')
        | Some (JObj d) \<Rightarrow> Inr (Some d)
        | Some _ \<Rightarrow> Inr None))"

definition recent_receipts :: "json_loads \<Rightarrow> int \<Rightarrow> receipt_db \<Rightarrow> json dict list res" where
  "recent_receipts loads limit db =
     (if limit \<le> 0 \<or> 1000 < limit
      then Inl (ValueError ''Receipt limit must be between 1 and 1000.'')
      else res_bind (res_map (\<lambda>r. case loads (row_payload r) of
               None \<Rightarrow> Inl (ValueError ''Expecting value'') | Some v \<Rightarrow> Inr v)
             (take (nat limit) (rev (ordered_rows db)))) (\<lambda>vs.
           Inr (List.map_filter json_obj vs)))"

section \<open>verify_chain\<close>

text \<open>\<open>value == n\<close> for a decoded value: a bool or a whole float can equal an int.\<close>

fun py_eq_int :: "json option \<Rightarrow> int \<Rightarrow> bool" where
  "py_eq_int (Some (JInt i)) n = (i = n)"
| "py_eq_int (Some (JBool b)) n = ((if b then 1 else 0) = n)"
| "py_eq_int (Some (JFloat s)) n = (s = show_int n @ ''.0'')"
| "py_eq_int _ n = False"

record chain_state =
  chain_previous :: string
  chain_expected :: int
  chain_claims :: "string dict"
  chain_issues :: "string list"

text \<open>The claims a receipt records, under the digest of its subject.\<close>

definition receipt_subject_digest :: "py_runtime \<Rightarrow> json dict \<Rightarrow> string" where
  "receipt_subject_digest rt payload =
     (case dict_get_or payload ''subject'' (JObj []) of
        JObj s \<Rightarrow> py_str rt (dict_get_or s ''digest'' (JStr []))
      | _ \<Rightarrow> [])"

definition receipt_claim_list :: "json dict \<Rightarrow> string list option" where
  "receipt_claim_list payload =
     (case dict_get_or payload ''single_use_evidence_claims'' (JList []) of
        JList items \<Rightarrow>
          if list_all (\<lambda>x. json_str x \<noteq> None) items then Some (map (\<lambda>x. the (json_str x)) items)
          else None
      | _ \<Rightarrow> None)"

fun record_claims ::
  "string \<Rightarrow> string \<Rightarrow> string list \<Rightarrow> string dict \<times> string list \<Rightarrow> string dict \<times> string list" where
  "record_claims rid sd [] (claims, issues) = (claims, issues)"
| "record_claims rid sd (e # es) (claims, issues) =
     record_claims rid sd es
       (case dict_get claims e of
          None \<Rightarrow> (dict_set e sd claims, issues)
        | Some prior \<Rightarrow> (claims,
            if prior \<noteq> sd
            then issues @ [''receipt '' @ rid @ '': evidence claim appears under multiple subjects'']
            else issues))"

text \<open>The issues one decoded row adds, and the claims it records.\<close>

definition row_complaint :: "receipt_row \<Rightarrow> string \<Rightarrow> string" where
  "row_complaint row m = ''receipt '' @ row_receipt_id row @ '': '' @ m"

definition row_issues ::
  "py_runtime \<Rightarrow> receipt_row \<Rightarrow> string \<Rightarrow> int \<Rightarrow> json dict \<Rightarrow> string \<Rightarrow> string list" where
  "row_issues rt row previous expected payload recomputed =
     (let claimed = py_str rt (dict_get_or payload ''receipt_digest'' (JStr [])) in
      (if row_sequence row \<noteq> expected then [row_complaint row ''sequence gap or reordering''] else [])
      @ (if row_previous row \<noteq> previous
            \<or> dict_get payload ''previous_receipt_digest'' \<noteq> Some (JStr previous)
         then [row_complaint row ''previous digest mismatch''] else [])
      @ (if dict_get payload ''receipt_id'' \<noteq> Some (JStr (row_receipt_id row))
         then [row_complaint row ''id mismatch''] else [])
      @ (if \<not> py_eq_int (dict_get payload ''sequence'') (row_sequence row)
         then [row_complaint row ''payload sequence mismatch''] else [])
      @ (if row_digest row \<noteq> claimed \<or> claimed \<noteq> recomputed
         then [row_complaint row ''digest mismatch''] else []))"

definition row_claims ::
  "py_runtime \<Rightarrow> receipt_row \<Rightarrow> json dict \<Rightarrow> string dict \<Rightarrow> string list \<Rightarrow> string dict \<times> string list" where
  "row_claims rt row payload claims issues =
     (case receipt_claim_list payload of
        None \<Rightarrow> (claims, issues @ [row_complaint row ''single-use evidence claims are malformed''])
      | Some es \<Rightarrow> record_claims (row_receipt_id row) (receipt_subject_digest rt payload) es
          (claims, issues))"

definition check_row ::
  "(string \<Rightarrow> string) \<Rightarrow> py_runtime \<Rightarrow> json_loads \<Rightarrow> receipt_row \<Rightarrow> chain_state \<Rightarrow> chain_state res" where
  "check_row H rt loads row st =
     (case loads (row_payload row) of
        None \<Rightarrow> Inr (st\<lparr>chain_issues :=
                  chain_issues st @ [row_complaint row ''payload is invalid JSON'']\<rparr>)
      | Some v \<Rightarrow>
       (case json_obj v of
          None \<Rightarrow> Inr (st\<lparr>chain_issues :=
                    chain_issues st @ [row_complaint row ''payload is not an object'']\<rparr>)
        | Some payload \<Rightarrow>
            res_bind (digest_payload H
                (JObj (filter (\<lambda>kv. fst kv \<noteq> ''receipt_digest'') payload))) (\<lambda>recomputed.
            let (claims, issues) = row_claims rt row payload (chain_claims st)
                  (chain_issues st @ row_issues rt row (chain_previous st) (chain_expected st)
                     payload recomputed)
            in Inr (st\<lparr>chain_previous := row_digest row, chain_expected := chain_expected st + 1,
                     chain_claims := claims, chain_issues := issues\<rparr>))))"

definition check_claim_row ::
  "(string \<Rightarrow> string) \<Rightarrow> claim_row \<Rightarrow> string dict \<times> string list \<Rightarrow> (string dict \<times> string list) res" where
  "check_claim_row H c s =
     res_bind (digest_payload H (JObj (claim_body (claim_evidence_id c) (claim_subject_digest c)
                 (claim_time c)))) (\<lambda>d.
       Inr (dict_set (claim_evidence_id c) (claim_subject_digest c) (fst s),
            if claim_digest c \<noteq> d
            then snd s @ [''evidence claim '' @ claim_evidence_id c @ '': digest mismatch'']
            else snd s))"

record chain_report =
  report_passed :: bool
  receipt_count :: nat
  head_digest :: string
  report_issues :: "string list"

definition initial_chain :: chain_state where
  "initial_chain =
     \<lparr>chain_previous = [], chain_expected = 1, chain_claims = [], chain_issues = []\<rparr>"

text \<open>The claims of receipts the claim table does not confirm.\<close>

definition mismatched_claims :: "string dict \<Rightarrow> string dict \<Rightarrow> string list" where
  "mismatched_claims database claims =
     concat (map (\<lambda>(e, sd). if dict_get database e \<noteq> Some sd
       then [''evidence claim '' @ e @ '': receipt/database claim mismatch''] else []) claims)"

definition verify_chain ::
  "(string \<Rightarrow> string) \<Rightarrow> py_runtime \<Rightarrow> json_loads \<Rightarrow> receipt_db \<Rightarrow> chain_report res" where
  "verify_chain H rt loads db =
     res_bind (res_fold (check_row H rt loads) (ordered_rows db) initial_chain) (\<lambda>st.
     res_bind (res_fold (check_claim_row H) (sort_key claim_evidence_id (claim_rows db))
                 ([], chain_issues st)) (\<lambda>cs.
     let issues = snd cs @ mismatched_claims (fst cs) (chain_claims st)
     in Inr \<lparr>report_passed = (issues = []), receipt_count = length (ordered_rows db),
             head_digest = chain_previous st, report_issues = issues\<rparr>))"

section \<open>Claims are granted once\<close>

definition claimed_ids :: "receipt_db \<Rightarrow> string set" where
  "claimed_ids db = claim_evidence_id ` set (claim_rows db)"

definition claims_inv :: "receipt_db \<Rightarrow> bool" where
  "claims_inv db \<longleftrightarrow> distinct (map claim_evidence_id (claim_rows db))"

lemma new_claim_fields:
  "new_claim H sd at e = Inr c \<Longrightarrow> claim_evidence_id c = e \<and> claim_subject_digest c = sd"
  by (auto simp: new_claim_def res_simps)

lemma res_map_new_claim:
  "res_map (new_claim H sd at) es = Inr cs \<Longrightarrow> map claim_evidence_id cs = es
     \<and> (\<forall>c \<in> set cs. claim_subject_digest c = sd)"
  by (induction es arbitrary: cs) (auto simp: res_simps dest: new_claim_fields)

lemma claim_total: "\<exists>c. new_claim H sd at e = Inr c"
  by (simp add: new_claim_def claim_body_def digest_payload_def insort_key.simps)

lemma claim_conflicts:
  "(sort (map claim_evidence_id (filter (\<lambda>c. claim_evidence_id c \<in> S) (claim_rows db))) = [])
     \<longleftrightarrow> S \<inter> claimed_ids db = {}"
  by (auto simp: claimed_ids_def filter_empty_conv)

lemma claim_single_use_cases:
  assumes "claim_single_use_evidence H eids sd at db = Inr (conflicts, db')"
  obtains
    (clash) "conflicts \<noteq> []" "set conflicts = set eids \<inter> claimed_ids db" "db' = db"
  | (new) rows where "conflicts = []" "set eids \<inter> claimed_ids db = {}"
      "map claim_evidence_id rows = uniq eids" "\<forall>c \<in> set rows. claim_subject_digest c = sd"
      "db' = db\<lparr>claim_rows := claim_rows db @ rows\<rparr>"
proof -
  let ?c = "sort (map claim_evidence_id
    (filter (\<lambda>c. claim_evidence_id c \<in> set (uniq eids)) (claim_rows db)))"
  have c: "set ?c = set eids \<inter> claimed_ids db" by (auto simp: claimed_ids_def)
  show thesis
  proof (cases "eids = []")
    case True
    with assms have "conflicts = []" "db' = db" by (simp_all add: claim_single_use_evidence_def)
    moreover have "db = db\<lparr>claim_rows := claim_rows db @ []\<rparr>" by simp
    ultimately show thesis by (intro new [of "[]"]) (simp_all add: True)
  next
    case some: False
    show thesis
    proof (cases "?c = []")
      case True
      with assms some obtain rows where rows: "res_map (new_claim H sd at) (uniq eids) = Inr rows"
        "conflicts = []" "db' = db\<lparr>claim_rows := claim_rows db @ rows\<rparr>"
        unfolding claim_single_use_evidence_def Let_def uniq_eq_Nil
        by (simp only: if_False if_True refl not_True_eq_False simp_thms) (elim res_bind_InrE, simp)
      from True c have "set eids \<inter> claimed_ids db = {}" by (metis empty_set)
      with rows res_map_new_claim [OF rows(1)] show thesis using new by blast
    next
      case False
      with assms some have "Inr (?c, db) = (Inr (conflicts, db') :: (string list \<times> receipt_db) res)"
        unfolding claim_single_use_evidence_def Let_def uniq_eq_Nil
        by (simp only: if_False if_True simp_thms)
      then have "conflicts = ?c" "db' = db" unfolding sum.inject prod.inject by blast+
      with False c show thesis using clash by blast
    qed
  qed
qed

lemma claim_single_use:
  assumes "claim_single_use_evidence H eids sd at db = Inr (conflicts, db')"
  shows "set conflicts = set eids \<inter> claimed_ids db"
    and "conflicts \<noteq> [] \<Longrightarrow> db' = db"
    and "conflicts = [] \<Longrightarrow> \<exists>rows. claim_rows db' = claim_rows db @ rows
           \<and> map claim_evidence_id rows = uniq eids \<and> (\<forall>c \<in> set rows. claim_subject_digest c = sd)"
    and "receipt_rows db' = receipt_rows db"
proof -
  show "set conflicts = set eids \<inter> claimed_ids db"
    by (rule claim_single_use_cases [OF assms]) simp_all
  show "receipt_rows db' = receipt_rows db"
    by (rule claim_single_use_cases [OF assms]) simp_all
  show "db' = db" if "conflicts \<noteq> []"
    by (rule claim_single_use_cases [OF assms]) (use that in simp_all)
  show "\<exists>rows. claim_rows db' = claim_rows db @ rows \<and> map claim_evidence_id rows = uniq eids
      \<and> (\<forall>c \<in> set rows. claim_subject_digest c = sd)" if "conflicts = []"
    by (rule claim_single_use_cases [OF assms]) (use that in auto)
qed

lemma claim_single_use_inv:
  assumes "claim_single_use_evidence H eids sd at db = Inr (conflicts, db')" "claims_inv db"
  shows "claims_inv db'"
proof (cases "conflicts = []")
  case True
  with claim_single_use(1,3) [OF assms(1)] obtain rows where
    "claim_rows db' = claim_rows db @ rows" "map claim_evidence_id rows = uniq eids"
    "set eids \<inter> claimed_ids db = {}" by auto
  with assms(2) show ?thesis
    by (simp add: claims_inv_def claimed_ids_def Int_commute flip: set_map)
next
  case False
  with claim_single_use(2) [OF assms(1)] assms(2) show ?thesis by simp
qed

text \<open>A history of claim calls, in the order their transactions commit.\<close>

fun run_claims ::
  "(string \<Rightarrow> string) \<Rightarrow> (string list \<times> string \<times> string) list \<Rightarrow> receipt_db
    \<Rightarrow> (string list list \<times> receipt_db) res" where
  "run_claims H [] db = Inr ([], db)"
| "run_claims H ((eids, sd, at) # ops) db =
     res_bind (claim_single_use_evidence H eids sd at db) (\<lambda>(conflicts, db').
     res_bind (run_claims H ops db') (\<lambda>(rest, db''). Inr (conflicts # rest, db'')))"

lemma claimed_grow:
  "claim_single_use_evidence H eids sd at db = Inr (conflicts, db') \<Longrightarrow> claimed_ids db \<subseteq> claimed_ids db'"
  using claim_single_use(2,3) [of H eids sd at db conflicts db']
  by (cases "conflicts = []") (auto simp: claimed_ids_def)

lemma run_claims_taken:
  assumes "run_claims H ops db = Inr (results, db')" "i < length ops" "results ! i = []"
  shows "set (fst (ops ! i)) \<inter> claimed_ids db = {}"
  using assms
proof (induction H ops db arbitrary: results db' i rule: run_claims.induct)
  case (2 H eids sd at ops db)
  then obtain conflicts db1 rest where
    c: "claim_single_use_evidence H eids sd at db = Inr (conflicts, db1)"
    and r: "run_claims H ops db1 = Inr (rest, db')" "results = conflicts # rest"
    by (auto simp: res_simps)
  show ?case
  proof (cases i)
    case 0
    with "2.prems" r claim_single_use(1) [OF c] show ?thesis by simp
  next
    case (Suc j)
    with "2.IH" [OF c _ r(1), where i = j] "2.prems" r(2) have
      "set (fst (ops ! j)) \<inter> claimed_ids db1 = {}" by simp
    with claimed_grow [OF c] Suc show ?thesis by auto
  qed
qed simp

lemma run_claims_disjoint:
  assumes "run_claims H ops db = Inr (results, db')" "i < j" "j < length ops"
    and "results ! i = []" "results ! j = []"
  shows "set (fst (ops ! i)) \<inter> set (fst (ops ! j)) = {}"
  using assms
proof (induction H ops db arbitrary: results db' i j rule: run_claims.induct)
  case (2 H eids sd at ops db)
  then obtain conflicts db1 rest where
    c: "claim_single_use_evidence H eids sd at db = Inr (conflicts, db1)"
    and r: "run_claims H ops db1 = Inr (rest, db')" "results = conflicts # rest"
    by (auto simp: res_simps)
  from "2.prems" obtain k where k: "j = Suc k" "k < length ops" by (cases j) auto
  show ?case
  proof (cases i)
    case 0
    have "set (fst (ops ! k)) \<inter> claimed_ids db1 = {}"
      using run_claims_taken [OF r(1) k(2)] "2.prems" r(2) k by simp
    moreover have "set eids \<subseteq> claimed_ids db1"
    proof -
      from 0 "2.prems" r(2) have "conflicts = []" by simp
      from claim_single_use(3) [OF c this] obtain rows where
        rows: "claim_rows db1 = claim_rows db @ rows" "map claim_evidence_id rows = uniq eids" by blast
      from rows(2) have "claim_evidence_id ` set rows = set eids" by (metis set_map set_uniq)
      with rows(1) show ?thesis by (auto simp: claimed_ids_def)
    qed
    ultimately show ?thesis using 0 k by auto
  next
    case (Suc i')
    with "2.IH" [OF c _ r(1), where i = i' and j = k] "2.prems" r(2) k show ?thesis by simp
  qed
qed simp

end
