(* ===== verification/EnterpriseIdentity.thy ===== *)
theory EnterpriseIdentity
  imports Normalize PyJson
begin

text \<open>
  \<open>live_gateway/enterprise_identity.py\<close>: federated tokens, identity bindings, the revocation
  table and the delegation chains a token carries. PyJWT is a parameter: a function that reads
  a token without checking it, one that reads a key set, and \<open>jwt.decode\<close>. The revocation table
  is an association list keyed by its primary key; failures of SQLite itself are not modelled.
\<close>

section \<open>Providers and bindings\<close>

record oidc_provider =
  provider_issuer :: string
  provider_audience :: string
  provider_jwks_path :: string
  provider_algorithms :: "string list"
  max_token_age_seconds :: int
  clock_skew_seconds :: int

definition oidc_provider_init :: "oidc_provider \<Rightarrow> oidc_provider res" where
  "oidc_provider_init p =
     (if blank (provider_issuer p) \<or> blank (provider_audience p)
      then Inl (ValueError ''OIDC issuer and audience must not be empty.'')
      else if provider_algorithms p = []
      then Inl (ValueError ''OIDC provider requires at least one allowed algorithm.'')
      else if list_ex (\<lambda>a. lower a = ''none'') (provider_algorithms p)
      then Inl (ValueError (''OIDC provider must not allow the '' @ [CHR 0x27] @ ''none'' @ [CHR 0x27] @ '' algorithm.''))
      else if max_token_age_seconds p \<le> 0 \<or> clock_skew_seconds p < 0
      then Inl (ValueError ''OIDC token age must be positive and clock skew non-negative.'')
      else Inr p)"

record identity_binding =
  binding_issuer :: string
  binding_subject :: string
  binding_agent_id :: string

definition identity_binding_init :: "identity_binding \<Rightarrow> identity_binding res" where
  "identity_binding_init b =
     (if blank (binding_issuer b) \<or> blank (binding_subject b)
      then Inl (ValueError ''Identity binding issuer and subject must not be empty.'')
      else res_bind (normalize_identifier ''agent_id'' (binding_agent_id b))
             (\<lambda>aid. Inr (b\<lparr>binding_agent_id := aid\<rparr>)))"

section \<open>Delegation scopes\<close>

record delegation_scope =
  delegation_id :: string
  scope_delegated_by :: string
  delegated_tools :: "string list"
  delegated_repositories :: "string list"
  delegated_path_roots :: "string list"
  delegation_expires_at :: int

text \<open>\<open>_string_tuple\<close>, \<open>_normalize_path_root\<close> and \<open>_path_within\<close>.\<close>

definition string_tuple :: "py_runtime \<Rightarrow> json \<Rightarrow> string list res" where
  "string_tuple rt v =
     (case v of
        JNull \<Rightarrow> Inr []
      | JList items \<Rightarrow>
         (let result = map (\<lambda>x. strip (py_str rt x))
                (filter (\<lambda>x. \<not> blank (py_str rt x)) items)
          in if \<not> distinct result
             then Inl (ValueError ''Delegation scope values must not contain duplicates.'')
             else Inr result)
      | _ \<Rightarrow> Inl (ValueError ''Delegation scope values must be arrays of strings.''))"

definition slash_trim :: "string \<Rightarrow> string" where
  "slash_trim s = strip_char CHR ''/'' (replace_char CHR 0x5C CHR ''/'' (strip s))"

definition normalize_path_root :: "string \<Rightarrow> string res" where
  "normalize_path_root value =
     (let candidate = slash_trim value in
      if candidate = [] \<or> candidate = ''.'' then Inr []
      else if path_is_absolute candidate \<or> ''..'' \<in> set (path_parts candidate)
      then Inl (ValueError ''Delegation path roots must be safe relative paths.'')
      else Inr (path_as_posix candidate))"

definition path_within :: "string \<Rightarrow> string \<Rightarrow> bool" where
  "path_within path root =
     (let p = slash_trim path; r = slash_trim root in
      if r = [] then True else p = r \<or> starts_with p (r @ ''/''))"

definition delegation_scope_from_mapping ::
  "py_runtime \<Rightarrow> json dict \<Rightarrow> delegation_scope res" where
  "delegation_scope_from_mapping rt value =
     (let did = strip (py_str rt (dict_get_or value ''delegation_id'' (JStr [])));
          by = strip (py_str rt (dict_get_or value ''delegated_by'' (JStr [])))
      in if did = [] \<or> by = []
         then Inl (ValueError ''Every delegation requires delegation_id and delegated_by.'')
         else
         res_bind (string_tuple rt (dict_get_or value ''tools'' (JList []))) (\<lambda>tools.
         res_bind (string_tuple rt (dict_get_or value ''repositories'' (JList []))) (\<lambda>repos.
         res_bind (string_tuple rt (dict_get_or value ''path_roots'' (JList []))) (\<lambda>raw_roots.
         res_bind (res_map normalize_path_root raw_roots) (\<lambda>roots.
         res_bind (py_int rt (dict_get_or value ''expires_at'' (JInt 0))) (\<lambda>expires.
         if expires \<le> 0
         then Inl (ValueError ''Every delegation requires a positive expires_at timestamp.'')
         else Inr \<lparr>delegation_id = did, scope_delegated_by = by, delegated_tools = tools,
                    delegated_repositories = repos, delegated_path_roots = roots,
                    delegation_expires_at = expires\<rparr>))))))"

definition delegation_scope_dict :: "delegation_scope \<Rightarrow> json" where
  "delegation_scope_dict d = JObj
     [(''delegation_id'', JStr (delegation_id d)),
      (''delegated_by'', JStr (scope_delegated_by d)),
      (''tools'', JList (map JStr (delegated_tools d))),
      (''repositories'', JList (map JStr (delegated_repositories d))),
      (''path_roots'', JList (map JStr (delegated_path_roots d))),
      (''expires_at'', JInt (delegation_expires_at d))]"

section \<open>Delegation chains\<close>

definition assert_narrower ::
  "py_runtime \<Rightarrow> string list \<Rightarrow> string list \<Rightarrow> string \<Rightarrow> string \<Rightarrow> unit res" where
  "assert_narrower rt child parent label did =
     (if parent \<noteq> [] \<and> (child = [] \<or> \<not> list_all (\<lambda>x. x \<in> set parent) child)
      then Inl (ValueError (''Delegation '' @ py_repr rt (JStr did) @ '' expands '' @ label
                  @ '' authority beyond its parent.''))
      else Inr ())"

text \<open>The body of the loop of \<open>_parse_delegation_chain\<close> for an entry under the last one parsed.\<close>

definition check_child ::
  "py_runtime \<Rightarrow> delegation_scope \<Rightarrow> delegation_scope \<Rightarrow> unit res" where
  "check_child rt parent scope =
     (if scope_delegated_by scope \<noteq> delegation_id parent
      then Inl (ValueError (''Delegation '' @ py_repr rt (JStr (delegation_id scope))
                  @ '' is not linked to parent '' @ py_repr rt (JStr (delegation_id parent)) @ ''.''))
      else
      res_bind (assert_narrower rt (delegated_tools scope) (delegated_tools parent) ''tools''
                  (delegation_id scope)) (\<lambda>_.
      res_bind (assert_narrower rt (delegated_repositories scope) (delegated_repositories parent)
                  ''repositories'' (delegation_id scope)) (\<lambda>_.
      if delegated_path_roots parent \<noteq> []
         \<and> list_ex (\<lambda>child_root. \<not> list_ex (path_within child_root) (delegated_path_roots parent))
             (delegated_path_roots scope)
      then Inl (ValueError (''Delegation '' @ py_repr rt (JStr (delegation_id scope))
                  @ '' expands path authority beyond its parent.''))
      else if delegation_expires_at parent < delegation_expires_at scope
      then Inl (ValueError (''Delegation '' @ py_repr rt (JStr (delegation_id scope))
                  @ '' expires after its parent delegation.''))
      else Inr ())))"

definition chain_step ::
  "py_runtime \<Rightarrow> int \<Rightarrow> json \<Rightarrow> delegation_scope list \<Rightarrow> delegation_scope list res" where
  "chain_step rt now raw chain =
     (case raw of
        JObj d \<Rightarrow>
          res_bind (delegation_scope_from_mapping rt d) (\<lambda>scope.
          if delegation_expires_at scope \<le> now
          then Inl (ValueError (''Delegation '' @ py_repr rt (JStr (delegation_id scope))
                      @ '' is expired.''))
          else res_bind (if chain = [] then Inr () else check_child rt (last chain) scope)
                 (\<lambda>_. Inr (chain @ [scope])))
      | _ \<Rightarrow> Inl (ValueError ''Every blackfox_delegation entry must be an object.''))"

definition parse_delegation_chain ::
  "py_runtime \<Rightarrow> int \<Rightarrow> json \<Rightarrow> delegation_scope list res" where
  "parse_delegation_chain rt now value =
     (case value of
        JNull \<Rightarrow> Inr []
      | JStr s \<Rightarrow>
         if s = [] then Inr []
         else Inl (ValueError ''blackfox_delegation must be an ordered array of delegation objects.'')
      | JList raws \<Rightarrow> res_fold (chain_step rt now) raws []
      | _ \<Rightarrow> Inl (ValueError ''blackfox_delegation must be an ordered array of delegation objects.''))"

section \<open>Principals\<close>

record authenticated_principal =
  principal_agent_id :: string
  authentication_type :: string
  principal_issuer :: string
  principal_subject :: string
  principal_audience :: string
  principal_key_id :: string
  principal_token_id :: string
  principal_issued_at :: int
  principal_expires_at :: int
  delegation_chain :: "delegation_scope list"

definition principal_dict :: "authenticated_principal \<Rightarrow> json" where
  "principal_dict p = JObj
     [(''agent_id'', JStr (principal_agent_id p)),
      (''authentication_type'', JStr (authentication_type p)),
      (''issuer'', JStr (principal_issuer p)),
      (''subject'', JStr (principal_subject p)),
      (''audience'', JStr (principal_audience p)),
      (''key_id'', JStr (principal_key_id p)),
      (''token_id'', JStr (principal_token_id p)),
      (''issued_at'', JInt (principal_issued_at p)),
      (''expires_at'', JInt (principal_expires_at p)),
      (''delegation_chain'', JList (map delegation_scope_dict (delegation_chain p)))]"

definition context_digest :: "(string \<Rightarrow> string) \<Rightarrow> authenticated_principal \<Rightarrow> string res" where
  "context_digest H p = digest_payload H (principal_dict p)"

text \<open>\<open>authorize_action\<close>: the first scope's complaint, or the empty string.\<close>

fun chain_complaint ::
  "py_runtime \<Rightarrow> delegation_scope list \<Rightarrow> string \<Rightarrow> string \<Rightarrow> string \<Rightarrow> string" where
  "chain_complaint rt [] tool repo path = []"
| "chain_complaint rt (scope # scopes) tool repo path =
     (let name = ''Delegation '' @ py_repr rt (JStr (delegation_id scope)) @ '' does not authorize '' in
      if delegated_tools scope \<noteq> [] \<and> tool \<notin> set (delegated_tools scope)
      then name @ ''tool '' @ py_repr rt (JStr tool) @ ''.''
      else if delegated_repositories scope \<noteq> [] \<and> repo \<notin> set (delegated_repositories scope)
      then name @ ''repository '' @ py_repr rt (JStr repo) @ ''.''
      else if delegated_path_roots scope \<noteq> [] \<and> \<not> list_ex (path_within path) (delegated_path_roots scope)
      then name @ ''path '' @ py_repr rt (JStr path) @ ''.''
      else chain_complaint rt scopes tool repo path)"

definition authorize_action ::
  "py_runtime \<Rightarrow> authenticated_principal \<Rightarrow> string \<Rightarrow> string \<Rightarrow> string \<Rightarrow> string" where
  "authorize_action rt p tool repo path = chain_complaint rt (delegation_chain p) tool repo path"

section \<open>Revocations and the verifier\<close>

type_synonym revocations = "((string \<times> string) \<times> string \<times> string) list"

definition revoke_credential ::
  "string \<Rightarrow> string \<Rightarrow> string \<Rightarrow> string \<Rightarrow> revocations \<Rightarrow> revocations" where
  "revoke_credential now_text kind value reason db = AList.update (kind, value) (now_text, reason) db"

definition is_revoked :: "string \<Rightarrow> string \<Rightarrow> revocations \<Rightarrow> bool" where
  "is_revoked kind value db = (map_of db (kind, value) \<noteq> None)"

text \<open>
  PyJWT: \<open>jwt_unverified\<close> gives header and claims of a token whose signature is not checked,
  or None for \<open>InvalidTokenError\<close>; \<open>jwt_keys\<close> reads and parses the key set of a path;
  \<open>jwt_decode\<close> is \<open>jwt.decode\<close> with key, algorithms, audience, issuer and leeway, and the seven
  required claims.
\<close>

record 'k pyjwt =
  jwt_unverified :: "string \<Rightarrow> (json dict \<times> json dict) option"
  jwt_keys :: "string \<Rightarrow> (string \<times> 'k) list res"
  jwt_decode :: "string \<Rightarrow> 'k \<Rightarrow> string list \<Rightarrow> string \<Rightarrow> string \<Rightarrow> int \<Rightarrow> json dict res"

record identity_verifier =
  verifier_providers :: "oidc_provider list"
  verifier_bindings :: "identity_binding list"

definition dict_item :: "json dict \<Rightarrow> string \<Rightarrow> json res" where
  "dict_item d k = (case dict_get d k of None \<Rightarrow> Inl (KeyError k) | Some v \<Rightarrow> Inr v)"

definition caught_by_decode :: "py_error \<Rightarrow> bool" where
  "caught_by_decode e = (is_value_error e
     \<or> (case e of OSError _ \<Rightarrow> True | InvalidTokenError _ \<Rightarrow> True | _ \<Rightarrow> False))"

text \<open>
  A refusal is the pair of None and the reason; \<open>Inl\<close> is an exception that leaves \<open>verify\<close>.
\<close>

type_synonym verified = "authenticated_principal option \<times> string"

abbreviation refuse :: "string \<Rightarrow> verified res" where
  "refuse reason \<equiv> Inr (None, reason)"

text \<open>The \<open>try\<close> block: the key of that id in the provider's set, and the checked claims.\<close>

definition decode_token ::
  "'k pyjwt \<Rightarrow> oidc_provider \<Rightarrow> string \<Rightarrow> string \<Rightarrow> (string + json dict) res" where
  "decode_token jwt provider key_id token =
     (let body =
        res_bind (jwt_keys jwt (provider_jwks_path provider)) (\<lambda>keys.
        case filter (\<lambda>k. fst k = key_id) keys of
          [k] \<Rightarrow> res_bind (jwt_decode jwt token (snd k) (provider_algorithms provider)
                   (provider_audience provider) (provider_issuer provider)
                   (clock_skew_seconds provider)) (\<lambda>claims. Inr (Inr claims))
        | _ \<Rightarrow> Inr (Inl ''Federated identity signing key is unknown or ambiguous.''))
      in case body of
           Inl e \<Rightarrow>
             if caught_by_decode e
             then Inr (Inl ''Federated identity token failed cryptographic or claim validation.'')
             else Inl e
         | Inr x \<Rightarrow> Inr x)"

text \<open>What follows the \<open>try\<close> block: token age, revocation, binding, claimed agent, delegation.\<close>

definition check_claims ::
  "py_runtime \<Rightarrow> identity_verifier \<Rightarrow> revocations \<Rightarrow> oidc_provider \<Rightarrow> int \<Rightarrow> string \<Rightarrow> string
    \<Rightarrow> string \<Rightarrow> json dict \<Rightarrow> verified res" where
  "check_claims rt ver db provider now issuer key_id claimed claims =
     res_bind (res_bind (dict_item claims ''iat'') (py_int rt)) (\<lambda>issued.
     res_bind (res_bind (dict_item claims ''exp'') (py_int rt)) (\<lambda>expires.
     res_bind (dict_item claims ''jti'') (\<lambda>jti.
     res_bind (dict_item claims ''sub'') (\<lambda>sub.
     let token_id = strip (py_str rt jti); subject = strip (py_str rt sub) in
     if token_id = [] \<or> subject = []
     then refuse ''Federated identity token subject and token id must not be empty.''
     else if now + clock_skew_seconds provider < issued
     then refuse ''Federated identity token issued-at time is in the future.''
     else if max_token_age_seconds provider + clock_skew_seconds provider < now - issued
     then refuse ''Federated identity token exceeds the configured maximum credential age.''
     else if is_revoked ''jti'' token_id db
     then refuse ''Federated identity token has been revoked.''
     else case List.find (\<lambda>b. binding_issuer b = issuer \<and> binding_subject b = subject)
                 (verifier_bindings ver) of
       None \<Rightarrow> refuse ''Federated identity subject is not bound to a registered BlackFox agent.''
     | Some binding \<Rightarrow>
       res_bind (if claimed = [] then Inr True
                 else res_bind (normalize_identifier ''agent_id'' claimed)
                        (\<lambda>c. Inr (c = binding_agent_id binding))) (\<lambda>same.
       if \<not> same
       then refuse ''Authenticated federated identity does not match the claimed agent id.''
       else case parse_delegation_chain rt now (dict_get_or claims ''blackfox_delegation'' JNull) of
         Inl e \<Rightarrow> if is_value_error e then refuse (error_text e) else Inl e
       | Inr chain \<Rightarrow>
         (case List.find (\<lambda>d. is_revoked ''delegation'' (delegation_id d) db) chain of
            Some d \<Rightarrow> refuse (''Delegation '' @ py_repr rt (JStr (delegation_id d)) @ '' has been revoked.'')
          | None \<Rightarrow> Inr (Some
              \<lparr>principal_agent_id = binding_agent_id binding, authentication_type = ''oidc_jwt'',
               principal_issuer = issuer, principal_subject = subject,
               principal_audience = provider_audience provider, principal_key_id = key_id,
               principal_token_id = token_id, principal_issued_at = issued,
               principal_expires_at = expires, delegation_chain = chain\<rparr>, [])))))))"

definition verify_token ::
  "py_runtime \<Rightarrow> 'k pyjwt \<Rightarrow> identity_verifier \<Rightarrow> revocations \<Rightarrow> int \<Rightarrow> string \<Rightarrow> string
    \<Rightarrow> verified res" where
  "verify_token rt jwt ver db now token claimed =
     (case jwt_unverified jwt token of
        None \<Rightarrow> refuse ''Federated identity token is malformed.''
      | Some (header, unverified) \<Rightarrow>
        (let issuer = py_str rt (dict_get_or unverified ''iss'' (JStr [])) in
         case List.find (\<lambda>p. provider_issuer p = issuer) (verifier_providers ver) of
           None \<Rightarrow> refuse ''Federated identity token issuer is not trusted.''
         | Some provider \<Rightarrow>
           (let algorithm = py_str rt (dict_get_or header ''alg'' (JStr []));
                key_id = py_str rt (dict_get_or header ''kid'' (JStr []))
            in if algorithm \<notin> set (provider_algorithms provider) \<or> key_id = []
               then refuse ''Federated identity token algorithm or key id is not permitted.''
               else res_bind (decode_token jwt provider key_id token) (\<lambda>decoded.
                 case decoded of
                   Inl reason \<Rightarrow> refuse reason
                 | Inr claims \<Rightarrow>
                     check_claims rt ver db provider now issuer key_id claimed claims))))"

section \<open>Chains: each entry is linked to and narrower than the one above it\<close>

text \<open>What one entry permits, and what \<open>check_child\<close> establishes, without messages.\<close>

definition scope_permits :: "delegation_scope \<Rightarrow> string \<Rightarrow> string \<Rightarrow> string \<Rightarrow> bool" where
  "scope_permits d tool repo path \<longleftrightarrow>
     (delegated_tools d = [] \<or> tool \<in> set (delegated_tools d))
     \<and> (delegated_repositories d = [] \<or> repo \<in> set (delegated_repositories d))
     \<and> (delegated_path_roots d = [] \<or> (\<exists>root \<in> set (delegated_path_roots d). path_within path root))"

definition narrows :: "delegation_scope \<Rightarrow> delegation_scope \<Rightarrow> bool" where
  "narrows parent child \<longleftrightarrow>
     scope_delegated_by child = delegation_id parent
     \<and> (delegated_tools parent \<noteq> [] \<longrightarrow>
          delegated_tools child \<noteq> [] \<and> set (delegated_tools child) \<subseteq> set (delegated_tools parent))
     \<and> (delegated_repositories parent \<noteq> [] \<longrightarrow> delegated_repositories child \<noteq> []
          \<and> set (delegated_repositories child) \<subseteq> set (delegated_repositories parent))
     \<and> (delegated_path_roots parent \<noteq> [] \<longrightarrow>
          (\<forall>c \<in> set (delegated_path_roots child).
             \<exists>root \<in> set (delegated_path_roots parent). path_within c root))
     \<and> delegation_expires_at child \<le> delegation_expires_at parent"

fun linked :: "delegation_scope list \<Rightarrow> bool" where
  "linked (a # b # ds) = (narrows a b \<and> linked (b # ds))"
| "linked ds = True"

lemma check_child_narrows: "check_child rt parent scope = Inr () \<longleftrightarrow> narrows parent scope"
  by (auto simp: check_child_def narrows_def assert_narrower_def res_simps list_ex_iff list_all_iff)

lemma chain_complaint_permits:
  "chain_complaint rt ds tool repo path = [] \<longleftrightarrow> (\<forall>d \<in> set ds. scope_permits d tool repo path)"
  by (induction ds) (auto simp: scope_permits_def Let_def list_ex_iff)

lemma linked_append:
  "linked (ds @ [d]) \<longleftrightarrow> linked ds \<and> (ds \<noteq> [] \<longrightarrow> narrows (last ds) d)"
  by (induction ds rule: linked.induct) auto

lemma chain_step_linked:
  assumes "chain_step rt now raw chain = Inr chain'"
    and "linked chain" "\<forall>d \<in> set chain. now < delegation_expires_at d"
  shows "linked chain' \<and> (\<forall>d \<in> set chain'. now < delegation_expires_at d)"
  using assms
  by (cases raw)
    (auto simp: chain_step_def res_simps linked_append check_child_narrows
      split: if_splits)

lemma parse_delegation_chain_linked:
  assumes "parse_delegation_chain rt now v = Inr chain"
  shows "linked chain \<and> (\<forall>d \<in> set chain. now < delegation_expires_at d)"
proof (cases v)
  case (JList raws)
  with assms have "res_fold (chain_step rt now) raws [] = Inr chain"
    by (simp add: parse_delegation_chain_def)
  then show ?thesis
    by (rule res_fold_invariant) (auto dest: chain_step_linked)
qed (use assms in \<open>auto simp: parse_delegation_chain_def split: if_splits\<close>)

lemma path_within_iff:
  "path_within p r \<longleftrightarrow> slash_trim r = [] \<or> slash_trim p = slash_trim r
     \<or> (\<exists>t. slash_trim p = slash_trim r @ ''/'' @ t)"
  by (auto simp: path_within_def Let_def starts_with_append)

lemma path_within_trans:
  assumes "path_within p c" "path_within c r"
  shows "path_within p r"
  using assms by (auto simp: path_within_iff)

lemma linked_Cons_tools:
  assumes "linked (d # ds)" "e \<in> set ds"
  shows "delegation_expires_at e \<le> delegation_expires_at d"
    and "delegated_tools d \<noteq> [] \<Longrightarrow>
           delegated_tools e \<noteq> [] \<and> set (delegated_tools e) \<subseteq> set (delegated_tools d)"
    and "delegated_repositories d \<noteq> [] \<Longrightarrow> delegated_repositories e \<noteq> []
           \<and> set (delegated_repositories e) \<subseteq> set (delegated_repositories d)"
  using assms
proof (induction ds arbitrary: d)
  case (Cons b ds)
  {
    case 1
    with Cons.IH(1) [of b] show ?case by (auto simp: narrows_def intro: order_trans)
  next
    case 2
    with Cons.IH(2) [of b] show ?case by (auto simp: narrows_def)
  next
    case 3
    with Cons.IH(3) [of b] show ?case by (auto simp: narrows_def)
  }
qed simp_all

text \<open>
  Path authority narrows as long as no entry drops the path roots of the one above it, which
  \<open>check_child\<close> accepts: then whatever an entry permits, every entry above it permits.
\<close>

fun keeps_path_limits :: "delegation_scope list \<Rightarrow> bool" where
  "keeps_path_limits (a # b # ds) =
     ((delegated_path_roots a = [] \<or> delegated_path_roots b \<noteq> []) \<and> keeps_path_limits (b # ds))"
| "keeps_path_limits ds = True"

lemma linked_drop: "linked ds \<Longrightarrow> linked (drop n ds)"
  by (induction ds arbitrary: n rule: linked.induct) (auto simp: drop_Cons split: nat.split)

lemma keeps_path_limits_drop: "keeps_path_limits ds \<Longrightarrow> keeps_path_limits (drop n ds)"
  by (induction ds arbitrary: n rule: keeps_path_limits.induct) (auto simp: drop_Cons split: nat.split)

lemma narrows_permits:
  assumes "narrows a b" "delegated_path_roots a = [] \<or> delegated_path_roots b \<noteq> []"
    and "scope_permits b tool repo path"
  shows "scope_permits a tool repo path"
proof -
  have "\<exists>root \<in> set (delegated_path_roots a). path_within path root"
    if a: "delegated_path_roots a \<noteq> []"
  proof -
    obtain c where c: "c \<in> set (delegated_path_roots b)" "path_within path c"
      using a assms(2,3) unfolding scope_permits_def by blast
    with a assms(1) obtain r where "r \<in> set (delegated_path_roots a)" "path_within c r"
      unfolding narrows_def by blast
    with c(2) path_within_trans show ?thesis by blast
  qed
  with assms(1,3) show ?thesis unfolding scope_permits_def narrows_def by blast
qed

lemma linked_permits:
  assumes "linked (d # ds)" "keeps_path_limits (d # ds)" "e \<in> set (d # ds)" "scope_permits e tool repo path"
  shows "scope_permits d tool repo path"
  using assms
proof (induction ds arbitrary: d)
  case (Cons b ds)
  show ?case
  proof (cases "e = d")
    case False
    with Cons.prems have "linked (b # ds)" "keeps_path_limits (b # ds)" "e \<in> set (b # ds)" by simp_all
    from Cons.IH [OF this Cons.prems(4)] have b: "scope_permits b tool repo path" .
    from Cons.prems(1,2) have "narrows d b" "delegated_path_roots d = [] \<or> delegated_path_roots b \<noteq> []"
      by simp_all
    from narrows_permits [OF this b] show ?thesis .
  qed (use Cons.prems in simp)
qed simp

lemma linked_permits_above:
  assumes "linked ds" "keeps_path_limits ds" "i \<le> j" "j < length ds"
    and "scope_permits (ds ! j) tool repo path"
  shows "scope_permits (ds ! i) tool repo path"
proof (rule linked_permits)
  have d: "drop i ds = ds ! i # drop (Suc i) ds" using assms(3,4) by (simp add: Cons_nth_drop_Suc)
  show "linked (ds ! i # drop (Suc i) ds)" using linked_drop [OF assms(1), of i] d by simp
  show "keeps_path_limits (ds ! i # drop (Suc i) ds)" using keeps_path_limits_drop [OF assms(2), of i] d by simp
  have "drop i ds ! (j - i) = ds ! j" "j - i < length (drop i ds)" using assms(3,4) by simp_all
  then have "ds ! j \<in> set (drop i ds)" using nth_mem [of "j - i" "drop i ds"] by (simp only:)
  then show "ds ! j \<in> set (ds ! i # drop (Suc i) ds)" using d by (simp only:)
  show "scope_permits (ds ! j) tool repo path" by (fact assms(5))
qed

text \<open>Tools and repositories narrow whatever becomes of the paths.\<close>

lemma keeps_path_limits_cleared: "keeps_path_limits (map (\<lambda>d. d\<lparr>delegated_path_roots := []\<rparr>) ds)"
  by (induction ds rule: keeps_path_limits.induct) auto

lemma linked_cleared: "linked ds \<Longrightarrow> linked (map (\<lambda>d. d\<lparr>delegated_path_roots := []\<rparr>) ds)"
  by (induction ds rule: linked.induct) (auto simp: narrows_def)

lemma linked_tools_above:
  assumes "linked ds" "i \<le> j" "j < length ds" "scope_permits (ds ! j) tool repo path"
  shows "scope_permits ((ds ! i)\<lparr>delegated_path_roots := []\<rparr>) tool repo path"
proof -
  have "scope_permits (map (\<lambda>d. d\<lparr>delegated_path_roots := []\<rparr>) ds ! j) tool repo path"
    using assms(3,4) by (auto simp: scope_permits_def)
  from linked_permits_above [OF linked_cleared [OF assms(1)] keeps_path_limits_cleared assms(2) _ this]
  show ?thesis using assms(2,3) by simp
qed

section \<open>What a verified token says\<close>

definition token_accepted ::
  "identity_verifier \<Rightarrow> revocations \<Rightarrow> oidc_provider \<Rightarrow> int \<Rightarrow> string \<Rightarrow> string
    \<Rightarrow> authenticated_principal \<Rightarrow> bool" where
  "token_accepted ver db provider now issuer claimed p \<longleftrightarrow>
     (\<exists>b \<in> set (verifier_bindings ver). binding_issuer b = issuer
        \<and> binding_subject b = principal_subject p \<and> principal_agent_id p = binding_agent_id b)
     \<and> \<not> is_revoked ''jti'' (principal_token_id p) db
     \<and> (\<forall>d \<in> set (delegation_chain p). \<not> is_revoked ''delegation'' (delegation_id d) db
          \<and> now < delegation_expires_at d)
     \<and> linked (delegation_chain p)
     \<and> principal_issued_at p \<le> now + clock_skew_seconds provider
     \<and> now - principal_issued_at p \<le> max_token_age_seconds provider + clock_skew_seconds provider
     \<and> (claimed \<noteq> [] \<longrightarrow> normalize_identifier ''agent_id'' claimed = Inr (principal_agent_id p))"

lemma check_claims_accepted:
  "ensures (\<lambda>v. \<forall>p. fst v = Some p \<longrightarrow> token_accepted ver db provider now issuer claimed p)
     (check_claims rt ver db provider now issuer key_id claimed claims)"
  unfolding check_claims_def Let_def
  by (intro ensures_intro allI impI; clarsimp split: if_splits)
    (auto simp: token_accepted_def find_None_iff res_simps
      dest!: parse_delegation_chain_linked find_Some_in)

lemma verify_token_accepted:
  "ensures (\<lambda>v. \<forall>p. fst v = Some p \<longrightarrow>
       (\<exists>provider \<in> set (verifier_providers ver). provider_issuer provider = principal_issuer p
          \<and> token_accepted ver db provider now (principal_issuer p) claimed p))
     (verify_token rt jwt ver db now token claimed)"
proof -
  have iss: "ensures (\<lambda>v. \<forall>p. fst v = Some p \<longrightarrow> principal_issuer p = issuer)
    (check_claims rt ver db provider now issuer key_id claimed claims)"
    for issuer provider key_id claims
    unfolding check_claims_def Let_def
    by (intro ensures_intro allI impI; clarsimp split: if_splits)
  have step: "ensures (\<lambda>v. \<forall>p. fst v = Some p \<longrightarrow>
       (\<exists>provider \<in> set (verifier_providers ver). provider_issuer provider = principal_issuer p
          \<and> token_accepted ver db provider now (principal_issuer p) claimed p))
    (check_claims rt ver db provider now issuer key_id claimed claims)"
    if "provider \<in> set (verifier_providers ver)" "provider_issuer provider = issuer"
    for issuer provider key_id claims
    using that iss [of issuer provider key_id claims]
      check_claims_accepted [of ver db provider now issuer claimed rt key_id claims]
    by (auto simp: ensures_def intro!: bexI [of _ provider])
  show ?thesis
    unfolding verify_token_def Let_def
    by (intro ensures_intro step allI impI; simp)
qed

text \<open>
  The expiry of the token itself is checked by PyJWT alone: \<open>jwt.decode\<close>, told to require \<open>exp\<close>, is
  documented to raise \<open>ExpiredSignatureError\<close> unless \<open>exp\<close> is later than its clock less the leeway.
  That is the condition below, for an instant at which PyJWT read the clock.
\<close>

definition jwt_refuses_expired :: "py_runtime \<Rightarrow> 'k pyjwt \<Rightarrow> int \<Rightarrow> bool" where
  "jwt_refuses_expired rt jwt at \<longleftrightarrow> (\<forall>token key algorithms audience issuer leeway claims.
     jwt_decode jwt token key algorithms audience issuer leeway = Inr claims \<longrightarrow>
     (\<exists>v e. dict_get claims ''exp'' = Some v \<and> py_int rt v = Inr e \<and> at - leeway < e))"

lemma check_claims_expiry:
  "ensures (\<lambda>v. \<forall>p. fst v = Some p \<longrightarrow> principal_issuer p = issuer
       \<and> res_bind (dict_item claims ''exp'') (py_int rt) = Inr (principal_expires_at p))
     (check_claims rt ver db provider now issuer key_id claimed claims)"
  unfolding check_claims_def Let_def
  by (intro ensures_intro allI impI; clarsimp split: if_splits)

lemma verify_token_decoded:
  assumes "verify_token rt jwt ver db now token claimed = Inr (Some p, reason)"
  obtains provider key key_id claims where "provider \<in> set (verifier_providers ver)"
    "provider_issuer provider = principal_issuer p"
    "jwt_decode jwt token key (provider_algorithms provider) (provider_audience provider)
       (provider_issuer provider) (clock_skew_seconds provider) = Inr claims"
    "check_claims rt ver db provider now (principal_issuer p) key_id claimed claims = Inr (Some p, reason)"
proof -
  obtain header unverified where u: "jwt_unverified jwt token = Some (header, unverified)"
    using assms by (auto simp: verify_token_def split: option.splits)
  define issuer where "issuer = py_str rt (dict_get_or unverified ''iss'' (JStr []))"
  define kid where "kid = py_str rt (dict_get_or header ''kid'' (JStr []))"
  obtain provider where f: "List.find (\<lambda>p. provider_issuer p = issuer) (verifier_providers ver) = Some provider"
    using assms u by (auto simp: verify_token_def issuer_def Let_def split: option.splits)
  then have p: "provider \<in> set (verifier_providers ver)" "provider_issuer provider = issuer"
    by (auto dest: find_Some_in)
  obtain claims where c: "decode_token jwt provider kid token = Inr (Inr claims)"
    "check_claims rt ver db provider now issuer kid claimed claims = Inr (Some p, reason)"
    using assms u f
    by (auto simp: verify_token_def issuer_def kid_def Let_def elim!: res_bind_InrE split: if_splits)
      (auto split: sum.split_asm)
  then obtain key where "jwt_decode jwt token key (provider_algorithms provider) (provider_audience provider)
      (provider_issuer provider) (clock_skew_seconds provider) = Inr claims"
    by (auto simp: decode_token_def Let_def elim!: res_bind_InrE split: sum.split_asm if_split_asm list.split_asm)
  moreover have "principal_issuer p = issuer" using ensuresD [OF check_claims_expiry c(2)] by simp
  ultimately show thesis using that [OF p(1), of key claims kid] p(2) c(2) by simp
qed

lemma verify_token_unexpired:
  assumes "verify_token rt jwt ver db now token claimed = Inr (Some p, reason)" "jwt_refuses_expired rt jwt at"
  shows "\<exists>provider \<in> set (verifier_providers ver). provider_issuer provider = principal_issuer p
    \<and> token_accepted ver db provider now (principal_issuer p) claimed p
    \<and> at < principal_expires_at p + clock_skew_seconds provider"
proof -
  obtain provider key key_id claims where v: "provider \<in> set (verifier_providers ver)"
    "provider_issuer provider = principal_issuer p"
    "jwt_decode jwt token key (provider_algorithms provider) (provider_audience provider)
       (provider_issuer provider) (clock_skew_seconds provider) = Inr claims"
    "check_claims rt ver db provider now (principal_issuer p) key_id claimed claims = Inr (Some p, reason)"
    by (rule verify_token_decoded [OF assms(1)])
  have "res_bind (dict_item claims ''exp'') (py_int rt) = Inr (principal_expires_at p)"
    using ensuresD [OF check_claims_expiry v(4)] by simp
  then obtain v' where "dict_get claims ''exp'' = Some v'" "py_int rt v' = Inr (principal_expires_at p)"
    by (auto simp: dict_item_def res_simps split: option.splits)
  moreover from v(3) assms(2) obtain w e where "dict_get claims ''exp'' = Some w" "py_int rt w = Inr e"
    "at - clock_skew_seconds provider < e"
    unfolding jwt_refuses_expired_def by blast
  ultimately have "at < principal_expires_at p + clock_skew_seconds provider" by auto
  with v(1,2) ensuresD [OF check_claims_accepted v(4)] show ?thesis by auto
qed

lemma is_revoked_revoke:
  "is_revoked k v (revoke_credential at kind token_value reason db)
     \<longleftrightarrow> (k = kind \<and> v = token_value) \<or> is_revoked k v db"
  by (auto simp: is_revoked_def revoke_credential_def update_conv')

end
