(* ===== verification/Gateway.thy ===== *)
theory Gateway
  imports ReceiptStore EnterpriseIdentity
begin

text \<open>
  The decision core of \<open>live_gateway/service.py\<close> and the routes of \<open>live_gateway/config.py\<close>: how a
  call becomes an exact subject, the authority prepared for it, who is authenticated, how
  single-use evidence is reserved. A mesh connector is represented by its id and its
  \<open>contract()\<close> document. Clocks and the fresh invocation id are arguments.
\<close>

section \<open>Routes\<close>

record header_binding =
  header_argument_path :: "string list"
  header_name :: string

definition header_binding_dict :: "header_binding \<Rightarrow> json" where
  "header_binding_dict b = JObj
     [(''argument_path'', json_strs (header_argument_path b)), (''header_name'', JStr (header_name b))]"

record tool_route =
  route_tool_name :: string
  route_capability :: tool_capability
  route_repository_id :: string
  path_argument :: string
  revision_argument :: string
  repository_argument :: string
  route_risk_tier :: capability_risk_tier
  evidence_policy_id :: string
  api_method :: string
  api_path :: string
  route_operating_domain :: operating_domain
  mcp_header_bindings :: "header_binding list"
  route_connector_id :: string

definition upper_char :: "char \<Rightarrow> char" where
  "upper_char c = (if 97 \<le> code_point c \<and> code_point c \<le> 122 then char_of (code_point c - 32) else c)"

text \<open>\<open>_validate_api_path\<close>\<close>

definition validate_api_path :: "string \<Rightarrow> unit res" where
  "validate_api_path v =
     (if \<not> starts_with v ''/'' \<or> starts_with v ''//''
      then Inl (ValueError ''route.api_path must be an absolute path on the configured API upstream.'')
      else if has_infix ''://'' v \<or> CHR ''?'' \<in> set v \<or> CHR 0x23 \<in> set v \<or> CHR 0x5C \<in> set v
        \<or> CHR ''%'' \<in> set v
      then Inl (ValueError ''route.api_path must be a literal URL path without scheme, query, fragment, backslashes, or percent encoding.'')
      else if list_ex (\<lambda>p. p = ''.'' \<or> p = ''..'') (split_on CHR ''/'' v)
      then Inl (ValueError ''route.api_path must not contain dot path segments.'')
      else Inr ())"

definition tool_route_init :: "tool_route \<Rightarrow> tool_route res" where
  "tool_route_init r =
     (if blank (route_tool_name r) then Inl (ValueError ''route.tool_name must not be empty.'')
      else if blank (route_repository_id r)
      then Inl (ValueError ''route.repository_id must not be empty.'')
      else let m = map upper_char (strip (api_method r)) in
      if m \<notin> {''POST'', ''PUT'', ''PATCH'', ''DELETE''}
      then Inl (ValueError ''route.api_method must be POST, PUT, PATCH, or DELETE.'')
      else res_bind (if api_path r \<noteq> [] then validate_api_path (api_path r) else Inr ()) (\<lambda>_.
      if \<not> distinct (map (\<lambda>b. lower (header_name b)) (mcp_header_bindings r))
      then Inl (ValueError ''route MCP parameter header names must be unique case-insensitively.'')
      else if \<not> distinct (map header_argument_path (mcp_header_bindings r))
      then Inl (ValueError ''route MCP parameter header argument paths must be unique.'')
      else Inr (r\<lparr>path_argument := strip (path_argument r),
                  revision_argument := strip (revision_argument r),
                  repository_argument := strip (repository_argument r), api_method := m\<rparr>)))"

definition tool_route_dict :: "tool_route \<Rightarrow> json" where
  "tool_route_dict r = JObj
     ([(''tool_name'', JStr (route_tool_name r)),
       (''capability'', JStr (tool_capability_value (route_capability r))),
       (''repository_id'', JStr (route_repository_id r)),
       (''path_argument'', JStr (path_argument r)),
       (''revision_argument'', JStr (revision_argument r)),
       (''repository_argument'', JStr (repository_argument r)),
       (''risk_tier'', JStr (capability_risk_tier_value (route_risk_tier r))),
       (''evidence_policy_id'', JStr (evidence_policy_id r)),
       (''api_method'', JStr (api_method r)),
       (''api_path'', JStr (api_path r)),
       (''operating_domain'', JStr (operating_domain_value (route_operating_domain r)))]
      @ (if route_connector_id r \<noteq> [] then [(''connector_id'', JStr (route_connector_id r))] else [])
      @ [(''mcp_header_bindings'', JList (map header_binding_dict (mcp_header_bindings r)))])"

definition evidence_policy_dict :: "evidence_policy \<Rightarrow> json" where
  "evidence_policy_dict p = JObj
     [(''policy_id'', JStr (policy_id p)),
      (''required_kinds'', json_strs (required_kinds p)),
      (''human_approval_kind'', JStr (human_approval_kind p)),
      (''target_bound_kinds'', json_strs (target_bound_kinds p)),
      (''single_use_kinds'', json_strs (single_use_kinds p)),
      (''accepted_statuses'', json_strs (accepted_statuses p)),
      (''allowed_issuers'', json_strs (allowed_issuers p)),
      (''human_approval_issuers'', json_strs (human_approval_issuers p)),
      (''max_age_seconds'', JInt (max_age_seconds p)),
      (''require_signature'', JBool (require_signature p)),
      (''require_repository_match'', JBool (require_repository_match p)),
      (''require_revision_match'', JBool (require_revision_match p))]"

section \<open>Configuration and stores\<close>

text \<open>
  The configuration the decision reads. \<open>cfg_connectors\<close> is None without \<open>[mesh]\<close>. The evaluator
  holds the agent registry of the configuration.
\<close>

record gateway_config =
  cfg_routes :: "tool_route list"
  cfg_policies :: "evidence_policy list"
  cfg_evaluator :: authorization_evaluator
  cfg_issuers :: "trusted_issuer list"
  cfg_connectors :: "(string \<times> json) list option"
  cfg_identity_mode :: string
  cfg_require_delegation :: bool
  cfg_verifier :: identity_verifier
  cfg_agent_tokens :: "string dict"
  cfg_operator_token :: string

definition cfg_registry :: "gateway_config \<Rightarrow> agent_registry" where
  "cfg_registry cfg = evaluator_registry (cfg_evaluator cfg)"

definition route_for :: "gateway_config \<Rightarrow> string \<Rightarrow> tool_route option" where
  "route_for cfg tool = List.find (\<lambda>r. route_tool_name r = tool) (cfg_routes cfg)"

definition evidence_policy_for :: "gateway_config \<Rightarrow> string \<Rightarrow> evidence_policy option" where
  "evidence_policy_for cfg pid =
     (if pid = [] then None else List.find (\<lambda>p. policy_id p = pid) (cfg_policies cfg))"

definition require_route :: "gateway_config \<Rightarrow> string \<Rightarrow> tool_route res" where
  "require_route cfg tool = (case route_for cfg tool of
     None \<Rightarrow> Inl (KeyError (''Unconfigured tool route: '' @ tool)) | Some r \<Rightarrow> Inr r)"

text \<open>The connector of a route, when the route names one and the mesh is configured.\<close>

definition route_contract :: "gateway_config \<Rightarrow> tool_route \<Rightarrow> json option res" where
  "route_contract cfg r =
     (if route_connector_id r = [] then Inr None
      else case cfg_connectors cfg of
        None \<Rightarrow> Inr None
      | Some cs \<Rightarrow> (case map_of cs (route_connector_id r) of
          None \<Rightarrow> Inl (ValueError ''Route references an unknown mesh connector.'')
        | Some c \<Rightarrow> Inr (Some c)))"

definition argument_text :: "json dict \<Rightarrow> string \<Rightarrow> string" where
  "argument_text arguments key =
     (case filled_text (dict_get arguments key) of Some s \<Rightarrow> strip s | None \<Rightarrow> [])"

section \<open>The subject of a call\<close>

definition federated :: "authenticated_principal option \<Rightarrow> authenticated_principal option" where
  "federated p = (case p of
     Some q \<Rightarrow> if authentication_type q = ''oidc_jwt'' then Some q else None | None \<Rightarrow> None)"

text \<open>The operation binding counts when it is given and not empty.\<close>

definition operation_member :: "json dict option \<Rightarrow> json dict" where
  "operation_member op = (case op of
     None \<Rightarrow> [] | Some d \<Rightarrow> if d = [] then [] else [(''operation'', JObj d)])"

definition authority_context ::
  "(string \<Rightarrow> string) \<Rightarrow> gateway_config \<Rightarrow> tool_route \<Rightarrow> evidence_policy \<Rightarrow> agent_identity
    \<Rightarrow> json option \<Rightarrow> authenticated_principal option \<Rightarrow> string res" where
  "authority_context H cfg route p agent contract who =
     res_bind (agent_identity_digest H agent) (\<lambda>ad.
       digest_payload H (JObj
         ([(''agent_identity_digest'', JStr ad), (''route'', tool_route_dict route)]
          @ (case contract of None \<Rightarrow> [] | Some c \<Rightarrow> [(''connector'', c)])
          @ [(''evidence_policy'', evidence_policy_dict p),
             (''trusted_issuers'', JList (map (\<lambda>i. JObj
                [(''issuer'', JStr (issuer_name i)), (''key_id'', JStr (issuer_key_id i)),
                 (''allowed_kinds'', json_strs (issuer_allowed_kinds i))])
                (filter (\<lambda>i. allowed_issuers p = [] \<or> issuer_name i \<in> set (allowed_issuers p))
                  (cfg_issuers cfg)))),
             (''authenticated_principal'', case federated who of
                Some q \<Rightarrow> principal_dict q | None \<Rightarrow> JObj [])])))"

definition build_subject ::
  "gateway_env \<Rightarrow> gateway_config \<Rightarrow> string \<Rightarrow> string \<Rightarrow> json dict \<Rightarrow> string
    \<Rightarrow> authenticated_principal option \<Rightarrow> json dict option \<Rightarrow> authority_subject res" where
  "build_subject env cfg aid tool arguments protocol who operation =
     res_bind (require_route cfg tool) (\<lambda>route.
     res_bind (normalize_identifier ''agent_id'' aid) (\<lambda>agent_id.
     let repository = (if repository_argument route \<noteq> []
           then (case filled_text (dict_get arguments (repository_argument route)) of
                   Some s \<Rightarrow> strip s | None \<Rightarrow> route_repository_id route)
           else route_repository_id route);
         revision = (if revision_argument route \<noteq> []
           then argument_text arguments (revision_argument route) else []);
         path = (if path_argument route \<noteq> [] then argument_text arguments (path_argument route) else [])
     in
     if path_argument route \<noteq> [] \<and> path = []
     then Inl (ValueError (''Configured route '' @ py_repr (env_runtime env) (JStr (route_tool_name route))
            @ '' requires a non-empty '' @ py_repr (env_runtime env) (JStr (path_argument route))
            @ '' tool argument for scope enforcement.''))
     else
     res_bind (no_evidence_policy ''none'') (\<lambda>none.
     let found = evidence_policy_for cfg (evidence_policy_id route);
         policy = (case found of Some p \<Rightarrow> p | None \<Rightarrow> none) in
     if (case found of Some p \<Rightarrow> require_revision_match p | None \<Rightarrow> False) \<and> revision = []
     then Inl (ValueError (''Configured evidence policy '' @ py_repr (env_runtime env) (JStr (policy_id policy))
            @ '' requires a non-empty '' @ py_repr (env_runtime env) (JStr (revision_argument route))
            @ '' tool argument.''))
     else
     res_bind (registry_lookup (cfg_registry cfg) agent_id) (\<lambda>found_agent.
     case found_agent of
       None \<Rightarrow> Inl (ValueError (''Unregistered Wave 14 agent identity: '' @ agent_id @ ''.''))
     | Some agent \<Rightarrow>
     res_bind (route_contract cfg route) (\<lambda>contract.
     res_bind (authority_context (env_hash env) cfg route policy agent contract who) (\<lambda>ctx.
     res_bind (digest_payload (env_hash env) (JObj arguments)) (\<lambda>args.
     res_bind (case federated who of
         None \<Rightarrow> Inr []
       | Some q \<Rightarrow> res_bind (context_digest (env_hash env) q) (\<lambda>cd.
           Inr [(''authentication_type'', JStr ''oidc_jwt''), (''identity_context_digest'', JStr cd)]))
       (\<lambda>identity.
     authority_subject_init
       \<lparr>subject_agent_id = agent_id, subject_tool_name = route_tool_name route,
        subject_capability = tool_capability_value (route_capability route),
        subject_repository_id = repository, subject_revision = revision, subject_path = path,
        arguments_digest = args, authority_context_digest = ctx, subject_protocol = protocol,
        subject_metadata =
          (case contract of None \<Rightarrow> [] | Some c \<Rightarrow> [(''integration_connector'', c)])
          @ operation_member operation
          @ [(''evidence_policy_id'', JStr (policy_id policy))] @ identity\<rparr>))))))))"

section \<open>Preparing authority\<close>

record prepared_request =
  prepared_route :: tool_route
  prepared_subject :: authority_subject
  prepared_invocation :: tool_request
  prepared_evidence_ids :: "string list"
  prepared_policy :: evidence_policy
  prepared_decision :: live_decision
  prepared_principal :: "authenticated_principal option"

definition prepare_authority ::
  "gateway_env \<Rightarrow> gateway_config \<Rightarrow> evidence_store \<Rightarrow> string \<Rightarrow> string \<Rightarrow> json dict \<Rightarrow> string list
    \<Rightarrow> string \<Rightarrow> authenticated_principal option \<Rightarrow> json dict option \<Rightarrow> string \<Rightarrow> int
    \<Rightarrow> prepared_request res" where
  "prepare_authority env cfg st aid tool arguments eids protocol who operation fresh now =
     res_bind (require_route cfg tool) (\<lambda>route.
     res_bind (build_subject env cfg aid tool arguments protocol who operation) (\<lambda>subject.
     let complaint = (case who of None \<Rightarrow> []
           | Some q \<Rightarrow> authorize_action (env_runtime env) q (route_tool_name route)
               (subject_repository_id subject) (subject_path subject)) in
     if complaint \<noteq> [] then Inl (ValueError complaint)
     else
     res_bind (subject_digest (env_hash env) subject) (\<lambda>sd.
     res_bind (tool_request_init
       \<lparr>invocation_id = ''tool-call-'' @ fresh, request_tool_id = route_tool_name route,
        tool_capability = route_capability route,
        tool_arguments = (if subject_path subject \<noteq> []
          then dict_set ''path'' (JStr (subject_path subject)) arguments else arguments),
        tool_task_id = None, tool_run_id = None, requested_by = Some (subject_agent_id subject),
        timeout_micros = None, tool_request_labels = [],
        tool_metadata =
          [(''repository_id'', JStr (subject_repository_id subject)),
           (''operating_domain'', JStr (operating_domain_value (route_operating_domain route))),
           (''agent_risk_tier'', JStr (capability_risk_tier_value (route_risk_tier route))),
           (''wave14_revision'', JStr (subject_revision subject)),
           (''wave14_subject_digest'', JStr sd)],
        tool_created_at = Aware now\<rparr>) (\<lambda>invocation.
     res_bind (case evidence_policy_for cfg (evidence_policy_id route) of
         Some p \<Rightarrow> Inr p | None \<Rightarrow> no_evidence_policy ''none'') (\<lambda>policy.
     res_bind (evaluate_live_authority env (cfg_evaluator cfg) st subject invocation policy eids
                 (py_isoformat (env_runtime env) now) now) (\<lambda>decision.
       Inr \<lparr>prepared_route = route, prepared_subject = subject, prepared_invocation = invocation,
            prepared_evidence_ids = eids, prepared_policy = policy, prepared_decision = decision,
            prepared_principal = who\<rparr>))))))"

section \<open>Authentication\<close>

type_synonym headers = "(string \<times> string) list"

definition header_value :: "headers \<Rightarrow> string \<Rightarrow> string option" where
  "header_value hs name = map_option snd (List.find (\<lambda>kv. lower (fst kv) = lower name) hs)"

definition header :: "headers \<Rightarrow> string \<Rightarrow> string" where
  "header hs name = (case header_value hs name of Some v \<Rightarrow> strip v | None \<Rightarrow> [])"

definition bearer_token :: "headers \<Rightarrow> string" where
  "bearer_token hs =
     (let a = header hs ''Authorization'' in
      if starts_with (lower a) ''bearer '' then strip (drop 7 a) else [])"

definition static_principal :: "string \<Rightarrow> authenticated_principal" where
  "static_principal aid =
     \<lparr>principal_agent_id = aid, authentication_type = ''static_token'', principal_issuer = [],
      principal_subject = [], principal_audience = [], principal_key_id = [],
      principal_token_id = [], principal_issued_at = 0, principal_expires_at = 0,
      delegation_chain = []\<rparr>"

definition authenticate_principal ::
  "gateway_env \<Rightarrow> 'k pyjwt \<Rightarrow> gateway_config \<Rightarrow> revocations \<Rightarrow> int \<Rightarrow> headers \<Rightarrow> string
    \<Rightarrow> verified res" where
  "authenticate_principal env jwt cfg db now hs claimed =
     (let bearer = bearer_token hs; static_token = header hs ''X-BlackFox-Agent-Token'' in
      if bearer \<noteq> []
      then (if cfg_identity_mode cfg = ''static_only''
            then refuse ''Federated identity is disabled by gateway configuration.''
            else res_bind (verify_token (env_runtime env) jwt (cfg_verifier cfg) db now bearer claimed)
              (\<lambda>(who, err).
              case who of
                Some p \<Rightarrow>
                  if err = [] \<and> cfg_require_delegation cfg \<and> delegation_chain p = []
                  then refuse ''Federated identity token is missing required delegated authority.''
                  else Inr (who, err)
              | None \<Rightarrow> Inr (who, err)))
      else if cfg_identity_mode cfg = ''federated_required''
      then refuse ''Federated bearer identity is required; static agent credentials are disabled.''
      else if static_token = [] then refuse ''BlackFox agent credential is required.''
      else case filter (\<lambda>kv. snd kv = utf8 static_token) (cfg_agent_tokens cfg) of
        [(aid, _)] \<Rightarrow>
          if claimed = [] then Inr (Some (static_principal aid), [])
          else (case normalize_identifier ''agent_id'' claimed of
             Inl e \<Rightarrow> if is_value_error e then refuse ''Claimed BlackFox agent identity is invalid.'' else Inl e
           | Inr c \<Rightarrow>
               if c \<noteq> aid
               then refuse ''Authenticated BlackFox agent identity does not match the claimed agent id.''
               else Inr (Some (static_principal aid), []))
      | _ \<Rightarrow> refuse ''BlackFox agent credential is invalid or ambiguously configured.'')"

definition operator_authorized :: "gateway_config \<Rightarrow> headers \<Rightarrow> bool" where
  "operator_authorized cfg hs =
     (let explicit = header hs ''X-BlackFox-Operator-Token''; bearer = bearer_token hs;
          candidate = (if explicit \<noteq> [] then explicit else bearer) in
      cfg_operator_token cfg \<noteq> []
      \<and> \<not> (explicit \<noteq> [] \<and> bearer \<noteq> [] \<and> utf8 explicit \<noteq> utf8 bearer)
      \<and> candidate \<noteq> [] \<and> utf8 candidate = cfg_operator_token cfg)"

section \<open>Reserving single-use evidence\<close>

definition single_use_ids :: "prepared_request \<Rightarrow> string list" where
  "single_use_ids p =
     sort (map verified_evidence_id
       (filter (\<lambda>v. verification_passed v \<and> verified_kind v \<in> set (single_use_kinds (prepared_policy p)))
         (verifications (live_evidence (prepared_decision p)))))"

definition replay_issue :: "string \<Rightarrow> evidence_issue" where
  "replay_issue e =
     \<lparr>issue_code = ''single_use_evidence_replayed'',
      issue_summary = ''Single-use evidence was already reserved by an earlier authority attempt.'',
      issue_evidence_id = e, issue_metadata = []\<rparr>"

definition replayed_decision :: "prepared_request \<Rightarrow> string list \<Rightarrow> string \<Rightarrow> live_decision res" where
  "replayed_decision p conflicts decided_at =
     (let d = prepared_decision p in
      live_decision_init
        \<lparr>live_subject = prepared_subject p, live_status = EVIDENCE_REQUIRED,
         reason_codes = [''single_use_evidence_replayed''],
         live_authorization = live_authorization d,
         live_evidence = (live_evidence d)\<lparr>evaluation_issues :=
           evaluation_issues (live_evidence d) @ map replay_issue conflicts\<rparr>,
         live_decided_at = decided_at\<rparr>)"

definition claim_prepared ::
  "gateway_env \<Rightarrow> prepared_request \<Rightarrow> string \<Rightarrow> string \<Rightarrow> receipt_db
    \<Rightarrow> ((prepared_request \<times> string list \<times> string list) \<times> receipt_db) res" where
  "claim_prepared env p claimed_at decided_at db =
     (if single_use_kinds (prepared_policy p) = [] \<or> single_use_ids p = []
      then Inr ((p, [], []), db)
      else
      res_bind (subject_digest (env_hash env) (prepared_subject p)) (\<lambda>sd.
      res_bind (claim_single_use_evidence (env_hash env) (single_use_ids p) sd claimed_at db)
        (\<lambda>(conflicts, db').
      if conflicts = [] then Inr ((p, single_use_ids p, []), db')
      else res_bind (replayed_decision p conflicts decided_at) (\<lambda>decision.
        Inr ((p\<lparr>prepared_decision := decision\<rparr>, [], conflicts), db')))))"

section \<open>Evidence references of a request\<close>

definition bounded_evidence_ids :: "string list \<Rightarrow> string list res" where
  "bounded_evidence_ids values =
     (let ids = uniq values in
      if 64 < length ids
      then Inl (ValueError ''At most 64 evidence references may accompany one action.'')
      else if list_ex (\<lambda>v. 128 < length v) ids
      then Inl (ValueError ''Evidence references must not exceed 128 characters.'')
      else Inr ids)"

definition string_sequence :: "json \<Rightarrow> string list" where
  "string_sequence v = (case v of
     JStr s \<Rightarrow> if blank s then [] else [s]
   | JList items \<Rightarrow> map strip (filter (\<lambda>s. \<not> blank s) (List.map_filter json_str items))
   | _ \<Rightarrow> [])"

definition split_evidence_header :: "string \<Rightarrow> string list" where
  "split_evidence_header v = map strip (filter (\<lambda>s. \<not> blank s) (split_on CHR '','' v))"

definition resolve_evidence_ids :: "headers \<Rightarrow> json dict \<Rightarrow> string list" where
  "resolve_evidence_ids hs params =
     uniq ((if header hs ''X-BlackFox-Evidence'' \<noteq> []
            then split_evidence_header (header hs ''X-BlackFox-Evidence'') else [])
       @ (case dict_get_or params ''_meta'' (JObj []) of
            JObj m \<Rightarrow> string_sequence (dict_get_or m ''io.ix-blackfox/evidenceRefs'' (JList []))
          | _ \<Rightarrow> []))"

definition resolve_agent_id :: "headers \<Rightarrow> json dict \<Rightarrow> string \<times> string" where
  "resolve_agent_id hs params =
     (let h = header hs ''X-BlackFox-Agent-Id'';
          m = (case dict_get_or params ''_meta'' (JObj []) of
                 JObj d \<Rightarrow> (case dict_get_or d ''io.ix-blackfox/agentId'' (JStr []) of
                     JStr s \<Rightarrow> strip s | _ \<Rightarrow> [])
               | _ \<Rightarrow> []);
          norm = (\<lambda>s. if s \<noteq> [] then normalize_identifier ''agent_id'' s else Inr []) in
      case (norm h, norm m) of
        (Inr nh, Inr nm) \<Rightarrow>
          if nh \<noteq> [] \<and> nm \<noteq> [] \<and> nh \<noteq> nm
          then (nh, ''BlackFox agent identity header and MCP metadata disagree.'')
          else (if nh \<noteq> [] then nh else nm, [])
      | _ \<Rightarrow> (if h \<noteq> [] then h else m, ''BlackFox agent identity claim is invalid.''))"

definition denial_response :: "live_status \<Rightarrow> int \<times> string \<times> int" where
  "denial_response s = (case s of
     REVIEW_REQUIRED \<Rightarrow>
       (- 32051, ''Verified human authority is required before tool execution.'', 428)
   | EVIDENCE_REQUIRED \<Rightarrow> (- 32052, ''Required evidence conditions are not satisfied.'', 428)
   | _ \<Rightarrow> (- 32050, ''BlackFox denied authority before tool execution.'', 403))"

definition execution_state :: "bool \<Rightarrow> string \<Rightarrow> string" where
  "execution_state attempted err =
     (if \<not> attempted then ''not_attempted''
      else if err \<noteq> [] then ''outcome_unknown'' else ''response_received'')"

section \<open>What a prepared request is\<close>

lemma require_route_Inr: "require_route cfg tool = Inr r \<longleftrightarrow> route_for cfg tool = Some r"
  by (simp add: require_route_def split: option.split)

lemma authority_subject_init_text:
  "ensures (\<lambda>s'. normalize_text ''agent_id'' (subject_agent_id s) = Inr (subject_agent_id s')
       \<and> normalize_text ''tool_name'' (subject_tool_name s) = Inr (subject_tool_name s')
       \<and> normalize_text ''capability'' (subject_capability s) = Inr (subject_capability s')
       \<and> normalize_text ''arguments_digest'' (arguments_digest s) = Inr (arguments_digest s'))
     (authority_subject_init s)"
  unfolding authority_subject_init_def
  by (intro ensures_intro) simp+

text \<open>
  The subject names the route's tool and capability, and a canonical, registered caller; its
  argument digest is that of the arguments.
\<close>

lemma build_subject_exact:
  "ensures (\<lambda>s. \<exists>route agent_id a d. route_for cfg tool = Some route
       \<and> normalize_text ''tool_name'' (route_tool_name route) = Inr (subject_tool_name s)
       \<and> normalize_text ''capability'' (tool_capability_value (route_capability route))
           = Inr (subject_capability s)
       \<and> normalize_identifier ''agent_id'' aid = Inr agent_id
       \<and> registry_lookup (cfg_registry cfg) agent_id = Inr (Some a)
       \<and> normalize_text ''agent_id'' agent_id = Inr (subject_agent_id s)
       \<and> digest_payload (env_hash env) (JObj arguments) = Inr d 
       \<and> normalize_text ''arguments_digest'' d = Inr (arguments_digest s))
     (build_subject env cfg aid tool arguments protocol who operation)"
  unfolding build_subject_def Let_def require_route_Inr [symmetric]
  by (intro ensures_bind ensures_if ensures_option ensures_Inl
        ensures_mono [OF authority_subject_init_text]) simp

lemma prepare_authority_Inr:
  assumes "prepare_authority env cfg st aid tool arguments eids protocol who operation fresh now = Inr p"
  obtains
    "require_route cfg tool = Inr (prepared_route p)"
    "build_subject env cfg aid tool arguments protocol who operation = Inr (prepared_subject p)"
    "\<And>q. who = Some q \<Longrightarrow> authorize_action (env_runtime env) q
       (route_tool_name (prepared_route p)) (subject_repository_id (prepared_subject p))
       (subject_path (prepared_subject p)) = []"
    "evaluate_live_authority env (cfg_evaluator cfg) st (prepared_subject p) (prepared_invocation p)
       (prepared_policy p) eids (py_isoformat (env_runtime env) now) now = Inr (prepared_decision p)"
    "(case evidence_policy_for cfg (evidence_policy_id (prepared_route p)) of
        Some q \<Rightarrow> Inr q | None \<Rightarrow> no_evidence_policy ''none'') = Inr (prepared_policy p)"
    "prepared_principal p = who" "prepared_evidence_ids p = eids"
proof -
  let ?Q = "\<lambda>p. require_route cfg tool = Inr (prepared_route p)
    \<and> build_subject env cfg aid tool arguments protocol who operation = Inr (prepared_subject p)
    \<and> (\<forall>q. who = Some q \<longrightarrow> authorize_action (env_runtime env) q
       (route_tool_name (prepared_route p)) (subject_repository_id (prepared_subject p))
       (subject_path (prepared_subject p)) = [])
    \<and> evaluate_live_authority env (cfg_evaluator cfg) st (prepared_subject p)
       (prepared_invocation p) (prepared_policy p) eids (py_isoformat (env_runtime env) now) now
        = Inr (prepared_decision p)
    \<and> (case evidence_policy_for cfg (evidence_policy_id (prepared_route p)) of
        Some q \<Rightarrow> Inr q | None \<Rightarrow> no_evidence_policy ''none'') = Inr (prepared_policy p)
    \<and> prepared_principal p = who \<and> prepared_evidence_ids p = eids"
  have "ensures ?Q
    (prepare_authority env cfg st aid tool arguments eids protocol who operation fresh now)"
    unfolding prepare_authority_def Let_def
    by (intro ensures_bind ensures_if ensures_Inl ensures_Inr) (simp add: split: option.splits)
  from ensuresD [OF this assms] show thesis using that by blast
qed

text \<open>
  The delegation of the caller and the live decision are about the same subject: what the
  decision allows, every entry of the chain permits.
\<close>

lemma prepare_authority_delegated:
  assumes "prepare_authority env cfg st aid tool arguments eids protocol (Some q) operation fresh now = Inr p"
  shows "\<forall>d \<in> set (delegation_chain q). scope_permits d (route_tool_name (prepared_route p))
    (subject_repository_id (prepared_subject p)) (subject_path (prepared_subject p))"
  using assms
  by (rule prepare_authority_Inr) (simp add: authorize_action_def chain_complaint_permits)

lemma prepare_authority_allowed:
  assumes "prepare_authority env cfg st aid tool arguments eids protocol who operation fresh now = Inr p"
    and "live_status (prepared_decision p) = LIVE_ALLOW"
  obtains r a where
    "build_tool_authorization_request (env_runtime env) (subject_agent_id (prepared_subject p))
       (prepared_invocation p) = Inr r"
    "registry_lookup (cfg_registry cfg) (request_agent_id r) = Inr (Some a)"
    "clear_to_act (env_parse env) a r \<or> lifecycle_state a = SUSPENDED"
    "\<forall>k \<in> set (required_kinds (prepared_policy p)). \<exists>x \<in> valid_artifacts (env_hash env) (env_hmac env)
       (env_runtime env) (env_parse env) (env_loads env) st eids (prepared_subject p)
       (prepared_policy p) now. evidence_kind x = k"
  using assms(1)
proof (rule prepare_authority_Inr)
  assume e: "evaluate_live_authority env (cfg_evaluator cfg) st (prepared_subject p)
     (prepared_invocation p) (prepared_policy p) eids (py_isoformat (env_runtime env) now) now
       = Inr (prepared_decision p)"
  show thesis
    by (rule live_allow [OF e assms(2)]) (use that in \<open>simp add: cfg_registry_def\<close>)
qed

section \<open>Reservations\<close>

text \<open>
  After a reservation the decision still allows only when no conflict was found; then exactly the
  single-use evidence of the decision moved from free to claimed.
\<close>

lemma claim_prepared_cases:
  assumes "claim_prepared env p at decided db = Inr ((p', held, conflicts), db')"
  obtains
    (unchanged) "p' = p" "held = []" "conflicts = []" "db' = db"
      "single_use_kinds (prepared_policy p) = [] \<or> single_use_ids p = []"
  | (reserved) sd where "p' = p" "held = single_use_ids p" "conflicts = []"
      "claim_single_use_evidence (env_hash env) (single_use_ids p) sd at db = Inr ([], db')"
      "subject_digest (env_hash env) (prepared_subject p) = Inr sd"
  | (replayed) sd where "live_status (prepared_decision p') = EVIDENCE_REQUIRED" "held = []"
      "conflicts \<noteq> []" "db' = db"
      "claim_single_use_evidence (env_hash env) (single_use_ids p) sd at db = Inr (conflicts, db)"
proof (cases "single_use_kinds (prepared_policy p) = [] \<or> single_use_ids p = []")
  case True
  with assms have "p' = p \<and> held = [] \<and> conflicts = [] \<and> db' = db"
    by (auto simp: claim_prepared_def)
  with True show thesis by (intro unchanged) auto
next
  case False
  from assms obtain sd cs db1 where c:
    "subject_digest (env_hash env) (prepared_subject p) = Inr sd"
    "claim_single_use_evidence (env_hash env) (single_use_ids p) sd at db = Inr (cs, db1)"
    and rest: "(if cs = [] then Inr ((p, single_use_ids p, []), db1)
      else res_bind (replayed_decision p cs decided) (\<lambda>decision.
        Inr ((p\<lparr>prepared_decision := decision\<rparr>, [], cs), db1))) = Inr ((p', held, conflicts), db')"
    unfolding claim_prepared_def if_not_P [OF False]
    by (elim res_bind_InrE, case_tac xa) (simp only: prod.case)
  show thesis
  proof (cases "cs = []")
    case True
    with rest have "p' = p" "held = single_use_ids p" "conflicts = []" "db' = db1" by auto
    with c True show thesis by (intro reserved [of sd]) simp_all
  next
    case False
    with claim_single_use(2) [OF c(2)] have "db1 = db" by blast
    from rest False obtain d where "live_status d = EVIDENCE_REQUIRED"
      "p' = p\<lparr>prepared_decision := d\<rparr>" "held = []" "conflicts = cs" "db' = db1"
      unfolding if_not_P [OF False] replayed_decision_def Let_def
      by (elim res_bind_InrE) (drule live_decision_init_fields, clarsimp)
    with c False \<open>db1 = db\<close> show thesis by (intro replayed [of sd]) simp_all
  qed
qed

lemma claim_prepared_allowed:
  assumes "claim_prepared env p at decided db = Inr ((p', held, conflicts), db')"
    and "live_status (prepared_decision p') = LIVE_ALLOW"
    and "single_use_kinds (prepared_policy p) \<noteq> []"
  shows "p' = p" "set (single_use_ids p) \<inter> claimed_ids db = {}"
    "set (single_use_ids p) \<subseteq> claimed_ids db'"
proof -
  have "p' = p \<and> set (single_use_ids p) \<inter> claimed_ids db = {}
      \<and> set (single_use_ids p) \<subseteq> claimed_ids db'"
    using assms(1)
  proof (cases rule: claim_prepared_cases)
    case unchanged
    with assms(3) show ?thesis by simp
  next
    case (reserved sd)
    from claim_single_use(3) [OF reserved(4)] obtain rows where rows:
      "claim_rows db' = claim_rows db @ rows" "map claim_evidence_id rows = uniq (single_use_ids p)"
      by blast
    from rows(2) have "claim_evidence_id ` set rows = set (single_use_ids p)" by (metis set_map set_uniq)
    with rows(1) claim_single_use(1) [OF reserved(4)] reserved(1) show ?thesis
      by (auto simp: claimed_ids_def)
  next
    case (replayed sd)
    with assms(2) show ?thesis by simp
  qed
  then show "p' = p" "set (single_use_ids p) \<inter> claimed_ids db = {}"
    "set (single_use_ids p) \<subseteq> claimed_ids db'" by blast+
qed

section \<open>Callers\<close>

lemma operator_authorized_exact:
  assumes "operator_authorized cfg hs"
  shows "cfg_operator_token cfg \<noteq> []"
    "header hs ''X-BlackFox-Operator-Token'' \<noteq> [] \<Longrightarrow>
       utf8 (header hs ''X-BlackFox-Operator-Token'') = cfg_operator_token cfg"
    "bearer_token hs \<noteq> [] \<Longrightarrow> utf8 (bearer_token hs) = cfg_operator_token cfg"
  using assms by (auto simp: operator_authorized_def Let_def split: if_splits)

text \<open>
  An authenticated caller: a verified federated token, or a static token that exactly one
  configured agent has.
\<close>

lemma authenticate_principal_accepted:
  "ensures (\<lambda>v. \<forall>q. fst v = Some q \<longrightarrow>
       (if bearer_token hs \<noteq> []
        then cfg_identity_mode cfg \<noteq> ''static_only''
          \<and> verify_token (env_runtime env) jwt (cfg_verifier cfg) db now (bearer_token hs) claimed = Inr v
          \<and> (snd v = [] \<and> cfg_require_delegation cfg \<longrightarrow> delegation_chain q \<noteq> [])
        else cfg_identity_mode cfg \<noteq> ''federated_required''
          \<and> header hs ''X-BlackFox-Agent-Token'' \<noteq> []
          \<and> filter (\<lambda>kv. snd kv = utf8 (header hs ''X-BlackFox-Agent-Token'')) (cfg_agent_tokens cfg)
              = [(principal_agent_id q, utf8 (header hs ''X-BlackFox-Agent-Token''))]
          \<and> (claimed \<noteq> [] \<longrightarrow> normalize_identifier ''agent_id'' claimed = Inr (principal_agent_id q))))
     (authenticate_principal env jwt cfg db now hs claimed)"
proof -
  have one: "t = u" if "filter (\<lambda>kv. snd kv = u) xs = [(a, t)]" for u t a and xs :: "string dict"
  proof -
    from that have "(a, t) \<in> set (filter (\<lambda>kv. snd kv = u) xs)" by simp
    then show ?thesis by simp
  qed
  show ?thesis
    unfolding authenticate_principal_def Let_def
    by (intro ensures_if ensures_bind ensures_prod ensures_option ensures_Inr ensures_Inl allI impI;
        simp split: list.split prod.split)
      (auto dest: one simp: static_principal_def intro!: ensures_intro split: sum.split)
qed

end
