(* ===== verification/ReceiptChain.thy ===== *)
theory ReceiptChain
  imports ReceiptStore "HOL-Library.Multiset"
begin

text \<open>
  What a passing \<open>verify_chain\<close> says, and the two facts that make the chain useful: appending
  keeps it passing, and the head digest determines every document of the chain.
\<close>

section \<open>A row without issues\<close>

text \<open>
  The content a row's digest is computed from: the document without its \<open>receipt_digest\<close>.
\<close>

definition undigested :: "json dict \<Rightarrow> json dict" where
  "undigested doc = filter (\<lambda>kv. fst kv \<noteq> ''receipt_digest'') doc"

definition row_links ::
  "(string \<Rightarrow> string) \<Rightarrow> py_runtime \<Rightarrow> json_loads \<Rightarrow> receipt_row \<Rightarrow> string \<Rightarrow> int \<Rightarrow> json dict \<Rightarrow> bool" where
  "row_links H rt loads row prev n doc \<longleftrightarrow>
     loads (row_payload row) = Some (JObj doc)
     \<and> row_sequence row = n \<and> row_previous row = prev
     \<and> dict_get doc ''previous_receipt_digest'' = Some (JStr prev)
     \<and> dict_get doc ''receipt_id'' = Some (JStr (row_receipt_id row))
     \<and> py_eq_int (dict_get doc ''sequence'') n
     \<and> py_str rt (dict_get_or doc ''receipt_digest'' (JStr [])) = row_digest row
     \<and> digest_payload H (JObj (undigested doc)) = Inr (row_digest row)"

fun chain_links ::
  "(string \<Rightarrow> string) \<Rightarrow> py_runtime \<Rightarrow> json_loads \<Rightarrow> receipt_row list \<Rightarrow> string \<Rightarrow> int
    \<Rightarrow> json dict list \<Rightarrow> bool" where
  "chain_links H rt loads [] prev n docs = (docs = [])"
| "chain_links H rt loads (row # rows) prev n docs =
     (\<exists>doc rest. docs = doc # rest \<and> row_links H rt loads row prev n doc
        \<and> chain_links H rt loads rows (row_digest row) (n + 1) rest)"

definition chain_head :: "string \<Rightarrow> receipt_row list \<Rightarrow> string" where
  "chain_head prev rows = (if rows = [] then prev else row_digest (last rows))"

lemma record_claims_grow:
  "record_claims rid sd es (c0, i0) = (c, i) \<Longrightarrow> \<exists>m. i = i0 @ m"
proof (induction es arbitrary: c0 i0)
  case (Cons e es)
  show ?case
  proof (cases "dict_get c0 e")
    case None
    with Cons.prems have "record_claims rid sd es (dict_set e sd c0, i0) = (c, i)" by simp
    then show ?thesis by (rule Cons.IH)
  next
    case (Some prior)
    let ?i = "if prior \<noteq> sd
      then i0 @ [''receipt '' @ rid @ '': evidence claim appears under multiple subjects''] else i0"
    from Some Cons.prems have "record_claims rid sd es (c0, ?i) = (c, i)" by simp
    then obtain m where "i = ?i @ m" using Cons.IH by blast
    then show ?thesis by (cases "prior = sd") simp_all
  qed
qed simp

lemma record_claims_clean:
  assumes "record_claims rid sd es (claims, issues) = (claims', [])"
  shows "issues = []"
    and "dict_get claims' k = (if k \<in> set es then Some sd else dict_get claims k)"
proof -
  have none: "i = []" if "record_claims rid sd es (c, i) = (c', [])" for es c i c'
    using record_claims_grow [OF that] by simp
  from none [OF assms] show "issues = []" .
  from assms show "dict_get claims' k = (if k \<in> set es then Some sd else dict_get claims k)"
  proof (induction es arbitrary: claims issues)
    case (Cons x es)
    show ?case
    proof (cases "dict_get claims x")
      case None
      with Cons.prems have "record_claims rid sd es (dict_set x sd claims, issues) = (claims', [])"
        by simp
      from Cons.IH [OF this] show ?thesis by (auto simp: dict_get_set)
    next
      case (Some prior)
      with Cons.prems have r: "record_claims rid sd es (claims, if prior \<noteq> sd
          then issues @ [''receipt '' @ rid @ '': evidence claim appears under multiple subjects'']
          else issues) = (claims', [])" by simp
      from none [OF r] have "prior = sd" by (simp split: if_splits)
      with Some Cons.IH [OF r] show ?thesis by auto
    qed
  qed simp
qed

lemma row_claims_grow: "row_claims rt row doc claims issues = (c, i) \<Longrightarrow> \<exists>m. i = issues @ m"
  by (auto simp: row_claims_def split: option.splits dest: record_claims_grow)

lemma json_obj_Some [simp]: "json_obj v = Some d \<longleftrightarrow> v = JObj d"
  by (cases v) simp_all

lemma check_row_cases:
  assumes "check_row H rt loads row st = Inr st'"
  obtains (bad) m where "chain_issues st' = chain_issues st @ [m]"
  | (read) doc recomputed where "loads (row_payload row) = Some (JObj doc)"
      "digest_payload H (JObj (undigested doc)) = Inr recomputed"
      "row_claims rt row doc (chain_claims st)
         (chain_issues st @ row_issues rt row (chain_previous st) (chain_expected st) doc recomputed)
       = (chain_claims st', chain_issues st')"
      "chain_previous st' = row_digest row" "chain_expected st' = chain_expected st + 1"
proof (cases "loads (row_payload row)")
  case None
  with assms have "st' = st\<lparr>chain_issues :=
      chain_issues st @ [row_complaint row ''payload is invalid JSON'']\<rparr>" by (simp add: check_row_def)
  then have "chain_issues st' = chain_issues st @ [row_complaint row ''payload is invalid JSON'']"
    by simp
  then show thesis by (rule bad)
next
  case (Some v)
  show thesis
  proof (cases "json_obj v")
    case None
    with Some assms have "st' = st\<lparr>chain_issues :=
        chain_issues st @ [row_complaint row ''payload is not an object'']\<rparr>" by (simp add: check_row_def)
    then have "chain_issues st' = chain_issues st @ [row_complaint row ''payload is not an object'']"
      by simp
    then show thesis by (rule bad)
  next
    case doc: (Some doc)
    with Some assms obtain recomputed where
      d: "digest_payload H (JObj (undigested doc)) = Inr recomputed"
      and r: "(let (claims, issues) = row_claims rt row doc (chain_claims st)
            (chain_issues st @ row_issues rt row (chain_previous st) (chain_expected st) doc recomputed)
          in Inr (st\<lparr>chain_previous := row_digest row, chain_expected := chain_expected st + 1,
                   chain_claims := claims, chain_issues := issues\<rparr>)) = (Inr st' :: chain_state res)"
      by (simp only: check_row_def undigested_def option.case) (elim res_bind_InrE)
    obtain claims issues where c: "row_claims rt row doc (chain_claims st)
        (chain_issues st @ row_issues rt row (chain_previous st) (chain_expected st) doc recomputed)
        = (claims, issues)" by (rule prod.exhaust)
    with r have "st' = st\<lparr>chain_previous := row_digest row, chain_expected := chain_expected st + 1,
        chain_claims := claims, chain_issues := issues\<rparr>" by simp
    with c d Some doc show thesis by (intro read) simp_all
  qed
qed

lemma check_row_grow:
  assumes "check_row H rt loads row st = Inr st'"
  shows "\<exists>m. chain_issues st' = chain_issues st @ m"
  using assms by (cases rule: check_row_cases) (auto dest: row_claims_grow)

text \<open>A row that adds no issue links to the state before it and records its claims.\<close>

lemma row_issues_Nil:
  "row_issues rt row prev n doc recomputed = [] \<longleftrightarrow>
     row_sequence row = n \<and> row_previous row = prev
     \<and> dict_get doc ''previous_receipt_digest'' = Some (JStr prev)
     \<and> dict_get doc ''receipt_id'' = Some (JStr (row_receipt_id row))
     \<and> py_eq_int (dict_get doc ''sequence'') (row_sequence row)
     \<and> py_str rt (dict_get_or doc ''receipt_digest'' (JStr [])) = row_digest row
     \<and> recomputed = row_digest row"
  by (auto simp: row_issues_def Let_def)

lemma check_row_clean:
  assumes "check_row H rt loads row st = Inr st'" "chain_issues st' = []"
  obtains doc es where "chain_issues st = []"
    "row_links H rt loads row (chain_previous st) (chain_expected st) doc"
    "receipt_claim_list doc = Some es"
    "\<And>e. dict_get (chain_claims st') e =
       (if e \<in> set es then Some (receipt_subject_digest rt doc) else dict_get (chain_claims st) e)"
    "chain_previous st' = row_digest row" "chain_expected st' = chain_expected st + 1"
  using assms(1)
proof (cases rule: check_row_cases)
  case (bad m)
  with assms(2) show thesis by simp
next
  case (read doc recomputed)
  then obtain es where es: "receipt_claim_list doc = Some es"
    using assms(2) by (cases "receipt_claim_list doc") (auto simp: row_claims_def)
  with read(3) assms(2) have rc: "record_claims (row_receipt_id row) (receipt_subject_digest rt doc) es
      (chain_claims st, chain_issues st
         @ row_issues rt row (chain_previous st) (chain_expected st) doc recomputed)
      = (chain_claims st', [])" by (simp add: row_claims_def)
  note clean = record_claims_clean(1) [OF rc]
  with read(1,2) have "row_links H rt loads row (chain_previous st) (chain_expected st) doc"
    by (auto simp: row_links_def row_issues_Nil)
  with that clean es record_claims_clean(2) [OF rc] read(4,5) show thesis by simp
qed

text \<open>The whole table.\<close>

lemma fold_check_row_grow:
  "res_fold (check_row H rt loads) rows st = Inr st' \<Longrightarrow> \<exists>m. chain_issues st' = chain_issues st @ m"
proof (induction rows arbitrary: st)
  case (Cons row rows)
  then obtain st1 where "check_row H rt loads row st = Inr st1"
    "res_fold (check_row H rt loads) rows st1 = Inr st'" by (auto simp: res_simps)
  with Cons.IH check_row_grow show ?case by (metis append_assoc)
qed simp

lemma fold_check_row_clean:
  assumes "res_fold (check_row H rt loads) rows st = Inr st'" "chain_issues st' = []"
  obtains docs where "chain_links H rt loads rows (chain_previous st) (chain_expected st) docs"
    "chain_previous st' = chain_head (chain_previous st) rows"
    "chain_expected st' = chain_expected st + int (length rows)"
    "chain_issues st = []"
proof -
  have "\<exists>docs. chain_links H rt loads rows (chain_previous st) (chain_expected st) docs
      \<and> chain_previous st' = chain_head (chain_previous st) rows
      \<and> chain_expected st' = chain_expected st + int (length rows) \<and> chain_issues st = []"
    using assms
  proof (induction rows arbitrary: st)
    case (Cons row rows)
    then obtain st1 where st1: "check_row H rt loads row st = Inr st1"
      "res_fold (check_row H rt loads) rows st1 = Inr st'" by (auto simp: res_simps)
    from Cons.IH [OF st1(2) Cons.prems(2)] obtain docs where
      IH: "chain_links H rt loads rows (chain_previous st1) (chain_expected st1) docs"
        "chain_previous st' = chain_head (chain_previous st1) rows"
        "chain_expected st' = chain_expected st1 + int (length rows)" "chain_issues st1 = []" by blast
    from check_row_clean [OF st1(1) IH(4)] obtain doc where
      d: "chain_issues st = []" "row_links H rt loads row (chain_previous st) (chain_expected st) doc"
        "chain_previous st1 = row_digest row" "chain_expected st1 = chain_expected st + 1" by metis
    have "chain_head (chain_previous st1) rows = chain_head (chain_previous st) (row # rows)"
      using d(3) by (simp add: chain_head_def)
    with IH d show ?case by auto
  qed (simp add: chain_head_def)
  with that show thesis by blast
qed

lemma fold_claim_rows_grow:
  "res_fold (check_claim_row H) cs s = Inr s' \<Longrightarrow> \<exists>m. snd s' = snd s @ m"
proof (induction cs arbitrary: s)
  case (Cons c cs)
  then obtain s1 where "check_claim_row H c s = Inr s1" "res_fold (check_claim_row H) cs s1 = Inr s'"
    by (auto simp: res_simps)
  moreover from this(1) have "\<exists>m. snd s1 = snd s @ m"
    by (auto simp: check_claim_row_def res_simps)
  ultimately show ?case using Cons.IH by (metis append_assoc)
qed simp

lemma verify_chain_passed:
  assumes "verify_chain H rt loads db = Inr rep" "report_passed rep"
  obtains docs where "chain_links H rt loads (ordered_rows db) [] 1 docs"
    "head_digest rep = chain_head [] (ordered_rows db)"
    "receipt_count rep = length (ordered_rows db)"
proof -
  from assms(1) obtain st cs where
    st: "res_fold (check_row H rt loads) (ordered_rows db) initial_chain = Inr st"
    and cs: "res_fold (check_claim_row H) (sort_key claim_evidence_id (claim_rows db))
               ([], chain_issues st) = Inr cs"
    and rep: "report_passed rep \<longrightarrow> snd cs = []" "head_digest rep = chain_previous st"
      "receipt_count rep = length (ordered_rows db)"
    by (auto simp: verify_chain_def Let_def res_simps)
  from rep(1) assms(2) fold_claim_rows_grow [OF cs] have "chain_issues st = []" by auto
  from fold_check_row_clean [OF st this] obtain docs where
    "chain_links H rt loads (ordered_rows db) [] 1 docs"
    "chain_previous st = chain_head [] (ordered_rows db)"
    by (auto simp: initial_chain_def)
  with that rep(2,3) show thesis by simp
qed

section \<open>The head digest determines the chain\<close>

lemma chain_links_append:
  "chain_links H rt loads (xs @ [r]) prev n docs \<longleftrightarrow>
     (\<exists>ds d. docs = ds @ [d] \<and> chain_links H rt loads xs prev n ds
        \<and> row_links H rt loads r (chain_head prev xs) (n + int (length xs)) d)"
proof (induction xs arbitrary: prev n docs)
  case Nil
  show ?case by (auto simp: chain_head_def)
next
  case (Cons x xs)
  have head: "chain_head prev (x # xs) = chain_head (row_digest x) xs" by (simp add: chain_head_def)
  show ?case
  proof
    assume "chain_links H rt loads ((x # xs) @ [r]) prev n docs"
    then obtain doc rest where "docs = doc # rest" "row_links H rt loads x prev n doc"
      "chain_links H rt loads (xs @ [r]) (row_digest x) (n + 1) rest" by auto
    with Cons.IH [of "row_digest x" "n + 1" rest] obtain ds d where
      "docs = (doc # ds) @ [d]" "chain_links H rt loads (x # xs) prev n (doc # ds)"
      "row_links H rt loads r (chain_head prev (x # xs)) (n + int (length (x # xs))) d"
      unfolding head by (auto simp: algebra_simps)
    then show "\<exists>ds d. docs = ds @ [d] \<and> chain_links H rt loads (x # xs) prev n ds
        \<and> row_links H rt loads r (chain_head prev (x # xs)) (n + int (length (x # xs))) d" by blast
  next
    assume "\<exists>ds d. docs = ds @ [d] \<and> chain_links H rt loads (x # xs) prev n ds
        \<and> row_links H rt loads r (chain_head prev (x # xs)) (n + int (length (x # xs))) d"
    then obtain doc ds d where "docs = doc # ds @ [d]" "row_links H rt loads x prev n doc"
      "chain_links H rt loads xs (row_digest x) (n + 1) ds"
      "row_links H rt loads r (chain_head (row_digest x) xs) (n + 1 + int (length xs)) d"
      unfolding head by (auto simp: algebra_simps)
    with Cons.IH [of "row_digest x" "n + 1" "ds @ [d]"]
    show "chain_links H rt loads ((x # xs) @ [r]) prev n docs" by auto
  qed
qed

lemma dict_get_undigested:
  "k \<noteq> ''receipt_digest'' \<Longrightarrow> dict_get (undigested doc) k = dict_get doc k"
  by (induction doc) (auto simp: undigested_def)

text \<open>Documents a hash can bind: decoded objects have distinct keys and finite floats.\<close>

definition plain_document :: "json dict \<Rightarrow> bool" where
  "plain_document doc \<longleftrightarrow> distinct (dict_keys doc) \<and> floats_ok (JObj doc)"

definition same_document :: "json dict \<Rightarrow> json dict \<Rightarrow> bool" where
  "same_document d e \<longleftrightarrow> sort_keys (JObj (undigested d)) = sort_keys (JObj (undigested e))"

lemma plain_undigested:
  "plain_document doc \<Longrightarrow> distinct (dict_keys (undigested doc)) \<and> floats_ok (JObj (undigested doc))"
  by (auto simp: plain_document_def undigested_def list_all_iff distinct_map intro: inj_on_subset)

lemma same_document_get:
  assumes "same_document d e" "plain_document d" "plain_document e" "k \<noteq> ''receipt_digest''"
  shows "map_option sort_keys (dict_get d k) = map_option sort_keys (dict_get e k)"
  using sort_keys_JObj_get [OF assms(1) [unfolded same_document_def], of k] assms(2-4)
  by (simp add: plain_undigested dict_get_undigested)

lemma row_links_same:
  assumes "row_links H rt loads r prev n d" "row_links H rt loads' r' prev' n' e"
    and "row_digest r = row_digest r'" "plain_document d" "plain_document e"
    and "inj_on H {payload_bytes (JObj (undigested d)), payload_bytes (JObj (undigested e))}"
  shows "same_document d e \<and> prev = prev'"
proof -
  have "digest_payload H (JObj (undigested d)) = Inr (row_digest r)"
    "digest_payload H (JObj (undigested e)) = Inr (row_digest r)"
    using assms(1,2,3) by (simp_all add: row_links_def)
  then have same: "same_document d e"
    using digest_payload_binds assms(4-6) plain_undigested unfolding same_document_def by blast
  have "dict_get d ''previous_receipt_digest'' = Some (JStr prev)"
    "dict_get e ''previous_receipt_digest'' = Some (JStr prev')"
    using assms(1,2) by (simp_all add: row_links_def)
  with same_document_get [OF same assms(4,5), of "''previous_receipt_digest''"]
  have "prev = prev'" by simp
  with same show ?thesis ..
qed

lemma chain_head_binds:
  assumes "chain_links H rt loads rows [] 1 docs" "chain_links H rt loads' rows' [] 1 docs'"
    and "chain_head [] rows = chain_head [] rows'" "\<And>s. H s \<noteq> []"
    and "\<forall>d \<in> set docs \<union> set docs'. plain_document d"
    and "inj_on H ((\<lambda>d. payload_bytes (JObj (undigested d))) ` (set docs \<union> set docs'))"
  shows "list_all2 same_document docs docs'"
  using assms
proof (induction rows arbitrary: rows' docs docs' rule: rev_induct)
  case Nil
  have "rows' = []"
  proof (cases rows' rule: rev_cases)
    case (snoc xs r)
    with Nil.prems(2) obtain d where "digest_payload H (JObj (undigested d)) = Inr (row_digest r)"
      by (auto simp: chain_links_append row_links_def)
    with digest_payload_Inr Nil.prems(4) have "row_digest r \<noteq> []" by metis
    with Nil.prems(3) snoc show ?thesis by (simp add: chain_head_def)
  qed
  with Nil.prems(1,2) show ?case by simp
next
  case (snoc r rows)
  obtain ds d where d: "docs = ds @ [d]" "chain_links H rt loads rows [] 1 ds"
    "row_links H rt loads r (chain_head [] rows) (1 + int (length rows)) d"
    using snoc.prems(1) by (auto simp: chain_links_append)
  have "digest_payload H (JObj (undigested d)) = Inr (row_digest r)"
    using d(3) by (simp add: row_links_def)
  with digest_payload_Inr snoc.prems(4) have "row_digest r \<noteq> []" by metis
  with snoc.prems(3) have "rows' \<noteq> []" by (auto simp: chain_head_def)
  then obtain rows1 r' where rows': "rows' = rows1 @ [r']" by (metis append_butlast_last_id)
  with snoc.prems(2) obtain es e where e: "docs' = es @ [e]" "chain_links H rt loads' rows1 [] 1 es"
    "row_links H rt loads' r' (chain_head [] rows1) (1 + int (length rows1)) e"
    by (auto simp: chain_links_append)
  have dg: "row_digest r = row_digest r'" using snoc.prems(3) rows' by (simp add: chain_head_def)
  have plain: "plain_document d" "plain_document e" using snoc.prems(5) d(1) e(1) by simp_all
  have "inj_on H {payload_bytes (JObj (undigested d)), payload_bytes (JObj (undigested e))}"
    using snoc.prems(6) d(1) e(1) by (elim inj_on_subset) auto
  from row_links_same [OF d(3) e(3) dg plain this]
  have step: "same_document d e" "chain_head [] rows = chain_head [] rows1" by simp_all
  have "list_all2 same_document ds es"
  proof (rule snoc.IH [OF d(2) e(2) step(2) snoc.prems(4)])
    show "\<forall>d \<in> set ds \<union> set es. plain_document d" using snoc.prems(5) d(1) e(1) by auto
    show "inj_on H ((\<lambda>d. payload_bytes (JObj (undigested d))) ` (set ds \<union> set es))"
      using snoc.prems(6) by (rule inj_on_subset) (use d(1) e(1) in auto)
  qed
  with step(1) d(1) e(1) show ?case by (simp add: list_all2_appendI)
qed

section \<open>Appending keeps the chain\<close>

lemma sort_key_snoc:
  assumes "\<forall>y \<in> set xs. f y < f x"
  shows "sort_key f (xs @ [x]) = sort_key f xs @ [x]"
proof (rule properties_for_sort_key)
  show "mset (sort_key f xs @ [x]) = mset (xs @ [x])" by simp
  show "filter (\<lambda>y. f k = f y) (sort_key f xs @ [x]) = filter (\<lambda>y. f k = f y) (xs @ [x])"
    if "k \<in> set (sort_key f xs @ [x])" for k
  proof -
    have "sorted (map f (filter (\<lambda>y. f k = f y) zs))" for zs by (induction zs) auto
    then show ?thesis by (simp add: filter_sort sort_key_id_if_sorted)
  qed
  show "sorted (map f (sort_key f xs @ [x]))"
    using assms by (auto simp: sorted_append intro: less_imp_le)
qed

lemma chain_links_sequences:
  "chain_links H rt loads rows prev n docs \<Longrightarrow> r \<in> set rows \<Longrightarrow>
     n \<le> row_sequence r \<and> row_sequence r < n + int (length rows)"
proof (induction rows arbitrary: prev n docs)
  case (Cons x rows)
  then obtain doc rest where d: "row_links H rt loads x prev n doc"
    "chain_links H rt loads rows (row_digest x) (n + 1) rest" by auto
  show ?case
  proof (cases "r = x")
    case True
    with d(1) show ?thesis by (simp add: row_links_def)
  next
    case False
    with Cons.IH [OF d(2)] Cons.prems(2) show ?thesis by auto
  qed
qed simp

lemma chain_links_last:
  "chain_links H rt loads rows [] 1 docs \<Longrightarrow> rows \<noteq> [] \<Longrightarrow> row_sequence (last rows) = int (length rows)"
  by (cases rows rule: rev_cases) (auto simp: chain_links_append row_links_def)

text \<open>The receipt, and what \<open>json.loads\<close> gives back for its text: the members sorted by key.\<close>

definition fresh_payload :: "json dict \<Rightarrow> bool" where
  "fresh_payload payload \<longleftrightarrow> distinct (dict_keys payload) \<and>
     set (dict_keys payload) \<inter> {''sequence'', ''previous_receipt_digest'', ''receipt_id'',
       ''receipt_digest''} = {}"

lemma dict_get_dict_update:
  "distinct (dict_keys e) \<Longrightarrow>
     dict_get (dict_update d e) k = (case dict_get e k of None \<Rightarrow> dict_get d k | Some v \<Rightarrow> Some v)"
proof (induction e arbitrary: d)
  case (Cons kv e)
  then have "dict_get e (fst kv) = None" by (auto simp: map_of_eq_None_iff)
  with Cons show ?case by (cases kv) (auto simp: dict_update_def dict_get_set split: option.splits)
qed (simp add: dict_update_def)

lemma distinct_dict_update:
  "distinct (dict_keys d) \<Longrightarrow> distinct (dict_keys (dict_update d e))"
  unfolding dict_update_def by (induction e arbitrary: d) (auto simp: distinct_update)

lemma undigested_set:
  "''receipt_digest'' \<notin> set (dict_keys d) \<Longrightarrow> undigested (dict_set ''receipt_digest'' v d) = d"
  by (induction d) (auto simp: undigested_def filter_id_conv)

lemma undigested_sorted: "undigested (sorted_members d) = sorted_members (undigested d)"
  by (simp add: undigested_def sorted_members_def filter_sort filter_map comp_def)

lemma make_receipt_fields:
  assumes "make_receipt H payload n prev = Inr receipt" "fresh_payload payload"
  obtains body rid rd where
    "receipt = dict_set ''receipt_digest'' (JStr rd) body"
    "''receipt_digest'' \<notin> set (dict_keys body)" "distinct (dict_keys receipt)"
    "digest_payload H (JObj body) = Inr rd"
    "dict_get receipt ''sequence'' = Some (JInt n)"
    "dict_get receipt ''previous_receipt_digest'' = Some (JStr prev)"
    "dict_get receipt ''receipt_id'' = Some (JStr rid)"
    "dict_get receipt ''receipt_digest'' = Some (JStr rd)"
    "\<And>k. k \<noteq> ''schema_version'' \<Longrightarrow> k \<notin> {''sequence'', ''previous_receipt_digest'', ''receipt_id'',
       ''receipt_digest''} \<Longrightarrow> dict_get receipt k = dict_get payload k"
proof -
  let ?base = "[(''schema_version'', JStr ''wave14.authority_receipt.v1''),
             (''sequence'', JInt n), (''previous_receipt_digest'', JStr prev)]"
  let ?r0 = "dict_update ?base payload"
  obtain d rd where d: "digest_payload H (JObj ?r0) = Inr d"
    "digest_payload H (JObj (dict_set ''receipt_id'' (JStr (''wave14-receipt-'' @ take 24 d)) ?r0)) = Inr rd"
    "receipt = dict_set ''receipt_digest'' (JStr rd)
       (dict_set ''receipt_id'' (JStr (''wave14-receipt-'' @ take 24 d)) ?r0)"
    using assms(1) by (auto simp: make_receipt_def Let_def res_simps)
  let ?rid = "''wave14-receipt-'' @ take 24 d"
  let ?body = "dict_set ''receipt_id'' (JStr ?rid) ?r0"
  have fresh: "dict_get payload k = None"
    if "k \<in> {''sequence'', ''previous_receipt_digest'', ''receipt_id'', ''receipt_digest''}" for k
    using assms(2) that unfolding fresh_payload_def map_of_eq_None_iff set_map by blast
  have up: "dict_get ?r0 k = (case dict_get payload k of None \<Rightarrow> dict_get ?base k | Some v \<Rightarrow> Some v)" for k
    using assms(2) by (intro dict_get_dict_update) (simp add: fresh_payload_def)
  have get: "dict_get receipt k = (if k = ''receipt_digest'' then Some (JStr rd)
      else if k = ''receipt_id'' then Some (JStr ?rid) else dict_get ?r0 k)" for k
    unfolding d(3) by (simp add: dict_get_set)
  have "distinct (dict_keys ?r0)" by (rule distinct_dict_update) simp
  then have body: "distinct (dict_keys ?body)" by (rule distinct_update)
  have "dict_get ?body ''receipt_digest'' = None"
    using fresh [of "''receipt_digest''"] by (simp add: dict_get_set up)
  then have none: "''receipt_digest'' \<notin> set (dict_keys ?body)"
    using dict_get_keys [of ?body "''receipt_digest''"] by blast
  have f0: "distinct (dict_keys receipt)" unfolding d(3) using body by (rule distinct_update)
  have f1: "dict_get receipt ''sequence'' = Some (JInt n)"
    using get [of "''sequence''"] up [of "''sequence''"] fresh [of "''sequence''"] by simp
  have f2: "dict_get receipt ''previous_receipt_digest'' = Some (JStr prev)"
    using get [of "''previous_receipt_digest''"] up [of "''previous_receipt_digest''"]
      fresh [of "''previous_receipt_digest''"] by simp
  have f3: "dict_get receipt ''receipt_id'' = Some (JStr ?rid)"
    using get [of "''receipt_id''"] by simp
  have f4: "dict_get receipt ''receipt_digest'' = Some (JStr rd)"
    using get [of "''receipt_digest''"] by simp
  have f5: "dict_get receipt k = dict_get payload k" if "k \<noteq> ''schema_version''"
    "k \<notin> {''sequence'', ''previous_receipt_digest'', ''receipt_id'', ''receipt_digest''}" for k
    using get [of k] up [of k] that by (simp split: option.splits)
  show thesis by (rule that [of rd ?body ?rid, OF d(3) none f0 d(2) f1 f2 f3 f4 f5])
qed

lemma receipt_claim_list_cong:
  "map_option sort_keys (dict_get d ''single_use_evidence_claims'')
     = map_option sort_keys (dict_get e ''single_use_evidence_claims'')
   \<Longrightarrow> receipt_claim_list d = receipt_claim_list e"
proof -
  have js: "json_str (sort_keys v) = json_str v" for v by (cases v) simp_all
  have norm: "(case sort_keys v of JList items \<Rightarrow>
        if list_all (\<lambda>x. json_str x \<noteq> None) items then Some (map (\<lambda>x. the (json_str x)) items) else None
      | _ \<Rightarrow> None) = (case v of JList items \<Rightarrow>
        if list_all (\<lambda>x. json_str x \<noteq> None) items then Some (map (\<lambda>x. the (json_str x)) items) else None
      | _ \<Rightarrow> None)" for v
    by (cases v) (simp_all add: js list.pred_map comp_def)
  have get: "sort_keys (dict_get_or f k (JList [])) = (case map_option sort_keys (dict_get f k) of
      None \<Rightarrow> JList [] | Some v \<Rightarrow> v)" for f k
    by (cases "dict_get f k") (simp_all add: dict_get_or_def)
  assume "map_option sort_keys (dict_get d ''single_use_evidence_claims'')
     = map_option sort_keys (dict_get e ''single_use_evidence_claims'')"
  then have "sort_keys (dict_get_or d ''single_use_evidence_claims'' (JList []))
      = sort_keys (dict_get_or e ''single_use_evidence_claims'' (JList []))" by (simp only: get)
  then show ?thesis
    using norm [of "dict_get_or d ''single_use_evidence_claims'' (JList [])"]
      norm [of "dict_get_or e ''single_use_evidence_claims'' (JList [])"]
    unfolding receipt_claim_list_def by simp
qed

text \<open>
  A payload whose single-use claims stand in the claim table under the digest of its subject.
\<close>

definition claims_recorded :: "receipt_db \<Rightarrow> json dict \<Rightarrow> bool" where
  "claims_recorded db payload \<longleftrightarrow>
     (\<exists>es subject sd. receipt_claim_list payload = Some es
        \<and> dict_get payload ''subject'' = Some (JObj subject) \<and> distinct (dict_keys subject)
        \<and> dict_get subject ''digest'' = Some (JStr sd)
        \<and> (\<forall>e \<in> set es. \<exists>c \<in> set (claim_rows db). claim_evidence_id c = e \<and> claim_subject_digest c = sd))"

definition database_claims :: "receipt_db \<Rightarrow> string dict \<Rightarrow> bool" where
  "database_claims db m \<longleftrightarrow>
     (\<forall>e. dict_get m e = map_of (map (\<lambda>c. (claim_evidence_id c, claim_subject_digest c)) (claim_rows db)) e)"

lemma fold_claim_rows_get:
  "res_fold (check_claim_row H) cs s = Inr s' \<Longrightarrow> distinct (map claim_evidence_id cs) \<Longrightarrow>
     dict_get (fst s') e = (case map_of (map (\<lambda>c. (claim_evidence_id c, claim_subject_digest c)) cs) e of
       None \<Rightarrow> dict_get (fst s) e | Some sd \<Rightarrow> Some sd)"
proof (induction cs arbitrary: s)
  case (Cons c cs)
  then obtain s1 where s1: "check_claim_row H c s = Inr s1"
    "res_fold (check_claim_row H) cs s1 = Inr s'" by (auto simp: res_simps)
  have f: "fst s1 = dict_set (claim_evidence_id c) (claim_subject_digest c) (fst s)"
    using s1(1) by (auto simp: check_claim_row_def res_simps)
  have n: "e = claim_evidence_id c \<Longrightarrow>
      map_of (map (\<lambda>c. (claim_evidence_id c, claim_subject_digest c)) cs) e = None"
    using Cons.prems(2) by (auto simp: map_of_eq_None_iff image_comp comp_def)
  from Cons.IH [OF s1(2)] Cons.prems(2) n show ?case
    by (auto simp: f dict_get_set split: option.splits)
qed simp

lemma record_claims_ok:
  assumes "\<forall>e \<in> set es. dict_get claims e \<in> {None, Some sd}"
  shows "\<exists>claims'. record_claims rid sd es (claims, issues) = (claims', issues)"
  using assms
proof (induction es arbitrary: claims)
  case (Cons x es)
  show ?case
  proof (cases "dict_get claims x")
    case None
    have "\<forall>e \<in> set es. dict_get (dict_set x sd claims) e \<in> {None, Some sd}"
      using Cons.prems by (auto simp: dict_get_set)
    from Cons.IH [OF this] None show ?thesis by simp
  next
    case (Some v)
    with Cons.prems have "v = sd" by simp
    with Some Cons.IH Cons.prems show ?thesis by simp
  qed
qed simp

lemma record_claims_distinct:
  "record_claims rid sd es (claims, issues) = (claims', issues') \<Longrightarrow> distinct (dict_keys claims)
     \<Longrightarrow> distinct (dict_keys claims')"
proof (induction es arbitrary: claims issues)
  case (Cons x es)
  show ?case
  proof (cases "dict_get claims x")
    case None
    with Cons.prems have "record_claims rid sd es (dict_set x sd claims, issues) = (claims', issues')"
      "distinct (dict_keys (dict_set x sd claims))" by (simp_all add: distinct_update)
    then show ?thesis by (rule Cons.IH)
  next
    case (Some v)
    with Cons.prems(1) obtain i where "record_claims rid sd es (claims, i) = (claims', issues')" by auto
    with Cons.prems(2) show ?thesis using Cons.IH by blast
  qed
qed simp

lemma check_row_distinct:
  assumes "check_row H rt loads row st = Inr st'" "chain_issues st' = []"
    and "distinct (dict_keys (chain_claims st))"
  shows "distinct (dict_keys (chain_claims st'))"
  using assms(1)
proof (cases rule: check_row_cases)
  case (bad m)
  with assms(2) show ?thesis by simp
next
  case (read doc recomputed)
  from read(3) assms(2,3) show ?thesis
    by (auto simp: row_claims_def split: option.splits dest: record_claims_distinct)
qed

lemma fold_check_row_distinct:
  "res_fold (check_row H rt loads) rows st = Inr st' \<Longrightarrow> chain_issues st' = [] \<Longrightarrow>
     distinct (dict_keys (chain_claims st)) \<Longrightarrow> distinct (dict_keys (chain_claims st'))"
proof (induction rows arbitrary: st)
  case (Cons row rows)
  then obtain st1 where st1: "check_row H rt loads row st = Inr st1"
    "res_fold (check_row H rt loads) rows st1 = Inr st'" by (auto simp: res_simps)
  have "chain_issues st1 = []" using fold_check_row_grow [OF st1(2)] Cons.prems(2) by auto
  with st1 Cons.prems check_row_distinct show ?case by (intro Cons.IH [OF st1(2)]) blast+
qed simp

lemma check_row_ok:
  assumes "row_links H rt loads row (chain_previous st) (chain_expected st) doc"
    and "receipt_claim_list doc = Some es" "chain_issues st = []"
    and "\<forall>e \<in> set es. dict_get (chain_claims st) e \<in> {None, Some (receipt_subject_digest rt doc)}"
  obtains st' where "check_row H rt loads row st = Inr st'" "chain_issues st' = []"
    "chain_previous st' = row_digest row"
    "\<And>e. dict_get (chain_claims st') e =
       (if e \<in> set es then Some (receipt_subject_digest rt doc) else dict_get (chain_claims st) e)"
proof -
  obtain claims where c: "record_claims (row_receipt_id row) (receipt_subject_digest rt doc) es
      (chain_claims st, []) = (claims, [])" using record_claims_ok [OF assms(4)] by blast
  have "row_issues rt row (chain_previous st) (chain_expected st) doc (row_digest row) = []"
    using assms(1) by (auto simp: row_issues_Nil row_links_def)
  with c assms(2,3) have rc: "row_claims rt row doc (chain_claims st)
      (chain_issues st @ row_issues rt row (chain_previous st) (chain_expected st) doc (row_digest row))
      = (claims, [])" by (simp add: row_claims_def)
  let ?st = "st\<lparr>chain_previous := row_digest row, chain_expected := chain_expected st + 1,
      chain_claims := claims, chain_issues := []\<rparr>"
  have "check_row H rt loads row st = Inr ?st"
    using assms(1) rc by (simp add: check_row_def row_links_def undigested_def)
  then show thesis
    by (rule that) (simp_all add: record_claims_clean(2) [OF c])
qed

lemma claims_matched:
  "mismatched_claims m cs = [] \<longleftrightarrow> (\<forall>(e, sd) \<in> set cs. dict_get m e = Some sd)"
  unfolding mismatched_claims_def by (induction cs) (auto split: if_splits)

lemma append_row:
  assumes "append_receipt H payload db = Inr (receipt, db')" "fresh_payload payload"
    and "chain_links H rt loads (ordered_rows db) [] 1 docs"
    and "loads (json_dumps False (JObj receipt)) = Some (sort_keys (JObj receipt))"
  obtains row where "ordered_rows db' = ordered_rows db @ [row]" "claim_rows db' = claim_rows db"
    "row_links H rt loads row (chain_head [] (ordered_rows db)) (1 + int (length (ordered_rows db)))
       (sorted_members receipt)"
    "dict_get receipt ''receipt_digest'' = Some (JStr (row_digest row))"
proof -
  let ?rows = "ordered_rows db"
  let ?n = "1 + int (length ?rows)"
  have seq: "(if ?rows = [] then 1 else row_sequence (last ?rows) + 1) = ?n"
    using chain_links_last [OF assms(3)] by auto
  from assms(1) have m: "make_receipt H payload ?n (chain_head [] ?rows) = Inr receipt"
    and ins: "insert_receipt receipt db = Inr db'"
    by (auto simp: append_receipt_def Let_def seq chain_head_def res_simps split: if_splits)
  obtain body rid rd where f: "receipt = dict_set ''receipt_digest'' (JStr rd) body"
    "''receipt_digest'' \<notin> set (dict_keys body)" "distinct (dict_keys receipt)"
    "digest_payload H (JObj body) = Inr rd"
    "dict_get receipt ''sequence'' = Some (JInt ?n)"
    "dict_get receipt ''previous_receipt_digest'' = Some (JStr (chain_head [] ?rows))"
    "dict_get receipt ''receipt_id'' = Some (JStr rid)"
    "dict_get receipt ''receipt_digest'' = Some (JStr rd)"
    using make_receipt_fields [OF m assms(2)] by metis
  let ?row = "\<lparr>row_sequence = ?n, row_receipt_id = rid, row_digest = rd,
    row_previous = chain_head [] ?rows, row_payload = json_dumps False (JObj receipt)\<rparr>"
  from ins f(5-8) have db': "db' = db\<lparr>receipt_rows := receipt_rows db @ [?row]\<rparr>"
    by (simp add: insert_receipt_def split: option.splits if_splits)
  have "\<forall>y \<in> set (receipt_rows db). row_sequence y < row_sequence ?row"
    using chain_links_sequences [OF assms(3)] by (fastforce simp: ordered_rows_def)
  then have ord: "ordered_rows db' = ?rows @ [?row]"
    unfolding ordered_rows_def db' by (simp add: sort_key_snoc)
  have get: "dict_get (sorted_members receipt) k = map_option sort_keys (dict_get receipt k)" for k
    using f(3) by (rule dict_get_sorted_members)
  have "digest_payload H (JObj (undigested (sorted_members receipt))) = digest_payload H (JObj body)"
  proof -
    have "undigested receipt = body" unfolding f(1) by (rule undigested_set [OF f(2)])
    then show ?thesis
      using digest_payload_sort_keys [of H "JObj body"]
      by (simp only: undigested_sorted sort_keys_JObj)
  qed
  moreover have "loads (row_payload ?row) = Some (JObj (sorted_members receipt))"
    using assms(4) by (simp add: sort_keys_JObj del: sort_keys.simps)
  moreover have "py_str rt (dict_get_or (sorted_members receipt) ''receipt_digest'' (JStr [])) = rd"
    using get [of "''receipt_digest''"] f(8) by (simp add: dict_get_or_def)
  ultimately have "row_links H rt loads ?row (chain_head [] ?rows) ?n (sorted_members receipt)"
    using f(4-7) get by (simp add: row_links_def)
  with that [of ?row] ord db' f(8) show thesis by simp
qed

lemma claims_recorded_sorted:
  assumes "claims_recorded db payload" "claims_inv db"
    and "\<And>k. k \<in> {''subject'', ''single_use_evidence_claims''} \<Longrightarrow>
           dict_get doc k = map_option sort_keys (dict_get payload k)"
  obtains es where "receipt_claim_list doc = Some es"
    "\<forall>e \<in> set es. map_of (map (\<lambda>c. (claim_evidence_id c, claim_subject_digest c)) (claim_rows db)) e
       = Some (receipt_subject_digest rt doc)"
proof -
  obtain es subject sd where p: "receipt_claim_list payload = Some es"
    "dict_get payload ''subject'' = Some (JObj subject)" "distinct (dict_keys subject)"
    "dict_get subject ''digest'' = Some (JStr sd)"
    "\<forall>e \<in> set es. \<exists>c \<in> set (claim_rows db). claim_evidence_id c = e \<and> claim_subject_digest c = sd"
    using assms(1) unfolding claims_recorded_def by blast
  have "receipt_claim_list doc = Some es"
    using receipt_claim_list_cong [of doc payload] assms(3) [of "''single_use_evidence_claims''"] p(1)
    by (simp add: option.map_comp comp_def)
  moreover have "receipt_subject_digest rt doc = sd"
    using assms(3) [of "''subject''"] p(2-4) dict_get_sorted_members [OF p(3), of "''digest''"]
    by (simp add: receipt_subject_digest_def dict_get_or_def sort_keys_JObj del: sort_keys.simps(8))
  moreover have "map_of (map (\<lambda>c. (claim_evidence_id c, claim_subject_digest c)) (claim_rows db)) e = Some sd"
    if e: "e \<in> set es" for e
  proof (rule map_of_is_SomeI)
    show "distinct (map fst (map (\<lambda>c. (claim_evidence_id c, claim_subject_digest c)) (claim_rows db)))"
      using assms(2) by (simp add: claims_inv_def comp_def)
    show "(e, sd) \<in> set (map (\<lambda>c. (claim_evidence_id c, claim_subject_digest c)) (claim_rows db))"
      using p(5) e by force
  qed
  ultimately show thesis using that by blast
qed

lemma append_keeps_chain:
  assumes "verify_chain H rt loads db = Inr rep" "report_passed rep"
    and "append_receipt H payload db = Inr (receipt, db')" "fresh_payload payload"
    and "loads (json_dumps False (JObj receipt)) = Some (sort_keys (JObj receipt))"
    and "claims_recorded db payload" "claims_inv db"
  shows "\<exists>rep'. verify_chain H rt loads db' = Inr rep' \<and> report_passed rep'
     \<and> dict_get receipt ''receipt_digest'' = Some (JStr (head_digest rep'))
     \<and> receipt_count rep' = Suc (receipt_count rep)"
proof -
  let ?claims = "sort_key claim_evidence_id (claim_rows db)"
  let ?m = "map_of (map (\<lambda>c. (claim_evidence_id c, claim_subject_digest c)) (claim_rows db))"
  obtain st cs where st: "res_fold (check_row H rt loads) (ordered_rows db) initial_chain = Inr st"
    and cs: "res_fold (check_claim_row H) ?claims ([], chain_issues st) = Inr cs"
    and rep: "report_passed rep \<longleftrightarrow> snd cs = []
        \<and> (\<forall>(e, sd) \<in> set (chain_claims st). dict_get (fst cs) e = Some sd)"
      "receipt_count rep = length (ordered_rows db)"
    using assms(1) by (auto simp: verify_chain_def Let_def res_simps claims_matched append_is_Nil_conv)
  from rep(1) assms(2) have none: "chain_issues st = []" "snd cs = []"
    and match: "\<forall>(e, sd) \<in> set (chain_claims st). dict_get (fst cs) e = Some sd"
    using fold_claim_rows_grow [OF cs] by auto
  obtain docs where docs: "chain_links H rt loads (ordered_rows db) [] 1 docs"
    "chain_previous st = chain_head [] (ordered_rows db)"
    "chain_expected st = 1 + int (length (ordered_rows db))"
    using fold_check_row_clean [OF st none(1)] by (auto simp: initial_chain_def)
  obtain row where row: "ordered_rows db' = ordered_rows db @ [row]" "claim_rows db' = claim_rows db"
    "row_links H rt loads row (chain_previous st) (chain_expected st) (sorted_members receipt)"
    "dict_get receipt ''receipt_digest'' = Some (JStr (row_digest row))"
    using append_row [OF assms(3,4) docs(1) assms(5)] docs(2,3) by metis
  have keep: "dict_get (sorted_members receipt) k = map_option sort_keys (dict_get payload k)"
    if "k \<in> {''subject'', ''single_use_evidence_claims''}" for k
  proof -
    obtain n prev where "make_receipt H payload n prev = Inr receipt"
      using assms(3) by (auto simp: append_receipt_def Let_def res_simps)
    then have "distinct (dict_keys receipt)" "k \<noteq> ''schema_version'' \<Longrightarrow> k \<notin> {''sequence'',
        ''previous_receipt_digest'', ''receipt_id'', ''receipt_digest''}
        \<Longrightarrow> dict_get receipt k = dict_get payload k"
      by (rule make_receipt_fields [OF _ assms(4)], blast)+
    moreover have "k \<noteq> ''schema_version''" "k \<notin> {''sequence'', ''previous_receipt_digest'',
        ''receipt_id'', ''receipt_digest''}" using that by auto
    ultimately have "distinct (dict_keys receipt)" "dict_get receipt k = dict_get payload k" by blast+
    then show ?thesis by (simp add: dict_get_sorted_members)
  qed
  obtain es where es: "receipt_claim_list (sorted_members receipt) = Some es"
    "\<forall>e \<in> set es. ?m e = Some (receipt_subject_digest rt (sorted_members receipt))"
    using claims_recorded_sorted [OF assms(6,7) keep] by metis
  have ids: "distinct (map claim_evidence_id ?claims)"
    using assms(7) unfolding claims_inv_def by (metis distinct_sort distinct_map set_sort)
  have "distinct (map fst (map (\<lambda>c. (claim_evidence_id c, claim_subject_digest c)) ?claims))"
    "distinct (map fst (map (\<lambda>c. (claim_evidence_id c, claim_subject_digest c)) (claim_rows db)))"
    using ids assms(7) by (simp_all add: claims_inv_def comp_def)
  then have "map_of (map (\<lambda>c. (claim_evidence_id c, claim_subject_digest c)) ?claims) = ?m"
    by (simp add: map_of_inject_set)
  with fold_claim_rows_get [OF cs ids] have get: "dict_get (fst cs) e = ?m e" for e
    by (simp split: option.splits)
  have "\<forall>e \<in> set es. dict_get (chain_claims st) e
      \<in> {None, Some (receipt_subject_digest rt (sorted_members receipt))}"
  proof
    fix e assume e: "e \<in> set es"
    show "dict_get (chain_claims st) e
        \<in> {None, Some (receipt_subject_digest rt (sorted_members receipt))}"
    proof (cases "dict_get (chain_claims st) e")
      case (Some sd)
      then have "(e, sd) \<in> set (chain_claims st)" by (rule map_of_SomeD)
      with match have "dict_get (fst cs) e = Some sd" by blast
      with get es(2) e Some show ?thesis by simp
    qed simp
  qed
  then obtain st' where st': "check_row H rt loads row st = Inr st'" "chain_issues st' = []"
    "chain_previous st' = row_digest row"
    "\<And>e. dict_get (chain_claims st') e = (if e \<in> set es
       then Some (receipt_subject_digest rt (sorted_members receipt)) else dict_get (chain_claims st) e)"
    using check_row_ok [OF row(3) es(1) none(1)] by metis
  have "distinct (dict_keys (chain_claims st))"
    using fold_check_row_distinct [OF st none(1)] by (simp add: initial_chain_def)
  then have dist: "distinct (dict_keys (chain_claims st'))"
    using check_row_distinct [OF st'(1,2)] by blast
  have "\<forall>(e, sd) \<in> set (chain_claims st'). dict_get (fst cs) e = Some sd"
  proof (clarify)
    fix e sd assume "(e, sd) \<in> set (chain_claims st')"
    then have new: "dict_get (chain_claims st') e = Some sd" using dist by simp
    show "dict_get (fst cs) e = Some sd"
    proof (cases "e \<in> set es")
      case True
      with new st'(4) [of e] es(2) get show ?thesis by simp
    next
      case False
      with new st'(4) [of e] have "(e, sd) \<in> set (chain_claims st)" by (simp add: map_of_SomeD)
      with match show ?thesis by blast
    qed
  qed
  with st st'(1-3) cs none row(1,2,4) rep(2) show ?thesis
    by (simp add: verify_chain_def Let_def res_fold_append claims_matched)
qed

end
