(* ===== verification/Fixtures.thy ===== *)
theory Fixtures
  imports Gateway ReceiptChain HumanAuthority
begin

text \<open>
  Concrete values the witnesses of the properties use: a hash with one value, a clock that knows
  two instants, an interpreter, and a small gateway with one registered agent,
  one human, one route and one evidence policy.
\<close>

definition ok_with :: "('a \<Rightarrow> bool) \<Rightarrow> 'a res \<Rightarrow> bool" where
  "ok_with P m = (case m of Inl _ \<Rightarrow> False | Inr x \<Rightarrow> P x)"

lemma ok_withD: "ok_with P m \<Longrightarrow> \<exists>x. m = Inr x \<and> P x"
  by (simp add: ok_with_def split: sum.splits)

definition ex_hash :: "string \<Rightarrow> string" where
  "ex_hash s = replicate 64 CHR ''0''"

definition ex_hmac :: "string \<Rightarrow> string \<Rightarrow> string" where
  "ex_hmac key s = ''mac''"

definition ex_later :: int where
  "ex_later = 1000000000"

definition ex_parse :: iso_parser where
  "ex_parse s = Some (Aware (if s = ''later'' then ex_later else 0))"

definition ex_runtime :: py_runtime where
  "ex_runtime = \<lparr>py_repr = (\<lambda>_. ''?''), py_float_int = (\<lambda>_. 0), py_total_seconds = (\<lambda>_. ''0.0''), py_millis = (\<lambda>n. n div 1000),
     py_isoformat = (\<lambda>t. if t = 0 then ''1970-01-01T00:00:00+00:00'' else ''later'')\<rparr>"

definition ex_scope :: capability_scope where
  "ex_scope = \<lparr>scope_repository_ids = [''core''], scope_domains = [], scope_tool_ids = [],
     scope_pack_ids = [], scope_path_roots = [''src''], max_risk_tier = HIGH,
     requires_human_review = False, scope_evidence_artifact_ids = [], delegated_by = [],
     scope_expires_at = [], scope_metadata = []\<rparr>"

definition ex_grant :: capability_grant where
  "ex_grant = \<lparr>grant_id = ''g1'', grant_capability = READ_WORKSPACE, grant_scope = ex_scope,
     grant_active = True, grant_rationale = ''read'', grant_metadata = []\<rparr>"

definition ex_agent :: agent_identity where
  "ex_agent = \<lparr>agent_id = ''bot'', display_name = ''Bot'', agent_kind = EXTERNAL_AGENT,
     trust_tier = GOVERNED_AUTOMATION, capability_grants = [ex_grant], lifecycle_state = ACTIVE,
     agent_issuer = ''ix'', agent_subject = ''bot'', agent_metadata = []\<rparr>"

definition ex_human :: agent_identity where
  "ex_human = \<lparr>agent_id = ''dana'', display_name = ''Dana'', agent_kind = HUMAN_OPERATOR,
     trust_tier = HUMAN_AUTHORITY, capability_grants = [ex_grant], lifecycle_state = ACTIVE,
     agent_issuer = ''ix'', agent_subject = ''dana'', agent_metadata = []\<rparr>"

definition ex_registry :: agent_registry where
  "ex_registry = \<lparr>registry_id = ''agents'', registry_agents = [ex_agent], registry_metadata = []\<rparr>"

definition ex_evaluator :: authorization_evaluator where
  "ex_evaluator = \<lparr>evaluator_registry = ex_registry, default_reviewer_agent_id = ''dana''\<rparr>"

definition ex_target :: authorization_target where
  "ex_target = \<lparr>target_repository_id = ''core'', target_domain = None, target_tool_id = [],
     target_pack_id = [], target_path = ''src/a.py'', target_work_package_id = [],
     target_artifact_ids = [], target_risk_tier = LOW, target_metadata = []\<rparr>"

definition ex_request :: authorization_request where
  "ex_request = \<lparr>request_id = ''q'', request_agent_id = ''bot'', request_action = ACT_READ,
     request_capability = READ_WORKSPACE, request_target = ex_target, requested_at = ''now'',
     request_evidence_ids = [], justification = [], request_metadata = []\<rparr>"

text \<open>A human who may revoke agents, and a revoked and a suspended agent.\<close>

definition ex_revoke_grant :: capability_grant where
  "ex_revoke_grant = ex_grant\<lparr>grant_id := ''g2'', grant_capability := REVOKE_AGENT,
     grant_scope := ex_scope\<lparr>max_risk_tier := CRITICAL\<rparr>\<rparr>"

definition ex_officer :: agent_identity where
  "ex_officer = ex_human\<lparr>agent_id := ''olga'', capability_grants := [ex_revoke_grant]\<rparr>"

definition ex_revoked :: agent_identity where
  "ex_revoked = ex_agent\<lparr>agent_id := ''old'', lifecycle_state := REVOKED\<rparr>"

definition ex_evaluator_of :: "agent_identity \<Rightarrow> authorization_evaluator" where
  "ex_evaluator_of a = \<lparr>evaluator_registry = ex_registry\<lparr>registry_agents := [a]\<rparr>,
     default_reviewer_agent_id = ''dana''\<rparr>"

definition ex_revocation :: authorization_request where
  "ex_revocation = ex_request\<lparr>request_agent_id := ''olga'', request_action := ACT_REVOKE,
     request_capability := REVOKE_AGENT\<rparr>"

lemma ex_allowed:
  "\<exists>d. evaluate ex_hash ex_parse ex_evaluator ex_request ''now'' [] [] = Inr d
     \<and> decision_status d = ALLOW"
  by (rule ok_withD) code_simp

lemma ex_human_allowed:
  "\<exists>d. evaluate ex_hash ex_parse (ex_evaluator_of ex_officer) ex_revocation ''now'' [] [] = Inr d
     \<and> decision_status d = ALLOW"
  by (rule ok_withD) code_simp

lemma ex_revoked_decided:
  "\<exists>d. evaluate ex_hash ex_parse (ex_evaluator_of ex_revoked)
       (ex_request\<lparr>request_agent_id := ''old''\<rparr>) ''now'' [] [] = Inr d \<and> decision_status d = BLOCK"
  by (rule ok_withD) code_simp

lemma ex_registry_inv: "registry_inv ex_registry"
  by code_simp

text \<open>A tool call of the agent, and a decision that names the human as reviewer.\<close>

definition ex_tool_request :: tool_request where
  "ex_tool_request = \<lparr>invocation_id = ''call-1'', request_tool_id = ''reader'', tool_capability = FILE_READ,
     tool_arguments = [(''path'', JStr ''src/a.py'')], tool_task_id = None, tool_run_id = None,
     requested_by = Some ''bot'', timeout_micros = None, tool_request_labels = [],
     tool_metadata = [(''repository_id'', JStr ''core'')], tool_created_at = Aware 0\<rparr>"

definition ex_review :: authorization_decision where
  "ex_review = \<lparr>decision_id = ''d1'', decision_request = ex_request, decision_status = REQUIRE_REVIEW,
     decision_reasons = [REVIEW_REQUIRED_BY_SCOPE], decision_decided_at = ''now'',
     reviewer_agent_id = ''dana'', decision_evidence_ids = [], decision_metadata = []\<rparr>"

lemma ex_tool_allowed:
  "\<exists>r d. build_tool_authorization_request ex_runtime ''bot'' ex_tool_request = Inr r
     \<and> evaluate ex_hash ex_parse ex_evaluator r ''now'' [] [] = Inr d \<and> decision_status d = ALLOW"
proof -
  have "\<exists>d. res_bind (build_tool_authorization_request ex_runtime ''bot'' ex_tool_request)
      (\<lambda>r. evaluate ex_hash ex_parse ex_evaluator r ''now'' [] []) = Inr d \<and> decision_status d = ALLOW"
    by (rule ok_withD) code_simp
  then show ?thesis by (auto simp: res_simps)
qed

end
