(* ===== verification/AgentProperties.thy ===== *)
theory AgentProperties
  imports Fixtures
begin

text \<open>
  The properties of names and paths, of the agent registry and its posture, and of the
  authorization evaluator, each with a witness where it has hypotheses.
\<close>

section \<open>Authorization\<close>

text \<open>C1: An ALLOW decision of \<open>evaluate\<close> means that the agent is registered and active, that no
  posture finding blocks it, that a grant of the requested capability covers the request (it is
  active, not expired, its risk tier suffices and repository, domain, tool, pack and path are in
  scope), and that no covering grant and no capability rule asks for a human review.\<close>

theorem evaluate_allow_sound:
  assumes "evaluate H parse e r at reviewer extra = Inr d"
    and "decision_status d = ALLOW"
  shows "\<exists>a g. registry_lookup (evaluator_registry e) (request_agent_id r) = Inr (Some a)
    \<and> lifecycle_state a = ACTIVE
    \<and> blocking_findings (validate_agent_capability_posture a) = []
    \<and> g \<in> set (grants_for a (request_capability r)) \<and> scope_covers parse g r
    \<and> \<not> requires_review a r (covering_grants parse a r)"
  using assms
  by (rule evaluate_allow) (auto simp: clear_to_act_def covering_grants_not_Nil)

theorem evaluate_allow_sound_witness:
  "\<exists>a g. registry_lookup ex_registry ''bot'' = Inr (Some a) \<and> lifecycle_state a = ACTIVE
     \<and> g \<in> set (grants_for a READ_WORKSPACE) \<and> scope_covers ex_parse g ex_request"
proof -
  obtain d where "evaluate ex_hash ex_parse ex_evaluator ex_request ''now'' [] [] = Inr d"
    "decision_status d = ALLOW" using ex_allowed by blast
  from evaluate_allow_sound [OF this] show ?thesis
    by (simp add: ex_evaluator_def ex_request_def) blast
qed

text \<open>A capability that only humans may hold (approving a release, a security or compliance
  posture or sandbox egress; registering, delegating to or revoking agents) is never allowed to an
  agent that is not an active human operator, whatever grants it holds.\<close>

theorem human_only_needs_human:
  assumes "evaluate H parse e r at reviewer extra = Inr d"
    and "capability_is_human_only (request_capability r)"
    and "decision_status d = ALLOW"
  shows "\<exists>a. registry_lookup (evaluator_registry e) (request_agent_id r) = Inr (Some a)
    \<and> agent_kind a = HUMAN_OPERATOR \<and> lifecycle_state a = ACTIVE"
  using assms(1,3)
proof (rule evaluate_allow)
  fix a assume a: "registry_lookup (evaluator_registry e) (request_agent_id r) = Inr (Some a)"
    and clear: "clear_to_act parse a r"
  then obtain g where "g \<in> set (grants_for a (request_capability r))"
    "blocking_findings (validate_agent_capability_posture a) = []"
    by (auto simp: clear_to_act_def)
  with assms(2) have "can_hold_human_authority a"
    by (auto simp: posture_blocking_iff grants_for_iff grant_posture_ok_def)
  with a can_hold_human_authority_kind show ?thesis by blast
qed

theorem human_only_needs_human_witness:
  "\<exists>a. registry_lookup (evaluator_registry (ex_evaluator_of ex_officer)) ''olga'' = Inr (Some a)
     \<and> agent_kind a = HUMAN_OPERATOR \<and> lifecycle_state a = ACTIVE"
proof -
  obtain d where d: "evaluate ex_hash ex_parse (ex_evaluator_of ex_officer) ex_revocation ''now'' [] []
      = Inr d" "decision_status d = ALLOW" using ex_human_allowed by blast
  have "capability_is_human_only (request_capability ex_revocation)" by code_simp
  from human_only_needs_human [OF d(1) this d(2)] show ?thesis by (simp add: ex_revocation_def)
qed

text \<open>C39: The lifecycle of the agent decides first: an unknown or revoked agent is always blocked, a
  suspended one is always sent to a human reviewer, whatever it asks for.\<close>

theorem lifecycle_decides:
  assumes "evaluate H parse e r at reviewer extra = Inr d"
    and "registry_lookup (evaluator_registry e) (request_agent_id r) = Inr found"
  shows "decision_status d = (case found of None \<Rightarrow> BLOCK
    | Some a \<Rightarrow> (case lifecycle_state a of REVOKED \<Rightarrow> BLOCK | SUSPENDED \<Rightarrow> REQUIRE_REVIEW
        | ACTIVE \<Rightarrow> decision_status d))"
  using assms(1) by (cases rule: evaluate_cases) (use assms(2) in auto)

theorem lifecycle_decides_witness:
  "\<exists>d. evaluate ex_hash ex_parse (ex_evaluator_of ex_revoked)
     (ex_request\<lparr>request_agent_id := ''old''\<rparr>) ''now'' [] [] = Inr d \<and> decision_status d = BLOCK"
proof -
  obtain d where d: "evaluate ex_hash ex_parse (ex_evaluator_of ex_revoked)
     (ex_request\<lparr>request_agent_id := ''old''\<rparr>) ''now'' [] [] = Inr d" using ex_revoked_decided by blast
  have "registry_lookup (evaluator_registry (ex_evaluator_of ex_revoked))
     (request_agent_id (ex_request\<lparr>request_agent_id := ''old''\<rparr>)) = Inr (Some ex_revoked)" by code_simp
  from lifecycle_decides [OF d this] d show ?thesis by (simp add: ex_revoked_def)
qed

text \<open>A decision names a reviewer exactly when it asks for a review.\<close>

theorem reviewer_named_iff_review:
  assumes "evaluate H parse e r at reviewer extra = Inr d"
  shows "decision_status d = REQUIRE_REVIEW \<longleftrightarrow> reviewer_agent_id d \<noteq> []"
  using assms by (rule evaluate_reviewer)

theorem reviewer_named_iff_review_witness:
  "\<exists>d. evaluate ex_hash ex_parse ex_evaluator ex_request ''now'' [] [] = Inr d
     \<and> reviewer_agent_id d = []"
proof -
  obtain d where d: "evaluate ex_hash ex_parse ex_evaluator ex_request ''now'' [] [] = Inr d"
    "decision_status d = ALLOW" using ex_allowed by blast
  from reviewer_named_iff_review [OF d(1)] d show ?thesis by auto
qed

section \<open>Posture and registry\<close>

text \<open>An agent's posture has no blocking finding exactly when the agent is not revoked, is of a
  known kind, and each of its active grants has enough risk tier for its capability, is held by a
  human where it is human-only, asks for review where the capability does, and is not denied to
  tools or model brains.\<close>

theorem posture_clear_iff:
  "blocking_findings (validate_agent_capability_posture a) = [] \<longleftrightarrow>
     lifecycle_state a \<noteq> REVOKED \<and> agent_kind a \<noteq> KIND_UNKNOWN
     \<and> (\<forall>g \<in> set (capability_grants a). grant_posture_ok a g)"
  by (rule posture_blocking_iff)

theorem posture_clear_iff_witness:
  "blocking_findings (validate_agent_capability_posture ex_agent) = []"
proof -
  have "lifecycle_state ex_agent \<noteq> REVOKED \<and> agent_kind ex_agent \<noteq> KIND_UNKNOWN
     \<and> (\<forall>g \<in> set (capability_grants ex_agent). grant_posture_ok ex_agent g)" by code_simp
  then show ?thesis using posture_clear_iff [of ex_agent] by blast
qed

text \<open>After a registration the registry finds the agent under its id, finds every other id as
  before, and refuses a second agent of the same id.\<close>

theorem register_lookup:
  assumes "registry_inv reg" "registry_register reg a = Inr reg'" "canonical_identifier k"
  shows "registry_lookup reg' k = (if k = agent_id a then Inr (Some a) else registry_lookup reg k)
    \<and> (\<forall>b. agent_id b = agent_id a \<longrightarrow> (\<exists>e. registry_register reg' b = Inl e))"
  using registry.find_add [OF assms(1,2)] registry.add_twice [OF assms(1,2)]
  by (simp add: registry_lookup_canonical assms(3))

theorem register_lookup_witness:
  "\<exists>reg'. registry_register ex_registry ex_human = Inr reg'
     \<and> registry_lookup reg' ''dana'' = Inr (Some ex_human)"
proof -
  have "\<exists>reg'. registry_register ex_registry ex_human = Inr reg' \<and> True" by (rule ok_withD) code_simp
  then obtain reg' where r: "registry_register ex_registry ex_human = Inr reg'" by blast
  have "canonical_identifier ''dana''" by code_simp
  from register_lookup [OF ex_registry_inv r this] r show ?thesis by (simp add: ex_human_def)
qed

section \<open>Human authority\<close>

text \<open>The human authority evaluation reports authority as preserved exactly when the requester is
  registered, a decision that asks for review names a registered, active human other than the
  requester, and a human-only capability was requested by such a human.\<close>

theorem human_authority_preserved_iff:
  assumes "evaluate_human_authority reg r d = Inr v"
  shows "\<exists>requester reviewer. registry_lookup reg (request_agent_id r) = Inr requester
    \<and> lookup_reviewer reg (reviewer_agent_id d) = Inr reviewer
    \<and> (authority_preserved v \<longleftrightarrow> requester \<noteq> None
        \<and> (decision_status d = REQUIRE_REVIEW \<longrightarrow> human_review_separate requester reviewer)
        \<and> (capability_is_human_only (request_capability r) \<longrightarrow>
             (\<exists>q. requester = Some q \<and> can_hold_human_authority q)))"
  using assms by (rule evaluate_human_authority_preserved) blast

theorem human_authority_preserved_iff_witness:
  "\<exists>v. evaluate_human_authority (ex_registry\<lparr>registry_agents := [ex_agent, ex_human]\<rparr>) ex_request
       ex_review = Inr v \<and> authority_preserved v"
proof -
  let ?reg = "ex_registry\<lparr>registry_agents := [ex_agent, ex_human]\<rparr>"
  have "\<exists>v. evaluate_human_authority ?reg ex_request ex_review = Inr v \<and> True"
    by (rule ok_withD) code_simp
  then obtain v where v: "evaluate_human_authority ?reg ex_request ex_review = Inr v" by blast
  have "registry_lookup ?reg (request_agent_id ex_request) = Inr (Some ex_agent)"
    "lookup_reviewer ?reg (reviewer_agent_id ex_review) = Inr (Some ex_human)" by code_simp+
  moreover have "human_review_separate (Some ex_agent) (Some ex_human)"
    "\<not> capability_is_human_only (request_capability ex_request)"
    by (simp_all add: human_review_separate_def can_hold_human_authority_def agent_active_def
      ex_human_def ex_agent_def capability_is_human_only_def ex_request_def HUMAN_ONLY_CAPABILITIES_def)
  ultimately show ?thesis using human_authority_preserved_iff [OF v] v by auto
qed

text \<open>Through the authorized tool gateway the tool gateway's own state changes only for a call
  whose authorization request was evaluated to ALLOW; a blocked call, one that needs review and
  one that fails before leave it as it was.\<close>

theorem tool_gateway_gated:
  assumes "authorize_and_invoke H parse rt e invoke aid req at reviewer evidence metadata t0 t1 s = (res, s')"
    and "s' \<noteq> s"
  shows "\<exists>r d. build_tool_authorization_request rt aid req = Inr r
    \<and> evaluate H parse e r at reviewer evidence = Inr d \<and> decision_status d = ALLOW
    \<and> snd (invoke req s) = s'"
  using assms by (rule authorize_and_invoke_gated) blast

theorem tool_gateway_gated_witness:
  "\<exists>r d. build_tool_authorization_request ex_runtime ''bot'' ex_tool_request = Inr r
     \<and> evaluate ex_hash ex_parse ex_evaluator r ''now'' [] [] = Inr d \<and> decision_status d = ALLOW"
proof -
  let ?invoke = "\<lambda>(_ :: tool_request) n. (Inl (OSError []), Suc n) :: (unit \<times> tool_result) res \<times> nat"
  obtain r d where "build_tool_authorization_request ex_runtime ''bot'' ex_tool_request = Inr r"
    "evaluate ex_hash ex_parse ex_evaluator r ''now'' [] [] = Inr d" "decision_status d = ALLOW"
    using ex_tool_allowed by blast
  then have "authorize_and_invoke ex_hash ex_parse ex_runtime ex_evaluator ?invoke ''bot'' ex_tool_request
      ''now'' [] [] [] 0 0 0 = (Inl (OSError []), Suc 0)"
    by (simp add: authorize_and_invoke_def)
  from tool_gateway_gated [OF this] show ?thesis by auto
qed

section \<open>Names and paths\<close>

text \<open>Normalising an identifier without tabs or other unusual white space gives a canonical
  identifier, and normalising that again gives it back: an id that was stored normalised is found
  under the same name.\<close>

theorem identifier_normalised_once:
  assumes "normalize_identifier label value = Inr y" "only_plain_spaces value"
  shows "canonical_identifier y \<and> normalize_identifier label' y = Inr y"
  using normalize_identifier_result [OF assms] normalize_identifier_canonical by blast+

theorem identifier_normalised_once_witness:
  "normalize_identifier ''id'' ''Code Bot__7'' = Inr ''code-bot-7''
     \<and> normalize_identifier ''again'' ''code-bot-7'' = Inr ''code-bot-7''"
proof -
  have n: "normalize_identifier ''id'' ''Code Bot__7'' = Inr ''code-bot-7''" by code_simp
  have "only_plain_spaces ''Code Bot__7''" by code_simp
  from n identifier_normalised_once [OF n this, of "''again''"] show ?thesis by blast
qed

text \<open>A path that \<open>normalize_relative_path\<close> accepts is relative, climbs nowhere (no \<open>..\<close> part),
  has no backslash and is its own POSIX form.\<close>

theorem relative_path_stays_inside:
  assumes "normalize_relative_path value = Inr y"
  shows "y \<noteq> [] \<and> \<not> path_is_absolute y \<and> ''..'' \<notin> set (path_parts y) \<and> CHR 0x5C \<notin> set y
    \<and> path_as_posix y = y"
  using normalize_relative_path_safe [OF assms] by (simp add: safe_relative_path_def)

theorem relative_path_stays_inside_witness:
  "normalize_relative_path '' src//app.py '' = Inr ''src/app.py'' \<and> ''..'' \<notin> set (path_parts ''src/app.py'')"
proof -
  have n: "normalize_relative_path '' src//app.py '' = Inr ''src/app.py''" by code_simp
  from n relative_path_stays_inside [OF n] show ?thesis by blast
qed

end
