(* ===== verification/GatewayFixtures.thy ===== *)
theory GatewayFixtures
  imports Fixtures
begin

text \<open>
  A small gateway the witnesses run: the agent \<open>bot\<close> may read \<open>src/a.py\<close> of the repository
  \<open>core\<close> through one route, whose policy asks for a signed, exactly bound, single-use scan by
  the issuer \<open>sec\<close>.
\<close>

definition ex_mac :: "string \<Rightarrow> string \<Rightarrow> string" where
  "ex_mac key s = replicate 64 CHR ''1''"

definition ex_artifact :: evidence_artifact where
  "ex_artifact = \<lparr>evidence_id = ''ev-1'', evidence_kind = ''scan'', evidence_issuer = ''sec'',
     evidence_key_id = ''k1'', evidence_status = ''passed'', evidence_repository_id = ''core'',
     evidence_revision = ''r1'', produced_at = ''t'', target_digest = ex_hash [],
     evidence_payload = [], evidence_digest = ex_hash [], evidence_signature = ex_mac [] []\<rparr>"

definition ex_loads :: json_loads where
  "ex_loads s = (if s = ''scan''
     then (case evidence_artifact_dict ex_hash ex_artifact of Inr v \<Rightarrow> Some v | Inl _ \<Rightarrow> None) else None)"

definition ex_store :: evidence_store where
  "ex_store = \<lparr>evidence_files = [(''ev-1'', EvidenceFile 100 ''scan'')],
     trusted_keys = [((''sec'', ''k1''), ''secret'')],
     trusted_issuer_kinds = [((''sec'', ''k1''), [''scan''])], max_evidence_bytes = 1000\<rparr>"

definition ex_policy :: evidence_policy where
  "ex_policy = \<lparr>policy_id = ''scanned'', required_kinds = [''scan''], human_approval_kind = [],
     target_bound_kinds = [''scan''], single_use_kinds = [''scan''], accepted_statuses = [''passed''],
     allowed_issuers = [''sec''], human_approval_issuers = [], max_age_seconds = 3600,
     require_signature = True, require_repository_match = True, require_revision_match = True\<rparr>"

definition ex_route :: tool_route where
  "ex_route = \<lparr>route_tool_name = ''reader'', route_capability = FILE_READ,
     route_repository_id = ''core'', path_argument = ''path'', revision_argument = ''revision'',
     repository_argument = [], route_risk_tier = LOW, evidence_policy_id = ''scanned'',
     api_method = ''POST'', api_path = ''/read'', route_operating_domain = MULTI_REPO,
     mcp_header_bindings = [], route_connector_id = []\<rparr>"

definition ex_provider :: oidc_provider where
  "ex_provider = \<lparr>provider_issuer = ''idp'', provider_audience = ''gw'', provider_jwks_path = ''keys'',
     provider_algorithms = [''RS256''], max_token_age_seconds = 600, clock_skew_seconds = 0\<rparr>"

definition ex_verifier :: identity_verifier where
  "ex_verifier = \<lparr>verifier_providers = [ex_provider],
     verifier_bindings = [\<lparr>binding_issuer = ''idp'', binding_subject = ''svc'', binding_agent_id = ''bot''\<rparr>]\<rparr>"

definition ex_config :: gateway_config where
  "ex_config = \<lparr>cfg_routes = [ex_route], cfg_policies = [ex_policy], cfg_evaluator = ex_evaluator,
     cfg_issuers = [], cfg_connectors = None, cfg_identity_mode = ''mixed'',
     cfg_require_delegation = True, cfg_verifier = ex_verifier,
     cfg_agent_tokens = [(''bot'', ''s3cret''), (''tool'', ''other'')], cfg_operator_token = ''op''\<rparr>"

definition ex_env :: gateway_env where
  "ex_env = \<lparr>env_hash = ex_hash, env_hmac = ex_mac, env_runtime = ex_runtime, env_parse = ex_parse,
     env_loads = ex_loads\<rparr>"

definition ex_arguments :: "json dict" where
  "ex_arguments = [(''path'', JStr ''src/a.py''), (''revision'', JStr ''r1'')]"

definition ex_delegation :: delegation_scope where
  "ex_delegation = \<lparr>delegation_id = ''d1'', scope_delegated_by = ''dana'', delegated_tools = [''reader''],
     delegated_repositories = [''core''], delegated_path_roots = [''src''], delegation_expires_at = 100\<rparr>"

definition ex_principal :: authenticated_principal where
  "ex_principal = (static_principal ''bot'')\<lparr>delegation_chain := [ex_delegation]\<rparr>"

text \<open>The subject of the call, under a protocol and with the binding of an operation or none.\<close>

definition ex_subject_for :: "string \<Rightarrow> json dict option \<Rightarrow> authority_subject" where
  "ex_subject_for proto operation =
     \<lparr>subject_agent_id = ''bot'', subject_tool_name = ''reader'', subject_capability = ''file_read'',
     subject_repository_id = ''core'', subject_revision = ''r1'', subject_path = ''src/a.py'',
     arguments_digest = ex_hash [], authority_context_digest = ex_hash [], subject_protocol = proto,
     subject_metadata = operation_member operation @ [(''evidence_policy_id'', JStr ''scanned'')]\<rparr>"

abbreviation ex_subject :: authority_subject where
  "ex_subject \<equiv> ex_subject_for ''mcp'' None"

text \<open>Digests under the constant hash need no text: a value of JSON leaves only always has one.\<close>

fun serializable :: "json \<Rightarrow> bool" where
  "serializable JNonFinite = False"
| "serializable JOther = False"
| "serializable (JList xs) = list_all serializable xs"
| "serializable (JObj kvs) = list_all (\<lambda>kv. serializable (snd kv)) kvs"
| "serializable _ = True"

lemma serializable_sort_keys: "serializable (sort_keys v) = serializable v"
proof (induction v)
  case (JObj kvs)
  then show ?case by (force simp: list_all_iff snds.simps)
qed (auto simp: list_all_iff)

lemma serializable_dumps: "serializable v \<Longrightarrow> dumps_error v = None"
proof (induction v)
  case (JList xs)
  then show ?case by (induction xs) auto
next
  case (JObj kvs)
  then show ?case by (induction kvs) (auto simp: snds.simps)
qed simp_all

lemma ex_digest: "serializable v \<Longrightarrow> digest_payload ex_hash v = Inr (ex_hash [])"
  by (simp add: digest_payload_def serializable_dumps serializable_sort_keys ex_hash_def)

lemma serializable_strs [simp]: "serializable (json_strs xs)"
  by (simp add: list_all_iff)

lemma ex_scope_serializable: "serializable (capability_scope_dict ex_scope)"
  by (simp add: capability_scope_dict_def ex_scope_def)

lemma ex_agent_digest: "agent_identity_digest ex_hash ex_agent = Inr (ex_hash [])"
proof -
  have "\<exists>g. capability_grant_dict ex_hash ex_grant = Inr g \<and> serializable g"
    using ex_scope_serializable
    by (simp add: capability_grant_dict_def with_digest_def capability_grant_body_def ex_digest
      ex_grant_def res_simps)
  then show ?thesis
    by (auto simp: agent_identity_digest_def agent_identity_body_def ex_agent_def list_all_iff
      ex_digest res_simps)
qed

text \<open>Callers and bindings of the calls below.\<close>

definition ex_caller :: "authenticated_principal option \<Rightarrow> bool" where
  "ex_caller who \<longleftrightarrow> who \<in> {None, Some ex_principal}"

definition ex_call :: "string \<Rightarrow> json dict option \<Rightarrow> bool" where
  "ex_call proto operation \<longleftrightarrow> normalize_text ''protocol'' proto = Inr proto
     \<and> serializable (JObj (operation_member operation))"

lemma ex_caller_federated: "ex_caller who \<Longrightarrow> federated who = None"
  by (auto simp: ex_caller_def federated_def ex_principal_def static_principal_def)

lemma ex_caller_principal [simp]: "ex_caller None" "ex_caller (Some ex_principal)"
  by (simp_all add: ex_caller_def)

lemma ex_call_mcp [simp]: "ex_call ''mcp'' None"
proof -
  have "normalize_text ''protocol'' ''mcp'' = Inr ''mcp''" by code_simp
  then show ?thesis by (simp add: ex_call_def operation_member_def)
qed

lemma ex_context_digest:
  "ex_caller who \<Longrightarrow> authority_context ex_hash ex_config ex_route ex_policy ex_agent None who
     = Inr (ex_hash [])"
  by (simp add: authority_context_def ex_agent_digest ex_digest tool_route_dict_def ex_route_def
    evidence_policy_dict_def ex_caller_federated ex_config_def list_all_iff res_simps)

lemma ex_subject_digest:
  "ex_call proto operation \<Longrightarrow> subject_digest ex_hash (ex_subject_for proto operation) = Inr (ex_hash [])"
  by (simp add: subject_digest_def ex_digest authority_subject_body_def ex_subject_for_def ex_call_def)

lemma ex_arguments_digest: "digest_payload ex_hash (JObj ex_arguments) = Inr (ex_hash [])"
  by (simp add: ex_digest ex_arguments_def)

lemma ex_subject_checked:
  assumes "ex_call proto operation"
  shows "authority_subject_init (ex_subject_for proto operation) = Inr (ex_subject_for proto operation)"
proof -
  have texts: "normalize_text ''agent_id'' ''bot'' = Inr ''bot''"
    "normalize_text ''tool_name'' ''reader'' = Inr ''reader''"
    "normalize_text ''capability'' ''file_read'' = Inr ''file_read''"
    "normalize_optional_text ''repository_id'' ''core'' = Inr ''core''"
    "normalize_optional_text ''revision'' ''r1'' = Inr ''r1''" "\<not> blank ''src/a.py''"
    "normalize_relative_path ''src/a.py'' = Inr ''src/a.py''"
    "normalize_text ''arguments_digest'' (ex_hash []) = Inr (ex_hash [])"
    "normalize_text ''authority_context_digest'' (ex_hash []) = Inr (ex_hash [])"
    "is_sha256 (ex_hash [])" by code_simp+
  show ?thesis
    using assms by (simp add: authority_subject_init_def ex_subject_for_def ex_call_def texts)
qed

lemma ex_subject_built:
  assumes "ex_call proto operation" "ex_caller who"
  shows "build_subject ex_env ex_config ''bot'' ''reader'' ex_arguments proto who operation
    = Inr (ex_subject_for proto operation)"
proof -
  have route: "require_route ex_config ''reader'' = Inr ex_route" by code_simp
  have policy: "evidence_policy_for ex_config ''scanned'' = Some ex_policy" by code_simp
  have agent: "normalize_identifier ''agent_id'' ''bot'' = Inr ''bot''" by code_simp
  have found: "registry_lookup (cfg_registry ex_config) ''bot'' = Inr (Some ex_agent)" by code_simp
  have contract: "route_contract ex_config ex_route = Inr None" by code_simp
  have texts: "argument_text ex_arguments ''path'' = ''src/a.py''"
    "argument_text ex_arguments ''revision'' = ''r1''" by code_simp+
  have none: "\<exists>n. no_evidence_policy ''none'' = Inr n \<and> True" by (rule ok_withD) code_simp
  have given: "repository_argument ex_route = []" "revision_argument ex_route = ''revision''"
    "path_argument ex_route = ''path''" "route_repository_id ex_route = ''core''"
    "evidence_policy_id ex_route = ''scanned''" "route_tool_name ex_route = ''reader''"
    "tool_capability_value (route_capability ex_route) = ''file_read''"
    "policy_id ex_policy = ''scanned''" "env_hash ex_env = ex_hash"
    by (simp_all add: ex_route_def ex_policy_def ex_env_def)
  from none obtain n where "no_evidence_policy ''none'' = Inr n" by blast
  with ex_subject_checked [OF assms(1)] show ?thesis
    by (simp add: build_subject_def route policy agent found contract texts given
      ex_context_digest [OF assms(2)] ex_caller_federated [OF assms(2)] ex_arguments_digest
      ex_subject_for_def res_simps)
qed

definition ex_verification :: evidence_verification where
  "ex_verification = \<lparr>verified_evidence_id = ''ev-1'', verified_kind = ''scan'', verified_issuer = ''sec'',
     verification_passed = True, verified_digest = ex_hash [], verified_status = ''passed'',
     verification_issues = []\<rparr>"

lemma ex_verified:
  assumes "ex_call proto operation"
  shows "verify_one ex_hash ex_mac ex_runtime ex_parse ex_loads ex_store ''ev-1''
    (ex_subject_for proto operation) ex_policy 0 = Inr (ex_verification, Some ex_artifact)"
proof -
  have loaded: "load_evidence ex_runtime ex_parse ex_loads ex_store ''ev-1'' = Inr ex_artifact"
    by code_simp
  have "computed_digest ex_hash ex_artifact = Inr (ex_hash [])"
    by (simp add: computed_digest_def unsigned_payload_def ex_artifact_def ex_digest)
  moreover have "lower ''passed'' \<in> lower ` {''passed''}" by simp
  moreover have "parse_timestamp ex_parse ''t'' = Inr 0" by code_simp
  moreover have "ex_mac key d = ex_mac [] []" "0 \<le> seconds 3600" "0 \<le> seconds 300" for key d
    by (simp_all add: ex_mac_def seconds_def)
  ultimately have "evidence_holds ex_hash ex_mac ex_parse ex_store ''ev-1''
      (ex_subject_for proto operation) ex_policy 0 ex_artifact"
    using ex_subject_digest [OF assms]
    by (simp add: evidence_holds_def ex_artifact_def ex_policy_def ex_store_def ex_subject_for_def)
  then have "evidence_issues ex_hash ex_mac ex_runtime ex_parse ex_store ''ev-1''
      (ex_subject_for proto operation) ex_policy 0 ex_artifact = Inr []"
    by (simp add: evidence_issues_Nil)
  with loaded show ?thesis
    by (simp add: verify_one_def res_simps ex_verification_def ex_artifact_def)
qed

lemma ex_evidence_verified:
  assumes "ex_call proto operation"
  shows "\<exists>v. verify_many ex_hash ex_mac ex_runtime ex_parse ex_loads ex_store [''ev-1'']
    (ex_subject_for proto operation) ex_policy 0 = Inr v \<and> evaluation_passed v \<and> verifications v = [ex_verification]"
proof -
  have ids: "uniq [''ev-1''] = [''ev-1'']" by code_simp
  have results: "res_map (\<lambda>eid. verify_one ex_hash ex_mac ex_runtime ex_parse ex_loads ex_store eid
      (ex_subject_for proto operation) ex_policy 0) [''ev-1''] = Inr [(ex_verification, Some ex_artifact)]"
    by (simp add: ex_verified [OF assms] res_simps)
  have given: "verification_passed ex_verification" "evidence_kind ex_artifact = ''scan''"
    "required_kinds ex_policy = [''scan'']"
    by (simp_all add: ex_verification_def ex_artifact_def ex_policy_def)
  show ?thesis
    unfolding verify_many_def ids results
    by (simp add: passing_artifacts_def artifacts_of_kind_def evaluation_passed_def given res_simps
        Let_def)
qed

definition ex_invocation :: tool_request where
  "ex_invocation = \<lparr>invocation_id = ''tool-call-1'', request_tool_id = ''reader'', tool_capability = FILE_READ,
     tool_arguments = ex_arguments, tool_task_id = None, tool_run_id = None,
     requested_by = Some ''bot'', timeout_micros = None, tool_request_labels = [],
     tool_metadata =
       [(''repository_id'', JStr ''core''), (''operating_domain'', JStr ''multi_repo''),
        (''agent_risk_tier'', JStr ''low''), (''wave14_revision'', JStr ''r1''),
        (''wave14_subject_digest'', JStr (ex_hash []))], tool_created_at = Aware 0\<rparr>"

lemma ex_invocation_checked: "tool_request_init ex_invocation = Inr ex_invocation"
  by code_simp

lemma ex_invocation_authorized:
  "\<exists>d. res_bind (build_tool_authorization_request ex_runtime ''bot'' ex_invocation)
     (\<lambda>r. evaluate ex_hash ex_parse ex_evaluator r ''1970-01-01T00:00:00+00:00'' [] [''ev-1'']) = Inr d
     \<and> decision_status d = ALLOW"
  by (rule ok_withD) code_simp

lemma ex_live_allowed:
  assumes "ex_call proto operation"
  shows "\<exists>d. evaluate_live_authority ex_env ex_evaluator ex_store (ex_subject_for proto operation)
     ex_invocation ex_policy [''ev-1''] ''1970-01-01T00:00:00+00:00'' 0 = Inr d \<and> live_status d = LIVE_ALLOW
     \<and> verifications (live_evidence d) = [ex_verification]"
proof -
  have env: "env_hash ex_env = ex_hash" "env_hmac ex_env = ex_mac" "env_runtime ex_env = ex_runtime"
    "env_parse ex_env = ex_parse" "env_loads ex_env = ex_loads" "subject_agent_id (ex_subject_for proto operation) = ''bot''"
    "human_approval_kind ex_policy = []"
    by (simp_all add: ex_env_def ex_subject_for_def ex_policy_def)
  from ex_invocation_authorized obtain r d where
    "build_tool_authorization_request ex_runtime ''bot'' ex_invocation = Inr r"
    "evaluate ex_hash ex_parse ex_evaluator r ''1970-01-01T00:00:00+00:00'' [] [''ev-1''] = Inr d"
    "decision_status d = ALLOW" by (auto simp: res_simps)
  moreover obtain v where "verify_many ex_hash ex_mac ex_runtime ex_parse ex_loads ex_store [''ev-1'']
      (ex_subject_for proto operation) ex_policy 0 = Inr v" "evaluation_passed v"
      "verifications v = [ex_verification]"
    using ex_evidence_verified [OF assms] by blast
  moreover have "\<exists>t. normalize_text ''decided_at'' ''1970-01-01T00:00:00+00:00'' = Inr t \<and> True"
    by (rule ok_withD) code_simp
  ultimately show ?thesis
    by (auto simp: evaluate_live_authority_def env live_verdict_def live_decision_init_def res_simps)
qed

lemma ex_prepared_for:
  assumes "ex_call proto operation"
  shows "\<exists>p. prepare_authority ex_env ex_config ex_store ''bot'' ''reader'' ex_arguments [''ev-1'']
      proto (Some ex_principal) operation ''1'' 0 = Inr p
     \<and> live_status (prepared_decision p) = LIVE_ALLOW
     \<and> prepared_policy p = ex_policy \<and> single_use_ids p = [''ev-1''] \<and> prepared_route p = ex_route
     \<and> prepared_subject p = ex_subject_for proto operation"
proof -
  let ?s = "ex_subject_for proto operation"
  have route: "require_route ex_config ''reader'' = Inr ex_route" by code_simp
  have policy: "evidence_policy_for ex_config ''scanned'' = Some ex_policy" by code_simp
  have permitted: "authorize_action ex_runtime ex_principal ''reader'' ''core'' ''src/a.py'' = []"
    by code_simp
  from ex_live_allowed [OF assms] obtain d where d: "evaluate_live_authority ex_env ex_evaluator ex_store
      ?s ex_invocation ex_policy [''ev-1''] ''1970-01-01T00:00:00+00:00'' 0 = Inr d"
    "live_status d = LIVE_ALLOW" "verifications (live_evidence d) = [ex_verification]" by blast
  have given: "route_tool_name ex_route = ''reader''" "subject_repository_id ?s = ''core''"
    "subject_path ?s = ''src/a.py''" "env_runtime ex_env = ex_runtime" "env_hash ex_env = ex_hash"
    "evidence_policy_id ex_route = ''scanned''" "cfg_evaluator ex_config = ex_evaluator"
    "py_isoformat ex_runtime 0 = ''1970-01-01T00:00:00+00:00''"
    by (simp_all add: ex_route_def ex_subject_for_def ex_env_def ex_config_def ex_runtime_def)
  have invocation: "\<lparr>invocation_id = ''tool-call-'' @ ''1'', request_tool_id = ''reader'',
      tool_capability = route_capability ex_route,
      tool_arguments = dict_set ''path'' (JStr ''src/a.py'') ex_arguments,
      tool_task_id = None, tool_run_id = None, requested_by = Some (subject_agent_id ?s),
      timeout_micros = None, tool_request_labels = [],
      tool_metadata = [(''repository_id'', JStr ''core''),
         (''operating_domain'', JStr (operating_domain_value (route_operating_domain ex_route))),
         (''agent_risk_tier'', JStr (capability_risk_tier_value (route_risk_tier ex_route))),
         (''wave14_revision'', JStr (subject_revision ?s)),
         (''wave14_subject_digest'', JStr (ex_hash []))],
      tool_created_at = Aware 0\<rparr> = ex_invocation"
    by (simp add: ex_invocation_def ex_arguments_def ex_route_def ex_subject_for_def)
  let ?p = "\<lparr>prepared_route = ex_route, prepared_subject = ?s,
    prepared_invocation = ex_invocation, prepared_evidence_ids = [''ev-1''], prepared_policy = ex_policy,
    prepared_decision = d, prepared_principal = Some ex_principal\<rparr>"
  have "prepare_authority ex_env ex_config ex_store ''bot'' ''reader'' ex_arguments [''ev-1'']
      proto (Some ex_principal) operation ''1'' 0 = Inr ?p"
    unfolding prepare_authority_def route
    by (simp only: res_bind_Inr ex_subject_built [OF assms ex_caller_principal(2)] given option.case Let_def permitted
      ex_subject_digest [OF assms]
      refl if_True if_False invocation ex_invocation_checked policy d(1) simp_thms list.distinct)
  moreover have "single_use_ids ?p = [''ev-1'']"
    by (simp add: single_use_ids_def d(3) ex_verification_def ex_policy_def)
  ultimately show ?thesis using d(2) by (intro exI [of _ ?p]) simp
qed

definition ex_prepared :: "prepared_request res" where
  "ex_prepared = prepare_authority ex_env ex_config ex_store ''bot'' ''reader'' ex_arguments [''ev-1'']
     ''mcp'' (Some ex_principal) None ''1'' 0"

lemma ex_prepared_allowed:
  "\<exists>p. ex_prepared = Inr p \<and> live_status (prepared_decision p) = LIVE_ALLOW
     \<and> prepared_policy p = ex_policy \<and> single_use_ids p = [''ev-1''] \<and> prepared_route p = ex_route
     \<and> prepared_subject p = ex_subject"
  unfolding ex_prepared_def by (rule ex_prepared_for [OF ex_call_mcp])

text \<open>A delegation under another, as the claim of a token holds it.\<close>

definition ex_chain_json :: json where
  "ex_chain_json = JList
     [JObj [(''delegation_id'', JStr ''d1''), (''delegated_by'', JStr ''dana''),
        (''tools'', JList [JStr ''reader'', JStr ''writer'']), (''path_roots'', JList [JStr ''src'']),
        (''expires_at'', JInt 100)],
      JObj [(''delegation_id'', JStr ''d2''), (''delegated_by'', JStr ''d1''),
        (''tools'', JList [JStr ''reader'']), (''path_roots'', JList [JStr ''src/api'']),
        (''expires_at'', JInt 90)]]"

lemma ex_chain_parsed:
  "\<exists>chain. parse_delegation_chain ex_runtime 10 ex_chain_json = Inr chain \<and> length chain = 2"
  by (rule ok_withD) code_simp

text \<open>A token whose checked claims are these.\<close>

definition ex_claims :: "json dict" where
  "ex_claims = [(''iss'', JStr ''idp''), (''sub'', JStr ''svc''), (''jti'', JStr ''t-1''),
     (''iat'', JInt 10), (''exp'', JInt 90), (''nbf'', JInt 10), (''aud'', JStr ''gw''),
     (''blackfox_delegation'', ex_chain_json)]"

definition ex_jwt :: "unit pyjwt" where
  "ex_jwt = \<lparr>jwt_unverified = (\<lambda>t. Some ([(''kid'', JStr ''k''), (''alg'', JStr ''RS256'')], ex_claims)),
     jwt_keys = (\<lambda>p. Inr [(''k'', ())]), jwt_decode = (\<lambda>t k a b c d. Inr ex_claims)\<rparr>"

text \<open>The same, from a PyJWT that checks the expiry of what it decodes at an instant of its clock.\<close>

definition ex_jwt_at :: "int \<Rightarrow> unit pyjwt" where
  "ex_jwt_at at = ex_jwt\<lparr>jwt_decode := (\<lambda>token key algorithms audience issuer leeway.
     if at - leeway < 90 then Inr ex_claims else Inl (InvalidTokenError ''Signature has expired''))\<rparr>"

lemma ex_token_verified:
  "\<exists>v. verify_token ex_runtime ex_jwt ex_verifier [] 20 ''token'' [] = Inr v \<and> fst v \<noteq> None"
  by (rule ok_withD) code_simp

end
