(* ===== verification/GatewayProperties.thy ===== *)
theory GatewayProperties
  imports GatewayFixtures
begin

text \<open>
  The properties of the live gateway: what digests bind, delegated identity, signed evidence, the
  combined decision, single-use claims and the receipt chain.
\<close>

section \<open>Digests\<close>

text \<open>C37: Two acceptable JSON values have the same canonical bytes exactly when they are equal up to the
  order of the keys of their objects.\<close>

theorem canonical_bytes_exact:
  assumes "canonical_bytes v = Inr b" "canonical_bytes w = Inr c" "floats_ok v" "floats_ok w"
  shows "b = c \<longleftrightarrow> sort_keys v = sort_keys w"
proof
  assume "b = c"
  with assms show "sort_keys v = sort_keys w" by (blast intro: canonical_bytes_inj)
next
  assume "sort_keys v = sort_keys w"
  with canonical_bytes_Inr(2) [OF assms(1)] canonical_bytes_Inr(2) [OF assms(2)] show "b = c"
    by (simp add: json_dumps_def)
qed

theorem canonical_bytes_exact_witness:
  "canonical_bytes (JObj [(''a'', JInt 1), (''b'', JNull)])
     = canonical_bytes (JObj [(''b'', JNull), (''a'', JInt 1)])"
proof -
  let ?v = "JObj [(''a'', JInt 1), (''b'', JNull)]" and ?w = "JObj [(''b'', JNull), (''a'', JInt 1)]"
  have "length (utf8 (json_dumps False ?v)) = 16" "length (utf8 (json_dumps False ?w)) = 16"
    "validate_json ?v = Inr ()" "validate_json ?w = Inr ()" by code_simp+
  then have "\<exists>b. canonical_bytes ?v = Inr b" "\<exists>c. canonical_bytes ?w = Inr c"
    by (simp_all add: canonical_bytes_def MAX_DOCUMENT_BYTES_def)
  moreover have "floats_ok ?v" "floats_ok ?w" "sort_keys ?v = sort_keys ?w" by code_simp+
  ultimately show ?thesis using canonical_bytes_exact [of ?v _ ?w] by metis
qed

text \<open>The digest of an authority subject binds every member of it: two subjects of the same digest
  name the same agent, tool, capability, repository, revision, path, arguments, authority context
  and protocol, where the hash does not collide on their two texts.\<close>

theorem subject_digest_exact:
  assumes "subject_digest H s = Inr d" "subject_digest H t = Inr d"
    and "inj_on H {payload_bytes (JObj (authority_subject_body s)),
                   payload_bytes (JObj (authority_subject_body t))}"
    and "floats_ok (JObj (subject_metadata s))" "floats_ok (JObj (subject_metadata t))"
  shows "subject_agent_id s = subject_agent_id t \<and> subject_tool_name s = subject_tool_name t
    \<and> subject_capability s = subject_capability t
    \<and> subject_repository_id s = subject_repository_id t \<and> subject_revision s = subject_revision t
    \<and> subject_path s = subject_path t \<and> arguments_digest s = arguments_digest t
    \<and> authority_context_digest s = authority_context_digest t
    \<and> subject_protocol s = subject_protocol t"
  using subject_digest_binds [OF assms] by blast

theorem subject_digest_exact_witness:
  "\<exists>d. subject_digest id (ex_subject\<lparr>subject_metadata := [(''a'', JNull), (''b'', JNull)]\<rparr>) = Inr d
     \<and> subject_digest id (ex_subject\<lparr>subject_metadata := [(''b'', JNull), (''a'', JNull)]\<rparr>) = Inr d"
proof -
  let ?s = "ex_subject\<lparr>subject_metadata := [(''a'', JNull), (''b'', JNull)]\<rparr>"
  let ?t = "ex_subject\<lparr>subject_metadata := [(''b'', JNull), (''a'', JNull)]\<rparr>"
  have eq: "sort_keys (JObj (authority_subject_body ?s)) = sort_keys (JObj (authority_subject_body ?t))"
    by code_simp
  have "serializable (JObj (authority_subject_body ?s))"
    by (simp add: authority_subject_body_def ex_subject_for_def)
  then obtain d where d: "subject_digest id ?s = Inr d"
    by (auto simp: subject_digest_def digest_payload_def serializable_dumps serializable_sort_keys
      simp del: sort_keys.simps)
  with eq have t: "subject_digest id ?t = Inr d"
    unfolding subject_digest_def by (metis digest_payload_sort_keys)
  have "floats_ok (JObj (subject_metadata ?s))" "floats_ok (JObj (subject_metadata ?t))" by simp_all
  from subject_digest_exact [OF d t _ this] d t show ?thesis by blast
qed

section \<open>Identity and delegation\<close>

text \<open>C34: In an accepted delegation chain each delegation is given by the one above it and none has
  expired, and authority only narrows downwards: what a delegation permits in tools and repositories
  every delegation above it permits, and, where no delegation of the chain drops the path limits of
  the one above it, in paths too. Whether or not one drops them, an action that is authorized under
  the chain is within the tools, repositories and paths of every delegation of it.\<close>

theorem delegation_chain_narrows:
  assumes "parse_delegation_chain rt now v = Inr ds"
  shows "linked ds \<and> (\<forall>d \<in> set ds. now < delegation_expires_at d)
    \<and> (\<forall>i j. i \<le> j \<and> j < length ds \<and> scope_permits (ds ! j) tool repo path \<longrightarrow>
         scope_permits ((ds ! i)\<lparr>delegated_path_roots := []\<rparr>) tool repo path
         \<and> (keeps_path_limits ds \<longrightarrow> scope_permits (ds ! i) tool repo path))
    \<and> (delegation_chain p = ds \<and> authorize_action rt p tool repo path = [] \<longrightarrow>
         (\<forall>d \<in> set ds. scope_permits d tool repo path))"
proof -
  from parse_delegation_chain_linked [OF assms] have l: "linked ds"
    "\<forall>d \<in> set ds. now < delegation_expires_at d" by simp_all
  have up: "scope_permits ((ds ! i)\<lparr>delegated_path_roots := []\<rparr>) tool repo path
      \<and> (keeps_path_limits ds \<longrightarrow> scope_permits (ds ! i) tool repo path)"
    if "i \<le> j" "j < length ds" "scope_permits (ds ! j) tool repo path" for i j
    using linked_tools_above [OF l(1) that] linked_permits_above [OF l(1) _ that] by blast
  have "\<forall>d \<in> set ds. scope_permits d tool repo path"
    if "delegation_chain p = ds" "authorize_action rt p tool repo path = []"
    using that by (simp add: authorize_action_def chain_complaint_permits)
  with l up show ?thesis by blast
qed

theorem delegation_chain_narrows_witness:
  "\<exists>d e. parse_delegation_chain ex_runtime 10 ex_chain_json = Inr [d, e]
     \<and> scope_permits e ''reader'' ''core'' ''src/api/x.py'' \<and> scope_permits d ''reader'' ''core'' ''src/api/x.py''"
proof -
  have "\<exists>ds. parse_delegation_chain ex_runtime 10 ex_chain_json = Inr ds
      \<and> length ds = 2 \<and> keeps_path_limits ds \<and> scope_permits (ds ! Suc 0) ''reader'' ''core'' ''src/api/x.py''"
    by (rule ok_withD) code_simp
  then obtain ds where c: "parse_delegation_chain ex_runtime 10 ex_chain_json = Inr ds" "length ds = 2"
    "keeps_path_limits ds" "scope_permits (ds ! Suc 0) ''reader'' ''core'' ''src/api/x.py''" by blast
  have "scope_permits (ds ! 0) ''reader'' ''core'' ''src/api/x.py''"
    using delegation_chain_narrows [OF c(1), of "''reader''" "''core''" "''src/api/x.py''" ex_principal] c(2-4)
    by (metis le_add1 lessI numeral_2_eq_2 plus_nat.add_0)
  moreover obtain d e where "ds = [d, e]" using c(2) by (auto simp: length_Suc_conv numeral_2_eq_2)
  ultimately show ?thesis using c(1,4) by auto
qed

text \<open>\<open>authorize_action\<close> has no complaint exactly when every delegation of the principal permits
  the tool, the repository and the path.\<close>

theorem action_authorized_iff:
  "authorize_action rt p tool repo path = []
     \<longleftrightarrow> (\<forall>d \<in> set (delegation_chain p). scope_permits d tool repo path)"
  by (simp add: authorize_action_def chain_complaint_permits)

theorem action_authorized_iff_witness:
  "authorize_action ex_runtime ex_principal ''reader'' ''core'' ''src/a.py'' = []"
proof -
  have "\<forall>d \<in> set (delegation_chain ex_principal). scope_permits d ''reader'' ''core'' ''src/a.py''"
    by code_simp
  then show ?thesis using action_authorized_iff by blast
qed

text \<open>C29: A principal that \<open>verify_token\<close> accepts comes from a configured provider, is bound by the
  configuration to its agent id, is the agent that was claimed where one was, its credential is not
  older than the provider allows, and neither its token nor any of its delegations is revoked or
  expired: the delegations by the gateway's clock, the token, up to the provider's clock skew, by
  PyJWT's, when PyJWT refuses expired tokens as documented.\<close>

theorem token_principal_bound:
  assumes "verify_token rt jwt ver db now token claimed = Inr (Some p, reason)"
    and "jwt_refuses_expired rt jwt at"
  shows "\<exists>provider \<in> set (verifier_providers ver). provider_issuer provider = principal_issuer p
    \<and> token_accepted ver db provider now (principal_issuer p) claimed p
    \<and> at < principal_expires_at p + clock_skew_seconds provider"
  by (rule verify_token_unexpired [OF assms])

lemma ex_jwt_refuses_expired: "jwt_refuses_expired ex_runtime (ex_jwt_at 20) 20"
  unfolding jwt_refuses_expired_def
  by (auto simp: ex_jwt_at_def ex_claims_def split: if_splits)

theorem token_principal_bound_witness:
  "\<exists>p. verify_token ex_runtime (ex_jwt_at 20) ex_verifier [] 20 ''token'' [] = Inr (Some p, [])
     \<and> (\<exists>provider \<in> set (verifier_providers ex_verifier).
          token_accepted ex_verifier [] provider 20 (principal_issuer p) [] p
          \<and> 20 < principal_expires_at p + clock_skew_seconds provider)"
proof -
  have "\<exists>v. verify_token ex_runtime (ex_jwt_at 20) ex_verifier [] 20 ''token'' [] = Inr v
      \<and> fst v \<noteq> None \<and> snd v = []" by (rule ok_withD) code_simp
  then obtain p where p: "verify_token ex_runtime (ex_jwt_at 20) ex_verifier [] 20 ''token'' [] = Inr (Some p, [])"
    by auto
  from p token_principal_bound [OF p ex_jwt_refuses_expired] show ?thesis by blast
qed

text \<open>After a token or a delegation is revoked, \<open>verify_token\<close> accepts no principal that carries
  it, whatever else the revocation table holds.\<close>

theorem revoked_never_accepted:
  assumes "verify_token rt jwt ver (revoke_credential at kind value reason db) now token claimed
      = Inr (Some p, r)"
  shows "(kind = ''jti'' \<longrightarrow> principal_token_id p \<noteq> value)
    \<and> (kind = ''delegation'' \<longrightarrow> value \<notin> delegation_id ` set (delegation_chain p))"
  using ensuresD [OF verify_token_accepted assms]
  by (auto simp: token_accepted_def is_revoked_revoke)

theorem revoked_never_accepted_witness:
  "\<exists>p. verify_token ex_runtime ex_jwt ex_verifier (revoke_credential ''now'' ''jti'' ''t-9'' ''lost'' [])
       20 ''token'' [] = Inr (Some p, []) \<and> principal_token_id p \<noteq> ''t-9''"
proof -
  let ?db = "revoke_credential ''now'' ''jti'' ''t-9'' ''lost'' []"
  have "\<exists>v. verify_token ex_runtime ex_jwt ex_verifier ?db 20 ''token'' [] = Inr v
      \<and> fst v \<noteq> None \<and> snd v = []" by (rule ok_withD) code_simp
  then obtain p where p: "verify_token ex_runtime ex_jwt ex_verifier ?db 20 ''token'' [] = Inr (Some p, [])"
    by auto
  from p revoked_never_accepted [OF p] show ?thesis by auto
qed

section \<open>Evidence\<close>

text \<open>C14: Evidence passes \<open>verify_one\<close> exactly when it loads from the store and satisfies the declarative
  conditions: its id and digest are its own, it is signed by a trusted key of its issuer, issuer,
  kind and status are accepted by the policy, repository and revision match, it is bound to the exact
  subject where its kind asks for it, and it is neither stale nor from the future.\<close>

theorem evidence_passes_iff:
  assumes "verify_one H hmac rt parse loads st eid subject p now = Inr (v, found)"
  shows "verification_passed v \<longleftrightarrow>
    (\<exists>a. found = Some a \<and> load_evidence rt parse loads st eid = Inr a
       \<and> evidence_holds H hmac parse st eid subject p now a)"
  using verify_one_cases(1) [OF assms] by (simp add: evidence_issues_Nil)

theorem evidence_passes_iff_witness:
  "verify_one ex_hash ex_mac ex_runtime ex_parse ex_loads ex_store ''ev-1'' ex_subject ex_policy 0
     = Inr (ex_verification, Some ex_artifact)
   \<and> evidence_holds ex_hash ex_mac ex_parse ex_store ''ev-1'' ex_subject ex_policy 0 ex_artifact"
proof -
  have "verification_passed ex_verification" by (simp add: ex_verification_def)
  with evidence_passes_iff [OF ex_verified [OF ex_call_mcp]] ex_verified [OF ex_call_mcp] show ?thesis by blast
qed

text \<open>C38: Every artifact that is read from a mapping is written as a mapping that reads back as that
  artifact.\<close>

theorem evidence_roundtrip:
  assumes "evidence_artifact_from_mapping rt parse raw = Inr a"
  shows "\<exists>d. evidence_artifact_dict H a = Inr (JObj d)
    \<and> evidence_artifact_from_mapping rt parse d = Inr a"
  using evidence_artifact_read [OF assms] evidence_artifact_roundtrip [where H = H and rt = rt] by metis

definition ex_padded_mapping :: "json dict" where
  "ex_padded_mapping =
     [(''schema_version'', JStr ''wave14.authority_evidence.v1''), (''evidence_id'', JStr ''ev-1''),
      (''kind'', JStr '' scan ''), (''issuer'', JStr ''ci''), (''key_id'', JStr ''k1''), (''status'', JStr ''passed''),
      (''repository_id'', JStr ''core''), (''revision'', JStr ''abc ''), (''produced_at'', JStr ''2026''),
      (''digest'', JStr (replicate 64 CHR ''a''))]"

theorem evidence_roundtrip_witness:
  "\<exists>a d. evidence_artifact_from_mapping ex_runtime ex_parse ex_padded_mapping = Inr a
     \<and> evidence_kind a = ''scan'' \<and> evidence_artifact_dict ex_hash a = Inr (JObj d)
     \<and> evidence_artifact_from_mapping ex_runtime ex_parse d = Inr a"
proof -
  have "\<exists>a. evidence_artifact_from_mapping ex_runtime ex_parse ex_padded_mapping = Inr a
      \<and> evidence_kind a = ''scan''" by (rule ok_withD) code_simp
  then obtain a where "evidence_artifact_from_mapping ex_runtime ex_parse ex_padded_mapping = Inr a"
    "evidence_kind a = ''scan''" by blast
  with evidence_roundtrip [OF this(1), of ex_hash] show ?thesis by blast
qed

text \<open>Evidence that \<open>issue_signed_evidence\<close> issues carries its own digest and the HMAC of that
  digest under the given secret, keeps every other field, and has passed the artifact's checks.\<close>

theorem issued_evidence_signed:
  assumes "issue_signed_evidence H hmac parse secret raw = Inr a"
  shows "computed_digest H a = Inr (evidence_digest a)
    \<and> evidence_signature a = hmac secret (evidence_digest a)
    \<and> a = raw\<lparr>evidence_digest := evidence_digest a, evidence_signature := evidence_signature a\<rparr>
    \<and> evidence_artifact_init parse a = Inr a"
proof -
  have init: "evidence_artifact_init parse x = Inr y \<Longrightarrow> y = x" for x y
    by (auto simp: evidence_artifact_init_def res_simps split: if_splits)
  from assms obtain u d where u: "evidence_artifact_init parse
      (raw\<lparr>evidence_digest := [], evidence_signature := []\<rparr>) = Inr u" "computed_digest H u = Inr d"
    "evidence_artifact_init parse (u\<lparr>evidence_digest := d, evidence_signature := hmac secret d\<rparr>) = Inr a"
    by (auto simp: issue_signed_evidence_def res_simps)
  from init [OF u(1)] init [OF u(3)] have "u = raw\<lparr>evidence_digest := [], evidence_signature := []\<rparr>"
    "a = u\<lparr>evidence_digest := d, evidence_signature := hmac secret d\<rparr>" .
  with u show ?thesis by (simp add: computed_digest_def unsigned_payload_def)
qed

theorem issued_evidence_signed_witness:
  "\<exists>a. issue_signed_evidence ex_hash ex_mac ex_parse ''secret'' ex_artifact = Inr a
     \<and> evidence_signature a = ex_mac ''secret'' (evidence_digest a)"
proof -
  have "issue_signed_evidence ex_hash ex_mac ex_parse ''secret'' ex_artifact
      = Inr (ex_artifact\<lparr>evidence_signature := ex_mac ''secret'' (ex_hash [])\<rparr>)" (is "_ = Inr ?a")
  proof -
    have "computed_digest ex_hash (ex_artifact\<lparr>evidence_digest := [], evidence_signature := []\<rparr>)
        = Inr (ex_hash [])"
      by (simp add: computed_digest_def unsigned_payload_def ex_digest ex_artifact_def)
    moreover have "evidence_artifact_init ex_parse (ex_artifact\<lparr>evidence_digest := [],
        evidence_signature := []\<rparr>) = Inr (ex_artifact\<lparr>evidence_digest := [], evidence_signature := []\<rparr>)"
      by code_simp
    moreover have "evidence_artifact_init ex_parse ?a = Inr ?a" by code_simp
    ultimately show ?thesis by (simp add: issue_signed_evidence_def ex_artifact_def)
  qed
  from this issued_evidence_signed [OF this] show ?thesis by blast
qed

section \<open>The combined decision\<close>

text \<open>Some artifact of a set of valid ones is of the policy's kind of human approval, and records one.\<close>

definition humanly_approved :: "py_runtime \<Rightarrow> evidence_policy \<Rightarrow> evidence_artifact set \<Rightarrow> bool" where
  "humanly_approved rt p V \<longleftrightarrow> (\<exists>x \<in> V. human_approval_kind p \<noteq> []
     \<and> evidence_kind x = human_approval_kind p \<and> human_approval_artifact rt x)"

text \<open>C2: When \<open>prepare_authority\<close> allows a call, its agent is registered; every required
  kind of evidence has a valid artifact among those referenced; every delegation of the principal
  permits tool, repository and path of the subject; and one of two things holds. Either the
  authorization rules clear the agent to act (it is active, its posture has no blocking finding and
  a grant covers the request), and a valid human approval is among the evidence where the policy
  names a kind of approval or the agent's authority asks for review. Or the agent is suspended: then
  its grants are not consulted, and the call is allowed on a valid human approval alone.\<close>

theorem prepared_allow_sound:
  assumes "prepare_authority env cfg st aid tool arguments eids protocol who operation fresh now = Inr p"
    and "live_status (prepared_decision p) = LIVE_ALLOW"
  shows "\<exists>r a V. build_tool_authorization_request (env_runtime env)
      (subject_agent_id (prepared_subject p)) (prepared_invocation p) = Inr r
    \<and> registry_lookup (cfg_registry cfg) (request_agent_id r) = Inr (Some a)
    \<and> V = valid_artifacts (env_hash env) (env_hmac env) (env_runtime env) (env_parse env)
        (env_loads env) st eids (prepared_subject p) (prepared_policy p) now
    \<and> (\<forall>k \<in> set (required_kinds (prepared_policy p)). \<exists>x \<in> V. evidence_kind x = k)
    \<and> (clear_to_act (env_parse env) a r
         \<and> (human_approval_kind (prepared_policy p) \<noteq> []
              \<or> requires_review a r (covering_grants (env_parse env) a r)
            \<longrightarrow> humanly_approved (env_runtime env) (prepared_policy p) V)
       \<or> lifecycle_state a = SUSPENDED \<and> humanly_approved (env_runtime env) (prepared_policy p) V)
    \<and> (\<forall>q. who = Some q \<longrightarrow> (\<forall>d \<in> set (delegation_chain q). scope_permits d
         (route_tool_name (prepared_route p)) (subject_repository_id (prepared_subject p))
         (subject_path (prepared_subject p))))"
proof -
  have delegated: "\<forall>q. who = Some q \<longrightarrow> (\<forall>d \<in> set (delegation_chain q). scope_permits d
      (route_tool_name (prepared_route p)) (subject_repository_id (prepared_subject p))
      (subject_path (prepared_subject p)))"
    using assms(1) by (auto dest: prepare_authority_delegated)
  from assms(1) have "evaluate_live_authority env (cfg_evaluator cfg) st (prepared_subject p)
      (prepared_invocation p) (prepared_policy p) eids (py_isoformat (env_runtime env) now) now
      = Inr (prepared_decision p)" by (rule prepare_authority_Inr)
  from this assms(2) show ?thesis
    by (rule live_allow) (use delegated in \<open>fold cfg_registry_def humanly_approved_def, blast\<close>)
qed

theorem prepared_allow_sound_witness:
  "\<exists>p. ex_prepared = Inr p \<and> live_status (prepared_decision p) = LIVE_ALLOW
     \<and> (\<exists>x \<in> valid_artifacts ex_hash ex_mac ex_runtime ex_parse ex_loads ex_store [''ev-1'']
          (prepared_subject p) (prepared_policy p) 0. evidence_kind x = ''scan'')"
proof -
  obtain p where p: "ex_prepared = Inr p" "live_status (prepared_decision p) = LIVE_ALLOW"
    "prepared_policy p = ex_policy" using ex_prepared_allowed by blast
  have env: "env_hash ex_env = ex_hash" "env_hmac ex_env = ex_mac" "env_runtime ex_env = ex_runtime"
    "env_parse ex_env = ex_parse" "env_loads ex_env = ex_loads" "required_kinds ex_policy = [''scan'']"
    by (simp_all add: ex_env_def ex_policy_def)
  from prepared_allow_sound [OF p(1) [unfolded ex_prepared_def] p(2)]
  have "\<exists>x \<in> valid_artifacts ex_hash ex_mac ex_runtime ex_parse ex_loads ex_store [''ev-1'']
      (prepared_subject p) (prepared_policy p) 0. evidence_kind x = ''scan''"
    unfolding env p(3) by (metis list.set_intros(1))
  with p show ?thesis by blast
qed

text \<open>When single-use evidence is claimed for a call that stays allowed, none of it had been
  claimed before, and all of it is claimed afterwards.\<close>

theorem claimed_evidence_was_fresh:
  assumes "claim_prepared env p at decided db = Inr ((p', held, conflicts), db')"
    and "live_status (prepared_decision p') = LIVE_ALLOW"
    and "single_use_kinds (prepared_policy p) \<noteq> []"
  shows "p' = p \<and> set (single_use_ids p) \<inter> claimed_ids db = {}
    \<and> set (single_use_ids p) \<subseteq> claimed_ids db'"
  using claim_prepared_allowed [OF assms] by blast

theorem claimed_evidence_was_fresh_witness:
  "\<exists>p db'. ex_prepared = Inr p
     \<and> claim_prepared ex_env p ''t0'' ''t1'' \<lparr>receipt_rows = [], claim_rows = []\<rparr>
         = Inr ((p, [''ev-1''], []), db') \<and> ''ev-1'' \<in> claimed_ids db'"
proof -
  let ?db = "\<lparr>receipt_rows = [], claim_rows = []\<rparr>"
  obtain p where p: "ex_prepared = Inr p" "live_status (prepared_decision p) = LIVE_ALLOW"
    "prepared_policy p = ex_policy" "single_use_ids p = [''ev-1'']" "prepared_subject p = ex_subject"
    using ex_prepared_allowed by blast
  have env: "env_hash ex_env = ex_hash" "single_use_kinds ex_policy = [''scan'']"
    by (simp_all add: ex_env_def ex_policy_def)
  obtain conflicts db' where c: "claim_single_use_evidence ex_hash [''ev-1''] (ex_hash []) ''t0'' ?db
      = Inr (conflicts, db')" and n: "conflicts = []"
  proof -
    obtain c where "new_claim ex_hash (ex_hash []) ''t0'' ''ev-1'' = Inr c" using claim_total by blast
    then show thesis by (intro that) (auto simp: claim_single_use_evidence_def uniq.simps res_simps)
  qed
  have claimed: "claim_prepared ex_env p ''t0'' ''t1'' ?db = Inr ((p, [''ev-1''], []), db')"
    using c n by (simp add: claim_prepared_def p env ex_subject_digest)
  from claimed_evidence_was_fresh [OF claimed p(2)] p claimed show ?thesis by (auto simp: env)
qed

text \<open>C17: Over a history of claims, two granted claims never hold the same evidence id.\<close>

theorem claims_granted_once:
  assumes "run_claims H ops db = Inr (results, db')" "i < j" "j < length ops"
    and "results ! i = []" "results ! j = []"
  shows "set (fst (ops ! i)) \<inter> set (fst (ops ! j)) = {}"
  using assms by (rule run_claims_disjoint)

definition ex_claim_calls :: "(string list \<times> string \<times> string) list" where
  "ex_claim_calls = [([''a'', ''b''], ''s1'', ''t''), ([''b''], ''s2'', ''t''), ([''c''], ''s3'', ''t'')]"

theorem claims_granted_once_witness:
  "\<exists>db'. run_claims ex_hash ex_claim_calls \<lparr>receipt_rows = [], claim_rows = []\<rparr> = Inr ([[], [''b''], []], db')
     \<and> set [''a'', ''b''] \<inter> set [''c''] = {}"
proof -
  let ?db = "\<lparr>receipt_rows = [], claim_rows = []\<rparr>"
  have "\<exists>v. run_claims ex_hash ex_claim_calls ?db = Inr v \<and> fst v = [[], [''b''], []]"
    by (rule ok_withD) code_simp
  then obtain db' where r: "run_claims ex_hash ex_claim_calls ?db = Inr ([[], [''b''], []], db')" by auto
  from claims_granted_once [OF r, of 0 2] r show ?thesis by (simp add: ex_claim_calls_def)
qed

section \<open>Callers\<close>

text \<open>A caller that is authenticated without a bearer token presented a static token that exactly
  one configured agent has, is that agent, and is the agent that was claimed where one was; with a
  bearer token it is what \<open>verify_token\<close> gave, and has a delegation where one is required.\<close>

theorem authenticated_caller:
  assumes "authenticate_principal env jwt cfg db now hs claimed = Inr (Some q, reason)"
  shows "if bearer_token hs \<noteq> []
    then cfg_identity_mode cfg \<noteq> ''static_only''
      \<and> verify_token (env_runtime env) jwt (cfg_verifier cfg) db now (bearer_token hs) claimed
          = Inr (Some q, reason)
      \<and> (reason = [] \<and> cfg_require_delegation cfg \<longrightarrow> delegation_chain q \<noteq> [])
    else cfg_identity_mode cfg \<noteq> ''federated_required''
      \<and> header hs ''X-BlackFox-Agent-Token'' \<noteq> []
      \<and> filter (\<lambda>kv. snd kv = utf8 (header hs ''X-BlackFox-Agent-Token'')) (cfg_agent_tokens cfg)
          = [(principal_agent_id q, utf8 (header hs ''X-BlackFox-Agent-Token''))]
      \<and> (claimed \<noteq> [] \<longrightarrow> normalize_identifier ''agent_id'' claimed = Inr (principal_agent_id q))"
  using ensuresD [OF authenticate_principal_accepted assms] by simp

definition ex_headers :: headers where
  "ex_headers = [(''x-blackfox-agent-token'', '' s3cret ''), (''X-BlackFox-Agent-Id'', ''Bot'')]"

theorem authenticated_caller_witness:
  "\<exists>q. authenticate_principal ex_env ex_jwt ex_config [] 0 ex_headers ''Bot'' = Inr (Some q, [])
     \<and> normalize_identifier ''agent_id'' ''Bot'' = Inr (principal_agent_id q)"
proof -
  have "\<exists>v. authenticate_principal ex_env ex_jwt ex_config [] 0 ex_headers ''Bot'' = Inr v
      \<and> fst v \<noteq> None \<and> snd v = []" by (rule ok_withD) code_simp
  then obtain q where q: "authenticate_principal ex_env ex_jwt ex_config [] 0 ex_headers ''Bot''
      = Inr (Some q, [])" by auto
  have "bearer_token ex_headers = []" by code_simp
  with q authenticated_caller [OF q] show ?thesis by auto
qed

text \<open>The operator is authorized exactly with the configured token: there is one, and the
  explicit header, or else the bearer token, is that token; when both are given both are.\<close>

theorem operator_authorized_iff:
  "operator_authorized cfg hs \<longleftrightarrow> cfg_operator_token cfg \<noteq> []
     \<and> (header hs ''X-BlackFox-Operator-Token'' \<noteq> [] \<or> bearer_token hs \<noteq> [])
     \<and> (\<forall>t \<in> {header hs ''X-BlackFox-Operator-Token'', bearer_token hs}.
          t \<noteq> [] \<longrightarrow> utf8 t = cfg_operator_token cfg)"
  unfolding operator_authorized_def Let_def by auto

theorem operator_authorized_iff_witness:
  "operator_authorized ex_config [(''X-BlackFox-Operator-Token'', ''op'')]"
proof -
  let ?hs = "[(''X-BlackFox-Operator-Token'', ''op'')]"
  have "header ?hs ''X-BlackFox-Operator-Token'' = ''op''" "bearer_token ?hs = []" "utf8 ''op'' = ''op''"
    "cfg_operator_token ex_config = ''op''" by code_simp+
  then show ?thesis unfolding operator_authorized_iff by simp
qed

section \<open>The receipt chain\<close>


definition ex_log :: "receipt_db" where
  "ex_log = \<lparr>receipt_rows = [], claim_rows = []\<rparr>"

definition ex_note :: "json dict" where
  "ex_note = [(''subject'', JObj [(''digest'', JStr ''d'')])]"

lemma ex_note_appended:
  "\<exists>receipt db. append_receipt ex_hash ex_note ex_log = Inr (receipt, db)
     \<and> length (receipt_rows db) = 1 \<and> plain_document (sorted_members receipt)"
proof -
  have "\<exists>x. append_receipt ex_hash ex_note ex_log = Inr x \<and> length (receipt_rows (snd x)) = 1
      \<and> plain_document (sorted_members (fst x))" by (rule ok_withD) code_simp
  then show ?thesis by auto
qed

lemma ex_note_fresh:
  "fresh_payload ex_note" "claims_inv ex_log" "claims_recorded ex_log ex_note"
  by (simp_all add: fresh_payload_def ex_note_def claims_inv_def ex_log_def claims_recorded_def
    receipt_claim_list_def dict_get_or_def)

lemma ex_log_verifies:
  "\<exists>rep. verify_chain ex_hash ex_runtime loads ex_log = Inr rep \<and> report_passed rep"
  by (simp add: verify_chain_def ex_log_def ordered_rows_def initial_chain_def mismatched_claims_def)


text \<open>The decoded receipts of a log, in order.\<close>

definition receipt_documents :: "json_loads \<Rightarrow> receipt_db \<Rightarrow> json dict list" where
  "receipt_documents loads db =
     map (\<lambda>r. case loads (row_payload r) of Some (JObj d) \<Rightarrow> d | _ \<Rightarrow> []) (ordered_rows db)"

lemma chain_links_documents:
  "chain_links H rt loads rows prev n docs \<Longrightarrow>
     docs = map (\<lambda>r. case loads (row_payload r) of Some (JObj d) \<Rightarrow> d | _ \<Rightarrow> []) rows"
  by (induction rows arbitrary: prev n docs) (auto simp: row_links_def)

text \<open>C15: The head digest binds the whole log: two logs that verify with the same head hold the same
  receipts in the same order, up to key order, where the hash collides on none of their texts.\<close>

theorem chain_head_binds_log:
  assumes "verify_chain H rt loads db = Inr rep" "report_passed rep"
    and "verify_chain H rt loads' db' = Inr rep'" "report_passed rep'"
    and "head_digest rep = head_digest rep'" "\<And>s. H s \<noteq> []"
    and "\<forall>d \<in> set (receipt_documents loads db) \<union> set (receipt_documents loads' db'). plain_document d"
    and "inj_on H ((\<lambda>d. payload_bytes (JObj (undigested d)))
           ` (set (receipt_documents loads db) \<union> set (receipt_documents loads' db')))"
  shows "list_all2 same_document (receipt_documents loads db) (receipt_documents loads' db')"
proof -
  obtain docs where d: "chain_links H rt loads (ordered_rows db) [] 1 docs"
    "head_digest rep = chain_head [] (ordered_rows db)"
    using verify_chain_passed [OF assms(1,2)] by blast
  obtain docs' where e: "chain_links H rt loads' (ordered_rows db') [] 1 docs'"
    "head_digest rep' = chain_head [] (ordered_rows db')"
    using verify_chain_passed [OF assms(3,4)] by blast
  have docs: "docs = receipt_documents loads db" "docs' = receipt_documents loads' db'"
    using chain_links_documents [OF d(1)] chain_links_documents [OF e(1)]
    by (simp_all add: receipt_documents_def)
  show ?thesis
    using chain_head_binds [OF d(1) e(1)] assms(5-8) d(2) e(2) unfolding docs by metis
qed

theorem chain_head_binds_log_witness:
  "\<exists>loads db. length (receipt_rows db) = 1
     \<and> list_all2 same_document (receipt_documents loads db) (receipt_documents loads db)"
proof -
  obtain receipt db where given: "append_receipt ex_hash ex_note ex_log = Inr (receipt, db)"
    "length (receipt_rows db) = 1" "plain_document (sorted_members receipt)"
    using ex_note_appended by blast
  let ?loads = "\<lambda>_. Some (sort_keys (JObj receipt))"
  obtain rep where log: "verify_chain ex_hash ex_runtime ?loads ex_log = Inr rep" "report_passed rep"
    using ex_log_verifies by blast
  from append_keeps_chain [OF log given(1) ex_note_fresh(1) refl ex_note_fresh(3,2)] obtain rep' where
    v: "verify_chain ex_hash ex_runtime ?loads db = Inr rep'" "report_passed rep'" by blast
  from given(2) obtain row where "receipt_rows db = [row]" by (cases "receipt_rows db") auto
  then have "receipt_documents ?loads db = [sorted_members receipt]"
    by (simp add: receipt_documents_def ordered_rows_def sort_keys_JObj del: sort_keys.simps)
  with chain_head_binds_log [OF v v refl] given(2,3) show ?thesis
    by (intro exI [of _ ?loads] exI [of _ db]) (auto simp: ex_hash_def)
qed

end
