(* ===== verification/JsonSize.thy ===== *)
theory JsonSize
  imports JsonEncoding "HOL-Library.Multiset"
begin

text \<open>
  A bound on the length of canonical JSON that is computed from the value alone, and with it the
  values that \<open>canonical_bytes\<close> accepts. It spares computing texts where only their size counts.
\<close>

fun text_size :: "json \<Rightarrow> nat" where
  "text_size (JStr s) = 2 + 6 * length s"
| "text_size (JFloat s) = 2 * length s"
| "text_size (JList xs) = 2 + sum_list (map (\<lambda>x. 1 + text_size x) xs)"
| "text_size (JObj kvs) = 2 + sum_list (map (\<lambda>kv. 4 + 6 * length (fst kv) + text_size (snd kv)) kvs)"
| "text_size v = 17"

lemma length_show_nat: "n < 10 ^ k \<Longrightarrow> 0 < k \<Longrightarrow> length (show_nat n) \<le> k"
proof (induction n arbitrary: k rule: show_nat.induct)
  case (1 n)
  show ?case
  proof (cases "n < 10")
    case True
    with "1.prems" show ?thesis by (simp add: show_nat.simps)
  next
    case False
    with "1.prems" obtain j where j: "k = Suc j" "0 < j" by (cases k; cases "k - 1") auto
    with "1.prems" have "n div 10 < 10 ^ j" by (simp add: less_mult_imp_div_less mult.commute)
    with "1.IH" [OF False this j(2)] False j show ?thesis by (simp add: show_nat.simps [of n])
  qed
qed

lemma utf8_append [simp]: "utf8 (s @ t) = utf8 s @ utf8 t"
  by (simp add: utf8_def)

lemma utf8_Cons: "utf8 (c # s) = utf8_char c @ utf8 s"
  by (simp add: utf8_def)

lemma utf8_char_ascii: "code_point c < 128 \<Longrightarrow> utf8_char c = [c]"
  by (simp add: utf8_char_def)

lemma utf8_punctuation [simp]: "utf8_char CHR '','' = '',''" "utf8_char CHR '':'' = '':''"
  "utf8_char CHR 0x22 = [CHR 0x22]" "utf8_char CHR ''['' = ''[''" "utf8_char CHR ''{'' = ''{''"
  "utf8_char CHR '']'' = '']''" "utf8_char CHR ''}'' = ''}''"
  "utf8_char CHR 0x5C = [CHR 0x5C]" "utf8_char CHR ''u'' = ''u''" "utf8_char CHR ''0'' = ''0''"
  by code_simp+

lemma utf8_Nil [simp]: "utf8 [] = []"
  by (simp add: utf8_def)

lemma length_utf8: "length (utf8 s) \<le> 2 * length s"
proof (induction s)
  case (Cons c s)
  have "length (utf8_char c) \<le> 2" by (simp add: utf8_char_def Let_def)
  with Cons show ?case by (simp add: utf8_Cons)
qed (simp add: utf8_def)

lemma utf8_numeral: "\<forall>c \<in> set s. numeral_char c \<Longrightarrow> length (utf8 s) = length s"
proof (induction s)
  case (Cons c s)
  have "code_point c < 128" if "is_digit c" for c using that by (simp add: is_digit_def Let_def)
  moreover have "code_point CHR ''+'' < 128" "code_point CHR ''-'' < 128" "code_point CHR ''.'' < 128"
    "code_point CHR ''e'' < 128" by code_simp+
  ultimately have "code_point c < 128" using Cons.prems by (auto simp: numeral_char_def)
  with Cons show ?case by (simp add: utf8_Cons utf8_char_ascii)
qed (simp add: utf8_def)

lemma length_show_int:
  assumes "\<bar>i\<bar> \<le> 2 ^ 53 - 1"
  shows "length (utf8 (show_int i)) \<le> 17"
proof -
  have "length (show_nat (nat \<bar>i\<bar>)) \<le> 16"
    using assms by (intro length_show_nat) auto
  then have "length (show_int i) \<le> 17" by (simp add: show_int_def abs_if split: if_splits)
  with show_int_numeral show ?thesis by (simp add: utf8_numeral)
qed

lemma length_escape_char: "length (utf8 (escape_char a c)) \<le> 6"
proof -
  have "length (utf8 (unicode_escape (code_point c))) \<le> 6" if "code_point c < 32 \<or> 126 < code_point c"
  proof -
    have "code_point c < 256" by (rule code_point_less)
    then have "code_point c div 16 < 16" "code_point c mod 16 < 16" by simp_all
    moreover have "code_point (digit_char n) < 128" if "n < 16" for n
      using that by (simp add: digit_char_code)
    ultimately have "code_point (digit_char (code_point c div 16)) < 128"
      "code_point (digit_char (code_point c mod 16)) < 128" by blast+
    then show ?thesis by (simp add: unicode_escape_def utf8_Cons utf8_char_ascii)
  qed
  moreover have "length (utf8 [x, y]) \<le> 6" "length (utf8 [x]) \<le> 6" for x y
    using length_utf8 [of "[x, y]"] length_utf8 [of "[x]"] by simp_all
  ultimately show ?thesis by (simp only: escape_char_def Let_def split: if_split) blast
qed

lemma length_quote: "length (utf8 (quote a s)) \<le> 2 + 6 * length s"
proof -
  have "length (utf8 (concat (map (escape_char a) s))) \<le> 6 * length s"
  proof (induction s)
    case (Cons c s)
    with length_escape_char [of a c] show ?case by simp
  qed (simp add: utf8_def)
  then show ?thesis by (simp add: quote_def utf8_Cons)
qed

lemma length_join:
  "(\<And>x. x \<in> set xs \<Longrightarrow> length (utf8 (f x)) \<le> g x) \<Longrightarrow>
     length (utf8 (join '','' (map f xs))) \<le> sum_list (map (\<lambda>x. 1 + g x) xs)"
proof (induction xs)
  case (Cons x xs)
  then have "length (utf8 (f x)) \<le> g x"
    "length (utf8 (join '','' (map f xs))) \<le> sum_list (map (\<lambda>x. 1 + g x) xs)" by simp_all
  then show ?case by (cases xs) (simp_all add: utf8_Cons)
qed (simp add: utf8_def)

lemma length_text:
  "validate_json v = Inr () \<Longrightarrow> length (utf8 (json_text False v)) \<le> text_size v"
proof (induction v)
  case (JInt i)
  then show ?case using length_show_int by (simp split: if_splits)
next
  case (JStr s)
  show ?case using length_quote by simp
next
  case (JFloat s)
  show ?case using length_utf8 by simp
next
  case (JList xs)
  have "\<forall>x \<in> set xs. validate_json x = Inr ()"
    using JList.prems by (auto simp: res_simps dest: res_map_Inr_ex)
  with JList.IH have "length (utf8 (join '','' (map (json_text False) xs)))
      \<le> sum_list (map (\<lambda>x. 1 + text_size x) xs)"
    by (intro length_join) blast
  then show ?case by (simp add: utf8_Cons)
next
  case (JObj kvs)
  have "\<forall>kv \<in> set kvs. validate_json (snd kv) = Inr ()"
    using JObj.prems by (auto simp: res_simps dest!: res_map_Inr_ex)
  with JObj.IH have m: "length (utf8 (json_text False (snd kv))) \<le> text_size (snd kv)" if "kv \<in> set kvs" for kv
    using that by (cases kv) (force simp: snds.simps)
  have "length (utf8 (join '','' (map (member_text False) kvs)))
      \<le> sum_list (map (\<lambda>kv. 1 + (3 + 6 * length (fst kv) + text_size (snd kv))) kvs)"
  proof (rule length_join)
    fix kv
    assume "kv \<in> set kvs"
    from m [OF this] length_quote [of False "fst kv"]
    show "length (utf8 (member_text False kv)) \<le> 3 + 6 * length (fst kv) + text_size (snd kv)"
      by (simp add: member_text_def utf8_Cons)
  qed
  then show ?case unfolding json_text_JObj by (simp add: utf8_Cons add.assoc)
next
  case JNull
  show ?case using length_utf8 [of "''null''"] by simp
next
  case (JBool b)
  show ?case using length_utf8 [of "''true''"] length_utf8 [of "''false''"] by (cases b) simp_all
qed simp_all

lemma sum_list_sort_key: "sum_list (map f (sort_key k xs)) = sum_list (map f xs)" for f :: "'a \<Rightarrow> nat"
  by (metis mset_map mset_sort sum_mset_sum_list)

lemma text_size_sort_keys: "text_size (sort_keys v) = text_size v"
proof (induction v)
  case (JList xs)
  then have "map (\<lambda>x. 1 + text_size x) (map sort_keys xs) = map (\<lambda>x. 1 + text_size x) xs" by simp
  then show ?case by (simp only: sort_keys.simps text_size.simps)
next
  case (JObj kvs)
  then have "\<forall>kv \<in> set kvs. text_size (sort_keys (snd kv)) = text_size (snd kv)"
    by (force simp: snds.simps)
  then have "map (\<lambda>kv. 4 + 6 * length (fst kv) + text_size (snd kv)) (map (map_prod id sort_keys) kvs)
      = map (\<lambda>kv. 4 + 6 * length (fst kv) + text_size (snd kv)) kvs" by simp
  then show ?case by (simp only: sort_keys.simps text_size.simps sum_list_sort_key)
qed simp_all

text \<open>\<open>validate_json\<close> without the messages.\<close>

fun valid_json :: "json \<Rightarrow> bool" where
  "valid_json (JInt i) = (\<bar>i\<bar> \<le> 2 ^ 53 - 1)"
| "valid_json JNonFinite = False"
| "valid_json JOther = False"
| "valid_json (JList xs) = list_all valid_json xs"
| "valid_json (JObj kvs) = list_all (\<lambda>kv. valid_json (snd kv)) kvs"
| "valid_json _ = True"

lemma res_map_unit: "res_bind (res_map f xs) (\<lambda>_. Inr ()) = Inr () \<longleftrightarrow> (\<forall>x \<in> set xs. f x = Inr ())"
  for f :: "'a \<Rightarrow> unit res"
  by (induction xs) (auto simp: res_simps)

lemma validate_json_iff: "validate_json v = Inr () \<longleftrightarrow> valid_json v"
proof (induction v)
  case (JList xs)
  then show ?case by (simp add: res_map_unit list_all_iff)
next
  case (JObj kvs)
  then have "\<forall>kv \<in> set kvs. validate_json (snd kv) = Inr () \<longleftrightarrow> valid_json (snd kv)"
    by (force simp: snds.simps)
  then show ?case by (simp add: res_map_unit list_all_iff)
qed simp_all

lemma valid_sort_keys: "valid_json (sort_keys v) = valid_json v"
proof (induction v)
  case (JObj kvs)
  then show ?case by (force simp: list_all_iff snds.simps)
qed (auto simp: list_all_iff)

lemma canonical_bytes_total:
  assumes "valid_json v" "int (text_size v) \<le> MAX_DOCUMENT_BYTES"
  shows "\<exists>b. canonical_bytes v = Inr b \<and> length b \<le> text_size v"
proof -
  have v: "validate_json v = Inr ()" using assms(1) by (simp add: validate_json_iff)
  have "length (utf8 (json_dumps False v)) \<le> text_size v"
    using length_text [of "sort_keys v"] assms(1)
    by (simp add: json_dumps_def validate_json_iff valid_sort_keys text_size_sort_keys)
  with v assms(2) show ?thesis by (simp add: canonical_bytes_def)
qed

end
