(* ===== verification/MeshLedger.thy ===== *)
theory MeshLedger
  imports JsonEncoding
begin

text \<open>
  \<open>integration_mesh/ledger.py\<close>: the table of request reservations. A method is one transaction on
  the table; an exception rolls it back. The outbox tables of the ledger belong to
  \<open>integration_mesh/audit.py\<close> and are not modelled.
\<close>

section \<open>The table\<close>

datatype mesh_state = Reserved | Complete

fun mesh_state_value :: "mesh_state \<Rightarrow> string" where
  "mesh_state_value Reserved = ''reserved''"
| "mesh_state_value Complete = ''complete''"

record mesh_request =
  mesh_subject_digest :: string
  mesh_request_state :: mesh_state
  mesh_response :: "string option"
  mesh_authorization_id :: string

text \<open>The primary key makes the rows a map; the order of insertion is kept.\<close>

type_synonym mesh_ledger = "mesh_request dict"

datatype reservation = New | Reserved_Already | Conflict | Completed "json dict"

definition mesh_reserve ::
  "(string \<Rightarrow> json option) \<Rightarrow> string \<Rightarrow> string \<Rightarrow> mesh_ledger \<Rightarrow> (reservation \<times> mesh_ledger) res" where
  "mesh_reserve loads rid sd l =
     (case dict_get l rid of
        Some row \<Rightarrow>
          if mesh_subject_digest row \<noteq> sd then Inr (Conflict, l)
          else if mesh_request_state row = Complete
          then (case mesh_response row of
              None \<Rightarrow> Inl (OtherError ''NoneType has no attribute encode'')
            | Some raw \<Rightarrow> res_bind (strict_json loads raw) (\<lambda>d. Inr (Completed d, l)))
          else Inr (Reserved_Already, l)
      | None \<Rightarrow> Inr (New, dict_set rid
          \<lparr>mesh_subject_digest = sd, mesh_request_state = Reserved, mesh_response = None,
           mesh_authorization_id = []\<rparr> l))"

definition mesh_authorized :: "string \<Rightarrow> string \<Rightarrow> mesh_ledger \<Rightarrow> mesh_ledger" where
  "mesh_authorized rid receipt_id l =
     map (\<lambda>(k, row). (k, if k = rid \<and> mesh_request_state row = Reserved
       then row\<lparr>mesh_authorization_id := receipt_id\<rparr> else row)) l"

definition mesh_complete :: "string \<Rightarrow> json dict \<Rightarrow> mesh_ledger \<Rightarrow> mesh_ledger res" where
  "mesh_complete rid response l =
     res_bind (canonical_bytes (JObj response)) (\<lambda>raw.
       case dict_get l rid of
         Some row \<Rightarrow>
           if mesh_request_state row = Reserved
           then Inr (dict_set rid (row\<lparr>mesh_request_state := Complete, mesh_response := Some raw\<rparr>) l)
           else Inl (ValueError ''Request reservation cannot be completed twice.'')
       | None \<Rightarrow> Inl (ValueError ''Request reservation cannot be completed twice.''))"

definition inspect_request :: "mesh_ledger \<Rightarrow> string \<Rightarrow> mesh_request option" where
  "inspect_request l rid = dict_get l rid"

definition mesh_status_requests :: "mesh_ledger \<Rightarrow> (string \<times> nat) list" where
  "mesh_status_requests l =
     filter (\<lambda>(s, n). n > 0)
       (map (\<lambda>s. (mesh_state_value s, length (filter (\<lambda>kv. mesh_request_state (snd kv) = s) l)))
         [Complete, Reserved])"

section \<open>Calls and histories\<close>

datatype mesh_call =
    Call_Reserve string string
  | Call_Authorized string string
  | Call_Complete string "json dict"

datatype mesh_reply = Reply_Reservation reservation | Reply_Done | Reply_Error py_error

text \<open>One call: a failing one leaves the table as it was.\<close>

fun mesh_step :: "(string \<Rightarrow> json option) \<Rightarrow> mesh_call \<Rightarrow> mesh_ledger \<Rightarrow> mesh_reply \<times> mesh_ledger" where
  "mesh_step loads (Call_Reserve rid sd) l = (case mesh_reserve loads rid sd l of
     Inr (r, l') \<Rightarrow> (Reply_Reservation r, l') | Inl e \<Rightarrow> (Reply_Error e, l))"
| "mesh_step loads (Call_Authorized rid receipt) l = (Reply_Done, mesh_authorized rid receipt l)"
| "mesh_step loads (Call_Complete rid response) l = (case mesh_complete rid response l of
     Inr l' \<Rightarrow> (Reply_Done, l') | Inl e \<Rightarrow> (Reply_Error e, l))"

fun mesh_run :: "(string \<Rightarrow> json option) \<Rightarrow> mesh_call list \<Rightarrow> mesh_ledger \<Rightarrow> mesh_reply list \<times> mesh_ledger" where
  "mesh_run loads [] l = ([], l)"
| "mesh_run loads (c # cs) l =
     (let (r, l1) = mesh_step loads c l; (rs, l2) = mesh_run loads cs l1 in (r # rs, l2))"

section \<open>A row only advances\<close>

text \<open>
  What a later table says of a row: the same subject, and once complete the same response; the
  authorization is set only while the row is reserved.
\<close>

definition row_advances :: "mesh_request \<Rightarrow> mesh_request \<Rightarrow> bool" where
  "row_advances r s \<longleftrightarrow> mesh_subject_digest s = mesh_subject_digest r
     \<and> (mesh_request_state r = Complete \<longrightarrow> s = r)"

definition ledger_advances :: "mesh_ledger \<Rightarrow> mesh_ledger \<Rightarrow> bool" where
  "ledger_advances l l' \<longleftrightarrow>
     (\<forall>k r. dict_get l k = Some r \<longrightarrow> (\<exists>s. dict_get l' k = Some s \<and> row_advances r s))"

lemma row_advances_refl [simp]: "row_advances r r"
  by (simp add: row_advances_def)

lemma row_advances_trans: "row_advances r s \<Longrightarrow> row_advances s t \<Longrightarrow> row_advances r t"
  by (auto simp: row_advances_def)

lemma ledger_advances_refl [simp]: "ledger_advances l l"
  by (simp add: ledger_advances_def)

lemma ledger_advances_trans:
  "ledger_advances l m \<Longrightarrow> ledger_advances m n \<Longrightarrow> ledger_advances l n"
  unfolding ledger_advances_def by (meson row_advances_trans)

lemma mesh_authorized_get:
  "dict_get (mesh_authorized rid receipt l) k = map_option (\<lambda>row.
     if k = rid \<and> mesh_request_state row = Reserved then row\<lparr>mesh_authorization_id := receipt\<rparr> else row)
     (dict_get l k)"
  by (induction l) (auto simp: mesh_authorized_def)

lemma mesh_step_advances: "ledger_advances l (snd (mesh_step loads c l))"
proof (cases c)
  case (Call_Reserve rid sd)
  then show ?thesis
    by (auto simp: mesh_reserve_def ledger_advances_def dict_get_set res_bind_def
        split: option.split sum.split prod.split)
next
  case (Call_Authorized rid receipt)
  then show ?thesis by (auto simp: ledger_advances_def mesh_authorized_get row_advances_def)
next
  case (Call_Complete rid response)
  then show ?thesis
    by (auto simp: mesh_complete_def ledger_advances_def dict_get_set row_advances_def res_bind_def
        split: option.split sum.split)
qed

lemma mesh_run_advances: "ledger_advances l (snd (mesh_run loads cs l))"
  by (induction cs arbitrary: l)
    (auto simp: split_beta Let_def intro: ledger_advances_trans mesh_step_advances)

lemma mesh_run_append:
  "mesh_run loads (cs @ ds) l =
     (let (r, l1) = mesh_run loads cs l; (s, l2) = mesh_run loads ds l1 in (r @ s, l2))"
  by (induction cs arbitrary: l) (simp_all add: split_beta Let_def)

lemma mesh_run_length: "length (fst (mesh_run loads cs l)) = length cs"
  by (induction cs arbitrary: l) (simp_all add: split_beta Let_def)

section \<open>One winner\<close>

lemma reserve_new:
  "mesh_reserve loads rid sd l = Inr (New, l') \<longleftrightarrow> dict_get l rid = None \<and> l' = dict_set rid
     \<lparr>mesh_subject_digest = sd, mesh_request_state = Reserved, mesh_response = None,
      mesh_authorization_id = []\<rparr> l"
  by (auto simp: mesh_reserve_def res_simps split: option.splits if_splits)

lemma step_new:
  assumes "fst (mesh_step loads (Call_Reserve rid sd) l) = Reply_Reservation New"
  shows "dict_get l rid = None" "dict_get (snd (mesh_step loads (Call_Reserve rid sd) l)) rid \<noteq> None"
proof -
  from assms obtain l' where l': "mesh_reserve loads rid sd l = Inr (New, l')"
    by (cases "mesh_reserve loads rid sd l") auto
  with reserve_new [of loads rid sd l l'] show "dict_get l rid = None"
    "dict_get (snd (mesh_step loads (Call_Reserve rid sd) l)) rid \<noteq> None"
    by (auto simp: dict_get_set)
qed

text \<open>Once a request id has a row, no later reservation of it is new.\<close>

lemma present_not_new:
  "dict_get l rid \<noteq> None \<Longrightarrow>
     (Call_Reserve rid sd, Reply_Reservation New) \<notin> set (zip cs (fst (mesh_run loads cs l)))"
proof (induction cs arbitrary: l)
  case (Cons c cs)
  have "dict_get (snd (mesh_step loads c l)) rid \<noteq> None"
    using Cons.prems mesh_step_advances [of l loads c] by (auto simp: ledger_advances_def)
  then have "(Call_Reserve rid sd, Reply_Reservation New)
      \<notin> set (zip cs (fst (mesh_run loads cs (snd (mesh_step loads c l)))))" by (rule Cons.IH)
  moreover have "c = Call_Reserve rid sd \<Longrightarrow> fst (mesh_step loads c l) \<noteq> Reply_Reservation New"
    using Cons.prems step_new(1) [of loads rid sd l] by auto
  ultimately show ?case by (auto simp: split_beta Let_def)
qed simp

lemma new_once:
  assumes "i < j" "j < length cs"
    and "cs ! i = Call_Reserve rid sd" "fst (mesh_run loads cs l) ! i = Reply_Reservation New"
    and "cs ! j = Call_Reserve rid sd'"
  shows "fst (mesh_run loads cs l) ! j \<noteq> Reply_Reservation New"
  using assms
proof (induction cs arbitrary: l i j)
  case (Cons c cs)
  let ?l = "snd (mesh_step loads c l)"
  obtain k where k: "j = Suc k" using Cons.prems(1) by (cases j) auto
  have run: "fst (mesh_run loads (c # cs) l) = fst (mesh_step loads c l) # fst (mesh_run loads cs ?l)"
    by (simp add: split_beta Let_def)
  show ?case
  proof (cases i)
    case 0
    with Cons.prems(3,4) run have "fst (mesh_step loads (Call_Reserve rid sd) l) = Reply_Reservation New"
      "c = Call_Reserve rid sd" by simp_all
    with step_new(2) have "dict_get ?l rid \<noteq> None" by blast
    then have "(Call_Reserve rid sd', Reply_Reservation New)
        \<notin> set (zip cs (fst (mesh_run loads cs ?l)))" by (rule present_not_new)
    moreover have "(cs ! k, fst (mesh_run loads cs ?l) ! k) \<in> set (zip cs (fst (mesh_run loads cs ?l)))"
      using Cons.prems(2) k by (auto simp: set_zip mesh_run_length)
    ultimately show ?thesis using Cons.prems(5) k run by auto
  next
    case (Suc i')
    with Cons.IH [of i' k ?l] Cons.prems k run show ?thesis by simp
  qed
qed simp

section \<open>The recorded response\<close>

text \<open>
  Later reservations of a completed request return the recorded response, whatever happens in
  between; for another subject they are conflicts.
\<close>

lemma completed_replayed:
  assumes "mesh_complete rid response l = Inr l'" "dict_get l rid = Some row"
    and "canonical_bytes (JObj response) = Inr raw"
  shows "mesh_reserve loads rid sd (snd (mesh_run loads cs l')) =
     (if sd \<noteq> mesh_subject_digest row then Inr (Conflict, snd (mesh_run loads cs l'))
      else res_bind (strict_json loads raw) (\<lambda>d. Inr (Completed d, snd (mesh_run loads cs l'))))"
proof -
  from assms have "dict_get l' rid =
      Some (row\<lparr>mesh_request_state := Complete, mesh_response := Some raw\<rparr>)"
    by (auto simp: mesh_complete_def dict_get_set split: if_splits)
  with mesh_run_advances [of l' loads cs] obtain s where
    "dict_get (snd (mesh_run loads cs l')) rid = Some s"
    "s = row\<lparr>mesh_request_state := Complete, mesh_response := Some raw\<rparr>"
    by (force simp: ledger_advances_def row_advances_def)
  then show ?thesis by (simp add: mesh_reserve_def)
qed

lemma complete_once:
  assumes "mesh_complete rid response l = Inr l'"
  shows "\<exists>e. mesh_complete rid response' (snd (mesh_run loads cs l')) = Inl e"
proof -
  from assms obtain row where "dict_get l' rid = Some row" "mesh_request_state row = Complete"
    by (auto simp: mesh_complete_def dict_get_set res_simps split: option.splits if_splits)
  with mesh_run_advances [of l' loads cs] have
    "dict_get (snd (mesh_run loads cs l')) rid = Some row"
    by (force simp: ledger_advances_def row_advances_def)
  with \<open>mesh_request_state row = Complete\<close> show ?thesis
    by (cases "canonical_bytes (JObj response')") (auto simp: mesh_complete_def)
qed

end
