(* ===== verification/Operations.thy ===== *)
theory Operations
  imports JsonEncoding PyTime
begin

text \<open>
  \<open>autonomy/contracts.py\<close>: the checked readers of operation requests, the autonomy configuration,
  and operation plans. A plan is accepted only when the dependencies of its steps are known and
  can be completed in rounds; that this is the same as being acyclic is proved here. The en dash
  of two messages is a hyphen in the model, whose strings hold code points below 256.
\<close>

section \<open>Checked readers\<close>

abbreviation operation_error :: "string \<Rightarrow> py_error" where
  "operation_error m \<equiv> OperationError m 400"

definition object_fields :: "json \<Rightarrow> string list \<Rightarrow> string \<Rightarrow> json dict res" where
  "object_fields v required label =
     (case v of
        JObj d \<Rightarrow> if has_fields required d then Inr d
          else Inl (operation_error (label @ '' requires exactly: '' @ join '', '' (sort required) @ ''.''))
      | _ \<Rightarrow> Inl (operation_error (label @ '' requires exactly: '' @ join '', '' (sort required) @ ''.'')))"

text \<open>A field of an object that \<open>object_fields\<close> has checked.\<close>

definition field :: "json dict \<Rightarrow> string \<Rightarrow> json" where
  "field d k = (case dict_get d k of None \<Rightarrow> JNull | Some v \<Rightarrow> v)"

definition identifier_char :: "char \<Rightarrow> bool" where
  "identifier_char c = (is_ascii_alnum c \<or> c \<in> {CHR ''_'', CHR ''.'', CHR '':'', CHR ''-''})"

fun bounded_identifier :: "string \<Rightarrow> bool" where
  "bounded_identifier [] = False"
| "bounded_identifier (c # s) = (is_ascii_alnum c \<and> list_all identifier_char s \<and> length s \<le> 79)"

definition op_identifier :: "json \<Rightarrow> string res" where
  "op_identifier v = (case v of
     JStr s \<Rightarrow> if bounded_identifier s then Inr s
       else Inl (operation_error ''Expected a bounded ASCII identifier.'')
   | _ \<Rightarrow> Inl (operation_error ''Expected a bounded ASCII identifier.''))"

definition op_text :: "json \<Rightarrow> string \<Rightarrow> int \<Rightarrow> string res" where
  "op_text v label limit = (case v of
     JStr s \<Rightarrow> if blank s \<or> limit < int (length s)
       then Inl (operation_error (label @ '' must be nonempty text of at most '' @ show_int limit
         @ '' characters.''))
       else Inr s
   | _ \<Rightarrow> Inl (operation_error (label @ '' must be nonempty text of at most '' @ show_int limit
         @ '' characters.'')))"

definition op_integer :: "json \<Rightarrow> string \<Rightarrow> int \<Rightarrow> int \<Rightarrow> int res" where
  "op_integer v label low high = (case v of
     JInt i \<Rightarrow> if low \<le> i \<and> i \<le> high then Inr i
       else Inl (operation_error (label @ '' must be an integer between '' @ show_int low @ '' and ''
         @ show_int high @ ''.''))
   | _ \<Rightarrow> Inl (operation_error (label @ '' must be an integer between '' @ show_int low @ '' and ''
         @ show_int high @ ''.'')))"

text \<open>The instant of a text with an explicit offset; \<open>parse\<close> is \<open>datetime.fromisoformat\<close>.\<close>

definition op_timestamp :: "iso_parser \<Rightarrow> json \<Rightarrow> int res" where
  "op_timestamp parse v =
     (let refused = Inl (operation_error ''Expected an ISO 8601 timestamp with an explicit UTC offset.'')
      in case op_text v ''Timestamp'' 50 of
           Inl _ \<Rightarrow> refused
         | Inr s \<Rightarrow> (case parse s of Some (Aware t) \<Rightarrow> Inr t | _ \<Rightarrow> refused))"

definition op_object :: "json \<Rightarrow> string \<Rightarrow> int \<Rightarrow> json dict res" where
  "op_object v label limit =
     (let refused = Inl (operation_error (label @ '' must be a JSON object within '' @ show_int limit
        @ '' bytes.''))
      in case v of
           JObj d \<Rightarrow> res_bind (canonical_bytes v) (\<lambda>b. if limit < int (length b) then refused else Inr d)
         | _ \<Rightarrow> refused)"

section \<open>AutonomyConfig\<close>

record autonomy_config =
  autonomy_database :: string
  autonomy_tools :: "string list"
  observer_issuer :: string
  observer_key_id :: string
  max_evidence_age :: int

text \<open>\<open>resolve\<close> is \<open>(base / text).resolve()\<close> of the file system.\<close>

definition autonomy_config_parse :: "(string \<Rightarrow> string) \<Rightarrow> json \<Rightarrow> autonomy_config res" where
  "autonomy_config_parse resolve payload =
     res_bind (object_fields payload
       [''database'', ''tools'', ''observer_issuer'', ''observer_key_id'', ''max_evidence_age_seconds'']
       ''autonomy'') (\<lambda>d.
     case field d ''tools'' of
       JList tools \<Rightarrow>
         if tools = [] \<or> 128 < length tools
         then Inl (operation_error ''autonomy.tools requires 1-128 tool names.'')
         else res_bind (res_map op_identifier tools) (\<lambda>names.
           if \<not> distinct names then Inl (operation_error ''autonomy.tools must be unique.'')
           else
           res_bind (op_text (field d ''database'') ''database'' 4096) (\<lambda>db.
           res_bind (op_identifier (field d ''observer_issuer'')) (\<lambda>issuer.
           res_bind (op_identifier (field d ''observer_key_id'')) (\<lambda>key.
           res_bind (op_integer (field d ''max_evidence_age_seconds'') ''max_evidence_age_seconds'' 1 86400)
             (\<lambda>age.
             Inr \<lparr>autonomy_database = resolve db, autonomy_tools = names, observer_issuer = issuer,
                  observer_key_id = key, max_evidence_age = age\<rparr>)))))
     | _ \<Rightarrow> Inl (operation_error ''autonomy.tools requires 1-128 tool names.''))"

definition policy_digest :: "(string \<Rightarrow> string) \<Rightarrow> autonomy_config \<Rightarrow> string res" where
  "policy_digest H c = digest H (JObj
     [(''schema'', JStr ''wave18.operation-policy.v1''),
      (''tools'', JList (map JStr (sort (autonomy_tools c)))),
      (''observer_issuer'', JStr (observer_issuer c)),
      (''observer_key_id'', JStr (observer_key_id c)),
      (''max_evidence_age_seconds'', JInt (max_evidence_age c))])"

section \<open>Plans\<close>

record plan_step =
  step_agent_id :: string
  step_tool_name :: string
  step_arguments :: "json dict"
  depends_on :: "string list"
  preconditions :: "json dict"
  expected_outcome :: "json dict"
  step_cost :: int
  recovery_instruction :: string
  recovery_outcome :: "json dict"

record operation_plan =
  plan_operation_id :: string
  plan_expires_at :: string
  max_attempts :: int
  max_cost :: int
  plan_steps :: "plan_step dict"

definition plan_step_dict :: "plan_step \<Rightarrow> json" where
  "plan_step_dict s = JObj
     [(''agent_id'', JStr (step_agent_id s)),
      (''tool_name'', JStr (step_tool_name s)),
      (''arguments'', JObj (step_arguments s)),
      (''depends_on'', JList (map JStr (depends_on s))),
      (''preconditions'', JObj (preconditions s)),
      (''expected_outcome'', JObj (expected_outcome s)),
      (''cost'', JInt (step_cost s)),
      (''recovery'', JObj [(''instruction'', JStr (recovery_instruction s)),
                         (''expected_outcome'', JObj (recovery_outcome s))])]"

definition operation_plan_dict :: "operation_plan \<Rightarrow> json" where
  "operation_plan_dict p = JObj
     [(''operation_id'', JStr (plan_operation_id p)),
      (''expires_at'', JStr (plan_expires_at p)),
      (''max_attempts'', JInt (max_attempts p)),
      (''max_cost'', JInt (max_cost p)),
      (''steps'', JObj (map (\<lambda>(k, s). (k, plan_step_dict s)) (plan_steps p)))]"

text \<open>The body of the loop over the steps: \<open>n\<close> is their number, \<open>done\<close> the steps read so far.\<close>

definition parse_step :: "nat \<Rightarrow> json \<Rightarrow> plan_step dict \<Rightarrow> plan_step dict res" where
  "parse_step n v done =
     res_bind (object_fields v
       [''step_id'', ''agent_id'', ''tool_name'', ''arguments'', ''depends_on'', ''preconditions'',
        ''expected_outcome'', ''cost'', ''recovery''] ''step'') (\<lambda>d.
     res_bind (op_identifier (field d ''step_id'')) (\<lambda>name.
     if name \<in> set (dict_keys done) then Inl (operation_error ''Step identifiers must be unique.'')
     else case field d ''depends_on'' of
       JList raw \<Rightarrow>
         if n \<le> length raw then Inl (operation_error ''Invalid dependency list.'')
         else
         res_bind (res_map op_identifier raw) (\<lambda>deps.
         if \<not> distinct deps then Inl (operation_error ''Dependencies must be unique.'')
         else
         res_bind (op_object (field d ''preconditions'') ''preconditions'' 8192) (\<lambda>pre.
         res_bind (res_map (\<lambda>k. op_identifier (JStr k)) (dict_keys pre)) (\<lambda>_.
         res_bind (object_fields (field d ''recovery'') [''instruction'', ''expected_outcome'']
           ''recovery'') (\<lambda>rec.
         res_bind (op_identifier (field d ''agent_id'')) (\<lambda>agent.
         res_bind (op_identifier (field d ''tool_name'')) (\<lambda>tool.
         res_bind (op_object (field d ''arguments'') ''arguments'' 32768) (\<lambda>args.
         res_bind (op_object (field d ''expected_outcome'') ''expected_outcome'' 8192) (\<lambda>outcome.
         res_bind (op_integer (field d ''cost'') ''cost'' 1 1000000) (\<lambda>cost.
         res_bind (op_text (field rec ''instruction'') ''recovery instruction'' 1024) (\<lambda>instr.
         res_bind (op_object (field rec ''expected_outcome'') ''recovery outcome'' 8192) (\<lambda>recovered.
           Inr (done @ [(name,
             \<lparr>step_agent_id = agent, step_tool_name = tool, step_arguments = args,
              depends_on = sort deps, preconditions = pre, expected_outcome = outcome,
              step_cost = cost, recovery_instruction = instr, recovery_outcome = recovered\<rparr>)]))))))))))))
     | _ \<Rightarrow> Inl (operation_error ''Invalid dependency list.'')))"

text \<open>
  The two nested loops over the normalised steps: a round completes every step whose dependencies
  are completed, in order; there are as many rounds as steps. The list holds the completed steps
  in the order they were added.
\<close>

definition complete_step :: "string \<times> plan_step \<Rightarrow> string list \<Rightarrow> string list" where
  "complete_step ns done =
     (if list_all (\<lambda>d. d \<in> set done) (depends_on (snd ns)) \<and> fst ns \<notin> set done
      then done @ [fst ns] else done)"

definition completion_round :: "plan_step dict \<Rightarrow> string list \<Rightarrow> string list" where
  "completion_round steps done = fold complete_step steps done"

definition completed_steps :: "plan_step dict \<Rightarrow> string list" where
  "completed_steps steps = (completion_round steps ^^ length steps) []"

definition parse_plan :: "iso_parser \<Rightarrow> py_runtime \<Rightarrow> json \<Rightarrow> operation_plan res" where
  "parse_plan parse rt v =
     res_bind (object_fields v [''operation_id'', ''expires_at'', ''max_attempts'', ''max_cost'', ''steps'']
       ''plan'') (\<lambda>d.
     res_bind (canonical_bytes (JObj d)) (\<lambda>b.
     if 131072 < int (length b) then Inl (operation_error ''Plan exceeds 128 KiB.'')
     else case field d ''steps'' of
       JList raw \<Rightarrow>
         if raw = [] \<or> 32 < length raw then Inl (operation_error ''An operation requires 1-32 steps.'')
         else
         res_bind (res_fold (parse_step (length raw)) raw []) (\<lambda>steps.
         if set (completed_steps steps) \<noteq> set (dict_keys steps)
         then Inl (operation_error
           ''Dependencies must refer to known steps and form an acyclic graph.'')
         else
         res_bind (op_identifier (field d ''operation_id'')) (\<lambda>op.
         res_bind (op_timestamp parse (field d ''expires_at'')) (\<lambda>t.
         res_bind (op_integer (field d ''max_attempts'') ''max_attempts'' 1 128) (\<lambda>attempts.
         res_bind (op_integer (field d ''max_cost'') ''max_cost'' 1 1000000) (\<lambda>cost.
           Inr \<lparr>plan_operation_id = op, plan_expires_at = py_isoformat rt t,
                max_attempts = attempts, max_cost = cost, plan_steps = steps\<rparr>)))))
     | _ \<Rightarrow> Inl (operation_error ''An operation requires 1-32 steps.'')))"

section \<open>The rounds find exactly the acyclic plans\<close>

text \<open>\<open>(d, n)\<close>: step \<open>n\<close> depends on \<open>d\<close>.\<close>

definition needs :: "plan_step dict \<Rightarrow> (string \<times> string) set" where
  "needs steps = {(d, n). \<exists>s. (n, s) \<in> set steps \<and> d \<in> set (depends_on s)}"

definition dependencies_known :: "plan_step dict \<Rightarrow> bool" where
  "dependencies_known steps \<longleftrightarrow> (\<forall>(n, s) \<in> set steps. set (depends_on s) \<subseteq> set (dict_keys steps))"

definition in_order :: "plan_step dict \<Rightarrow> string list \<Rightarrow> bool" where
  "in_order steps done \<longleftrightarrow> distinct done \<and> set done \<subseteq> set (dict_keys steps)
     \<and> (\<forall>xs n ys s. done = xs @ n # ys \<longrightarrow> (n, s) \<in> set steps \<longrightarrow> set (depends_on s) \<subseteq> set xs)"

lemma fold_preserves: "(\<And>x s. x \<in> set xs \<Longrightarrow> P s \<Longrightarrow> P (f x s)) \<Longrightarrow> P s \<Longrightarrow> P (fold f xs s)"
  by (induction xs arbitrary: s) auto

lemma complete_step_in_order:
  assumes "distinct (dict_keys steps)" "(n, s) \<in> set steps" "in_order steps done"
  shows "in_order steps (complete_step (n, s) done)"
proof -
  have same: "t = s" if "(n, t) \<in> set steps" for t
    using that assms(1,2) by (meson eq_key_imp_eq_value)
  have name: "n \<in> set (dict_keys steps)" using assms(2) by force
  show ?thesis
  proof (cases "set (depends_on s) \<subseteq> set done \<and> n \<notin> set done")
    case True
    have order: "set (depends_on t) \<subseteq> set xs"
      if "done @ [n] = xs @ m # ys" "(m, t) \<in> set steps" for xs m ys t
    proof (cases ys rule: rev_cases)
      case Nil
      with that same True show ?thesis by auto
    next
      case (snoc zs z)
      with that(1) have "done = xs @ m # zs" by simp
      with that(2) assms(3) show ?thesis by (simp add: in_order_def)
    qed
    have "distinct (done @ [n])" "set (done @ [n]) \<subseteq> set (dict_keys steps)"
      using True assms(3) name by (auto simp: in_order_def)
    moreover have "complete_step (n, s) done = done @ [n]"
      using True by (auto simp: complete_step_def list_all_iff)
    ultimately show ?thesis using order unfolding in_order_def by metis
  next
    case False
    with assms(3) show ?thesis by (auto simp: complete_step_def list_all_iff)
  qed
qed

lemma completed_in_order:
  assumes "distinct (dict_keys steps)"
  shows "in_order steps (completed_steps steps)"
proof -
  have "in_order steps ((completion_round steps ^^ k) [])" for k
  proof (induction k)
    case (Suc k)
    have "in_order steps (completion_round steps ((completion_round steps ^^ k) []))"
      unfolding completion_round_def
      by (rule fold_preserves) (use Suc assms complete_step_in_order completion_round_def in auto)
    then show ?case by simp
  qed (simp add: in_order_def)
  then show ?thesis by (simp add: completed_steps_def)
qed

lemma in_order_acyclic:
  assumes "in_order steps done" "set done = set (dict_keys steps)"
  shows "dependencies_known steps \<and> acyclic (needs steps)"
proof -
  let ?pos = "\<lambda>n. length (takeWhile (\<lambda>x. x \<noteq> n) done)"
  have before: "d \<in> set (takeWhile (\<lambda>x. x \<noteq> n) done)"
    if n: "(n, s) \<in> set steps" and d: "d \<in> set (depends_on s)" for n s d
  proof -
    from n assms(2) have "n \<in> set done" by force
    then obtain xs ys where split: "done = xs @ n # ys" "n \<notin> set xs" by (meson split_list_first)
    then have "takeWhile (\<lambda>x. x \<noteq> n) done = xs" by (auto simp: takeWhile_append)
    moreover from split(1) n assms(1) have "set (depends_on s) \<subseteq> set xs" by (simp add: in_order_def)
    ultimately show ?thesis using d by auto
  qed
  have "needs steps \<subseteq> measure ?pos"
  proof (clarsimp simp: needs_def)
    fix d n s assume "(n, s) \<in> set steps" "d \<in> set (depends_on s)"
    then have d: "d \<in> set (takeWhile (\<lambda>x. x \<noteq> n) done)" by (rule before)
    then obtain us vs where t: "takeWhile (\<lambda>x. x \<noteq> n) done = us @ d # vs" "d \<notin> set us"
      by (meson split_list_first)
    then obtain ws where "done = us @ d # ws"
      by (metis append_Cons append_assoc takeWhile_dropWhile_id)
    with t(2) have "takeWhile (\<lambda>x. x \<noteq> d) done = us" by (auto simp: takeWhile_append)
    with t(1) show "?pos d < ?pos n" by simp
  qed
  then have "wf (needs steps)" by (rule wf_subset [OF wf_measure])
  moreover have "dependencies_known steps"
    unfolding dependencies_known_def using before assms(2) set_takeWhileD by fastforce
  ultimately show ?thesis by (simp add: wf_acyclic)
qed

lemma complete_step_grows: "set done \<subseteq> set (complete_step x done)"
  by (auto simp: complete_step_def)

lemma round_grows: "set done \<subseteq> set (completion_round steps done)"
  unfolding completion_round_def
  by (rule fold_preserves) (use complete_step_grows in blast)+

lemma round_names:
  assumes "set done \<subseteq> set (dict_keys steps)"
  shows "set (completion_round steps done) \<subseteq> set (dict_keys steps)"
  unfolding completion_round_def
proof (rule fold_preserves [where P = "\<lambda>acc. set acc \<subseteq> set (dict_keys steps)", OF _ assms])
  fix x acc assume "x \<in> set steps" "set acc \<subseteq> set (dict_keys steps)"
  then show "set (complete_step x acc) \<subseteq> set (dict_keys steps)"
    by (simp add: complete_step_def)
qed

lemma round_completes:
  assumes "(n, s) \<in> set steps" "set (depends_on s) \<subseteq> set done"
  shows "n \<in> set (completion_round steps done)"
proof -
  obtain us vs where "steps = us @ (n, s) # vs" using assms(1) by (meson split_list)
  then have r: "completion_round steps done
      = completion_round vs (complete_step (n, s) (completion_round us done))"
    by (simp add: completion_round_def)
  have "set (depends_on s) \<subseteq> set (completion_round us done)"
    using assms(2) round_grows by blast
  then have "n \<in> set (complete_step (n, s) (completion_round us done))"
    by (auto simp: complete_step_def list_all_iff)
  with r round_grows show ?thesis by fastforce
qed

lemma acyclic_completes:
  assumes "distinct (dict_keys steps)" "dependencies_known steps" "acyclic (needs steps)"
  shows "set (completed_steps steps) = set (dict_keys steps)"
proof -
  let ?N = "set (dict_keys steps)" and ?S = "\<lambda>k. set ((completion_round steps ^^ k) [])"
  have "needs steps \<subseteq> (\<Union>(n, s) \<in> set steps. set (depends_on s) \<times> {n})" by (force simp: needs_def)
  then have "finite (needs steps)" by (rule finite_subset) auto
  then have wf: "wf (needs steps)" using assms(3) by (rule finite_acyclic_wf)
  have sub: "?S k \<subseteq> ?N" for k
  proof (induction k)
    case (Suc k)
    from round_names [OF Suc] show ?case by simp
  qed simp
  have grow: "?S k = ?N \<or> card (?S k) < card (?S (Suc k))" for k
  proof (cases "?S k = ?N")
    case False
    with sub obtain m where "m \<in> ?N - ?S k" by blast
    with wf obtain n where n: "n \<in> ?N - ?S k" "\<And>d. (d, n) \<in> needs steps \<Longrightarrow> d \<notin> ?N - ?S k"
      by (rule wfE_min) auto
    then obtain s where s: "(n, s) \<in> set steps" by auto
    then have "set (depends_on s) \<subseteq> ?N" using assms(2) by (auto simp: dependencies_known_def)
    moreover have "d \<notin> ?N - ?S k" if "d \<in> set (depends_on s)" for d
      using that s by (intro n(2)) (auto simp: needs_def)
    ultimately have "set (depends_on s) \<subseteq> ?S k" by blast
    with s have "n \<in> ?S (Suc k)" by (simp add: round_completes)
    moreover have "?S k \<subseteq> ?S (Suc k)" using round_grows by simp
    ultimately have "?S k \<subset> ?S (Suc k)" using n(1) by blast
    then show ?thesis by (simp add: psubset_card_mono)
  qed simp
  have "?S k = ?N \<or> k \<le> card (?S k)" for k
  proof (induction k)
    case (Suc k)
    have "?S k \<subseteq> ?S (Suc k)" using round_grows by simp
    with sub [of "Suc k"] have "?S k = ?N \<Longrightarrow> ?S (Suc k) = ?N" by blast
    moreover have "?S k = ?N \<or> card (?S k) < card (?S (Suc k))" by (rule grow)
    ultimately show ?case using Suc.IH by linarith
  qed simp
  from this [of "length steps"] have "?S (length steps) = ?N"
  proof
    assume "length steps \<le> card (?S (length steps))"
    moreover have "card ?N = length steps" using assms(1) by (metis distinct_card length_map)
    ultimately show ?thesis using sub by (intro card_seteq) auto
  qed
  then show ?thesis by (simp add: completed_steps_def)
qed

lemma completed_steps_iff:
  "distinct (dict_keys steps) \<Longrightarrow>
     set (completed_steps steps) = set (dict_keys steps)
       \<longleftrightarrow> dependencies_known steps \<and> acyclic (needs steps)"
  using acyclic_completes completed_in_order in_order_acyclic by blast

section \<open>Accepted plans\<close>

definition step_ok :: "plan_step \<Rightarrow> bool" where
  "step_ok s \<longleftrightarrow> bounded_identifier (step_agent_id s) \<and> bounded_identifier (step_tool_name s)
     \<and> sorted (depends_on s) \<and> distinct (depends_on s) \<and> 1 \<le> step_cost s \<and> step_cost s \<le> 1000000
     \<and> list_all bounded_identifier (dict_keys (preconditions s))"

definition plan_ok :: "operation_plan \<Rightarrow> bool" where
  "plan_ok p \<longleftrightarrow> bounded_identifier (plan_operation_id p)
     \<and> 1 \<le> max_attempts p \<and> max_attempts p \<le> 128 \<and> 1 \<le> max_cost p \<and> max_cost p \<le> 1000000
     \<and> plan_steps p \<noteq> [] \<and> length (plan_steps p) \<le> 32 \<and> distinct (dict_keys (plan_steps p))
     \<and> (\<forall>(n, s) \<in> set (plan_steps p). bounded_identifier n \<and> step_ok s)
     \<and> dependencies_known (plan_steps p) \<and> acyclic (needs (plan_steps p))"

lemma op_identifier_Inr: "op_identifier v = Inr s \<longleftrightarrow> v = JStr s \<and> bounded_identifier s"
  by (auto simp: op_identifier_def split: json.splits)

lemma op_integer_Inr: "op_integer v label a b = Inr i \<longleftrightarrow> v = JInt i \<and> a \<le> i \<and> i \<le> b"
  by (auto simp: op_integer_def split: json.splits)

lemma parse_step_ok:
  "ensures (\<lambda>done'. \<exists>n' s. done' = done @ [(n', s)] \<and> n' \<notin> set (dict_keys done)
       \<and> bounded_identifier n' \<and> step_ok s)
     (parse_step n v done)"
proof -
  have keys: "list_all bounded_identifier ks" if "res_map (\<lambda>k. op_identifier (JStr k)) ks = Inr us"
    for ks us using that by (induction ks arbitrary: us) (auto simp: res_simps op_identifier_Inr)
  have list: "ensures P (case w of JList r \<Rightarrow> f r | _ \<Rightarrow> Inl x)" if "\<And>r. w = JList r \<Longrightarrow> ensures P (f r)"
    for P :: "plan_step dict \<Rightarrow> bool" and w f x using that by (cases w) auto
  show ?thesis
    unfolding parse_step_def
    by (intro ensures_bind ensures_if ensures_Inl ensures_Inr list)
      (simp add: step_ok_def op_identifier_Inr op_integer_Inr keys)
qed

lemma parse_steps_ok:
  assumes "res_fold (parse_step n) raw [] = Inr steps"
  shows "length steps = length raw \<and> distinct (dict_keys steps)
    \<and> (\<forall>(n, s) \<in> set steps. bounded_identifier n \<and> step_ok s)"
proof -
  have "length s' = length s + length xs \<and> (distinct (dict_keys s) \<longrightarrow> distinct (dict_keys s'))
      \<and> ((\<forall>(n, t) \<in> set s. bounded_identifier n \<and> step_ok t)
         \<longrightarrow> (\<forall>(n, t) \<in> set s'. bounded_identifier n \<and> step_ok t))"
    if "res_fold (parse_step n) xs s = Inr s'" for xs s s'
    using that
  proof (induction xs arbitrary: s)
    case (Cons x xs)
    then obtain s1 where s1: "parse_step n x s = Inr s1" "res_fold (parse_step n) xs s1 = Inr s'"
      by (auto simp: res_simps)
    from ensuresD [OF parse_step_ok s1(1)] obtain m t where
      "s1 = s @ [(m, t)]" "m \<notin> set (dict_keys s)" "bounded_identifier m" "step_ok t" by blast
    with Cons.IH [OF s1(2)] show ?case by auto
  qed auto
  from this [OF assms] show ?thesis by simp
qed

lemma parse_plan_ok: "ensures plan_ok (parse_plan parse rt v)"
proof -
  have list: "ensures P (case w of JList r \<Rightarrow> f r | _ \<Rightarrow> Inl x)" if "\<And>r. w = JList r \<Longrightarrow> ensures P (f r)"
    for P :: "operation_plan \<Rightarrow> bool" and w f x using that by (cases w) auto
  show ?thesis
    unfolding parse_plan_def
  proof (intro ensures_bind ensures_if ensures_Inl ensures_Inr list)
    fix d b raw steps op t attempts cost
    assume raw: "\<not> (raw = [] \<or> 32 < length raw)"
      and steps: "res_fold (parse_step (length raw)) raw [] = Inr steps"
      and closed: "\<not> set (completed_steps steps) \<noteq> set (dict_keys steps)"
      and rest: "op_identifier (field d ''operation_id'') = Inr op"
        "op_integer (field d ''max_attempts'') ''max_attempts'' 1 128 = Inr attempts"
        "op_integer (field d ''max_cost'') ''max_cost'' 1 1000000 = Inr cost"
    from parse_steps_ok [OF steps] have ok: "length steps = length raw" "distinct (dict_keys steps)"
      "\<forall>(n, s) \<in> set steps. bounded_identifier n \<and> step_ok s" by blast+
    with closed completed_steps_iff have "dependencies_known steps \<and> acyclic (needs steps)" by blast
    with raw ok rest show "plan_ok \<lparr>plan_operation_id = op, plan_expires_at = py_isoformat rt t,
        max_attempts = attempts, max_cost = cost, plan_steps = steps\<rparr>"
      by (auto simp: plan_ok_def op_identifier_Inr op_integer_Inr)
  qed
qed

end
