(* ===== verification/Coordinator.thy ===== *)
theory Coordinator
  imports Gateway MeshLedger Operations
begin

text \<open>
  \<open>autonomy/store.py\<close> and \<open>autonomy/coordinator.py\<close>: operation snapshots with their journal, and the
  transactions the coordinator runs on them. A transaction either returns the new store or an
  error, which leaves the store as it was.

  A row of the store holds a state, not its text: \<open>save\<close> fails where \<open>canonical_bytes\<close> of the state
  or of the event fails, and keeps the state with the members of its objects sorted, which is
  what parsing the canonical text gives back. \<open>clk n\<close> is the n-th reading of the clock in a
  transaction. The verification of signed receipts is the parameter \<open>og_verify\<close>.
\<close>

section \<open>States\<close>

datatype attempt_phase = Phase_Reserved | Phase_Attempted | Phase_Not_Attempted

fun attempt_phase_value :: "attempt_phase \<Rightarrow> string" where
  "attempt_phase_value Phase_Reserved = ''reserved''"
| "attempt_phase_value Phase_Attempted = ''attempted''"
| "attempt_phase_value Phase_Not_Attempted = ''not_attempted''"

datatype disposition = Verified | Mismatch | Recovered

fun disposition_value :: "disposition \<Rightarrow> string" where
  "disposition_value Verified = ''verified''"
| "disposition_value Mismatch = ''mismatch''"
| "disposition_value Recovered = ''recovered''"

record dispatch_binding =
  bound_operation :: string
  bound_plan_digest :: string
  bound_epoch :: int
  bound_snapshot :: string
  bound_step :: string
  bound_attempt :: int
  bound_dependencies :: "string dict"

record op_attempt =
  attempt_phase :: attempt_phase
  attempt_subject_digest :: string
  attempt_request_id :: string
  reserved_at :: string
  attempt_binding :: dispatch_binding
  authorization_receipt_id :: "string option"
  transport_state :: "json option"

record op_observation =
  observed_epoch :: int
  observed_disposition :: disposition
  observed_value :: "json dict"
  observed_ref :: string
  observed_digest :: string
  observed_issuer :: string
  observed_produced_at :: string

record step_state =
  step_attempt :: op_attempt
  step_observation :: "op_observation option"

record op_state =
  op_plan :: operation_plan
  plan_digest :: string
  proposer :: string
  epoch :: int
  facts :: "json dict"
  facts_until :: string
  approval :: string
  attempts :: int
  cost_spent :: int
  op_closed :: bool
  op_steps :: "step_state dict"

definition binding_members :: "dispatch_binding \<Rightarrow> json dict" where
  "binding_members b =
     [(''operation_id'', JStr (bound_operation b)),
      (''plan_digest'', JStr (bound_plan_digest b)),
      (''epoch'', JInt (bound_epoch b)),
      (''snapshot_digest'', JStr (bound_snapshot b)),
      (''step_id'', JStr (bound_step b)),
      (''attempt'', JInt (bound_attempt b)),
      (''dependency_observations'', JObj (map (\<lambda>(k, d). (k, JStr d)) (bound_dependencies b)))]"

definition attempt_dict :: "op_attempt \<Rightarrow> json" where
  "attempt_dict a = JObj
     ([(''phase'', JStr (attempt_phase_value (attempt_phase a))),
       (''subject_digest'', JStr (attempt_subject_digest a)),
       (''request_id'', JStr (attempt_request_id a)),
       (''reserved_at'', JStr (reserved_at a)),
       (''binding'', JObj (binding_members (attempt_binding a)))]
      @ (case authorization_receipt_id a of None \<Rightarrow> []
           | Some r \<Rightarrow> [(''authorization_receipt_id'', JStr r)])
      @ (case transport_state a of None \<Rightarrow> [] | Some t \<Rightarrow> [(''transport_state'', t)]))"

definition observation_members :: "op_observation \<Rightarrow> json dict" where
  "observation_members x =
     [(''epoch'', JInt (observed_epoch x)),
      (''disposition'', JStr (disposition_value (observed_disposition x))),
      (''value'', JObj (observed_value x)),
      (''evidence_ref'', JStr (observed_ref x)),
      (''evidence_digest'', JStr (observed_digest x)),
      (''issuer'', JStr (observed_issuer x)),
      (''produced_at'', JStr (observed_produced_at x))]"

definition step_state_dict :: "step_state \<Rightarrow> json" where
  "step_state_dict s = JObj
     ((''attempt'', attempt_dict (step_attempt s))
      # (case step_observation s of None \<Rightarrow> [] | Some x \<Rightarrow> [(''observation'', JObj (observation_members x))]))"

definition op_state_dict :: "op_state \<Rightarrow> json" where
  "op_state_dict st = JObj
     [(''plan'', operation_plan_dict (op_plan st)),
      (''plan_digest'', JStr (plan_digest st)),
      (''proposer'', JStr (proposer st)),
      (''epoch'', JInt (epoch st)),
      (''facts'', JObj (facts st)),
      (''facts_until'', JStr (facts_until st)),
      (''approval'', JStr (approval st)),
      (''attempts'', JInt (attempts st)),
      (''cost_spent'', JInt (cost_spent st)),
      (''closed'', JBool (op_closed st)),
      (''steps'', JObj (map (\<lambda>(k, s). (k, step_state_dict s)) (op_steps st)))]"

section \<open>The store\<close>

record op_store =
  operations :: "op_state dict"
  op_events :: "(string \<times> json) list"

definition op_id :: "op_state \<Rightarrow> string" where
  "op_id st = plan_operation_id (op_plan st)"

text \<open>What the canonical text of a state reads back as.\<close>

definition stored_plan_step :: "plan_step \<Rightarrow> plan_step" where
  "stored_plan_step s = s\<lparr>step_arguments := sorted_members (step_arguments s),
     preconditions := sorted_members (preconditions s),
     expected_outcome := sorted_members (expected_outcome s),
     recovery_outcome := sorted_members (recovery_outcome s)\<rparr>"

definition stored_plan :: "operation_plan \<Rightarrow> operation_plan" where
  "stored_plan p = p\<lparr>plan_steps :=
     sort_key fst (map (\<lambda>(k, s). (k, stored_plan_step s)) (plan_steps p))\<rparr>"

definition stored_step :: "step_state \<Rightarrow> step_state" where
  "stored_step s = s\<lparr>
     step_attempt := (step_attempt s)\<lparr>
       attempt_binding := (attempt_binding (step_attempt s))\<lparr>bound_dependencies :=
         sort_key fst (bound_dependencies (attempt_binding (step_attempt s)))\<rparr>,
       transport_state := map_option sort_keys (transport_state (step_attempt s))\<rparr>,
     step_observation := map_option (\<lambda>x. x\<lparr>observed_value := sorted_members (observed_value x)\<rparr>)
       (step_observation s)\<rparr>"

definition stored :: "op_state \<Rightarrow> op_state" where
  "stored st = st\<lparr>op_plan := stored_plan (op_plan st), facts := sorted_members (facts st),
     op_steps := sort_key fst (map (\<lambda>(k, s). (k, stored_step s)) (op_steps st))\<rparr>"

definition load_operation :: "op_store \<Rightarrow> string \<Rightarrow> op_state res" where
  "load_operation db op = (case dict_get (operations db) op of
     None \<Rightarrow> Inl (OperationError ''Operation not found.'' 404) | Some st \<Rightarrow> Inr st)"

definition event_document :: "string \<Rightarrow> string \<Rightarrow> json dict \<Rightarrow> json" where
  "event_document event at details = JObj ([(''event'', JStr event), (''at'', JStr at)] @ details)"

definition save_operation :: "string \<Rightarrow> op_state \<Rightarrow> string \<Rightarrow> json dict \<Rightarrow> op_store \<Rightarrow> op_store res" where
  "save_operation at st event details db =
     res_bind (canonical_bytes (op_state_dict st)) (\<lambda>_.
     res_bind (canonical_bytes (event_document event at details)) (\<lambda>_.
       Inr (db\<lparr>operations := dict_set (op_id st) (stored st) (operations db),
               op_events := op_events db @ [(op_id st, sort_keys (event_document event at details))]\<rparr>)))"

text \<open>The page of at most 50 events after a sequence number; numbers count all events from 1.\<close>

definition operation_events :: "op_store \<Rightarrow> string \<Rightarrow> int \<Rightarrow> (int \<times> json) list" where
  "operation_events db op after =
     map (\<lambda>(n, _, e). (n, e))
       (take 50 (filter (\<lambda>(n, o', _). o' = op \<and> after < n)
         (zip (map (\<lambda>i. int i + 1) [0..<length (op_events db)]) (op_events db))))"

section \<open>The surroundings of a transaction\<close>

record op_gateway =
  og_env :: gateway_env
  og_config :: gateway_config
  og_autonomy :: autonomy_config
  og_evidence :: evidence_store
  og_ledger :: mesh_ledger
  og_receipts :: receipt_db
  og_verify :: "json dict \<Rightarrow> json dict res"

abbreviation og_hash :: "op_gateway \<Rightarrow> string \<Rightarrow> string" where
  "og_hash og \<equiv> env_hash (og_env og)"

abbreviation og_parse :: "op_gateway \<Rightarrow> iso_parser" where
  "og_parse og \<equiv> env_parse (og_env og)"

abbreviation conflict :: "string \<Rightarrow> py_error" where
  "conflict m \<equiv> OperationError m 409"

definition PROTOCOL :: string where
  "PROTOCOL = ''blackfox-api/v1''"

definition OBSERVATION :: string where
  "OBSERVATION = ''operation_observation''"

definition observation_policy :: "autonomy_config \<Rightarrow> evidence_policy res" where
  "observation_policy c = evidence_policy_init
     \<lparr>policy_id = ''operation-observation'', required_kinds = [OBSERVATION],
      human_approval_kind = [], target_bound_kinds = [OBSERVATION], single_use_kinds = [],
      accepted_statuses = [''verified''], allowed_issuers = [observer_issuer c],
      human_approval_issuers = [], max_age_seconds = max_evidence_age c,
      require_signature = True, require_repository_match = True, require_revision_match = True\<rparr>"

section \<open>Snapshots\<close>

definition step_route_digest :: "op_gateway \<Rightarrow> plan_step \<Rightarrow> json res" where
  "step_route_digest og s =
     (if route_for (og_config og) (step_tool_name s) = None then Inr JNull
      else res_bind (registry_lookup (cfg_registry (og_config og)) (step_agent_id s)) (\<lambda>agent.
        if agent = None then Inr JNull
        else res_bind (build_subject (og_env og) (og_config og) (step_agent_id s) (step_tool_name s)
               (step_arguments s) PROTOCOL None None) (\<lambda>subject.
             res_bind (subject_digest (og_hash og) subject) (\<lambda>d. Inr (JStr d)))))"

definition snapshot_document :: "op_gateway \<Rightarrow> op_state \<Rightarrow> json res" where
  "snapshot_document og st =
     res_bind (res_map (\<lambda>(k, s). res_bind (step_route_digest og s) (\<lambda>v. Inr (k, v)))
       (plan_steps (op_plan st))) (\<lambda>routes.
     res_bind (policy_digest (og_hash og) (og_autonomy og)) (\<lambda>policy.
       Inr (JObj
         [(''plan'', JStr (plan_digest st)), (''epoch'', JInt (epoch st)),
          (''facts'', JObj (facts st)), (''facts_until'', JStr (facts_until st)),
          (''policy'', JStr policy), (''routes'', JObj routes)])))"

definition snapshot :: "op_gateway \<Rightarrow> op_state \<Rightarrow> string res" where
  "snapshot og st = res_bind (snapshot_document og st) (digest (og_hash og))"

section \<open>Observations\<close>

definition dict_text :: "json dict \<Rightarrow> string \<Rightarrow> string res" where
  "dict_text d k = (case dict_get d k of
     None \<Rightarrow> Inl (KeyError k)
   | Some (JStr s) \<Rightarrow> Inr s
   | Some _ \<Rightarrow> Inl (TypeError ''expected a string''))"

text \<open>The receipt that \<open>verify_receipt\<close> gives must be the authorization of this attempt.\<close>

definition observation_source ::
  "op_gateway \<Rightarrow> op_attempt \<Rightarrow> (json dict \<times> string) res" where
  "observation_source og a =
     (case inspect_request (og_ledger og) (attempt_request_id a) of
        None \<Rightarrow> Inl (conflict ''Step has no retained authorization to reconcile.'')
      | Some row \<Rightarrow>
        if mesh_subject_digest row \<noteq> attempt_subject_digest a \<or> mesh_authorization_id row = []
        then Inl (conflict ''Step has no retained authorization to reconcile.'')
        else
        res_bind (get_receipt (env_loads (og_env og)) (mesh_authorization_id row) (og_receipts og)) (\<lambda>found.
        case found of
          None \<Rightarrow> Inl (AuthorityProofError ''Retained authorization is unavailable.'')
        | Some envelope \<Rightarrow>
        res_bind (og_verify og envelope) (\<lambda>receipt.
        res_bind (dict_item receipt ''record_type'') (\<lambda>kind.
        res_bind (if kind = JStr ''authorization'' then
            res_bind (dict_item receipt ''subject'') (\<lambda>subject.
              case subject of JObj src \<Rightarrow> res_bind (dict_item src ''digest'') (\<lambda>d. Inr (Some (src, d)))
              | _ \<Rightarrow> Inl (TypeError ''string indices must be integers''))
          else Inr None) (\<lambda>source.
        case source of
          None \<Rightarrow> Inl (AuthorityProofError ''Retained authorization does not match the attempt.'')
        | Some (src, d) \<Rightarrow>
          if d \<noteq> JStr (attempt_subject_digest a)
          then Inl (AuthorityProofError ''Retained authorization does not match the attempt.'')
          else res_bind (dict_text receipt ''receipt_id'') (\<lambda>rid. Inr (src, rid)))))))"

definition observation_target ::
  "op_gateway \<Rightarrow> op_state \<Rightarrow> string \<Rightarrow> (authority_subject \<times> step_state) res" where
  "observation_target og st step_id =
     (case (dict_get (plan_steps (op_plan st)) step_id, dict_get (op_steps st) step_id) of
        (Some step, Some current) \<Rightarrow>
          if attempt_phase (step_attempt current) = Phase_Not_Attempted
          then Inl (conflict ''Step has no retained attempt to observe.'')
          else
          res_bind (observation_source og (step_attempt current)) (\<lambda>(src, rid).
          res_bind (dict_text src ''repository_id'') (\<lambda>repository.
          res_bind (dict_text src ''revision'') (\<lambda>revision.
          res_bind (digest (og_hash og) (JObj
             [(''request_id'', JStr (attempt_request_id (step_attempt current))),
              (''authorization_receipt_id'', JStr rid),
              (''subject_digest'', JStr (attempt_subject_digest (step_attempt current)))])) (\<lambda>args.
          res_bind (snapshot og st) (\<lambda>snap.
          res_bind (authority_subject_init
            \<lparr>subject_agent_id = step_agent_id step, subject_tool_name = step_tool_name step,
             subject_capability = OBSERVATION, subject_repository_id = repository,
             subject_revision = revision, subject_path = [], arguments_digest = args,
             authority_context_digest = snap,
             subject_protocol = ''blackfox-operation-observation/v1'',
             subject_metadata =
               [(''operation_id'', JStr (op_id st)), (''step_id'', JStr step_id),
                (''epoch'', JInt (epoch st)),
                (''request_id'', JStr (attempt_request_id (step_attempt current))),
                (''authorization_receipt_id'', JStr rid)]\<rparr>) (\<lambda>subject.
            Inr (subject, current)))))))
      | _ \<Rightarrow> Inl (conflict ''Step has no retained attempt to observe.''))"

definition verify_observation ::
  "op_gateway \<Rightarrow> authority_subject \<Rightarrow> string \<Rightarrow> int \<Rightarrow> evidence_artifact option res" where
  "verify_observation og target ref now =
     res_bind (observation_policy (og_autonomy og)) (\<lambda>policy.
     res_bind (verify_one (og_hash og) (env_hmac (og_env og)) (env_runtime (og_env og)) (og_parse og)
                 (env_loads (og_env og)) (og_evidence og) ref target policy now) (\<lambda>(v, found).
     case found of
       None \<Rightarrow> Inr None
     | Some a \<Rightarrow>
       if \<not> verification_passed v \<or> evidence_kind a \<noteq> OBSERVATION
         \<or> evidence_key_id a \<noteq> observer_key_id (og_autonomy og)
       then Inr None
       else res_bind (op_timestamp (og_parse og) (JStr (produced_at a))) (\<lambda>t.
         Inr (if now < t then None else Some a))))"

definition current_observation ::
  "op_gateway \<Rightarrow> op_state \<Rightarrow> int \<Rightarrow> string \<Rightarrow> op_observation option res" where
  "current_observation og st now step_id =
     (case Option.bind (dict_get (op_steps st) step_id) step_observation of
        None \<Rightarrow> Inr None
      | Some x \<Rightarrow>
        if observed_epoch x \<noteq> epoch st then Inr None
        else
        res_bind (observation_target og st step_id) (\<lambda>(target, _).
        res_bind (verify_observation og target (observed_ref x) now) (\<lambda>artifact.
          Inr (case artifact of
            Some a \<Rightarrow> if evidence_digest a = observed_digest x then Some x else None
          | None \<Rightarrow> None))))"

section \<open>Dependencies\<close>

text \<open>
  The worklist loop of \<open>_dependency_digests\<close>: \<open>pending.pop()\<close> takes the last name. Each turn either
  drops a name that was found or finds a new step of the plan, so the loop ends for every plan,
  cyclic ones included.
\<close>

function dependency_walk ::
  "(string \<Rightarrow> op_observation option res) \<Rightarrow> plan_step dict \<Rightarrow> string list \<Rightarrow> string dict
    \<Rightarrow> string dict res" where
  "dependency_walk obs steps pending found =
     (if pending = [] then Inr found
      else if last pending \<in> set (dict_keys found)
      then dependency_walk obs steps (butlast pending) found
      else case obs (last pending) of
        Inl e \<Rightarrow> Inl e
      | Inr None \<Rightarrow> Inl (conflict ''A dependency has no current verified outcome.'')
      | Inr (Some x) \<Rightarrow>
        if observed_disposition x \<noteq> Verified
        then Inl (conflict ''A dependency has no current verified outcome.'')
        else (case dict_get steps (last pending) of
          None \<Rightarrow> Inl (KeyError (last pending))
        | Some s \<Rightarrow> dependency_walk obs steps (butlast pending @ depends_on s)
            (found @ [(last pending, observed_digest x)])))"
  by pat_completeness auto

termination
proof (relation "measures [\<lambda>(obs, steps, pending, found).
    card (set (dict_keys steps) - set (dict_keys found)), \<lambda>(obs, steps, pending, found). length pending]",
    goal_cases)
  case (3 obs steps pending found x s)
  then have "last pending \<in> set (dict_keys steps)" by (metis dict_get_keys option.distinct(1))
  with 3(2) have "set (dict_keys steps) - insert (last pending) (set (dict_keys found))
      \<subset> set (dict_keys steps) - set (dict_keys found)" by blast
  then have "card (set (dict_keys steps) - insert (last pending) (set (dict_keys found)))
      < card (set (dict_keys steps) - set (dict_keys found))" by (intro psubset_card_mono) auto
  then show ?case by simp
qed auto

declare dependency_walk.simps [simp del]

definition dependency_digests :: "op_gateway \<Rightarrow> op_state \<Rightarrow> string \<Rightarrow> int \<Rightarrow> string dict res" where
  "dependency_digests og st step_id now =
     (case dict_get (plan_steps (op_plan st)) step_id of
        None \<Rightarrow> Inl (KeyError step_id)
      | Some s \<Rightarrow> dependency_walk (current_observation og st now) (plan_steps (op_plan st))
          (depends_on s) [])"

section \<open>Readiness\<close>

definition check_window :: "op_gateway \<Rightarrow> op_state \<Rightarrow> int \<Rightarrow> unit res" where
  "check_window og st now =
     (if op_closed st then Inl (conflict ''Operation is closed or expired.'')
      else res_bind (op_timestamp (og_parse og) (JStr (plan_expires_at (op_plan st)))) (\<lambda>expires.
      if expires \<le> now then Inl (conflict ''Operation is closed or expired.'')
      else if facts_until st = [] then Inl (conflict ''Operation conditions are suspended or stale.'')
      else res_bind (op_timestamp (og_parse og) (JStr (facts_until st))) (\<lambda>until.
      if until \<le> now then Inl (conflict ''Operation conditions are suspended or stale.'')
      else Inr ())))"

definition precondition_fails :: "op_state \<Rightarrow> string \<times> json \<Rightarrow> bool res" where
  "precondition_fails st kv = (case dict_get (facts st) (fst kv) of
     None \<Rightarrow> Inr True
   | Some actual \<Rightarrow>
       res_bind (canonical_bytes actual) (\<lambda>x.
       res_bind (canonical_bytes (snd kv)) (\<lambda>y. Inr (x \<noteq> y))))"

definition outstanding :: "op_attempt \<Rightarrow> op_observation option \<Rightarrow> bool" where
  "outstanding a x = (attempt_phase a \<in> {Phase_Attempted, Phase_Reserved}
     \<and> (case x of None \<Rightarrow> True | Some y \<Rightarrow> observed_disposition y = Mismatch))"

definition reconciled :: "op_gateway \<Rightarrow> op_state \<Rightarrow> int \<Rightarrow> string \<times> step_state \<Rightarrow> unit res" where
  "reconciled og st now ks =
     res_bind (current_observation og st now (fst ks)) (\<lambda>x.
       if outstanding (step_attempt (snd ks)) x
       then Inl (conflict ''An outstanding attempt requires independent reconciliation.'')
       else Inr ())"

definition check_ready ::
  "op_gateway \<Rightarrow> op_state \<Rightarrow> string \<Rightarrow> (nat \<Rightarrow> int) \<Rightarrow> (plan_step \<times> string dict) res" where
  "check_ready og st step_id clk =
     res_bind (check_window og st (clk 0)) (\<lambda>_.
     res_bind (snapshot og st) (\<lambda>snap.
     if approval st \<noteq> snap
     then Inl (OperationError ''Current operation snapshot requires operator approval.'' 403)
     else case dict_get (plan_steps (op_plan st)) step_id of
       None \<Rightarrow> Inl (OperationError ''Step not found.'' 404)
     | Some step \<Rightarrow>
     res_bind (res_any (precondition_fails st) (preconditions step)) (\<lambda>unmet.
     if unmet then Inl (conflict ''Step preconditions are not satisfied.'')
     else
     res_bind (res_map (reconciled og st (clk 1)) (op_steps st)) (\<lambda>_.
     res_bind (dependency_digests og st step_id (clk 1)) (\<lambda>deps. Inr (step, deps))))))"

section \<open>Proposing\<close>

definition thirty_days :: int where
  "thirty_days = seconds (30 * 86400)"

definition check_proposed_step :: "op_gateway \<Rightarrow> string \<times> plan_step \<Rightarrow> unit res" where
  "check_proposed_step og ks =
     (let s = snd ks in
      if step_tool_name s \<notin> set (autonomy_tools (og_autonomy og))
      then Inl (operation_error ''Plan contains a tool outside the operation allowlist.'')
      else res_bind (registry_lookup (cfg_registry (og_config og)) (step_agent_id s)) (\<lambda>agent.
        if agent = None then Inl (operation_error ''Plan contains an unregistered agent.'')
        else res_bind (build_subject (og_env og) (og_config og) (step_agent_id s) (step_tool_name s)
               (step_arguments s) PROTOCOL None None) (\<lambda>_. Inr ())))"

text \<open>Clock readings: 0 for the expiry, 1 for the journal.\<close>

definition propose ::
  "op_gateway \<Rightarrow> (nat \<Rightarrow> int) \<Rightarrow> string \<Rightarrow> json \<Rightarrow> op_store \<Rightarrow> ((string \<times> string) \<times> op_store) res" where
  "propose og clk aid payload db =
     res_bind (parse_plan (og_parse og) (env_runtime (og_env og)) payload) (\<lambda>plan.
     res_bind (op_timestamp (og_parse og) (JStr (plan_expires_at plan))) (\<lambda>expires.
     if \<not> (clk 0 < expires \<and> expires \<le> clk 0 + thirty_days)
     then Inl (operation_error ''Operation expiry must be within the next 30 days.'')
     else
     res_bind (res_map (check_proposed_step og) (plan_steps plan)) (\<lambda>_.
     res_bind (digest (og_hash og) (operation_plan_dict plan)) (\<lambda>pd.
     if dict_get (operations db) (plan_operation_id plan) \<noteq> None
     then Inl (conflict ''Operation identifier is already reserved.'')
     else
     res_bind (save_operation (py_isoformat (env_runtime (og_env og)) (clk 1))
       \<lparr>op_plan = plan, plan_digest = pd, proposer = aid, epoch = 0, facts = [], facts_until = [],
        approval = [], attempts = 0, cost_spent = 0, op_closed = False, op_steps = []\<rparr>
       ''proposed'' [(''proposer'', JStr aid), (''plan_digest'', JStr pd)] db) (\<lambda>db'.
       Inr ((plan_operation_id plan, pd), db'))))))"

section \<open>Dispatch\<close>

definition step_subject ::
  "op_gateway \<Rightarrow> authenticated_principal \<Rightarrow> op_state \<Rightarrow> string \<Rightarrow> (nat \<Rightarrow> int)
    \<Rightarrow> (plan_step \<times> authority_subject \<times> dispatch_binding) res" where
  "step_subject og who st step_id clk =
     (case dict_get (plan_steps (op_plan st)) step_id of
        None \<Rightarrow> Inl (OperationError ''Step not found for this agent.'' 404)
      | Some step \<Rightarrow>
        if step_agent_id step \<noteq> principal_agent_id who
          \<or> step_tool_name step \<notin> set (autonomy_tools (og_autonomy og))
        then Inl (OperationError ''Step not found for this agent.'' 404)
        else if (case dict_get (op_steps st) step_id of None \<Rightarrow> False
            | Some s \<Rightarrow> attempt_phase (step_attempt s) \<noteq> Phase_Not_Attempted)
        then Inl (conflict ''Step already has an attempt requiring retention or reconciliation.'')
        else if max_attempts (op_plan st) \<le> attempts st
          \<or> max_cost (op_plan st) < cost_spent st + step_cost step
        then Inl (conflict ''Operation budget is exhausted.'')
        else
        res_bind (check_ready og st step_id clk) (\<lambda>(_, deps).
        let binding = \<lparr>bound_operation = op_id st, bound_plan_digest = plan_digest st,
              bound_epoch = epoch st, bound_snapshot = approval st, bound_step = step_id,
              bound_attempt = attempts st + 1, bound_dependencies = deps\<rparr> in
        res_bind (build_subject (og_env og) (og_config og) (principal_agent_id who)
                    (step_tool_name step) (step_arguments step) PROTOCOL (Some who)
                    (Some (binding_members binding))) (\<lambda>subject.
        if authorize_action (env_runtime (og_env og)) who (subject_tool_name subject)
             (subject_repository_id subject) (subject_path subject) \<noteq> []
        then Inl (OperationError ''Principal is not delegated to this step.'' 403)
        else Inr (step, subject, binding))))"

text \<open>
  The first transaction of \<open>_dispatch\<close>: without authority nothing is stored and the decision is
  returned, otherwise the attempt is reserved and its permit returned: binding, idempotency key
  and request id. Clock readings 0 and 1 are those of \<open>check_ready\<close>, 2 is \<open>prepare_authority\<close>'s,
  3 the time of the reservation, 4 the journal's.
\<close>

record permit =
  permit_binding :: dispatch_binding
  permit_key :: string
  permit_request_id :: string

definition reserve_attempt ::
  "op_gateway \<Rightarrow> (nat \<Rightarrow> int) \<Rightarrow> string \<Rightarrow> authenticated_principal \<Rightarrow> string \<Rightarrow> string
    \<Rightarrow> string list \<Rightarrow> op_store \<Rightarrow> ((live_decision + permit) \<times> op_store) res" where
  "reserve_attempt og clk fresh who op step_id evidence db =
     res_bind (load_operation db op) (\<lambda>st.
     res_bind (step_subject og who st step_id clk) (\<lambda>(step, subject, binding).
     res_bind (prepare_authority (og_env og) (og_config og) (og_evidence og) (principal_agent_id who)
                 (step_tool_name step) (step_arguments step) evidence PROTOCOL (Some who)
                 (Some (binding_members binding)) fresh (clk 2)) (\<lambda>prepared.
     if live_status (prepared_decision prepared) \<noteq> LIVE_ALLOW
     then Inr (Inl (prepared_decision prepared), db)
     else
     res_bind (digest (og_hash og) (JObj (binding_members binding))) (\<lambda>bd.
     res_bind (digest (og_hash og) (JObj
        [(''agent_id'', JStr (principal_agent_id who)),
         (''connector_id'', JStr (route_connector_id (prepared_route prepared))),
         (''tool_name'', JStr (step_tool_name step)),
         (''key'', JStr (''op:'' @ bd))])) (\<lambda>rid.
     res_bind (subject_digest (og_hash og) subject) (\<lambda>sd.
     let attempt = \<lparr>attempt_phase = Phase_Reserved, attempt_subject_digest = sd,
           attempt_request_id = rid,
           reserved_at = py_isoformat (env_runtime (og_env og)) (clk 3),
           attempt_binding = binding, authorization_receipt_id = None, transport_state = None\<rparr>;
         st' = st\<lparr>op_steps := dict_set step_id
             \<lparr>step_attempt = attempt, step_observation = None\<rparr> (op_steps st),
           attempts := attempts st + 1, cost_spent := cost_spent st + step_cost step\<rparr> in
     res_bind (save_operation (py_isoformat (env_runtime (og_env og)) (clk 4)) st' ''reserved''
                 [(''step_id'', JStr step_id), (''attempt'', attempt_dict attempt)] db) (\<lambda>db'.
       Inr (Inr \<lparr>permit_binding = binding, permit_key = ''op:'' @ bd, permit_request_id = rid\<rparr>,
            db'))))))))"

definition step_of :: "op_state \<Rightarrow> string \<Rightarrow> step_state res" where
  "step_of st step_id = (case dict_get (op_steps st) step_id of
     None \<Rightarrow> Inl (KeyError step_id) | Some s \<Rightarrow> Inr s)"

definition record_authorization ::
  "op_gateway \<Rightarrow> (nat \<Rightarrow> int) \<Rightarrow> string \<Rightarrow> string \<Rightarrow> string \<Rightarrow> string \<Rightarrow> op_store \<Rightarrow> op_store res" where
  "record_authorization og clk op step_id rid receipt_id db =
     res_bind (load_operation db op) (\<lambda>st.
     res_bind (step_of st step_id) (\<lambda>s.
     let a = step_attempt s in
     if attempt_request_id a \<noteq> rid \<or> attempt_phase a \<noteq> Phase_Reserved
     then Inl (conflict ''Attempt changed before authorization was recorded.'')
     else save_operation (py_isoformat (env_runtime (og_env og)) (clk 0))
       (st\<lparr>op_steps := dict_set step_id
          (s\<lparr>step_attempt := a\<lparr>authorization_receipt_id := Some receipt_id\<rparr>\<rparr>) (op_steps st)\<rparr>)
       ''authorized''
       [(''step_id'', JStr step_id), (''request_id'', JStr rid),
        (''authorization_receipt_id'', JStr receipt_id)] db))"

definition same_dict :: "string dict \<Rightarrow> string dict \<Rightarrow> bool" where
  "same_dict d e = (list_all (\<lambda>k. dict_get d k = dict_get e k) (dict_keys d @ dict_keys e))"

text \<open>
  \<open>_guard\<close> up to its \<open>yield\<close>: the state in which the effect may happen. The attempt's own entry is
  taken out while readiness is checked. \<open>revalidate\<close> is the gateway's last check of its authority.
  Clock readings 0 and 1 are those of \<open>check_ready\<close>, 2 is the second window check's.
\<close>

definition guard_entry ::
  "op_gateway \<Rightarrow> (nat \<Rightarrow> int) \<Rightarrow> dispatch_binding \<Rightarrow> string \<Rightarrow> string \<Rightarrow> unit res \<Rightarrow> op_store
    \<Rightarrow> (op_state \<times> step_state) res" where
  "guard_entry og clk b rid receipt_id revalidate db =
     res_bind (load_operation db (bound_operation b)) (\<lambda>st.
     res_bind (step_of st (bound_step b)) (\<lambda>current.
     let a = step_attempt current in
     if approval st \<noteq> bound_snapshot b \<or> attempt_request_id a \<noteq> rid
       \<or> attempt_phase a \<noteq> Phase_Reserved \<or> authorization_receipt_id a \<noteq> Some receipt_id
       \<or> step_observation current \<noteq> None
     then Inl (conflict ''Operation changed before dispatch.'')
     else
     let alone = st\<lparr>op_steps := dict_del (bound_step b) (op_steps st)\<rparr> in
     res_bind revalidate (\<lambda>_.
     res_bind (check_ready og alone (bound_step b) clk) (\<lambda>(_, deps).
     if \<not> same_dict deps (bound_dependencies b)
     then Inl (conflict ''Dependency evidence changed before dispatch.'')
     else res_bind (check_window og alone (clk 2)) (\<lambda>_.
       Inr (alone\<lparr>op_steps := dict_set (bound_step b) current (op_steps alone)\<rparr>, current))))))"

text \<open>
  The whole guard. The first component says whether the body of the \<open>with\<close> block ran; whatever
  it raised, the attempt is marked before the exception goes on. Clock reading 3 is the journal's.
\<close>

definition guard ::
  "op_gateway \<Rightarrow> (nat \<Rightarrow> int) \<Rightarrow> dispatch_binding \<Rightarrow> string \<Rightarrow> string \<Rightarrow> unit res \<Rightarrow> op_store
    \<Rightarrow> bool \<times> op_store res" where
  "guard og clk b rid receipt_id revalidate db =
     (case guard_entry og clk b rid receipt_id revalidate db of
        Inl e \<Rightarrow> (False, Inl e)
      | Inr (st, current) \<Rightarrow>
        let a = (step_attempt current)\<lparr>attempt_phase := Phase_Attempted\<rparr> in
        (True, save_operation (py_isoformat (env_runtime (og_env og)) (clk 3))
           (st\<lparr>op_steps := dict_set (bound_step b) (current\<lparr>step_attempt := a\<rparr>) (op_steps st)\<rparr>)
           ''attempted'' [(''step_id'', JStr (bound_step b)), (''attempt'', attempt_dict a)] db))"

definition truthy :: "json \<Rightarrow> bool" where
  "truthy v = (v \<notin> {JNull, JBool False, JInt 0, JFloat ''0.0'', JFloat ''-0.0'', JStr [], JList [], JObj []})"

text \<open>
  \<open>_finish_dispatch\<close>: what the transport reported, with the attempt as it is left. The body is the
  parsed response.
\<close>

definition finished_attempt :: "op_attempt \<Rightarrow> step_state \<Rightarrow> int \<Rightarrow> json \<Rightarrow> op_attempt" where
  "finished_attempt a s status execution =
     (let phase = (if attempt_phase a = Phase_Reserved \<and> execution = JStr ''not_attempted''
            \<and> status < 500 \<and> step_observation s = None
          then Phase_Not_Attempted else attempt_phase a) in
      a\<lparr>attempt_phase := phase,
        transport_state := Some (if phase = Phase_Reserved then JStr ''outcome_unknown''
          else if truthy execution then execution else JStr ''not_attempted'')\<rparr>)"

definition finish_dispatch ::
  "op_gateway \<Rightarrow> (nat \<Rightarrow> int) \<Rightarrow> string \<Rightarrow> string \<Rightarrow> string \<Rightarrow> int \<Rightarrow> json dict \<Rightarrow> op_store
    \<Rightarrow> (json dict \<times> op_store) res" where
  "finish_dispatch og clk op step_id rid status body db =
     res_bind (load_operation db op) (\<lambda>st.
     res_bind (step_of st step_id) (\<lambda>s.
     let a = step_attempt s; execution = dict_get_or body ''execution_state'' (JStr []);
         mine = (attempt_request_id a = rid);
         a' = (if mine then finished_attempt a s status execution else a);
         st' = st\<lparr>op_steps := dict_set step_id (s\<lparr>step_attempt := a'\<rparr>) (op_steps st)\<rparr> in
     res_bind (if mine
       then save_operation (py_isoformat (env_runtime (og_env og)) (clk 0)) st' ''transport_reported''
         [(''step_id'', JStr step_id), (''request_id'', JStr rid),
          (''transport_state'', the (transport_state a')),
          (''receipt_id'', dict_get_or body ''receipt_id'' (JStr []))] db
       else Inr db) (\<lambda>db'.
     let body' = (if attempt_phase a' = Phase_Reserved
           then dict_set ''retry_safe'' (JBool False)
             (dict_set ''execution_state'' (JStr ''outcome_unknown'') body) else body) in
     Inr (dict_set ''request_id'' (JStr rid) (dict_set ''step_id'' (JStr step_id)
            (dict_set ''operation_id'' (JStr op) body')), db'))))"

section \<open>Observing\<close>

definition observation_disposition ::
  "op_gateway \<Rightarrow> op_state \<Rightarrow> string \<Rightarrow> int \<Rightarrow> json \<Rightarrow> json dict \<Rightarrow> disposition res" where
  "observation_disposition og st step_id now kind observed =
     (case dict_get (plan_steps (op_plan st)) step_id of
        None \<Rightarrow> Inl (KeyError step_id)
      | Some step \<Rightarrow>
        if kind = JStr ''outcome''
        then res_bind (dependency_digests og st step_id now) (\<lambda>_.
          res_bind (canonical_bytes (JObj observed)) (\<lambda>x.
          res_bind (canonical_bytes (JObj (expected_outcome step))) (\<lambda>y.
            Inr (if x = y then Verified else Mismatch))))
        else if kind = JStr ''recovery''
        then res_bind (canonical_bytes (JObj observed)) (\<lambda>x.
          res_bind (canonical_bytes (JObj (recovery_outcome step))) (\<lambda>y.
            if x \<noteq> y
            then Inl (conflict ''Recovery evidence does not satisfy the approved obligation.'')
            else Inr Recovered))
        else Inl (operation_error ''Observation kind must be outcome or recovery.''))"

text \<open>
  \<open>_observe\<close> for the target and the entry that \<open>_observation_target\<close> gave. Repeating an observation
  of this epoch changes nothing; only a mismatch may be replaced, by a recovery.
\<close>

definition observe ::
  "op_gateway \<Rightarrow> (nat \<Rightarrow> int) \<Rightarrow> op_state \<Rightarrow> step_state \<Rightarrow> string \<Rightarrow> authority_subject \<Rightarrow> string
    \<Rightarrow> op_store \<Rightarrow> (op_state \<times> op_store) res" where
  "observe og clk st current step_id target ref db =
     (let refused = Inl (OperationError ''Fresh independent evidence bound to this attempt is required.'' 403) in
      res_bind (verify_observation og target ref (clk 0)) (\<lambda>found.
      case found of
        None \<Rightarrow> refused
      | Some a \<Rightarrow>
        res_bind (op_timestamp (og_parse og) (JStr (produced_at a))) (\<lambda>t.
        res_bind (op_timestamp (og_parse og) (JStr (reserved_at (step_attempt current)))) (\<lambda>r.
        if t < r then refused
        else
        res_bind (object_fields (JObj (evidence_payload a)) [''kind'', ''value''] ''observation'') (\<lambda>d.
        res_bind (op_object (field d ''value'') ''observed value'' 8192) (\<lambda>v.
        res_bind (observation_disposition og st step_id (clk 0) (field d ''kind'') v) (\<lambda>disp.
        let again = (case step_observation current of
              Some x \<Rightarrow> observed_epoch x = epoch st \<and> observed_digest x = evidence_digest a
            | None \<Rightarrow> False);
            fixed = (case step_observation current of
              Some x \<Rightarrow> observed_epoch x = epoch st
                \<and> (observed_disposition x \<noteq> Mismatch \<or> disp \<noteq> Recovered)
            | None \<Rightarrow> False) in
        if again then Inr (st, db)
        else if fixed
        then Inl (conflict ''Existing observation requires a new epoch before replacement.'')
        else
        let x = \<lparr>observed_epoch = epoch st, observed_disposition = disp, observed_value = v,
              observed_ref = ref, observed_digest = evidence_digest a,
              observed_issuer = evidence_issuer a, observed_produced_at = produced_at a\<rparr>;
            st' = st\<lparr>op_steps := dict_set step_id (current\<lparr>step_observation := Some x\<rparr>) (op_steps st)\<rparr> in
        res_bind (save_operation (py_isoformat (env_runtime (og_env og)) (clk 1)) st' ''observed''
           ((''step_id'', JStr step_id) # observation_members x) db) (\<lambda>db'. Inr (st', db')))))))))"

section \<open>Inspection\<close>

definition step_status ::
  "op_gateway \<Rightarrow> op_state \<Rightarrow> int \<Rightarrow> string \<Rightarrow> string res" where
  "step_status og st now name =
     (case dict_get (op_steps st) name of
        None \<Rightarrow> Inr ''pending''
      | Some s \<Rightarrow>
        (case step_observation s of
           Some x \<Rightarrow> res_bind (current_observation og st now name) (\<lambda>c.
             Inr (if c = None then ''observation_stale'' else disposition_value (observed_disposition x)))
         | None \<Rightarrow> Inr (if attempt_phase (step_attempt s) = Phase_Reserved then ''outcome_unknown''
             else attempt_phase_value (attempt_phase (step_attempt s)))))"

record operation_view =
  view_state :: op_state
  view_snapshot :: string
  view_status :: "(string \<times> string) list"
  view_approved :: bool
  view_complete :: bool

text \<open>The four conditions of \<open>approved\<close> are tried in this order.\<close>

definition view_approval :: "op_gateway \<Rightarrow> op_state \<Rightarrow> string \<Rightarrow> int \<Rightarrow> bool res" where
  "view_approval og st snap now =
     (if approval st \<noteq> snap \<or> facts_until st = [] then Inr False
      else res_bind (op_timestamp (og_parse og) (JStr (facts_until st))) (\<lambda>until.
      if until \<le> now then Inr False
      else res_bind (op_timestamp (og_parse og) (JStr (plan_expires_at (op_plan st)))) (\<lambda>expires.
        Inr (now < expires \<and> \<not> op_closed st))))"

definition inspect_operation :: "op_gateway \<Rightarrow> op_state \<Rightarrow> int \<Rightarrow> operation_view res" where
  "inspect_operation og st now =
     res_bind (snapshot og st) (\<lambda>snap.
     res_bind (res_map (\<lambda>(k, _). res_bind (step_status og st now k) (\<lambda>s. Inr (k, s)))
       (plan_steps (op_plan st))) (\<lambda>statuses.
     res_bind (view_approval og st snap now) (\<lambda>ok.
       Inr \<lparr>view_state = st, view_snapshot = snap, view_status = statuses, view_approved = ok,
            view_complete = (statuses \<noteq> [] \<and> list_all (\<lambda>ks. snd ks = ''verified'') statuses)\<rparr>)))"

section \<open>Operator actions\<close>

definition approve ::
  "op_gateway \<Rightarrow> (nat \<Rightarrow> int) \<Rightarrow> op_state \<Rightarrow> json \<Rightarrow> json \<Rightarrow> op_store \<Rightarrow> (op_state \<times> op_store) res" where
  "approve og clk st snapshot_digest reviewer db =
     res_bind (check_window og st (clk 0)) (\<lambda>_.
     res_bind (snapshot og st) (\<lambda>snap.
     if snapshot_digest \<noteq> JStr snap
     then Inl (conflict ''Operation conditions or policy changed; inspect again.'')
     else res_bind (op_text reviewer ''reviewer'' 128) (\<lambda>who.
     if approval st = snap then Inr (st, db)
     else let st' = st\<lparr>approval := snap\<rparr> in
     res_bind (save_operation (py_isoformat (env_runtime (og_env og)) (clk 1)) st' ''approved''
        [(''snapshot_digest'', JStr snap), (''reviewer'', JStr who)] db) (\<lambda>db'. Inr (st', db')))))"

datatype epoch_action = Set_Conditions | Suspend | Close

fun epoch_action_name :: "epoch_action \<Rightarrow> string" where
  "epoch_action_name Set_Conditions = ''conditions''"
| "epoch_action_name Suspend = ''suspend''"
| "epoch_action_name Close = ''close''"

definition new_conditions ::
  "op_gateway \<Rightarrow> (nat \<Rightarrow> int) \<Rightarrow> op_state \<Rightarrow> json dict \<Rightarrow> op_state res" where
  "new_conditions og clk st d =
     res_bind (op_object (field d ''facts'') ''facts'' 8192) (\<lambda>fs.
     res_bind (res_map (\<lambda>k. op_identifier (JStr k)) (dict_keys fs)) (\<lambda>_.
     res_bind (op_timestamp (og_parse og) (field d ''valid_until'')) (\<lambda>until.
     if \<not> (clk 0 < until \<and> until \<le> clk 0 + seconds (max_evidence_age (og_autonomy og)))
     then Inl (operation_error ''Condition expiry exceeds the configured freshness window.'')
     else Inr (st\<lparr>facts := fs, facts_until := py_isoformat (env_runtime (og_env og)) until\<rparr>))))"

text \<open>Every action of this kind starts a new epoch and drops the approval.\<close>

definition change_epoch ::
  "op_gateway \<Rightarrow> (nat \<Rightarrow> int) \<Rightarrow> epoch_action \<Rightarrow> op_state \<Rightarrow> json dict \<Rightarrow> op_store
    \<Rightarrow> (op_state \<times> op_store) res" where
  "change_epoch og clk action st d db =
     res_bind (op_integer (field d ''epoch'') ''epoch'' 0 (2 ^ 63 - 2)) (\<lambda>e.
     if e \<noteq> epoch st then Inl (conflict ''Operation epoch changed; inspect again.'')
     else
     res_bind (op_text (field d ''reason'') ''reason'' 1024) (\<lambda>reason.
     res_bind (case action of
         Set_Conditions \<Rightarrow> new_conditions og clk st d
       | Close \<Rightarrow> Inr (st\<lparr>op_closed := True\<rparr>)
       | Suspend \<Rightarrow> Inr (st\<lparr>facts_until := []\<rparr>)) (\<lambda>changed.
     let st' = changed\<lparr>epoch := epoch changed + 1, approval := []\<rparr> in
     res_bind (save_operation (py_isoformat (env_runtime (og_env og)) (clk 1)) st'
        (epoch_action_name action)
        [(''epoch'', JInt (epoch st')), (''reason'', JStr reason), (''facts'', JObj (facts st')),
         (''facts_until'', JStr (facts_until st'))] db) (\<lambda>db'. Inr (st', db')))))"

datatype operator_action =
    Inspect | Events | Approve | Change epoch_action | Observation_Target | Observe

fun operator_action_of :: "string \<Rightarrow> operator_action option" where
  "operator_action_of a =
     map_of [(''inspect'', Inspect), (''events'', Events), (''approve'', Approve),
       (''conditions'', Change Set_Conditions), (''suspend'', Change Suspend),
       (''close'', Change Close), (''observation-target'', Observation_Target),
       (''observe'', Observe)] a"

fun operator_fields :: "operator_action \<Rightarrow> string list" where
  "operator_fields Inspect = []"
| "operator_fields Events = [''after'']"
| "operator_fields Approve = [''snapshot_digest'', ''reviewer'']"
| "operator_fields (Change Set_Conditions) = [''epoch'', ''facts'', ''valid_until'', ''reason'']"
| "operator_fields (Change _) = [''epoch'', ''reason'']"
| "operator_fields Observation_Target = [''step_id'']"
| "operator_fields Observe = [''step_id'', ''evidence_ref'']"

datatype operator_reply =
    View operation_view
  | Event_Page "(int \<times> json) list"
  | Target authority_subject

text \<open>Clock reading 2 is that of the inspection at the end.\<close>

definition operator_view ::
  "op_gateway \<Rightarrow> (nat \<Rightarrow> int) \<Rightarrow> op_state \<times> op_store \<Rightarrow> (operator_reply \<times> op_store) res" where
  "operator_view og clk sd =
     res_bind (inspect_operation og (fst sd) (clk 2)) (\<lambda>v. Inr (View v, snd sd))"

definition operator ::
  "op_gateway \<Rightarrow> (nat \<Rightarrow> int) \<Rightarrow> string \<Rightarrow> json \<Rightarrow> op_store \<Rightarrow> (operator_reply \<times> op_store) res" where
  "operator og clk name payload db =
     (case operator_action_of name of
        None \<Rightarrow> Inl (OperationError ''Operation endpoint not found.'' 404)
      | Some action \<Rightarrow>
        res_bind (object_fields payload (''operation_id'' # operator_fields action) name) (\<lambda>d.
        res_bind (op_identifier (field d ''operation_id'')) (\<lambda>op.
        res_bind (load_operation db op) (\<lambda>st.
        case action of
          Inspect \<Rightarrow> operator_view og clk (st, db)
        | Events \<Rightarrow> res_bind (op_integer (field d ''after'') ''after'' 0 (2 ^ 63 - 1)) (\<lambda>n.
            Inr (Event_Page (operation_events db op n), db))
        | Observation_Target \<Rightarrow> res_bind (op_identifier (field d ''step_id'')) (\<lambda>s.
            res_bind (observation_target og st s) (\<lambda>(target, _). Inr (Target target, db)))
        | Observe \<Rightarrow> res_bind (op_identifier (field d ''step_id'')) (\<lambda>s.
            res_bind (observation_target og st s) (\<lambda>(target, current).
            res_bind (op_text (field d ''evidence_ref'') ''evidence reference'' 128) (\<lambda>ref.
            res_bind (observe og clk st current s target ref db) (operator_view og clk))))
        | Approve \<Rightarrow>
            if op_closed st then Inl (conflict ''Operation is closed.'')
            else res_bind (approve og clk st (field d ''snapshot_digest'') (field d ''reviewer'') db)
              (operator_view og clk)
        | Change c \<Rightarrow>
            if op_closed st then Inl (conflict ''Operation is closed.'')
            else res_bind (change_epoch og clk c st d db) (operator_view og clk)))))"

end
