(* ===== verification/CoordinatorSafety.thy ===== *)
theory CoordinatorSafety
  imports Coordinator
begin

text \<open>
  What the coordinator guarantees: each transaction changes one operation in a limited way; the
  walk over dependencies finds all of them; a dispatch happens only in a state that is ready; and,
  for any interleaving of requests, budgets bound the dispatches and a closed operation has none.
\<close>

section \<open>Stored states\<close>

lemma sorted_members_idem [simp]: "sorted_members (sorted_members d) = sorted_members d"
  by (metis json.inject(6) sort_keys_JObj sort_keys_idem)

lemma stored_plan_step_idem [simp]: "stored_plan_step (stored_plan_step s) = stored_plan_step s"
  by (simp add: stored_plan_step_def)

lemma stored_op_id [simp]: "op_id (stored st) = op_id st"
  by (simp add: op_id_def stored_def stored_plan_def)

text \<open>The fields that reading a stored state back leaves alone.\<close>

lemma stored_fields [simp]:
  "plan_digest (stored st) = plan_digest st" "proposer (stored st) = proposer st"
  "epoch (stored st) = epoch st" "facts_until (stored st) = facts_until st"
  "approval (stored st) = approval st" "attempts (stored st) = attempts st"
  "cost_spent (stored st) = cost_spent st" "op_closed (stored st) = op_closed st"
  "max_attempts (op_plan (stored st)) = max_attempts (op_plan st)"
  "max_cost (op_plan (stored st)) = max_cost (op_plan st)"
  "plan_operation_id (op_plan (stored st)) = plan_operation_id (op_plan st)"
  by (simp_all add: stored_def stored_plan_def)

lemma stored_op_plan: "op_plan (stored st) = stored_plan (op_plan st)"
  by (simp add: stored_def)

lemma stored_plan_idem [simp]: "stored_plan (stored_plan p) = stored_plan p"
proof -
  let ?f = "\<lambda>(k, s). (k :: string, stored_plan_step s)"
  {
    fix xs :: "plan_step dict"
    have "map ?f (sort_key fst (map ?f xs)) = sort_key fst (map ?f (map ?f xs))"
      by (rule sort_key_map) (simp add: split_beta)
    also have "map ?f (map ?f xs) = map ?f xs" by (simp add: split_beta comp_def)
    finally have "sort_key fst (map ?f (sort_key fst (map ?f xs))) = sort_key fst (map ?f xs)"
      by (simp only: sort_key_id_if_sorted sorted_sort_key)
  }
  then show ?thesis by (simp add: stored_plan_def)
qed

section \<open>One transaction\<close>

lemma save_operation_Inr:
  assumes "save_operation at st event details db = Inr db'"
  shows "operations db' = dict_set (op_id st) (stored st) (operations db)"
    and "\<exists>e. op_events db' = op_events db @ [(op_id st, e)]"
  using assms by (auto simp: save_operation_def res_simps)

text \<open>The plan is fixed, the epoch only grows, and a new epoch has no approval.\<close>

definition evolves :: "op_state \<Rightarrow> op_state \<Rightarrow> bool" where
  "evolves st st' \<longleftrightarrow> op_plan st' = op_plan st \<and> plan_digest st' = plan_digest st
     \<and> proposer st' = proposer st \<and> epoch st \<le> epoch st'
     \<and> (epoch st' \<noteq> epoch st \<longrightarrow> approval st' = [])
     \<and> (op_closed st \<longrightarrow> op_closed st')"

definition same_budget :: "op_state \<Rightarrow> op_state \<Rightarrow> bool" where
  "same_budget st st' \<longleftrightarrow> attempts st' = attempts st \<and> cost_spent st' = cost_spent st"

definition spends :: "op_state \<Rightarrow> op_state \<Rightarrow> bool" where
  "spends st st' \<longleftrightarrow> attempts st' = attempts st + 1 \<and> attempts st' \<le> max_attempts (op_plan st)
     \<and> cost_spent st' \<le> max_cost (op_plan st) \<and> \<not> op_closed st"

text \<open>The store after a transaction on \<open>op\<close> that relates the states by \<open>R\<close>.\<close>

definition commits ::
  "(op_state \<Rightarrow> op_state \<Rightarrow> bool) \<Rightarrow> string \<Rightarrow> op_store \<Rightarrow> op_store \<Rightarrow> bool" where
  "commits R op db db' \<longleftrightarrow> (\<exists>st st' at event details.
     dict_get (operations db) op = Some st \<and> evolves st st' \<and> R st st'
     \<and> save_operation at st' event details db = Inr db')"

lemma commits_intro:
  "save_operation at st' event details db = Inr db' \<Longrightarrow> load_operation db op = Inr st \<Longrightarrow>
     evolves st st' \<Longrightarrow> R st st' \<Longrightarrow> commits R op db db'"
  by (auto simp: commits_def load_operation_def split: option.splits)

section \<open>Ready to dispatch\<close>

definition window_open :: "op_gateway \<Rightarrow> op_state \<Rightarrow> int \<Rightarrow> bool" where
  "window_open og st now \<longleftrightarrow> \<not> op_closed st
     \<and> (\<exists>expires until. op_timestamp (og_parse og) (JStr (plan_expires_at (op_plan st))) = Inr expires
          \<and> op_timestamp (og_parse og) (JStr (facts_until st)) = Inr until
          \<and> now < expires \<and> now < until)"

definition precondition_holds :: "op_state \<Rightarrow> string \<times> json \<Rightarrow> bool" where
  "precondition_holds st kv \<longleftrightarrow> (\<exists>actual b. dict_get (facts st) (fst kv) = Some actual
     \<and> canonical_bytes actual = Inr b \<and> canonical_bytes (snd kv) = Inr b)"

definition ready ::
  "op_gateway \<Rightarrow> op_state \<Rightarrow> string \<Rightarrow> int \<Rightarrow> int \<Rightarrow> plan_step \<Rightarrow> string dict \<Rightarrow> bool" where
  "ready og st step_id t0 t1 step deps \<longleftrightarrow>
     window_open og st t0 \<and> snapshot og st = Inr (approval st)
     \<and> dict_get (plan_steps (op_plan st)) step_id = Some step
     \<and> (\<forall>kv \<in> set (preconditions step). precondition_holds st kv)
     \<and> (\<forall>(n, s) \<in> set (op_steps st). \<exists>x. current_observation og st t1 n = Inr x
          \<and> \<not> outstanding (step_attempt s) x)
     \<and> dependency_digests og st step_id t1 = Inr deps"

lemma check_window_Inr: "check_window og st now = Inr () \<Longrightarrow> window_open og st now"
  by (auto simp: check_window_def window_open_def res_simps split: if_splits)

lemma precondition_fails_False: "precondition_fails st kv = Inr False \<longleftrightarrow> precondition_holds st kv"
  by (auto simp: precondition_fails_def precondition_holds_def res_simps split: option.splits)

lemma res_any_False: "res_any p xs = Inr False \<longleftrightarrow> (\<forall>x \<in> set xs. p x = Inr False)"
  by (induction xs) (auto simp: res_simps split: if_splits)

lemma reconciled_all:
  "res_map (reconciled og st now) kss = Inr us \<Longrightarrow> (n, s) \<in> set kss \<Longrightarrow>
     \<exists>x. current_observation og st now n = Inr x \<and> \<not> outstanding (step_attempt s) x"
  by (drule res_map_Inr_ex, assumption) (auto simp: reconciled_def res_simps split: if_splits)

lemma check_ready_ready:
  "ensures (\<lambda>(step, deps). ready og st step_id (clk 0) (clk 1) step deps) (check_ready og st step_id clk)"
  unfolding check_ready_def
  by (intro ensures_bind ensures_if ensures_option ensures_Inl ensures_Inr)
    (auto simp: ready_def res_any_False precondition_fails_False
      dest: check_window_Inr reconciled_all)

lemma step_subject_ready:
  "ensures (\<lambda>(step, subject, b). \<exists>step'. ready og st step_id (clk 0) (clk 1) step' (bound_dependencies b)
       \<and> dict_get (plan_steps (op_plan st)) step_id = Some step
       \<and> bound_operation b = op_id st \<and> bound_step b = step_id \<and> bound_epoch b = epoch st
       \<and> bound_snapshot b = approval st \<and> bound_attempt b = attempts st + 1
       \<and> attempts st < max_attempts (op_plan st)
       \<and> cost_spent st + step_cost step \<le> max_cost (op_plan st)
       \<and> authorize_action (env_runtime (og_env og)) who (subject_tool_name subject)
           (subject_repository_id subject) (subject_path subject) = [])
     (step_subject og who st step_id clk)"
  unfolding step_subject_def Let_def
  by (intro ensures_bind ensures_if ensures_option ensures_Inl ensures_Inr ensures_prod)
    (auto dest!: ensuresD [OF check_ready_ready])

section \<open>What each transaction does\<close>

lemma record_authorization_commits:
  assumes "record_authorization og clk op step_id rid receipt_id db = Inr db'"
  shows "commits same_budget op db db'"
  using assms unfolding record_authorization_def
  by (auto simp: res_simps Let_def evolves_def same_budget_def split: if_splits intro: commits_intro)


lemma guard_commits:
  assumes "guard og clk b rid receipt_id revalidate db = (entered, Inr db')"
  shows "commits same_budget (bound_operation b) db db'" and "entered"
proof -
  from assms obtain st current where e:
    "guard_entry og clk b rid receipt_id revalidate db = Inr (st, current)" "entered"
    and s: "save_operation (py_isoformat (env_runtime (og_env og)) (clk 3))
      (st\<lparr>op_steps := dict_set (bound_step b) (current\<lparr>step_attempt :=
         (step_attempt current)\<lparr>attempt_phase := Phase_Attempted\<rparr>\<rparr>) (op_steps st)\<rparr>)
      ''attempted'' [(''step_id'', JStr (bound_step b)),
        (''attempt'', attempt_dict ((step_attempt current)\<lparr>attempt_phase := Phase_Attempted\<rparr>))] db
      = Inr db'"
    by (auto simp: guard_def Let_def split: sum.splits)
  show entered by (rule e)
  have "ensures (\<lambda>v. \<exists>st0. load_operation db (bound_operation b) = Inr st0
      \<and> (\<exists>ss. fst v = st0\<lparr>op_steps := ss\<rparr>))
    (guard_entry og clk b rid receipt_id revalidate db)"
    unfolding guard_entry_def Let_def
    by (intro ensures_bind ensures_if ensures_Inl ensures_Inr ensures_prod) auto
  from ensuresD [OF this e(1)] obtain st0 ss where
    "load_operation db (bound_operation b) = Inr st0" "st = st0\<lparr>op_steps := ss\<rparr>" by auto
  with s show "commits same_budget (bound_operation b) db db'"
    by (auto simp: evolves_def same_budget_def intro: commits_intro)
qed

lemma finish_dispatch_commits:
  assumes "finish_dispatch og clk op step_id rid status body db = Inr (body', db')"
  shows "db' = db \<or> commits same_budget op db db'"
proof -
  have "ensures (\<lambda>v. snd v = db \<or> commits same_budget op db (snd v))
    (finish_dispatch og clk op step_id rid status body db)"
    unfolding finish_dispatch_def Let_def
    by (intro ensures_bind ensures_Inr)
      (auto simp: evolves_def same_budget_def split: if_splits intro: commits_intro)
  from ensuresD [OF this assms] show ?thesis by simp
qed

lemma change_epoch_commits:
  assumes "change_epoch og clk action st d db = Inr (st', db')" "load_operation db op = Inr st"
  shows "commits same_budget op db db' \<and> epoch st' = epoch st + 1 \<and> approval st' = []
    \<and> (action = Close \<longrightarrow> op_closed st')"
proof -
  let ?P = "\<lambda>st1. op_plan st1 = op_plan st \<and> plan_digest st1 = plan_digest st
    \<and> proposer st1 = proposer st \<and> epoch st1 = epoch st \<and> attempts st1 = attempts st
    \<and> cost_spent st1 = cost_spent st \<and> (op_closed st \<longrightarrow> op_closed st1)"
  have new: "ensures ?P (new_conditions og clk st d)"
    unfolding new_conditions_def by (intro ensures_bind ensures_if ensures_Inl ensures_Inr) simp
  have act: "ensures (\<lambda>st1. ?P st1 \<and> (action = Close \<longrightarrow> op_closed st1))
    (case action of Set_Conditions \<Rightarrow> new_conditions og clk st d
       | Close \<Rightarrow> Inr (st\<lparr>op_closed := True\<rparr>) | Suspend \<Rightarrow> Inr (st\<lparr>facts_until := []\<rparr>))"
  proof (cases action)
    case Set_Conditions
    have "ensures (\<lambda>st1. ?P st1 \<and> (Set_Conditions = Close \<longrightarrow> op_closed st1)) (new_conditions og clk st d)"
      by (rule ensures_mono [OF new]) simp
    then show ?thesis unfolding Set_Conditions epoch_action.case .
  qed simp_all
  have "ensures (\<lambda>v. commits same_budget op db (snd v) \<and> epoch (fst v) = epoch st + 1
      \<and> approval (fst v) = [] \<and> (action = Close \<longrightarrow> op_closed (fst v)))
    (change_epoch og clk action st d db)"
    unfolding change_epoch_def Let_def
  proof (intro ensures_bind ensures_if ensures_Inl ensures_Inr)
    fix e :: int and reason and st1 :: op_state and db'
    let ?st' = "st1\<lparr>epoch := epoch st1 + 1, approval := []\<rparr>"
    assume act1: "(case action of Set_Conditions \<Rightarrow> new_conditions og clk st d
        | Suspend \<Rightarrow> Inr (st\<lparr>facts_until := []\<rparr>) | Close \<Rightarrow> Inr (st\<lparr>op_closed := True\<rparr>)) = Inr st1"
      and save: "save_operation (py_isoformat (env_runtime (og_env og)) (clk 1)) ?st'
        (epoch_action_name action)
        [(''epoch'', JInt (epoch ?st')), (''reason'', JStr reason), (''facts'', JObj (facts ?st')),
         (''facts_until'', JStr (facts_until ?st'))] db = Inr db'"
    from ensuresD [OF act act1] have P: "?P st1" "action = Close \<longrightarrow> op_closed st1" by simp_all
    from save assms(2) have "commits same_budget op db db'"
      by (rule commits_intro) (use P in \<open>simp_all add: evolves_def same_budget_def\<close>)
    with P show "commits same_budget op db (snd (?st', db')) \<and> epoch (fst (?st', db')) = epoch st + 1
        \<and> approval (fst (?st', db')) = [] \<and> (action = Close \<longrightarrow> op_closed (fst (?st', db')))"
      by simp
  qed
  from ensuresD [OF this assms(1)] show ?thesis by simp
qed

lemma reserve_attempt_commits:
  assumes "reserve_attempt og clk fresh who op step_id evidence db = Inr (Inr p, db')"
  shows "commits spends op db db' \<and> (\<exists>st. dict_get (operations db) op = Some st
    \<and> bound_operation (permit_binding p) = op_id st)"
proof -
  have "ensures (\<lambda>v. \<forall>p. fst v = Inr p \<longrightarrow> commits spends op db (snd v)
      \<and> (\<exists>st. load_operation db op = Inr st \<and> bound_operation (permit_binding p) = op_id st))
    (reserve_attempt og clk fresh who op step_id evidence db)"
    unfolding reserve_attempt_def Let_def
  proof (intro ensures_bind ensures_prod ensures_if ensures_Inr allI impI conjI)
    fix st v step sb subject binding prepared bd rid sd db' p
    assume st: "load_operation db op = Inr st" and v: "step_subject og who st step_id clk = Inr v"
      "v = (step, sb)" "sb = (subject, binding)"
      and save: "save_operation (py_isoformat (env_runtime (og_env og)) (clk 4))
        (st\<lparr>op_steps := dict_set step_id \<lparr>step_attempt = \<lparr>attempt_phase = Phase_Reserved,
            attempt_subject_digest = sd, attempt_request_id = rid,
            reserved_at = py_isoformat (env_runtime (og_env og)) (clk 3),
            attempt_binding = binding, authorization_receipt_id = None, transport_state = None\<rparr>,
            step_observation = None\<rparr> (op_steps st),
          attempts := attempts st + 1, cost_spent := cost_spent st + step_cost step\<rparr>)
        ''reserved'' [(''step_id'', JStr step_id), (''attempt'', attempt_dict
           \<lparr>attempt_phase = Phase_Reserved, attempt_subject_digest = sd, attempt_request_id = rid,
            reserved_at = py_isoformat (env_runtime (og_env og)) (clk 3),
            attempt_binding = binding, authorization_receipt_id = None, transport_state = None\<rparr>)] db
        = Inr db'"
      and p: "fst (Inr \<lparr>permit_binding = binding, permit_key = ''op:'' @ bd, permit_request_id = rid\<rparr>, db')
        = (Inr p :: live_decision + permit)"
    from ensuresD [OF step_subject_ready v(1)] v(2,3) have r: "\<not> op_closed st"
      "bound_operation binding = op_id st" "attempts st < max_attempts (op_plan st)"
      "cost_spent st + step_cost step \<le> max_cost (op_plan st)"
      by (auto simp: ready_def window_open_def)
    show "commits spends op db (snd (Inr \<lparr>permit_binding = binding, permit_key = ''op:'' @ bd,
        permit_request_id = rid\<rparr> :: live_decision + permit, db'))"
      unfolding snd_conv
      by (rule commits_intro [OF save st]) (use r in \<open>simp_all add: evolves_def spends_def\<close>)
    from st r(2) p show "\<exists>st. load_operation db op = Inr st \<and> bound_operation (permit_binding p) = op_id st"
      by auto
  qed simp_all
  from ensuresD [OF this assms] show ?thesis
    by (auto simp: load_operation_def split: option.splits)
qed

lemma approve_commits:
  assumes "approve og clk st snap reviewer db = Inr (st', db')" "load_operation db op = Inr st"
  shows "db' = db \<or> commits same_budget op db db'"
  using assms unfolding approve_def
  by (auto simp: res_simps Let_def evolves_def same_budget_def split: if_splits intro: commits_intro)

lemma observe_commits:
  assumes "observe og clk st current step_id target ref db = Inr (st', db')"
    and "load_operation db op = Inr st"
  shows "db' = db \<or> commits same_budget op db db'"
proof -
  have "ensures (\<lambda>v. snd v = db \<or> commits same_budget op db (snd v))
    (observe og clk st current step_id target ref db)"
    unfolding observe_def Let_def
    by (intro ensures_bind ensures_option ensures_if ensures_Inl ensures_Inr)
      (use assms(2) in \<open>auto simp: evolves_def same_budget_def intro: commits_intro\<close>)
  from ensuresD [OF this assms(1)] show ?thesis by simp
qed

section \<open>What a redeemed permit found\<close>

definition without_step :: "string \<Rightarrow> op_state \<Rightarrow> op_state" where
  "without_step n st = st\<lparr>op_steps := dict_del n (op_steps st)\<rparr>"

definition redeemable ::
  "op_gateway \<Rightarrow> (nat \<Rightarrow> int) \<Rightarrow> dispatch_binding \<Rightarrow> string \<Rightarrow> string \<Rightarrow> op_state \<Rightarrow> step_state \<Rightarrow> bool" where
  "redeemable og clk b rid receipt_id st current \<longleftrightarrow>
     dict_get (op_steps st) (bound_step b) = Some current
     \<and> approval st = bound_snapshot b
     \<and> attempt_request_id (step_attempt current) = rid
     \<and> attempt_phase (step_attempt current) = Phase_Reserved
     \<and> authorization_receipt_id (step_attempt current) = Some receipt_id
     \<and> step_observation current = None
     \<and> (\<exists>step deps. ready og (without_step (bound_step b) st) (bound_step b) (clk 0) (clk 1) step deps
          \<and> same_dict deps (bound_dependencies b))
     \<and> window_open og (without_step (bound_step b) st) (clk 2)"

lemma guard_entry_redeemable:
  assumes "guard_entry og clk b rid receipt_id revalidate db = Inr (st', current)"
  shows "\<exists>st. load_operation db (bound_operation b) = Inr st
    \<and> redeemable og clk b rid receipt_id st current \<and> revalidate = Inr ()"
proof -
  have "ensures (\<lambda>v. \<exists>st. load_operation db (bound_operation b) = Inr st
      \<and> redeemable og clk b rid receipt_id st (snd v) \<and> revalidate = Inr ())
    (guard_entry og clk b rid receipt_id revalidate db)"
    unfolding guard_entry_def Let_def without_step_def [symmetric]
  proof (intro ensures_bind ensures_if ensures_Inl ensures_Inr ensures_prod, goal_cases)
    case (1 st current u v step deps w)
    from ensuresD [OF check_ready_ready 1(5)] 1(6) have
      "ready og (without_step (bound_step b) st) (bound_step b) (clk 0) (clk 1) step deps" by simp
    moreover from 1(8) have "window_open og (without_step (bound_step b) st) (clk 2)"
      by (simp add: check_window_Inr)
    moreover from 1(2) have "dict_get (op_steps st) (bound_step b) = Some current"
      by (simp add: step_of_def split: option.splits)
    ultimately have "redeemable og clk b rid receipt_id st current"
      using 1(3,7) unfolding redeemable_def by blast
    with 1(1,4) show ?case by simp
  qed
  from ensuresD [OF this assms] show ?thesis by simp
qed

section \<open>A snapshot digest binds what it was taken of\<close>

lemma snapshot_binds:
  assumes "snapshot_document og st = Inr v" "snapshot_document og' st' = Inr v'"
    and "digest H v = Inr d" "digest H v' = Inr d"
    and "collision_free_on H {v, v'}" "floats_ok v" "floats_ok v'"
  shows "plan_digest st = plan_digest st' \<and> epoch st = epoch st' \<and> facts_until st = facts_until st'
    \<and> sorted_members (facts st) = sorted_members (facts st')"
proof -
  obtain r p where v: "v = JObj
      [(''plan'', JStr (plan_digest st)), (''epoch'', JInt (epoch st)), (''facts'', JObj (facts st)),
       (''facts_until'', JStr (facts_until st)), (''policy'', JStr p), (''routes'', JObj r)]"
    using assms(1) unfolding snapshot_document_def by (elim res_bind_InrE) auto
  obtain r' p' where v': "v' = JObj
      [(''plan'', JStr (plan_digest st')), (''epoch'', JInt (epoch st')), (''facts'', JObj (facts st')),
       (''facts_until'', JStr (facts_until st')), (''policy'', JStr p'), (''routes'', JObj r')]"
    using assms(2) unfolding snapshot_document_def by (elim res_bind_InrE) auto
  from assms(3-7) have "sort_keys v = sort_keys v'" by (rule digest_binds)
  then have "map_option sort_keys (dict_get [(''plan'', JStr (plan_digest st)), (''epoch'', JInt (epoch st)),
        (''facts'', JObj (facts st)), (''facts_until'', JStr (facts_until st)), (''policy'', JStr p),
        (''routes'', JObj r)] k)
    = map_option sort_keys (dict_get [(''plan'', JStr (plan_digest st')), (''epoch'', JInt (epoch st')),
        (''facts'', JObj (facts st')), (''facts_until'', JStr (facts_until st')), (''policy'', JStr p'),
        (''routes'', JObj r')] k)" for k
    unfolding v v' by (rule sort_keys_JObj_get) simp_all
  from this [of "''plan''"] this [of "''epoch''"] this [of "''facts''"] this [of "''facts_until''"]
  show ?thesis by (simp add: sort_keys_JObj del: sort_keys.simps(8))
qed

section \<open>The dependency walk\<close>

text \<open>Everything the steps of \<open>S\<close> rest on, themselves included.\<close>

definition rests_on :: "plan_step dict \<Rightarrow> string set \<Rightarrow> string set" where
  "rests_on steps S = {d. \<exists>p \<in> S. (d, p) \<in> (needs steps)\<^sup>*}"

definition verified_by :: "(string \<Rightarrow> op_observation option res) \<Rightarrow> string \<times> string \<Rightarrow> bool" where
  "verified_by obs kd \<longleftrightarrow> (\<exists>x. obs (fst kd) = Inr (Some x) \<and> observed_disposition x = Verified
     \<and> observed_digest x = snd kd)"

definition closed_under :: "plan_step dict \<Rightarrow> string set \<Rightarrow> string set \<Rightarrow> bool" where
  "closed_under steps N M \<longleftrightarrow> (\<forall>n \<in> N. \<forall>d. (d, n) \<in> needs steps \<longrightarrow> d \<in> M)"

lemma needs_dict_get:
  assumes "distinct (dict_keys steps)" "dict_get steps n = Some s"
  shows "(d, n) \<in> needs steps \<longleftrightarrow> d \<in> set (depends_on s)"
  using assms by (auto simp: needs_def dest: dict_get_in eq_key_imp_eq_value)

lemma rests_on_mono: "S \<subseteq> rests_on steps T \<Longrightarrow> rests_on steps S \<subseteq> rests_on steps T"
  unfolding rests_on_def by (blast intro: rtrancl_trans)

lemma rests_on_base: "S \<subseteq> rests_on steps S"
  by (auto simp: rests_on_def)

lemma dependency_walk_cases:
  assumes "dependency_walk obs steps pending found = Inr res"
  obtains (finish) "pending = []" "res = found"
  | (skip) "pending \<noteq> []" "last pending \<in> set (dict_keys found)"
      "dependency_walk obs steps (butlast pending) found = Inr res"
  | (find) x s where "pending \<noteq> []" "last pending \<notin> set (dict_keys found)"
      "obs (last pending) = Inr (Some x)" "observed_disposition x = Verified"
      "dict_get steps (last pending) = Some s"
      "dependency_walk obs steps (butlast pending @ depends_on s)
         (found @ [(last pending, observed_digest x)]) = Inr res"
  using assms
  by (subst (asm) dependency_walk.simps) (auto split: if_splits sum.splits option.splits)

lemma dependency_walk_sound:
  assumes "dependency_walk obs steps pending found = Inr res" "distinct (dict_keys steps)"
  shows "set found \<subseteq> set res \<and> set pending \<subseteq> set (dict_keys res)
    \<and> (closed_under steps (set (dict_keys found)) (set (dict_keys found) \<union> set pending)
        \<longrightarrow> closed_under steps (set (dict_keys res)) (set (dict_keys res)))
    \<and> set (dict_keys res) \<subseteq> rests_on steps (set (dict_keys found) \<union> set pending)
    \<and> (list_all (verified_by obs) found \<longrightarrow> list_all (verified_by obs) res)"
  using assms
proof (induction obs steps pending found rule: dependency_walk.induct)
  case (1 obs steps pending found)
  show ?case
  proof (cases "pending = []")
    case True
    with "1.prems" have "res = found" by (simp add: dependency_walk.simps)
    with True rests_on_base show ?thesis by auto
  next
    case pending: False
    then have set_p: "set pending = insert (last pending) (set (butlast pending))"
      by (metis append_butlast_last_id list.simps(15) rotate1.simps(2) set_rotate1)
    show ?thesis
    proof (cases "last pending \<in> set (dict_keys found)")
      case True
      with "1.prems" pending have "dependency_walk obs steps (butlast pending) found = Inr res"
        by (simp add: dependency_walk.simps)
      note ih = "1.IH"(1) [OF pending True this "1.prems"(2)]
      have same: "set (dict_keys found) \<union> set (butlast pending) = set (dict_keys found) \<union> set pending"
        by (subst set_p) (use True in blast)
      from ih have "set found \<subseteq> set res" by (rule conjunct1)
      then have "set (dict_keys found) \<subseteq> set (dict_keys res)" by (simp add: image_mono)
      moreover from ih have "set (butlast pending) \<subseteq> set (dict_keys res)" by (elim conjE)
      ultimately have "set pending \<subseteq> set (dict_keys res)" by (subst set_p) (use True in blast)
      with ih show ?thesis unfolding same by (elim conjE) (intro conjI)
    next
      case False
      have "\<exists>x s. obs (last pending) = Inr (Some x) \<and> observed_disposition x = Verified
        \<and> dict_get steps (last pending) = Some s
        \<and> dependency_walk obs steps (butlast pending @ depends_on s)
           (found @ [(last pending, observed_digest x)]) = Inr res"
        using "1.prems"(1) pending False
        by (subst (asm) dependency_walk.simps)
          (auto split: sum.splits option.splits if_splits)
      then obtain x s where x: "obs (last pending) = Inr (Some x)" "observed_disposition x = Verified"
        "dict_get steps (last pending) = Some s" "dependency_walk obs steps (butlast pending @ depends_on s)
           (found @ [(last pending, observed_digest x)]) = Inr res" by blast
      let ?found = "found @ [(last pending, observed_digest x)]" and ?pending = "butlast pending @ depends_on s"
      have disp: "\<not> observed_disposition x \<noteq> Verified" using x(2) by simp
      note ih = "1.IH"(2) [OF pending False x(1) refl disp x(3,4) "1.prems"(2)]
      have deps: "(d, last pending) \<in> needs steps \<longleftrightarrow> d \<in> set (depends_on s)" for d
        using "1.prems"(2) x(3) by (rule needs_dict_get)
      have step: "d \<in> rests_on steps (set (dict_keys found) \<union> set pending)" if "d \<in> set (depends_on s)" for d
      proof -
        from that deps have "(d, last pending) \<in> (needs steps)\<^sup>*" by blast
        with pending show ?thesis unfolding rests_on_def by (auto intro: bexI [of _ "last pending"])
      qed
      have sub: "set (dict_keys ?found) \<union> set ?pending \<subseteq> rests_on steps (set (dict_keys found) \<union> set pending)"
        using step rests_on_base [of "set (dict_keys found) \<union> set pending" steps]
        by (auto dest: in_set_butlastD simp: pending)
      have "closed_under steps (set (dict_keys ?found)) (set (dict_keys ?found) \<union> set ?pending)"
        if "closed_under steps (set (dict_keys found)) (set (dict_keys found) \<union> set pending)"
        using that deps unfolding closed_under_def set_p by auto
      moreover have "list_all (verified_by obs) ?found" if "list_all (verified_by obs) found"
        using that x(1,2) by (simp add: verified_by_def)
      moreover have sr: "set ?found \<subseteq> set res" using ih by (rule conjunct1)
      moreover have "last pending \<in> set (dict_keys res)" using sr by force
      moreover have "set (dict_keys res) \<subseteq> rests_on steps (set (dict_keys found) \<union> set pending)"
        using ih rests_on_mono [OF sub] by blast
      moreover have "set ?pending \<subseteq> set (dict_keys res)" using ih by (elim conjE)
      moreover have "closed_under steps (set (dict_keys ?found)) (set (dict_keys ?found) \<union> set ?pending)
          \<longrightarrow> closed_under steps (set (dict_keys res)) (set (dict_keys res))"
        using ih by (elim conjE)
      moreover have "list_all (verified_by obs) ?found \<longrightarrow> list_all (verified_by obs) res"
        using ih by (elim conjE)
      ultimately show ?thesis unfolding set_p by (intro conjI impI) simp_all
    qed
  qed
qed

lemma dependency_walk_in_plan:
  "dependency_walk obs steps pending found = Inr res \<Longrightarrow>
     set (dict_keys res) \<subseteq> set (dict_keys found) \<union> set (dict_keys steps)"
proof (induction obs steps pending found rule: dependency_walk.induct)
  case (1 obs steps pending found)
  from "1.prems" show ?case
  proof (cases rule: dependency_walk_cases)
    case skip
    with "1.IH"(1) show ?thesis by blast
  next
    case (find x s)
    have "\<not> observed_disposition x \<noteq> Verified" using find by simp
    from "1.IH"(2) [OF find(1,2,3) refl this find(5,6)]
    have "set (dict_keys res) \<subseteq> insert (last pending) (set (dict_keys found)) \<union> set (dict_keys steps)"
      by simp
    moreover have "last pending \<in> set (dict_keys steps)" using find(5) by (metis dict_get_keys option.distinct(1))
    ultimately show ?thesis by blast
  qed simp
qed

text \<open>Started from nothing, the walk finds exactly the steps the pending ones rest on.\<close>

lemma dependency_walk_exact:
  assumes "dependency_walk obs steps pending [] = Inr res" "distinct (dict_keys steps)"
  shows "set (dict_keys res) = rests_on steps (set pending) \<and> (\<forall>kd \<in> set res. verified_by obs kd)"
proof -
  note d = dependency_walk_sound [OF assms]
  have "closed_under steps (set (dict_keys [])) (set (dict_keys []) \<union> set pending)"
    by (simp add: closed_under_def)
  with d have closed: "closed_under steps (set (dict_keys res)) (set (dict_keys res))" by blast
  have "x \<in> set (dict_keys res)" if "(x, y) \<in> (needs steps)\<^sup>*" "y \<in> set (dict_keys res)" for x y
    using that by (induction rule: converse_rtrancl_induct) (use closed in \<open>auto simp: closed_under_def\<close>)
  moreover have "set pending \<subseteq> set (dict_keys res)" using d by blast
  ultimately have "rests_on steps (set pending) \<subseteq> set (dict_keys res)"
    unfolding rests_on_def by blast
  with d show ?thesis by (simp add: list_all_iff) blast
qed

text \<open>It returns whenever all of those are verified steps of the plan.\<close>

definition verified_step :: "(string \<Rightarrow> op_observation option res) \<Rightarrow> plan_step dict \<Rightarrow> string \<Rightarrow> bool" where
  "verified_step obs steps n \<longleftrightarrow> n \<in> set (dict_keys steps)
     \<and> (\<exists>x. obs n = Inr (Some x) \<and> observed_disposition x = Verified)"

lemma dependency_walk_returns:
  assumes "\<forall>n \<in> rests_on steps (set pending). verified_step obs steps n" "distinct (dict_keys steps)"
  shows "\<exists>res. dependency_walk obs steps pending found = Inr res"
  using assms
proof (induction obs steps pending found rule: dependency_walk.induct)
  case (1 obs steps pending found)
  show ?case
  proof (cases "pending = []")
    case True
    then show ?thesis by (simp add: dependency_walk.simps)
  next
    case pending: False
    then have "last pending \<in> set pending" "set (butlast pending) \<subseteq> set pending"
      by (auto dest: in_set_butlastD)
    show ?thesis
    proof (cases "last pending \<in> set (dict_keys found)")
      case True
      have "\<forall>n \<in> rests_on steps (set (butlast pending)). verified_step obs steps n"
        using "1.prems"(1) \<open>set (butlast pending) \<subseteq> set pending\<close> by (auto simp: rests_on_def)
      from "1.IH"(1) [OF pending True this "1.prems"(2)] True pending show ?thesis
        by (simp add: dependency_walk.simps [of obs steps pending])
    next
      case False
      have "last pending \<in> rests_on steps (set pending)"
        using \<open>last pending \<in> set pending\<close> rests_on_base by blast
      with "1.prems"(1) obtain x where x: "obs (last pending) = Inr (Some x)"
        "observed_disposition x = Verified" and key: "last pending \<in> set (dict_keys steps)"
        by (auto simp: verified_step_def)
      then obtain s where s: "dict_get steps (last pending) = Some s"
        by (metis dict_get_keys option.exhaust)
      have "set (depends_on s) \<subseteq> rests_on steps (set pending)"
        using needs_dict_get [OF "1.prems"(2) s] \<open>last pending \<in> set pending\<close>
        unfolding rests_on_def by blast
      then have "set (butlast pending @ depends_on s) \<subseteq> rests_on steps (set pending)"
        using \<open>set (butlast pending) \<subseteq> set pending\<close> rests_on_base [of "set pending" steps]
        unfolding set_append by blast
      from rests_on_mono [OF this] have "\<forall>n \<in> rests_on steps (set (butlast pending @ depends_on s)).
          verified_step obs steps n" using "1.prems"(1) by blast
      from "1.IH"(2) [OF pending False x(1) refl _ s this "1.prems"(2)] x pending False s show ?thesis
        by (simp add: dependency_walk.simps [of obs steps pending])
    qed
  qed
qed

lemma dependency_walk_returns_iff:
  assumes "distinct (dict_keys steps)"
  shows "(\<exists>res. dependency_walk obs steps pending [] = Inr res)
    \<longleftrightarrow> (\<forall>n \<in> rests_on steps (set pending). verified_step obs steps n)"
proof
  assume "\<exists>res. dependency_walk obs steps pending [] = Inr res"
  then obtain res where r: "dependency_walk obs steps pending [] = Inr res" by blast
  show "\<forall>n \<in> rests_on steps (set pending). verified_step obs steps n"
    using dependency_walk_exact [OF r assms] dependency_walk_in_plan [OF r]
    by (fastforce simp: verified_step_def verified_by_def)
next
  assume "\<forall>n \<in> rests_on steps (set pending). verified_step obs steps n"
  then show "\<exists>res. dependency_walk obs steps pending [] = Inr res"
    using assms by (rule dependency_walk_returns)
qed

text \<open>
  What \<open>_dependency_digests\<close> returns: exactly the steps the given one transitively depends on, each
  with the evidence digest of a current observation that verified it.
\<close>

lemma dependency_digests_exact:
  assumes "dependency_digests og st step_id now = Inr deps"
    and "dict_get (plan_steps (op_plan st)) step_id = Some s"
    and "distinct (dict_keys (plan_steps (op_plan st)))"
  shows "set (dict_keys deps) = rests_on (plan_steps (op_plan st)) (set (depends_on s))
    \<and> (\<forall>kd \<in> set deps. verified_by (current_observation og st now) kd)"
  using assms dependency_walk_exact by (fastforce simp: dependency_digests_def)

end
