(* ===== verification/CoordinatorRuns.thy ===== *)
theory CoordinatorRuns
  imports CoordinatorSafety
begin

text \<open>
  Interleavings. The transactions of all requests on one store are the steps; between them the
  gateway's surroundings (evidence, receipts, ledger, configuration, clocks) may be anything. A
  reservation hands out a permit, which the gateway redeems in at most one guard.
\<close>

section \<open>Steps\<close>

lemma operator_commits:
  assumes "operator og clk name payload db = Inr (reply, db')"
  shows "db' = db \<or> (\<exists>op. commits same_budget op db db')"
proof -
  have view: "ensures (\<lambda>v. snd v = db \<or> (\<exists>op. commits same_budget op db (snd v)))
      (res_bind m (operator_view og clk))"
    if "ensures (\<lambda>v. snd v = db \<or> (\<exists>op. commits same_budget op db (snd v))) m" for m
    using that unfolding operator_view_def ensures_def by (auto simp: res_simps)
  have ch: "ensures (\<lambda>v. snd v = db \<or> (\<exists>op. commits same_budget op db (snd v)))
      (change_epoch og clk c st d db)"
    if "load_operation db op = Inr st" for c st d op
    using that change_epoch_commits by (fastforce simp: ensures_def)
  have ap: "ensures (\<lambda>v. snd v = db \<or> (\<exists>op. commits same_budget op db (snd v)))
      (approve og clk st s r db)"
    if "load_operation db op = Inr st" for st s r op
    using that approve_commits by (fastforce simp: ensures_def)
  have ob: "ensures (\<lambda>v. snd v = db \<or> (\<exists>op. commits same_budget op db (snd v)))
      (observe og clk st cur sid t ref db)"
    if "load_operation db op = Inr st" for st cur sid t ref op
    using that observe_commits by (fastforce simp: ensures_def)
  have act: "ensures (\<lambda>v. snd v = db \<or> (\<exists>op. commits same_budget op db (snd v)))
    (case action of
          Inspect \<Rightarrow> operator_view og clk (st, db)
        | Events \<Rightarrow> res_bind (op_integer (field d ''after'') ''after'' 0 (2 ^ 63 - 1)) (\<lambda>n.
            Inr (Event_Page (operation_events db op n), db))
        | Approve \<Rightarrow>
            if op_closed st then Inl (conflict ''Operation is closed.'')
            else res_bind (approve og clk st (field d ''snapshot_digest'') (field d ''reviewer'') db)
              (operator_view og clk)
        | Change c \<Rightarrow>
            if op_closed st then Inl (conflict ''Operation is closed.'')
            else res_bind (change_epoch og clk c st d db) (operator_view og clk)
        | Observation_Target \<Rightarrow> res_bind (op_identifier (field d ''step_id'')) (\<lambda>s.
            res_bind (observation_target og st s) (\<lambda>(target, _). Inr (Target target, db)))
        | Observe \<Rightarrow> res_bind (op_identifier (field d ''step_id'')) (\<lambda>s.
            res_bind (observation_target og st s) (\<lambda>(target, current).
            res_bind (op_text (field d ''evidence_ref'') ''evidence reference'' 128) (\<lambda>ref.
            res_bind (observe og clk st current s target ref db) (operator_view og clk)))))"
    if st: "load_operation db op = Inr st" for action st d op
  proof (cases action)
    case Inspect
    then show ?thesis by (simp add: operator_view_def ensures_bind)
  next
    case Events
    then show ?thesis by (simp add: ensures_bind)
  next
    case Approve
    with ap [OF st] show ?thesis by (simp add: view)
  next
    case (Change c)
    with ch [OF st] show ?thesis by (simp add: view)
  next
    case Observation_Target
    then show ?thesis by (auto intro!: ensures_bind ensures_prod)
  next
    case Observe
    show ?thesis
      unfolding Observe operator_action.case
      by (rule ensures_bind, rule ensures_bind, rule ensures_prod, rule ensures_bind, rule view,
          rule ob [OF st])
  qed
  have "ensures (\<lambda>v. snd v = db \<or> (\<exists>op. commits same_budget op db (snd v)))
    (operator og clk name payload db)"
    unfolding operator_def
    by (intro ensures_option ensures_Inl ensures_bind [of "object_fields _ _ _"]
      ensures_bind [of "op_identifier _"] ensures_bind [of "load_operation _ _"] act)
  from ensuresD [OF this assms] show ?thesis by simp
qed

text \<open>A proposal stores a new operation under a free identifier, with an accepted plan and no budget spent.\<close>

definition newly_proposed :: "op_state \<Rightarrow> bool" where
  "newly_proposed st \<longleftrightarrow> plan_ok (op_plan st) \<and> epoch st = 0 \<and> approval st = [] \<and> attempts st = 0
     \<and> cost_spent st = 0 \<and> \<not> op_closed st \<and> op_steps st = []"

lemma propose_commits:
  assumes "propose og clk aid payload db = Inr (reply, db')"
  obtains st at event details where "newly_proposed st" "dict_get (operations db) (op_id st) = None"
    "save_operation at st event details db = Inr db'"
proof -
  have "ensures (\<lambda>v. \<exists>st at event details. newly_proposed st \<and> dict_get (operations db) (op_id st) = None
      \<and> save_operation at st event details db = Inr (snd v))
    (propose og clk aid payload db)"
    unfolding propose_def
  proof (intro ensures_bind ensures_if ensures_Inl ensures_Inr)
    fix plan expires us pd db'
    let ?st = "\<lparr>op_plan = plan, plan_digest = pd, proposer = aid, epoch = 0, facts = [],
      facts_until = [], approval = [], attempts = 0, cost_spent = 0, op_closed = False, op_steps = []\<rparr>"
    assume p: "parse_plan (og_parse og) (env_runtime (og_env og)) payload = Inr plan"
      and free: "\<not> dict_get (operations db) (plan_operation_id plan) \<noteq> None"
      and save: "save_operation (py_isoformat (env_runtime (og_env og)) (clk 1)) ?st ''proposed''
        [(''proposer'', JStr aid), (''plan_digest'', JStr pd)] db = Inr db'"
    from p parse_plan_ok have "plan_ok plan" by (rule ensuresD [rotated])
    then have "newly_proposed ?st" by (simp add: newly_proposed_def)
    moreover from free have "dict_get (operations db) (op_id ?st) = None" by (simp add: op_id_def)
    ultimately show "\<exists>st at event details. newly_proposed st
        \<and> dict_get (operations db) (op_id st) = None
        \<and> save_operation at st event details db = Inr (snd ((plan_operation_id plan, pd), db'))"
      unfolding snd_conv using save by blast
  qed
  from ensuresD [OF this assms] show thesis using that by auto
qed

record op_world =
  world_store :: op_store
  live_permits :: "permit list"

text \<open>What a step shows outside: the effect of an operation may have happened.\<close>

datatype op_event = Silent | Dispatched string

abbreviation after_guard :: "op_store \<Rightarrow> op_store res \<Rightarrow> op_store" where
  "after_guard db r \<equiv> (case r of Inl _ \<Rightarrow> db | Inr db' \<Rightarrow> db')"

inductive op_step :: "op_world \<Rightarrow> op_event \<Rightarrow> op_world \<Rightarrow> bool" where
  step_propose: "propose og clk aid payload (world_store w) = Inr (reply, db) \<Longrightarrow>
     op_step w Silent (w\<lparr>world_store := db\<rparr>)"
| step_operator: "operator og clk name payload (world_store w) = Inr (view, db) \<Longrightarrow>
     op_step w Silent (w\<lparr>world_store := db\<rparr>)"
| step_reserve:
    "reserve_attempt og clk fresh who op step_id evidence (world_store w) = Inr (Inr p, db) \<Longrightarrow>
     op_step w Silent (w\<lparr>world_store := db, live_permits := p # live_permits w\<rparr>)"
| step_authorize:
    "record_authorization og clk op step_id rid receipt_id (world_store w) = Inr db \<Longrightarrow>
     op_step w Silent (w\<lparr>world_store := db\<rparr>)"
| step_guard: "p \<in> set (live_permits w) \<Longrightarrow>
     guard og clk (permit_binding p) (permit_request_id p) receipt_id revalidate (world_store w)
       = (entered, r) \<Longrightarrow>
     op_step w (if entered then Dispatched (bound_operation (permit_binding p)) else Silent)
       (w\<lparr>world_store := after_guard (world_store w) r, live_permits := remove1 p (live_permits w)\<rparr>)"
| step_finish: "finish_dispatch og clk op step_id rid status body (world_store w) = Inr (body', db) \<Longrightarrow>
     op_step w Silent (w\<lparr>world_store := db\<rparr>)"

inductive op_run :: "op_world \<Rightarrow> op_event list \<Rightarrow> op_world \<Rightarrow> bool" where
  run_start: "op_run w [] w"
| run_step: "op_run w es w1 \<Longrightarrow> op_step w1 e w2 \<Longrightarrow> op_run w (es @ [e]) w2"

inductive_cases op_step_dispatchE: "op_step w (Dispatched op) w'"

section \<open>What a step does to the store\<close>

text \<open>
  The effect of any step on the store, by its three shapes: nothing, a new operation, one
  transaction on one operation that either keeps or spends budget.
\<close>

definition store_step :: "op_store \<Rightarrow> op_store \<Rightarrow> bool" where
  "store_step db db' \<longleftrightarrow> db' = db
     \<or> (\<exists>st at event details. newly_proposed st \<and> dict_get (operations db) (op_id st) = None
          \<and> save_operation at st event details db = Inr db')
     \<or> (\<exists>op. commits same_budget op db db' \<or> commits spends op db db')"

lemma op_step_store: "op_step w e w' \<Longrightarrow> store_step (world_store w) (world_store w')"
proof (induction rule: op_step.induct)
  case (step_propose og clk aid payload w reply db)
  then show ?case by (rule propose_commits) (auto simp: store_step_def)
next
  case (step_operator og clk name payload w view db)
  from operator_commits [OF this] show ?case by (auto simp: store_step_def)
next
  case (step_reserve og clk fresh who op step_id evidence w p db)
  from reserve_attempt_commits [OF this] show ?case by (auto simp: store_step_def)
next
  case (step_authorize og clk op step_id rid receipt_id w db)
  from record_authorization_commits [OF this] show ?case by (auto simp: store_step_def)
next
  case (step_guard p w og clk receipt_id revalidate entered r)
  show ?case
  proof (cases r)
    case (Inr db)
    with step_guard(2) guard_commits(1) show ?thesis by (fastforce simp: store_step_def)
  qed (simp add: store_step_def)
next
  case (step_finish og clk op step_id rid status body w body' db)
  from finish_dispatch_commits [OF this] show ?case by (auto simp: store_step_def)
qed

section \<open>The store's invariant\<close>

definition state_ok :: "op_state \<Rightarrow> bool" where
  "state_ok st \<longleftrightarrow> 0 \<le> attempts st \<and> attempts st \<le> max_attempts (op_plan st)
     \<and> cost_spent st \<le> max_cost (op_plan st) \<and> stored_plan (op_plan st) = op_plan st"

definition store_ok :: "op_store \<Rightarrow> bool" where
  "store_ok db \<longleftrightarrow> distinct (dict_keys (operations db))
     \<and> (\<forall>op st. dict_get (operations db) op = Some st \<longrightarrow> op_id st = op \<and> state_ok st)"

lemma evolves_op_id: "evolves st st' \<Longrightarrow> op_id st' = op_id st"
  by (simp add: evolves_def op_id_def)

lemma store_step_events: "store_step db db' \<Longrightarrow> \<exists>tail. op_events db' = op_events db @ tail"
  unfolding store_step_def commits_def using save_operation_Inr(2) by fastforce

lemma state_ok_stored:
  "0 \<le> attempts st \<Longrightarrow> attempts st \<le> max_attempts (op_plan st) \<Longrightarrow> cost_spent st \<le> max_cost (op_plan st)
    \<Longrightarrow> state_ok (stored st)"
  by (simp add: state_ok_def stored_op_plan) (simp add: stored_plan_def)

lemma commits_get:
  assumes "commits R op db db'" "store_ok db"
  obtains st st' where "dict_get (operations db) op = Some st" "evolves st st'" "R st st'"
    "\<forall>k. dict_get (operations db') k = (if k = op then Some (stored st') else dict_get (operations db) k)"
    "distinct (dict_keys (operations db'))"
proof -
  from assms(1) obtain st st' at event details where c: "dict_get (operations db) op = Some st"
    "evolves st st'" "R st st'" "save_operation at st' event details db = Inr db'"
    by (auto simp: commits_def)
  from c(1) assms(2) have "op_id st = op" by (simp add: store_ok_def)
  with evolves_op_id [OF c(2)] have "op_id st' = op" by simp
  with save_operation_Inr(1) [OF c(4)] have "operations db' = dict_set op (stored st') (operations db)"
    by simp
  with c assms(2) show thesis
    by (intro that [of st st']) (simp_all add: dict_get_set distinct_dict_set store_ok_def)
qed

lemma store_step_ok:
  assumes "store_step db db'" "store_ok db"
  shows "store_ok db'"
proof -
  have R: "store_ok db'" if "commits R op db db'"
    and "\<And>st st'. R st st' \<Longrightarrow> evolves st st' \<Longrightarrow> state_ok st \<Longrightarrow> state_ok (stored st')" for R op
  proof -
    from that(1) assms(2) obtain st st' where c: "dict_get (operations db) op = Some st" "evolves st st'"
      "R st st'"
      "\<forall>k. dict_get (operations db') k = (if k = op then Some (stored st') else dict_get (operations db) k)"
      "distinct (dict_keys (operations db'))" by (rule commits_get)
    moreover from c(1) assms(2) have "op_id st = op" "state_ok st" by (simp_all add: store_ok_def)
    moreover from this that(2) c have "state_ok (stored st')" by blast
    ultimately show ?thesis using assms(2) evolves_op_id [OF c(2)] by (auto simp: store_ok_def)
  qed
  have new: "store_ok db'" if "newly_proposed st" "dict_get (operations db) (op_id st) = None"
      "save_operation at st event details db = Inr db'" for st at event details
  proof -
    from that(1) have "state_ok (stored st)"
      by (intro state_ok_stored) (simp_all add: newly_proposed_def plan_ok_def)
    with that(3) assms(2) show ?thesis
      using save_operation_Inr(1) [OF that(3)]
      by (auto simp: store_ok_def dict_get_set distinct_dict_set)
  qed
  from assms(1) consider "db' = db" | "\<exists>st at event details. newly_proposed st
      \<and> dict_get (operations db) (op_id st) = None \<and> save_operation at st event details db = Inr db'"
    | op where "commits same_budget op db db'" | op where "commits spends op db db'"
    by (auto simp: store_step_def)
  then show ?thesis
  proof cases
    case 1
    with assms(2) show ?thesis by simp
  next
    case 2
    with new show ?thesis by blast
  next
    case 3
    then show ?thesis
      by (rule R) (rule state_ok_stored, auto simp: same_budget_def evolves_def state_ok_def)
  next
    case 4
    then show ?thesis
      by (rule R) (rule state_ok_stored, auto simp: spends_def evolves_def state_ok_def)
  qed
qed

text \<open>Whatever a step does, a known operation stays known, keeps its plan, and stays closed.\<close>

definition keeps :: "op_state \<Rightarrow> op_state \<Rightarrow> bool" where
  "keeps st st' \<longleftrightarrow> op_plan st' = op_plan st \<and> plan_digest st' = plan_digest st
     \<and> epoch st \<le> epoch st' \<and> (epoch st' \<noteq> epoch st \<longrightarrow> approval st' = [])
     \<and> attempts st \<le> attempts st' \<and> (op_closed st \<longrightarrow> op_closed st')"

lemma keeps_refl [simp]: "keeps st st"
  by (simp add: keeps_def)

lemma commits_keeps:
  assumes "commits R k db db'" "\<And>s s'. R s s' \<Longrightarrow> attempts s \<le> attempts s'"
    and "store_ok db" "dict_get (operations db) op = Some st"
  shows "\<exists>st'. dict_get (operations db') op = Some st' \<and> keeps st st'"
proof -
  from assms(1,3) obtain s s' where c: "dict_get (operations db) k = Some s" "evolves s s'" "R s s'"
    "\<forall>j. dict_get (operations db') j = (if j = k then Some (stored s') else dict_get (operations db) j)"
    by (rule commits_get)
  show ?thesis
  proof (cases "k = op")
    case True
    with c(1) assms(4) have "s = st" by simp
    moreover from this assms(3,4) have "stored_plan (op_plan s) = op_plan s"
      by (auto simp: store_ok_def state_ok_def)
    ultimately have "keeps st (stored s')"
      using c(2) assms(2) [OF c(3)] by (simp add: evolves_def keeps_def stored_op_plan)
    with c(4) True show ?thesis by simp
  next
    case False
    with c(4) assms(4) show ?thesis by simp
  qed
qed

lemma store_step_keeps:
  assumes "store_step db db'" "store_ok db" "dict_get (operations db) op = Some st"
  shows "\<exists>st'. dict_get (operations db') op = Some st' \<and> keeps st st'"
proof -
  from assms(1) consider "db' = db" | s at event details where
      "dict_get (operations db) (op_id s) = None" "save_operation at s event details db = Inr db'"
    | k where "commits same_budget k db db'" | k where "commits spends k db db'"
    by (auto simp: store_step_def)
  then show ?thesis
  proof cases
    case 1
    with assms(3) show ?thesis by simp
  next
    case 2
    with assms(3) have "dict_get (operations db') op = Some st"
      by (auto simp: save_operation_Inr(1) [OF 2(2)] dict_get_set)
    then show ?thesis by simp
  next
    case 3
    then show ?thesis by (rule commits_keeps [OF _ _ assms(2,3)]) (simp add: same_budget_def)
  next
    case 4
    then show ?thesis by (rule commits_keeps [OF _ _ assms(2,3)]) (simp add: spends_def)
  qed
qed

section \<open>Budgets bound the dispatches\<close>

definition dispatches :: "op_event list \<Rightarrow> string \<Rightarrow> nat" where
  "dispatches es op = length (filter (\<lambda>e. e = Dispatched op) es)"

definition permits_for :: "permit list \<Rightarrow> string \<Rightarrow> nat" where
  "permits_for ps op = length (filter (\<lambda>p. bound_operation (permit_binding p) = op) ps)"

definition attempts_of :: "op_store \<Rightarrow> string \<Rightarrow> int" where
  "attempts_of db op = (case dict_get (operations db) op of None \<Rightarrow> 0 | Some st \<Rightarrow> attempts st)"

lemma attempts_of_mono:
  assumes "store_step db db'" "store_ok db"
  shows "attempts_of db op \<le> attempts_of db' op"
proof (cases "dict_get (operations db) op")
  case None
  have "store_ok db'" using assms by (rule store_step_ok)
  with None show ?thesis
    by (auto simp: attempts_of_def store_ok_def state_ok_def split: option.split)
next
  case (Some st)
  from store_step_keeps [OF assms this] Some show ?thesis by (auto simp: attempts_of_def keeps_def)
qed

lemma permits_for_remove1:
  "p \<in> set ps \<Longrightarrow> permits_for ps op =
     permits_for (remove1 p ps) op + (if bound_operation (permit_binding p) = op then 1 else 0)"
  by (induction ps) (auto simp: permits_for_def)

lemma reserve_counts:
  assumes "reserve_attempt og clk fresh who op step_id evidence db = Inr (Inr p, db')" "store_ok db"
  shows "bound_operation (permit_binding p) = op" "attempts_of db' op = attempts_of db op + 1"
proof -
  from reserve_attempt_commits [OF assms(1)] obtain st0 where
    c: "commits spends op db db'" "dict_get (operations db) op = Some st0"
      "bound_operation (permit_binding p) = op_id st0" by blast
  from c(2,3) assms(2) show "bound_operation (permit_binding p) = op" by (simp add: store_ok_def)
  from c(1) assms(2) obtain st st' where "dict_get (operations db) op = Some st" "spends st st'"
    "\<forall>k. dict_get (operations db') k = (if k = op then Some (stored st') else dict_get (operations db) k)"
    by (rule commits_get)
  then show "attempts_of db' op = attempts_of db op + 1" by (simp add: attempts_of_def spends_def)
qed

text \<open>Dispatches that happened and permits still out never exceed the attempts of the operation.\<close>

definition run_ok :: "op_world \<Rightarrow> op_event list \<Rightarrow> bool" where
  "run_ok w es \<longleftrightarrow> store_ok (world_store w)
     \<and> (\<forall>op. int (dispatches es op + permits_for (live_permits w) op) \<le> attempts_of (world_store w) op)"

lemma step_run_ok:
  assumes "op_step w e w'" "run_ok w es"
  shows "run_ok w' (es @ [e])"
proof -
  from assms(2) have ok: "store_ok (world_store w)" by (simp add: run_ok_def)
  note ss = op_step_store [OF assms(1)]
  have ok': "store_ok (world_store w')" using ss ok by (rule store_step_ok)
  have mono: "attempts_of (world_store w) op \<le> attempts_of (world_store w') op" for op
    using ss ok by (rule attempts_of_mono)
  have bound: "int (dispatches es op + permits_for (live_permits w) op) \<le> attempts_of (world_store w) op"
    for op using assms(2) by (simp add: run_ok_def)
  from assms(1) have "int (dispatches (es @ [e]) op + permits_for (live_permits w') op)
      \<le> attempts_of (world_store w') op" for op
  proof (cases rule: op_step.cases)
    case (step_reserve og clk fresh who k step_id evidence p db)
    with reserve_counts [OF step_reserve(3) ok] bound [of op] mono [of op] show ?thesis
      by (auto simp: dispatches_def permits_for_def)
  next
    case (step_guard p og clk receipt_id revalidate entered r)
    with permits_for_remove1 [OF step_guard(3), of op] bound [of op] mono [of op] show ?thesis
      by (auto simp: dispatches_def split: if_splits)
  qed (use bound [of op] mono [of op] in \<open>auto simp: dispatches_def\<close>)
  with ok' show ?thesis by (simp add: run_ok_def)
qed

lemma op_run_ok:
  assumes "op_run w es w'" "store_ok (world_store w)" "live_permits w = []"
  shows "run_ok w' es"
  using assms
proof (induction rule: op_run.induct)
  case (run_start w)
  then have "0 \<le> attempts_of (world_store w) op" for op
    by (auto simp: attempts_of_def store_ok_def state_ok_def split: option.split)
  with run_start show ?case by (simp add: run_ok_def dispatches_def permits_for_def)
qed (simp add: step_run_ok)

lemma dispatches_within_budget:
  assumes "op_run w es w'" "store_ok (world_store w)" "live_permits w = []" "Dispatched op \<in> set es"
  obtains st where "dict_get (operations (world_store w')) op = Some st"
    "int (dispatches es op) \<le> attempts st" "attempts st \<le> max_attempts (op_plan st)"
    "cost_spent st \<le> max_cost (op_plan st)"
proof -
  from op_run_ok [OF assms(1-3)] have ok: "store_ok (world_store w')"
    and le: "int (dispatches es op) \<le> attempts_of (world_store w') op"
    by (auto simp: run_ok_def dest: spec [of _ op])
  from assms(4) have "0 < dispatches es op" by (auto simp: dispatches_def filter_empty_conv)
  with le obtain st where st: "dict_get (operations (world_store w')) op = Some st"
    by (auto simp: attempts_of_def split: option.splits)
  with ok le show thesis by (intro that [of st]) (auto simp: attempts_of_def store_ok_def state_ok_def)
qed

section \<open>Closed operations\<close>

lemma guard_entered_open:
  assumes "guard og clk b rid receipt_id revalidate db = (True, r)"
  obtains st where "dict_get (operations db) (bound_operation b) = Some st" "\<not> op_closed st"
proof -
  from assms obtain sc where e: "guard_entry og clk b rid receipt_id revalidate db = Inr sc"
    by (auto simp: guard_def split: sum.splits)
  have "ensures (\<lambda>_. \<exists>st. load_operation db (bound_operation b) = Inr st \<and> \<not> op_closed st)
    (guard_entry og clk b rid receipt_id revalidate db)"
    unfolding guard_entry_def Let_def
    by (intro ensures_bind ensures_if ensures_Inl ensures_Inr ensures_prod)
      (auto dest!: ensuresD [OF check_ready_ready] simp: ready_def window_open_def)
  from ensuresD [OF this e] that show thesis by (auto simp: load_operation_def split: option.splits)
qed

lemma dispatch_step_open:
  assumes "op_step w (Dispatched op) w'"
  obtains st where "dict_get (operations (world_store w)) op = Some st" "\<not> op_closed st"
  using assms by (auto elim!: op_step_dispatchE split: if_splits) (erule guard_entered_open, blast)

lemma closed_never_dispatches:
  assumes "op_run w es w'" "store_ok (world_store w)"
    and "dict_get (operations (world_store w)) op = Some st" "op_closed st"
  shows "Dispatched op \<notin> set es"
proof -
  have "store_ok (world_store w') \<and> Dispatched op \<notin> set es
      \<and> (\<exists>st'. dict_get (operations (world_store w')) op = Some st' \<and> op_closed st')"
    using assms
  proof (induction rule: op_run.induct)
    case (run_step w es w1 e w2)
    then obtain st1 where one: "store_ok (world_store w1)" "Dispatched op \<notin> set es"
      "dict_get (operations (world_store w1)) op = Some st1" "op_closed st1" by blast
    note ss = op_step_store [OF run_step.hyps(2)]
    from store_step_keeps [OF ss one(1,3)] obtain st2 where
      "dict_get (operations (world_store w2)) op = Some st2" "op_closed st1 \<longrightarrow> op_closed st2"
      by (auto simp: keeps_def)
    moreover have "e \<noteq> Dispatched op"
      using run_step.hyps(2) one(3,4) by (auto elim: dispatch_step_open)
    ultimately show ?case using store_step_ok [OF ss one(1)] one(2,4) by auto
  qed auto
  then show ?thesis by blast
qed

end
