(* ===== verification/OperationFixtures.thy ===== *)
theory OperationFixtures
  imports GatewayFixtures JsonSize CoordinatorRuns
begin

text \<open>
  An operation the witnesses run: two reads, the second after the first, approved under conditions
  that hold; the first is reserved, authorized and dispatched.
\<close>

definition ex_plan_step :: "string list \<Rightarrow> plan_step" where
  "ex_plan_step deps = \<lparr>step_agent_id = ''bot'', step_tool_name = ''reader'',
     step_arguments = ex_arguments, depends_on = deps, preconditions = [(''ok'', JBool True)],
     expected_outcome = [(''done'', JBool True)], step_cost = 2, recovery_instruction = ''undo'',
     recovery_outcome = []\<rparr>"

definition ex_plan :: operation_plan where
  "ex_plan = \<lparr>plan_operation_id = ''op-1'', plan_expires_at = ''later'', max_attempts = 2, max_cost = 5,
     plan_steps = [(''s1'', ex_plan_step []), (''s2'', ex_plan_step [''s1''])]\<rparr>"

definition ex_step_json :: "string \<Rightarrow> string list \<Rightarrow> json" where
  "ex_step_json n deps = JObj
     [(''step_id'', JStr n), (''agent_id'', JStr ''bot''), (''tool_name'', JStr ''reader''),
      (''arguments'', JObj ex_arguments), (''depends_on'', JList (map JStr deps)),
      (''preconditions'', JObj [(''ok'', JBool True)]),
      (''expected_outcome'', JObj [(''done'', JBool True)]), (''cost'', JInt 2),
      (''recovery'', JObj [(''instruction'', JStr ''undo''), (''expected_outcome'', JObj [])])]"

definition ex_plan_json :: json where
  "ex_plan_json = JObj
     [(''operation_id'', JStr ''op-1''), (''expires_at'', JStr ''later''), (''max_attempts'', JInt 2),
      (''max_cost'', JInt 5),
      (''steps'', JList [ex_step_json ''s1'' [], ex_step_json ''s2'' [''s1'']])]"

definition ex_state :: op_state where
  "ex_state = \<lparr>op_plan = ex_plan, plan_digest = ex_hash [], proposer = ''bot'', epoch = 1,
     facts = [(''ok'', JBool True)], facts_until = ''later'', approval = ex_hash [], attempts = 0,
     cost_spent = 0, op_closed = False, op_steps = []\<rparr>"

definition ex_autonomy :: autonomy_config where
  "ex_autonomy = \<lparr>autonomy_database = ''db'', autonomy_tools = [''reader''], observer_issuer = ''eye'',
     observer_key_id = ''k2'', max_evidence_age = 3600\<rparr>"

definition ex_og :: op_gateway where
  "ex_og = \<lparr>og_env = ex_env, og_config = ex_config, og_autonomy = ex_autonomy, og_evidence = ex_store,
     og_ledger = [], og_receipts = \<lparr>receipt_rows = [], claim_rows = []\<rparr>,
     og_verify = (\<lambda>_. Inl (AuthorityProofError ''no signer''))\<rparr>"

definition ex_clock :: "nat \<Rightarrow> int" where
  "ex_clock n = 0"

text \<open>Digests and writes of documents whose size is bounded.\<close>

lemma ex_canonical_digest:
  "valid_json v \<Longrightarrow> int (text_size v) \<le> MAX_DOCUMENT_BYTES \<Longrightarrow> digest ex_hash v = Inr (ex_hash [])"
  using canonical_bytes_total [of v] by (auto simp: digest_def ex_hash_def)

definition fits :: "json \<Rightarrow> bool" where
  "fits v \<longleftrightarrow> valid_json v \<and> text_size v \<le> 1000000"

lemma fits_digest: "fits v \<Longrightarrow> digest ex_hash v = Inr (ex_hash [])"
  by (rule ex_canonical_digest) (simp_all add: fits_def MAX_DOCUMENT_BYTES_def)

lemma fits_saved:
  assumes "fits (op_state_dict st)" "fits (event_document event at details)"
  shows "\<exists>db'. save_operation at st event details db = Inr db'
    \<and> operations db' = dict_set (op_id st) (stored st) (operations db)"
proof -
  have "\<exists>b. canonical_bytes v = Inr b" if "fits v" for v
    using that canonical_bytes_total [of v] by (auto simp: fits_def MAX_DOCUMENT_BYTES_def)
  with assms show ?thesis by (auto simp: save_operation_def res_simps)
qed

lemma fits_object:
  assumes "valid_json (JObj d)" "text_size (JObj d) \<le> 1000"
  shows "op_object (JObj d) label 8192 = Inr d" "op_object (JObj d) label 32768 = Inr d"
proof -
  obtain b where "canonical_bytes (JObj d) = Inr b" "length b \<le> 1000"
    using assms canonical_bytes_total [of "JObj d"] by (auto simp: MAX_DOCUMENT_BYTES_def)
  then show "op_object (JObj d) label 8192 = Inr d" "op_object (JObj d) label 32768 = Inr d"
    by (simp_all add: op_object_def)
qed

lemma ex_step_parsed:
  assumes "bounded_identifier n" "n \<notin> set (dict_keys done)" "length deps < k"
    and "res_map op_identifier (map JStr deps) = Inr deps" "distinct deps" "sort deps = deps"
  shows "parse_step k (ex_step_json n deps) done = Inr (done @ [(n, ex_plan_step deps)])"
proof -
  have ids: "op_identifier (JStr n) = Inr n" "op_identifier (JStr ''bot'') = Inr ''bot''"
    "op_identifier (JStr ''reader'') = Inr ''reader''" "op_identifier (JStr ''ok'') = Inr ''ok''"
    "op_text (JStr ''undo'') ''recovery instruction'' 1024 = Inr ''undo''"
    using assms(1) by (simp add: op_identifier_Inr) code_simp+
  have objects: "op_object (JObj ex_arguments) label 32768 = Inr ex_arguments"
    "op_object (JObj [(''ok'', JBool True)]) label 8192 = Inr [(''ok'', JBool True)]"
    "op_object (JObj [(''done'', JBool True)]) label 8192 = Inr [(''done'', JBool True)]"
    "op_object (JObj []) label 8192 = Inr []" for label
    by (rule fits_object; simp add: ex_arguments_def)+
  show ?thesis
    unfolding parse_step_def ex_step_json_def
    using assms(2-6)
    by (simp add: object_fields_def has_fields_def field_def ids objects op_integer_def res_simps
      ex_plan_step_def)
qed

lemma ex_plan_parsed: "parse_plan ex_parse ex_runtime ex_plan_json = Inr ex_plan"
proof -
  have ids: "bounded_identifier ''s1''" "bounded_identifier ''s2''"
    "op_identifier (JStr ''s1'') = Inr ''s1''" "op_identifier (JStr ''op-1'') = Inr ''op-1''" by code_simp+
  have time: "op_timestamp ex_parse (JStr ''later'') = Inr ex_later" "py_isoformat ex_runtime ex_later = ''later''"
    by code_simp+
  have "valid_json ex_plan_json" "text_size ex_plan_json \<le> 100000"
    by (simp_all add: ex_plan_json_def ex_step_json_def ex_arguments_def)
  then obtain b where b: "canonical_bytes ex_plan_json = Inr b" "length b \<le> 100000"
    using canonical_bytes_total [of ex_plan_json] by (auto simp: MAX_DOCUMENT_BYTES_def)
  have one: "parse_step 2 (ex_step_json ''s1'' []) [] = Inr [(''s1'', ex_plan_step [])]"
    using ex_step_parsed [of "''s1''" "[]" "[]" 2] ids by simp
  have two: "parse_step 2 (ex_step_json ''s2'' [''s1'']) [(''s1'', ex_plan_step [])]
      = Inr [(''s1'', ex_plan_step []), (''s2'', ex_plan_step [''s1''])]"
    using ex_step_parsed [of "''s2''" "[(''s1'', ex_plan_step [])]" "[''s1'']" 2] ids by (simp add: res_simps)
  have "set (completed_steps [(''s1'', ex_plan_step []), (''s2'', ex_plan_step [''s1''])]) = {''s1'', ''s2''}"
    by (simp add: completed_steps_def completion_round_def complete_step_def ex_plan_step_def
      numeral_2_eq_2)
  then show ?thesis
    using b unfolding parse_plan_def ex_plan_json_def
    by (simp add: object_fields_def has_fields_def field_def one [unfolded numeral_2_eq_2]
      two [unfolded numeral_2_eq_2] res_simps op_integer_def ids time ex_plan_def)
qed

section \<open>The state is ready\<close>

lemma ex_og_parts [simp]:
  "og_env ex_og = ex_env" "og_config ex_og = ex_config" "og_autonomy ex_og = ex_autonomy"
  "og_evidence ex_og = ex_store" "env_hash ex_env = ex_hash" "env_parse ex_env = ex_parse"
  "env_runtime ex_env = ex_runtime"
  by (simp_all add: ex_og_def ex_env_def)

lemma ex_call_protocol [simp]:
  assumes "serializable (JObj (operation_member operation))"
  shows "ex_call PROTOCOL operation"
proof -
  have "normalize_text ''protocol'' PROTOCOL = Inr PROTOCOL" by code_simp
  with assms show ?thesis by (simp add: ex_call_def)
qed

lemma ex_route_digest: "step_route_digest ex_og (ex_plan_step deps) = Inr (JStr (ex_hash []))"
proof -
  have "route_for ex_config ''reader'' \<noteq> None" by code_simp
  moreover have "registry_lookup (cfg_registry ex_config) ''bot'' = Inr (Some ex_agent)" by code_simp
  moreover have call: "ex_call PROTOCOL None" by (simp add: operation_member_def)
  ultimately show ?thesis
    using ex_subject_built [OF call ex_caller_principal(1)] ex_subject_digest [OF call]
    by (simp add: step_route_digest_def ex_plan_step_def)
qed

lemma fits_hash [simp]: "length (ex_hash s) = 64"
  by (simp add: ex_hash_def)

lemma ex_policy_digest: "policy_digest ex_hash ex_autonomy = Inr (ex_hash [])"
  unfolding policy_digest_def by (rule fits_digest) (simp add: fits_def ex_autonomy_def)

text \<open>The snapshot of any state of this plan, epoch, facts and validity.\<close>

lemma ex_snapshot:
  assumes "op_plan st = ex_plan" "plan_digest st = ex_hash []" "epoch st = 1"
    "facts st = [(''ok'', JBool True)]" "facts_until st = ''later''"
  shows "snapshot ex_og st = Inr (ex_hash [])"
proof -
  have "fits (JObj [(''plan'', JStr (plan_digest st)), (''epoch'', JInt (epoch st)),
      (''facts'', JObj (facts st)), (''facts_until'', JStr (facts_until st)), (''policy'', JStr (ex_hash [])),
      (''routes'', JObj [(''s1'', JStr (ex_hash [])), (''s2'', JStr (ex_hash []))])])"
    by (simp add: fits_def assms)
  from fits_digest [OF this] show ?thesis
    by (simp add: snapshot_def snapshot_document_def assms(1) ex_plan_def ex_route_digest ex_policy_digest
      res_simps)
qed

lemma ex_times: "op_timestamp ex_parse (JStr ''later'') = Inr ex_later"
  by code_simp

lemma ex_window:
  assumes "op_plan st = ex_plan" "facts_until st = ''later''" "\<not> op_closed st"
  shows "check_window ex_og st 0 = Inr ()"
  using assms by (simp add: check_window_def ex_plan_def ex_times ex_later_def)

lemma ex_ready:
  assumes "op_plan st = ex_plan" "plan_digest st = ex_hash []" "epoch st = 1"
    "facts st = [(''ok'', JBool True)]" "facts_until st = ''later''" "approval st = ex_hash []"
    "\<not> op_closed st" "op_steps st = []"
  shows "check_ready ex_og st ''s1'' ex_clock = Inr (ex_plan_step [], [])"
proof -
  have "\<exists>b. canonical_bytes (JBool True) = Inr b"
    using canonical_bytes_total [of "JBool True"] by (auto simp: MAX_DOCUMENT_BYTES_def)
  then have "precondition_fails st (''ok'', JBool True) = Inr False"
    by (auto simp: precondition_fails_def assms(4))
  moreover have "dict_get (plan_steps ex_plan) ''s1'' = Some (ex_plan_step [])"
    "preconditions (ex_plan_step []) = [(''ok'', JBool True)]" "depends_on (ex_plan_step []) = []"
    by (simp_all add: ex_plan_def ex_plan_step_def)
  ultimately show ?thesis
    using ex_snapshot [OF assms(1-5)] ex_window [OF assms(1,5,7)] assms
    by (simp add: check_ready_def ex_clock_def dependency_digests_def dependency_walk.simps)
qed

section \<open>One dispatch\<close>

definition ex_binding :: dispatch_binding where
  "ex_binding = \<lparr>bound_operation = ''op-1'', bound_plan_digest = ex_hash [], bound_epoch = 1,
     bound_snapshot = ex_hash [], bound_step = ''s1'', bound_attempt = 1, bound_dependencies = []\<rparr>"

definition ex_attempt :: "attempt_phase \<Rightarrow> string option \<Rightarrow> op_attempt" where
  "ex_attempt phase receipt_id = \<lparr>attempt_phase = phase, attempt_subject_digest = ex_hash [],
     attempt_request_id = ex_hash [], reserved_at = ''1970-01-01T00:00:00+00:00'',
     attempt_binding = ex_binding, authorization_receipt_id = receipt_id, transport_state = None\<rparr>"

definition ex_state_with :: "op_attempt \<Rightarrow> op_state" where
  "ex_state_with a = ex_state\<lparr>attempts := 1, cost_spent := 2,
     op_steps := [(''s1'', \<lparr>step_attempt = a, step_observation = None\<rparr>)]\<rparr>"

definition ex_permit :: permit where
  "ex_permit = \<lparr>permit_binding = ex_binding, permit_key = ''op:'' @ ex_hash [],
     permit_request_id = ex_hash []\<rparr>"

definition ex_db :: "op_state \<Rightarrow> op_store" where
  "ex_db st = \<lparr>operations = [(''op-1'', st)], op_events = []\<rparr>"

lemma ex_step_subject:
  "step_subject ex_og ex_principal ex_state ''s1'' ex_clock
     = Inr (ex_plan_step [], ex_subject_for PROTOCOL (Some (binding_members ex_binding)), ex_binding)"
proof -
  have ready: "check_ready ex_og ex_state ''s1'' ex_clock = Inr (ex_plan_step [], [])"
    by (rule ex_ready) (simp_all add: ex_state_def)
  have call: "ex_call PROTOCOL (Some (binding_members ex_binding))"
    by (rule ex_call_protocol) (simp add: operation_member_def binding_members_def ex_binding_def)
  have permitted: "authorize_action ex_runtime ex_principal ''reader'' ''core'' ''src/a.py'' = []"
    by code_simp
  have given: "op_plan ex_state = ex_plan" "dict_get (plan_steps ex_plan) ''s1'' = Some (ex_plan_step [])"
    "step_agent_id (ex_plan_step []) = ''bot''" "step_tool_name (ex_plan_step []) = ''reader''"
    "step_arguments (ex_plan_step []) = ex_arguments" "step_cost (ex_plan_step []) = 2"
    "principal_agent_id ex_principal = ''bot''" "autonomy_tools ex_autonomy = [''reader'']"
    "op_steps ex_state = []" "attempts ex_state = 0" "cost_spent ex_state = 0"
    "max_attempts ex_plan = 2" "max_cost ex_plan = 5"
    by (simp_all add: ex_state_def ex_plan_def ex_plan_step_def ex_principal_def static_principal_def
      ex_autonomy_def)
  have binding: "\<lparr>bound_operation = op_id ex_state, bound_plan_digest = plan_digest ex_state,
      bound_epoch = epoch ex_state, bound_snapshot = approval ex_state, bound_step = ''s1'',
      bound_attempt = 0 + 1, bound_dependencies = []\<rparr> = ex_binding"
    by (simp add: ex_binding_def ex_state_def op_id_def ex_plan_def)
  show ?thesis
    using ex_subject_built [OF call ex_caller_principal(2)] permitted binding
    by (simp add: step_subject_def given ready ex_subject_for_def)
qed

lemma ex_state_fits:
  "fits (op_state_dict (ex_state_with (ex_attempt phase receipt)))"
  if "\<forall>r. receipt = Some r \<longrightarrow> length r \<le> 100"
  using that
  by (cases phase; cases receipt)
    (simp_all add: fits_def op_state_dict_def ex_state_with_def ex_state_def ex_attempt_def ex_plan_def
      operation_plan_dict_def plan_step_dict_def ex_plan_step_def ex_arguments_def step_state_dict_def
      attempt_dict_def binding_members_def ex_binding_def)

lemma ex_state_stored: "stored (ex_state_with (ex_attempt phase receipt)) = ex_state_with (ex_attempt phase receipt)"
proof -
  have "''path'' \<le> ''revision''" "''s1'' \<le> ''s2''" by code_simp+
  then show ?thesis
    by (simp add: stored_def ex_state_with_def ex_state_def stored_plan_def ex_plan_def
      stored_plan_step_def ex_plan_step_def ex_arguments_def sorted_members_def stored_step_def
      ex_attempt_def ex_binding_def)
qed

lemma ex_written:
  assumes "fits (event_document event at details)" "\<forall>r. receipt = Some r \<longrightarrow> length r \<le> 100"
    and "operations db = [(''op-1'', st)]"
  shows "\<exists>db'. save_operation at (ex_state_with (ex_attempt phase receipt)) event details db = Inr db'
    \<and> operations db' = [(''op-1'', ex_state_with (ex_attempt phase receipt))]"
proof -
  have "op_id (ex_state_with a) = ''op-1''" for a
    by (simp add: op_id_def ex_state_with_def ex_state_def ex_plan_def)
  moreover obtain db' where
    "save_operation at (ex_state_with (ex_attempt phase receipt)) event details db = Inr db'"
    "operations db' = dict_set (op_id (ex_state_with (ex_attempt phase receipt)))
       (stored (ex_state_with (ex_attempt phase receipt))) (operations db)"
    using fits_saved [OF ex_state_fits [OF assms(2)] assms(1)] by blast
  ultimately show ?thesis using assms(3) by (intro exI [of _ db']) (simp add: ex_state_stored)
qed

lemma ex_loaded: "operations db = [(''op-1'', st)] \<Longrightarrow> load_operation db ''op-1'' = Inr st"
  by (simp add: load_operation_def)

lemma ex_now: "py_isoformat ex_runtime 0 = ''1970-01-01T00:00:00+00:00''"
  by (simp add: ex_runtime_def)

lemma ex_reserved:
  "\<exists>db. reserve_attempt ex_og ex_clock ''1'' ex_principal ''op-1'' ''s1'' [''ev-1''] (ex_db ex_state)
       = Inr (Inr ex_permit, db)
     \<and> operations db = [(''op-1'', ex_state_with (ex_attempt Phase_Reserved None))]"
proof -
  let ?a = "ex_attempt Phase_Reserved None"
  have call: "ex_call PROTOCOL (Some (binding_members ex_binding))"
    by (rule ex_call_protocol) (simp add: operation_member_def binding_members_def ex_binding_def)
  obtain p where p: "prepare_authority ex_env ex_config ex_store ''bot'' ''reader'' ex_arguments [''ev-1'']
      PROTOCOL (Some ex_principal) (Some (binding_members ex_binding)) ''1'' 0 = Inr p"
    "live_status (prepared_decision p) = LIVE_ALLOW" "prepared_route p = ex_route"
    using ex_prepared_for [OF call] by blast
  have loaded: "load_operation (ex_db ex_state) ''op-1'' = Inr ex_state"
    by (rule ex_loaded) (simp add: ex_db_def)
  have given: "step_agent_id (ex_plan_step []) = ''bot''" "step_tool_name (ex_plan_step []) = ''reader''"
    "step_arguments (ex_plan_step []) = ex_arguments" "principal_agent_id ex_principal = ''bot''"
    "route_connector_id ex_route = []" "step_cost (ex_plan_step []) = 2"
    by (simp_all add: ex_plan_step_def ex_principal_def static_principal_def ex_route_def)
  have digests: "digest ex_hash (JObj (binding_members ex_binding)) = Inr (ex_hash [])"
    "digest ex_hash (JObj [(''agent_id'', JStr ''bot''), (''connector_id'', JStr []),
        (''tool_name'', JStr ''reader''), (''key'', JStr (''op:'' @ ex_hash []))]) = Inr (ex_hash [])"
    by (rule fits_digest; simp add: fits_def binding_members_def ex_binding_def)+
  have event: "fits (event_document ''reserved'' ''1970-01-01T00:00:00+00:00''
      [(''step_id'', JStr ''s1''), (''attempt'', attempt_dict ?a)])"
    by (simp add: fits_def event_document_def attempt_dict_def ex_attempt_def binding_members_def
      ex_binding_def)
  obtain db where db: "save_operation ''1970-01-01T00:00:00+00:00'' (ex_state_with ?a) ''reserved''
      [(''step_id'', JStr ''s1''), (''attempt'', attempt_dict ?a)] (ex_db ex_state) = Inr db"
    "operations db = [(''op-1'', ex_state_with ?a)]"
    using ex_written [OF event, of None "ex_db ex_state"] by (auto simp: ex_db_def)
  have attempt: "\<lparr>attempt_phase = Phase_Reserved, attempt_subject_digest = ex_hash [],
      attempt_request_id = ex_hash [], reserved_at = ''1970-01-01T00:00:00+00:00'',
      attempt_binding = ex_binding, authorization_receipt_id = None, transport_state = None\<rparr> = ?a"
    by (simp add: ex_attempt_def)
  have state: "ex_state\<lparr>op_steps := dict_set ''s1'' \<lparr>step_attempt = ?a, step_observation = None\<rparr>
        (op_steps ex_state), attempts := attempts ex_state + 1, cost_spent := cost_spent ex_state + 2\<rparr>
      = ex_state_with ?a"
    by (simp add: ex_state_with_def ex_state_def)
  show ?thesis
    using db state digests(2)
    by (simp add: reserve_attempt_def loaded ex_step_subject p given digests(1) ex_now attempt
      ex_subject_digest [OF call] ex_clock_def ex_permit_def)
qed

lemma ex_authorized:
  assumes "operations db = [(''op-1'', ex_state_with (ex_attempt Phase_Reserved None))]"
  shows "\<exists>db'. record_authorization ex_og ex_clock ''op-1'' ''s1'' (ex_hash []) ''r-1'' db = Inr db'
    \<and> operations db' = [(''op-1'', ex_state_with (ex_attempt Phase_Reserved (Some ''r-1'')))]"
proof -
  have event: "fits (event_document ''authorized'' ''1970-01-01T00:00:00+00:00''
      [(''step_id'', JStr ''s1''), (''request_id'', JStr (ex_hash [])),
       (''authorization_receipt_id'', JStr ''r-1'')])"
    by (simp add: fits_def event_document_def)
  have state: "(ex_state_with (ex_attempt Phase_Reserved None))\<lparr>op_steps :=
        [(''s1'', \<lparr>step_attempt = ex_attempt Phase_Reserved (Some ''r-1''), step_observation = None\<rparr>)]\<rparr>
      = ex_state_with (ex_attempt Phase_Reserved (Some ''r-1''))"
    by (simp add: ex_state_with_def)
  have step: "step_of (ex_state_with (ex_attempt Phase_Reserved None)) ''s1''
      = Inr \<lparr>step_attempt = ex_attempt Phase_Reserved None, step_observation = None\<rparr>"
    "op_steps (ex_state_with (ex_attempt Phase_Reserved None))
      = [(''s1'', \<lparr>step_attempt = ex_attempt Phase_Reserved None, step_observation = None\<rparr>)]"
    by (simp_all add: step_of_def ex_state_with_def)
  have attempt: "attempt_request_id (ex_attempt Phase_Reserved None) = ex_hash []"
    "attempt_phase (ex_attempt Phase_Reserved None) = Phase_Reserved"
    "(ex_attempt Phase_Reserved None)\<lparr>authorization_receipt_id := Some ''r-1''\<rparr>
       = ex_attempt Phase_Reserved (Some ''r-1'')"
    by (simp_all add: ex_attempt_def)
  show ?thesis
    using ex_written [OF event, of "Some ''r-1''" db] assms
    by (simp add: record_authorization_def ex_loaded [OF assms] step attempt state ex_clock_def ex_now)
qed

lemma ex_guarded:
  assumes "operations db = [(''op-1'', ex_state_with (ex_attempt Phase_Reserved (Some ''r-1'')))]"
  shows "guard_entry ex_og ex_clock ex_binding (ex_hash []) ''r-1'' (Inr ()) db
    = Inr (ex_state_with (ex_attempt Phase_Reserved (Some ''r-1'')),
        \<lparr>step_attempt = ex_attempt Phase_Reserved (Some ''r-1''), step_observation = None\<rparr>)"
proof -
  let ?st = "ex_state_with (ex_attempt Phase_Reserved (Some ''r-1''))"
  let ?s = "\<lparr>step_attempt = ex_attempt Phase_Reserved (Some ''r-1''), step_observation = None\<rparr>"
  have "check_ready ex_og (?st\<lparr>op_steps := []\<rparr>) ''s1'' ex_clock = Inr (ex_plan_step [], [])"
    by (rule ex_ready) (simp_all add: ex_state_with_def ex_state_def)
  moreover have "check_window ex_og (?st\<lparr>op_steps := []\<rparr>) 0 = Inr ()"
    by (rule ex_window) (simp_all add: ex_state_with_def ex_state_def)
  moreover have "step_of ?st ''s1'' = Inr ?s" "op_steps ?st = [(''s1'', ?s)]" "approval ?st = ex_hash []"
    by (simp_all add: step_of_def ex_state_with_def ex_state_def)
  moreover have "bound_operation ex_binding = ''op-1''" "bound_step ex_binding = ''s1''"
    "bound_snapshot ex_binding = ex_hash []" "bound_dependencies ex_binding = []"
    by (simp_all add: ex_binding_def)
  moreover have "attempt_request_id (step_attempt ?s) = ex_hash []"
    "attempt_phase (step_attempt ?s) = Phase_Reserved"
    "authorization_receipt_id (step_attempt ?s) = Some ''r-1''" "ex_clock 2 = 0"
    by (simp_all add: ex_attempt_def ex_clock_def)
  ultimately show ?thesis
    by (simp add: guard_entry_def ex_loaded [OF assms] same_dict_def)
      (simp add: ex_state_with_def Let_def)
qed

text \<open>The three transactions as a run of the world: it ends with one dispatch.\<close>

definition ex_world :: "op_store \<Rightarrow> permit list \<Rightarrow> op_world" where
  "ex_world db ps = \<lparr>world_store = db, live_permits = ps\<rparr>"

lemma ex_world_ok: "store_ok (ex_db ex_state)"
proof -
  have "''path'' \<le> ''revision''" "''s1'' \<le> ''s2''" by code_simp+
  then have "stored_plan ex_plan = ex_plan"
    by (simp add: stored_plan_def ex_plan_def stored_plan_step_def ex_plan_step_def ex_arguments_def
      sorted_members_def)
  moreover have "op_plan ex_state = ex_plan" "attempts ex_state = 0" "cost_spent ex_state = 0"
    "max_attempts ex_plan = 2" "max_cost ex_plan = 5" "plan_operation_id ex_plan = ''op-1''"
    by (simp_all add: ex_state_def ex_plan_def)
  ultimately show ?thesis by (simp add: store_ok_def ex_db_def op_id_def state_ok_def)
qed

lemma ex_dispatched:
  "\<exists>w st. op_run (ex_world (ex_db ex_state) []) [Silent, Silent, Dispatched ''op-1''] w
     \<and> dict_get (operations (world_store w)) ''op-1'' = Some st \<and> attempts st = 1"
proof -
  let ?st = "ex_state_with (ex_attempt Phase_Attempted (Some ''r-1''))"
  obtain db1 where r: "reserve_attempt ex_og ex_clock ''1'' ex_principal ''op-1'' ''s1'' [''ev-1'']
      (ex_db ex_state) = Inr (Inr ex_permit, db1)"
    "operations db1 = [(''op-1'', ex_state_with (ex_attempt Phase_Reserved None))]"
    using ex_reserved by blast
  obtain db2 where a: "record_authorization ex_og ex_clock ''op-1'' ''s1'' (ex_hash []) ''r-1'' db1 = Inr db2"
    "operations db2 = [(''op-1'', ex_state_with (ex_attempt Phase_Reserved (Some ''r-1'')))]"
    using ex_authorized [OF r(2)] by blast
  have event: "fits (event_document ''attempted'' ''1970-01-01T00:00:00+00:00''
      [(''step_id'', JStr ''s1''), (''attempt'', attempt_dict (ex_attempt Phase_Attempted (Some ''r-1'')))])"
    by (simp add: fits_def event_document_def attempt_dict_def ex_attempt_def binding_members_def
      ex_binding_def)
  obtain db3 where s: "save_operation ''1970-01-01T00:00:00+00:00'' ?st ''attempted''
      [(''step_id'', JStr ''s1''), (''attempt'', attempt_dict (ex_attempt Phase_Attempted (Some ''r-1'')))]
      db2 = Inr db3" "operations db3 = [(''op-1'', ?st)]"
    using ex_written [OF event _ a(2), of "Some ''r-1''" Phase_Attempted] by auto
  have marked: "(ex_attempt Phase_Reserved (Some ''r-1''))\<lparr>attempt_phase := Phase_Attempted\<rparr>
      = ex_attempt Phase_Attempted (Some ''r-1'')"
    "(ex_state_with (ex_attempt Phase_Reserved (Some ''r-1'')))\<lparr>op_steps := dict_set ''s1''
        \<lparr>step_attempt = ex_attempt Phase_Attempted (Some ''r-1''), step_observation = None\<rparr>
        (op_steps (ex_state_with (ex_attempt Phase_Reserved (Some ''r-1''))))\<rparr> = ?st"
    by (simp_all add: ex_attempt_def ex_state_with_def)
  have given: "bound_step ex_binding = ''s1''" "permit_binding ex_permit = ex_binding"
    "permit_request_id ex_permit = ex_hash []" "ex_clock 3 = 0" "bound_operation ex_binding = ''op-1''"
    by (simp_all add: ex_binding_def ex_permit_def ex_clock_def)
  have g: "guard ex_og ex_clock (permit_binding ex_permit) (permit_request_id ex_permit) ''r-1'' (Inr ()) db2
      = (True, Inr db3)"
    using s(1) by (simp add: guard_def given ex_guarded [OF a(2)] marked ex_now)
  let ?w = "ex_world (ex_db ex_state) []"
  have "op_step ?w Silent (ex_world db1 [ex_permit])"
    using op_step.step_reserve [of ex_og ex_clock "''1''" ex_principal "''op-1''" "''s1''" "[''ev-1'']" ?w]
      r(1) by (auto simp: ex_world_def)
  moreover have "op_step (ex_world db1 [ex_permit]) Silent (ex_world db2 [ex_permit])"
    using op_step.step_authorize [of ex_og ex_clock "''op-1''" "''s1''" _ "''r-1''" "ex_world db1 [ex_permit]"]
      a(1) by (auto simp: ex_world_def)
  moreover have "op_step (ex_world db2 [ex_permit]) (Dispatched ''op-1'') (ex_world db3 [])"
    using op_step.step_guard [of ex_permit "ex_world db2 [ex_permit]" ex_og ex_clock "''r-1''" "Inr ()"
      True "Inr db3"] g by (simp add: ex_world_def given)
  ultimately have "op_run ?w ((([] @ [Silent]) @ [Silent]) @ [Dispatched ''op-1'']) (ex_world db3 [])"
    by (rule op_run.run_step [OF op_run.run_step [OF op_run.run_step [OF op_run.run_start]]])
  moreover have "attempts ?st = 1" by (simp add: ex_state_with_def)
  ultimately show ?thesis using s(2) by (auto simp: ex_world_def)
qed

end
