(* ===== verification/OperationProperties.thy ===== *)
theory OperationProperties
  imports OperationFixtures
begin

text \<open>
  The properties of bounded operations: the plans that are accepted, what readiness and the dispatch
  guard ensure, and what holds over every history of transactions; and those of the request ledger.
\<close>

section \<open>Plans\<close>

text \<open>C36: An accepted plan has 1 to 32 steps under distinct bounded identifiers, positive bounded costs
  and budgets, known dependencies and an acyclic dependency graph.\<close>

theorem accepted_plan_ok:
  assumes "parse_plan parse rt v = Inr p"
  shows "plan_ok p"
  using parse_plan_ok assms by (rule ensuresD)

theorem accepted_plan_ok_witness:
  "parse_plan ex_parse ex_runtime ex_plan_json = Inr ex_plan \<and> plan_ok ex_plan"
  using ex_plan_parsed accepted_plan_ok [OF ex_plan_parsed] by blast

text \<open>The rounds of \<open>parse_plan\<close>, as many as there are steps, complete every step exactly when the
  dependencies are steps of the plan and no step depends on itself through others.\<close>

theorem rounds_complete_iff_acyclic:
  assumes "distinct (dict_keys steps)"
  shows "set (completed_steps steps) = set (dict_keys steps)
    \<longleftrightarrow> dependencies_known steps \<and> acyclic (needs steps)"
  using assms by (rule completed_steps_iff)

theorem rounds_complete_iff_acyclic_witness:
  "acyclic (needs (plan_steps ex_plan)) \<and> \<not> acyclic (needs [(''a'', ex_plan_step [''a''])])"
proof -
  let ?loop = "[(''a'', ex_plan_step [''a''])]"
  have d: "distinct (dict_keys (plan_steps ex_plan))" "distinct (dict_keys ?loop)"
    by (simp_all add: ex_plan_def)
  have "set (completed_steps (plan_steps ex_plan)) = set (dict_keys (plan_steps ex_plan))"
    by (simp add: ex_plan_def completed_steps_def completion_round_def complete_step_def ex_plan_step_def
      numeral_2_eq_2)
  moreover have "set (completed_steps ?loop) \<noteq> set (dict_keys ?loop)" "dependencies_known ?loop"
    by (simp_all add: completed_steps_def completion_round_def complete_step_def ex_plan_step_def
      dependencies_known_def)
  ultimately show ?thesis
    using rounds_complete_iff_acyclic [OF d(1)] rounds_complete_iff_acyclic [OF d(2)] by blast
qed

section \<open>Readiness\<close>

text \<open>C35: \<open>_dependency_digests\<close> always ends, and it returns exactly when every step that the given one
  rests on is a step of the plan with a current observation that verified it; then it returns
  those steps and no others, each with the digest of such an observation.\<close>

theorem dependencies_exact:
  assumes "dict_get (plan_steps (op_plan st)) step_id = Some s"
    and "distinct (dict_keys (plan_steps (op_plan st)))"
  shows "((\<exists>deps. dependency_digests og st step_id now = Inr deps)
      \<longleftrightarrow> (\<forall>n \<in> rests_on (plan_steps (op_plan st)) (set (depends_on s)).
            verified_step (current_observation og st now) (plan_steps (op_plan st)) n))
    \<and> (\<forall>deps. dependency_digests og st step_id now = Inr deps \<longrightarrow>
          set (dict_keys deps) = rests_on (plan_steps (op_plan st)) (set (depends_on s))
          \<and> (\<forall>kd \<in> set deps. verified_by (current_observation og st now) kd))"
  using dependency_walk_returns_iff [OF assms(2), of "current_observation og st now" "depends_on s"]
    dependency_digests_exact [OF _ assms] assms(1)
  by (simp add: dependency_digests_def)

theorem dependencies_exact_witness:
  "(\<exists>deps. dependency_digests ex_og ex_state ''s1'' 0 = Inr deps)
     \<and> \<not> (\<exists>deps. dependency_digests ex_og ex_state ''s2'' 0 = Inr deps)"
proof -
  have steps: "dict_get (plan_steps (op_plan ex_state)) ''s1'' = Some (ex_plan_step [])"
    "dict_get (plan_steps (op_plan ex_state)) ''s2'' = Some (ex_plan_step [''s1''])"
    "distinct (dict_keys (plan_steps (op_plan ex_state)))"
    "depends_on (ex_plan_step d) = d" for d
    by (simp_all add: ex_state_def ex_plan_def ex_plan_step_def)
  have "current_observation ex_og ex_state 0 ''s1'' = Inr None"
    by (simp add: current_observation_def ex_state_def)
  then have "\<not> verified_step (current_observation ex_og ex_state 0) S ''s1''" for S
    by (simp add: verified_step_def)
  moreover have "''s1'' \<in> rests_on S {''s1''}" "rests_on S {} = {}" for S by (auto simp: rests_on_def)
  ultimately show ?thesis
    using dependencies_exact [OF steps(1,3), of ex_og 0] dependencies_exact [OF steps(2,3), of ex_og 0]
      steps(4) by auto
qed

text \<open>A snapshot digest binds the plan, the epoch, the facts and their validity: two operations
  whose snapshots have the same digest agree in them, where the hash does not collide.\<close>

theorem approval_binds_conditions:
  assumes "snapshot_document og st = Inr v" "snapshot_document og' st' = Inr v'"
    and "digest H v = Inr d" "digest H v' = Inr d"
    and "collision_free_on H {v, v'}" "floats_ok v" "floats_ok v'"
  shows "plan_digest st = plan_digest st' \<and> epoch st = epoch st' \<and> facts_until st = facts_until st'
    \<and> sorted_members (facts st) = sorted_members (facts st')"
  using assms by (rule snapshot_binds)

theorem approval_binds_conditions_witness:
  "\<exists>v. snapshot_document ex_og ex_state = Inr v
     \<and> snapshot_document ex_og (ex_state\<lparr>attempts := 1\<rparr>) = Inr v \<and> digest ex_hash v = Inr (ex_hash [])
     \<and> facts ex_state = facts (ex_state\<lparr>attempts := 1\<rparr>)"
proof -
  let ?v = "JObj
      [(''plan'', JStr (ex_hash [])), (''epoch'', JInt 1), (''facts'', JObj [(''ok'', JBool True)]),
       (''facts_until'', JStr ''later''), (''policy'', JStr (ex_hash [])),
       (''routes'', JObj [(''s1'', JStr (ex_hash [])), (''s2'', JStr (ex_hash []))])]"
  have doc: "snapshot_document ex_og ex_state = Inr ?v"
    "snapshot_document ex_og (ex_state\<lparr>attempts := 1\<rparr>) = Inr ?v"
    by (simp_all add: snapshot_document_def ex_state_def ex_plan_def ex_route_digest ex_policy_digest
      res_simps)
  have d: "digest ex_hash ?v = Inr (ex_hash [])" by (rule fits_digest) (simp add: fits_def)
  have "collision_free_on ex_hash {?v, ?v}" "floats_ok ?v" by (auto simp: collision_free_on_def)
  with approval_binds_conditions [OF doc d d] doc d show ?thesis by auto
qed

section \<open>The dispatch guard\<close>

text \<open>C3: The guard lets the effect happen only in a state where the attempt is still reserved under this
  request and authorization and unobserved, the approval is the one it was reserved under, the
  operation is ready without it (window open, approved snapshot current, preconditions met, nothing
  outstanding, the same dependency evidence), the window is still open, and the gateway's own
  revalidation succeeded.\<close>

theorem guarded_dispatch_sound:
  assumes "guard_entry og clk b rid receipt_id revalidate db = Inr (st', current)"
  shows "\<exists>st. load_operation db (bound_operation b) = Inr st
    \<and> redeemable og clk b rid receipt_id st current \<and> revalidate = Inr ()"
  using assms by (rule guard_entry_redeemable)

theorem guarded_dispatch_sound_witness:
  "\<exists>(db :: op_store) st current. operations db = [(''op-1'', st)]
     \<and> redeemable ex_og ex_clock ex_binding (ex_hash []) ''r-1'' st current"
proof -
  obtain db :: op_store where db: "operations db
      = [(''op-1'', ex_state_with (ex_attempt Phase_Reserved (Some ''r-1'')))]"
  proof -
    obtain db1 :: op_store where "operations db1 = [(''op-1'', ex_state_with (ex_attempt Phase_Reserved None))]"
      using ex_reserved by blast
    from ex_authorized [OF this] that show thesis by blast
  qed
  have "bound_operation ex_binding = ''op-1''" by (simp add: ex_binding_def)
  with guarded_dispatch_sound [OF ex_guarded [OF db]] ex_loaded [OF db] db show ?thesis by auto
qed

text \<open>C26: Changing the conditions, suspending or closing an operation revokes every permit that is
  still out: whatever the gateway, the guard then refuses any binding of the operation that names
  a snapshot.\<close>

theorem epoch_change_revokes_permits:
  assumes "change_epoch og clk action st d db = Inr (st', db')" "load_operation db op = Inr st"
    and "op_id st = op" "bound_operation b = op" "bound_snapshot b \<noteq> []"
  shows "\<exists>e. guard_entry og' clk' b rid receipt_id revalidate db' = Inl e"
proof -
  from change_epoch_commits [OF assms(1,2)] have st': "approval st' = []" by blast
  have "ensures (\<lambda>v. dict_get (operations (snd v)) op = Some (stored (fst v)))
      (change_epoch og clk action st d db)"
    unfolding change_epoch_def Let_def
  proof (intro ensures_bind ensures_if ensures_Inl ensures_Inr, goal_cases)
    case (1 e reason changed db2)
    have "op_id changed = op_id st"
      using 1 by (auto simp: op_id_def new_conditions_def res_simps split: epoch_action.splits if_splits)
    with 1(5) assms(3) show ?case
      by (auto dest!: save_operation_Inr(1) simp: dict_get_set op_id_def)
  qed
  from ensuresD [OF this assms(1)] have "load_operation db' op = Inr (stored st')"
    by (simp add: load_operation_def)
  with assms(4,5) st' show ?thesis
    by (cases "step_of (stored st') (bound_step b)") (auto simp: guard_entry_def Let_def)
qed

theorem epoch_change_revokes_permits_witness:
  "\<exists>st' db' e. change_epoch ex_og ex_clock Close ex_state [(''epoch'', JInt 1), (''reason'', JStr ''done'')]
       (ex_db ex_state) = Inr (st', db')
     \<and> guard_entry ex_og ex_clock ex_binding (ex_hash []) ''r-1'' (Inr ()) db' = Inl e"
proof -
  let ?st = "ex_state\<lparr>op_closed := True, epoch := 2, approval := []\<rparr>"
  let ?details = "[(''epoch'', JInt 2), (''reason'', JStr ''done''), (''facts'', JObj [(''ok'', JBool True)]),
    (''facts_until'', JStr ''later'')]"
  have fits: "fits (op_state_dict ?st)"
    "fits (event_document ''close'' ''1970-01-01T00:00:00+00:00'' ?details)"
    by (simp_all add: fits_def event_document_def op_state_dict_def ex_state_def ex_plan_def
      operation_plan_dict_def plan_step_dict_def ex_plan_step_def ex_arguments_def)
  obtain db' where db: "save_operation ''1970-01-01T00:00:00+00:00'' ?st ''close'' ?details (ex_db ex_state)
      = Inr db'" using fits_saved [OF fits] by blast
  have texts: "op_text (JStr ''done'') ''reason'' 1024 = Inr ''done''" by code_simp
  have given: "facts ex_state = [(''ok'', JBool True)]" "facts_until ex_state = ''later''" "epoch ex_state = 1"
    by (simp_all add: ex_state_def)
  have c: "change_epoch ex_og ex_clock Close ex_state [(''epoch'', JInt 1), (''reason'', JStr ''done'')]
      (ex_db ex_state) = Inr (?st, db')"
    using db by (simp add: change_epoch_def field_def op_integer_def texts given ex_clock_def ex_now)
  have "load_operation (ex_db ex_state) ''op-1'' = Inr ex_state" "op_id ex_state = ''op-1''"
    "bound_operation ex_binding = ''op-1''" "bound_snapshot ex_binding \<noteq> []"
    by (simp_all add: load_operation_def ex_db_def op_id_def ex_state_def ex_plan_def ex_binding_def
      ex_hash_def)
  from epoch_change_revokes_permits [OF c this] c show ?thesis by blast
qed

section \<open>Histories\<close>

text \<open>C4: Over any history of the coordinator's transactions, in any interleaving and with any gateways,
  the dispatches of an operation never exceed its attempts, and attempts and cost never exceed the
  budget of its plan.\<close>

theorem dispatch_budget:
  assumes "op_run w es w'" "store_ok (world_store w)" "live_permits w = []"
    and "dict_get (operations (world_store w')) op = Some st"
  shows "int (dispatches es op) \<le> attempts st \<and> attempts st \<le> max_attempts (op_plan st)
    \<and> cost_spent st \<le> max_cost (op_plan st)"
  using op_run_ok [OF assms(1-3)] assms(4)
  by (auto simp: run_ok_def store_ok_def state_ok_def attempts_of_def dest!: spec [of _ op])

theorem dispatch_budget_witness:
  "\<exists>w st. op_run (ex_world (ex_db ex_state) []) [Silent, Silent, Dispatched ''op-1''] w
     \<and> dict_get (operations (world_store w)) ''op-1'' = Some st
     \<and> 1 \<le> attempts st \<and> attempts st \<le> max_attempts (op_plan st)"
proof -
  obtain w st where w: "op_run (ex_world (ex_db ex_state) []) [Silent, Silent, Dispatched ''op-1''] w"
    "dict_get (operations (world_store w)) ''op-1'' = Some st" using ex_dispatched by blast
  have "store_ok (world_store (ex_world (ex_db ex_state) []))" "live_permits (ex_world (ex_db ex_state) []) = []"
    using ex_world_ok by (simp_all add: ex_world_def)
  from dispatch_budget [OF w(1) this w(2)] w show ?thesis by (auto simp: dispatches_def)
qed

text \<open>C27: A closed operation is never dispatched again, whatever follows.\<close>

theorem closed_operation_stays_closed:
  assumes "op_run w es w'" "store_ok (world_store w)"
    and "dict_get (operations (world_store w)) op = Some st" "op_closed st"
  shows "Dispatched op \<notin> set es"
  using assms by (rule closed_never_dispatches)

theorem closed_operation_stays_closed_witness:
  "\<exists>w. op_run (ex_world (ex_db (ex_state\<lparr>op_closed := True\<rparr>)) [ex_permit]) [Silent] w
     \<and> Dispatched ''op-1'' \<notin> set [Silent]"
proof -
  let ?st = "ex_state\<lparr>op_closed := True\<rparr>" let ?w = "ex_world (ex_db ?st) [ex_permit]"
  have "guard_entry ex_og ex_clock ex_binding (ex_hash []) ''r-1'' (Inr ()) (ex_db ?st) = Inl (KeyError ''s1'')"
    by (simp add: guard_entry_def ex_binding_def load_operation_def ex_db_def step_of_def ex_state_def)
  then have "guard ex_og ex_clock (permit_binding ex_permit) (permit_request_id ex_permit) ''r-1'' (Inr ())
      (ex_db ?st) = (False, Inl (KeyError ''s1''))"
    by (simp add: guard_def ex_permit_def)
  then have "op_step ?w Silent (ex_world (ex_db ?st) [])"
    using op_step.step_guard [of ex_permit ?w ex_og ex_clock "''r-1''" "Inr ()" False "Inl (KeyError ''s1'')"]
    by (simp add: ex_world_def)
  with op_run.run_step [OF op_run.run_start [of ?w]]
  have run: "op_run ?w [Silent] (ex_world (ex_db ?st) [])" by fastforce
  have "store_ok (world_store ?w)" "dict_get (operations (world_store ?w)) ''op-1'' = Some ?st" "op_closed ?st"
    using ex_world_ok by (simp_all add: store_ok_def ex_world_def ex_db_def op_id_def state_ok_def)
  from closed_operation_stays_closed [OF run this] run show ?thesis by blast
qed

text \<open>C28: Over any history an operation that was proposed stays: its plan and plan digest never change,
  its epoch and its attempts never go back, closing is final, and the journal only grows at its
  end.\<close>

theorem operation_history_monotone:
  assumes "op_run w es w'" "store_ok (world_store w)"
    and "dict_get (operations (world_store w)) op = Some st"
  shows "\<exists>st' tail. dict_get (operations (world_store w')) op = Some st'
    \<and> op_plan st' = op_plan st \<and> plan_digest st' = plan_digest st \<and> epoch st \<le> epoch st'
    \<and> attempts st \<le> attempts st' \<and> (op_closed st \<longrightarrow> op_closed st')
    \<and> op_events (world_store w') = op_events (world_store w) @ tail"
proof -
  from assms have "store_ok (world_store w') \<and> ?thesis"
  proof (induction rule: op_run.induct)
    case (run_step w es w1 e w2)
    then obtain st1 tail where ok: "store_ok (world_store w1)"
      and st1: "dict_get (operations (world_store w1)) op = Some st1"
        "op_plan st1 = op_plan st" "plan_digest st1 = plan_digest st" "epoch st \<le> epoch st1"
        "attempts st \<le> attempts st1" "op_closed st \<longrightarrow> op_closed st1"
        "op_events (world_store w1) = op_events (world_store w) @ tail" by blast
    note ss = op_step_store [OF run_step.hyps(2)]
    from store_step_keeps [OF ss ok st1(1)] obtain st2 where
      "dict_get (operations (world_store w2)) op = Some st2" "keeps st1 st2" by blast
    moreover from store_step_events [OF ss] obtain more where
      "op_events (world_store w2) = op_events (world_store w1) @ more" by blast
    ultimately show ?case using store_step_ok [OF ss ok] st1 by (fastforce simp: keeps_def)
  qed simp
  then show ?thesis ..
qed

theorem operation_history_monotone_witness:
  "\<exists>w st. op_run (ex_world (ex_db ex_state) []) [Silent, Silent, Dispatched ''op-1''] w
     \<and> dict_get (operations (world_store w)) ''op-1'' = Some st \<and> op_plan st = ex_plan"
proof -
  obtain w where w: "op_run (ex_world (ex_db ex_state) []) [Silent, Silent, Dispatched ''op-1''] w"
    using ex_dispatched by blast
  have "store_ok (world_store (ex_world (ex_db ex_state) []))"
    "dict_get (operations (world_store (ex_world (ex_db ex_state) []))) ''op-1'' = Some ex_state"
    using ex_world_ok by (simp_all add: ex_world_def ex_db_def)
  from operation_history_monotone [OF w this] w show ?thesis by (auto simp: ex_state_def)
qed

section \<open>The request ledger\<close>

text \<open>C33: Over any history of the ledger's calls, a request id is granted as new at most once, even to
  different subjects.\<close>

theorem request_reserved_once:
  assumes "i < j" "j < length cs"
    and "cs ! i = Call_Reserve rid sd" "fst (mesh_run loads cs l) ! i = Reply_Reservation New"
    and "cs ! j = Call_Reserve rid sd'"
  shows "fst (mesh_run loads cs l) ! j \<noteq> Reply_Reservation New"
  using assms by (rule new_once)

definition ex_calls :: "mesh_call list" where
  "ex_calls = [Call_Reserve ''r'' ''s'', Call_Authorized ''r'' ''a'', Call_Reserve ''r'' ''other'']"

theorem request_reserved_once_witness:
  "fst (mesh_run (\<lambda>_. None) ex_calls [])
     = [Reply_Reservation New, Reply_Done, Reply_Reservation Conflict]
   \<and> fst (mesh_run (\<lambda>_. None) ex_calls []) ! 2 \<noteq> Reply_Reservation New"
proof -
  have run: "fst (mesh_run (\<lambda>_. None) ex_calls [])
      = [Reply_Reservation New, Reply_Done, Reply_Reservation Conflict]"
    by (simp add: ex_calls_def mesh_reserve_def mesh_authorized_def)
  from request_reserved_once [of 0 2 ex_calls "''r''" "''s''" "\<lambda>_. None" "[]" "''other''"] run
  show ?thesis by (simp add: ex_calls_def)
qed

text \<open>A completed request is replayed for ever: whatever calls follow, reserving it again for the
  same subject gives back the response it was completed with, for another subject it is a
  conflict, and it cannot be completed again.\<close>

theorem completed_request_replayed:
  assumes "mesh_complete rid response l = Inr l'" "dict_get l rid = Some row"
    and "canonical_bytes (JObj response) = Inr raw"
  shows "mesh_reserve loads rid sd (snd (mesh_run loads cs l')) =
      (if sd \<noteq> mesh_subject_digest row then Inr (Conflict, snd (mesh_run loads cs l'))
       else res_bind (strict_json loads raw) (\<lambda>d. Inr (Completed d, snd (mesh_run loads cs l'))))
    \<and> (\<exists>e. mesh_complete rid response' (snd (mesh_run loads cs l')) = Inl e)"
  using completed_replayed [OF assms] complete_once [OF assms(1)] by blast

theorem completed_request_replayed_witness:
  "\<exists>l'. mesh_complete ''r'' [] [(''r'', \<lparr>mesh_subject_digest = ''s'', mesh_request_state = Reserved,
       mesh_response = None, mesh_authorization_id = []\<rparr>)] = Inr l'
     \<and> mesh_reserve (\<lambda>_. Some (JObj [])) ''r'' ''s'' l' = Inr (Completed [], l')"
proof -
  let ?row = "\<lparr>mesh_subject_digest = ''s'', mesh_request_state = Reserved, mesh_response = None,
    mesh_authorization_id = []\<rparr>"
  have raw: "canonical_bytes (JObj []) = Inr ''{}''" by code_simp
  then obtain l' where l': "mesh_complete ''r'' [] [(''r'', ?row)] = Inr l'"
    by (auto simp: mesh_complete_def)
  have "strict_json (\<lambda>_. Some (JObj [])) ''{}'' = Inr []" by code_simp
  with completed_request_replayed [OF l' _ raw, of ?row "\<lambda>_. Some (JObj [])" "''s''" "[]"] l'
  show ?thesis by simp
qed

end
