(* ===== verification/ToolPolicy.thy ===== *)
theory ToolPolicy
  imports ToolRequests
begin

text \<open>
  The governed tools before any of them runs: the manifest a tool declares and the registry of
  manifests (\<open>tools/manifest.py\<close>), the deterministic risk classifier (\<open>tools/risk.py\<close>) and the
  evaluator that turns manifest, request and risk into ALLOW, REVIEW_REQUIRED or BLOCK
  (\<open>tools/policy.py\<close>).
\<close>

section \<open>Tool manifests\<close>

datatype tool_side_effect =
  NO_EFFECT | READ_WORKSPACE | WRITE_WORKSPACE | RUN_PROCESS | ACCESS_NETWORK | MUTATE_SYSTEM

fun tool_side_effect_value :: "tool_side_effect \<Rightarrow> string" where
  "tool_side_effect_value NO_EFFECT = ''none''"
| "tool_side_effect_value READ_WORKSPACE = ''read_workspace''"
| "tool_side_effect_value WRITE_WORKSPACE = ''write_workspace''"
| "tool_side_effect_value RUN_PROCESS = ''run_process''"
| "tool_side_effect_value ACCESS_NETWORK = ''access_network''"
| "tool_side_effect_value MUTATE_SYSTEM = ''mutate_system''"

datatype tool_approval_mode = APPROVAL_NEVER | APPROVAL_POLICY | APPROVAL_ALWAYS

fun tool_approval_mode_value :: "tool_approval_mode \<Rightarrow> string" where
  "tool_approval_mode_value APPROVAL_NEVER = ''never''"
| "tool_approval_mode_value APPROVAL_POLICY = ''policy''"
| "tool_approval_mode_value APPROVAL_ALWAYS = ''always''"

text \<open>\<open>_normalize_string_tuple\<close>: stripped, blanks dropped, each once in order.\<close>

definition normalize_string_tuple :: "string list \<Rightarrow> string list" where
  "normalize_string_tuple xs = uniq (filter (\<lambda>c. c \<noteq> []) (map strip xs))"

record tool_path_policy =
  allowed_roots :: "string list"
  blocked_roots :: "string list"
  allow_absolute_paths :: bool

definition tool_path_policy_init :: "tool_path_policy \<Rightarrow> tool_path_policy" where
  "tool_path_policy_init p =
     p\<lparr>allowed_roots := normalize_string_tuple (allowed_roots p),
       blocked_roots := normalize_string_tuple (blocked_roots p)\<rparr>"

text \<open>\<open>_TOOL_ID_PATTERN.fullmatch\<close>: \<open>[a-z][a-z0-9_.:-]{2,127}\<close>.\<close>

definition is_lower_letter :: "char \<Rightarrow> bool" where
  "is_lower_letter c = (97 \<le> code_point c \<and> code_point c \<le> 122)"

definition is_tool_id_char :: "char \<Rightarrow> bool" where
  "is_tool_id_char c = (is_lower_letter c \<or> is_digit c \<or> c \<in> set ''_.:-'')"

definition is_tool_id :: "string \<Rightarrow> bool" where
  "is_tool_id s = (s \<noteq> [] \<and> is_lower_letter (hd s) \<and> 2 \<le> length (tl s) \<and> length (tl s) \<le> 127
     \<and> list_all is_tool_id_char (tl s))"

text \<open>\<open>_normalize_enum_tuple\<close>\<close>

definition normalize_enum_tuple :: "string \<Rightarrow> 'e list \<Rightarrow> 'e list res" where
  "normalize_enum_tuple field_name xs =
     (if xs = [] then Inl (ValueError (field_name @ '' must not be empty.'')) else Inr (uniq xs))"

record tool_manifest =
  manifest_tool_id :: string
  manifest_name :: string
  manifest_version :: string
  manifest_summary :: string
  manifest_capabilities :: "tool_capability list"
  manifest_side_effects :: "tool_side_effect list"
  manifest_approval_mode :: tool_approval_mode
  manifest_input_schema :: "json dict"
  manifest_output_schema :: "json dict"
  default_timeout_micros :: "int option"
  manifest_path_policy :: "tool_path_policy option"
  manifest_tags :: "string list"
  manifest_metadata :: "json dict"

definition tool_manifest_init :: "tool_manifest \<Rightarrow> tool_manifest res" where
  "tool_manifest_init m =
     (if \<not> is_tool_id (strip (manifest_tool_id m))
      then Inl (ValueError ''Tool manifest tool_id must match the tool id pattern.'')
      else if blank (manifest_name m) then Inl (ValueError ''Tool manifest name must not be empty.'')
      else if blank (manifest_version m) then Inl (ValueError ''Tool manifest version must not be empty.'')
      else if blank (manifest_summary m) then Inl (ValueError ''Tool manifest summary must not be empty.'')
      else if manifest_capabilities m = []
      then Inl (ValueError ''Tool manifest must declare at least one capability.'')
      else
       res_bind (normalize_enum_tuple ''capabilities'' (manifest_capabilities m)) (\<lambda>caps.
       res_bind (normalize_enum_tuple ''side_effects'' (manifest_side_effects m)) (\<lambda>effects.
       if NO_EFFECT \<in> set effects \<and> 1 < length effects
       then Inl (ValueError ''ToolSideEffect.NONE cannot be combined with real side effects.'')
       else if (case default_timeout_micros m of None \<Rightarrow> False | Some t \<Rightarrow> t \<le> 0)
       then Inl (ValueError ''Tool manifest default_timeout_seconds must be positive.'')
       else Inr (m\<lparr>manifest_tool_id := strip (manifest_tool_id m), manifest_name := strip (manifest_name m),
                   manifest_version := strip (manifest_version m),
                   manifest_summary := strip (manifest_summary m),
                   manifest_capabilities := caps, manifest_side_effects := effects,
                   manifest_tags := normalize_string_tuple (manifest_tags m)\<rparr>))))"

definition has_side_effects :: "tool_manifest \<Rightarrow> bool" where
  "has_side_effects m = list_ex (\<lambda>e. e \<noteq> NO_EFFECT) (manifest_side_effects m)"

definition manifest_supports :: "tool_manifest \<Rightarrow> tool_capability \<Rightarrow> bool" where
  "manifest_supports m c = (c \<in> set (manifest_capabilities m))"

subsection \<open>The registry\<close>

type_synonym manifest_registry = "tool_manifest dict"

definition register_manifest :: "tool_manifest \<Rightarrow> bool \<Rightarrow> manifest_registry \<Rightarrow> manifest_registry res" where
  "register_manifest m replace_existing reg =
     (if dict_get reg (manifest_tool_id m) \<noteq> None \<and> \<not> replace_existing
      then Inl (ValueError (''Tool manifest already registered: '' @ manifest_tool_id m))
      else Inr (dict_set (manifest_tool_id m) m reg))"

definition get_manifest :: "manifest_registry \<Rightarrow> string \<Rightarrow> tool_manifest res" where
  "get_manifest reg tid =
     (case dict_get reg tid of
        None \<Rightarrow> Inl (KeyError (''Unknown tool manifest: '' @ tid))
      | Some m \<Rightarrow> Inr m)"

definition list_tool_ids :: "manifest_registry \<Rightarrow> string list" where
  "list_tool_ids reg = sort (dict_keys reg)"

definition list_manifests :: "manifest_registry \<Rightarrow> tool_manifest list" where
  "list_manifests reg = List.map_filter (dict_get reg) (list_tool_ids reg)"

definition find_manifests_by_capability :: "manifest_registry \<Rightarrow> tool_capability \<Rightarrow> tool_manifest list" where
  "find_manifests_by_capability reg c = filter (\<lambda>m. manifest_supports m c) (list_manifests reg)"

text \<open>Every manifest of a registry stands under its own tool id.\<close>

definition registry_ok :: "manifest_registry \<Rightarrow> bool" where
  "registry_ok reg \<longleftrightarrow> distinct (dict_keys reg) \<and> (\<forall>(k, m) \<in> set reg. manifest_tool_id m = k)"

lemma registry_ok_Nil [simp]: "registry_ok []"
  by (simp add: registry_ok_def)

lemma set_dict_set: "(k', v') \<in> set (dict_set k v d) \<Longrightarrow> (k', v') = (k, v) \<or> (k', v') \<in> set d"
  by (induction d) (auto split: if_splits)

lemma register_manifest_ok:
  "registry_ok reg \<Longrightarrow> register_manifest m b reg = Inr reg' \<Longrightarrow> registry_ok reg'"
  by (auto simp: register_manifest_def registry_ok_def distinct_update split: if_splits
      dest!: set_dict_set)

lemma get_manifest_registered:
  "registry_ok reg \<Longrightarrow> get_manifest reg tid = Inr m \<Longrightarrow> manifest_tool_id m = tid"
  by (auto simp: get_manifest_def registry_ok_def split: option.splits dest!: map_of_SomeD)

lemma get_after_register:
  "register_manifest m b reg = Inr reg' \<Longrightarrow>
     get_manifest reg' tid = (if tid = manifest_tool_id m then Inr m else get_manifest reg tid)"
  by (auto simp: register_manifest_def get_manifest_def dict_get_set split: if_splits)

section \<open>Risk classification\<close>

datatype tool_risk_level = RISK_LOW | RISK_MEDIUM | RISK_HIGH | RISK_CRITICAL

fun tool_risk_level_value :: "tool_risk_level \<Rightarrow> string" where
  "tool_risk_level_value RISK_LOW = ''low''"
| "tool_risk_level_value RISK_MEDIUM = ''medium''"
| "tool_risk_level_value RISK_HIGH = ''high''"
| "tool_risk_level_value RISK_CRITICAL = ''critical''"

datatype tool_risk_factor =
    FACTOR_APPROVAL_REQUIRED | FACTOR_WORKSPACE_READ | FACTOR_FILESYSTEM_WRITE | FACTOR_PATCH_APPLY
  | FACTOR_PROCESS_EXECUTION | FACTOR_NETWORK_ACCESS | FACTOR_EXTERNAL_SIDE_EFFECT
  | FACTOR_DESTRUCTIVE_OPERATION | FACTOR_SECRET_ACCESS | FACTOR_LARGE_ARGUMENT_PAYLOAD
  | FACTOR_PATH_TRAVERSAL | FACTOR_ABSOLUTE_PATH | FACTOR_SENSITIVE_PATH | FACTOR_OVERRIDE_REQUESTED
  | FACTOR_UNSUPPORTED_CAPABILITY | FACTOR_UNKNOWN_TOOL

fun tool_risk_factor_value :: "tool_risk_factor \<Rightarrow> string" where
  "tool_risk_factor_value FACTOR_APPROVAL_REQUIRED = ''approval_required''"
| "tool_risk_factor_value FACTOR_WORKSPACE_READ = ''workspace_read''"
| "tool_risk_factor_value FACTOR_FILESYSTEM_WRITE = ''filesystem_write''"
| "tool_risk_factor_value FACTOR_PATCH_APPLY = ''patch_apply''"
| "tool_risk_factor_value FACTOR_PROCESS_EXECUTION = ''process_execution''"
| "tool_risk_factor_value FACTOR_NETWORK_ACCESS = ''network_access''"
| "tool_risk_factor_value FACTOR_EXTERNAL_SIDE_EFFECT = ''external_side_effect''"
| "tool_risk_factor_value FACTOR_DESTRUCTIVE_OPERATION = ''destructive_operation''"
| "tool_risk_factor_value FACTOR_SECRET_ACCESS = ''secret_access''"
| "tool_risk_factor_value FACTOR_LARGE_ARGUMENT_PAYLOAD = ''large_argument_payload''"
| "tool_risk_factor_value FACTOR_PATH_TRAVERSAL = ''path_traversal_signal''"
| "tool_risk_factor_value FACTOR_ABSOLUTE_PATH = ''absolute_path_signal''"
| "tool_risk_factor_value FACTOR_SENSITIVE_PATH = ''sensitive_path_signal''"
| "tool_risk_factor_value FACTOR_OVERRIDE_REQUESTED = ''override_requested''"
| "tool_risk_factor_value FACTOR_UNSUPPORTED_CAPABILITY = ''unsupported_capability''"
| "tool_risk_factor_value FACTOR_UNKNOWN_TOOL = ''unknown_tool''"

record risk_signal =
  signal_code :: string
  signal_score :: int
  signal_summary :: string
  signal_metadata :: "json dict"

text \<open>\<open>_normalize_signal_code\<close>; a code the classifier itself raises is never empty.\<close>

definition signal_code_of :: "string \<Rightarrow> string" where
  "signal_code_of s = replace_char CHR '' '' CHR ''-'' (replace_char CHR ''_'' CHR ''-'' (lower (strip s)))"

record risk_assessment =
  assessed_tool :: string
  risk_level :: tool_risk_level
  risk_score :: int
  risk_signals :: "risk_signal list"
  risk_factors :: "tool_risk_factor list"
  risk_rationale :: string
  requires_human_review :: bool
  risk_metadata :: "json dict"

definition signal_codes :: "risk_assessment \<Rightarrow> string list" where
  "signal_codes a = map signal_code (risk_signals a)"

definition has_signal :: "risk_assessment \<Rightarrow> string \<Rightarrow> bool" where
  "has_signal a code = (signal_code_of code \<in> set (signal_codes a))"

definition approval_recommended :: "risk_assessment \<Rightarrow> bool" where
  "approval_recommended a = (requires_human_review a \<or> risk_level a \<in> {RISK_HIGH, RISK_CRITICAL})"

definition block_recommended :: "risk_assessment \<Rightarrow> bool" where
  "block_recommended a = (risk_level a = RISK_CRITICAL
     \<or> list_ex (has_signal a) [''path-traversal-reference'', ''unknown-tool'', ''unsupported-capability''])"

text \<open>\<open>_dedupe_signals\<close>: the first signal of each code.\<close>

fun dedupe_by :: "('a \<Rightarrow> 'k) \<Rightarrow> 'k list \<Rightarrow> 'a list \<Rightarrow> 'a list" where
  "dedupe_by key seen [] = []"
| "dedupe_by key seen (x # xs) =
     (if key x \<in> set seen then dedupe_by key seen xs else x # dedupe_by key (key x # seen) xs)"

definition dedupe_signals :: "risk_signal list \<Rightarrow> risk_signal list" where
  "dedupe_signals xs = dedupe_by signal_code [] xs"

text \<open>
  The classifier's running lists: \<open>_append_signal\<close> adds a signal and its score unless its code
  is there already, while the factor next to it is appended each time.
\<close>

record risk_walk =
  walk_signals :: "risk_signal list"
  walk_factors :: "tool_risk_factor list"
  walk_score :: int

definition append_signal :: "string \<Rightarrow> int \<Rightarrow> string \<Rightarrow> json dict \<Rightarrow> risk_walk \<Rightarrow> risk_walk" where
  "append_signal code n summary metadata w =
     (let c = signal_code_of code in
      if c \<in> signal_code ` set (walk_signals w) then w
      else w\<lparr>walk_signals := walk_signals w @
               [\<lparr>signal_code = c, signal_score = n, signal_summary = summary, signal_metadata = metadata\<rparr>],
             walk_score := walk_score w + n\<rparr>)"

definition note_factor :: "tool_risk_factor \<Rightarrow> risk_walk \<Rightarrow> risk_walk" where
  "note_factor f w = w\<lparr>walk_factors := walk_factors w @ [f]\<rparr>"

definition note_risk :: "tool_risk_factor \<Rightarrow> string \<Rightarrow> int \<Rightarrow> string \<Rightarrow> risk_walk \<Rightarrow> risk_walk" where
  "note_risk f code n summary w = append_signal code n summary [] (note_factor f w)"

fun score_side_effect :: "tool_side_effect \<Rightarrow> risk_walk \<Rightarrow> risk_walk" where
  "score_side_effect NO_EFFECT w = w"
| "score_side_effect READ_WORKSPACE w = note_risk FACTOR_WORKSPACE_READ ''workspace-read'' 5
     ''The tool can read files or directories from the workspace.'' w"
| "score_side_effect WRITE_WORKSPACE w = note_risk FACTOR_FILESYSTEM_WRITE ''workspace-write'' 20
     ''The tool can write or mutate workspace files.'' w"
| "score_side_effect RUN_PROCESS w = note_risk FACTOR_PROCESS_EXECUTION ''process-execution'' 35
     ''The tool can execute a local process.'' w"
| "score_side_effect ACCESS_NETWORK w = note_risk FACTOR_NETWORK_ACCESS ''network-access'' 35
     ''The tool can access the network.'' w"
| "score_side_effect MUTATE_SYSTEM w = note_risk FACTOR_EXTERNAL_SIDE_EFFECT ''system-mutation'' 80
     ''The tool can mutate host or system state outside the workspace.'' w"

fun score_capability :: "tool_capability \<Rightarrow> risk_walk \<Rightarrow> risk_walk" where
  "score_capability SERVICE_WRITE w = note_risk FACTOR_EXTERNAL_SIDE_EFFECT
     ''service-write-capability'' 30 ''The tool can mutate an external enterprise service.'' w"
| "score_capability FILE_READ w = note_risk FACTOR_WORKSPACE_READ ''file-read-capability'' 5
     ''The tool declares file-read capability.'' w"
| "score_capability FILE_WRITE w = note_risk FACTOR_FILESYSTEM_WRITE ''file-write-capability'' 15
     ''The tool declares file-write capability.'' w"
| "score_capability PATCH_APPLY w = note_risk FACTOR_PATCH_APPLY ''patch-apply-capability'' 20
     ''The tool declares patch-application capability.'' w"
| "score_capability COMMAND_EXECUTION w = note_risk FACTOR_PROCESS_EXECUTION
     ''process-execution-capability'' 20 ''The tool declares command-execution capability.'' w"
| "score_capability TEST_EXECUTION w = note_risk FACTOR_PROCESS_EXECUTION
     ''test-execution-capability'' 20 ''The tool declares test-execution capability.'' w"
| "score_capability ARTIFACT_EXPORT w = note_risk FACTOR_EXTERNAL_SIDE_EFFECT
     ''artifact-export-capability'' 5 ''The tool can emit exported artifacts.'' w"
| "score_capability _ w = w"

subsection \<open>What the arguments hold\<close>

text \<open>\<open>_walk_argument_values\<close> and \<open>_walk_argument_items\<close>, in the order the generators yield.\<close>

fun walk_argument_values :: "json \<Rightarrow> json list" where
  "walk_argument_values (JObj kvs) = concat (map (\<lambda>kv. walk_argument_values (snd kv)) kvs)"
| "walk_argument_values (JList xs) = concat (map walk_argument_values xs)"
| "walk_argument_values v = [v]"

fun walk_argument_items :: "json \<Rightarrow> (string \<times> json) list" and
    walk_nested_items :: "json \<Rightarrow> (string \<times> json) list" where
  "walk_argument_items (JObj kvs) =
     concat (map (\<lambda>kv. (fst kv, snd kv) # walk_nested_items (snd kv)) kvs)"
| "walk_argument_items _ = []"
| "walk_nested_items (JObj kvs) = walk_argument_items (JObj kvs)"
| "walk_nested_items (JList xs) = concat (map walk_argument_items xs)"
| "walk_nested_items _ = []"

definition argument_texts :: "json dict \<Rightarrow> string list" where
  "argument_texts args = List.map_filter json_str (walk_argument_values (JObj args))"

definition path_traversal_text :: "string \<Rightarrow> bool" where
  "path_traversal_text s = (let n = replace_char CHR 0x5C CHR ''/'' (strip s) in
     n = ''..'' \<or> starts_with n ''../'' \<or> has_infix ''/../'' n \<or> ends_with n ''/..'' \<or> has_infix ''/..'' n)"

definition windows_absolute :: "string \<Rightarrow> bool" where
  "windows_absolute s = (case s of
     c # d # e # _ \<Rightarrow> is_ascii_alnum c \<and> \<not> is_digit c \<and> d = CHR '':'' \<and> (e = CHR 0x5C \<or> e = CHR ''/'')
   | _ \<Rightarrow> False)"

definition absolute_path_text :: "string \<Rightarrow> bool" where
  "absolute_path_text s = (let n = strip s in starts_with n ''/'' \<or> windows_absolute n)"

definition has_term :: "string list \<Rightarrow> string \<Rightarrow> bool" where
  "has_term terms s = list_ex (\<lambda>t. has_infix t s) terms"

definition SENSITIVE_TERMS :: "string list" where
  "SENSITIVE_TERMS = [''.env'', ''secret'', ''secrets'', ''credential'', ''credentials'', ''private_key'',
     ''ssh_key'', ''api_key'', ''access_token'', ''refresh_token'']"

definition DESTRUCTIVE_TERMS :: "string list" where
  "DESTRUCTIVE_TERMS = [''delete'', ''remove'', ''rm '', ''rmdir'', ''drop table'', ''truncate table'',
     ''format'', ''wipe'']"

definition OVERRIDE_TERMS :: "string list" where
  "OVERRIDE_TERMS = [''force'', ''override'', ''bypass'', ''ignore_policy'', ''skip_policy'', ''unsafe'']"

definition sensitive_text :: "string \<Rightarrow> bool" where
  "sensitive_text s = has_term SENSITIVE_TERMS (replace_char CHR 0x5C CHR ''/'' (lower (strip s)))"

definition destructive_text :: "string \<Rightarrow> bool" where
  "destructive_text s = has_term DESTRUCTIVE_TERMS (lower (strip s))"

definition override_text :: "string \<Rightarrow> bool" where
  "override_text s = has_term OVERRIDE_TERMS (lower (strip s))"

definition contains_path_traversal :: "json dict \<Rightarrow> bool" where
  "contains_path_traversal args = list_ex path_traversal_text (argument_texts args)"

definition contains_absolute_path :: "json dict \<Rightarrow> bool" where
  "contains_absolute_path args = list_ex absolute_path_text (argument_texts args)"

definition contains_sensitive_path :: "json dict \<Rightarrow> bool" where
  "contains_sensitive_path args = list_ex sensitive_text (argument_texts args)"

definition contains_destructive :: "json dict \<Rightarrow> bool" where
  "contains_destructive args = list_ex destructive_text (argument_texts args)"

definition contains_override :: "json dict \<Rightarrow> bool" where
  "contains_override args = list_ex (\<lambda>kv. override_text (fst kv)
     \<or> (case json_str (snd kv) of None \<Rightarrow> False | Some s \<Rightarrow> override_text s)) (walk_argument_items (JObj args))"

definition note_when :: "bool \<Rightarrow> (risk_walk \<Rightarrow> risk_walk) \<Rightarrow> risk_walk \<Rightarrow> risk_walk" where
  "note_when b f w = (if b then f w else w)"

definition score_arguments :: "py_runtime \<Rightarrow> json dict \<Rightarrow> risk_walk \<Rightarrow> risk_walk" where
  "score_arguments rt args w =
     (let size = length (py_repr rt (JObj args));
          w1 = note_when (8000 < int size) (\<lambda>w. append_signal ''large-argument-payload'' 10
                 ''The invocation arguments contain a large serialized payload.''
                 [(''serialized_length'', JInt (int size))] (note_factor FACTOR_LARGE_ARGUMENT_PAYLOAD w)) w;
          w2 = note_when (contains_path_traversal args) (note_risk FACTOR_PATH_TRAVERSAL
                 ''path-traversal-reference'' 100 ''The invocation arguments reference path traversal.'') w1;
          w3 = note_when (contains_absolute_path args) (note_risk FACTOR_ABSOLUTE_PATH
                 ''absolute-path-reference'' 60 ''The invocation arguments reference an absolute path.'') w2;
          w4 = note_when (contains_sensitive_path args) (note_risk FACTOR_SENSITIVE_PATH
                 ''sensitive-path-reference'' 25
                 ''The invocation arguments reference a sensitive path or secret-like name.'') w3;
          w5 = note_when (contains_destructive args) (note_risk FACTOR_DESTRUCTIVE_OPERATION
                 ''destructive-operation-reference'' 35
                 ''The invocation arguments contain destructive operation language.'') w4
      in note_when (contains_override args) (note_risk FACTOR_OVERRIDE_REQUESTED ''override-requested'' 20
           ''The invocation arguments appear to request policy bypass or override.'') w5)"

subsection \<open>The assessment\<close>

definition level_from_score :: "int \<Rightarrow> tool_risk_level" where
  "level_from_score n = (if 100 \<le> n then RISK_CRITICAL else if 60 \<le> n then RISK_HIGH
     else if 25 \<le> n then RISK_MEDIUM else RISK_LOW)"

definition REVIEW_SIGNAL_CODES :: "string list" where
  "REVIEW_SIGNAL_CODES = [''destructive-operation-reference'', ''manifest-approval-required'',
     ''network-access'', ''override-requested'', ''patch-apply-capability'', ''process-execution'',
     ''process-execution-capability'', ''sensitive-path-reference'', ''system-mutation'',
     ''test-execution-capability'', ''workspace-write'']"

definition request_metadata :: "tool_request \<Rightarrow> json dict" where
  "request_metadata req =
     [(''invocation_id'', JStr (invocation_id req)),
      (''tool_id'', JStr (request_tool_id req)),
      (''requested_capability'', JStr (tool_capability_value (tool_capability req))),
      (''argument_keys'', json_strs (sort (dict_keys (tool_arguments req))))]"

definition manifest_risk_metadata :: "tool_manifest \<Rightarrow> json dict" where
  "manifest_risk_metadata m =
     [(''known_tool'', JBool True),
      (''manifest_version'', JStr (manifest_version m)),
      (''declared_capabilities'', json_strs (map tool_capability_value (manifest_capabilities m))),
      (''declared_side_effects'', json_strs (map tool_side_effect_value (manifest_side_effects m))),
      (''approval_mode'', JStr (tool_approval_mode_value (manifest_approval_mode m)))]"

definition rationale_text :: "tool_request \<Rightarrow> tool_risk_level \<Rightarrow> int \<Rightarrow> risk_signal list \<Rightarrow> string" where
  "rationale_text req level score signals =
     (let joined = join '', '' (map signal_code signals);
          signal_text = (if joined = [] then ''no elevated signals'' else joined)
      in ''Tool '' @ [CHR 0x27] @ request_tool_id req @ [CHR 0x27] @ '' assessed at ''
           @ tool_risk_level_value level @ '' risk with score '' @ show_int score
           @ ''. Signals: '' @ signal_text @ ''.'')"

definition needs_human_review :: "tool_manifest option \<Rightarrow> tool_risk_level \<Rightarrow> risk_signal list \<Rightarrow> bool" where
  "needs_human_review manifest level signals =
     (level \<in> {RISK_HIGH, RISK_CRITICAL}
      \<or> (case manifest of None \<Rightarrow> False | Some m \<Rightarrow> manifest_approval_mode m = APPROVAL_ALWAYS)
      \<or> list_ex (\<lambda>s. signal_code s \<in> set REVIEW_SIGNAL_CODES) signals)"

definition build_assessment ::
  "tool_request \<Rightarrow> tool_manifest option \<Rightarrow> json dict \<Rightarrow> risk_walk \<Rightarrow> risk_assessment res" where
  "build_assessment req manifest metadata w =
     (let signals = dedupe_signals (walk_signals w);
          level = level_from_score (walk_score w)
      in res_bind (tool_identifier ''tool_name'' (request_tool_id req)) (\<lambda>name.
         Inr \<lparr>assessed_tool = name, risk_level = level, risk_score = walk_score w,
              risk_signals = signals, risk_factors = uniq (walk_factors w),
              risk_rationale = rationale_text req level (walk_score w) signals,
              requires_human_review = needs_human_review manifest level signals,
              risk_metadata = metadata\<rparr>))"

definition assess_manifest :: "py_runtime \<Rightarrow> tool_request \<Rightarrow> tool_manifest \<Rightarrow> risk_walk" where
  "assess_manifest rt req m =
     (let w0 = \<lparr>walk_signals = [], walk_factors = [], walk_score = 0\<rparr>;
          w1 = note_when (\<not> manifest_supports m (tool_capability req)) (\<lambda>w.
                 note_factor FACTOR_UNSUPPORTED_CAPABILITY
                   (append_signal ''unsupported-capability'' 100
                     ''The request capability is not declared by the tool manifest.''
                     [(''requested_capability'', JStr (tool_capability_value (tool_capability req))),
                      (''declared_capabilities'', json_strs (map tool_capability_value (manifest_capabilities m)))]
                     w)) w0;
          w2 = fold score_side_effect (manifest_side_effects m) w1;
          w3 = fold score_capability (manifest_capabilities m) w2;
          w4 = note_when (manifest_approval_mode m = APPROVAL_ALWAYS) (note_risk FACTOR_APPROVAL_REQUIRED
                 ''manifest-approval-required'' 15
                 ''The tool manifest requires human approval by default.'') w3
      in score_arguments rt (tool_arguments req) w4)"

definition assess_risk :: "py_runtime \<Rightarrow> tool_request \<Rightarrow> tool_manifest option \<Rightarrow> risk_assessment res" where
  "assess_risk rt req manifest =
     (case manifest of
        None \<Rightarrow> build_assessment req None (dict_set ''known_tool'' (JBool False) (request_metadata req))
                  (note_factor FACTOR_UNKNOWN_TOOL (append_signal ''unknown-tool'' 100
                     ''No manifest was available for the requested tool.'' []
                     \<lparr>walk_signals = [], walk_factors = [], walk_score = 0\<rparr>))
      | Some m \<Rightarrow> build_assessment req (Some m)
                  (fold (\<lambda>kv. dict_set (fst kv) (snd kv)) (manifest_risk_metadata m) (request_metadata req))
                  (assess_manifest rt req m))"

subsection \<open>ToolRiskPolicyEngine\<close>

record risk_policy =
  max_auto_level :: tool_risk_level
  require_review_for_factors :: "tool_risk_factor list"
  block_factors :: "tool_risk_factor list"

definition default_risk_policy :: risk_policy where
  "default_risk_policy = \<lparr>max_auto_level = RISK_LOW,
     require_review_for_factors = [FACTOR_FILESYSTEM_WRITE, FACTOR_PATCH_APPLY, FACTOR_PROCESS_EXECUTION,
       FACTOR_NETWORK_ACCESS, FACTOR_SECRET_ACCESS, FACTOR_DESTRUCTIVE_OPERATION, FACTOR_SENSITIVE_PATH,
       FACTOR_OVERRIDE_REQUESTED],
     block_factors = [FACTOR_UNKNOWN_TOOL, FACTOR_UNSUPPORTED_CAPABILITY, FACTOR_PATH_TRAVERSAL]\<rparr>"

fun level_order :: "tool_risk_level \<Rightarrow> int" where
  "level_order RISK_LOW = 1"
| "level_order RISK_MEDIUM = 2"
| "level_order RISK_HIGH = 3"
| "level_order RISK_CRITICAL = 4"

datatype risk_decision_kind = RISK_ALLOW | RISK_REQUIRE_REVIEW | RISK_BLOCK

definition risk_decide :: "risk_policy \<Rightarrow> risk_assessment \<Rightarrow> risk_decision_kind" where
  "risk_decide p a =
     (if list_ex (\<lambda>f. f \<in> set (block_factors p)) (risk_factors a) then RISK_BLOCK
      else if level_order (max_auto_level p) < level_order (risk_level a) then RISK_REQUIRE_REVIEW
      else if list_ex (\<lambda>f. f \<in> set (require_review_for_factors p)) (risk_factors a) then RISK_REQUIRE_REVIEW
      else if requires_human_review a then RISK_REQUIRE_REVIEW
      else RISK_ALLOW)"

section \<open>Policy evaluation\<close>

datatype tool_policy_decision = TOOL_ALLOW | TOOL_REVIEW_REQUIRED | TOOL_BLOCK

fun tool_policy_decision_value :: "tool_policy_decision \<Rightarrow> string" where
  "tool_policy_decision_value TOOL_ALLOW = ''allow''"
| "tool_policy_decision_value TOOL_REVIEW_REQUIRED = ''review_required''"
| "tool_policy_decision_value TOOL_BLOCK = ''block''"

record tool_policy_reason =
  reason_code :: string
  reason_decision :: tool_policy_decision
  reason_summary :: string
  reason_metadata :: "json dict"

record tool_policy_evaluation =
  evaluated_tool_id :: string
  evaluated_invocation_id :: string
  policy_decision :: tool_policy_decision
  evaluated_risk :: risk_assessment
  policy_reasons :: "tool_policy_reason list"
  policy_metadata :: "json dict"

definition policy_reason_codes :: "tool_policy_evaluation \<Rightarrow> string list" where
  "policy_reason_codes ev = map reason_code (policy_reasons ev)"

record tool_policy_config =
  allow_network_access :: bool
  allow_system_mutation :: bool
  config_allow_absolute_paths :: bool
  block_on_critical_risk :: bool
  review_high_risk :: bool
  review_workspace_writes :: bool
  review_process_execution :: bool
  review_sensitive_paths :: bool
  blocked_capabilities :: "tool_capability list"
  blocked_side_effects :: "tool_side_effect list"
  review_capabilities :: "tool_capability list"
  review_side_effects :: "tool_side_effect list"

definition default_policy_config :: tool_policy_config where
  "default_policy_config =
     \<lparr>allow_network_access = False, allow_system_mutation = False, config_allow_absolute_paths = False,
      block_on_critical_risk = True, review_high_risk = True, review_workspace_writes = True,
      review_process_execution = True, review_sensitive_paths = True,
      blocked_capabilities = [], blocked_side_effects = [],
      review_capabilities = [FILE_WRITE, SERVICE_WRITE, PATCH_APPLY, COMMAND_EXECUTION, TEST_EXECUTION],
      review_side_effects = [WRITE_WORKSPACE, RUN_PROCESS]\<rparr>"

definition tool_policy_config_init :: "tool_policy_config \<Rightarrow> tool_policy_config" where
  "tool_policy_config_init c =
     c\<lparr>blocked_capabilities := uniq (blocked_capabilities c),
       blocked_side_effects := uniq (blocked_side_effects c),
       review_capabilities := uniq (review_capabilities c),
       review_side_effects := uniq (review_side_effects c)\<rparr>"

definition reason_if :: "bool \<Rightarrow> string \<Rightarrow> tool_policy_decision \<Rightarrow> string \<Rightarrow> json dict
    \<Rightarrow> tool_policy_reason list" where
  "reason_if b code d summary metadata =
     (if b then [\<lparr>reason_code = code, reason_decision = d, reason_summary = summary,
                  reason_metadata = metadata\<rparr>] else [])"

definition capability_reasons :: "tool_policy_config \<Rightarrow> tool_manifest \<Rightarrow> tool_policy_reason list" where
  "capability_reasons cfg m = concat (map (\<lambda>c.
     let meta = [(''capability'', JStr (tool_capability_value c))] in
     if c \<in> set (blocked_capabilities cfg)
     then reason_if True ''capability-blocked'' TOOL_BLOCK
            ''Tool declares a capability blocked by policy.'' meta
     else reason_if (c \<in> set (review_capabilities cfg)) ''capability-review-required'' TOOL_REVIEW_REQUIRED
            ''Tool declares a capability that requires review.'' meta)
     (manifest_capabilities m))"

definition one_side_effect_reasons :: "tool_policy_config \<Rightarrow> tool_side_effect \<Rightarrow> tool_policy_reason list" where
  "one_side_effect_reasons cfg e =
     (let meta = [(''side_effect'', JStr (tool_side_effect_value e))] in
      reason_if (e \<in> set (blocked_side_effects cfg)) ''side-effect-blocked'' TOOL_BLOCK
        ''Tool declares a side effect blocked by policy.'' meta
      @ reason_if (e = ACCESS_NETWORK \<and> \<not> allow_network_access cfg) ''network-access-blocked'' TOOL_BLOCK
        ''Network access is disabled by tool policy.'' meta
      @ reason_if (e = MUTATE_SYSTEM \<and> \<not> allow_system_mutation cfg) ''system-mutation-blocked'' TOOL_BLOCK
        ''Host/system mutation is disabled by tool policy.'' meta
      @ reason_if (e \<in> set (review_side_effects cfg)) ''side-effect-review-required'' TOOL_REVIEW_REQUIRED
        ''Tool declares a side effect that requires review.'' meta
      @ reason_if (e = WRITE_WORKSPACE \<and> review_workspace_writes cfg)
        ''workspace-write-review-required'' TOOL_REVIEW_REQUIRED
        ''Workspace writes require review by default.'' meta
      @ reason_if (e = RUN_PROCESS \<and> review_process_execution cfg)
        ''process-execution-review-required'' TOOL_REVIEW_REQUIRED
        ''Local process execution requires review by default.'' meta)"

definition side_effect_reasons :: "tool_policy_config \<Rightarrow> tool_manifest \<Rightarrow> tool_policy_reason list" where
  "side_effect_reasons cfg m = concat (map (one_side_effect_reasons cfg) (manifest_side_effects m))"

definition level_metadata :: "risk_assessment \<Rightarrow> json dict" where
  "level_metadata a = [(''risk_level'', JStr (tool_risk_level_value (risk_level a))),
     (''risk_score'', JInt (risk_score a))]"

definition signal_metadata_of :: "risk_assessment \<Rightarrow> json dict" where
  "signal_metadata_of a = level_metadata a @ [(''risk_signals'', json_strs (signal_codes a))]"

definition risk_reasons :: "tool_policy_config \<Rightarrow> risk_assessment \<Rightarrow> tool_policy_reason list" where
  "risk_reasons cfg a =
     reason_if (block_recommended a) ''risk-block-recommended'' TOOL_BLOCK
       ''Risk classifier recommended blocking this invocation.'' (signal_metadata_of a)
     @ reason_if (block_on_critical_risk cfg \<and> risk_level a = RISK_CRITICAL) ''critical-risk-blocked'' TOOL_BLOCK
       ''Critical-risk tool invocations are blocked by policy.'' (level_metadata a)
     @ reason_if (approval_recommended a) ''risk-review-recommended'' TOOL_REVIEW_REQUIRED
       ''Risk classifier recommended operator review.'' (signal_metadata_of a)
     @ reason_if (review_high_risk cfg \<and> risk_level a = RISK_HIGH) ''high-risk-review-required''
       TOOL_REVIEW_REQUIRED ''High-risk tool invocations require review.'' (level_metadata a)"

definition approval_mode_reasons :: "tool_manifest \<Rightarrow> tool_policy_reason list" where
  "approval_mode_reasons m =
     reason_if (manifest_approval_mode m = APPROVAL_ALWAYS) ''manifest-approval-required'' TOOL_REVIEW_REQUIRED
       ''Tool manifest requires approval before execution.''
       [(''approval_mode'', JStr (tool_approval_mode_value (manifest_approval_mode m)))]"

definition path_signal_reasons :: "tool_policy_config \<Rightarrow> risk_assessment \<Rightarrow> tool_policy_reason list" where
  "path_signal_reasons cfg a =
     reason_if (has_signal a ''path-traversal-reference'') ''path-traversal-blocked'' TOOL_BLOCK
       ''Path traversal references are blocked by policy.'' []
     @ reason_if (has_signal a ''absolute-path-reference'' \<and> \<not> config_allow_absolute_paths cfg)
       ''absolute-path-blocked'' TOOL_BLOCK ''Absolute path references are blocked by policy.'' []
     @ reason_if (has_signal a ''sensitive-path-reference'' \<and> review_sensitive_paths cfg)
       ''sensitive-path-review-required'' TOOL_REVIEW_REQUIRED
       ''Sensitive path or credential-like references require review.'' []"

text \<open>
  \<open>_dedupe_reasons\<close> keys a reason by its code, its decision and the \<open>repr\<close> of its metadata in key
  order; the metadata hold texts, integers and lists of texts, which their \<open>repr\<close> tells apart.
\<close>

definition build_reasons ::
  "tool_policy_config \<Rightarrow> tool_manifest \<Rightarrow> tool_request \<Rightarrow> risk_assessment \<Rightarrow> tool_policy_reason list" where
  "build_reasons cfg m req a =
     dedupe_by (\<lambda>r. (reason_code r, reason_decision r, sort_key fst (reason_metadata r))) []
      (reason_if (manifest_tool_id m \<noteq> request_tool_id req) ''tool-id-mismatch'' TOOL_BLOCK
         ''Request tool_id does not match the selected manifest.''
         [(''manifest_tool_id'', JStr (manifest_tool_id m)), (''request_tool_id'', JStr (request_tool_id req))]
       @ reason_if (\<not> manifest_supports m (tool_capability req)) ''unsupported-capability'' TOOL_BLOCK
         ''Request capability is not declared by the manifest.''
         [(''requested_capability'', JStr (tool_capability_value (tool_capability req))),
          (''declared_capabilities'', json_strs (map tool_capability_value (manifest_capabilities m)))]
       @ capability_reasons cfg m
       @ side_effect_reasons cfg m
       @ risk_reasons cfg a
       @ approval_mode_reasons m
       @ path_signal_reasons cfg a)"

fun strongest_decision :: "tool_policy_decision \<Rightarrow> tool_policy_decision list \<Rightarrow> tool_policy_decision" where
  "strongest_decision strongest [] = strongest"
| "strongest_decision strongest (d # ds) =
     (if d = TOOL_BLOCK then TOOL_BLOCK
      else strongest_decision (if d = TOOL_REVIEW_REQUIRED then TOOL_REVIEW_REQUIRED else strongest) ds)"

definition evaluate_tool_policy ::
  "py_runtime \<Rightarrow> tool_policy_config \<Rightarrow> tool_manifest \<Rightarrow> tool_request \<Rightarrow> risk_assessment option
    \<Rightarrow> tool_policy_evaluation res" where
  "evaluate_tool_policy rt cfg m req given =
     res_bind (case given of Some a \<Rightarrow> Inr a | None \<Rightarrow> assess_risk rt req (Some m)) (\<lambda>a.
     let reasons = build_reasons cfg m req a;
         decision = strongest_decision TOOL_ALLOW (map reason_decision reasons);
         final = (if reasons = []
           then reason_if True ''policy-allow-default'' TOOL_ALLOW
             ''Tool invocation passed manifest, risk, and policy checks.'' (level_metadata a)
           else reasons)
     in res_bind (tool_identifier ''tool_id'' (manifest_tool_id m)) (\<lambda>tid.
        res_bind (tool_identifier ''invocation_id'' (invocation_id req)) (\<lambda>iid.
        Inr \<lparr>evaluated_tool_id = tid, evaluated_invocation_id = iid,
             policy_decision = (if reasons = [] then TOOL_ALLOW else decision),
             evaluated_risk = a, policy_reasons = final,
             policy_metadata = [(''capability'', JStr (tool_capability_value (tool_capability req))),
               (''approval_mode'', JStr (tool_approval_mode_value (manifest_approval_mode m)))] @ level_metadata a\<rparr>)))"

section \<open>What the evaluator decides\<close>

lemma dedupe_by_keys: "key ` set (dedupe_by key seen xs) = key ` set xs - set seen"
  by (induction key seen xs rule: dedupe_by.induct) auto

lemma dedupe_by_subset: "set (dedupe_by key seen xs) \<subseteq> set xs"
  by (induction key seen xs rule: dedupe_by.induct) auto

lemma dedupe_by_distinct: "distinct (map key (dedupe_by key seen xs))"
proof (induction key seen xs rule: dedupe_by.induct)
  case (2 key seen x xs)
  have "key x \<notin> key ` set (dedupe_by key (key x # seen) xs)"
    by (simp add: dedupe_by_keys)
  with 2 show ?case by simp
qed simp

lemma strongest_decision_set:
  "strongest_decision TOOL_REVIEW_REQUIRED ds =
     (if TOOL_BLOCK \<in> set ds then TOOL_BLOCK else TOOL_REVIEW_REQUIRED)"
  "strongest_decision TOOL_ALLOW ds =
     (if TOOL_BLOCK \<in> set ds then TOOL_BLOCK
      else if TOOL_REVIEW_REQUIRED \<in> set ds then TOOL_REVIEW_REQUIRED else TOOL_ALLOW)"
proof -
  show review: "strongest_decision TOOL_REVIEW_REQUIRED ds =
     (if TOOL_BLOCK \<in> set ds then TOOL_BLOCK else TOOL_REVIEW_REQUIRED)" for ds
    by (induction ds) auto
  show "strongest_decision TOOL_ALLOW ds =
     (if TOOL_BLOCK \<in> set ds then TOOL_BLOCK
      else if TOOL_REVIEW_REQUIRED \<in> set ds then TOOL_REVIEW_REQUIRED else TOOL_ALLOW)"
    by (induction ds) (auto simp: review)
qed

text \<open>
  The table the evaluator implements, without reasons: what blocks an invocation, and what sends
  it to review.
\<close>

definition policy_blocks ::
  "tool_policy_config \<Rightarrow> tool_manifest \<Rightarrow> tool_request \<Rightarrow> risk_assessment \<Rightarrow> bool" where
  "policy_blocks cfg m req a \<longleftrightarrow>
     manifest_tool_id m \<noteq> request_tool_id req
     \<or> \<not> manifest_supports m (tool_capability req)
     \<or> set (manifest_capabilities m) \<inter> set (blocked_capabilities cfg) \<noteq> {}
     \<or> set (manifest_side_effects m) \<inter> set (blocked_side_effects cfg) \<noteq> {}
     \<or> ACCESS_NETWORK \<in> set (manifest_side_effects m) \<and> \<not> allow_network_access cfg
     \<or> MUTATE_SYSTEM \<in> set (manifest_side_effects m) \<and> \<not> allow_system_mutation cfg
     \<or> block_recommended a
     \<or> has_signal a ''absolute-path-reference'' \<and> \<not> config_allow_absolute_paths cfg"

definition policy_reviews ::
  "tool_policy_config \<Rightarrow> tool_manifest \<Rightarrow> risk_assessment \<Rightarrow> bool" where
  "policy_reviews cfg m a \<longleftrightarrow>
     set (manifest_capabilities m) \<inter> set (review_capabilities cfg) \<noteq> {}
     \<or> set (manifest_side_effects m) \<inter> set (review_side_effects cfg) \<noteq> {}
     \<or> WRITE_WORKSPACE \<in> set (manifest_side_effects m) \<and> review_workspace_writes cfg
     \<or> RUN_PROCESS \<in> set (manifest_side_effects m) \<and> review_process_execution cfg
     \<or> approval_recommended a
     \<or> manifest_approval_mode m = APPROVAL_ALWAYS
     \<or> has_signal a ''sensitive-path-reference'' \<and> review_sensitive_paths cfg"

lemma reason_if_decisions: "reason_decision ` set (reason_if b code d s md) = (if b then {d} else {})"
  by (simp add: reason_if_def)

text \<open>The decisions a group of reasons holds.\<close>

abbreviation decisions_of :: "tool_policy_reason list \<Rightarrow> tool_policy_decision set" where
  "decisions_of rs \<equiv> reason_decision ` set rs"

named_theorems decision_simps \<open>the decisions among each group of reasons\<close>

lemma reason_if_decision [decision_simps]: "decisions_of (reason_if b code d s md) = (if b then {d} else {})"
  by (simp add: reason_if_def)

lemma concat_decisions: "decisions_of (concat (map f xs)) = (\<Union>x \<in> set xs. decisions_of (f x))"
  by auto

lemma append_decisions [decision_simps]: "decisions_of (xs @ ys) = decisions_of xs \<union> decisions_of ys"
  by auto

lemma capability_reasons_decision [decision_simps]:
  "TOOL_ALLOW \<notin> decisions_of (capability_reasons cfg m)"
  "TOOL_BLOCK \<in> decisions_of (capability_reasons cfg m) \<longleftrightarrow>
     set (manifest_capabilities m) \<inter> set (blocked_capabilities cfg) \<noteq> {}"
  "TOOL_REVIEW_REQUIRED \<in> decisions_of (capability_reasons cfg m) \<longleftrightarrow>
     set (manifest_capabilities m) \<inter> (set (review_capabilities cfg) - set (blocked_capabilities cfg)) \<noteq> {}"
  unfolding capability_reasons_def concat_decisions Let_def if_distrib [of set] if_distrib [of "image _"]
    reason_if_decision
  by auto

lemma one_side_effect_reasons_decision [decision_simps]:
  "TOOL_ALLOW \<notin> decisions_of (one_side_effect_reasons cfg e)"
  "TOOL_BLOCK \<in> decisions_of (one_side_effect_reasons cfg e) \<longleftrightarrow>
     e \<in> set (blocked_side_effects cfg) \<or> e = ACCESS_NETWORK \<and> \<not> allow_network_access cfg
     \<or> e = MUTATE_SYSTEM \<and> \<not> allow_system_mutation cfg"
  "TOOL_REVIEW_REQUIRED \<in> decisions_of (one_side_effect_reasons cfg e) \<longleftrightarrow>
     e \<in> set (review_side_effects cfg) \<or> e = WRITE_WORKSPACE \<and> review_workspace_writes cfg
     \<or> e = RUN_PROCESS \<and> review_process_execution cfg"
  unfolding one_side_effect_reasons_def Let_def append_decisions reason_if_decision by auto

lemma side_effect_reasons_decision [decision_simps]:
  "TOOL_ALLOW \<notin> decisions_of (side_effect_reasons cfg m)"
  "TOOL_BLOCK \<in> decisions_of (side_effect_reasons cfg m) \<longleftrightarrow>
     set (manifest_side_effects m) \<inter> set (blocked_side_effects cfg) \<noteq> {}
     \<or> ACCESS_NETWORK \<in> set (manifest_side_effects m) \<and> \<not> allow_network_access cfg
     \<or> MUTATE_SYSTEM \<in> set (manifest_side_effects m) \<and> \<not> allow_system_mutation cfg"
  "TOOL_REVIEW_REQUIRED \<in> decisions_of (side_effect_reasons cfg m) \<longleftrightarrow>
     set (manifest_side_effects m) \<inter> set (review_side_effects cfg) \<noteq> {}
     \<or> WRITE_WORKSPACE \<in> set (manifest_side_effects m) \<and> review_workspace_writes cfg
     \<or> RUN_PROCESS \<in> set (manifest_side_effects m) \<and> review_process_execution cfg"
  unfolding side_effect_reasons_def concat_decisions UN_iff one_side_effect_reasons_decision
  by (auto simp: one_side_effect_reasons_decision)

lemma risk_reasons_decision [decision_simps]:
  "decisions_of (risk_reasons cfg a) =
     (if block_recommended a \<or> block_on_critical_risk cfg \<and> risk_level a = RISK_CRITICAL
      then {TOOL_BLOCK} else {})
     \<union> (if approval_recommended a \<or> review_high_risk cfg \<and> risk_level a = RISK_HIGH
      then {TOOL_REVIEW_REQUIRED} else {})"
  unfolding risk_reasons_def append_decisions reason_if_decision by auto

lemma path_signal_reasons_decision [decision_simps]:
  "decisions_of (path_signal_reasons cfg a) =
     (if has_signal a ''path-traversal-reference''
        \<or> has_signal a ''absolute-path-reference'' \<and> \<not> config_allow_absolute_paths cfg
      then {TOOL_BLOCK} else {})
     \<union> (if has_signal a ''sensitive-path-reference'' \<and> review_sensitive_paths cfg
      then {TOOL_REVIEW_REQUIRED} else {})"
  unfolding path_signal_reasons_def append_decisions reason_if_decision by auto

lemma approval_mode_reasons_decision [decision_simps]:
  "decisions_of (approval_mode_reasons m) =
     (if manifest_approval_mode m = APPROVAL_ALWAYS then {TOOL_REVIEW_REQUIRED} else {})"
  by (simp add: approval_mode_reasons_def reason_if_decision)

lemma dedupe_decisions:
  "decisions_of (dedupe_by (\<lambda>r. (reason_code r, reason_decision r, f r)) [] rs) = decisions_of rs"
proof -
  let ?key = "\<lambda>r. (reason_code r, reason_decision r, f r)"
  have "decisions_of xs = (fst \<circ> snd) ` ?key ` set xs" for xs by force
  then show ?thesis by (simp only: dedupe_by_keys) simp
qed

lemma in_if: "d \<in> (if b then {x} else {}) \<longleftrightarrow> b \<and> d = x"
  by simp

lemmas build_reasons_parts = build_reasons_def dedupe_decisions append_decisions Un_iff
  capability_reasons_decision side_effect_reasons_decision risk_reasons_decision
  path_signal_reasons_decision approval_mode_reasons_decision reason_if_decision in_if

lemma build_allow_free: "TOOL_ALLOW \<notin> decisions_of (build_reasons cfg m req a)"
  unfolding build_reasons_parts by (simp only: capability_reasons_decision side_effect_reasons_decision
    tool_policy_decision.distinct simp_thms not_False_eq_True)

lemma build_block_parts:
  "TOOL_BLOCK \<in> decisions_of (build_reasons cfg m req a) \<longleftrightarrow>
     policy_blocks cfg m req a \<or> block_on_critical_risk cfg \<and> risk_level a = RISK_CRITICAL
     \<or> has_signal a ''path-traversal-reference''"
  unfolding build_reasons_parts policy_blocks_def by blast

lemma build_review_parts:
  "TOOL_REVIEW_REQUIRED \<in> decisions_of (build_reasons cfg m req a) \<longleftrightarrow>
     set (manifest_capabilities m) \<inter> (set (review_capabilities cfg) - set (blocked_capabilities cfg)) \<noteq> {}
     \<or> set (manifest_side_effects m) \<inter> set (review_side_effects cfg) \<noteq> {}
     \<or> WRITE_WORKSPACE \<in> set (manifest_side_effects m) \<and> review_workspace_writes cfg
     \<or> RUN_PROCESS \<in> set (manifest_side_effects m) \<and> review_process_execution cfg
     \<or> approval_recommended a \<or> review_high_risk cfg \<and> risk_level a = RISK_HIGH
     \<or> manifest_approval_mode m = APPROVAL_ALWAYS
     \<or> has_signal a ''sensitive-path-reference'' \<and> review_sensitive_paths cfg"
  unfolding build_reasons_parts by (simp only: tool_policy_decision.distinct simp_thms disj_assoc)

definition policy_table ::
  "tool_policy_config \<Rightarrow> tool_manifest \<Rightarrow> tool_request \<Rightarrow> risk_assessment \<Rightarrow> tool_policy_decision" where
  "policy_table cfg m req a =
     (if policy_blocks cfg m req a then TOOL_BLOCK
      else if policy_reviews cfg m a then TOOL_REVIEW_REQUIRED else TOOL_ALLOW)"

lemma critical_blocks: "risk_level a = RISK_CRITICAL \<Longrightarrow> block_recommended a"
  by (simp add: block_recommended_def)

lemma high_reviews: "risk_level a = RISK_HIGH \<Longrightarrow> approval_recommended a"
  by (simp add: approval_recommended_def)

lemma traversal_blocks: "has_signal a ''path-traversal-reference'' \<Longrightarrow> block_recommended a"
  by (simp add: block_recommended_def)

lemma build_blocks: "TOOL_BLOCK \<in> decisions_of (build_reasons cfg m req a) \<longleftrightarrow> policy_blocks cfg m req a"
proof -
  have "block_recommended a \<Longrightarrow> policy_blocks cfg m req a" by (simp add: policy_blocks_def)
  then show ?thesis
    using critical_blocks [of a] traversal_blocks [of a] build_block_parts [of cfg m req a] by blast
qed

lemma build_reviews:
  assumes "\<not> policy_blocks cfg m req a"
  shows "TOOL_REVIEW_REQUIRED \<in> decisions_of (build_reasons cfg m req a) \<longleftrightarrow> policy_reviews cfg m a"
proof -
  have "set (manifest_capabilities m) \<inter> set (blocked_capabilities cfg) = {}"
    using assms by (simp add: policy_blocks_def)
  then have "set (manifest_capabilities m) \<inter> (set (review_capabilities cfg) - set (blocked_capabilities cfg))
    = set (manifest_capabilities m) \<inter> set (review_capabilities cfg)" by blast
  then show ?thesis
    unfolding build_review_parts policy_reviews_def using high_reviews [of a] by blast
qed

lemma evaluation_decides_table:
  assumes "evaluate_tool_policy rt cfg m req given = Inr ev"
  shows "policy_decision ev = policy_table cfg m req (evaluated_risk ev)"
proof -
  define a where "a = evaluated_risk ev"
  have d: "policy_decision ev =
     (if build_reasons cfg m req a = [] then TOOL_ALLOW
      else strongest_decision TOOL_ALLOW (map reason_decision (build_reasons cfg m req a)))"
    using assms by (auto simp: evaluate_tool_policy_def Let_def res_bind_eq_Inr a_def)
  also have "\<dots> = strongest_decision TOOL_ALLOW (map reason_decision (build_reasons cfg m req a))"
    by simp
  also have "\<dots> = policy_table cfg m req a"
    unfolding strongest_decision_set set_map policy_table_def build_blocks
    by (cases "policy_blocks cfg m req a") (simp_all add: build_reviews)
  finally show ?thesis by (simp add: a_def)
qed

subsection \<open>The signals the classifier raises\<close>

abbreviation walk_codes :: "risk_walk \<Rightarrow> string set" where
  "walk_codes w \<equiv> signal_code ` set (walk_signals w)"

lemma append_signal_codes: "walk_codes (append_signal c n s md w) = insert (signal_code_of c) (walk_codes w)"
  by (auto simp: append_signal_def Let_def)

lemma note_factor_codes: "walk_codes (note_factor f w) = walk_codes w"
  by (simp add: note_factor_def)

lemma note_risk_codes: "walk_codes (note_risk f c n s w) = insert (signal_code_of c) (walk_codes w)"
  by (simp add: note_risk_def append_signal_codes note_factor_codes)

lemma note_when_codes: "walk_codes w \<subseteq> walk_codes (f w) \<Longrightarrow> walk_codes w \<subseteq> walk_codes (note_when b f w)"
  by (simp add: note_when_def)

lemma score_side_effect_codes: "walk_codes w \<subseteq> walk_codes (score_side_effect e w)"
  by (cases e) (auto simp: note_risk_codes)

lemma score_capability_codes: "walk_codes w \<subseteq> walk_codes (score_capability c w)"
  by (cases c) (auto simp: note_risk_codes)

lemma fold_codes_mono:
  assumes "\<And>x w. walk_codes w \<subseteq> walk_codes (f x w)"
  shows "walk_codes w \<subseteq> walk_codes (fold f xs w)"
proof (induction xs arbitrary: w)
  case (Cons x xs)
  from assms [of w x] Cons.IH [of "f x w"] show ?case by simp
qed simp

lemma fold_codes_in:
  assumes mono: "\<And>x w. walk_codes w \<subseteq> walk_codes (f x w)"
    and raises: "\<And>w. c \<in> walk_codes (f x w)" and "x \<in> set xs"
  shows "c \<in> walk_codes (fold f xs w)"
  using assms(3)
proof (induction xs arbitrary: w)
  case (Cons y ys)
  show ?case
  proof (cases "x = y")
    case True
    with raises [of w] fold_codes_mono [of f "f x w" ys, OF mono] show ?thesis by auto
  next
    case False
    with Cons show ?thesis by simp
  qed
qed simp

lemma note_when_mono:
  "(\<And>w. walk_codes w \<subseteq> walk_codes (f w)) \<Longrightarrow> A \<subseteq> walk_codes w \<Longrightarrow> A \<subseteq> walk_codes (note_when b f w)"
  by (simp add: note_when_def) blast

lemma note_risk_mono: "walk_codes w \<subseteq> walk_codes (note_risk f c n s w)"
  by (auto simp: note_risk_codes)

lemma append_note_mono: "walk_codes w \<subseteq> walk_codes (append_signal c n s md (note_factor f w))"
  by (auto simp: append_signal_codes note_factor_codes)

lemma score_arguments_codes: "walk_codes w \<subseteq> walk_codes (score_arguments rt args w)"
  unfolding score_arguments_def Let_def
  by (intro note_when_mono note_risk_mono append_note_mono subset_refl)

lemma assess_manifest_effects:
  assumes "e \<in> set (manifest_side_effects m)" and "\<And>w. c \<in> walk_codes (score_side_effect e w)"
  shows "c \<in> walk_codes (assess_manifest rt req m)"
proof -
  have "c \<in> walk_codes (fold score_side_effect (manifest_side_effects m) w)" for w
    using score_side_effect_codes assms(2,1) by (rule fold_codes_in)
  then show ?thesis
    unfolding assess_manifest_def Let_def
    by (intro subsetD [OF score_arguments_codes]
        subsetD [OF note_when_mono [OF note_risk_mono subset_refl]]
        subsetD [OF fold_codes_mono [OF score_capability_codes]])
qed

lemma assess_manifest_capabilities:
  assumes "x \<in> set (manifest_capabilities m)" and "\<And>w. c \<in> walk_codes (score_capability x w)"
  shows "c \<in> walk_codes (assess_manifest rt req m)"
proof -
  have "c \<in> walk_codes (fold score_capability (manifest_capabilities m) w)" for w
    using score_capability_codes assms(2,1) by (rule fold_codes_in)
  then show ?thesis
    unfolding assess_manifest_def Let_def
    by (intro subsetD [OF score_arguments_codes]
        subsetD [OF note_when_mono [OF note_risk_mono subset_refl]])
qed

lemma dedupe_signal_codes: "signal_code ` set (dedupe_signals xs) = signal_code ` set xs"
  by (simp add: dedupe_signals_def dedupe_by_keys)

lemma assess_risk_fields:
  assumes "assess_risk rt req (Some m) = Inr a"
  shows "risk_signals a = dedupe_signals (walk_signals (assess_manifest rt req m))"
    and "requires_human_review a = needs_human_review (Some m) (risk_level a) (risk_signals a)"
  using assms by (auto simp: assess_risk_def build_assessment_def Let_def res_bind_eq_Inr)

lemma assess_risk_codes:
  assumes "assess_risk rt req (Some m) = Inr a"
  shows "set (signal_codes a) = walk_codes (assess_manifest rt req m)"
  by (simp add: assess_risk_fields(1) [OF assms] signal_codes_def dedupe_signal_codes)

lemma review_signal_reviews:
  assumes "assess_risk rt req (Some m) = Inr a"
    and "c \<in> set REVIEW_SIGNAL_CODES" and "c \<in> set (signal_codes a)"
  shows "approval_recommended a"
  using assms(2,3) unfolding approval_recommended_def assess_risk_fields(2) [OF assms(1)]
  by (auto simp: needs_human_review_def signal_codes_def list_ex_iff)

text \<open>The codes that send every invocation of a tool to review, spelled as the classifier does.\<close>

lemma review_codes:
  "signal_code_of ''workspace-write'' \<in> set REVIEW_SIGNAL_CODES"
  "signal_code_of ''process-execution'' \<in> set REVIEW_SIGNAL_CODES"
  "signal_code_of ''network-access'' \<in> set REVIEW_SIGNAL_CODES"
  "signal_code_of ''system-mutation'' \<in> set REVIEW_SIGNAL_CODES"
  "signal_code_of ''patch-apply-capability'' \<in> set REVIEW_SIGNAL_CODES"
  "signal_code_of ''process-execution-capability'' \<in> set REVIEW_SIGNAL_CODES"
  "signal_code_of ''test-execution-capability'' \<in> set REVIEW_SIGNAL_CODES"
  "signal_code_of ''sensitive-path-reference'' \<in> set REVIEW_SIGNAL_CODES"
  by code_simp+

lemma effect_reviews:
  assumes a: "assess_risk rt req (Some m) = Inr a" and e: "e \<in> set (manifest_side_effects m)"
    and "e \<notin> {NO_EFFECT, READ_WORKSPACE}"
  shows "approval_recommended a"
proof -
  obtain c where "c \<in> set REVIEW_SIGNAL_CODES" "\<And>w. c \<in> walk_codes (score_side_effect e w)"
  proof (cases e)
    case WRITE_WORKSPACE
    then show thesis by (intro that [OF review_codes(1)]) (simp add: note_risk_codes)
  next
    case RUN_PROCESS
    then show thesis by (intro that [OF review_codes(2)]) (simp add: note_risk_codes)
  next
    case ACCESS_NETWORK
    then show thesis by (intro that [OF review_codes(3)]) (simp add: note_risk_codes)
  next
    case MUTATE_SYSTEM
    then show thesis by (intro that [OF review_codes(4)]) (simp add: note_risk_codes)
  qed (use assms(3) in auto)
  with assess_manifest_effects [OF e] assess_risk_codes [OF a] review_signal_reviews [OF a]
  show ?thesis by blast
qed

lemma capability_reviews:
  assumes a: "assess_risk rt req (Some m) = Inr a" and e: "c \<in> set (manifest_capabilities m)"
    and "c \<in> {PATCH_APPLY, COMMAND_EXECUTION, TEST_EXECUTION}"
  shows "approval_recommended a"
proof -
  obtain k where "k \<in> set REVIEW_SIGNAL_CODES" "\<And>w. k \<in> walk_codes (score_capability c w)"
  proof (cases c)
    case PATCH_APPLY
    then show thesis by (intro that [OF review_codes(5)]) (simp add: note_risk_codes)
  next
    case COMMAND_EXECUTION
    then show thesis by (intro that [OF review_codes(6)]) (simp add: note_risk_codes)
  next
    case TEST_EXECUTION
    then show thesis by (intro that [OF review_codes(7)]) (simp add: note_risk_codes)
  qed (use assms(3) in auto)
  with assess_manifest_capabilities [OF e] assess_risk_codes [OF a] review_signal_reviews [OF a]
  show ?thesis by blast
qed

lemma evaluation_risk:
  "evaluate_tool_policy rt cfg m req None = Inr ev \<Longrightarrow> assess_risk rt req (Some m) = Inr (evaluated_risk ev)"
  by (auto simp: evaluate_tool_policy_def Let_def res_bind_eq_Inr)

lemma evaluation_allow:
  assumes "evaluate_tool_policy rt cfg m req given = Inr ev" and "policy_decision ev = TOOL_ALLOW"
  shows "\<not> policy_blocks cfg m req (evaluated_risk ev) \<and> \<not> policy_reviews cfg m (evaluated_risk ev)"
  using evaluation_decides_table [OF assms(1)] assms(2) by (auto simp: policy_table_def split: if_splits)

lemma allowed_effects:
  assumes ev: "evaluate_tool_policy rt cfg m req None = Inr ev" and "policy_decision ev = TOOL_ALLOW"
  shows "set (manifest_side_effects m) \<subseteq> {NO_EFFECT, READ_WORKSPACE}"
  using evaluation_allow [OF assms] effect_reviews [OF evaluation_risk [OF ev]]
  by (auto simp: policy_reviews_def)

lemma allowed_capabilities:
  assumes ev: "evaluate_tool_policy rt cfg m req None = Inr ev" and "policy_decision ev = TOOL_ALLOW"
  shows "set (manifest_capabilities m) \<inter> {PATCH_APPLY, COMMAND_EXECUTION, TEST_EXECUTION} = {}"
  using evaluation_allow [OF assms] capability_reviews [OF evaluation_risk [OF ev]]
  by (auto simp: policy_reviews_def)

text \<open>
  Five switches of the configuration change no decision: what each of them would review or block
  is already reviewed or blocked through the classifier's recommendation.
\<close>

definition set_review_switches ::
  "bool \<Rightarrow> bool \<Rightarrow> bool \<Rightarrow> bool \<Rightarrow> bool \<Rightarrow> tool_policy_config \<Rightarrow> tool_policy_config" where
  "set_review_switches critical high writes processes sensitive cfg =
     cfg\<lparr>block_on_critical_risk := critical, review_high_risk := high, review_workspace_writes := writes,
         review_process_execution := processes, review_sensitive_paths := sensitive\<rparr>"

lemma switches_table:
  assumes a: "assess_risk rt req (Some m) = Inr a"
  shows "policy_table (set_review_switches b1 b2 b3 b4 b5 cfg) m req a = policy_table cfg m req a"
proof -
  have "policy_blocks (set_review_switches b1 b2 b3 b4 b5 cfg) m req a = policy_blocks cfg m req a"
    by (simp add: policy_blocks_def set_review_switches_def)
  moreover have "has_signal a ''sensitive-path-reference'' \<Longrightarrow> approval_recommended a"
    unfolding has_signal_def by (rule review_signal_reviews [OF a review_codes(8)])
  then have "policy_reviews (set_review_switches b1 b2 b3 b4 b5 cfg) m a = policy_reviews cfg m a"
    using effect_reviews [OF a, of WRITE_WORKSPACE] effect_reviews [OF a, of RUN_PROCESS]
    unfolding policy_reviews_def set_review_switches_def by auto
  ultimately show ?thesis by (simp add: policy_table_def)
qed

end
