(* ===== verification/ToolReceipts.thy ===== *)
theory ToolReceipts
  imports ToolPolicy JsonEncoding
begin

text \<open>
  The receipt ledger of governed tool invocations (\<open>tools/receipts.py\<close>): every invocation has a
  chain of its own inside one append-only list, and \<open>verify_invocation_chain\<close> recomputes it.
  The identifier and the instant of a receipt, which the code takes from \<open>uuid4\<close> and the
  clock, are arguments.
\<close>

section \<open>Receipts\<close>

datatype tool_receipt_event =
    POLICY_EVALUATED | INVOCATION_STARTED | EVENT_SUCCEEDED | EVENT_FAILED | EVENT_BLOCKED
  | EVENT_REVIEW_REQUIRED | ARTIFACT_EMITTED

fun tool_receipt_event_value :: "tool_receipt_event \<Rightarrow> string" where
  "tool_receipt_event_value POLICY_EVALUATED = ''policy_evaluated''"
| "tool_receipt_event_value INVOCATION_STARTED = ''invocation_started''"
| "tool_receipt_event_value EVENT_SUCCEEDED = ''invocation_succeeded''"
| "tool_receipt_event_value EVENT_FAILED = ''invocation_failed''"
| "tool_receipt_event_value EVENT_BLOCKED = ''invocation_blocked''"
| "tool_receipt_event_value EVENT_REVIEW_REQUIRED = ''invocation_review_required''"
| "tool_receipt_event_value ARTIFACT_EMITTED = ''artifact_emitted''"

record tool_receipt =
  receipt_id :: string
  receipt_invocation_id :: string
  receipt_tool_id :: string
  receipt_event :: tool_receipt_event
  receipt_summary :: string
  previous_receipt_id :: "string option"
  previous_chain_digest :: "string option"
  chain_digest :: string
  receipt_created_at :: datetime
  receipt_actor :: "string option"
  receipt_task_id :: "string option"
  receipt_run_id :: "string option"
  receipt_policy_decision :: "tool_policy_decision option"
  receipt_status :: "invocation_status option"
  receipt_risk_level :: "tool_risk_level option"
  artifact_count :: int
  receipt_metadata :: "json dict"

text \<open>
  \<open>_compute_chain_digest\<close>: the payload names neither the previous receipt's id nor the instant.
  \<open>json.dumps\<close> writes every number, and refuses only an object that is no JSON value.
\<close>

definition chain_payload :: "tool_receipt \<Rightarrow> json" where
  "chain_payload r = JObj
     [(''receipt_id'', JStr (receipt_id r)),
      (''invocation_id'', JStr (receipt_invocation_id r)),
      (''tool_id'', JStr (receipt_tool_id r)),
      (''event_type'', JStr (tool_receipt_event_value (receipt_event r))),
      (''summary'', JStr (receipt_summary r)),
      (''previous_chain_digest'', json_opt (previous_chain_digest r)),
      (''actor'', json_opt (receipt_actor r)),
      (''task_id'', json_opt (receipt_task_id r)),
      (''run_id'', json_opt (receipt_run_id r)),
      (''policy_decision'', json_opt (map_option tool_policy_decision_value (receipt_policy_decision r))),
      (''invocation_status'', json_opt (map_option invocation_status_value (receipt_status r))),
      (''risk_level'', json_opt (map_option tool_risk_level_value (receipt_risk_level r))),
      (''artifact_count'', JInt (artifact_count r)),
      (''metadata'', JObj (receipt_metadata r))]"

definition compute_chain_digest :: "(string \<Rightarrow> string) \<Rightarrow> tool_receipt \<Rightarrow> string res" where
  "compute_chain_digest H r = plain_digest H (chain_payload r)"

section \<open>The ledger\<close>

type_synonym tool_ledger = "tool_receipt list"

definition chain_of :: "string \<Rightarrow> tool_ledger \<Rightarrow> tool_ledger" where
  "chain_of iid led = filter (\<lambda>r. receipt_invocation_id r = iid) led"

definition latest_for_invocation :: "tool_ledger \<Rightarrow> string \<Rightarrow> tool_receipt option" where
  "latest_for_invocation led iid = List.find (\<lambda>r. receipt_invocation_id r = iid) (rev led)"

record receipt_entry =
  entry_invocation_id :: string
  entry_tool_id :: string
  entry_event :: tool_receipt_event
  entry_summary :: string
  entry_actor :: "string option"
  entry_task_id :: "string option"
  entry_run_id :: "string option"
  entry_policy_decision :: "tool_policy_decision option"
  entry_status :: "invocation_status option"
  entry_risk_level :: "tool_risk_level option"
  entry_artifact_count :: int
  entry_metadata :: "json dict"

text \<open>\<open>append\<close>; the receipt's own \<open>__post_init__\<close> normalizes texts that are normal already.\<close>

definition append_tool_receipt ::
  "(string \<Rightarrow> string) \<Rightarrow> string \<Rightarrow> int \<Rightarrow> receipt_entry \<Rightarrow> tool_ledger \<Rightarrow> (tool_receipt \<times> tool_ledger) res" where
  "append_tool_receipt H fresh now e led =
     res_bind (tool_identifier ''invocation_id'' (entry_invocation_id e)) (\<lambda>iid.
     res_bind (tool_identifier ''tool_id'' (entry_tool_id e)) (\<lambda>tid.
     res_bind (tool_text ''summary'' (entry_summary e)) (\<lambda>summary.
     res_bind (optional_tool_identifier (entry_actor e)) (\<lambda>actor.
     res_bind (optional_tool_identifier (entry_task_id e)) (\<lambda>task.
     res_bind (optional_tool_identifier (entry_run_id e)) (\<lambda>run.
     if entry_artifact_count e < 0 then Inl (ValueError ''artifact_count must not be negative.'')
     else
       let previous = latest_for_invocation led iid;
           draft = \<lparr>receipt_id = ''tool-receipt-'' @ fresh, receipt_invocation_id = iid,
             receipt_tool_id = tid, receipt_event = entry_event e, receipt_summary = summary,
             previous_receipt_id = map_option receipt_id previous,
             previous_chain_digest = map_option chain_digest previous,
             chain_digest = [], receipt_created_at = Aware now,
             receipt_actor = actor, receipt_task_id = task, receipt_run_id = run,
             receipt_policy_decision = entry_policy_decision e, receipt_status = entry_status e,
             receipt_risk_level = entry_risk_level e, artifact_count = entry_artifact_count e,
             receipt_metadata = entry_metadata e\<rparr>
       in res_bind (compute_chain_digest H draft) (\<lambda>d.
          res_bind (tool_identifier ''receipt_id'' (receipt_id draft)) (\<lambda>rid.
          let r = draft\<lparr>receipt_id := rid, chain_digest := d\<rparr> in Inr (r, led @ [r])))))))))"

text \<open>\<open>verify_invocation_chain\<close>, from the receipt before on.\<close>

fun verify_receipts :: "(string \<Rightarrow> string) \<Rightarrow> tool_receipt option \<Rightarrow> tool_receipt list \<Rightarrow> bool res" where
  "verify_receipts H prev [] = Inr True"
| "verify_receipts H prev (r # rs) =
     (if previous_receipt_id r \<noteq> map_option receipt_id prev then Inr False
      else if previous_chain_digest r \<noteq> map_option chain_digest prev then Inr False
      else res_bind (compute_chain_digest H r) (\<lambda>d.
        if chain_digest r \<noteq> d then Inr False else verify_receipts H (Some r) rs))"

definition verify_invocation_chain :: "(string \<Rightarrow> string) \<Rightarrow> tool_ledger \<Rightarrow> string \<Rightarrow> bool res" where
  "verify_invocation_chain H led iid =
     res_bind (tool_identifier ''invocation_id'' iid) (\<lambda>n. verify_receipts H None (chain_of n led))"

section \<open>What is recorded\<close>

definition merge_metadata :: "json dict \<Rightarrow> json dict \<Rightarrow> json dict" where
  "merge_metadata base extra = fold (\<lambda>kv. dict_set (fst kv) (snd kv)) extra base"

fun event_type_for_policy_decision :: "tool_policy_decision \<Rightarrow> tool_receipt_event" where
  "event_type_for_policy_decision TOOL_ALLOW = POLICY_EVALUATED"
| "event_type_for_policy_decision TOOL_REVIEW_REQUIRED = EVENT_REVIEW_REQUIRED"
| "event_type_for_policy_decision TOOL_BLOCK = EVENT_BLOCKED"

fun event_type_for_invocation_status :: "invocation_status \<Rightarrow> tool_receipt_event" where
  "event_type_for_invocation_status INVOCATION_SUCCEEDED = EVENT_SUCCEEDED"
| "event_type_for_invocation_status INVOCATION_BLOCKED = EVENT_BLOCKED"
| "event_type_for_invocation_status INVOCATION_REVIEW = EVENT_REVIEW_REQUIRED"
| "event_type_for_invocation_status _ = EVENT_FAILED"

definition quoted :: "string \<Rightarrow> string" where
  "quoted s = [CHR 0x27] @ s @ [CHR 0x27]"

fun summary_for_invocation_status :: "invocation_status \<Rightarrow> string \<Rightarrow> string" where
  "summary_for_invocation_status INVOCATION_SUCCEEDED tid = ''Tool invocation succeeded for '' @ quoted tid @ ''.''"
| "summary_for_invocation_status INVOCATION_BLOCKED tid = ''Tool invocation blocked for '' @ quoted tid @ ''.''"
| "summary_for_invocation_status INVOCATION_REVIEW tid = ''Tool invocation requires review for '' @ quoted tid @ ''.''"
| "summary_for_invocation_status INVOCATION_TIMED_OUT tid = ''Tool invocation timed out for '' @ quoted tid @ ''.''"
| "summary_for_invocation_status INVOCATION_FAILED tid = ''Tool invocation failed for '' @ quoted tid @ ''.''"

definition policy_entry ::
  "tool_policy_evaluation \<Rightarrow> tool_request \<Rightarrow> string \<Rightarrow> json dict \<Rightarrow> receipt_entry" where
  "policy_entry ev req actor metadata =
     \<lparr>entry_invocation_id = invocation_id req, entry_tool_id = request_tool_id req,
      entry_event = event_type_for_policy_decision (policy_decision ev),
      entry_summary = ''Tool policy evaluated invocation '' @ quoted (invocation_id req) @ '' as ''
        @ quoted (tool_policy_decision_value (policy_decision ev)) @ ''.'',
      entry_actor = Some actor, entry_task_id = tool_task_id req, entry_run_id = tool_run_id req,
      entry_policy_decision = Some (policy_decision ev), entry_status = None,
      entry_risk_level = Some (risk_level (evaluated_risk ev)), entry_artifact_count = 0,
      entry_metadata = merge_metadata
        [(''decision'', JStr (tool_policy_decision_value (policy_decision ev))),
         (''reason_codes'', json_strs (policy_reason_codes ev)),
         (''risk_score'', JInt (risk_score (evaluated_risk ev))),
         (''risk_signal_codes'', json_strs (signal_codes (evaluated_risk ev)))] metadata\<rparr>"

definition started_entry :: "tool_request \<Rightarrow> string \<Rightarrow> json dict \<Rightarrow> receipt_entry" where
  "started_entry req actor metadata =
     \<lparr>entry_invocation_id = invocation_id req, entry_tool_id = request_tool_id req,
      entry_event = INVOCATION_STARTED,
      entry_summary = ''Tool invocation started for '' @ quoted (request_tool_id req) @ ''.'',
      entry_actor = Some actor, entry_task_id = tool_task_id req, entry_run_id = tool_run_id req,
      entry_policy_decision = None, entry_status = None, entry_risk_level = None,
      entry_artifact_count = 0,
      entry_metadata = merge_metadata
        [(''capability'', JStr (tool_capability_value (tool_capability req))),
         (''labels'', json_strs (tool_request_labels req))] metadata\<rparr>"

definition result_entry ::
  "py_runtime \<Rightarrow> tool_result \<Rightarrow> tool_request option \<Rightarrow> string \<Rightarrow> json dict \<Rightarrow> receipt_entry" where
  "result_entry rt r req actor metadata =
     \<lparr>entry_invocation_id = result_invocation_id r, entry_tool_id = result_tool_id r,
      entry_event = event_type_for_invocation_status (result_status r),
      entry_summary = summary_for_invocation_status (result_status r) (result_tool_id r),
      entry_actor = Some actor,
      entry_task_id = Option.bind req tool_task_id, entry_run_id = Option.bind req tool_run_id,
      entry_policy_decision = None, entry_status = Some (result_status r), entry_risk_level = None,
      entry_artifact_count = int (length (result_artifacts r)),
      entry_metadata = merge_metadata
        [(''latency_ms'', JInt (latency_ms rt r)),
         (''output_keys'', json_strs (sort (dict_keys (result_output r)))),
         (''artifact_ids'', json_strs (map artifact_id (result_artifacts r))),
         (''failure'', (case result_failure r of None \<Rightarrow> JNull | Some f \<Rightarrow> JObj (tool_failure_dict f)))]
        metadata\<rparr>"

definition artifact_entry ::
  "tool_result \<Rightarrow> string \<Rightarrow> string \<Rightarrow> string \<Rightarrow> json dict \<Rightarrow> receipt_entry" where
  "artifact_entry r name uri actor metadata =
     \<lparr>entry_invocation_id = result_invocation_id r, entry_tool_id = result_tool_id r,
      entry_event = ARTIFACT_EMITTED,
      entry_summary = ''Tool artifact emitted: '' @ name @ ''.'',
      entry_actor = Some actor, entry_task_id = None, entry_run_id = None,
      entry_policy_decision = None, entry_status = Some (result_status r), entry_risk_level = None,
      entry_artifact_count = 1,
      entry_metadata = merge_metadata
        [(''artifact_name'', JStr name), (''artifact_uri'', JStr uri)] metadata\<rparr>"

section \<open>The chain\<close>

definition receipt_links :: "(string \<Rightarrow> string) \<Rightarrow> tool_receipt option \<Rightarrow> tool_receipt \<Rightarrow> bool" where
  "receipt_links H prev r \<longleftrightarrow>
     previous_receipt_id r = map_option receipt_id prev
     \<and> previous_chain_digest r = map_option chain_digest prev
     \<and> compute_chain_digest H r = Inr (chain_digest r)"

lemma verify_receipts_Cons:
  "verify_receipts H prev (r # rs) = Inr True \<longleftrightarrow>
     receipt_links H prev r \<and> verify_receipts H (Some r) rs = Inr True"
  by (auto simp: receipt_links_def res_bind_eq_Inr)

declare verify_receipts.simps(2) [simp del]

definition last_or :: "'a option \<Rightarrow> 'a list \<Rightarrow> 'a option" where
  "last_or prev xs = (if xs = [] then prev else Some (last xs))"

lemma verify_receipts_snoc:
  "verify_receipts H prev (rs @ [r]) = Inr True \<longleftrightarrow>
     verify_receipts H prev rs = Inr True \<and> receipt_links H (last_or prev rs) r"
  by (induction rs arbitrary: prev) (auto simp: verify_receipts_Cons last_or_def)

definition ledger_verified :: "(string \<Rightarrow> string) \<Rightarrow> tool_ledger \<Rightarrow> bool" where
  "ledger_verified H led \<longleftrightarrow> (\<forall>iid. verify_receipts H None (chain_of iid led) = Inr True)"

lemma ledger_verified_Nil [simp]: "ledger_verified H []"
  by (simp add: ledger_verified_def chain_of_def)

lemma chain_of_snoc:
  "chain_of iid (led @ [r]) = (if receipt_invocation_id r = iid then chain_of iid led @ [r] else chain_of iid led)"
  by (simp add: chain_of_def)

lemma find_rev: "List.find P (rev xs) = last_or None (filter P xs)"
  by (induction xs rule: rev_induct) (auto simp: last_or_def)

lemma latest_is_last: "latest_for_invocation led iid = last_or None (chain_of iid led)"
  by (simp add: latest_for_invocation_def chain_of_def find_rev)

text \<open>\<open>uuid4().hex\<close> is made of lower-case hexadecimal digits, so the identifier is normal already.\<close>

lemma lower_hex_plain:
  "is_lower_hex c \<Longrightarrow> lower_char c = c \<and> \<not> is_space c \<and> c \<noteq> CHR '' ''"
  by (auto simp: is_lower_hex_def lower_char_def is_space_def code_point_def Let_def)

lemma lower_hex_text:
  assumes "list_all is_lower_hex s"
  shows "map lower_char s = s" and "replace_char CHR '' '' CHR ''-'' s = s"
    and "trimmed_by is_space s"
proof -
  have plain: "lower_char c = c \<and> \<not> is_space c \<and> c \<noteq> CHR '' ''" if "c \<in> set s" for c
    using assms that lower_hex_plain by (auto simp: list_all_iff)
  then show "map lower_char s = s" "replace_char CHR '' '' CHR ''-'' s = s"
    by (simp_all add: map_idI replace_char_def)
  show "trimmed_by is_space s" using plain by (auto simp: trimmed_by_def)
qed

lemma tool_receipt_id_normal:
  assumes "list_all is_lower_hex fresh"
  shows "tool_identifier label (''tool-receipt-'' @ fresh) = Inr (''tool-receipt-'' @ fresh)"
proof -
  let ?id = "''tool-receipt-'' @ fresh"
  have "last ?id = CHR ''-'' \<or> (fresh \<noteq> [] \<and> \<not> is_space (last ?id))"
    using lower_hex_text(3) [OF assms] by (cases "fresh = []") (auto simp: trimmed_by_def)
  then have "trimmed_by is_space ?id" by (auto simp: trimmed_by_def is_space_def code_point_def Let_def)
  then have "strip ?id = ?id" by (simp add: strip_def strip_by_trimmed_id)
  moreover have "lower ''tool-receipt-'' = ''tool-receipt-''" by code_simp
  then have "lower ?id = ?id" using lower_hex_text(1) [OF assms] by (simp add: lower_def)
  moreover have "replace_char CHR '' '' CHR ''-'' ''tool-receipt-'' = ''tool-receipt-''" by code_simp
  then have "replace_char CHR '' '' CHR ''-'' ?id = ?id"
    using lower_hex_text(2) [OF assms] by (simp add: replace_char_def)
  ultimately show ?thesis unfolding tool_identifier_def Let_def by simp
qed

lemma append_tool_receipt_cases:
  assumes "append_tool_receipt H fresh now e led = Inr (r, led')"
  obtains d rid where "led' = led @ [r]" "chain_digest r = d" "receipt_id r = rid"
    "tool_identifier ''invocation_id'' (entry_invocation_id e) = Inr (receipt_invocation_id r)"
    "tool_identifier ''receipt_id'' (''tool-receipt-'' @ fresh) = Inr rid"
    "previous_receipt_id r = map_option receipt_id (latest_for_invocation led (receipt_invocation_id r))"
    "previous_chain_digest r = map_option chain_digest (latest_for_invocation led (receipt_invocation_id r))"
    "compute_chain_digest H (r\<lparr>receipt_id := ''tool-receipt-'' @ fresh, chain_digest := []\<rparr>) = Inr d"
    "receipt_event r = entry_event e" "receipt_policy_decision r = entry_policy_decision e"
    "receipt_status r = entry_status e" "receipt_created_at r = Aware now"
  using assms unfolding append_tool_receipt_def Let_def
  by (elim res_bind_InrE) (auto split: if_splits elim!: res_bind_InrE)

lemma compute_chain_digest_head:
  "receipt_id r = rid \<Longrightarrow> compute_chain_digest H (r\<lparr>receipt_id := rid, chain_digest := d\<rparr>) = compute_chain_digest H r"
  by (cases r) (simp add: compute_chain_digest_def chain_payload_def)

lemma append_tool_receipt_links:
  assumes a: "append_tool_receipt H fresh now e led = Inr (r, led')" and hex: "list_all is_lower_hex fresh"
  shows "receipt_links H (last_or None (chain_of (receipt_invocation_id r) led)) r"
  using a
proof (cases rule: append_tool_receipt_cases)
  case (1 d rid)
  from 1(5) have rid: "rid = ''tool-receipt-'' @ fresh"
    unfolding tool_receipt_id_normal [OF hex] by simp
  then have "compute_chain_digest H r = Inr (chain_digest r)"
    using 1(2,8) compute_chain_digest_head [OF 1(3)] by metis
  then show ?thesis using 1(6,7) unfolding receipt_links_def latest_is_last by blast
qed

text \<open>Whatever is appended, every invocation's chain still verifies.\<close>

lemma append_tool_receipt_verified:
  assumes "ledger_verified H led" "append_tool_receipt H fresh now e led = Inr (r, led')"
    and "list_all is_lower_hex fresh"
  shows "ledger_verified H led'"
proof -
  have "led' = led @ [r]" using assms(2) by (cases rule: append_tool_receipt_cases)
  then show ?thesis
    using assms(1) append_tool_receipt_links [OF assms(2,3)]
    by (auto simp: ledger_verified_def chain_of_snoc verify_receipts_snoc)
qed

section \<open>What a chain's last digest pins down\<close>

definition chain_bytes :: "tool_receipt \<Rightarrow> string" where
  "chain_bytes r = utf8 (json_dumps False (chain_payload r))"

lemma compute_chain_digest_bytes: "compute_chain_digest H r = Inr d \<Longrightarrow> d = H (chain_bytes r)"
  by (simp add: compute_chain_digest_def plain_digest_def chain_bytes_def split: if_splits)

lemma chain_bytes_inj:
  assumes "chain_bytes r = chain_bytes s" "encodable (chain_payload r)" "encodable (chain_payload s)"
  shows "sort_keys (chain_payload r) = sort_keys (chain_payload s)"
  using utf8_inj [OF assms(1) [unfolded chain_bytes_def]] assms(2,3)
  unfolding json_dumps_def by (intro json_text_inj) simp_all

definition chain_members :: "tool_receipt \<Rightarrow> json dict" where
  "chain_members r = (case json_obj (chain_payload r) of None \<Rightarrow> [] | Some d \<Rightarrow> d)"

lemma chain_members_payload: "chain_payload r = JObj (chain_members r)"
  by (simp add: chain_members_def chain_payload_def)

lemma chain_members_keys: "distinct (dict_keys (chain_members r))"
  by (simp add: chain_members_def chain_payload_def)

lemma chain_members_previous:
  "dict_get (chain_members r) ''previous_chain_digest'' = Some (json_opt (previous_chain_digest r))"
  by (simp add: chain_members_def chain_payload_def)

lemma json_opt_inj: "sort_keys (json_opt x) = sort_keys (json_opt y) \<Longrightarrow> x = y"
  by (cases x; cases y) (simp_all add: json_opt_def)

lemma payload_previous:
  assumes "sort_keys (chain_payload r) = sort_keys (chain_payload s)"
  shows "previous_chain_digest r = previous_chain_digest s"
  using sort_keys_JObj_get [OF assms [unfolded chain_members_payload] chain_members_keys chain_members_keys,
      of "''previous_chain_digest''"]
  by (auto simp: chain_members_previous dest: json_opt_inj)

lemma chains_agree:
  assumes "verify_receipts H None xs = Inr True" "verify_receipts H None ys = Inr True"
    and "map_option chain_digest (last_or None xs) = map_option chain_digest (last_or None ys)"
    and "inj_on H (chain_bytes ` (set xs \<union> set ys))"
    and "\<And>r. r \<in> set xs \<union> set ys \<Longrightarrow> encodable (chain_payload r)"
  shows "map (sort_keys \<circ> chain_payload) xs = map (sort_keys \<circ> chain_payload) ys"
  using assms
proof (induction xs arbitrary: ys rule: rev_induct)
  case Nil
  then show ?case by (auto simp: last_or_def split: if_splits)
next
  case (snoc r xs)
  then obtain ys' s where ys: "ys = ys' @ [s]"
    by (cases ys rule: rev_cases) (simp_all add: last_or_def)
  have x: "verify_receipts H None xs = Inr True" "receipt_links H (last_or None xs) r"
    and y: "verify_receipts H None ys' = Inr True" "receipt_links H (last_or None ys') s"
    using snoc.prems(1,2) unfolding ys verify_receipts_snoc by blast+
  have "chain_digest r = chain_digest s" using snoc.prems(3) by (simp add: ys last_or_def)
  then have "H (chain_bytes r) = H (chain_bytes s)"
    using x(2) y(2) compute_chain_digest_bytes unfolding receipt_links_def by metis
  then have "chain_bytes r = chain_bytes s"
    by (rule inj_onD [OF snoc.prems(4)]) (simp_all add: ys)
  then have same: "sort_keys (chain_payload r) = sort_keys (chain_payload s)"
    by (rule chain_bytes_inj) (simp_all add: snoc.prems(5) ys)
  have "map_option chain_digest (last_or None xs) = map_option chain_digest (last_or None ys')"
    using x(2) y(2) payload_previous [OF same] by (simp add: receipt_links_def)
  moreover have "inj_on H (chain_bytes ` (set xs \<union> set ys'))"
    using snoc.prems(4) by (rule inj_on_subset) (auto simp: ys)
  ultimately have "map (sort_keys \<circ> chain_payload) xs = map (sort_keys \<circ> chain_payload) ys'"
    using x(1) y(1) snoc.prems(5) by (intro snoc.IH) (simp_all add: ys)
  moreover have "(sort_keys \<circ> chain_payload) r = (sort_keys \<circ> chain_payload) s"
    using same by simp
  ultimately show ?case by (simp only: ys map_append list.map)
qed

text \<open>The instants of the receipts are not among what the digests cover.\<close>

definition restamp :: "(tool_receipt \<Rightarrow> datetime) \<Rightarrow> tool_receipt \<Rightarrow> tool_receipt" where
  "restamp f r = r\<lparr>receipt_created_at := f r\<rparr>"

lemma restamp_fields [simp]:
  "receipt_id (restamp f r) = receipt_id r" "chain_digest (restamp f r) = chain_digest r"
  "previous_receipt_id (restamp f r) = previous_receipt_id r"
  "previous_chain_digest (restamp f r) = previous_chain_digest r"
  "receipt_invocation_id (restamp f r) = receipt_invocation_id r"
  "compute_chain_digest H (restamp f r) = compute_chain_digest H r"
  by (simp_all add: restamp_def compute_chain_digest_def chain_payload_def)

lemma verify_restamped:
  "verify_receipts H (map_option (restamp f) prev) (map (restamp f) rs) = verify_receipts H prev rs"
proof (induction rs arbitrary: prev)
  case (Cons r rs)
  from Cons [of "Some r"] show ?case
    by (simp add: verify_receipts.simps(2) option.map_comp comp_def cong: if_cong)
qed simp

lemma chain_of_restamped: "chain_of iid (map (restamp f) led) = map (restamp f) (chain_of iid led)"
  by (simp add: chain_of_def filter_map comp_def)

lemma verify_chain_restamped:
  "verify_invocation_chain H (map (restamp f) led) iid = verify_invocation_chain H led iid"
  using verify_restamped [of H f None] by (simp add: verify_invocation_chain_def chain_of_restamped)

end
