(* ===== verification/PyState.thy ===== *)
theory PyState
  imports PyPrelude
begin

text \<open>
  Code that changes a state and may raise: a function from the state to a result and the state it
  leaves behind. An exception keeps the changes made before it, which is what Python does; only
  an \<open>except\<close> clause of the code undoes or handles anything.
\<close>

type_synonym ('s, 'a) st = "'s \<Rightarrow> 'a res \<times> 's"

definition st_return :: "'a \<Rightarrow> ('s, 'a) st" where
  "st_return x = (\<lambda>s. (Inr x, s))"

definition st_raise :: "py_error \<Rightarrow> ('s, 'a) st" where
  "st_raise e = (\<lambda>s. (Inl e, s))"

definition st_bind :: "('s, 'a) st \<Rightarrow> ('a \<Rightarrow> ('s, 'b) st) \<Rightarrow> ('s, 'b) st" where
  "st_bind m f = (\<lambda>s. case m s of (Inl e, s') \<Rightarrow> (Inl e, s') | (Inr x, s') \<Rightarrow> f x s')"

text \<open>A step that reads no state, and one that only reads it.\<close>

definition st_lift :: "'a res \<Rightarrow> ('s, 'a) st" where
  "st_lift r = (\<lambda>s. (r, s))"

definition st_get :: "('s \<Rightarrow> 'a res) \<Rightarrow> ('s, 'a) st" where
  "st_get f = (\<lambda>s. (f s, s))"

text \<open>A step that either raises and changes nothing or returns with a new state.\<close>

definition st_step :: "('s \<Rightarrow> ('a \<times> 's) res) \<Rightarrow> ('s, 'a) st" where
  "st_step f = (\<lambda>s. case f s of Inl e \<Rightarrow> (Inl e, s) | Inr (x, s') \<Rightarrow> (Inr x, s'))"

definition st_check :: "bool \<Rightarrow> py_error \<Rightarrow> ('s, unit) st" where
  "st_check ok e = (if ok then st_return () else st_raise e)"

fun st_map :: "('a \<Rightarrow> ('s, 'b) st) \<Rightarrow> 'a list \<Rightarrow> ('s, 'b list) st" where
  "st_map f [] = st_return []"
| "st_map f (x # xs) = st_bind (f x) (\<lambda>y. st_bind (st_map f xs) (\<lambda>ys. st_return (y # ys)))"

named_theorems st_simps \<open>how the combinators run\<close>

lemma run_return [st_simps, simp]: "st_return x s = (Inr x, s)"
  by (simp add: st_return_def)

lemma run_raise [st_simps, simp]: "st_raise e s = (Inl e, s)"
  by (simp add: st_raise_def)

lemma run_lift [st_simps, simp]: "st_lift r s = (r, s)"
  by (simp add: st_lift_def)

lemma run_get [st_simps, simp]: "st_get f s = (f s, s)"
  by (simp add: st_get_def)

lemma run_bind_Inl [st_simps]: "m s = (Inl e, s') \<Longrightarrow> st_bind m f s = (Inl e, s')"
  by (simp add: st_bind_def)

lemma run_bind_Inr [st_simps]: "m s = (Inr x, s') \<Longrightarrow> st_bind m f s = f x s'"
  by (simp add: st_bind_def)

lemma run_check [st_simps]:
  "st_bind (st_check ok e) f s = (if ok then f () s else (Inl e, s))"
  by (simp add: st_bind_def st_check_def)

lemma st_bind_returns:
  assumes "st_bind m f s = (Inr y, s')"
  obtains x s1 where "m s = (Inr x, s1)" "f x s1 = (Inr y, s')"
  using assms by (auto simp: st_bind_def split: prod.splits sum.splits)

lemma st_step_returns:
  assumes "st_step f s = (Inr x, s')"
  shows "f s = Inr (x, s')"
  using assms by (auto simp: st_step_def split: sum.splits)

text \<open>
  \<open>st_keeps R m\<close>: every run of \<open>m\<close>, also one that raises, relates the state before to the state
  after by \<open>R\<close>, for a reflexive and transitive \<open>R\<close>. \<open>st_ensures P m\<close> speaks of the runs that return.
\<close>

definition st_keeps :: "('s \<Rightarrow> 's \<Rightarrow> bool) \<Rightarrow> ('s, 'a) st \<Rightarrow> bool" where
  "st_keeps R m \<longleftrightarrow> (\<forall>s. R s (snd (m s)))"

named_theorems keeps_intro \<open>how a relation between states passes through the combinators\<close>

lemma keeps_return [keeps_intro]: "reflp R \<Longrightarrow> st_keeps R (st_return x)"
  by (simp add: st_keeps_def reflpD)

lemma keeps_raise [keeps_intro]: "reflp R \<Longrightarrow> st_keeps R (st_raise e)"
  by (simp add: st_keeps_def reflpD)

lemma keeps_lift [keeps_intro]: "reflp R \<Longrightarrow> st_keeps R (st_lift r)"
  by (simp add: st_keeps_def reflpD)

lemma keeps_get [keeps_intro]: "reflp R \<Longrightarrow> st_keeps R (st_get f)"
  by (simp add: st_keeps_def reflpD)

lemma keeps_check [keeps_intro]: "reflp R \<Longrightarrow> st_keeps R (st_check b e)"
  by (simp add: st_keeps_def st_check_def reflpD)

lemma keeps_bind [keeps_intro]:
  assumes "transp R" "st_keeps R m" "\<And>x. st_keeps R (f x)"
  shows "st_keeps R (st_bind m f)"
  unfolding st_keeps_def
proof
  fix s
  obtain r s1 where m: "m s = (r, s1)" by (rule prod.exhaust)
  have "R s s1" using assms(2) m unfolding st_keeps_def by (metis snd_conv)
  moreover have "R s1 (snd (f x s1))" for x using assms(3) by (simp add: st_keeps_def)
  ultimately show "R s (snd (st_bind m f s))"
    using assms(1) m by (cases r) (auto simp: st_bind_def dest: transpD)
qed

lemma keeps_if [keeps_intro]: "st_keeps R m \<Longrightarrow> st_keeps R n \<Longrightarrow> st_keeps R (if b then m else n)"
  by simp

lemma keeps_map [keeps_intro]:
  "reflp R \<Longrightarrow> transp R \<Longrightarrow> (\<And>x. st_keeps R (f x)) \<Longrightarrow> st_keeps R (st_map f xs)"
  by (induction xs) (auto intro!: keeps_intro)

lemma keeps_step [keeps_intro]:
  "reflp R \<Longrightarrow> (\<And>s x s'. f s = Inr (x, s') \<Longrightarrow> R s s') \<Longrightarrow> st_keeps R (st_step f)"
  by (auto simp: st_keeps_def st_step_def reflpD split: sum.splits prod.splits)

lemma keepsD: "st_keeps R m \<Longrightarrow> m s = (r, s') \<Longrightarrow> R s s'"
  by (metis st_keeps_def snd_conv)

end
