(* ===== verification/ToolGateway.thy ===== *)
theory ToolGateway
  imports ToolReceipts PyState
begin

text \<open>
  The governed tool gateway (\<open>tools/gateway.py\<close>): it resolves the manifest, evaluates the policy,
  records both, and runs the registered tool only when the policy allows it. Tools are functions
  on a state: the shared receipt ledger and whatever else a tool changes.
\<close>

section \<open>Tools and the gateway\<close>

text \<open>What leaves an invoker that does not return: a \<open>TimeoutError\<close>, or an exception with its type's name.\<close>

datatype invoke_error = InvokeTimeout string | InvokeError string string

type_synonym 'w tool_world = "tool_ledger \<times> 'w"

type_synonym 'w invoker =
  "tool_request \<Rightarrow> 'w tool_world \<Rightarrow> (invoke_error + tool_result) \<times> 'w tool_world"

record 'w governed_gateway =
  gateway_registry :: manifest_registry
  gateway_policy :: tool_policy_config
  gateway_invokers :: "(string \<times> 'w invoker) list"

text \<open>
  What a call draws from outside: the i-th \<open>uuid4().hex\<close> and the i-th reading of the clock.
\<close>

record tool_supply =
  fresh_hex :: "nat \<Rightarrow> string"
  clock_at :: "nat \<Rightarrow> int"

definition register_tool ::
  "tool_manifest \<Rightarrow> 'w invoker \<Rightarrow> bool \<Rightarrow> 'w governed_gateway \<Rightarrow> unit res \<times> 'w governed_gateway" where
  "register_tool m f replace_existing g =
     (case register_manifest m replace_existing (gateway_registry g) of
        Inl e \<Rightarrow> (Inl e, g)
      | Inr reg \<Rightarrow>
         (let g' = g\<lparr>gateway_registry := reg\<rparr> in
          if map_of (gateway_invokers g) (manifest_tool_id m) \<noteq> None \<and> \<not> replace_existing
          then (Inl (ValueError (''Tool invoker already registered: '' @ manifest_tool_id m)), g')
          else (Inr (), g'\<lparr>gateway_invokers := AList.update (manifest_tool_id m) f (gateway_invokers g)\<rparr>)))"

definition contains_tool :: "'w governed_gateway \<Rightarrow> string \<Rightarrow> bool" where
  "contains_tool g tid =
     (dict_get (gateway_registry g) tid \<noteq> None \<and> map_of (gateway_invokers g) tid \<noteq> None)"

section \<open>One invocation\<close>

record gateway_report =
  gw_request :: tool_request
  gw_manifest :: tool_manifest
  gw_evaluation :: tool_policy_evaluation
  gw_result :: tool_result
  gw_chain_verified :: bool
  gw_metadata :: "json dict"

definition allowed_by_policy :: "gateway_report \<Rightarrow> bool" where
  "allowed_by_policy r = (policy_decision (gw_evaluation r) = TOOL_ALLOW)"

definition record_receipt ::
  "(string \<Rightarrow> string) \<Rightarrow> tool_supply \<Rightarrow> nat \<Rightarrow> receipt_entry \<Rightarrow> ('w tool_world, tool_receipt) st" where
  "record_receipt H supply i e = st_step (\<lambda>(led, w).
     res_bind (append_tool_receipt H (fresh_hex supply i) (clock_at supply i) e led) (\<lambda>(r, led').
       Inr (r, (led', w))))"

text \<open>
  \<open>_resolve_manifest\<close>: an unknown tool is evaluated against a synthetic manifest, recorded and
  refused with \<open>ToolGatewayError\<close>, a \<open>RuntimeError\<close>. A tool id no manifest can carry raises
  \<open>ValueError\<close> before anything is recorded.
\<close>

definition synthetic_manifest :: "tool_request \<Rightarrow> tool_manifest res" where
  "synthetic_manifest req = tool_manifest_init
     \<lparr>manifest_tool_id = request_tool_id req, manifest_name = ''Unknown Tool'',
      manifest_version = ''0.0.0'',
      manifest_summary = ''Synthetic manifest for unknown tool failure reporting.'',
      manifest_capabilities = [tool_capability req], manifest_side_effects = [NO_EFFECT],
      manifest_approval_mode = APPROVAL_POLICY, manifest_input_schema = [], manifest_output_schema = [],
      default_timeout_micros = None, manifest_path_policy = None, manifest_tags = [],
      manifest_metadata = []\<rparr>"

definition resolve_manifest ::
  "(string \<Rightarrow> string) \<Rightarrow> py_runtime \<Rightarrow> tool_supply \<Rightarrow> 'w governed_gateway \<Rightarrow> tool_request
    \<Rightarrow> ('w tool_world, tool_manifest) st" where
  "resolve_manifest H rt supply g req =
     (case get_manifest (gateway_registry g) (request_tool_id req) of
        Inr m \<Rightarrow> st_return m
      | Inl err \<Rightarrow>
         st_bind (st_lift (synthetic_manifest req)) (\<lambda>m.
         st_bind (st_lift (evaluate_tool_policy rt (gateway_policy g) m req None)) (\<lambda>ev.
         st_bind (record_receipt H supply 0 (policy_entry ev req ''tools.gateway''
            [(''resolution_error'', JStr (error_text err))])) (\<lambda>_.
         st_raise (OtherError (''Unknown tool requested: '' @ quoted (request_tool_id req) @ ''.''))))))"

definition resolve_invoker :: "'w governed_gateway \<Rightarrow> string \<Rightarrow> 'w invoker res" where
  "resolve_invoker g tid =
     (case map_of (gateway_invokers g) tid of
        None \<Rightarrow> Inl (OtherError (''No concrete invoker registered for tool: '' @ quoted tid @ ''.''))
      | Some f \<Rightarrow> Inr f)"

definition refusal_metadata :: "tool_policy_evaluation \<Rightarrow> json dict" where
  "refusal_metadata ev =
     [(''decision'', JStr (tool_policy_decision_value (policy_decision ev))),
      (''reason_codes'', json_strs (policy_reason_codes ev)),
      (''risk_level'', JStr (tool_risk_level_value (risk_level (evaluated_risk ev)))),
      (''risk_score'', JInt (risk_score (evaluated_risk ev)))]"
definition risk_assessment_dict :: "risk_assessment \<Rightarrow> json dict" where
  "risk_assessment_dict a =
     [(''tool_name'', JStr (assessed_tool a)), (''tool_id'', JStr (assessed_tool a)),
      (''level'', JStr (tool_risk_level_value (risk_level a))),
      (''score'', JInt (risk_score a)),
      (''signals'', JList (map (\<lambda>s. JObj [(''code'', JStr (signal_code s)), (''score'', JInt (signal_score s)),
          (''summary'', JStr (signal_summary s)), (''metadata'', JObj (signal_metadata s))]) (risk_signals a))),
      (''signal_codes'', json_strs (signal_codes a)),
      (''factors'', json_strs (map tool_risk_factor_value (risk_factors a))),
      (''rationale'', JStr (risk_rationale a)),
      (''requires_human_review'', JBool (requires_human_review a)),
      (''approval_recommended'', JBool (approval_recommended a)),
      (''block_recommended'', JBool (block_recommended a)),
      (''metadata'', JObj (risk_metadata a))]"

definition refusal_output :: "tool_policy_evaluation \<Rightarrow> json dict" where
  "refusal_output ev =
     [(''policy_decision'', JStr (tool_policy_decision_value (policy_decision ev))),
      (''reason_codes'', json_strs (policy_reason_codes ev)),
      (''risk_assessment'', JObj (risk_assessment_dict (evaluated_risk ev)))]"

definition gateway_failed ::
  "tool_supply \<Rightarrow> tool_request \<Rightarrow> invocation_status \<Rightarrow> tool_failure_kind \<Rightarrow> string \<Rightarrow> bool \<Rightarrow> json dict
    \<Rightarrow> json dict \<Rightarrow> tool_result res" where
  "gateway_failed supply req status kind message retryable metadata output =
     res_bind (tool_failure_init \<lparr>failure_kind = kind, failure_message = message,
        failure_retryable = retryable, failure_metadata = metadata\<rparr>) (\<lambda>f.
     tool_result_failed req status f output [] (clock_at supply 1) (clock_at supply 2))"

definition refused_by_policy ::
  "tool_supply \<Rightarrow> tool_request \<Rightarrow> tool_policy_evaluation \<Rightarrow> tool_result res" where
  "refused_by_policy supply req ev =
     (if policy_decision ev = TOOL_BLOCK
      then gateway_failed supply req INVOCATION_BLOCKED POLICY_BLOCKED
             ''Tool invocation blocked by gateway policy.'' False (refusal_metadata ev) (refusal_output ev)
      else gateway_failed supply req INVOCATION_REVIEW APPROVAL_REQUIRED
             ''Tool invocation requires operator review before execution.'' False
             (refusal_metadata ev) (refusal_output ev))"

text \<open>The \<open>try\<close> around \<open>invoker.invoke\<close>: every exception becomes a failed result.\<close>

definition run_invoker ::
  "tool_supply \<Rightarrow> 'w invoker \<Rightarrow> tool_request \<Rightarrow> ('w tool_world, tool_result) st" where
  "run_invoker supply f req = (\<lambda>s. case f req s of
     (Inr r, s') \<Rightarrow> (Inr r, s')
   | (Inl (InvokeTimeout m), s') \<Rightarrow>
       (gateway_failed supply req INVOCATION_TIMED_OUT FAILURE_TIMEOUT
          (''Tool invocation timed out: '' @ m) True [] [], s')
   | (Inl (InvokeError name m), s') \<Rightarrow>
       (gateway_failed supply req INVOCATION_FAILED EXECUTION_ERROR
          (''Tool invocation failed: '' @ m) False [(''exception_type'', JStr name)] [], s'))"

definition gateway_report_of ::
  "(string \<Rightarrow> string) \<Rightarrow> tool_request \<Rightarrow> tool_manifest \<Rightarrow> tool_policy_evaluation \<Rightarrow> tool_result \<Rightarrow> string
    \<Rightarrow> ('w tool_world, gateway_report) st" where
  "gateway_report_of H req m ev r decision = st_get (\<lambda>(led, w).
     res_bind (verify_invocation_chain H led (invocation_id req)) (\<lambda>ok.
     Inr \<lparr>gw_request = req, gw_manifest = m, gw_evaluation = ev, gw_result = r,
          gw_chain_verified = ok, gw_metadata = [(''gateway_decision'', JStr decision)]\<rparr>))"

definition artifact_receipt ::
  "(string \<Rightarrow> string) \<Rightarrow> tool_supply \<Rightarrow> tool_result \<Rightarrow> nat \<times> tool_artifact \<Rightarrow> ('w tool_world, tool_receipt) st" where
  "artifact_receipt H supply r ia =
     (let a = snd ia in
      record_receipt H supply (3 + fst ia) (artifact_entry r (artifact_name a) (artifact_uri a) ''tools.gateway''
        [(''artifact_id'', JStr (artifact_id a)), (''media_type'', JStr (artifact_media_type a)),
         (''sha256'', json_opt (artifact_sha256 a))]))"

definition execute_tool ::
  "(string \<Rightarrow> string) \<Rightarrow> py_runtime \<Rightarrow> tool_supply \<Rightarrow> 'w governed_gateway \<Rightarrow> tool_request \<Rightarrow> tool_manifest
    \<Rightarrow> tool_policy_evaluation \<Rightarrow> ('w tool_world, gateway_report) st" where
  "execute_tool H rt supply g req m ev =
     st_bind (st_lift (resolve_invoker g (request_tool_id req))) (\<lambda>f.
     st_bind (record_receipt H supply 1 (started_entry req ''tools.gateway''
        [(''manifest_version'', JStr (manifest_version m))])) (\<lambda>_.
     st_bind (run_invoker supply f req) (\<lambda>r.
     st_bind (record_receipt H supply 2 (result_entry rt r (Some req) ''tools.gateway'' [])) (\<lambda>_.
     st_bind (st_map (artifact_receipt H supply r) (List.enumerate 0 (result_artifacts r))) (\<lambda>_.
     gateway_report_of H req m ev r ''executed'')))))"

definition gateway_invoke ::
  "(string \<Rightarrow> string) \<Rightarrow> py_runtime \<Rightarrow> tool_supply \<Rightarrow> 'w governed_gateway \<Rightarrow> tool_request
    \<Rightarrow> ('w tool_world, gateway_report) st" where
  "gateway_invoke H rt supply g req =
     st_bind (resolve_manifest H rt supply g req) (\<lambda>m.
     st_bind (st_lift (evaluate_tool_policy rt (gateway_policy g) m req None)) (\<lambda>ev.
     st_bind (record_receipt H supply 0 (policy_entry ev req ''tools.gateway'' [])) (\<lambda>_.
     if policy_decision ev = TOOL_ALLOW then execute_tool H rt supply g req m ev
     else
       st_bind (st_lift (refused_by_policy supply req ev)) (\<lambda>r.
       st_bind (record_receipt H supply 2 (result_entry rt r (Some req) ''tools.gateway'' [])) (\<lambda>_.
       gateway_report_of H req m ev r
         (if policy_decision ev = TOOL_BLOCK then ''blocked_without_execution''
          else ''review_required_without_execution''))))))"

definition gateway_evaluate_only ::
  "(string \<Rightarrow> string) \<Rightarrow> py_runtime \<Rightarrow> tool_supply \<Rightarrow> 'w governed_gateway \<Rightarrow> tool_request
    \<Rightarrow> ('w tool_world, tool_policy_evaluation) st" where
  "gateway_evaluate_only H rt supply g req =
     st_bind (resolve_manifest H rt supply g req) (\<lambda>m.
       st_lift (evaluate_tool_policy rt (gateway_policy g) m req None))"

section \<open>Execution only after ALLOW, and only after it is recorded\<close>

definition same_world :: "'w tool_world \<Rightarrow> 'w tool_world \<Rightarrow> bool" where
  "same_world s s' \<longleftrightarrow> snd s' = snd s"

lemma same_world_preorder [simp]: "reflp same_world" "transp same_world"
  by (auto simp: same_world_def reflp_def transp_def)

lemma record_receipt_same_world [keeps_intro]: "st_keeps same_world (record_receipt H supply i e)"
  unfolding record_receipt_def
  by (rule keeps_step) (auto simp: same_world_def res_bind_eq_Inr split: prod.splits)

lemma record_receipt_returns:
  assumes "record_receipt H supply i e (led, w) = (Inr r, s')"
  shows "append_tool_receipt H (fresh_hex supply i) (clock_at supply i) e led = Inr (r, fst s')"
    and "snd s' = w" and "fst s' = led @ [r]"
proof -
  from assms have "res_bind (append_tool_receipt H (fresh_hex supply i) (clock_at supply i) e led)
      (\<lambda>(r, led'). Inr (r, (led', w))) = Inr (r, s')"
    unfolding record_receipt_def by (auto dest: st_step_returns)
  then show a: "append_tool_receipt H (fresh_hex supply i) (clock_at supply i) e led = Inr (r, fst s')"
    and "snd s' = w" by (auto simp: res_bind_eq_Inr)
  from a show "fst s' = led @ [r]" by (cases rule: append_tool_receipt_cases)
qed

lemma resolve_manifest_known:
  "get_manifest (gateway_registry g) (request_tool_id req) = Inr m
     \<Longrightarrow> resolve_manifest H rt supply g req s = (Inr m, s)"
  by (simp add: resolve_manifest_def)

lemma resolve_manifest_returns:
  assumes "resolve_manifest H rt supply g req s = (Inr m, s')"
  shows "get_manifest (gateway_registry g) (request_tool_id req) = Inr m \<and> s' = s"
  using assms
  by (cases "get_manifest (gateway_registry g) (request_tool_id req)")
    (auto simp: resolve_manifest_def elim!: st_bind_returns)

lemma resolve_manifest_same_world [keeps_intro]:
  "st_keeps same_world (resolve_manifest H rt supply g req)"
  unfolding resolve_manifest_def by (auto split: sum.splits intro!: keeps_intro)

lemma report_same_world [keeps_intro]: "st_keeps same_world (gateway_report_of H req m ev r d)"
  unfolding gateway_report_of_def by (rule keeps_get) simp

lemma artifact_same_world [keeps_intro]: "st_keeps same_world (artifact_receipt H supply r ia)"
  unfolding artifact_receipt_def Let_def by (rule record_receipt_same_world)

lemma run_invoker_state: "snd (run_invoker supply f req s) = snd (f req s)"
  by (auto simp: run_invoker_def split: prod.splits sum.splits invoke_error.splits)

text \<open>The invoker runs on a ledger that ends with the policy receipt and the start receipt.\<close>

lemma execute_tool_effect:
  assumes run: "execute_tool H rt supply g req m ev (led, w) = (res, s')" and "snd s' \<noteq> w"
  shows "\<exists>f q. map_of (gateway_invokers g) (request_tool_id req) = Some f
     \<and> receipt_event q = INVOCATION_STARTED \<and> snd s' = snd (snd (f req (led @ [q], w)))"
proof (cases "map_of (gateway_invokers g) (request_tool_id req)")
  case None
  with run have "snd s' = w"
    by (auto simp: execute_tool_def resolve_invoker_def run_bind_Inl)
  with assms(2) show ?thesis by simp
next
  case (Some f)
  let ?rest = "\<lambda>r. st_bind (record_receipt H supply 2 (result_entry rt r (Some req) ''tools.gateway'' [])) (\<lambda>_.
     st_bind (st_map (artifact_receipt H supply r) (List.enumerate 0 (result_artifacts r))) (\<lambda>_.
     gateway_report_of H req m ev r ''executed''))"
  let ?started = "record_receipt H supply 1 (started_entry req ''tools.gateway''
     [(''manifest_version'', JStr (manifest_version m))])"
  have rest: "st_keeps same_world (?rest r)" for r by (intro keeps_intro) simp_all
  have run': "st_bind ?started (\<lambda>_. st_bind (run_invoker supply f req) ?rest) (led, w) = (res, s')"
    using run Some by (simp add: execute_tool_def resolve_invoker_def st_bind_def)
  obtain x s1 where st: "?started (led, w) = (x, s1)" by (rule prod.exhaust)
  have w1: "snd s1 = w" using keepsD [OF record_receipt_same_world st] by (simp add: same_world_def)
  show ?thesis
  proof (cases x)
    case (Inl e)
    with run' st have "s' = s1" by (simp add: run_bind_Inl)
    with w1 assms(2) show ?thesis by simp
  next
    case (Inr q)
    with st have s1: "s1 = (led @ [q], w)" using record_receipt_returns(2,3) by (metis prod.collapse)
    have ev: "receipt_event q = INVOCATION_STARTED"
      using record_receipt_returns(1) [OF st [unfolded Inr]]
      by (cases rule: append_tool_receipt_cases) (simp add: started_entry_def)
    obtain y s2 where inv: "run_invoker supply f req s1 = (y, s2)" by (rule prod.exhaust)
    have "snd s' = snd s2"
    proof (cases y)
      case (Inl e)
      with run' st inv \<open>x = Inr q\<close> show ?thesis by (simp add: run_bind_Inl run_bind_Inr)
    next
      case (Inr r)
      with run' st inv \<open>x = Inr q\<close> have "?rest r s2 = (res, s')" by (simp add: run_bind_Inr)
      from keepsD [OF rest this] show ?thesis by (simp add: same_world_def)
    qed
    moreover have "s2 = snd (f req (led @ [q], w))" using run_invoker_state inv s1 by (metis snd_conv)
    ultimately show ?thesis using Some ev by blast
  qed
qed

lemma gateway_invoke_effect:
  assumes run: "gateway_invoke H rt supply g req (led, w) = (res, s')" and "snd s' \<noteq> w"
  obtains m ev f p q where
    "get_manifest (gateway_registry g) (request_tool_id req) = Inr m"
    "evaluate_tool_policy rt (gateway_policy g) m req None = Inr ev"
    "policy_decision ev = TOOL_ALLOW"
    "map_of (gateway_invokers g) (request_tool_id req) = Some f"
    "receipt_event p = POLICY_EVALUATED" "receipt_policy_decision p = Some TOOL_ALLOW"
    "receipt_event q = INVOCATION_STARTED"
    "snd s' = snd (snd (f req (led @ [p, q], w)))"
proof -
  let ?policy = "\<lambda>ev. record_receipt H supply 0 (policy_entry ev req ''tools.gateway'' [])"
  let ?refuse = "\<lambda>m ev. st_bind (st_lift (refused_by_policy supply req ev)) (\<lambda>r.
       st_bind (record_receipt H supply 2 (result_entry rt r (Some req) ''tools.gateway'' [])) (\<lambda>_.
       gateway_report_of H req m ev r
         (if policy_decision ev = TOOL_BLOCK then ''blocked_without_execution''
          else ''review_required_without_execution'')))"
  have refuse: "st_keeps same_world (?refuse m ev)" for m ev by (intro keeps_intro) simp_all
  obtain x s1 where r: "resolve_manifest H rt supply g req (led, w) = (x, s1)" by (rule prod.exhaust)
  have "snd s1 = w" using keepsD [OF resolve_manifest_same_world r] by (simp add: same_world_def)
  with run assms(2) r obtain m where x: "x = Inr m"
    by (cases x) (auto simp: gateway_invoke_def run_bind_Inl)
  have m: "get_manifest (gateway_registry g) (request_tool_id req) = Inr m" and s1: "s1 = (led, w)"
    using resolve_manifest_returns [OF r [unfolded x]] by simp_all
  from run assms(2) r x s1 obtain ev where
    ev: "evaluate_tool_policy rt (gateway_policy g) m req None = Inr ev"
    by (cases "evaluate_tool_policy rt (gateway_policy g) m req None")
      (auto simp: gateway_invoke_def st_bind_def)
  have run1: "st_bind (?policy ev) (\<lambda>_. if policy_decision ev = TOOL_ALLOW
      then execute_tool H rt supply g req m ev else ?refuse m ev) (led, w) = (res, s')"
    using run r x s1 ev by (simp add: gateway_invoke_def st_bind_def)
  obtain y s2 where p: "?policy ev (led, w) = (y, s2)" by (rule prod.exhaust)
  have "snd s2 = w" using keepsD [OF record_receipt_same_world p] by (simp add: same_world_def)
  with run1 assms(2) p obtain pr where y: "y = Inr pr" by (cases y) (auto simp: run_bind_Inl)
  have s2: "s2 = (led @ [pr], w)" using record_receipt_returns(2,3) p y by (metis prod.collapse)
  have run2: "(if policy_decision ev = TOOL_ALLOW then execute_tool H rt supply g req m ev
      else ?refuse m ev) (led @ [pr], w) = (res, s')"
    using run1 p y s2 by (simp add: run_bind_Inr)
  have allow: "policy_decision ev = TOOL_ALLOW"
  proof (rule ccontr)
    assume "policy_decision ev \<noteq> TOOL_ALLOW"
    then have "?refuse m ev (led @ [pr], w) = (res, s')" using run2 by (simp only: if_False)
    from keepsD [OF refuse this] assms(2) show False by (simp add: same_world_def)
  qed
  then have "execute_tool H rt supply g req m ev (led @ [pr], w) = (res, s')"
    using run2 by (simp only: if_True simp_thms)
  from execute_tool_effect [OF this assms(2)] obtain f q where
    f: "map_of (gateway_invokers g) (request_tool_id req) = Some f" "receipt_event q = INVOCATION_STARTED"
      "snd s' = snd (snd (f req ((led @ [pr]) @ [q], w)))" by blast
  have "receipt_event pr = POLICY_EVALUATED \<and> receipt_policy_decision pr = Some TOOL_ALLOW"
    using record_receipt_returns(1) [OF p [unfolded y]] allow
    by (cases rule: append_tool_receipt_cases) (simp add: policy_entry_def)
  moreover have "snd s' = snd (snd (f req (led @ [pr, q], w)))" using f(3) by simp
  ultimately show thesis using that [OF m ev allow f(1) _ _ f(2)] by blast
qed

section \<open>The ledger stays verified\<close>

definition keeps_verified :: "(string \<Rightarrow> string) \<Rightarrow> 'w tool_world \<Rightarrow> 'w tool_world \<Rightarrow> bool" where
  "keeps_verified H s s' \<longleftrightarrow> (ledger_verified H (fst s) \<longrightarrow> ledger_verified H (fst s'))"

lemma keeps_verified_preorder [simp]: "reflp (keeps_verified H)" "transp (keeps_verified H)"
  by (auto simp: keeps_verified_def reflp_def transp_def)

definition hex_supply :: "tool_supply \<Rightarrow> bool" where
  "hex_supply supply \<longleftrightarrow> (\<forall>i. list_all is_lower_hex (fresh_hex supply i))"

lemma record_receipt_verified:
  assumes "hex_supply supply"
  shows "st_keeps (keeps_verified H) (record_receipt H supply i e)"
proof -
  have "list_all is_lower_hex (fresh_hex supply i)" using assms by (simp add: hex_supply_def)
  then show ?thesis unfolding record_receipt_def
    by (intro keeps_step) (auto simp: keeps_verified_def res_bind_eq_Inr split: prod.splits
        dest: append_tool_receipt_verified)
qed

text \<open>A tool that only appends to the ledger through \<open>append\<close> keeps it verified.\<close>

definition invoker_keeps_ledger :: "(string \<Rightarrow> string) \<Rightarrow> 'w invoker \<Rightarrow> bool" where
  "invoker_keeps_ledger H f \<longleftrightarrow> (\<forall>req s. keeps_verified H s (snd (f req s)))"

lemma run_invoker_verified:
  "invoker_keeps_ledger H f \<Longrightarrow> st_keeps (keeps_verified H) (run_invoker supply f req)"
  by (simp add: st_keeps_def run_invoker_state invoker_keeps_ledger_def)

lemma resolve_invoker_in: "resolve_invoker g tid = Inr f \<Longrightarrow> f \<in> snd ` set (gateway_invokers g)"
  by (force simp: resolve_invoker_def split: option.splits dest: map_of_SomeD)

lemma lift_bind_keeps:
  "reflp R \<Longrightarrow> (\<And>x. r = Inr x \<Longrightarrow> st_keeps R (f x)) \<Longrightarrow> st_keeps R (st_bind (st_lift r) f)"
  by (cases r) (auto simp: st_keeps_def st_bind_def reflpD)

lemma execute_tool_verified:
  assumes "hex_supply supply" and "\<And>f. f \<in> snd ` set (gateway_invokers g) \<Longrightarrow> invoker_keeps_ledger H f"
  shows "st_keeps (keeps_verified H) (execute_tool H rt supply g req m ev)"
  unfolding execute_tool_def gateway_report_of_def artifact_receipt_def Let_def
  by (intro lift_bind_keeps keeps_bind keeps_map keeps_get record_receipt_verified run_invoker_verified
      keeps_verified_preorder assms resolve_invoker_in)

lemma gateway_invoke_verified:
  assumes "hex_supply supply" and "\<And>f. f \<in> snd ` set (gateway_invokers g) \<Longrightarrow> invoker_keeps_ledger H f"
  shows "st_keeps (keeps_verified H) (gateway_invoke H rt supply g req)"
proof -
  have "st_keeps (keeps_verified H) (resolve_manifest H rt supply g req)"
    unfolding resolve_manifest_def
    by (auto split: sum.splits intro!: keeps_return lift_bind_keeps keeps_bind keeps_raise
        record_receipt_verified assms(1))
  then show ?thesis
    unfolding gateway_invoke_def gateway_report_of_def
    by (intro lift_bind_keeps keeps_bind keeps_if keeps_get record_receipt_verified execute_tool_verified
        keeps_verified_preorder assms)
qed

lemma report_chain:
  assumes "gateway_report_of H req m ev r d s = (Inr rep, s')" and "ledger_verified H (fst s)"
  shows "gw_chain_verified rep"
proof -
  have "s' = s" using assms(1) by (simp add: gateway_report_of_def)
  obtain n where "tool_identifier ''invocation_id'' (invocation_id req) = Inr n"
    using assms(1) by (cases "tool_identifier ''invocation_id'' (invocation_id req)")
      (auto simp: gateway_report_of_def verify_invocation_chain_def split: prod.splits)
  with assms(2) have "verify_invocation_chain H (fst s) (invocation_id req) = Inr True"
    by (simp add: verify_invocation_chain_def ledger_verified_def)
  with assms(1) show ?thesis by (auto simp: gateway_report_of_def split: prod.splits)
qed

text \<open>Every report that is returned says its chain verifies.\<close>

lemma gateway_invoke_report:
  assumes run: "gateway_invoke H rt supply g req s = (Inr rep, s')" and "ledger_verified H (fst s)"
    and "hex_supply supply" and "\<And>f. f \<in> snd ` set (gateway_invokers g) \<Longrightarrow> invoker_keeps_ledger H f"
  shows "gw_chain_verified rep"
proof -
  have s': "ledger_verified H (fst s')"
    using keepsD [OF gateway_invoke_verified [OF assms(3,4)] run] assms(2) by (simp add: keeps_verified_def)
  obtain m ev r d s1 where "gateway_report_of H req m ev r d s1 = (Inr rep, s')"
    using run unfolding gateway_invoke_def
    by (elim st_bind_returns) (auto simp: execute_tool_def split: if_splits elim!: st_bind_returns)
  moreover from this have "s1 = s'" by (simp add: gateway_report_of_def)
  ultimately show ?thesis using report_chain s' by metis
qed

text \<open>
  The contract of a tool that records its own receipts: given fresh identifiers it leaves a
  verified ledger verified. Whatever gateway it is registered in then keeps the ledger.
\<close>

locale recording_tool =
  fixes H :: "string \<Rightarrow> string" and drawn :: tool_supply and tool :: "'w invoker"
  assumes records: "hex_supply drawn \<Longrightarrow> keeps_verified H s (snd (tool req s))"
begin

lemma keeps_ledger: "hex_supply drawn \<Longrightarrow> invoker_keeps_ledger H tool"
  unfolding invoker_keeps_ledger_def using records by blast

lemma gateway_keeps_ledger:
  assumes "hex_supply drawn" and "snd ` set (gateway_invokers g) \<subseteq> {tool}"
  shows "st_keeps (keeps_verified H) (gateway_invoke H rt drawn g req)"
  using gateway_invoke_verified [OF assms(1)] keeps_ledger [OF assms(1)] assms(2) by blast

end

section \<open>Behind the agent preflight\<close>

text \<open>The gateway as \<open>AuthorizedToolGateway\<close> calls it: its report, and the result in it.\<close>

definition governed_call ::
  "(string \<Rightarrow> string) \<Rightarrow> py_runtime \<Rightarrow> tool_supply \<Rightarrow> 'w governed_gateway \<Rightarrow> tool_request \<Rightarrow> 'w tool_world
    \<Rightarrow> (gateway_report \<times> tool_result) res \<times> 'w tool_world" where
  "governed_call H rt supply g req s =
     (case gateway_invoke H rt supply g req s of
        (Inl e, s') \<Rightarrow> (Inl e, s')
      | (Inr rep, s') \<Rightarrow> (Inr (rep, gw_result rep), s'))"

lemma governed_call_state: "snd (governed_call H rt supply g req s) = snd (gateway_invoke H rt supply g req s)"
  by (auto simp: governed_call_def split: prod.splits sum.splits)

end
