(* ===== verification/Workspace.thy ===== *)
theory Workspace
  imports ToolGateway
begin

text \<open>
  The file system a governed tool works on, and the resolver that keeps its paths inside the
  workspace (\<open>tools/workspace.py\<close>). A file system maps an absolute path, the list of its
  components, to a file with its bytes, a directory, or a symbolic link with its target. File
  contents are those whose decoding fails or has code points below 256, as all texts here.
\<close>

section \<open>Files\<close>

type_synonym fs_path = "string list"

datatype fs_node = FileNode string | DirNode | LinkNode string

type_synonym file_system = "fs_path \<Rightarrow> fs_node option"

definition fs_exists :: "file_system \<Rightarrow> fs_path \<Rightarrow> bool" where
  "fs_exists fs p = (fs p \<noteq> None)"

definition fs_is_file :: "file_system \<Rightarrow> fs_path \<Rightarrow> bool" where
  "fs_is_file fs p = (case fs p of Some (FileNode _) \<Rightarrow> True | _ \<Rightarrow> False)"

definition fs_is_dir :: "file_system \<Rightarrow> fs_path \<Rightarrow> bool" where
  "fs_is_dir fs p = (fs p = Some DirNode)"

text \<open>\<open>bytes.decode("utf-8")\<close> as far as it yields code points below 256.\<close>

fun utf8_decode :: "string \<Rightarrow> string option" where
  "utf8_decode [] = Some []"
| "utf8_decode [c] = (if code_point c < 128 then Some [c] else None)"
| "utf8_decode (c # d # s) =
     (if code_point c < 128 then map_option (\<lambda>t. c # t) (utf8_decode (d # s))
      else if (code_point c = 194 \<or> code_point c = 195) \<and> 128 \<le> code_point d \<and> code_point d < 192
      then map_option (\<lambda>t. char_of ((code_point c - 192) * 64 + (code_point d - 128)) # t) (utf8_decode s)
      else None)"

text \<open>The universal newlines of \<open>Path.read_text\<close>: CR LF and a lone CR become LF.\<close>

fun universal_newlines :: "string \<Rightarrow> string" where
  "universal_newlines [] = []"
| "universal_newlines [c] = [if c = CHR 0x0D then CHR 0x0A else c]"
| "universal_newlines (c # d # s) =
     (if c = CHR 0x0D then CHR 0x0A # universal_newlines (if d = CHR 0x0A then s else d # s)
      else c # universal_newlines (d # s))"

definition read_text :: "file_system \<Rightarrow> fs_path \<Rightarrow> string res" where
  "read_text fs p =
     (case fs p of
        Some (FileNode b) \<Rightarrow>
          (case utf8_decode b of
             None \<Rightarrow> Inl (DecodeError ''invalid start byte'')
           | Some s \<Rightarrow> Inr (universal_newlines s))
      | Some _ \<Rightarrow> Inl (OSError ''Is a directory'')
      | None \<Rightarrow> Inl (OSError ''No such file or directory''))"

text \<open>
  \<open>path.parent.mkdir(parents=True, exist_ok=True)\<close>: the missing directories above are made; a
  file among them is an \<open>OSError\<close>, and then nothing was made.
\<close>

fun make_dirs :: "fs_path \<Rightarrow> string list \<Rightarrow> file_system \<Rightarrow> file_system res" where
  "make_dirs done [] fs = Inr fs"
| "make_dirs done (c # cs) fs =
     (case fs (done @ [c]) of
        Some DirNode \<Rightarrow> make_dirs (done @ [c]) cs fs
      | None \<Rightarrow> make_dirs (done @ [c]) cs (fs(done @ [c] \<mapsto> DirNode))
      | _ \<Rightarrow> Inl (OSError ''Not a directory''))"

text \<open>\<open>Path.write_text(text, encoding="utf-8")\<close> on Linux, where LF is written as it is.\<close>

definition write_text :: "fs_path \<Rightarrow> string \<Rightarrow> file_system \<Rightarrow> file_system res" where
  "write_text p s fs =
     (if fs p = Some DirNode then Inl (OSError ''Is a directory'')
      else if \<not> fs_is_dir fs (butlast p) then Inl (OSError ''No such file or directory'')
      else Inr (fs(p \<mapsto> FileNode (utf8 s))))"

definition unlink :: "fs_path \<Rightarrow> file_system \<Rightarrow> file_system" where
  "unlink p fs = fs(p := None)"

section \<open>Path.resolve\<close>

text \<open>
  \<open>Path.resolve()\<close> walks the components: \<open>..\<close> drops the last one, a symbolic link is replaced by
  its target, everything else is appended, existing or not. \<open>n\<close> bounds the links followed; a walk
  that needs more is the loop \<open>resolve\<close> reports.
\<close>

function walk_path :: "nat \<Rightarrow> file_system \<Rightarrow> fs_path \<Rightarrow> string list \<Rightarrow> fs_path option" where
  "walk_path n fs done [] = Some done"
| "walk_path n fs done (c # cs) =
     (if c = ''..'' then walk_path n fs (butlast done) cs
      else case fs (done @ [c]) of
        Some (LinkNode target) \<Rightarrow>
          (case n of
             0 \<Rightarrow> None
           | Suc k \<Rightarrow> walk_path k fs (if path_is_absolute target then [] else done) (path_parts target @ cs))
      | _ \<Rightarrow> walk_path n fs (done @ [c]) cs)"
  by pat_completeness auto
termination
  by (relation "measures [\<lambda>(n, fs, done, cs). n, \<lambda>(n, fs, done, cs). length cs]") auto

definition real_path :: "nat \<Rightarrow> file_system \<Rightarrow> string list \<Rightarrow> fs_path res" where
  "real_path n fs cs =
     (case walk_path n fs [] cs of
        None \<Rightarrow> Inl (OtherError ''Symlink loop'')
      | Some p \<Rightarrow> Inr p)"

section \<open>WorkspacePathResolver\<close>

record workspace =
  workspace_root :: fs_path
  path_policy :: tool_path_policy

text \<open>
  \<open>__post_init__\<close> resolves the root it is given, here the components of the absolute path
  \<open>expanduser\<close> leaves.
\<close>

definition workspace_init ::
  "nat \<Rightarrow> file_system \<Rightarrow> string list \<Rightarrow> tool_path_policy \<Rightarrow> workspace res" where
  "workspace_init n fs configured pol =
     res_bind (real_path n fs configured) (\<lambda>root.
     if \<not> fs_exists fs root then Inl (OSError ''Workspace root does not exist'')
     else if \<not> fs_is_dir fs root then Inl (OSError ''Workspace root is not a directory'')
     else Inr \<lparr>workspace_root = root, path_policy = pol\<rparr>)"

text \<open>\<open>Path(s).parts\<close>: an absolute path has the root as its first part.\<close>

definition pure_parts :: "string \<Rightarrow> string list" where
  "pure_parts s = (if path_is_absolute s then [''/''] else []) @ path_parts s"

definition parts_start_with :: "string list \<Rightarrow> string list \<Rightarrow> bool" where
  "parts_start_with parts prefix = (prefix \<noteq> [] \<and> take (length prefix) parts = prefix)"

definition cleaned_root :: "string \<Rightarrow> string" where
  "cleaned_root r = replace_char CHR 0x5C CHR ''/'' (strip r)"

definition matches_allowed_root :: "tool_path_policy \<Rightarrow> string list \<Rightarrow> bool" where
  "matches_allowed_root pol parts = list_ex (\<lambda>r. let c = cleaned_root r in
     c = [] \<or> c = ''.'' \<or> parts_start_with parts (pure_parts c)) (allowed_roots pol)"

definition matches_blocked_root :: "tool_path_policy \<Rightarrow> string list \<Rightarrow> bool" where
  "matches_blocked_root pol parts = list_ex (\<lambda>r. let c = cleaned_root r in
     c \<noteq> [] \<and> c \<noteq> ''.'' \<and> parts_start_with parts (pure_parts c)) (blocked_roots pol)"

definition relative_parts :: "fs_path \<Rightarrow> fs_path \<Rightarrow> string list option" where
  "relative_parts root p = (if take (length root) p = root then Some (drop (length root) p) else None)"

definition relative_text :: "string list \<Rightarrow> string" where
  "relative_text rel = (if rel = [] then ''.'' else join ''/'' rel)"

definition resolve_path :: "nat \<Rightarrow> file_system \<Rightarrow> workspace \<Rightarrow> string \<Rightarrow> fs_path res" where
  "resolve_path n fs ws requested =
     (let raw = strip requested in
      if raw = [] then Inl (PathViolation ''Workspace path must not be empty.'')
      else if path_is_absolute raw \<and> \<not> allow_absolute_paths (path_policy ws)
      then Inl (PathViolation (''Absolute paths are not allowed by workspace policy: '' @ raw))
      else if CHR 0x00 \<in> set raw then Inl (ValueError ''embedded null byte'')
      else
       res_bind (real_path n fs (if path_is_absolute raw then path_parts raw
                                 else workspace_root ws @ path_parts raw)) (\<lambda>p.
       case relative_parts (workspace_root ws) p of
         None \<Rightarrow> Inl (PathViolation (''Path escapes the governed workspace root: '' @ raw))
       | Some rel \<Rightarrow>
          if rel = [] then Inr p
          else if matches_blocked_root (path_policy ws) rel
          then Inl (PathViolation (''Path is blocked by workspace policy: '' @ relative_text rel))
          else if allowed_roots (path_policy ws) \<noteq> [] \<and> \<not> matches_allowed_root (path_policy ws) rel
          then Inl (PathViolation (''Path is outside allowed workspace roots: '' @ relative_text rel
            @ ''. Allowed roots: '' @ join '', '' (allowed_roots (path_policy ws)) @ ''.''))
          else Inr p))"

definition relative_path :: "nat \<Rightarrow> file_system \<Rightarrow> workspace \<Rightarrow> fs_path \<Rightarrow> string res" where
  "relative_path n fs ws p =
     res_bind (real_path n fs p) (\<lambda>q.
     case relative_parts (workspace_root ws) q of
       None \<Rightarrow> Inl (PathViolation ''Resolved path is outside workspace root'')
     | Some rel \<Rightarrow> Inr (relative_text rel))"

text \<open>\<open>is_allowed_relative_path\<close> lets every exception but a violation through.\<close>

definition is_allowed_relative_path :: "nat \<Rightarrow> file_system \<Rightarrow> workspace \<Rightarrow> string \<Rightarrow> bool res" where
  "is_allowed_relative_path n fs ws s =
     (case resolve_path n fs ws s of
        Inr _ \<Rightarrow> Inr True
      | Inl (PathViolation _) \<Rightarrow> Inr False
      | Inl e \<Rightarrow> Inl e)"

section \<open>What resolving guarantees\<close>

text \<open>A resolved path: no \<open>..\<close> in it, and no symbolic link on the way.\<close>

definition link_free :: "file_system \<Rightarrow> fs_path \<Rightarrow> bool" where
  "link_free fs p \<longleftrightarrow> ''..'' \<notin> set p
     \<and> (\<forall>q r. p = q @ r \<longrightarrow> q \<noteq> [] \<longrightarrow> (\<forall>t. fs q \<noteq> Some (LinkNode t)))"

lemma link_free_Nil [simp]: "link_free fs []"
  by (simp add: link_free_def)

lemma link_free_snoc:
  "link_free fs (p @ [c]) \<longleftrightarrow> link_free fs p \<and> c \<noteq> ''..'' \<and> (\<forall>t. fs (p @ [c]) \<noteq> Some (LinkNode t))"
proof
  assume "link_free fs (p @ [c])"
  then show "link_free fs p \<and> c \<noteq> ''..'' \<and> (\<forall>t. fs (p @ [c]) \<noteq> Some (LinkNode t))"
    unfolding link_free_def by (metis Un_iff append.assoc append_is_Nil_conv append_self_conv
        list.distinct(1) list.set_intros(1) set_append)
next
  assume *: "link_free fs p \<and> c \<noteq> ''..'' \<and> (\<forall>t. fs (p @ [c]) \<noteq> Some (LinkNode t))"
  have "fs q \<noteq> Some (LinkNode t)" if "p @ [c] = q @ r" "q \<noteq> []" for q r t
  proof (cases r rule: rev_cases)
    case Nil
    with that * show ?thesis by simp
  next
    case (snoc r' d)
    with that have "p = q @ r'" by simp
    with that * show ?thesis by (simp add: link_free_def)
  qed
  with * show "link_free fs (p @ [c])" by (auto simp: link_free_def)
qed

lemma link_free_butlast: "link_free fs p \<Longrightarrow> link_free fs (butlast p)"
  by (cases p rule: rev_cases) (simp_all add: link_free_snoc)

lemma link_free_append: "link_free fs (p @ q) \<Longrightarrow> link_free fs p"
  by (induction q rule: rev_induct) (simp_all add: link_free_snoc flip: append_assoc)

lemma walk_path_link_free:
  "walk_path n fs done cs = Some p \<Longrightarrow> link_free fs done \<Longrightarrow> link_free fs p"
proof (induction n fs "done" cs rule: walk_path.induct)
  case (2 n fs "done" c cs)
  then show ?case
    by (auto split: if_splits option.splits fs_node.splits nat.splits
        intro: link_free_butlast simp: link_free_snoc)
qed simp

lemma walk_path_fixed: "link_free fs (done @ cs) \<Longrightarrow> walk_path n fs done cs = Some (done @ cs)"
proof (induction cs arbitrary: "done")
  case (Cons c cs)
  then have "link_free fs (done @ [c])" using link_free_append [of fs "done @ [c]" cs] by simp
  then have "c \<noteq> ''..''" "\<forall>t. fs (done @ [c]) \<noteq> Some (LinkNode t)" by (simp_all add: link_free_snoc)
  moreover have "walk_path n fs (done @ [c]) cs = Some ((done @ [c]) @ cs)" using Cons by simp
  ultimately show ?case by (simp split: option.splits fs_node.splits)
qed simp

lemma real_path_link_free: "real_path n fs cs = Inr p \<Longrightarrow> link_free fs p"
  by (auto simp: real_path_def split: option.splits dest: walk_path_link_free)

lemma real_path_fixed: "link_free fs p \<Longrightarrow> real_path n fs p = Inr p"
  using walk_path_fixed [of fs "[]" p n] by (simp add: real_path_def)

lemma relative_parts_Some: "relative_parts root p = Some rel \<longleftrightarrow> p = root @ rel"
  by (simp add: relative_parts_def) (metis append_eq_conv_conj)

definition admitted :: "tool_path_policy \<Rightarrow> string list \<Rightarrow> bool" where
  "admitted pol rel \<longleftrightarrow> rel = [] \<or> (\<not> matches_blocked_root pol rel
     \<and> (allowed_roots pol = [] \<or> matches_allowed_root pol rel))"

lemma resolve_path_inside:
  assumes "resolve_path n fs ws s = Inr p"
  obtains rel where "p = workspace_root ws @ rel" "link_free fs p" "admitted (path_policy ws) rel"
proof -
  from assms obtain q rel where q: "real_path n fs q = Inr p"
    and r: "relative_parts (workspace_root ws) p = Some rel" "admitted (path_policy ws) rel"
    by (auto simp: resolve_path_def Let_def res_bind_eq_Inr admitted_def split: if_splits option.splits)
  then show thesis
    using that real_path_link_free [OF q] by (simp add: relative_parts_Some)
qed

lemma resolve_then_relative:
  assumes "resolve_path n fs ws s = Inr p" and "p = workspace_root ws @ rel"
  shows "relative_path m fs ws p = Inr (relative_text rel)"
proof -
  have "link_free fs p" using assms(1) by (rule resolve_path_inside)
  with assms(2) show ?thesis
    by (simp add: relative_path_def real_path_fixed relative_parts_def)
qed

text \<open>Below a blocked root everything is blocked, and above an unblocked path nothing is.\<close>

lemma parts_start_with_append: "parts_start_with p pre \<Longrightarrow> parts_start_with (p @ q) pre"
  by (auto simp: parts_start_with_def take_append) (metis length_take min.absorb_iff2 nat_le_linear take_all)

lemma matches_blocked_root_append: "matches_blocked_root pol p \<Longrightarrow> matches_blocked_root pol (p @ q)"
  by (auto simp: matches_blocked_root_def Let_def list_ex_iff intro: parts_start_with_append)

section \<open>What writing changes\<close>

text \<open>\<open>changed fs fs'\<close> are the paths whose node differs.\<close>

definition changed :: "file_system \<Rightarrow> file_system \<Rightarrow> fs_path set" where
  "changed fs fs' = {p. fs' p \<noteq> fs p}"

lemma changed_refl [simp]: "changed fs fs = {}"
  by (simp add: changed_def)

lemma changed_trans: "changed fs fs'' \<subseteq> changed fs fs' \<union> changed fs' fs''"
  by (auto simp: changed_def)

lemma changed_update: "changed fs (fs(p := v)) \<subseteq> {p}"
  by (auto simp: changed_def)

lemma make_dirs_Cons:
  "make_dirs done (c # cs) fs =
     (if fs (done @ [c]) \<in> {None, Some DirNode}
      then make_dirs (done @ [c]) cs (fs(done @ [c] \<mapsto> DirNode)) else Inl (OSError ''Not a directory''))"
proof (cases "fs (done @ [c])")
  case (Some nd)
  then show ?thesis by (cases nd) (simp_all add: fun_upd_idem)
qed simp

declare make_dirs.simps(2) [simp del]

text \<open>The paths a walk down from \<open>done\<close> passes.\<close>

fun steps_down :: "fs_path \<Rightarrow> string list \<Rightarrow> fs_path list" where
  "steps_down done [] = []"
| "steps_down done (c # cs) = (done @ [c]) # steps_down (done @ [c]) cs"

lemma steps_down_mem: "q \<in> set (steps_down done cs) \<longleftrightarrow> (\<exists>us vs. cs = us @ vs \<and> us \<noteq> [] \<and> q = done @ us)"
proof (induction cs arbitrary: "done")
  case (Cons c cs)
  show ?case
  proof
    assume "q \<in> set (steps_down done (c # cs))"
    then consider "q = done @ [c]"
      | us vs where "cs = us @ vs" "us \<noteq> []" "q = (done @ [c]) @ us" by (auto simp: Cons)
    then show "\<exists>us vs. c # cs = us @ vs \<and> us \<noteq> [] \<and> q = done @ us"
    proof cases
      case 1
      then show ?thesis by (intro exI [of _ "[c]"] exI [of _ cs]) simp
    next
      case 2
      then show ?thesis by (intro exI [of _ "c # us"] exI [of _ vs]) simp
    qed
  next
    assume "\<exists>us vs. c # cs = us @ vs \<and> us \<noteq> [] \<and> q = done @ us"
    then obtain us vs where us: "c # cs = us @ vs" "us \<noteq> []" "q = done @ us" by blast
    then obtain us' where us': "us = c # us'" "cs = us' @ vs" by (cases us) auto
    show "q \<in> set (steps_down done (c # cs))"
    proof (cases "us' = []")
      case True
      with us us' show ?thesis by simp
    next
      case False
      with us us' have "q \<in> set (steps_down (done @ [c]) cs)" unfolding Cons by force
      then show ?thesis by simp
    qed
  qed
qed simp

lemma steps_down_longer: "q \<in> set (steps_down done cs) \<Longrightarrow> length done < length q"
  by (auto simp: steps_down_mem)

lemma make_dirs_changed:
  "make_dirs done cs fs = Inr fs' \<Longrightarrow>
     fs' q = (if q \<in> set (steps_down done cs) then Some DirNode else fs q)"
  by (induction cs arbitrary: "done" fs) (auto simp: make_dirs_Cons split: if_splits)

text \<open>It succeeds exactly when nothing on the way is a file or a link.\<close>

lemma make_dirs_succeeds:
  "(\<exists>fs'. make_dirs done cs fs = Inr fs') \<longleftrightarrow>
     (\<forall>q \<in> set (steps_down done cs). fs q \<in> {None, Some DirNode})"
proof (induction cs arbitrary: "done" fs)
  case (Cons c cs)
  have "(fs(done @ [c] \<mapsto> DirNode)) q = fs q" if "q \<in> set (steps_down (done @ [c]) cs)" for q
    using steps_down_longer [OF that] by auto
  with Cons show ?case by (simp add: make_dirs_Cons del: fun_upd_apply)
qed simp

text \<open>Text that is written is read back up to its line ends.\<close>

lemma utf8_decode_char:
  "utf8_decode (utf8_char c @ s) = map_option (\<lambda>t. c # t) (utf8_decode s)"
proof (cases "code_point c < 128")
  case True
  then show ?thesis by (cases s) (simp_all add: utf8_char_def Let_def)
next
  case False
  let ?n = "code_point c"
  have n: "?n < 256" "\<not> ?n < 128" using code_point_less False by simp_all
  then have "?n div 64 = 2 \<or> ?n div 64 = 3" by linarith
  then have d: "code_point (char_of (192 + ?n div 64)) = 192 + ?n div 64"
    "code_point (char_of (128 + ?n mod 64)) = 128 + ?n mod 64"
    by (auto simp: code_point_char_of)
  have "?n mod 64 < 64" by simp
  moreover have "(192 + ?n div 64 - 192) * 64 + (128 + ?n mod 64 - 128) = ?n" by simp
  moreover have "char_of ?n = c" by (simp add: code_point_def)
  ultimately show ?thesis using n d \<open>?n div 64 = 2 \<or> ?n div 64 = 3\<close>
    by (auto simp: utf8_char_def Let_def)
qed

lemma utf8_decode_utf8: "utf8_decode (utf8 s) = Some s"
  by (induction s) (simp_all add: utf8_def utf8_decode_char)

lemma read_after_write:
  assumes "write_text p s fs = Inr fs'"
  shows "read_text fs' p = Inr (universal_newlines s)"
  using assms by (auto simp: write_text_def read_text_def utf8_decode_utf8 split: if_splits)

lemma universal_newlines_id: "CHR 0x0D \<notin> set s \<Longrightarrow> universal_newlines s = s"
  by (induction s rule: universal_newlines.induct) auto

lemma universal_newlines_no_cr: "CHR 0x0D \<notin> set (universal_newlines s)"
  by (induction s rule: universal_newlines.induct) auto

lemma universal_newlines_idem [simp]: "universal_newlines (universal_newlines s) = universal_newlines s"
  by (rule universal_newlines_id) (rule universal_newlines_no_cr)

end
