(* ===== verification/Patches.thy ===== *)
theory Patches
  imports ToolRequests JsonEncoding
begin

text \<open>
  The patch model of \<open>tools/patch.py\<close>: a file change with its complete text before and after, the
  diff that groups changes, validation findings, and the JSON round trip. SHA-256 of a text is
  \<open>H\<close> of its UTF-8 bytes.
\<close>

section \<open>Normal forms\<close>

definition patch_token :: "string \<Rightarrow> string \<Rightarrow> string res" where
  "patch_token label s =
     (let cleaned = replace_char CHR '' '' CHR ''-'' (lower (strip s)) in
      if cleaned = [] then Inl (ValueError (label @ '' must not be empty.'')) else Inr cleaned)"

definition patch_text :: "string \<Rightarrow> string \<Rightarrow> string res" where
  "patch_text label s =
     (if strip s = [] then Inl (ValueError (label @ '' must not be empty.'')) else Inr (strip s))"

text \<open>\<open>_normalize_relative_path\<close>: the parts are stripped one by one, so a part may be new to the test.\<close>

definition kept_parts :: "string \<Rightarrow> string list" where
  "kept_parts s = filter (\<lambda>w. w \<noteq> [] \<and> w \<noteq> ''.'') (map strip (split_on CHR ''/'' s))"

definition patch_relative_path :: "string \<Rightarrow> string res" where
  "patch_relative_path s =
     (let cleaned = replace_char CHR 0x5C CHR ''/'' (strip s) in
      if cleaned = [] then Inl (ValueError ''Patch path must not be empty.'')
      else if hd cleaned = CHR ''/'' \<or> hd cleaned = CHR ''~''
      then Inl (ValueError ''Patch path must be relative.'')
      else if ''..'' \<in> set (kept_parts cleaned)
      then Inl (ValueError ''Patch path must not contain traversal.'')
      else if kept_parts cleaned = []
      then Inl (ValueError ''Patch path must not resolve to the workspace root.'')
      else Inr (join ''/'' (kept_parts cleaned)))"

definition optional_patch_path :: "string option \<Rightarrow> string option res" where
  "optional_patch_path v =
     (case v of None \<Rightarrow> Inr None | Some s \<Rightarrow> res_bind (patch_relative_path s) (\<lambda>p. Inr (Some p)))"

definition sha256_text :: "(string \<Rightarrow> string) \<Rightarrow> string \<Rightarrow> string" where
  "sha256_text H s = H (utf8 s)"

section \<open>Findings\<close>

datatype patch_severity = PATCH_INFO | PATCH_WARNING | PATCH_ERROR

fun patch_severity_value :: "patch_severity \<Rightarrow> string" where
  "patch_severity_value PATCH_INFO = ''info''"
| "patch_severity_value PATCH_WARNING = ''warning''"
| "patch_severity_value PATCH_ERROR = ''error''"

record patch_finding =
  finding_code :: string
  finding_severity :: patch_severity
  finding_summary :: string
  finding_path :: "string option"
  finding_metadata :: "json dict"

definition patch_finding_init :: "patch_finding \<Rightarrow> patch_finding res" where
  "patch_finding_init f =
     res_bind (patch_token ''code'' (finding_code f)) (\<lambda>c.
     res_bind (patch_text ''summary'' (finding_summary f)) (\<lambda>s.
     res_bind (optional_patch_path (finding_path f)) (\<lambda>p.
     Inr (f\<lparr>finding_code := c, finding_summary := s, finding_path := p\<rparr>))))"

definition error_count :: "patch_finding list \<Rightarrow> nat" where
  "error_count fs = length (filter (\<lambda>f. finding_severity f = PATCH_ERROR) fs)"

definition warning_count :: "patch_finding list \<Rightarrow> nat" where
  "warning_count fs = length (filter (\<lambda>f. finding_severity f = PATCH_WARNING) fs)"

definition report_is_valid :: "patch_finding list \<Rightarrow> bool" where
  "report_is_valid fs = (error_count fs = 0)"

section \<open>File changes\<close>

datatype patch_kind = PATCH_ADD | PATCH_MODIFY | PATCH_DELETE

fun patch_kind_value :: "patch_kind \<Rightarrow> string" where
  "patch_kind_value PATCH_ADD = ''add''"
| "patch_kind_value PATCH_MODIFY = ''modify''"
| "patch_kind_value PATCH_DELETE = ''delete''"

definition patch_kind_of :: "string \<Rightarrow> patch_kind res" where
  "patch_kind_of s = enum_member patch_kind_value [PATCH_ADD, PATCH_MODIFY, PATCH_DELETE] ''PatchFileChangeKind'' s"

record patch_change =
  change_path :: string
  change_kind :: patch_kind
  before_text :: "string option"
  after_text :: "string option"
  before_sha256 :: "string option"
  after_sha256 :: "string option"
  change_metadata :: "json dict"

definition validate_text_contract :: "patch_change \<Rightarrow> unit res" where
  "validate_text_contract c =
     (case change_kind c of
        PATCH_ADD \<Rightarrow>
          if before_text c \<noteq> None then Inl (ValueError ''ADD changes must not include before_text.'')
          else if after_text c = None then Inl (ValueError ''ADD changes must include after_text.'')
          else Inr ()
      | PATCH_MODIFY \<Rightarrow>
          if before_text c = None then Inl (ValueError ''MODIFY changes must include before_text.'')
          else if after_text c = None then Inl (ValueError ''MODIFY changes must include after_text.'')
          else Inr ()
      | PATCH_DELETE \<Rightarrow>
          if before_text c = None then Inl (ValueError ''DELETE changes must include before_text.'')
          else if after_text c \<noteq> None then Inl (ValueError ''DELETE changes must not include after_text.'')
          else Inr ())"

definition patch_change_init :: "(string \<Rightarrow> string) \<Rightarrow> patch_change \<Rightarrow> patch_change res" where
  "patch_change_init H c =
     res_bind (patch_relative_path (change_path c)) (\<lambda>p.
     let b = map_option (sha256_text H) (before_text c);
         a = map_option (sha256_text H) (after_text c)
     in if before_sha256 c \<noteq> None \<and> before_sha256 c \<noteq> b
        then Inl (ValueError (''before_sha256 does not match before_text for path '' @ p))
        else if after_sha256 c \<noteq> None \<and> after_sha256 c \<noteq> a
        then Inl (ValueError (''after_sha256 does not match after_text for path '' @ p))
        else
          let c' = c\<lparr>change_path := p, before_sha256 := b, after_sha256 := a\<rparr> in
          res_bind (validate_text_contract c') (\<lambda>_. Inr c'))"

definition patch_add :: "(string \<Rightarrow> string) \<Rightarrow> string \<Rightarrow> string \<Rightarrow> json dict \<Rightarrow> patch_change res" where
  "patch_add H path after metadata = patch_change_init H
     \<lparr>change_path = path, change_kind = PATCH_ADD, before_text = None, after_text = Some after,
      before_sha256 = None, after_sha256 = None, change_metadata = metadata\<rparr>"

definition patch_modify ::
  "(string \<Rightarrow> string) \<Rightarrow> string \<Rightarrow> string \<Rightarrow> string \<Rightarrow> json dict \<Rightarrow> patch_change res" where
  "patch_modify H path before after metadata = patch_change_init H
     \<lparr>change_path = path, change_kind = PATCH_MODIFY, before_text = Some before, after_text = Some after,
      before_sha256 = None, after_sha256 = None, change_metadata = metadata\<rparr>"

definition patch_delete :: "(string \<Rightarrow> string) \<Rightarrow> string \<Rightarrow> string \<Rightarrow> json dict \<Rightarrow> patch_change res" where
  "patch_delete H path before metadata = patch_change_init H
     \<lparr>change_path = path, change_kind = PATCH_DELETE, before_text = Some before, after_text = None,
      before_sha256 = None, after_sha256 = None, change_metadata = metadata\<rparr>"

text \<open>\<open>len(text.splitlines())\<close>\<close>

definition is_line_break :: "char \<Rightarrow> bool" where
  "is_line_break c = (let n = code_point c in (10 \<le> n \<and> n \<le> 13) \<or> (28 \<le> n \<and> n \<le> 30) \<or> n = 133)"

fun count_lines :: "string \<Rightarrow> nat" where
  "count_lines [] = 0"
| "count_lines [c] = 1"
| "count_lines (c # d # s) =
     (if c = CHR 0x0D \<and> d = CHR 0x0A then Suc (count_lines s)
      else if is_line_break c then Suc (count_lines (d # s))
      else count_lines (d # s))"

definition option_text :: "string option \<Rightarrow> string" where
  "option_text v = (case v of None \<Rightarrow> [] | Some s \<Rightarrow> s)"

definition line_delta :: "patch_change \<Rightarrow> int" where
  "line_delta c = int (count_lines (option_text (after_text c))) - int (count_lines (option_text (before_text c)))"

definition is_noop :: "patch_change \<Rightarrow> bool" where
  "is_noop c = (before_text c = after_text c)"

definition finding_if ::
  "bool \<Rightarrow> string \<Rightarrow> patch_severity \<Rightarrow> string \<Rightarrow> string option \<Rightarrow> json dict \<Rightarrow> patch_finding list res" where
  "finding_if b code severity summary path metadata =
     (if b then res_bind (patch_finding_init \<lparr>finding_code = code, finding_severity = severity,
          finding_summary = summary, finding_path = path, finding_metadata = metadata\<rparr>) (\<lambda>f. Inr [f])
      else Inr [])"

definition validate_change :: "patch_change \<Rightarrow> patch_finding list res" where
  "validate_change c =
     (let path = Some (change_path c) in
      res_bind (finding_if (is_noop c) ''patch.noop_change'' PATCH_WARNING
        ''Patch file change does not alter file content.'' path []) (\<lambda>f1.
      res_bind (finding_if (list_ex (starts_with (change_path c)) [''.git/'', ''.env'', ''.ssh/''])
        ''patch.sensitive_path'' PATCH_ERROR
        ''Patch targets a sensitive or repository-control path.'' path []) (\<lambda>f2.
      res_bind (finding_if (change_kind c = PATCH_ADD \<and> after_text c = Some [])
        ''patch.empty_added_file'' PATCH_WARNING ''Patch adds an empty file.'' path []) (\<lambda>f3.
      res_bind (finding_if (change_kind c = PATCH_DELETE) ''patch.delete_requires_review'' PATCH_WARNING
        ''Patch deletes a file and should receive operator review.'' path []) (\<lambda>f4.
      Inr (f1 @ f2 @ f3 @ f4))))))"

definition change_dict :: "patch_change \<Rightarrow> json dict" where
  "change_dict c =
     [(''path'', JStr (change_path c)), (''change_kind'', JStr (patch_kind_value (change_kind c))),
      (''before_text'', json_opt (before_text c)), (''after_text'', json_opt (after_text c)),
      (''before_sha256'', json_opt (before_sha256 c)), (''after_sha256'', json_opt (after_sha256 c)),
      (''line_delta'', JInt (line_delta c)), (''metadata'', JObj (change_metadata c))]"

text \<open>\<open>_require_text\<close>, \<open>_optional_text_from_payload\<close> and \<open>_coerce_mapping\<close> on a payload.\<close>

definition payload_text :: "json dict \<Rightarrow> string \<Rightarrow> string res" where
  "payload_text d k = (case dict_get d k of
     Some (JStr s) \<Rightarrow> Inr s
   | _ \<Rightarrow> Inl (TypeError (''Field '' @ k @ '' must be a string.'')))"

definition payload_optional_text :: "json dict \<Rightarrow> string \<Rightarrow> string option res" where
  "payload_optional_text d k = (case dict_get d k of
     None \<Rightarrow> Inr None
   | Some JNull \<Rightarrow> Inr None
   | Some (JStr s) \<Rightarrow> Inr (Some s)
   | _ \<Rightarrow> Inl (TypeError (''Field '' @ k @ '' must be a string or None.'')))"

definition payload_mapping :: "json dict \<Rightarrow> string \<Rightarrow> json dict res" where
  "payload_mapping d k = (case dict_get d k of
     None \<Rightarrow> Inr []
   | Some (JObj m) \<Rightarrow> Inr m
   | _ \<Rightarrow> Inl (TypeError (k @ '' must be a mapping.'')))"

definition change_from_dict :: "(string \<Rightarrow> string) \<Rightarrow> json dict \<Rightarrow> patch_change res" where
  "change_from_dict H d =
     res_bind (payload_text d ''path'') (\<lambda>p.
     res_bind (payload_text d ''change_kind'') (\<lambda>k.
     res_bind (patch_kind_of k) (\<lambda>kind.
     res_bind (payload_optional_text d ''before_text'') (\<lambda>b.
     res_bind (payload_optional_text d ''after_text'') (\<lambda>a.
     res_bind (payload_optional_text d ''before_sha256'') (\<lambda>bs.
     res_bind (payload_optional_text d ''after_sha256'') (\<lambda>as.
     res_bind (payload_mapping d ''metadata'') (\<lambda>m.
     patch_change_init H \<lparr>change_path = p, change_kind = kind, before_text = b, after_text = a,
       before_sha256 = bs, after_sha256 = as, change_metadata = m\<rparr>))))))))"

section \<open>Diffs\<close>

record patch_diff =
  patch_id :: string
  patch_summary :: string
  file_changes :: "patch_change list"
  patch_created_by :: string
  patch_metadata :: "json dict"

definition patch_diff_init :: "patch_diff \<Rightarrow> patch_diff res" where
  "patch_diff_init d =
     res_bind (patch_token ''patch_id'' (patch_id d)) (\<lambda>pid.
     res_bind (patch_text ''summary'' (patch_summary d)) (\<lambda>s.
     res_bind (patch_token ''created_by'' (patch_created_by d)) (\<lambda>by.
     if file_changes d = [] then Inl (ValueError ''PatchDiff must contain at least one file change.'')
     else if \<not> distinct (map change_path (file_changes d))
     then Inl (ValueError ''PatchDiff cannot contain multiple changes for the same path.'')
     else Inr (d\<lparr>patch_id := pid, patch_summary := s, patch_created_by := by\<rparr>))))"

definition changed_paths :: "patch_diff \<Rightarrow> string list" where
  "changed_paths d = map change_path (file_changes d)"

definition total_line_delta :: "patch_diff \<Rightarrow> int" where
  "total_line_delta d = sum_list (map line_delta (file_changes d))"

definition total_size_delta :: "patch_diff \<Rightarrow> int" where
  "total_size_delta d = sum_list (map (\<lambda>c. int (length (option_text (after_text c)))
     - int (length (option_text (before_text c)))) (file_changes d))"

definition patch_digest :: "(string \<Rightarrow> string) \<Rightarrow> patch_diff \<Rightarrow> string res" where
  "patch_digest H d = plain_digest H (JObj
     [(''patch_id'', JStr (patch_id d)), (''summary'', JStr (patch_summary d)),
      (''created_by'', JStr (patch_created_by d)),
      (''file_changes'', JList (map (\<lambda>c. JObj (change_dict c)) (file_changes d))),
      (''metadata'', JObj (patch_metadata d))])"

definition validate_diff :: "patch_diff \<Rightarrow> patch_finding list res" where
  "validate_diff d =
     res_bind (res_map validate_change (file_changes d)) (\<lambda>fss.
     let deletions = length (filter (\<lambda>c. change_kind c = PATCH_DELETE) (file_changes d));
         count = length (file_changes d) in
     res_bind (finding_if (deletions \<noteq> 0) ''patch.contains_deletions'' PATCH_WARNING
       ''Patch contains file deletions.'' None [(''delete_count'', JInt (int deletions))]) (\<lambda>f1.
     res_bind (finding_if (25 < count) ''patch.large_file_count'' PATCH_WARNING
       ''Patch changes more than 25 files.'' None [(''file_count'', JInt (int count))]) (\<lambda>f2.
     Inr (concat fss @ f1 @ f2))))"

definition finding_dict :: "patch_finding \<Rightarrow> json" where
  "finding_dict f = JObj
     [(''code'', JStr (finding_code f)), (''severity'', JStr (patch_severity_value (finding_severity f))),
      (''summary'', JStr (finding_summary f)), (''path'', json_opt (finding_path f)),
      (''metadata'', JObj (finding_metadata f))]"

definition patch_report_dict :: "patch_finding list \<Rightarrow> json" where
  "patch_report_dict fs = JObj
     [(''is_valid'', JBool (report_is_valid fs)), (''finding_count'', JInt (int (length fs))),
      (''error_count'', JInt (int (error_count fs))), (''warning_count'', JInt (int (warning_count fs))),
      (''findings'', JList (map finding_dict fs))]"

definition diff_dict :: "(string \<Rightarrow> string) \<Rightarrow> patch_diff \<Rightarrow> json dict res" where
  "diff_dict H d =
     res_bind (patch_digest H d) (\<lambda>dg.
     res_bind (validate_diff d) (\<lambda>fs.
     Inr [(''patch_id'', JStr (patch_id d)), (''summary'', JStr (patch_summary d)),
          (''created_by'', JStr (patch_created_by d)),
          (''file_count'', JInt (int (length (file_changes d)))),
          (''changed_paths'', json_strs (changed_paths d)),
          (''total_line_delta'', JInt (total_line_delta d)),
          (''total_size_delta'', JInt (total_size_delta d)), (''digest'', JStr dg),
          (''validation'', patch_report_dict fs),
          (''file_changes'', JList (map (\<lambda>c. JObj (change_dict c)) (file_changes d))),
          (''metadata'', JObj (patch_metadata d))]))"

text \<open>
  \<open>from_dict\<close>: \<open>file_changes\<close> may be any iterable but a text. Of the JSON values those are lists
  and objects, and iterating an object yields its keys, which are no mappings.
\<close>

definition payload_changes :: "json dict \<Rightarrow> json list res" where
  "payload_changes d = (case dict_get d ''file_changes'' of
     None \<Rightarrow> Inr []
   | Some (JList xs) \<Rightarrow> Inr xs
   | Some (JObj m) \<Rightarrow> Inr (map (\<lambda>kv. JStr (fst kv)) m)
   | _ \<Rightarrow> Inl (TypeError ''file_changes must be an iterable of mappings.''))"

definition diff_from_dict :: "(string \<Rightarrow> string) \<Rightarrow> py_runtime \<Rightarrow> json dict \<Rightarrow> patch_diff res" where
  "diff_from_dict H rt d =
     res_bind (payload_changes d) (\<lambda>raw.
     res_bind (res_map (\<lambda>v. case json_obj v of
         None \<Rightarrow> Inl (TypeError ''file_changes must contain only mappings.'')
       | Some m \<Rightarrow> change_from_dict H m) raw) (\<lambda>cs.
     res_bind (payload_text d ''patch_id'') (\<lambda>pid.
     res_bind (payload_text d ''summary'') (\<lambda>s.
     let by = py_str rt (dict_get_or d ''created_by'' (JStr ''blackfox'')) in
     res_bind (payload_mapping d ''metadata'') (\<lambda>m.
     patch_diff_init \<lparr>patch_id = pid, patch_summary = s, file_changes = cs, patch_created_by = by,
       patch_metadata = m\<rparr>)))))"

section \<open>Round trips\<close>

lemma kept_parts_mem:
  assumes "w \<in> set (kept_parts s)"
  shows "w \<noteq> []" "w \<noteq> ''.''" "strip w = w" "CHR ''/'' \<notin> set w" "set w \<subseteq> set s"
proof -
  from assms obtain v where v: "v \<in> set (split_on CHR ''/'' s)" "w = strip v" "w \<noteq> []" "w \<noteq> ''.''"
    by (auto simp: kept_parts_def)
  have "set w \<subseteq> set v" using v(2) set_strip_by [of is_space v] by (simp add: strip_def)
  with v show "w \<noteq> []" "w \<noteq> ''.''" "strip w = w" "CHR ''/'' \<notin> set w" "set w \<subseteq> set s"
    using split_on_no_sep [OF v(1)] split_on_chars [OF v(1)] by auto
qed

lemma strip_fixed_ends:
  assumes "strip w = w" "w \<noteq> []"
  shows "\<not> is_space (hd w)" "\<not> is_space (last w)"
  using trimmed_strip_by [of is_space w] assms by (auto simp: strip_def trimmed_by_def)

lemma kept_parts_join:
  assumes ps: "ps = kept_parts s" "ps \<noteq> []"
  shows "kept_parts (join ''/'' ps) = ps" "strip (join ''/'' ps) = join ''/'' ps"
    "hd (join ''/'' ps) \<noteq> CHR ''/''" "join ''/'' ps \<noteq> []"
proof -
  have mem: "w \<noteq> []" "w \<noteq> ''.''" "strip w = w" "CHR ''/'' \<notin> set w" if "w \<in> set ps" for w
    using that kept_parts_mem unfolding ps(1) by blast+
  have "split_on CHR ''/'' (join ''/'' ps) = ps"
    by (rule split_on_join) (use ps(2) mem in auto)
  moreover have "map strip ps = ps" using mem(3) by (simp add: map_idI)
  moreover have "filter (\<lambda>w. w \<noteq> [] \<and> w \<noteq> ''.'') ps = ps" using mem(1,2) by (simp add: filter_id_conv)
  ultimately show "kept_parts (join ''/'' ps) = ps" by (simp add: kept_parts_def)
  have h: "hd ps \<in> set ps" and l: "last ps \<in> set ps" using ps(2) by simp_all
  show ne: "join ''/'' ps \<noteq> []" using ps(2) mem(1) by (subst join_eq_Nil) auto
  have hd: "hd (join ''/'' ps) = hd (hd ps)" and last: "last (join ''/'' ps) = last (last ps)"
    using ps(2) mem(1) h by (auto intro: hd_join last_join)
  show "hd (join ''/'' ps) \<noteq> CHR ''/''" unfolding hd using mem(1,4) [OF h] by (metis hd_in_set)
  have "trimmed_by is_space (join ''/'' ps)"
    unfolding trimmed_by_def hd last
    using strip_fixed_ends mem(1,3) h l by blast
  then show "strip (join ''/'' ps) = join ''/'' ps" by (simp add: strip_def strip_by_trimmed_id)
qed

text \<open>A normal path is a fixed point unless a tilde has come to stand first.\<close>

lemma patch_relative_path_again:
  assumes "patch_relative_path s = Inr p"
  shows "patch_relative_path p =
    (if hd p = CHR ''~'' then Inl (ValueError ''Patch path must be relative.'') else Inr p)"
proof -
  define cleaned where "cleaned = replace_char CHR 0x5C CHR ''/'' (strip s)"
  define ps where "ps = kept_parts cleaned"
  from assms have p: "p = join ''/'' ps" "ps \<noteq> []" "''..'' \<notin> set ps"
    by (auto simp: patch_relative_path_def Let_def cleaned_def ps_def split: if_splits)
  note j = kept_parts_join [OF ps_def p(2), folded p(1)]
  have "CHR 0x5C \<notin> set cleaned" by (auto simp: cleaned_def replace_char_def)
  then have "CHR 0x5C \<notin> set w" if "w \<in> set ps" for w
    using kept_parts_mem(5) [of w cleaned] that by (auto simp: ps_def)
  then have "CHR 0x5C \<notin> set p" using set_join [of "''/''" ps] unfolding p(1) by auto
  then have "replace_char CHR 0x5C CHR ''/'' p = p" by (auto simp: replace_char_def intro: map_idI)
  then show ?thesis using j p(2,3) p(1) [symmetric] by (simp add: patch_relative_path_def)
qed

lemma patch_relative_path_Inr:
  assumes "patch_relative_path s = Inr p"
  shows "p \<noteq> []" "\<not> path_is_absolute p" "''..'' \<notin> set (path_parts p)" "path_parts p \<noteq> []"
proof -
  define ps where "ps = kept_parts (replace_char CHR 0x5C CHR ''/'' (strip s))"
  from assms have p: "p = join ''/'' ps" "ps \<noteq> []" "''..'' \<notin> set ps"
    by (auto simp: patch_relative_path_def Let_def ps_def split: if_splits)
  note j = kept_parts_join [OF ps_def p(2), folded p(1)]
  have mem: "w \<noteq> []" "w \<noteq> ''.''" "CHR ''/'' \<notin> set w" if "w \<in> set ps" for w
    using that kept_parts_mem unfolding ps_def by blast+
  show "p \<noteq> []" "\<not> path_is_absolute p" using j by (simp_all add: path_is_absolute_def)
  have "split_on CHR ''/'' p = ps" unfolding p(1) by (rule split_on_join) (use p(2) mem in auto)
  moreover have "filter (\<lambda>w. w \<noteq> [] \<and> w \<noteq> ''.'') ps = ps" using mem(1,2) by (simp add: filter_id_conv)
  ultimately have "path_parts p = ps" by (simp add: path_parts_def)
  with p show "''..'' \<notin> set (path_parts p)" "path_parts p \<noteq> []" by simp_all
qed

lemma patch_change_init_Inr:
  assumes "patch_change_init H c = Inr c'"
  shows "patch_relative_path (change_path c) = Inr (change_path c')"
    "before_sha256 c' = map_option (sha256_text H) (before_text c')"
    "after_sha256 c' = map_option (sha256_text H) (after_text c')"
    "validate_text_contract c' = Inr ()"
    "change_kind c' = change_kind c" "before_text c' = before_text c" "after_text c' = after_text c"
    "change_metadata c' = change_metadata c"
  using assms unfolding patch_change_init_def Let_def
  by (auto simp: res_bind_eq_Inr split: if_splits)

lemma patch_change_init_again:
  assumes "patch_change_init H c = Inr c'" and "hd (change_path c') \<noteq> CHR ''~''"
  shows "patch_change_init H c' = Inr c'"
proof -
  note i = patch_change_init_Inr [OF assms(1)]
  have "c'\<lparr>before_sha256 := map_option (sha256_text H) (before_text c'),
      after_sha256 := map_option (sha256_text H) (after_text c')\<rparr> = c'"
    using i(2,3) by (cases c') simp
  moreover have "patch_change_init H c' =
      (let c'' = c'\<lparr>before_sha256 := map_option (sha256_text H) (before_text c'),
         after_sha256 := map_option (sha256_text H) (after_text c')\<rparr>
       in res_bind (validate_text_contract c'') (\<lambda>_. Inr c''))"
    unfolding patch_change_init_def Let_def
    using patch_relative_path_again [OF i(1)] assms(2) i(2,3) by simp
  ultimately show ?thesis unfolding Let_def by (simp only: i(4) res_bind_Inr)
qed

lemma json_opt_cases [simp]:
  "(case json_opt v of JNull \<Rightarrow> Inr None | JStr s \<Rightarrow> Inr (Some s) | _ \<Rightarrow> e) = Inr v"
  by (cases v) (simp_all add: json_opt_def)

lemma payload_optional_json_opt: "dict_get d k = Some (json_opt v) \<Longrightarrow> payload_optional_text d k = Inr v"
  by (cases v) (simp_all add: payload_optional_text_def json_opt_def)

lemma patch_kind_of_value: "patch_kind_of (patch_kind_value k) = Inr k"
  by (cases k) (simp_all add: patch_kind_of_def enum_member_def)

lemma change_from_dict_dict:
  "change_from_dict H (change_dict c) = patch_change_init H c"
proof -
  have g: "dict_get (change_dict c) ''path'' = Some (JStr (change_path c))"
    "dict_get (change_dict c) ''change_kind'' = Some (JStr (patch_kind_value (change_kind c)))"
    "dict_get (change_dict c) ''before_text'' = Some (json_opt (before_text c))"
    "dict_get (change_dict c) ''after_text'' = Some (json_opt (after_text c))"
    "dict_get (change_dict c) ''before_sha256'' = Some (json_opt (before_sha256 c))"
    "dict_get (change_dict c) ''after_sha256'' = Some (json_opt (after_sha256 c))"
    "dict_get (change_dict c) ''metadata'' = Some (JObj (change_metadata c))"
    by (simp_all add: change_dict_def)
  show ?thesis
    unfolding change_from_dict_def payload_text_def payload_mapping_def g
      payload_optional_json_opt [OF g(3)] payload_optional_json_opt [OF g(4)]
      payload_optional_json_opt [OF g(5)] payload_optional_json_opt [OF g(6)]
    by (cases c) (simp add: patch_kind_of_value)
qed

lemma patch_token_again:
  assumes "patch_token label s = Inr t"
  shows "patch_token label t = Inr t"
proof -
  define u where "u = strip s"
  have t: "t = replace_char CHR '' '' CHR ''-'' (lower u)" "t \<noteq> []"
    using assms by (auto simp: patch_token_def Let_def u_def split: if_splits)
  then have u: "u \<noteq> []" by (auto simp: lower_def replace_char_def)
  let ?f = "\<lambda>c. if c = CHR '' '' then CHR ''-'' else c"
  have map: "t = map (\<lambda>c. ?f (lower_char c)) u" by (simp add: t(1) lower_def replace_char_def)
  have "strip u = u" by (simp add: u_def)
  note ends = strip_fixed_ends [OF this u]
  have "\<not> is_space CHR ''-''" by code_simp
  then have plain: "\<not> is_space (?f (lower_char c))" if "\<not> is_space c" for c using that by simp
  have "\<not> is_space (hd t)" "\<not> is_space (last t)"
    unfolding map hd_map [OF u] last_map [OF u] by (rule plain [OF ends(1)], rule plain [OF ends(2)])
  then have "strip t = t" by (simp add: strip_def strip_by_trimmed_id trimmed_by_def)
  moreover have "lower_char CHR ''-'' = CHR ''-''" by code_simp
  then have "lower t = t" unfolding map lower_def map_map by (intro map_cong refl) simp
  moreover have "replace_char CHR '' '' CHR ''-'' t = t" unfolding t(1) by (simp add: replace_char_def)
  ultimately show ?thesis using t(2) by (simp add: patch_token_def)
qed

lemma patch_text_again: "patch_text label s = Inr t \<Longrightarrow> patch_text label t = Inr t"
  by (auto simp: patch_text_def split: if_splits)

lemma patch_diff_init_again:
  assumes "patch_diff_init d = Inr d'"
  shows "patch_diff_init d' = Inr d'"
proof -
  from assms obtain pid s cb where i: "patch_token ''patch_id'' (patch_id d) = Inr pid"
    "patch_text ''summary'' (patch_summary d) = Inr s"
    "patch_token ''created_by'' (patch_created_by d) = Inr cb"
    "file_changes d \<noteq> []" "distinct (map change_path (file_changes d))"
    "d' = d\<lparr>patch_id := pid, patch_summary := s, patch_created_by := cb\<rparr>"
    by (auto simp: patch_diff_init_def res_bind_eq_Inr split: if_splits)
  then show ?thesis
    by (simp add: patch_diff_init_def patch_token_again [OF i(1)] patch_text_again [OF i(2)]
        patch_token_again [OF i(3)])
qed

lemma diff_from_dict_dict:
  assumes "diff_dict H d = Inr j"
    and "\<And>c. c \<in> set (file_changes d) \<Longrightarrow> patch_change_init H c = Inr c"
    and "patch_diff_init d = Inr d"
  shows "diff_from_dict H rt j = Inr d"
proof -
  from assms(1) have g: "dict_get j ''patch_id'' = Some (JStr (patch_id d))"
    "dict_get j ''summary'' = Some (JStr (patch_summary d))"
    "dict_get j ''created_by'' = Some (JStr (patch_created_by d))"
    "dict_get j ''file_changes'' = Some (JList (map (\<lambda>c. JObj (change_dict c)) (file_changes d)))"
    "dict_get j ''metadata'' = Some (JObj (patch_metadata d))"
    by (auto simp: diff_dict_def res_bind_eq_Inr)
  have "res_map (\<lambda>v. case json_obj v of
        None \<Rightarrow> Inl (TypeError ''file_changes must contain only mappings.'')
      | Some m \<Rightarrow> change_from_dict H m) (map (\<lambda>c. JObj (change_dict c)) cs) = Inr cs"
    if "set cs \<subseteq> set (file_changes d)" for cs
    using that by (induction cs) (simp_all add: change_from_dict_dict assms(2))
  from this [OF order_refl] show ?thesis
    unfolding diff_from_dict_def payload_changes_def payload_text_def payload_mapping_def
      dict_get_or_def g
    using assms(3) by (cases d) simp
qed

end
