(* ===== verification/PatchApply.thy ===== *)
theory PatchApply
  imports Workspace Patches
begin

text \<open>
  The governed patch application of \<open>tools/patch_apply.py\<close>: the operations of a patch on the file
  system, one change after the other, dry runs, and the tool around them. The tool is modelled
  without an artifact store; the receipts it records go to the ledger it is given.
\<close>

section \<open>Legacy operations\<close>

record patch_operation =
  operation_kind :: string
  operation_path :: string
  operation_content :: "string option"
  operation_old :: "string option"
  operation_new :: "string option"
  operation_sha256 :: "string option"

text \<open>\<open>int(cleaned, 16)\<close> accepts a sign, the prefix 0x, and single underscores between digits.\<close>

fun hex_digits :: "string \<Rightarrow> bool" where
  "hex_digits [] = False"
| "hex_digits [c] = is_lower_hex c"
| "hex_digits (c # d # s) =
     (is_lower_hex c \<and> (if d = CHR ''_'' then hex_digits s else hex_digits (d # s)))"

definition hex_literal :: "string \<Rightarrow> bool" where
  "hex_literal s =
     (let t = strip s;
          u = (case t of c # r \<Rightarrow> if c = CHR ''+'' \<or> c = CHR ''-'' then r else t | [] \<Rightarrow> t);
          v = (case u of c # d # r \<Rightarrow> if c = CHR ''0'' \<and> d = CHR ''x''
                 then (case r of e # r' \<Rightarrow> if e = CHR ''_'' then r' else r | [] \<Rightarrow> r) else u
               | _ \<Rightarrow> u)
      in hex_digits v)"

definition normalize_optional_sha256 :: "string option \<Rightarrow> string option res" where
  "normalize_optional_sha256 v =
     (case v of
        None \<Rightarrow> Inr None
      | Some s \<Rightarrow>
         (let cleaned = lower (strip s) in
          if cleaned = [] then Inr None
          else if length cleaned \<noteq> 64
          then Inl (ValueError ''expected_sha256 must be a 64-character SHA-256 digest.'')
          else if \<not> hex_literal cleaned
          then Inl (ValueError ''invalid literal for int() with base 16'')
          else Inr (Some cleaned)))"

definition patch_operation_init :: "patch_operation \<Rightarrow> patch_operation res" where
  "patch_operation_init r =
     (let op = replace_char CHR ''-'' CHR ''_'' (lower (strip (operation_kind r))) in
      if op \<notin> {''create_file'', ''replace_file'', ''replace_text'', ''delete_file''}
      then Inl (ValueError ''Unsupported patch operation'')
      else if op \<in> {''create_file'', ''replace_file''} \<and> operation_content r = None
      then Inl (ValueError (op @ '' requires content.''))
      else if op = ''replace_text'' \<and> (operation_old r = None \<or> operation_new r = None)
      then Inl (ValueError ''replace_text requires old_text and new_text.'')
      else if op = ''delete_file''
        \<and> (operation_content r \<noteq> None \<or> operation_old r \<noteq> None \<or> operation_new r \<noteq> None)
      then Inl (ValueError ''delete_file must not include content, old_text, or new_text.'')
      else
       res_bind (patch_relative_path (operation_path r)) (\<lambda>p.
       res_bind (normalize_optional_sha256 (operation_sha256 r)) (\<lambda>sha.
       Inr (r\<lparr>operation_kind := op, operation_path := p, operation_sha256 := sha\<rparr>))))"

definition operation_metadata :: "patch_operation \<Rightarrow> json dict" where
  "operation_metadata r =
     [(''source'', JStr ''patch_apply_operation''), (''expected_sha256'', json_opt (operation_sha256 r))]"

definition to_file_change :: "(string \<Rightarrow> string) \<Rightarrow> patch_operation \<Rightarrow> patch_change res" where
  "to_file_change H r =
     (let meta = operation_metadata r in
      if operation_kind r = ''create_file''
      then patch_add H (operation_path r) (option_text (operation_content r)) meta
      else if operation_kind r = ''replace_file''
      then patch_modify H (operation_path r) (option_text (operation_old r)) (option_text (operation_content r))
             (meta @ [(''before_text_optional'', JBool (operation_old r = None))])
      else if operation_kind r = ''replace_text''
      then patch_modify H (operation_path r) (option_text (operation_old r)) (option_text (operation_new r))
             (meta @ [(''replace_text'', JBool True)])
      else patch_delete H (operation_path r) [] (meta @ [(''before_text_optional'', JBool True)]))"

section \<open>Plans\<close>

record patch_plan =
  plan_patch :: patch_diff
  plan_dry_run :: bool
  plan_metadata :: "json dict"

definition coerce_bool :: "py_runtime \<Rightarrow> json option \<Rightarrow> bool \<Rightarrow> bool" where
  "coerce_bool rt v dflt = (case v of
     None \<Rightarrow> dflt
   | Some JNull \<Rightarrow> dflt
   | Some (JBool b) \<Rightarrow> b
   | Some x \<Rightarrow>
      (let s = lower (strip (py_str rt x)) in
       if s \<in> {''1'', ''true'', ''yes'', ''on''} then True
       else if s \<in> {''0'', ''false'', ''no'', ''off''} then False else dflt))"

definition coerce_optional_mapping :: "json option \<Rightarrow> json dict res" where
  "coerce_optional_mapping v = (case v of
     None \<Rightarrow> Inr []
   | Some JNull \<Rightarrow> Inr []
   | Some (JObj d) \<Rightarrow> Inr d
   | _ \<Rightarrow> Inl (TypeError ''metadata must be a mapping when provided.''))"

definition operation_text :: "json dict \<Rightarrow> string \<Rightarrow> string res" where
  "operation_text d k = (case dict_get d k of
     Some (JStr s) \<Rightarrow> Inr s
   | _ \<Rightarrow> Inl (ValueError (''Patch apply field '' @ k @ '' must be a string.'')))"

definition operation_optional_text :: "json dict \<Rightarrow> string \<Rightarrow> string option res" where
  "operation_optional_text d k = (case dict_get d k of
     None \<Rightarrow> Inr None
   | Some JNull \<Rightarrow> Inr None
   | Some (JStr s) \<Rightarrow> Inr (Some s)
   | _ \<Rightarrow> Inl (ValueError (''Patch apply field '' @ k @ '' must be a string when provided.'')))"

definition operation_from_dict :: "json dict \<Rightarrow> patch_operation res" where
  "operation_from_dict d =
     res_bind (operation_text d ''operation'') (\<lambda>op.
     res_bind (operation_text d ''path'') (\<lambda>p.
     res_bind (operation_optional_text d ''content'') (\<lambda>c.
     res_bind (operation_optional_text d ''old_text'') (\<lambda>old.
     res_bind (operation_optional_text d ''new_text'') (\<lambda>new.
     res_bind (operation_optional_text d ''expected_sha256'') (\<lambda>sha.
     patch_operation_init \<lparr>operation_kind = op, operation_path = p, operation_content = c,
       operation_old = old, operation_new = new, operation_sha256 = sha\<rparr>))))))"

text \<open>The identifier \<open>uuid4\<close> gives a legacy patch is the argument \<open>fresh\<close>.\<close>

definition patch_from_legacy_operations ::
  "(string \<Rightarrow> string) \<Rightarrow> py_runtime \<Rightarrow> string \<Rightarrow> json dict \<Rightarrow> patch_diff res" where
  "patch_from_legacy_operations H rt fresh d =
     res_bind (case dict_get d ''operations'' of
         Some (JList xs) \<Rightarrow> Inr xs
       | Some (JObj m) \<Rightarrow> Inr (map (\<lambda>kv. JStr (fst kv)) m)
       | _ \<Rightarrow> Inl (ValueError ''Patch apply payload operations must be an iterable.'')) (\<lambda>raw.
     res_bind (res_map (\<lambda>v. case json_obj v of
         None \<Rightarrow> Inl (ValueError ''Patch apply operations must all be mapping objects.'')
       | Some m \<Rightarrow> operation_from_dict m) raw) (\<lambda>ops.
     if ops = [] then Inl (ValueError ''Patch apply plan must include at least one operation.'')
     else
       let summary = py_str rt (dict_get_or d ''summary'' (JStr ''Legacy patch apply operations.''));
           created = py_str rt (dict_get_or d ''created_by'' (JStr ''blackfox-patch-apply'')) in
       res_bind (res_map (to_file_change H) ops) (\<lambda>cs.
       res_bind (operation_optional_text d ''plan_id'') (\<lambda>plan.
       patch_diff_init \<lparr>patch_id = ''patch-'' @ fresh, patch_summary = summary, file_changes = cs,
         patch_created_by = created,
         patch_metadata = [(''plan_id'', json_opt plan), (''source'', JStr ''legacy_operations'')]\<rparr>))))"

text \<open>\<open>PatchApplyPlan.from_payload\<close> of a JSON payload, which holds no \<open>PatchDiff\<close> object.\<close>

definition plan_from_payload ::
  "(string \<Rightarrow> string) \<Rightarrow> py_runtime \<Rightarrow> string \<Rightarrow> json dict \<Rightarrow> patch_plan res" where
  "plan_from_payload H rt fresh d =
     (let dry = coerce_bool rt (dict_get d ''dry_run'') False in
      res_bind (coerce_optional_mapping (dict_get d ''metadata'')) (\<lambda>meta.
      case Option.bind (dict_get d ''patch'') json_obj of
        Some m \<Rightarrow> res_bind (diff_from_dict H rt m) (\<lambda>p.
          Inr \<lparr>plan_patch = p, plan_dry_run = dry, plan_metadata = meta\<rparr>)
      | None \<Rightarrow>
          if dict_get d ''operations'' \<noteq> None
          then res_bind (patch_from_legacy_operations H rt fresh d) (\<lambda>p.
            Inr \<lparr>plan_patch = p, plan_dry_run = dry,
                 plan_metadata = merge_metadata [(''source'', JStr ''legacy_operations'')] meta\<rparr>)
          else Inl (ValueError ''PatchApplyTool requires a PatchDiff under argument patch.'')))"

section \<open>One change\<close>

record file_result =
  fr_path :: string
  fr_kind :: patch_kind
  fr_before_sha256 :: "string option"
  fr_after_sha256 :: "string option"
  fr_applied :: bool
  fr_bytes_before :: "int option"
  fr_bytes_after :: "int option"

definition file_result_init :: "file_result \<Rightarrow> file_result res" where
  "file_result_init r = res_bind (patch_relative_path (fr_path r)) (\<lambda>p. Inr (r\<lparr>fr_path := p\<rparr>))"

text \<open>\<open>s.count(pat)\<close>, occurrences that do not overlap, and \<open>s.replace(pat, new, 1)\<close>.\<close>

function count_sub :: "string \<Rightarrow> string \<Rightarrow> nat" where
  "count_sub pat s =
     (if pat = [] then Suc (length s)
      else if s = [] then 0
      else if starts_with s pat then Suc (count_sub pat (drop (length pat) s))
      else count_sub pat (tl s))"
  by pat_completeness auto
termination by (relation "measure (\<lambda>(pat, s). length s)") auto

declare count_sub.simps [simp del]

fun replace_first :: "string \<Rightarrow> string \<Rightarrow> string \<Rightarrow> string" where
  "replace_first pat new [] = (if pat = [] then new else [])"
| "replace_first pat new (c # s) =
     (if starts_with (c # s) pat then new @ drop (length pat) (c # s) else c # replace_first pat new s)"

definition metadata_true :: "patch_change \<Rightarrow> string \<Rightarrow> bool" where
  "metadata_true c k = (dict_get (change_metadata c) k = Some (JBool True))"

text \<open>\<open>_expected_before_sha256\<close>\<close>

definition expected_before_sha256 :: "patch_change \<Rightarrow> string option res" where
  "expected_before_sha256 c =
     (let given = (case dict_get (change_metadata c) ''expected_sha256'' of
          Some (JStr s) \<Rightarrow> if blank s then None else Some s | _ \<Rightarrow> None) in
      if given \<noteq> None then normalize_optional_sha256 given
      else if metadata_true c ''before_text_optional'' \<or> metadata_true c ''replace_text'' then Inr None
      else Inr (before_sha256 c))"

definition check_before_sha256 ::
  "(string \<Rightarrow> string) \<Rightarrow> patch_change \<Rightarrow> string \<Rightarrow> string \<Rightarrow> unit res" where
  "check_before_sha256 H c rel current =
     res_bind (expected_before_sha256 c) (\<lambda>e.
     if e \<noteq> None \<and> e \<noteq> Some (sha256_text H current)
     then Inl (ValueError (''Patch before_sha256 mismatch for '' @ rel)) else Inr ())"

text \<open>
  What \<open>_apply_add\<close>, \<open>_apply_modify\<close> and \<open>_apply_delete\<close> check before they write, as the text the
  file gets, None for a deletion.
\<close>

definition final_text :: "patch_change \<Rightarrow> string \<Rightarrow> string \<Rightarrow> string res" where
  "final_text c rel current =
     (let before = option_text (before_text c); after = option_text (after_text c) in
      if metadata_true c ''replace_text''
      then (if count_sub before current \<noteq> 1
            then Inl (ValueError (''replace_text requires exactly one old_text match for '' @ rel))
            else Inr (replace_first before after current))
      else if \<not> metadata_true c ''before_text_optional'' \<and> current \<noteq> before
      then Inl (ValueError (''Patch before_text mismatch for '' @ rel))
      else Inr after)"

definition apply_add ::
  "(string \<Rightarrow> string) \<Rightarrow> patch_change \<Rightarrow> fs_path \<Rightarrow> string \<Rightarrow> bool \<Rightarrow> (file_system, file_result) st" where
  "apply_add H c p rel dry =
     st_bind (st_get (\<lambda>fs. if fs_exists fs p
       then Inl (ValueError (''Cannot add file that already exists: '' @ rel)) else Inr ())) (\<lambda>_.
     let after = option_text (after_text c); sha = sha256_text H after in
     st_bind (st_check (after_sha256 c = Some sha)
       (ValueError (''Patch after_sha256 mismatch for added file: '' @ rel))) (\<lambda>_.
     st_bind (if dry then st_return ()
       else st_bind (st_step (\<lambda>fs. res_bind (make_dirs [] (butlast p) fs) (\<lambda>fs'. Inr ((), fs')))) (\<lambda>_.
            st_step (\<lambda>fs. res_bind (write_text p after fs) (\<lambda>fs'. Inr ((), fs'))))) (\<lambda>_.
     st_lift (file_result_init \<lparr>fr_path = rel, fr_kind = change_kind c, fr_before_sha256 = None,
       fr_after_sha256 = Some sha, fr_applied = (\<not> dry), fr_bytes_before = None,
       fr_bytes_after = Some (int (length (utf8 after)))\<rparr>))))"

definition check_target :: "string \<Rightarrow> fs_path \<Rightarrow> string \<Rightarrow> file_system \<Rightarrow> string res" where
  "check_target verb p rel fs =
     (if \<not> fs_exists fs p then Inl (ValueError (''Cannot '' @ verb @ '' missing file: '' @ rel))
      else if \<not> fs_is_file fs p then Inl (ValueError (''Cannot '' @ verb @ '' non-file path: '' @ rel))
      else read_text fs p)"

definition apply_modify ::
  "(string \<Rightarrow> string) \<Rightarrow> patch_change \<Rightarrow> fs_path \<Rightarrow> string \<Rightarrow> bool \<Rightarrow> (file_system, file_result) st" where
  "apply_modify H c p rel dry =
     st_bind (st_get (check_target ''modify'' p rel)) (\<lambda>current.
     st_bind (st_lift (check_before_sha256 H c rel current)) (\<lambda>_.
     st_bind (st_lift (final_text c rel current)) (\<lambda>final.
     let sha = sha256_text H final in
     st_bind (st_check (after_sha256 c = Some sha \<or> metadata_true c ''replace_text'')
       (ValueError (''Patch after_sha256 mismatch for modified file: '' @ rel))) (\<lambda>_.
     st_bind (if dry then st_return ()
       else st_step (\<lambda>fs. res_bind (write_text p final fs) (\<lambda>fs'. Inr ((), fs')))) (\<lambda>_.
     st_lift (file_result_init \<lparr>fr_path = rel, fr_kind = change_kind c,
       fr_before_sha256 = Some (sha256_text H current), fr_after_sha256 = Some sha, fr_applied = (\<not> dry),
       fr_bytes_before = Some (int (length (utf8 current))),
       fr_bytes_after = Some (int (length (utf8 final)))\<rparr>))))))"

definition apply_delete ::
  "(string \<Rightarrow> string) \<Rightarrow> patch_change \<Rightarrow> fs_path \<Rightarrow> string \<Rightarrow> bool \<Rightarrow> (file_system, file_result) st" where
  "apply_delete H c p rel dry =
     st_bind (st_get (check_target ''delete'' p rel)) (\<lambda>current.
     st_bind (st_lift (check_before_sha256 H c rel current)) (\<lambda>_.
     let before = option_text (before_text c) in
     st_bind (st_check (metadata_true c ''before_text_optional'' \<or> before = [] \<or> current = before)
       (ValueError (''Patch before_text mismatch for '' @ rel))) (\<lambda>_.
     st_bind (if dry then st_return () else (\<lambda>fs. (Inr (), unlink p fs))) (\<lambda>_.
     st_lift (file_result_init \<lparr>fr_path = rel, fr_kind = change_kind c,
       fr_before_sha256 = Some (sha256_text H current), fr_after_sha256 = None, fr_applied = (\<not> dry),
       fr_bytes_before = Some (int (length (utf8 current))), fr_bytes_after = None\<rparr>)))))"

section \<open>A plan\<close>

definition apply_change ::
  "(string \<Rightarrow> string) \<Rightarrow> nat \<Rightarrow> workspace \<Rightarrow> bool \<Rightarrow> patch_change \<Rightarrow> (file_system, file_result) st" where
  "apply_change H n ws dry c =
     st_bind (st_get (\<lambda>fs. resolve_path n fs ws (change_path c))) (\<lambda>p.
     st_bind (st_get (\<lambda>fs. relative_path n fs ws p)) (\<lambda>rel.
     case change_kind c of
       PATCH_ADD \<Rightarrow> apply_add H c p rel dry
     | PATCH_MODIFY \<Rightarrow> apply_modify H c p rel dry
     | PATCH_DELETE \<Rightarrow> apply_delete H c p rel dry))"

definition apply_changes ::
  "(string \<Rightarrow> string) \<Rightarrow> nat \<Rightarrow> workspace \<Rightarrow> bool \<Rightarrow> patch_change list \<Rightarrow> (file_system, file_result list) st" where
  "apply_changes H n ws dry cs = st_map (apply_change H n ws dry) cs"

record patch_report =
  report_patch_id :: string
  report_applied :: bool
  report_dry_run :: bool
  report_files :: "file_result list"
  report_message :: string
  report_meta :: "json dict"

record patch_tool =
  tool_workspace :: "string list"
  tool_path_policy_of :: "tool_path_policy option"
  require_workspace_marker :: bool
  workspace_marker_name :: string
  link_bound :: nat
  records_receipts :: bool

definition default_patch_path_policy :: tool_path_policy where
  "default_patch_path_policy = \<lparr>allowed_roots = [''.'', ''src'', ''tests'', ''scripts'', ''docs'', ''examples''],
     blocked_roots = [''.git'', ''.env'', ''.ssh'', ''secrets'', ''credentials'', ''dist'', ''build''],
     allow_absolute_paths = False\<rparr>"

definition tool_policy :: "patch_tool \<Rightarrow> tool_path_policy" where
  "tool_policy t = (case tool_path_policy_of t of None \<Rightarrow> default_patch_path_policy | Some p \<Rightarrow> p)"

text \<open>
  \<open>_validated_workspace_root\<close>; the marker's name is a plain file name, and \<open>exists()\<close> and
  \<open>is_file()\<close> follow links.
\<close>

definition marker_present :: "patch_tool \<Rightarrow> file_system \<Rightarrow> fs_path \<Rightarrow> bool" where
  "marker_present t fs root =
     (case walk_path (link_bound t) fs [] (root @ [workspace_marker_name t]) of
        None \<Rightarrow> False
      | Some q \<Rightarrow> fs_is_file fs q)"

definition validated_workspace_root :: "patch_tool \<Rightarrow> file_system \<Rightarrow> fs_path res" where
  "validated_workspace_root t fs =
     res_bind (real_path (link_bound t) fs (tool_workspace t)) (\<lambda>root.
     if \<not> fs_exists fs root then Inl (WorkspaceError ''Workspace root does not exist'')
     else if \<not> fs_is_dir fs root then Inl (WorkspaceError ''Workspace root is not a directory'')
     else if require_workspace_marker t \<and> \<not> marker_present t fs root
     then Inl (WorkspaceError ''Patch application requires a reserved BlackFox workspace marker'')
     else Inr root)"

definition apply_plan ::
  "(string \<Rightarrow> string) \<Rightarrow> patch_tool \<Rightarrow> bool option \<Rightarrow> patch_plan \<Rightarrow> (file_system, patch_report) st" where
  "apply_plan H t override plan =
     (let dry = (case override of None \<Rightarrow> plan_dry_run plan | Some b \<Rightarrow> b);
          patch = plan_patch plan in
      st_bind (st_get (validated_workspace_root t)) (\<lambda>root.
      st_bind (st_get (\<lambda>fs. workspace_init (link_bound t) fs root (tool_policy t))) (\<lambda>ws.
      st_bind (apply_changes H (link_bound t) ws dry (file_changes patch)) (\<lambda>files.
      st_bind (st_lift (patch_digest H patch)) (\<lambda>dg.
      let count = show_nat (length files) in
      st_return \<lparr>report_patch_id = patch_id patch, report_applied = (\<not> dry), report_dry_run = dry,
        report_files = files,
        report_message = (if dry
          then ''Validated '' @ count @ '' patch file change(s) without writing files.''
          else ''Applied '' @ count @ '' patch file change(s).''),
        report_meta = merge_metadata [(''patch_digest'', JStr dg),
          (''patch_summary'', JStr (patch_summary patch))] (plan_metadata plan)\<rparr>)))))"

section \<open>The tool\<close>

definition patch_tool_id :: string where
  "patch_tool_id = ''blackfox.workspace.apply_patch''"

text \<open>\<open>build_patch_apply_manifest\<close>\<close>

definition patch_apply_manifest :: "tool_path_policy option \<Rightarrow> tool_manifest res" where
  "patch_apply_manifest pol = tool_manifest_init
     \<lparr>manifest_tool_id = patch_tool_id, manifest_name = ''Workspace Apply Patch'',
      manifest_version = ''0.1.0'',
      manifest_summary = ''Apply deterministic PatchDiff changes inside a reserved BlackFox workspace.'',
      manifest_capabilities = [PATCH_APPLY, FILE_WRITE],
      manifest_side_effects = [READ_WORKSPACE, WRITE_WORKSPACE],
      manifest_approval_mode = APPROVAL_ALWAYS,
      manifest_input_schema =
        [(''type'', JStr ''object''),
         (''properties'', JObj [(''patch'', JObj [(''type'', JStr ''object'')]),
           (''dry_run'', JObj [(''type'', JStr ''boolean''), (''default'', JBool False)]),
           (''metadata'', JObj [(''type'', JStr ''object'')])]),
         (''required'', json_strs [''patch'']), (''additionalProperties'', JBool True)],
      manifest_output_schema =
        [(''type'', JStr ''object''),
         (''required'', json_strs [''patch_id'', ''applied'', ''dry_run'', ''file_count'', ''changed_paths'',
            ''file_results'', ''message''])],
      default_timeout_micros = Some (60 * 10 ^ 6),
      manifest_path_policy = Some (case pol of None \<Rightarrow> default_patch_path_policy | Some p \<Rightarrow> p),
      manifest_tags = [''workspace'', ''patch'', ''filesystem'', ''approval-required''],
      manifest_metadata = [(''wave'', JStr ''2''), (''tool_family'', JStr ''workspace''),
        (''side_effect_class'', JStr ''workspace-write''), (''requires_reserved_workspace'', JBool True),
        (''deterministic_patch_model'', JStr ''PatchDiff'')]\<rparr>"

definition json_opt_int :: "int option \<Rightarrow> json" where
  "json_opt_int v = (case v of None \<Rightarrow> JNull | Some i \<Rightarrow> JInt i)"

definition file_result_dict :: "file_result \<Rightarrow> json" where
  "file_result_dict r = JObj
     [(''path'', JStr (fr_path r)), (''change_kind'', JStr (patch_kind_value (fr_kind r))),
      (''action'', JStr (patch_kind_value (fr_kind r))),
      (''before_sha256'', json_opt (fr_before_sha256 r)), (''after_sha256'', json_opt (fr_after_sha256 r)),
      (''applied'', JBool (fr_applied r)), (''bytes_before'', json_opt_int (fr_bytes_before r)),
      (''bytes_after'', json_opt_int (fr_bytes_after r)), (''metadata'', JObj [])]"

definition patch_report_json :: "patch_report \<Rightarrow> json dict" where
  "patch_report_json r =
     (let files = JList (map file_result_dict (report_files r)) in
      [(''patch_id'', JStr (report_patch_id r)), (''applied'', JBool (report_applied r)),
       (''dry_run'', JBool (report_dry_run r)), (''file_count'', JInt (int (length (report_files r)))),
       (''changed_paths'', json_strs (map fr_path (report_files r))),
       (''file_results'', files), (''file_changes'', files), (''message'', JStr (report_message r)),
       (''artifact_uri'', JNull), (''metadata'', JObj (report_meta r))])"

text \<open>The file part and the ledger part of the tool's state.\<close>

definition on_files :: "(file_system, 'a) st \<Rightarrow> (file_system tool_world, 'a) st" where
  "on_files m = (\<lambda>(led, fs). case m fs of (r, fs') \<Rightarrow> (r, (led, fs')))"

definition path_text :: "fs_path \<Rightarrow> string" where
  "path_text p = CHR ''/'' # join ''/'' p"

definition patch_failed ::
  "tool_supply \<Rightarrow> tool_request \<Rightarrow> invocation_status \<Rightarrow> tool_failure_kind \<Rightarrow> string \<Rightarrow> tool_result res" where
  "patch_failed supply req status kind message =
     gateway_failed supply req status kind message False [] []"

text \<open>The \<open>except\<close> clauses, in their order.\<close>

definition patch_except :: "tool_supply \<Rightarrow> tool_request \<Rightarrow> py_error \<Rightarrow> tool_result res" where
  "patch_except supply req e =
     (case e of
        PathViolation m \<Rightarrow> patch_failed supply req INVOCATION_BLOCKED PATH_VIOLATION m
      | WorkspaceError m \<Rightarrow> patch_failed supply req INVOCATION_BLOCKED PATH_VIOLATION m
      | _ \<Rightarrow>
         if is_value_error e
         then patch_failed supply req INVOCATION_FAILED INVALID_REQUEST (error_text e)
         else patch_failed supply req INVOCATION_FAILED EXECUTION_ERROR
                (''Governed patch application failed: '' @ error_text e))"

text \<open>The body of the \<open>try\<close>: apply, then build the result, which validates the root once more.\<close>

definition patch_attempt ::
  "(string \<Rightarrow> string) \<Rightarrow> py_runtime \<Rightarrow> tool_supply \<Rightarrow> patch_tool \<Rightarrow> tool_request
    \<Rightarrow> (file_system, tool_result) st" where
  "patch_attempt H rt supply t req =
     st_bind (st_lift (plan_from_payload H rt (fresh_hex supply 4) (tool_arguments req))) (\<lambda>plan.
     st_bind (apply_plan H t None plan) (\<lambda>report.
     st_bind (st_get (validated_workspace_root t)) (\<lambda>root.
     st_lift (tool_result_succeeded req (patch_report_json report) []
       [(''workspace_root'', JStr (path_text root)), (''tool_id'', JStr patch_tool_id),
        (''artifact_uris'', JList [])] (clock_at supply 1) (clock_at supply 2)))))"

definition st_except :: "('s, 'a) st \<Rightarrow> (py_error \<Rightarrow> 'a res) \<Rightarrow> ('s, 'a) st" where
  "st_except m handler = (\<lambda>s. case m s of (Inl e, s') \<Rightarrow> (handler e, s') | (Inr x, s') \<Rightarrow> (Inr x, s'))"

definition record_if ::
  "(string \<Rightarrow> string) \<Rightarrow> tool_supply \<Rightarrow> patch_tool \<Rightarrow> nat \<Rightarrow> receipt_entry \<Rightarrow> ('w tool_world, unit) st" where
  "record_if H supply t i e =
     (if records_receipts t then st_bind (record_receipt H supply i e) (\<lambda>_. st_return ()) else st_return ())"

definition patch_invoke ::
  "(string \<Rightarrow> string) \<Rightarrow> py_runtime \<Rightarrow> tool_supply \<Rightarrow> patch_tool \<Rightarrow> tool_request
    \<Rightarrow> (file_system tool_world, tool_result) st" where
  "patch_invoke H rt supply t req =
     (if request_tool_id req \<noteq> patch_tool_id
      then st_lift (patch_failed supply req INVOCATION_FAILED INVALID_REQUEST
        (''PatchApplyTool expected tool_id '' @ quoted patch_tool_id @ ''; got ''
          @ quoted (request_tool_id req) @ ''.''))
      else if tool_capability req \<noteq> PATCH_APPLY
      then st_lift (patch_failed supply req INVOCATION_FAILED UNSUPPORTED_CAPABILITY
        ''PatchApplyTool only supports PATCH_APPLY capability.'')
      else
       st_bind (record_if H supply t 0 (started_entry req ''tools.patch_apply'' [])) (\<lambda>_.
       st_bind (on_files (st_except (patch_attempt H rt supply t req) (patch_except supply req))) (\<lambda>r.
       st_bind (record_if H supply t 3 (result_entry rt r (Some req) ''tools.patch_apply'' [])) (\<lambda>_.
       st_return r))))"

text \<open>As the gateway sees it: an exception that leaves \<open>invoke\<close> comes with its type's name.\<close>

fun error_name :: "py_error \<Rightarrow> string" where
  "error_name (ValueError _) = ''ValueError''"
| "error_name (TypeError _) = ''TypeError''"
| "error_name (KeyError _) = ''KeyError''"
| "error_name (OSError _) = ''OSError''"
| "error_name _ = ''Exception''"

definition patch_invoker ::
  "(string \<Rightarrow> string) \<Rightarrow> py_runtime \<Rightarrow> tool_supply \<Rightarrow> patch_tool \<Rightarrow> file_system invoker" where
  "patch_invoker H rt supply t req s =
     (case patch_invoke H rt supply t req s of
        (Inl e, s') \<Rightarrow> (Inl (InvokeError (error_name e) (error_text e)), s')
      | (Inr r, s') \<Rightarrow> (Inr r, s'))"

end
