(* ===== verification/PatchSafety.thy ===== *)
theory PatchSafety
  imports PatchApply
begin

text \<open>
  What applying a patch can do to the file system: it writes only inside the workspace and outside
  the blocked roots, it follows no symbolic link and makes none, and a tree stays a tree.
\<close>

section \<open>Links stay as they are\<close>

definition same_links :: "file_system \<Rightarrow> file_system \<Rightarrow> bool" where
  "same_links fs fs' \<longleftrightarrow> (\<forall>p t. fs p = Some (LinkNode t) \<longleftrightarrow> fs' p = Some (LinkNode t))"

lemma same_links_refl [simp]: "same_links fs fs"
  by (simp add: same_links_def)

lemma same_links_trans: "same_links fs fs' \<Longrightarrow> same_links fs' fs'' \<Longrightarrow> same_links fs fs''"
  by (simp add: same_links_def)

lemma walk_path_links:
  "same_links fs fs' \<Longrightarrow> walk_path n fs' d cs = walk_path n fs d cs"
proof (induction n fs d cs rule: walk_path.induct)
  case (2 n fs d c cs)
  show ?case
  proof (cases "\<exists>t. fs (d @ [c]) = Some (LinkNode t)")
    case True
    then obtain t where t: "fs (d @ [c]) = Some (LinkNode t)" by blast
    with "2.prems" have "fs' (d @ [c]) = Some (LinkNode t)" by (simp add: same_links_def)
    with t 2 show ?thesis by (cases "c = ''..''"; cases n) simp_all
  next
    case False
    with "2.prems" have "\<forall>t. fs' (d @ [c]) \<noteq> Some (LinkNode t)" by (simp add: same_links_def)
    with False 2 show ?thesis
      by (cases "c = ''..''") (auto split: option.splits fs_node.splits)
  qed
qed simp

lemma real_path_links: "same_links fs fs' \<Longrightarrow> real_path n fs' cs = real_path n fs cs"
  by (simp add: real_path_def walk_path_links)

lemma resolve_path_links: "same_links fs fs' \<Longrightarrow> resolve_path n fs' ws s = resolve_path n fs ws s"
  using real_path_links [of fs fs'] unfolding resolve_path_def by presburger

lemma relative_path_links: "same_links fs fs' \<Longrightarrow> relative_path n fs' ws p = relative_path n fs ws p"
  using real_path_links [of fs fs'] unfolding relative_path_def by presburger

section \<open>What one change writes\<close>

definition change_effect :: "patch_change \<Rightarrow> fs_path \<Rightarrow> file_system \<Rightarrow> file_system \<Rightarrow> bool" where
  "change_effect c p fs fs' \<longleftrightarrow>
     (case change_kind c of
        PATCH_ADD \<Rightarrow> fs p = None \<and> (\<exists>fs1. make_dirs [] (butlast p) fs = Inr fs1
          \<and> fs_is_dir fs1 (butlast p) \<and> fs' = fs1(p \<mapsto> FileNode (utf8 (option_text (after_text c)))))
      | PATCH_MODIFY \<Rightarrow> fs_is_file fs p \<and> (\<exists>current rel final. read_text fs p = Inr current
          \<and> final_text c rel current = Inr final \<and> fs' = fs(p \<mapsto> FileNode (utf8 final)))
      | PATCH_DELETE \<Rightarrow> fs_is_file fs p \<and> fs' = fs(p := None))"

lemma st_bind_cases:
  assumes "st_bind m f s = (r, s')"
  obtains (raised) e where "m s = (Inl e, s')" "r = Inl e"
  | (went) x s1 where "m s = (Inr x, s1)" "f x s1 = (r, s')"
  using assms by (auto simp: st_bind_def split: prod.splits sum.splits)

lemma st_bind_get_cases:
  assumes "st_bind (st_get g) f s = (r, s')"
  obtains (raised) e where "g s = Inl e" "s' = s" "r = Inl e"
  | (went) x where "g s = Inr x" "f x s = (r, s')"
  using assms by (cases "g s") (auto simp: st_bind_def)

lemma st_bind_lift_cases:
  assumes "st_bind (st_lift v) f s = (r, s')"
  obtains (raised) e where "v = Inl e" "s' = s" "r = Inl e"
  | (went) x where "v = Inr x" "f x s = (r, s')"
  using assms by (cases v) (auto simp: st_bind_def)

lemma st_bind_check_cases:
  assumes "st_bind (st_check b e) f s = (r, s')"
  obtains (raised) "\<not> b" "s' = s" "r = Inl e"
  | (went) "b" "f () s = (r, s')"
  using assms by (auto simp: run_check split: if_splits)

lemma st_step_unit_cases:
  assumes "st_step (\<lambda>s. res_bind (g s) (\<lambda>s1. Inr ((), s1))) s = (r, s')"
  obtains (raised) e where "g s = Inl e" "s' = s" "r = Inl e"
  | (went) "g s = Inr s'" "r = Inr ()"
  using assms by (cases "g s") (auto simp: st_step_def)

lemma make_dirs_parent:
  assumes "make_dirs [] ds fs = Inr fs1" and "ds \<noteq> []"
  shows "fs_is_dir fs1 ds"
proof -
  have "ds \<in> set (steps_down [] ds)" using assms(2) by (auto simp: steps_down_mem)
  then show ?thesis using make_dirs_changed [OF assms(1), of ds] by (simp add: fs_is_dir_def)
qed

lemma make_dirs_not_target:
  assumes "make_dirs [] (butlast p) fs = Inr fs1"
  shows "fs1 p = fs p"
proof -
  have "p \<notin> set (steps_down [] (butlast p))"
  proof
    assume "p \<in> set (steps_down [] (butlast p))"
    then obtain us vs where "butlast p = us @ vs" "us \<noteq> []" "p = us" by (auto simp: steps_down_mem)
    then have "length p \<le> length (butlast p)" "p \<noteq> []" by simp_all
    then show False by (cases p rule: rev_cases) simp_all
  qed
  then show ?thesis using make_dirs_changed [OF assms, of p] by simp
qed

lemma apply_add_effect:
  assumes "apply_add H c p rel False fs = (r, fs')" and "change_kind c = PATCH_ADD"
  shows "fs' = fs \<and> isl r \<or> change_effect c p fs fs'"
  using assms(1) unfolding apply_add_def Let_def
proof (cases rule: st_bind_get_cases)
  case (went x)
  then have free: "fs p = None" by (simp add: fs_exists_def split: if_splits)
  from went(2) show ?thesis
  proof (cases rule: st_bind_check_cases)
    case wrote: went
    let ?after = "option_text (after_text c)"
    from wrote(2) [unfolded if_False] show ?thesis
    proof (cases rule: st_bind_cases)
      case failed: (raised e)
      from failed(1) show ?thesis
      proof (cases rule: st_bind_cases)
        case (went u fs1)
        from went(1) have mk: "make_dirs [] (butlast p) fs = Inr fs1" by (cases rule: st_step_unit_cases) auto
        from went(2) have err: "write_text p ?after fs1 = Inl e" "fs' = fs1"
          by (cases rule: st_step_unit_cases; simp)+
        have "fs1 p = None" using make_dirs_not_target [OF mk] free by simp
        with err(1) have "\<not> fs_is_dir fs1 (butlast p)" by (simp add: write_text_def split: if_splits)
        with make_dirs_parent [OF mk] have "butlast p = []" by blast
        with mk err(2) failed(2) show ?thesis by simp
      qed (use failed(2) in \<open>auto elim: st_step_unit_cases\<close>)
    next
      case (went u fs2)
      from went(2) have fs': "fs' = fs2" by simp
      from went(1) obtain fs1 where mk: "make_dirs [] (butlast p) fs = Inr fs1"
        and wr: "write_text p ?after fs1 = Inr fs2"
        by (auto elim!: st_bind_cases st_step_unit_cases)
      then show ?thesis using free assms(2) fs'
        by (auto simp: change_effect_def write_text_def split: if_splits)
    qed
  qed simp
qed simp

lemma check_target_Inr:
  "check_target verb p rel fs = Inr current \<Longrightarrow> fs_is_file fs p \<and> read_text fs p = Inr current"
  by (simp add: check_target_def split: if_splits)

lemma apply_modify_effect:
  assumes "apply_modify H c p rel False fs = (r, fs')" and "change_kind c = PATCH_MODIFY"
  shows "fs' = fs \<and> isl r \<or> change_effect c p fs fs'"
  using assms(1) unfolding apply_modify_def Let_def
proof (cases rule: st_bind_get_cases)
  case current: (went current)
  from current(2) show ?thesis
  proof (cases rule: st_bind_lift_cases)
    case sha: (went u)
    from sha(2) show ?thesis
    proof (cases rule: st_bind_lift_cases)
      case final: (went final)
      from final(2) show ?thesis
      proof (cases rule: st_bind_check_cases)
        case went
        from went(2) [unfolded if_False] show ?thesis
        proof (cases rule: st_bind_cases)
          case (raised e)
          then show ?thesis by (cases rule: st_step_unit_cases) simp_all
        next
          case (went u fs1)
          from went(2) have fs': "fs' = fs1" by simp
          from went(1) have "write_text p final fs = Inr fs1" by (cases rule: st_step_unit_cases) simp_all
          then have "fs1 = fs(p \<mapsto> FileNode (utf8 final))" by (simp add: write_text_def split: if_splits)
          then show ?thesis
            using check_target_Inr [OF current(1)] final(1) assms(2) fs' by (auto simp: change_effect_def)
        qed
      qed simp
    qed simp
  qed simp
qed simp

lemma apply_delete_effect:
  assumes "apply_delete H c p rel False fs = (r, fs')" and "change_kind c = PATCH_DELETE"
  shows "fs' = fs \<and> isl r \<or> change_effect c p fs fs'"
  using assms(1) unfolding apply_delete_def Let_def
proof (cases rule: st_bind_get_cases)
  case current: (went current)
  from current(2) show ?thesis
  proof (cases rule: st_bind_lift_cases)
    case sha: (went u)
    from sha(2) show ?thesis
    proof (cases rule: st_bind_check_cases)
      case went
      then have "fs' = unlink p fs" by (auto simp: st_bind_def)
      then show ?thesis using check_target_Inr [OF current(1)] assms(2)
        by (simp add: change_effect_def unlink_def)
    qed simp
  qed simp
qed simp

lemma apply_change_effect:
  assumes "apply_change H n ws False c fs = (r, fs')"
  shows "fs' = fs \<and> isl r \<or> (\<exists>p. resolve_path n fs ws (change_path c) = Inr p \<and> change_effect c p fs fs')"
  using assms unfolding apply_change_def
proof (cases rule: st_bind_get_cases)
  case target: (went p)
  from target(2) show ?thesis
  proof (cases rule: st_bind_get_cases)
    case (went rel)
    from went(2) have "fs' = fs \<and> isl r \<or> change_effect c p fs fs'"
      by (cases "change_kind c")
        (auto dest: apply_add_effect apply_modify_effect apply_delete_effect)
    with target(1) show ?thesis by blast
  qed simp
qed simp

text \<open>A dry run reads and changes nothing.\<close>

lemma apply_dry_same: "snd (apply_change H n ws True c fs) = fs"
proof -
  have *: "st_keeps (\<lambda>s s'. s' = s) (apply_change H n ws True c)"
    unfolding apply_change_def apply_add_def apply_modify_def apply_delete_def Let_def if_True
    by (intro keeps_intro; (cases "change_kind c")?)
      (simp_all add: reflp_def transp_def keeps_intro)
  then show ?thesis by (simp add: st_keeps_def)
qed

section \<open>Inside the workspace\<close>

text \<open>A tree: whatever exists hangs in a directory.\<close>

definition is_tree :: "file_system \<Rightarrow> bool" where
  "is_tree fs \<longleftrightarrow> (\<forall>p c. fs (p @ [c]) \<noteq> None \<longrightarrow> fs p = Some DirNode)"

lemma is_treeD: "is_tree fs \<Longrightarrow> fs (p @ [c]) = Some nd \<Longrightarrow> fs p = Some DirNode"
  unfolding is_tree_def by blast

lemma is_file_not_dir: "fs_is_file fs p \<Longrightarrow> fs p \<noteq> Some DirNode"
  by (auto simp: fs_is_file_def)

lemma tree_above: "is_tree fs \<Longrightarrow> fs (p @ q) \<noteq> None \<Longrightarrow> q \<noteq> [] \<Longrightarrow> fs p = Some DirNode"
proof (induction q rule: rev_induct)
  case (snoc c q)
  then have "fs (p @ q) = Some DirNode" using is_tree_def [of fs] by (metis append.assoc)
  with snoc show ?case by (cases "q = []") auto
qed simp

lemma tree_below: "is_tree fs \<Longrightarrow> fs p = None \<or> fs_is_file fs p \<Longrightarrow> q \<noteq> [] \<Longrightarrow> fs (p @ q) = None"
  using tree_above [of fs p q] is_file_not_dir [of fs p] by (cases "fs (p @ q)") auto

lemma tree_put:
  assumes "is_tree fs" "fs (butlast p) = Some DirNode" "p \<noteq> []" "fs p = None \<or> fs_is_file fs p"
  shows "is_tree (fs(p \<mapsto> nd))"
  unfolding is_tree_def
proof (intro allI impI)
  fix q c
  assume some: "(fs(p \<mapsto> nd)) (q @ [c]) \<noteq> None"
  show "(fs(p \<mapsto> nd)) q = Some DirNode"
  proof (cases "q @ [c] = p")
    case True
    then show ?thesis using assms by auto
  next
    case False
    with some have other: "fs (q @ [c]) \<noteq> None" by simp
    then have "q \<noteq> p" using tree_below [OF assms(1,4), of "[c]"] by auto
    with other show ?thesis using is_treeD [OF assms(1), of q c] by auto
  qed
qed

lemma tree_drop:
  assumes "is_tree fs" "fs_is_file fs p"
  shows "is_tree (fs(p := None))"
  unfolding is_tree_def
proof (intro allI impI)
  fix q c
  assume "(fs(p := None)) (q @ [c]) \<noteq> None"
  then obtain nd where "fs (q @ [c]) = Some nd" by (auto split: if_splits)
  then have "fs q = Some DirNode" by (rule is_treeD [OF assms(1)])
  then show "(fs(p := None)) q = Some DirNode" using is_file_not_dir [OF assms(2)] by auto
qed

lemma tree_make_dirs:
  assumes mk: "make_dirs [] ds fs = Inr fs1" and tree: "is_tree fs" and top: "fs [] = Some DirNode"
  shows "is_tree fs1"
  unfolding is_tree_def
proof (intro allI impI)
  fix q c
  assume some: "fs1 (q @ [c]) \<noteq> None"
  show "fs1 q = Some DirNode"
  proof (cases "q @ [c] \<in> set (steps_down [] ds)")
    case True
    then obtain vs where vs: "ds = (q @ [c]) @ vs" by (auto simp: steps_down_mem)
    then have "ds = q @ (c # vs)" by simp
    then have "q = [] \<or> q \<in> set (steps_down [] ds)" unfolding steps_down_mem by auto
    with top show ?thesis using make_dirs_changed [OF mk, of q] by auto
  next
    case False
    with some have "fs (q @ [c]) \<noteq> None" using make_dirs_changed [OF mk, of "q @ [c]"] by simp
    with tree have "fs q = Some DirNode" unfolding is_tree_def by blast
    then show ?thesis using make_dirs_changed [OF mk, of q] by simp
  qed
qed

text \<open>The paths the tool may write below a workspace, and what it keeps.\<close>

definition writable :: "workspace \<Rightarrow> fs_path set" where
  "writable ws = {workspace_root ws @ rel | rel. rel \<noteq> [] \<and> \<not> matches_blocked_root (path_policy ws) rel}"

definition sound_root :: "workspace \<Rightarrow> file_system \<Rightarrow> bool" where
  "sound_root ws fs \<longleftrightarrow> is_tree fs \<and> fs (workspace_root ws) = Some DirNode"

definition contained :: "workspace \<Rightarrow> file_system \<Rightarrow> file_system \<Rightarrow> bool" where
  "contained ws fs fs' \<longleftrightarrow> (sound_root ws fs \<longrightarrow>
     is_tree fs' \<and> same_links fs fs' \<and> changed fs fs' \<subseteq> writable ws)"

lemma root_not_writable: "workspace_root ws \<notin> writable ws"
  by (simp add: writable_def)

lemma contained_sound: "contained ws fs fs' \<Longrightarrow> sound_root ws fs \<Longrightarrow> sound_root ws fs'"
  using root_not_writable [of ws] unfolding contained_def sound_root_def changed_def
  by (metis (mono_tags, lifting) mem_Collect_eq subsetD)

lemma contained_reflp: "reflp (contained ws)"
  by (simp add: reflp_def contained_def sound_root_def)

lemma contained_transp: "transp (contained ws)"
  unfolding transp_def
proof (intro allI impI)
  fix fs fs' fs''
  assume a: "contained ws fs fs'" and b: "contained ws fs' fs''"
  show "contained ws fs fs''"
    unfolding contained_def
  proof
    assume s: "sound_root ws fs"
    then have "is_tree fs'' \<and> same_links fs' fs'' \<and> changed fs' fs'' \<subseteq> writable ws"
      using a b contained_sound contained_def by blast
    moreover have "same_links fs fs' \<and> changed fs fs' \<subseteq> writable ws"
      using a s contained_def by blast
    ultimately show "is_tree fs'' \<and> same_links fs fs'' \<and> changed fs fs'' \<subseteq> writable ws"
      using same_links_trans [of fs fs' fs''] changed_trans [of fs fs'' fs'] by blast
  qed
qed

lemma same_links_put: "fs p = None \<or> fs_is_file fs p \<Longrightarrow> \<forall>t. v \<noteq> Some (LinkNode t) \<Longrightarrow> same_links fs (fs(p := v))"
  by (auto simp: same_links_def fs_is_file_def)

lemma make_dirs_links: "make_dirs [] ds fs = Inr fs1 \<Longrightarrow> same_links fs fs1"
  using make_dirs_succeeds [of "[]" ds fs] make_dirs_changed [of "[]" ds fs fs1]
  by (auto simp: same_links_def)

lemma make_dirs_writable:
  assumes mk: "make_dirs [] (butlast (workspace_root ws @ rel)) fs = Inr fs1" and sound: "sound_root ws fs"
    and rel: "rel \<noteq> []" "\<not> matches_blocked_root (path_policy ws) rel"
  shows "changed fs fs1 \<subseteq> writable ws"
proof
  fix q
  assume "q \<in> changed fs fs1"
  then have new: "fs1 q \<noteq> fs q" by (simp add: changed_def)
  then have q: "q \<in> set (steps_down [] (butlast (workspace_root ws @ rel)))" "fs q \<noteq> Some DirNode"
    using make_dirs_changed [OF mk, of q] by (auto split: if_splits)
  then obtain vs where vs: "workspace_root ws @ butlast rel = q @ vs" using rel(1)
    by (auto simp: steps_down_mem butlast_append)
  then consider us where "workspace_root ws = q @ us" | us where "q = workspace_root ws @ us" "butlast rel = us @ vs"
    by (auto simp: append_eq_append_conv2)
  then show "q \<in> writable ws"
  proof cases
    case (1 us)
    then have "fs q = Some DirNode"
      using sound tree_above [of fs q us] by (cases "us = []") (auto simp: sound_root_def)
    with q(2) show ?thesis by simp
  next
    case (2 us)
    then have "us \<noteq> []" using q(2) sound by (auto simp: sound_root_def)
    moreover have "rel = us @ (vs @ [last rel])" using 2(2) rel(1) append_butlast_last_id by fastforce
    then have "\<not> matches_blocked_root (path_policy ws) us"
      using rel(2) matches_blocked_root_append by metis
    ultimately show ?thesis using 2(1) by (auto simp: writable_def)
  qed
qed

lemma change_effect_contained:
  assumes res: "resolve_path n fs ws s = Inr p" and eff: "change_effect c p fs fs'" and sound: "sound_root ws fs"
  shows "is_tree fs' \<and> same_links fs fs' \<and> changed fs fs' \<subseteq> writable ws"
proof -
  have tree: "is_tree fs" and root: "fs (workspace_root ws) = Some DirNode" using sound by (simp_all add: sound_root_def)
  obtain rel where rel: "p = workspace_root ws @ rel" "admitted (path_policy ws) rel"
    using res by (rule resolve_path_inside)
  have free: "fs p = None \<or> fs_is_file fs p" using eff by (auto simp: change_effect_def split: patch_kind.splits)
  then have "p \<noteq> workspace_root ws" using root is_file_not_dir [of fs p] by auto
  then have r: "rel \<noteq> []" "\<not> matches_blocked_root (path_policy ws) rel" using rel by (auto simp: admitted_def)
  then have p: "p \<in> writable ws" "p \<noteq> []" using rel(1) by (auto simp: writable_def)
  have above: "fs (butlast p) = Some DirNode" if "fs_is_file fs p"
    using that p(2) is_treeD [OF tree, of "butlast p" "last p"] by (auto simp: fs_is_file_def split: option.splits)
  have top: "fs [] = Some DirNode" using root tree_above [OF tree, of "[]" "workspace_root ws"]
    by (cases "workspace_root ws = []") auto
  show ?thesis
  proof (cases "change_kind c")
    case PATCH_ADD
    with eff obtain fs1 where fs1: "fs p = None" "make_dirs [] (butlast p) fs = Inr fs1"
      "fs_is_dir fs1 (butlast p)" "fs' = fs1(p \<mapsto> FileNode (utf8 (option_text (after_text c))))"
      by (auto simp: change_effect_def)
    have new: "fs1 p = None" using make_dirs_not_target [OF fs1(2)] fs1(1) by simp
    have "is_tree fs'" unfolding fs1(4)
      using tree_put [OF tree_make_dirs [OF fs1(2) tree top], of p] fs1(3) p(2) new by (simp add: fs_is_dir_def)
    moreover have "same_links fs fs'" unfolding fs1(4)
      using same_links_trans [OF make_dirs_links [OF fs1(2)] same_links_put, of p] new by simp
    moreover have "changed fs fs' \<subseteq> writable ws" unfolding fs1(4)
      using make_dirs_writable [OF _ sound r, of fs1] fs1(2) rel(1) p(1)
        changed_trans [of fs "fs1(p \<mapsto> nd)" fs1 for nd] changed_update [of fs1 p] by blast
    ultimately show ?thesis by blast
  next
    case PATCH_MODIFY
    with eff obtain b where b: "fs_is_file fs p" "fs' = fs(p \<mapsto> FileNode b)" by (auto simp: change_effect_def)
    then show ?thesis using tree_put [OF tree above p(2) free, of "FileNode b"] same_links_put [OF free]
        changed_update [of fs p "Some (FileNode b)"] p(1) by auto
  next
    case PATCH_DELETE
    with eff have "fs_is_file fs p" "fs' = fs(p := None)" by (auto simp: change_effect_def)
    then show ?thesis using tree_drop [OF tree] same_links_put [OF free, of None]
        changed_update [of fs p None] p(1) by auto
  qed
qed

lemma apply_change_contained: "st_keeps (contained ws) (apply_change H n ws dry c)"
  unfolding st_keeps_def
proof
  fix fs
  obtain r fs' where run: "apply_change H n ws dry c fs = (r, fs')" by (rule prod.exhaust)
  show "contained ws fs (snd (apply_change H n ws dry c fs))"
  proof (cases "fs' = fs")
    case True
    then show ?thesis using run by (simp add: reflpD [OF contained_reflp])
  next
    case False
    then have "\<not> dry" using run apply_dry_same [of H n ws c fs] by auto
    with run False obtain p where "resolve_path n fs ws (change_path c) = Inr p" "change_effect c p fs fs'"
      using apply_change_effect [of H n ws c fs r fs'] by auto
    then show ?thesis using run change_effect_contained by (auto simp: contained_def)
  qed
qed

lemma apply_changes_contained: "st_keeps (contained ws) (apply_changes H n ws dry cs)"
  unfolding apply_changes_def
  by (intro keeps_map contained_reflp contained_transp apply_change_contained)

section \<open>The whole tool\<close>

definition workspace_at :: "patch_tool \<Rightarrow> fs_path \<Rightarrow> workspace" where
  "workspace_at t root = \<lparr>workspace_root = root, path_policy = tool_policy t\<rparr>"

lemma validated_workspace_root_cases:
  assumes "validated_workspace_root t fs = Inr root"
  shows "real_path (link_bound t) fs (tool_workspace t) = Inr root" "fs root = Some DirNode"
    "require_workspace_marker t \<longrightarrow> marker_present t fs root"
  using assms by (auto simp: validated_workspace_root_def res_bind_eq_Inr fs_is_dir_def split: if_splits)

lemma workspace_at_root:
  assumes "validated_workspace_root t fs = Inr root"
  shows "workspace_init (link_bound t) fs root (tool_policy t) = Inr (workspace_at t root)"
proof -
  note root = validated_workspace_root_cases [OF assms]
  have "real_path (link_bound t) fs root = Inr root"
    using real_path_fixed [OF real_path_link_free [OF root(1)]] .
  then show ?thesis using root(2) by (simp add: workspace_init_def workspace_at_def fs_exists_def fs_is_dir_def)
qed

definition runs_dry :: "bool option \<Rightarrow> patch_plan \<Rightarrow> bool" where
  "runs_dry override plan = (case override of None \<Rightarrow> plan_dry_run plan | Some b \<Rightarrow> b)"

lemma apply_plan_effect:
  assumes "apply_plan H t override plan fs = (r, fs')"
  shows "fs' = fs \<and> isl r \<or> (\<exists>root out. validated_workspace_root t fs = Inr root
     \<and> apply_changes H (link_bound t) (workspace_at t root) (runs_dry override plan)
          (file_changes (plan_patch plan)) fs = (out, fs'))"
  using assms unfolding apply_plan_def Let_def runs_dry_def [symmetric]
proof (cases rule: st_bind_get_cases)
  case root: (went root)
  from root(2) show ?thesis
  proof (cases rule: st_bind_get_cases)
    case ws: (went ws)
    then have ws_eq: "ws = workspace_at t root" using workspace_at_root [OF root(1)] by simp
    from ws(2) show ?thesis
    proof (cases rule: st_bind_cases)
      case (raised e)
      then show ?thesis using root(1) ws_eq by blast
    next
      case (went files fs1)
      from went(2) have "fs' = fs1" by (cases rule: st_bind_lift_cases) simp_all
      then show ?thesis using root(1) ws_eq went(1) by blast
    qed
  qed simp
qed simp

lemma apply_changes_dry: "snd (apply_changes H n ws True cs fs) = fs"
proof -
  have "st_keeps (\<lambda>s s'. s' = s) (apply_changes H n ws True cs)"
    unfolding apply_changes_def
    by (intro keeps_map) (simp_all add: reflp_def transp_def st_keeps_def apply_dry_same)
  then show ?thesis by (simp add: st_keeps_def)
qed

lemma apply_plan_contained:
  assumes run: "apply_plan H t override plan fs = (r, fs')" and diff: "fs' \<noteq> fs" and tree: "is_tree fs"
  obtains root where "validated_workspace_root t fs = Inr root" "\<not> runs_dry override plan"
    "is_tree fs'" "same_links fs fs'" "changed fs fs' \<subseteq> writable (workspace_at t root)"
proof -
  from apply_plan_effect [OF run] diff obtain root out where root: "validated_workspace_root t fs = Inr root"
    and out: "apply_changes H (link_bound t) (workspace_at t root) (runs_dry override plan)
          (file_changes (plan_patch plan)) fs = (out, fs')" by blast
  have dry: "\<not> runs_dry override plan" using out diff apply_changes_dry by (metis snd_conv)
  have "contained (workspace_at t root) fs fs'" using keepsD [OF apply_changes_contained out] .
  moreover have "sound_root (workspace_at t root) fs"
    using tree validated_workspace_root_cases(2) [OF root] by (simp add: sound_root_def workspace_at_def)
  ultimately show thesis using that [OF root dry] by (simp add: contained_def)
qed

lemma patch_attempt_contained:
  assumes run: "patch_attempt H rt supply t req fs = (r, fs')" and diff: "fs' \<noteq> fs" and tree: "is_tree fs"
  obtains root where "validated_workspace_root t fs = Inr root"
    "is_tree fs'" "same_links fs fs'" "changed fs fs' \<subseteq> writable (workspace_at t root)"
  using run unfolding patch_attempt_def
proof (cases rule: st_bind_lift_cases)
  case (went plan)
  from went(2) have "\<exists>out. apply_plan H t None plan fs = (out, fs')"
  proof (cases rule: st_bind_cases)
    case (went report fs1)
    from went(2) have "fs' = fs1" by (cases rule: st_bind_get_cases) simp_all
    with went(1) show ?thesis by blast
  qed blast
  then show thesis using that apply_plan_contained diff tree by blast
qed (use diff in simp)

lemma record_if_files: "record_if H supply t i e (led, fs) = (r, s') \<Longrightarrow> snd s' = fs"
  unfolding record_if_def
  by (auto simp: st_bind_def record_receipt_def st_step_def split: prod.splits sum.splits if_splits)

lemma patch_invoke_files:
  assumes run: "patch_invoke H rt supply t req (led, fs) = (r, (led', fs'))" and diff: "fs' \<noteq> fs"
  obtains out where "request_tool_id req = patch_tool_id" "tool_capability req = PATCH_APPLY"
    "patch_attempt H rt supply t req fs = (out, fs')"
proof -
  have tool: "request_tool_id req = patch_tool_id" "tool_capability req = PATCH_APPLY"
    using run diff unfolding patch_invoke_def by (auto split: if_splits)
  have body: "patch_invoke H rt supply t req =
       st_bind (record_if H supply t 0 (started_entry req ''tools.patch_apply'' [])) (\<lambda>_.
       st_bind (on_files (st_except (patch_attempt H rt supply t req) (patch_except supply req))) (\<lambda>r.
       st_bind (record_if H supply t 3 (result_entry rt r (Some req) ''tools.patch_apply'' [])) (\<lambda>_.
       st_return r)))"
    unfolding patch_invoke_def tool by (simp only: simp_thms if_False)
  from run [unfolded body] have "\<exists>out. patch_attempt H rt supply t req fs = (out, fs')"
  proof (cases rule: st_bind_cases)
    case (raised e)
    then show ?thesis using record_if_files [OF raised(1)] diff by simp
  next
    case start: (went u s1)
    then obtain led1 where s1: "s1 = (led1, fs)"
      using record_if_files [OF start(1)] by (cases s1) simp
    obtain out fs1 where attempt: "patch_attempt H rt supply t req fs = (out, fs1)" by (rule prod.exhaust)
    have step: "snd (on_files (st_except (patch_attempt H rt supply t req) (patch_except supply req)) s1) = (led1, fs1)"
      unfolding s1 on_files_def st_except_def using attempt by (cases out) simp_all
    from start(2) have "fs1 = fs'"
    proof (cases rule: st_bind_cases)
      case (raised e)
      with step show ?thesis by simp
    next
      case (went x s2)
      with step have s2: "s2 = (led1, fs1)" by simp
      from went(2) show ?thesis
      proof (cases rule: st_bind_cases)
        case (raised e)
        then show ?thesis using record_if_files [OF raised(1) [unfolded s2]] by simp
      next
        case (went y s3)
        then show ?thesis using record_if_files [OF went(1) [unfolded s2]] by simp
      qed
    qed
    with attempt show ?thesis by blast
  qed
  with tool show thesis using that by blast
qed

section \<open>Refinement\<close>

text \<open>
  The files alone, without directories and links, and what a patch should do to them: one change at
  a time, each at the path its name resolves to, with the checks on what is there.
\<close>

definition files_of :: "file_system \<Rightarrow> fs_path \<rightharpoonup> string" where
  "files_of fs p = (case fs p of Some (FileNode b) \<Rightarrow> Some b | _ \<Rightarrow> None)"

definition spec_change :: "patch_change \<Rightarrow> fs_path \<Rightarrow> (fs_path \<rightharpoonup> string) \<Rightarrow> (fs_path \<rightharpoonup> string) option" where
  "spec_change c p fl =
     (case (change_kind c, fl p) of
        (PATCH_ADD, None) \<Rightarrow> Some (fl(p \<mapsto> utf8 (option_text (after_text c))))
      | (PATCH_MODIFY, Some b) \<Rightarrow>
          Option.bind (utf8_decode b) (\<lambda>s.
            case final_text c [] (universal_newlines s) of
              Inl _ \<Rightarrow> None | Inr final \<Rightarrow> Some (fl(p \<mapsto> utf8 final)))
      | (PATCH_DELETE, Some b) \<Rightarrow> Some (fl(p := None))
      | _ \<Rightarrow> None)"

fun spec_changes ::
  "(string \<Rightarrow> fs_path res) \<Rightarrow> patch_change list \<Rightarrow> (fs_path \<rightharpoonup> string) \<Rightarrow> (fs_path \<rightharpoonup> string) option" where
  "spec_changes target [] fl = Some fl"
| "spec_changes target (c # cs) fl =
     (case target (change_path c) of
        Inl _ \<Rightarrow> None
      | Inr p \<Rightarrow> Option.bind (spec_change c p fl) (spec_changes target cs))"

lemma files_of_put: "files_of (fs(p \<mapsto> FileNode b)) = (files_of fs)(p \<mapsto> b)"
  by (auto simp: files_of_def)

lemma files_of_drop: "files_of (fs(p := None)) = (files_of fs)(p := None)"
  by (auto simp: files_of_def)

lemma files_of_make_dirs:
  assumes mk: "make_dirs [] ds fs = Inr fs1"
  shows "files_of fs1 = files_of fs"
proof
  fix q
  show "files_of fs1 q = files_of fs q"
    using make_dirs_changed [OF mk, of q] make_dirs_succeeds [of "[]" ds fs] mk
    by (auto simp: files_of_def)
qed

lemma final_text_name: "final_text c rel s = Inr t \<Longrightarrow> final_text c [] s = Inr t"
  by (auto simp: final_text_def Let_def split: if_splits)

lemma change_effect_spec:
  assumes "change_effect c p fs fs'"
  shows "spec_change c p (files_of fs) = Some (files_of fs')"
proof (cases "change_kind c")
  case PATCH_ADD
  with assms obtain fs1 where fs1: "fs p = None" "make_dirs [] (butlast p) fs = Inr fs1"
    "fs' = fs1(p \<mapsto> FileNode (utf8 (option_text (after_text c))))" by (auto simp: change_effect_def)
  then show ?thesis using PATCH_ADD files_of_make_dirs [OF fs1(2)]
    by (simp add: spec_change_def files_of_put) (simp add: files_of_def)
next
  case PATCH_MODIFY
  with assms obtain b current final where b: "fs p = Some (FileNode b)" "read_text fs p = Inr current"
    "final_text c [] current = Inr final" "fs' = fs(p \<mapsto> FileNode (utf8 final))"
    by (auto simp: change_effect_def fs_is_file_def dest: final_text_name split: option.splits fs_node.splits)
  then obtain s where "utf8_decode b = Some s" "current = universal_newlines s"
    by (auto simp: read_text_def split: option.splits)
  then show ?thesis using PATCH_MODIFY b by (simp add: spec_change_def files_of_put) (simp add: files_of_def)
next
  case PATCH_DELETE
  with assms obtain b where "fs p = Some (FileNode b)" "fs' = fs(p := None)"
    by (auto simp: change_effect_def fs_is_file_def split: option.splits fs_node.splits)
  then show ?thesis using PATCH_DELETE by (simp add: spec_change_def files_of_drop) (simp add: files_of_def)
qed

lemma spec_changes_cong: "(\<And>s. target s = target' s) \<Longrightarrow> spec_changes target cs fl = spec_changes target' cs fl"
  by (metis ext)

lemma apply_changes_spec:
  assumes "apply_changes H n ws False cs fs = (out, fs')" and "sound_root ws fs"
  shows "\<exists>k \<le> length cs. (\<not> isl out \<longrightarrow> k = length cs)
     \<and> spec_changes (resolve_path n fs ws) (take k cs) (files_of fs) = Some (files_of fs')"
  using assms unfolding apply_changes_def
proof (induction cs arbitrary: fs out)
  case Nil
  then show ?case by simp
next
  case (Cons c cs)
  obtain r fs1 where step: "apply_change H n ws False c fs = (r, fs1)" by (rule prod.exhaust)
  consider (stopped) "fs1 = fs" "isl r"
    | (wrote) p where "resolve_path n fs ws (change_path c) = Inr p" "change_effect c p fs fs1"
    using apply_change_effect [OF step] by blast
  then show ?case
  proof cases
    case stopped
    then have "fs' = fs \<and> isl out" using Cons.prems(1) step by (auto simp: st_bind_def split: sum.splits)
    then show ?thesis by (intro exI [of _ 0]) simp
  next
    case (wrote p)
    have first: "spec_changes (resolve_path n fs ws) (c # take k cs) (files_of fs)
        = spec_changes (resolve_path n fs ws) (take k cs) (files_of fs1)" for k
      using wrote change_effect_spec [OF wrote(2)] by simp
    show ?thesis
    proof (cases r)
      case (Inl e)
      then have "fs' = fs1 \<and> isl out" using Cons.prems(1) step by (auto simp: st_bind_def)
      then show ?thesis using first [of 0] by (intro exI [of _ 1]) simp
    next
      case (Inr x)
      then have "\<exists>out'. st_map (apply_change H n ws False) cs fs1 = (out', fs') \<and> isl out = isl out'"
        using Cons.prems(1) step by (auto simp: st_bind_def split: prod.splits sum.splits)
      then obtain out' where out': "st_map (apply_change H n ws False) cs fs1 = (out', fs')" "isl out = isl out'"
        by blast
      have cont: "contained ws fs fs1" using keepsD [OF apply_change_contained step] .
      then have "same_links fs fs1" using Cons.prems(2) by (simp add: contained_def)
      then have target: "resolve_path n fs1 ws s = resolve_path n fs ws s" for s by (rule resolve_path_links)
      obtain k where k: "k \<le> length cs" "\<not> isl out' \<longrightarrow> k = length cs"
        "spec_changes (resolve_path n fs1 ws) (take k cs) (files_of fs1) = Some (files_of fs')"
        using Cons.IH [OF out'(1) contained_sound [OF cont Cons.prems(2)]] by blast
      then have "spec_changes (resolve_path n fs ws) (take (Suc k) (c # cs)) (files_of fs) = Some (files_of fs')"
        using first [of k] spec_changes_cong [of "resolve_path n fs1 ws" "resolve_path n fs ws", OF target] by simp
      then show ?thesis using k out'(2) by (intro exI [of _ "Suc k"]) auto
    qed
  qed
qed

section \<open>The tool keeps the receipt ledger\<close>

lemma on_files_ledger: "fst (snd (on_files m s)) = fst s"
  by (cases s) (auto simp: on_files_def split: prod.splits)

lemma on_files_verified: "st_keeps (keeps_verified H) (on_files m)"
  by (simp add: st_keeps_def keeps_verified_def on_files_ledger)

lemma record_if_verified: "hex_supply supply \<Longrightarrow> st_keeps (keeps_verified H) (record_if H supply t i e)"
  unfolding record_if_def
  by (intro keeps_intro record_receipt_verified keeps_verified_preorder)

lemma patch_invoke_verified:
  assumes "hex_supply supply"
  shows "st_keeps (keeps_verified H) (patch_invoke H rt supply t req)"
  unfolding patch_invoke_def
  by (intro keeps_intro record_if_verified on_files_verified keeps_verified_preorder assms)

lemma patch_invoker_state: "snd (patch_invoker H rt supply t req s) = snd (patch_invoke H rt supply t req s)"
  by (auto simp: patch_invoker_def split: prod.splits sum.splits)

interpretation patch_recorder: recording_tool H drawn "patch_invoker H rt drawn t" for H rt drawn t
  by unfold_locales
    (simp add: patch_invoker_state keepsD [OF patch_invoke_verified prod.collapse [symmetric]])

end
