(* ===== verification/ToolRuns.thy ===== *)
theory ToolRuns
  imports ToolGateway
begin

text \<open>
  A call the policy allows does reach its tool: the receipts of an accepted request can be
  written, and the tool runs on the ledger that has them.
\<close>

section \<open>Accepted requests\<close>

text \<open>An accepted request names its invocation and its tool with texts that are not blank.\<close>

lemma lower_char_space: "is_space (lower_char c) \<longleftrightarrow> is_space c"
proof (cases "(65 \<le> code_point c \<and> code_point c \<le> 90) \<or> (192 \<le> code_point c \<and> code_point c \<le> 222 \<and> code_point c \<noteq> 215)")
  case True
  then have "code_point (lower_char c) = code_point c + 32"
    unfolding lower_char_def Let_def using code_point_char_of [of "code_point c + 32"] by auto
  with True show ?thesis by (auto simp: is_space_def Let_def)
next
  case False
  then have "lower_char c = c" unfolding lower_char_def Let_def by (simp only: if_False)
  then show ?thesis by simp
qed

lemma tool_identifier_accepts: "\<not> blank s \<Longrightarrow> \<exists>t. tool_identifier label s = Inr t"
  by (simp add: tool_identifier_def blank_def lower_def replace_char_def Let_def)

lemma tool_identifier_text:
  assumes "tool_identifier label s = Inr t"
  shows "\<not> blank t"
proof
  assume "blank t"
  have t: "t = replace_char CHR '' '' CHR ''-'' (lower (strip s))" "strip s \<noteq> []"
    using assms by (auto simp: tool_identifier_def Let_def lower_def replace_char_def split: if_splits)
  then obtain c where c: "c \<in> set (strip s)" "\<not> is_space c"
    using trimmed_strip_by [of is_space s] unfolding strip_def by (metis hd_in_set trimmed_by_def)
  let ?d = "if lower_char c = CHR '' '' then CHR ''-'' else lower_char c"
  have "?d \<in> set t" using c(1) unfolding t(1) lower_def replace_char_def by auto
  moreover have "\<not> is_space ?d" using c(2) lower_char_space by simp
  ultimately show False using \<open>blank t\<close> by (auto simp: blank_iff)
qed

definition recordable :: "tool_request \<Rightarrow> bool" where
  "recordable req \<longleftrightarrow> \<not> blank (invocation_id req) \<and> \<not> blank (request_tool_id req)
     \<and> (\<forall>t \<in> set_option (tool_task_id req) \<union> set_option (tool_run_id req). \<not> blank t)"

lemma optional_tool_identifier_text: "optional_tool_identifier v = Inr (Some t) \<Longrightarrow> \<not> blank t"
  by (auto simp: optional_tool_identifier_def res_bind_eq_Inr split: option.splits dest: tool_identifier_text)

lemma tool_request_recordable:
  assumes "tool_request_init req0 = Inr req"
  shows "recordable req"
  using assms
  by (auto simp: tool_request_init_def recordable_def res_bind_eq_Inr split: if_splits
      dest: tool_identifier_text optional_tool_identifier_text)

section \<open>An allowed call runs\<close>

text \<open>
  What \<open>append\<close> accepts: texts that are not blank and metadata that is JSON. The receipts of a
  recordable request are of that kind, so an allowed call is not lost on the way to its tool.
\<close>

definition entry_ok :: "receipt_entry \<Rightarrow> bool" where
  "entry_ok e \<longleftrightarrow> \<not> blank (entry_invocation_id e) \<and> \<not> blank (entry_tool_id e) \<and> \<not> blank (entry_summary e)
     \<and> (\<forall>t \<in> set_option (entry_actor e) \<union> set_option (entry_task_id e) \<union> set_option (entry_run_id e). \<not> blank t)
     \<and> 0 \<le> entry_artifact_count e \<and> \<not> holds_other (JObj (entry_metadata e))"

lemma optional_tool_identifier_accepts:
  "(\<forall>t \<in> set_option v. \<not> blank t) \<Longrightarrow> \<exists>u. optional_tool_identifier v = Inr u"
  using tool_identifier_accepts by (cases v) (fastforce simp: optional_tool_identifier_def res_bind_eq_Inr)+

lemma chain_payload_holds_other: "holds_other (chain_payload r) = holds_other (JObj (receipt_metadata r))"
  by (simp add: chain_payload_def json_opt_def split: option.splits)

lemma append_tool_receipt_accepts:
  assumes e: "entry_ok e" and hex: "list_all is_lower_hex fresh"
  shows "\<exists>r. append_tool_receipt H fresh now e led = Inr (r, led @ [r])"
proof -
  obtain iid where iid: "tool_identifier ''invocation_id'' (entry_invocation_id e) = Inr iid"
    using e tool_identifier_accepts unfolding entry_ok_def by blast
  obtain tid where tid: "tool_identifier ''tool_id'' (entry_tool_id e) = Inr tid"
    using e tool_identifier_accepts unfolding entry_ok_def by blast
  obtain actor where actor: "optional_tool_identifier (entry_actor e) = Inr actor"
    using e optional_tool_identifier_accepts [of "entry_actor e"] by (auto simp: entry_ok_def)
  obtain task where task: "optional_tool_identifier (entry_task_id e) = Inr task"
    using e optional_tool_identifier_accepts [of "entry_task_id e"] by (auto simp: entry_ok_def)
  obtain run where run: "optional_tool_identifier (entry_run_id e) = Inr run"
    using e optional_tool_identifier_accepts [of "entry_run_id e"] by (auto simp: entry_ok_def)
  have summary: "tool_text ''summary'' (entry_summary e) = Inr (strip (entry_summary e))"
    using e by (simp add: entry_ok_def tool_text_def)
  have digest: "\<exists>d. compute_chain_digest H r = Inr d" if "receipt_metadata r = entry_metadata e" for r
    using e that chain_payload_holds_other [of r] by (simp add: compute_chain_digest_def plain_digest_def entry_ok_def)
  let ?previous = "latest_for_invocation led iid"
  let ?draft = "\<lparr>receipt_id = ''tool-receipt-'' @ fresh, receipt_invocation_id = iid,
     receipt_tool_id = tid, receipt_event = entry_event e, receipt_summary = strip (entry_summary e),
     previous_receipt_id = map_option receipt_id ?previous,
     previous_chain_digest = map_option chain_digest ?previous,
     chain_digest = [], receipt_created_at = Aware now,
     receipt_actor = actor, receipt_task_id = task, receipt_run_id = run,
     receipt_policy_decision = entry_policy_decision e, receipt_status = entry_status e,
     receipt_risk_level = entry_risk_level e, artifact_count = entry_artifact_count e,
     receipt_metadata = entry_metadata e\<rparr>"
  obtain d where d: "compute_chain_digest H ?draft = Inr d" using digest [of ?draft] by auto
  have count: "(entry_artifact_count e < 0) = False" using e by (simp add: entry_ok_def)
  show ?thesis
    unfolding append_tool_receipt_def iid tid actor task run summary Let_def res_bind_Inr count if_False d
      tool_receipt.select_convs tool_receipt_id_normal [OF hex]
    by blast
qed

lemma record_receipt_accepts:
  assumes "entry_ok e" and "hex_supply supply"
  obtains r where "record_receipt H supply i e (led, w) = (Inr r, (led @ [r], w))"
  using append_tool_receipt_accepts [OF assms(1), of "fresh_hex supply i" H "clock_at supply i" led] assms(2)
  by (auto simp: record_receipt_def st_step_def hex_supply_def)

lemma blank_Cons: "blank (c # s) \<longleftrightarrow> is_space c \<and> blank s"
  by (simp add: blank_iff)

lemma visible_t: "\<not> is_space CHR ''T''" "\<not> is_space CHR ''t''"
  by code_simp+

lemma policy_entry_ok: "recordable req \<Longrightarrow> entry_ok (policy_entry ev req ''tools.gateway'' [])"
  by (auto simp: entry_ok_def policy_entry_def recordable_def merge_metadata_def blank_Cons visible_t list_ex_iff)

lemma started_entry_ok: "recordable req \<Longrightarrow> entry_ok (started_entry req ''tools.gateway'' [(k, JStr v)])"
  by (auto simp: entry_ok_def started_entry_def recordable_def merge_metadata_def blank_Cons visible_t list_ex_iff)


text \<open>The tool runs on a ledger that has the two receipts, and what it leaves behind stays.\<close>

lemma run_lift_bind: "st_bind (st_lift (Inr x)) f s = f x s"
  by (simp add: st_bind_def)

lemma executed_call_runs:
  assumes f: "map_of (gateway_invokers g) (request_tool_id req) = Some f"
    and req: "recordable req" and fresh: "hex_supply supply"
  obtains q where "receipt_event q = INVOCATION_STARTED"
    "snd (snd (execute_tool H rt supply g req m ev (led, w))) = snd (snd (f req (led @ [q], w)))"
proof -
  let ?rest = "\<lambda>r. st_bind (record_receipt H supply 2 (result_entry rt r (Some req) ''tools.gateway'' [])) (\<lambda>_.
     st_bind (st_map (artifact_receipt H supply r) (List.enumerate 0 (result_artifacts r))) (\<lambda>_.
     gateway_report_of H req m ev r ''executed''))"
  let ?start = "started_entry req ''tools.gateway'' [(''manifest_version'', JStr (manifest_version m))]"
  have rest: "st_keeps same_world (?rest r)" for r by (intro keeps_intro) simp_all
  obtain q where q: "record_receipt H supply 1 ?start (led, w) = (Inr q, (led @ [q], w))"
    using record_receipt_accepts [OF started_entry_ok [OF req] fresh] by metis
  have "receipt_event q = INVOCATION_STARTED"
    using record_receipt_returns(1) [OF q] by (cases rule: append_tool_receipt_cases) (simp add: started_entry_def)
  moreover obtain y s2 where inv: "run_invoker supply f req (led @ [q], w) = (y, s2)" by (rule prod.exhaust)
  have start: "st_bind (record_receipt H supply 1 ?start) k (led, w) = k q (led @ [q], w)"
    for k :: "tool_receipt \<Rightarrow> ('a tool_world, gateway_report) st" using q by (rule run_bind_Inr)
  have run: "execute_tool H rt supply g req m ev (led, w) = st_bind (run_invoker supply f req) ?rest (led @ [q], w)"
    unfolding execute_tool_def resolve_invoker_def f option.case
    by (simp only: run_lift_bind start)
  have "snd (snd (execute_tool H rt supply g req m ev (led, w))) = snd s2"
  proof (cases y)
    case (Inl e)
    then show ?thesis unfolding run using inv by (simp add: run_bind_Inl)
  next
    case (Inr r)
    then show ?thesis unfolding run run_bind_Inr [where m = "run_invoker supply f req", OF inv [unfolded Inr]]
      using keepsD [OF rest [of r] prod.collapse [symmetric], of s2] by (simp add: same_world_def)
  qed
  moreover have "s2 = snd (f req (led @ [q], w))" using run_invoker_state inv by (metis snd_conv)
  ultimately show thesis using that by simp
qed

lemma allowed_call_runs:
  assumes m: "get_manifest (gateway_registry g) (request_tool_id req) = Inr m"
    and ev: "evaluate_tool_policy rt (gateway_policy g) m req None = Inr ev" "policy_decision ev = TOOL_ALLOW"
    and f: "map_of (gateway_invokers g) (request_tool_id req) = Some f"
    and req: "recordable req" and fresh: "hex_supply supply"
  obtains p q where "receipt_event p = POLICY_EVALUATED" "receipt_event q = INVOCATION_STARTED"
    "snd (snd (gateway_invoke H rt supply g req (led, w))) = snd (snd (f req (led @ [p, q], w)))"
proof -
  obtain p where p: "record_receipt H supply 0 (policy_entry ev req ''tools.gateway'' []) (led, w)
      = (Inr p, (led @ [p], w))"
    using record_receipt_accepts [OF policy_entry_ok [OF req] fresh] by metis
  have "receipt_event p = POLICY_EVALUATED"
    using record_receipt_returns(1) [OF p] ev(2) by (cases rule: append_tool_receipt_cases) (simp add: policy_entry_def)
  moreover have logged: "st_bind (record_receipt H supply 0 (policy_entry ev req ''tools.gateway'' [])) k (led, w)
      = k p (led @ [p], w)" for k :: "tool_receipt \<Rightarrow> ('a tool_world, gateway_report) st"
    using p by (rule run_bind_Inr)
  have known: "st_bind (resolve_manifest H rt supply g req) k (led, w) = k m (led, w)"
    for k :: "tool_manifest \<Rightarrow> ('a tool_world, gateway_report) st"
    using resolve_manifest_known [OF m] by (rule run_bind_Inr)
  have "gateway_invoke H rt supply g req (led, w) = execute_tool H rt supply g req m ev (led @ [p], w)"
    unfolding gateway_invoke_def
    by (simp only: known ev(1) run_lift_bind logged ev(2) if_True simp_thms)
  moreover obtain q where "receipt_event q = INVOCATION_STARTED"
    "snd (snd (execute_tool H rt supply g req m ev (led @ [p], w))) = snd (snd (f req ((led @ [p]) @ [q], w)))"
    using executed_call_runs [OF f req fresh] by metis
  ultimately show thesis using that by simp
qed

text \<open>The preflight's ALLOW hands the call to the gateway.\<close>

lemma authorized_call_runs:
  assumes "build_tool_authorization_request rt aid req = Inr r"
    and "evaluate H parse e r at reviewer evidence = Inr d" "decision_status d = ALLOW"
  shows "snd (authorize_and_invoke H parse rt e invoke aid req at reviewer evidence metadata t0 t1 s)
     = snd (invoke req s)"
  using assms by (simp add: authorize_and_invoke_def Let_def split: sum.splits prod.splits)

end
