(* ===== verification/ToolFixtures.thy ===== *)
theory ToolFixtures
  imports Fixtures PatchSafety ToolRuns
begin

text \<open>
  Concrete values for the witnesses about tools: a reading tool that counts its calls, a gateway
  that knows it, a workspace with one file, and a patch that modifies it.
\<close>

definition ex_manifest :: tool_manifest where
  "ex_manifest = \<lparr>manifest_tool_id = ''reader'', manifest_name = ''Reader'', manifest_version = ''1'',
     manifest_summary = ''reads'', manifest_capabilities = [FILE_READ],
     manifest_side_effects = [tool_side_effect.READ_WORKSPACE], manifest_approval_mode = APPROVAL_NEVER,
     manifest_input_schema = [], manifest_output_schema = [], default_timeout_micros = None,
     manifest_path_policy = None, manifest_tags = [], manifest_metadata = []\<rparr>"

definition ex_supply :: tool_supply where
  "ex_supply = \<lparr>fresh_hex = (\<lambda>_. ''0a''), clock_at = (\<lambda>_. 0)\<rparr>"

definition ex_reader :: "nat invoker" where
  "ex_reader req s = (Inl (InvokeTimeout ''slow''), fst s, Suc (snd s))"

definition ex_gateway :: "nat governed_gateway" where
  "ex_gateway = \<lparr>gateway_registry = [(''reader'', ex_manifest)], gateway_policy = default_policy_config,
     gateway_invokers = [(''reader'', ex_reader)]\<rparr>"

lemma ex_tool_policy:
  "\<exists>ev. evaluate_tool_policy ex_runtime default_policy_config ex_manifest ex_tool_request None = Inr ev
     \<and> policy_decision ev = TOOL_ALLOW"
  by (rule ok_withD) code_simp

text \<open>A workspace with its marker and one file, and a patch that modifies the file.\<close>

definition ex_files :: file_system where
  "ex_files = (\<lambda>_. None)([] \<mapsto> DirNode, [''w''] \<mapsto> DirNode, [''w'', ''m''] \<mapsto> FileNode [],
     [''w'', ''a''] \<mapsto> FileNode ''old'')"

definition ex_patch_tool :: patch_tool where
  "ex_patch_tool = \<lparr>tool_workspace = [''w''], tool_path_policy_of = None, require_workspace_marker = True,
     workspace_marker_name = ''m'', link_bound = 1, records_receipts = False\<rparr>"

definition ex_change :: patch_change where
  "ex_change = \<lparr>change_path = ''a'', change_kind = PATCH_MODIFY, before_text = Some ''old'',
     after_text = Some ''new'', before_sha256 = Some (ex_hash []), after_sha256 = Some (ex_hash []),
     change_metadata = []\<rparr>"

definition ex_diff :: patch_diff where
  "ex_diff = \<lparr>patch_id = ''p'', patch_summary = ''s'', file_changes = [ex_change],
     patch_created_by = ''bot'', patch_metadata = []\<rparr>"

definition ex_patch_request :: tool_request where
  "ex_patch_request = ex_tool_request\<lparr>request_tool_id := patch_tool_id, tool_capability := PATCH_APPLY,
     tool_arguments := [(''patch'', JObj (case diff_dict ex_hash ex_diff of Inl _ \<Rightarrow> [] | Inr d \<Rightarrow> d))]\<rparr>"

lemma ex_patch_writes:
  "snd (snd (patch_invoke ex_hash ex_runtime ex_supply ex_patch_tool ex_patch_request ([], ex_files))) [''w'', ''a'']
     = Some (FileNode ''new'')"
  by code_simp

lemma ex_change_applies:
  "snd (apply_changes ex_hash 1 (workspace_at ex_patch_tool [''w'']) False [ex_change] ex_files) [''w'', ''a'']
     = Some (FileNode ''new'')"
  by code_simp

lemma ex_diff_dict: "ok_with (\<lambda>_. True) (diff_dict ex_hash ex_diff)"
  by code_simp

end
