(* ===== verification/ToolProperties.thy ===== *)
theory ToolProperties
  imports ToolFixtures
begin

text \<open>
  The properties of the governed tools: what may run, what its receipts say, and what applying a
  patch does to the files of a workspace.
\<close>

section \<open>What may run\<close>

text \<open>C9: An agent's tool call changes the gateway's world only when the agent is authorized, the tool is
  known and its policy evaluation says ALLOW; then the tool declares no effect beyond reading the
  workspace, and it ran on a ledger that ends with its policy receipt and its start receipt.\<close>

theorem agent_tool_effect_gated:
  assumes "authorize_and_invoke H parse rt e (governed_call H rt supply g) aid req at reviewer evidence
       metadata t0 t1 (led, w) = (res, s')"
    and "snd s' \<noteq> w"
  shows "\<exists>r d m ev f p q. build_tool_authorization_request rt aid req = Inr r
     \<and> evaluate H parse e r at reviewer evidence = Inr d \<and> decision_status d = ALLOW
     \<and> get_manifest (gateway_registry g) (request_tool_id req) = Inr m
     \<and> evaluate_tool_policy rt (gateway_policy g) m req None = Inr ev \<and> policy_decision ev = TOOL_ALLOW
     \<and> set (manifest_side_effects m) \<subseteq> {NO_EFFECT, tool_side_effect.READ_WORKSPACE}
     \<and> map_of (gateway_invokers g) (request_tool_id req) = Some f
     \<and> receipt_event p = POLICY_EVALUATED \<and> receipt_event q = INVOCATION_STARTED
     \<and> snd s' = snd (snd (f req (led @ [p, q], w)))"
proof -
  have "s' \<noteq> (led, w)" using assms(2) by auto
  with assms(1) obtain r d where auth: "build_tool_authorization_request rt aid req = Inr r"
    "evaluate H parse e r at reviewer evidence = Inr d" "decision_status d = ALLOW"
    and s': "s' = snd (gateway_invoke H rt supply g req (led, w))"
    by (rule authorize_and_invoke_gated) (simp add: governed_call_state)
  obtain out where run: "gateway_invoke H rt supply g req (led, w) = (out, s')"
    using s' by (metis prod.collapse)
  from run assms(2) show ?thesis
  proof (rule gateway_invoke_effect)
    fix m ev f p q
    assume m: "get_manifest (gateway_registry g) (request_tool_id req) = Inr m"
      and ev: "evaluate_tool_policy rt (gateway_policy g) m req None = Inr ev" "policy_decision ev = TOOL_ALLOW"
      and rest: "map_of (gateway_invokers g) (request_tool_id req) = Some f"
        "receipt_event p = POLICY_EVALUATED" "receipt_policy_decision p = Some TOOL_ALLOW"
        "receipt_event q = INVOCATION_STARTED" "snd s' = snd (snd (f req (led @ [p, q], w)))"
    show ?thesis using auth m ev allowed_effects [OF ev] rest by blast
  qed
qed

lemma ex_recordable: "recordable ex_tool_request"
  by code_simp

lemma ex_supply_hex: "hex_supply ex_supply"
  by (simp add: hex_supply_def ex_supply_def) code_simp

lemma ex_gateway_known: "get_manifest (gateway_registry ex_gateway) (request_tool_id ex_tool_request) = Inr ex_manifest"
  by code_simp

lemma ex_gateway_tool: "map_of (gateway_invokers ex_gateway) (request_tool_id ex_tool_request) = Some ex_reader"
  by (simp add: ex_gateway_def ex_tool_request_def)

lemma ex_gateway_runs:
  "snd (snd (gateway_invoke ex_hash ex_runtime ex_supply ex_gateway ex_tool_request ([], 0))) = 1"
proof -
  obtain ev where "evaluate_tool_policy ex_runtime (gateway_policy ex_gateway) ex_manifest ex_tool_request None = Inr ev"
    "policy_decision ev = TOOL_ALLOW"
    using ex_tool_policy by (auto simp: ex_gateway_def)
  from allowed_call_runs [OF ex_gateway_known this ex_gateway_tool ex_recordable ex_supply_hex]
  show ?thesis by (metis One_nat_def ex_reader_def snd_conv)
qed

theorem agent_tool_effect_gated_witness:
  "\<exists>r d. build_tool_authorization_request ex_runtime ''bot'' ex_tool_request = Inr r
     \<and> evaluate ex_hash ex_parse ex_evaluator r ''now'' [] [] = Inr d \<and> decision_status d = ALLOW"
proof -
  obtain res s' where run: "authorize_and_invoke ex_hash ex_parse ex_runtime ex_evaluator
      (governed_call ex_hash ex_runtime ex_supply ex_gateway) ''bot'' ex_tool_request ''now'' [] [] [] 0 0 ([], 0)
      = (res, s')" by (rule prod.exhaust)
  have "snd s' = 1"
    using ex_tool_allowed authorized_call_runs run ex_gateway_runs governed_call_state by (metis snd_conv)
  then have "snd s' \<noteq> 0" by simp
  from agent_tool_effect_gated [OF run this] show ?thesis by blast
qed

text \<open>C12: An allowed call of an accepted request reaches its tool: it runs on the ledger with the policy
  receipt and the start receipt, and what it does to the world is what the call does.\<close>

theorem allowed_tool_call_runs:
  assumes "tool_request_init draft = Inr req"
    and "get_manifest (gateway_registry g) (request_tool_id req) = Inr m"
    and "evaluate_tool_policy rt (gateway_policy g) m req None = Inr ev" "policy_decision ev = TOOL_ALLOW"
    and "map_of (gateway_invokers g) (request_tool_id req) = Some f" and "hex_supply supply"
  shows "\<exists>p q. receipt_event p = POLICY_EVALUATED \<and> receipt_event q = INVOCATION_STARTED
     \<and> snd (snd (gateway_invoke H rt supply g req (led, w))) = snd (snd (f req (led @ [p, q], w)))"
  using allowed_call_runs [OF assms(2-5) tool_request_recordable [OF assms(1)] assms(6)] by metis

theorem allowed_tool_call_runs_witness:
  "snd (snd (gateway_invoke ex_hash ex_runtime ex_supply ex_gateway ex_tool_request ([], 0))) = 1"
proof -
  obtain ev where ev: "evaluate_tool_policy ex_runtime (gateway_policy ex_gateway) ex_manifest ex_tool_request None = Inr ev"
    "policy_decision ev = TOOL_ALLOW"
    using ex_tool_policy by (auto simp: ex_gateway_def)
  have "tool_request_init ex_tool_request = Inr ex_tool_request" by code_simp
  from allowed_tool_call_runs [OF this ex_gateway_known ev ex_gateway_tool ex_supply_hex]
  show ?thesis by (metis One_nat_def ex_reader_def snd_conv)
qed

text \<open>Where the evaluator assesses the risk itself, five switches of the tool policy decide nothing: whatever they
  are set to, every manifest and request get the same decision.\<close>

theorem policy_switches_irrelevant:
  assumes "evaluate_tool_policy rt cfg m req None = Inr ev"
    and "evaluate_tool_policy rt (set_review_switches b1 b2 b3 b4 b5 cfg) m req None = Inr ev'"
  shows "policy_decision ev' = policy_decision ev"
proof -
  have "evaluated_risk ev' = evaluated_risk ev"
    using evaluation_risk [OF assms(1)] evaluation_risk [OF assms(2)] by simp
  then show ?thesis
    using evaluation_decides_table [OF assms(1)] evaluation_decides_table [OF assms(2)]
      switches_table [OF evaluation_risk [OF assms(1)]] by simp
qed

lemma ex_tool_policy_off:
  "\<exists>ev. evaluate_tool_policy ex_runtime (set_review_switches False False False False False default_policy_config)
       ex_manifest ex_tool_request None = Inr ev \<and> policy_decision ev = TOOL_ALLOW"
  by (rule ok_withD) code_simp

theorem policy_switches_irrelevant_witness:
  "\<exists>ev ev'. evaluate_tool_policy ex_runtime default_policy_config ex_manifest ex_tool_request None = Inr ev
     \<and> evaluate_tool_policy ex_runtime (set_review_switches False False False False False default_policy_config)
          ex_manifest ex_tool_request None = Inr ev' \<and> policy_decision ev' = policy_decision ev"
  using ex_tool_policy ex_tool_policy_off policy_switches_irrelevant by blast

section \<open>Receipts\<close>

text \<open>C13: Whatever is invoked, with whatever outcome, the gateway leaves a ledger in which every
  invocation's chain verifies, provided its tools only append to it.\<close>

theorem gateway_ledger_stays_verified:
  assumes "gateway_invoke H rt supply g req (led, w) = (res, (led', w'))"
    and "ledger_verified H led" and "hex_supply supply"
    and "\<And>f. f \<in> snd ` set (gateway_invokers g) \<Longrightarrow> invoker_keeps_ledger H f"
  shows "ledger_verified H led'"
  using keepsD [OF gateway_invoke_verified [OF assms(3,4)] assms(1)] assms(2)
  by (simp add: keeps_verified_def)

definition ex_patch_gateway :: "file_system governed_gateway" where
  "ex_patch_gateway = \<lparr>gateway_registry = [], gateway_policy = default_policy_config,
     gateway_invokers = [(patch_tool_id, patch_invoker ex_hash ex_runtime ex_supply
       (ex_patch_tool\<lparr>records_receipts := True\<rparr>))]\<rparr>"

theorem gateway_ledger_stays_verified_witness:
  "\<exists>res led' w'. gateway_invoke ex_hash ex_runtime ex_supply ex_patch_gateway ex_patch_request ([], ex_files)
     = (res, (led', w')) \<and> ledger_verified ex_hash led'"
proof -
  obtain res led' w' where run: "gateway_invoke ex_hash ex_runtime ex_supply ex_patch_gateway ex_patch_request
      ([], ex_files) = (res, (led', w'))" by (metis prod.exhaust)
  have "ledger_verified ex_hash led'"
    using run ledger_verified_Nil ex_supply_hex
  proof (rule gateway_ledger_stays_verified)
    fix f
    assume "f \<in> snd ` set (gateway_invokers ex_patch_gateway)"
    then show "invoker_keeps_ledger ex_hash f"
      using patch_recorder.keeps_ledger [OF ex_supply_hex] by (simp add: ex_patch_gateway_def)
  qed
  with run show ?thesis by blast
qed

section \<open>Patches\<close>

text \<open>C10: Whatever a patch says and however applying it ends, every path whose node it changes lies
  strictly below the resolved workspace root, outside the blocked roots.\<close>

theorem patch_stays_in_workspace:
  assumes "patch_invoke H rt supply t req (led, fs) = (res, (led', fs'))" and "is_tree fs"
    and "fs' q \<noteq> fs q"
  shows "\<exists>root rel. real_path (link_bound t) fs (tool_workspace t) = Inr root \<and> fs root = Some DirNode
     \<and> (require_workspace_marker t \<longrightarrow> marker_present t fs root)
     \<and> q = root @ rel \<and> rel \<noteq> [] \<and> \<not> matches_blocked_root (tool_policy t) rel"
proof -
  have diff: "fs' \<noteq> fs" using assms(3) by auto
  obtain out where attempt: "patch_attempt H rt supply t req fs = (out, fs')"
    using assms(1) diff by (rule patch_invoke_files)
  obtain root where root: "validated_workspace_root t fs = Inr root"
    and ch: "changed fs fs' \<subseteq> writable (workspace_at t root)"
    using attempt diff assms(2) by (rule patch_attempt_contained)
  have "q \<in> writable (workspace_at t root)" using ch assms(3) by (auto simp: changed_def)
  then show ?thesis using validated_workspace_root_cases [OF root]
    by (auto simp: writable_def workspace_at_def)
qed

lemma ex_files_tree: "is_tree ex_files"
  unfolding is_tree_def ex_files_def by (auto split: if_splits)

theorem patch_stays_in_workspace_witness:
  "\<exists>fs'. fs' [''w'', ''a''] \<noteq> ex_files [''w'', ''a'']
     \<and> snd (snd (patch_invoke ex_hash ex_runtime ex_supply ex_patch_tool ex_patch_request ([], ex_files))) = fs'
     \<and> (\<exists>root rel. [''w'', ''a''] = root @ rel \<and> rel \<noteq> [])"
proof -
  obtain res led' fs' where run: "patch_invoke ex_hash ex_runtime ex_supply ex_patch_tool ex_patch_request
      ([], ex_files) = (res, (led', fs'))" by (metis prod.exhaust)
  have "fs' [''w'', ''a''] = Some (FileNode ''new'')" using ex_patch_writes run by simp
  then have new: "fs' [''w'', ''a''] \<noteq> ex_files [''w'', ''a'']" by (simp add: ex_files_def)
  from patch_stays_in_workspace [OF run ex_files_tree new] new run show ?thesis by auto
qed

text \<open>C11: Applying changes does to the files what the changes say, one after the other and each at the path
  its name resolves to: all of them when it returns, an initial segment of them when it raises.\<close>

theorem patch_refines_changes:
  assumes "apply_changes H n ws False cs fs = (out, fs')" and "sound_root ws fs"
  shows "\<exists>k \<le> length cs. (\<not> isl out \<longrightarrow> k = length cs)
     \<and> spec_changes (resolve_path n fs ws) (take k cs) (files_of fs) = Some (files_of fs')"
  using assms by (rule apply_changes_spec)

theorem patch_refines_changes_witness:
  "\<exists>k fl. spec_changes (resolve_path 1 ex_files (workspace_at ex_patch_tool [''w''])) (take k [ex_change])
      (files_of ex_files) = Some fl \<and> fl [''w'', ''a''] = Some ''new''"
proof -
  obtain out fs' where run: "apply_changes ex_hash 1 (workspace_at ex_patch_tool [''w'']) False [ex_change] ex_files
      = (out, fs')" by (rule prod.exhaust)
  have "sound_root (workspace_at ex_patch_tool [''w'']) ex_files"
    using ex_files_tree by (simp add: sound_root_def workspace_at_def) (simp add: ex_files_def)
  moreover have "files_of fs' [''w'', ''a''] = Some ''new''" using ex_change_applies run by (simp add: files_of_def)
  ultimately show ?thesis using patch_refines_changes [OF run] by blast
qed

text \<open>A patch built from accepted changes survives its dictionary: reading it back gives the same
  patch, unless normalising left a tilde at the start of a path.\<close>

theorem patch_roundtrip:
  assumes "res_map (patch_change_init H) drafts = Inr cs" and "\<forall>c \<in> set cs. hd (change_path c) \<noteq> CHR ''~''"
    and "patch_diff_init (d\<lparr>file_changes := cs\<rparr>) = Inr diff" and "diff_dict H diff = Inr j"
  shows "diff_from_dict H rt j = Inr diff"
proof -
  have same: "file_changes diff = cs"
    using assms(3) by (auto simp: patch_diff_init_def res_bind_eq_Inr split: if_splits)
  have "patch_change_init H c = Inr c" if "c \<in> set (file_changes diff)" for c
  proof -
    from that same obtain c0 where "patch_change_init H c0 = Inr c"
      using res_map_Inr_in [OF assms(1), of c] by auto
    then show ?thesis using patch_change_init_again assms(2) that same by blast
  qed
  then show ?thesis using diff_from_dict_dict [OF assms(4)] patch_diff_init_again [OF assms(3)] by blast
qed

theorem patch_roundtrip_witness:
  "\<exists>j. diff_dict ex_hash ex_diff = Inr j \<and> diff_from_dict ex_hash ex_runtime j = Inr ex_diff"
proof -
  have "res_map (patch_change_init ex_hash) [ex_change] = Inr [ex_change]" by code_simp
  moreover have "\<forall>c \<in> set [ex_change]. hd (change_path c) \<noteq> CHR ''~''" by code_simp
  moreover have "patch_diff_init (ex_diff\<lparr>file_changes := [ex_change]\<rparr>) = Inr ex_diff" by code_simp
  moreover obtain j where "diff_dict ex_hash ex_diff = Inr j"
    using ok_withD [of "\<lambda>_. True" "diff_dict ex_hash ex_diff"] ex_diff_dict by blast
  ultimately show ?thesis using patch_roundtrip by blast
qed

end
