(* ===== verification/KernelRuntime.thy ===== *)
theory KernelRuntime
  imports PyState
begin

text \<open>
  The lifecycle of the kernel (\<open>kernel/runtime.py\<close>). Each method is a sequence of sections under the
  kernel's lock: \<open>initialize\<close> and \<open>stop\<close> are one, \<open>start\<close> is three, between which other threads run.
\<close>

datatype kernel_status =
  KERNEL_CREATED | KERNEL_INITIALIZING | KERNEL_READY | KERNEL_RUNNING | KERNEL_STOPPING | KERNEL_STOPPED

record kernel =
  kernel_id :: string
  kernel_status_of :: kernel_status
  kernel_environment :: string
  kernel_debug :: bool
  kernel_started_at :: "int option"
  kernel_stopped_at :: "int option"

definition new_kernel :: "string \<Rightarrow> string \<Rightarrow> bool \<Rightarrow> kernel" where
  "new_kernel fresh environment debug =
     \<lparr>kernel_id = ''bfk-'' @ fresh, kernel_status_of = KERNEL_CREATED, kernel_environment = environment,
      kernel_debug = debug, kernel_started_at = None, kernel_stopped_at = None\<rparr>"

text \<open>\<open>paths.ensure_exists()\<close> makes directories or raises: its outcome is \<open>made\<close>.\<close>

definition kernel_initialize :: "unit res \<Rightarrow> (kernel, unit) st" where
  "kernel_initialize made k =
     (if kernel_status_of k \<in> {KERNEL_READY, KERNEL_RUNNING} then (Inr (), k)
      else if kernel_status_of k \<in> {KERNEL_STOPPING, KERNEL_STOPPED}
      then (Inl (OtherError ''Cannot initialize a kernel that is stopping or stopped.''), k)
      else case made of
        Inl e \<Rightarrow> (Inl e, k\<lparr>kernel_status_of := KERNEL_INITIALIZING\<rparr>)
      | Inr _ \<Rightarrow> (Inr (), k\<lparr>kernel_status_of := KERNEL_READY\<rparr>))"

text \<open>The first section of \<open>start\<close> says whether there is anything left to do, the last one starts.\<close>

definition start_check :: "(kernel, bool) st" where
  "start_check k =
     (if kernel_status_of k = KERNEL_RUNNING then (Inr False, k)
      else if kernel_status_of k \<in> {KERNEL_STOPPING, KERNEL_STOPPED}
      then (Inl (OtherError ''Cannot start a kernel that is stopping or stopped.''), k)
      else (Inr True, k))"

definition start_commit :: "int \<Rightarrow> kernel \<Rightarrow> kernel" where
  "start_commit now k = k\<lparr>kernel_started_at := Some now, kernel_stopped_at := None,
     kernel_status_of := KERNEL_RUNNING\<rparr>"

definition kernel_start :: "unit res \<Rightarrow> int \<Rightarrow> (kernel, unit) st" where
  "kernel_start made now =
     st_bind start_check (\<lambda>go.
     if go then st_bind (kernel_initialize made) (\<lambda>_. (\<lambda>k. (Inr (), start_commit now k)))
     else st_return ())"

definition kernel_stop :: "int \<Rightarrow> kernel \<Rightarrow> kernel" where
  "kernel_stop now k =
     (if kernel_status_of k = KERNEL_STOPPED then k
      else k\<lparr>kernel_status_of := KERNEL_STOPPED, kernel_stopped_at := Some now\<rparr>)"

definition kernel_is_ready :: "kernel \<Rightarrow> bool" where
  "kernel_is_ready k = (kernel_status_of k \<in> {KERNEL_READY, KERNEL_RUNNING})"

section \<open>Calls one after the other\<close>

datatype kernel_call = CallInitialize "unit res" | CallStart "unit res" int | CallStop int

fun kernel_do :: "kernel_call \<Rightarrow> kernel \<Rightarrow> kernel" where
  "kernel_do (CallInitialize made) k = snd (kernel_initialize made k)"
| "kernel_do (CallStart made now) k = snd (kernel_start made now k)"
| "kernel_do (CallStop now) k = kernel_stop now k"

definition kernel_calls :: "kernel_call list \<Rightarrow> kernel \<Rightarrow> kernel" where
  "kernel_calls cs k = fold kernel_do cs k"

text \<open>What the instants say of the status.\<close>

definition kernel_ok :: "kernel \<Rightarrow> bool" where
  "kernel_ok k \<longleftrightarrow> (kernel_status_of k = KERNEL_RUNNING \<longrightarrow> kernel_started_at k \<noteq> None)
     \<and> (kernel_status_of k = KERNEL_STOPPED \<longleftrightarrow> kernel_stopped_at k \<noteq> None)
     \<and> kernel_status_of k \<noteq> KERNEL_STOPPING"

lemma kernel_do_ok: "kernel_ok k \<Longrightarrow> kernel_ok (kernel_do c k)"
  by (cases c)
    (auto simp: kernel_ok_def kernel_initialize_def kernel_start_def start_check_def start_commit_def
      kernel_stop_def st_bind_def split: sum.splits)

lemma kernel_do_stopped: "kernel_status_of k = KERNEL_STOPPED \<Longrightarrow> kernel_do c k = k"
  by (cases c) (auto simp: kernel_initialize_def kernel_start_def start_check_def kernel_stop_def st_bind_def)

lemma kernel_calls_stopped: "kernel_status_of k = KERNEL_STOPPED \<Longrightarrow> kernel_calls cs k = k"
  unfolding kernel_calls_def by (induction cs) (simp_all add: kernel_do_stopped)

section \<open>Threads\<close>

text \<open>
  A thread inside \<open>start\<close> is past its check or past its initialisation. The world is the kernel and
  how many threads are at each of the two points.
\<close>

record kernel_world =
  the_kernel :: kernel
  checked :: nat
  initialized :: nat

inductive kernel_step :: "kernel_world \<Rightarrow> kernel_world \<Rightarrow> bool" where
  k_init: "kernel_initialize made (the_kernel w) = (r, k) \<Longrightarrow> kernel_step w (w\<lparr>the_kernel := k\<rparr>)"
| k_stop: "kernel_step w (w\<lparr>the_kernel := kernel_stop now (the_kernel w)\<rparr>)"
| k_check: "start_check (the_kernel w) = (Inr True, k) \<Longrightarrow> kernel_step w (w\<lparr>checked := Suc (checked w)\<rparr>)"
| k_start_init: "checked w = Suc n \<Longrightarrow> kernel_initialize made (the_kernel w) = (r, k) \<Longrightarrow>
     kernel_step w (w\<lparr>the_kernel := k, checked := n,
       initialized := (if isl r then initialized w else Suc (initialized w))\<rparr>)"
| k_commit: "initialized w = Suc n \<Longrightarrow>
     kernel_step w (w\<lparr>the_kernel := start_commit now (the_kernel w), initialized := n\<rparr>)"

inductive kernel_run :: "kernel_world \<Rightarrow> kernel_world \<Rightarrow> bool" where
  k_here: "kernel_run w w"
| k_more: "kernel_run w w1 \<Longrightarrow> kernel_step w1 w2 \<Longrightarrow> kernel_run w w2"

inductive_cases kernel_stepE: "kernel_step w w'"

lemma kernel_initialize_stopped:
  "kernel_status_of k = KERNEL_STOPPED \<Longrightarrow> kernel_initialize made k = (r, k') \<Longrightarrow> isl r \<and> k' = k"
  by (auto simp: kernel_initialize_def)

text \<open>A stopped kernel stays stopped once no thread is between its initialisation and its commit.\<close>

definition finally_stopped :: "kernel_world \<Rightarrow> bool" where
  "finally_stopped w \<longleftrightarrow> kernel_status_of (the_kernel w) = KERNEL_STOPPED \<and> initialized w = 0"

lemma kernel_step_stopped: "kernel_step w w' \<Longrightarrow> finally_stopped w \<Longrightarrow> finally_stopped w'"
proof (induction rule: kernel_step.induct)
  case (k_start_init w n made r k)
  then show ?case using kernel_initialize_stopped [OF _ k_start_init(2)] by (simp add: finally_stopped_def)
qed (auto simp: finally_stopped_def kernel_stop_def dest: kernel_initialize_stopped)

lemma kernel_run_stopped: "kernel_run w w' \<Longrightarrow> finally_stopped w \<Longrightarrow> finally_stopped w'"
  by (induction rule: kernel_run.induct) (auto intro: kernel_step_stopped)

text \<open>Otherwise a start that was under way runs the stopped kernel again.\<close>

lemma stopped_kernel_restarts:
  assumes "kernel_status_of (the_kernel w) = KERNEL_CREATED"
  shows "\<exists>w1 w2. kernel_run w w1 \<and> kernel_status_of (the_kernel w1) = KERNEL_STOPPED
     \<and> kernel_step w1 w2 \<and> kernel_status_of (the_kernel w2) = KERNEL_RUNNING"
proof -
  let ?k = "the_kernel w"
  let ?a = "w\<lparr>checked := Suc (checked w)\<rparr>"
  let ?b = "w\<lparr>the_kernel := ?k\<lparr>kernel_status_of := KERNEL_READY\<rparr>, initialized := Suc (initialized w)\<rparr>"
  let ?c = "?b\<lparr>the_kernel := kernel_stop 1 (the_kernel ?b)\<rparr>"
  let ?d = "?c\<lparr>the_kernel := start_commit 2 (the_kernel ?c), initialized := initialized w\<rparr>"
  have "kernel_step w ?a" by (rule k_check) (simp add: start_check_def assms)
  moreover have "kernel_step ?a ?b"
    using k_start_init [of ?a "checked w" "Inr ()"] assms by (simp add: kernel_initialize_def)
  moreover have "kernel_step ?b ?c" by (rule k_stop)
  moreover have "kernel_step ?c ?d" using k_commit [of ?c "initialized w" 2] by simp
  ultimately have "kernel_run w ?c" "kernel_step ?c ?d" by (blast intro: kernel_run.intros)+
  moreover have "kernel_status_of (the_kernel ?c) = KERNEL_STOPPED" by (simp add: kernel_stop_def)
  moreover have "kernel_status_of (the_kernel ?d) = KERNEL_RUNNING" by (simp add: start_commit_def)
  ultimately show ?thesis by blast
qed

end
