(* ===== verification/Tasks.thy ===== *)
theory Tasks
  imports PyJson
begin

text \<open>
  The tasks of the kernel (\<open>kernel/tasks.py\<close>): requests with normalised texts, records with a
  lifecycle, and the records a task can ever have. Instants are those of the UTC clock.
\<close>

section \<open>Requests\<close>

datatype task_kind = TASK_UNKNOWN | PROGRAMMING | ARCHITECTURE | ANALYSIS | RESEARCH | EVALUATION | OPERATIONS

datatype task_state = PENDING | READY | RUNNING | COMPLETED | FAILED | CANCELED

fun task_state_value :: "task_state \<Rightarrow> string" where
  "task_state_value PENDING = ''pending''"
| "task_state_value READY = ''ready''"
| "task_state_value RUNNING = ''running''"
| "task_state_value COMPLETED = ''completed''"
| "task_state_value FAILED = ''failed''"
| "task_state_value CANCELED = ''canceled''"

datatype task_priority = PRIORITY_CRITICAL | PRIORITY_HIGH | PRIORITY_NORMAL | PRIORITY_LOW | PRIORITY_BACKGROUND

record task_input =
  task_prompt :: string
  task_metadata :: "json dict"
  task_attachments :: "string list"

definition task_input_init :: "task_input \<Rightarrow> task_input res" where
  "task_input_init i =
     (let cleaned = strip (task_prompt i) in
      if cleaned = [] then Inl (ValueError ''TaskInput prompt must not be empty.'')
      else Inr (i\<lparr>task_prompt := cleaned\<rparr>))"

record task_request =
  task_id :: string
  task_kind_of :: task_kind
  task_priority_of :: task_priority
  task_input_of :: task_input
  task_created_at :: int
  task_labels :: "string list"

text \<open>\<open>_normalize_labels\<close>: stripped and in lower case, blanks dropped, each once in order.\<close>

definition clean_labels :: "string list \<Rightarrow> string list" where
  "clean_labels xs = uniq (filter (\<lambda>c. c \<noteq> []) (map (\<lambda>s. lower (strip s)) xs))"

definition task_request_create ::
  "string \<Rightarrow> int \<Rightarrow> string \<Rightarrow> task_kind \<Rightarrow> task_priority \<Rightarrow> json dict \<Rightarrow> string list \<Rightarrow> string list
    \<Rightarrow> task_request res" where
  "task_request_create fresh now prompt kind priority metadata attachments labels =
     res_bind (task_input_init \<lparr>task_prompt = prompt, task_metadata = metadata, task_attachments = attachments\<rparr>)
       (\<lambda>i. Inr \<lparr>task_id = ''task-'' @ fresh, task_kind_of = kind, task_priority_of = priority,
          task_input_of = i, task_created_at = now, task_labels = clean_labels labels\<rparr>)"

section \<open>Records and their transitions\<close>

record task_record =
  record_request :: task_request
  task_state_of :: task_state
  started_at :: "int option"
  finished_at :: "int option"
  task_error :: "string option"
  result_summary :: "string option"

definition new_task :: "task_request \<Rightarrow> task_record" where
  "new_task q = \<lparr>record_request = q, task_state_of = PENDING, started_at = None, finished_at = None,
     task_error = None, result_summary = None\<rparr>"

text \<open>\<open>_normalize_optional_text\<close>\<close>

definition filled_or_none :: "string option \<Rightarrow> string option" where
  "filled_or_none v = (case v of None \<Rightarrow> None | Some s \<Rightarrow> if strip s = [] then None else Some (strip s))"

definition in_quotes :: "string \<Rightarrow> string" where
  "in_quotes s = [CHR 0x27] @ s @ [CHR 0x27]"

definition assert_transition :: "task_record \<Rightarrow> task_state list \<Rightarrow> task_state \<Rightarrow> unit res" where
  "assert_transition r allowed_from target =
     (if task_state_of r \<notin> set allowed_from
      then Inl (OtherError (''Cannot transition task from '' @ in_quotes (task_state_value (task_state_of r))
        @ '' to '' @ in_quotes (task_state_value target) @ ''. Allowed from: ''
        @ join '', '' (sort (map task_state_value allowed_from)) @ ''.''))
      else Inr ())"

definition mark_ready :: "task_record \<Rightarrow> task_record res" where
  "mark_ready r =
     res_bind (assert_transition r [PENDING] READY) (\<lambda>_. Inr (r\<lparr>task_state_of := READY\<rparr>))"

definition mark_running :: "int \<Rightarrow> task_record \<Rightarrow> task_record res" where
  "mark_running now r =
     res_bind (assert_transition r [PENDING, READY] RUNNING) (\<lambda>_.
       Inr (r\<lparr>task_state_of := RUNNING,
              started_at := (case started_at r of None \<Rightarrow> Some now | Some t \<Rightarrow> Some t),
              finished_at := None, task_error := None\<rparr>))"

definition mark_completed :: "int \<Rightarrow> string option \<Rightarrow> task_record \<Rightarrow> task_record res" where
  "mark_completed now summary r =
     res_bind (assert_transition r [RUNNING] COMPLETED) (\<lambda>_.
       Inr (r\<lparr>task_state_of := COMPLETED, finished_at := Some now, task_error := None,
              result_summary := filled_or_none summary\<rparr>))"

definition mark_failed :: "int \<Rightarrow> string \<Rightarrow> task_record \<Rightarrow> task_record res" where
  "mark_failed now message r =
     res_bind (assert_transition r [RUNNING] FAILED) (\<lambda>_.
       if strip message = [] then Inl (ValueError ''Task failure error message must not be empty.'')
       else Inr (r\<lparr>task_state_of := FAILED, finished_at := Some now, task_error := Some (strip message)\<rparr>))"

definition mark_canceled :: "int \<Rightarrow> string option \<Rightarrow> task_record \<Rightarrow> task_record res" where
  "mark_canceled now reason r =
     res_bind (assert_transition r [PENDING, READY, RUNNING] CANCELED) (\<lambda>_.
       Inr (r\<lparr>task_state_of := CANCELED, finished_at := Some now, result_summary := filled_or_none reason\<rparr>))"

section \<open>The lifecycle\<close>

inductive task_step :: "task_record \<Rightarrow> task_record \<Rightarrow> bool" where
  step_ready: "mark_ready r = Inr r' \<Longrightarrow> task_step r r'"
| step_running: "mark_running now r = Inr r' \<Longrightarrow> task_step r r'"
| step_completed: "mark_completed now summary r = Inr r' \<Longrightarrow> task_step r r'"
| step_failed: "mark_failed now message r = Inr r' \<Longrightarrow> task_step r r'"
| step_canceled: "mark_canceled now reason r = Inr r' \<Longrightarrow> task_step r r'"

text \<open>The records a task has had, the last one first.\<close>

inductive task_history :: "task_record list \<Rightarrow> bool" where
  history_new: "task_history [new_task q]"
| history_step: "task_history (r # rs) \<Longrightarrow> task_step r r' \<Longrightarrow> task_history (r' # r # rs)"

inductive_cases task_history_Cons: "task_history (r # rs)"

text \<open>What is recorded in each state.\<close>

definition task_record_ok :: "task_record \<Rightarrow> bool" where
  "task_record_ok r =
     (case task_state_of r of
        PENDING \<Rightarrow> started_at r = None \<and> finished_at r = None \<and> task_error r = None \<and> result_summary r = None
      | READY \<Rightarrow> started_at r = None \<and> finished_at r = None \<and> task_error r = None \<and> result_summary r = None
      | RUNNING \<Rightarrow> started_at r \<noteq> None \<and> finished_at r = None \<and> task_error r = None \<and> result_summary r = None
      | COMPLETED \<Rightarrow> started_at r \<noteq> None \<and> finished_at r \<noteq> None \<and> task_error r = None
      | FAILED \<Rightarrow> started_at r \<noteq> None \<and> finished_at r \<noteq> None
          \<and> (case task_error r of None \<Rightarrow> False | Some m \<Rightarrow> \<not> blank m) \<and> result_summary r = None
      | CANCELED \<Rightarrow> finished_at r \<noteq> None \<and> task_error r = None)"

text \<open>How many transitions are left at most.\<close>

fun steps_left :: "task_state \<Rightarrow> nat" where
  "steps_left PENDING = 3"
| "steps_left READY = 2"
| "steps_left RUNNING = 1"
| "steps_left _ = 0"

lemma assert_transition_Inr [simp]:
  "assert_transition r allowed target = Inr u \<longleftrightarrow> task_state_of r \<in> set allowed"
  by (simp add: assert_transition_def)

lemmas task_moves = mark_ready_def mark_running_def mark_completed_def mark_failed_def mark_canceled_def
  res_bind_eq_Inr

lemma blank_strip [simp]: "blank (strip s) \<longleftrightarrow> blank s"
  using strip_by_trimmed_id [OF trimmed_strip_by, of is_space s] by (simp add: blank_def strip_def)

lemma task_step_ok: "task_step r r' \<Longrightarrow> task_record_ok r \<Longrightarrow> task_record_ok r'"
  by (induction rule: task_step.induct)
    (auto simp: task_moves task_record_ok_def blank_def [symmetric] split: option.splits if_splits)

lemma task_step_down: "task_step r r' \<Longrightarrow> steps_left (task_state_of r') < steps_left (task_state_of r)"
  by (induction rule: task_step.induct) (auto simp: task_moves split: if_splits)

lemma task_step_request: "task_step r r' \<Longrightarrow> record_request r' = record_request r"
  by (induction rule: task_step.induct) (auto simp: task_moves split: if_splits)

lemma task_step_started: "task_step r r' \<Longrightarrow> started_at r = Some t \<Longrightarrow> started_at r' = Some t"
  by (induction rule: task_step.induct) (auto simp: task_moves split: if_splits)

lemma task_history_ok: "task_history rs \<Longrightarrow> \<forall>r \<in> set rs. task_record_ok r"
  by (induction rule: task_history.induct)
    (simp_all add: new_task_def task_record_ok_def [of "\<lparr>record_request = q, task_state_of = s, started_at = a,
       finished_at = b, task_error = c, result_summary = d\<rparr>" for q s a b c d] task_step_ok)

lemma task_history_bound:
  "task_history rs \<Longrightarrow> length rs + steps_left (task_state_of (hd rs)) \<le> 4"
proof (induction rule: task_history.induct)
  case (history_step r rs r')
  with task_step_down [OF history_step(2)] show ?case by simp
qed (simp add: new_task_def)

lemma task_history_request:
  "task_history rs \<Longrightarrow> record_request (hd rs) = record_request (last rs)"
  by (induction rule: task_history.induct) (auto simp: task_step_request)

text \<open>A terminal record has no step; a record that is not terminal can be cancelled.\<close>

lemma terminal_no_step: "steps_left (task_state_of r) = 0 \<Longrightarrow> \<not> task_step r r'"
  using task_step_down by fastforce

lemma live_can_cancel: "0 < steps_left (task_state_of r) \<Longrightarrow> \<exists>r'. mark_canceled now reason r = Inr r'"
  by (cases "task_state_of r") (auto simp: task_moves)

end
