(* ===== verification/SharedState.thy ===== *)
theory SharedState
  imports Tasks
begin

text \<open>
  The shared state of the kernel (\<open>kernel/state.py\<close>): values with versions under a namespace and a
  key. Every operation holds the store's lock, so a history is a sequence of whole operations.
\<close>

record 'v state_entry =
  entry_namespace :: string
  entry_key :: string
  entry_value :: 'v
  entry_version :: int
  entry_updated_at :: int
  entry_source :: "string option"

type_synonym 'v state_store = "((string \<times> string) \<times> 'v state_entry) list"

definition state_identifier :: "string \<Rightarrow> string \<Rightarrow> string res" where
  "state_identifier label s =
     (let cleaned = lower (strip s) in
      if cleaned = [] then Inl (ValueError (''State '' @ label @ '' must not be empty.'')) else Inr cleaned)"

definition state_key :: "string \<Rightarrow> string \<Rightarrow> (string \<times> string) res" where
  "state_key ns k =
     res_bind (state_identifier ''namespace'' ns) (\<lambda>n.
     res_bind (state_identifier ''key'' k) (\<lambda>m. Inr (n, m)))"

definition new_entry :: "(string \<times> string) \<Rightarrow> 'v \<Rightarrow> int \<Rightarrow> int \<Rightarrow> string option \<Rightarrow> 'v state_entry" where
  "new_entry nk v version now source =
     \<lparr>entry_namespace = fst nk, entry_key = snd nk, entry_value = v, entry_version = version,
      entry_updated_at = now, entry_source = filled_or_none source\<rparr>"

definition state_put ::
  "int \<Rightarrow> string \<Rightarrow> string \<Rightarrow> 'v \<Rightarrow> string option \<Rightarrow> 'v state_store \<Rightarrow> ('v state_entry \<times> 'v state_store) res" where
  "state_put now ns k v source st =
     res_bind (state_key ns k) (\<lambda>nk.
       let version = (case map_of st nk of None \<Rightarrow> 1 | Some previous \<Rightarrow> entry_version previous + 1);
           e = new_entry nk v version now source
       in Inr (e, AList.update nk e st))"

definition state_get :: "string \<Rightarrow> string \<Rightarrow> 'v state_store \<Rightarrow> 'v state_entry option res" where
  "state_get ns k st = res_bind (state_key ns k) (\<lambda>nk. Inr (map_of st nk))"

definition state_delete :: "string \<Rightarrow> string \<Rightarrow> 'v state_store \<Rightarrow> (bool \<times> 'v state_store) res" where
  "state_delete ns k st =
     res_bind (state_key ns k) (\<lambda>nk.
       if map_of st nk = None then Inr (False, st) else Inr (True, AList.delete nk st))"

definition compare_and_set ::
  "int \<Rightarrow> string \<Rightarrow> string \<Rightarrow> int \<Rightarrow> 'v \<Rightarrow> string option \<Rightarrow> 'v state_store
    \<Rightarrow> ('v state_entry option \<times> 'v state_store) res" where
  "compare_and_set now ns k expected v source st =
     (if expected < 1 then Inl (ValueError ''Expected version must be greater than or equal to 1.'')
      else
       res_bind (state_key ns k) (\<lambda>nk.
       case map_of st nk of
         None \<Rightarrow> Inr (None, st)
       | Some current \<Rightarrow>
          if entry_version current \<noteq> expected then Inr (None, st)
          else let e = new_entry nk v (entry_version current + 1) now source
               in Inr (Some e, AList.update nk e st)))"

definition state_namespaces :: "'v state_store \<Rightarrow> string list" where
  "state_namespaces st = sort (uniq (map (fst \<circ> fst) st))"

definition state_keys :: "string \<Rightarrow> 'v state_store \<Rightarrow> string list res" where
  "state_keys ns st =
     res_bind (state_identifier ''namespace'' ns) (\<lambda>n.
       Inr (sort (map (snd \<circ> fst) (filter (\<lambda>kv. fst (fst kv) = n) st))))"

definition state_snapshot :: "string option \<Rightarrow> 'v state_store \<Rightarrow> 'v state_entry list res" where
  "state_snapshot ns st =
     res_bind (case ns of None \<Rightarrow> Inr None
       | Some n \<Rightarrow> res_bind (state_identifier ''namespace'' n) (\<lambda>c. Inr (Some c))) (\<lambda>wanted.
       Inr (filter (\<lambda>e. wanted = None \<or> wanted = Some (entry_namespace e))
         (sort_key entry_namespace (sort_key entry_key (map snd st)))))"

section \<open>Histories\<close>

datatype 'v state_op =
    StatePut int string string 'v "string option"
  | StateDelete string string
  | StateCas int string string int 'v "string option"
  | StateClear

text \<open>The store after an operation; one that raises leaves it as it was.\<close>

fun state_step :: "'v state_op \<Rightarrow> 'v state_store \<Rightarrow> 'v state_store" where
  "state_step (StatePut now ns k v source) st =
     (case state_put now ns k v source st of Inl _ \<Rightarrow> st | Inr (_, st') \<Rightarrow> st')"
| "state_step (StateDelete ns k) st = (case state_delete ns k st of Inl _ \<Rightarrow> st | Inr (_, st') \<Rightarrow> st')"
| "state_step (StateCas now ns k expected v source) st =
     (case compare_and_set now ns k expected v source st of Inl _ \<Rightarrow> st | Inr (_, st') \<Rightarrow> st')"
| "state_step StateClear st = []"

definition state_run :: "'v state_op list \<Rightarrow> 'v state_store \<Rightarrow> 'v state_store" where
  "state_run ops st = fold state_step ops st"

text \<open>Whether an operation may remove the entry of a key.\<close>

fun removes :: "string \<times> string \<Rightarrow> 'v state_op \<Rightarrow> bool" where
  "removes nk (StateDelete ns k) = (state_key ns k = Inr nk)"
| "removes nk StateClear = True"
| "removes nk _ = False"

lemma lower_strip_idem: "state_identifier label s = Inr t \<Longrightarrow> state_identifier label' t = Inr t"
proof -
  assume "state_identifier label s = Inr t"
  then have t: "t = lower (strip s)" "t \<noteq> []" by (auto simp: state_identifier_def Let_def split: if_splits)
  have "trimmed_by is_space t"
    using trimmed_strip_by [of is_space s] t(2) unfolding t(1) lower_def strip_def trimmed_by_def
    by (auto simp: hd_map last_map is_space_lower_char)
  then have "strip t = t" by (simp add: strip_def strip_by_trimmed_id)
  moreover have "lower t = t" unfolding t(1) by (rule lower_idem)
  ultimately show ?thesis using t(2) by (simp add: state_identifier_def)
qed

text \<open>Keys are found again under their normal names.\<close>

lemma state_key_again: "state_key ns k = Inr (n, m) \<Longrightarrow> state_key n m = Inr (n, m)"
  using lower_strip_idem by (fastforce simp: state_key_def res_bind_eq_Inr)

section \<open>The store's invariant\<close>

definition state_ok_store :: "'v state_store \<Rightarrow> bool" where
  "state_ok_store st \<longleftrightarrow> distinct (map fst st)
     \<and> (\<forall>(nk, e) \<in> set st. (entry_namespace e, entry_key e) = nk \<and> 1 \<le> entry_version e)"

lemma state_ok_update:
  assumes "state_ok_store st" "1 \<le> version"
  shows "state_ok_store (AList.update nk (new_entry nk v version now source) st)"
proof -
  have "distinct (map fst (AList.update nk e st))" for e
    using assms(1) by (simp add: state_ok_store_def distinct_update)
  moreover have "(k, e) \<in> set (AList.update nk e' st) \<Longrightarrow> (k, e) = (nk, e') \<or> (k, e) \<in> set st" for k e e'
    by (induction st) (auto split: if_splits)
  ultimately show ?thesis using assms unfolding state_ok_store_def by (fastforce simp: new_entry_def)
qed

lemma state_ok_delete: "state_ok_store st \<Longrightarrow> state_ok_store (AList.delete nk st)"
  unfolding state_ok_store_def by (auto simp: AList.delete_eq distinct_map_filter)

lemma state_ok_version: "state_ok_store st \<Longrightarrow> map_of st nk = Some e \<Longrightarrow> 1 \<le> entry_version e"
  unfolding state_ok_store_def by (auto dest: map_of_SomeD)

lemma state_step_ok: "state_ok_store st \<Longrightarrow> state_ok_store (state_step op st)"
  by (cases op)
    (auto simp: state_put_def state_delete_def compare_and_set_def res_bind_def Let_def
      split: sum.splits option.splits if_splits
      intro!: state_ok_update state_ok_delete dest: state_ok_version simp: state_ok_store_def [of "[]"])

lemma state_run_ok: "state_ok_store st \<Longrightarrow> state_ok_store (state_run ops st)"
  unfolding state_run_def by (induction ops arbitrary: st) (simp_all add: state_step_ok)

section \<open>Versions\<close>

text \<open>An entry that is not removed is kept as it is or replaced under a higher version.\<close>

definition newer :: "'v state_entry option \<Rightarrow> 'v state_entry option \<Rightarrow> bool" where
  "newer before after \<longleftrightarrow> (case before of None \<Rightarrow> True
     | Some e \<Rightarrow> (case after of None \<Rightarrow> False | Some e' \<Rightarrow> e' = e \<or> entry_version e < entry_version e'))"

lemma newer_refl [simp]: "newer x x"
  by (auto simp: newer_def split: option.splits)

lemma newer_trans: "newer x y \<Longrightarrow> newer y z \<Longrightarrow> newer x z"
  by (auto simp: newer_def split: option.splits)

lemma state_step_newer: "\<not> removes nk op \<Longrightarrow> newer (map_of st nk) (map_of (state_step op st) nk)"
  by (cases op)
    (auto simp: state_put_def state_delete_def compare_and_set_def res_bind_def Let_def update_conv'
        delete_conv' newer_def new_entry_def restrict_map_def
      split: sum.splits option.splits if_splits)

lemma state_run_newer:
  "\<forall>op \<in> set ops. \<not> removes nk op \<Longrightarrow> newer (map_of st nk) (map_of (state_run ops st) nk)"
proof (induction ops arbitrary: st)
  case (Cons op ops)
  then show ?case using newer_trans [OF state_step_newer [of nk op st] Cons.IH [of "state_step op st"]]
    by (simp add: state_run_def)
qed (simp add: state_run_def)

lemma compare_and_set_Some:
  assumes "compare_and_set now ns k expected v source st = Inr (Some e, st')"
  obtains nk current where "state_key ns k = Inr nk" "map_of st nk = Some current"
    "entry_version current = expected" "map_of st' nk = Some e" "entry_version e = expected + 1" "entry_value e = v"
    "\<And>other. other \<noteq> nk \<Longrightarrow> map_of st' other = map_of st other"
proof -
  from assms obtain nk where nk: "state_key ns k = Inr nk"
    by (auto simp: compare_and_set_def res_bind_eq_Inr split: if_splits)
  with assms obtain current where current: "map_of st nk = Some current"
    by (cases "map_of st nk") (simp_all add: compare_and_set_def split: if_splits)
  have "entry_version current = expected" "e = new_entry nk v (expected + 1) now source" "st' = AList.update nk e st"
    using assms nk current by (auto simp: compare_and_set_def Let_def split: if_splits)
  then show thesis using that [OF nk current] by (simp add: update_conv' new_entry_def)
qed

text \<open>A compare-and-set that succeeds replaces the very entry whose version it was given.\<close>

lemma cas_replaces_read:
  assumes "state_get ns k st = Inr (Some read)" and "state_key ns k = Inr nk"
    and "\<forall>op \<in> set ops. \<not> removes nk op"
    and "compare_and_set now ns k (entry_version read) v source (state_run ops st) = Inr (Some e, st')"
  shows "map_of (state_run ops st) nk = Some read"
proof -
  have "map_of st nk = Some read" using assms(1,2) by (simp add: state_get_def)
  then have "newer (Some read) (map_of (state_run ops st) nk)" using state_run_newer [OF assms(3), of st] by simp
  moreover obtain current where "map_of (state_run ops st) nk = Some current"
    "entry_version current = entry_version read"
    using assms(2,4) by (auto elim!: compare_and_set_Some)
  ultimately show ?thesis by (simp add: newer_def)
qed

text \<open>Deleting a key starts its versions again, so an old version can match a later entry.\<close>

lemma cas_after_delete:
  "map_option entry_version (map_of (state_run [StatePut 0 ''a'' ''b'' (3 :: int) None] []) (''a'', ''b'')) = Some 1"
  "map_option entry_version (map_of (state_run [StatePut 0 ''a'' ''b'' (3 :: int) None, StateDelete ''a'' ''b'',
     StatePut 1 ''a'' ''b'' 7 None] []) (''a'', ''b'')) = Some 1"
  by code_simp+

end
