(* ===== verification/Governance.thy ===== *)
theory Governance
  imports SharedState ToolRequests
begin

text \<open>
  The governance of actions (\<open>governance/models.py\<close>, \<open>policy.py\<close>): intents, risk profiles with the
  record of how safety findings were merged in, and the policy's decision.
\<close>

section \<open>Intents and risk profiles\<close>

datatype action_kind =
  PATCH_PLAN | FILE_WRITE_ACTION | COMMAND_ACTION | TEST_RUN | STATE_MUTATION | ARTIFACT_EXPORT | NETWORK_EGRESS

fun action_kind_value :: "action_kind \<Rightarrow> string" where
  "action_kind_value PATCH_PLAN = ''patch_plan''"
| "action_kind_value FILE_WRITE_ACTION = ''file_write''"
| "action_kind_value COMMAND_ACTION = ''command''"
| "action_kind_value TEST_RUN = ''test_run''"
| "action_kind_value STATE_MUTATION = ''state_mutation''"
| "action_kind_value ARTIFACT_EXPORT = ''artifact_export''"
| "action_kind_value NETWORK_EGRESS = ''network_egress''"

datatype governance_risk = GOV_LOW | GOV_MODERATE | GOV_HIGH | GOV_CRITICAL

record action_intent =
  intent_id :: string
  intent_task_id :: string
  intent_kind :: action_kind
  intent_summary :: string
  intent_rationale :: string
  target_locator :: string
  intent_requested_at :: int
  intent_requested_by :: "string option"
  intent_labels :: "string list"
  intent_metadata :: "json dict"

definition required_text :: "string \<Rightarrow> string \<Rightarrow> string res" where
  "required_text label s =
     (if strip s = [] then Inl (ValueError (label @ '' must not be empty.'')) else Inr (strip s))"

definition normalize_target_locator :: "string \<Rightarrow> string res" where
  "normalize_target_locator s =
     (let cleaned = replace_char CHR 0x5C CHR ''/'' (strip s) in
      if cleaned = [] then Inl (ValueError ''target_locator must not be empty.'') else Inr cleaned)"

text \<open>\<open>ActionIntent.create\<close> from the fields as given, with a fresh identifier and the clock's instant.\<close>

definition action_intent_create :: "string \<Rightarrow> int \<Rightarrow> action_intent \<Rightarrow> action_intent res" where
  "action_intent_create fresh now i =
     res_bind (tool_identifier ''task_id'' (intent_task_id i)) (\<lambda>task.
     res_bind (required_text ''summary'' (intent_summary i)) (\<lambda>summary.
     res_bind (required_text ''rationale'' (intent_rationale i)) (\<lambda>rationale.
     res_bind (normalize_target_locator (target_locator i)) (\<lambda>target.
       Inr (i\<lparr>intent_id := ''intent-'' @ fresh, intent_task_id := task, intent_summary := summary,
              intent_rationale := rationale, target_locator := target, intent_requested_at := now,
              intent_requested_by := filled_or_none (intent_requested_by i),
              intent_labels := clean_labels (intent_labels i)\<rparr>)))))"

record risk_factor =
  factor_code :: string
  factor_description :: string

definition risk_factor_init :: "risk_factor \<Rightarrow> risk_factor res" where
  "risk_factor_init f =
     res_bind (tool_identifier ''risk factor code'' (factor_code f)) (\<lambda>c.
     res_bind (required_text ''risk factor description'' (factor_description f)) (\<lambda>d.
       Inr (f\<lparr>factor_code := c, factor_description := d\<rparr>)))"

datatype safeguard_disposition = SAFEGUARD_ALLOW | SAFEGUARD_REVIEW | SAFEGUARD_BLOCK

datatype safeguard_severity = SEVERITY_INFO | SEVERITY_LOW | SEVERITY_MODERATE | SEVERITY_HIGH | SEVERITY_CRITICAL

record safety_merge =
  advisory_disposition :: safeguard_disposition
  merge_finding_count :: int
  merge_finding_codes :: "string list"
  merge_policy_tags :: "string list"
  highest_severity :: "safeguard_severity option"
  original_risk_level :: "governance_risk option"
  merged_risk_level :: "governance_risk option"
  elevated_risk :: bool
  forced_review :: bool
  merge_rationale :: string

definition safety_merge_init :: "safety_merge \<Rightarrow> safety_merge res" where
  "safety_merge_init m =
     (if merge_finding_count m < 0 then Inl (ValueError ''finding_count must be zero or greater.'')
      else if merge_finding_count m = 0 \<and> advisory_disposition m \<noteq> SAFEGUARD_ALLOW
      then Inl (ValueError ''Safety merges without findings must use advisory_disposition=ALLOW.'')
      else Inr (m\<lparr>merge_finding_codes := clean_labels (merge_finding_codes m),
                  merge_policy_tags := clean_labels (merge_policy_tags m),
                  merge_rationale := strip (merge_rationale m)\<rparr>))"

record risk_profile =
  profile_intent_id :: string
  profile_risk :: governance_risk
  requires_approval :: bool
  profile_factors :: "risk_factor list"
  profile_tags :: "string list"
  profile_merge :: "safety_merge option"

definition risk_profile_init :: "risk_profile \<Rightarrow> risk_profile res" where
  "risk_profile_init p =
     res_bind (tool_identifier ''intent_id'' (profile_intent_id p)) (\<lambda>iid.
       if requires_approval p \<and> profile_factors p = []
       then Inl (ValueError ''Approval-required action risk profiles must include at least one factor.'')
       else Inr (p\<lparr>profile_intent_id := iid, profile_tags := clean_labels (profile_tags p)\<rparr>))"

section \<open>The policy\<close>

datatype governance_decision = GOV_ALLOW | GOV_REQUIRE_REVIEW | GOV_BLOCK

datatype governance_reason =
  LOW_RISK_DEFAULT | MODERATE_RISK_DEFAULT | REASON_APPROVAL_REQUIRED | HIGH_RISK_REQUIRES_REVIEW
  | CRITICAL_RISK_BLOCKED | ACTION_KIND_BLOCKED

record policy_outcome =
  outcome_intent_id :: string
  outcome_decision :: governance_decision
  outcome_reason :: governance_reason
  outcome_rationale :: string
  outcome_decided_at :: int
  matched_rules :: "string list"

definition policy_outcome_init :: "policy_outcome \<Rightarrow> policy_outcome res" where
  "policy_outcome_init d =
     res_bind (tool_identifier ''intent_id'' (outcome_intent_id d)) (\<lambda>iid.
       if strip (outcome_rationale d) = []
       then Inl (ValueError ''Policy decision rationale must not be empty.'')
       else Inr (d\<lparr>outcome_intent_id := iid, outcome_rationale := strip (outcome_rationale d),
                   matched_rules := clean_labels (matched_rules d)\<rparr>))"

record governance_policy =
  blocked_action_kinds :: "action_kind list"
  allow_moderate_risk_by_default :: bool

definition default_governance_policy :: governance_policy where
  "default_governance_policy =
     \<lparr>blocked_action_kinds = [NETWORK_EGRESS], allow_moderate_risk_by_default = True\<rparr>"

definition decide_action ::
  "string \<Rightarrow> int \<Rightarrow> governance_decision \<Rightarrow> governance_reason \<Rightarrow> string \<Rightarrow> string list \<Rightarrow> policy_outcome res" where
  "decide_action iid now decision reason rationale rules = policy_outcome_init
     \<lparr>outcome_intent_id = iid, outcome_decision = decision, outcome_reason = reason,
      outcome_rationale = rationale, outcome_decided_at = now, matched_rules = rules\<rparr>"

definition evaluate_action :: "int \<Rightarrow> governance_policy \<Rightarrow> action_intent \<Rightarrow> risk_profile \<Rightarrow> policy_outcome res" where
  "evaluate_action now pol i p =
     res_bind (tool_identifier ''intent_id'' (intent_id i)) (\<lambda>iid.
       if iid \<noteq> profile_intent_id p
       then Inl (ValueError ''Action intent and action risk profile must reference the same intent_id.'')
       else if intent_kind i \<in> set (blocked_action_kinds pol)
       then decide_action iid now GOV_BLOCK ACTION_KIND_BLOCKED
         (''Action kind '' @ in_quotes (action_kind_value (intent_kind i)) @ '' is blocked by governance policy.'')
         [''blocked-action-kind'', action_kind_value (intent_kind i)]
       else if profile_risk p = GOV_CRITICAL
       then decide_action iid now GOV_BLOCK CRITICAL_RISK_BLOCKED
         ''Critical-risk actions are blocked by default governance policy.'' [''critical-risk-block'']
       else if profile_risk p = GOV_HIGH
       then decide_action iid now GOV_REQUIRE_REVIEW HIGH_RISK_REQUIRES_REVIEW
         ''High-risk actions require governance review before execution.'' [''high-risk-review'']
       else if requires_approval p
       then decide_action iid now GOV_REQUIRE_REVIEW REASON_APPROVAL_REQUIRED
         ''Action risk profile explicitly requires approval before execution.'' [''explicit-approval-required'']
       else if profile_risk p = GOV_MODERATE \<and> allow_moderate_risk_by_default pol
       then decide_action iid now GOV_ALLOW MODERATE_RISK_DEFAULT
         ''Moderate-risk action is allowed by default governance policy.'' [''moderate-risk-default'']
       else decide_action iid now GOV_ALLOW LOW_RISK_DEFAULT
         ''Low-risk action is allowed by default governance policy.'' [''low-risk-default''])"

section \<open>What the policy decides\<close>

text \<open>The decision as a table, the strictest row first.\<close>

definition governance_table :: "governance_policy \<Rightarrow> action_intent \<Rightarrow> risk_profile \<Rightarrow> governance_decision" where
  "governance_table pol i p =
     (if intent_kind i \<in> set (blocked_action_kinds pol) \<or> profile_risk p = GOV_CRITICAL then GOV_BLOCK
      else if profile_risk p = GOV_HIGH \<or> requires_approval p then GOV_REQUIRE_REVIEW
      else GOV_ALLOW)"

lemma decide_action_Inr: "decide_action iid now decision reason rationale rules = Inr d \<Longrightarrow> outcome_decision d = decision"
  by (auto simp: decide_action_def policy_outcome_init_def res_bind_eq_Inr split: if_splits)

lemma evaluate_action_table:
  assumes "evaluate_action now pol i p = Inr d"
  shows "outcome_decision d = governance_table pol i p"
proof -
  obtain iid where iid: "tool_identifier ''intent_id'' (intent_id i) = Inr iid"
    using assms by (auto simp: evaluate_action_def res_bind_eq_Inr)
  have same: "iid = profile_intent_id p"
    using assms by (simp add: evaluate_action_def iid split: if_splits)
  show ?thesis
    using assms unfolding evaluate_action_def governance_table_def iid res_bind_Inr same
    by (simp only: refl simp_thms if_False split: if_split_asm) (simp_all add: decide_action_Inr)
qed

text \<open>The reason given for an action that is allowed, and only for one, is a default.\<close>

lemma decide_action_reason:
  "decide_action iid now decision reason rationale rules = Inr d \<Longrightarrow> outcome_reason d = reason"
  by (auto simp: decide_action_def policy_outcome_init_def res_bind_eq_Inr split: if_splits)

lemma evaluate_action_reason:
  assumes "evaluate_action now pol i p = Inr d"
  shows "tool_identifier ''intent_id'' (intent_id i) = Inr (profile_intent_id p)"
    and "outcome_reason d \<in> {LOW_RISK_DEFAULT, MODERATE_RISK_DEFAULT} \<longleftrightarrow> outcome_decision d = GOV_ALLOW"
proof -
  obtain iid where iid: "tool_identifier ''intent_id'' (intent_id i) = Inr iid"
    using assms by (auto simp: evaluate_action_def res_bind_eq_Inr)
  have same: "iid = profile_intent_id p"
    using assms by (simp add: evaluate_action_def iid split: if_splits)
  show "tool_identifier ''intent_id'' (intent_id i) = Inr (profile_intent_id p)" using iid same by simp
  show "outcome_reason d \<in> {LOW_RISK_DEFAULT, MODERATE_RISK_DEFAULT} \<longleftrightarrow> outcome_decision d = GOV_ALLOW"
    using assms unfolding evaluate_action_def iid res_bind_Inr same
    by (simp only: refl simp_thms if_False split: if_split_asm)
      (simp_all add: decide_action_Inr decide_action_reason)
qed

text \<open>
  The switch for moderate risk only changes the reason: without it a moderate action is allowed as
  one of low risk.
\<close>

lemma moderate_switch_table:
  "governance_table (pol\<lparr>allow_moderate_risk_by_default := b\<rparr>) i p = governance_table pol i p"
  by (simp add: governance_table_def)

end
