(* ===== verification/ChainedReceipts.thy ===== *)
theory ChainedReceipts
  imports ToolReceipts
begin

text \<open>
  Several ledgers of the program chain their receipts in the same way: a receipt names the one
  before it and that one's digest, and carries a digest of its own. The locale states what such a
  ledger's check does; its lemmas hold for each of them. Here it is interpreted on the receipts of
  tool invocations, in \<open>GovernanceReceipts\<close> on those of governed actions.
\<close>

locale receipt_chain =
  fixes rid :: "'r \<Rightarrow> string" and prev_id :: "'r \<Rightarrow> string option" and prev_digest :: "'r \<Rightarrow> string option"
    and own_digest :: "'r \<Rightarrow> string" and compute :: "'r \<Rightarrow> string res"
    and check :: "'r option \<Rightarrow> 'r list \<Rightarrow> bool res"
  assumes check_Nil: "check before [] = Inr True"
    and check_Cons: "check before (r # rs) = Inr True \<longleftrightarrow>
      prev_id r = map_option rid before \<and> prev_digest r = map_option own_digest before
      \<and> compute r = Inr (own_digest r) \<and> check (Some r) rs = Inr True"
begin

lemma check_append:
  "check before (xs @ ys) = Inr True \<longleftrightarrow> check before xs = Inr True \<and> check (last_or before xs) ys = Inr True"
proof (induction xs arbitrary: before)
  case Nil
  then show ?case by (simp add: check_Nil last_or_def)
next
  case (Cons x xs)
  have "last_or before (x # xs) = last_or (Some x) xs" by (simp add: last_or_def)
  with Cons.IH [of "Some x"] show ?case by (simp add: check_Cons)
qed

lemma check_snoc:
  "check before (xs @ [r]) = Inr True \<longleftrightarrow> check before xs = Inr True
     \<and> prev_id r = map_option rid (last_or before xs) \<and> prev_digest r = map_option own_digest (last_or before xs)
     \<and> compute r = Inr (own_digest r)"
  by (simp add: check_append check_Cons check_Nil)

text \<open>Every receipt of a checked chain carries its own digest, and the next one repeats it.\<close>

lemma check_member: "check before xs = Inr True \<Longrightarrow> r \<in> set xs \<Longrightarrow> compute r = Inr (own_digest r)"
  by (induction xs arbitrary: before) (auto simp: check_Cons)

lemma check_next: "check before (xs @ r # s # ys) = Inr True \<Longrightarrow> prev_digest s = Some (own_digest r) \<and> prev_id s = Some (rid r)"
  by (simp add: check_append check_Cons)

text \<open>Putting another receipt in the place of one that has a successor is noticed, unless both have
  the same digest.\<close>

lemma replaced_noticed:
  assumes "check before (xs @ r # s # ys) = Inr True" "check before (xs @ r' # s # ys) = Inr True"
  shows "own_digest r' = own_digest r"
  using check_next [OF assms(1)] check_next [OF assms(2)] by simp

text \<open>Dropping a receipt that has a successor is noticed as long as receipts have different ids.\<close>

lemma dropped_noticed:
  assumes "check before (xs @ p # r # s # ys) = Inr True" "check before (xs @ p # s # ys) = Inr True"
  shows "rid p = rid r"
  using check_next [of before "xs @ [p]" r s ys] check_next [of before xs p s ys] assms by simp

end

interpretation tool_chain: receipt_chain receipt_id previous_receipt_id previous_chain_digest chain_digest
  "compute_chain_digest H" "verify_receipts H" for H
  by unfold_locales (auto simp: verify_receipts_Cons receipt_links_def)

end
