(* ===== verification/GovernanceReceipts.thy ===== *)
theory GovernanceReceipts
  imports Governance ChainedReceipts
begin

text \<open>
  The receipts of governed actions (\<open>governance/receipt.py\<close>): one chain per intent in a shared
  ledger. The ledger's check is an instance of the chained receipts.
\<close>

datatype governance_event =
  POLICY_ALLOWED | POLICY_REVIEW_REQUIRED | EVENT_POLICY_BLOCKED | APPROVAL_RECORDED | APPROVAL_REJECTED
  | EXECUTION_STARTED | EXECUTION_COMPLETED | EXECUTION_FAILED | VERIFICATION_PASSED | VERIFICATION_FAILED

fun governance_event_value :: "governance_event \<Rightarrow> string" where
  "governance_event_value POLICY_ALLOWED = ''policy_allowed''"
| "governance_event_value POLICY_REVIEW_REQUIRED = ''policy_review_required''"
| "governance_event_value EVENT_POLICY_BLOCKED = ''policy_blocked''"
| "governance_event_value APPROVAL_RECORDED = ''approval_recorded''"
| "governance_event_value APPROVAL_REJECTED = ''approval_rejected''"
| "governance_event_value EXECUTION_STARTED = ''execution_started''"
| "governance_event_value EXECUTION_COMPLETED = ''execution_completed''"
| "governance_event_value EXECUTION_FAILED = ''execution_failed''"
| "governance_event_value VERIFICATION_PASSED = ''verification_passed''"
| "governance_event_value VERIFICATION_FAILED = ''verification_failed''"

record governance_receipt =
  gov_receipt_id :: string
  gov_intent_id :: string
  gov_event :: governance_event
  gov_summary :: string
  gov_previous_id :: "string option"
  gov_previous_digest :: "string option"
  gov_digest :: string
  gov_created_at :: int
  gov_actor :: "string option"
  gov_metadata :: "json dict"

definition gov_payload :: "governance_receipt \<Rightarrow> json" where
  "gov_payload r = JObj
     [(''receipt_id'', JStr (gov_receipt_id r)), (''intent_id'', JStr (gov_intent_id r)),
      (''event_type'', JStr (governance_event_value (gov_event r))), (''summary'', JStr (gov_summary r)),
      (''previous_chain_digest'', json_opt (gov_previous_digest r)),
      (''actor'', json_opt (gov_actor r)), (''metadata'', JObj (gov_metadata r))]"

definition compute_gov_digest :: "(string \<Rightarrow> string) \<Rightarrow> governance_receipt \<Rightarrow> string res" where
  "compute_gov_digest H r = plain_digest H (gov_payload r)"

definition gov_receipt_init :: "governance_receipt \<Rightarrow> governance_receipt res" where
  "gov_receipt_init r =
     res_bind (tool_identifier ''receipt_id'' (gov_receipt_id r)) (\<lambda>rid.
     res_bind (tool_identifier ''intent_id'' (gov_intent_id r)) (\<lambda>iid.
     res_bind (required_text ''summary'' (gov_summary r)) (\<lambda>summary.
       Inr (r\<lparr>gov_receipt_id := rid, gov_intent_id := iid, gov_summary := summary,
              gov_actor := filled_or_none (gov_actor r)\<rparr>))))"

type_synonym governance_ledger = "governance_receipt list"

definition gov_chain_of :: "string \<Rightarrow> governance_ledger \<Rightarrow> governance_ledger" where
  "gov_chain_of iid led = filter (\<lambda>r. gov_intent_id r = iid) led"

definition latest_for_intent :: "governance_ledger \<Rightarrow> string \<Rightarrow> governance_receipt option" where
  "latest_for_intent led iid = List.find (\<lambda>r. gov_intent_id r = iid) (rev led)"

definition append_gov_receipt ::
  "(string \<Rightarrow> string) \<Rightarrow> string \<Rightarrow> int \<Rightarrow> string \<Rightarrow> governance_event \<Rightarrow> string \<Rightarrow> string option \<Rightarrow> json dict
    \<Rightarrow> governance_ledger \<Rightarrow> (governance_receipt \<times> governance_ledger) res" where
  "append_gov_receipt H fresh now intent event summary actor metadata led =
     res_bind (tool_identifier ''intent_id'' intent) (\<lambda>iid.
     res_bind (required_text ''summary'' summary) (\<lambda>cleaned.
       let previous = latest_for_intent led iid;
           draft = \<lparr>gov_receipt_id = ''receipt-'' @ fresh, gov_intent_id = iid, gov_event = event,
             gov_summary = cleaned, gov_previous_id = map_option gov_receipt_id previous,
             gov_previous_digest = map_option gov_digest previous, gov_digest = [],
             gov_created_at = now, gov_actor = filled_or_none actor, gov_metadata = metadata\<rparr>
       in res_bind (compute_gov_digest H draft) (\<lambda>d.
          res_bind (gov_receipt_init (draft\<lparr>gov_digest := d\<rparr>)) (\<lambda>r. Inr (r, led @ [r])))))"

fun verify_gov_receipts :: "(string \<Rightarrow> string) \<Rightarrow> governance_receipt option \<Rightarrow> governance_receipt list \<Rightarrow> bool res" where
  "verify_gov_receipts H before [] = Inr True"
| "verify_gov_receipts H before (r # rs) =
     (if gov_previous_id r \<noteq> map_option gov_receipt_id before then Inr False
      else if gov_previous_digest r \<noteq> map_option gov_digest before then Inr False
      else res_bind (compute_gov_digest H r) (\<lambda>d.
        if gov_digest r \<noteq> d then Inr False else verify_gov_receipts H (Some r) rs))"

definition verify_intent_chain :: "(string \<Rightarrow> string) \<Rightarrow> governance_ledger \<Rightarrow> string \<Rightarrow> bool res" where
  "verify_intent_chain H led intent =
     res_bind (tool_identifier ''intent_id'' intent) (\<lambda>iid. verify_gov_receipts H None (gov_chain_of iid led))"

interpretation gov_chain: receipt_chain gov_receipt_id gov_previous_id gov_previous_digest gov_digest
  "compute_gov_digest H" "verify_gov_receipts H" for H
  by unfold_locales (auto simp: res_bind_eq_Inr)

declare verify_gov_receipts.simps(2) [simp del]

section \<open>The ledger stays verified\<close>

definition gov_verified :: "(string \<Rightarrow> string) \<Rightarrow> governance_ledger \<Rightarrow> bool" where
  "gov_verified H led \<longleftrightarrow> (\<forall>iid. verify_gov_receipts H None (gov_chain_of iid led) = Inr True)"

lemma gov_chain_snoc:
  "gov_chain_of iid (led @ [r]) = (if gov_intent_id r = iid then gov_chain_of iid led @ [r] else gov_chain_of iid led)"
  by (simp add: gov_chain_of_def)

lemma latest_for_intent_last: "latest_for_intent led iid = last_or None (gov_chain_of iid led)"
  by (simp add: latest_for_intent_def gov_chain_of_def find_rev)

lemma gov_receipt_init_Inr:
  assumes "gov_receipt_init r = Inr r'"
  shows "gov_digest r' = gov_digest r" "gov_previous_id r' = gov_previous_id r"
    "gov_previous_digest r' = gov_previous_digest r" "gov_event r' = gov_event r" "gov_metadata r' = gov_metadata r"
    "tool_identifier ''receipt_id'' (gov_receipt_id r) = Inr (gov_receipt_id r')"
    "tool_identifier ''intent_id'' (gov_intent_id r) = Inr (gov_intent_id r')"
    "gov_summary r' = strip (gov_summary r)" "gov_actor r' = filled_or_none (gov_actor r)"
  using assms by (auto simp: gov_receipt_init_def required_text_def res_bind_eq_Inr split: if_splits)

text \<open>Texts that are normal already stay as they are.\<close>

lemma tool_identifier_again:
  assumes "tool_identifier label s = Inr t"
  shows "tool_identifier label' t = Inr t"
proof -
  let ?u = "lower (strip s)"
  have t: "t = replace_char CHR '' '' CHR ''-'' ?u" "t \<noteq> []"
    using assms by (auto simp: tool_identifier_def Let_def split: if_splits)
  have "strip s \<noteq> []" using t by (auto simp: lower_def replace_char_def)
  then have "\<not> is_space (hd (strip s))" "\<not> is_space (last (strip s))"
    using trimmed_strip_by [of is_space s] by (auto simp: strip_def trimmed_by_def)
  then have "trimmed_by is_space t" using \<open>strip s \<noteq> []\<close> unfolding t(1) trimmed_by_def
    by (auto simp: replace_char_def lower_def hd_map last_map is_space_lower_char)
  then have "strip t = t" by (simp add: strip_def strip_by_trimmed_id)
  moreover have "lower t = t" unfolding t(1) replace_char_def lower_def
    by (simp add: comp_def if_distrib lower_char_idem cong: if_cong)
  moreover have "replace_char CHR '' '' CHR ''-'' t = t" unfolding t(1) replace_char_def by simp
  ultimately show ?thesis using t(2) by (simp add: tool_identifier_def)
qed

lemma strip_strip: "strip (strip s) = strip s"
  using strip_by_trimmed_id [OF trimmed_strip_by, of is_space s] by (simp add: strip_def)

lemma filled_or_none_again [simp]: "filled_or_none (filled_or_none v) = filled_or_none v"
  by (auto simp: filled_or_none_def strip_strip split: option.splits)

lemma receipt_id_normal:
  assumes "list_all is_lower_hex fresh"
  shows "tool_identifier label (''receipt-'' @ fresh) = Inr (''receipt-'' @ fresh)"
proof -
  let ?id = "''receipt-'' @ fresh"
  have "last ?id = CHR ''-'' \<or> (fresh \<noteq> [] \<and> \<not> is_space (last ?id))"
    using lower_hex_text(3) [OF assms] by (cases "fresh = []") (auto simp: trimmed_by_def)
  then have "trimmed_by is_space ?id" by (auto simp: trimmed_by_def is_space_def code_point_def Let_def)
  then have "strip ?id = ?id" by (simp add: strip_def strip_by_trimmed_id)
  moreover have "lower ''receipt-'' = ''receipt-''" by code_simp
  then have "lower ?id = ?id" using lower_hex_text(1) [OF assms] by (simp add: lower_def)
  moreover have "replace_char CHR '' '' CHR ''-'' ''receipt-'' = ''receipt-''" by code_simp
  then have "replace_char CHR '' '' CHR ''-'' ?id = ?id"
    using lower_hex_text(2) [OF assms] by (simp add: replace_char_def)
  ultimately show ?thesis unfolding tool_identifier_def Let_def by simp
qed

lemma compute_gov_digest_cong: "compute_gov_digest H (r\<lparr>gov_digest := d\<rparr>) = compute_gov_digest H r"
  by (simp add: compute_gov_digest_def gov_payload_def)

lemma append_gov_receipt_Inr:
  assumes a: "append_gov_receipt H fresh now intent event summary actor metadata led = Inr (r, led')"
    and hex: "list_all is_lower_hex fresh"
  shows "led' = led @ [r]" "tool_identifier ''intent_id'' intent = Inr (gov_intent_id r)"
    "gov_previous_id r = map_option gov_receipt_id (latest_for_intent led (gov_intent_id r))"
    "gov_previous_digest r = map_option gov_digest (latest_for_intent led (gov_intent_id r))"
    "compute_gov_digest H r = Inr (gov_digest r)" "gov_event r = event"
proof -
  obtain iid where iid: "tool_identifier ''intent_id'' intent = Inr iid"
    using a by (auto simp: append_gov_receipt_def res_bind_eq_Inr)
  have filled: "required_text ''summary'' summary = Inr (strip summary)" "strip summary \<noteq> []"
    using a by (auto simp: append_gov_receipt_def required_text_def res_bind_eq_Inr split: if_splits)
  define rid where "rid = ''receipt-'' @ fresh"
  have rid: "tool_identifier ''receipt_id'' rid = Inr rid" unfolding rid_def by (rule receipt_id_normal [OF hex])
  define draft where "draft = \<lparr>gov_receipt_id = rid, gov_intent_id = iid, gov_event = event,
     gov_summary = strip summary, gov_previous_id = map_option gov_receipt_id (latest_for_intent led iid),
     gov_previous_digest = map_option gov_digest (latest_for_intent led iid), gov_digest = [],
     gov_created_at = now, gov_actor = filled_or_none actor, gov_metadata = metadata\<rparr>"
  have init: "gov_receipt_init (draft\<lparr>gov_digest := d\<rparr>) = Inr (draft\<lparr>gov_digest := d\<rparr>)" for d
    unfolding gov_receipt_init_def required_text_def draft_def
    by (simp add: rid tool_identifier_again [OF iid] strip_strip filled(2))
  obtain d where d: "compute_gov_digest H draft = Inr d" "r = draft\<lparr>gov_digest := d\<rparr>" "led' = led @ [r]"
    using a unfolding append_gov_receipt_def Let_def iid filled(1) res_bind_Inr rid_def [symmetric] draft_def [symmetric]
    by (auto simp: res_bind_eq_Inr init)
  show "led' = led @ [r]" by (rule d(3))
  show "compute_gov_digest H r = Inr (gov_digest r)" using d(1,2) by (simp add: compute_gov_digest_cong)
  show "tool_identifier ''intent_id'' intent = Inr (gov_intent_id r)"
    "gov_previous_id r = map_option gov_receipt_id (latest_for_intent led (gov_intent_id r))"
    "gov_previous_digest r = map_option gov_digest (latest_for_intent led (gov_intent_id r))"
    "gov_event r = event"
    using iid d(2) by (simp_all add: draft_def)
qed

lemma append_gov_receipt_verified:
  assumes "gov_verified H led" "list_all is_lower_hex fresh"
    and "append_gov_receipt H fresh now intent event summary actor metadata led = Inr (r, led')"
  shows "gov_verified H led'"
  using assms(1) append_gov_receipt_Inr [OF assms(3,2)]
  by (auto simp: gov_verified_def gov_chain_snoc gov_chain.check_snoc latest_for_intent_last)

text \<open>A receipt with an intent, a summary and metadata that is JSON is accepted.\<close>

lemma append_gov_receipt_accepts:
  assumes iid: "tool_identifier ''intent_id'' intent = Inr iid" and "strip summary \<noteq> []"
    and "\<not> holds_other (JObj metadata)" and hex: "list_all is_lower_hex fresh"
  shows "\<exists>r. append_gov_receipt H fresh now intent event summary actor metadata led = Inr (r, led @ [r])"
proof -
  have summary: "required_text ''summary'' summary = Inr (strip summary)" using assms(2) by (simp add: required_text_def)
  have again: "required_text ''summary'' (strip summary) = Inr (strip summary)"
    using assms(2) by (simp add: required_text_def strip_strip)
  have payload: "holds_other (gov_payload r) = holds_other (JObj (gov_metadata r))" for r
    by (simp add: gov_payload_def json_opt_def split: option.splits)
  have digest: "compute_gov_digest H r = Inr (H (utf8 (json_dumps False (gov_payload r))))" if "gov_metadata r = metadata" for r
    using that assms(3) by (simp add: compute_gov_digest_def plain_digest_def payload)
  define rid where "rid = ''receipt-'' @ fresh"
  have rid: "tool_identifier ''receipt_id'' rid = Inr rid" unfolding rid_def by (rule receipt_id_normal [OF hex])
  show ?thesis
    unfolding append_gov_receipt_def iid summary Let_def res_bind_Inr rid_def [symmetric]
    by (simp add: digest gov_receipt_init_def rid tool_identifier_again [OF iid] again)
qed

text \<open>The ledgers that \<open>append\<close> alone has written, with fresh identifiers in hexadecimal.\<close>

inductive governed :: "(string \<Rightarrow> string) \<Rightarrow> governance_ledger \<Rightarrow> bool" for H where
  governed_new: "governed H []"
| governed_append: "governed H led \<Longrightarrow> list_all is_lower_hex fresh \<Longrightarrow>
     append_gov_receipt H fresh now intent event summary actor metadata led = Inr (r, led') \<Longrightarrow> governed H led'"

lemma governed_verified: "governed H led \<Longrightarrow> gov_verified H led"
proof (induction rule: governed.induct)
  case governed_new
  show ?case by (simp add: gov_verified_def gov_chain_of_def)
qed (rule append_gov_receipt_verified)

end
