(* ===== verification/Approvals.thy ===== *)
theory Approvals
  imports GovernanceReceipts Workspace
begin

text \<open>
  Approvals of governed actions (\<open>governance/approval.py\<close>): requests, decisions, and the store that
  keeps one JSON document per approval in a directory. The directory is a dictionary from file
  stems to documents; \<open>json.loads\<close> is taken to read back the document \<open>json.dumps\<close> wrote.
\<close>

section \<open>Requests and decisions\<close>

text \<open>
  \<open>_utc_now\<close> never repeats itself: a reading that is not past the last one is replaced by the
  microsecond after it.
\<close>

definition next_now :: "int option \<Rightarrow> int \<Rightarrow> int" where
  "next_now last_now candidate =
     (case last_now of None \<Rightarrow> candidate
      | Some l \<Rightarrow> if candidate \<le> l then l + 1 else candidate)"

fun readings :: "int option \<Rightarrow> int list \<Rightarrow> int list" where
  "readings last_now [] = []"
| "readings last_now (c # cs) = (let t = next_now last_now c in t # readings (Some t) cs)"

lemma readings_strict:
  "sorted_wrt (<) (readings last_now cs) \<and> (\<forall>t \<in> set (readings last_now cs). \<forall>l. last_now = Some l \<longrightarrow> l < t)"
proof (induction cs arbitrary: last_now)
  case (Cons c cs)
  let ?t = "next_now last_now c"
  have "l < ?t" if "last_now = Some l" for l using that by (simp add: next_now_def)
  with Cons.IH [of "Some ?t"] show ?case by (force simp: Let_def)
qed simp

datatype approval_status = APPROVAL_PENDING | APPROVED | REJECTED | APPROVAL_CANCELED

fun approval_status_value :: "approval_status \<Rightarrow> string" where
  "approval_status_value APPROVAL_PENDING = ''pending''"
| "approval_status_value APPROVED = ''approved''"
| "approval_status_value REJECTED = ''rejected''"
| "approval_status_value APPROVAL_CANCELED = ''canceled''"

definition approval_status_of :: "string \<Rightarrow> approval_status res" where
  "approval_status_of s =
     (case List.find (\<lambda>a. approval_status_value a = s) [APPROVAL_PENDING, APPROVED, REJECTED, APPROVAL_CANCELED] of
        Some a \<Rightarrow> Inr a
      | None \<Rightarrow> Inl (ValueError (in_quotes s @ '' is not a valid ApprovalStatus'')))"

lemma approval_status_of_value: "approval_status_of (approval_status_value a) = Inr a"
  by (cases a) (simp_all add: approval_status_of_def)

record approval_request =
  approval_id :: string
  approval_intent_id :: string
  approval_requested_at :: datetime
  approval_requested_by :: "string option"
  approval_summary :: string
  approval_rationale :: string
  approval_policy_reason :: string
  required_roles :: "string list"
  request_evidence_refs :: "string list"
  approval_metadata :: "json dict"

text \<open>\<open>_normalize_refs\<close>: stripped, blanks dropped, each once in order.\<close>

definition clean_refs :: "string list \<Rightarrow> string list" where
  "clean_refs xs = uniq (filter (\<lambda>c. c \<noteq> []) (map strip xs))"

definition approval_request_create :: "string \<Rightarrow> int \<Rightarrow> approval_request \<Rightarrow> approval_request res" where
  "approval_request_create fresh now q =
     res_bind (tool_identifier ''intent_id'' (approval_intent_id q)) (\<lambda>iid.
     res_bind (required_text ''summary'' (approval_summary q)) (\<lambda>summary.
     res_bind (required_text ''rationale'' (approval_rationale q)) (\<lambda>rationale.
     res_bind (tool_identifier ''policy_reason'' (approval_policy_reason q)) (\<lambda>reason.
       Inr (q\<lparr>approval_id := ''approval-'' @ fresh, approval_intent_id := iid,
              approval_requested_at := Aware now,
              approval_requested_by := filled_or_none (approval_requested_by q),
              approval_summary := summary, approval_rationale := rationale,
              approval_policy_reason := reason, required_roles := clean_labels (required_roles q),
              request_evidence_refs := clean_refs (request_evidence_refs q)\<rparr>)))))"

record approval_decision =
  resolved_approval_id :: string
  resolved_intent_id :: string
  approval_status_is :: approval_status
  approval_decided_at :: datetime
  decided_by :: string
  decision_note :: string
  decision_evidence_refs :: "string list"

definition approval_decision_init :: "approval_decision \<Rightarrow> approval_decision res" where
  "approval_decision_init d =
     res_bind (tool_identifier ''approval_id'' (resolved_approval_id d)) (\<lambda>aid.
     res_bind (tool_identifier ''intent_id'' (resolved_intent_id d)) (\<lambda>iid.
     res_bind (required_text ''decided_by'' (decided_by d)) (\<lambda>who.
     res_bind (required_text ''note'' (decision_note d)) (\<lambda>note.
       if approval_status_is d = APPROVAL_PENDING
       then Inl (ValueError ''Approval decisions must resolve to a terminal status.'')
       else Inr (d\<lparr>resolved_approval_id := aid, resolved_intent_id := iid, decided_by := who,
                   decision_note := note, decision_evidence_refs := clean_refs (decision_evidence_refs d)\<rparr>)))))"

record approval_state =
  state_request :: approval_request
  state_decision :: "approval_decision option"

definition current_status :: "approval_state \<Rightarrow> approval_status" where
  "current_status s = (case state_decision s of None \<Rightarrow> APPROVAL_PENDING | Some d \<Rightarrow> approval_status_is d)"

definition with_decision :: "approval_decision \<Rightarrow> approval_state \<Rightarrow> approval_state res" where
  "with_decision d s =
     (if state_decision s \<noteq> None then Inl (ValueError ''Approval state has already been resolved.'')
      else if resolved_approval_id d \<noteq> approval_id (state_request s)
      then Inl (ValueError ''Approval decision must reference the same approval_id.'')
      else if resolved_intent_id d \<noteq> approval_intent_id (state_request s)
      then Inl (ValueError ''Approval decision must reference the same intent_id.'')
      else Inr (s\<lparr>state_decision := Some d\<rparr>))"

section \<open>Documents\<close>

definition approval_request_dict :: "py_runtime \<Rightarrow> approval_request \<Rightarrow> json dict" where
  "approval_request_dict rt q =
     [(''approval_id'', JStr (approval_id q)), (''intent_id'', JStr (approval_intent_id q)),
      (''requested_at'', JStr (datetime_isoformat rt (approval_requested_at q))),
      (''requested_by'', json_opt (approval_requested_by q)),
      (''summary'', JStr (approval_summary q)), (''rationale'', JStr (approval_rationale q)),
      (''policy_reason'', JStr (approval_policy_reason q)),
      (''required_roles'', json_strs (required_roles q)),
      (''evidence_refs'', json_strs (request_evidence_refs q)),
      (''metadata'', JObj (approval_metadata q))]"

definition approval_decision_dict :: "py_runtime \<Rightarrow> approval_decision \<Rightarrow> json dict" where
  "approval_decision_dict rt d =
     [(''approval_id'', JStr (resolved_approval_id d)), (''intent_id'', JStr (resolved_intent_id d)),
      (''status'', JStr (approval_status_value (approval_status_is d))),
      (''decided_at'', JStr (datetime_isoformat rt (approval_decided_at d))),
      (''decided_by'', JStr (decided_by d)), (''note'', JStr (decision_note d)),
      (''evidence_refs'', json_strs (decision_evidence_refs d))]"

definition approval_document :: "py_runtime \<Rightarrow> approval_state \<Rightarrow> json" where
  "approval_document rt s = JObj
     [(''request'', JObj (approval_request_dict rt (state_request s))),
      (''decision'', (case state_decision s of None \<Rightarrow> JNull | Some d \<Rightarrow> JObj (approval_decision_dict rt d)))]"

text \<open>
  Reading one: \<open>raw["key"]\<close> raises \<open>KeyError\<close> or, on something that is no dictionary, \<open>TypeError\<close>;
  \<open>tuple(...)\<close> takes lists, texts and dictionaries; calling \<open>strip\<close> on an item that is no text is an
  \<open>AttributeError\<close>, which no clause catches. \<open>dict(...)\<close> of a list of pairs, which the store never
  writes, counts as refused.
\<close>

definition field_of :: "json \<Rightarrow> string \<Rightarrow> json res" where
  "field_of v k = (case v of
     JObj d \<Rightarrow> (case dict_get d k of None \<Rightarrow> Inl (KeyError (in_quotes k)) | Some x \<Rightarrow> Inr x)
   | _ \<Rightarrow> Inl (TypeError ''indices must be integers''))"

definition optional_field :: "json \<Rightarrow> string \<Rightarrow> json option res" where
  "optional_field v k = (case v of JObj d \<Rightarrow> Inr (dict_get d k) | _ \<Rightarrow> Inl (OtherError ''object has no attribute get''))"

definition text_items :: "json option \<Rightarrow> string list res" where
  "text_items v = (case v of
     None \<Rightarrow> Inr []
   | Some (JStr s) \<Rightarrow> Inr (map (\<lambda>c. [c]) s)
   | Some (JObj d) \<Rightarrow> Inr (dict_keys d)
   | Some (JList xs) \<Rightarrow> res_map (\<lambda>x. case x of JStr s \<Rightarrow> Inr s | _ \<Rightarrow> Inl (OtherError ''object has no attribute strip'')) xs
   | Some _ \<Rightarrow> Inl (TypeError ''object is not iterable''))"

definition mapping_of :: "json option \<Rightarrow> json dict res" where
  "mapping_of v = (case v of
     None \<Rightarrow> Inr []
   | Some (JObj d) \<Rightarrow> Inr d
   | Some (JList []) \<Rightarrow> Inr []
   | Some (JStr []) \<Rightarrow> Inr []
   | Some (JStr _) \<Rightarrow> Inl (ValueError ''dictionary update sequence element #0 has length 1; 2 is required'')
   | Some _ \<Rightarrow> Inl (TypeError ''cannot convert to a dictionary''))"

definition optional_str :: "py_runtime \<Rightarrow> json option \<Rightarrow> string option" where
  "optional_str rt v = (case v of None \<Rightarrow> None | Some JNull \<Rightarrow> None | Some x \<Rightarrow> filled_or_none (Some (py_str rt x)))"

definition decode_request :: "iso_parser \<Rightarrow> py_runtime \<Rightarrow> json \<Rightarrow> approval_request res" where
  "decode_request parse rt v =
     res_bind (res_bind (field_of v ''approval_id'') (\<lambda>x. tool_identifier ''approval_id'' (py_str rt x))) (\<lambda>aid.
     res_bind (res_bind (field_of v ''intent_id'') (\<lambda>x. tool_identifier ''intent_id'' (py_str rt x))) (\<lambda>iid.
     res_bind (res_bind (field_of v ''requested_at'') (\<lambda>x. fromisoformat parse (py_str rt x))) (\<lambda>at.
     res_bind (optional_field v ''requested_by'') (\<lambda>who.
     res_bind (res_bind (field_of v ''summary'') (\<lambda>x. required_text ''summary'' (py_str rt x))) (\<lambda>summary.
     res_bind (res_bind (field_of v ''rationale'') (\<lambda>x. required_text ''rationale'' (py_str rt x))) (\<lambda>rationale.
     res_bind (res_bind (field_of v ''policy_reason'') (\<lambda>x. tool_identifier ''policy_reason'' (py_str rt x))) (\<lambda>reason.
     res_bind (res_bind (optional_field v ''required_roles'') text_items) (\<lambda>roles.
     res_bind (res_bind (optional_field v ''evidence_refs'') text_items) (\<lambda>refs.
     res_bind (res_bind (optional_field v ''metadata'') mapping_of) (\<lambda>meta.
       Inr \<lparr>approval_id = aid, approval_intent_id = iid, approval_requested_at = at,
            approval_requested_by = optional_str rt who, approval_summary = summary,
            approval_rationale = rationale, approval_policy_reason = reason,
            required_roles = clean_labels roles, request_evidence_refs = clean_refs refs,
            approval_metadata = meta\<rparr>))))))))))"

definition decode_decision :: "iso_parser \<Rightarrow> py_runtime \<Rightarrow> json \<Rightarrow> approval_decision res" where
  "decode_decision parse rt v =
     res_bind (res_bind (field_of v ''approval_id'') (\<lambda>x. tool_identifier ''approval_id'' (py_str rt x))) (\<lambda>aid.
     res_bind (res_bind (field_of v ''intent_id'') (\<lambda>x. tool_identifier ''intent_id'' (py_str rt x))) (\<lambda>iid.
     res_bind (res_bind (field_of v ''status'') (\<lambda>x. approval_status_of (py_str rt x))) (\<lambda>status.
     res_bind (res_bind (field_of v ''decided_at'') (\<lambda>x. fromisoformat parse (py_str rt x))) (\<lambda>at.
     res_bind (res_bind (field_of v ''decided_by'') (\<lambda>x. required_text ''decided_by'' (py_str rt x))) (\<lambda>who.
     res_bind (res_bind (field_of v ''note'') (\<lambda>x. required_text ''note'' (py_str rt x))) (\<lambda>note.
     res_bind (res_bind (optional_field v ''evidence_refs'') text_items) (\<lambda>refs.
       approval_decision_init \<lparr>resolved_approval_id = aid, resolved_intent_id = iid,
         approval_status_is = status, approval_decided_at = at, decided_by = who, decision_note = note,
         decision_evidence_refs = clean_refs refs\<rparr>)))))))"

text \<open>The \<open>except\<close> clauses of \<open>_decode_state\<close>.\<close>

definition decode_failure :: "py_error \<Rightarrow> py_error" where
  "decode_failure e =
     (case e of
        KeyError k \<Rightarrow> ValueError (''Stored approval state is malformed: missing field '' @ k @ ''.'')
      | TypeError m \<Rightarrow> ValueError (''Stored approval state is invalid: '' @ m)
      | _ \<Rightarrow> if is_value_error e then ValueError (''Stored approval state is invalid: '' @ error_text e) else e)"

definition decode_parts ::
  "iso_parser \<Rightarrow> py_runtime \<Rightarrow> approval_request \<Rightarrow> json option \<Rightarrow> approval_state res" where
  "decode_parts parse rt q dv =
     (case dv of
        None \<Rightarrow> Inr \<lparr>state_request = q, state_decision = None\<rparr>
      | Some v \<Rightarrow>
          if v = JNull then Inr \<lparr>state_request = q, state_decision = None\<rparr>
          else res_bind (decode_decision parse rt v) (\<lambda>d.
            Inr \<lparr>state_request = q, state_decision = Some d\<rparr>))"

definition decode_state :: "iso_parser \<Rightarrow> py_runtime \<Rightarrow> json \<Rightarrow> approval_state res" where
  "decode_state parse rt raw =
     (case
        res_bind (res_bind (field_of raw ''request'') (decode_request parse rt)) (\<lambda>q.
        res_bind (optional_field raw ''decision'') (decode_parts parse rt q))
      of Inl e \<Rightarrow> Inl (decode_failure e) | Inr s \<Rightarrow> Inr s)"

section \<open>The store\<close>

text \<open>
  One document for each identifier, where the code has a file named by it; an identifier with slashes or dots is a path of its own
  (\<open>approval_entry_path\<close>, below). Metadata that are not JSON are refused by \<open>json.dumps\<close> before anything is written.
\<close>

type_synonym approval_store = "json dict"

definition put_request :: "py_runtime \<Rightarrow> approval_request \<Rightarrow> approval_store \<Rightarrow> (approval_state \<times> approval_store) res" where
  "put_request rt q store =
     (let s = \<lparr>state_request = q, state_decision = None\<rparr> in
      if dict_get store (approval_id q) \<noteq> None
      then Inl (ValueError (''Approval request '' @ in_quotes (approval_id q) @ '' already exists.''))
      else if holds_other (JObj (approval_metadata q)) then Inl (TypeError ''Object is not JSON serializable'')
      else Inr (s, dict_set (approval_id q) (approval_document rt s) store))"

definition get_approval ::
  "iso_parser \<Rightarrow> py_runtime \<Rightarrow> string \<Rightarrow> approval_store \<Rightarrow> approval_state option res" where
  "get_approval parse rt aid store =
     res_bind (tool_identifier ''approval_id'' aid) (\<lambda>n.
     case dict_get store n of
       None \<Rightarrow> Inr None
     | Some doc \<Rightarrow> res_bind (decode_state parse rt doc) (\<lambda>s. Inr (Some s)))"

definition resolve_approval ::
  "iso_parser \<Rightarrow> py_runtime \<Rightarrow> approval_decision \<Rightarrow> approval_store \<Rightarrow> (approval_state \<times> approval_store) res" where
  "resolve_approval parse rt d store =
     res_bind (get_approval parse rt (resolved_approval_id d) store) (\<lambda>found.
     case found of
       None \<Rightarrow> Inl (KeyError (''Approval request '' @ in_quotes (resolved_approval_id d) @ '' does not exist.''))
     | Some s \<Rightarrow> res_bind (with_decision d s) (\<lambda>s'.
         Inr (s', dict_set (resolved_approval_id d) (approval_document rt s') store)))"

text \<open>
  \<open>find_by_intent\<close> reads every document, in the order of the file names, and sorts by the instant,
  then by the identifier. Instants with and without an offset cannot be compared.
\<close>

fun is_aware :: "datetime \<Rightarrow> bool" where
  "is_aware (Aware t) = True"
| "is_aware (Naive t) = False"

fun instant_of :: "datetime \<Rightarrow> int" where
  "instant_of (Aware t) = t"
| "instant_of (Naive t) = t"

definition find_by_intent ::
  "iso_parser \<Rightarrow> py_runtime \<Rightarrow> string \<Rightarrow> approval_store \<Rightarrow> approval_state list res" where
  "find_by_intent parse rt intent store =
     res_bind (tool_identifier ''intent_id'' intent) (\<lambda>iid.
     res_bind (res_map (decode_state parse rt) (map snd (sort_key (\<lambda>kv. fst kv @ ''.json'') store))) (\<lambda>states.
       let matching = filter (\<lambda>s. approval_intent_id (state_request s) = iid) states;
           at = (\<lambda>s. approval_requested_at (state_request s))
       in if list_ex (\<lambda>s. is_aware (at s)) matching \<and> list_ex (\<lambda>s. \<not> is_aware (at s)) matching
          then Inl (TypeError (''can'' @ [CHR 0x27] @ ''t compare offset-naive and offset-aware datetimes''))
          else Inr (sort_key (\<lambda>s. instant_of (at s)) (sort_key (\<lambda>s. approval_id (state_request s)) matching))))"

definition approval_keys :: "approval_store \<Rightarrow> string list" where
  "approval_keys store = sort (dict_keys store)"

text \<open>\<open>_entry_path\<close>, as the components of the path the file is opened by.\<close>

definition approval_entry_path :: "fs_path \<Rightarrow> string \<Rightarrow> string list" where
  "approval_entry_path root aid =
     (let name = aid @ ''.json'' in (if path_is_absolute name then [] else root) @ path_parts name)"

section \<open>A decision is final\<close>

datatype approval_op = PutRequest approval_request | ResolveApproval approval_decision | ClearApprovals

text \<open>The store after a call; one that raises has written nothing.\<close>

fun approval_step :: "iso_parser \<Rightarrow> py_runtime \<Rightarrow> approval_op \<Rightarrow> approval_store \<Rightarrow> approval_store" where
  "approval_step parse rt (PutRequest q) store =
     (case put_request rt q store of Inl _ \<Rightarrow> store | Inr (_, store') \<Rightarrow> store')"
| "approval_step parse rt (ResolveApproval d) store =
     (case resolve_approval parse rt d store of Inl _ \<Rightarrow> store | Inr (_, store') \<Rightarrow> store')"
| "approval_step parse rt ClearApprovals store = []"

definition approval_run :: "iso_parser \<Rightarrow> py_runtime \<Rightarrow> approval_op list \<Rightarrow> approval_store \<Rightarrow> approval_store" where
  "approval_run parse rt ops store = fold (approval_step parse rt) ops store"

definition decided_document :: "json \<Rightarrow> bool" where
  "decided_document doc = (case doc of
     JObj d \<Rightarrow> (case dict_get d ''decision'' of None \<Rightarrow> False | Some v \<Rightarrow> v \<noteq> JNull)
   | _ \<Rightarrow> False)"

lemma decode_decided:
  assumes "decode_state parse rt doc = Inr s"
  shows "state_decision s \<noteq> None \<longleftrightarrow> decided_document doc"
proof -
  have "res_bind (res_bind (field_of doc ''request'') (decode_request parse rt)) (\<lambda>q.
      res_bind (optional_field doc ''decision'') (decode_parts parse rt q)) = Inr s"
    using assms unfolding decode_state_def by (simp split: sum.splits)
  then obtain q dv where dv: "optional_field doc ''decision'' = Inr dv" "decode_parts parse rt q dv = Inr s"
    by (elim res_bind_InrE)
  have decided: "state_decision s \<noteq> None \<longleftrightarrow> dv \<noteq> None \<and> dv \<noteq> Some JNull"
    using dv(2) unfolding decode_parts_def
    by (cases dv) (auto simp: res_bind_eq_Inr split: if_splits)
  from dv(1) obtain d where "doc = JObj d" "dv = dict_get d ''decision''"
    by (cases doc) (simp_all add: optional_field_def)
  with decided show ?thesis by (auto simp: decided_document_def split: option.splits)
qed

lemma resolve_approval_Inr:
  assumes "resolve_approval parse rt d store = Inr (s', store')"
  obtains n doc s where "tool_identifier ''approval_id'' (resolved_approval_id d) = Inr n"
    "dict_get store n = Some doc" "decode_state parse rt doc = Inr s" "with_decision d s = Inr s'"
    "store' = dict_set (resolved_approval_id d) (approval_document rt s') store"
  using assms
  by (auto simp: resolve_approval_def get_approval_def res_bind_eq_Inr split: option.splits)

text \<open>A decision's identifier is in its normal form, as \<open>__post_init__\<close> leaves it.\<close>

definition normal_decision :: "approval_decision \<Rightarrow> bool" where
  "normal_decision d \<longleftrightarrow>
     tool_identifier ''approval_id'' (resolved_approval_id d) = Inr (resolved_approval_id d)"

lemma approval_decision_init_normal: "approval_decision_init d = Inr d' \<Longrightarrow> normal_decision d'"
  unfolding approval_decision_init_def normal_decision_def
  by (elim res_bind_InrE) (auto split: if_splits intro: tool_identifier_again)

lemma approval_decision_init_terminal: "approval_decision_init d = Inr d' \<Longrightarrow> approval_status_is d' \<noteq> APPROVAL_PENDING"
  by (auto simp: approval_decision_init_def res_bind_eq_Inr split: if_splits)

text \<open>The calls with a decision as its constructor leaves it, other than \<open>clear\<close>.\<close>

definition normal_op :: "approval_op \<Rightarrow> bool" where
  "normal_op op = (case op of PutRequest _ \<Rightarrow> True | ResolveApproval d \<Rightarrow> normal_decision d | ClearApprovals \<Rightarrow> False)"

lemma approval_step_decided:
  assumes "normal_op op" "dict_get store aid = Some doc" "decided_document doc"
  shows "dict_get (approval_step parse rt op store) aid = Some doc"
proof (cases op)
  case (PutRequest q)
  then show ?thesis using assms(2) by (auto simp: put_request_def Let_def dict_get_set)
next
  case (ResolveApproval d)
  show ?thesis
  proof (cases "resolve_approval parse rt d store")
    case (Inl e)
    then show ?thesis using ResolveApproval assms(2) by simp
  next
    case (Inr r)
    obtain s' store' where r: "r = (s', store')" by (cases r)
    from Inr r obtain n doc' s where n: "tool_identifier ''approval_id'' (resolved_approval_id d) = Inr n"
      "dict_get store n = Some doc'" "decode_state parse rt doc' = Inr s" "with_decision d s = Inr s'"
      "store' = dict_set (resolved_approval_id d) (approval_document rt s') store"
      by (auto elim: resolve_approval_Inr)
    have "n = resolved_approval_id d"
      using n(1) assms(1) ResolveApproval by (simp add: normal_op_def normal_decision_def)
    moreover have "\<not> decided_document doc'"
      using n(4) decode_decided [OF n(3)] by (auto simp: with_decision_def split: if_splits)
    ultimately have "aid \<noteq> resolved_approval_id d" using n(2) assms(2,3) by auto
    then show ?thesis using ResolveApproval Inr r n(5) assms(2) by (simp add: dict_get_set)
  qed
qed (use assms(1) in \<open>simp add: normal_op_def\<close>)

lemma approval_run_decided:
  "list_all normal_op ops \<Longrightarrow> dict_get store aid = Some doc \<Longrightarrow> decided_document doc \<Longrightarrow>
     dict_get (approval_run parse rt ops store) aid = Some doc"
  unfolding approval_run_def
  by (induction ops arbitrary: store) (simp_all add: approval_step_decided)

section \<open>Documents are read back\<close>

definition normal_request :: "approval_request \<Rightarrow> bool" where
  "normal_request q \<longleftrightarrow> tool_identifier [] (approval_id q) = Inr (approval_id q)
     \<and> tool_identifier [] (approval_intent_id q) = Inr (approval_intent_id q)
     \<and> tool_identifier [] (approval_policy_reason q) = Inr (approval_policy_reason q)
     \<and> strip (approval_summary q) = approval_summary q \<and> approval_summary q \<noteq> []
     \<and> strip (approval_rationale q) = approval_rationale q \<and> approval_rationale q \<noteq> []
     \<and> filled_or_none (approval_requested_by q) = approval_requested_by q
     \<and> clean_labels (required_roles q) = required_roles q
     \<and> clean_refs (request_evidence_refs q) = request_evidence_refs q"

lemma text_items_strs: "text_items (Some (json_strs xs)) = Inr xs"
  by (simp add: text_items_def res_map_Inr_list_all2 list_all2_map1 list.rel_refl)

lemma optional_str_json_opt: "optional_str rt (Some (json_opt v)) = filled_or_none v"
  by (cases v) (simp_all add: optional_str_def json_opt_def filled_or_none_def)

lemma tool_identifier_normal: "tool_identifier [] s = Inr s \<Longrightarrow> tool_identifier label s = Inr s"
  by (rule tool_identifier_again)

lemma decode_request_dict:
  assumes "normal_request q"
    and "fromisoformat parse (datetime_isoformat rt (approval_requested_at q)) = Inr (approval_requested_at q)"
  shows "decode_request parse rt (JObj (approval_request_dict rt q)) = Inr q"
proof -
  let ?v = "JObj (approval_request_dict rt q)"
  have f: "field_of ?v ''approval_id'' = Inr (JStr (approval_id q))"
    "field_of ?v ''intent_id'' = Inr (JStr (approval_intent_id q))"
    "field_of ?v ''requested_at'' = Inr (JStr (datetime_isoformat rt (approval_requested_at q)))"
    "field_of ?v ''summary'' = Inr (JStr (approval_summary q))"
    "field_of ?v ''rationale'' = Inr (JStr (approval_rationale q))"
    "field_of ?v ''policy_reason'' = Inr (JStr (approval_policy_reason q))"
    by (simp_all add: field_of_def approval_request_dict_def)
  have o: "optional_field ?v ''requested_by'' = Inr (Some (json_opt (approval_requested_by q)))"
    "optional_field ?v ''required_roles'' = Inr (Some (json_strs (required_roles q)))"
    "optional_field ?v ''evidence_refs'' = Inr (Some (json_strs (request_evidence_refs q)))"
    "optional_field ?v ''metadata'' = Inr (Some (JObj (approval_metadata q)))"
    by (simp_all add: optional_field_def approval_request_dict_def)
  note norm = assms(1) [unfolded normal_request_def]
  have ids: "tool_identifier label (approval_id q) = Inr (approval_id q)"
    "tool_identifier label (approval_intent_id q) = Inr (approval_intent_id q)"
    "tool_identifier label (approval_policy_reason q) = Inr (approval_policy_reason q)" for label
    using norm tool_identifier_normal by blast+
  have texts: "required_text label (approval_summary q) = Inr (approval_summary q)"
    "required_text label (approval_rationale q) = Inr (approval_rationale q)" for label
    using norm by (simp_all add: required_text_def)
  show ?thesis
    unfolding decode_request_def f o res_bind_Inr py_str.simps ids texts assms(2) text_items_strs
      optional_str_json_opt
    using norm by (simp add: mapping_of_def)
qed

definition normal_resolution :: "approval_decision \<Rightarrow> bool" where
  "normal_resolution d \<longleftrightarrow> approval_decision_init d = Inr d"

lemma decode_decision_dict:
  assumes "normal_resolution d"
    and "fromisoformat parse (datetime_isoformat rt (approval_decided_at d)) = Inr (approval_decided_at d)"
  shows "decode_decision parse rt (JObj (approval_decision_dict rt d)) = Inr d"
proof -
  let ?v = "JObj (approval_decision_dict rt d)"
  have f: "field_of ?v ''approval_id'' = Inr (JStr (resolved_approval_id d))"
    "field_of ?v ''intent_id'' = Inr (JStr (resolved_intent_id d))"
    "field_of ?v ''status'' = Inr (JStr (approval_status_value (approval_status_is d)))"
    "field_of ?v ''decided_at'' = Inr (JStr (datetime_isoformat rt (approval_decided_at d)))"
    "field_of ?v ''decided_by'' = Inr (JStr (decided_by d))"
    "field_of ?v ''note'' = Inr (JStr (decision_note d))"
    by (simp_all add: field_of_def approval_decision_dict_def)
  have o: "optional_field ?v ''evidence_refs'' = Inr (Some (json_strs (decision_evidence_refs d)))"
    by (simp add: optional_field_def approval_decision_dict_def)
  from assms(1) obtain aid iid who remark where i:
    "tool_identifier ''approval_id'' (resolved_approval_id d) = Inr aid"
    "tool_identifier ''intent_id'' (resolved_intent_id d) = Inr iid"
    "required_text ''decided_by'' (decided_by d) = Inr who" "required_text ''note'' (decision_note d) = Inr remark"
    and d: "d\<lparr>resolved_approval_id := aid, resolved_intent_id := iid, decided_by := who,
       decision_note := remark, decision_evidence_refs := clean_refs (decision_evidence_refs d)\<rparr> = d"
    by (auto simp: normal_resolution_def approval_decision_init_def res_bind_eq_Inr split: if_splits)
  from d have "aid = resolved_approval_id d" "iid = resolved_intent_id d" "who = decided_by d"
    "remark = decision_note d" "clean_refs (decision_evidence_refs d) = decision_evidence_refs d"
    by (cases d; simp)+
  note same = this
  have eta: "\<lparr>resolved_approval_id = resolved_approval_id d, resolved_intent_id = resolved_intent_id d,
     approval_status_is = approval_status_is d, approval_decided_at = approval_decided_at d,
     decided_by = decided_by d, decision_note = decision_note d,
     decision_evidence_refs = decision_evidence_refs d\<rparr> = d" by (cases d) simp
  show ?thesis
    unfolding decode_decision_def f o res_bind_Inr py_str.simps assms(2) text_items_strs
      approval_status_of_value i [unfolded same] same(5) eta
    using assms(1) by (simp only: normal_resolution_def)
qed

text \<open>The interpreter reads the instants of a state back from their texts.\<close>

definition reads_back :: "iso_parser \<Rightarrow> py_runtime \<Rightarrow> approval_state \<Rightarrow> bool" where
  "reads_back parse rt s \<longleftrightarrow>
     list_all (\<lambda>t. fromisoformat parse (datetime_isoformat rt t) = Inr t)
       (approval_requested_at (state_request s)
         # (case state_decision s of None \<Rightarrow> [] | Some d \<Rightarrow> [approval_decided_at d]))"

definition normal_state :: "approval_state \<Rightarrow> bool" where
  "normal_state s \<longleftrightarrow> normal_request (state_request s)
     \<and> list_all normal_resolution (case state_decision s of None \<Rightarrow> [] | Some d \<Rightarrow> [d])"

lemma decode_document:
  assumes "normal_state s" and "reads_back parse rt s"
  shows "decode_state parse rt (approval_document rt s) = Inr s"
proof -
  have q: "field_of (approval_document rt s) ''request'' = Inr (JObj (approval_request_dict rt (state_request s)))"
    and d: "optional_field (approval_document rt s) ''decision''
      = Inr (Some (case state_decision s of None \<Rightarrow> JNull | Some d \<Rightarrow> JObj (approval_decision_dict rt d)))"
    by (simp_all add: field_of_def optional_field_def approval_document_def)
  have r: "decode_request parse rt (JObj (approval_request_dict rt (state_request s))) = Inr (state_request s)"
    using assms by (intro decode_request_dict) (simp_all add: normal_state_def reads_back_def)
  have e: "decode_decision parse rt (JObj (approval_decision_dict rt d)) = Inr d" if "state_decision s = Some d" for d
    using assms that by (intro decode_decision_dict) (simp_all add: normal_state_def reads_back_def)
  show ?thesis
    unfolding decode_state_def q d res_bind_Inr r
    using e by (cases s; cases "state_decision s") (auto simp: decode_parts_def)
qed

section \<open>What the constructors make is normal\<close>

lemma clean_labels_again: "clean_labels (clean_labels xs) = clean_labels xs"
proof -
  have "lower (strip c) = c \<and> c \<noteq> []" if "c \<in> set (clean_labels xs)" for c
  proof -
    from that obtain s where "c = lower (strip s)" "c \<noteq> []" by (auto simp: clean_labels_def)
    then have "state_identifier [] s = Inr c" by (simp add: state_identifier_def)
    then have "state_identifier [] c = Inr c" by (rule lower_strip_idem)
    then show ?thesis by (auto simp: state_identifier_def Let_def split: if_splits)
  qed
  then have "filter (\<lambda>c. c \<noteq> []) (map (\<lambda>s. lower (strip s)) (clean_labels xs)) = clean_labels xs"
    by (simp add: map_idI filter_id_conv)
  moreover have "uniq (clean_labels xs) = clean_labels xs" by (simp add: clean_labels_def uniq_distinct_id)
  ultimately show ?thesis unfolding clean_labels_def [of "clean_labels xs"] by simp
qed

lemma clean_refs_again: "clean_refs (clean_refs xs) = clean_refs xs"
proof -
  have "\<forall>c \<in> set (clean_refs xs). strip c = c \<and> c \<noteq> []" by (auto simp: clean_refs_def strip_strip)
  then have "filter (\<lambda>c. c \<noteq> []) (map strip (clean_refs xs)) = clean_refs xs"
    by (simp add: map_idI filter_id_conv)
  moreover have "uniq (clean_refs xs) = clean_refs xs" by (simp add: clean_refs_def uniq_distinct_id)
  ultimately show ?thesis unfolding clean_refs_def [of "clean_refs xs"] by simp
qed

lemma required_text_Inr: "required_text label s = Inr t \<longleftrightarrow> t = strip s \<and> t \<noteq> []"
  by (auto simp: required_text_def)

lemma approval_request_create_normal:
  assumes "approval_request_create fresh now q = Inr q'"
    and "tool_identifier [] (''approval-'' @ fresh) = Inr (''approval-'' @ fresh)"
  shows "normal_request q'" "approval_id q' = ''approval-'' @ fresh" "approval_requested_at q' = Aware now"
proof -
  from assms(1) obtain iid reason where
    "tool_identifier ''intent_id'' (approval_intent_id q) = Inr iid"
    "tool_identifier ''policy_reason'' (approval_policy_reason q) = Inr reason"
    and texts: "strip (approval_summary q) \<noteq> []" "strip (approval_rationale q) \<noteq> []"
    and q': "q' = q\<lparr>approval_id := ''approval-'' @ fresh, approval_intent_id := iid,
              approval_requested_at := Aware now,
              approval_requested_by := filled_or_none (approval_requested_by q),
              approval_summary := strip (approval_summary q), approval_rationale := strip (approval_rationale q),
              approval_policy_reason := reason, required_roles := clean_labels (required_roles q),
              request_evidence_refs := clean_refs (request_evidence_refs q)\<rparr>"
    by (auto simp: approval_request_create_def res_bind_eq_Inr required_text_Inr)
  then show "normal_request q'" "approval_id q' = ''approval-'' @ fresh" "approval_requested_at q' = Aware now"
    using assms(2) by (auto simp: normal_request_def strip_strip clean_labels_again clean_refs_again
      intro: tool_identifier_again)
qed

lemma approval_decision_init_again:
  assumes "approval_decision_init d = Inr d'"
  shows "normal_resolution d'"
proof -
  from assms obtain aid iid where ids:
    "tool_identifier ''approval_id'' (resolved_approval_id d) = Inr aid"
    "tool_identifier ''intent_id'' (resolved_intent_id d) = Inr iid"
    and texts: "strip (decided_by d) \<noteq> []" "strip (decision_note d) \<noteq> []"
      "approval_status_is d \<noteq> APPROVAL_PENDING"
    and d': "d' = d\<lparr>resolved_approval_id := aid, resolved_intent_id := iid, decided_by := strip (decided_by d),
       decision_note := strip (decision_note d), decision_evidence_refs := clean_refs (decision_evidence_refs d)\<rparr>"
    by (auto simp: approval_decision_init_def res_bind_eq_Inr required_text_Inr split: if_splits)
  show ?thesis
    unfolding normal_resolution_def approval_decision_init_def d'
    by (simp add: tool_identifier_again [OF ids(1)] tool_identifier_again [OF ids(2)] required_text_def
        strip_strip texts clean_refs_again)
qed

text \<open>
  A resolution that succeeds is what the store keeps from then on, whatever is requested and
  resolved later.
\<close>

lemma resolve_approval_decided:
  assumes "resolve_approval parse rt d store = Inr (s, store')"
  shows "dict_get store' (resolved_approval_id d) = Some (approval_document rt s)"
    "decided_document (approval_document rt s)" "state_decision s = Some d"
  using assms by (auto elim!: resolve_approval_Inr simp: with_decision_def dict_get_set decided_document_def
      approval_document_def split: if_splits)

lemma resolution_stays:
  assumes "resolve_approval parse rt d store = Inr (s, store')" and "list_all normal_op ops"
    and "normal_decision d"
  shows "get_approval parse rt (resolved_approval_id d) (approval_run parse rt ops store')
     = get_approval parse rt (resolved_approval_id d) store'"
  using approval_run_decided [OF assms(2) resolve_approval_decided(1,2) [OF assms(1)]]
    resolve_approval_decided(1) [OF assms(1)] assms(3)
  by (simp add: get_approval_def normal_decision_def)

text \<open>An identifier with a slash and dots leaves the store's directory.\<close>

lemma walk_path_through:
  "link_free fs (done @ cs) \<Longrightarrow> walk_path n fs done (cs @ rest) = walk_path n fs (done @ cs) rest"
proof (induction cs arbitrary: "done")
  case (Cons c cs)
  then have "link_free fs (done @ [c])" using link_free_append [of fs "done @ [c]" cs] by simp
  then have "c \<noteq> ''..''" "\<forall>t. fs (done @ [c]) \<noteq> Some (LinkNode t)" by (simp_all add: link_free_snoc)
  moreover have "walk_path n fs (done @ [c]) (cs @ rest) = walk_path n fs ((done @ [c]) @ cs) rest" using Cons by simp
  ultimately show ?case by (simp split: option.splits fs_node.splits)
qed simp

lemma entry_path_escapes:
  assumes "link_free fs root" and "\<forall>t. fs (butlast root @ [''x.json'']) \<noteq> Some (LinkNode t)"
  shows "real_path n fs (approval_entry_path root ''../x'') = Inr (butlast root @ [''x.json''])"
proof -
  have "path_is_absolute (''../x'' @ ''.json'') = False" "path_parts (''../x'' @ ''.json'') = [''..'', ''x.json'']"
    by code_simp+
  then have "approval_entry_path root ''../x'' = root @ [''..'', ''x.json'']"
    unfolding approval_entry_path_def Let_def by simp
  then show ?thesis
    using walk_path_through [of fs "[]" root n "[''..'', ''x.json'']"] assms
    by (simp add: real_path_def split: option.splits fs_node.splits)
qed

end
