(* ===== verification/KernelProperties.thy ===== *)
theory KernelProperties
  imports KernelRuntime Approvals ToolFixtures
begin

text \<open>
  Properties of the kernel and of the governance of actions: what a task can go through, what a
  compare-and-set replaces, that a stopped kernel stays stopped, what the policy decides, that the
  ledger of governed actions stays checkable and that a decision on an approval is final.
\<close>

text \<open>Whatever happens to a task, it has at most four records, all about the same request; each
  of them records the instants, error and summary its state calls for, and an instant at which the task started
  stays.\<close>

theorem task_lifecycle:
  assumes "task_history rs"
  shows "length rs \<le> 4 \<and> list_all task_record_ok rs \<and> record_request (hd rs) = record_request (last rs)
     \<and> (\<forall>k \<in> {..<length rs - 1}. started_at (rs ! Suc k) \<in> {None, started_at (rs ! k)})"
proof (intro conjI)
  show "length rs \<le> 4" using task_history_bound [OF assms] by simp
  show "list_all task_record_ok rs" using task_history_ok [OF assms] by (simp add: list_all_iff)
  show "record_request (hd rs) = record_request (last rs)" by (rule task_history_request [OF assms])
  show "\<forall>k \<in> {..<length rs - 1}. started_at (rs ! Suc k) \<in> {None, started_at (rs ! k)}"
    using assms
  proof (induction rule: task_history.induct)
    case (history_step r rs r')
    have "started_at r \<in> {None, started_at r'}" using task_step_started [OF history_step(2)] by (cases "started_at r") auto
    with history_step(3) show ?case by (auto simp: nth_Cons split: nat.splits)
  qed simp
qed

definition ex_task :: task_request where
  "ex_task = \<lparr>task_id = ''task-1'', task_kind_of = ANALYSIS, task_priority_of = PRIORITY_NORMAL,
     task_input_of = \<lparr>task_prompt = ''look'', task_metadata = [], task_attachments = []\<rparr>,
     task_created_at = 0, task_labels = []\<rparr>"

theorem task_lifecycle_witness:
  "\<exists>rs. length rs = 4 \<and> task_history rs \<and> task_state_of (hd rs) = FAILED \<and> list_all task_record_ok rs"
proof -
  let ?a = "new_task ex_task"
  let ?b = "?a\<lparr>task_state_of := READY\<rparr>"
  let ?c = "?b\<lparr>task_state_of := RUNNING, started_at := Some 1\<rparr>"
  let ?d = "?c\<lparr>task_state_of := FAILED, finished_at := Some 2, task_error := Some ''late''\<rparr>"
  have "mark_ready ?a = Inr ?b" "mark_running 1 ?b = Inr ?c" "mark_failed 2 '' late'' ?c = Inr ?d" by code_simp+
  then have "task_history [?d, ?c, ?b, ?a]"
    by (metis history_new history_step step_ready step_running step_failed)
  from task_lifecycle [OF this] this show ?thesis by (intro exI [of _ "[?d, ?c, ?b, ?a]"]) simp
qed

text \<open>C19: A compare-and-set that succeeds replaced the very entry that was read: whatever other
  operations came in between, as long as none removed the key, nothing written by others is lost. The new entry
  has the next version and no other key is touched.\<close>

theorem compare_and_set_atomic:
  assumes "state_get ns k st = Inr (Some read)" and "state_key ns k = Inr nk"
    and "\<forall>op \<in> set ops. \<not> removes nk op"
    and "compare_and_set now ns k (entry_version read) v source (state_run ops st) = Inr (Some e, st')"
  shows "map_of (state_run ops st) nk = Some read \<and> map_of st' nk = Some e
     \<and> entry_version e = entry_version read + 1 \<and> entry_value e = v
     \<and> (\<forall>other. other = nk \<or> map_of st' other = map_of (state_run ops st) other)"
proof -
  from assms(4) obtain nk' where "state_key ns k = Inr nk'" "map_of st' nk' = Some e"
    "entry_version e = entry_version read + 1" "entry_value e = v"
    "\<And>other. other \<noteq> nk' \<Longrightarrow> map_of st' other = map_of (state_run ops st) other"
    by (rule compare_and_set_Some) blast
  then show ?thesis using cas_replaces_read [OF assms] assms(2) by auto
qed

theorem compare_and_set_atomic_witness:
  "\<exists>st read e st'. state_get '' Plan'' ''step '' st = Inr (Some read)
     \<and> compare_and_set 2 '' Plan'' ''step '' (entry_version read) 7 None
        (state_run [StatePut 1 ''plan'' ''other'' 5 None] st) = Inr (Some e, st')
     \<and> map_of st' (''plan'', ''step'') = Some e \<and> map_of st (''plan'', ''step'') = Some read
     \<and> entry_value e = (7 :: int) \<and> entry_version e = 2"
proof -
  let ?st = "state_run [StatePut 0 ''plan'' ''step'' (3 :: int) None] []"
  let ?ops = "[StatePut 1 ''plan'' ''other'' (5 :: int) None]"
  let ?read = "\<lparr>entry_namespace = ''plan'', entry_key = ''step'', entry_value = 3, entry_version = 1,
     entry_updated_at = 0, entry_source = None\<rparr> :: int state_entry"
  let ?e = "?read\<lparr>entry_value := 7, entry_version := 2, entry_updated_at := 2\<rparr>"
  have read: "state_get '' Plan'' ''step '' ?st = Inr (Some ?read)"
    and key: "state_key '' Plan'' ''step '' = Inr (''plan'', ''step'')"
    and same: "map_of ?st (''plan'', ''step'') = Some ?read" by code_simp+
  have quiet: "\<forall>op \<in> set ?ops. \<not> removes (''plan'', ''step'') op" by simp
  have v: "entry_version ?read = 1" by simp
  obtain st' where cas: "compare_and_set 2 '' Plan'' ''step '' (entry_version ?read) 7 None (state_run ?ops ?st)
      = Inr (Some ?e, st')"
  proof -
    have "map_sum (\<lambda>x. x) fst (compare_and_set 2 '' Plan'' ''step '' 1 7 None (state_run ?ops ?st)) = Inr (Some ?e)"
      by code_simp
    then show thesis using that unfolding v
      by (cases "compare_and_set 2 '' Plan'' ''step '' 1 7 None (state_run ?ops ?st)") auto
  qed
  from compare_and_set_atomic [OF read key quiet cas] have "map_of st' (''plan'', ''step'') = Some ?e" by blast
  with read cas same show ?thesis
    by (intro exI [of _ ?st] exI [of _ ?read] exI [of _ ?e] exI [of _ st']) simp
qed

text \<open>C32: However threads interleave, a stopped kernel stays stopped, unless a thread has already
  initialised it inside \<open>start\<close> and not yet marked it as running.\<close>

theorem stopped_kernel_stays_stopped:
  assumes "kernel_run w w'" and "kernel_status_of (the_kernel w) = KERNEL_STOPPED" and "initialized w = 0"
  shows "kernel_status_of (the_kernel w') = KERNEL_STOPPED \<and> \<not> kernel_is_ready (the_kernel w')"
  using kernel_run_stopped [OF assms(1)] assms(2,3) by (simp add: finally_stopped_def kernel_is_ready_def)

theorem stopped_kernel_stays_stopped_witness:
  "\<exists>w w'. checked w = 1 \<and> checked w' = 0 \<and> kernel_run w w' \<and> \<not> kernel_is_ready (the_kernel w')"
proof -
  let ?k = "kernel_stop 1 (new_kernel ''1'' ''dev'' False)"
  let ?w = "\<lparr>the_kernel = ?k, checked = 1, initialized = 0\<rparr>"
  let ?w' = "?w\<lparr>the_kernel := ?k, checked := 0, initialized := 0\<rparr>"
  have "kernel_status_of ?k = KERNEL_STOPPED" by (simp add: kernel_stop_def new_kernel_def)
  moreover from this have "kernel_step ?w ?w'"
    using k_start_init [of ?w 0 "Inr ()"] by (simp add: kernel_initialize_def)
  then have run: "kernel_run ?w ?w'" by (blast intro: kernel_run.intros)
  ultimately have "\<not> kernel_is_ready (the_kernel ?w')" using stopped_kernel_stays_stopped [OF run] by simp
  with run show ?thesis by (intro exI [of _ ?w] exI [of _ ?w']) simp
qed

text \<open>C30: The policy on actions decides exactly by its table: kinds that are blocked and critical risk are
  blocked, high risk and profiles that ask for approval are reviewed, everything else is allowed - moderate risk
  also when the policy does not allow it by default.\<close>

theorem governance_policy_decides:
  assumes "evaluate_action now pol i p = Inr d"
  shows "tool_identifier ''intent_id'' (intent_id i) = Inr (profile_intent_id p)
     \<and> (outcome_reason d \<in> {LOW_RISK_DEFAULT, MODERATE_RISK_DEFAULT} \<longleftrightarrow> outcome_decision d = GOV_ALLOW)
     \<and> outcome_decision d = (if intent_kind i \<in> set (blocked_action_kinds pol) \<or> profile_risk p = GOV_CRITICAL
         then GOV_BLOCK
       else if profile_risk p = GOV_HIGH \<or> requires_approval p then GOV_REQUIRE_REVIEW
       else GOV_ALLOW)"
  using evaluate_action_table [OF assms] evaluate_action_reason [OF assms]
  by (simp add: governance_table_def)

definition ex_intent :: action_intent where
  "ex_intent = \<lparr>intent_id = '' Intent 1'', intent_task_id = ''task-1'', intent_kind = FILE_WRITE_ACTION,
     intent_summary = ''write'', intent_rationale = ''needed'', target_locator = ''a.py'',
     intent_requested_at = 0, intent_requested_by = None, intent_labels = [], intent_metadata = []\<rparr>"

definition ex_profile :: risk_profile where
  "ex_profile = \<lparr>profile_intent_id = ''intent-1'', profile_risk = GOV_MODERATE, requires_approval = False,
     profile_factors = [], profile_tags = [], profile_merge = None\<rparr>"

theorem governance_policy_decides_witness:
  "\<exists>d. evaluate_action 1 (default_governance_policy\<lparr>allow_moderate_risk_by_default := False\<rparr>) ex_intent ex_profile
      = Inr d \<and> outcome_decision d = GOV_ALLOW"
proof -
  let ?pol = "default_governance_policy\<lparr>allow_moderate_risk_by_default := False\<rparr>"
  have "ok_with (\<lambda>_. True) (evaluate_action 1 ?pol ex_intent ex_profile)" by code_simp
  then obtain d where d: "evaluate_action 1 ?pol ex_intent ex_profile = Inr d" by (blast dest: ok_withD)
  have "intent_kind ex_intent \<notin> set (blocked_action_kinds ?pol)" "profile_risk ex_profile = GOV_MODERATE"
    "\<not> requires_approval ex_profile" by code_simp+
  then show ?thesis using governance_policy_decides [OF d] d by simp
qed

text \<open>C25: A ledger of governed actions that only \<open>append\<close> has written passes its check for every intent,
  whatever the other intents of the ledger went through.\<close>

theorem governance_ledger_stays_verified:
  assumes "governed H led" and "tool_identifier ''intent_id'' intent = Inr iid"
  shows "verify_intent_chain H led intent = Inr True"
  using governed_verified [OF assms(1)] assms(2) by (simp add: verify_intent_chain_def gov_verified_def)

theorem governance_ledger_stays_verified_witness:
  "\<exists>led. length led = 2 \<and> governed ex_hash led \<and> verify_intent_chain ex_hash led '' Intent 1'' = Inr True"
proof -
  have hex: "list_all is_lower_hex ''1''" "list_all is_lower_hex ''2''"
    and iid: "tool_identifier ''intent_id'' '' Intent 1'' = Inr ''intent-1''" and sum: "strip ''ok'' \<noteq> []" by code_simp+
  have meta: "\<not> holds_other (JObj [])" by simp
  obtain r1 where a: "append_gov_receipt ex_hash ''1'' 0 '' Intent 1'' POLICY_ALLOWED ''ok'' None [] [] = Inr (r1, [] @ [r1])"
    using append_gov_receipt_accepts [OF iid sum meta hex(1)] by blast
  obtain r2 where b: "append_gov_receipt ex_hash ''2'' 1 '' Intent 1'' EXECUTION_STARTED ''ok'' None [] ([] @ [r1])
      = Inr (r2, ([] @ [r1]) @ [r2])"
    using append_gov_receipt_accepts [OF iid sum meta hex(2)] by blast
  have led: "governed ex_hash (([] @ [r1]) @ [r2])"
    by (rule governed_append [OF governed_append [OF governed_new hex(1) a] hex(2) b])
  show ?thesis using governance_ledger_stays_verified [OF led iid] led
    by (intro exI [of _ "([] @ [r1]) @ [r2]"]) simp
qed

text \<open>C18: A decision on an approval that was accepted once is what the store answers from then on,
  whatever is requested and resolved afterwards, until the store is cleared.\<close>

theorem approval_decision_final:
  assumes "approval_decision_init d0 = Inr d" and "resolve_approval parse rt d store = Inr (s, store')"
    and "list_all normal_op ops" and "normal_state s" and "reads_back parse rt s"
  shows "get_approval parse rt (resolved_approval_id d) (approval_run parse rt ops store') = Inr (Some s)
     \<and> state_decision s = Some d \<and> approval_status_is d \<noteq> APPROVAL_PENDING"
proof -
  have n: "normal_decision d" by (rule approval_decision_init_normal [OF assms(1)])
  have "get_approval parse rt (resolved_approval_id d) store' = Inr (Some s)"
    using resolve_approval_decided(1) [OF assms(2)] n decode_document [OF assms(4,5)]
    by (simp add: get_approval_def normal_decision_def)
  then show ?thesis using resolution_stays [OF assms(2,3) n] resolve_approval_decided(3) [OF assms(2)]
      approval_decision_init_terminal [OF assms(1)] by simp
qed

definition ex_approval :: approval_request where
  "ex_approval = \<lparr>approval_id = ''approval-1'', approval_intent_id = ''intent-1'',
     approval_requested_at = Aware 0, approval_requested_by = None, approval_summary = ''s'',
     approval_rationale = ''r'', approval_policy_reason = ''high'', required_roles = [''lead''],
     request_evidence_refs = [], approval_metadata = []\<rparr>"

definition ex_resolution :: "approval_status \<Rightarrow> approval_decision" where
  "ex_resolution status = \<lparr>resolved_approval_id = ''approval-1'', resolved_intent_id = ''intent-1'',
     approval_status_is = status, approval_decided_at = Aware ex_later, decided_by = ''dana'',
     decision_note = ''fine'', decision_evidence_refs = []\<rparr>"

theorem approval_decision_final_witness:
  "\<exists>store s store'. put_request ex_runtime ex_approval [] = Inr (\<lparr>state_request = ex_approval, state_decision = None\<rparr>, store)
     \<and> resolve_approval ex_parse ex_runtime (ex_resolution APPROVED) store = Inr (s, store')
     \<and> get_approval ex_parse ex_runtime ''approval-1''
         (approval_run ex_parse ex_runtime [ResolveApproval (ex_resolution REJECTED)] store') = Inr (Some s)"
proof -
  let ?open = "\<lparr>state_request = ex_approval, state_decision = None\<rparr>"
  let ?d = "ex_resolution APPROVED"
  let ?s = "\<lparr>state_request = ex_approval, state_decision = Some ?d\<rparr>"
  let ?store = "dict_set ''approval-1'' (approval_document ex_runtime ?open) []"
  have normal: "normal_state ?open" "normal_state ?s" by code_simp+
  have reads: "reads_back ex_parse ex_runtime ?open" "reads_back ex_parse ex_runtime ?s" by code_simp+
  have put: "put_request ex_runtime ex_approval [] = Inr (?open, ?store)"
    by (simp add: put_request_def ex_approval_def Let_def)
  have id: "tool_identifier ''approval_id'' ''approval-1'' = Inr ''approval-1''"
    and init: "approval_decision_init ?d = Inr ?d"
    and ops: "list_all normal_op [ResolveApproval (ex_resolution REJECTED)]" by code_simp+
  have "get_approval ex_parse ex_runtime ''approval-1'' ?store = Inr (Some ?open)"
    by (simp add: get_approval_def id decode_document [OF normal(1) reads(1)])
  moreover have "with_decision ?d ?open = Inr ?s"
    by (simp add: with_decision_def ex_resolution_def ex_approval_def)
  moreover have aid: "resolved_approval_id ?d = ''approval-1''" by (simp add: ex_resolution_def)
  ultimately obtain store' where r: "resolve_approval ex_parse ex_runtime ?d ?store = Inr (?s, store')"
    by (simp add: resolve_approval_def)
  from approval_decision_final [OF init r ops normal(2) reads(2)] put r aid show ?thesis by auto
qed

end
