(* ===== verification/Safeguards.thy ===== *)
theory Safeguards
  imports Approvals Complex_Main
begin

text \<open>
  Semantic safeguards (\<open>brains/safety.py\<close>): findings with a severity and an advisory assessment of
  them. Confidences are Python floats; a finite float is a rational number, and the model has no
  other.
\<close>

datatype evidence_kind =
  TEXT_SPAN | LABEL_EVIDENCE | POLICY_TAG | MODALITY_SIGNAL | ATTACHMENT_REFERENCE | PROVIDER_MESSAGE
  | MODEL_RATIONALE | STRUCTURED_SIGNAL

fun disposition_value :: "safeguard_disposition \<Rightarrow> string" where
  "disposition_value SAFEGUARD_ALLOW = ''allow''"
| "disposition_value SAFEGUARD_REVIEW = ''review''"
| "disposition_value SAFEGUARD_BLOCK = ''block''"

fun severity_value :: "safeguard_severity \<Rightarrow> string" where
  "severity_value SEVERITY_INFO = ''info''"
| "severity_value SEVERITY_LOW = ''low''"
| "severity_value SEVERITY_MODERATE = ''moderate''"
| "severity_value SEVERITY_HIGH = ''high''"
| "severity_value SEVERITY_CRITICAL = ''critical''"

fun severity_rank :: "safeguard_severity \<Rightarrow> nat" where
  "severity_rank SEVERITY_INFO = 1"
| "severity_rank SEVERITY_LOW = 2"
| "severity_rank SEVERITY_MODERATE = 3"
| "severity_rank SEVERITY_HIGH = 4"
| "severity_rank SEVERITY_CRITICAL = 5"

record safeguard_evidence =
  evidence_kind_of :: evidence_kind
  safeguard_value :: string
  evidence_locator :: "string option"
  evidence_excerpt :: "string option"
  safeguard_evidence_metadata :: "json dict"

definition optional_locator :: "string option \<Rightarrow> string option" where
  "optional_locator v = (case v of None \<Rightarrow> None
     | Some s \<Rightarrow> let cleaned = replace_char CHR 0x5C CHR ''/'' (strip s) in
         if cleaned = [] then None else Some cleaned)"

definition safeguard_evidence_init :: "safeguard_evidence \<Rightarrow> safeguard_evidence res" where
  "safeguard_evidence_init e =
     res_bind (required_text ''value'' (safeguard_value e)) (\<lambda>v.
       Inr (e\<lparr>safeguard_value := v, evidence_locator := optional_locator (evidence_locator e),
              evidence_excerpt := filled_or_none (evidence_excerpt e)\<rparr>))"

record safeguard_finding =
  finding_id :: string
  finding_code :: string
  finding_severity :: safeguard_severity
  finding_summary :: string
  finding_tags :: "string list"
  finding_evidence :: "safeguard_evidence list"
  finding_confidence :: rat
  finding_uncertainty :: rat
  finding_metadata :: "json dict"

definition normalize_probability :: "string \<Rightarrow> rat \<Rightarrow> rat res" where
  "normalize_probability label p =
     (if 0 \<le> p \<and> p \<le> 1 then Inr p else Inl (ValueError (label @ '' must be between 0.0 and 1.0.'')))"

definition safeguard_finding_init :: "safeguard_finding \<Rightarrow> safeguard_finding res" where
  "safeguard_finding_init f =
     res_bind (tool_identifier ''finding_id'' (finding_id f)) (\<lambda>fid.
     res_bind (tool_identifier ''code'' (finding_code f)) (\<lambda>code.
     res_bind (required_text ''summary'' (finding_summary f)) (\<lambda>summary.
     res_bind (normalize_probability ''confidence'' (finding_confidence f)) (\<lambda>c.
     res_bind (normalize_probability ''uncertainty'' (finding_uncertainty f)) (\<lambda>u.
       Inr (f\<lparr>finding_id := fid, finding_code := code, finding_summary := summary,
              finding_tags := tool_labels (finding_tags f), finding_confidence := c,
              finding_uncertainty := u\<rparr>))))))"

definition finding_requires_review :: "safeguard_finding \<Rightarrow> bool" where
  "finding_requires_review f = (severity_rank SEVERITY_MODERATE \<le> severity_rank (finding_severity f))"

definition finding_recommends_block :: "safeguard_finding \<Rightarrow> bool" where
  "finding_recommends_block f = (severity_rank SEVERITY_HIGH \<le> severity_rank (finding_severity f))"

record safeguard_assessment =
  safeguard_brain :: string
  safeguard_invocation_id :: string
  safeguard_advice :: safeguard_disposition
  safeguard_findings :: "safeguard_finding list"
  safeguard_metadata :: "json dict"

definition safeguard_assessment_init :: "safeguard_assessment \<Rightarrow> safeguard_assessment res" where
  "safeguard_assessment_init a =
     res_bind (tool_identifier ''brain_name'' (safeguard_brain a)) (\<lambda>brain.
     res_bind (tool_identifier ''invocation_id'' (safeguard_invocation_id a)) (\<lambda>iid.
       if safeguard_findings a = [] \<and> safeguard_advice a \<noteq> SAFEGUARD_ALLOW
       then Inl (ValueError ''Assessments without findings must use advisory_disposition=ALLOW.'')
       else Inr (a\<lparr>safeguard_brain := brain, safeguard_invocation_id := iid\<rparr>)))"

text \<open>\<open>max(..., key=rank)\<close>: the first finding of the highest rank.\<close>

fun worst_finding :: "safeguard_finding \<Rightarrow> safeguard_finding list \<Rightarrow> safeguard_finding" where
  "worst_finding best [] = best"
| "worst_finding best (f # fs) =
     worst_finding (if severity_rank (finding_severity best) < severity_rank (finding_severity f) then f else best) fs"

definition highest_finding :: "safeguard_finding list \<Rightarrow> safeguard_finding option" where
  "highest_finding fs = (case fs of [] \<Rightarrow> None | f # rest \<Rightarrow> Some (worst_finding f rest))"

definition assessment_severity :: "safeguard_assessment \<Rightarrow> safeguard_severity option" where
  "assessment_severity a = map_option finding_severity (highest_finding (safeguard_findings a))"

definition assessment_codes :: "safeguard_assessment \<Rightarrow> string list" where
  "assessment_codes a = map finding_code (safeguard_findings a)"

definition assessment_tags :: "safeguard_assessment \<Rightarrow> string list" where
  "assessment_tags a = uniq (concat (map finding_tags (safeguard_findings a)))"

definition disposition_from_findings :: "safeguard_finding list \<Rightarrow> safeguard_disposition" where
  "disposition_from_findings fs =
     (case highest_finding fs of
        None \<Rightarrow> SAFEGUARD_ALLOW
      | Some f \<Rightarrow> if finding_recommends_block f then SAFEGUARD_BLOCK
          else if finding_requires_review f then SAFEGUARD_REVIEW else SAFEGUARD_ALLOW)"

definition assessment_from_findings ::
  "string \<Rightarrow> string \<Rightarrow> safeguard_finding list \<Rightarrow> json dict \<Rightarrow> safeguard_assessment res" where
  "assessment_from_findings brain invocation fs meta = safeguard_assessment_init
     \<lparr>safeguard_brain = brain, safeguard_invocation_id = invocation,
      safeguard_advice = disposition_from_findings fs, safeguard_findings = fs, safeguard_metadata = meta\<rparr>"

section \<open>What the disposition says of the findings\<close>

lemma worst_finding_rank:
  "severity_rank (finding_severity (worst_finding best fs))
     = fold (\<lambda>f m. max (severity_rank (finding_severity f)) m) fs (severity_rank (finding_severity best))"
proof (induction fs arbitrary: best)
  case (Cons f fs)
  then show ?case by (cases "severity_rank (finding_severity best) < severity_rank (finding_severity f)")
      (simp_all add: max_def)
qed simp

lemma worst_finding_in: "worst_finding best fs \<in> insert best (set fs)"
proof (induction fs arbitrary: best)
  case (Cons f fs)
  from Cons.IH [of "if severity_rank (finding_severity best) < severity_rank (finding_severity f) then f else best"]
  show ?case by (auto split: if_splits)
qed simp

lemma worst_finding_ge:
  "f \<in> insert best (set fs) \<Longrightarrow> severity_rank (finding_severity f) \<le> severity_rank (finding_severity (worst_finding best fs))"
proof (induction fs arbitrary: best f)
  case (Cons g fs)
  let ?b = "if severity_rank (finding_severity best) < severity_rank (finding_severity g) then g else best"
  have "severity_rank (finding_severity f) \<le> severity_rank (finding_severity ?b) \<or> f \<in> set fs"
    using Cons.prems by auto
  then show ?case using Cons.IH [of ?b ?b] Cons.IH [of f ?b] by (auto split: if_splits)
qed simp

lemma highest_finding_ge:
  assumes "highest_finding fs = Some w"
  shows "w \<in> set fs" "f \<in> set fs \<Longrightarrow> severity_rank (finding_severity f) \<le> severity_rank (finding_severity w)"
  using assms worst_finding_in worst_finding_ge by (auto simp: highest_finding_def split: list.splits)

lemma highest_finding_ex:
  assumes "\<And>f g. severity_rank (finding_severity f) \<le> severity_rank (finding_severity g) \<Longrightarrow> P f \<Longrightarrow> P g"
  shows "list_ex P fs \<longleftrightarrow> (case highest_finding fs of None \<Rightarrow> False | Some w \<Rightarrow> P w)"
proof (cases "highest_finding fs")
  case None
  then show ?thesis by (cases fs) (simp_all add: highest_finding_def)
next
  case (Some w)
  have "list_ex P fs \<Longrightarrow> P w" using highest_finding_ge(2) [OF Some] assms by (auto simp: list_ex_iff)
  moreover have "P w \<Longrightarrow> list_ex P fs" using highest_finding_ge(1) [OF Some] by (auto simp: list_ex_iff)
  ultimately show ?thesis using Some by auto
qed

lemma disposition_iff:
  "disposition_from_findings fs =
     (if list_ex finding_recommends_block fs then SAFEGUARD_BLOCK
      else if list_ex finding_requires_review fs then SAFEGUARD_REVIEW else SAFEGUARD_ALLOW)"
proof -
  have "list_ex finding_recommends_block fs
      \<longleftrightarrow> (case highest_finding fs of None \<Rightarrow> False | Some w \<Rightarrow> finding_recommends_block w)"
    by (rule highest_finding_ex) (simp add: finding_recommends_block_def)
  moreover have "list_ex finding_requires_review fs
      \<longleftrightarrow> (case highest_finding fs of None \<Rightarrow> False | Some w \<Rightarrow> finding_requires_review w)"
    by (rule highest_finding_ex) (simp add: finding_requires_review_def)
  ultimately show ?thesis by (simp add: disposition_from_findings_def split: option.splits)
qed

end
