(* ===== verification/Switchboard.thy ===== *)
theory Switchboard
  imports Tasks Complex_Main
begin

text \<open>
  Routing of tasks to capabilities (\<open>switchboard/models.py\<close>, \<open>runtime.py\<close>). Confidences are
  quotients of small integers and decimal constants: the model computes them exactly, which orders
  them as the floats do while a route has fewer than \<open>2 ^ 26\<close> labels.
\<close>

section \<open>Entries by name\<close>

text \<open>
  Routes, packs and checks are registered in the same way: an entry takes the place of the one with
  its name, or is added. What their clients rely on is that the last entry registered under a name is
  the one that is found.
\<close>

locale named_entries =
  fixes find_entry :: "'d \<Rightarrow> string \<Rightarrow> 'v option" and put_entry :: "'v \<Rightarrow> 'd \<Rightarrow> 'd" and entry_name :: "'v \<Rightarrow> string"
  assumes find_put: "find_entry (put_entry v d) k = (if k = entry_name v then Some v else find_entry d k)"
begin

lemma find_fold:
  "find_entry (fold put_entry vs d) k
     = (case List.find (\<lambda>v. entry_name v = k) (rev vs) of None \<Rightarrow> find_entry d k | Some v \<Rightarrow> Some v)"
proof (induction vs rule: rev_induct)
  case (snoc v vs)
  then show ?case by (simp add: find_put)
qed simp

lemma find_registered: "distinct (map entry_name vs) \<Longrightarrow> v \<in> set vs \<Longrightarrow> find_entry (fold put_entry vs d) (entry_name v) = Some v"
proof (induction vs rule: rev_induct)
  case (snoc u vs)
  then have "entry_name u \<notin> entry_name ` set vs" by simp
  then have other: "v \<in> set vs \<Longrightarrow> entry_name v \<noteq> entry_name u" by (metis imageI)
  from snoc show ?case by (cases "v = u") (use other in \<open>auto simp: find_put\<close>)
qed simp

lemma unregistered: "k \<notin> entry_name ` set vs \<Longrightarrow> find_entry (fold put_entry vs d) k = find_entry d k"
  by (induction vs rule: rev_induct) (auto simp: find_put)

end

section \<open>Routes and their scores\<close>

datatype routing_reason = EXACT_KIND_MATCH | LABEL_MATCH_REASON | FALLBACK | NO_MATCH

fun routing_reason_value :: "routing_reason \<Rightarrow> string" where
  "routing_reason_value EXACT_KIND_MATCH = ''exact_kind_match''"
| "routing_reason_value LABEL_MATCH_REASON = ''label_match''"
| "routing_reason_value FALLBACK = ''fallback''"
| "routing_reason_value NO_MATCH = ''no_match''"

record capability_route =
  route_name :: string
  supported_kinds :: "task_kind list"
  route_labels :: "string list"
  route_description :: string
  is_fallback :: bool

definition capability_name :: "string \<Rightarrow> string \<Rightarrow> string res" where
  "capability_name message s =
     (let cleaned = lower (strip s) in if cleaned = [] then Inl (ValueError message) else Inr cleaned)"

definition capability_route_init :: "capability_route \<Rightarrow> capability_route res" where
  "capability_route_init r =
     res_bind (capability_name ''Capability name must not be empty.'' (route_name r)) (\<lambda>n.
       Inr (r\<lparr>route_name := n, route_labels := clean_labels (route_labels r),
              route_description := strip (route_description r)\<rparr>))"

record routing_decision =
  routed_name :: string
  route_confidence :: rat
  route_reason :: routing_reason
  routed_task_id :: string
  matched_labels :: "string list"

definition routing_decision_init :: "routing_decision \<Rightarrow> routing_decision res" where
  "routing_decision_init d =
     res_bind (capability_name ''Routing decision capability name must not be empty.'' (routed_name d)) (\<lambda>n.
       if \<not> (0 \<le> route_confidence d \<and> route_confidence d \<le> 1)
       then Inl (ValueError ''Routing decision confidence must be between 0.0 and 1.0.'')
       else Inr (d\<lparr>routed_name := n, matched_labels := clean_labels (matched_labels d)\<rparr>))"

definition label_confidence :: "nat \<Rightarrow> nat \<Rightarrow> rat" where
  "label_confidence matched labels =
     (if labels = 0 then 1 / 2 else max (35 / 100) (min (of_nat matched / of_nat labels) (95 / 100)))"

definition score_route :: "capability_route \<Rightarrow> task_request \<Rightarrow> routing_decision option res" where
  "score_route r t =
     (let decide = (\<lambda>confidence reason matched. res_bind (routing_decision_init
            \<lparr>routed_name = route_name r, route_confidence = confidence, route_reason = reason,
             routed_task_id = task_id t, matched_labels = matched\<rparr>) (\<lambda>d. Inr (Some d)));
          matched = filter (\<lambda>l. l \<in> set (route_labels r)) (task_labels t)
      in if task_kind_of t \<in> set (supported_kinds r) then decide 1 EXACT_KIND_MATCH []
         else if matched \<noteq> []
         then decide (label_confidence (length matched) (length (route_labels r))) LABEL_MATCH_REASON matched
         else if is_fallback r then decide (1 / 4) FALLBACK []
         else Inr None)"

section \<open>The switchboard\<close>

type_synonym switchboard = "capability_route list"

fun register_route :: "capability_route \<Rightarrow> switchboard \<Rightarrow> switchboard" where
  "register_route r [] = [r]"
| "register_route r (e # es) = (if route_name e = route_name r then r # es else e # register_route r es)"

fun drop_route :: "string \<Rightarrow> switchboard \<Rightarrow> bool \<times> switchboard" where
  "drop_route n [] = (False, [])"
| "drop_route n (e # es) =
     (if route_name e = n then (True, es) else (let (found, es') = drop_route n es in (found, e # es')))"

definition unregister_route :: "string \<Rightarrow> switchboard \<Rightarrow> (bool \<times> switchboard) res" where
  "unregister_route name es =
     res_bind (capability_name ''Capability name must not be empty.'' name) (\<lambda>n. Inr (drop_route n es))"

fun best_route :: "routing_decision option \<Rightarrow> switchboard \<Rightarrow> task_request \<Rightarrow> routing_decision option res" where
  "best_route best [] t = Inr best"
| "best_route best (r # rs) t =
     res_bind (score_route r t) (\<lambda>d.
       best_route (case d of None \<Rightarrow> best
         | Some x \<Rightarrow> (case best of None \<Rightarrow> Some x
             | Some b \<Rightarrow> if route_confidence b < route_confidence x then Some x else Some b)) rs t)"

definition route_task :: "switchboard \<Rightarrow> task_request \<Rightarrow> routing_decision option res" where
  "route_task rs t = best_route None rs t"

section \<open>Registered routes\<close>

definition find_route :: "switchboard \<Rightarrow> string \<Rightarrow> capability_route option" where
  "find_route rs n = List.find (\<lambda>r. route_name r = n) rs"

lemma find_register_route: "find_route (register_route r es) k = (if k = route_name r then Some r else find_route es k)"
  by (induction es) (auto simp: find_route_def)

interpretation route_entries: named_entries find_route register_route route_name
  by unfold_locales (rule find_register_route)

definition switchboard_ok :: "switchboard \<Rightarrow> bool" where
  "switchboard_ok rs \<longleftrightarrow> distinct (map route_name rs) \<and> list_all (\<lambda>r. capability_route_init r = Inr r) rs"

lemma set_register_route: "set (register_route r es) \<subseteq> insert r (set es)"
  by (induction es) auto

lemma register_route_names:
  "set (map route_name (register_route r es)) = insert (route_name r) (set (map route_name es))"
  by (induction es) auto

lemma register_route_ok: "switchboard_ok es \<Longrightarrow> capability_route_init r = Inr r \<Longrightarrow> switchboard_ok (register_route r es)"
  unfolding switchboard_ok_def
proof (induction es)
  case (Cons e es)
  then show ?case using register_route_names [of r es] by auto
qed simp

lemma drop_route_set: "drop_route n es = (b, es') \<Longrightarrow> set es' \<subseteq> set es"
  by (induction es arbitrary: b es') (auto split: if_splits prod.splits)

lemma drop_route_ok: "switchboard_ok es \<Longrightarrow> drop_route n es = (b, es') \<Longrightarrow> switchboard_ok es' \<and> n \<notin> set (map route_name es')"
proof (induction es arbitrary: b es')
  case (Cons e es)
  show ?case
  proof (cases "route_name e = n")
    case True
    then show ?thesis using Cons.prems by (auto simp: switchboard_ok_def)
  next
    case False
    obtain b1 es1 where d: "drop_route n es = (b1, es1)" by (cases "drop_route n es")
    have "switchboard_ok es" using Cons.prems(1) by (simp add: switchboard_ok_def)
    note rest = Cons.IH [OF this d]
    have "route_name e \<notin> set (map route_name es1)"
      using drop_route_set [OF d] Cons.prems(1) unfolding switchboard_ok_def list.map distinct.simps set_map by blast
    moreover have "es' = e # es1" using Cons.prems(2) False d by simp
    ultimately show ?thesis using rest Cons.prems(1) False unfolding switchboard_ok_def by simp
  qed
qed (simp add: switchboard_ok_def)

section \<open>Routing in tiers\<close>

text \<open>
  The same choice, stated without confidences between the tiers: the first route that supports the
  kind; else, of the routes that share a label with the task, the first of the highest confidence;
  else the first fallback.
\<close>

definition shares_label :: "task_request \<Rightarrow> capability_route \<Rightarrow> bool" where
  "shares_label t r \<longleftrightarrow> (\<exists>l \<in> set (task_labels t). l \<in> set (route_labels r))"

definition tier :: "task_request \<Rightarrow> capability_route \<Rightarrow> nat" where
  "tier t r = (if task_kind_of t \<in> set (supported_kinds r) then 3 else if shares_label t r then 2
     else if is_fallback r then 1 else 0)"

definition labels_matched :: "task_request \<Rightarrow> capability_route \<Rightarrow> string list" where
  "labels_matched t r = filter (\<lambda>l. l \<in> set (route_labels r)) (task_labels t)"

definition tier_confidence :: "task_request \<Rightarrow> capability_route \<Rightarrow> rat" where
  "tier_confidence t r =
     (if tier t r = 3 then 1 else if tier t r = 2
      then label_confidence (length (labels_matched t r)) (length (route_labels r)) else 1 / 4)"

lemma label_confidence_bounds: "1 / 4 < label_confidence m n" "label_confidence m n < 1"
proof -
  show "1 / 4 < label_confidence m n" unfolding label_confidence_def by (auto simp: max_def min_def)
  have "min x (95 / 100) < (1 :: rat)" for x by (simp add: min_def)
  then have "max (35 / 100) (min x (95 / 100)) < (1 :: rat)" for x by simp
  then show "label_confidence m n < 1" unfolding label_confidence_def by simp
qed

lemma labels_matched_Nil: "labels_matched t r = [] \<longleftrightarrow> \<not> shares_label t r"
  by (auto simp: labels_matched_def shares_label_def filter_empty_conv)

lemma clean_labels_again_route: "capability_route_init r = Inr r \<Longrightarrow> capability_name m (route_name r) = Inr (route_name r)"
  by (cases r) (auto simp: capability_route_init_def capability_name_def res_bind_eq_Inr Let_def split: if_splits)

definition route_decision :: "task_request \<Rightarrow> capability_route \<Rightarrow> routing_decision" where
  "route_decision t r = \<lparr>routed_name = route_name r, route_confidence = tier_confidence t r,
     route_reason = (if tier t r = 3 then EXACT_KIND_MATCH else if tier t r = 2 then LABEL_MATCH_REASON else FALLBACK),
     routed_task_id = task_id t,
     matched_labels = (if tier t r = 2 then clean_labels (labels_matched t r) else [])\<rparr>"

lemma clean_labels_Nil [simp]: "clean_labels [] = []"
  by (simp add: clean_labels_def)

lemma score_route_eq:
  assumes "capability_route_init r = Inr r"
  shows "score_route r t = Inr (if tier t r = 0 then None else Some (route_decision t r))"
proof -
  note name = clean_labels_again_route [OF assms]
  have bounds: "0 \<le> label_confidence m n" "label_confidence m n \<le> 1" for m n
    using label_confidence_bounds [of m n] by linarith+
  show ?thesis
  proof (cases "task_kind_of t \<in> set (supported_kinds r)")
    case True
    then show ?thesis by (simp add: score_route_def Let_def routing_decision_init_def name tier_def route_decision_def
          tier_confidence_def)
  next
    case kind: False
    show ?thesis
    proof (cases "shares_label t r")
      case True
      then have "labels_matched t r \<noteq> []" by (simp add: labels_matched_Nil)
      with kind True show ?thesis unfolding score_route_def Let_def labels_matched_def [symmetric]
        by (simp add: routing_decision_init_def name tier_def route_decision_def tier_confidence_def bounds)
    next
      case False
      then have "labels_matched t r = []" by (simp add: labels_matched_Nil)
      with kind False show ?thesis unfolding score_route_def Let_def labels_matched_def [symmetric]
        by (simp add: routing_decision_init_def name tier_def route_decision_def tier_confidence_def)
    qed
  qed
qed

text \<open>The best of a list of decisions, the first one of the highest confidence.\<close>

fun first_best :: "routing_decision option \<Rightarrow> routing_decision list \<Rightarrow> routing_decision option" where
  "first_best best [] = best"
| "first_best best (d # ds) = first_best
     (case best of None \<Rightarrow> Some d | Some b \<Rightarrow> if route_confidence b < route_confidence d then Some d else Some b) ds"

lemma best_route_first_best:
  "list_all (\<lambda>r. capability_route_init r = Inr r) rs \<Longrightarrow>
     best_route best rs t = Inr (first_best best (map (route_decision t) (filter (\<lambda>r. tier t r \<noteq> 0) rs)))"
  by (induction rs arbitrary: best) (simp_all add: score_route_eq)

lemma first_best_ge:
  "first_best best ds = Some b \<Longrightarrow> d \<in> set ds \<or> best = Some d \<Longrightarrow> route_confidence d \<le> route_confidence b"
proof (induction ds arbitrary: best d)
  case (Cons x ds)
  let ?best = "case best of None \<Rightarrow> Some x | Some c \<Rightarrow> if route_confidence c < route_confidence x then Some x else Some c"
  obtain c where c: "?best = Some c" "route_confidence x \<le> route_confidence c"
    "\<And>e. best = Some e \<Longrightarrow> route_confidence e \<le> route_confidence c"
    by (cases best; cases "route_confidence (the best) < route_confidence x") auto
  have fb: "first_best ?best ds = Some b" using Cons.prems(1) by simp
  have "route_confidence c \<le> route_confidence b" using Cons.IH [OF fb, of c] c(1) by simp
  moreover have "d \<in> set ds \<Longrightarrow> route_confidence d \<le> route_confidence b" using Cons.IH [OF fb, of d] by simp
  ultimately show ?case using Cons.prems(2) c(2,3) by fastforce
qed simp

lemma first_best_None: "first_best best ds = None \<longleftrightarrow> best = None \<and> ds = []"
  by (induction ds arbitrary: best) (auto split: option.splits)

lemma first_best_first:
  "first_best None ds = Some b \<Longrightarrow> \<exists>us vs. ds = us @ b # vs \<and> (\<forall>u \<in> set us. route_confidence u < route_confidence b)"
proof -
  have "first_best (Some c) ds = Some b \<Longrightarrow> b = c \<or>
      (\<exists>us vs. ds = us @ b # vs \<and> route_confidence c < route_confidence b \<and> (\<forall>u \<in> set us. route_confidence u < route_confidence b))"
    for c ds
  proof (induction ds arbitrary: c)
    case (Cons d ds)
    show ?case
    proof (cases "route_confidence c < route_confidence d")
      case True
      with Cons have "b = d \<or> (\<exists>us vs. ds = us @ b # vs \<and> route_confidence d < route_confidence b
          \<and> (\<forall>u \<in> set us. route_confidence u < route_confidence b))" by simp
      then show ?thesis
      proof
        assume "b = d"
        then show ?thesis using True by (intro disjI2 exI [of _ "[]"] exI [of _ ds]) simp
      next
        assume "\<exists>us vs. ds = us @ b # vs \<and> route_confidence d < route_confidence b
          \<and> (\<forall>u \<in> set us. route_confidence u < route_confidence b)"
        then obtain us vs where "ds = us @ b # vs" "route_confidence d < route_confidence b"
          "\<forall>u \<in> set us. route_confidence u < route_confidence b" by blast
        then show ?thesis using True by (intro disjI2 exI [of _ "d # us"] exI [of _ vs]) auto
      qed
    next
      case False
      with Cons have "b = c \<or> (\<exists>us vs. ds = us @ b # vs \<and> route_confidence c < route_confidence b
          \<and> (\<forall>u \<in> set us. route_confidence u < route_confidence b))" by simp
      then show ?thesis
      proof
        assume "\<exists>us vs. ds = us @ b # vs \<and> route_confidence c < route_confidence b
          \<and> (\<forall>u \<in> set us. route_confidence u < route_confidence b)"
        then obtain us vs where "ds = us @ b # vs" "route_confidence c < route_confidence b"
          "\<forall>u \<in> set us. route_confidence u < route_confidence b" by blast
        then show ?thesis using False by (intro disjI2 exI [of _ "d # us"] exI [of _ vs]) auto
      qed simp
    qed
  qed simp
  then show "first_best None ds = Some b \<Longrightarrow> ?thesis"
    by (cases ds) (auto, metis append_Nil append_Cons empty_iff list.set(1) set_ConsD)
qed

lemma filter_split:
  "filter P ys = us @ x # vs \<Longrightarrow> \<exists>as bs. ys = as @ x # bs \<and> filter P as = us \<and> P x"
proof (induction ys arbitrary: us)
  case (Cons y ys)
  show ?case
  proof (cases "P y \<and> us = []")
    case True
    then show ?thesis using Cons.prems by (intro exI [of _ "[]"] exI [of _ ys]) auto
  next
    case False
    then have "\<exists>us'. filter P ys = us' @ x # vs \<and> us = (if P y then y # us' else us')"
      using Cons.prems by (cases us) (auto split: if_splits)
    then obtain us' where us': "filter P ys = us' @ x # vs" "us = (if P y then y # us' else us')" by blast
    obtain as bs where "ys = as @ x # bs" "filter P as = us'" "P x" using Cons.IH [OF us'(1)] by blast
    then show ?thesis using us'(2) by (intro exI [of _ "y # as"] exI [of _ bs]) simp
  qed
qed simp

lemma tier_confidence_less: "tier t r \<noteq> 0 \<Longrightarrow> tier t r < tier t r' \<Longrightarrow> tier_confidence t r < tier_confidence t r'"
  using label_confidence_bounds by (auto simp: tier_confidence_def tier_def split: if_splits)

text \<open>The route that is chosen is of the highest tier there is, and the first of its confidence in it.\<close>

lemma route_task_best:
  assumes "switchboard_ok rs" and "route_task rs t = Inr (Some d)"
  obtains r us vs where "rs = us @ r # vs" "d = route_decision t r" "tier t r \<noteq> 0"
    "\<And>r'. r' \<in> set rs \<Longrightarrow> tier t r' \<le> tier t r"
    "\<And>r'. r' \<in> set rs \<Longrightarrow> tier t r' = tier t r \<Longrightarrow> tier_confidence t r' \<le> tier_confidence t r"
    "\<And>r'. r' \<in> set us \<Longrightarrow> tier t r' = tier t r \<Longrightarrow> tier_confidence t r' < tier_confidence t r"
proof -
  let ?rs = "filter (\<lambda>r. tier t r \<noteq> 0) rs"
  have b: "first_best None (map (route_decision t) ?rs) = Some d"
    using assms best_route_first_best [of rs None t] by (simp add: route_task_def switchboard_ok_def)
  obtain us vs where s: "map (route_decision t) ?rs = us @ d # vs"
    and first: "\<forall>u \<in> set us. route_confidence u < route_confidence d" using first_best_first [OF b] by blast
  obtain us' r vs' where rs': "?rs = us' @ r # vs'" "us = map (route_decision t) us'" "d = route_decision t r"
    using s by (auto simp: map_eq_append_conv map_eq_Cons_conv)
  obtain xs ys where rs: "rs = xs @ r # ys" "filter (\<lambda>r. tier t r \<noteq> 0) xs = us'" "tier t r \<noteq> 0"
    using filter_split [OF rs'(1)] by blast
  have conf: "route_confidence (route_decision t r') = tier_confidence t r'" for r' by (simp add: route_decision_def)
  have ge: "tier_confidence t r' \<le> tier_confidence t r" if "r' \<in> set rs" "tier t r' \<noteq> 0" for r'
    using first_best_ge [OF b, of "route_decision t r'"] that rs'(3) conf by simp
  have "tier t r' \<le> tier t r" if "r' \<in> set rs" for r'
    using ge [OF that] tier_confidence_less [of t r r'] rs(3) by (metis gr_zeroI leD linorder_not_less not_less0)
  moreover have "tier_confidence t r' < tier_confidence t r" if "r' \<in> set xs" "tier t r' = tier t r" for r'
    using first rs'(2,3) rs(2) that conf rs(3) by force
  ultimately show thesis using that rs(1) rs'(3) rs(3) ge by metis
qed

lemma route_task_None:
  assumes "switchboard_ok rs"
  shows "route_task rs t = Inr None \<longleftrightarrow> (\<forall>r \<in> set rs. tier t r = 0)"
  using assms best_route_first_best [of rs None t]
  by (simp add: route_task_def switchboard_ok_def first_best_None filter_empty_conv)

lemma route_task_total: "switchboard_ok rs \<Longrightarrow> \<exists>d. route_task rs t = Inr d"
  using best_route_first_best [of rs None t] by (simp add: route_task_def switchboard_ok_def)

end
