(* ===== verification/TaskIntake.thy ===== *)
theory TaskIntake
  imports Approvals Complex_Main "HOL-Library.Multiset" "HOL-Library.Sublist"
begin

text \<open>
  The intake of tasks: the replay guard (\<open>runtime/replay.py\<close>) and the deterministic classifier of
  prompts (\<open>runtime/inference.py\<close>).
\<close>

section \<open>Terms in a text\<close>

text \<open>Python's \<open>p in s\<close> on strings.\<close>

fun occurs_in :: "string \<Rightarrow> string \<Rightarrow> bool" where
  "occurs_in p [] = (p = [])"
| "occurs_in p (c # s) = (take (length p) (c # s) = p \<or> occurs_in p s)"

lemma occurs_in_iff: "occurs_in p s \<longleftrightarrow> sublist p s"
proof (induction s)
  case (Cons c s)
  have "take (length p) (c # s) = p \<longleftrightarrow> prefix p (c # s)" by (metis append_eq_conv_conj append_take_drop_id prefix_def)
  then show ?case using Cons by (simp add: sublist_Cons_right)
qed simp

definition contains_any :: "string \<Rightarrow> string list \<Rightarrow> bool" where
  "contains_any s terms = list_ex (\<lambda>t. occurs_in t s) terms"

section \<open>Fingerprints\<close>

fun task_kind_value :: "task_kind \<Rightarrow> string" where
  "task_kind_value TASK_UNKNOWN = ''unknown''"
| "task_kind_value PROGRAMMING = ''programming''"
| "task_kind_value ARCHITECTURE = ''architecture''"
| "task_kind_value ANALYSIS = ''analysis''"
| "task_kind_value RESEARCH = ''research''"
| "task_kind_value EVALUATION = ''evaluation''"
| "task_kind_value OPERATIONS = ''operations''"

fun priority_int :: "task_priority \<Rightarrow> int" where
  "priority_int PRIORITY_CRITICAL = 0"
| "priority_int PRIORITY_HIGH = 1"
| "priority_int PRIORITY_NORMAL = 2"
| "priority_int PRIORITY_LOW = 3"
| "priority_int PRIORITY_BACKGROUND = 4"

text \<open>\<open>json.dumps\<close> with its default separators and \<open>ensure_ascii=False\<close>.\<close>

primrec spaced_text :: "json \<Rightarrow> string" where
  "spaced_text JNull = ''null''"
| "spaced_text (JBool b) = (if b then ''true'' else ''false'')"
| "spaced_text (JInt i) = show_int i"
| "spaced_text (JFloat s) = s"
| "spaced_text JNonFinite = ''NaN''"
| "spaced_text (JStr s) = quote False s"
| "spaced_text (JList xs) = CHR ''['' # join '', '' (map spaced_text xs) @ '']''"
| "spaced_text (JObj kvs) = CHR ''{'' #
     join '', '' (map (\<lambda>(k, t). quote False k @ '': '' @ t) (map (map_prod id spaced_text) kvs)) @ ''}''"
| "spaced_text JOther = []"

definition fingerprint_payload :: "task_request \<Rightarrow> json" where
  "fingerprint_payload t = JObj
     [(''kind'', JStr (task_kind_value (task_kind_of t))),
      (''priority'', JInt (priority_int (task_priority_of t))),
      (''prompt'', JStr (strip (task_prompt (task_input_of t)))),
      (''labels'', json_strs (task_labels t)),
      (''attachments'', json_strs (task_attachments (task_input_of t))),
      (''metadata'', JObj (sort_key fst (task_metadata (task_input_of t))))]"

definition fingerprint_task :: "(string \<Rightarrow> string) \<Rightarrow> task_request \<Rightarrow> string res" where
  "fingerprint_task H t =
     (let v = fingerprint_payload t in
      if holds_other v then Inl (TypeError ''Object is not JSON serializable'')
      else Inr (H (utf8 (spaced_text (sort_keys v)))))"

section \<open>The replay guard\<close>

record replay_guard =
  window_size :: nat
  recent :: "string list"
  counts :: "(string \<times> nat) list"

record replay_observation =
  fingerprint :: string
  duplicate_detected :: bool
  seen_count :: nat
  observed_window :: nat

definition replay_guard_init :: "int \<Rightarrow> replay_guard res" where
  "replay_guard_init n =
     (if n < 1 then Inl (ValueError ''Task replay window size must be greater than zero.'')
      else Inr \<lparr>window_size = nat n, recent = [], counts = []\<rparr>)"

definition count_up :: "string \<Rightarrow> (string \<times> nat) list \<Rightarrow> (string \<times> nat) list" where
  "count_up f cs = AList.update f (case map_of cs f of None \<Rightarrow> 1 | Some n \<Rightarrow> n + 1) cs"

text \<open>\<open>deque(maxlen=window)\<close>: appending to a full queue drops its first entry.\<close>

definition push_recent :: "nat \<Rightarrow> string \<Rightarrow> string list \<Rightarrow> string list" where
  "push_recent n f xs = (let ys = xs @ [f] in drop (length ys - n) ys)"

definition recount :: "replay_guard \<Rightarrow> replay_guard" where
  "recount g = (if length (recent g) < window_size g then g else g\<lparr>counts := fold count_up (recent g) []\<rparr>)"

definition observe_fingerprint :: "string \<Rightarrow> replay_guard \<Rightarrow> replay_observation \<times> replay_guard" where
  "observe_fingerprint f g =
     (let dup = map_of (counts g) f \<noteq> None;
          g' = recount (g\<lparr>recent := push_recent (window_size g) f (recent g), counts := count_up f (counts g)\<rparr>)
      in (\<lparr>fingerprint = f, duplicate_detected = dup,
           seen_count = (case map_of (counts g') f of None \<Rightarrow> 0 | Some n \<Rightarrow> n),
           observed_window = window_size g\<rparr>, g'))"

definition observe_task :: "(string \<Rightarrow> string) \<Rightarrow> task_request \<Rightarrow> replay_guard \<Rightarrow> (replay_observation \<times> replay_guard) res" where
  "observe_task H t g = res_bind (fingerprint_task H t) (\<lambda>f. Inr (observe_fingerprint f g))"

text \<open>The counts are those of the entries of the window.\<close>

definition tally :: "(string \<times> nat) list \<Rightarrow> string multiset \<Rightarrow> bool" where
  "tally cs m \<longleftrightarrow> (\<forall>f. map_of cs f = (if f \<in># m then Some (count m f) else None))"

definition guard_ok :: "replay_guard \<Rightarrow> bool" where
  "guard_ok g \<longleftrightarrow> 0 < window_size g \<and> length (recent g) \<le> window_size g \<and> tally (counts g) (mset (recent g))"

lemma tally_count_up: "tally cs m \<Longrightarrow> tally (count_up f cs) (add_mset f m)"
  by (auto simp: tally_def count_up_def update_conv' not_in_iff)

lemma tally_fold: "tally cs m \<Longrightarrow> tally (fold count_up xs cs) (mset xs + m)"
proof (induction xs arbitrary: cs m)
  case (Cons x xs)
  from Cons.IH [OF tally_count_up [OF Cons.prems, of x]] show ?case by simp
qed simp

lemma tally_Nil [simp]: "tally [] {#}"
  by (simp add: tally_def)

lemma guard_init_ok: "replay_guard_init n = Inr g \<Longrightarrow> guard_ok g"
  by (auto simp: replay_guard_init_def guard_ok_def split: if_splits)

lemma push_recent_length: "length xs \<le> n \<Longrightarrow> 0 < n \<Longrightarrow> length (push_recent n f xs) \<le> n"
  by (simp add: push_recent_def Let_def)

lemma observe_ok:
  assumes "guard_ok g" and "observe_fingerprint f g = (obs, g')"
  shows "guard_ok g'" "window_size g' = window_size g" "recent g' = push_recent (window_size g) f (recent g)"
    "duplicate_detected obs \<longleftrightarrow> f \<in> set (recent g)" "fingerprint obs = f"
    "seen_count obs = count_list (recent g') f"
proof -
  note t = assms(1) [unfolded guard_ok_def]
  let ?r = "push_recent (window_size g) f (recent g)"
  let ?h = "g\<lparr>recent := ?r, counts := count_up f (counts g)\<rparr>"
  have g': "g' = recount ?h" and obs: "obs = \<lparr>fingerprint = f, duplicate_detected = map_of (counts g) f \<noteq> None,
      seen_count = (case map_of (counts g') f of None \<Rightarrow> 0 | Some n \<Rightarrow> n), observed_window = window_size g\<rparr>"
    using assms(2) by (auto simp: observe_fingerprint_def Let_def)
  have len: "length ?r \<le> window_size g" using push_recent_length t by simp
  have tally: "tally (counts g') (mset ?r)"
  proof (cases "length ?r < window_size g")
    case True
    then have "?r = recent g @ [f]" by (auto simp: push_recent_def Let_def)
    then show ?thesis using True tally_count_up [of "counts g" "mset (recent g)" f] t by (simp add: g' recount_def)
  next
    case False
    then show ?thesis using tally_fold [OF tally_Nil, of ?r] by (simp add: g' recount_def)
  qed
  show "recent g' = ?r" "window_size g' = window_size g" by (simp_all add: g' recount_def)
  then show "guard_ok g'" using len tally t by (simp add: guard_ok_def)
  show "duplicate_detected obs \<longleftrightarrow> f \<in> set (recent g)" "fingerprint obs = f" using t by (auto simp: obs tally_def)
  show "seen_count obs = count_list (recent g') f"
    using tally \<open>recent g' = ?r\<close> by (auto simp: obs tally_def count_mset [symmetric] count_list_0_iff)
qed

text \<open>After any history, a task is a duplicate exactly when it is among the last ones observed.\<close>

fun observe_all :: "string list \<Rightarrow> replay_guard \<Rightarrow> replay_guard" where
  "observe_all [] g = g"
| "observe_all (f # fs) g = observe_all fs (snd (observe_fingerprint f g))"

definition last_entries :: "nat \<Rightarrow> 'a list \<Rightarrow> 'a list" where
  "last_entries n xs = drop (length xs - n) xs"

lemma last_entries_snoc: "last_entries n (last_entries n xs @ ys) = last_entries n (xs @ ys)"
  by (cases "length xs \<le> n") (auto simp: last_entries_def add.commute)

lemma observe_all_recent:
  "guard_ok g \<Longrightarrow> guard_ok (observe_all fs g) \<and> window_size (observe_all fs g) = window_size g
     \<and> recent (observe_all fs g) = last_entries (window_size g) (recent g @ fs)"
proof (induction fs arbitrary: g)
  case Nil
  then show ?case by (simp add: guard_ok_def last_entries_def)
next
  case (Cons f fs)
  obtain obs g1 where o: "observe_fingerprint f g = (obs, g1)" by (rule prod.exhaust)
  note step = observe_ok [OF Cons.prems o]
  have "recent g1 = last_entries (window_size g) (recent g @ [f])"
    by (simp add: step(3) push_recent_def last_entries_def Let_def)
  then show ?case using Cons.IH [OF step(1)] o step(2)
      last_entries_snoc [of "window_size g" "recent g @ [f]" fs] by simp
qed

section \<open>The classifier\<close>

datatype inference_reason = EXPLICIT_SIGNAL | KEYWORD_MATCH | INFERRED_BY_LABEL | NO_SIGNAL

fun inference_reason_value :: "inference_reason \<Rightarrow> string" where
  "inference_reason_value EXPLICIT_SIGNAL = ''explicit_signal''"
| "inference_reason_value KEYWORD_MATCH = ''keyword_match''"
| "inference_reason_value INFERRED_BY_LABEL = ''label_match''"
| "inference_reason_value NO_SIGNAL = ''no_signal''"

record task_inference =
  inferred_kind :: task_kind
  inference_confidence :: rat
  inference_reason_of :: inference_reason
  matched_terms :: "string list"
  inferred_labels :: "string list"

definition task_inference_init :: "task_inference \<Rightarrow> task_inference res" where
  "task_inference_init i =
     (if \<not> (0 \<le> inference_confidence i \<and> inference_confidence i \<le> 1)
      then Inl (ValueError ''Task inference confidence must be between 0.0 and 1.0.'')
      else Inr (i\<lparr>matched_terms := clean_labels (matched_terms i), inferred_labels := clean_labels (inferred_labels i)\<rparr>))"

definition term_map :: "(task_kind \<times> string list) list" where
  "term_map =
    [(PROGRAMMING, [''bug'', ''build'', ''code'', ''debug'', ''fix'', ''function'', ''patch'', ''profile'',
       ''python'', ''refactor'', ''regression'', ''repo'', ''test'', ''tests'']),
     (ARCHITECTURE, [''architecture'', ''boundary'', ''component'', ''design'', ''interface'', ''module'',
       ''orchestration'', ''runtime'', ''state model'', ''subsystem'', ''system design'']),
     (ANALYSIS, [''analyze'', ''analysis'', ''audit'', ''explain'', ''inspect'', ''inspection'', ''review'',
       ''walk through'']),
     (RESEARCH, [''compare'', ''investigate'', ''literature'', ''research'', ''survey'', ''study'']),
     (EVALUATION, [''benchmark'', ''evaluate'', ''evaluation'', ''grade'', ''measure'', ''metric'', ''score'',
       ''validate'', ''verification'', ''verify'']),
     (OPERATIONS, [''deploy'', ''incident'', ''monitor'', ''oncall'', ''operations'', ''release'', ''runbook'',
       ''service''])]"

definition label_map :: "task_kind \<Rightarrow> string list" where
  "label_map k = (case k of
       PROGRAMMING \<Rightarrow> [''code'', ''patching'', ''profiling'', ''testing'']
     | ARCHITECTURE \<Rightarrow> [''architecture'', ''boundary'', ''design'', ''interfaces'', ''state'']
     | ANALYSIS \<Rightarrow> [''analysis'', ''audit'', ''inspection'']
     | RESEARCH \<Rightarrow> [''research'', ''survey'']
     | EVALUATION \<Rightarrow> [''benchmark'', ''evaluation'', ''verification'']
     | OPERATIONS \<Rightarrow> [''deploy'', ''ops'', ''operations'', ''runbook'']
     | TASK_UNKNOWN \<Rightarrow> [])"

text \<open>
  The score of \<open>m\<close> terms and \<open>n\<close> labels is the float \<open>m * 0.18 + n * 0.27\<close>, whose rounding decides
  ties: it is the parameter \<open>score\<close>, a rational as every finite float is.
\<close>

definition infer_step ::
  "(nat \<Rightarrow> nat \<Rightarrow> rat) \<Rightarrow> string \<Rightarrow> string list \<Rightarrow> task_kind \<times> string list \<Rightarrow> task_inference option
    \<Rightarrow> task_inference option" where
  "infer_step score lowered ls entry best =
     (let k = fst entry; ts = filter (\<lambda>t. occurs_in t lowered) (snd entry);
          ms = filter (\<lambda>l. l \<in> set (label_map k)) ls;
          s = min (score (length ts) (length ms)) (99 / 100)
      in if s \<le> 0 then best
         else if (case best of None \<Rightarrow> 0 | Some b \<Rightarrow> inference_confidence b) < s
         then Some \<lparr>inferred_kind = k, inference_confidence = s,
           inference_reason_of = (if ms \<noteq> [] \<and> ts = [] then INFERRED_BY_LABEL else KEYWORD_MATCH),
           matched_terms = ts, inferred_labels = ms\<rparr>
         else best)"

definition raised_confidence :: "task_inference \<Rightarrow> rat" where
  "raised_confidence b = min (if 2 \<le> length (matched_terms b) \<or> 2 \<le> length (inferred_labels b)
     then max (inference_confidence b) (6 / 10) else inference_confidence b) 1"

definition infer_task :: "(nat \<Rightarrow> nat \<Rightarrow> rat) \<Rightarrow> string \<Rightarrow> string list \<Rightarrow> task_inference res" where
  "infer_task score prompt labels =
     (let lowered = lower (strip prompt); ls = clean_labels labels;
          unknown = task_inference_init \<lparr>inferred_kind = TASK_UNKNOWN, inference_confidence = 0,
            inference_reason_of = NO_SIGNAL, matched_terms = [], inferred_labels = []\<rparr>
      in if lowered = [] \<and> ls = [] then unknown
         else case fold (infer_step score lowered ls) term_map None of
           None \<Rightarrow> unknown
         | Some b \<Rightarrow> task_inference_init (b\<lparr>inference_confidence := raised_confidence b\<rparr>))"

text \<open>The classifier always answers, and names a kind exactly when a term or a label of it occurs.\<close>

definition plausible :: "task_inference option \<Rightarrow> bool" where
  "plausible best \<longleftrightarrow> (case best of None \<Rightarrow> True | Some b \<Rightarrow> 0 < inference_confidence b \<and> inferred_kind b \<noteq> TASK_UNKNOWN)"

lemma infer_step_plausible: "fst entry \<noteq> TASK_UNKNOWN \<Longrightarrow> plausible best \<Longrightarrow> plausible (infer_step score lowered ls entry best)"
  by (auto simp: plausible_def infer_step_def Let_def split: option.splits)

lemma fold_infer_plausible:
  "\<forall>e \<in> set entries. fst e \<noteq> TASK_UNKNOWN \<Longrightarrow> plausible best \<Longrightarrow> plausible (fold (infer_step score lowered ls) entries best)"
  by (induction entries arbitrary: best) (simp_all add: infer_step_plausible)

lemma term_map_known: "\<forall>e \<in> set term_map. fst e \<noteq> TASK_UNKNOWN"
  by (simp add: term_map_def)

lemma raised_confidence_bounds: "0 < inference_confidence b \<Longrightarrow> 0 \<le> raised_confidence b \<and> raised_confidence b \<le> 1"
  by (auto simp: raised_confidence_def min_def max_def)

lemma infer_task_total: "\<exists>i. infer_task score prompt labels = Inr i"
proof (cases "fold (infer_step score (lower (strip prompt)) (clean_labels labels)) term_map None")
  case None
  then show ?thesis by (simp add: infer_task_def task_inference_init_def Let_def)
next
  case (Some b)
  have "plausible (Some b)"
    using fold_infer_plausible [OF term_map_known, of None] Some by (metis option.simps(4) plausible_def)
  then show ?thesis using Some raised_confidence_bounds [of b]
    by (auto simp: infer_task_def task_inference_init_def Let_def plausible_def)
qed

end
