(* ===== verification/Preflight.thy ===== *)
theory Preflight
  imports Safeguards Switchboard TaskIntake ToolRuns
begin

text \<open>
  The governance preflight of a task (\<open>runtime/governance.py\<close>) and the execution ticket it ends in
  (\<open>forge/execution_ticket.py\<close>): from the task's words, labels and kind and from the safeguard's
  assessment to a risk profile, the policy's decision and a ticket. Fresh identifiers and clock
  readings are drawn from a supply, one index after the other.
\<close>

section \<open>Execution tickets\<close>

fun risk_value :: "governance_risk \<Rightarrow> string" where
  "risk_value GOV_LOW = ''low''"
| "risk_value GOV_MODERATE = ''moderate''"
| "risk_value GOV_HIGH = ''high''"
| "risk_value GOV_CRITICAL = ''critical''"

fun risk_rank :: "governance_risk \<Rightarrow> nat" where
  "risk_rank GOV_LOW = 1"
| "risk_rank GOV_MODERATE = 2"
| "risk_rank GOV_HIGH = 3"
| "risk_rank GOV_CRITICAL = 4"

fun governance_decision_value :: "governance_decision \<Rightarrow> string" where
  "governance_decision_value GOV_ALLOW = ''allow''"
| "governance_decision_value GOV_REQUIRE_REVIEW = ''require_review''"
| "governance_decision_value GOV_BLOCK = ''block''"

fun governance_reason_value :: "governance_reason \<Rightarrow> string" where
  "governance_reason_value LOW_RISK_DEFAULT = ''low_risk_default''"
| "governance_reason_value MODERATE_RISK_DEFAULT = ''moderate_risk_default''"
| "governance_reason_value REASON_APPROVAL_REQUIRED = ''approval_required''"
| "governance_reason_value HIGH_RISK_REQUIRES_REVIEW = ''high_risk_requires_review''"
| "governance_reason_value CRITICAL_RISK_BLOCKED = ''critical_risk_blocked''"
| "governance_reason_value ACTION_KIND_BLOCKED = ''action_kind_blocked''"

datatype ticket_disposition = TICKET_READY | TICKET_REVIEW_REQUIRED | TICKET_BLOCKED

fun ticket_disposition_value :: "ticket_disposition \<Rightarrow> string" where
  "ticket_disposition_value TICKET_READY = ''ready''"
| "ticket_disposition_value TICKET_REVIEW_REQUIRED = ''review_required''"
| "ticket_disposition_value TICKET_BLOCKED = ''blocked''"

fun map_disposition :: "governance_decision \<Rightarrow> ticket_disposition" where
  "map_disposition GOV_ALLOW = TICKET_READY"
| "map_disposition GOV_REQUIRE_REVIEW = TICKET_REVIEW_REQUIRED"
| "map_disposition GOV_BLOCK = TICKET_BLOCKED"

record execution_ticket =
  ticket_id :: string
  ticket_intent_id :: string
  ticket_task_id :: string
  disposition_of :: ticket_disposition
  ticket_summary :: string
  ticket_rationale :: string
  ticket_target :: string
  ticket_risk_level :: string
  ticket_decision :: governance_decision
  ticket_approval_ids :: "string list"
  ticket_created_at :: int
  ticket_labels :: "string list"
  ticket_metadata :: "json dict"

definition execution_ticket_init :: "execution_ticket \<Rightarrow> execution_ticket res" where
  "execution_ticket_init t =
     res_bind (tool_identifier ''ticket_id'' (ticket_id t)) (\<lambda>tid.
     res_bind (tool_identifier ''intent_id'' (ticket_intent_id t)) (\<lambda>iid.
     res_bind (tool_identifier ''task_id'' (ticket_task_id t)) (\<lambda>task.
     res_bind (required_text ''summary'' (ticket_summary t)) (\<lambda>summary.
     res_bind (required_text ''rationale'' (ticket_rationale t)) (\<lambda>rationale.
     res_bind (normalize_target_locator (ticket_target t)) (\<lambda>target.
     res_bind (tool_identifier ''risk_level'' (ticket_risk_level t)) (\<lambda>risk.
     res_bind (res_map (tool_identifier ''approval_id'') (ticket_approval_ids t)) (\<lambda>aids.
       Inr (t\<lparr>ticket_id := tid, ticket_intent_id := iid, ticket_task_id := task, ticket_summary := summary,
              ticket_rationale := rationale, ticket_target := target, ticket_risk_level := risk,
              ticket_approval_ids := uniq aids, ticket_labels := clean_labels (ticket_labels t)\<rparr>)))))))))"

definition build_ticket ::
  "string \<Rightarrow> int \<Rightarrow> action_intent \<Rightarrow> risk_profile \<Rightarrow> policy_outcome \<Rightarrow> approval_state list \<Rightarrow> json dict
    \<Rightarrow> execution_ticket res" where
  "build_ticket fresh now i p d approvals meta =
     (if profile_intent_id p \<noteq> intent_id i
      then Inl (ValueError ''Action intent and risk profile must share the same intent_id.'')
      else if outcome_intent_id d \<noteq> intent_id i
      then Inl (ValueError ''Action intent and policy decision must share the same intent_id.'')
      else execution_ticket_init
        \<lparr>ticket_id = ''ticket-'' @ fresh, ticket_intent_id = intent_id i, ticket_task_id = intent_task_id i,
         disposition_of = map_disposition (outcome_decision d), ticket_summary = intent_summary i,
         ticket_rationale = intent_rationale i, ticket_target = target_locator i,
         ticket_risk_level = risk_value (profile_risk p), ticket_decision = outcome_decision d,
         ticket_approval_ids = map (\<lambda>s. approval_id (state_request s)) approvals,
         ticket_created_at = now, ticket_labels = intent_labels i, ticket_metadata = meta\<rparr>)"

section \<open>Risk from the task\<close>

definition NETWORK_TERMS :: "string list" where
  "NETWORK_TERMS = [''curl'', ''wget'', ''ssh'', ''scp'', ''remote endpoint'', ''upload to'', ''send to server'',
     ''network egress'', ''exfiltrate'']"

definition DESTRUCTIVE_TERMS :: "string list" where
  "DESTRUCTIVE_TERMS = [''delete workspace'', ''wipe repository'', ''destroy files'', ''rm -rf'', ''erase source'',
     ''remove source file'', ''drop database'']"

definition contains_terms :: "string \<Rightarrow> string list \<Rightarrow> bool" where
  "contains_terms s terms = contains_any (lower (strip s)) terms"

definition contains_labels :: "string list \<Rightarrow> string list \<Rightarrow> bool" where
  "contains_labels labels terms = list_ex (\<lambda>t. t \<in> set (map (\<lambda>l. lower (strip l)) labels)) terms"

definition derive_action_kind :: "string \<Rightarrow> string list \<Rightarrow> action_kind" where
  "derive_action_kind prompt labels =
     (if contains_terms prompt NETWORK_TERMS
        \<or> contains_labels labels [''network'', ''egress'', ''remote'', ''upload''] then NETWORK_EGRESS
      else if contains_terms prompt DESTRUCTIVE_TERMS \<or> contains_labels labels [''destructive'', ''delete'', ''wipe'']
      then STATE_MUTATION
      else ARTIFACT_EXPORT)"

definition derive_risk_level :: "task_request \<Rightarrow> string \<Rightarrow> string list \<Rightarrow> action_kind \<Rightarrow> governance_risk" where
  "derive_risk_level q prompt labels kind =
     (if kind = NETWORK_EGRESS then GOV_CRITICAL
      else if kind = STATE_MUTATION then GOV_HIGH
      else if task_kind_of q = OPERATIONS then GOV_HIGH
      else if task_kind_of q = PROGRAMMING then GOV_MODERATE
      else if task_attachments (task_input_of q) \<noteq> [] then GOV_MODERATE
      else if contains_labels labels [''patching'', ''code'', ''runtime''] then GOV_MODERATE
      else if contains_any prompt [''patch'', ''code'', ''refactor''] then GOV_MODERATE
      else GOV_LOW)"

definition risk_factor_of :: "string \<Rightarrow> string \<Rightarrow> risk_factor res" where
  "risk_factor_of code description = risk_factor_init \<lparr>factor_code = code, factor_description = description\<rparr>"

definition kind_factor :: "action_kind \<Rightarrow> risk_factor res" where
  "kind_factor kind =
     (if kind = NETWORK_EGRESS then risk_factor_of ''network-egress-requested''
        ''Task explicitly requested remote transmission behavior.''
      else if kind = STATE_MUTATION then risk_factor_of ''destructive-runtime-request''
        ''Task includes explicit destructive mutation language.''
      else risk_factor_of ''planning-only-pack-execution''
        ''Selected pack execution is expected to produce planning artifacts rather than direct forge mutation.'')"

definition level_factors :: "governance_risk \<Rightarrow> risk_factor res list" where
  "level_factors risk =
     (if risk = GOV_HIGH then [risk_factor_of ''review-sensitive-preflight''
        ''Preflight classified the runtime action as review-sensitive.'']
      else if risk = GOV_CRITICAL then [risk_factor_of ''critical-preflight-block''
        ''Preflight classified the runtime action as critically unsafe.'']
      else [])"

definition derive_risk_factors ::
  "task_request \<Rightarrow> routing_decision \<Rightarrow> action_kind \<Rightarrow> governance_risk \<Rightarrow> risk_factor list res" where
  "derive_risk_factors q route kind risk = res_map (\<lambda>x. x)
     ([risk_factor_of (''route-'' @ routed_name route)
         (''Runtime selected the '' @ in_quotes (routed_name route) @ '' pack during preflight.''),
       risk_factor_of (''task-kind-'' @ task_kind_value (task_kind_of q))
         (''Task kind '' @ in_quotes (task_kind_value (task_kind_of q)) @ '' contributed to preflight risk.''),
       kind_factor kind]
      @ (if task_attachments (task_input_of q) \<noteq> []
         then [risk_factor_of ''attachments-present'' ''Task includes attachments that expand runtime context.'']
         else [])
      @ level_factors risk)"

section \<open>Safeguards merged in\<close>

definition max_risk_level :: "governance_risk \<Rightarrow> governance_risk \<Rightarrow> governance_risk" where
  "max_risk_level l r = (if risk_rank r \<le> risk_rank l then l else r)"

definition merge_safeguards :: "governance_risk \<Rightarrow> safeguard_assessment option \<Rightarrow> safety_merge option res" where
  "merge_safeguards risk assessment =
     (case assessment of None \<Rightarrow> Inr None
      | Some a \<Rightarrow>
        if safeguard_findings a = [] \<and> safeguard_advice a = SAFEGUARD_ALLOW
        then res_bind (safety_merge_init
          \<lparr>advisory_disposition = SAFEGUARD_ALLOW, merge_finding_count = 0, merge_finding_codes = [],
           merge_policy_tags = [], highest_severity = None, original_risk_level = Some risk,
           merged_risk_level = Some risk, elevated_risk = False, forced_review = False,
           merge_rationale = ''No safeguard findings were present, so governance risk was unchanged.''\<rparr>)
          (\<lambda>m. Inr (Some m))
        else let forced = (safeguard_advice a \<noteq> SAFEGUARD_ALLOW);
            merged = (if forced then max_risk_level risk GOV_HIGH else risk);
            elevated = (risk_rank risk < risk_rank merged);
            advice = in_quotes (disposition_value (safeguard_advice a));
            rationale = (if elevated then ''Safeguard disposition '' @ advice @ '' elevated governance risk from ''
                @ risk_value risk @ '' to '' @ risk_value merged @ ''.''
              else if forced then ''Safeguard disposition '' @ advice
                @ '' did not raise the risk tier further but still forced review semantics.''
              else ''Safeguard findings were recorded, but deterministic governance risk was unchanged.'')
          in res_bind (safety_merge_init
            \<lparr>advisory_disposition = safeguard_advice a, merge_finding_count = int (length (safeguard_findings a)),
             merge_finding_codes = assessment_codes a, merge_policy_tags = assessment_tags a,
             highest_severity = assessment_severity a, original_risk_level = Some risk,
             merged_risk_level = Some merged, elevated_risk = elevated, forced_review = forced,
             merge_rationale = rationale\<rparr>)
            (\<lambda>m. Inr (Some m)))"

definition finding_to_factor :: "safeguard_finding \<Rightarrow> risk_factor res" where
  "finding_to_factor f = risk_factor_of (''safeguard-'' @ finding_code f)
     (''Safeguard finding '' @ in_quotes (finding_code f) @ '' ('' @ severity_value (finding_severity f)
       @ '') recommended semantic scrutiny.'')"

definition safeguard_risk_factors :: "safeguard_assessment option \<Rightarrow> risk_factor list res" where
  "safeguard_risk_factors assessment =
     (case assessment of None \<Rightarrow> Inr []
      | Some a \<Rightarrow>
        if safeguard_findings a = [] then Inr []
        else res_map (\<lambda>x. x)
          (risk_factor_of (''safeguard-disposition-'' @ disposition_value (safeguard_advice a))
             (''Safeguard advisory disposition was '' @ in_quotes (disposition_value (safeguard_advice a)) @ ''.'')
           # map finding_to_factor (safeguard_findings a)))"

definition merge_has_findings :: "safety_merge \<Rightarrow> bool" where
  "merge_has_findings m = (0 < merge_finding_count m)"

definition risk_tags ::
  "task_request \<Rightarrow> routing_decision \<Rightarrow> action_kind \<Rightarrow> governance_risk \<Rightarrow> safety_merge option \<Rightarrow> string list" where
  "risk_tags q route kind risk merge = clean_labels
     ([''runtime-preflight'', ''route-'' @ routed_name route, ''task-'' @ lower (task_kind_value (task_kind_of q)),
       ''action-'' @ lower (action_kind_value kind), ''risk-'' @ lower (risk_value risk)]
      @ (case merge of None \<Rightarrow> []
         | Some m \<Rightarrow> if merge_has_findings m
             then (''safeguard-'' @ disposition_value (advisory_disposition m)) # merge_policy_tags m else []))"

definition derive_risk_profile ::
  "string \<Rightarrow> task_request \<Rightarrow> routing_decision \<Rightarrow> string \<Rightarrow> action_kind \<Rightarrow> safeguard_assessment option
    \<Rightarrow> risk_profile res" where
  "derive_risk_profile iid q route prompt kind assessment =
     (let risk = derive_risk_level q prompt (task_labels q) kind in
      res_bind (derive_risk_factors q route kind risk) (\<lambda>factors.
      res_bind (merge_safeguards risk assessment) (\<lambda>merge.
      let merged = (case merge of None \<Rightarrow> risk
            | Some m \<Rightarrow> (case merged_risk_level m of None \<Rightarrow> risk | Some l \<Rightarrow> l));
          review = (risk = GOV_HIGH \<or> (case merge of None \<Rightarrow> False | Some m \<Rightarrow> forced_review m))
      in res_bind (safeguard_risk_factors assessment) (\<lambda>more.
         risk_profile_init \<lparr>profile_intent_id = iid, profile_risk = merged, requires_approval = review,
           profile_factors = factors @ more, profile_tags = risk_tags q route kind merged merge,
           profile_merge = merge\<rparr>))))"

section \<open>The preflight\<close>

record preflight_result =
  pre_intent :: action_intent
  pre_risk :: risk_profile
  pre_decision :: policy_outcome
  pre_ticket :: execution_ticket
  pre_assessment :: "safeguard_assessment option"

definition pre_blocked :: "preflight_result \<Rightarrow> bool" where
  "pre_blocked p = (governance_decision_value (outcome_decision (pre_decision p)) = ''block'')"

definition pre_requires_review :: "preflight_result \<Rightarrow> bool" where
  "pre_requires_review p = (governance_decision_value (outcome_decision (pre_decision p)) = ''require_review'')"

text \<open>The texts of a float: \<open>repr\<close>, and with two decimals.\<close>

record float_texts =
  float_repr :: "rat \<Rightarrow> string"
  float_fixed :: "rat \<Rightarrow> string"

definition preflight_intent ::
  "float_texts \<Rightarrow> task_request \<Rightarrow> routing_decision \<Rightarrow> action_kind \<Rightarrow> safeguard_assessment option \<Rightarrow> action_intent" where
  "preflight_intent fl q route kind assessment =
     \<lparr>intent_id = [], intent_task_id = task_id q, intent_kind = kind,
      intent_summary = ''Preflight runtime execution for pack '' @ in_quotes (routed_name route) @ ''.'',
      intent_rationale = ''Evaluate pack execution intent before runtime dispatch so governance ''
        @ ''can surface review gates or hard blocks early.'',
      target_locator = routed_name route, intent_requested_at = 0, intent_requested_by = Some ''runtime.preflight'',
      intent_labels = clean_labels (''runtime-preflight'' # routed_name route # task_labels q),
      intent_metadata = [(''route_confidence'', JFloat (float_repr fl (route_confidence route))),
        (''route_reason'', JStr (routing_reason_value (route_reason route))),
        (''matched_labels'', json_strs (matched_labels route)),
        (''attachment_count'', JInt (int (length (task_attachments (task_input_of q))))),
        (''safeguard_present'', JBool (assessment \<noteq> None))]\<rparr>"

definition preflight_evaluate ::
  "float_texts \<Rightarrow> tool_supply \<Rightarrow> nat \<Rightarrow> governance_policy \<Rightarrow> task_request \<Rightarrow> routing_decision
    \<Rightarrow> safeguard_assessment option \<Rightarrow> preflight_result res" where
  "preflight_evaluate fl drawn n pol q route assessment =
     (let prompt = lower (strip (task_prompt (task_input_of q)));
          kind = derive_action_kind prompt (task_labels q)
      in res_bind (action_intent_create (fresh_hex drawn n) (clock_at drawn n)
           (preflight_intent fl q route kind assessment)) (\<lambda>i.
         res_bind (derive_risk_profile (intent_id i) q route prompt kind assessment) (\<lambda>p.
         res_bind (evaluate_action (clock_at drawn (n + 1)) pol i p) (\<lambda>d.
         res_bind (build_ticket (fresh_hex drawn (n + 2)) (clock_at drawn (n + 2)) i p d []
           [(''route_capability'', JStr (routed_name route)),
            (''route_confidence'', JFloat (float_repr fl (route_confidence route))),
            (''safeguard_disposition'', (case assessment of None \<Rightarrow> JNull
               | Some a \<Rightarrow> JStr (disposition_value (safeguard_advice a))))]) (\<lambda>t.
           Inr \<lparr>pre_intent = i, pre_risk = p, pre_decision = d, pre_ticket = t, pre_assessment = assessment\<rparr>)))))"

section \<open>The preflight answers, by a table\<close>

lemma visible_letters: "list_all (\<lambda>c. \<not> is_space c) ''acdnprstARSMTHCLWEPitsafewo''"
  by code_simp

lemma visible_letter [simp]: "c \<in> set ''acdnprstARSMTHCLWEPitsafewo'' \<Longrightarrow> \<not> is_space c"
  using visible_letters by (simp only: list_all_iff) blast

lemma strip_nonblank: "\<not> blank s \<Longrightarrow> strip s \<noteq> []"
  by (simp add: blank_def)

lemma required_text_accepts: "\<not> blank s \<Longrightarrow> required_text label s = Inr (strip s)"
  by (simp add: required_text_def blank_def)

lemma risk_factor_accepts: "\<not> blank code \<Longrightarrow> \<not> blank description \<Longrightarrow> \<exists>f. risk_factor_of code description = Inr f"
  using tool_identifier_accepts [of code "''risk factor code''"]
  by (auto simp: risk_factor_of_def risk_factor_init_def required_text_accepts)

lemma not_blank_Cons: "c \<in> set ''acdnprstARSMTHCLWEPitsafewo'' \<Longrightarrow> \<not> blank (c # s)"
  using visible_letter by (simp only: blank_Cons) blast

lemma res_map_id_accepts: "\<forall>x \<in> set xs. \<exists>y. x = Inr y \<Longrightarrow> \<exists>ys. res_map (\<lambda>x. x) xs = Inr ys \<and> length ys = length xs"
  by (induction xs) (auto simp: res_bind_eq_Inr)

lemma kind_factor_accepts: "\<exists>f. kind_factor kind = Inr f"
  unfolding kind_factor_def by (auto intro!: risk_factor_accepts not_blank_Cons simp del: append.simps)

lemma task_kind_visible [simp]: "task_kind_value k \<noteq> []"
  by (cases k) simp_all

lemma derive_risk_factors_accepts: "\<exists>fs. derive_risk_factors q route kind risk = Inr fs \<and> fs \<noteq> []"
proof -
  have "\<forall>x \<in> set ([risk_factor_of (''route-'' @ routed_name route)
         (''Runtime selected the '' @ in_quotes (routed_name route) @ '' pack during preflight.''),
       risk_factor_of (''task-kind-'' @ task_kind_value (task_kind_of q))
         (''Task kind '' @ in_quotes (task_kind_value (task_kind_of q)) @ '' contributed to preflight risk.''),
       kind_factor kind]
      @ (if task_attachments (task_input_of q) \<noteq> []
         then [risk_factor_of ''attachments-present'' ''Task includes attachments that expand runtime context.'']
         else [])
      @ level_factors risk). \<exists>f. x = Inr f"
    using kind_factor_accepts [of kind]
    by (auto simp: level_factors_def intro!: risk_factor_accepts not_blank_Cons)
  from res_map_id_accepts [OF this] show ?thesis unfolding derive_risk_factors_def by (auto simp del: res_map.simps)
qed

definition assessment_ok :: "safeguard_assessment option \<Rightarrow> bool" where
  "assessment_ok assessment \<longleftrightarrow>
     (case assessment of None \<Rightarrow> True | Some a \<Rightarrow> safeguard_findings a = [] \<longrightarrow> safeguard_advice a = SAFEGUARD_ALLOW)"

lemma safeguard_assessment_ok: "safeguard_assessment_init a = Inr a' \<Longrightarrow> assessment_ok (Some a')"
  by (auto simp: safeguard_assessment_init_def assessment_ok_def res_bind_eq_Inr split: if_splits)

definition advised :: "safeguard_assessment option \<Rightarrow> bool" where
  "advised assessment \<longleftrightarrow> (case assessment of None \<Rightarrow> False | Some a \<Rightarrow> safeguard_advice a \<noteq> SAFEGUARD_ALLOW)"

lemma safety_merge_init_keeps:
  assumes "0 \<le> merge_finding_count m" "merge_finding_count m = 0 \<Longrightarrow> advisory_disposition m = SAFEGUARD_ALLOW"
  shows "\<exists>m'. safety_merge_init m = Inr m' \<and> forced_review m' = forced_review m \<and> merged_risk_level m' = merged_risk_level m"
  using assms by (auto simp: safety_merge_init_def)

lemma merge_safeguards_accepts:
  assumes "assessment_ok assessment"
  shows "\<exists>m. merge_safeguards risk assessment = Inr m \<and> (m = None \<longleftrightarrow> assessment = None)
     \<and> (\<forall>m'. m = Some m' \<longrightarrow> forced_review m' = advised assessment
          \<and> merged_risk_level m' = Some (if advised assessment then max_risk_level risk GOV_HIGH else risk))"
proof (cases assessment)
  case None
  then show ?thesis by (simp add: merge_safeguards_def)
next
  case (Some a)
  show ?thesis
  proof (cases "safeguard_findings a = [] \<and> safeguard_advice a = SAFEGUARD_ALLOW")
    case True
    then show ?thesis by (simp add: Some merge_safeguards_def advised_def safety_merge_init_def)
  next
    case False
    then have "safeguard_findings a \<noteq> []" using assms by (auto simp: Some assessment_ok_def)
    then have some: "0 < int (length (safeguard_findings a))" by simp
    show ?thesis
      using some unfolding merge_safeguards_def Some option.case Let_def safety_merge_init_def advised_def
      by (simp only: False if_False) simp
  qed
qed

lemma disposition_visible: "\<not> blank (disposition_value d)"
  by (cases d) (simp_all add: blank_def strip_def strip_by_def is_space_def code_point_def Let_def)

lemma safeguard_risk_factors_accepts: "\<exists>fs. safeguard_risk_factors assessment = Inr fs"
proof (cases assessment)
  case (Some a)
  have "\<forall>x \<in> set (risk_factor_of (''safeguard-disposition-'' @ disposition_value (safeguard_advice a))
             (''Safeguard advisory disposition was '' @ in_quotes (disposition_value (safeguard_advice a)) @ ''.'')
           # map finding_to_factor (safeguard_findings a)). \<exists>f. x = Inr f"
    by (auto simp: finding_to_factor_def intro!: risk_factor_accepts not_blank_Cons)
  from res_map_id_accepts [OF this] Some show ?thesis
    unfolding safeguard_risk_factors_def by (auto simp del: res_map.simps)
qed (simp add: safeguard_risk_factors_def)

lemma derive_risk_profile_accepts:
  fixes q :: task_request and prompt :: string and kind :: action_kind
  assumes ok: "assessment_ok assessment" and iid: "tool_identifier ''intent_id'' iid = Inr iid"
  defines "risk \<equiv> derive_risk_level q prompt (task_labels q) kind"
  shows "\<exists>p. derive_risk_profile iid q route prompt kind assessment = Inr p \<and> profile_intent_id p = iid
     \<and> profile_risk p = (if advised assessment then max_risk_level risk GOV_HIGH else risk)
     \<and> requires_approval p = (risk = GOV_HIGH \<or> advised assessment)"
proof -
  obtain fs where fs: "derive_risk_factors q route kind risk = Inr fs" "fs \<noteq> []"
    using derive_risk_factors_accepts by blast
  obtain m where m: "merge_safeguards risk assessment = Inr m" "m = None \<longleftrightarrow> assessment = None"
    "\<And>m'. m = Some m' \<Longrightarrow> forced_review m' = advised assessment
      \<and> merged_risk_level m' = Some (if advised assessment then max_risk_level risk GOV_HIGH else risk)"
    using merge_safeguards_accepts [OF ok] by blast
  obtain more where more: "safeguard_risk_factors assessment = Inr more" using safeguard_risk_factors_accepts by blast
  have none: "\<not> advised None" by (simp add: advised_def)
  show ?thesis
    unfolding derive_risk_profile_def Let_def risk_def [symmetric] fs m(1) res_bind_Inr more
    using fs(2) m(2,3) none by (cases m) (auto simp: risk_profile_init_def iid)
qed

text \<open>Identifiers made of a lower-case prefix and hexadecimal digits are normal.\<close>

lemma prefixed_normal:
  assumes "list_all (\<lambda>c. lower_char c = c \<and> \<not> is_space c \<and> c \<noteq> CHR '' '') p" and "list_all is_lower_hex fresh"
  shows "p @ fresh \<noteq> [] \<Longrightarrow> tool_identifier label (p @ fresh) = Inr (p @ fresh)"
proof -
  assume ne: "p @ fresh \<noteq> []"
  have plain: "lower_char c = c \<and> \<not> is_space c \<and> c \<noteq> CHR '' ''" if "c \<in> set (p @ fresh)" for c
    using that assms lower_hex_plain by (auto simp: list_all_iff)
  then have "trimmed_by is_space (p @ fresh)"
    unfolding trimmed_by_def using ne hd_in_set last_in_set by blast
  then have "strip (p @ fresh) = p @ fresh" by (simp add: strip_def strip_by_trimmed_id)
  moreover have "lower (p @ fresh) = p @ fresh" unfolding lower_def by (rule map_idI) (use plain in blast)
  moreover have "replace_char CHR '' '' CHR ''-'' (p @ fresh) = p @ fresh"
    unfolding replace_char_def by (rule map_idI) (use plain in auto)
  ultimately show ?thesis using ne by (simp add: tool_identifier_def)
qed

text \<open>
  The decision on a task as a table: words of the prompt, labels and kind fix the risk; an assessment
  that advises against the task can only add a review.
\<close>

definition preflight_table ::
  "governance_policy \<Rightarrow> task_request \<Rightarrow> safeguard_assessment option \<Rightarrow> governance_decision" where
  "preflight_table pol q assessment =
     (let prompt = lower (strip (task_prompt (task_input_of q)));
          kind = derive_action_kind prompt (task_labels q);
          risk = derive_risk_level q prompt (task_labels q) kind
      in if kind \<in> set (blocked_action_kinds pol) \<or> risk = GOV_CRITICAL then GOV_BLOCK
         else if risk = GOV_HIGH \<or> advised assessment then GOV_REQUIRE_REVIEW
         else GOV_ALLOW)"

lemma action_intent_create_accepts:
  assumes "\<not> blank (intent_task_id i)" "\<not> blank (intent_summary i)" "\<not> blank (intent_rationale i)"
    "\<not> blank (target_locator i)"
  shows "\<exists>i'. action_intent_create fresh now i = Inr i' \<and> intent_id i' = ''intent-'' @ fresh
     \<and> intent_kind i' = intent_kind i \<and> tool_identifier [] (intent_task_id i') = Inr (intent_task_id i')
     \<and> \<not> blank (intent_summary i') \<and> \<not> blank (intent_rationale i') \<and> normalize_target_locator (target_locator i') = Inr (target_locator i')"
proof -
  obtain task where task: "tool_identifier ''task_id'' (intent_task_id i) = Inr task"
    using tool_identifier_accepts [OF assms(1)] by blast
  have target: "normalize_target_locator (target_locator i)
      = Inr (replace_char CHR 0x5C CHR ''/'' (strip (target_locator i)))"
    using assms(4) by (simp add: normalize_target_locator_def blank_def replace_char_def Let_def)
  let ?t = "replace_char CHR 0x5C CHR ''/'' (strip (target_locator i))"
  have ne: "?t \<noteq> []" using assms(4) by (simp add: blank_def replace_char_def)
  have "trimmed_by is_space (strip (target_locator i))" by (simp add: strip_def trimmed_strip_by)
  then have "\<not> is_space (hd (strip (target_locator i)))" "\<not> is_space (last (strip (target_locator i)))"
    using assms(4) by (auto simp: trimmed_by_def blank_def)
  then have "trimmed_by is_space ?t" using assms(4) unfolding trimmed_by_def blank_def replace_char_def
    by (auto simp: hd_map last_map is_space_def code_point_def Let_def)
  then have "strip ?t = ?t" by (simp add: strip_def strip_by_trimmed_id)
  moreover have "replace_char CHR 0x5C CHR ''/'' ?t = ?t" by (simp add: replace_char_def)
  ultimately have again: "normalize_target_locator ?t = Inr ?t" using ne by (simp add: normalize_target_locator_def)
  show ?thesis using task target again assms tool_identifier_again [OF task]
    by (simp add: action_intent_create_def required_text_accepts)
qed

lemma policy_outcome_accepts:
  assumes "tool_identifier ''intent_id'' iid = Inr iid" "\<not> blank rationale"
  shows "\<exists>d. decide_action iid now decision reason rationale rules = Inr d \<and> outcome_intent_id d = iid
     \<and> \<not> blank (outcome_rationale d)"
  using assms by (auto simp: decide_action_def policy_outcome_init_def blank_def strip_strip)

lemma evaluate_action_accepts:
  assumes "tool_identifier ''intent_id'' (intent_id i) = Inr (intent_id i)" "profile_intent_id p = intent_id i"
  shows "\<exists>d. evaluate_action now pol i p = Inr d \<and> outcome_intent_id d = intent_id i \<and> \<not> blank (outcome_rationale d)"
  unfolding evaluate_action_def assms(1) res_bind_Inr
  using assms(2) by (auto intro!: policy_outcome_accepts [OF assms(1)] not_blank_Cons)

lemma risk_value_visible: "\<not> blank (risk_value r)"
  by (cases r) (simp_all add: blank_def strip_def strip_by_def is_space_def code_point_def Let_def)

lemma build_ticket_accepts:
  assumes "profile_intent_id p = intent_id i" "outcome_intent_id d = intent_id i"
    "tool_identifier ''intent_id'' (intent_id i) = Inr (intent_id i)" "\<not> blank (intent_task_id i)"
    "\<not> blank (intent_summary i)" "\<not> blank (intent_rationale i)"
    "normalize_target_locator (target_locator i) = Inr t"
  shows "\<exists>tk. build_ticket fresh now i p d [] meta = Inr tk \<and> ticket_decision tk = outcome_decision d
     \<and> disposition_of tk = map_disposition (outcome_decision d)"
proof -
  obtain a where a: "tool_identifier ''ticket_id'' (''ticket-'' @ fresh) = Inr a"
    using tool_identifier_accepts [of "''ticket-'' @ fresh"] not_blank_Cons [of "CHR ''t''"] by auto
  obtain b where b: "tool_identifier ''task_id'' (intent_task_id i) = Inr b"
    using tool_identifier_accepts [OF assms(4)] by blast
  obtain r where r: "tool_identifier ''risk_level'' (risk_value (profile_risk p)) = Inr r"
    using tool_identifier_accepts [OF risk_value_visible] by blast
  show ?thesis using a b r assms by (simp add: build_ticket_def execution_ticket_init_def required_text_accepts)
qed

lemma preflight_accepts:
  assumes "hex_supply drawn" "\<not> blank (task_id q)" "\<not> blank (routed_name route)" "assessment_ok assessment"
  shows "\<exists>p. preflight_evaluate fl drawn n pol q route assessment = Inr p
     \<and> outcome_decision (pre_decision p) = preflight_table pol q assessment
     \<and> disposition_of (pre_ticket p) = map_disposition (preflight_table pol q assessment)
     \<and> intent_id (pre_intent p) = ''intent-'' @ fresh_hex drawn n
     \<and> \<not> blank (outcome_rationale (pre_decision p)) \<and> \<not> blank (intent_task_id (pre_intent p))"
proof -
  let ?prompt = "lower (strip (task_prompt (task_input_of q)))"
  let ?kind = "derive_action_kind ?prompt (task_labels q)"
  let ?risk = "derive_risk_level q ?prompt (task_labels q) ?kind"
  have "list_all (\<lambda>c. lower_char c = c \<and> \<not> is_space c \<and> c \<noteq> CHR '' '') ''intent-''" by code_simp
  then have id: "tool_identifier l (''intent-'' @ fresh_hex drawn n) = Inr (''intent-'' @ fresh_hex drawn n)" for l
    using prefixed_normal [of "''intent-''" "fresh_hex drawn n" l] assms(1) by (simp add: hex_supply_def)
  obtain i where i: "action_intent_create (fresh_hex drawn n) (clock_at drawn n)
      (preflight_intent fl q route ?kind assessment) = Inr i"
    "intent_id i = ''intent-'' @ fresh_hex drawn n" "intent_kind i = ?kind"
    "tool_identifier [] (intent_task_id i) = Inr (intent_task_id i)"
    "\<not> blank (intent_summary i)" "\<not> blank (intent_rationale i)"
    "normalize_target_locator (target_locator i) = Inr (target_locator i)"
  proof -
    let ?i = "preflight_intent fl q route ?kind assessment"
    have "\<not> blank (intent_task_id ?i)" "\<not> blank (intent_summary ?i)" "\<not> blank (intent_rationale ?i)"
      "\<not> blank (target_locator ?i)" "intent_kind ?i = ?kind"
      using assms(2,3) by (simp_all add: preflight_intent_def not_blank_Cons)
    then show thesis using action_intent_create_accepts [of ?i] that by metis
  qed
  have iid: "tool_identifier l (intent_id i) = Inr (intent_id i)" for l using id i(2) by simp
  obtain p where p: "derive_risk_profile (intent_id i) q route ?prompt ?kind assessment = Inr p"
    "profile_intent_id p = intent_id i"
    "profile_risk p = (if advised assessment then max_risk_level ?risk GOV_HIGH else ?risk)"
    "requires_approval p = (?risk = GOV_HIGH \<or> advised assessment)"
    using derive_risk_profile_accepts [OF assms(4) iid] by blast
  obtain d where d: "evaluate_action (clock_at drawn (n + 1)) pol i p = Inr d" "outcome_intent_id d = intent_id i"
    "\<not> blank (outcome_rationale d)"
    using evaluate_action_accepts [OF iid p(2)] by blast
  have task: "\<not> blank (intent_task_id i)" using i(4) by (rule tool_identifier_text)
  obtain tk where tk: "build_ticket (fresh_hex drawn (n + 2)) (clock_at drawn (n + 2)) i p d [] meta = Inr tk"
    "disposition_of tk = map_disposition (outcome_decision d)"
    if "meta = [(''route_capability'', JStr (routed_name route)),
            (''route_confidence'', JFloat (float_repr fl (route_confidence route))),
            (''safeguard_disposition'', (case assessment of None \<Rightarrow> JNull
               | Some a \<Rightarrow> JStr (disposition_value (safeguard_advice a))))]" for meta
    using build_ticket_accepts [OF p(2) d(2) iid task i(5,6,7)] by metis
  have "outcome_decision d = preflight_table pol q assessment"
    using evaluate_action_table [OF d(1)] p(3,4) i(3)
    by (cases ?risk) (auto simp: governance_table_def preflight_table_def max_risk_level_def Let_def split: if_splits)
  then show ?thesis
    using i(1,2) p(1) d(1,3) tk task by (simp add: preflight_evaluate_def Let_def)
qed

text \<open>A safeguard's advice never makes the decision milder.\<close>

fun decision_rank :: "governance_decision \<Rightarrow> nat" where
  "decision_rank GOV_ALLOW = 0"
| "decision_rank GOV_REQUIRE_REVIEW = 1"
| "decision_rank GOV_BLOCK = 2"

lemma safeguards_only_tighten:
  "decision_rank (preflight_table pol q None) \<le> decision_rank (preflight_table pol q assessment)"
  "preflight_table pol q assessment = GOV_BLOCK \<longleftrightarrow> preflight_table pol q None = GOV_BLOCK"
  by (simp_all add: preflight_table_def Let_def advised_def)

end
