(* ===== verification/RuntimeApproval.thy ===== *)
theory RuntimeApproval
  imports Preflight
begin

text \<open>
  The approvals a task brings along (\<open>runtime/approval.py\<close>): entries of the task's own metadata are
  turned into approval states of the preflight's intent, and decide whether a review is satisfied.
\<close>

section \<open>Reading an entry\<close>

definition coerce_status :: "py_runtime \<Rightarrow> json \<Rightarrow> approval_status res" where
  "coerce_status rt v =
     (let s = lower (strip (py_str rt v)) in
      if s = [] then Inl (ValueError ''approval status must not be empty'')
      else case approval_status_of s of
        Inl _ \<Rightarrow> Inl (ValueError ''approval status must be one of: pending, approved, rejected, canceled'')
      | Inr a \<Rightarrow> Inr a)"

definition coerce_refs :: "py_runtime \<Rightarrow> json option \<Rightarrow> string list res" where
  "coerce_refs rt v = (case v of
     None \<Rightarrow> Inr []
   | Some JNull \<Rightarrow> Inr []
   | Some (JList xs) \<Rightarrow> Inr (uniq (filter (\<lambda>s. s \<noteq> []) (map (\<lambda>x. strip (py_str rt x)) xs)))
   | Some _ \<Rightarrow> Inl (ValueError ''evidence_refs must be a list or tuple of strings''))"

definition text_or :: "string \<Rightarrow> string option \<Rightarrow> string" where
  "text_or fallback v = (case v of None \<Rightarrow> fallback | Some s \<Rightarrow> s)"

definition entry_request :: "preflight_result \<Rightarrow> string \<Rightarrow> string list \<Rightarrow> approval_request" where
  "entry_request p asker refs =
     \<lparr>approval_id = [], approval_intent_id = intent_id (pre_intent p), approval_requested_at = Aware 0,
      approval_requested_by = Some asker,
      approval_summary = ''Approval for task '' @ in_quotes (intent_task_id (pre_intent p)) @ '' runtime execution.'',
      approval_rationale = outcome_rationale (pre_decision p),
      approval_policy_reason = governance_reason_value (outcome_reason (pre_decision p)),
      required_roles = [], request_evidence_refs = refs,
      approval_metadata = [(''source'', JStr ''runtime.metadata''),
        (''task_id'', JStr (intent_task_id (pre_intent p))),
        (''ticket_id'', JStr (ticket_id (pre_ticket p)))]\<rparr>"

definition build_approval_state ::
  "py_runtime \<Rightarrow> tool_supply \<Rightarrow> nat \<Rightarrow> preflight_result \<Rightarrow> json dict \<Rightarrow> approval_state res" where
  "build_approval_state rt drawn n p entry =
     res_bind (coerce_status rt (dict_get_or entry ''status'' (JStr ''approved''))) (\<lambda>status.
     let asker = text_or ''runtime.approval'' (optional_str rt (dict_get entry ''requested_by''));
         decider = text_or asker (optional_str rt (dict_get entry ''decided_by''));
         remark = text_or ''Runtime approval artifact accepted for governed execution.''
           (optional_str rt (dict_get entry ''note''))
     in res_bind (coerce_refs rt (dict_get entry ''evidence_refs'')) (\<lambda>refs.
        res_bind (approval_request_create (fresh_hex drawn n) (clock_at drawn n) (entry_request p asker refs)) (\<lambda>q.
        if status = APPROVAL_PENDING then Inr \<lparr>state_request = q, state_decision = None\<rparr>
        else res_bind (approval_decision_init
          \<lparr>resolved_approval_id = approval_id q, resolved_intent_id = approval_intent_id q,
           approval_status_is = status, approval_decided_at = Aware (clock_at drawn (n + 1)),
           decided_by = decider, decision_note = remark, decision_evidence_refs = refs\<rparr>) (\<lambda>d.
          Inr \<lparr>state_request = q, state_decision = Some d\<rparr>))))"

section \<open>Resolving\<close>

record approval_resolution =
  resolution_required :: bool
  resolution_satisfied :: bool
  resolution_approvals :: "approval_state list"
  resolution_issues :: "string list"

definition resolution_ids :: "approval_resolution \<Rightarrow> string list" where
  "resolution_ids r = map (\<lambda>s. approval_id (state_request s)) (resolution_approvals r)"

text \<open>One round of the loop over the entries, from their index on.\<close>

fun read_entries ::
  "py_runtime \<Rightarrow> tool_supply \<Rightarrow> nat \<Rightarrow> preflight_result \<Rightarrow> int \<Rightarrow> json list \<Rightarrow> (approval_state list \<times> string list) res" where
  "read_entries rt drawn n p index [] = Inr ([], [])"
| "read_entries rt drawn n p index (v # vs) =
     res_bind
       (case v of
          JObj entry \<Rightarrow> (case build_approval_state rt drawn n p entry of
              Inr s \<Rightarrow> Inr ([s], [])
            | Inl e \<Rightarrow> if is_value_error e
                then Inr ([], [''Approval artifact at index '' @ show_int index @ '' is invalid: '' @ error_text e])
                else Inl e)
        | _ \<Rightarrow> Inr ([], [''Approval artifact at index '' @ show_int index @ '' is not a mapping and was ignored.'']))
       (\<lambda>(ss, msgs). res_bind (read_entries rt drawn (n + 2) p (index + 1) vs) (\<lambda>(ss', msgs').
          Inr (ss @ ss', msgs @ msgs')))"

text \<open>\<open>metadata.get("governance_approvals", ())\<close>\<close>

definition approval_entries :: "json dict \<Rightarrow> json list \<times> string list" where
  "approval_entries meta =
     (case dict_get meta ''governance_approvals'' of
        None \<Rightarrow> ([], [])
      | Some JNull \<Rightarrow> ([], [])
      | Some (JList vs) \<Rightarrow> (vs, [])
      | Some _ \<Rightarrow> ([], [''Task metadata field '' @ in_quotes ''governance_approvals''
          @ '' must be a list or tuple of mappings.'']))"

definition resolve_runtime_approval ::
  "py_runtime \<Rightarrow> tool_supply \<Rightarrow> nat \<Rightarrow> task_request \<Rightarrow> preflight_result \<Rightarrow> approval_resolution res" where
  "resolve_runtime_approval rt drawn n q p =
     (if \<not> pre_requires_review p
      then Inr \<lparr>resolution_required = False, resolution_satisfied = True, resolution_approvals = [],
                resolution_issues = []\<rparr>
      else let (entries, shape) = approval_entries (task_metadata (task_input_of q)) in
        res_bind (read_entries rt drawn n p 0 entries) (\<lambda>(states, issues).
          Inr \<lparr>resolution_required = True,
               resolution_satisfied = list_ex (\<lambda>s. current_status s = APPROVED
                 \<and> approval_intent_id (state_request s) = intent_id (pre_intent p)) states,
               resolution_approvals = states, resolution_issues = shape @ issues\<rparr>))"

section \<open>Who approves\<close>

text \<open>An entry approves when its status reads so, which is the default, and its references are a list.\<close>

definition approves :: "py_runtime \<Rightarrow> json \<Rightarrow> bool" where
  "approves rt v = (case v of
     JObj entry \<Rightarrow> coerce_status rt (dict_get_or entry ''status'' (JStr ''approved'')) = Inr APPROVED
       \<and> \<not> isl (coerce_refs rt (dict_get entry ''evidence_refs''))
   | _ \<Rightarrow> False)"

definition normal_preflight :: "preflight_result \<Rightarrow> bool" where
  "normal_preflight p \<longleftrightarrow> tool_identifier [] (intent_id (pre_intent p)) = Inr (intent_id (pre_intent p))
     \<and> \<not> blank (outcome_rationale (pre_decision p))"

lemma reason_value_visible: "\<not> blank (governance_reason_value r)"
  by (cases r) (simp_all add: not_blank_Cons blank_def strip_def strip_by_def is_space_def code_point_def Let_def)

lemma optional_str_filled: "optional_str rt v = Some s \<Longrightarrow> \<not> blank s"
  by (auto simp: optional_str_def filled_or_none_def blank_def strip_strip split: option.splits json.splits if_splits)

lemma text_or_filled: "\<not> blank fallback \<Longrightarrow> (\<And>s. v = Some s \<Longrightarrow> \<not> blank s) \<Longrightarrow> \<not> blank (text_or fallback v)"
  by (simp add: text_or_def split: option.splits)

lemma approval_request_create_accepts:
  assumes "tool_identifier [] (approval_intent_id q) = Inr (approval_intent_id q)" "\<not> blank (approval_summary q)"
    "\<not> blank (approval_rationale q)" "\<not> blank (approval_policy_reason q)"
  shows "\<exists>q'. approval_request_create fresh now q = Inr q' \<and> approval_intent_id q' = approval_intent_id q
     \<and> approval_id q' = ''approval-'' @ fresh"
proof -
  obtain reason where "tool_identifier ''policy_reason'' (approval_policy_reason q) = Inr reason"
    using tool_identifier_accepts [OF assms(4)] by blast
  then show ?thesis using assms tool_identifier_normal [OF assms(1)]
    by (simp add: approval_request_create_def required_text_accepts)
qed

lemma approval_decision_init_accepts:
  assumes "\<not> blank (resolved_approval_id d)" "\<not> blank (resolved_intent_id d)" "\<not> blank (decided_by d)"
    "\<not> blank (decision_note d)" "approval_status_is d \<noteq> APPROVAL_PENDING"
  shows "\<exists>d'. approval_decision_init d = Inr d' \<and> approval_status_is d' = approval_status_is d"
proof -
  obtain aid where "tool_identifier ''approval_id'' (resolved_approval_id d) = Inr aid"
    using tool_identifier_accepts [OF assms(1)] by blast
  moreover obtain iid where "tool_identifier ''intent_id'' (resolved_intent_id d) = Inr iid"
    using tool_identifier_accepts [OF assms(2)] by blast
  ultimately show ?thesis using assms by (simp add: approval_decision_init_def required_text_accepts)
qed

lemma build_approval_state_cases:
  assumes "normal_preflight p"
  shows "(\<exists>s. build_approval_state rt drawn n p entry = Inr s
       \<and> approval_intent_id (state_request s) = intent_id (pre_intent p)
       \<and> (current_status s = APPROVED \<longleftrightarrow> approves rt (JObj entry)))
     \<or> (\<exists>m. build_approval_state rt drawn n p entry = Inl (ValueError m) \<and> \<not> approves rt (JObj entry))"
proof -
  define status where "status = coerce_status rt (dict_get_or entry ''status'' (JStr ''approved''))"
  define found where "found = coerce_refs rt (dict_get entry ''evidence_refs'')"
  define who where "who = text_or ''runtime.approval'' (optional_str rt (dict_get entry ''requested_by''))"
  define decider where "decider = text_or who (optional_str rt (dict_get entry ''decided_by''))"
  define remark where "remark = text_or ''Runtime approval artifact accepted for governed execution.''
     (optional_str rt (dict_get entry ''note''))"
  have who: "\<not> blank who" unfolding who_def
    by (rule text_or_filled) (simp add: not_blank_Cons, rule optional_str_filled)
  have decider: "\<not> blank decider" unfolding decider_def by (rule text_or_filled [OF who optional_str_filled])
  have "\<not> blank remark" unfolding remark_def
    by (rule text_or_filled) (simp add: not_blank_Cons, rule optional_str_filled)
  note filled = who decider this
  have approves: "approves rt (JObj entry) \<longleftrightarrow> status = Inr APPROVED \<and> \<not> isl found"
    by (simp add: approves_def status_def found_def)
  have bad: "\<exists>m. status = Inl (ValueError m)" if "isl status"
    using that by (auto simp: status_def coerce_status_def Let_def split: if_splits sum.splits)
  have bad_refs: "\<exists>m. found = Inl (ValueError m)" if "isl found"
    using that by (auto simp: found_def coerce_refs_def split: option.splits json.splits)
  have unfold: "build_approval_state rt drawn n p entry = res_bind status (\<lambda>status. res_bind found (\<lambda>refs.
        res_bind (approval_request_create (fresh_hex drawn n) (clock_at drawn n) (entry_request p who refs)) (\<lambda>q.
        if status = APPROVAL_PENDING then Inr \<lparr>state_request = q, state_decision = None\<rparr>
        else res_bind (approval_decision_init
          \<lparr>resolved_approval_id = approval_id q, resolved_intent_id = approval_intent_id q,
           approval_status_is = status, approval_decided_at = Aware (clock_at drawn (n + 1)),
           decided_by = decider, decision_note = remark, decision_evidence_refs = refs\<rparr>) (\<lambda>d.
          Inr \<lparr>state_request = q, state_decision = Some d\<rparr>))))"
    unfolding build_approval_state_def Let_def status_def found_def who_def decider_def remark_def by (rule refl)
  show ?thesis
  proof (cases "isl status \<or> isl found")
    case True
    then show ?thesis using bad bad_refs unfold approves by (cases status) auto
  next
    case False
    then obtain a refs where a: "status = Inr a" and refs: "found = Inr refs" by (cases status; cases found) auto
    let ?q = "entry_request p who refs"
    obtain q where q: "approval_request_create (fresh_hex drawn n) (clock_at drawn n) ?q = Inr q"
      "approval_intent_id q = intent_id (pre_intent p)" "approval_id q = ''approval-'' @ fresh_hex drawn n"
      using approval_request_create_accepts [of ?q "fresh_hex drawn n" "clock_at drawn n"] assms reason_value_visible
      by (auto simp: entry_request_def normal_preflight_def not_blank_Cons)
    have iid: "\<not> blank (approval_intent_id q)"
      using assms tool_identifier_text q(2) by (auto simp: normal_preflight_def)
    show ?thesis
    proof (cases "a = APPROVAL_PENDING")
      case True
      then show ?thesis using a refs q unfold approves by (simp add: current_status_def)
    next
      case False
      obtain d where d: "approval_decision_init
          \<lparr>resolved_approval_id = approval_id q, resolved_intent_id = approval_intent_id q,
           approval_status_is = a, approval_decided_at = Aware (clock_at drawn (n + 1)),
           decided_by = decider, decision_note = remark, decision_evidence_refs = refs\<rparr> = Inr d"
        "approval_status_is d = a"
        using approval_decision_init_accepts [of "\<lparr>resolved_approval_id = approval_id q,
           resolved_intent_id = approval_intent_id q, approval_status_is = a,
           approval_decided_at = Aware (clock_at drawn (n + 1)), decided_by = decider,
           decision_note = remark, decision_evidence_refs = refs\<rparr>"] filled iid False q(3)
        by (auto simp: not_blank_Cons)
      then show ?thesis using a refs q unfold approves False by (simp add: current_status_def)
    qed
  qed
qed

lemma read_entries_accepts:
  assumes "normal_preflight p"
  shows "\<exists>ss msgs. read_entries rt drawn n p index vs = Inr (ss, msgs)
     \<and> (\<forall>s \<in> set ss. approval_intent_id (state_request s) = intent_id (pre_intent p))
     \<and> (list_ex (\<lambda>s. current_status s = APPROVED) ss \<longleftrightarrow> list_ex (approves rt) vs)"
proof (induction vs arbitrary: n index)
  case (Cons v vs)
  obtain ss msgs where rest: "read_entries rt drawn (n + 2) p (index + 1) vs = Inr (ss, msgs)"
    "\<forall>s \<in> set ss. approval_intent_id (state_request s) = intent_id (pre_intent p)"
    "list_ex (\<lambda>s. current_status s = APPROVED) ss \<longleftrightarrow> list_ex (approves rt) vs"
    using Cons.IH by blast
  show ?case
  proof (cases "\<exists>entry. v = JObj entry")
    case True
    then obtain entry where v: "v = JObj entry" by blast
    show ?thesis using build_approval_state_cases [OF assms, of rt drawn n entry] rest
      by (auto simp: v)
  next
    case False
    then have "\<not> approves rt v" by (auto simp: approves_def split: json.splits)
    then show ?thesis using False rest by (cases v) simp_all
  qed
qed simp

lemma resolve_runtime_approval_accepts:
  assumes "normal_preflight p"
  shows "\<exists>r. resolve_runtime_approval rt drawn n q p = Inr r \<and> resolution_required r = pre_requires_review p
     \<and> resolution_satisfied r = (pre_requires_review p \<longrightarrow>
          list_ex (approves rt) (fst (approval_entries (task_metadata (task_input_of q)))))"
proof -
  obtain entries shape where e: "approval_entries (task_metadata (task_input_of q)) = (entries, shape)" by force
  obtain ss msgs where r: "read_entries rt drawn n p 0 entries = Inr (ss, msgs)"
    "\<forall>s \<in> set ss. approval_intent_id (state_request s) = intent_id (pre_intent p)"
    "list_ex (\<lambda>s. current_status s = APPROVED) ss \<longleftrightarrow> list_ex (approves rt) entries"
    using read_entries_accepts [OF assms] by blast
  have "list_ex (\<lambda>s. current_status s = APPROVED \<and> approval_intent_id (state_request s) = intent_id (pre_intent p)) ss
      = list_ex (\<lambda>s. current_status s = APPROVED) ss"
    using r(2) by (auto simp: list_ex_iff)
  then show ?thesis using e r by (simp add: resolve_runtime_approval_def)
qed

text \<open>
  The contract of governed execution (\<open>docs/governed-execution-contract.md\<close>) counts an approval only when its status is there and
  reads so; for entries that all state their status, that is what \<open>approves\<close> decides.
\<close>

definition states_status :: "json \<Rightarrow> bool" where
  "states_status v = (case v of JObj entry \<Rightarrow> dict_get entry ''status'' \<noteq> None | _ \<Rightarrow> True)"

definition grants_approval :: "py_runtime \<Rightarrow> json \<Rightarrow> bool" where
  "grants_approval rt v = (case v of
     JObj entry \<Rightarrow> (case dict_get entry ''status'' of
         None \<Rightarrow> False
       | Some status \<Rightarrow> coerce_status rt status = Inr APPROVED \<and> \<not> isl (coerce_refs rt (dict_get entry ''evidence_refs'')))
   | _ \<Rightarrow> False)"

lemma grants_approves: "grants_approval rt v \<Longrightarrow> approves rt v"
  by (auto simp: grants_approval_def approves_def dict_get_or_def split: json.splits option.splits)

lemma approves_stated: "states_status v \<Longrightarrow> approves rt v \<longleftrightarrow> grants_approval rt v"
  by (auto simp: states_status_def grants_approval_def approves_def dict_get_or_def split: json.splits option.splits)

lemma approves_all_stated: "list_all states_status vs \<Longrightarrow> list_ex (approves rt) vs \<longleftrightarrow> list_ex (grants_approval rt) vs"
  by (induction vs) (simp_all add: approves_stated)

text \<open>An entry without a status is counted all the same: a task approves itself with one empty entry.\<close>

lemma empty_entry_approves: "approves rt (JObj [])"
  by (simp add: approves_def coerce_status_def dict_get_or_def coerce_refs_def Let_def approval_status_of_def
      strip_def strip_by_def is_space_def code_point_def lower_def lower_char_def)

end
