(* ===== verification/Sentinel.thy ===== *)
theory Sentinel
  imports RuntimeApproval
begin

text \<open>
  The sentinel (\<open>sentinel/core.py\<close>, \<open>checks.py\<close>): checks over what a run did, whose failures become
  issues themselves, and the three default checks for contradictions.
\<close>

section \<open>Issues and reports\<close>

datatype sentinel_severity = SENTINEL_INFO | SENTINEL_WARNING | SENTINEL_ERROR | SENTINEL_CRITICAL

text \<open>\<open>_normalize_identifier\<close>, \<open>_normalize_text\<close> of the modules that put a subject before the label.\<close>

definition subject_identifier :: "string \<Rightarrow> string \<Rightarrow> string res" where
  "subject_identifier label s =
     (if lower (strip s) = [] then Inl (ValueError (label @ '' must not be empty.'')) else Inr (lower (strip s)))"

record sentinel_issue =
  issue_code :: string
  issue_severity :: sentinel_severity
  issue_summary :: string
  issue_source :: "string option"
  issue_details :: "string option"
  issue_data :: "json dict"

definition sentinel_issue_init :: "sentinel_issue \<Rightarrow> sentinel_issue res" where
  "sentinel_issue_init i =
     res_bind (subject_identifier ''Sentinel issue code'' (issue_code i)) (\<lambda>c.
     res_bind (required_text ''Sentinel issue summary'' (issue_summary i)) (\<lambda>s.
       Inr (i\<lparr>issue_code := c, issue_summary := s, issue_source := filled_or_none (issue_source i),
              issue_details := filled_or_none (issue_details i)\<rparr>)))"

record sentinel_context =
  context_task :: "task_record option"
  context_messages :: "string list"
  context_metadata :: "json dict"

record sentinel_report =
  report_check_count :: nat
  report_issues :: "sentinel_issue list"

definition has_severity :: "sentinel_report \<Rightarrow> sentinel_severity \<Rightarrow> bool" where
  "has_severity r s = list_ex (\<lambda>i. issue_severity i = s) (report_issues r)"

definition filter_by_severity :: "sentinel_report \<Rightarrow> sentinel_severity \<Rightarrow> sentinel_issue list" where
  "filter_by_severity r s = filter (\<lambda>i. issue_severity i = s) (report_issues r)"

definition highest_issue_severity :: "sentinel_report \<Rightarrow> sentinel_severity option" where
  "highest_issue_severity r =
     List.find (has_severity r) [SENTINEL_CRITICAL, SENTINEL_ERROR, SENTINEL_WARNING, SENTINEL_INFO]"

definition has_issue_code :: "sentinel_report \<Rightarrow> string \<Rightarrow> bool res" where
  "has_issue_code r code =
     res_bind (subject_identifier ''Sentinel issue code'' code) (\<lambda>c.
       Inr (list_ex (\<lambda>i. issue_code i = c) (report_issues r)))"

definition has_contradiction_signal :: "sentinel_report \<Rightarrow> bool" where
  "has_contradiction_signal r = list_ex (\<lambda>i. occurs_in ''contradiction'' (issue_code i)
     \<or> (case issue_source i of None \<Rightarrow> False | Some s \<Rightarrow> occurs_in ''contradiction'' (lower (strip s)))) (report_issues r)"

section \<open>The runtime of checks\<close>

record sentinel_check =
  check_name :: string
  check_run :: "sentinel_context \<Rightarrow> sentinel_issue list res"

fun register_check_at :: "string \<Rightarrow> sentinel_check \<Rightarrow> sentinel_check list \<Rightarrow> sentinel_check list" where
  "register_check_at n c [] = [c]"
| "register_check_at n c (e # es) = (if lower (strip (check_name e)) = n then c # es else e # register_check_at n c es)"

definition register_check :: "sentinel_check \<Rightarrow> sentinel_check list \<Rightarrow> sentinel_check list res" where
  "register_check c es =
     res_bind (subject_identifier ''Sentinel check name'' (check_name c)) (\<lambda>n. Inr (register_check_at n c es))"

fun drop_check :: "string \<Rightarrow> sentinel_check list \<Rightarrow> bool \<times> sentinel_check list" where
  "drop_check n [] = (False, [])"
| "drop_check n (e # es) =
     (if lower (strip (check_name e)) = n then (True, es) else (let (b, es') = drop_check n es in (b, e # es')))"

definition unregister_check :: "string \<Rightarrow> sentinel_check list \<Rightarrow> (bool \<times> sentinel_check list) res" where
  "unregister_check name es =
     res_bind (subject_identifier ''Sentinel check name'' name) (\<lambda>n. Inr (drop_check n es))"

definition check_failed_issue :: "sentinel_check \<Rightarrow> py_error \<Rightarrow> sentinel_issue" where
  "check_failed_issue c e =
     \<lparr>issue_code = ''sentinel.check_failed'', issue_severity = SENTINEL_ERROR,
      issue_summary = ''Sentinel check '' @ in_quotes (check_name c) @ '' raised an exception.'',
      issue_source = Some (check_name c), issue_details = Some (error_text e), issue_data = []\<rparr>"

definition run_check :: "sentinel_context \<Rightarrow> sentinel_check \<Rightarrow> sentinel_issue list res" where
  "run_check ctx c =
     (case check_run c ctx of
        Inr is \<Rightarrow> Inr is
      | Inl e \<Rightarrow> res_bind (sentinel_issue_init (check_failed_issue c e)) (\<lambda>i. Inr [i]))"

definition sentinel_evaluate :: "sentinel_check list \<Rightarrow> sentinel_context \<Rightarrow> sentinel_report res" where
  "sentinel_evaluate cs ctx =
     res_bind (res_map (run_check ctx) cs) (\<lambda>issues.
       Inr \<lparr>report_check_count = length cs, report_issues = concat issues\<rparr>)"

section \<open>The default checks\<close>

definition governance_observations :: "json dict \<Rightarrow> json dict list" where
  "governance_observations meta =
     (case dict_get meta ''governance_observations'' of
        Some (JList vs) \<Rightarrow> List.map_filter (\<lambda>v. case v of JObj d \<Rightarrow> Some d | _ \<Rightarrow> None) vs
      | _ \<Rightarrow> [])"

definition coerce_bool :: "py_runtime \<Rightarrow> json option \<Rightarrow> bool" where
  "coerce_bool rt v =
     (case v of None \<Rightarrow> False
      | Some (JBool b) \<Rightarrow> b
      | Some JNull \<Rightarrow> False
      | Some x \<Rightarrow> lower (strip (py_str rt x)) \<in> {''1'', ''true'', ''yes'', ''on''})"

definition observation_issue :: "string \<Rightarrow> string \<Rightarrow> string \<Rightarrow> string \<Rightarrow> json dict \<Rightarrow> sentinel_issue res" where
  "observation_issue code summary source details observed = sentinel_issue_init
     \<lparr>issue_code = code, issue_severity = SENTINEL_ERROR, issue_summary = summary, issue_source = Some source,
      issue_details = Some details, issue_data = [(''observation'', JObj observed)]\<rparr>"

definition governance_check :: "py_runtime \<Rightarrow> sentinel_check" where
  "governance_check rt = \<lparr>check_name = ''governance-contradiction-check'',
     check_run = (\<lambda>ctx. res_map
       (observation_issue ''sentinel.governance_execution_contradiction''
          ''Governance reported a blocked action as executed.'' ''governance-contradiction-check''
          (''A blocked governance decision and an executed runtime action cannot both be true ''
            @ ''in the same observation.''))
       (filter (\<lambda>d. optional_str rt (dict_get d ''decision'') = Some ''block'' \<and> coerce_bool rt (dict_get d ''executed''))
         (governance_observations (context_metadata ctx))))\<rparr>"

definition approval_gate_check :: "py_runtime \<Rightarrow> sentinel_check" where
  "approval_gate_check rt = \<lparr>check_name = ''approval-gate-consistency-check'',
     check_run = (\<lambda>ctx. res_map
       (observation_issue ''sentinel.approval_gate_contradiction''
          ''Runtime execution proceeded despite an unsatisfied approval gate.'' ''approval-gate-consistency-check''
          ''Governed execution must not proceed when approval is required but has not been satisfied.'')
       (filter (\<lambda>d. coerce_bool rt (dict_get d ''executed'') \<and> coerce_bool rt (dict_get d ''approval_required'')
           \<and> \<not> coerce_bool rt (dict_get d ''approval_satisfied''))
         (governance_observations (context_metadata ctx))))\<rparr>"

definition failure_signal :: "string list \<Rightarrow> bool" where
  "failure_signal messages = list_ex (\<lambda>m. contains_any m [''failed'', ''execution failed'', ''verification failed'',
     ''error'', ''blocked'']) messages"

definition completion_signal :: "string list \<Rightarrow> bool" where
  "completion_signal messages = list_ex (\<lambda>m. contains_any m [''completed'', ''execution completed'',
     ''verification passed'', ''succeeded'', ''finalized with status=passed'']) messages"

definition state_trace_details :: "string \<Rightarrow> string list \<Rightarrow> string" where
  "state_trace_details state messages =
     (let joined = join '' | '' (filter (\<lambda>m. m \<noteq> []) messages);
          head = ''Contradictory trace evidence was observed for task state '' @ in_quotes state
      in if joined = [] then head @ ''.'' else head @ '': '' @ joined)"

definition state_issue :: "string \<Rightarrow> string \<Rightarrow> string list \<Rightarrow> sentinel_issue res" where
  "state_issue state summary messages = sentinel_issue_init
     \<lparr>issue_code = ''sentinel.task_state_contradiction'', issue_severity = SENTINEL_WARNING, issue_summary = summary,
      issue_source = Some ''task-state-trace-contradiction-check'',
      issue_details = Some (state_trace_details state messages), issue_data = [(''task_state'', JStr state)]\<rparr>"

definition task_trace_check :: sentinel_check where
  "task_trace_check = \<lparr>check_name = ''task-state-trace-contradiction-check'',
     check_run = (\<lambda>ctx. case context_task ctx of
         None \<Rightarrow> Inr []
       | Some t \<Rightarrow>
           let messages = map strip (context_messages ctx);
               lowered = map lower (filter (\<lambda>m. m \<noteq> []) messages);
               state = task_state_value (task_state_of t)
           in if lowered = [] then Inr []
              else res_map (\<lambda>x. x)
                ((if state = ''completed'' \<and> failure_signal lowered
                  then [state_issue state ''Task state is completed, but trace records contain failure signals.'' messages]
                  else [])
                 @ (if state = ''failed'' \<and> completion_signal lowered
                  then [state_issue state ''Task state is failed, but trace records contain completion signals.'' messages]
                  else [])))\<rparr>"

definition default_sentinel_checks :: "py_runtime \<Rightarrow> sentinel_check list" where
  "default_sentinel_checks rt = [governance_check rt, approval_gate_check rt, task_trace_check]"

definition register_default_checks :: "py_runtime \<Rightarrow> sentinel_check list \<Rightarrow> (string list \<times> sentinel_check list) res" where
  "register_default_checks rt es =
     res_bind (res_fold register_check (default_sentinel_checks rt) es) (\<lambda>es'.
       Inr (map check_name (default_sentinel_checks rt), es'))"

section \<open>A run of checks never raises\<close>

lemma subject_identifier_accepts: "\<not> blank s \<Longrightarrow> \<exists>t. subject_identifier label s = Inr t"
  by (simp add: subject_identifier_def blank_def lower_def)

lemma run_check_accepts: "\<exists>is. run_check ctx c = Inr is"
proof (cases "check_run c ctx")
  case (Inl e)
  obtain t where "subject_identifier ''Sentinel issue code'' ''sentinel.check_failed'' = Inr t"
    using subject_identifier_accepts [of "''sentinel.check_failed''"] by (auto simp: not_blank_Cons)
  then show ?thesis using Inl
    by (simp add: run_check_def sentinel_issue_init_def check_failed_issue_def required_text_accepts not_blank_Cons)
qed (simp add: run_check_def)

lemma sentinel_evaluate_accepts: "\<exists>r. sentinel_evaluate cs ctx = Inr r"
proof -
  have "\<exists>iss. res_map (run_check ctx) cs = Inr iss"
    using run_check_accepts [of ctx] by (induction cs) (simp, metis res_bind_Inr res_map.simps(2))
  then show ?thesis by (auto simp: sentinel_evaluate_def)
qed

text \<open>Registering the default checks on an empty sentinel gives exactly them.\<close>

lemma default_checks_registered:
  "register_default_checks rt [] = Inr (map check_name (default_sentinel_checks rt), default_sentinel_checks rt)"
proof -
  have "subject_identifier ''Sentinel check name'' ''governance-contradiction-check'' = Inr ''governance-contradiction-check''"
    "subject_identifier ''Sentinel check name'' ''approval-gate-consistency-check'' = Inr ''approval-gate-consistency-check''"
    "subject_identifier ''Sentinel check name'' ''task-state-trace-contradiction-check''
       = Inr ''task-state-trace-contradiction-check''"
    "lower (strip ''governance-contradiction-check'') = ''governance-contradiction-check''"
    "lower (strip ''approval-gate-consistency-check'') = ''approval-gate-consistency-check''" by code_simp+
  then show ?thesis
    by (simp add: register_default_checks_def default_sentinel_checks_def register_check_def
        governance_check_def approval_gate_check_def task_trace_check_def)
qed

section \<open>What the default checks report\<close>

definition bad_severity :: "sentinel_report \<Rightarrow> bool" where
  "bad_severity r = (has_severity r SENTINEL_CRITICAL \<or> has_severity r SENTINEL_ERROR)"

lemma issue_init_severity: "sentinel_issue_init i = Inr i' \<Longrightarrow> issue_severity i' = issue_severity i"
  by (auto simp: sentinel_issue_init_def res_bind_eq_Inr)

lemma task_trace_warns:
  assumes "check_run task_trace_check ctx = Inr is" "i \<in> set is"
  shows "issue_severity i = SENTINEL_WARNING"
proof -
  have "\<exists>state summary messages. state_issue state summary messages = Inr i"
    using assms by (auto simp: task_trace_check_def Let_def res_bind_eq_Inr split: option.splits if_splits) blast+
  then show ?thesis by (auto simp: state_issue_def dest: issue_init_severity)
qed

lemma state_issue_accepts: "\<not> blank summary \<Longrightarrow> \<exists>i. state_issue state summary messages = Inr i"
proof -
  assume s: "\<not> blank summary"
  have "subject_identifier ''Sentinel issue code'' ''sentinel.task_state_contradiction''
    = Inr ''sentinel.task_state_contradiction''" by code_simp
  then show ?thesis using s by (simp add: state_issue_def sentinel_issue_init_def required_text_accepts)
qed

lemma task_trace_accepts: "\<exists>is. check_run task_trace_check ctx = Inr is"
proof (cases "context_task ctx")
  case (Some t)
  let ?messages = "map strip (context_messages ctx)"
  have "\<exists>i. state_issue s ''Task state is completed, but trace records contain failure signals.'' m = Inr i"
    "\<exists>i. state_issue s ''Task state is failed, but trace records contain completion signals.'' m = Inr i" for s m
    by (auto intro!: state_issue_accepts not_blank_Cons)
  then show ?thesis by (auto simp: task_trace_check_def Some Let_def res_bind_eq_Inr)
qed (simp add: task_trace_check_def)

text \<open>Without an observation that contradicts itself, nothing of severity error is reported.\<close>

definition consistent_observation :: "py_runtime \<Rightarrow> json dict \<Rightarrow> bool" where
  "consistent_observation rt d \<longleftrightarrow>
     \<not> (optional_str rt (dict_get d ''decision'') = Some ''block'' \<and> coerce_bool rt (dict_get d ''executed''))
     \<and> \<not> (coerce_bool rt (dict_get d ''executed'') \<and> coerce_bool rt (dict_get d ''approval_required'')
          \<and> \<not> coerce_bool rt (dict_get d ''approval_satisfied''))"

lemma default_checks_quiet:
  assumes "list_all (consistent_observation rt) (governance_observations (context_metadata ctx))"
    and "sentinel_evaluate (default_sentinel_checks rt) ctx = Inr r"
  shows "\<not> bad_severity r"
proof -
  have none: "filter (\<lambda>d. optional_str rt (dict_get d ''decision'') = Some ''block'' \<and> coerce_bool rt (dict_get d ''executed''))
      (governance_observations (context_metadata ctx)) = []"
    "filter (\<lambda>d. coerce_bool rt (dict_get d ''executed'') \<and> coerce_bool rt (dict_get d ''approval_required'')
           \<and> \<not> coerce_bool rt (dict_get d ''approval_satisfied'')) (governance_observations (context_metadata ctx)) = []"
    using assms(1) by (auto simp: consistent_observation_def list_all_iff filter_empty_conv)
  obtain msgs where msgs: "check_run task_trace_check ctx = Inr msgs" using task_trace_accepts by blast
  have "run_check ctx (governance_check rt) = Inr []" "run_check ctx (approval_gate_check rt) = Inr []"
    by (simp_all add: run_check_def governance_check_def approval_gate_check_def none)
  moreover have "run_check ctx task_trace_check = Inr msgs" using msgs by (simp add: run_check_def)
  ultimately have "report_issues r = msgs" using assms(2)
    by (auto simp: sentinel_evaluate_def default_sentinel_checks_def)
  then show ?thesis using task_trace_warns [OF msgs] by (auto simp: bad_severity_def has_severity_def list_ex_iff)
qed

end
