(* ===== verification/RunVerification.thy ===== *)
theory RunVerification
  imports Sentinel
begin

text \<open>
  Evaluation results (\<open>eval/core.py\<close>) and the verification of a run's output (\<open>eval/verification.py\<close>):
  artifacts, evaluations, a regression report, required signals and the governance controls.
\<close>

section \<open>Evaluations\<close>

datatype evaluation_status = EVAL_PASSED | EVAL_FAILED | EVAL_NEEDS_REVIEW

datatype evaluation_severity = EVAL_INFO | EVAL_WARNING | EVAL_ERROR

record evaluation_finding =
  eval_code :: string
  eval_severity :: evaluation_severity
  eval_summary :: string
  eval_details :: "string option"
  eval_data :: "json dict"

definition evaluation_finding_init :: "evaluation_finding \<Rightarrow> evaluation_finding res" where
  "evaluation_finding_init f =
     res_bind (subject_identifier ''Evaluation finding code'' (eval_code f)) (\<lambda>c.
     res_bind (required_text ''Evaluation finding summary'' (eval_summary f)) (\<lambda>s.
       Inr (f\<lparr>eval_code := c, eval_summary := s, eval_details := filled_or_none (eval_details f)\<rparr>)))"

record evaluation_result =
  evaluator_name :: string
  evaluation_status_of :: evaluation_status
  evaluation_score :: rat
  evaluation_findings :: "evaluation_finding list"

definition normalize_score :: "rat \<Rightarrow> rat res" where
  "normalize_score s =
     (if 0 \<le> s \<and> s \<le> 1 then Inr s else Inl (ValueError ''Evaluation score must be between 0.0 and 1.0.''))"

definition evaluation_result_init :: "evaluation_result \<Rightarrow> evaluation_result res" where
  "evaluation_result_init e =
     res_bind (subject_identifier ''Evaluation evaluator name'' (evaluator_name e)) (\<lambda>n.
     res_bind (normalize_score (evaluation_score e)) (\<lambda>s.
       Inr (e\<lparr>evaluator_name := n, evaluation_score := s\<rparr>)))"

definition status_from_findings :: "evaluation_finding list \<Rightarrow> evaluation_status" where
  "status_from_findings fs =
     (let severities = map eval_severity fs in
      if EVAL_ERROR \<in> set severities then EVAL_FAILED
      else if EVAL_WARNING \<in> set severities then EVAL_NEEDS_REVIEW
      else EVAL_PASSED)"

text \<open>The rule-based evaluator: its rules are functions of a context of any kind.\<close>

record 'c rule_evaluator =
  rule_evaluator_name :: string
  evaluator_rules :: "('c \<Rightarrow> evaluation_finding option res) list"
  passing_score :: rat
  review_score :: rat
  failing_score :: rat

definition rule_evaluator_init :: "'c rule_evaluator \<Rightarrow> 'c rule_evaluator res" where
  "rule_evaluator_init e =
     res_bind (subject_identifier ''Evaluation evaluator name'' (rule_evaluator_name e)) (\<lambda>n.
       if evaluator_rules e = [] then Inl (ValueError ''Rule-based evaluator must define at least one rule.'')
       else res_bind (normalize_score (passing_score e)) (\<lambda>_.
         res_bind (normalize_score (review_score e)) (\<lambda>_.
         res_bind (normalize_score (failing_score e)) (\<lambda>_. Inr (e\<lparr>rule_evaluator_name := n\<rparr>)))))"

definition rule_evaluate :: "'c rule_evaluator \<Rightarrow> 'c \<Rightarrow> evaluation_result res" where
  "rule_evaluate e c =
     res_bind (res_map (\<lambda>rule. rule c) (evaluator_rules e)) (\<lambda>found.
     let findings = List.map_filter (\<lambda>x. x) found;
         status = status_from_findings findings
     in evaluation_result_init
       \<lparr>evaluator_name = rule_evaluator_name e, evaluation_status_of = status,
        evaluation_score = (case status of EVAL_PASSED \<Rightarrow> passing_score e | EVAL_NEEDS_REVIEW \<Rightarrow> review_score e
          | EVAL_FAILED \<Rightarrow> failing_score e),
        evaluation_findings = findings\<rparr>)"

section \<open>Verification\<close>

datatype verification_status = VERIFY_PASSED | VERIFY_FAILED | VERIFY_NEEDS_REVIEW

fun verification_status_value :: "verification_status \<Rightarrow> string" where
  "verification_status_value VERIFY_PASSED = ''passed''"
| "verification_status_value VERIFY_FAILED = ''failed''"
| "verification_status_value VERIFY_NEEDS_REVIEW = ''needs_review''"

record verification_issue =
  verify_code :: string
  verify_severity :: evaluation_severity
  verify_summary :: string
  verify_details :: "string option"

definition verification_issue_init :: "verification_issue \<Rightarrow> verification_issue res" where
  "verification_issue_init i =
     res_bind (subject_identifier ''Output verification issue code'' (verify_code i)) (\<lambda>c.
     res_bind (required_text ''Output verification issue summary'' (verify_summary i)) (\<lambda>s.
       Inr (i\<lparr>verify_code := c, verify_summary := s, verify_details := filled_or_none (verify_details i)\<rparr>)))"

datatype regression_status = REGRESSION_PASSED | REGRESSION_FAILED | REGRESSION_ERROR

record regression_report =
  regression_status_of :: regression_status
  regression_tests :: int
  regression_failures :: int
  regression_errors :: int
  regression_notes :: "string list"

record verification_context =
  verify_subject_id :: string
  expected_artifacts :: "string list"
  produced_artifacts :: "string list"
  evaluation_results :: "evaluation_result list"
  regression_report_of :: "regression_report option"
  required_signals :: "string list"
  observed_signals :: "string list"
  chain_verified :: "bool option"
  approval_required :: bool
  approval_satisfied :: bool

definition normalize_strings :: "string \<Rightarrow> string list \<Rightarrow> string list res" where
  "normalize_strings label xs =
     res_bind (res_map (required_text (''Output verification '' @ label)) xs) (\<lambda>ys. Inr (uniq ys))"

definition verification_context_init :: "verification_context \<Rightarrow> verification_context res" where
  "verification_context_init c =
     res_bind (subject_identifier ''Output verification subject id'' (verify_subject_id c)) (\<lambda>sid.
     res_bind (normalize_strings ''expected artifact'' (expected_artifacts c)) (\<lambda>ea.
     res_bind (normalize_strings ''produced artifact'' (produced_artifacts c)) (\<lambda>pa.
     res_bind (normalize_strings ''required signal'' (required_signals c)) (\<lambda>rs.
     res_bind (normalize_strings ''observed signal'' (observed_signals c)) (\<lambda>os.
       Inr (c\<lparr>verify_subject_id := sid, expected_artifacts := ea, produced_artifacts := pa,
              required_signals := rs, observed_signals := os\<rparr>))))))"

record verification_report =
  verified_subject :: string
  verification_status_of :: verification_status
  verification_issues :: "verification_issue list"

definition verify_issue ::
  "string \<Rightarrow> evaluation_severity \<Rightarrow> string \<Rightarrow> string option \<Rightarrow> verification_issue res" where
  "verify_issue code severity summary details = verification_issue_init
     \<lparr>verify_code = code, verify_severity = severity, verify_summary = summary, verify_details = details\<rparr>"

definition verify_artifacts :: "verification_context \<Rightarrow> verification_issue res list" where
  "verify_artifacts c =
     (let missing = filter (\<lambda>a. a \<notin> set (produced_artifacts c)) (expected_artifacts c) in
      if missing = [] then []
      else [verify_issue ''verification.missing_artifact'' EVAL_ERROR ''Expected artifacts were not produced.''
        (Some (''Missing artifacts: '' @ join '', '' missing))])"

definition verify_evaluation :: "float_texts \<Rightarrow> evaluation_result \<Rightarrow> verification_issue res list" where
  "verify_evaluation fl e =
     (let name = in_quotes (evaluator_name e); score = Some (''score='' @ float_repr fl (evaluation_score e))
      in case evaluation_status_of e of
           EVAL_FAILED \<Rightarrow> [verify_issue ''verification.evaluation_failed'' EVAL_ERROR
             (''Evaluation '' @ name @ '' failed verification.'') score]
         | EVAL_NEEDS_REVIEW \<Rightarrow> [verify_issue ''verification.evaluation_needs_review'' EVAL_WARNING
             (''Evaluation '' @ name @ '' requires review.'') score]
         | EVAL_PASSED \<Rightarrow> [])"

definition verify_evaluations :: "float_texts \<Rightarrow> verification_context \<Rightarrow> verification_issue res list" where
  "verify_evaluations fl c =
     (if evaluation_results c = []
      then [verify_issue ''verification.no_evaluations'' EVAL_WARNING
        ''No evaluation results were supplied for verification.'' None]
      else concat (map (verify_evaluation fl) (evaluation_results c)))"

definition verify_regression :: "verification_context \<Rightarrow> verification_issue res list" where
  "verify_regression c =
     (case regression_report_of c of None \<Rightarrow> []
      | Some r \<Rightarrow> (case regression_status_of r of
          REGRESSION_PASSED \<Rightarrow> []
        | REGRESSION_FAILED \<Rightarrow> [verify_issue ''verification.regression_failed'' EVAL_ERROR
            ''Regression run reported test failures.''
            (Some (''tests='' @ show_int (regression_tests r) @ '', failures='' @ show_int (regression_failures r)
              @ '', errors='' @ show_int (regression_errors r)))]
        | REGRESSION_ERROR \<Rightarrow> [verify_issue ''verification.regression_error'' EVAL_ERROR
            ''Regression run reported execution or report errors.''
            (if regression_notes r = [] then None else Some (join '', '' (regression_notes r)))]))"

definition verify_signals :: "verification_context \<Rightarrow> verification_issue res list" where
  "verify_signals c =
     (let missing = filter (\<lambda>s. s \<notin> set (observed_signals c)) (required_signals c) in
      if missing = [] then []
      else [verify_issue ''verification.missing_signal'' EVAL_ERROR
        ''Required verification signals were not observed.'' (Some (''Missing signals: '' @ join '', '' missing))])"

definition verify_controls :: "verification_context \<Rightarrow> verification_issue res list" where
  "verify_controls c =
     (if chain_verified c = Some False
      then [verify_issue ''verification.governance_chain_invalid'' EVAL_ERROR
        ''Governance receipt chain failed integrity verification.'' None] else [])
     @ (if approval_required c \<and> \<not> approval_satisfied c
      then [verify_issue ''verification.approval_pending'' EVAL_WARNING
        ''Governed execution is still waiting on approval.'' None] else [])"

definition status_from_issues :: "verification_issue list \<Rightarrow> verification_status" where
  "status_from_issues is =
     (let severities = map verify_severity is in
      if EVAL_ERROR \<in> set severities then VERIFY_FAILED
      else if EVAL_WARNING \<in> set severities then VERIFY_NEEDS_REVIEW
      else VERIFY_PASSED)"

definition verify_output :: "float_texts \<Rightarrow> verification_context \<Rightarrow> verification_report res" where
  "verify_output fl c =
     res_bind (res_map (\<lambda>x. x) (verify_artifacts c @ verify_evaluations fl c @ verify_regression c
         @ verify_signals c @ verify_controls c)) (\<lambda>issues.
       Inr \<lparr>verified_subject = verify_subject_id c, verification_status_of = status_from_issues issues,
            verification_issues = issues\<rparr>)"

section \<open>When a verification fails\<close>

definition context_fails :: "verification_context \<Rightarrow> bool" where
  "context_fails c \<longleftrightarrow> \<not> set (expected_artifacts c) \<subseteq> set (produced_artifacts c)
     \<or> list_ex (\<lambda>e. evaluation_status_of e = EVAL_FAILED) (evaluation_results c)
     \<or> (case regression_report_of c of None \<Rightarrow> False | Some r \<Rightarrow> regression_status_of r \<noteq> REGRESSION_PASSED)
     \<or> \<not> set (required_signals c) \<subseteq> set (observed_signals c)
     \<or> chain_verified c = Some False"

definition context_waits :: "verification_context \<Rightarrow> bool" where
  "context_waits c \<longleftrightarrow> evaluation_results c = []
     \<or> list_ex (\<lambda>e. evaluation_status_of e = EVAL_NEEDS_REVIEW) (evaluation_results c)
     \<or> approval_required c \<and> \<not> approval_satisfied c"

text \<open>The severities of the issues, whatever their texts.\<close>

definition issue_with :: "evaluation_severity \<Rightarrow> verification_issue res \<Rightarrow> bool" where
  "issue_with s x \<longleftrightarrow> (\<exists>i. x = Inr i \<and> verify_severity i = s)"

lemma verify_issue_with:
  "\<not> blank code \<Longrightarrow> \<not> blank summary \<Longrightarrow> issue_with t (verify_issue code s summary details) \<longleftrightarrow> t = s"
  using subject_identifier_accepts [of code "''Output verification issue code''"]
  by (auto simp: issue_with_def verify_issue_def verification_issue_init_def required_text_accepts res_bind_eq_Inr)

lemma visible_v [simp]: "\<not> is_space CHR ''v''" "\<not> is_space CHR ''N''" "\<not> is_space CHR ''G''"
  by code_simp+

lemma visible_verify: "\<not> blank (CHR ''v'' # s)" "\<not> blank (CHR ''N'' # s)" "\<not> blank (CHR ''G'' # s)"
  by (simp_all add: blank_Cons)

lemmas verify_parts = verify_artifacts_def verify_evaluations_def verify_evaluation_def verify_regression_def
  verify_signals_def verify_controls_def Let_def

lemma verify_issues_severities:
  assumes "xs = verify_artifacts c @ verify_evaluations fl c @ verify_regression c @ verify_signals c @ verify_controls c"
  shows "list_ex (issue_with EVAL_ERROR) xs \<longleftrightarrow> context_fails c"
    and "list_ex (issue_with EVAL_WARNING) xs \<longleftrightarrow> context_waits c"
    and "list_all (\<lambda>x. issue_with EVAL_ERROR x \<or> issue_with EVAL_WARNING x) xs"
proof -
  note r = verify_issue_with visible_verify not_blank_Cons
  have e: "list_ex (issue_with EVAL_ERROR) (verify_evaluation fl x) = (evaluation_status_of x = EVAL_FAILED)"
    "list_ex (issue_with EVAL_WARNING) (verify_evaluation fl x) = (evaluation_status_of x = EVAL_NEEDS_REVIEW)"
    "list_all (\<lambda>x. issue_with EVAL_ERROR x \<or> issue_with EVAL_WARNING x) (verify_evaluation fl x)" for x
    by (simp_all add: verify_evaluation_def Let_def r split: evaluation_status.splits)
  have es: "list_ex P (concat (map g xs)) = list_ex (\<lambda>x. list_ex P (g x)) xs"
    "list_all P (concat (map g xs)) = list_all (\<lambda>x. list_all P (g x)) xs"
    for P :: "verification_issue res \<Rightarrow> bool" and g :: "evaluation_result \<Rightarrow> _" and xs
    by (induction xs) auto
  have a: "list_ex (issue_with EVAL_ERROR) (verify_artifacts c) = (\<not> set (expected_artifacts c) \<subseteq> set (produced_artifacts c))"
    "\<not> list_ex (issue_with EVAL_WARNING) (verify_artifacts c)"
    "list_all (\<lambda>x. issue_with EVAL_ERROR x \<or> issue_with EVAL_WARNING x) (verify_artifacts c)"
    by (auto simp: verify_artifacts_def Let_def r filter_empty_conv)
  have v: "list_ex (issue_with EVAL_ERROR) (verify_evaluations fl c)
      = list_ex (\<lambda>e. evaluation_status_of e = EVAL_FAILED) (evaluation_results c)"
    "list_ex (issue_with EVAL_WARNING) (verify_evaluations fl c)
      = (evaluation_results c = [] \<or> list_ex (\<lambda>e. evaluation_status_of e = EVAL_NEEDS_REVIEW) (evaluation_results c))"
    "list_all (\<lambda>x. issue_with EVAL_ERROR x \<or> issue_with EVAL_WARNING x) (verify_evaluations fl c)"
    using e(3) by (auto simp: verify_evaluations_def r es e(1,2) list_all_iff)
  have g: "list_ex (issue_with EVAL_ERROR) (verify_regression c)
      = (case regression_report_of c of None \<Rightarrow> False | Some r \<Rightarrow> regression_status_of r \<noteq> REGRESSION_PASSED)"
    "\<not> list_ex (issue_with EVAL_WARNING) (verify_regression c)"
    "list_all (\<lambda>x. issue_with EVAL_ERROR x \<or> issue_with EVAL_WARNING x) (verify_regression c)"
    by (simp_all add: verify_regression_def r split: option.splits regression_status.splits)
  have s: "list_ex (issue_with EVAL_ERROR) (verify_signals c) = (\<not> set (required_signals c) \<subseteq> set (observed_signals c))"
    "\<not> list_ex (issue_with EVAL_WARNING) (verify_signals c)"
    "list_all (\<lambda>x. issue_with EVAL_ERROR x \<or> issue_with EVAL_WARNING x) (verify_signals c)"
    by (auto simp: verify_signals_def Let_def r filter_empty_conv)
  have k: "list_ex (issue_with EVAL_ERROR) (verify_controls c) = (chain_verified c = Some False)"
    "list_ex (issue_with EVAL_WARNING) (verify_controls c) = (approval_required c \<and> \<not> approval_satisfied c)"
    "list_all (\<lambda>x. issue_with EVAL_ERROR x \<or> issue_with EVAL_WARNING x) (verify_controls c)"
    by (auto simp: verify_controls_def r)
  show "list_ex (issue_with EVAL_ERROR) xs \<longleftrightarrow> context_fails c"
    by (simp add: assms a v g s k context_fails_def)
  show "list_ex (issue_with EVAL_WARNING) xs \<longleftrightarrow> context_waits c"
    by (simp add: assms a v g s k context_waits_def)
  show "list_all (\<lambda>x. issue_with EVAL_ERROR x \<or> issue_with EVAL_WARNING x) xs"
    by (simp add: assms a v g s k)
qed

lemma issue_res_map:
  "list_all (\<lambda>x. issue_with EVAL_ERROR x \<or> issue_with EVAL_WARNING x) xs \<Longrightarrow>
     \<exists>is. res_map (\<lambda>x. x) xs = Inr is \<and> (\<forall>s. s \<in> set (map verify_severity is) \<longleftrightarrow> list_ex (issue_with s) xs)"
proof (induction xs)
  case (Cons x xs)
  then obtain i where i: "x = Inr i" by (auto simp: issue_with_def)
  obtain msgs where m: "res_map (\<lambda>x. x) xs = Inr msgs"
    "\<And>s. s \<in> set (map verify_severity msgs) \<longleftrightarrow> list_ex (issue_with s) xs" using Cons by auto
  have "issue_with s x \<longleftrightarrow> s = verify_severity i" for s by (auto simp: i issue_with_def)
  then show ?case using m i by auto
qed simp

lemma verify_output_decides:
  "\<exists>r. verify_output fl c = Inr r \<and> verified_subject r = verify_subject_id c
     \<and> verification_status_of r = (if context_fails c then VERIFY_FAILED
         else if context_waits c then VERIFY_NEEDS_REVIEW else VERIFY_PASSED)"
proof -
  define xs where "xs = verify_artifacts c @ verify_evaluations fl c @ verify_regression c @ verify_signals c @ verify_controls c"
  note sev = verify_issues_severities [OF xs_def]
  obtain msgs where m: "res_map (\<lambda>x. x) xs = Inr msgs"
    "\<And>s. s \<in> set (map verify_severity msgs) \<longleftrightarrow> list_ex (issue_with s) xs"
    using issue_res_map [OF sev(3)] by blast
  have "status_from_issues msgs = (if context_fails c then VERIFY_FAILED
         else if context_waits c then VERIFY_NEEDS_REVIEW else VERIFY_PASSED)"
    by (simp only: status_from_issues_def Let_def m(2) sev)
  then show ?thesis by (simp add: verify_output_def xs_def [symmetric] m(1))
qed

end
