(* ===== verification/RunMemory.thy ===== *)
theory RunMemory
  imports RunVerification PyState
begin

text \<open>
  What a run records beside its receipts: execution traces (\<open>memory/trace.py\<close>), the artifacts known by
  name (\<open>memory/artifact.py\<close>) and evaluation evidence (\<open>eval/evidence.py\<close>).
\<close>

section \<open>Traces\<close>

record trace_record =
  trace_id :: string
  trace_correlation_id :: string
  trace_stage :: string
  trace_message :: string
  trace_level :: string
  trace_created_at :: int
  trace_source :: "string option"
  trace_tags :: "string list"
  trace_data :: "json dict"

type_synonym trace_store = "(string \<times> trace_record) list"

definition subject_identifiers :: "string \<Rightarrow> string list \<Rightarrow> string list res" where
  "subject_identifiers label xs = res_bind (res_map (subject_identifier label) xs) (\<lambda>ys. Inr (uniq ys))"

definition append_trace ::
  "string \<Rightarrow> int \<Rightarrow> trace_record \<Rightarrow> trace_store \<Rightarrow> (trace_record \<times> trace_store) res" where
  "append_trace fresh now r ts =
     res_bind (required_text ''Trace memory correlation id'' (trace_correlation_id r)) (\<lambda>c.
     res_bind (subject_identifier ''Trace memory stage'' (trace_stage r)) (\<lambda>stage.
     res_bind (required_text ''Trace memory message'' (trace_message r)) (\<lambda>message.
     res_bind (subject_identifier ''Trace memory level'' (trace_level r)) (\<lambda>level.
     res_bind (subject_identifiers ''Trace memory tag'' (trace_tags r)) (\<lambda>tags.
       let r' = r\<lparr>trace_id := ''tr-'' @ fresh, trace_correlation_id := c, trace_stage := stage,
             trace_message := message, trace_level := level, trace_created_at := now,
             trace_source := filled_or_none (trace_source r), trace_tags := tags\<rparr>
       in Inr (r', dict_set (trace_id r') r' ts))))))"

definition get_trace :: "string \<Rightarrow> trace_store \<Rightarrow> trace_record option res" where
  "get_trace tid ts = res_bind (required_text ''Trace memory trace id'' tid) (\<lambda>t. Inr (dict_get ts t))"

definition filter_by_correlation :: "string \<Rightarrow> trace_store \<Rightarrow> trace_record list res" where
  "filter_by_correlation c ts =
     res_bind (required_text ''Trace memory correlation id'' c) (\<lambda>n.
       Inr (filter (\<lambda>r. trace_correlation_id r = n) (map snd ts)))"

definition filter_by_stage :: "string \<Rightarrow> trace_store \<Rightarrow> trace_record list res" where
  "filter_by_stage s ts =
     res_bind (subject_identifier ''Trace memory stage'' s) (\<lambda>n. Inr (filter (\<lambda>r. trace_stage r = n) (map snd ts)))"

definition filter_by_tag :: "string \<Rightarrow> trace_store \<Rightarrow> trace_record list res" where
  "filter_by_tag s ts =
     res_bind (subject_identifier ''Trace memory tag'' s) (\<lambda>n.
       Inr (filter (\<lambda>r. n \<in> set (trace_tags r)) (map snd ts)))"

definition filter_by_level :: "string \<Rightarrow> trace_store \<Rightarrow> trace_record list res" where
  "filter_by_level s ts =
     res_bind (subject_identifier ''Trace memory level'' s) (\<lambda>n. Inr (filter (\<lambda>r. trace_level r = n) (map snd ts)))"

section \<open>Artifacts\<close>

text \<open>\<open>Path.resolve\<close> depends on the directories there are: the path is given resolved.\<close>

record artifact_record =
  artifact_id :: string
  logical_name :: string
  artifact_path :: string
  artifact_type :: string
  artifact_digest :: "string option"
  artifact_created_at :: int
  artifact_updated_at :: int
  artifact_source :: "string option"
  artifact_tags :: "string list"
  artifact_metadata :: "json dict"

type_synonym artifact_store = "(string \<times> artifact_record) list"

definition upsert_artifact ::
  "string \<Rightarrow> int \<Rightarrow> artifact_record \<Rightarrow> artifact_store \<Rightarrow> (artifact_record \<times> artifact_store) res" where
  "upsert_artifact fresh now a store =
     res_bind (subject_identifier ''Artifact memory logical name'' (logical_name a)) (\<lambda>name.
     res_bind (subject_identifier ''Artifact memory artifact type'' (artifact_type a)) (\<lambda>kind.
     res_bind (subject_identifiers ''Artifact memory tag'' (artifact_tags a)) (\<lambda>tags.
       let a' = a\<lparr>artifact_id := ''art-'' @ fresh, logical_name := name, artifact_type := kind,
             artifact_digest := filled_or_none (artifact_digest a), artifact_created_at := now,
             artifact_updated_at := now, artifact_source := filled_or_none (artifact_source a), artifact_tags := tags\<rparr>;
           r = (case dict_get store name of None \<Rightarrow> a'
             | Some old \<Rightarrow> a'\<lparr>artifact_id := artifact_id old, logical_name := logical_name old,
                 artifact_created_at := artifact_created_at old\<rparr>)
       in Inr (r, dict_set name r store))))"

definition get_artifact :: "string \<Rightarrow> artifact_store \<Rightarrow> artifact_record option res" where
  "get_artifact name store =
     res_bind (subject_identifier ''Artifact memory logical name'' name) (\<lambda>n. Inr (dict_get store n))"

section \<open>Evidence\<close>

record evidence_record =
  evidence_id :: string
  evidence_subject_id :: string
  evidence_type :: string
  evidence_summary :: string
  evidence_created_at :: int
  evidence_source :: "string option"
  evidence_artifact_refs :: "string list"
  evidence_trace_ids :: "string list"
  evidence_metadata :: "json dict"

definition evidence_strings :: "string \<Rightarrow> string list \<Rightarrow> string list res" where
  "evidence_strings label xs =
     res_bind (res_map (required_text (''Evaluation evidence '' @ label)) xs) (\<lambda>ys. Inr (uniq ys))"

definition record_evidence ::
  "string \<Rightarrow> int \<Rightarrow> evidence_record \<Rightarrow> evidence_record list \<Rightarrow> (evidence_record \<times> evidence_record list) res" where
  "record_evidence fresh now e es =
     res_bind (subject_identifier ''Evaluation evidence subject id'' (evidence_subject_id e)) (\<lambda>sid.
     res_bind (subject_identifier ''Evaluation evidence evidence type'' (evidence_type e)) (\<lambda>kind.
     res_bind (required_text ''Evaluation evidence summary'' (evidence_summary e)) (\<lambda>summary.
     res_bind (evidence_strings ''artifact reference'' (evidence_artifact_refs e)) (\<lambda>refs.
     res_bind (evidence_strings ''trace id'' (evidence_trace_ids e)) (\<lambda>tids.
       let e' = e\<lparr>evidence_id := ''ev-'' @ fresh, evidence_subject_id := sid, evidence_type := kind,
             evidence_summary := summary, evidence_created_at := now,
             evidence_source := filled_or_none (evidence_source e), evidence_artifact_refs := refs,
             evidence_trace_ids := tids\<rparr>
       in Inr (e', es @ [e']))))))"

section \<open>What the stores keep\<close>

text \<open>An artifact that is stored again keeps its identifier and the instant it was first stored at.\<close>

lemma upsert_artifact_get:
  assumes "upsert_artifact fresh now a store = Inr (r, store')"
  defines "n \<equiv> lower (strip (logical_name a))"
  shows "dict_get store' k = (if k = n then Some r else dict_get store k)"
    and "dict_get store n = Some old \<Longrightarrow> artifact_id r = artifact_id old \<and> artifact_created_at r = artifact_created_at old"
  using assms
  by (auto simp: upsert_artifact_def subject_identifier_def res_bind_eq_Inr Let_def dict_get_set
      split: if_splits option.splits)

text \<open>A trace under a fresh identifier is added, and found by its correlation.\<close>

lemma append_trace_Inr:
  assumes "append_trace fresh now r ts = Inr (r', ts')"
  shows "dict_get ts' k = (if k = ''tr-'' @ fresh then Some r' else dict_get ts k)"
    and "trace_message r' = strip (trace_message r)" "trace_correlation_id r' = strip (trace_correlation_id r)"
  using assms
  by (auto simp: append_trace_def required_text_def res_bind_eq_Inr Let_def dict_get_set split: if_splits)

lemma append_trace_accepts:
  assumes "\<not> blank (trace_correlation_id r)" "\<not> blank (trace_stage r)" "\<not> blank (trace_message r)"
    "\<not> blank (trace_level r)" "trace_tags r = []"
  shows "\<exists>r'. append_trace fresh now r ts = Inr (r', dict_set (''tr-'' @ fresh) r' ts)"
  using subject_identifier_accepts [OF assms(2), of "''Trace memory stage''"]
    subject_identifier_accepts [OF assms(4), of "''Trace memory level''"] assms
  by (auto simp: append_trace_def required_text_accepts subject_identifiers_def Let_def)

end
