(* ===== verification/EventBus.thy ===== *)
theory EventBus
  imports RunMemory
begin

text \<open>
  The event bus (\<open>bus/messages.py\<close>, \<open>runtime.py\<close>). A handler is an identity, as Python compares
  callables, with a display name; what calling it does to the rest of the program is the argument
  \<open>call\<close>. A handler that raises is reported and does not keep the others from being called.
\<close>

datatype event_topic =
  TOPIC_KERNEL | TOPIC_TASK | TOPIC_MEMORY | TOPIC_PACK | TOPIC_FORGE | TOPIC_SENTINEL | TOPIC_VAULT | TOPIC_EVAL
  | TOPIC_INTERFACE | TOPIC_SYSTEM

record event_envelope =
  event_id :: string
  event_topic_of :: event_topic
  event_source :: string
  event_created_at :: int
  event_payload :: "json dict"
  event_correlation_id :: "string option"
  event_tags :: "string list"

definition event_envelope_create ::
  "string \<Rightarrow> int \<Rightarrow> event_topic \<Rightarrow> string \<Rightarrow> json dict \<Rightarrow> string option \<Rightarrow> string list \<Rightarrow> event_envelope res" where
  "event_envelope_create fresh now topic source payload correlation tags =
     (if strip source = [] then Inl (ValueError ''Event source must not be empty.'')
      else Inr \<lparr>event_id = ''evt-'' @ fresh, event_topic_of = topic, event_source = strip source,
        event_created_at = now, event_payload = payload, event_correlation_id = filled_or_none correlation,
        event_tags = clean_labels tags\<rparr>)"

record event_handler =
  handler_identity :: nat
  handler_name :: string

record event_bus =
  subscribers :: "(event_topic \<times> event_handler list) list"
  event_history :: "event_envelope list"

record dispatch_result =
  dispatch_topic :: event_topic
  dispatch_handler_name :: string
  dispatch_success :: bool
  dispatch_error :: "string option"

definition handlers_of :: "event_bus \<Rightarrow> event_topic \<Rightarrow> event_handler list" where
  "handlers_of b t = (case map_of (subscribers b) t of None \<Rightarrow> [] | Some hs \<Rightarrow> hs)"

definition bus_subscribe :: "event_topic \<Rightarrow> event_handler \<Rightarrow> event_bus \<Rightarrow> event_bus" where
  "bus_subscribe t h b =
     (let hs = handlers_of b t in
      b\<lparr>subscribers := AList.update t
        (if handler_identity h \<in> set (map handler_identity hs) then hs else hs @ [h]) (subscribers b)\<rparr>)"

text \<open>Dispatching to the handlers that were subscribed when the event was published.\<close>

fun dispatch ::
  "(event_handler \<Rightarrow> event_envelope \<Rightarrow> ('w, unit) st) \<Rightarrow> event_envelope \<Rightarrow> event_handler list \<Rightarrow> 'w
    \<Rightarrow> dispatch_result list \<times> 'w" where
  "dispatch call e [] w = ([], w)"
| "dispatch call e (h # hs) w =
     (let (out, w1) = call h e w;
          r = \<lparr>dispatch_topic = event_topic_of e, dispatch_handler_name = handler_name h,
            dispatch_success = \<not> isl out,
            dispatch_error = (case out of Inl x \<Rightarrow> Some (error_text x) | Inr _ \<Rightarrow> None)\<rparr>;
          (rs, w2) = dispatch call e hs w1
      in (r # rs, w2))"

definition bus_publish ::
  "(event_handler \<Rightarrow> event_envelope \<Rightarrow> ('w, unit) st) \<Rightarrow> event_envelope \<Rightarrow> event_bus \<times> 'w
    \<Rightarrow> dispatch_result list \<times> event_bus \<times> 'w" where
  "bus_publish call e s =
     (let b = (fst s)\<lparr>event_history := event_history (fst s) @ [e]\<rparr>;
          (rs, w) = dispatch call e (handlers_of (fst s) (event_topic_of e)) (snd s)
      in (rs, b, w))"

definition bus_history :: "int option \<Rightarrow> event_bus \<Rightarrow> event_envelope list res" where
  "bus_history limit b =
     (case limit of None \<Rightarrow> Inr (event_history b)
      | Some n \<Rightarrow> if n < 0 then Inl (ValueError ''History limit must be greater than or equal to zero.'')
          else if n = 0 then Inr []
          else Inr (drop (length (event_history b) - nat n) (event_history b)))"

definition subscription_count :: "event_bus \<Rightarrow> event_topic \<Rightarrow> nat" where
  "subscription_count b t = length (handlers_of b t)"

definition bus_clear :: "event_bus \<Rightarrow> event_bus" where
  "bus_clear b = \<lparr>subscribers = [], event_history = []\<rparr>"

section \<open>Delivery\<close>

definition bus_ok :: "event_bus \<Rightarrow> bool" where
  "bus_ok b \<longleftrightarrow> distinct (map fst (subscribers b))
     \<and> (\<forall>(t, hs) \<in> set (subscribers b). distinct (map handler_identity hs))"

lemma handlers_of_subscribe:
  "handlers_of (bus_subscribe t h b) u =
     (if u = t then (if handler_identity h \<in> set (map handler_identity (handlers_of b t)) then handlers_of b t
        else handlers_of b t @ [h]) else handlers_of b u)"
  by (auto simp: handlers_of_def bus_subscribe_def Let_def update_conv')

lemma handlers_of_distinct: "bus_ok b \<Longrightarrow> distinct (map handler_identity (handlers_of b t))"
  by (auto simp: bus_ok_def handlers_of_def dest: map_of_SomeD split: option.splits)

lemma set_AList_update: "(k, v) \<in> set (AList.update k' v' xs) \<Longrightarrow> (k, v) = (k', v') \<or> (k, v) \<in> set xs"
  by (induction xs) (auto split: if_splits)

lemma bus_subscribe_ok: "bus_ok b \<Longrightarrow> bus_ok (bus_subscribe t h b)"
  using handlers_of_distinct [of b t]
  by (auto simp: bus_ok_def bus_subscribe_def Let_def distinct_update dest!: set_AList_update)

text \<open>Every subscriber is called, in the order of subscription, whatever the ones before it did.\<close>

fun worlds :: "(event_handler \<Rightarrow> event_envelope \<Rightarrow> ('w, unit) st) \<Rightarrow> event_envelope \<Rightarrow> event_handler list \<Rightarrow> 'w \<Rightarrow> 'w" where
  "worlds call e [] w = w"
| "worlds call e (h # hs) w = worlds call e hs (snd (call h e w))"

lemma dispatch_all:
  "dispatch call e hs w = (rs, w') \<Longrightarrow> map dispatch_handler_name rs = map handler_name hs \<and> w' = worlds call e hs w"
  by (induction hs arbitrary: w rs w') (auto simp: Let_def split: prod.splits)

lemma dispatch_success:
  "dispatch call e hs w = (rs, w') \<Longrightarrow> k < length hs \<Longrightarrow>
     dispatch_success (rs ! k) \<longleftrightarrow> \<not> isl (fst (call (hs ! k) e (worlds call e (take k hs) w)))"
proof (induction hs arbitrary: w rs k)
  case (Cons h hs)
  obtain out w1 where c: "call h e w = (out, w1)" by (rule prod.exhaust)
  obtain rs' w2 where d: "dispatch call e hs w1 = (rs', w2)" by (rule prod.exhaust)
  from Cons.prems(1) c d have rs: "tl rs = rs'" "w' = w2" "dispatch_success (hd rs) = (\<not> isl out)" "rs \<noteq> []"
    by (auto simp: Let_def)
  show ?case
  proof (cases k)
    case 0
    then show ?thesis using rs c by (simp add: hd_conv_nth)
  next
    case (Suc j)
    then show ?thesis using Cons.IH [of w1 rs' j] d rs c Cons.prems(2) by (cases rs) auto
  qed
qed simp

end
