(* ===== verification/Packs.thy ===== *)
theory Packs
  imports EventBus
begin

text \<open>
  Packs (\<open>packs/base.py\<close>, \<open>manifest.py\<close>, \<open>registry.py\<close>, the entrypoints of \<open>loader.py\<close>) and the two that are
  built in (\<open>packs/programming/runtime.py\<close>, \<open>packs/architecture/runtime.py\<close>): plans from the words of
  a prompt, noted in the shared state and published on the bus.
\<close>

section \<open>Manifests and their registry\<close>

datatype pack_capability_type = CAP_REASONING | CAP_TOOLING | CAP_RETRIEVAL | CAP_VALIDATION | CAP_MEMORY | CAP_ORCHESTRATION

record pack_capability =
  pack_capability_name :: string
  pack_capability_type_of :: pack_capability_type
  pack_capability_description :: string

definition pack_capability_init :: "pack_capability \<Rightarrow> pack_capability res" where
  "pack_capability_init c =
     res_bind (subject_identifier ''Pack capability name'' (pack_capability_name c)) (\<lambda>n.
       Inr (c\<lparr>pack_capability_name := n, pack_capability_description := strip (pack_capability_description c)\<rparr>))"

record pack_manifest =
  manifest_pack_name :: string
  pack_version :: string
  pack_description :: string
  pack_supported_kinds :: "task_kind list"
  pack_labels :: "string list"
  pack_capabilities :: "pack_capability list"
  pack_dependencies :: "string list"
  pack_entrypoint :: "string option"
  pack_is_default :: bool

definition pack_manifest_init :: "pack_manifest \<Rightarrow> pack_manifest res" where
  "pack_manifest_init m =
     res_bind (subject_identifier ''Pack pack name'' (manifest_pack_name m)) (\<lambda>n.
     if strip (pack_version m) = [] then Inl (ValueError ''Pack version must not be empty.'')
     else res_bind (subject_identifiers ''Pack label'' (pack_labels m)) (\<lambda>ls.
     res_bind (subject_identifiers ''Pack dependency'' (pack_dependencies m)) (\<lambda>ds.
       Inr (m\<lparr>manifest_pack_name := n, pack_version := strip (pack_version m),
              pack_description := strip (pack_description m), pack_labels := ls, pack_dependencies := ds,
              pack_entrypoint := filled_or_none (pack_entrypoint m)\<rparr>))))"

definition supports_task_kind :: "pack_manifest \<Rightarrow> task_kind \<Rightarrow> bool" where
  "supports_task_kind m k = (k \<in> set (pack_supported_kinds m))"

definition declares_capability :: "pack_manifest \<Rightarrow> string \<Rightarrow> bool res" where
  "declares_capability m name =
     res_bind (subject_identifier ''Pack capability name'' name) (\<lambda>n.
       Inr (list_ex (\<lambda>c. pack_capability_name c = n) (pack_capabilities m)))"

type_synonym pack_registry = "pack_manifest list"

fun register_pack :: "pack_manifest \<Rightarrow> pack_registry \<Rightarrow> pack_registry" where
  "register_pack m [] = [m]"
| "register_pack m (e # es) =
     (if manifest_pack_name e = manifest_pack_name m then m # es else e # register_pack m es)"

fun drop_pack :: "string \<Rightarrow> pack_registry \<Rightarrow> bool \<times> pack_registry" where
  "drop_pack n [] = (False, [])"
| "drop_pack n (e # es) =
     (if manifest_pack_name e = n then (True, es) else (let (b, es') = drop_pack n es in (b, e # es')))"

definition unregister_pack :: "string \<Rightarrow> pack_registry \<Rightarrow> (bool \<times> pack_registry) res" where
  "unregister_pack name es =
     res_bind (subject_identifier ''Pack name'' name) (\<lambda>n. Inr (drop_pack n es))"

definition find_pack :: "pack_registry \<Rightarrow> string \<Rightarrow> pack_manifest option" where
  "find_pack es n = List.find (\<lambda>m. manifest_pack_name m = n) es"

definition get_pack :: "string \<Rightarrow> pack_registry \<Rightarrow> pack_manifest option res" where
  "get_pack name es = res_bind (subject_identifier ''Pack name'' name) (\<lambda>n. Inr (find_pack es n))"

text \<open>\<open>EntrypointSpec.parse\<close>: what is before the first colon and what is after it.\<close>

definition parse_entrypoint :: "string \<Rightarrow> (string \<times> string) res" where
  "parse_entrypoint s =
     (let raw = strip s;
          path = strip (takeWhile (\<lambda>c. c \<noteq> CHR '':'') raw);
          name = strip (drop 1 (dropWhile (\<lambda>c. c \<noteq> CHR '':'') raw))
      in if raw = [] \<or> CHR '':'' \<notin> set raw \<or> path = [] \<or> name = []
         then Inl (ValueError (''Pack entrypoint must be in the form '' @ in_quotes ''module.path:attribute'' @ ''.''))
         else Inr (path, name))"

section \<open>Results\<close>

record pack_result =
  pack_summary :: string
  pack_artifacts :: "string list"
  pack_metrics :: "json dict"
  pack_data :: json

definition pack_result_init :: "pack_result \<Rightarrow> pack_result res" where
  "pack_result_init r =
     (if strip (pack_summary r) = [] then Inl (ValueError ''Pack execution summary must not be empty.'')
      else Inr (r\<lparr>pack_summary := strip (pack_summary r), pack_artifacts := clean_refs (pack_artifacts r)\<rparr>))"

text \<open>A pack is what its \<open>execute\<close> does with a task and a world it may change.\<close>

type_synonym 'w pack = "task_record \<Rightarrow> ('w, pack_result) st"

section \<open>The built-in packs\<close>

record 'h pack_world =
  shared_state :: "json state_store"
  shared_bus :: event_bus
  handler_world :: 'h

definition put_shared :: "int \<Rightarrow> string \<Rightarrow> string \<Rightarrow> json \<Rightarrow> string \<Rightarrow> ('h pack_world, unit) st" where
  "put_shared now ns k v source w =
     (case state_put now ns k v (Some source) (shared_state w) of
        Inl e \<Rightarrow> (Inl e, w)
      | Inr (_, st) \<Rightarrow> (Inr (), w\<lparr>shared_state := st\<rparr>))"

definition publish_shared ::
  "(event_handler \<Rightarrow> event_envelope \<Rightarrow> ('h, unit) st) \<Rightarrow> event_envelope res \<Rightarrow> ('h pack_world, unit) st" where
  "publish_shared call envelope w =
     (case envelope of Inl x \<Rightarrow> (Inl x, w)
      | Inr e \<Rightarrow> (let (_, b, h) = bus_publish call e (shared_bus w, handler_world w)
          in (Inr (), w\<lparr>shared_bus := b, handler_world := h\<rparr>)))"

text \<open>
  Both packs note themselves, the task and the size of the plan in the shared state, publish one
  event and return the plan. Clock readings and the event's identifier come from the supply.
\<close>

definition run_plan ::
  "(event_handler \<Rightarrow> event_envelope \<Rightarrow> ('h, unit) st) \<Rightarrow> tool_supply \<Rightarrow> string \<Rightarrow> string \<Rightarrow> int \<Rightarrow> json dict
    \<Rightarrow> string list \<Rightarrow> pack_result \<Rightarrow> 'h pack_world pack" where
  "run_plan call drawn name counter size_of_plan payload tags result t =
     st_bind (put_shared (clock_at drawn 0) ''packs'' ''last_executed'' (JStr name) name) (\<lambda>_.
     st_bind (put_shared (clock_at drawn 1) name ''last_task_id'' (JStr (task_id (record_request t))) name) (\<lambda>_.
     st_bind (put_shared (clock_at drawn 2) name counter (JInt size_of_plan) name) (\<lambda>_.
     st_bind (publish_shared call (event_envelope_create (fresh_hex drawn 3) (clock_at drawn 3) TOPIC_PACK name
         payload (Some (task_id (record_request t))) tags)) (\<lambda>_.
       st_lift (pack_result_init result)))))"

text \<open>A plan's entries, each taken when one of its terms occurs.\<close>

definition chosen :: "string \<Rightarrow> (string list \<times> 'a) list \<Rightarrow> 'a list" where
  "chosen prompt options = map snd (filter (\<lambda>(terms, _). contains_any prompt terms) options)"

definition programming_options :: "(string list \<times> (string \<times> string)) list" where
  "programming_options =
    [([''bug'', ''fix'', ''repair'', ''patch'', ''broken'', ''error'', ''failing''],
      (''prepare-patch'', ''Prepare a focused patch plan for the failing area.'')),
     ([''test'', ''tests'', ''pytest'', ''regression'', ''verify'', ''validation''],
      (''run-tests'', ''Run targeted tests and collect regression evidence.'')),
     ([''profile'', ''performance'', ''slow'', ''latency'', ''optimize''],
      (''profile-execution'', ''Profile execution hot spots before optimization.'')),
     ([''document'', ''docs'', ''readme'', ''explain'', ''comment''],
      (''document-results'', ''Document the programming changes and resulting behavior.''))]"

text \<open>The steps with their actions; a step's identifier is its place in the plan.\<close>

definition programming_steps :: "string \<Rightarrow> (string \<times> string) list" where
  "programming_steps prompt =
     (let more = chosen (lower (strip prompt)) programming_options in
      (''inspect-repository'', ''Inspect the repository surface before making changes.'')
      # (if more = [] then [(''analyze-code'', ''Analyze relevant code paths and derive next actions.'')] else more))"

definition numbered :: "string \<Rightarrow> 'a list \<Rightarrow> (string \<times> 'a) list" where
  "numbered stem xs = map (\<lambda>(i, x). (stem @ show_int (int i + 1), x)) (enumerate 0 xs)"

definition programming_result :: "task_record \<Rightarrow> pack_result" where
  "programming_result t =
     (let steps = programming_steps (task_prompt (task_input_of (record_request t)));
          actions = map fst steps
      in \<lparr>pack_summary = ''Programming pack prepared '' @ show_int (int (length steps)) @ '' deterministic step(s): ''
            @ join '', '' actions @ ''.'',
          pack_artifacts = [''programming-plan.json''],
          pack_metrics = [(''step_count'', JInt (int (length steps))),
            (''has_test_step'', JBool (''run-tests'' \<in> set actions)),
            (''has_patch_step'', JBool (''prepare-patch'' \<in> set actions))],
          pack_data = JObj [(''pack'', JStr ''programming''), (''task_id'', JStr (task_id (record_request t))),
            (''task_kind'', JStr (task_kind_value (task_kind_of (record_request t)))),
            (''steps'', JList (map (\<lambda>(sid, action, summary). JObj [(''step_id'', JStr sid), (''action'', JStr action),
               (''summary'', JStr summary)]) (numbered ''step-'' steps)))]\<rparr>)"

definition programming_pack ::
  "(event_handler \<Rightarrow> event_envelope \<Rightarrow> ('h, unit) st) \<Rightarrow> tool_supply \<Rightarrow> 'h pack_world pack" where
  "programming_pack call drawn t =
     (let steps = programming_steps (task_prompt (task_input_of (record_request t))) in
      run_plan call drawn ''programming'' ''last_plan_step_count'' (int (length steps))
        [(''pack'', JStr ''programming''), (''task_id'', JStr (task_id (record_request t))),
         (''step_count'', JInt (int (length steps))), (''actions'', json_strs (map fst steps))]
        [''pack'', ''programming'', ''plan''] (programming_result t) t)"

definition programming_manifest :: pack_manifest where
  "programming_manifest =
     \<lparr>manifest_pack_name = ''programming'', pack_version = ''0.1.0'',
      pack_description = ''Deterministic programming pack for repository inspection, patch ''
        @ ''planning, testing, profiling, and code-oriented documentation.'',
      pack_supported_kinds = [PROGRAMMING],
      pack_labels = [''code'', ''patching'', ''testing'', ''profiling'', ''documentation''],
      pack_capabilities =
        [\<lparr>pack_capability_name = ''repository inspection'', pack_capability_type_of = CAP_REASONING,
          pack_capability_description = ''Plans repository-first inspection for programming tasks.''\<rparr>,
         \<lparr>pack_capability_name = ''patch planning'', pack_capability_type_of = CAP_REASONING,
          pack_capability_description = ''Creates deterministic patch-oriented action sequences.''\<rparr>,
         \<lparr>pack_capability_name = ''test orchestration hinting'', pack_capability_type_of = CAP_VALIDATION,
          pack_capability_description = ''Signals when testing and regression steps are expected.''\<rparr>],
      pack_dependencies = [], pack_entrypoint = Some ''ix_blackfox.packs.programming.runtime:ProgrammingPack'',
      pack_is_default = True\<rparr>"

text \<open>A design decision: its concern, the recommendation and the rationale.\<close>

definition architecture_options :: "(string list \<times> (string \<times> string \<times> string)) list" where
  "architecture_options =
    [([''api'', ''interface'', ''endpoint'', ''cli'', ''ui'', ''surface''],
      (''interface-surface'',
       ''Keep interface layers thin and route all material work through the internal kernel contracts.'',
       ''Thin interfaces reduce duplication and preserve one source of orchestration truth.'')),
     ([''memory'', ''state'', ''persistence'', ''context''],
      (''state-model'',
       ''Separate working, episodic, semantic, artifact, and trace state instead of flattening everything into one store.'',
       ''Tiered state keeps retrieval behavior explicit and reduces cross-layer coupling.'')),
     ([''security'', ''policy'', ''guardrail'', ''vault'', ''audit''],
      (''trust-boundary'',
       ''Bind sensitive operations to explicit policy checks, provenance, and integrity-checked state.'',
       ''Architectural trust boundaries must be enforceable and auditable, not implied.'')),
     ([''performance'', ''latency'', ''scale'', ''throughput'', ''optimize''],
      (''performance-path'',
       ''Profile critical execution paths before introducing complex optimization layers.'',
       ''Measurement-first performance work avoids architecture changes based on guesswork.''))]"

definition architecture_decisions :: "string \<Rightarrow> (string \<times> string \<times> string) list" where
  "architecture_decisions prompt =
     (let more = chosen (lower (strip prompt)) architecture_options in
      (''system-boundary'',
       ''Define one sovereign runtime boundary before adding external adapters or operator surfaces.'',
       ''A stable system boundary prevents architecture drift and keeps internal contracts testable.'')
      # (if more = [] then
          [(''module-separation'',
            ''Separate orchestration, execution, evaluation, and observability into explicit modules.'',
            ''Clear module boundaries reduce accidental coupling and make future extensions safer.'')]
         else more))"

definition architecture_result :: "task_record \<Rightarrow> pack_result" where
  "architecture_result t =
     (let ds = architecture_decisions (task_prompt (task_input_of (record_request t)));
          concerns = map fst ds
      in \<lparr>pack_summary = ''Architecture pack prepared '' @ show_int (int (length ds)) @ '' deterministic decision(s): ''
            @ join '', '' concerns @ ''.'',
          pack_artifacts = [''architecture-plan.json''],
          pack_metrics = [(''decision_count'', JInt (int (length ds))),
            (''has_boundary_decision'', JBool (''system-boundary'' \<in> set concerns)),
            (''has_interface_decision'', JBool (''interface-surface'' \<in> set concerns))],
          pack_data = JObj [(''pack'', JStr ''architecture''), (''task_id'', JStr (task_id (record_request t))),
            (''task_kind'', JStr (task_kind_value (task_kind_of (record_request t)))),
            (''decisions'', JList (map (\<lambda>(did, concern, recommendation, rationale).
               JObj [(''decision_id'', JStr did), (''concern'', JStr concern), (''recommendation'', JStr recommendation),
                 (''rationale'', JStr rationale)]) (numbered ''decision-'' ds)))]\<rparr>)"

definition architecture_pack ::
  "(event_handler \<Rightarrow> event_envelope \<Rightarrow> ('h, unit) st) \<Rightarrow> tool_supply \<Rightarrow> 'h pack_world pack" where
  "architecture_pack call drawn t =
     (let ds = architecture_decisions (task_prompt (task_input_of (record_request t))) in
      run_plan call drawn ''architecture'' ''last_decision_count'' (int (length ds))
        [(''pack'', JStr ''architecture''), (''task_id'', JStr (task_id (record_request t))),
         (''decision_count'', JInt (int (length ds))), (''concerns'', json_strs (map fst ds))]
        [''pack'', ''architecture'', ''design''] (architecture_result t) t)"

definition architecture_manifest :: pack_manifest where
  "architecture_manifest =
     \<lparr>manifest_pack_name = ''architecture'', pack_version = ''0.1.0'',
      pack_description = ''Deterministic architecture pack for system boundaries, module ''
        @ ''separation, interface shaping, state design, and trust boundaries.'',
      pack_supported_kinds = [ARCHITECTURE, ANALYSIS],
      pack_labels = [''design'', ''architecture'', ''boundary'', ''state'', ''interfaces''],
      pack_capabilities =
        [\<lparr>pack_capability_name = ''boundary planning'', pack_capability_type_of = CAP_REASONING,
          pack_capability_description = ''Produces explicit system-boundary recommendations.''\<rparr>,
         \<lparr>pack_capability_name = ''state architecture'', pack_capability_type_of = CAP_REASONING,
          pack_capability_description = ''Shapes tiered state and memory boundaries.''\<rparr>,
         \<lparr>pack_capability_name = ''trust modeling'', pack_capability_type_of = CAP_VALIDATION,
          pack_capability_description = ''Flags the need for auditable trust boundaries.''\<rparr>],
      pack_dependencies = [], pack_entrypoint = Some ''ix_blackfox.packs.architecture.runtime:ArchitecturePack'',
      pack_is_default = False\<rparr>"

section \<open>Registered packs\<close>

lemma find_register_pack: "find_pack (register_pack m es) k = (if k = manifest_pack_name m then Some m else find_pack es k)"
  by (induction es) (auto simp: find_pack_def)

interpretation pack_entries: named_entries find_pack register_pack manifest_pack_name
  by unfold_locales (rule find_register_pack)

section \<open>What the built-in packs do\<close>

lemma run_plan_runs:
  assumes "strip (pack_summary result) \<noteq> []" and "\<not> blank name" and "\<not> blank counter"
  shows "\<exists>w'. run_plan call drawn name counter size_of_plan payload tags result t w = (pack_result_init result, w')"
proof -
  have put: "\<exists>w'. put_shared now ns k v source w = (Inr (), w')" if "\<not> blank ns" "\<not> blank k" for now ns k v source
    and w :: "'a pack_world"
  proof -
    have "lower (strip ns) \<noteq> []" "lower (strip k) \<noteq> []" using that by (simp_all add: blank_def lower_def)
    then have "\<exists>nk. state_key ns k = Inr nk" by (simp add: state_key_def state_identifier_def)
    then show ?thesis by (auto simp: put_shared_def state_put_def Let_def)
  qed
  have p: "\<not> blank ''packs''" "\<not> blank ''last_executed''" "\<not> blank ''last_task_id''"
    by (simp_all add: blank_Cons is_space_def code_point_def Let_def)
  obtain w1 where 1: "put_shared (clock_at drawn 0) ''packs'' ''last_executed'' (JStr name) name w = (Inr (), w1)"
    using put p by blast
  obtain w2 where 2: "put_shared (clock_at drawn 1) name ''last_task_id'' (JStr (task_id (record_request t))) name w1
      = (Inr (), w2)" using put p assms(2) by blast
  obtain w3 where 3: "put_shared (clock_at drawn 2) name counter (JInt size_of_plan) name w2 = (Inr (), w3)"
    using put assms(2,3) by blast
  have "strip name \<noteq> []" using assms(2) by (simp add: blank_def)
  then have "\<exists>w'. publish_shared call (event_envelope_create (fresh_hex drawn 3) (clock_at drawn 3) TOPIC_PACK name
         payload (Some (task_id (record_request t))) tags) w3 = (Inr (), w')"
    by (simp add: publish_shared_def event_envelope_create_def case_prod_beta Let_def)
  then obtain w4 where 4: "publish_shared call (event_envelope_create (fresh_hex drawn 3) (clock_at drawn 3) TOPIC_PACK name
         payload (Some (task_id (record_request t))) tags) w3 = (Inr (), w4)" by blast
  show ?thesis by (simp add: run_plan_def st_bind_def 1 2 3 4 st_lift_def del: One_nat_def)
qed

end
