(* ===== verification/RuntimeProperties.thy ===== *)
theory RuntimeProperties
  imports Packs KernelProperties
begin

text \<open>
  Properties of what a run of the runtime is made of: routing, the replay guard, the preflight and the
  review it may ask for, verification of the output, and the event bus.
\<close>

text \<open>Values for the witnesses: tasks, routes, a safeguard's assessment and texts of floats.\<close>

definition ex_floats :: float_texts where
  "ex_floats = \<lparr>float_repr = (\<lambda>_. ''0.5''), float_fixed = (\<lambda>_. ''0.50'')\<rparr>"

definition ex_routes :: switchboard where
  "ex_routes =
    [\<lparr>route_name = ''spare'', supported_kinds = [], route_labels = [], route_description = [], is_fallback = True\<rparr>,
     \<lparr>route_name = ''reader'', supported_kinds = [ANALYSIS], route_labels = [], route_description = [], is_fallback = False\<rparr>]"

definition ex_decision :: routing_decision where
  "ex_decision = \<lparr>routed_name = ''reader'', route_confidence = 1, route_reason = EXACT_KIND_MATCH,
     routed_task_id = ''task-1'', matched_labels = []\<rparr>"

definition ex_assessment :: safeguard_assessment where
  "ex_assessment = \<lparr>safeguard_brain = ''guard'', safeguard_invocation_id = ''i'', safeguard_advice = SAFEGUARD_REVIEW,
     safeguard_findings = [\<lparr>finding_id = ''f'', finding_code = ''odd'', finding_severity = SEVERITY_HIGH,
       finding_summary = ''odd'', finding_tags = [], finding_evidence = [], finding_confidence = 1,
       finding_uncertainty = 0, finding_metadata = []\<rparr>],
     safeguard_metadata = []\<rparr>"

definition ex_review_task :: task_request where
  "ex_review_task = ex_task\<lparr>task_labels := [''wipe''],
     task_input_of := \<lparr>task_prompt = ''look'', task_metadata = [(''governance_approvals'', JList [JObj [(''status'', JStr ''approved'')]])],
       task_attachments = []\<rparr>\<rparr>"

lemma ex_supply_fresh: "hex_supply ex_supply"
proof -
  have "list_all is_lower_hex ''0a''" by code_simp
  then show ?thesis by (simp add: hex_supply_def ex_supply_def)
qed

lemma ex_runs: "\<not> blank (task_id ex_task)" "\<not> blank (task_id ex_review_task)" "\<not> blank (routed_name ex_decision)"
  "assessment_ok (Some ex_assessment)" "assessment_ok None"
  by code_simp+

lemma ex_tables: "preflight_table default_governance_policy ex_task None = GOV_ALLOW"
  "preflight_table default_governance_policy ex_task (Some ex_assessment) = GOV_REQUIRE_REVIEW"
  "preflight_table default_governance_policy ex_review_task None = GOV_REQUIRE_REVIEW"
  by code_simp+

text \<open>Routing prefers a route that supports the task's kind to one that shares labels with it, and
  that to a fallback: the route chosen is of the best tier there is, has the highest confidence in it, and comes before the
  others of that confidence.\<close>

theorem routing_in_tiers:
  assumes "switchboard_ok rs" and "route_task rs t = Inr (Some d)"
  shows "\<exists>us r vs. rs = us @ r # vs \<and> d = route_decision t r \<and> tier t r \<noteq> 0
     \<and> (\<forall>r' \<in> set rs. tier t r' < tier t r
          \<or> tier t r' = tier t r \<and> tier_confidence t r' \<le> tier_confidence t r)
     \<and> (\<forall>r' \<in> set us. tier t r' < tier t r \<or> tier_confidence t r' < tier_confidence t r)"
proof -
  obtain us r vs where r: "rs = us @ r # vs" "d = route_decision t r" "tier t r \<noteq> 0"
    "\<And>r'. r' \<in> set rs \<Longrightarrow> tier t r' \<le> tier t r"
    "\<And>r'. r' \<in> set rs \<Longrightarrow> tier t r' = tier t r \<Longrightarrow> tier_confidence t r' \<le> tier_confidence t r"
    "\<And>r'. r' \<in> set us \<Longrightarrow> tier t r' = tier t r \<Longrightarrow> tier_confidence t r' < tier_confidence t r"
    using route_task_best [OF assms] by metis
  have "\<forall>r' \<in> set us. tier t r' < tier t r \<or> tier_confidence t r' < tier_confidence t r"
    using r(1,4,6) by (auto simp: order_le_less)
  moreover have "\<forall>r' \<in> set rs. tier t r' < tier t r
      \<or> tier t r' = tier t r \<and> tier_confidence t r' \<le> tier_confidence t r"
    using r(4,5) order_le_less by blast
  ultimately show ?thesis using r(1,2,3) by blast
qed

theorem routing_in_tiers_witness:
  "\<exists>r. route_task ex_routes ex_task = Inr (Some (route_decision ex_task r)) \<and> r \<in> set ex_routes \<and> tier ex_task r \<noteq> 0"
proof -
  have "switchboard_ok ex_routes" by code_simp
  moreover obtain d where d: "route_task ex_routes ex_task = Inr (Some d)"
  proof -
    have "ok_with (\<lambda>x. x \<noteq> None) (route_task ex_routes ex_task)" by code_simp
    then show thesis using that by (auto dest!: ok_withD)
  qed
  ultimately obtain us r vs where r: "ex_routes = us @ r # vs" "d = route_decision ex_task r" "tier ex_task r \<noteq> 0"
    using routing_in_tiers by blast
  have "r \<in> set ex_routes" unfolding r(1) by simp
  with r(2,3) show ?thesis using d by blast
qed

text \<open>C31: The replay guard calls a task a duplicate exactly when its fingerprint is among the last
  observations of the window, whatever was observed before, and never keeps more than the window.\<close>

theorem replay_window_exact:
  assumes "replay_guard_init n = Inr g" and "fingerprint_task H t = Inr f"
  shows "\<exists>obs g'. observe_task H t (observe_all fs g) = Inr (obs, g')
     \<and> (duplicate_detected obs \<longleftrightarrow> f \<in> set (last_entries (nat n) fs))
     \<and> recent g' = last_entries (nat n) (fs @ [f]) \<and> seen_count obs = count_list (recent g') f"
proof -
  have g: "guard_ok g" "window_size g = nat n" "recent g = []"
    using assms(1) guard_init_ok [OF assms(1)] by (auto simp: replay_guard_init_def split: if_splits)
  note all = observe_all_recent [OF g(1), of fs]
  obtain obs g' where o: "observe_fingerprint f (observe_all fs g) = (obs, g')" by (rule prod.exhaust)
  note one = observe_ok [OF conjunct1 [OF all] o]
  have "recent g' = last_entries (nat n) (fs @ [f])"
    using one(3) all g by (simp add: push_recent_def Let_def last_entries_def [symmetric] last_entries_snoc
        last_entries_def [of "nat n" "_ @ [f]", symmetric])
  then show ?thesis using one(4,6) all g assms(2) o by (simp add: observe_task_def)
qed

theorem replay_window_exact_witness:
  "\<exists>g f obs g'. replay_guard_init 2 = Inr g
     \<and> observe_task ex_hash ex_task (observe_all [f, ''other''] g) = Inr (obs, g') \<and> duplicate_detected obs
     \<and> seen_count obs = 1"
proof -
  obtain f where f: "fingerprint_task ex_hash ex_task = Inr f"
  proof -
    have "ok_with (\<lambda>_. True) (fingerprint_task ex_hash ex_task)" by code_simp
    then show thesis using that by (auto dest!: ok_withD)
  qed
  have g: "replay_guard_init 2 = Inr \<lparr>window_size = 2, recent = [], counts = []\<rparr>" by (simp add: replay_guard_init_def)
  from replay_window_exact [OF g f, of "[f, ''other'']"]
  obtain obs g' where o: "observe_task ex_hash ex_task (observe_all [f, ''other''] \<lparr>window_size = 2, recent = [], counts = []\<rparr>)
      = Inr (obs, g')" "duplicate_detected obs \<longleftrightarrow> f \<in> set (last_entries (nat 2) [f, ''other''])"
    "recent g' = last_entries (nat 2) [f, ''other'', f]" "seen_count obs = count_list (recent g') f" by auto
  have "f \<noteq> ''other''"
  proof -
    have "ok_with (\<lambda>f. f \<noteq> ''other'') (fingerprint_task ex_hash ex_task)" by code_simp
    then show ?thesis using f by (simp add: ok_with_def)
  qed
  then have "duplicate_detected obs" "seen_count obs = 1" using o(2,3,4) by (simp_all add: last_entries_def)
  then show ?thesis using g o(1) by blast
qed

text \<open>C20: The preflight answers for every task with an identifier and a route, and decides by its table:
  blocked kinds and critical risk are blocked; high risk, or a safeguard that advises against the task, needs a review;
  everything else is allowed. The ticket says the same as the decision.\<close>

theorem preflight_decides:
  assumes "hex_supply drawn" "\<not> blank (task_id q)" "\<not> blank (routed_name route)" "assessment_ok assessment"
  shows "\<exists>p. preflight_evaluate fl drawn n pol q route assessment = Inr p
     \<and> outcome_decision (pre_decision p) = preflight_table pol q assessment
     \<and> disposition_of (pre_ticket p) = map_disposition (preflight_table pol q assessment)"
  using preflight_accepts [OF assms, of fl n pol] by blast

theorem preflight_decides_witness:
  "\<exists>p. preflight_evaluate ex_floats ex_supply 0 default_governance_policy ex_task ex_decision (Some ex_assessment) = Inr p
     \<and> outcome_decision (pre_decision p) = GOV_REQUIRE_REVIEW"
  using preflight_decides [OF ex_supply_fresh ex_runs(1,3,4), of ex_floats 0 default_governance_policy] ex_tables(2)
  by auto

text \<open>C21: What a safeguard advises can only add a review: a task that the preflight blocks stays blocked,
  one it does not block is not blocked for it, and no decision gets milder.\<close>

theorem safeguard_only_tightens:
  assumes "hex_supply drawn" "\<not> blank (task_id q)" "\<not> blank (routed_name route)" "assessment_ok (Some a)"
    and "preflight_evaluate fl drawn n pol q route None = Inr p"
    and "preflight_evaluate fl drawn n pol q route (Some a) = Inr p'"
  shows "decision_rank (outcome_decision (pre_decision p)) \<le> decision_rank (outcome_decision (pre_decision p'))
     \<and> (pre_blocked p' \<longleftrightarrow> pre_blocked p)"
proof -
  have none: "assessment_ok None" by (simp add: assessment_ok_def)
  have "outcome_decision (pre_decision p) = preflight_table pol q None"
    "outcome_decision (pre_decision p') = preflight_table pol q (Some a)"
    using preflight_accepts [OF assms(1-3) none, of fl n pol] preflight_accepts [OF assms(1-4), of fl n pol] assms(5,6)
    by auto
  moreover have "pre_blocked x \<longleftrightarrow> outcome_decision (pre_decision x) = GOV_BLOCK" for x
    by (cases "outcome_decision (pre_decision x)") (simp_all add: pre_blocked_def)
  ultimately show ?thesis using safeguards_only_tighten [of pol q "Some a"] by simp
qed

theorem safeguard_only_tightens_witness:
  "\<exists>p p'. preflight_evaluate ex_floats ex_supply 0 default_governance_policy ex_task ex_decision None = Inr p
     \<and> preflight_evaluate ex_floats ex_supply 0 default_governance_policy ex_task ex_decision (Some ex_assessment) = Inr p'
     \<and> decision_rank (outcome_decision (pre_decision p)) \<le> decision_rank (outcome_decision (pre_decision p'))
     \<and> outcome_decision (pre_decision p) \<noteq> outcome_decision (pre_decision p')"
proof -
  let ?e = "preflight_evaluate ex_floats ex_supply 0 default_governance_policy ex_task ex_decision"
  obtain p where p: "?e None = Inr p" "outcome_decision (pre_decision p) = GOV_ALLOW"
    using preflight_accepts [OF ex_supply_fresh ex_runs(1,3,5), of ex_floats 0 default_governance_policy] ex_tables(1) by auto
  obtain p' where p': "?e (Some ex_assessment) = Inr p'" "outcome_decision (pre_decision p') = GOV_REQUIRE_REVIEW"
    using preflight_accepts [OF ex_supply_fresh ex_runs(1,3,4), of ex_floats 0 default_governance_policy] ex_tables(2) by auto
  show ?thesis using safeguard_only_tightens [OF ex_supply_fresh ex_runs(1,3,4) p(1) p'(1)] p p' by auto
qed



text \<open>A verification fails exactly when an artifact or a required signal is missing, an evaluation or
  the regression run failed, or the chain of receipts is broken; without that it waits when an evaluation needs review or is
  missing, or an approval is still open; else it passes.\<close>

theorem verification_decides:
  "\<exists>r. verify_output fl c = Inr r \<and> verified_subject r = verify_subject_id c
     \<and> verification_status_of r = (if context_fails c then VERIFY_FAILED
         else if context_waits c then VERIFY_NEEDS_REVIEW else VERIFY_PASSED)"
  by (rule verify_output_decides)

text \<open>An event reaches every handler of its topic, in the order they subscribed, whatever the handlers
  before them did; the results say which of them raised, and the event is kept in the history.\<close>

theorem bus_reaches_everyone:
  "\<exists>rs b' w'. bus_publish call e (b, w) = (rs, b', w') \<and> event_history b' = event_history b @ [e]
     \<and> subscribers b' = subscribers b
     \<and> w' = worlds call e (handlers_of b (event_topic_of e)) w
     \<and> map dispatch_handler_name rs = map handler_name (handlers_of b (event_topic_of e))
     \<and> map dispatch_success rs = map (\<lambda>k. \<not> isl (fst (call (handlers_of b (event_topic_of e) ! k) e
          (worlds call e (take k (handlers_of b (event_topic_of e))) w))))
        [0..<length (handlers_of b (event_topic_of e))]"
proof -
  let ?hs = "handlers_of b (event_topic_of e)"
  obtain rs w' where d: "dispatch call e ?hs w = (rs, w')" by (rule prod.exhaust)
  have all: "map dispatch_handler_name rs = map handler_name ?hs" "w' = worlds call e ?hs w" using dispatch_all [OF d] by auto
  then have len: "length rs = length ?hs" by (metis length_map)
  have "map dispatch_success rs
      = map (\<lambda>k. \<not> isl (fst (call (?hs ! k) e (worlds call e (take k ?hs) w)))) [0..<length ?hs]"
    by (rule nth_equalityI) (use len dispatch_success [OF d] in simp_all)
  then show ?thesis using all d by (simp add: bus_publish_def)
qed

end
