(* ===== verification/RunReceipts.thy ===== *)
theory RunReceipts
  imports RuntimeApproval
begin

text \<open>
  The receipts of one run (\<open>runtime/receipts.py\<close>): what the recorder appends to the governance ledger for
  the preflight, the approval, the execution and the verification, and the report over the ledger.
\<close>

definition preflight_event :: "preflight_result \<Rightarrow> governance_event" where
  "preflight_event p =
     (let d = governance_decision_value (outcome_decision (pre_decision p)) in
      if d = ''allow'' then POLICY_ALLOWED
      else if d = ''require_review'' then POLICY_REVIEW_REQUIRED
      else EVENT_POLICY_BLOCKED)"

type_synonym recording = "governance_ledger \<Rightarrow> (string option \<times> governance_ledger) res"

definition record_run ::
  "(string \<Rightarrow> string) \<Rightarrow> string \<Rightarrow> int \<Rightarrow> preflight_result \<Rightarrow> governance_event \<Rightarrow> string \<Rightarrow> string \<Rightarrow> json dict \<Rightarrow> recording" where
  "record_run H fresh now p event summary actor meta led =
     res_bind (append_gov_receipt H fresh now (intent_id (pre_intent p)) event summary (Some actor) meta led)
       (\<lambda>(r, led'). Inr (Some (gov_receipt_id r), led'))"

definition record_preflight :: "(string \<Rightarrow> string) \<Rightarrow> string \<Rightarrow> int \<Rightarrow> preflight_result \<Rightarrow> recording" where
  "record_preflight H fresh now p = record_run H fresh now p (preflight_event p) (outcome_rationale (pre_decision p))
     ''runtime.governance''
     [(''ticket_id'', JStr (ticket_id (pre_ticket p))),
      (''ticket_disposition'', JStr (ticket_disposition_value (disposition_of (pre_ticket p)))),
      (''policy_decision'', JStr (governance_decision_value (outcome_decision (pre_decision p)))),
      (''policy_reason'', JStr (governance_reason_value (outcome_reason (pre_decision p)))),
      (''risk_level'', JStr (risk_value (profile_risk (pre_risk p))))]"

definition record_approval_resolution ::
  "(string \<Rightarrow> string) \<Rightarrow> string \<Rightarrow> int \<Rightarrow> preflight_result \<Rightarrow> approval_resolution \<Rightarrow> recording" where
  "record_approval_resolution H fresh now p r led =
     (let meta = [(''approval_ids'', json_strs (resolution_ids r)), (''issues'', json_strs (resolution_issues r))] in
      if \<not> resolution_required r then Inr (None, led)
      else if resolution_satisfied r
      then record_run H fresh now p APPROVAL_RECORDED ''Governance approval satisfied the runtime review gate.''
        ''runtime.approval'' meta led
      else if list_ex (\<lambda>s. current_status s \<in> {REJECTED, APPROVAL_CANCELED}) (resolution_approvals r)
      then record_run H fresh now p APPROVAL_REJECTED
        ''Governance approval explicitly rejected the runtime review gate.'' ''runtime.approval'' meta led
      else Inr (None, led))"

definition record_execution_started ::
  "(string \<Rightarrow> string) \<Rightarrow> string \<Rightarrow> int \<Rightarrow> preflight_result \<Rightarrow> string \<Rightarrow> recording" where
  "record_execution_started H fresh now p pack = record_run H fresh now p EXECUTION_STARTED
     (''Runtime pack execution started for '' @ in_quotes pack @ ''.'') ''runtime.orchestrator''
     [(''pack_name'', JStr pack), (''task_id'', JStr (intent_task_id (pre_intent p)))]"

definition record_execution_completed ::
  "(string \<Rightarrow> string) \<Rightarrow> string \<Rightarrow> int \<Rightarrow> preflight_result \<Rightarrow> string \<Rightarrow> nat \<Rightarrow> recording" where
  "record_execution_completed H fresh now p pack artifacts = record_run H fresh now p EXECUTION_COMPLETED
     (''Runtime pack execution completed for '' @ in_quotes pack @ ''.'') ''runtime.orchestrator''
     [(''pack_name'', JStr pack), (''artifact_count'', JInt (int artifacts)),
      (''task_id'', JStr (intent_task_id (pre_intent p)))]"

definition record_execution_failed ::
  "(string \<Rightarrow> string) \<Rightarrow> string \<Rightarrow> int \<Rightarrow> preflight_result \<Rightarrow> string \<Rightarrow> string \<Rightarrow> recording" where
  "record_execution_failed H fresh now p pack message = record_run H fresh now p EXECUTION_FAILED
     (''Runtime pack execution failed for '' @ in_quotes pack @ ''.'') ''runtime.orchestrator''
     [(''pack_name'', JStr pack), (''error'', JStr message), (''task_id'', JStr (intent_task_id (pre_intent p)))]"

definition record_verification_outcome ::
  "(string \<Rightarrow> string) \<Rightarrow> string \<Rightarrow> int \<Rightarrow> preflight_result \<Rightarrow> string \<Rightarrow> nat \<Rightarrow> recording" where
  "record_verification_outcome H fresh now p status issues led =
     (let s = lower (strip status);
          meta = [(''verification_status'', JStr s), (''issue_count'', JInt (int issues)),
            (''task_id'', JStr (intent_task_id (pre_intent p)))]
      in if s = ''passed'' then record_run H fresh now p VERIFICATION_PASSED
           ''Runtime verification passed for the governed run.'' ''runtime.verification'' meta led
         else if s = ''failed'' then record_run H fresh now p VERIFICATION_FAILED
           ''Runtime verification failed for the governed run.'' ''runtime.verification'' meta led
         else Inr (None, led))"

definition gov_receipt_dict :: "py_runtime \<Rightarrow> governance_receipt \<Rightarrow> json" where
  "gov_receipt_dict rt r = JObj
     [(''receipt_id'', JStr (gov_receipt_id r)), (''intent_id'', JStr (gov_intent_id r)),
      (''event_type'', JStr (governance_event_value (gov_event r))), (''summary'', JStr (gov_summary r)),
      (''previous_receipt_id'', json_opt (gov_previous_id r)),
      (''previous_chain_digest'', json_opt (gov_previous_digest r)), (''chain_digest'', JStr (gov_digest r)),
      (''created_at'', JStr (py_isoformat rt (gov_created_at r))), (''actor'', json_opt (gov_actor r)),
      (''metadata'', JObj (gov_metadata r))]"

record receipt_report =
  report_intent_id :: string
  report_chain_verified :: bool
  report_records :: "json list"
  report_path :: "string option"
  report_brain_receipts :: "json list"

definition report_from_ledger ::
  "(string \<Rightarrow> string) \<Rightarrow> py_runtime \<Rightarrow> governance_ledger \<Rightarrow> string \<Rightarrow> string option \<Rightarrow> receipt_report res" where
  "report_from_ledger H rt led intent path =
     res_bind (tool_identifier ''intent_id'' intent) (\<lambda>iid.
     res_bind (verify_intent_chain H led intent) (\<lambda>ok.
       Inr \<lparr>report_intent_id = intent, report_chain_verified = ok,
            report_records = map (gov_receipt_dict rt) (gov_chain_of iid led), report_path = path,
            report_brain_receipts = []\<rparr>))"

definition receipt_report_dict :: "receipt_report \<Rightarrow> json" where
  "receipt_report_dict r = JObj
     [(''intent_id'', JStr (report_intent_id r)), (''chain_verified'', JBool (report_chain_verified r)),
      (''receipt_count'', JInt (int (length (report_records r)))), (''records'', JList (report_records r)),
      (''artifact_path'', json_opt (report_path r)),
      (''brain_receipt_count'', JInt (int (length (report_brain_receipts r)))),
      (''brain_receipts'', JList (report_brain_receipts r))]"

section \<open>The ledger of a run\<close>

text \<open>Every recording either leaves the ledger as it is or appends one receipt to it.\<close>

lemma record_run_governed:
  assumes "governed H led" "list_all is_lower_hex fresh"
    and "record_run H fresh now p event summary actor meta led = Inr (x, led')"
  shows "governed H led'"
  using assms by (auto simp: record_run_def res_bind_eq_Inr intro: governed_append)

named_theorems recordings \<open>the recordings a run makes\<close>

lemmas [recordings] = record_preflight_def record_approval_resolution_def record_execution_started_def
  record_execution_completed_def record_execution_failed_def record_verification_outcome_def

definition records_well :: "(string \<Rightarrow> string) \<Rightarrow> recording \<Rightarrow> bool" where
  "records_well H f \<longleftrightarrow> (\<forall>led x led'. governed H led \<longrightarrow> f led = Inr (x, led') \<longrightarrow> governed H led')"

lemma recordings_governed:
  assumes "list_all is_lower_hex fresh"
  shows "records_well H (record_preflight H fresh now p)"
    "records_well H (record_approval_resolution H fresh now p r)"
    "records_well H (record_execution_started H fresh now p pack)"
    "records_well H (record_execution_completed H fresh now p pack k)"
    "records_well H (record_execution_failed H fresh now p pack message)"
    "records_well H (record_verification_outcome H fresh now p status k)"
  using record_run_governed [OF _ assms]
  by (auto simp: records_well_def recordings Let_def split: if_splits)

text \<open>They do append it, for the intent of a preflight.\<close>

definition recorded :: "governance_ledger \<Rightarrow> recording \<Rightarrow> bool" where
  "recorded led f \<longleftrightarrow> (\<exists>x led'. f led = Inr (x, led'))"

lemma recorded_nothing: "recorded led (\<lambda>l. Inr (None, l))"
  by (simp add: recorded_def)

lemma recorded_if: "recorded led (\<lambda>l. if b then f l else g l) \<longleftrightarrow> (if b then recorded led f else recorded led g)"
  by (simp add: recorded_def)

lemma record_run_accepts:
  assumes "normal_preflight p" "\<not> blank summary" "\<not> holds_other (JObj meta)" "list_all is_lower_hex fresh"
  shows "recorded led (record_run H fresh now p event summary actor meta)"
proof -
  have "tool_identifier ''intent_id'' (intent_id (pre_intent p)) = Inr (intent_id (pre_intent p))"
    using assms(1) tool_identifier_normal by (auto simp: normal_preflight_def)
  then obtain r where "append_gov_receipt H fresh now (intent_id (pre_intent p)) event summary (Some actor) meta led
      = Inr (r, led @ [r])"
    using append_gov_receipt_accepts [of "intent_id (pre_intent p)"] assms(2-4) unfolding blank_def by blast
  then show ?thesis by (simp add: recorded_def record_run_def)
qed

lemma strs_plain: "\<not> list_ex holds_other (map JStr xs)"
  by (induction xs) auto

lemma visible_receipts: "\<not> blank (CHR ''R'' # s)" "\<not> blank (CHR ''G'' # s)"
  by (simp_all add: blank_Cons is_space_def code_point_def Let_def)

lemma recordings_accept:
  assumes "normal_preflight p" "list_all is_lower_hex fresh"
  shows "recorded led (record_preflight H fresh now p)"
    "recorded led (record_approval_resolution H fresh now p r)"
    "recorded led (record_execution_started H fresh now p pack)"
    "recorded led (record_execution_completed H fresh now p pack k)"
    "recorded led (record_execution_failed H fresh now p pack message)"
    "recorded led (record_verification_outcome H fresh now p status k)"
proof -
  note accepts = record_run_accepts [OF assms(1) _ _ assms(2)]
  show "recorded led (record_preflight H fresh now p)" unfolding record_preflight_def
    by (rule accepts) (use assms(1) in \<open>simp_all add: normal_preflight_def\<close>)
  show "recorded led (record_execution_started H fresh now p pack)"
    "recorded led (record_execution_completed H fresh now p pack k)"
    "recorded led (record_execution_failed H fresh now p pack message)"
    unfolding record_execution_started_def record_execution_completed_def record_execution_failed_def
    by (rule accepts; simp add: visible_receipts)+
  show "recorded led (record_verification_outcome H fresh now p status k)"
    unfolding record_verification_outcome_def Let_def recorded_if
    by (auto intro!: accepts recorded_nothing simp: visible_receipts)
  show "recorded led (record_approval_resolution H fresh now p r)"
    unfolding record_approval_resolution_def Let_def recorded_if
    by (auto intro!: accepts recorded_nothing simp: visible_receipts strs_plain)
qed

text \<open>The report on a governed ledger says that the chain is verified.\<close>

lemma report_from_ledger_verified:
  assumes "governed H led" "tool_identifier ''intent_id'' intent = Inr intent"
  shows "\<exists>r. report_from_ledger H rt led intent path = Inr r \<and> report_chain_verified r
     \<and> report_path r = path"
  using governed_verified [OF assms(1)] assms(2)
  by (simp add: report_from_ledger_def verify_intent_chain_def gov_verified_def)

end
