(* ===== verification/Escalation.thy ===== *)
theory Escalation
  imports RuntimeApproval
begin

text \<open>
  When a run is handed to a heavier reasoning lane (\<open>brains/escalation.py\<close>, the escalation budget of
  \<open>brains/budgets.py\<close>): reasons with scores, a threshold, and a budget of hops.
\<close>

datatype escalation_trigger =
  LOW_ROUTE_CONFIDENCE | SENTINEL_CONTRADICTION | VERIFICATION_FAILURE | REPEATED_FAILURES
  | EXPLICIT_DEEP_REASONING_REQUEST | POLICY_REVIEW_TRIGGER

fun trigger_value :: "escalation_trigger \<Rightarrow> string" where
  "trigger_value LOW_ROUTE_CONFIDENCE = ''low_route_confidence''"
| "trigger_value SENTINEL_CONTRADICTION = ''sentinel_contradiction''"
| "trigger_value VERIFICATION_FAILURE = ''verification_failure''"
| "trigger_value REPEATED_FAILURES = ''repeated_failures''"
| "trigger_value EXPLICIT_DEEP_REASONING_REQUEST = ''explicit_deep_reasoning_request''"
| "trigger_value POLICY_REVIEW_TRIGGER = ''policy_review_required''"

record escalation_reason =
  reason_trigger :: escalation_trigger
  reason_score :: int
  reason_summary :: string
  reason_metadata :: "json dict"

definition escalation_reason_init :: "escalation_reason \<Rightarrow> escalation_reason res" where
  "escalation_reason_init r =
     (if reason_score r < 0 then Inl (ValueError ''score must be zero or greater.'')
      else res_bind (required_text ''summary'' (reason_summary r)) (\<lambda>s. Inr (r\<lparr>reason_summary := s\<rparr>)))"

record escalation_decision =
  should_escalate :: bool
  escalation_score :: int
  escalation_reasons :: "escalation_reason list"
  blocked_by_budget :: bool
  blocked_reason :: "string option"
  escalation_hops :: int
  remaining_hops :: "int option"

definition escalation_decision_init :: "escalation_decision \<Rightarrow> escalation_decision res" where
  "escalation_decision_init d =
     (if escalation_score d < 0 then Inl (ValueError ''score must be zero or greater.'')
      else if escalation_hops d < 0 then Inl (ValueError ''current_escalation_hops must be zero or greater.'')
      else if (case remaining_hops d of None \<Rightarrow> False | Some n \<Rightarrow> n < 0)
      then Inl (ValueError ''remaining_hops must be zero or greater when provided.'')
      else if should_escalate d \<and> blocked_by_budget d
      then Inl (ValueError ''Escalation decisions cannot both escalate and be blocked.'')
      else Inr (d\<lparr>blocked_reason := filled_or_none (blocked_reason d)\<rparr>))"

definition trigger_codes :: "escalation_decision \<Rightarrow> string list" where
  "trigger_codes d = map (\<lambda>r. trigger_value (reason_trigger r)) (escalation_reasons d)"

record escalation_budget =
  allow_reasoning_escalation :: bool
  allow_remote_escalation :: bool
  allow_multimodal_escalation :: bool
  max_escalation_hops :: int

definition escalation_budget_init :: "escalation_budget \<Rightarrow> escalation_budget res" where
  "escalation_budget_init b =
     (if max_escalation_hops b < 0 then Inl (ValueError ''max_escalation_hops must be zero or greater.'') else Inr b)"

text \<open>The scores of a policy, in the order of the fields that its constructor checks.\<close>

record escalation_policy =
  route_confidence_threshold :: rat
  repeated_failure_threshold :: int
  minimum_score_to_escalate :: int
  low_route_confidence_score :: int
  sentinel_contradiction_score :: int
  verification_failure_score :: int
  repeated_failures_score :: int
  explicit_request_score :: int
  policy_review_required_score :: int

definition escalation_scores :: "escalation_policy \<Rightarrow> (string \<times> int) list" where
  "escalation_scores p =
     [(''low_route_confidence_score'', low_route_confidence_score p),
      (''sentinel_contradiction_score'', sentinel_contradiction_score p),
      (''verification_failure_score'', verification_failure_score p),
      (''repeated_failures_score'', repeated_failures_score p),
      (''explicit_request_score'', explicit_request_score p),
      (''policy_review_required_score'', policy_review_required_score p)]"

definition escalation_policy_init :: "escalation_policy \<Rightarrow> escalation_policy res" where
  "escalation_policy_init p =
     (if \<not> (0 \<le> route_confidence_threshold p \<and> route_confidence_threshold p \<le> 1)
      then Inl (ValueError ''route_confidence_threshold must be between 0.0 and 1.0.'')
      else if repeated_failure_threshold p < 1
      then Inl (ValueError ''repeated_failure_threshold must be at least 1.'')
      else if minimum_score_to_escalate p < 1
      then Inl (ValueError ''minimum_score_to_escalate must be at least 1.'')
      else case List.find (\<lambda>(_, v). v < 0) (escalation_scores p) of
        Some (field, _) \<Rightarrow> Inl (ValueError (field @ '' must be zero or greater.''))
      | None \<Rightarrow> Inr p)"

definition default_escalation_policy :: escalation_policy where
  "default_escalation_policy = \<lparr>route_confidence_threshold = 60 / 100, repeated_failure_threshold = 2,
     minimum_score_to_escalate = 50, low_route_confidence_score = 30, sentinel_contradiction_score = 35,
     verification_failure_score = 35, repeated_failures_score = 30, explicit_request_score = 60,
     policy_review_required_score = 15\<rparr>"

text \<open>What is known of a run when the policy is asked.\<close>

record escalation_facts =
  fact_confidence :: "rat option"
  fact_contradiction :: bool
  fact_verification_failed :: bool
  fact_failures :: int
  fact_deep_reasoning :: bool
  fact_approval_required :: bool
  fact_hops :: int

definition reason_of :: "escalation_trigger \<Rightarrow> int \<Rightarrow> string \<Rightarrow> json dict \<Rightarrow> escalation_reason res" where
  "reason_of t score summary meta = escalation_reason_init
     \<lparr>reason_trigger = t, reason_score = score, reason_summary = summary, reason_metadata = meta\<rparr>"

definition confidence_reasons :: "float_texts \<Rightarrow> escalation_policy \<Rightarrow> rat option \<Rightarrow> escalation_reason res list" where
  "confidence_reasons fl p confidence =
     (case confidence of None \<Rightarrow> []
      | Some c \<Rightarrow> if c < route_confidence_threshold p
        then [reason_of LOW_ROUTE_CONFIDENCE (low_route_confidence_score p)
          (''Route confidence '' @ float_fixed fl c @ '' fell below the escalation threshold ''
            @ float_fixed fl (route_confidence_threshold p) @ ''.'')
          [(''route_confidence'', JFloat (float_repr fl c)),
           (''threshold'', JFloat (float_repr fl (route_confidence_threshold p)))]]
        else [])"

definition escalation_reasons_of :: "float_texts \<Rightarrow> escalation_policy \<Rightarrow> escalation_facts \<Rightarrow> escalation_reason res list" where
  "escalation_reasons_of fl p f =
     confidence_reasons fl p (fact_confidence f)
     @ (if fact_contradiction f then [reason_of SENTINEL_CONTRADICTION (sentinel_contradiction_score p)
          ''Sentinel contradiction signals justified deeper reasoning review.'' []] else [])
     @ (if fact_verification_failed f then [reason_of VERIFICATION_FAILURE (verification_failure_score p)
          ''Verification failure justified escalation into a stronger reasoning lane.'' []] else [])
     @ (if repeated_failure_threshold p \<le> fact_failures f
        then [reason_of REPEATED_FAILURES (repeated_failures_score p)
          (''Repeated failures reached '' @ show_int (fact_failures f)
            @ '', meeting or exceeding the escalation threshold '' @ show_int (repeated_failure_threshold p) @ ''.'')
          [(''repeated_failures'', JInt (fact_failures f)), (''threshold'', JInt (repeated_failure_threshold p))]]
        else [])
     @ (if fact_deep_reasoning f then [reason_of EXPLICIT_DEEP_REASONING_REQUEST (explicit_request_score p)
          ''The task explicitly requested deeper reasoning.'' []] else [])
     @ (if fact_approval_required f then [reason_of POLICY_REVIEW_TRIGGER (policy_review_required_score p)
          ''Governance review requirements increased reasoning scrutiny.'' []] else [])"

definition budget_block :: "escalation_budget option \<Rightarrow> int \<Rightarrow> string option" where
  "budget_block budget hops =
     (case budget of None \<Rightarrow> None
      | Some b \<Rightarrow> if \<not> allow_reasoning_escalation b then Some ''Escalation budget disabled reasoning escalation.''
          else if max_escalation_hops b \<le> hops then Some ''Escalation hop budget is exhausted.'' else None)"

definition evaluate_escalation ::
  "float_texts \<Rightarrow> escalation_policy \<Rightarrow> escalation_budget option \<Rightarrow> escalation_facts \<Rightarrow> escalation_decision res" where
  "evaluate_escalation fl p budget f =
     (if (case fact_confidence f of None \<Rightarrow> False | Some c \<Rightarrow> \<not> (0 \<le> c \<and> c \<le> 1))
      then Inl (ValueError ''route_confidence must be between 0.0 and 1.0 when provided.'')
      else if fact_failures f < 0 then Inl (ValueError ''repeated_failures must be zero or greater.'')
      else if fact_hops f < 0 then Inl (ValueError ''current_escalation_hops must be zero or greater.'')
      else res_bind (res_map (\<lambda>x. x) (escalation_reasons_of fl p f)) (\<lambda>reasons.
        let score = sum_list (map reason_score reasons); block = budget_block budget (fact_hops f)
        in escalation_decision_init
          \<lparr>should_escalate = (reasons \<noteq> [] \<and> minimum_score_to_escalate p \<le> score \<and> block = None),
           escalation_score = score, escalation_reasons = reasons, blocked_by_budget = (block \<noteq> None),
           blocked_reason = block, escalation_hops = fact_hops f,
           remaining_hops = map_option (\<lambda>b. max 0 (max_escalation_hops b - fact_hops f)) budget\<rparr>))"

section \<open>When a run escalates\<close>

text \<open>The score as a sum over what is known.\<close>

definition escalation_sum :: "escalation_policy \<Rightarrow> escalation_facts \<Rightarrow> int" where
  "escalation_sum p f =
     (case fact_confidence f of None \<Rightarrow> 0
      | Some c \<Rightarrow> if c < route_confidence_threshold p then low_route_confidence_score p else 0)
     + (if fact_contradiction f then sentinel_contradiction_score p else 0)
     + (if fact_verification_failed f then verification_failure_score p else 0)
     + (if repeated_failure_threshold p \<le> fact_failures f then repeated_failures_score p else 0)
     + (if fact_deep_reasoning f then explicit_request_score p else 0)
     + (if fact_approval_required f then policy_review_required_score p else 0)"

definition facts_ok :: "escalation_facts \<Rightarrow> bool" where
  "facts_ok f \<longleftrightarrow> (case fact_confidence f of None \<Rightarrow> True | Some c \<Rightarrow> 0 \<le> c \<and> c \<le> 1)
     \<and> 0 \<le> fact_failures f \<and> 0 \<le> fact_hops f"

definition scored :: "int \<Rightarrow> escalation_reason res list \<Rightarrow> bool" where
  "scored s xs \<longleftrightarrow> (\<exists>rs. res_map (\<lambda>x. x) xs = Inr rs \<and> sum_list (map reason_score rs) = s)"

lemma scored_Nil: "scored 0 []"
  by (simp add: scored_def)

lemma scored_append: "scored s xs \<Longrightarrow> scored t ys \<Longrightarrow> scored (s + t) (xs @ ys)"
proof -
  assume "scored s xs" "scored t ys"
  then obtain rs us where r: "res_map (\<lambda>x. x) xs = Inr rs" "sum_list (map reason_score rs) = s"
    "res_map (\<lambda>x. x) ys = Inr us" "sum_list (map reason_score us) = t" by (auto simp: scored_def)
  have "res_map (\<lambda>x. x) (xs @ ys) = Inr (rs @ us)"
    using r(1,3) by (induction xs arbitrary: rs) (auto simp: res_bind_eq_Inr)
  then show ?thesis using r by (simp add: scored_def)
qed

lemma scored_reason: "0 \<le> score \<Longrightarrow> \<not> blank summary \<Longrightarrow> scored score [reason_of t score summary meta]"
  by (simp add: scored_def reason_of_def escalation_reason_init_def required_text_accepts)

lemma visible_escalation: "\<not> blank (CHR ''R'' # s)" "\<not> blank (CHR ''S'' # s)" "\<not> blank (CHR ''V'' # s)"
  "\<not> blank (CHR ''T'' # s)" "\<not> blank (CHR ''G'' # s)"
  by (simp_all add: blank_Cons is_space_def code_point_def Let_def)

lemma policy_scores_nonneg:
  assumes "escalation_policy_init p = Inr p"
  shows "0 \<le> low_route_confidence_score p" "0 \<le> sentinel_contradiction_score p" "0 \<le> verification_failure_score p"
    "0 \<le> repeated_failures_score p" "0 \<le> explicit_request_score p" "0 \<le> policy_review_required_score p"
  using assms by (auto simp: escalation_policy_init_def escalation_scores_def split: if_splits)

lemma escalation_reasons_scored:
  assumes "escalation_policy_init p = Inr p"
  shows "scored (escalation_sum p f) (escalation_reasons_of fl p f)"
proof -
  note n = policy_scores_nonneg [OF assms]
  have "scored (case fact_confidence f of None \<Rightarrow> 0
      | Some c \<Rightarrow> if c < route_confidence_threshold p then low_route_confidence_score p else 0)
    (confidence_reasons fl p (fact_confidence f))"
    using n(1) by (auto simp: confidence_reasons_def scored_Nil intro!: scored_reason visible_escalation split: option.splits)
  then show ?thesis unfolding escalation_sum_def escalation_reasons_of_def add.assoc
    by (intro scored_append) (use n in \<open>auto simp: scored_Nil intro!: scored_reason visible_escalation\<close>)
qed

text \<open>
  A run escalates exactly when the scores reach the minimum and the budget has a hop left; the policy
  never raises on facts in range.
\<close>

lemma evaluate_escalation_decides:
  assumes "escalation_policy_init p = Inr p" and "facts_ok f"
  shows "\<exists>d. evaluate_escalation fl p budget f = Inr d \<and> escalation_score d = escalation_sum p f
     \<and> (should_escalate d \<longleftrightarrow> minimum_score_to_escalate p \<le> escalation_sum p f \<and> budget_block budget (fact_hops f) = None)
     \<and> (blocked_by_budget d \<longleftrightarrow> budget_block budget (fact_hops f) \<noteq> None)"
proof -
  obtain rs where r: "res_map (\<lambda>x. x) (escalation_reasons_of fl p f) = Inr rs"
    "sum_list (map reason_score rs) = escalation_sum p f"
    using escalation_reasons_scored [OF assms(1), of f fl] by (auto simp: scored_def)
  have low: "1 \<le> minimum_score_to_escalate p" using assms(1) by (simp add: escalation_policy_init_def split: if_splits)
  have "0 \<le> escalation_sum p f" using policy_scores_nonneg [OF assms(1)]
    by (auto simp: escalation_sum_def split: option.splits)
  moreover have "rs = [] \<Longrightarrow> escalation_sum p f = 0" using r(2) by simp
  moreover have "evaluate_escalation fl p budget f = escalation_decision_init
      \<lparr>should_escalate = (rs \<noteq> [] \<and> minimum_score_to_escalate p \<le> escalation_sum p f
          \<and> budget_block budget (fact_hops f) = None),
       escalation_score = escalation_sum p f, escalation_reasons = rs,
       blocked_by_budget = (budget_block budget (fact_hops f) \<noteq> None),
       blocked_reason = budget_block budget (fact_hops f), escalation_hops = fact_hops f,
       remaining_hops = map_option (\<lambda>b. max 0 (max_escalation_hops b - fact_hops f)) budget\<rparr>"
    using assms(2) r unfolding evaluate_escalation_def facts_ok_def
    by (cases "fact_confidence f") (simp_all add: Let_def)
  ultimately show ?thesis using assms(2) low
    by (cases "rs = []") (auto simp: escalation_decision_init_def facts_ok_def split: option.splits)
qed

end
