(* ===== verification/RunReport.thy ===== *)
theory RunReport
  imports RunReceipts Escalation Packs
begin

text \<open>
  The report of a run and its document (\<open>RuntimeRunReport\<close> of \<open>runtime/orchestrator.py\<close>, the
  documents of the preflight and of the approvals in \<open>runtime/governance.py\<close> and \<open>approval.py\<close>). The documents of
  the model lanes, which only the lanes know, are values of the report.
\<close>

section \<open>Values of the enumerations\<close>

datatype run_status = RUN_PASSED | RUN_NEEDS_REVIEW | RUN_FAILED

fun run_status_value :: "run_status \<Rightarrow> string" where
  "run_status_value RUN_PASSED = ''passed''"
| "run_status_value RUN_NEEDS_REVIEW = ''needs_review''"
| "run_status_value RUN_FAILED = ''failed''"

fun sentinel_severity_value :: "sentinel_severity \<Rightarrow> string" where
  "sentinel_severity_value SENTINEL_INFO = ''info''"
| "sentinel_severity_value SENTINEL_WARNING = ''warning''"
| "sentinel_severity_value SENTINEL_ERROR = ''error''"
| "sentinel_severity_value SENTINEL_CRITICAL = ''critical''"

fun evaluation_severity_value :: "evaluation_severity \<Rightarrow> string" where
  "evaluation_severity_value EVAL_INFO = ''info''"
| "evaluation_severity_value EVAL_WARNING = ''warning''"
| "evaluation_severity_value EVAL_ERROR = ''error''"

fun evaluation_status_value :: "evaluation_status \<Rightarrow> string" where
  "evaluation_status_value EVAL_PASSED = ''passed''"
| "evaluation_status_value EVAL_FAILED = ''failed''"
| "evaluation_status_value EVAL_NEEDS_REVIEW = ''needs_review''"

fun evidence_kind_value :: "evidence_kind \<Rightarrow> string" where
  "evidence_kind_value TEXT_SPAN = ''text_span''"
| "evidence_kind_value LABEL_EVIDENCE = ''label_match''"
| "evidence_kind_value POLICY_TAG = ''policy_tag''"
| "evidence_kind_value MODALITY_SIGNAL = ''modality_signal''"
| "evidence_kind_value ATTACHMENT_REFERENCE = ''attachment_reference''"
| "evidence_kind_value PROVIDER_MESSAGE = ''provider_message''"
| "evidence_kind_value MODEL_RATIONALE = ''model_rationale''"
| "evidence_kind_value STRUCTURED_SIGNAL = ''structured_signal''"

section \<open>The report\<close>

text \<open>
  The instants of the sentinel's report, the evaluation and the verification are kept beside them:
  nothing but the document reads them.
\<close>

record run_report =
  run_session_id :: string
  run_id :: string
  run_task_id :: string
  run_task_kind :: task_kind
  run_status_of :: run_status
  run_route :: routing_decision
  run_pack_name :: "string option"
  run_summary :: string
  run_evaluation :: evaluation_result
  run_verification :: verification_report
  run_sentinel :: sentinel_report
  run_replay :: replay_observation
  run_inference :: task_inference
  run_escalation :: escalation_decision
  run_readiness :: json
  run_reasoning :: "json option"
  run_vision :: "json option"
  run_policy_advisory :: "json option"
  run_safeguard :: "safeguard_assessment option"
  run_preflight :: preflight_result
  run_approval :: approval_resolution
  run_receipts :: receipt_report
  run_artifacts :: "string list"
  run_artifact_paths :: "(string \<times> string) list"
  run_trace_ids :: "string list"
  run_evidence_ids :: "string list"
  run_report_path :: "string option"
  run_checked_at :: int
  run_evaluated_at :: int
  run_verified_at :: int

section \<open>Documents\<close>

definition json_or_null :: "('a \<Rightarrow> json) \<Rightarrow> 'a option \<Rightarrow> json" where
  "json_or_null f v = (case v of None \<Rightarrow> JNull | Some x \<Rightarrow> f x)"

definition route_dict :: "float_texts \<Rightarrow> routing_decision \<Rightarrow> json" where
  "route_dict fl r = JObj
     [(''capability_name'', JStr (routed_name r)), (''confidence'', JFloat (float_repr fl (route_confidence r))),
      (''reason'', JStr (routing_reason_value (route_reason r))), (''task_id'', JStr (routed_task_id r)),
      (''matched_labels'', json_strs (Switchboard.matched_labels r))]"

definition inference_dict :: "float_texts \<Rightarrow> task_inference \<Rightarrow> json" where
  "inference_dict fl i = JObj
     [(''kind'', JStr (task_kind_value (inferred_kind i))),
      (''confidence'', JFloat (float_repr fl (inference_confidence i))),
      (''reason'', JStr (inference_reason_value (inference_reason_of i))),
      (''matched_terms'', json_strs (matched_terms i)), (''matched_labels'', json_strs (inferred_labels i))]"

definition replay_dict :: "replay_observation \<Rightarrow> json" where
  "replay_dict o' = JObj
     [(''fingerprint'', JStr (fingerprint o')), (''duplicate_detected'', JBool (duplicate_detected o')),
      (''seen_count'', JInt (int (seen_count o'))), (''window_size'', JInt (int (observed_window o')))]"

definition evaluation_dict :: "py_runtime \<Rightarrow> float_texts \<Rightarrow> int \<Rightarrow> evaluation_result \<Rightarrow> json" where
  "evaluation_dict rt fl instant e = JObj
     [(''evaluator_name'', JStr (evaluator_name e)),
      (''status'', JStr (evaluation_status_value (evaluation_status_of e))),
      (''score'', JFloat (float_repr fl (evaluation_score e))), (''evaluated_at'', JStr (py_isoformat rt instant)),
      (''findings'', JList (map (\<lambda>f. JObj
         [(''code'', JStr (eval_code f)), (''severity'', JStr (evaluation_severity_value (eval_severity f))),
          (''summary'', JStr (eval_summary f)), (''details'', json_opt (eval_details f)),
          (''data'', JObj (eval_data f))]) (evaluation_findings e)))]"

definition verification_dict :: "py_runtime \<Rightarrow> int \<Rightarrow> verification_report \<Rightarrow> json" where
  "verification_dict rt instant r = JObj
     [(''subject_id'', JStr (verified_subject r)),
      (''status'', JStr (verification_status_value (verification_status_of r))),
      (''verified_at'', JStr (py_isoformat rt instant)),
      (''issues'', JList (map (\<lambda>i. JObj
         [(''code'', JStr (verify_code i)), (''severity'', JStr (evaluation_severity_value (verify_severity i))),
          (''summary'', JStr (verify_summary i)), (''details'', json_opt (verify_details i))])
         (verification_issues r)))]"

definition sentinel_highest_severity :: "sentinel_report \<Rightarrow> sentinel_severity" where
  "sentinel_highest_severity r = (case highest_issue_severity r of None \<Rightarrow> SENTINEL_INFO | Some s \<Rightarrow> s)"

definition sentinel_dict :: "py_runtime \<Rightarrow> int \<Rightarrow> sentinel_report \<Rightarrow> json" where
  "sentinel_dict rt instant r = JObj
     [(''check_count'', JInt (int (report_check_count r))), (''issue_count'', JInt (int (length (report_issues r)))),
      (''highest_severity'', JStr (sentinel_severity_value (sentinel_highest_severity r))),
      (''evaluated_at'', JStr (py_isoformat rt instant)),
      (''issues'', JList (map (\<lambda>i. JObj
         [(''code'', JStr (issue_code i)), (''severity'', JStr (sentinel_severity_value (issue_severity i))),
          (''summary'', JStr (issue_summary i)), (''details'', json_opt (issue_details i)),
          (''source'', json_opt (issue_source i)), (''data'', JObj (issue_data i))]) (report_issues r)))]"

definition escalation_dict :: "escalation_decision \<Rightarrow> json" where
  "escalation_dict d = JObj
     [(''should_escalate'', JBool (should_escalate d)), (''score'', JInt (escalation_score d)),
      (''trigger_codes'', json_strs (trigger_codes d)), (''blocked_by_budget'', JBool (blocked_by_budget d)),
      (''blocked_reason'', json_opt (blocked_reason d)), (''current_escalation_hops'', JInt (escalation_hops d)),
      (''remaining_hops'', json_or_null JInt (remaining_hops d)),
      (''reasons'', JList (map (\<lambda>r. JObj
         [(''trigger'', JStr (trigger_value (reason_trigger r))), (''score'', JInt (reason_score r)),
          (''summary'', JStr (reason_summary r)), (''metadata'', JObj (reason_metadata r))]) (escalation_reasons d)))]"

definition evidence_ref_dict :: "safeguard_evidence \<Rightarrow> json" where
  "evidence_ref_dict e = JObj
     [(''kind'', JStr (evidence_kind_value (evidence_kind_of e))), (''value'', JStr (safeguard_value e)),
      (''locator'', json_opt (evidence_locator e)), (''excerpt'', json_opt (evidence_excerpt e)),
      (''metadata'', JObj (safeguard_evidence_metadata e))]"

definition safeguard_dict :: "float_texts \<Rightarrow> safeguard_assessment \<Rightarrow> json" where
  "safeguard_dict fl a = JObj
     [(''brain_name'', JStr (safeguard_brain a)), (''invocation_id'', JStr (safeguard_invocation_id a)),
      (''advisory_disposition'', JStr (disposition_value (safeguard_advice a))),
      (''highest_severity'', json_or_null (\<lambda>s. JStr (severity_value s)) (assessment_severity a)),
      (''finding_codes'', json_strs (assessment_codes a)), (''policy_tags'', json_strs (assessment_tags a)),
      (''findings'', JList (map (\<lambda>f. JObj
         [(''finding_id'', JStr (finding_id f)), (''code'', JStr (finding_code f)),
          (''severity'', JStr (severity_value (finding_severity f))), (''summary'', JStr (finding_summary f)),
          (''policy_tags'', json_strs (finding_tags f)),
          (''confidence'', JFloat (float_repr fl (finding_confidence f))),
          (''uncertainty'', JFloat (float_repr fl (finding_uncertainty f))),
          (''evidence'', JList (map evidence_ref_dict (finding_evidence f))),
          (''metadata'', JObj (finding_metadata f))]) (safeguard_findings a))),
      (''metadata'', JObj (safeguard_metadata a))]"

definition merge_dict :: "safety_merge \<Rightarrow> json" where
  "merge_dict m = JObj
     [(''advisory_disposition'', JStr (disposition_value (advisory_disposition m))),
      (''finding_count'', JInt (merge_finding_count m)), (''finding_codes'', json_strs (merge_finding_codes m)),
      (''policy_tags'', json_strs (merge_policy_tags m)),
      (''highest_severity'', json_or_null (\<lambda>s. JStr (severity_value s)) (highest_severity m)),
      (''original_risk_level'', json_or_null (\<lambda>r. JStr (risk_value r)) (original_risk_level m)),
      (''merged_risk_level'', json_or_null (\<lambda>r. JStr (risk_value r)) (merged_risk_level m)),
      (''elevated_risk'', JBool (elevated_risk m)), (''forced_review'', JBool (forced_review m)),
      (''rationale'', JStr (merge_rationale m))]"

definition preflight_dict :: "py_runtime \<Rightarrow> preflight_result \<Rightarrow> json" where
  "preflight_dict rt p =
     (let i = pre_intent p; r = pre_risk p; d = pre_decision p; t = pre_ticket p in JObj
       [(''intent'', JObj
          [(''intent_id'', JStr (intent_id i)), (''task_id'', JStr (intent_task_id i)),
           (''action_kind'', JStr (action_kind_value (intent_kind i))), (''summary'', JStr (intent_summary i)),
           (''rationale'', JStr (intent_rationale i)), (''target_locator'', JStr (target_locator i)),
           (''requested_at'', JStr (py_isoformat rt (intent_requested_at i))),
           (''requested_by'', json_opt (intent_requested_by i)), (''labels'', json_strs (intent_labels i)),
           (''metadata'', JObj (intent_metadata i))]),
        (''risk'', JObj
          [(''risk_level'', JStr (risk_value (profile_risk r))), (''requires_approval'', JBool (requires_approval r)),
           (''factor_codes'', json_strs (map factor_code (profile_factors r))), (''tags'', json_strs (profile_tags r)),
           (''safety_merge'', json_or_null merge_dict (profile_merge r))]),
        (''decision'', JObj
          [(''decision'', JStr (governance_decision_value (outcome_decision d))),
           (''reason'', JStr (governance_reason_value (outcome_reason d))),
           (''rationale'', JStr (outcome_rationale d)),
           (''decided_at'', JStr (py_isoformat rt (outcome_decided_at d))),
           (''matched_rules'', json_strs (matched_rules d))]),
        (''ticket'', JObj
          [(''ticket_id'', JStr (ticket_id t)), (''disposition'', JStr (ticket_disposition_value (disposition_of t))),
           (''risk_level'', JStr (ticket_risk_level t)),
           (''policy_decision'', JStr (governance_decision_value (ticket_decision t))),
           (''approval_ids'', json_strs (ticket_approval_ids t)),
           (''created_at'', JStr (py_isoformat rt (ticket_created_at t))), (''labels'', json_strs (ticket_labels t)),
           (''metadata'', JObj (ticket_metadata t))]),
        (''safeguard_assessment'', json_or_null (\<lambda>a. JObj
          [(''brain_name'', JStr (safeguard_brain a)), (''invocation_id'', JStr (safeguard_invocation_id a)),
           (''advisory_disposition'', JStr (disposition_value (safeguard_advice a))),
           (''highest_severity'', json_or_null (\<lambda>s. JStr (severity_value s)) (assessment_severity a)),
           (''finding_codes'', json_strs (assessment_codes a)), (''policy_tags'', json_strs (assessment_tags a)),
           (''metadata'', JObj (safeguard_metadata a))]) (pre_assessment p))])"

definition approval_dict :: "py_runtime \<Rightarrow> approval_resolution \<Rightarrow> json" where
  "approval_dict rt r = JObj
     [(''required'', JBool (resolution_required r)), (''satisfied'', JBool (resolution_satisfied r)),
      (''approval_ids'', json_strs (resolution_ids r)), (''issues'', json_strs (resolution_issues r)),
      (''approvals'', JList (map (\<lambda>s. let q = state_request s in JObj
         [(''approval_id'', JStr (approval_id q)), (''intent_id'', JStr (approval_intent_id q)),
          (''status'', JStr (approval_status_value (current_status s))),
          (''requested_by'', json_opt (approval_requested_by q)),
          (''requested_at'', JStr (datetime_isoformat rt (approval_requested_at q))),
          (''policy_reason'', JStr (approval_policy_reason q)),
          (''evidence_refs'', json_strs (request_evidence_refs q)),
          (''decided_by'', json_or_null (\<lambda>d. JStr (decided_by d)) (state_decision s)),
          (''decided_at'', json_or_null (\<lambda>d. JStr (datetime_isoformat rt (approval_decided_at d))) (state_decision s)),
          (''decision_note'', json_or_null (\<lambda>d. JStr (decision_note d)) (state_decision s))])
         (resolution_approvals r)))]"

definition run_report_dict :: "py_runtime \<Rightarrow> float_texts \<Rightarrow> run_report \<Rightarrow> json" where
  "run_report_dict rt fl r = JObj
     [(''session_id'', JStr (run_session_id r)), (''run_id'', JStr (run_id r)), (''task_id'', JStr (run_task_id r)),
      (''task_kind'', JStr (task_kind_value (run_task_kind r))),
      (''status'', JStr (run_status_value (run_status_of r))), (''route'', route_dict fl (run_route r)),
      (''pack_name'', json_opt (run_pack_name r)), (''task_summary'', JStr (run_summary r)),
      (''evaluation_result'', evaluation_dict rt fl (run_evaluated_at r) (run_evaluation r)),
      (''verification_report'', verification_dict rt (run_verified_at r) (run_verification r)),
      (''sentinel_report'', sentinel_dict rt (run_checked_at r) (run_sentinel r)),
      (''replay_observation'', replay_dict (run_replay r)), (''task_inference'', inference_dict fl (run_inference r)),
      (''escalation_decision'', escalation_dict (run_escalation r)), (''readiness_report'', run_readiness r),
      (''reasoning_outcome'', json_or_null id (run_reasoning r)), (''vision_outcome'', json_or_null id (run_vision r)),
      (''policy_advisory'', json_or_null id (run_policy_advisory r)),
      (''safeguard_assessment'', json_or_null (safeguard_dict fl) (run_safeguard r)),
      (''governance_preflight'', preflight_dict rt (run_preflight r)),
      (''approval_resolution'', approval_dict rt (run_approval r)),
      (''governance_receipts'', receipt_report_dict (run_receipts r)),
      (''produced_artifacts'', json_strs (run_artifacts r)),
      (''artifact_paths'', JObj (map (map_prod id JStr) (run_artifact_paths r))),
      (''trace_ids'', json_strs (run_trace_ids r)), (''evidence_ids'', json_strs (run_evidence_ids r)),
      (''report_path'', json_opt (run_report_path r))]"

end
