(* ===== verification/Orchestrator.thy ===== *)
theory Orchestrator
  imports RunReport
begin

text \<open>
  One run of a task from end to end (\<open>runtime/orchestrator.py\<close>). The lanes in which models are asked
  are a parameter: what a lane may change is its own world \<open>'l\<close> (the providers and the ledger of model calls), what
  comes back is an outcome. A pack is a function of a task, a context and the world \<open>'w\<close> of packs. Fresh identifiers
  and clock readings are drawn in the order the run asks for them. Directories can be made and files
  written; the paths are joined and resolved by parameters.
\<close>

section \<open>Lanes, packs and the state of the runtime\<close>

record lane_outcome =
  outcome_brain :: string
  outcome_provider :: "string option"
  outcome_skipped :: bool
  outcome_succeeded :: bool
  outcome_failure :: "string option"
  outcome_text :: "string option"
  outcome_document :: json

datatype readiness_status = LANES_READY | LANES_DEGRADED | LANES_UNAVAILABLE

record 'l run_lanes =
  lane_begin :: "'l \<Rightarrow> 'l"
  lane_readiness :: "('l, readiness_status \<times> string \<times> json) st"
  lane_vision :: "task_record \<Rightarrow> routing_decision \<Rightarrow> string list \<Rightarrow> string option \<Rightarrow> ('l, lane_outcome) st"
  lane_policy :: "task_record \<Rightarrow> routing_decision \<Rightarrow> string option \<Rightarrow> ('l, lane_outcome \<times> (string \<times> json) option) st"
  lane_safeguard :: "task_record \<Rightarrow> routing_decision \<Rightarrow> ('l, lane_outcome \<times> safeguard_assessment option) st"
  lane_primary :: "task_record \<Rightarrow> routing_decision \<Rightarrow> string \<Rightarrow> ('l, lane_outcome) st"
  lane_reasoning :: "task_record \<Rightarrow> routing_decision \<Rightarrow> sentinel_report \<Rightarrow> verification_report \<Rightarrow> escalation_decision
    \<Rightarrow> ('l, lane_outcome) st"
  lane_receipts :: "string \<Rightarrow> 'l \<Rightarrow> json list"

record pack_context =
  context_brain :: lane_outcome
  context_route :: routing_decision
  context_session :: string
  context_approvals :: "string list"
  context_vision :: "json option"
  context_policy :: "json option"

record 'w loaded_pack =
  loaded_name :: string
  loaded_execute :: "pack_context \<Rightarrow> 'w pack"

record ('l, 'w) run_env =
  env_hash :: "string \<Rightarrow> string"
  env_rt :: py_runtime
  env_floats :: float_texts
  env_drawn :: tool_supply
  env_score :: "nat \<Rightarrow> nat \<Rightarrow> rat"
  env_policy :: governance_policy
  env_checks :: "sentinel_check list"
  env_routes :: switchboard
  env_manifests :: pack_registry
  env_escalation :: escalation_policy
  env_budget :: "escalation_budget option"
  env_session :: string
  env_artifacts_dir :: string
  env_join :: "string \<Rightarrow> string \<Rightarrow> string"
  env_resolve :: "string \<Rightarrow> string"
  env_load :: "pack_manifest \<Rightarrow> 'w loaded_pack res"
  env_lanes :: "'l run_lanes"

record ('l, 'w) run_state =
  run_guard :: replay_guard
  run_traces :: trace_store
  run_stored :: artifact_store
  run_evidence :: "evidence_record list"
  run_files :: "(string \<times> json) list"
  run_loaded :: "(string \<times> 'w loaded_pack) list"
  run_draws :: nat
  run_lane_world :: 'l
  run_pack_world :: 'w

section \<open>Steps on one part of the state\<close>

definition draw_many :: "nat \<Rightarrow> (('l, 'w) run_state, nat) st" where
  "draw_many k s = (Inr (run_draws s), s\<lparr>run_draws := run_draws s + k\<rparr>)"

definition draw_id :: "('l, 'w) run_env \<Rightarrow> (('l, 'w) run_state, string) st" where
  "draw_id env = st_bind (draw_many 1) (\<lambda>n. st_return (fresh_hex (env_drawn env) n))"

definition draw_time :: "('l, 'w) run_env \<Rightarrow> (('l, 'w) run_state, int) st" where
  "draw_time env = st_bind (draw_many 1) (\<lambda>n. st_return (clock_at (env_drawn env) n))"

definition in_lane :: "('l, 'a) st \<Rightarrow> (('l, 'w) run_state, 'a) st" where
  "in_lane m s = (let (r, l) = m (run_lane_world s) in (r, s\<lparr>run_lane_world := l\<rparr>))"

definition run_trace ::
  "('l, 'w) run_env \<Rightarrow> string \<Rightarrow> string \<Rightarrow> string \<Rightarrow> string \<Rightarrow> string \<Rightarrow> (('l, 'w) run_state, unit) st" where
  "run_trace env cid stage message level source =
     st_bind (draw_many 1) (\<lambda>n. st_step (\<lambda>s.
       res_bind (append_trace (fresh_hex (env_drawn env) n) (clock_at (env_drawn env) n)
           \<lparr>trace_id = [], trace_correlation_id = cid, trace_stage = stage, trace_message = message,
            trace_level = level, trace_created_at = 0, trace_source = Some source, trace_tags = [], trace_data = []\<rparr>
           (run_traces s)) (\<lambda>(_, ts). Inr ((), s\<lparr>run_traces := ts\<rparr>))))"

definition task_traces :: "string \<Rightarrow> (('l, 'w) run_state, trace_record list) st" where
  "task_traces tid = st_get (\<lambda>s. filter_by_correlation tid (run_traces s))"

definition task_trace_ids :: "string \<Rightarrow> (('l, 'w) run_state, string list) st" where
  "task_trace_ids tid = st_bind (task_traces tid) (\<lambda>rs. st_return (map trace_id rs))"

definition run_recording ::
  "('l, 'w) run_env \<Rightarrow> governance_ledger \<Rightarrow> (string \<Rightarrow> int \<Rightarrow> recording) \<Rightarrow> (('l, 'w) run_state, governance_ledger) st" where
  "run_recording env led f =
     st_bind (draw_many 1) (\<lambda>n. st_lift (res_bind (f (fresh_hex (env_drawn env) n) (clock_at (env_drawn env) n) led)
       (\<lambda>(_, led'). Inr led')))"

text \<open>\<open>_safe_json_dump\<close> and \<open>write_text(json.dumps(...))\<close>: a document that is no JSON is not written.\<close>

definition write_document :: "string \<Rightarrow> json \<Rightarrow> (('l, 'w) run_state, unit) st" where
  "write_document path v = st_step (\<lambda>s.
     if holds_other v then Inl (TypeError ''Object is not JSON serializable'')
     else Inr ((), s\<lparr>run_files := dict_set path (sort_keys v) (run_files s)\<rparr>))"

definition store_artifact ::
  "('l, 'w) run_env \<Rightarrow> string \<Rightarrow> string \<Rightarrow> string \<Rightarrow> string \<Rightarrow> json dict \<Rightarrow> (('l, 'w) run_state, unit) st" where
  "store_artifact env name path kind source meta =
     st_bind (draw_many 1) (\<lambda>n. st_step (\<lambda>s.
       res_bind (upsert_artifact (fresh_hex (env_drawn env) n) (clock_at (env_drawn env) n)
           \<lparr>artifact_id = [], logical_name = name, artifact_path = env_resolve env path, artifact_type = kind,
            artifact_digest = None, artifact_created_at = 0, artifact_updated_at = 0, artifact_source = Some source,
            artifact_tags = [], artifact_metadata = meta\<rparr> (run_stored s))
         (\<lambda>(_, as). Inr ((), s\<lparr>run_stored := as\<rparr>))))"

section \<open>What the lanes say of themselves\<close>

definition shown :: "string option \<Rightarrow> string" where
  "shown v = (case v of None \<Rightarrow> ''None'' | Some s \<Rightarrow> s)"

definition planned_message :: "string \<Rightarrow> lane_outcome \<Rightarrow> string" where
  "planned_message label out = label @ '' brain '' @ in_quotes (outcome_brain out) @ '' was planned but not invoked: ''
     @ shown (outcome_failure out)"

definition failed_message :: "string \<Rightarrow> lane_outcome \<Rightarrow> string" where
  "failed_message label out = label @ '' brain '' @ in_quotes (outcome_brain out) @ '' invocation failed: ''
     @ shown (outcome_failure out)"

definition through_message :: "string \<Rightarrow> lane_outcome \<Rightarrow> string" where
  "through_message label out = label @ '' brain '' @ in_quotes (outcome_brain out) @ '' completed through provider ''
     @ in_quotes (shown (outcome_provider out))"

definition lane_trace ::
  "('l, 'w) run_env \<Rightarrow> string \<Rightarrow> string \<Rightarrow> string \<Rightarrow> string \<Rightarrow> lane_outcome \<Rightarrow> string \<Rightarrow> (('l, 'w) run_state, unit) st" where
  "lane_trace env tid stage label source out completed =
     (if outcome_skipped out then run_trace env tid stage (planned_message label out) ''warning'' source
      else if outcome_succeeded out then run_trace env tid stage completed ''info'' source
      else run_trace env tid stage (failed_message label out) ''warning'' source)"

text \<open>The policy and the safeguard lane may bring an advice, also when the provider failed.\<close>

definition advice_trace ::
  "('l, 'w) run_env \<Rightarrow> string \<Rightarrow> string \<Rightarrow> string \<Rightarrow> string \<Rightarrow> lane_outcome \<Rightarrow> string option \<Rightarrow> (('l, 'w) run_state, unit) st" where
  "advice_trace env tid stage label source out advice =
     (if outcome_skipped out then run_trace env tid stage (planned_message label out) ''warning'' source
      else case advice of
        None \<Rightarrow> run_trace env tid stage (failed_message label out) ''warning'' source
      | Some a \<Rightarrow> if outcome_succeeded out
          then run_trace env tid stage (through_message label out @ '' with advisory disposition '' @ in_quotes a @ ''.'')
            ''info'' source
          else run_trace env tid stage (label @ '' brain '' @ in_quotes (outcome_brain out)
              @ '' produced a fallback advisory disposition '' @ in_quotes a
              @ '' after a non-success provider outcome.'') ''warning'' source)"

fun readiness_level :: "readiness_status \<Rightarrow> string" where
  "readiness_level LANES_READY = ''info''"
| "readiness_level LANES_DEGRADED = ''warning''"
| "readiness_level LANES_UNAVAILABLE = ''error''"

text \<open>The images of a task: of its metadata and of the attachments that look like one.\<close>

definition string_sequence :: "py_runtime \<Rightarrow> json option \<Rightarrow> string list" where
  "string_sequence rt v = (case v of
     Some (JStr s) \<Rightarrow> (if strip s = [] then [] else [strip s])
   | Some (JList xs) \<Rightarrow> List.map_filter (\<lambda>x. optional_str rt (Some x)) xs
   | _ \<Rightarrow> [])"

definition attachment_image :: "string \<Rightarrow> string option" where
  "attachment_image s =
     (let cleaned = strip s; lowered = lower cleaned in
      if cleaned = [] then None
      else if list_ex (starts_with lowered) [''data:image/'', ''image:'', ''img:'', ''base64-image''] then Some cleaned
      else if list_ex (ends_with lowered) [''.png'', ''.jpg'', ''.jpeg'', ''.webp'', ''.gif'', ''.bmp''] then Some cleaned
      else None)"

definition vision_images :: "py_runtime \<Rightarrow> task_request \<Rightarrow> string list" where
  "vision_images rt q =
     (let meta = task_metadata (task_input_of q);
          given = concat (map (\<lambda>k. string_sequence rt (dict_get meta k))
            [''vision_images'', ''image_inputs'', ''screenshot_refs'', ''ui_images'']);
          attached = List.map_filter attachment_image (task_attachments (task_input_of q))
      in uniq (filter (\<lambda>c. c \<noteq> []) (map strip (given @ attached))))"

definition run_vision_lane ::
  "('l, 'w) run_env \<Rightarrow> task_record \<Rightarrow> routing_decision \<Rightarrow> (('l, 'w) run_state, lane_outcome option) st" where
  "run_vision_lane env t route =
     (let q = record_request t; images = vision_images (env_rt env) q in
      if images = [] then st_return None
      else st_bind (in_lane (lane_vision (env_lanes env) t route images
          (optional_str (env_rt env) (dict_get (task_metadata (task_input_of q)) ''vision_question'')))) (\<lambda>out.
        st_bind (lane_trace env (task_id q) ''vision'' ''Vision'' ''brain.vision'' out
          (through_message ''Vision'' out @ '' for '' @ show_int (int (length images)) @ '' image(s).'')) (\<lambda>_.
          st_return (Some out))))"

definition run_policy_lane ::
  "('l, 'w) run_env \<Rightarrow> task_record \<Rightarrow> routing_decision \<Rightarrow> lane_outcome option
    \<Rightarrow> (('l, 'w) run_state, json option) st" where
  "run_policy_lane env t route vision =
     st_bind (in_lane (lane_policy (env_lanes env) t route (case vision of None \<Rightarrow> None | Some v \<Rightarrow> outcome_text v)))
       (\<lambda>(out, advice).
     st_bind (advice_trace env (task_id (record_request t)) ''policy'' ''Policy'' ''brain.policy'' out (map_option fst advice))
       (\<lambda>_. st_return (map_option snd advice)))"

definition run_safeguard_lane ::
  "('l, 'w) run_env \<Rightarrow> task_record \<Rightarrow> routing_decision \<Rightarrow> (('l, 'w) run_state, safeguard_assessment option) st" where
  "run_safeguard_lane env t route =
     st_bind (in_lane (lane_safeguard (env_lanes env) t route)) (\<lambda>(out, assessment).
     st_bind (advice_trace env (task_id (record_request t)) ''safeguard'' ''Safeguard'' ''brain.safeguard'' out
         (map_option (\<lambda>a. disposition_value (safeguard_advice a)) assessment))
       (\<lambda>_. st_return assessment))"

section \<open>Taking a task in\<close>

definition with_kind :: "task_kind \<Rightarrow> task_record \<Rightarrow> task_record" where
  "with_kind k t = t\<lparr>record_request := (record_request t)\<lparr>task_kind_of := k\<rparr>\<rparr>"

text \<open>Observed, marked as running, classified and routed.\<close>

definition take_in ::
  "('l, 'w) run_env \<Rightarrow> task_record
    \<Rightarrow> (('l, 'w) run_state, replay_observation \<times> task_inference \<times> task_record \<times> routing_decision) st" where
  "take_in env t =
     (let q = record_request t; tid = task_id q in
      st_bind (st_step (\<lambda>s. res_bind (observe_task (env_hash env) q (run_guard s))
          (\<lambda>(obs, g). Inr (obs, s\<lparr>run_guard := g\<rparr>)))) (\<lambda>obs.
      st_bind (if duplicate_detected obs
          then run_trace env tid ''runtime'' ''Replay guard flagged duplicate task fingerprint.'' ''warning'' ''runtime''
          else st_return ()) (\<lambda>_.
      st_bind (draw_time env) (\<lambda>now.
      st_bind (st_lift (res_bind (mark_ready t) (mark_running now))) (\<lambda>t'.
      st_bind (st_lift (infer_task (env_score env) (task_prompt (task_input_of q)) (task_labels q))) (\<lambda>inference.
      st_bind (run_trace env tid ''inference''
          (''Classified task as '' @ task_kind_value (inferred_kind inference) @ '' (reason=''
            @ inference_reason_value (inference_reason_of inference) @ '', confidence=''
            @ float_fixed (env_floats env) (inference_confidence inference) @ '').'') ''info'' ''classifier'') (\<lambda>_.
      let t'' = (if task_kind_of q = TASK_UNKNOWN \<and> inferred_kind inference \<noteq> TASK_UNKNOWN
            then with_kind (inferred_kind inference) t' else t') in
      st_bind (st_lift (route_task (env_routes env) (record_request t''))) (\<lambda>found.
      case found of
        None \<Rightarrow> st_raise (OtherError ''No capability route matched the submitted task.'')
      | Some route \<Rightarrow>
          st_bind (run_trace env tid ''routing''
              (''Routed task to capability '' @ in_quotes (routed_name route) @ '' (confidence=''
                @ float_fixed (env_floats env) (route_confidence route) @ '', reason=''
                @ routing_reason_value (route_reason route) @ '').'') ''info'' ''switchboard'') (\<lambda>_.
            st_return (obs, inference, t'', route))))))))))"

section \<open>The gate\<close>

record run_facts =
  fact_route :: routing_decision
  fact_replay :: replay_observation
  fact_inference :: task_inference
  fact_readiness :: json
  fact_vision :: "lane_outcome option"
  fact_advisory :: "json option"
  fact_safeguard :: "safeguard_assessment option"
  fact_preflight :: preflight_result
  fact_approval :: approval_resolution

definition approval_count :: "task_request \<Rightarrow> nat" where
  "approval_count q = length (fst (approval_entries (task_metadata (task_input_of q))))"

text \<open>Readiness, the advising lanes, the preflight and the approvals, with the first receipts of the run's ledger.\<close>

definition pass_gate ::
  "('l, 'w) run_env \<Rightarrow> replay_observation \<Rightarrow> task_inference \<Rightarrow> task_record \<Rightarrow> routing_decision
    \<Rightarrow> (('l, 'w) run_state, run_facts \<times> governance_ledger) st" where
  "pass_gate env obs inference t route =
     (let q = record_request t; tid = task_id q in
      st_bind (in_lane (lane_readiness (env_lanes env))) (\<lambda>(ready, said, readiness).
      st_bind (run_trace env tid ''readiness'' said (readiness_level ready) ''runtime.readiness'') (\<lambda>_.
      st_bind (in_lane (\<lambda>l. (Inr (), lane_begin (env_lanes env) l))) (\<lambda>_.
      st_bind (run_vision_lane env t route) (\<lambda>vision.
      st_bind (run_policy_lane env t route vision) (\<lambda>advisory.
      st_bind (run_safeguard_lane env t route) (\<lambda>assessment.
      st_bind (draw_many 3) (\<lambda>n.
      st_bind (st_lift (preflight_evaluate (env_floats env) (env_drawn env) n (env_policy env) q route assessment)) (\<lambda>p.
      st_bind (draw_many (2 * approval_count q)) (\<lambda>m.
      st_bind (st_lift (resolve_runtime_approval (env_rt env) (env_drawn env) m q p)) (\<lambda>r.
      st_bind (run_recording env [] (\<lambda>fresh now. record_preflight (env_hash env) fresh now p)) (\<lambda>led.
      st_bind (run_recording env led (\<lambda>fresh now. record_approval_resolution (env_hash env) fresh now p r)) (\<lambda>led'.
      st_bind (run_trace env tid ''governance''
          (''Preflight decision='' @ governance_decision_value (outcome_decision (pre_decision p)) @ '', risk=''
            @ risk_value (profile_risk (pre_risk p)) @ '', approval_required=''
            @ (if resolution_required r then ''True'' else ''False'') @ '', approval_satisfied=''
            @ (if resolution_satisfied r then ''True'' else ''False'') @ ''.'') ''info'' ''governance'') (\<lambda>_.
        st_return (\<lparr>fact_route = route, fact_replay = obs, fact_inference = inference, fact_readiness = readiness,
          fact_vision = vision, fact_advisory = advisory, fact_safeguard = assessment, fact_preflight = p,
          fact_approval = r\<rparr>, led')))))))))))))))"

end
