(* ===== verification/RunConclusion.thy ===== *)
theory RunConclusion
  imports Orchestrator
begin

text \<open>
  The second half of \<open>runtime/orchestrator.py\<close>: the pack is executed or not, the run is checked,
  evaluated, verified and reported, and its receipts, artifacts and report are written.
\<close>

section \<open>What is checked of a run\<close>

definition build_observations :: "preflight_result \<Rightarrow> approval_resolution \<Rightarrow> bool \<Rightarrow> json" where
  "build_observations p r executed =
     (let required = resolution_required r; satisfied = (required \<and> resolution_satisfied r) in
      JList [JObj
        [(''action'', JStr ''runtime_pack_dispatch''),
         (''decision'', JStr (governance_decision_value (outcome_decision (pre_decision p)))),
         (''executed'', JBool executed), (''approval_required'', JBool required),
         (''approval_satisfied'', JBool satisfied), (''source'', JStr ''runtime''),
         (''reason'', JStr (outcome_rationale (pre_decision p)))]])"

definition finding_of :: "string \<Rightarrow> evaluation_severity \<Rightarrow> string \<Rightarrow> json dict \<Rightarrow> evaluation_finding res" where
  "finding_of code severity summary data = evaluation_finding_init
     \<lparr>eval_code = code, eval_severity = severity, eval_summary = summary, eval_details = None, eval_data = data\<rparr>"

definition text_or_default :: "string option \<Rightarrow> string" where
  "text_or_default v = (case v of None \<Rightarrow> ''Task failed during runtime execution.''
     | Some s \<Rightarrow> if s = [] then ''Task failed during runtime execution.'' else s)"

definition review_open :: "run_facts \<Rightarrow> bool" where
  "review_open f = (pre_requires_review (fact_preflight f) \<and> \<not> resolution_satisfied (fact_approval f))"

definition run_findings ::
  "float_texts \<Rightarrow> run_facts \<Rightarrow> task_record \<Rightarrow> string list \<Rightarrow> sentinel_report \<Rightarrow> evaluation_finding res list" where
  "run_findings fl f t artifacts checked =
     (let p = fact_preflight f; r = fact_approval f; route = fact_route f in
      (if duplicate_detected (fact_replay f)
       then [finding_of ''replay_guard'' EVAL_WARNING ''Replay guard detected a duplicate task fingerprint.''
         [(''fingerprint'', JStr (fingerprint (fact_replay f)))]] else [])
      @ [finding_of ''governance_decision''
           (if pre_blocked p then EVAL_ERROR else if review_open f then EVAL_WARNING else EVAL_INFO)
           (outcome_rationale (pre_decision p))
           [(''policy_decision'', JStr (governance_decision_value (outcome_decision (pre_decision p)))),
            (''risk_level'', JStr (risk_value (profile_risk (pre_risk p)))),
            (''ticket_id'', JStr (ticket_id (pre_ticket p))),
            (''approval_required'', JBool (resolution_required r)),
            (''approval_satisfied'', JBool (resolution_satisfied r))],
         finding_of ''routing'' EVAL_INFO
           (''Task routed to capability '' @ in_quotes (routed_name route) @ '' with confidence ''
             @ float_fixed fl (route_confidence route) @ ''.'')
           [(''capability_name'', JStr (routed_name route)), (''reason'', JStr (routing_reason_value (route_reason route)))]]
      @ (if bad_severity checked
         then [finding_of ''sentinel'' EVAL_ERROR ''Sentinel reported a blocking runtime issue.''
           [(''highest_severity'', JStr (sentinel_severity_value (sentinel_highest_severity checked)))]] else [])
      @ [if task_state_of t = FAILED then finding_of ''task_outcome'' EVAL_ERROR (text_or_default (task_error t)) []
         else if task_state_of t = COMPLETED \<and> review_open f
         then finding_of ''approval_gate'' EVAL_WARNING ''Execution paused pending governance approval.'' []
         else finding_of ''task_outcome'' EVAL_INFO ''Task completed successfully.'' []]
      @ map (\<lambda>a. finding_of ''artifact'' EVAL_INFO (''Produced artifact '' @ in_quotes a @ ''.'') []) artifacts)"

definition score_for_status :: "evaluation_status \<Rightarrow> rat" where
  "score_for_status s = (case s of EVAL_PASSED \<Rightarrow> 1 | EVAL_NEEDS_REVIEW \<Rightarrow> 1 / 2 | EVAL_FAILED \<Rightarrow> 0)"

definition evaluate_run ::
  "float_texts \<Rightarrow> run_facts \<Rightarrow> task_record \<Rightarrow> string list \<Rightarrow> sentinel_report \<Rightarrow> evaluation_result res" where
  "evaluate_run fl f t artifacts checked =
     res_bind (res_map (\<lambda>x. x) (run_findings fl f t artifacts checked)) (\<lambda>findings.
       let status = status_from_findings findings in evaluation_result_init
         \<lparr>evaluator_name = ''runtime_run'', evaluation_status_of = status,
          evaluation_score = score_for_status status, evaluation_findings = findings\<rparr>)"

text \<open>The signals that are required of a run, which are also the ones passed on as observed.\<close>

definition run_signals :: "run_facts \<Rightarrow> string list" where
  "run_signals f =
     (let p = fact_preflight f in
      [''policy_preflight'']
      @ (if pre_requires_review p
         then ''policy_review_required'' # (if resolution_satisfied (fact_approval f) then [''approval_recorded''] else [])
         else [])
      @ (if pre_blocked p then [''verification_failed''] else [''execution_started'', ''execution_completed'']))"

definition run_context ::
  "run_facts \<Rightarrow> string \<Rightarrow> string list \<Rightarrow> evaluation_result \<Rightarrow> bool \<Rightarrow> verification_context res" where
  "run_context f tid artifacts e verified = verification_context_init
     \<lparr>verify_subject_id = tid, expected_artifacts = artifacts, produced_artifacts = artifacts,
      evaluation_results = [e], regression_report_of = None, required_signals = run_signals f,
      observed_signals = run_signals f, chain_verified = Some verified,
      approval_required = resolution_required (fact_approval f),
      approval_satisfied = resolution_satisfied (fact_approval f)\<rparr>"

definition status_from_reports :: "verification_report \<Rightarrow> sentinel_report \<Rightarrow> run_status" where
  "status_from_reports v checked =
     (if bad_severity checked then RUN_FAILED
      else if verification_status_value (verification_status_of v) = ''failed'' then RUN_FAILED
      else if verification_status_value (verification_status_of v) = ''needs_review'' then RUN_NEEDS_REVIEW
      else RUN_PASSED)"

definition build_summary :: "task_record \<Rightarrow> evaluation_result \<Rightarrow> verification_report \<Rightarrow> string" where
  "build_summary t e v =
     (if task_state_of t = FAILED then text_or_default (task_error t)
      else if verification_status_value (verification_status_of v) = ''needs_review''
      then ''Run paused pending governance approval.''
      else case result_summary t of
        Some s \<Rightarrow> if s = [] then eval_summary (hd (evaluation_findings e)) else s
      | None \<Rightarrow> (case evaluation_findings e of
          g # _ \<Rightarrow> eval_summary g
        | [] \<Rightarrow> ''Evaluation completed with status '' @ evaluation_status_value (evaluation_status_of e) @ ''.''))"

section \<open>Escalation\<close>

definition deep_reasoning_requested :: "string \<Rightarrow> bool" where
  "deep_reasoning_requested prompt = contains_any (lower (strip prompt))
     [''deep reasoning'', ''reason deeply'', ''think hard'', ''step by step'', ''carefully reason'', ''heavy reasoning'']"

text \<open>A float that is no number is read as zero by the code, an infinite one raises: here both raise.\<close>

definition coerce_non_negative_int :: "py_runtime \<Rightarrow> json \<Rightarrow> int res" where
  "coerce_non_negative_int rt v =
     (case py_int rt v of
        Inr i \<Rightarrow> Inr (max i 0)
      | Inl e \<Rightarrow> (case e of TypeError _ \<Rightarrow> Inr 0 | ValueError _ \<Rightarrow> Inr 0 | _ \<Rightarrow> Inl e))"

definition escalation_message :: "escalation_decision \<Rightarrow> string \<times> string" where
  "escalation_message d =
     (let score = show_int (escalation_score d); triggers = join '', '' (trigger_codes d) in
      if should_escalate d
      then (''warning'', ''Reasoning escalation requested (score='' @ score @ '', triggers='' @ triggers @ '').'')
      else if blocked_by_budget d
      then (''warning'', ''Reasoning escalation was justified but blocked by budget (score='' @ score
        @ '', blocked_reason='' @ shown (blocked_reason d) @ '').'')
      else (''info'', ''Reasoning escalation signals were observed but stayed below threshold (score='' @ score
        @ '', triggers='' @ triggers @ '').''))"

definition evaluate_reasoning ::
  "('l, 'w) run_env \<Rightarrow> run_facts \<Rightarrow> task_record \<Rightarrow> sentinel_report \<Rightarrow> verification_report
    \<Rightarrow> (('l, 'w) run_state, escalation_decision) st" where
  "evaluate_reasoning env f t checked v =
     (let q = record_request t in
      st_bind (st_lift (coerce_non_negative_int (env_rt env)
          (dict_get_or (task_metadata (task_input_of q)) ''reasoning_escalation_hops'' (JInt 0)))) (\<lambda>hops.
      st_bind (st_lift (evaluate_escalation (env_floats env) (env_escalation env) (env_budget env)
          \<lparr>fact_confidence = Some (route_confidence (fact_route f)),
           fact_contradiction = has_contradiction_signal checked,
           fact_verification_failed = (verification_status_of v = VERIFY_FAILED),
           fact_failures = (if task_state_of t = FAILED then 1 else 0),
           fact_deep_reasoning = deep_reasoning_requested (task_prompt (task_input_of q)),
           fact_approval_required = resolution_required (fact_approval f), fact_hops = hops\<rparr>)) (\<lambda>d.
      st_bind (if escalation_reasons d = [] then st_return ()
          else run_trace env (task_id q) ''escalation'' (snd (escalation_message d)) (fst (escalation_message d))
            ''brain.escalation'') (\<lambda>_. st_return d))))"

definition run_reasoning_lane ::
  "('l, 'w) run_env \<Rightarrow> run_facts \<Rightarrow> task_record \<Rightarrow> sentinel_report \<Rightarrow> verification_report \<Rightarrow> escalation_decision
    \<Rightarrow> (('l, 'w) run_state, json option) st" where
  "run_reasoning_lane env f t checked v d =
     (if \<not> should_escalate d then st_return None
      else st_bind (in_lane (lane_reasoning (env_lanes env) t (fact_route f) checked v d)) (\<lambda>out.
        st_bind (lane_trace env (task_id (record_request t)) ''reasoning'' ''Reasoning'' ''brain.reasoning'' out
          (through_message ''Reasoning'' out @ '' with summary ''
            @ in_quotes (case outcome_text out of None \<Rightarrow> ''n/a'' | Some s \<Rightarrow> if s = [] then ''n/a'' else s) @ ''.'')) (\<lambda>_.
          st_return (Some (outcome_document out)))))"

section \<open>Artifacts and the report\<close>

definition set_default :: "string \<Rightarrow> json \<Rightarrow> json dict \<Rightarrow> json dict" where
  "set_default k v d = (if dict_get d k = None then dict_set k v d else d)"

definition artifact_payload :: "string \<Rightarrow> string \<Rightarrow> task_record \<Rightarrow> pack_result \<Rightarrow> json dict" where
  "artifact_payload name pack_name t res =
     (let q = record_request t;
          given = (case pack_data res of JObj d \<Rightarrow> d | _ \<Rightarrow> []);
          renamed = (case dict_get given ''pack'' of
              Some v \<Rightarrow> if dict_get given ''pack_name'' = None
                then dict_set ''pack_name'' v (dict_del ''pack'' given) else given
            | None \<Rightarrow> given)
      in set_default ''metrics'' (JObj (pack_metrics res))
        (set_default ''summary'' (JStr (pack_summary res))
        (set_default ''artifact_name'' (JStr name)
        (set_default ''task_kind'' (JStr (task_kind_value (task_kind_of q)))
        (set_default ''task_id'' (JStr (task_id q))
        (set_default ''pack_name'' (JStr pack_name) renamed))))))"

definition artifact_file :: "('l, 'w) run_env \<Rightarrow> string \<Rightarrow> string \<Rightarrow> string" where
  "artifact_file env tid name = env_resolve env (env_join env (env_join env (env_artifacts_dir env) tid) name)"

definition materialize ::
  "('l, 'w) run_env \<Rightarrow> task_record \<Rightarrow> string \<Rightarrow> pack_result \<Rightarrow> (('l, 'w) run_state, (string \<times> string) list) st" where
  "materialize env t pack_name res =
     st_map (\<lambda>name. let path = artifact_file env (task_id (record_request t)) name in
         st_bind (write_document path (JObj (artifact_payload name pack_name t res))) (\<lambda>_. st_return (name, path)))
       (pack_artifacts res)"

definition receipts_file :: "('l, 'w) run_env \<Rightarrow> string \<Rightarrow> string" where
  "receipts_file env tid = env_join env (env_join env (env_join env (env_artifacts_dir env) ''governance'') tid)
     ''blackfox-governance-receipts.json''"

definition persist_receipts ::
  "('l, 'w) run_env \<Rightarrow> string \<Rightarrow> run_facts \<Rightarrow> governance_ledger \<Rightarrow> (('l, 'w) run_state, receipt_report) st" where
  "persist_receipts env tid f led =
     (let path = receipts_file env tid in
      st_bind (st_lift (report_from_ledger (env_hash env) (env_rt env) led (intent_id (pre_intent (fact_preflight f)))
          (Some path))) (\<lambda>bare.
      st_bind (st_get (\<lambda>s. Inr (bare\<lparr>report_brain_receipts := lane_receipts (env_lanes env) tid (run_lane_world s)\<rparr>)))
        (\<lambda>report.
      st_bind (write_document path (receipt_report_dict report)) (\<lambda>_.
      st_bind (store_artifact env ''blackfox-governance-receipts.json'' path ''governance_receipt'' ''runtime.receipts''
          [(''task_id'', JStr tid), (''kind'', JStr ''governance_receipt'')]) (\<lambda>_.
      st_bind (run_trace env tid ''governance'' (''Persisted governance receipt chain with ''
          @ show_int (int (length (report_records report))) @ '' record(s).'') ''info'' ''receipt_recorder'') (\<lambda>_.
        st_return report))))))"

definition record_artifact ::
  "('l, 'w) run_env \<Rightarrow> string \<Rightarrow> string \<times> string \<Rightarrow> (('l, 'w) run_state, string) st" where
  "record_artifact env tid a =
     st_bind (task_trace_ids tid) (\<lambda>traces.
     st_bind (draw_many 1) (\<lambda>n.
     st_bind (st_step (\<lambda>s. res_bind (record_evidence (fresh_hex (env_drawn env) n) (clock_at (env_drawn env) n)
           \<lparr>evidence_id = [], evidence_subject_id = tid, evidence_type = ''artifact'',
            evidence_summary = ''Produced runtime artifact '' @ fst a @ ''.'', evidence_created_at = 0,
            evidence_source = Some ''runtime.orchestrator'', evidence_artifact_refs = [fst a],
            evidence_trace_ids = traces, evidence_metadata = [(''artifact_path'', JStr (snd a))]\<rparr> (run_evidence s))
         (\<lambda>(e, es). Inr (evidence_id e, s\<lparr>run_evidence := es\<rparr>)))) (\<lambda>eid.
     st_bind (store_artifact env (fst a) (snd a) ''runtime_artifact'' ''runtime.orchestrator'' [(''task_id'', JStr tid)])
       (\<lambda>_. st_return eid))))"

text \<open>How a run ended: the task as it is left, the pack that was called, and what it produced.\<close>

record run_end =
  end_task :: task_record
  end_pack :: "string option"
  end_artifacts :: "(string \<times> string) list"
  end_executed :: bool

definition finalize_run ::
  "('l, 'w) run_env \<Rightarrow> run_facts \<Rightarrow> run_end \<Rightarrow> governance_ledger \<Rightarrow> sentinel_report \<times> int \<Rightarrow> evaluation_result \<times> int
    \<Rightarrow> verification_report \<times> int \<Rightarrow> escalation_decision \<Rightarrow> json option \<Rightarrow> (('l, 'w) run_state, run_report) st" where
  "finalize_run env f e led checked evaluated verified escalation reasoning =
     (let t = end_task e; q = record_request t; tid = task_id q; v = fst verified;
          receipts_name = ''blackfox-governance-receipts.json''
      in
      st_bind (run_recording env led (\<lambda>fresh now. record_verification_outcome (env_hash env) fresh now (fact_preflight f)
          (verification_status_value (verification_status_of v)) (length (verification_issues v)))) (\<lambda>led'.
      st_bind (persist_receipts env tid f led') (\<lambda>receipts.
      st_bind (st_map (record_artifact env tid) (end_artifacts e)) (\<lambda>evidence.
      st_bind (draw_id env) (\<lambda>fresh.
      st_bind (task_trace_ids tid) (\<lambda>traces.
      let known = dict_get (end_artifacts e) receipts_name \<noteq> None;
          report = \<lparr>run_session_id = env_session env, run_id = ''run-'' @ fresh, run_task_id = tid,
            run_task_kind = task_kind_of q, run_status_of = status_from_reports v (fst checked), run_route = fact_route f,
            run_pack_name = end_pack e, run_summary = build_summary t (fst evaluated) v,
            run_evaluation = fst evaluated, run_verification = v, run_sentinel = fst checked,
            run_replay = fact_replay f, run_inference = fact_inference f, run_escalation = escalation,
            run_readiness = fact_readiness f, run_reasoning = reasoning,
            run_vision = map_option outcome_document (fact_vision f), run_policy_advisory = fact_advisory f,
            run_safeguard = fact_safeguard f, run_preflight = fact_preflight f, run_approval = fact_approval f,
            run_receipts = receipts,
            run_artifacts = map fst (end_artifacts e) @ (if known then [] else [receipts_name]),
            run_artifact_paths = end_artifacts e
              @ (if known then [] else [(receipts_name, receipts_file env tid)]),
            run_trace_ids = traces, run_evidence_ids = evidence, run_report_path = None,
            run_checked_at = snd checked, run_evaluated_at = snd evaluated, run_verified_at = snd verified\<rparr>;
          path = env_join env (env_join env (env_artifacts_dir env) ''reports'') (tid @ ''.json'')
      in
      st_bind (write_document path (run_report_dict (env_rt env) (env_floats env) report)) (\<lambda>_.
      st_bind (run_trace env tid ''runtime''
          (''Run finalized with status='' @ run_status_value (run_status_of report) @ ''.'') ''info'' ''runtime'') (\<lambda>_.
        st_return (report\<lparr>run_report_path := Some path\<rparr>)))))))))"

text \<open>The sentinel, the evaluation, the verification and the escalation of a run that has ended.\<close>

definition conclude ::
  "('l, 'w) run_env \<Rightarrow> run_facts \<Rightarrow> run_end \<Rightarrow> governance_ledger \<Rightarrow> (('l, 'w) run_state, run_report) st" where
  "conclude env f e led =
     (let t = end_task e; tid = task_id (record_request t); artifacts = map fst (end_artifacts e) in
      st_bind (task_traces tid) (\<lambda>traces.
      st_bind (st_lift (sentinel_evaluate (env_checks env)
          \<lparr>context_task = Some t, context_messages = map trace_message traces,
           context_metadata = [(''governance_observations'',
             build_observations (fact_preflight f) (fact_approval f) (end_executed e))]\<rparr>)) (\<lambda>checked.
      st_bind (draw_time env) (\<lambda>at1.
      st_bind (st_lift (evaluate_run (env_floats env) f t artifacts checked)) (\<lambda>evaluation.
      st_bind (draw_time env) (\<lambda>at2.
      st_bind (st_lift (verify_intent_chain (env_hash env) led (intent_id (pre_intent (fact_preflight f))))) (\<lambda>ok.
      st_bind (st_lift (res_bind (run_context f tid artifacts evaluation ok) (verify_output (env_floats env)))) (\<lambda>v.
      st_bind (draw_time env) (\<lambda>at3.
      st_bind (evaluate_reasoning env f t checked v) (\<lambda>d.
      st_bind (run_reasoning_lane env f t checked v d) (\<lambda>reasoning.
        finalize_run env f e led (checked, at1) (evaluation, at2) (v, at3) d reasoning)))))))))))"

section \<open>The run\<close>

definition load_pack :: "('l, 'w) run_env \<Rightarrow> pack_manifest \<Rightarrow> (('l, 'w) run_state, 'w loaded_pack) st" where
  "load_pack env m = st_step (\<lambda>s.
     case dict_get (run_loaded s) (manifest_pack_name m) of
       Some k \<Rightarrow> Inr (k, s)
     | None \<Rightarrow> res_bind (env_load env m) (\<lambda>k. Inr (k, s\<lparr>run_loaded := dict_set (manifest_pack_name m) k (run_loaded s)\<rparr>)))"

definition run_primary_lane ::
  "('l, 'w) run_env \<Rightarrow> task_record \<Rightarrow> routing_decision \<Rightarrow> string \<Rightarrow> (('l, 'w) run_state, lane_outcome) st" where
  "run_primary_lane env t route pack_name =
     st_bind (in_lane (lane_primary (env_lanes env) t route pack_name)) (\<lambda>out.
     st_bind (lane_trace env (task_id (record_request t)) ''brain'' ''Primary'' ''brain.primary'' out
         (through_message ''Primary'' out @ ''.'')) (\<lambda>_. st_return out))"

text \<open>The pack's world after the call stays, also when the call raised.\<close>

definition call_pack ::
  "'w loaded_pack \<Rightarrow> pack_context \<Rightarrow> task_record \<Rightarrow> (('l, 'w) run_state, pack_result res) st" where
  "call_pack k ctx t s =
     (let (r, w) = loaded_execute k ctx t (run_pack_world s) in (Inr r, s\<lparr>run_pack_world := w\<rparr>))"

definition run_pack ::
  "('l, 'w) run_env \<Rightarrow> run_facts \<Rightarrow> task_record \<Rightarrow> governance_ledger \<Rightarrow> (('l, 'w) run_state, run_report) st" where
  "run_pack env f t led =
     (let route = fact_route f; tid = task_id (record_request t); p = fact_preflight f in
      st_bind (st_lift (get_pack (routed_name route) (env_manifests env))) (\<lambda>found.
      case found of
        None \<Rightarrow> st_raise (OtherError (''Route target '' @ in_quotes (routed_name route) @ '' has no registered manifest.''))
      | Some m \<Rightarrow>
        st_bind (load_pack env m) (\<lambda>k.
        st_bind (run_primary_lane env t route (loaded_name k)) (\<lambda>out.
        st_bind (run_recording env led (\<lambda>fresh now. record_execution_started (env_hash env) fresh now p (loaded_name k)))
          (\<lambda>led1.
        st_bind (call_pack k \<lparr>context_brain = out, context_route = route, context_session = env_session env,
            context_approvals = resolution_ids (fact_approval f),
            context_vision = map_option outcome_document (fact_vision f), context_policy = fact_advisory f\<rparr> t) (\<lambda>done_with.
        case done_with of
          Inl x \<Rightarrow>
            st_bind (run_recording env led1 (\<lambda>fresh now. record_execution_failed (env_hash env) fresh now p (loaded_name k)
                (error_text x))) (\<lambda>led2.
            st_bind (run_trace env tid ''pack'' (''Pack execution failed: '' @ error_text x) ''error'' (routed_name route)) (\<lambda>_.
            st_bind (draw_time env) (\<lambda>now.
            st_bind (st_lift (mark_failed now (error_text x) t)) (\<lambda>t'.
              conclude env f \<lparr>end_task = t', end_pack = Some (loaded_name k), end_artifacts = [], end_executed = True\<rparr>
                led2))))
        | Inr res \<Rightarrow>
            st_bind (materialize env t (loaded_name k) res) (\<lambda>files.
            st_bind (draw_time env) (\<lambda>now.
            st_bind (st_lift (mark_completed now (Some (pack_summary res)) t)) (\<lambda>t'.
            st_bind (run_recording env led1 (\<lambda>fresh now. record_execution_completed (env_hash env) fresh now p (loaded_name k)
                (length (pack_artifacts res)))) (\<lambda>led2.
            st_bind (run_trace env tid ''pack'' (''Pack '' @ in_quotes (loaded_name k) @ '' completed with ''
                @ show_int (int (length (pack_artifacts res))) @ '' artifact(s).'') ''info'' (routed_name route)) (\<lambda>_.
              conclude env f \<lparr>end_task = t', end_pack = Some (loaded_name k), end_artifacts = files, end_executed = True\<rparr>
                led2)))))))))))"

text \<open>What follows the gate: the task fails, pauses, or is given to its pack.\<close>

definition after_gate ::
  "('l, 'w) run_env \<Rightarrow> task_record \<Rightarrow> run_facts \<Rightarrow> governance_ledger \<Rightarrow> (('l, 'w) run_state, run_report) st" where
  "after_gate env t f led =
     (if pre_blocked (fact_preflight f)
      then st_bind (draw_time env) (\<lambda>now.
        st_bind (st_lift (mark_failed now (outcome_rationale (pre_decision (fact_preflight f))) t)) (\<lambda>t'.
          conclude env f \<lparr>end_task = t', end_pack = None, end_artifacts = [], end_executed = False\<rparr> led))
      else if review_open f
      then st_bind (draw_time env) (\<lambda>now.
        st_bind (st_lift (mark_completed now (Some ''Run paused pending governance approval.'') t)) (\<lambda>t'.
          conclude env f \<lparr>end_task = t', end_pack = None, end_artifacts = [], end_executed = False\<rparr> led))
      else run_pack env f t led)"

definition execute_task :: "('l, 'w) run_env \<Rightarrow> task_record \<Rightarrow> (('l, 'w) run_state, run_report) st" where
  "execute_task env t0 =
     st_bind (take_in env t0) (\<lambda>(obs, inference, t, route).
     st_bind (pass_gate env obs inference t route) (\<lambda>(f, led). after_gate env t f led))"

definition run_prompt ::
  "('l, 'w) run_env \<Rightarrow> string \<Rightarrow> task_kind \<Rightarrow> string list \<Rightarrow> json dict \<Rightarrow> task_priority
    \<Rightarrow> (('l, 'w) run_state, run_report) st" where
  "run_prompt env prompt kind labels meta priority =
     st_bind (draw_many 1) (\<lambda>n.
     st_bind (st_lift (task_request_create (fresh_hex (env_drawn env) n) (clock_at (env_drawn env) n) prompt kind priority
         meta [] labels)) (\<lambda>q.
       execute_task env (new_task q)))"

text \<open>The routes and manifests of a runtime as it is created.\<close>

definition default_manifests :: "pack_registry" where
  "default_manifests = register_pack programming_manifest (register_pack architecture_manifest [])"

definition default_routes :: "switchboard res" where
  "default_routes =
     (let a = architecture_manifest; g = programming_manifest in
      res_bind (capability_route_init \<lparr>route_name = manifest_pack_name a, supported_kinds = pack_supported_kinds a,
        route_labels = pack_labels a, route_description = pack_description a, is_fallback = False\<rparr>) (\<lambda>x.
      res_bind (capability_route_init \<lparr>route_name = manifest_pack_name g,
        supported_kinds = pack_supported_kinds g @ [OPERATIONS],
        route_labels = pack_labels g @ [''operations'', ''network'', ''egress'', ''safety''],
        route_description = pack_description g, is_fallback = False\<rparr>) (\<lambda>y.
        Inr (register_route y (register_route x [])))))"

end
