(* ===== verification/RunGate.thy ===== *)
theory RunGate
  imports RunConclusion
begin

text \<open>
  What a run of the orchestrator may do before, and whether, it calls a pack: whatever the model lanes
  say, the world of packs is only touched after a preflight that admits the task.
\<close>

section \<open>Steps that leave the world of packs alone\<close>

definition same_pack_world :: "('l, 'w) run_state \<Rightarrow> ('l, 'w) run_state \<Rightarrow> bool" where
  "same_pack_world s s' \<longleftrightarrow> run_pack_world s' = run_pack_world s"

named_theorems pack_free \<open>steps that leave the world of packs as it is\<close>

lemma same_pack_preorder [pack_free]: "reflp same_pack_world" "transp same_pack_world"
  by (auto simp: same_pack_world_def intro!: reflpI transpI)

lemma pack_free_bind [pack_free]:
  "st_keeps same_pack_world m \<Longrightarrow> (\<And>x. st_keeps same_pack_world (f x)) \<Longrightarrow> st_keeps same_pack_world (st_bind m f)"
  by (rule keeps_bind [OF same_pack_preorder(2)])

lemma pack_free_map [pack_free]: "(\<And>x. st_keeps same_pack_world (f x)) \<Longrightarrow> st_keeps same_pack_world (st_map f xs)"
  by (rule keeps_map [OF same_pack_preorder])

lemma pack_free_simple [pack_free]:
  "st_keeps same_pack_world (st_return x)" "st_keeps same_pack_world (st_raise e)" "st_keeps same_pack_world (st_lift r)"
  "st_keeps same_pack_world (st_get g)" "st_keeps same_pack_world (draw_many k)"
  "st_keeps same_pack_world (in_lane n)"
  by (simp_all add: st_keeps_def same_pack_world_def draw_many_def in_lane_def split: prod.splits)

lemma pack_free_step [pack_free]:
  "(\<And>s x s'. f s = Inr (x, s') \<Longrightarrow> same_pack_world s s') \<Longrightarrow> st_keeps same_pack_world (st_step f)"
  by (rule keeps_step [OF same_pack_preorder(1)])

lemma pack_free_cases [pack_free]:
  "st_keeps same_pack_world m \<Longrightarrow> st_keeps same_pack_world n \<Longrightarrow> st_keeps same_pack_world (if b then m else n)"
  "(x = None \<Longrightarrow> st_keeps same_pack_world m) \<Longrightarrow> (\<And>y. st_keeps same_pack_world (g y))
    \<Longrightarrow> st_keeps same_pack_world (case x of None \<Rightarrow> m | Some y \<Rightarrow> g y)"
  "(\<And>u v. st_keeps same_pack_world (h u v)) \<Longrightarrow> st_keeps same_pack_world (case p of (u, v) \<Rightarrow> h u v)"
  by (auto split: option.splits prod.splits)

lemma pack_free_parts [pack_free]:
  "st_keeps same_pack_world (draw_id env)" "st_keeps same_pack_world (draw_time env)"
  "st_keeps same_pack_world (run_trace env cid stage message level source)"
  "st_keeps same_pack_world (task_trace_ids tid)" "st_keeps same_pack_world (task_traces tid)"
  "st_keeps same_pack_world (run_recording env led f)" "st_keeps same_pack_world (write_document path v)"
  "st_keeps same_pack_world (store_artifact env name path kind source meta)"
  unfolding draw_id_def draw_time_def run_trace_def task_trace_ids_def task_traces_def run_recording_def
    write_document_def store_artifact_def
  by (auto intro!: pack_free simp: same_pack_world_def res_bind_eq_Inr split: if_splits)

lemma pack_free_lanes [pack_free]:
  "st_keeps same_pack_world (lane_trace env tid stage label source out completed)"
  "st_keeps same_pack_world (advice_trace env tid stage label source out advice)"
  unfolding lane_trace_def advice_trace_def by (intro pack_free)+

lemma pack_free_lane_runs [pack_free]:
  "st_keeps same_pack_world (run_vision_lane env t route)"
  "st_keeps same_pack_world (run_policy_lane env t route vision)"
  "st_keeps same_pack_world (run_safeguard_lane env t route)"
  "st_keeps same_pack_world (run_primary_lane env t route name)"
  "st_keeps same_pack_world (run_reasoning_lane env f t checked v d)"
  unfolding run_vision_lane_def run_policy_lane_def run_safeguard_lane_def run_primary_lane_def run_reasoning_lane_def Let_def
  by (intro pack_free)+

lemma take_in_pack_free [pack_free]: "st_keeps same_pack_world (take_in env t)"
  unfolding take_in_def Let_def by (intro pack_free) (auto simp: same_pack_world_def res_bind_eq_Inr)

lemma pass_gate_pack_free [pack_free]: "st_keeps same_pack_world (pass_gate env obs i t route)"
  unfolding pass_gate_def Let_def by (intro pack_free)

lemma record_artifact_pack_free [pack_free]: "st_keeps same_pack_world (record_artifact env tid a)"
  unfolding record_artifact_def by (intro pack_free) (auto simp: same_pack_world_def res_bind_eq_Inr)

lemma persist_receipts_pack_free [pack_free]: "st_keeps same_pack_world (persist_receipts env tid f led)"
  unfolding persist_receipts_def Let_def by (intro pack_free)

lemma finalize_run_pack_free [pack_free]:
  "st_keeps same_pack_world (finalize_run env f e led checked evaluated verified d reasoning)"
  unfolding finalize_run_def Let_def by (intro pack_free)

lemma conclude_pack_free [pack_free]: "st_keeps same_pack_world (conclude env f e led)"
  unfolding conclude_def evaluate_reasoning_def Let_def by (intro pack_free)

section \<open>What the gate lets through\<close>

text \<open>The request as the classifier leaves it.\<close>

definition classified :: "('l, 'w) run_env \<Rightarrow> task_request \<Rightarrow> task_request" where
  "classified env q =
     (case infer_task (env_score env) (task_prompt (task_input_of q)) (task_labels q) of
        Inl _ \<Rightarrow> q
      | Inr i \<Rightarrow> if task_kind_of q = TASK_UNKNOWN \<and> inferred_kind i \<noteq> TASK_UNKNOWN
          then q\<lparr>task_kind_of := inferred_kind i\<rparr> else q)"

lemma classified_keeps [simp]:
  "task_id (classified env q) = task_id q" "task_input_of (classified env q) = task_input_of q"
  "task_labels (classified env q) = task_labels q" "task_priority_of (classified env q) = task_priority_of q"
  by (auto simp: classified_def split: sum.splits)

lemma mark_running_Inr:
  "res_bind (mark_ready t) (mark_running now) = Inr t' \<Longrightarrow> record_request t' = record_request t \<and> task_state_of t' = RUNNING"
  by (auto simp: task_moves)

lemma run_trace_Inr: "run_trace env cid stage message level source s = (Inr u, s') \<Longrightarrow> \<not> blank cid"
  by (auto simp: run_trace_def append_trace_def required_text_def blank_def st_bind_def st_step_def draw_many_def
      res_bind_eq_Inr split: sum.splits prod.splits if_splits)

lemma lift_returns: "st_bind (st_lift r) f s = (Inr y, s') \<Longrightarrow> \<exists>x. r = Inr x \<and> f x s = (Inr y, s')"
  by (auto simp: st_bind_def split: sum.splits)

lemma take_in_returns:
  assumes "take_in env t s = (Inr (obs, inference, t', route), s')"
  shows "record_request t' = classified env (record_request t) \<and> task_state_of t' = RUNNING
     \<and> \<not> blank (task_id (record_request t)) \<and> route_task (env_routes env) (record_request t') = Inr (Some route)"
  using assms unfolding take_in_def Let_def
  by (elim st_bind_returns)
    (auto dest!: mark_running_Inr run_trace_Inr simp: with_kind_def classified_def elim!: st_bind_returns
      split: option.splits if_splits)

text \<open>The lanes give back assessments as their constructor makes them.\<close>

definition lanes_assess :: "('l, 'w) run_env \<Rightarrow> bool" where
  "lanes_assess env \<longleftrightarrow> (\<forall>t route l out a l'.
     lane_safeguard (env_lanes env) t route l = (Inr (out, a), l') \<longrightarrow> assessment_ok a)"

lemma run_safeguard_lane_returns:
  assumes "run_safeguard_lane env t route s = (Inr a, s')" "lanes_assess env"
  shows "assessment_ok a"
  using assms unfolding run_safeguard_lane_def
  by (elim st_bind_returns)
    (clarsimp simp: in_lane_def lanes_assess_def Let_def split: prod.splits elim!: st_bind_returns; blast)

lemma run_recording_governed:
  assumes "run_recording env led f s = (Inr led', s')" "governed H led"
    and "\<And>n. records_well H (f (fresh_hex (env_drawn env) n) (clock_at (env_drawn env) n))"
  shows "governed H led'"
  using assms unfolding run_recording_def
  by (elim st_bind_returns) (auto simp: res_bind_eq_Inr records_well_def split: prod.splits)

lemma pass_gate_returns:
  assumes "pass_gate env obs i t route s = (Inr (f, led), s')" "lanes_assess env" "hex_supply (env_drawn env)"
  defines "q \<equiv> record_request t"
  shows "\<exists>n m. preflight_evaluate (env_floats env) (env_drawn env) n (env_policy env) q route (fact_safeguard f)
        = Inr (fact_preflight f)
     \<and> resolve_runtime_approval (env_rt env) (env_drawn env) m q (fact_preflight f) = Inr (fact_approval f)
     \<and> assessment_ok (fact_safeguard f) \<and> governed (env_hash env) led"
proof -
  have hex: "list_all is_lower_hex (fresh_hex (env_drawn env) n)" for n using assms(3) by (simp add: hex_supply_def)
  show ?thesis
    using assms(1) unfolding pass_gate_def Let_def q_def
    apply (elim st_bind_returns)
    apply (clarsimp elim!: st_bind_returns)
    apply (intro exI conjI, assumption, assumption)
     apply (erule run_safeguard_lane_returns [OF _ assms(2)])
    apply (rule run_recording_governed [OF _ run_recording_governed [OF _ governed_new]], assumption, assumption)
     apply (rule recordings_governed [OF hex])+
    done
qed

lemma capability_route_named: "capability_route_init r = Inr r \<Longrightarrow> \<not> blank (route_name r)"
  by (cases r) (auto simp: capability_route_init_def capability_name_def res_bind_eq_Inr Let_def blank_def lower_def
      split: if_splits)

lemma routed_named:
  assumes "switchboard_ok rs" "route_task rs q = Inr (Some route)"
  shows "\<not> blank (routed_name route)"
proof -
  obtain us r vs where r: "rs = us @ r # vs" "route = route_decision q r" using route_task_best [OF assms] by metis
  have "capability_route_init r = Inr r" using assms(1) unfolding r(1) switchboard_ok_def by simp
  from capability_route_named [OF this] show ?thesis by (simp add: r(2) route_decision_def)
qed

lemma pre_blocked_iff: "pre_blocked p \<longleftrightarrow> outcome_decision (pre_decision p) = GOV_BLOCK"
  by (cases "outcome_decision (pre_decision p)") (simp_all add: pre_blocked_def)

lemma pre_requires_review_iff: "pre_requires_review p \<longleftrightarrow> outcome_decision (pre_decision p) = GOV_REQUIRE_REVIEW"
  by (cases "outcome_decision (pre_decision p)") (simp_all add: pre_requires_review_def)

text \<open>What is known of a run that has passed the gate.\<close>

definition gate_ok :: "('l, 'w) run_env \<Rightarrow> task_request \<Rightarrow> run_facts \<Rightarrow> governance_ledger \<Rightarrow> bool" where
  "gate_ok env q f led \<longleftrightarrow> normal_preflight (fact_preflight f) \<and> governed (env_hash env) led
     \<and> outcome_decision (pre_decision (fact_preflight f)) = preflight_table (env_policy env) q (fact_safeguard f)
     \<and> resolution_required (fact_approval f) = pre_requires_review (fact_preflight f)
     \<and> resolution_satisfied (fact_approval f) = (pre_requires_review (fact_preflight f) \<longrightarrow>
          list_ex (approves (env_rt env)) (fst (approval_entries (task_metadata (task_input_of q)))))"

lemma intent_normal:
  assumes "hex_supply drawn"
  shows "tool_identifier label (''intent-'' @ fresh_hex drawn n) = Inr (''intent-'' @ fresh_hex drawn n)"
proof -
  have "list_all (\<lambda>c. lower_char c = c \<and> \<not> is_space c \<and> c \<noteq> CHR '' '') ''intent-''" by code_simp
  then show ?thesis using prefixed_normal [of "''intent-''" "fresh_hex drawn n" label] assms by (simp add: hex_supply_def)
qed

lemma pass_gate_ok:
  assumes "pass_gate env obs i t route s = (Inr (f, led), s')" "lanes_assess env" "hex_supply (env_drawn env)"
    and "\<not> blank (task_id (record_request t))" "\<not> blank (routed_name route)"
  shows "gate_ok env (record_request t) f led"
proof -
  let ?q = "record_request t"
  obtain n m where p: "preflight_evaluate (env_floats env) (env_drawn env) n (env_policy env) ?q route (fact_safeguard f)
        = Inr (fact_preflight f)"
    and r: "resolve_runtime_approval (env_rt env) (env_drawn env) m ?q (fact_preflight f) = Inr (fact_approval f)"
    and a: "assessment_ok (fact_safeguard f)" and led: "governed (env_hash env) led"
    using pass_gate_returns [OF assms(1-3)] by blast
  note pre = preflight_accepts [OF assms(3-5) a, of "env_floats env" n "env_policy env"]
  have normal: "normal_preflight (fact_preflight f)" using pre p intent_normal [OF assms(3)]
    by (auto simp: normal_preflight_def)
  show ?thesis using resolve_runtime_approval_accepts [OF normal, of "env_rt env" "env_drawn env" m ?q] r pre p led normal
    by (auto simp: gate_ok_def)
qed

text \<open>
  A run that has changed the world of packs has passed a gate that neither blocked the task nor left a
  review of it open; the decision is the one without any advice of a model, or a stricter one.
\<close>

lemma st_bind_state: "st_bind m g s = (r, s') \<Longrightarrow> (\<exists>e. m s = (Inl e, s')) \<or> (\<exists>x s1. m s = (Inr x, s1) \<and> g x s1 = (r, s'))"
  by (auto simp: st_bind_def split: prod.splits sum.splits)

lemma after_gate_pack_free: "pre_blocked (fact_preflight f) \<or> review_open f \<Longrightarrow> st_keeps same_pack_world (after_gate env t f led)"
proof -
  have "st_keeps same_pack_world (st_bind (draw_time env) (\<lambda>now. st_bind (st_lift (g now)) (\<lambda>t'.
      conclude env f \<lparr>end_task = t', end_pack = None, end_artifacts = [], end_executed = False\<rparr> led)))" for g
    by (intro pack_free)
  then show "pre_blocked (fact_preflight f) \<or> review_open f \<Longrightarrow> st_keeps same_pack_world (after_gate env t f led)"
    by (auto simp: after_gate_def)
qed

lemma execute_task_gate:
  assumes "execute_task env t s = (r, s')" "run_pack_world s' \<noteq> run_pack_world s"
    and "lanes_assess env" "hex_supply (env_drawn env)" "switchboard_ok (env_routes env)"
  shows "\<exists>f led. gate_ok env (classified env (record_request t)) f led
     \<and> \<not> pre_blocked (fact_preflight f) \<and> \<not> review_open f"
proof -
  note run = assms(1) [unfolded execute_task_def]
  obtain obs i t' route s1 where 1: "take_in env t s = (Inr (obs, i, t', route), s1)"
    and rest: "st_bind (pass_gate env obs i t' route) (\<lambda>(f, led). after_gate env t' f led) s1 = (r, s')"
    using st_bind_state [OF run] keepsD [OF take_in_pack_free] assms(2) by (fastforce simp: same_pack_world_def)
  have w1: "run_pack_world s1 = run_pack_world s" using keepsD [OF take_in_pack_free 1] by (simp add: same_pack_world_def)
  obtain f led s2 where 2: "pass_gate env obs i t' route s1 = (Inr (f, led), s2)" "after_gate env t' f led s2 = (r, s')"
    using st_bind_state [OF rest] keepsD [OF pass_gate_pack_free] assms(2) w1 by (fastforce simp: same_pack_world_def)
  have w2: "run_pack_world s2 = run_pack_world s"
    using keepsD [OF pass_gate_pack_free 2(1)] w1 by (simp add: same_pack_world_def)
  have open_gate: "\<not> pre_blocked (fact_preflight f) \<and> \<not> review_open f"
    using keepsD [OF after_gate_pack_free 2(2)] assms(2) w2 by (auto simp: same_pack_world_def)
  note taken = take_in_returns [OF 1]
  have "gate_ok env (record_request t') f led"
    using pass_gate_ok [OF 2(1) assms(3,4)] taken routed_named [OF assms(5)] by fastforce
  then show ?thesis using taken open_gate by auto
qed

end
