(* ===== verification/RunTotal.thy ===== *)
theory RunTotal
  imports RunGate
begin

text \<open>
  Every step of a run ends, for a task, lanes and a pack that keep to their duties. \<open>ends m s Q\<close> is total
  correctness: the step returns from the state and its result and state satisfy the postcondition. The
  rules go forward through a run, one for each kind of step.
\<close>

section \<open>Steps that end\<close>

definition ends :: "('s, 'a) st \<Rightarrow> 's \<Rightarrow> ('a \<Rightarrow> 's \<Rightarrow> bool) \<Rightarrow> bool" where
  "ends m s Q \<longleftrightarrow> (\<exists>x s'. m s = (Inr x, s') \<and> Q x s')"

lemma ends_bind: "ends m s P \<Longrightarrow> (\<And>x s'. P x s' \<Longrightarrow> ends (f x) s' Q) \<Longrightarrow> ends (st_bind m f) s Q"
  by (auto simp: ends_def st_bind_def)

lemma ends_return: "Q x s \<Longrightarrow> ends (st_return x) s Q"
  by (simp add: ends_def)

lemma ends_lift: "r = Inr x \<Longrightarrow> ends (f x) s Q \<Longrightarrow> ends (st_bind (st_lift r) f) s Q"
  by (simp add: ends_def st_bind_def)

lemma ends_get: "g s = Inr x \<Longrightarrow> ends (f x) s Q \<Longrightarrow> ends (st_bind (st_get g) f) s Q"
  by (simp add: ends_def st_bind_def)

lemma ends_step: "g s = Inr (x, s') \<Longrightarrow> ends (f x) s' Q \<Longrightarrow> ends (st_bind (st_step g) f) s Q"
  by (simp add: ends_def st_bind_def st_step_def)

lemma ends_mono: "ends m s P \<Longrightarrow> (\<And>x s'. P x s' \<Longrightarrow> Q x s') \<Longrightarrow> ends m s Q"
  by (auto simp: ends_def)

text \<open>What holds of the state all along: the traces have identifiers, the world and the loaded packs are known.\<close>

definition run_inv :: "'w \<Rightarrow> (string \<times> 'w loaded_pack) list \<Rightarrow> ('l, 'w) run_state \<Rightarrow> bool" where
  "run_inv w L s \<longleftrightarrow> run_pack_world s = w \<and> run_loaded s = L \<and> list_all (\<lambda>(_, r). \<not> blank (trace_id r)) (run_traces s)"

lemma list_all_dict_set: "list_all P d \<Longrightarrow> P (k, v) \<Longrightarrow> list_all P (dict_set k v d)"
  by (induction d) (auto simp: AList.update_def)

lemma trace_id_visible: "\<not> blank (''tr-'' @ x)"
  by (simp add: blank_Cons is_space_def code_point_def Let_def)

lemma ends_draw: "run_inv w L s \<Longrightarrow> (\<And>n s'. run_inv w L s' \<Longrightarrow> ends (f n) s' Q) \<Longrightarrow> ends (st_bind (draw_many k) f) s Q"
  by (rule ends_bind [where P = "\<lambda>_ s'. run_inv w L s'"]) (simp_all add: ends_def draw_many_def run_inv_def)

lemma ends_draw_id: "run_inv w L s \<Longrightarrow> (\<And>x s'. run_inv w L s' \<Longrightarrow> ends (f x) s' Q) \<Longrightarrow> ends (st_bind (draw_id env) f) s Q"
  by (rule ends_bind [where P = "\<lambda>_ s'. run_inv w L s'"])
    (simp_all add: ends_def draw_id_def st_bind_def draw_many_def run_inv_def)

lemma ends_draw_time: "run_inv w L s \<Longrightarrow> (\<And>x s'. run_inv w L s' \<Longrightarrow> ends (f x) s' Q) \<Longrightarrow> ends (st_bind (draw_time env) f) s Q"
  by (rule ends_bind [where P = "\<lambda>_ s'. run_inv w L s'"])
    (simp_all add: ends_def draw_time_def st_bind_def draw_many_def run_inv_def)

lemma ends_lane:
  assumes "run_inv w L s" "\<And>l. \<exists>x l'. m l = (Inr x, l') \<and> P x"
    and "\<And>x s'. run_inv w L s' \<Longrightarrow> P x \<Longrightarrow> ends (f x) s' Q"
  shows "ends (st_bind (in_lane m) f) s Q"
proof -
  obtain x l' where "m (run_lane_world s) = (Inr x, l')" "P x" using assms(2) by blast
  then have "ends (in_lane m) s (\<lambda>x s'. run_inv w L s' \<and> P x)"
    using assms(1) by (simp add: ends_def in_lane_def run_inv_def)
  then show ?thesis by (rule ends_bind) (use assms(3) in blast)
qed

lemma trace_ends:
  assumes "run_inv w L s" "\<not> blank cid" "\<not> blank stage" "\<not> blank message" "\<not> blank level"
  shows "ends (run_trace env cid stage message level source) s (\<lambda>_ s'. run_inv w L s')"
proof -
  let ?r = "\<lparr>trace_id = [], trace_correlation_id = cid, trace_stage = stage, trace_message = message,
            trace_level = level, trace_created_at = 0, trace_source = Some source, trace_tags = [], trace_data = []\<rparr>"
  show ?thesis unfolding run_trace_def
  proof (rule ends_draw [OF assms(1)])
    fix n s' assume s': "run_inv w L s'"
    obtain r where r: "append_trace (fresh_hex (env_drawn env) n) (clock_at (env_drawn env) n) ?r (run_traces s')
        = Inr (r, dict_set (''tr-'' @ fresh_hex (env_drawn env) n) r (run_traces s'))"
      using append_trace_accepts [of ?r] assms(2-5) by (simp, blast)
    then have "trace_id r = ''tr-'' @ fresh_hex (env_drawn env) n"
      by (auto simp: append_trace_def res_bind_eq_Inr Let_def)
    then have "run_inv w L (s'\<lparr>run_traces := dict_set (''tr-'' @ fresh_hex (env_drawn env) n) r (run_traces s')\<rparr>)"
      using s' trace_id_visible by (auto simp: run_inv_def intro!: list_all_dict_set)
    then show "ends (st_step (\<lambda>s. res_bind (append_trace (fresh_hex (env_drawn env) n) (clock_at (env_drawn env) n) ?r
        (run_traces s)) (\<lambda>(_, ts). Inr ((), s\<lparr>run_traces := ts\<rparr>)))) s' (\<lambda>_ s'. run_inv w L s')"
      using r by (simp add: ends_def st_step_def)
  qed
qed

lemma ends_trace:
  assumes "run_inv w L s" "\<not> blank cid" "\<not> blank stage" "\<not> blank message" "\<not> blank level"
    and "\<And>s'. run_inv w L s' \<Longrightarrow> ends (f ()) s' Q"
  shows "ends (st_bind (run_trace env cid stage message level source) f) s Q"
  by (rule ends_bind [OF trace_ends [OF assms(1-5)]]) (use assms(6) in simp)

lemma filter_traces: "\<not> blank tid \<Longrightarrow> filter_by_correlation tid ts = Inr (filter (\<lambda>r. trace_correlation_id r = strip tid) (map snd ts))"
  by (simp add: filter_by_correlation_def required_text_def blank_def)

lemma ends_task_traces:
  "\<not> blank tid \<Longrightarrow> (\<And>rs. ends (f rs) s Q) \<Longrightarrow> ends (st_bind (task_traces tid) f) s Q"
  by (simp add: ends_def st_bind_def task_traces_def filter_traces)

lemma ends_trace_ids:
  assumes "\<not> blank tid" "run_inv w L s" "\<And>ids. list_all (\<lambda>i. \<not> blank i) ids \<Longrightarrow> ends (f ids) s Q"
  shows "ends (st_bind (task_trace_ids tid) f) s Q"
proof -
  have "list_all (\<lambda>i. \<not> blank i) (map trace_id (filter (\<lambda>r. trace_correlation_id r = strip tid) (map snd (run_traces s))))"
    using assms(2) by (auto simp: run_inv_def list_all_iff)
  from assms(3) [OF this] show ?thesis
    by (simp add: ends_def st_bind_def task_trace_ids_def task_traces_def filter_traces [OF assms(1)])
qed

lemma ends_recording:
  assumes "run_inv w L s" "governed H led" "\<And>n. recorded led (g (fresh_hex (env_drawn env) n) (clock_at (env_drawn env) n))"
    and "\<And>n. records_well H (g (fresh_hex (env_drawn env) n) (clock_at (env_drawn env) n))"
    and "\<And>led' s'. run_inv w L s' \<Longrightarrow> governed H led' \<Longrightarrow> ends (f led') s' Q"
  shows "ends (st_bind (run_recording env led g) f) s Q"
proof -
  have "ends (run_recording env led g) s (\<lambda>led' s'. run_inv w L s' \<and> governed H led')"
    unfolding run_recording_def
  proof (rule ends_draw [OF assms(1)])
    fix n s' assume s': "run_inv w L s'"
    obtain x led' where x: "g (fresh_hex (env_drawn env) n) (clock_at (env_drawn env) n) led = Inr (x, led')"
      using assms(3) unfolding recorded_def by blast
    then have "governed H led'" using assms(2,4) by (auto simp: records_well_def)
    then show "ends (st_lift (res_bind (g (fresh_hex (env_drawn env) n) (clock_at (env_drawn env) n) led)
       (\<lambda>(_, led'). Inr led'))) s' (\<lambda>led' s'. run_inv w L s' \<and> governed H led')"
      using s' x by (simp add: ends_def)
  qed
  then show ?thesis by (rule ends_bind) (use assms(5) in blast)
qed

lemma ends_write:
  "run_inv w L s \<Longrightarrow> \<not> holds_other v \<Longrightarrow> (\<And>s'. run_inv w L s' \<Longrightarrow> ends (f ()) s' Q) \<Longrightarrow> ends (st_bind (write_document path v) f) s Q"
  by (rule ends_bind [where P = "\<lambda>_ s'. run_inv w L s'"]) (simp_all add: ends_def write_document_def st_step_def run_inv_def)

lemma subject_identifiers_Nil [simp]: "subject_identifiers label [] = Inr []"
  by (simp add: subject_identifiers_def)

lemma store_ends:
  assumes "run_inv w L s" "\<not> blank name" "\<not> blank kind"
  shows "ends (store_artifact env name path kind source meta) s (\<lambda>_ s'. run_inv w L s')"
  unfolding store_artifact_def
proof (rule ends_draw [OF assms(1)])
  fix n s' assume s': "run_inv w L s'"
  let ?a = "\<lparr>artifact_id = [], logical_name = name, artifact_path = env_resolve env path, artifact_type = kind,
            artifact_digest = None, artifact_created_at = 0, artifact_updated_at = 0, artifact_source = Some source,
            artifact_tags = [], artifact_metadata = meta\<rparr>"
  have "\<exists>x. upsert_artifact (fresh_hex (env_drawn env) n) (clock_at (env_drawn env) n) ?a (run_stored s') = Inr x"
    using subject_identifier_accepts [OF assms(2), of "''Artifact memory logical name''"]
      subject_identifier_accepts [OF assms(3), of "''Artifact memory artifact type''"]
    by (auto simp: upsert_artifact_def Let_def)
  then obtain a as where "upsert_artifact (fresh_hex (env_drawn env) n) (clock_at (env_drawn env) n) ?a (run_stored s')
      = Inr (a, as)" by force
  then show "ends (st_step (\<lambda>s. res_bind (upsert_artifact (fresh_hex (env_drawn env) n) (clock_at (env_drawn env) n) ?a
      (run_stored s)) (\<lambda>(_, as). Inr ((), s\<lparr>run_stored := as\<rparr>)))) s' (\<lambda>_ s'. run_inv w L s')"
    using s' by (simp add: ends_def st_step_def run_inv_def)
qed

lemma ends_store:
  assumes "run_inv w L s" "\<not> blank name" "\<not> blank kind" "\<And>s'. run_inv w L s' \<Longrightarrow> ends (f ()) s' Q"
  shows "ends (st_bind (store_artifact env name path kind source meta) f) s Q"
  by (rule ends_bind [OF store_ends [OF assms(1-3)]]) (use assms(4) in simp)

lemma ends_map:
  fixes s :: "('l, 'w) run_state"
  assumes "run_inv w L s" "\<And>x s. x \<in> set xs \<Longrightarrow> run_inv w L s \<Longrightarrow> ends (g x) s (\<lambda>y s'. run_inv w L s' \<and> P x y)"
  shows "ends (st_map g xs) s (\<lambda>ys s'. run_inv w L s' \<and> list_all2 P xs ys)"
  using assms
proof (induction xs arbitrary: s)
  case Nil
  then show ?case by (simp add: ends_def)
next
  case (Cons x xs)
  have "ends (g x) s (\<lambda>y s'. run_inv w L s' \<and> P x y)" using Cons.prems by simp
  then show ?case
  proof (simp, rule ends_bind)
    fix y and s' :: "('l, 'w) run_state" assume y: "run_inv w L s' \<and> P x y"
    have "ends (st_map g xs) s' (\<lambda>ys s'. run_inv w L s' \<and> list_all2 P xs ys)"
      using Cons.IH [of s'] Cons.prems(2) y by simp
    then show "ends (st_bind (st_map g xs) (\<lambda>ys. st_return (y # ys))) s' (\<lambda>ys s'. run_inv w L s' \<and> list_all2 P (x # xs) ys)"
      by (rule ends_bind) (use y in \<open>simp add: ends_return\<close>)
  qed
qed

end
