(* ===== verification/RunDocuments.thy ===== *)
theory RunDocuments
  imports RunTotal
begin

text \<open>
  The documents of a run are JSON, so they can be written: what the constructors of the run put into
  receipts, findings, issues and the report holds nothing that the encoder refuses.
\<close>

definition all_json :: "json dict \<Rightarrow> bool" where
  "all_json d \<longleftrightarrow> \<not> holds_other (JObj d)"

lemma holds_other_opt [simp]: "\<not> holds_other (json_opt v)"
  by (simp add: json_opt_def split: option.splits)

lemma holds_other_or_null [simp]: "holds_other (json_or_null g v) \<longleftrightarrow> (\<exists>x. v = Some x \<and> holds_other (g x))"
  by (simp add: json_or_null_def split: option.splits)

declare strs_plain [simp]

lemma strs_of_plain [simp]: "\<not> list_ex holds_other (map (JStr \<circ> g) xs)"
  by (auto simp: list_ex_iff)

lemma list_ex_map_plain: "(\<And>x. x \<in> set xs \<Longrightarrow> \<not> holds_other (g x)) \<Longrightarrow> \<not> list_ex holds_other (map g xs)"
  by (auto simp: list_ex_iff)

text \<open>Receipts: a chain that verifies has digests of its payloads, which are JSON.\<close>

lemma plain_digest_Inr: "plain_digest H v = Inr d \<Longrightarrow> \<not> holds_other v"
  by (simp add: plain_digest_def split: if_splits)

lemma governed_json:
  assumes "governed H led" "r \<in> set led"
  shows "\<not> holds_other (gov_receipt_dict rt r)"
  using assms
proof (induction rule: governed.induct)
  case (governed_append led fresh now intent event summary actor metadata r' led')
  note a = append_gov_receipt_Inr [OF governed_append(3,2)]
  have "\<not> holds_other (gov_payload r')" using plain_digest_Inr [OF a(5) [unfolded compute_gov_digest_def]] .
  then have "\<not> holds_other (gov_receipt_dict rt r')" by (simp add: gov_payload_def gov_receipt_dict_def)
  then show ?case using governed_append a(1) by auto
qed simp

lemma report_json:
  assumes "governed H led" "report_from_ledger H rt led intent path = Inr r" "list_all (\<lambda>v. \<not> holds_other v) brain"
  shows "\<not> holds_other (receipt_report_dict (r\<lparr>report_brain_receipts := brain\<rparr>))"
proof -
  have "report_records r = map (gov_receipt_dict rt) (gov_chain_of (report_intent_id r) led)
      \<or> (\<exists>i. report_records r = map (gov_receipt_dict rt) (gov_chain_of i led))"
    using assms(2) by (auto simp: report_from_ledger_def res_bind_eq_Inr)
  then have "\<not> list_ex holds_other (report_records r)"
    using governed_json [OF assms(1)] by (auto simp: gov_chain_of_def list_ex_iff)
  moreover have "\<not> list_ex holds_other brain" using assms(3) by (auto simp: list_ex_iff list_all_iff)
  ultimately show ?thesis by (simp add: receipt_report_dict_def)
qed

text \<open>The preflight.\<close>

lemma safeguard_dict_json: "\<not> holds_other (safeguard_dict fl a) \<Longrightarrow> all_json (safeguard_metadata a)"
  by (simp add: safeguard_dict_def all_json_def)

lemma build_ticket_metadata: "build_ticket fresh now i p d approvals meta = Inr t \<Longrightarrow> ticket_metadata t = meta"
  by (auto simp: build_ticket_def execution_ticket_init_def res_bind_eq_Inr split: if_splits)

lemma intent_create_metadata: "action_intent_create fresh now i = Inr i' \<Longrightarrow> intent_metadata i' = intent_metadata i"
  by (auto simp: action_intent_create_def res_bind_eq_Inr)

lemma preflight_json:
  assumes "preflight_evaluate fl drawn n pol q route assessment = Inr p"
    and "\<And>a. assessment = Some a \<Longrightarrow> all_json (safeguard_metadata a)"
  shows "\<not> holds_other (preflight_dict rt p)"
proof -
  let ?prompt = "lower (strip (task_prompt (task_input_of q)))"
  let ?kind = "derive_action_kind ?prompt (task_labels q)"
  obtain i where i: "action_intent_create (fresh_hex drawn n) (clock_at drawn n) (preflight_intent fl q route ?kind assessment)
      = Inr i" "pre_intent p = i"
    using assms(1) by (auto simp: preflight_evaluate_def Let_def res_bind_eq_Inr)
  have meta: "all_json (intent_metadata (pre_intent p))"
    using intent_create_metadata [OF i(1)] i(2) by (simp add: preflight_intent_def all_json_def)
  have ticket: "all_json (ticket_metadata (pre_ticket p))"
    using assms(1) by (auto simp: preflight_evaluate_def Let_def res_bind_eq_Inr all_json_def dest!: build_ticket_metadata
        split: option.splits)
  have same: "pre_assessment p = assessment"
    using assms(1) by (auto simp: preflight_evaluate_def Let_def res_bind_eq_Inr)
  show ?thesis using meta ticket assms(2) unfolding preflight_dict_def Let_def same
    by (auto simp: all_json_def merge_dict_def)
qed

lemma approval_json: "\<not> holds_other (approval_dict rt r)"
  by (auto simp: approval_dict_def Let_def intro!: list_ex_map_plain)

text \<open>The sentinel's default checks put the observation they read into their issues.\<close>

lemma sentinel_init_data: "sentinel_issue_init i = Inr i' \<Longrightarrow> issue_data i' = issue_data i"
  by (auto simp: sentinel_issue_init_def res_bind_eq_Inr)

lemma observation_json:
  assumes "list_all (\<lambda>d. all_json d) ds" "res_map (observation_issue code summary source details) ds = Inr msgs" "i \<in> set msgs"
  shows "all_json (issue_data i)"
proof -
  obtain d where d: "d \<in> set ds" "observation_issue code summary source details d = Inr i"
    using res_map_Inr_in [OF assms(2,3)] by blast
  then have "all_json d" using assms(1) by (simp add: list_all_iff)
  then show ?thesis using d(2) by (auto simp: observation_issue_def all_json_def dest: sentinel_init_data)
qed

lemma checks_json:
  assumes "list_all all_json (governance_observations (context_metadata ctx))"
    and "c \<in> set (default_sentinel_checks rt)" "run_check ctx c = Inr msgs" "i \<in> set msgs"
  shows "all_json (issue_data i)"
proof (cases "check_run c ctx")
  case (Inl e)
  then show ?thesis using assms(3,4)
    by (auto simp: run_check_def res_bind_eq_Inr check_failed_issue_def all_json_def dest!: sentinel_init_data)
next
  case (Inr found)
  then have r: "check_run c ctx = Inr msgs" using assms(3) by (simp add: run_check_def)
  have some: "list_all all_json (filter P (governance_observations (context_metadata ctx)))" for P
    using assms(1) by (auto simp: list_all_iff)
  consider "c = governance_check rt" | "c = approval_gate_check rt" | "c = task_trace_check"
    using assms(2) by (auto simp: default_sentinel_checks_def)
  then show ?thesis
  proof cases
    case 1
    then show ?thesis using r observation_json [OF some _ assms(4)] by (simp add: governance_check_def)
  next
    case 2
    then show ?thesis using r observation_json [OF some _ assms(4)] by (simp add: approval_gate_check_def)
  next
    case 3
    then have "\<exists>state summary messages. state_issue state summary messages = Inr i"
      using r assms(4) by (auto simp: task_trace_check_def Let_def res_bind_eq_Inr split: option.splits if_splits) blast+
    then show ?thesis by (auto simp: state_issue_def all_json_def dest!: sentinel_init_data)
  qed
qed

lemma sentinel_json:
  assumes "sentinel_evaluate (default_sentinel_checks rt) ctx = Inr r"
    and "list_all all_json (governance_observations (context_metadata ctx))"
  shows "\<not> holds_other (sentinel_dict rt' instant r)"
proof -
  obtain parts where p: "res_map (run_check ctx) (default_sentinel_checks rt) = Inr parts" "report_issues r = concat parts"
    using assms(1) by (auto simp: sentinel_evaluate_def res_bind_eq_Inr)
  have "all_json (issue_data i)" if i: "i \<in> set (report_issues r)" for i
  proof -
    obtain part where part: "part \<in> set parts" "i \<in> set part" using i p(2) by auto
    then obtain c where "c \<in> set (default_sentinel_checks rt)" "run_check ctx c = Inr part"
      using res_map_Inr_in [OF p(1)] by blast
    then show ?thesis using checks_json [OF assms(2)] part(2) by blast
  qed
  then show ?thesis by (auto simp: sentinel_dict_def all_json_def intro!: list_ex_map_plain)
qed

text \<open>The evaluation, the verification, the escalation.\<close>

lemma finding_init_data: "evaluation_finding_init g = Inr g' \<Longrightarrow> eval_data g' = eval_data g"
  by (auto simp: evaluation_finding_init_def res_bind_eq_Inr)

lemma finding_of_data: "Inr g = finding_of code severity summary data \<Longrightarrow> eval_data g = data"
  by (auto simp: finding_of_def dest: finding_init_data [OF sym])

lemma run_findings_json:
  assumes "Inr g \<in> set (run_findings fl f t artifacts checked)"
  shows "all_json (eval_data g)"
  using assms unfolding run_findings_def Let_def
  by (auto simp: all_json_def dest!: finding_of_data split: if_splits)

lemma evaluation_json:
  assumes "evaluate_run fl f t artifacts checked = Inr e"
  shows "\<not> holds_other (evaluation_dict rt fl instant e)"
proof -
  obtain gs where g: "res_map (\<lambda>x. x) (run_findings fl f t artifacts checked) = Inr gs" "evaluation_findings e = gs"
    using assms by (auto simp: evaluate_run_def Let_def res_bind_eq_Inr evaluation_result_init_def)
  have "all_json (eval_data h)" if h: "h \<in> set gs" for h
    using res_map_Inr_in [OF g(1) h] run_findings_json by auto
  then show ?thesis by (auto simp: evaluation_dict_def g(2) all_json_def intro!: list_ex_map_plain)
qed

lemma verification_json: "\<not> holds_other (verification_dict rt instant v)"
  by (auto simp: verification_dict_def intro!: list_ex_map_plain)

lemma reason_init_metadata: "reason_of t n summary meta = Inr r \<Longrightarrow> reason_metadata r = meta"
  by (auto simp: reason_of_def escalation_reason_init_def res_bind_eq_Inr split: if_splits)

lemma escalation_json:
  assumes "evaluate_escalation fl p budget f = Inr d"
  shows "\<not> holds_other (escalation_dict d)"
proof -
  obtain rs where r: "res_map (\<lambda>x. x) (escalation_reasons_of fl p f) = Inr rs" "escalation_reasons d = rs"
    using assms by (auto simp: evaluate_escalation_def Let_def res_bind_eq_Inr escalation_decision_init_def split: if_splits)
  have "all_json (reason_metadata x)" if x: "x \<in> set rs" for x
  proof -
    have "Inr x \<in> set (escalation_reasons_of fl p f)" using res_map_Inr_in [OF r(1) x] by auto
    then show ?thesis unfolding escalation_reasons_of_def confidence_reasons_def
      by (auto simp: all_json_def dest!: reason_init_metadata [OF sym] split: if_splits option.splits)
  qed
  then show ?thesis by (auto simp: escalation_dict_def r(2) all_json_def intro!: list_ex_map_plain)
qed

end
