(* ===== verification/RunVerdict.thy ===== *)
theory RunVerdict
  imports RunDocuments
begin

text \<open>
  The verdict on a run: what the default checks, the evaluation and the verification make of it.
\<close>

lemmas visible = blank_Cons is_space_def code_point_def

section \<open>The evaluation\<close>

definition finding_with :: "evaluation_severity \<Rightarrow> evaluation_finding res \<Rightarrow> bool" where
  "finding_with s x \<longleftrightarrow> (\<exists>g. x = Inr g \<and> eval_severity g = s)"

lemma finding_with_of:
  "\<not> blank code \<Longrightarrow> \<not> blank summary \<Longrightarrow> finding_with t (finding_of code severity summary data) \<longleftrightarrow> t = severity"
  using subject_identifier_accepts [of code "''Evaluation finding code''"]
  by (auto simp: finding_with_def finding_of_def evaluation_finding_init_def required_text_accepts)

lemma findings_res_map:
  "list_all (\<lambda>x. \<exists>s. finding_with s x) xs \<Longrightarrow>
     \<exists>gs. res_map (\<lambda>x. x) xs = Inr gs \<and> (\<forall>s. s \<in> set (map eval_severity gs) \<longleftrightarrow> list_ex (finding_with s) xs)"
proof (induction xs)
  case (Cons x xs)
  then obtain g where g: "x = Inr g" by (auto simp: finding_with_def)
  obtain gs where gs: "res_map (\<lambda>x. x) xs = Inr gs"
    "\<And>s. s \<in> set (map eval_severity gs) \<longleftrightarrow> list_ex (finding_with s) xs" using Cons by auto
  have "finding_with s x \<longleftrightarrow> s = eval_severity g" for s by (auto simp: g finding_with_def)
  then show ?case using gs g by auto
qed simp

text \<open>A run fails its evaluation when it was blocked or its task failed, and needs review when it was seen
  before or a review is open.\<close>

definition evaluation_table :: "run_facts \<Rightarrow> task_record \<Rightarrow> evaluation_status" where
  "evaluation_table f t =
     (if pre_blocked (fact_preflight f) \<or> task_state_of t = FAILED then EVAL_FAILED
      else if duplicate_detected (fact_replay f) \<or> review_open f then EVAL_NEEDS_REVIEW
      else EVAL_PASSED)"

lemma text_or_default_visible: "(\<And>m. v = Some m \<Longrightarrow> \<not> blank m) \<Longrightarrow> \<not> blank (text_or_default v)"
  by (auto simp: text_or_default_def visible Let_def split: option.splits)

lemma run_findings_severities:
  fixes fl :: float_texts and artifacts :: "string list"
  assumes rationale: "\<not> blank (outcome_rationale (pre_decision (fact_preflight f)))" and quiet: "\<not> bad_severity checked"
    and message: "\<And>m. task_error t = Some m \<Longrightarrow> \<not> blank m"
  defines "xs \<equiv> run_findings fl f t artifacts checked"
  shows "list_all (\<lambda>x. \<exists>s. finding_with s x) xs"
    and "list_ex (finding_with EVAL_ERROR) xs \<longleftrightarrow> evaluation_table f t = EVAL_FAILED"
    and "list_ex (finding_with EVAL_ERROR) xs \<or> list_ex (finding_with EVAL_WARNING) xs \<longleftrightarrow> evaluation_table f t \<noteq> EVAL_PASSED"
proof -
  note one = finding_with_of visible Let_def rationale quiet text_or_default_visible [OF message]
  have arts: "list_all (\<lambda>x. \<exists>s. finding_with s x) (map (\<lambda>a. finding_of ''artifact'' EVAL_INFO (''Produced artifact '' @ in_quotes a @ ''.'') []) artifacts)"
    "s \<noteq> EVAL_INFO \<Longrightarrow> \<not> list_ex (finding_with s) (map (\<lambda>a. finding_of ''artifact'' EVAL_INFO (''Produced artifact '' @ in_quotes a @ ''.'') []) artifacts)"
    for s
    by (auto simp: list_all_iff list_ex_iff one)
  show "list_all (\<lambda>x. \<exists>s. finding_with s x) xs"
    unfolding xs_def run_findings_def Let_def using arts(1) by (simp add: one)
  show "list_ex (finding_with EVAL_ERROR) xs \<longleftrightarrow> evaluation_table f t = EVAL_FAILED"
    unfolding xs_def run_findings_def Let_def using arts(2) [of EVAL_ERROR]
    by (simp add: one evaluation_table_def)
  show "list_ex (finding_with EVAL_ERROR) xs \<or> list_ex (finding_with EVAL_WARNING) xs \<longleftrightarrow> evaluation_table f t \<noteq> EVAL_PASSED"
    unfolding xs_def run_findings_def Let_def using arts(2) [of EVAL_ERROR] arts(2) [of EVAL_WARNING]
    by (simp add: one evaluation_table_def)
qed

lemma evaluate_run_decides:
  assumes "\<not> blank (outcome_rationale (pre_decision (fact_preflight f)))" "\<not> bad_severity checked"
    and "\<And>m. task_error t = Some m \<Longrightarrow> \<not> blank m"
  shows "\<exists>e. evaluate_run fl f t artifacts checked = Inr e \<and> evaluation_status_of e = evaluation_table f t"
proof -
  define xs where "xs = run_findings fl f t artifacts checked"
  note sev = run_findings_severities [where fl = fl and artifacts = artifacts and f = f and t = t and checked = checked, OF assms, folded xs_def]
  obtain gs where g: "res_map (\<lambda>x. x) xs = Inr gs" "\<And>s. s \<in> set (map eval_severity gs) \<longleftrightarrow> list_ex (finding_with s) xs"
    using findings_res_map [OF sev(1)] by blast
  have "status_from_findings gs = evaluation_table f t"
    unfolding status_from_findings_def Let_def g(2) using sev(2,3)
    by (cases "evaluation_table f t") auto
  moreover have "\<exists>n. subject_identifier ''Evaluation evaluator name'' ''runtime_run'' = Inr n"
    by (rule subject_identifier_accepts) (simp add: visible Let_def)
  moreover have "normalize_score (score_for_status st) = Inr (score_for_status st)" for st
    by (cases st) (simp_all add: normalize_score_def score_for_status_def)
  ultimately show ?thesis
    by (auto simp: evaluate_run_def xs_def [symmetric] g(1) Let_def evaluation_result_init_def)
qed

section \<open>The verification\<close>

lemma normalize_strings_accepts: "list_all (\<lambda>s. \<not> blank s) xs \<Longrightarrow> \<exists>ys. normalize_strings label xs = Inr ys"
proof -
  assume "list_all (\<lambda>s. \<not> blank s) xs"
  then have "\<exists>ys. res_map (required_text l) xs = Inr ys" for l
    by (induction xs) (auto simp: required_text_accepts)
  from this [of "''Output verification '' @ label"] show ?thesis unfolding normalize_strings_def by fastforce
qed

lemma run_signals_visible: "list_all (\<lambda>s. \<not> blank s) (run_signals f)"
  by (simp add: run_signals_def visible Let_def)

text \<open>Artifacts and signals are compared with themselves: only the evaluation, the chain and the approval count.\<close>

lemma run_verification:
  assumes "\<not> blank tid" "list_all (\<lambda>s. \<not> blank s) artifacts"
  shows "\<exists>v. res_bind (run_context f tid artifacts e verified) (verify_output fl) = Inr v
     \<and> verification_status_of v =
        (if evaluation_status_of e = EVAL_FAILED \<or> \<not> verified then VERIFY_FAILED
         else if evaluation_status_of e = EVAL_NEEDS_REVIEW
           \<or> resolution_required (fact_approval f) \<and> \<not> resolution_satisfied (fact_approval f) then VERIFY_NEEDS_REVIEW
         else VERIFY_PASSED)"
proof -
  obtain sid where sid: "subject_identifier ''Output verification subject id'' tid = Inr sid"
    using subject_identifier_accepts [OF assms(1)] by blast
  obtain ea pa rs os where n: "normalize_strings ''expected artifact'' artifacts = Inr ea"
    "normalize_strings ''produced artifact'' artifacts = Inr pa"
    "normalize_strings ''required signal'' (run_signals f) = Inr rs"
    "normalize_strings ''observed signal'' (run_signals f) = Inr os"
    using normalize_strings_accepts [OF assms(2)] normalize_strings_accepts [OF run_signals_visible] by metis
  have same: "set ys = strip ` set xs" if n: "normalize_strings label xs = Inr ys" for label xs ys
  proof -
    define l where "l = ''Output verification '' @ label"
    obtain zs where z: "res_map (required_text l) xs = Inr zs" "ys = uniq zs"
      using n unfolding normalize_strings_def l_def [symmetric] res_bind_eq_Inr by auto
    have "zs = map strip xs" using z(1)
      by (induction xs arbitrary: zs) (auto simp: res_bind_eq_Inr required_text_def split: if_splits)
    then show ?thesis by (simp add: z(2))
  qed
  define c where "c = \<lparr>verify_subject_id = sid, expected_artifacts = ea, produced_artifacts = pa,
      evaluation_results = [e], regression_report_of = None, required_signals = rs,
      observed_signals = os, chain_verified = Some verified,
      approval_required = resolution_required (fact_approval f),
      approval_satisfied = resolution_satisfied (fact_approval f)\<rparr>"
  have c: "run_context f tid artifacts e verified = Inr c"
    by (simp add: run_context_def verification_context_init_def sid n c_def)
  have "context_fails c \<longleftrightarrow> evaluation_status_of e = EVAL_FAILED \<or> \<not> verified"
    using same [OF n(1)] same [OF n(2)] same [OF n(3)] same [OF n(4)] by (simp add: context_fails_def c_def)
  moreover have "context_waits c \<longleftrightarrow> evaluation_status_of e = EVAL_NEEDS_REVIEW
      \<or> resolution_required (fact_approval f) \<and> \<not> resolution_satisfied (fact_approval f)"
    by (simp add: context_waits_def c_def)
  ultimately show ?thesis using verify_output_decides [of fl c] c by auto
qed

section \<open>The observations of a run\<close>

lemma decision_text: "optional_str rt (Some (JStr (governance_decision_value d))) = Some (governance_decision_value d)"
  by (cases d) (simp_all add: optional_str_def filled_or_none_def strip_def strip_by_def is_space_def code_point_def Let_def)

lemma observations_consistent:
  assumes "executed \<Longrightarrow> \<not> pre_blocked p \<and> (resolution_required r \<longrightarrow> resolution_satisfied r)"
  shows "list_all (consistent_observation rt) (governance_observations
     [(''governance_observations'', build_observations p r executed)])"
  using assms decision_text [of rt]
  by (auto simp: governance_observations_def build_observations_def Let_def consistent_observation_def coerce_bool_def
      pre_blocked_def List.map_filter_def)

lemma observations_json:
  "list_all all_json (governance_observations [(''governance_observations'', build_observations p r executed)])"
  by (simp add: governance_observations_def build_observations_def Let_def List.map_filter_def all_json_def)

end
