(* ===== verification/RunEnds.thy ===== *)
theory RunEnds
  imports RunVerdict
begin

text \<open>
  Whole runs: under the duties of the lanes and of the pack, a run ends in a report, and the report's
  status is a table of the decision, the approvals, what the pack did and whether the task was seen before.
\<close>

section \<open>The duties\<close>

text \<open>The lanes answer without an exception, with documents that are JSON and assessments as constructed.\<close>

definition lanes_answer :: "('l, 'w) run_env \<Rightarrow> bool" where
  "lanes_answer env \<longleftrightarrow>
     (\<forall>l. \<exists>st said doc l'. lane_readiness (env_lanes env) l = (Inr (st, said, doc), l') \<and> \<not> blank said \<and> \<not> holds_other doc)
     \<and> (\<forall>t route images question l. \<exists>out l'. lane_vision (env_lanes env) t route images question l = (Inr out, l')
          \<and> \<not> holds_other (outcome_document out))
     \<and> (\<forall>t route v l. \<exists>out a l'. lane_policy (env_lanes env) t route v l = (Inr (out, a), l')
          \<and> \<not> holds_other (json_or_null snd a))
     \<and> (\<forall>t route l. \<exists>out a l'. lane_safeguard (env_lanes env) t route l = (Inr (out, a), l')
          \<and> assessment_ok a \<and> \<not> holds_other (json_or_null (safeguard_dict (env_floats env)) a))
     \<and> (\<forall>t route name l. \<exists>out l'. lane_primary (env_lanes env) t route name l = (Inr out, l'))
     \<and> (\<forall>t route checked v d l. \<exists>out l'. lane_reasoning (env_lanes env) t route checked v d l = (Inr out, l')
          \<and> \<not> holds_other (outcome_document out))
     \<and> (\<forall>tid l. list_all (\<lambda>v. \<not> holds_other v) (lane_receipts (env_lanes env) tid l))"

lemma lanes_answer_assess: "lanes_answer env \<Longrightarrow> lanes_assess env"
  unfolding lanes_answer_def lanes_assess_def by (metis Inr_inject Pair_inject)

lemma blank_append [simp]: "blank (a @ b) \<longleftrightarrow> blank a \<and> blank b"
  by (auto simp: blank_iff)

lemma lane_trace_ends:
  assumes "run_inv w L s" "\<not> blank tid" "\<not> blank stage" "\<not> blank label" "\<not> blank completed"
  shows "ends (lane_trace env tid stage label source out completed) s (\<lambda>_ s'. run_inv w L s')"
  unfolding lane_trace_def planned_message_def failed_message_def
  using assms by (auto intro!: trace_ends simp: visible)

lemma advice_trace_ends:
  assumes "run_inv w L s" "\<not> blank tid" "\<not> blank stage" "\<not> blank label"
  shows "ends (advice_trace env tid stage label source out advice) s (\<lambda>_ s'. run_inv w L s')"
  unfolding advice_trace_def planned_message_def failed_message_def through_message_def
  using assms by (auto intro!: trace_ends simp: visible split: option.splits)

section \<open>Taking in, and the gate\<close>

lemma ends_lift_ex: "\<exists>x. r = Inr x \<and> P x \<Longrightarrow> (\<And>x. P x \<Longrightarrow> ends (f x) s Q) \<Longrightarrow> ends (st_bind (st_lift r) f) s Q"
  by (auto intro: ends_lift)

lemma ends_then: "ends m s P \<Longrightarrow> (\<And>x s'. P x s' \<Longrightarrow> ends (f x) s' Q) \<Longrightarrow> ends (st_bind m f) s Q"
  by (rule ends_bind)

lemma take_in_ends:
  assumes inv: "run_inv w L s" and q: "record_request t = q" "\<not> blank (task_id q)" "all_json (task_metadata (task_input_of q))"
    and t: "task_state_of t = PENDING" and route: "route_task (env_routes env) (classified env q) = Inr (Some route)"
  shows "ends (take_in env t) s (\<lambda>(obs, i, t', r) s'. run_inv w L s' \<and> r = route \<and> record_request t' = classified env q
     \<and> task_state_of t' = RUNNING \<and> (\<exists>g. observe_task (env_hash env) q (run_guard s) = Inr (obs, g)))"
proof -
  obtain obs g where obs: "observe_task (env_hash env) q (run_guard s) = Inr (obs, g)"
  proof -
    have "\<not> holds_other (fingerprint_payload q)"
      using q(3) by (auto simp: fingerprint_payload_def all_json_def list_ex_iff)
    then show thesis using that by (cases "observe_fingerprint (env_hash env (utf8 (spaced_text (sort_keys (fingerprint_payload q))))) (run_guard s)")
      (auto simp: observe_task_def fingerprint_task_def)
  qed
  obtain i where i: "infer_task (env_score env) (task_prompt (task_input_of q)) (task_labels q) = Inr i"
    using infer_task_total by blast
  have running: "\<exists>t'. res_bind (mark_ready t) (mark_running now) = Inr t' \<and> record_request t' = q \<and> task_state_of t' = RUNNING" for now
    using t q(1) by (simp add: mark_ready_def mark_running_def assert_transition_def)
  have known: "(if task_kind_of q = TASK_UNKNOWN \<and> inferred_kind i \<noteq> TASK_UNKNOWN then with_kind (inferred_kind i) t' else t')
      = t'\<lparr>record_request := classified env q\<rparr>" if "record_request t' = q" for t'
    using that i by (auto simp: classified_def with_kind_def)
  show ?thesis unfolding take_in_def Let_def q(1)
    apply (rule ends_step, simp add: obs)
    apply (rule ends_then [where P = "\<lambda>_. run_inv w L"])
     apply (use inv in \<open>auto simp: run_inv_def visible intro!: trace_ends ends_return q(2)\<close>) [1]
    apply (rule ends_draw_time, assumption)
    apply (rule ends_lift_ex [OF running])
    apply (rule ends_lift [OF i])
    apply (rule ends_trace, assumption, rule q(2), (simp add: visible; fail)+)
    apply (elim conjE, simp only: known)
    apply (rule ends_lift [where x = "Some route"], simp add: route)
    apply (unfold option.case)
    apply (rule ends_trace, assumption, rule q(2), (simp add: visible; fail)+)
    apply (rule ends_return)
    apply (auto simp: obs)
    done
qed

text \<open>What the report takes from the gate is JSON.\<close>

definition facts_json :: "('l, 'w) run_env \<Rightarrow> run_facts \<Rightarrow> bool" where
  "facts_json env f \<longleftrightarrow> \<not> holds_other (fact_readiness f)
     \<and> \<not> holds_other (json_or_null outcome_document (fact_vision f)) \<and> \<not> holds_other (json_or_null id (fact_advisory f))
     \<and> \<not> holds_other (json_or_null (safeguard_dict (env_floats env)) (fact_safeguard f))
     \<and> \<not> holds_other (preflight_dict (env_rt env) (fact_preflight f))"

lemma ends_vision:
  assumes "run_inv w L s" "\<not> blank (task_id (record_request t))" "lanes_answer env"
    and "\<And>v s'. run_inv w L s' \<Longrightarrow> \<not> holds_other (json_or_null outcome_document v) \<Longrightarrow> ends (g v) s' Q"
  shows "ends (st_bind (run_vision_lane env t route) g) s Q"
proof (rule ends_then)
  show "ends (run_vision_lane env t route) s (\<lambda>v s'. run_inv w L s' \<and> \<not> holds_other (json_or_null outcome_document v))"
  proof (cases "vision_images (env_rt env) (record_request t) = []")
    case True
    then show ?thesis using assms(1) by (simp add: run_vision_lane_def ends_def)
  next
    case False
    have lane: "\<exists>out l'. lane_vision (env_lanes env) t route images question l = (Inr out, l')
        \<and> \<not> holds_other (outcome_document out)" for images question l
      using assms(3) by (simp add: lanes_answer_def)
    show ?thesis unfolding run_vision_lane_def Let_def if_not_P [OF False]
      apply (rule ends_lane [OF assms(1) lane])
      apply (rule ends_then [OF lane_trace_ends], assumption, rule assms(2))
         apply (simp_all add: visible through_message_def ends_def)
      done
  qed
qed (use assms(4) in blast)

lemma ends_policy:
  assumes "run_inv w L s" "\<not> blank (task_id (record_request t))" "lanes_answer env"
    and "\<And>v s'. run_inv w L s' \<Longrightarrow> \<not> holds_other (json_or_null id v) \<Longrightarrow> ends (g v) s' Q"
  shows "ends (st_bind (run_policy_lane env t route vision) g) s Q"
proof (rule ends_then)
  have lane: "\<exists>x l'. lane_policy (env_lanes env) t route v l = (Inr x, l') \<and> \<not> holds_other (json_or_null snd (snd x))" for v l
    using assms(3) unfolding lanes_answer_def by (metis snd_conv)
  show "ends (run_policy_lane env t route vision) s (\<lambda>v s'. run_inv w L s' \<and> \<not> holds_other (json_or_null id v))"
    unfolding run_policy_lane_def
    apply (rule ends_lane [OF assms(1) lane])
    apply (clarsimp split: prod.splits)
    apply (rule ends_then [OF advice_trace_ends], assumption, rule assms(2))
      apply (auto simp: visible ends_def)
    done
qed (use assms(4) in blast)

lemma ends_safeguard:
  assumes "run_inv w L s" "\<not> blank (task_id (record_request t))" "lanes_answer env"
    and "\<And>a s'. run_inv w L s' \<Longrightarrow> assessment_ok a \<Longrightarrow> \<not> holds_other (json_or_null (safeguard_dict (env_floats env)) a)
      \<Longrightarrow> ends (g a) s' Q"
  shows "ends (st_bind (run_safeguard_lane env t route) g) s Q"
proof (rule ends_then)
  have lane: "\<exists>x l'. lane_safeguard (env_lanes env) t route l = (Inr x, l') \<and> assessment_ok (snd x)
      \<and> \<not> holds_other (json_or_null (safeguard_dict (env_floats env)) (snd x))" for l
    using assms(3) unfolding lanes_answer_def by (metis snd_conv)
  show "ends (run_safeguard_lane env t route) s (\<lambda>a s'. run_inv w L s' \<and> assessment_ok a
      \<and> \<not> holds_other (json_or_null (safeguard_dict (env_floats env)) a))"
    unfolding run_safeguard_lane_def
    apply (rule ends_lane [OF assms(1) lane])
    apply (clarsimp split: prod.splits)
    apply (rule ends_then [OF advice_trace_ends], assumption, rule assms(2))
      apply (auto simp: visible ends_def)
    done
qed (use assms(4) in blast)

lemma pass_gate_ends:
  assumes inv: "run_inv w L s" and q: "record_request t = q" "\<not> blank (task_id q)" and route: "\<not> blank (routed_name route)"
    and env: "hex_supply (env_drawn env)" "lanes_answer env"
  shows "ends (pass_gate env obs i t route) s (\<lambda>(f, led) s'. run_inv w L s' \<and> gate_ok env q f led \<and> facts_json env f
     \<and> fact_route f = route \<and> fact_replay f = obs)"
proof -
  have hex: "list_all is_lower_hex (fresh_hex (env_drawn env) n)" for n using env(1) by (simp add: hex_supply_def)
  have lane: "\<exists>x l'. lane_readiness (env_lanes env) l = (Inr x, l')
      \<and> (case x of (st, said, doc) \<Rightarrow> \<not> blank said \<and> \<not> holds_other doc)" for l
    using env(2) unfolding lanes_answer_def by (metis (mono_tags, lifting) case_prod_conv)
  have begin_lane: "\<exists>x l'. (\<lambda>l. (Inr (), lane_begin (env_lanes env) l)) l = (Inr x, l') \<and> True" for l by simp
  have q': "\<not> blank (task_id (record_request t))" using q by simp
  have level: "\<not> blank (readiness_level st)" for st by (cases st) (simp_all add: visible)
  have pre: "\<exists>p. preflight_evaluate (env_floats env) (env_drawn env) n (env_policy env) q route a = Inr p
      \<and> normal_preflight p \<and> outcome_decision (pre_decision p) = preflight_table (env_policy env) q a
      \<and> \<not> holds_other (preflight_dict (env_rt env) p)"
    if a: "assessment_ok a" "\<not> holds_other (json_or_null (safeguard_dict (env_floats env)) a)" for a n
  proof -
    obtain p where p: "preflight_evaluate (env_floats env) (env_drawn env) n (env_policy env) q route a = Inr p"
      "outcome_decision (pre_decision p) = preflight_table (env_policy env) q a"
      "intent_id (pre_intent p) = ''intent-'' @ fresh_hex (env_drawn env) n" "\<not> blank (outcome_rationale (pre_decision p))"
      using preflight_accepts [OF env(1) q(2) route a(1), of "env_floats env" n "env_policy env"] by blast
    have "\<not> holds_other (preflight_dict (env_rt env) p)"
      using preflight_json [OF p(1)] a(2) safeguard_dict_json by fastforce
    then show ?thesis using p intent_normal [OF env(1)] by (simp add: normal_preflight_def)
  qed
  have res: "\<exists>r. resolve_runtime_approval (env_rt env) (env_drawn env) m q p = Inr r
      \<and> resolution_required r = pre_requires_review p
      \<and> resolution_satisfied r = (pre_requires_review p \<longrightarrow>
          list_ex (approves (env_rt env)) (fst (approval_entries (task_metadata (task_input_of q)))))"
    if "normal_preflight p" for p m
    by (rule resolve_runtime_approval_accepts [OF that])
  show ?thesis
    unfolding pass_gate_def Let_def q(1)
    apply (rule ends_lane [OF inv lane])
    apply (clarsimp split: prod.splits)
    apply (rule ends_trace, assumption, rule q(2), simp add: visible, assumption, rule level)
    apply (rule ends_lane [OF _ begin_lane], assumption)
    apply (rule ends_vision [OF _ q' env(2)], assumption)
    apply (rule ends_policy [OF _ q' env(2)], assumption)
    apply (rule ends_safeguard [OF _ q' env(2)], assumption)
    apply (rule ends_draw, assumption)
    apply (rule ends_lift_ex [OF pre], assumption, assumption)
    apply (rule ends_draw, assumption)
    apply (rule ends_lift_ex [OF res], elim conjE, assumption)
    apply (rule ends_recording [OF _ governed_new], assumption)
      apply (rule recordings_accept [OF _ hex], elim conjE, assumption)
     apply (rule recordings_governed [OF hex])
    apply (rule ends_recording, assumption, assumption)
      apply (rule recordings_accept [OF _ hex], elim conjE, assumption)
     apply (rule recordings_governed [OF hex])
    apply (rule ends_trace, assumption, rule q(2), (simp add: visible; fail)+)
    apply (rule ends_return)
    apply (simp add: gate_ok_def facts_json_def)
    done
qed

end
