(* ===== verification/RunWhole.thy ===== *)
theory RunWhole
  imports RunEnds
begin

text \<open>
  The second half of a run ends, in a report whose status is a table of what is known of the run; and
  with the first half, so does the whole.
\<close>

section \<open>The escalation\<close>

lemma routed_confident:
  assumes "switchboard_ok rs" "route_task rs q = Inr (Some route)"
  shows "0 \<le> route_confidence route \<and> route_confidence route \<le> 1"
proof -
  obtain r us vs where "rs = us @ r # vs" "route = route_decision q r" using route_task_best [OF assms] by metis
  then have r: "route_confidence route = tier_confidence q r" by (simp add: route_decision_def)
  have "1 / 4 < label_confidence m n \<and> label_confidence m n < 1" for m n using label_confidence_bounds by blast
  then have "0 \<le> label_confidence m n \<and> label_confidence m n \<le> 1" for m n
    by (metis less_eq_rat_def less_trans zero_less_divide_1_iff zero_less_numeral)
  then show ?thesis by (simp add: r tier_confidence_def)
qed

text \<open>The hops a task asks for are read as a number, unless they are an infinite float.\<close>

definition hops_readable :: "task_request \<Rightarrow> bool" where
  "hops_readable q \<longleftrightarrow> dict_get (task_metadata (task_input_of q)) ''reasoning_escalation_hops'' \<noteq> Some JNonFinite"

lemma coerce_accepts: "v \<noteq> JNonFinite \<Longrightarrow> \<exists>i. coerce_non_negative_int rt v = Inr i \<and> 0 \<le> i"
  by (cases v) (auto simp: coerce_non_negative_int_def split: option.splits)

lemma escalation_message_visible: "\<not> blank (snd (escalation_message d))" "\<not> blank (fst (escalation_message d))"
  by (simp_all add: escalation_message_def Let_def visible)

lemma reasoning_ends:
  assumes inv: "run_inv w L s" and q: "\<not> blank (task_id (record_request t))" "hops_readable (record_request t)"
    and f: "0 \<le> route_confidence (fact_route f)" "route_confidence (fact_route f) \<le> 1"
    and p: "escalation_policy_init (env_escalation env) = Inr (env_escalation env)"
  shows "ends (evaluate_reasoning env f t checked v) s (\<lambda>d s'. run_inv w L s' \<and> \<not> holds_other (escalation_dict d))"
proof -
  have hops: "\<exists>i. coerce_non_negative_int (env_rt env)
      (dict_get_or (task_metadata (task_input_of (record_request t))) ''reasoning_escalation_hops'' (JInt 0)) = Inr i \<and> 0 \<le> i"
    using q(2) by (intro coerce_accepts) (auto simp: hops_readable_def dict_get_or_def split: option.splits)
  have d: "\<exists>d. evaluate_escalation (env_floats env) (env_escalation env) (env_budget env) g = Inr d \<and> \<not> holds_other (escalation_dict d)"
    if "facts_ok g" for g
    using evaluate_escalation_decides [OF p that] escalation_json by blast
  show ?thesis unfolding evaluate_reasoning_def Let_def
    apply (rule ends_lift_ex [OF hops])
    apply (rule ends_lift_ex [OF d], simp add: facts_ok_def f)
    apply (rule ends_then [where P = "\<lambda>_. run_inv w L"])
     apply (use inv q in \<open>auto intro!: trace_ends ends_return escalation_message_visible simp: visible\<close>) [1]
    apply (rule ends_return, simp)
    done
qed

lemma reasoning_lane_ends:
  assumes inv: "run_inv w L s" and q: "\<not> blank (task_id (record_request t))" and env: "lanes_answer env"
  shows "ends (run_reasoning_lane env f t checked v d) s (\<lambda>r s'. run_inv w L s' \<and> \<not> holds_other (json_or_null id r))"
proof (cases "should_escalate d")
  case False
  then show ?thesis using inv by (simp add: run_reasoning_lane_def ends_def)
next
  case True
  have lane: "\<exists>out l'. lane_reasoning (env_lanes env) t route checked v d l = (Inr out, l') \<and> \<not> holds_other (outcome_document out)"
    for route l using env by (simp add: lanes_answer_def)
  have escalates: "\<not> \<not> should_escalate d" using True by simp
  show ?thesis unfolding run_reasoning_lane_def if_not_P [OF escalates]
    apply (rule ends_lane [OF inv lane])
    apply (rule ends_then [OF lane_trace_ends], assumption, rule q)
       apply (simp_all add: visible through_message_def ends_def)
    done
qed

section \<open>Receipts, artifacts and the report\<close>

lemma persist_ends:
  assumes inv: "run_inv w L s" and tid: "\<not> blank tid" and led: "governed (env_hash env) led"
    and p: "normal_preflight (fact_preflight f)" and env: "lanes_answer env"
  shows "ends (persist_receipts env tid f led) s
     (\<lambda>r s'. run_inv w L s' \<and> report_chain_verified r \<and> \<not> holds_other (receipt_report_dict r))"
proof -
  let ?path = "receipts_file env tid"
  have "tool_identifier ''intent_id'' (intent_id (pre_intent (fact_preflight f))) = Inr (intent_id (pre_intent (fact_preflight f)))"
    using p tool_identifier_normal by (auto simp: normal_preflight_def)
  from report_from_ledger_verified [OF led this, of "env_rt env" "Some ?path"]
  obtain bare where bare: "report_from_ledger (env_hash env) (env_rt env) led (intent_id (pre_intent (fact_preflight f)))
      (Some ?path) = Inr bare" "report_chain_verified bare" by blast
  have json: "\<not> holds_other (receipt_report_dict (bare\<lparr>report_brain_receipts := lane_receipts (env_lanes env) tid l\<rparr>))" for l
    using report_json [OF led bare(1)] env by (simp add: lanes_answer_def)
  show ?thesis unfolding persist_receipts_def Let_def
    apply (rule ends_lift [OF bare(1)])
    apply (rule ends_get, rule refl)
    apply (rule ends_write [OF inv json])
    apply (rule ends_store, assumption, (simp add: visible; fail)+)
    apply (rule ends_trace, assumption, rule tid, (simp add: visible; fail)+)
    apply (rule ends_return)
    apply (simp add: bare(2) json)
    done
qed

lemma evidence_strings_accept: "list_all (\<lambda>s. \<not> blank s) xs \<Longrightarrow> \<exists>ys. evidence_strings label xs = Inr ys"
proof -
  assume "list_all (\<lambda>s. \<not> blank s) xs"
  then have "\<exists>ys. res_map (required_text l) xs = Inr ys" for l
    by (induction xs) (auto simp: required_text_accepts)
  from this [of "''Evaluation evidence '' @ label"] show ?thesis unfolding evidence_strings_def by fastforce
qed

lemma record_artifact_ends:
  fixes s :: "('l, 'w) run_state"
  assumes inv: "run_inv w L s" and tid: "\<not> blank tid" and a: "\<not> blank (fst a)"
  shows "ends (record_artifact env tid a) s (\<lambda>_ s'. run_inv w L s')"
proof -
  have accepts: "\<exists>x. record_evidence fresh now \<lparr>evidence_id = [], evidence_subject_id = tid, evidence_type = ''artifact'',
      evidence_summary = ''Produced runtime artifact '' @ fst a @ ''.'', evidence_created_at = 0,
      evidence_source = Some ''runtime.orchestrator'', evidence_artifact_refs = [fst a], evidence_trace_ids = ids,
      evidence_metadata = [(''artifact_path'', JStr (snd a))]\<rparr> es = Inr x"
    if ids: "list_all (\<lambda>i. \<not> blank i) ids" for fresh now ids es
  proof -
    obtain sid kind refs tids where "subject_identifier ''Evaluation evidence subject id'' tid = Inr sid"
      "subject_identifier ''Evaluation evidence evidence type'' ''artifact'' = Inr kind"
      "evidence_strings ''artifact reference'' [fst a] = Inr refs" "evidence_strings ''trace id'' ids = Inr tids"
      using subject_identifier_accepts [OF tid] subject_identifier_accepts [of "''artifact''"]
        evidence_strings_accept [of "[fst a]"] evidence_strings_accept [OF ids] a
      by (simp add: visible Let_def) metis
    then show ?thesis by (simp add: record_evidence_def required_text_accepts visible Let_def)
  qed
  show ?thesis unfolding record_artifact_def
  proof (rule ends_trace_ids [OF tid inv], rule ends_draw [OF inv])
    fix ids n and s' :: "('l, 'w) run_state" assume ids: "list_all (\<lambda>i. \<not> blank i) ids" and s': "run_inv w L s'"
    obtain e es where e: "record_evidence (fresh_hex (env_drawn env) n) (clock_at (env_drawn env) n)
        \<lparr>evidence_id = [], evidence_subject_id = tid, evidence_type = ''artifact'',
         evidence_summary = ''Produced runtime artifact '' @ fst a @ ''.'', evidence_created_at = 0,
         evidence_source = Some ''runtime.orchestrator'', evidence_artifact_refs = [fst a], evidence_trace_ids = ids,
         evidence_metadata = [(''artifact_path'', JStr (snd a))]\<rparr> (run_evidence s') = Inr (e, es)"
      using accepts [OF ids] by force
    have "run_inv w L (s'\<lparr>run_evidence := es\<rparr>)" using s' by (simp add: run_inv_def)
    then show "ends (st_bind (st_step (\<lambda>s. res_bind (record_evidence (fresh_hex (env_drawn env) n) (clock_at (env_drawn env) n)
           \<lparr>evidence_id = [], evidence_subject_id = tid, evidence_type = ''artifact'',
            evidence_summary = ''Produced runtime artifact '' @ fst a @ ''.'', evidence_created_at = 0,
            evidence_source = Some ''runtime.orchestrator'', evidence_artifact_refs = [fst a],
            evidence_trace_ids = ids, evidence_metadata = [(''artifact_path'', JStr (snd a))]\<rparr> (run_evidence s))
         (\<lambda>(e, es). Inr (evidence_id e, s\<lparr>run_evidence := es\<rparr>)))) (\<lambda>eid.
       st_bind (store_artifact env (fst a) (snd a) ''runtime_artifact'' ''runtime.orchestrator'' [(''task_id'', JStr tid)])
         (\<lambda>_. st_return eid))) s' (\<lambda>_ s'. run_inv w L s')"
      by (intro ends_step [where s' = "s'\<lparr>run_evidence := es\<rparr>" and x = "evidence_id e"] ends_store ends_return;
          (simp only: e res_bind_Inr prod.case; fail)?)
        (simp_all add: a visible Let_def)
  qed
qed

lemma report_document:
  assumes "facts_json env f" "\<not> holds_other (receipt_report_dict receipts)" "\<not> holds_other (json_or_null id reasoning)"
    "\<not> holds_other (sentinel_dict (env_rt env) (snd checked) (fst checked))"
    "\<not> holds_other (evaluation_dict (env_rt env) (env_floats env) (snd evaluated) (fst evaluated))"
    "\<not> holds_other (escalation_dict d)"
    and "run_evaluation r = fst evaluated" "run_evaluated_at r = snd evaluated" "run_sentinel r = fst checked"
      "run_checked_at r = snd checked" "run_escalation r = d" "run_receipts r = receipts" "run_reasoning r = reasoning"
      "run_readiness r = fact_readiness f" "run_vision r = map_option outcome_document (fact_vision f)"
      "run_policy_advisory r = fact_advisory f" "run_safeguard r = fact_safeguard f" "run_preflight r = fact_preflight f"
  shows "\<not> holds_other (run_report_dict (env_rt env) (env_floats env) r)"
proof -
  have "\<not> holds_other (route_dict fl x)" "\<not> holds_other (inference_dict fl y)" "\<not> holds_other (replay_dict z)" for fl x y z
    by (simp_all add: route_dict_def inference_dict_def replay_dict_def)
  moreover have "\<not> list_ex (\<lambda>kv. holds_other (snd kv)) (map (map_prod id JStr) xs)" for xs :: "(string \<times> string) list"
    by (auto simp: list_ex_iff)
  ultimately show ?thesis using assms(1-6) verification_json approval_json
    by (auto simp: run_report_dict_def facts_json_def assms(7-18))
qed

lemma finalize_ends:
  fixes s :: "('l, 'w) run_state"
  assumes inv: "run_inv w L s" and tid: "\<not> blank (task_id (record_request (end_task e)))"
    and led: "governed (env_hash env) led" and p: "normal_preflight (fact_preflight f)"
    and env: "lanes_answer env" "hex_supply (env_drawn env)" and files: "list_all (\<lambda>a. \<not> blank (fst a)) (end_artifacts e)"
    and json: "facts_json env f" "\<not> holds_other (json_or_null id reasoning)"
      "\<not> holds_other (sentinel_dict (env_rt env) (snd checked) (fst checked))"
      "\<not> holds_other (evaluation_dict (env_rt env) (env_floats env) (snd evaluated) (fst evaluated))"
      "\<not> holds_other (escalation_dict d)"
  shows "ends (finalize_run env f e led checked evaluated verified d reasoning) s
     (\<lambda>r s'. run_inv w L s' \<and> run_status_of r = status_from_reports (fst verified) (fst checked)
        \<and> report_chain_verified (run_receipts r) \<and> run_preflight r = fact_preflight f \<and> run_approval r = fact_approval f
        \<and> run_safeguard r = fact_safeguard f
        \<and> run_replay r = fact_replay f \<and> run_task_id r = task_id (record_request (end_task e)) \<and> run_pack_name r = end_pack e)"
proof -
  have hex: "list_all is_lower_hex (fresh_hex (env_drawn env) n)" for n using env(2) by (simp add: hex_supply_def)
  have arts: "ends (st_map (record_artifact env tid') (end_artifacts e)) s (\<lambda>ys s'. run_inv w L s')"
    if "run_inv w L s" "\<not> blank tid'" for tid' and s :: "('l, 'w) run_state"
  proof (rule ends_mono)
    show "ends (st_map (record_artifact env tid') (end_artifacts e)) s
      (\<lambda>ys s'. run_inv w L s' \<and> list_all2 (\<lambda>_ _. True) (end_artifacts e) ys)"
    proof (rule ends_map [OF that(1)])
      fix a and s' :: "('l, 'w) run_state" assume a: "a \<in> set (end_artifacts e)" "run_inv w L s'"
      have "\<not> blank (fst a)" using files a(1) by (auto simp: list_all_iff)
      from record_artifact_ends [OF a(2) that(2) this]
      show "ends (record_artifact env tid' a) s' (\<lambda>y s'. run_inv w L s' \<and> True)" by simp
    qed
  qed simp
  show ?thesis unfolding finalize_run_def Let_def
    apply (rule ends_recording [OF inv led])
      apply (rule recordings_accept [OF p hex])
     apply (rule recordings_governed [OF hex])
    apply (rule ends_then [OF persist_ends [OF _ tid _ p env(1)]], assumption, assumption)
    apply (elim conjE)
    apply (rule ends_then [OF arts [OF _ tid]], assumption)
    apply (rule ends_draw_id, assumption)
    apply (rule ends_trace_ids [OF tid], assumption)
    apply (rule ends_write, assumption)
     apply (rule report_document [OF json(1) _ json(2-5)], assumption, simp_all) [1]
    apply (rule ends_trace, assumption, rule tid, (simp add: visible; fail)+)
    apply (rule ends_return)
    apply simp
    done
qed

end
