(* ===== verification/RunOutcome.thy ===== *)
theory RunOutcome
  imports RunWhole
begin

text \<open>
  A run ends in a report: what the report says, and what became of the world of packs.
\<close>

section \<open>The conclusion\<close>

text \<open>A runtime as it is set up: identifiers are hexadecimal, the lanes answer, the routes are constructed, the checks are the
  default ones and the escalation policy is constructed.\<close>

definition run_duties :: "('l, 'w) run_env \<Rightarrow> bool" where
  "run_duties env \<longleftrightarrow> hex_supply (env_drawn env) \<and> lanes_answer env \<and> switchboard_ok (env_routes env)
     \<and> env_checks env = default_sentinel_checks (env_rt env)
     \<and> escalation_policy_init (env_escalation env) = Inr (env_escalation env)"

fun status_for :: "evaluation_status \<Rightarrow> run_status" where
  "status_for EVAL_PASSED = RUN_PASSED"
| "status_for EVAL_FAILED = RUN_FAILED"
| "status_for EVAL_NEEDS_REVIEW = RUN_NEEDS_REVIEW"

lemma status_for_verified:
  assumes "\<not> bad_severity checked" "x = EVAL_PASSED \<Longrightarrow> \<not> waits"
    and "verification_status_of v = (if x = EVAL_FAILED \<or> \<not> True then VERIFY_FAILED
      else if x = EVAL_NEEDS_REVIEW \<or> waits then VERIFY_NEEDS_REVIEW else VERIFY_PASSED)"
  shows "status_from_reports v checked = status_for x"
  using assms by (cases x) (simp_all add: status_from_reports_def)

definition run_report_ok :: "run_facts \<Rightarrow> run_end \<Rightarrow> run_report \<Rightarrow> bool" where
  "run_report_ok f e r \<longleftrightarrow> run_status_of r = status_for (evaluation_table f (end_task e))
     \<and> report_chain_verified (run_receipts r) \<and> run_preflight r = fact_preflight f \<and> run_approval r = fact_approval f
     \<and> run_safeguard r = fact_safeguard f
     \<and> run_replay r = fact_replay f \<and> run_task_id r = task_id (record_request (end_task e)) \<and> run_pack_name r = end_pack e"

text \<open>What is known of a run that is past the gate.\<close>

definition run_passed :: "('l, 'w) run_env \<Rightarrow> task_request \<Rightarrow> run_facts \<Rightarrow> governance_ledger \<Rightarrow> bool" where
  "run_passed env q f led \<longleftrightarrow> run_duties env \<and> gate_ok env q f led \<and> facts_json env f
     \<and> \<not> blank (task_id q) \<and> hops_readable q \<and> 0 \<le> route_confidence (fact_route f) \<and> route_confidence (fact_route f) \<le> 1"

lemma conclude_ends:
  fixes env :: "('l, 'w) run_env"
  assumes inv: "run_inv w L s" and passed: "run_passed env q f led" and led: "governed (env_hash env) led'"
    and req: "record_request (end_task e) = q" and files: "list_all (\<lambda>a. \<not> blank (fst a)) (end_artifacts e)"
    and message: "\<And>m. task_error (end_task e) = Some m \<Longrightarrow> \<not> blank m"
    and executed: "end_executed e \<Longrightarrow> \<not> pre_blocked (fact_preflight f) \<and> \<not> review_open f"
  shows "ends (conclude env f e led') s (\<lambda>r s'. run_inv w L s' \<and> run_report_ok f e r)"
proof -
  let ?p = "fact_preflight f" and ?t = "end_task e" and ?names = "map fst (end_artifacts e)"
  have d: "hex_supply (env_drawn env)" "lanes_answer env" "env_checks env = default_sentinel_checks (env_rt env)"
      "escalation_policy_init (env_escalation env) = Inr (env_escalation env)"
    and g: "normal_preflight ?p" "resolution_required (fact_approval f) = pre_requires_review ?p"
    and q: "record_request (end_task e) = q" "\<not> blank (task_id q)" "hops_readable q"
    and conf: "0 \<le> route_confidence (fact_route f)" "route_confidence (fact_route f) \<le> 1" and json: "facts_json env f"
    using passed req by (auto simp: run_passed_def run_duties_def gate_ok_def)
  have p: "normal_preflight ?p" "\<not> blank (outcome_rationale (pre_decision ?p))" using g by (auto simp: normal_preflight_def)
  have iid: "tool_identifier ''intent_id'' (intent_id (pre_intent ?p)) = Inr (intent_id (pre_intent ?p))"
    using p tool_identifier_normal by (auto simp: normal_preflight_def)
  have chain: "verify_intent_chain (env_hash env) led' (intent_id (pre_intent ?p)) = Inr True"
    using governed_verified [OF led] iid by (simp add: verify_intent_chain_def gov_verified_def)
  have obs: "list_all (consistent_observation (env_rt env)) (governance_observations
      [(''governance_observations'', build_observations ?p (fact_approval f) (end_executed e))])"
    by (rule observations_consistent) (use executed g in \<open>auto simp: review_open_def\<close>)
  have checked: "\<exists>c. sentinel_evaluate (env_checks env) \<lparr>context_task = Some ?t, context_messages = ms,
        context_metadata = [(''governance_observations'', build_observations ?p (fact_approval f) (end_executed e))]\<rparr> = Inr c
      \<and> \<not> bad_severity c \<and> (\<forall>now. \<not> holds_other (sentinel_dict (env_rt env) now c))" for ms
  proof -
    let ?ctx = "\<lparr>context_task = Some ?t, context_messages = ms,
        context_metadata = [(''governance_observations'', build_observations ?p (fact_approval f) (end_executed e))]\<rparr>"
    obtain c where c: "sentinel_evaluate (default_sentinel_checks (env_rt env)) ?ctx = Inr c"
      using sentinel_evaluate_accepts by blast
    then show ?thesis using default_checks_quiet [OF _ c] sentinel_json [OF c] obs observations_json d by simp
  qed
  have evaluated: "\<exists>x. evaluate_run (env_floats env) f ?t ?names c = Inr x \<and> evaluation_status_of x = evaluation_table f ?t
      \<and> (\<forall>now. \<not> holds_other (evaluation_dict (env_rt env) (env_floats env) now x))" if "\<not> bad_severity c" for c
    using evaluate_run_decides [OF p(2) that message, where artifacts = ?names and fl = "env_floats env"] evaluation_json
    by blast
  have names: "list_all (\<lambda>s. \<not> blank s) ?names" using files by (simp add: list_all_iff)
  have verified: "\<exists>v. res_bind (run_context f (task_id q) ?names x True) (verify_output (env_floats env)) = Inr v
      \<and> status_from_reports v c = status_for (evaluation_table f ?t)"
    if x: "evaluation_status_of x = evaluation_table f ?t" and c: "\<not> bad_severity c" for x c
  proof -
    have calm: "evaluation_table f ?t = EVAL_PASSED \<Longrightarrow> \<not> (resolution_required (fact_approval f) \<and> \<not> resolution_satisfied (fact_approval f))"
      using g by (auto simp: evaluation_table_def review_open_def split: if_splits)
    show ?thesis using run_verification [OF q(2) names, of f x True "env_floats env"] status_for_verified [OF c calm]
      by (auto simp: x)
  qed
  show ?thesis unfolding conclude_def Let_def q(1)
    apply (rule ends_task_traces [OF q(2)])
    apply (rule ends_lift_ex [OF checked], elim conjE)
    apply (rule ends_draw_time [OF inv])
    apply (rule ends_lift_ex [OF evaluated], assumption, elim conjE)
    apply (rule ends_draw_time, assumption)
    apply (rule ends_lift [OF chain])
    apply (rule ends_lift_ex [OF verified], assumption, assumption)
    apply (rule ends_draw_time, assumption)
    apply (rule ends_then [OF reasoning_ends], assumption)
         apply (use q conf d in simp_all) [5]
    apply (elim conjE)
    apply (rule ends_then [OF reasoning_lane_ends], assumption)
      apply (use q d in simp_all) [2]
    apply (elim conjE)
    apply (rule ends_mono, rule finalize_ends, assumption)
              apply (use q d led p files json in simp_all)
    apply (simp add: run_report_ok_def q(1))
    done
qed

section \<open>The pack\<close>

text \<open>The pack of a route is loaded already, or its manifest is registered and it can be loaded.\<close>

definition found_pack :: "('l, 'w) run_env \<Rightarrow> (string \<times> 'w loaded_pack) list \<Rightarrow> string \<Rightarrow> 'w loaded_pack \<Rightarrow> bool" where
  "found_pack env L name k \<longleftrightarrow> (\<exists>m. get_pack name (env_manifests env) = Inr (Some m)
     \<and> (case dict_get L (manifest_pack_name m) of Some k' \<Rightarrow> k' = k | None \<Rightarrow> env_load env m = Inr k))"

text \<open>A pack returns a result as its constructor makes it, with JSON in it, or raises with a message that can be recorded.\<close>

definition pack_answers :: "'w loaded_pack \<Rightarrow> bool" where
  "pack_answers k \<longleftrightarrow> (\<forall>ctx t w. case fst (loaded_execute k ctx t w) of
       Inl x \<Rightarrow> \<not> blank (error_text x)
     | Inr r \<Rightarrow> pack_result_init r = Inr r \<and> \<not> holds_other (pack_data r) \<and> all_json (pack_metrics r))"

lemma clean_refs_visible: "clean_refs xs = xs \<Longrightarrow> x \<in> set xs \<Longrightarrow> \<not> blank x"
proof -
  assume "clean_refs xs = xs" "x \<in> set xs"
  then have "x \<in> set (clean_refs xs)" by simp
  then obtain y where "x = strip y" "x \<noteq> []" by (auto simp: clean_refs_def)
  then have "strip x = x" "x \<noteq> []" using strip_by_trimmed_id [OF trimmed_strip_by, of is_space y] by (auto simp: strip_def)
  then show "\<not> blank x" by (simp add: blank_def)
qed

lemma json_dict_set: "all_json d \<Longrightarrow> \<not> holds_other v \<Longrightarrow> all_json (dict_set k v d)"
  unfolding all_json_def by (induction d) auto

lemma json_dict_del: "all_json d \<Longrightarrow> all_json (dict_del k d)"
  unfolding all_json_def by (auto simp: list_ex_iff AList.delete_eq)

lemma json_dict_get: "all_json d \<Longrightarrow> dict_get d k = Some v \<Longrightarrow> \<not> holds_other v"
  unfolding all_json_def by (fastforce simp: list_ex_iff dest: map_of_SomeD)

lemma payload_json:
  assumes "\<not> holds_other (pack_data r)" "all_json (pack_metrics r)"
  shows "\<not> holds_other (JObj (artifact_payload name pack t r))"
proof -
  have given: "all_json (case pack_data r of JObj d \<Rightarrow> d | _ \<Rightarrow> [])" (is "all_json ?given")
    using assms(1) by (cases "pack_data r") (simp_all add: all_json_def)
  have "all_json (set_default k v d)" if "all_json d" "\<not> holds_other v" for k v d
    using that by (simp add: set_default_def json_dict_set)
  moreover have "all_json (case dict_get ?given ''pack'' of
              Some v \<Rightarrow> if dict_get ?given ''pack_name'' = None
                then dict_set ''pack_name'' v (dict_del ''pack'' ?given) else ?given
            | None \<Rightarrow> ?given)"
    using given json_dict_get [OF given] by (auto intro: json_dict_set json_dict_del split: option.split)
  ultimately have "all_json (artifact_payload name pack t r)"
    using assms(2) unfolding artifact_payload_def Let_def by (simp add: all_json_def)
  then show ?thesis by (simp add: all_json_def)
qed

lemma ends_load:
  assumes "run_inv w L s" "found_pack env L name k" "get_pack name (env_manifests env) = Inr (Some m)"
    and "\<And>L' s'. run_inv w L' s' \<Longrightarrow> ends (g k) s' Q"
  shows "ends (st_bind (load_pack env m) g) s Q"
proof -
  have L: "run_loaded s = L" using assms(1) by (simp add: run_inv_def)
  have "ends (load_pack env m) s (\<lambda>k' s'. k' = k \<and> (\<exists>L'. run_inv w L' s'))"
    using assms(1-3) by (auto simp: load_pack_def ends_def st_step_def found_pack_def L run_inv_def split: option.splits)
  then show ?thesis by (rule ends_bind) (use assms(4) in blast)
qed

lemma ends_materialize:
  fixes s :: "('l, 'w) run_state"
  assumes "run_inv w L s" "pack_result_init r = Inr r" "\<not> holds_other (pack_data r)" "all_json (pack_metrics r)"
    and "\<And>files s'. run_inv w L s' \<Longrightarrow> list_all (\<lambda>a. \<not> blank (fst a)) files \<Longrightarrow> ends (g files) s' Q"
  shows "ends (st_bind (materialize env t pack r) g) s Q"
proof -
  have names: "\<not> blank n" if "n \<in> set (pack_artifacts r)" for n
    using assms(2) clean_refs_visible [OF _ that] by (cases r) (auto simp: pack_result_init_def split: if_splits)
  have "ends (materialize env t pack r) s (\<lambda>files s'. run_inv w L s' \<and> list_all2 (\<lambda>n a. \<not> blank (fst a)) (pack_artifacts r) files)"
    unfolding materialize_def Let_def
    by (rule ends_map [OF assms(1)], rule ends_write, assumption, rule payload_json [OF assms(3,4)], rule ends_return)
      (simp add: names)
  then show ?thesis by (rule ends_bind) (use assms(5) in \<open>auto simp: list_all2_conv_all_nth list_all_length\<close>)
qed

lemma ends_primary:
  assumes "run_inv w L s" "\<not> blank (task_id (record_request t))" "lanes_answer env"
    and "\<And>out s'. run_inv w L s' \<Longrightarrow> ends (g out) s' Q"
  shows "ends (st_bind (run_primary_lane env t route name) g) s Q"
proof (rule ends_then)
  have lane: "\<exists>out l'. lane_primary (env_lanes env) t route name l = (Inr out, l') \<and> True" for l
    using assms(3) by (simp add: lanes_answer_def)
  show "ends (run_primary_lane env t route name) s (\<lambda>_ s'. run_inv w L s')"
    unfolding run_primary_lane_def
    apply (rule ends_lane [OF assms(1) lane])
    apply (rule ends_then [OF lane_trace_ends], assumption, rule assms(2))
       apply (simp_all add: visible through_message_def ends_def)
    done
qed (use assms(4) in blast)

lemma ends_call:
  assumes "run_inv w L s" "\<And>s'. run_inv (snd (loaded_execute k ctx t w)) L s' \<Longrightarrow> ends (g (fst (loaded_execute k ctx t w))) s' Q"
  shows "ends (st_bind (call_pack k ctx t) g) s Q"
  by (rule ends_bind [where P = "\<lambda>x s'. x = fst (loaded_execute k ctx t w)
        \<and> run_inv (snd (loaded_execute k ctx t w)) L s'"])
    (use assms in \<open>auto simp: ends_def call_pack_def run_inv_def split: prod.splits\<close>)

lemma ends_failed:
  assumes "task_state_of t = RUNNING" "\<not> blank message"
    and "ends (g (t\<lparr>task_state_of := FAILED, finished_at := Some now, task_error := Some (strip message)\<rparr>)) s Q"
  shows "ends (st_bind (st_lift (mark_failed now message t)) g) s Q"
  using assms by (simp add: ends_def st_bind_def mark_failed_def assert_transition_def blank_def)

lemma ends_completed:
  assumes "task_state_of t = RUNNING"
    and "ends (g (t\<lparr>task_state_of := COMPLETED, finished_at := Some now, task_error := None,
        result_summary := filled_or_none summary\<rparr>)) s Q"
  shows "ends (st_bind (st_lift (mark_completed now summary t)) g) s Q"
  using assms by (simp add: ends_def st_bind_def mark_completed_def assert_transition_def)

section \<open>A whole run\<close>

text \<open>What a report says of a run on which the pack was called.\<close>

definition pack_report ::
  "run_facts \<Rightarrow> task_request \<Rightarrow> 'w loaded_pack \<Rightarrow> 'w \<Rightarrow> run_report \<Rightarrow> 'w \<Rightarrow> bool" where
  "pack_report f q k w r w' \<longleftrightarrow> (\<exists>ctx t e. record_request t = q \<and> record_request (end_task e) = q \<and> run_report_ok f e r
     \<and> w' = snd (loaded_execute k ctx t w)
     \<and> task_state_of (end_task e) = (case fst (loaded_execute k ctx t w) of Inl _ \<Rightarrow> FAILED | Inr _ \<Rightarrow> COMPLETED))"

lemma pack_concluded:
  assumes "run_inv (snd (loaded_execute k ctx t w)) L s" "run_passed env q f led" "governed (env_hash env) led'"
    and admitted: "\<not> pre_blocked (fact_preflight f) \<and> \<not> review_open f"
    and "record_request t = q" "record_request (end_task e) = q" "list_all (\<lambda>a. \<not> blank (fst a)) (end_artifacts e)"
    and "\<And>m. task_error (end_task e) = Some m \<Longrightarrow> \<not> blank m"
    and "task_state_of (end_task e) = (case fst (loaded_execute k ctx t w) of Inl _ \<Rightarrow> FAILED | Inr _ \<Rightarrow> COMPLETED)"
  shows "ends (conclude env f e led') s (\<lambda>r s'. pack_report f q k w r (run_pack_world s'))"
  by (rule ends_mono [OF conclude_ends [OF assms(1-3,6-8)]])
    (use assms(4-6,9) in \<open>auto simp: pack_report_def run_inv_def\<close>)

lemma run_pack_ends:
  fixes env :: "('l, 'w) run_env"
  assumes inv: "run_inv w L s" and t: "record_request t = q" "task_state_of t = RUNNING"
    and passed: "run_passed env q f led" and admitted: "\<not> pre_blocked (fact_preflight f) \<and> \<not> review_open f"
    and pack: "found_pack env L (routed_name (fact_route f)) k" "pack_answers k"
  shows "ends (run_pack env f t led) s (\<lambda>r s'. pack_report f q k w r (run_pack_world s'))"
proof -
  have d: "hex_supply (env_drawn env)" "lanes_answer env" and p: "normal_preflight (fact_preflight f)" "governed (env_hash env) led"
    and q': "\<not> blank (task_id (record_request t))"
    using passed t(1) by (auto simp: run_passed_def run_duties_def gate_ok_def)
  have hex: "list_all is_lower_hex (fresh_hex (env_drawn env) n)" for n using d by (simp add: hex_supply_def)
  obtain m where m: "get_pack (routed_name (fact_route f)) (env_manifests env) = Inr (Some m)"
    using pack(1) by (auto simp: found_pack_def)
  note concluded = pack_concluded [OF _ passed _ admitted t(1)]
  show ?thesis unfolding run_pack_def Let_def
    apply (rule ends_lift [OF m])
    apply (unfold option.case)
    apply (rule ends_load [OF inv pack(1) m])
    apply (rule ends_primary [OF _ q' d(2)], assumption)
    apply (rule ends_recording [OF _ p(2)], assumption)
      apply (rule recordings_accept [OF p(1) hex])
     apply (rule recordings_governed [OF hex])
    apply (rule ends_call, assumption)
    subgoal premises prems for L' _ out _ led1 _ s'
    proof -
      define ctx where "ctx = \<lparr>context_brain = out, context_route = fact_route f, context_session = env_session env,
            context_approvals = resolution_ids (fact_approval f),
            context_vision = map_option outcome_document (fact_vision f), context_policy = fact_advisory f\<rparr>"
      note called = prems(5) [folded ctx_def]
      have answer: "case fst (loaded_execute k ctx t w) of Inl x \<Rightarrow> \<not> blank (error_text x)
         | Inr r \<Rightarrow> pack_result_init r = Inr r \<and> \<not> holds_other (pack_data r) \<and> all_json (pack_metrics r)"
        using pack(2) by (simp add: pack_answers_def)
      show ?thesis
        unfolding ctx_def [symmetric]
        apply (cases "fst (loaded_execute k ctx t w)")
         apply (simp_all only: sum.case)
         apply (rule ends_recording [OF called prems(4)])
           apply (rule recordings_accept [OF p(1) hex])
          apply (rule recordings_governed [OF hex])
         apply (rule ends_trace, assumption, rule q', (simp add: visible; fail)+)
         apply (rule ends_draw_time, assumption)
         apply (rule ends_failed [OF t(2)], use answer in simp)
         apply (rule concluded, assumption, assumption)
            apply (use answer in \<open>auto simp: t(1)\<close>) [4]
        apply (rule ends_materialize [OF called])
           apply (use answer in simp_all) [3]
        apply (rule ends_draw_time, assumption)
        apply (rule ends_completed [OF t(2)])
        apply (rule ends_recording [OF _ prems(4)], assumption)
          apply (rule recordings_accept [OF p(1) hex])
         apply (rule recordings_governed [OF hex])
        apply (rule ends_trace, assumption, rule q', (simp add: visible; fail)+)
        apply (rule concluded, assumption, assumption)
           apply (simp_all add: t(1))
        done
    qed
    done
qed

text \<open>A task that can be served: it is named, its metadata are JSON, it is routed to a pack that is there.\<close>

definition task_served :: "('l, 'w) run_env \<Rightarrow> ('l, 'w) run_state \<Rightarrow> task_request \<Rightarrow> 'w loaded_pack \<Rightarrow> bool" where
  "task_served env s q k \<longleftrightarrow> \<not> blank (task_id q) \<and> all_json (task_metadata (task_input_of q)) \<and> hops_readable q
     \<and> list_all (\<lambda>(_, r). \<not> blank (trace_id r)) (run_traces s)
     \<and> (\<exists>route. route_task (env_routes env) (classified env q) = Inr (Some route)
          \<and> found_pack env (run_loaded s) (routed_name route) k)
     \<and> pack_answers k"

definition approved_by :: "('l, 'w) run_env \<Rightarrow> task_request \<Rightarrow> bool" where
  "approved_by env q \<longleftrightarrow> list_ex (approves (env_rt env)) (fst (approval_entries (task_metadata (task_input_of q))))"

definition statuses_stated :: "task_request \<Rightarrow> bool" where
  "statuses_stated q \<longleftrightarrow> list_all states_status (fst (approval_entries (task_metadata (task_input_of q))))"

definition approval_stated :: "('l, 'w) run_env \<Rightarrow> task_request \<Rightarrow> bool" where
  "approval_stated env q \<longleftrightarrow> list_ex (grants_approval (env_rt env)) (fst (approval_entries (task_metadata (task_input_of q))))"

lemma approved_by_stated: "statuses_stated q \<Longrightarrow> approved_by env q = approval_stated env q"
  by (simp add: statuses_stated_def approved_by_def approval_stated_def approves_all_stated)

text \<open>
  The table of a run, by the preflight's decision: blocked and failed, or waiting for a review, and the pack's world is as it was; or the
  pack was called once, and the run failed, passed, or needs a review because the task was seen before.
\<close>

definition run_table ::
  "('l, 'w) run_env \<Rightarrow> task_request \<Rightarrow> 'w loaded_pack \<Rightarrow> bool \<Rightarrow> 'w \<Rightarrow> run_report \<Rightarrow> 'w \<Rightarrow> bool" where
  "run_table env q k approved w r w' \<longleftrightarrow>
     (let d = outcome_decision (pre_decision (run_preflight r)) in
      d = preflight_table (env_policy env) (classified env q) (run_safeguard r)
      \<and> (if d = GOV_BLOCK then run_status_of r = RUN_FAILED \<and> w' = w
      else if d = GOV_REQUIRE_REVIEW \<and> \<not> approved then run_status_of r = RUN_NEEDS_REVIEW \<and> w' = w
      else \<exists>ctx t. record_request t = classified env q \<and> w' = snd (loaded_execute k ctx t w)
        \<and> run_status_of r = (case fst (loaded_execute k ctx t w) of Inl _ \<Rightarrow> RUN_FAILED
            | Inr _ \<Rightarrow> if duplicate_detected (run_replay r) then RUN_NEEDS_REVIEW else RUN_PASSED)))"

abbreviation run_outcome ::
  "('l, 'w) run_env \<Rightarrow> task_request \<Rightarrow> 'w loaded_pack \<Rightarrow> 'w \<Rightarrow> run_report \<Rightarrow> 'w \<Rightarrow> bool" where
  "run_outcome env q k \<equiv> run_table env q k (approved_by env q)"

lemma gate_review_open:
  "gate_ok env q f led \<Longrightarrow> review_open f \<longleftrightarrow> pre_requires_review (fact_preflight f) \<and> \<not> approved_by env q"
  by (auto simp: gate_ok_def review_open_def approved_by_def)

lemma idle_outcome:
  assumes "gate_ok env (classified env q) f led" "run_report_ok f e r" "pre_blocked (fact_preflight f) \<or> review_open f"
    and "pre_blocked (fact_preflight f) = (task_state_of (end_task e) = FAILED)"
  shows "run_outcome env q k w r w"
  using assms gate_review_open [OF assms(1)]
  by (auto simp: run_table_def run_report_ok_def evaluation_table_def approved_by_def pre_blocked_iff gate_ok_def
      pre_requires_review_iff Let_def)

lemma approved_classified [simp]: "approved_by env (classified env q) = approved_by env q"
  by (simp add: approved_by_def)

lemma pack_outcome:
  assumes "gate_ok env (classified env q) f led" "pack_report f (classified env q) k w r w'"
    and "\<not> pre_blocked (fact_preflight f)" "\<not> review_open f"
  shows "run_outcome env q k w r w'"
proof -
  obtain ctx t e where e: "record_request t = classified env q" "run_report_ok f e r" "w' = snd (loaded_execute k ctx t w)"
    "task_state_of (end_task e) = (case fst (loaded_execute k ctx t w) of Inl _ \<Rightarrow> FAILED | Inr _ \<Rightarrow> COMPLETED)"
    using assms(2) by (auto simp: pack_report_def)
  have "run_status_of r = (case fst (loaded_execute k ctx t w) of Inl _ \<Rightarrow> RUN_FAILED
      | Inr _ \<Rightarrow> if duplicate_detected (run_replay r) then RUN_NEEDS_REVIEW else RUN_PASSED)"
    using e(2,4) assms(3,4) by (simp add: run_report_ok_def evaluation_table_def split: sum.splits)
  moreover have "outcome_decision (pre_decision (run_preflight r)) \<noteq> GOV_BLOCK"
    "\<not> (outcome_decision (pre_decision (run_preflight r)) = GOV_REQUIRE_REVIEW \<and> \<not> approved_by env q)"
    using e(2) assms(3,4) gate_review_open [OF assms(1)]
    by (auto simp: run_report_ok_def pre_blocked_iff pre_requires_review_iff)
  moreover have "outcome_decision (pre_decision (run_preflight r)) = preflight_table (env_policy env) (classified env q) (run_safeguard r)"
    using e(2) assms(1) by (simp add: run_report_ok_def gate_ok_def)
  ultimately show ?thesis using e(1,3) unfolding run_table_def Let_def by auto
qed

lemma hops_classified [simp]: "hops_readable (classified env q) = hops_readable q"
  by (simp add: hops_readable_def)

lemma idle_concluded:
  assumes "run_inv w L s" "run_passed env (classified env q) f led" "pre_blocked (fact_preflight f) \<or> review_open f"
    and e: "record_request (end_task e) = classified env q" "end_artifacts e = []" "\<not> end_executed e"
      "\<And>m. task_error (end_task e) = Some m \<Longrightarrow> \<not> blank m"
      "pre_blocked (fact_preflight f) = (task_state_of (end_task e) = FAILED)"
  shows "ends (conclude env f e led) s (\<lambda>r s'. run_outcome env q k w r (run_pack_world s')
     \<and> report_chain_verified (run_receipts r) \<and> run_task_id r = task_id q \<and> run_replay r = fact_replay f)"
proof (rule ends_mono)
  have g: "gate_ok env (classified env q) f led" "governed (env_hash env) led"
    using assms(2) by (auto simp: run_passed_def gate_ok_def)
  show "ends (conclude env f e led) s (\<lambda>r s'. run_inv w L s' \<and> run_report_ok f e r)"
    by (rule conclude_ends [OF assms(1,2) g(2) e(1)]) (use e in auto)
  fix r s' assume r: "run_inv w L s' \<and> run_report_ok f e r"
  have "run_outcome env q k w r w" by (rule idle_outcome [OF g(1) _ assms(3) e(5)]) (use r in simp)
  then show "run_outcome env q k w r (run_pack_world s') \<and> report_chain_verified (run_receipts r)
      \<and> run_task_id r = task_id q \<and> run_replay r = fact_replay f"
    using r e(1) by (auto simp: run_report_ok_def run_inv_def)
qed

lemma after_gate_ends:
  fixes env :: "('l, 'w) run_env"
  assumes inv: "run_inv w L s" and t: "record_request t = classified env q" "task_state_of t = RUNNING"
    and passed: "run_passed env (classified env q) f led"
    and pack: "found_pack env L (routed_name (fact_route f)) k" "pack_answers k"
  shows "ends (after_gate env t f led) s (\<lambda>r s'. run_outcome env q k w r (run_pack_world s')
     \<and> report_chain_verified (run_receipts r) \<and> run_task_id r = task_id q \<and> run_replay r = fact_replay f)"
proof -
  have g: "gate_ok env (classified env q) f led" "governed (env_hash env) led"
    "\<not> blank (outcome_rationale (pre_decision (fact_preflight f)))"
    using passed by (auto simp: run_passed_def gate_ok_def normal_preflight_def)
  consider "pre_blocked (fact_preflight f)" | "\<not> pre_blocked (fact_preflight f)" "review_open f"
    | "\<not> pre_blocked (fact_preflight f)" "\<not> review_open f" by blast
  then show ?thesis
  proof cases
    case 1
    then show ?thesis unfolding after_gate_def
      apply (simp only: if_True)
      apply (rule ends_draw_time [OF inv])
      apply (rule ends_failed [OF t(2) g(3)])
      apply (rule idle_concluded [OF _ passed], assumption)
           apply (use g(3) in \<open>auto simp: t(1)\<close>)
      done
  next
    case 2
    then show ?thesis unfolding after_gate_def
      apply (simp only: if_True if_False)
      apply (rule ends_draw_time [OF inv])
      apply (rule ends_completed [OF t(2)])
      apply (rule idle_concluded [OF _ passed], assumption)
           apply (auto simp: t(1))
      done
  next
    case 3
    then have same: "after_gate env t f led = run_pack env f t led" by (simp add: after_gate_def)
    have "ends (run_pack env f t led) s (\<lambda>r s'. pack_report f (classified env q) k w r (run_pack_world s'))"
      by (rule run_pack_ends [OF inv t passed _ pack]) (use 3 in blast)
    then show ?thesis unfolding same
    proof (rule ends_mono)
      fix r s' assume r: "pack_report f (classified env q) k w r (run_pack_world s')"
      then show "run_outcome env q k w r (run_pack_world s') \<and> report_chain_verified (run_receipts r)
          \<and> run_task_id r = task_id q \<and> run_replay r = fact_replay f"
        using pack_outcome [OF g(1) r 3] by (auto simp: pack_report_def run_report_ok_def)
    qed
  qed
qed

lemma execute_task_ends:
  fixes env :: "('l, 'w) run_env"
  assumes env: "run_duties env" and t: "record_request t = q" "task_state_of t = PENDING" and served: "task_served env s q k"
  shows "ends (execute_task env t) s (\<lambda>r s'. run_outcome env q k (run_pack_world s) r (run_pack_world s')
     \<and> report_chain_verified (run_receipts r) \<and> run_task_id r = task_id q
     \<and> (\<exists>g. observe_task (env_hash env) q (run_guard s) = Inr (run_replay r, g)))"
proof -
  obtain route where route: "route_task (env_routes env) (classified env q) = Inr (Some route)"
      "found_pack env (run_loaded s) (routed_name route) k"
    and q: "\<not> blank (task_id q)" "all_json (task_metadata (task_input_of q))" "hops_readable q" and pack: "pack_answers k"
    and inv: "run_inv (run_pack_world s) (run_loaded s) s"
    using served by (auto simp: task_served_def run_inv_def)
  have d: "hex_supply (env_drawn env)" "lanes_answer env" "switchboard_ok (env_routes env)"
    using env by (simp_all add: run_duties_def)
  have named: "\<not> blank (routed_name route)" by (rule routed_named [OF d(3) route(1)])
  have q': "\<not> blank (task_id (classified env q))" using q(1) by simp
  have passed: "run_passed env (classified env q) f led"
    if "gate_ok env (classified env q) f led" "facts_json env f" "fact_route f = route" for f led
    using that env q routed_confident [OF d(3) route(1)] by (simp add: run_passed_def)
  show ?thesis unfolding execute_task_def
    apply (rule ends_then [OF take_in_ends [OF inv t(1) q(1,2) t(2) route(1)]])
    apply (clarsimp simp only: split_paired_all prod.case)
    apply (rule ends_then [OF pass_gate_ends [OF _ _ q' named d(1,2)]], assumption, assumption)
    apply (clarsimp simp only: split_paired_all prod.case)
    apply (rule ends_mono, rule after_gate_ends [where k = k], assumption, assumption, assumption)
       apply (rule passed, assumption, assumption, simp)
      apply (use route(2) pack in simp_all)
    done
qed

end
