(* ===== verification/RunProperties.thy ===== *)
theory RunProperties
  imports RuntimeProperties RunOutcome
begin

text \<open>
  Properties of a whole run of \<open>BlackFoxRuntime.execute_task\<close>: which runs may call a pack, that every run of a served
  task ends in a report with the status its facts call for, and when a run escalates.
\<close>



















text \<open>C40: A run escalates to the heavier reasoning lane exactly when the scores of what is known of it reach the
  policy's minimum and the budget, where there is one, allows it and has a hop left; where they reach it, the decision
  says it was blocked by the budget exactly when the budget does not, so such a run escalates or is reported as blocked. On
  facts in range the answer never raises. (Below the minimum the flag is set by a forbidding budget alone, against its own
  documentation; nothing is claimed of it there.)\<close>

theorem escalates_iff:
  assumes "escalation_policy_init p = Inr p" and "facts_ok f"
  shows "\<exists>d. evaluate_escalation fl p budget f = Inr d \<and> escalation_score d = escalation_sum p f
     \<and> (should_escalate d \<longleftrightarrow> minimum_score_to_escalate p \<le> escalation_sum p f \<and> budget_block budget (fact_hops f) = None)
     \<and> (minimum_score_to_escalate p \<le> escalation_sum p f \<longrightarrow>
          (blocked_by_budget d \<longleftrightarrow> budget_block budget (fact_hops f) \<noteq> None))"
  using evaluate_escalation_decides [OF assms, of fl budget] by blast

definition ex_escalating :: escalation_facts where
  "ex_escalating = \<lparr>fact_confidence = Some (1 / 4), fact_contradiction = False, fact_verification_failed = True, fact_failures = 1,
     fact_deep_reasoning = False, fact_approval_required = False, fact_hops = 0\<rparr>"

theorem escalates_iff_witness:
  "\<exists>d. evaluate_escalation ex_floats default_escalation_policy None ex_escalating = Inr d \<and> should_escalate d
     \<and> escalation_score d = 65"
proof -
  have "escalation_policy_init default_escalation_policy = Inr default_escalation_policy"
    by (simp add: escalation_policy_init_def default_escalation_policy_def escalation_scores_def)
  moreover have "facts_ok ex_escalating" by (simp add: facts_ok_def ex_escalating_def)
  ultimately show ?thesis
    using escalates_iff [of default_escalation_policy ex_escalating ex_floats None]
    by (auto simp: escalation_sum_def default_escalation_policy_def ex_escalating_def budget_block_def)
qed

end
