(* ===== verification/ReviewBoard.thy ===== *)
theory ReviewBoard
  imports Approvals
begin

text \<open>
  The human-machine review board (\<open>review_board/models.py\<close>): the subject of a case, the policy, machine advisories, human reviews with
  their external verification, challenges, findings and the evaluation, each with its constructor, its document and its digest.
\<close>

section \<open>Enumerations\<close>

datatype review_role =
  ROLE_SECURITY | ROLE_QA | ROLE_SYSTEMS | ROLE_SAFETY | ROLE_OPERATIONS | ROLE_MANUFACTURING | ROLE_MAINTAINER

fun role_value :: "review_role \<Rightarrow> string" where
  "role_value ROLE_SECURITY = ''security''"
| "role_value ROLE_QA = ''qa''"
| "role_value ROLE_SYSTEMS = ''systems''"
| "role_value ROLE_SAFETY = ''safety''"
| "role_value ROLE_OPERATIONS = ''operations''"
| "role_value ROLE_MANUFACTURING = ''manufacturing''"
| "role_value ROLE_MAINTAINER = ''maintainer''"

definition all_review_roles :: "review_role list" where
  "all_review_roles = [ROLE_SECURITY, ROLE_QA, ROLE_SYSTEMS, ROLE_SAFETY, ROLE_OPERATIONS, ROLE_MANUFACTURING, ROLE_MAINTAINER]"

datatype review_decision = REVIEW_APPROVE | REVIEW_REQUEST_CHANGES | REVIEW_REJECT | REVIEW_ABSTAIN

fun review_decision_value :: "review_decision \<Rightarrow> string" where
  "review_decision_value REVIEW_APPROVE = ''approve''"
| "review_decision_value REVIEW_REQUEST_CHANGES = ''request_changes''"
| "review_decision_value REVIEW_REJECT = ''reject''"
| "review_decision_value REVIEW_ABSTAIN = ''abstain''"

datatype authentication_state = AUTH_RECORDED | EXTERNALLY_VERIFIED

fun authentication_value :: "authentication_state \<Rightarrow> string" where
  "authentication_value AUTH_RECORDED = ''recorded''"
| "authentication_value EXTERNALLY_VERIFIED = ''externally_verified''"

datatype machine_recommendation =
  PROCEED_TO_HUMAN_REVIEW | MACHINE_REQUEST_CHANGES | MACHINE_BLOCK | INSUFFICIENT_EVIDENCE

fun recommendation_value :: "machine_recommendation \<Rightarrow> string" where
  "recommendation_value PROCEED_TO_HUMAN_REVIEW = ''proceed_to_human_review''"
| "recommendation_value MACHINE_REQUEST_CHANGES = ''request_changes''"
| "recommendation_value MACHINE_BLOCK = ''block''"
| "recommendation_value INSUFFICIENT_EVIDENCE = ''insufficient_evidence''"

datatype challenge_status = CHALLENGE_OPEN | CHALLENGE_RESOLVED | CHALLENGE_WITHDRAWN

fun challenge_status_value :: "challenge_status \<Rightarrow> string" where
  "challenge_status_value CHALLENGE_OPEN = ''open''"
| "challenge_status_value CHALLENGE_RESOLVED = ''resolved''"
| "challenge_status_value CHALLENGE_WITHDRAWN = ''withdrawn''"

datatype board_status = BOARD_BLOCKED | HUMAN_REVIEW_REQUIRED | APPROVED_FOR_NEXT_GATE

fun board_status_value :: "board_status \<Rightarrow> string" where
  "board_status_value BOARD_BLOCKED = ''blocked''"
| "board_status_value HUMAN_REVIEW_REQUIRED = ''human_review_required''"
| "board_status_value APPROVED_FOR_NEXT_GATE = ''approved_for_next_gate''"

datatype board_code =
  MACHINE_ADVISORY_RECORDED | MACHINE_BLOCK_RECOMMENDATION | MACHINE_CHANGE_RECOMMENDATION
  | MACHINE_ADVISORY_BINDING_MISMATCH | HUMAN_REVIEW_NOT_EXTERNALLY_VERIFIED | HUMAN_REVIEW_EXTERNAL_VERIFICATION_MISSING
  | HUMAN_REVIEW_EXTERNAL_VERIFICATION_MISMATCH | EXTERNAL_VERIFICATION_ORPHANED | HUMAN_REVIEW_RECUSAL_RECORDED
  | HUMAN_REVIEW_SELF_APPROVAL_BLOCKED | HUMAN_REVIEW_SUBJECT_BINDING_MISMATCH | HUMAN_REVIEW_POLICY_BINDING_MISMATCH
  | HUMAN_REVIEW_CONFLICT_REQUIRES_RECUSAL | HUMAN_REVIEW_REJECTED | HUMAN_REVIEW_REQUESTED_CHANGES
  | REQUIRED_ROLE_APPROVAL_MISSING | MINIMUM_HUMAN_APPROVALS_NOT_MET | DISTINCT_REVIEWER_QUORUM_NOT_MET
  | OPEN_EVIDENCE_CHALLENGE | CHALLENGE_SUBJECT_BINDING_MISMATCH | BOARD_APPROVAL_REQUIREMENTS_SATISFIED

fun board_code_value :: "board_code \<Rightarrow> string" where
  "board_code_value MACHINE_ADVISORY_RECORDED = ''machine_advisory_recorded''"
| "board_code_value MACHINE_BLOCK_RECOMMENDATION = ''machine_block_recommendation''"
| "board_code_value MACHINE_CHANGE_RECOMMENDATION = ''machine_change_recommendation''"
| "board_code_value MACHINE_ADVISORY_BINDING_MISMATCH = ''machine_advisory_binding_mismatch''"
| "board_code_value HUMAN_REVIEW_NOT_EXTERNALLY_VERIFIED = ''human_review_not_externally_verified''"
| "board_code_value HUMAN_REVIEW_EXTERNAL_VERIFICATION_MISSING = ''human_review_external_verification_missing''"
| "board_code_value HUMAN_REVIEW_EXTERNAL_VERIFICATION_MISMATCH = ''human_review_external_verification_mismatch''"
| "board_code_value EXTERNAL_VERIFICATION_ORPHANED = ''external_verification_orphaned''"
| "board_code_value HUMAN_REVIEW_RECUSAL_RECORDED = ''human_review_recusal_recorded''"
| "board_code_value HUMAN_REVIEW_SELF_APPROVAL_BLOCKED = ''human_review_self_approval_blocked''"
| "board_code_value HUMAN_REVIEW_SUBJECT_BINDING_MISMATCH = ''human_review_subject_binding_mismatch''"
| "board_code_value HUMAN_REVIEW_POLICY_BINDING_MISMATCH = ''human_review_policy_binding_mismatch''"
| "board_code_value HUMAN_REVIEW_CONFLICT_REQUIRES_RECUSAL = ''human_review_conflict_requires_recusal''"
| "board_code_value HUMAN_REVIEW_REJECTED = ''human_review_rejected''"
| "board_code_value HUMAN_REVIEW_REQUESTED_CHANGES = ''human_review_requested_changes''"
| "board_code_value REQUIRED_ROLE_APPROVAL_MISSING = ''required_role_approval_missing''"
| "board_code_value MINIMUM_HUMAN_APPROVALS_NOT_MET = ''minimum_human_approvals_not_met''"
| "board_code_value DISTINCT_REVIEWER_QUORUM_NOT_MET = ''distinct_reviewer_quorum_not_met''"
| "board_code_value OPEN_EVIDENCE_CHALLENGE = ''open_evidence_challenge''"
| "board_code_value CHALLENGE_SUBJECT_BINDING_MISMATCH = ''challenge_subject_binding_mismatch''"
| "board_code_value BOARD_APPROVAL_REQUIREMENTS_SATISFIED = ''board_approval_requirements_satisfied''"

section \<open>Records and constructors\<close>

text \<open>\<open>normalize_timestamp\<close> of \<open>assurance/models.py\<close>.\<close>

definition normalize_timestamp :: "iso_parser \<Rightarrow> py_runtime \<Rightarrow> string \<Rightarrow> string \<Rightarrow> string res" where
  "normalize_timestamp parse rt label value =
     (let cleaned = replace_zulu (strip value) in
      if cleaned = [] then Inl (ValueError (label @ '' must not be empty.''))
      else case parse cleaned of
        None \<Rightarrow> Inl (ValueError (label @ '' must be an ISO-8601 timestamp.''))
      | Some (Naive _) \<Rightarrow> Inl (ValueError (label @ '' must include a timezone offset.''))
      | Some (Aware t) \<Rightarrow> Inr (datetime_isoformat rt (Aware t)))"

definition unique_sorted_roles :: "review_role list \<Rightarrow> review_role list" where
  "unique_sorted_roles xs = unique_sorted_enum_tuple role_value xs"

record board_subject =
  board_repository :: string
  board_revision :: string
  board_scope :: string
  board_producer :: string
  wave12_archive :: string
  wave12_manifest :: string
  wave12_profile :: string
  board_admitted_at :: string
  board_subject_metadata :: "json dict"

definition board_subject_init :: "iso_parser \<Rightarrow> py_runtime \<Rightarrow> board_subject \<Rightarrow> board_subject res" where
  "board_subject_init parse rt s =
     res_bind (normalize_text ''repository'' (board_repository s)) (\<lambda>repo.
     res_bind (normalize_text ''revision'' (board_revision s)) (\<lambda>rev.
     res_bind (normalize_text ''scope'' (board_scope s)) (\<lambda>scope.
     res_bind (normalize_identifier ''producer_agent_id'' (board_producer s)) (\<lambda>producer.
     res_bind (normalize_sha256 (wave12_archive s)) (\<lambda>a.
     res_bind (normalize_sha256 (wave12_manifest s)) (\<lambda>m.
     res_bind (normalize_sha256 (wave12_profile s)) (\<lambda>p.
     res_bind (normalize_timestamp parse rt ''admitted_at'' (board_admitted_at s)) (\<lambda>t.
       Inr (s\<lparr>board_repository := repo, board_revision := rev, board_scope := scope, board_producer := producer,
              wave12_archive := a, wave12_manifest := m, wave12_profile := p, board_admitted_at := t\<rparr>)))))))))"

definition board_subject_payload :: "board_subject \<Rightarrow> json" where
  "board_subject_payload s = JObj
     [(''schema_version'', JStr ''wave13.review_board_subject.v1''), (''repository'', JStr (board_repository s)),
      (''revision'', JStr (board_revision s)), (''scope'', JStr (board_scope s)),
      (''producer_agent_id'', JStr (board_producer s)), (''wave12_archive_sha256'', JStr (wave12_archive s)),
      (''wave12_manifest_digest'', JStr (wave12_manifest s)), (''wave12_profile_digest'', JStr (wave12_profile s)),
      (''admitted_at'', JStr (board_admitted_at s)), (''metadata'', JObj (board_subject_metadata s))]"

definition board_subject_digest :: "(string \<Rightarrow> string) \<Rightarrow> board_subject \<Rightarrow> string res" where
  "board_subject_digest H s = digest_payload H (board_subject_payload s)"

record board_policy =
  board_policy_id :: string
  board_policy_version :: string
  supported_roles :: "review_role list"
  board_required_roles :: "review_role list"
  minimum_human_approvals :: int
  require_distinct_reviewers :: bool
  require_each_required_role :: bool
  require_external_identity :: bool
  block_on_reject :: bool
  block_on_request_changes :: bool
  block_on_open_challenge :: bool
  prevent_self_approval :: bool
  board_policy_metadata :: "json dict"

definition board_policy_init :: "board_policy \<Rightarrow> board_policy res" where
  "board_policy_init p =
     res_bind (normalize_identifier ''policy_id'' (board_policy_id p)) (\<lambda>pid.
     res_bind (normalize_text ''version'' (board_policy_version p)) (\<lambda>version.
     let supported = unique_sorted_roles (supported_roles p); required = unique_sorted_roles (board_required_roles p) in
     if supported = [] then Inl (ValueError ''ReviewBoardPolicy supported_roles must not be empty.'')
     else if required = [] then Inl (ValueError ''ReviewBoardPolicy required_roles must not be empty.'')
     else if \<not> set required \<subseteq> set supported
     then Inl (ValueError ''ReviewBoardPolicy required_roles must be supported roles.'')
     else if minimum_human_approvals p \<le> 0 then Inl (ValueError ''minimum_human_approvals must be positive.'')
     else if int (length supported) < minimum_human_approvals p
     then Inl (ValueError ''minimum_human_approvals cannot exceed supported role count.'')
     else if int (length required) < minimum_human_approvals p \<and> require_each_required_role p
     then Inl (ValueError ''minimum_human_approvals cannot exceed required role count when every role is required.'')
     else Inr (p\<lparr>board_policy_id := pid, board_policy_version := version, supported_roles := supported,
                 board_required_roles := required\<rparr>)))"

definition board_policy_payload :: "board_policy \<Rightarrow> json" where
  "board_policy_payload p = JObj
     [(''schema_version'', JStr ''wave13.review_board_policy.v1''), (''policy_id'', JStr (board_policy_id p)),
      (''version'', JStr (board_policy_version p)), (''supported_roles'', json_strs (map role_value (supported_roles p))),
      (''required_roles'', json_strs (map role_value (board_required_roles p))),
      (''minimum_human_approvals'', JInt (minimum_human_approvals p)),
      (''require_distinct_reviewers'', JBool (require_distinct_reviewers p)),
      (''require_each_required_role'', JBool (require_each_required_role p)),
      (''require_external_identity_verification'', JBool (require_external_identity p)),
      (''block_on_authenticated_reject'', JBool (block_on_reject p)),
      (''block_on_authenticated_request_changes'', JBool (block_on_request_changes p)),
      (''block_on_open_challenge'', JBool (block_on_open_challenge p)),
      (''prevent_subject_producer_self_approval'', JBool (prevent_self_approval p)),
      (''metadata'', JObj (board_policy_metadata p))]"

definition board_policy_digest :: "(string \<Rightarrow> string) \<Rightarrow> board_policy \<Rightarrow> string res" where
  "board_policy_digest H p = digest_payload H (board_policy_payload p)"

text \<open>\<open>default_wave13_review_policy\<close>\<close>

definition default_board_policy :: "board_policy res" where
  "default_board_policy = board_policy_init
     \<lparr>board_policy_id = ''ix-blackfox-wave13-full-board'', board_policy_version = ''1.0.0'',
      supported_roles = all_review_roles, board_required_roles = all_review_roles,
      minimum_human_approvals = int (length all_review_roles), require_distinct_reviewers = True,
      require_each_required_role = True, require_external_identity = True, block_on_reject = True,
      block_on_request_changes = True, block_on_open_challenge = True, prevent_self_approval = True,
      board_policy_metadata = [(''roadmap_roles'', json_strs (map role_value all_review_roles)),
        (''machine_vote_weight'', JInt 0)]\<rparr>"

record machine_advisory =
  advisory_id :: string
  advisory_producer :: string
  advisory_recommendation :: machine_recommendation
  advisory_subject_digest :: string
  advisory_policy_digest :: string
  advisory_produced_at :: string
  advisory_summary :: string
  advisory_findings :: "string list"
  advisory_evidence_refs :: "string list"
  advisory_metadata :: "json dict"

definition normalize_text_tuple :: "string \<Rightarrow> string list \<Rightarrow> string list res" where
  "normalize_text_tuple label values = res_bind (res_map (normalize_text label) values) (\<lambda>xs. Inr (sort (uniq xs)))"

definition machine_advisory_init :: "iso_parser \<Rightarrow> py_runtime \<Rightarrow> machine_advisory \<Rightarrow> machine_advisory res" where
  "machine_advisory_init parse rt a =
     res_bind (normalize_identifier ''advisory_id'' (advisory_id a)) (\<lambda>aid.
     res_bind (normalize_identifier ''producer_agent_id'' (advisory_producer a)) (\<lambda>producer.
     res_bind (normalize_sha256 (advisory_subject_digest a)) (\<lambda>sd.
     res_bind (normalize_sha256 (advisory_policy_digest a)) (\<lambda>pd.
     res_bind (normalize_timestamp parse rt ''produced_at'' (advisory_produced_at a)) (\<lambda>t.
     res_bind (normalize_text ''summary'' (advisory_summary a)) (\<lambda>summary.
     res_bind (normalize_text_tuple ''findings'' (advisory_findings a)) (\<lambda>findings.
     res_bind (normalize_identifier_tuple ''evidence_refs'' (advisory_evidence_refs a)) (\<lambda>refs.
       Inr (a\<lparr>advisory_id := aid, advisory_producer := producer, advisory_subject_digest := sd,
              advisory_policy_digest := pd, advisory_produced_at := t, advisory_summary := summary,
              advisory_findings := findings, advisory_evidence_refs := refs\<rparr>)))))))))"

definition machine_advisory_payload :: "machine_advisory \<Rightarrow> json" where
  "machine_advisory_payload a = JObj
     [(''schema_version'', JStr ''wave13.machine_advisory.v1''), (''advisory_id'', JStr (advisory_id a)),
      (''producer_agent_id'', JStr (advisory_producer a)),
      (''recommendation'', JStr (recommendation_value (advisory_recommendation a))),
      (''subject_digest'', JStr (advisory_subject_digest a)), (''policy_digest'', JStr (advisory_policy_digest a)),
      (''produced_at'', JStr (advisory_produced_at a)), (''summary'', JStr (advisory_summary a)),
      (''findings'', json_strs (advisory_findings a)), (''evidence_refs'', json_strs (advisory_evidence_refs a)),
      (''authoritative'', JBool False), (''vote_weight'', JInt 0), (''metadata'', JObj (advisory_metadata a))]"

definition machine_advisory_digest :: "(string \<Rightarrow> string) \<Rightarrow> machine_advisory \<Rightarrow> string res" where
  "machine_advisory_digest H a = digest_payload H (machine_advisory_payload a)"

record human_review =
  review_id :: string
  reviewer_id :: string
  review_role_of :: review_role
  review_decision_of :: review_decision
  review_subject_digest :: string
  review_policy_digest :: string
  reviewed_at :: string
  authentication_of :: authentication_state
  review_rationale :: string
  identity_ref :: string
  identity_sha256 :: string
  authority_ref :: string
  authority_sha256 :: string
  conflict_declared :: bool
  recused :: bool
  review_evidence_refs :: "string list"
  review_metadata :: "json dict"

definition filled_sha256 :: "string \<Rightarrow> string res" where
  "filled_sha256 s = (if s = [] then Inr [] else normalize_sha256 s)"

definition human_review_init :: "iso_parser \<Rightarrow> py_runtime \<Rightarrow> human_review \<Rightarrow> human_review res" where
  "human_review_init parse rt r =
     res_bind (normalize_identifier ''review_id'' (review_id r)) (\<lambda>rid.
     res_bind (normalize_identifier ''reviewer_id'' (reviewer_id r)) (\<lambda>who.
     res_bind (normalize_sha256 (review_subject_digest r)) (\<lambda>sd.
     res_bind (normalize_sha256 (review_policy_digest r)) (\<lambda>pd.
     res_bind (normalize_timestamp parse rt ''reviewed_at'' (reviewed_at r)) (\<lambda>t.
     res_bind (normalize_text ''rationale'' (review_rationale r)) (\<lambda>rationale.
     res_bind (normalize_optional_text ''identity_verification_ref'' (identity_ref r)) (\<lambda>iref.
     res_bind (filled_sha256 (identity_sha256 r)) (\<lambda>isha.
     res_bind (normalize_optional_text ''authority_verification_ref'' (authority_ref r)) (\<lambda>aref.
     res_bind (filled_sha256 (authority_sha256 r)) (\<lambda>asha.
     res_bind (normalize_identifier_tuple ''evidence_refs'' (review_evidence_refs r)) (\<lambda>refs.
       if authentication_of r = EXTERNALLY_VERIFIED \<and> (iref = [] \<or> isha = [] \<or> aref = [] \<or> asha = [])
       then Inl (ValueError (''Externally verified human reviews require identity and role-authority ''
         @ ''verification references and SHA-256 digests.''))
       else if recused r \<and> review_decision_of r = REVIEW_APPROVE
       then Inl (ValueError ''A recused reviewer cannot record an approval decision.'')
       else Inr (r\<lparr>review_id := rid, reviewer_id := who, review_subject_digest := sd, review_policy_digest := pd,
              reviewed_at := t, review_rationale := rationale, identity_ref := iref, identity_sha256 := isha,
              authority_ref := aref, authority_sha256 := asha, review_evidence_refs := refs\<rparr>))))))))))))"

definition human_review_payload :: "human_review \<Rightarrow> json" where
  "human_review_payload r = JObj
     [(''schema_version'', JStr ''wave13.human_review.v1''), (''review_id'', JStr (review_id r)),
      (''reviewer_id'', JStr (reviewer_id r)), (''role'', JStr (role_value (review_role_of r))),
      (''decision'', JStr (review_decision_value (review_decision_of r))),
      (''subject_digest'', JStr (review_subject_digest r)), (''policy_digest'', JStr (review_policy_digest r)),
      (''reviewed_at'', JStr (reviewed_at r)), (''authentication_state'', JStr (authentication_value (authentication_of r))),
      (''rationale'', JStr (review_rationale r)), (''identity_verification_ref'', JStr (identity_ref r)),
      (''identity_verification_sha256'', JStr (identity_sha256 r)),
      (''authority_verification_ref'', JStr (authority_ref r)),
      (''authority_verification_sha256'', JStr (authority_sha256 r)),
      (''conflict_declared'', JBool (conflict_declared r)), (''recused'', JBool (recused r)),
      (''evidence_refs'', json_strs (review_evidence_refs r)), (''metadata'', JObj (review_metadata r))]"

definition human_review_digest :: "(string \<Rightarrow> string) \<Rightarrow> human_review \<Rightarrow> string res" where
  "human_review_digest H r = digest_payload H (human_review_payload r)"

record external_verification =
  verified_review_id :: string
  verified_reviewer_id :: string
  verified_role :: review_role
  verified_identity_sha256 :: string
  verified_authority_sha256 :: string
  verified_review_digest :: string
  verifier_id :: string
  review_verified_at :: string
  verification_metadata :: "json dict"

definition external_verification_init :: "iso_parser \<Rightarrow> py_runtime \<Rightarrow> external_verification \<Rightarrow> external_verification res" where
  "external_verification_init parse rt v =
     res_bind (normalize_identifier ''review_id'' (verified_review_id v)) (\<lambda>rid.
     res_bind (normalize_identifier ''reviewer_id'' (verified_reviewer_id v)) (\<lambda>who.
     res_bind (normalize_sha256 (verified_identity_sha256 v)) (\<lambda>isha.
     res_bind (normalize_sha256 (verified_authority_sha256 v)) (\<lambda>asha.
     res_bind (normalize_sha256 (verified_review_digest v)) (\<lambda>d.
     res_bind (normalize_identifier ''verifier_id'' (verifier_id v)) (\<lambda>by.
     res_bind (normalize_timestamp parse rt ''verified_at'' (review_verified_at v)) (\<lambda>t.
       Inr (v\<lparr>verified_review_id := rid, verified_reviewer_id := who, verified_identity_sha256 := isha,
              verified_authority_sha256 := asha, verified_review_digest := d, verifier_id := by,
              review_verified_at := t\<rparr>))))))))"

definition external_verification_payload :: "external_verification \<Rightarrow> json dict" where
  "external_verification_payload v =
     [(''schema_version'', JStr ''wave13.external_human_review_verification.v1''),
      (''review_id'', JStr (verified_review_id v)), (''reviewer_id'', JStr (verified_reviewer_id v)),
      (''role'', JStr (role_value (verified_role v))),
      (''identity_verification_sha256'', JStr (verified_identity_sha256 v)),
      (''authority_verification_sha256'', JStr (verified_authority_sha256 v)),
      (''review_digest'', JStr (verified_review_digest v)), (''verifier_id'', JStr (verifier_id v)),
      (''verified_at'', JStr (review_verified_at v)), (''metadata'', JObj (verification_metadata v))]"

definition external_verification_dict :: "(string \<Rightarrow> string) \<Rightarrow> external_verification \<Rightarrow> json res" where
  "external_verification_dict H v =
     res_bind (digest_payload H (JObj (external_verification_payload v))) (\<lambda>d.
       Inr (JObj (external_verification_payload v @ [(''digest'', JStr d)])))"

text \<open>\<open>matches\<close>: the digest of the review is computed only when everything else agrees.\<close>

definition verification_matches :: "(string \<Rightarrow> string) \<Rightarrow> external_verification \<Rightarrow> human_review \<Rightarrow> bool res" where
  "verification_matches H v r =
     (if verified_review_id v = review_id r \<and> verified_reviewer_id v = reviewer_id r \<and> verified_role v = review_role_of r
        \<and> verified_identity_sha256 v = identity_sha256 r \<and> verified_authority_sha256 v = authority_sha256 r
      then res_bind (human_review_digest H r) (\<lambda>d. Inr (verified_review_digest v = d))
      else Inr False)"

record evidence_challenge =
  challenge_id :: string
  raised_by :: string
  challenge_role :: review_role
  challenge_subject_digest :: string
  raised_at :: string
  challenge_status_of :: challenge_status
  challenge_summary :: string
  challenge_evidence_refs :: "string list"
  resolution_note :: string
  challenge_metadata :: "json dict"

definition evidence_challenge_init :: "iso_parser \<Rightarrow> py_runtime \<Rightarrow> evidence_challenge \<Rightarrow> evidence_challenge res" where
  "evidence_challenge_init parse rt c =
     res_bind (normalize_identifier ''challenge_id'' (challenge_id c)) (\<lambda>cid.
     res_bind (normalize_identifier ''raised_by'' (raised_by c)) (\<lambda>by.
     res_bind (normalize_sha256 (challenge_subject_digest c)) (\<lambda>sd.
     res_bind (normalize_timestamp parse rt ''raised_at'' (raised_at c)) (\<lambda>t.
     res_bind (normalize_text ''summary'' (challenge_summary c)) (\<lambda>summary.
     res_bind (normalize_identifier_tuple ''evidence_refs'' (challenge_evidence_refs c)) (\<lambda>refs.
     res_bind (normalize_optional_text ''resolution_note'' (resolution_note c)) (\<lambda>resolution.
       if challenge_status_of c = CHALLENGE_RESOLVED \<and> resolution = []
       then Inl (ValueError ''Resolved evidence challenges require a resolution_note.'')
       else Inr (c\<lparr>challenge_id := cid, raised_by := by, challenge_subject_digest := sd, raised_at := t,
              challenge_summary := summary, challenge_evidence_refs := refs, resolution_note := resolution\<rparr>))))))))"

record board_finding =
  board_code_of :: board_code
  board_summary :: string
  board_blocking :: bool
  board_role :: "review_role option"
  board_object :: string
  board_metadata :: "json dict"

definition board_finding_init :: "board_finding \<Rightarrow> board_finding res" where
  "board_finding_init f =
     res_bind (normalize_text ''summary'' (board_summary f)) (\<lambda>summary.
     res_bind (normalize_optional_text ''object_id'' (board_object f)) (\<lambda>oid.
       Inr (f\<lparr>board_summary := summary, board_object := oid\<rparr>)))"

record board_evaluation =
  evaluated_subject_digest :: string
  evaluated_policy_digest :: string
  board_status_of :: board_status
  board_findings :: "board_finding list"
  qualifying_review_ids :: "string list"
  qualifying_reviewer_ids :: "string list"
  board_approved_roles :: "review_role list"
  missing_required_roles :: "review_role list"
  machine_advisory_count :: int
  human_review_count :: int
  external_verification_count :: int
  external_context_digest :: string
  open_challenge_count :: int
  board_evaluation_metadata :: "json dict"

definition finding_sort_key :: "board_finding \<Rightarrow> string list" where
  "finding_sort_key f = [board_code_value (board_code_of f),
     (case board_role f of None \<Rightarrow> [] | Some r \<Rightarrow> role_value r), board_object f]"

definition board_evaluation_init :: "board_evaluation \<Rightarrow> board_evaluation res" where
  "board_evaluation_init e =
     res_bind (normalize_sha256 (evaluated_subject_digest e)) (\<lambda>sd.
     res_bind (normalize_sha256 (evaluated_policy_digest e)) (\<lambda>pd.
     res_bind (normalize_identifier_tuple ''qualifying_review_ids'' (qualifying_review_ids e)) (\<lambda>rids.
     res_bind (normalize_identifier_tuple ''qualifying_reviewer_ids'' (qualifying_reviewer_ids e)) (\<lambda>who.
     if machine_advisory_count e < 0 \<or> human_review_count e < 0
     then Inl (ValueError ''Review counts must not be negative.'')
     else if external_verification_count e < 0
     then Inl (ValueError ''external_verification_count must not be negative.'')
     else res_bind (normalize_sha256 (external_context_digest e)) (\<lambda>cd.
       if open_challenge_count e < 0 then Inl (ValueError ''open_challenge_count must not be negative.'')
       else Inr (e\<lparr>evaluated_subject_digest := sd, evaluated_policy_digest := pd,
         board_findings := sort_key finding_sort_key (board_findings e), qualifying_review_ids := rids,
         qualifying_reviewer_ids := who, board_approved_roles := unique_sorted_roles (board_approved_roles e),
         missing_required_roles := unique_sorted_roles (missing_required_roles e),
         external_context_digest := cd\<rparr>))))))"

definition blocking_findings :: "board_evaluation \<Rightarrow> board_finding list" where
  "blocking_findings e = filter board_blocking (board_findings e)"

end
