(* ===== verification/ReviewPolicy.thy ===== *)
theory ReviewPolicy
  imports ReviewBoard
begin

text \<open>
  The policy of the review board (\<open>review_board/policy.py\<close>): which human reviews qualify, what blocks a case, and when it is approved
  for the next gate.
\<close>

definition board_finding_of ::
  "board_code \<Rightarrow> string \<Rightarrow> bool \<Rightarrow> review_role option \<Rightarrow> string \<Rightarrow> json dict \<Rightarrow> board_finding res" where
  "board_finding_of code summary blocking role oid meta = board_finding_init
     \<lparr>board_code_of = code, board_summary = summary, board_blocking = blocking, board_role = role, board_object = oid,
      board_metadata = meta\<rparr>"

section \<open>Machine advisories\<close>

definition build_machine_advisory ::
  "(string \<Rightarrow> string) \<Rightarrow> iso_parser \<Rightarrow> py_runtime \<Rightarrow> string \<Rightarrow> string \<Rightarrow> board_subject \<Rightarrow> board_policy \<Rightarrow> string \<Rightarrow> bool \<Rightarrow> string
    \<Rightarrow> string list \<Rightarrow> json dict \<Rightarrow> machine_advisory res" where
  "build_machine_advisory H parse rt aid producer s p at passed readiness refs meta =
     res_bind (board_subject_digest H s) (\<lambda>sd.
     res_bind (board_policy_digest H p) (\<lambda>pd.
       machine_advisory_init parse rt
         \<lparr>advisory_id = aid, advisory_producer = producer,
          advisory_recommendation = (if passed then PROCEED_TO_HUMAN_REVIEW else MACHINE_BLOCK),
          advisory_subject_digest = sd, advisory_policy_digest = pd, advisory_produced_at = at,
          advisory_summary = (if passed
            then ''The admitted Wave 12 package passed independent package verification; human board review remains required.''
            else ''The admitted Wave 12 package did not pass independent package verification.''),
          advisory_findings = [''wave12_verification_passed='' @ (if passed then ''true'' else ''false''),
            ''wave12_readiness_status='' @ readiness],
          advisory_evidence_refs = refs, advisory_metadata = meta\<rparr>))"

definition advisory_findings_of :: "string \<Rightarrow> string \<Rightarrow> machine_advisory \<Rightarrow> board_finding res list" where
  "advisory_findings_of sd pd a =
     [board_finding_of MACHINE_ADVISORY_RECORDED
        ''Machine advisory was recorded as non-authoritative and contributes zero human approvals.'' False None
        (advisory_id a) [(''recommendation'', JStr (recommendation_value (advisory_recommendation a)))]]
     @ (if advisory_subject_digest a \<noteq> sd \<or> advisory_policy_digest a \<noteq> pd
        then [board_finding_of MACHINE_ADVISORY_BINDING_MISMATCH
          ''Machine advisory does not bind to the active subject and policy.'' True None (advisory_id a) []] else [])
     @ (case advisory_recommendation a of
          MACHINE_BLOCK \<Rightarrow> [board_finding_of MACHINE_BLOCK_RECOMMENDATION
            ''Machine advisory recommends blocking; the recommendation is visible but does not itself exercise human authority.''
            False None (advisory_id a) []]
        | MACHINE_REQUEST_CHANGES \<Rightarrow> [board_finding_of MACHINE_CHANGE_RECOMMENDATION
            ''Machine advisory recommends changes; the recommendation is visible but does not itself exercise human authority.''
            False None (advisory_id a) []]
        | _ \<Rightarrow> [])"

section \<open>One human review\<close>

definition review_finding :: "human_review \<Rightarrow> board_code \<Rightarrow> string \<Rightarrow> bool \<Rightarrow> board_finding res" where
  "review_finding r code summary blocking = board_finding_of code summary blocking (Some (review_role_of r)) (review_id r) []"

text \<open>The findings about the binding come first and stay, whatever else is found.\<close>

definition binding_findings :: "string \<Rightarrow> string \<Rightarrow> human_review \<Rightarrow> board_finding res list" where
  "binding_findings sd pd r =
     (if review_subject_digest r \<noteq> sd
      then [review_finding r HUMAN_REVIEW_SUBJECT_BINDING_MISMATCH
        ''Human review is bound to a different review-board subject.'' True] else [])
     @ (if review_policy_digest r \<noteq> pd
        then [review_finding r HUMAN_REVIEW_POLICY_BINDING_MISMATCH
          ''Human review is bound to a different review-board policy.'' True] else [])"

text \<open>What an authenticated review decides.\<close>

definition decide_review :: "string \<Rightarrow> string \<Rightarrow> board_policy \<Rightarrow> human_review \<Rightarrow> bool \<times> board_finding res list" where
  "decide_review sd pd p r =
     (case review_decision_of r of
        REVIEW_REJECT \<Rightarrow> (False, [review_finding r HUMAN_REVIEW_REJECTED
          ''An externally verified human reviewer rejected the case.'' (block_on_reject p)])
      | REVIEW_REQUEST_CHANGES \<Rightarrow> (False, [review_finding r HUMAN_REVIEW_REQUESTED_CHANGES
          ''An externally verified human reviewer requested changes.'' (block_on_request_changes p)])
      | REVIEW_APPROVE \<Rightarrow> (review_subject_digest r = sd \<and> review_policy_digest r = pd, [])
      | REVIEW_ABSTAIN \<Rightarrow> (False, []))"

definition authenticate_review ::
  "(string \<Rightarrow> string) \<Rightarrow> string \<Rightarrow> string \<Rightarrow> board_policy \<Rightarrow> external_verification option \<Rightarrow> human_review
    \<Rightarrow> (bool \<times> board_finding res list) res" where
  "authenticate_review H sd pd p v r =
     (if \<not> require_external_identity p then Inr (decide_review sd pd p r)
      else if authentication_of r \<noteq> EXTERNALLY_VERIFIED
      then Inr (False, [review_finding r HUMAN_REVIEW_NOT_EXTERNALLY_VERIFIED
        ''Recorded human review lacks externally supplied identity verification and does not count toward quorum.'' False])
      else case v of
        None \<Rightarrow> Inr (False, [review_finding r HUMAN_REVIEW_EXTERNAL_VERIFICATION_MISSING
          (''Serialized external-verification state was not confirmed by trusted out-of-band identity and ''
            @ ''role-authority context.'') False])
      | Some x \<Rightarrow> res_bind (verification_matches H x r) (\<lambda>ok.
          Inr (if ok then decide_review sd pd p r
               else (False, [review_finding r HUMAN_REVIEW_EXTERNAL_VERIFICATION_MISMATCH
                 (''Trusted external verification does not match the serialized reviewer identity, role, or bound ''
                   @ ''verification digests.'') True]))))"

definition evaluate_human_review ::
  "(string \<Rightarrow> string) \<Rightarrow> string \<Rightarrow> string \<Rightarrow> board_subject \<Rightarrow> board_policy \<Rightarrow> external_verification option \<Rightarrow> human_review
    \<Rightarrow> (bool \<times> board_finding list) res" where
  "evaluate_human_review H sd pd s p v r =
     res_bind
       (if review_role_of r \<notin> set (supported_roles p)
        then Inr (False, [review_finding r HUMAN_REVIEW_POLICY_BINDING_MISMATCH
          ''Human review role is not supported by the active review-board policy.'' True])
        else res_bind
          (if prevent_self_approval p \<and> reviewer_id r = board_producer s
           then Inr (False, [review_finding r HUMAN_REVIEW_SELF_APPROVAL_BLOCKED
             ''The subject producer cannot satisfy its own human approval gate.'' True])
           else if conflict_declared r \<and> \<not> recused r
           then Inr (False, [review_finding r HUMAN_REVIEW_CONFLICT_REQUIRES_RECUSAL
             ''A declared reviewer conflict requires recusal before the review can count.'' True])
           else if recused r
           then Inr (False, [review_finding r HUMAN_REVIEW_RECUSAL_RECORDED
             ''Reviewer recusal is preserved and contributes no approval authority.'' False])
           else authenticate_review H sd pd p v r)
          (\<lambda>(q, fs). Inr (q, binding_findings sd pd r @ fs)))
       (\<lambda>(q, fs). res_bind (res_map (\<lambda>x. x) fs) (\<lambda>gs. Inr (q, gs)))"

section \<open>The board\<close>

definition require_unique :: "string \<Rightarrow> string list \<Rightarrow> unit res" where
  "require_unique message xs = (if distinct xs then Inr () else Inl (ValueError message))"

definition orphan_findings :: "human_review list \<Rightarrow> external_verification list \<Rightarrow> board_finding res list" where
  "orphan_findings reviews verifications =
     map (\<lambda>v. board_finding_of EXTERNAL_VERIFICATION_ORPHANED
         ''Trusted external verification references a human review that is not present in the board case.'' True None
         (verified_review_id v) [])
       (filter (\<lambda>v. verified_review_id v \<notin> review_id ` set reviews) verifications)"

definition challenge_findings :: "string \<Rightarrow> board_policy \<Rightarrow> evidence_challenge \<Rightarrow> board_finding res list" where
  "challenge_findings sd p c =
     (if challenge_subject_digest c \<noteq> sd
      then [board_finding_of CHALLENGE_SUBJECT_BINDING_MISMATCH
        ''Evidence challenge does not bind to the active board subject.'' True (Some (challenge_role c)) (challenge_id c) []]
      else [])
     @ (if challenge_status_of c = CHALLENGE_OPEN
        then [board_finding_of OPEN_EVIDENCE_CHALLENGE ''An unresolved human evidence challenge remains open.''
          (block_on_open_challenge p) (Some (challenge_role c)) (challenge_id c) []] else [])"

definition verification_for :: "external_verification list \<Rightarrow> human_review \<Rightarrow> external_verification option" where
  "verification_for vs r = map_of (map (\<lambda>v. (verified_review_id v, v)) vs) (review_id r)"

text \<open>The requirements on the reviews that qualify, with the findings about them.\<close>

definition roles_missing :: "board_policy \<Rightarrow> human_review list \<Rightarrow> review_role list" where
  "roles_missing p qualifying = filter (\<lambda>x. x \<notin> review_role_of ` set qualifying) (board_required_roles p)"

definition distinct_ids :: "human_review list \<Rightarrow> string list" where
  "distinct_ids qualifying = sort (uniq (map reviewer_id qualifying))"

definition quorum_findings :: "board_policy \<Rightarrow> human_review list \<Rightarrow> board_finding res list" where
  "quorum_findings p qualifying =
     (if require_each_required_role p
      then map (\<lambda>x. board_finding_of REQUIRED_ROLE_APPROVAL_MISSING
        (''Required human approval for role '' @ in_quotes (role_value x) @ '' is missing.'') False (Some x) [] [])
        (roles_missing p qualifying) else [])
     @ (if int (length qualifying) < minimum_human_approvals p
        then [board_finding_of MINIMUM_HUMAN_APPROVALS_NOT_MET
          ''Qualifying externally verified human approvals do not meet the configured minimum.'' False None []
          [(''required'', JInt (minimum_human_approvals p)), (''observed'', JInt (int (length qualifying)))]] else [])
     @ (if require_distinct_reviewers p \<and> length (distinct_ids qualifying) < length qualifying
        then [board_finding_of DISTINCT_REVIEWER_QUORUM_NOT_MET
          ''One human identity is attempting to satisfy multiple qualifying board roles.'' False None [] []] else [])"

definition quorum_met :: "board_policy \<Rightarrow> human_review list \<Rightarrow> bool" where
  "quorum_met p qualifying \<longleftrightarrow>
     (\<not> require_each_required_role p \<or> roles_missing p qualifying = [])
     \<and> minimum_human_approvals p \<le> int (length qualifying)
     \<and> (\<not> require_distinct_reviewers p \<or> length (distinct_ids qualifying) = length qualifying)"

definition context_digest :: "(string \<Rightarrow> string) \<Rightarrow> external_verification list \<Rightarrow> string res" where
  "context_digest H vs =
     res_bind (res_map (external_verification_dict H) vs) (\<lambda>ds.
       digest_payload H (JObj [(''schema_version'', JStr ''wave13.external_verification_context.v1''),
         (''verifications'', JList ds)]))"

definition evaluate_review_board ::
  "(string \<Rightarrow> string) \<Rightarrow> board_subject \<Rightarrow> board_policy \<Rightarrow> machine_advisory list \<Rightarrow> human_review list
    \<Rightarrow> external_verification list \<Rightarrow> evidence_challenge list \<Rightarrow> json dict \<Rightarrow> board_evaluation res" where
  "evaluate_review_board H s p advisories0 reviews0 verifications0 challenges0 meta =
     (let advisories = sort_key advisory_id advisories0; reviews = sort_key review_id reviews0;
          verifications = sort_key verified_review_id verifications0; challenges = sort_key challenge_id challenges0 in
      res_bind (require_unique ''Duplicate machine advisory ids are not allowed.'' (map advisory_id advisories)) (\<lambda>_.
      res_bind (require_unique ''Duplicate human review ids are not allowed.'' (map review_id reviews)) (\<lambda>_.
      res_bind (require_unique ''Duplicate evidence challenge ids are not allowed.'' (map challenge_id challenges)) (\<lambda>_.
      res_bind (require_unique ''Duplicate external human-review verification ids are not allowed.''
          (map verified_review_id verifications)) (\<lambda>_.
      res_bind (res_map (\<lambda>x. x) (orphan_findings reviews verifications)) (\<lambda>fs1.
      res_bind (board_subject_digest H s) (\<lambda>sd.
      res_bind (board_policy_digest H p) (\<lambda>pd.
      res_bind (res_map (\<lambda>x. x) (concat (map (advisory_findings_of sd pd) advisories))) (\<lambda>fs2.
      res_bind (res_map (\<lambda>r. evaluate_human_review H sd pd s p (verification_for verifications r) r) reviews) (\<lambda>outcomes.
      res_bind (res_map (\<lambda>x. x) (concat (map (challenge_findings sd p) challenges))) (\<lambda>fs3.
      let qualifying = map fst (filter (\<lambda>(r, q, _). q) (zip reviews outcomes)) in
      res_bind (res_map (\<lambda>x. x) (quorum_findings p qualifying)) (\<lambda>fs4.
      let findings = fs1 @ fs2 @ concat (map snd outcomes) @ fs3 @ fs4;
          approved = \<not> list_ex board_blocking findings \<and> quorum_met p qualifying in
      res_bind (if approved
          then res_bind (board_finding_of BOARD_APPROVAL_REQUIREMENTS_SATISFIED
            (''Configured role coverage, external identity state, and human quorum requirements are satisfied for the ''
              @ ''bound evidence package.'') False None [] []) (\<lambda>f. Inr [f])
          else Inr []) (\<lambda>fs5.
      res_bind (context_digest H verifications) (\<lambda>cd. board_evaluation_init
        \<lparr>evaluated_subject_digest = sd, evaluated_policy_digest = pd,
         board_status_of = (if list_ex board_blocking findings then BOARD_BLOCKED
           else if quorum_met p qualifying then APPROVED_FOR_NEXT_GATE else HUMAN_REVIEW_REQUIRED),
         board_findings = findings @ fs5, qualifying_review_ids = map review_id qualifying,
         qualifying_reviewer_ids = distinct_ids qualifying,
         board_approved_roles = unique_sorted_roles (map review_role_of qualifying),
         missing_required_roles = roles_missing p qualifying, machine_advisory_count = int (length advisories),
         human_review_count = int (length reviews), external_verification_count = int (length verifications),
         external_context_digest = cd,
         open_challenge_count = int (length (filter (\<lambda>c. challenge_status_of c = CHALLENGE_OPEN) challenges)),
         board_evaluation_metadata = meta\<rparr>))))))))))))))"

section \<open>What blocks, and what counts\<close>

definition authenticated ::
  "(string \<Rightarrow> string) \<Rightarrow> board_policy \<Rightarrow> external_verification list \<Rightarrow> human_review \<Rightarrow> bool" where
  "authenticated H p vs r \<longleftrightarrow> (require_external_identity p \<longrightarrow> authentication_of r = EXTERNALLY_VERIFIED
     \<and> (\<exists>v \<in> set vs. verified_review_id v = review_id r \<and> verification_matches H v r = Inr True))"

definition contradicted ::
  "(string \<Rightarrow> string) \<Rightarrow> board_policy \<Rightarrow> external_verification list \<Rightarrow> human_review \<Rightarrow> bool" where
  "contradicted H p vs r \<longleftrightarrow> require_external_identity p \<and> authentication_of r = EXTERNALLY_VERIFIED
     \<and> (\<exists>v \<in> set vs. verified_review_id v = review_id r \<and> verification_matches H v r = Inr False)"

definition own_case :: "board_subject \<Rightarrow> board_policy \<Rightarrow> human_review \<Rightarrow> bool" where
  "own_case s p r \<longleftrightarrow> prevent_self_approval p \<and> reviewer_id r = board_producer s"

definition review_counts ::
  "(string \<Rightarrow> string) \<Rightarrow> string \<Rightarrow> string \<Rightarrow> board_subject \<Rightarrow> board_policy \<Rightarrow> external_verification list \<Rightarrow> human_review \<Rightarrow> bool" where
  "review_counts H sd pd s p vs r \<longleftrightarrow> review_decision_of r = REVIEW_APPROVE \<and> review_role_of r \<in> set (supported_roles p)
     \<and> review_subject_digest r = sd \<and> review_policy_digest r = pd \<and> \<not> own_case s p r
     \<and> \<not> conflict_declared r \<and> \<not> recused r \<and> authenticated H p vs r"

definition review_blocks ::
  "(string \<Rightarrow> string) \<Rightarrow> string \<Rightarrow> string \<Rightarrow> board_subject \<Rightarrow> board_policy \<Rightarrow> external_verification list \<Rightarrow> human_review \<Rightarrow> bool" where
  "review_blocks H sd pd s p vs r \<longleftrightarrow> review_role_of r \<notin> set (supported_roles p)
     \<or> review_subject_digest r \<noteq> sd \<or> review_policy_digest r \<noteq> pd \<or> own_case s p r
     \<or> \<not> recused r \<and> (conflict_declared r \<or> contradicted H p vs r \<or> authenticated H p vs r
          \<and> (review_decision_of r = REVIEW_REJECT \<and> block_on_reject p
             \<or> review_decision_of r = REVIEW_REQUEST_CHANGES \<and> block_on_request_changes p))"

definition case_blocks ::
  "(string \<Rightarrow> string) \<Rightarrow> string \<Rightarrow> string \<Rightarrow> board_subject \<Rightarrow> board_policy \<Rightarrow> machine_advisory list \<Rightarrow> human_review list
    \<Rightarrow> external_verification list \<Rightarrow> evidence_challenge list \<Rightarrow> bool" where
  "case_blocks H sd pd s p advisories reviews vs challenges \<longleftrightarrow>
     (\<exists>v \<in> set vs. verified_review_id v \<notin> review_id ` set reviews)
     \<or> (\<exists>a \<in> set advisories. advisory_subject_digest a \<noteq> sd \<or> advisory_policy_digest a \<noteq> pd)
     \<or> (\<exists>r \<in> set reviews. review_blocks H sd pd s p vs r)
     \<or> (\<exists>c \<in> set challenges. challenge_subject_digest c \<noteq> sd \<or> challenge_status_of c = CHALLENGE_OPEN \<and> block_on_open_challenge p)"

text \<open>A finding blocks exactly when it was made as a blocking one.\<close>

definition claims :: "board_finding res \<Rightarrow> bool" where
  "claims x \<longleftrightarrow> (\<exists>f. x = Inr f \<and> board_blocking f)"

lemma board_finding_blocking: "board_finding_of code summary b role oid meta = Inr f \<Longrightarrow> board_blocking f = b"
  by (auto simp: board_finding_of_def board_finding_init_def res_bind_eq_Inr)

lemma claims_finding: "claims (board_finding_of code summary b role oid meta) \<longleftrightarrow> b \<and> \<not> isl (board_finding_of code summary b role oid meta)"
  by (cases "board_finding_of code summary b role oid meta") (auto simp: claims_def dest: board_finding_blocking)

lemma findings_block:
  "res_map (\<lambda>x. x) xs = Inr fs \<Longrightarrow> (list_ex board_blocking fs \<longleftrightarrow> (\<exists>x \<in> set xs. claims x)) \<and> (\<forall>x \<in> set xs. \<not> isl x)"
  by (induction xs arbitrary: fs) (auto simp: res_bind_eq_Inr claims_def)

lemma orphans_block:
  assumes "res_map (\<lambda>x. x) (orphan_findings reviews vs) = Inr fs"
  shows "list_ex board_blocking fs \<longleftrightarrow> (\<exists>v \<in> set vs. verified_review_id v \<notin> review_id ` set reviews)"
  using findings_block [OF assms] by (auto simp: orphan_findings_def claims_finding)

lemma advisories_block:
  assumes "res_map (\<lambda>x. x) (concat (map (advisory_findings_of sd pd) as)) = Inr fs"
  shows "list_ex board_blocking fs \<longleftrightarrow> (\<exists>a \<in> set as. advisory_subject_digest a \<noteq> sd \<or> advisory_policy_digest a \<noteq> pd)"
proof -
  note b = findings_block [OF assms]
  have fine: "\<not> isl x" if "a \<in> set as" "x \<in> set (advisory_findings_of sd pd a)" for a x using b that by auto
  have "(\<exists>x \<in> set (advisory_findings_of sd pd a). claims x)
      \<longleftrightarrow> advisory_subject_digest a \<noteq> sd \<or> advisory_policy_digest a \<noteq> pd" if "a \<in> set as" for a
    using fine [OF that] unfolding advisory_findings_of_def
    by (cases "advisory_recommendation a") (auto simp: claims_finding split: if_splits)
  then show ?thesis using b by auto
qed

lemma challenges_block:
  assumes "res_map (\<lambda>x. x) (concat (map (challenge_findings sd p) cs)) = Inr fs"
  shows "list_ex board_blocking fs \<longleftrightarrow>
     (\<exists>c \<in> set cs. challenge_subject_digest c \<noteq> sd \<or> challenge_status_of c = CHALLENGE_OPEN \<and> block_on_open_challenge p)"
proof -
  note b = findings_block [OF assms]
  have fine: "\<not> isl x" if "c \<in> set cs" "x \<in> set (challenge_findings sd p c)" for c x using b that by auto
  have "(\<exists>x \<in> set (challenge_findings sd p c). claims x)
      \<longleftrightarrow> challenge_subject_digest c \<noteq> sd \<or> challenge_status_of c = CHALLENGE_OPEN \<and> block_on_open_challenge p"
    if "c \<in> set cs" for c
    using fine [OF that] unfolding challenge_findings_def by (auto simp: claims_finding split: if_splits)
  then show ?thesis using b by auto
qed

lemma quorum_silent: "res_map (\<lambda>x. x) (quorum_findings p rs) = Inr fs \<Longrightarrow> \<not> list_ex board_blocking fs"
  using findings_block [of "quorum_findings p rs" fs] by (auto simp: quorum_findings_def claims_finding split: if_splits)

lemma verification_for_Some:
  assumes "distinct (map verified_review_id vs)"
  shows "verification_for vs r = Some v \<longleftrightarrow> v \<in> set vs \<and> verified_review_id v = review_id r"
  using assms by (force simp: verification_for_def comp_def)

lemma verification_for_None: "verification_for vs r = None \<longleftrightarrow> (\<forall>v \<in> set vs. verified_review_id v \<noteq> review_id r)"
  by (force simp: verification_for_def map_of_eq_None_iff)

lemma review_finding_claims: "claims (review_finding r code summary b) \<longleftrightarrow> b \<and> \<not> isl (review_finding r code summary b)"
  by (simp add: review_finding_def claims_finding)

text \<open>What is left of a review that is not turned away before: its identity, then its decision.\<close>

lemma decide_review_exact:
  assumes "decide_review sd pd p r = (q, xs)" "\<forall>x \<in> set xs. \<not> isl x"
  shows "(q \<longleftrightarrow> review_decision_of r = REVIEW_APPROVE \<and> review_subject_digest r = sd \<and> review_policy_digest r = pd)
    \<and> ((\<exists>x \<in> set xs. claims x) \<longleftrightarrow> review_decision_of r = REVIEW_REJECT \<and> block_on_reject p
         \<or> review_decision_of r = REVIEW_REQUEST_CHANGES \<and> block_on_request_changes p)"
  using assms by (cases "review_decision_of r") (auto simp: decide_review_def review_finding_claims)

lemma authenticate_review_exact:
  assumes a: "authenticate_review H sd pd p (verification_for vs r) r = Inr (q, xs)" "\<forall>x \<in> set xs. \<not> isl x"
    and vs: "distinct (map verified_review_id vs)"
  shows "(q \<longleftrightarrow> review_decision_of r = REVIEW_APPROVE \<and> review_subject_digest r = sd \<and> review_policy_digest r = pd
        \<and> authenticated H p vs r)
    \<and> ((\<exists>x \<in> set xs. claims x) \<longleftrightarrow> contradicted H p vs r \<or> authenticated H p vs r
        \<and> (review_decision_of r = REVIEW_REJECT \<and> block_on_reject p
         \<or> review_decision_of r = REVIEW_REQUEST_CHANGES \<and> block_on_request_changes p))"
proof (cases "require_external_identity p")
  case False
  then show ?thesis using a decide_review_exact [of sd pd p r q xs]
    by (auto simp: authenticate_review_def authenticated_def contradicted_def)
next
  case required: True
  show ?thesis
  proof (cases "authentication_of r = EXTERNALLY_VERIFIED")
    case False
    then show ?thesis using a required
      by (auto simp: authenticate_review_def authenticated_def contradicted_def review_finding_claims)
  next
    case ext: True
    show ?thesis
    proof (cases "verification_for vs r")
      case None
      then have "\<not> authenticated H p vs r" "\<not> contradicted H p vs r"
        using required by (auto simp: authenticated_def contradicted_def verification_for_None)
      then show ?thesis using a required ext None by (auto simp: authenticate_review_def review_finding_claims)
    next
      case (Some v)
      then obtain ok where ok: "verification_matches H v r = Inr ok"
        "(q, xs) = (if ok then decide_review sd pd p r
               else (False, [review_finding r HUMAN_REVIEW_EXTERNAL_VERIFICATION_MISMATCH
                 (''Trusted external verification does not match the serialized reviewer identity, role, or bound ''
                   @ ''verification digests.'') True]))"
        using a(1) required ext by (auto simp: authenticate_review_def res_bind_eq_Inr)
      have v: "u \<in> set vs \<and> verified_review_id u = review_id r \<longleftrightarrow> u = v" for u
        using verification_for_Some [OF vs] Some by (metis option.inject)
      have "authenticated H p vs r \<longleftrightarrow> ok" "contradicted H p vs r \<longleftrightarrow> \<not> ok"
        using required ext ok(1) v unfolding authenticated_def contradicted_def by (auto; metis sum.inject(2))+
      then show ?thesis using ok(2) a(2) decide_review_exact [of sd pd p r q xs]
        by (cases ok) (auto simp: review_finding_claims)
    qed
  qed
qed

lemma binding_claims:
  assumes "\<forall>x \<in> set (binding_findings sd pd r). \<not> isl x"
  shows "(\<exists>x \<in> set (binding_findings sd pd r). claims x) \<longleftrightarrow> review_subject_digest r \<noteq> sd \<or> review_policy_digest r \<noteq> pd"
  using assms by (auto simp: binding_findings_def review_finding_claims)

lemma evaluate_human_review_exact:
  assumes e: "evaluate_human_review H sd pd s p (verification_for vs r) r = Inr (q, fs)" and vs: "distinct (map verified_review_id vs)"
  shows "(q \<longleftrightarrow> review_counts H sd pd s p vs r) \<and> (list_ex board_blocking fs \<longleftrightarrow> review_blocks H sd pd s p vs r)"
proof (cases "review_role_of r \<in> set (supported_roles p)")
  case False
  then show ?thesis using e findings_block [of "[review_finding r HUMAN_REVIEW_POLICY_BINDING_MISMATCH
          ''Human review role is not supported by the active review-board policy.'' True]" fs]
    by (auto simp: evaluate_human_review_def review_counts_def review_blocks_def review_finding_claims res_bind_eq_Inr)
next
  case True
  define inner where "inner = (if prevent_self_approval p \<and> reviewer_id r = board_producer s
           then Inr (False, [review_finding r HUMAN_REVIEW_SELF_APPROVAL_BLOCKED
             ''The subject producer cannot satisfy its own human approval gate.'' True])
           else if conflict_declared r \<and> \<not> recused r
           then Inr (False, [review_finding r HUMAN_REVIEW_CONFLICT_REQUIRES_RECUSAL
             ''A declared reviewer conflict requires recusal before the review can count.'' True])
           else if recused r
           then Inr (False, [review_finding r HUMAN_REVIEW_RECUSAL_RECORDED
             ''Reviewer recusal is preserved and contributes no approval authority.'' False])
           else authenticate_review H sd pd p (verification_for vs r) r)"
  have "res_bind (res_bind inner (\<lambda>(q, fs). Inr (q, binding_findings sd pd r @ fs)))
      (\<lambda>(q, fs). res_bind (res_map (\<lambda>x. x) fs) (\<lambda>gs. Inr (q, gs))) = Inr (q, fs)"
    using e True by (simp add: evaluate_human_review_def inner_def)
  then obtain xs where i: "inner = Inr (q, xs)" "res_map (\<lambda>x. x) (binding_findings sd pd r @ xs) = Inr fs"
    by (auto simp: res_bind_eq_Inr)
  note b = findings_block [OF i(2)]
  have fine: "\<forall>x \<in> set (binding_findings sd pd r). \<not> isl x" "\<forall>x \<in> set xs. \<not> isl x" using b by auto
  have all: "list_ex board_blocking fs \<longleftrightarrow> review_subject_digest r \<noteq> sd \<or> review_policy_digest r \<noteq> pd \<or> (\<exists>x \<in> set xs. claims x)"
    using b binding_claims [OF fine(1)] by auto
  consider "own_case s p r" | "\<not> own_case s p r" "conflict_declared r" "\<not> recused r" | "\<not> own_case s p r" "recused r"
    | "\<not> own_case s p r" "\<not> conflict_declared r" "\<not> recused r" by blast
  then show ?thesis
  proof cases
    case 4
    then have "authenticate_review H sd pd p (verification_for vs r) r = Inr (q, xs)" using i(1) by (auto simp: own_case_def inner_def)
    from authenticate_review_exact [OF this fine(2) vs] show ?thesis
      using 4 True all by (auto simp: review_counts_def review_blocks_def)
  qed (use i(1) fine(2) all True in
    \<open>auto simp: inner_def own_case_def review_finding_claims review_counts_def review_blocks_def split: if_splits\<close>)
qed


section \<open>What the board decides\<close>

text \<open>The reviews that count make a quorum: every required role is among them, they are enough, and no reviewer counts twice.\<close>

definition review_quorum :: "board_policy \<Rightarrow> human_review set \<Rightarrow> bool" where
  "review_quorum p Q \<longleftrightarrow> (require_each_required_role p \<longrightarrow> set (board_required_roles p) \<subseteq> review_role_of ` Q)
     \<and> minimum_human_approvals p \<le> int (card Q) \<and> (require_distinct_reviewers p \<longrightarrow> inj_on reviewer_id Q)"

definition board_verdict ::
  "(string \<Rightarrow> string) \<Rightarrow> string \<Rightarrow> string \<Rightarrow> board_subject \<Rightarrow> board_policy \<Rightarrow> machine_advisory list \<Rightarrow> human_review list
    \<Rightarrow> external_verification list \<Rightarrow> evidence_challenge list \<Rightarrow> board_status" where
  "board_verdict H sd pd s p advisories reviews vs challenges =
     (if case_blocks H sd pd s p advisories reviews vs challenges then BOARD_BLOCKED
      else if review_quorum p {r \<in> set reviews. review_counts H sd pd s p vs r} then APPROVED_FOR_NEXT_GATE
      else HUMAN_REVIEW_REQUIRED)"

lemma outcomes_exact:
  assumes "res_map (\<lambda>r. evaluate_human_review H sd pd s p (verification_for vs r) r) reviews = Inr outcomes"
    and vs: "distinct (map verified_review_id vs)"
  shows "map fst (filter (\<lambda>(r, q, _). q) (zip reviews outcomes)) = filter (review_counts H sd pd s p vs) reviews
    \<and> (list_ex board_blocking (concat (map snd outcomes)) \<longleftrightarrow> (\<exists>r \<in> set reviews. review_blocks H sd pd s p vs r))"
  using assms(1)
proof (induction reviews arbitrary: outcomes)
  case (Cons r reviews)
  then obtain q fs rest where o: "outcomes = (q, fs) # rest"
    "evaluate_human_review H sd pd s p (verification_for vs r) r = Inr (q, fs)"
    "res_map (\<lambda>r. evaluate_human_review H sd pd s p (verification_for vs r) r) reviews = Inr rest"
    by (auto simp: res_bind_eq_Inr)
  show ?case using evaluate_human_review_exact [OF o(2) vs] Cons.IH [OF o(3)] by (simp add: o(1))
qed simp

lemma quorum_met_exact:
  assumes "distinct qs"
  shows "quorum_met p qs \<longleftrightarrow> review_quorum p (set qs)"
proof -
  have "length (distinct_ids qs) = card (reviewer_id ` set qs)"
    by (simp add: distinct_ids_def distinct_card [OF distinct_uniq, symmetric])
  moreover have "length qs = card (set qs)" using assms by (simp add: distinct_card)
  moreover have "inj_on reviewer_id (set qs) \<longleftrightarrow> card (reviewer_id ` set qs) = card (set qs)"
    by (simp add: inj_on_iff_eq_card)
  ultimately show ?thesis by (auto simp: quorum_met_def review_quorum_def roles_missing_def filter_empty_conv)
qed

lemma case_blocks_cong:
  assumes "set as = set as'" "set rs = set rs'" "set vs = set vs'" "set cs = set cs'"
  shows "case_blocks H sd pd s p as rs vs cs = case_blocks H sd pd s p as' rs' vs' cs'"
    and "review_counts H sd pd s p vs r = review_counts H sd pd s p vs' r"
  using assms by (simp_all add: case_blocks_def review_blocks_def review_counts_def contradicted_def authenticated_def)

lemma board_init_status: "board_evaluation_init x = Inr e \<Longrightarrow> board_status_of e = board_status_of x"
  by (auto simp: board_evaluation_init_def res_bind_eq_Inr split: if_splits)

lemma require_unique_Inr: "require_unique m xs = Inr u \<longleftrightarrow> distinct xs"
  by (simp add: require_unique_def)

lemma board_decides:
  assumes "evaluate_review_board H s p advisories reviews vs challenges meta = Inr e"
    and "board_subject_digest H s = Inr sd" "board_policy_digest H p = Inr pd"
  shows "board_status_of e = board_verdict H sd pd s p advisories reviews vs challenges"
proof -
  define as where "as = sort_key advisory_id advisories"
  define rs where "rs = sort_key review_id reviews"
  define us where "us = sort_key verified_review_id vs"
  define cs where "cs = sort_key challenge_id challenges"
  have sets: "set as = set advisories" "set rs = set reviews" "set us = set vs" "set cs = set challenges"
    by (simp_all add: as_def rs_def us_def cs_def)
  obtain fs1 fs2 os fs3 fs4 where d: "distinct (map review_id rs)" "distinct (map verified_review_id us)"
    and f1: "res_map (\<lambda>x. x) (orphan_findings rs us) = Inr fs1"
    and f2: "res_map (\<lambda>x. x) (concat (map (advisory_findings_of sd pd) as)) = Inr fs2"
    and o: "res_map (\<lambda>r. evaluate_human_review H sd pd s p (verification_for us r) r) rs = Inr os"
    and f3: "res_map (\<lambda>x. x) (concat (map (challenge_findings sd p) cs)) = Inr fs3"
    and f4: "res_map (\<lambda>x. x) (quorum_findings p (map fst (filter (\<lambda>(r, q, _). q) (zip rs os)))) = Inr fs4"
    and st: "board_status_of e = (if list_ex board_blocking (fs1 @ fs2 @ concat (map snd os) @ fs3 @ fs4) then BOARD_BLOCKED
      else if quorum_met p (map fst (filter (\<lambda>(r, q, _). q) (zip rs os))) then APPROVED_FOR_NEXT_GATE
      else HUMAN_REVIEW_REQUIRED)"
    using assms unfolding evaluate_review_board_def as_def [symmetric] rs_def [symmetric] us_def [symmetric] cs_def [symmetric] Let_def
    by (simp only: res_bind_eq_Inr assms(2,3) require_unique_Inr sum.inject ex_simps simp_thms)
      (elim exE conjE, drule board_init_status, rule that, (assumption | simp)+)
  note O = outcomes_exact [OF o d(2)]
  have "quorum_met p (filter (review_counts H sd pd s p us) rs)
      = review_quorum p {r \<in> set reviews. review_counts H sd pd s p vs r}"
    using quorum_met_exact [of "filter (review_counts H sd pd s p us) rs" p] d(1) sets
      case_blocks_cong(2) [OF refl refl sets(3) refl, of H sd pd s p]
    by (simp add: distinct_map)
  moreover have "list_ex board_blocking (fs1 @ fs2 @ concat (map snd os) @ fs3 @ fs4)
      = case_blocks H sd pd s p as rs us cs"
    using orphans_block [OF f1] advisories_block [OF f2] O challenges_block [OF f3] quorum_silent [OF f4]
    by (simp add: case_blocks_def)
  ultimately show ?thesis
    using st O case_blocks_cong(1) [OF sets] by (simp add: board_verdict_def)
qed

text \<open>What machines advise, bound to the case, takes part in nothing but the findings.\<close>

lemma case_blocks_advisories:
  assumes "\<forall>a \<in> set as. advisory_subject_digest a = sd \<and> advisory_policy_digest a = pd"
  shows "board_verdict H sd pd s p as rs vs cs = board_verdict H sd pd s p [] rs vs cs"
  using assms by (simp add: board_verdict_def case_blocks_def)

end
