(* ===== verification/ReviewDocuments.thy ===== *)
theory ReviewDocuments
  imports ReviewPolicy
begin

text \<open>
  The documents of a review package: \<open>to_dict\<close> with its digest, the builders of \<open>review_board/package.py\<close> and the strict readers
  of \<open>review_board/parsing.py\<close>, which accept a document only if it is the one its own object writes.
\<close>

section \<open>Python's equality of decoded values\<close>

text \<open>
  Truth values are the numbers zero and one, and dictionaries do not know an order. Whether a float equals another number, only the
  interpreter says: \<open>feq\<close>.
\<close>

fun whole_number :: "json \<Rightarrow> int option" where
  "whole_number (JBool b) = Some (if b then 1 else 0)"
| "whole_number (JInt i) = Some i"
| "whole_number _ = None"

fun number_like :: "json \<Rightarrow> bool" where
  "number_like JNull = False"
| "number_like (JStr s) = False"
| "number_like (JList xs) = False"
| "number_like (JObj d) = False"
| "number_like v = True"

definition number_eq :: "(json \<Rightarrow> json \<Rightarrow> bool) \<Rightarrow> json \<Rightarrow> json \<Rightarrow> bool" where
  "number_eq feq v w =
     (case (whole_number v, whole_number w) of
        (Some i, Some j) \<Rightarrow> i = j
      | _ \<Rightarrow> number_like w \<and> feq v w)"

lemma member_size: "(k, x) \<in> set d \<Longrightarrow> size x < size (JObj d)"
proof (induction d)
  case (Cons a d)
  then show ?case by (cases a) (auto simp: less_Suc_eq_le trans_le_add1 trans_le_add2 intro: less_imp_le)
qed simp

function py_eq :: "(json \<Rightarrow> json \<Rightarrow> bool) \<Rightarrow> json \<Rightarrow> json \<Rightarrow> bool" where
  "py_eq feq JNull w = (w = JNull)"
| "py_eq feq (JStr s) w = (w = JStr s)"
| "py_eq feq (JBool b) w = number_eq feq (JBool b) w"
| "py_eq feq (JInt i) w = number_eq feq (JInt i) w"
| "py_eq feq (JFloat s) w = number_eq feq (JFloat s) w"
| "py_eq feq JNonFinite w = number_eq feq JNonFinite w"
| "py_eq feq JOther w = number_eq feq JOther w"
| "py_eq feq (JList xs) w = (case w of
       JList ys \<Rightarrow> length xs = length ys \<and> list_all (\<lambda>(x, y). py_eq feq x y) (zip xs ys)
     | _ \<Rightarrow> False)"
| "py_eq feq (JObj d) w = (case w of
       JObj e \<Rightarrow> length d = length e
         \<and> list_all (\<lambda>kv. case dict_get e (fst kv) of None \<Rightarrow> False | Some y \<Rightarrow> py_eq feq (snd kv) y) d
     | _ \<Rightarrow> False)"
  by pat_completeness auto

termination
proof (relation "measure (\<lambda>(_, v, _). size v)")
  fix feq :: "json \<Rightarrow> json \<Rightarrow> bool" and xs ys x2 and p :: "json \<times> json" and x y
  assume "p \<in> set (zip xs ys)" "(x, y) = p"
  then have "x \<in> set xs" by (auto dest: set_zip_leftD)
  then show "((feq, x, y), feq, JList xs, x2) \<in> measure (\<lambda>(_, v, _). size v)"
    by (simp add: size_list_estimation' less_Suc_eq_le)
qed (auto dest: member_size)

section \<open>Documents with their digest\<close>

definition signed :: "(string \<Rightarrow> string) \<Rightarrow> string \<Rightarrow> json dict \<Rightarrow> json res" where
  "signed H name d = res_bind (digest_payload H (JObj d)) (\<lambda>x. Inr (JObj (d @ [(name, JStr x)])))"

fun members_of :: "json \<Rightarrow> json dict" where
  "members_of (JObj d) = d"
| "members_of _ = []"

definition board_subject_dict :: "(string \<Rightarrow> string) \<Rightarrow> board_subject \<Rightarrow> json res" where
  "board_subject_dict H s = signed H ''digest'' (members_of (board_subject_payload s))"

definition board_policy_dict :: "(string \<Rightarrow> string) \<Rightarrow> board_policy \<Rightarrow> json res" where
  "board_policy_dict H p = signed H ''digest'' (members_of (board_policy_payload p))"

definition machine_advisory_dict :: "(string \<Rightarrow> string) \<Rightarrow> machine_advisory \<Rightarrow> json res" where
  "machine_advisory_dict H a = signed H ''digest'' (members_of (machine_advisory_payload a))"

definition human_review_dict :: "(string \<Rightarrow> string) \<Rightarrow> human_review \<Rightarrow> json res" where
  "human_review_dict H r = signed H ''digest'' (members_of (human_review_payload r))"

definition evidence_challenge_payload :: "evidence_challenge \<Rightarrow> json dict" where
  "evidence_challenge_payload c =
     [(''schema_version'', JStr ''wave13.evidence_challenge.v1''), (''challenge_id'', JStr (challenge_id c)),
      (''raised_by'', JStr (raised_by c)), (''role'', JStr (role_value (challenge_role c))),
      (''subject_digest'', JStr (challenge_subject_digest c)), (''raised_at'', JStr (raised_at c)),
      (''status'', JStr (challenge_status_value (challenge_status_of c))), (''summary'', JStr (challenge_summary c)),
      (''evidence_refs'', json_strs (challenge_evidence_refs c)), (''resolution_note'', JStr (resolution_note c)),
      (''metadata'', JObj (challenge_metadata c))]"

definition evidence_challenge_digest :: "(string \<Rightarrow> string) \<Rightarrow> evidence_challenge \<Rightarrow> string res" where
  "evidence_challenge_digest H c = digest_payload H (JObj (evidence_challenge_payload c))"

definition evidence_challenge_dict :: "(string \<Rightarrow> string) \<Rightarrow> evidence_challenge \<Rightarrow> json res" where
  "evidence_challenge_dict H c = signed H ''digest'' (evidence_challenge_payload c)"

definition board_finding_dict :: "board_finding \<Rightarrow> json" where
  "board_finding_dict f = JObj
     [(''code'', JStr (board_code_value (board_code_of f))), (''summary'', JStr (board_summary f)),
      (''blocking'', JBool (board_blocking f)),
      (''role'', JStr (case board_role f of None \<Rightarrow> [] | Some r \<Rightarrow> role_value r)),
      (''object_id'', JStr (board_object f)), (''metadata'', JObj (board_metadata f))]"

definition board_evaluation_payload :: "board_evaluation \<Rightarrow> json dict" where
  "board_evaluation_payload e =
     [(''schema_version'', JStr ''wave13.review_board_evaluation.v1''),
      (''subject_digest'', JStr (evaluated_subject_digest e)), (''policy_digest'', JStr (evaluated_policy_digest e)),
      (''status'', JStr (board_status_value (board_status_of e))),
      (''approved_for_next_gate'', JBool (board_status_of e = APPROVED_FOR_NEXT_GATE)),
      (''blocking_finding_count'', JInt (int (length (blocking_findings e)))),
      (''findings'', JList (map board_finding_dict (board_findings e))),
      (''qualifying_review_ids'', json_strs (qualifying_review_ids e)),
      (''qualifying_reviewer_ids'', json_strs (qualifying_reviewer_ids e)),
      (''approved_roles'', json_strs (map role_value (board_approved_roles e))),
      (''missing_required_roles'', json_strs (map role_value (missing_required_roles e))),
      (''machine_advisory_count'', JInt (machine_advisory_count e)), (''human_review_count'', JInt (human_review_count e)),
      (''external_verification_count'', JInt (external_verification_count e)),
      (''external_verification_context_digest'', JStr (external_context_digest e)),
      (''open_challenge_count'', JInt (open_challenge_count e)), (''metadata'', JObj (board_evaluation_metadata e)),
      (''scope_note'', JStr (''Board approval means the configured human review requirements are ''
        @ ''satisfied for the bound evidence package. It does not grant deployment, ''
        @ ''production, certification, procurement, or operational authority.''))]"

definition board_evaluation_digest :: "(string \<Rightarrow> string) \<Rightarrow> board_evaluation \<Rightarrow> string res" where
  "board_evaluation_digest H e = digest_payload H (JObj (board_evaluation_payload e))"

definition board_evaluation_dict :: "(string \<Rightarrow> string) \<Rightarrow> board_evaluation \<Rightarrow> json res" where
  "board_evaluation_dict H e = signed H ''digest'' (board_evaluation_payload e)"

section \<open>The documents of a package\<close>

definition build_review_case :: "(string \<Rightarrow> string) \<Rightarrow> board_subject \<Rightarrow> board_policy \<Rightarrow> json res" where
  "build_review_case H s p =
     res_bind (board_subject_dict H s) (\<lambda>sdoc.
     res_bind (board_policy_dict H p) (\<lambda>pdoc.
     res_bind (board_subject_digest H s) (\<lambda>sd.
     res_bind (board_policy_digest H p) (\<lambda>pd.
       signed H ''digest''
         [(''schema_version'', JStr ''wave13.review_case.v1''), (''subject'', sdoc), (''policy'', pdoc),
          (''subject_digest'', JStr sd), (''policy_digest'', JStr pd), (''machine_authority'', JBool False),
          (''human_authority_required'', JBool True),
          (''scope_note'', JStr (''Machine recommendations are advisory only. Human board approval is a gate ''
            @ ''for the next governed step and is not deployment authority.''))]))))"

definition build_machine_advisory_set ::
  "(string \<Rightarrow> string) \<Rightarrow> board_subject \<Rightarrow> board_policy \<Rightarrow> machine_advisory list \<Rightarrow> json res" where
  "build_machine_advisory_set H s p advisories =
     (let normalized = sort_key advisory_id advisories in
     res_bind (board_subject_digest H s) (\<lambda>sd.
     res_bind (board_policy_digest H p) (\<lambda>pd.
     res_bind (res_map (machine_advisory_dict H) normalized) (\<lambda>docs.
       signed H ''digest''
         [(''schema_version'', JStr ''wave13.machine_advisory_set.v1''), (''subject_digest'', JStr sd),
          (''policy_digest'', JStr pd), (''advisory_count'', JInt (int (length normalized))),
          (''authoritative_vote_count'', JInt 0), (''advisories'', JList docs),
          (''scope_note'', JStr (''Machine advisories remain visible evidence but contribute zero votes and ''
            @ ''cannot satisfy any human review role or quorum requirement.''))]))))"

definition build_human_review_set ::
  "(string \<Rightarrow> string) \<Rightarrow> board_subject \<Rightarrow> board_policy \<Rightarrow> human_review list \<Rightarrow> json res" where
  "build_human_review_set H s p reviews =
     (let normalized = sort_key review_id reviews in
     res_bind (board_subject_digest H s) (\<lambda>sd.
     res_bind (board_policy_digest H p) (\<lambda>pd.
     res_bind (res_map (human_review_dict H) normalized) (\<lambda>docs.
       signed H ''digest''
         [(''schema_version'', JStr ''wave13.human_review_set.v1''), (''subject_digest'', JStr sd),
          (''policy_digest'', JStr pd), (''review_count'', JInt (int (length normalized))), (''reviews'', JList docs),
          (''scope_note'', JStr (''External identity verification state is supplied by an integration boundary. ''
            @ ''BlackFox preserves the reference and digest but is not itself an identity provider.''))]))))"

definition build_challenge_set :: "(string \<Rightarrow> string) \<Rightarrow> board_subject \<Rightarrow> evidence_challenge list \<Rightarrow> json res" where
  "build_challenge_set H s challenges =
     (let normalized = sort_key challenge_id challenges in
     res_bind (board_subject_digest H s) (\<lambda>sd.
     res_bind (res_map (evidence_challenge_dict H) normalized) (\<lambda>docs.
       signed H ''digest''
         [(''schema_version'', JStr ''wave13.evidence_challenge_set.v1''), (''subject_digest'', JStr sd),
          (''challenge_count'', JInt (int (length normalized))), (''challenges'', JList docs),
          (''scope_note'', JStr (''Open evidence challenges are preserved rather than erased by machine or ''
            @ ''majority recommendation. The active policy decides whether they block.''))])))"

text \<open>The events of the ledger, each under the hash of the one before.\<close>

fun ledger_events ::
  "(string \<Rightarrow> string) \<Rightarrow> nat \<Rightarrow> string \<Rightarrow> (string \<times> string \<times> string) list \<Rightarrow> (json list \<times> string) res" where
  "ledger_events H n previous [] = Inr ([], previous)"
| "ledger_events H n previous ((kind, oid, od) # rest) =
     (let event = [(''sequence'', JInt (int n)), (''event_type'', JStr kind), (''object_id'', JStr oid),
        (''object_digest'', JStr od), (''previous_hash'', JStr previous)] in
      res_bind (digest_payload H (JObj event)) (\<lambda>x.
      res_bind (ledger_events H (Suc n) x rest) (\<lambda>(events, last_hash).
        Inr (JObj (event @ [(''event_hash'', JStr x)]) # events, last_hash))))"

definition ledger_specs ::
  "(string \<Rightarrow> string) \<Rightarrow> board_subject \<Rightarrow> board_policy \<Rightarrow> machine_advisory list \<Rightarrow> human_review list \<Rightarrow> evidence_challenge list
    \<Rightarrow> board_evaluation \<Rightarrow> (string \<times> string \<times> string) list res" where
  "ledger_specs H s p advisories reviews challenges e =
     res_bind (board_subject_digest H s) (\<lambda>sd.
     res_bind (board_policy_digest H p) (\<lambda>pd.
     res_bind (res_map (\<lambda>a. res_bind (machine_advisory_digest H a) (\<lambda>d. Inr (''machine_advisory_recorded'', advisory_id a, d)))
       (sort_key advisory_id advisories)) (\<lambda>as.
     res_bind (res_map (\<lambda>r. res_bind (human_review_digest H r) (\<lambda>d. Inr (''human_review_recorded'', review_id r, d)))
       (sort_key review_id reviews)) (\<lambda>rs.
     res_bind (res_map (\<lambda>c. res_bind (evidence_challenge_digest H c) (\<lambda>d. Inr (''evidence_challenge_recorded'', challenge_id c, d)))
       (sort_key challenge_id challenges)) (\<lambda>cs.
     res_bind (board_evaluation_digest H e) (\<lambda>ed.
       Inr ([(''subject_admitted'', sd, sd), (''policy_bound'', board_policy_id p, pd)] @ as @ rs @ cs
         @ [(''board_evaluated'', board_status_value (board_status_of e), ed)])))))))"

definition build_review_ledger ::
  "(string \<Rightarrow> string) \<Rightarrow> board_subject \<Rightarrow> board_policy \<Rightarrow> machine_advisory list \<Rightarrow> human_review list \<Rightarrow> evidence_challenge list
    \<Rightarrow> board_evaluation \<Rightarrow> json res" where
  "build_review_ledger H s p advisories reviews challenges e =
     res_bind (ledger_specs H s p advisories reviews challenges e) (\<lambda>specs.
     res_bind (ledger_events H 1 [] specs) (\<lambda>(events, head).
     res_bind (board_subject_digest H s) (\<lambda>sd.
     res_bind (board_policy_digest H p) (\<lambda>pd.
       signed H ''digest''
         [(''schema_version'', JStr ''wave13.review_ledger.v1''), (''subject_digest'', JStr sd), (''policy_digest'', JStr pd),
          (''event_count'', JInt (int (length events))), (''head_hash'', JStr head), (''events'', JList events),
          (''scope_note'', JStr (''This package-internal hash chain detects mutation and reordering within the ''
            @ ''serialized review record. It is not an external transparency log or trusted timestamp.''))]))))"

definition upstream_entry :: string where
  "upstream_entry = ''upstream/wave12-certification-ready-evidence.zip''"

text \<open>\<open>str(ledger["digest"])\<close>: a document the code has just signed has one.\<close>

definition text_member :: "json \<Rightarrow> string \<Rightarrow> string res" where
  "text_member v name =
     (case dict_get (members_of v) name of Some (JStr x) \<Rightarrow> Inr x | _ \<Rightarrow> Inl (KeyError (in_quotes name)))"

definition build_review_bundle_index ::
  "(string \<Rightarrow> string) \<Rightarrow> board_subject \<Rightarrow> board_policy \<Rightarrow> board_evaluation \<Rightarrow> json \<Rightarrow> string dict \<Rightarrow> json dict \<Rightarrow> json res" where
  "build_review_bundle_index H s p e ledger entries meta =
     (let indexed = map (\<lambda>(name, body). JObj
         [(''path'', JStr name), (''sha256'', JStr (H body)), (''size_bytes'', JInt (int (length body))),
          (''media_type'', JStr (if name = upstream_entry then ''application/zip'' else ''application/json''))])
         (sort_key fst entries) in
     res_bind (board_subject_digest H s) (\<lambda>sd.
     res_bind (board_policy_digest H p) (\<lambda>pd.
     res_bind (board_evaluation_digest H e) (\<lambda>ed.
     res_bind (text_member ledger ''digest'') (\<lambda>ld.
       signed H ''bundle_index_digest''
         [(''schema_version'', JStr ''wave13.review_board_bundle_index.v1''), (''subject_digest'', JStr sd),
          (''policy_digest'', JStr pd), (''evaluation_digest'', JStr ed),
          (''status'', JStr (board_status_value (board_status_of e))), (''ledger_digest'', JStr ld),
          (''upstream_wave12_sha256'', JStr (wave12_archive s)),
          (''entry_count_excluding_index'', JInt (int (length indexed))), (''entries'', JList indexed),
          (''metadata'', JObj meta),
          (''scope_note'', JStr (''The bundle index is a deterministic byte-integrity inventory, not a signature, ''
            @ ''trusted timestamp, certification, or authorization.''))])))))"

section \<open>Fields\<close>

definition wrong_field :: "string \<Rightarrow> string \<Rightarrow> string \<Rightarrow> py_error" where
  "wrong_field parent name what = ValueError (parent @ ''.'' @ name @ '' must be '' @ what)"

definition mapping_field :: "string \<Rightarrow> json dict \<Rightarrow> string \<Rightarrow> json dict res" where
  "mapping_field parent d name =
     (case dict_get d name of Some (JObj x) \<Rightarrow> Inr x | _ \<Rightarrow> Inl (wrong_field parent name ''an object.''))"

definition string_field :: "string \<Rightarrow> json dict \<Rightarrow> string \<Rightarrow> string res" where
  "string_field parent d name =
     (case dict_get d name of Some (JStr x) \<Rightarrow> Inr x | _ \<Rightarrow> Inl (wrong_field parent name ''a string.''))"

definition bool_field :: "string \<Rightarrow> json dict \<Rightarrow> string \<Rightarrow> bool res" where
  "bool_field parent d name =
     (case dict_get d name of Some (JBool x) \<Rightarrow> Inr x | _ \<Rightarrow> Inl (wrong_field parent name ''a boolean.''))"

definition integer_field :: "string \<Rightarrow> json dict \<Rightarrow> string \<Rightarrow> int res" where
  "integer_field parent d name =
     (case dict_get d name of Some (JInt x) \<Rightarrow> Inr x | _ \<Rightarrow> Inl (wrong_field parent name ''an integer.''))"

fun all_json :: "(json \<Rightarrow> 'a option) \<Rightarrow> json list \<Rightarrow> 'a list option" where
  "all_json f [] = Some []"
| "all_json f (v # vs) =
     (case f v of None \<Rightarrow> None | Some x \<Rightarrow> map_option ((#) x) (all_json f vs))"

definition string_tuple_field :: "string \<Rightarrow> json dict \<Rightarrow> string \<Rightarrow> string list res" where
  "string_tuple_field parent d name =
     (case Option.bind (dict_get d name) json_list of
        None \<Rightarrow> Inl (wrong_field parent name ''a list of strings.'')
      | Some vs \<Rightarrow> (case all_json json_str vs of
          None \<Rightarrow> Inl (wrong_field parent name ''a list of strings.'') | Some xs \<Rightarrow> Inr xs))"

definition object_list_field :: "string \<Rightarrow> json dict \<Rightarrow> string \<Rightarrow> json dict list res" where
  "object_list_field parent d name =
     (case Option.bind (dict_get d name) json_list of
        None \<Rightarrow> Inl (wrong_field parent name ''a list of objects.'')
      | Some vs \<Rightarrow> (case all_json json_obj vs of
          None \<Rightarrow> Inl (wrong_field parent name ''a list of objects.'') | Some xs \<Rightarrow> Inr xs))"

text \<open>A member of an enumeration, by its value.\<close>

definition enum_value :: "('e \<Rightarrow> string) \<Rightarrow> 'e list \<Rightarrow> string \<Rightarrow> string \<Rightarrow> 'e res" where
  "enum_value val members name s =
     (case List.find (\<lambda>m. val m = s) members of
        Some m \<Rightarrow> Inr m | None \<Rightarrow> Inl (ValueError (in_quotes s @ '' is not a valid '' @ name)))"

definition review_role_named :: "string \<Rightarrow> review_role res" where
  "review_role_named s = enum_value role_value all_review_roles ''ReviewRole'' s"

definition recommendation_named :: "string \<Rightarrow> machine_recommendation res" where
  "recommendation_named s = enum_value recommendation_value
     [PROCEED_TO_HUMAN_REVIEW, MACHINE_REQUEST_CHANGES, MACHINE_BLOCK, INSUFFICIENT_EVIDENCE] ''MachineRecommendation'' s"

definition review_decision_named :: "string \<Rightarrow> review_decision res" where
  "review_decision_named s = enum_value review_decision_value
     [REVIEW_APPROVE, REVIEW_REQUEST_CHANGES, REVIEW_REJECT, REVIEW_ABSTAIN] ''HumanReviewDecision'' s"

definition authentication_named :: "string \<Rightarrow> authentication_state res" where
  "authentication_named s = enum_value authentication_value [AUTH_RECORDED, EXTERNALLY_VERIFIED] ''ReviewAuthenticationState'' s"

definition challenge_status_named :: "string \<Rightarrow> challenge_status res" where
  "challenge_status_named s = enum_value challenge_status_value
     [CHALLENGE_OPEN, CHALLENGE_RESOLVED, CHALLENGE_WITHDRAWN] ''EvidenceChallengeStatus'' s"

definition board_status_named :: "string \<Rightarrow> board_status res" where
  "board_status_named s = enum_value board_status_value
     [BOARD_BLOCKED, HUMAN_REVIEW_REQUIRED, APPROVED_FOR_NEXT_GATE] ''ReviewBoardStatus'' s"

definition board_code_named :: "string \<Rightarrow> board_code res" where
  "board_code_named s = enum_value board_code_value
     [MACHINE_ADVISORY_RECORDED, MACHINE_BLOCK_RECOMMENDATION, MACHINE_CHANGE_RECOMMENDATION,
      MACHINE_ADVISORY_BINDING_MISMATCH, HUMAN_REVIEW_NOT_EXTERNALLY_VERIFIED, HUMAN_REVIEW_EXTERNAL_VERIFICATION_MISSING,
      HUMAN_REVIEW_EXTERNAL_VERIFICATION_MISMATCH, EXTERNAL_VERIFICATION_ORPHANED, HUMAN_REVIEW_RECUSAL_RECORDED,
      HUMAN_REVIEW_SELF_APPROVAL_BLOCKED, HUMAN_REVIEW_SUBJECT_BINDING_MISMATCH, HUMAN_REVIEW_POLICY_BINDING_MISMATCH,
      HUMAN_REVIEW_CONFLICT_REQUIRES_RECUSAL, HUMAN_REVIEW_REJECTED, HUMAN_REVIEW_REQUESTED_CHANGES,
      REQUIRED_ROLE_APPROVAL_MISSING, MINIMUM_HUMAN_APPROVALS_NOT_MET, DISTINCT_REVIEWER_QUORUM_NOT_MET,
      OPEN_EVIDENCE_CHALLENGE, CHALLENGE_SUBJECT_BINDING_MISMATCH, BOARD_APPROVAL_REQUIREMENTS_SATISFIED]
     ''ReviewBoardFindingCode'' s"

text \<open>What the object writes is compared with what was read.\<close>

definition canonical_or :: "(json \<Rightarrow> json \<Rightarrow> bool) \<Rightarrow> string \<Rightarrow> json res \<Rightarrow> json dict \<Rightarrow> 'a \<Rightarrow> 'a res" where
  "canonical_or feq what written d x =
     res_bind written (\<lambda>w. if py_eq feq w (JObj d) then Inr x else Inl (ValueError (''Serialized '' @ what @ '' is not canonical.'')))"

section \<open>Objects\<close>

record review_reader =
  reader_hash :: "string \<Rightarrow> string"
  reader_parse :: iso_parser
  reader_rt :: py_runtime
  reader_feq :: "json \<Rightarrow> json \<Rightarrow> bool"

definition parse_board_subject :: "review_reader \<Rightarrow> json dict \<Rightarrow> board_subject res" where
  "parse_board_subject env d =
     (let str = string_field ''document'' d in
     res_bind (str ''repository'') (\<lambda>repo. res_bind (str ''revision'') (\<lambda>rev. res_bind (str ''scope'') (\<lambda>scope.
     res_bind (str ''producer_agent_id'') (\<lambda>producer. res_bind (str ''wave12_archive_sha256'') (\<lambda>a.
     res_bind (str ''wave12_manifest_digest'') (\<lambda>m. res_bind (str ''wave12_profile_digest'') (\<lambda>p.
     res_bind (str ''admitted_at'') (\<lambda>t. res_bind (mapping_field ''document'' d ''metadata'') (\<lambda>meta.
     res_bind (board_subject_init (reader_parse env) (reader_rt env)
       \<lparr>board_repository = repo, board_revision = rev, board_scope = scope, board_producer = producer, wave12_archive = a,
        wave12_manifest = m, wave12_profile = p, board_admitted_at = t, board_subject_metadata = meta\<rparr>) (\<lambda>s.
     res_bind (str ''schema_version'') (\<lambda>_. res_bind (str ''digest'') (\<lambda>_.
       canonical_or (reader_feq env) ''review-board subject'' (board_subject_dict (reader_hash env) s) d s)))))))))))))"

definition parse_board_policy :: "review_reader \<Rightarrow> json dict \<Rightarrow> board_policy res" where
  "parse_board_policy env d =
     (let str = string_field ''document'' d; flag = bool_field ''document'' d in
     res_bind (str ''policy_id'') (\<lambda>pid. res_bind (str ''version'') (\<lambda>version.
     res_bind (res_bind (string_tuple_field ''document'' d ''supported_roles'') (res_map review_role_named)) (\<lambda>supported.
     res_bind (res_bind (string_tuple_field ''document'' d ''required_roles'') (res_map review_role_named)) (\<lambda>required.
     res_bind (integer_field ''document'' d ''minimum_human_approvals'') (\<lambda>n.
     res_bind (flag ''require_distinct_reviewers'') (\<lambda>b1. res_bind (flag ''require_each_required_role'') (\<lambda>b2.
     res_bind (flag ''require_external_identity_verification'') (\<lambda>b3. res_bind (flag ''block_on_authenticated_reject'') (\<lambda>b4.
     res_bind (flag ''block_on_authenticated_request_changes'') (\<lambda>b5. res_bind (flag ''block_on_open_challenge'') (\<lambda>b6.
     res_bind (flag ''prevent_subject_producer_self_approval'') (\<lambda>b7.
     res_bind (mapping_field ''document'' d ''metadata'') (\<lambda>meta.
     res_bind (board_policy_init
       \<lparr>board_policy_id = pid, board_policy_version = version, supported_roles = supported, board_required_roles = required,
        minimum_human_approvals = n, require_distinct_reviewers = b1, require_each_required_role = b2,
        require_external_identity = b3, block_on_reject = b4, block_on_request_changes = b5, block_on_open_challenge = b6,
        prevent_self_approval = b7, board_policy_metadata = meta\<rparr>) (\<lambda>p.
     res_bind (str ''schema_version'') (\<lambda>_. res_bind (str ''digest'') (\<lambda>_.
       canonical_or (reader_feq env) ''review-board policy'' (board_policy_dict (reader_hash env) p) d p)))))))))))))))))"

definition parse_review_case :: "review_reader \<Rightarrow> json dict \<Rightarrow> (board_subject \<times> board_policy) res" where
  "parse_review_case env d =
     res_bind (res_bind (mapping_field ''document'' d ''subject'') (parse_board_subject env)) (\<lambda>s.
     res_bind (res_bind (mapping_field ''document'' d ''policy'') (parse_board_policy env)) (\<lambda>p.
       canonical_or (reader_feq env) ''review case'' (build_review_case (reader_hash env) s p) d (s, p)))"

definition indexed_label :: "string \<Rightarrow> nat \<Rightarrow> string" where
  "indexed_label name n = name @ ''['' @ show_nat n @ '']''"

definition parse_machine_advisory :: "review_reader \<Rightarrow> nat \<times> json dict \<Rightarrow> machine_advisory res" where
  "parse_machine_advisory env item =
     (let d = snd item; label = indexed_label ''advisories'' (fst item); str = string_field label d in
     res_bind (str ''advisory_id'') (\<lambda>aid. res_bind (str ''producer_agent_id'') (\<lambda>producer.
     res_bind (res_bind (str ''recommendation'') recommendation_named) (\<lambda>rec.
     res_bind (str ''subject_digest'') (\<lambda>sd. res_bind (str ''policy_digest'') (\<lambda>pd. res_bind (str ''produced_at'') (\<lambda>t.
     res_bind (str ''summary'') (\<lambda>summary. res_bind (string_tuple_field label d ''findings'') (\<lambda>fs.
     res_bind (string_tuple_field label d ''evidence_refs'') (\<lambda>refs.
     res_bind (mapping_field label d ''metadata'') (\<lambda>meta.
     res_bind (machine_advisory_init (reader_parse env) (reader_rt env)
       \<lparr>advisory_id = aid, advisory_producer = producer, advisory_recommendation = rec, advisory_subject_digest = sd,
        advisory_policy_digest = pd, advisory_produced_at = t, advisory_summary = summary, advisory_findings = fs,
        advisory_evidence_refs = refs, advisory_metadata = meta\<rparr>) (\<lambda>a.
     res_bind (str ''schema_version'') (\<lambda>_. res_bind (bool_field label d ''authoritative'') (\<lambda>_.
     res_bind (integer_field label d ''vote_weight'') (\<lambda>_. res_bind (str ''digest'') (\<lambda>_.
       canonical_or (reader_feq env) label (machine_advisory_dict (reader_hash env) a) d a))))))))))))))))"

definition parse_human_review :: "review_reader \<Rightarrow> nat \<times> json dict \<Rightarrow> human_review res" where
  "parse_human_review env item =
     (let d = snd item; label = indexed_label ''reviews'' (fst item); str = string_field label d in
     res_bind (str ''review_id'') (\<lambda>rid. res_bind (str ''reviewer_id'') (\<lambda>who.
     res_bind (res_bind (str ''role'') review_role_named) (\<lambda>role.
     res_bind (res_bind (str ''decision'') review_decision_named) (\<lambda>decision.
     res_bind (str ''subject_digest'') (\<lambda>sd. res_bind (str ''policy_digest'') (\<lambda>pd. res_bind (str ''reviewed_at'') (\<lambda>t.
     res_bind (res_bind (str ''authentication_state'') authentication_named) (\<lambda>auth.
     res_bind (str ''rationale'') (\<lambda>rationale. res_bind (str ''identity_verification_ref'') (\<lambda>iref.
     res_bind (str ''identity_verification_sha256'') (\<lambda>isha. res_bind (str ''authority_verification_ref'') (\<lambda>aref.
     res_bind (str ''authority_verification_sha256'') (\<lambda>asha.
     res_bind (bool_field label d ''conflict_declared'') (\<lambda>conflict. res_bind (bool_field label d ''recused'') (\<lambda>rec.
     res_bind (string_tuple_field label d ''evidence_refs'') (\<lambda>refs.
     res_bind (mapping_field label d ''metadata'') (\<lambda>meta.
     res_bind (human_review_init (reader_parse env) (reader_rt env)
       \<lparr>review_id = rid, reviewer_id = who, review_role_of = role, review_decision_of = decision, review_subject_digest = sd,
        review_policy_digest = pd, reviewed_at = t, authentication_of = auth, review_rationale = rationale,
        identity_ref = iref, identity_sha256 = isha, authority_ref = aref, authority_sha256 = asha,
        conflict_declared = conflict, recused = rec, review_evidence_refs = refs, review_metadata = meta\<rparr>) (\<lambda>r.
     res_bind (str ''schema_version'') (\<lambda>_. res_bind (str ''digest'') (\<lambda>_.
       canonical_or (reader_feq env) label (human_review_dict (reader_hash env) r) d r)))))))))))))))))))))"

definition parse_evidence_challenge :: "review_reader \<Rightarrow> nat \<times> json dict \<Rightarrow> evidence_challenge res" where
  "parse_evidence_challenge env item =
     (let d = snd item; label = indexed_label ''challenges'' (fst item); str = string_field label d in
     res_bind (str ''challenge_id'') (\<lambda>cid. res_bind (str ''raised_by'') (\<lambda>by.
     res_bind (res_bind (str ''role'') review_role_named) (\<lambda>role.
     res_bind (str ''subject_digest'') (\<lambda>sd. res_bind (str ''raised_at'') (\<lambda>t.
     res_bind (res_bind (str ''status'') challenge_status_named) (\<lambda>status.
     res_bind (str ''summary'') (\<lambda>summary. res_bind (string_tuple_field label d ''evidence_refs'') (\<lambda>refs.
     res_bind (str ''resolution_note'') (\<lambda>note. res_bind (mapping_field label d ''metadata'') (\<lambda>meta.
     res_bind (evidence_challenge_init (reader_parse env) (reader_rt env)
       \<lparr>challenge_id = cid, raised_by = by, challenge_role = role, challenge_subject_digest = sd, raised_at = t,
        challenge_status_of = status, challenge_summary = summary, challenge_evidence_refs = refs, resolution_note = note,
        challenge_metadata = meta\<rparr>) (\<lambda>c.
     res_bind (str ''schema_version'') (\<lambda>_. res_bind (str ''digest'') (\<lambda>_.
       canonical_or (reader_feq env) label (evidence_challenge_dict (reader_hash env) c) d c))))))))))))))"

definition parse_board_finding :: "review_reader \<Rightarrow> nat \<times> json dict \<Rightarrow> board_finding res" where
  "parse_board_finding env item =
     (let d = snd item; label = indexed_label ''findings'' (fst item); str = string_field label d in
     res_bind (str ''role'') (\<lambda>role.
     res_bind (res_bind (str ''code'') board_code_named) (\<lambda>code.
     res_bind (str ''summary'') (\<lambda>summary.
     res_bind (bool_field label d ''blocking'') (\<lambda>blocking.
     res_bind (if role = [] then Inr None else res_bind (review_role_named role) (\<lambda>x. Inr (Some x))) (\<lambda>r.
     res_bind (str ''object_id'') (\<lambda>oid.
     res_bind (mapping_field label d ''metadata'') (\<lambda>meta.
     res_bind (board_finding_of code summary blocking r oid meta) (\<lambda>f.
       canonical_or (reader_feq env) label (Inr (board_finding_dict f)) d f)))))))))"

definition parse_board_evaluation :: "review_reader \<Rightarrow> json dict \<Rightarrow> board_evaluation res" where
  "parse_board_evaluation env d =
     (let str = string_field ''document'' d; num = integer_field ''document'' d;
          roles = (\<lambda>name. res_bind (string_tuple_field ''document'' d name) (res_map review_role_named)) in
     res_bind (res_bind (object_list_field ''document'' d ''findings'') (\<lambda>xs. res_map (parse_board_finding env) (enumerate 0 xs))) (\<lambda>fs.
     res_bind (str ''subject_digest'') (\<lambda>sd. res_bind (str ''policy_digest'') (\<lambda>pd.
     res_bind (res_bind (str ''status'') board_status_named) (\<lambda>status.
     res_bind (string_tuple_field ''document'' d ''qualifying_review_ids'') (\<lambda>rids.
     res_bind (string_tuple_field ''document'' d ''qualifying_reviewer_ids'') (\<lambda>who.
     res_bind (roles ''approved_roles'') (\<lambda>approved. res_bind (roles ''missing_required_roles'') (\<lambda>missing.
     res_bind (num ''machine_advisory_count'') (\<lambda>n1. res_bind (num ''human_review_count'') (\<lambda>n2.
     res_bind (num ''external_verification_count'') (\<lambda>n3.
     res_bind (str ''external_verification_context_digest'') (\<lambda>cd.
     res_bind (num ''open_challenge_count'') (\<lambda>n4.
     res_bind (mapping_field ''document'' d ''metadata'') (\<lambda>meta.
     res_bind (board_evaluation_init
       \<lparr>evaluated_subject_digest = sd, evaluated_policy_digest = pd, board_status_of = status, board_findings = fs,
        qualifying_review_ids = rids, qualifying_reviewer_ids = who, board_approved_roles = approved,
        missing_required_roles = missing, machine_advisory_count = n1, human_review_count = n2,
        external_verification_count = n3, external_context_digest = cd, open_challenge_count = n4,
        board_evaluation_metadata = meta\<rparr>) (\<lambda>e.
     res_bind (str ''schema_version'') (\<lambda>_. res_bind (bool_field ''document'' d ''approved_for_next_gate'') (\<lambda>_.
     res_bind (num ''blocking_finding_count'') (\<lambda>_. res_bind (str ''scope_note'') (\<lambda>_. res_bind (str ''digest'') (\<lambda>_.
       canonical_or (reader_feq env) ''review-board evaluation'' (board_evaluation_dict (reader_hash env) e) d e)))))))))))))))))))))"

section \<open>Sets of objects\<close>

definition require_unique_ids :: "string \<Rightarrow> string list \<Rightarrow> unit res" where
  "require_unique_ids label xs =
     (if distinct xs then Inr () else Inl (ValueError (''Serialized '' @ label @ '' ids must be unique.'')))"

definition parse_machine_advisories :: "review_reader \<Rightarrow> json dict \<Rightarrow> machine_advisory list res" where
  "parse_machine_advisories env d =
     res_bind (res_bind (object_list_field ''document'' d ''advisories'') (\<lambda>xs. res_map (parse_machine_advisory env) (enumerate 0 xs))) (\<lambda>as.
     res_bind (require_unique_ids ''machine advisory'' (map advisory_id as)) (\<lambda>_. Inr (sort_key advisory_id as)))"

definition parse_human_reviews :: "review_reader \<Rightarrow> json dict \<Rightarrow> human_review list res" where
  "parse_human_reviews env d =
     res_bind (res_bind (object_list_field ''document'' d ''reviews'') (\<lambda>xs. res_map (parse_human_review env) (enumerate 0 xs))) (\<lambda>rs.
     res_bind (require_unique_ids ''human review'' (map review_id rs)) (\<lambda>_. Inr (sort_key review_id rs)))"

definition parse_evidence_challenges :: "review_reader \<Rightarrow> json dict \<Rightarrow> evidence_challenge list res" where
  "parse_evidence_challenges env d =
     res_bind (res_bind (object_list_field ''document'' d ''challenges'') (\<lambda>xs. res_map (parse_evidence_challenge env) (enumerate 0 xs))) (\<lambda>cs.
     res_bind (require_unique_ids ''evidence challenge'' (map challenge_id cs)) (\<lambda>_. Inr (sort_key challenge_id cs)))"

section \<open>A document of its own object is canonical\<close>

fun plain :: "json \<Rightarrow> bool" where
  "plain (JList xs) = list_all plain xs"
| "plain (JObj d) = (distinct (map fst d) \<and> list_all (\<lambda>kv. plain (snd kv)) d)"
| "plain JNull = True"
| "plain (JStr s) = True"
| "plain (JBool b) = True"
| "plain (JInt i) = True"
| "plain v = False"

lemma py_eq_plain: "plain v \<Longrightarrow> py_eq feq v v"
proof (induction v rule: plain.induct)
  case (1 xs)
  then show ?case by (auto simp: list_all_iff zip_same)
next
  case (2 d)
  have "dict_get d (fst kv) = Some (snd kv)" if "kv \<in> set d" for kv
    using 2 that by (simp add: map_of_is_SomeI)
  then show ?case using 2 by (auto simp: list_all_iff)
qed (simp_all add: number_eq_def)

lemma canonical_plain: "plain (JObj d) \<Longrightarrow> canonical_or feq what (Inr (JObj d)) d x = Inr x"
  by (simp add: canonical_or_def py_eq_plain del: py_eq.simps plain.simps)

end
