(* ===== verification/ReviewPackages.thy ===== *)
theory ReviewPackages
  imports ReviewDocuments Evidence Workspace
begin

text \<open>
  The verification of a serialized review package (\<open>review_board/verify.py\<close>): the shape of the archive, its documents, the package
  inside it, and everything that can be computed again. Opening an archive (\<open>zip_open\<close>), decoding JSON, dividing sizes and admitting the
  package inside (\<open>review_board/admission.py\<close>, which rests on the assurance packages) are arguments; its error for a damaged
  archive is an \<open>OSError\<close>. The text of a decoding error is left out of its issue.
\<close>

section \<open>Issues and results\<close>

datatype package_code =
  PKG_ARCHIVE_OPEN_FAILED | PKG_TOO_MANY_ENTRIES | PKG_UNSAFE_ENTRY_PATH | PKG_DUPLICATE_ENTRY_PATH | PKG_DIRECTORY_ENTRY
  | PKG_SYMLINK_ENTRY | PKG_ENTRY_TOO_LARGE | PKG_ARCHIVE_TOO_LARGE | PKG_COMPRESSION_RATIO_EXCEEDED
  | PKG_REQUIRED_ENTRY_MISSING | PKG_UNEXPECTED_ENTRY_PATH | PKG_JSON_INVALID | PKG_BUNDLE_INDEX_MISMATCH
  | PKG_UPSTREAM_DIGEST_MISMATCH | PKG_UPSTREAM_VERIFICATION_FAILED | PKG_UPSTREAM_SUBJECT_MISMATCH
  | PKG_ADVISORY_SET_MISMATCH | PKG_HUMAN_REVIEW_SET_MISMATCH | PKG_CHALLENGE_SET_MISMATCH
  | PKG_EXTERNAL_CONTEXT_MISMATCH | PKG_EVALUATION_MISMATCH | PKG_LEDGER_MISMATCH

fun package_code_value :: "package_code \<Rightarrow> string" where
  "package_code_value PKG_ARCHIVE_OPEN_FAILED = ''archive_open_failed''"
| "package_code_value PKG_TOO_MANY_ENTRIES = ''too_many_entries''"
| "package_code_value PKG_UNSAFE_ENTRY_PATH = ''unsafe_entry_path''"
| "package_code_value PKG_DUPLICATE_ENTRY_PATH = ''duplicate_entry_path''"
| "package_code_value PKG_DIRECTORY_ENTRY = ''directory_entry''"
| "package_code_value PKG_SYMLINK_ENTRY = ''symlink_entry''"
| "package_code_value PKG_ENTRY_TOO_LARGE = ''entry_too_large''"
| "package_code_value PKG_ARCHIVE_TOO_LARGE = ''archive_too_large''"
| "package_code_value PKG_COMPRESSION_RATIO_EXCEEDED = ''compression_ratio_exceeded''"
| "package_code_value PKG_REQUIRED_ENTRY_MISSING = ''required_entry_missing''"
| "package_code_value PKG_UNEXPECTED_ENTRY_PATH = ''unexpected_entry_path''"
| "package_code_value PKG_JSON_INVALID = ''json_invalid''"
| "package_code_value PKG_BUNDLE_INDEX_MISMATCH = ''bundle_index_mismatch''"
| "package_code_value PKG_UPSTREAM_DIGEST_MISMATCH = ''upstream_digest_mismatch''"
| "package_code_value PKG_UPSTREAM_VERIFICATION_FAILED = ''upstream_verification_failed''"
| "package_code_value PKG_UPSTREAM_SUBJECT_MISMATCH = ''upstream_subject_mismatch''"
| "package_code_value PKG_ADVISORY_SET_MISMATCH = ''advisory_set_mismatch''"
| "package_code_value PKG_HUMAN_REVIEW_SET_MISMATCH = ''human_review_set_mismatch''"
| "package_code_value PKG_CHALLENGE_SET_MISMATCH = ''challenge_set_mismatch''"
| "package_code_value PKG_EXTERNAL_CONTEXT_MISMATCH = ''external_verification_context_mismatch''"
| "package_code_value PKG_EVALUATION_MISMATCH = ''evaluation_semantics_mismatch''"
| "package_code_value PKG_LEDGER_MISMATCH = ''ledger_mismatch''"

record package_issue =
  pkg_code :: package_code
  pkg_summary :: string
  pkg_path :: string
  pkg_metadata :: "json dict"

definition pkg_issue :: "package_code \<Rightarrow> string \<Rightarrow> string \<Rightarrow> package_issue" where
  "pkg_issue code summary path = \<lparr>pkg_code = code, pkg_summary = summary, pkg_path = path, pkg_metadata = []\<rparr>"

definition structural_code :: "package_code \<Rightarrow> bool" where
  "structural_code c \<longleftrightarrow> c \<in> {PKG_TOO_MANY_ENTRIES, PKG_UNSAFE_ENTRY_PATH, PKG_DUPLICATE_ENTRY_PATH, PKG_DIRECTORY_ENTRY,
     PKG_SYMLINK_ENTRY, PKG_ENTRY_TOO_LARGE, PKG_ARCHIVE_TOO_LARGE, PKG_COMPRESSION_RATIO_EXCEEDED,
     PKG_REQUIRED_ENTRY_MISSING, PKG_UNEXPECTED_ENTRY_PATH}"

record package_verification =
  verified_path :: string
  verified_sha256 :: string
  verified_size :: int
  verified_issues :: "package_issue list"
  verified_entry_count :: int
  verified_uncompressed :: int
  verified_subject :: string
  verified_policy :: string
  verified_evaluation :: string
  verified_ledger :: string
  verified_index :: string
  verified_status :: string
  verified_upstream_sha256 :: string
  verified_upstream_passed :: bool
  verified_context :: string
  verified_external_count :: int
  verified_metadata :: "json dict"

definition package_passed :: "package_verification \<Rightarrow> bool" where
  "package_passed v \<longleftrightarrow> verified_issues v = []"

definition issue_key :: "package_issue \<Rightarrow> string list" where
  "issue_key i = [package_code_value (pkg_code i), pkg_path i, pkg_summary i]"

text \<open>\<open>_result\<close> with its defaults, which the full result replaces.\<close>

definition package_result ::
  "string \<Rightarrow> string \<Rightarrow> nat \<Rightarrow> package_issue list \<Rightarrow> nat \<Rightarrow> int \<Rightarrow> json dict \<Rightarrow> package_verification" where
  "package_result path sha n issues count unpacked meta =
     \<lparr>verified_path = path, verified_sha256 = sha, verified_size = int n, verified_issues = sort_key issue_key issues,
      verified_entry_count = int count, verified_uncompressed = unpacked, verified_subject = [], verified_policy = [],
      verified_evaluation = [], verified_ledger = [], verified_index = [], verified_status = [],
      verified_upstream_sha256 = [], verified_upstream_passed = False, verified_context = [], verified_external_count = 0,
      verified_metadata = meta\<rparr>"

section \<open>The shape of the archive\<close>

text \<open>An entry with the mode of its file, its sizes, and its bytes or the text of the error of reading them.\<close>

record zip_entry =
  entry_name :: string
  entry_mode :: nat
  entry_size :: int
  entry_packed :: int
  entry_body :: "string + string"

record package_env =
  pkg_reader :: review_reader
  pkg_loads :: json_loads
  zip_open :: "string \<Rightarrow> string + zip_entry list"
  admit_package :: "string \<Rightarrow> string \<Rightarrow> board_subject res"
  size_quotient :: "int \<Rightarrow> int \<Rightarrow> json"
  above_ratio :: "json \<Rightarrow> bool"
  max_entries :: nat
  max_entry_bytes :: int
  max_uncompressed :: int

definition safe_archive_path :: "string \<Rightarrow> bool" where
  "safe_archive_path name \<longleftrightarrow>
     (if name = [] \<or> CHR 0x5C \<in> set name \<or> hd name = CHR ''/'' then False
      else let ps = path_parts name in
        if list_ex (\<lambda>part. part \<in> {[], ''.'', ''..''}) ps then False
        else if ps \<noteq> [] \<and> CHR '':'' \<in> set (hd ps) then False else True)"

definition is_link_mode :: "nat \<Rightarrow> bool" where
  "is_link_mode mode \<longleftrightarrow> mode div 4096 mod 16 = 10"

definition size_ratio :: "package_env \<Rightarrow> zip_entry \<Rightarrow> json" where
  "size_ratio env i =
     (if entry_size i \<noteq> 0 \<and> entry_packed i = 0 then JNonFinite
      else if entry_packed i \<noteq> 0 then size_quotient env (entry_size i) (entry_packed i) else JFloat ''1.0'')"

definition validate_zip_info :: "package_env \<Rightarrow> zip_entry \<Rightarrow> package_issue list" where
  "validate_zip_info env i =
     (let name = entry_name i in
      (if safe_archive_path name then [] else [pkg_issue PKG_UNSAFE_ENTRY_PATH ''Archive entry path is unsafe.'' name])
      @ (if name \<noteq> [] \<and> last name = CHR ''/''
         then [pkg_issue PKG_DIRECTORY_ENTRY ''Directory entries are not allowed in the deterministic package.'' name] else [])
      @ (if is_link_mode (entry_mode i) then [pkg_issue PKG_SYMLINK_ENTRY ''Symlink entries are not allowed.'' name] else [])
      @ (if max_entry_bytes env < entry_size i
         then [(pkg_issue PKG_ENTRY_TOO_LARGE ''Archive entry exceeds the per-entry verification limit.'' name)
           \<lparr>pkg_metadata := [(''size_bytes'', JInt (entry_size i))]\<rparr>] else [])
      @ (if above_ratio env (size_ratio env i)
         then [(pkg_issue PKG_COMPRESSION_RATIO_EXCEEDED ''Archive entry compression ratio exceeds the verification limit.'' name)
           \<lparr>pkg_metadata := [(''compression_ratio'', size_ratio env i)]\<rparr>] else []))"

definition json_entries :: "string list" where
  "json_entries = [''board-evaluation.json'', ''bundle-index.json'', ''evidence-challenges.json'', ''human-reviews.json'',
     ''machine-advisories.json'', ''review-case.json'', ''review-ledger.json'']"

definition required_entries :: "string list" where
  "required_entries = json_entries @ [upstream_entry]"

definition archive_issues :: "package_env \<Rightarrow> zip_entry list \<Rightarrow> package_issue list" where
  "archive_issues env infos =
     (let names = map entry_name infos in
      (if max_entries env < length infos
       then [pkg_issue PKG_TOO_MANY_ENTRIES (''Archive has '' @ show_nat (length infos) @ '' entries; maximum is ''
         @ show_nat (max_entries env) @ ''.'') []] else [])
      @ map (pkg_issue PKG_DUPLICATE_ENTRY_PATH ''Archive contains a duplicate entry path.'')
          (sort (uniq (filter (\<lambda>n. 1 < count_list names n) names)))
      @ concat (map (validate_zip_info env) infos)
      @ (if max_uncompressed env < sum_list (map entry_size infos)
         then [(pkg_issue PKG_ARCHIVE_TOO_LARGE ''Archive uncompressed size exceeds the verification limit.'' [])
           \<lparr>pkg_metadata := [(''size_bytes'', JInt (sum_list (map entry_size infos)))]\<rparr>] else [])
      @ map (pkg_issue PKG_REQUIRED_ENTRY_MISSING ''Required Wave 13 package entry is missing.'')
          (sort (filter (\<lambda>n. n \<notin> set names) required_entries))
      @ map (pkg_issue PKG_UNEXPECTED_ENTRY_PATH ''Archive contains an entry outside the canonical Wave 13 package layout.'')
          (sort (uniq (filter (\<lambda>n. n \<notin> set required_entries) names))))"

fun read_zip_entries :: "zip_entry list \<Rightarrow> string + string dict" where
  "read_zip_entries [] = Inr []"
| "read_zip_entries (i # is) =
     (case entry_body i of
        Inl m \<Rightarrow> Inl m
      | Inr b \<Rightarrow> (case read_zip_entries is of Inl m \<Rightarrow> Inl m | Inr d \<Rightarrow> Inr ((entry_name i, b) # d)))"

section \<open>Documents\<close>

definition load_document :: "package_env \<Rightarrow> string dict \<Rightarrow> string \<Rightarrow> package_issue list \<times> json dict dict" where
  "load_document env contents name =
     (case dict_get contents name of
        None \<Rightarrow> ([], [])
      | Some body \<Rightarrow> (case Option.bind (utf8_decode body) (pkg_loads env) of
          None \<Rightarrow> ([pkg_issue PKG_JSON_INVALID ''Required JSON document could not be decoded: '' name], [])
        | Some (JObj d) \<Rightarrow> ([], [(name, d)])
        | Some _ \<Rightarrow> ([pkg_issue PKG_JSON_INVALID ''Required JSON document root must be an object.'' name], [])))"

definition load_documents :: "package_env \<Rightarrow> string dict \<Rightarrow> package_issue list \<times> json dict dict" where
  "load_documents env contents =
     (let rs = map (load_document env contents) json_entries in (concat (map fst rs), concat (map snd rs)))"

record review_case =
  case_subject :: board_subject
  case_policy :: board_policy
  case_advisories :: "machine_advisory list"
  case_reviews :: "human_review list"
  case_challenges :: "evidence_challenge list"
  case_evaluation :: board_evaluation

definition document_named :: "json dict dict \<Rightarrow> string \<Rightarrow> json dict res" where
  "document_named docs name = (case dict_get docs name of None \<Rightarrow> Inl (KeyError (in_quotes name)) | Some d \<Rightarrow> Inr d)"

definition parse_documents :: "review_reader \<Rightarrow> json dict dict \<Rightarrow> review_case res" where
  "parse_documents env docs =
     res_bind (res_bind (document_named docs ''review-case.json'') (parse_review_case env)) (\<lambda>(s, p).
     res_bind (res_bind (document_named docs ''machine-advisories.json'') (parse_machine_advisories env)) (\<lambda>as.
     res_bind (res_bind (document_named docs ''human-reviews.json'') (parse_human_reviews env)) (\<lambda>rs.
     res_bind (res_bind (document_named docs ''evidence-challenges.json'') (parse_evidence_challenges env)) (\<lambda>cs.
     res_bind (res_bind (document_named docs ''board-evaluation.json'') (parse_board_evaluation env)) (\<lambda>e.
       Inr \<lparr>case_subject = s, case_policy = p, case_advisories = as, case_reviews = rs, case_challenges = cs,
            case_evaluation = e\<rparr>)))))"

fun parse_failure :: "py_error \<Rightarrow> bool" where
  "parse_failure (KeyError _) = True"
| "parse_failure (TypeError _) = True"
| "parse_failure e = is_value_error e"

section \<open>The package inside\<close>

text \<open>Dataclasses are equal when their fields are; the metadata is a dictionary.\<close>

definition subject_eq :: "(json \<Rightarrow> json \<Rightarrow> bool) \<Rightarrow> board_subject \<Rightarrow> board_subject \<Rightarrow> bool" where
  "subject_eq feq s t \<longleftrightarrow> s\<lparr>board_subject_metadata := []\<rparr> = t\<lparr>board_subject_metadata := []\<rparr>
     \<and> py_eq feq (JObj (board_subject_metadata s)) (JObj (board_subject_metadata t))"

fun admission_failure :: "py_error \<Rightarrow> bool" where
  "admission_failure (OSError _) = True"
| "admission_failure e = is_value_error e"

definition check_upstream :: "package_env \<Rightarrow> string \<Rightarrow> board_subject \<Rightarrow> (package_issue list \<times> bool) res" where
  "check_upstream env body s =
     (if reader_hash (pkg_reader env) body \<noteq> wave12_archive s
      then Inr ([pkg_issue PKG_UPSTREAM_DIGEST_MISMATCH
        ''Embedded Wave 12 archive digest does not match the Wave 13 subject.'' upstream_entry], False)
      else case admit_package env body (board_admitted_at s) of
        Inl e \<Rightarrow> if admission_failure e
          then Inr ([pkg_issue PKG_UPSTREAM_VERIFICATION_FAILED
            (''Embedded Wave 12 package failed independent verification: '' @ error_text e) upstream_entry], False)
          else Inl e
      | Inr t \<Rightarrow> Inr (if subject_eq (reader_feq (pkg_reader env)) t s then []
          else [pkg_issue PKG_UPSTREAM_SUBJECT_MISMATCH
            ''Wave 13 subject does not match the independently admitted Wave 12 package.'' ''review-case.json''], True))"

section \<open>What is computed again\<close>

definition mismatch :: "(json \<Rightarrow> json \<Rightarrow> bool) \<Rightarrow> json \<Rightarrow> json dict \<Rightarrow> package_code \<Rightarrow> string \<Rightarrow> string \<Rightarrow> package_issue list" where
  "mismatch feq expected d code summary path = (if py_eq feq expected (JObj d) then [] else [pkg_issue code summary path])"

definition package_metadata :: "json dict" where
  "package_metadata = [(''producer'', JStr ''ix-blackfox-wave13-policy-engine'')]"

definition recheck_sets :: "review_reader \<Rightarrow> json dict dict \<Rightarrow> review_case \<Rightarrow> package_issue list res" where
  "recheck_sets env docs c =
     (let H = reader_hash env; feq = reader_feq env in
     res_bind (build_machine_advisory_set H (case_subject c) (case_policy c) (case_advisories c)) (\<lambda>aset.
     res_bind (document_named docs ''machine-advisories.json'') (\<lambda>adoc.
     res_bind (build_human_review_set H (case_subject c) (case_policy c) (case_reviews c)) (\<lambda>rset.
     res_bind (document_named docs ''human-reviews.json'') (\<lambda>rdoc.
     res_bind (build_challenge_set H (case_subject c) (case_challenges c)) (\<lambda>cset.
     res_bind (document_named docs ''evidence-challenges.json'') (\<lambda>cdoc.
       Inr (mismatch feq aset adoc PKG_ADVISORY_SET_MISMATCH
           ''Machine advisory set is not the canonical subject/policy-bound representation.'' ''machine-advisories.json''
         @ mismatch feq rset rdoc PKG_HUMAN_REVIEW_SET_MISMATCH
           ''Human review set is not the canonical subject/policy-bound representation.'' ''human-reviews.json''
         @ mismatch feq cset cdoc PKG_CHALLENGE_SET_MISMATCH
           ''Evidence challenge set is not the canonical subject-bound representation.'' ''evidence-challenges.json''))))))))"

definition recheck_evaluation :: "review_reader \<Rightarrow> review_case \<Rightarrow> board_evaluation \<Rightarrow> package_issue list res" where
  "recheck_evaluation env c e =
     res_bind (board_evaluation_dict (reader_hash env) e) (\<lambda>v.
     res_bind (board_evaluation_dict (reader_hash env) (case_evaluation c)) (\<lambda>w.
       Inr ((if external_verification_count e \<noteq> external_verification_count (case_evaluation c)
              \<or> external_context_digest e \<noteq> external_context_digest (case_evaluation c)
            then [pkg_issue PKG_EXTERNAL_CONTEXT_MISMATCH
              (''Trusted out-of-band human-review verification context does not ''
                @ ''match the context bound into the serialized board evaluation.'') ''board-evaluation.json''] else [])
         @ mismatch (reader_feq env) v (members_of w) PKG_EVALUATION_MISMATCH
            ''Serialized board disposition differs from independent policy recomputation.'' ''board-evaluation.json'')))"

definition recheck_ledger ::
  "review_reader \<Rightarrow> json dict dict \<Rightarrow> string dict \<Rightarrow> review_case \<Rightarrow> board_evaluation \<Rightarrow> (package_issue list \<times> json \<times> json) res" where
  "recheck_ledger env docs contents c e =
     (let H = reader_hash env; feq = reader_feq env in
     res_bind (build_review_ledger H (case_subject c) (case_policy c) (case_advisories c) (case_reviews c) (case_challenges c) e) (\<lambda>ledger.
     res_bind (document_named docs ''review-ledger.json'') (\<lambda>ldoc.
     res_bind (document_named docs ''bundle-index.json'') (\<lambda>idoc.
     res_bind (build_review_bundle_index H (case_subject c) (case_policy c) e ledger
         (filter (\<lambda>(name, _). name \<noteq> ''bundle-index.json'') contents)
         (case dict_get idoc ''metadata'' of Some (JObj m) \<Rightarrow> m | _ \<Rightarrow> [])) (\<lambda>index.
       Inr (mismatch feq ledger ldoc PKG_LEDGER_MISMATCH
            ''Review ledger does not match the independently rebuilt hash chain.'' ''review-ledger.json''
          @ mismatch feq index idoc PKG_BUNDLE_INDEX_MISMATCH
            ''Bundle index does not match package bytes and recomputed semantic digests.'' ''bundle-index.json'',
          ledger, index))))))"

section \<open>The whole verification\<close>

definition verify_case ::
  "package_env \<Rightarrow> external_verification list \<Rightarrow> package_verification \<Rightarrow> package_issue list \<Rightarrow> json dict dict \<Rightarrow> string dict
    \<Rightarrow> review_case \<Rightarrow> package_verification res" where
  "verify_case env externals base issues docs contents c =
     (let H = reader_hash (pkg_reader env); s = case_subject c; p = case_policy c;
          body = (case dict_get contents upstream_entry of None \<Rightarrow> [] | Some b \<Rightarrow> b) in
     res_bind (check_upstream env body s) (\<lambda>(is1, upstream).
     res_bind (recheck_sets (pkg_reader env) docs c) (\<lambda>is2.
     res_bind (evaluate_review_board H s p (case_advisories c) (case_reviews c) externals (case_challenges c) package_metadata) (\<lambda>e.
     res_bind (recheck_evaluation (pkg_reader env) c e) (\<lambda>is3.
     res_bind (recheck_ledger (pkg_reader env) docs contents c e) (\<lambda>(is4, ledger, index).
     res_bind (board_subject_digest H s) (\<lambda>sd.
     res_bind (board_policy_digest H p) (\<lambda>pd.
     res_bind (board_evaluation_digest H e) (\<lambda>ed.
     res_bind (text_member ledger ''digest'') (\<lambda>ld.
     res_bind (text_member index ''bundle_index_digest'') (\<lambda>xd.
       Inr (base\<lparr>verified_issues := sort_key issue_key (issues @ is1 @ is2 @ is3 @ is4), verified_subject := sd,
         verified_policy := pd, verified_evaluation := ed, verified_ledger := ld, verified_index := xd,
         verified_status := board_status_value (board_status_of e), verified_upstream_sha256 := H body,
         verified_upstream_passed := upstream, verified_context := external_context_digest e,
         verified_external_count := external_verification_count e\<rparr>))))))))))))"

definition verify_review_board_package ::
  "package_env \<Rightarrow> string \<Rightarrow> string + string \<Rightarrow> external_verification list \<Rightarrow> json dict \<Rightarrow> package_verification res" where
  "verify_review_board_package env path archive externals meta =
     (case archive of
        Inl m \<Rightarrow> Inr (package_result path [] 0 [pkg_issue PKG_ARCHIVE_OPEN_FAILED (''Archive could not be read: '' @ m) []] 0 0 meta)
      | Inr bytes \<Rightarrow>
        let result = package_result path (reader_hash (pkg_reader env) bytes) (length bytes) in
        (case zip_open env bytes of
           Inl m \<Rightarrow> Inr (result [pkg_issue PKG_ARCHIVE_OPEN_FAILED (''Archive could not be opened: '' @ m) []] 0 0 meta)
         | Inr infos \<Rightarrow>
           let issues = archive_issues env infos; unpacked = sum_list (map entry_size infos) in
           if list_ex (\<lambda>i. structural_code (pkg_code i)) issues then Inr (result issues (length infos) unpacked meta)
           else (case read_zip_entries infos of
               Inl m \<Rightarrow> Inr (result (issues @ [pkg_issue PKG_ARCHIVE_OPEN_FAILED (''Archive could not be opened: '' @ m) []])
                 (length infos) unpacked meta)
             | Inr contents \<Rightarrow>
               let (is0, docs) = load_documents env contents in
               if list_ex (\<lambda>name. dict_get docs name = None) json_entries
               then Inr (result (issues @ is0) (length infos) unpacked meta)
               else (case parse_documents (pkg_reader env) docs of
                   Inl e \<Rightarrow> if parse_failure e
                     then Inr (result (issues @ is0 @ [pkg_issue PKG_JSON_INVALID
                       (''Wave 13 document failed canonical parsing: '' @ error_text e) []]) (length infos) unpacked meta)
                     else Inl e
                 | Inr c \<Rightarrow> verify_case env externals (result [] (length infos) unpacked meta) (issues @ is0) docs contents c))))"

section \<open>What a verified package is\<close>

text \<open>
  A document is one that was built: equal to it as JSON. The documents of a case are rebuilt: the sets, the ledger and the index of the
  package are the ones built anew from the case and the bytes of the package, and the evaluation that is written down is, member by
  member, the evaluation of the case under the trusted verifications.
\<close>

definition document_is :: "review_reader \<Rightarrow> json dict dict \<Rightarrow> string \<Rightarrow> json res \<Rightarrow> bool" where
  "document_is env docs name built \<longleftrightarrow>
     (\<exists>x d. built = Inr x \<and> document_named docs name = Inr d \<and> py_eq (reader_feq env) x (JObj d))"

definition index_metadata :: "json dict \<Rightarrow> json dict" where
  "index_metadata d = (case dict_get d ''metadata'' of Some (JObj m) \<Rightarrow> m | _ \<Rightarrow> [])"

definition rebuilt_sets :: "review_reader \<Rightarrow> json dict dict \<Rightarrow> review_case \<Rightarrow> bool" where
  "rebuilt_sets env docs c \<longleftrightarrow>
     (let H = reader_hash env; s = case_subject c; p = case_policy c in
      document_is env docs ''machine-advisories.json'' (build_machine_advisory_set H s p (case_advisories c))
      \<and> document_is env docs ''human-reviews.json'' (build_human_review_set H s p (case_reviews c))
      \<and> document_is env docs ''evidence-challenges.json'' (build_challenge_set H s (case_challenges c)))"

definition rebuilt_ledger :: "review_reader \<Rightarrow> json dict dict \<Rightarrow> string dict \<Rightarrow> review_case \<Rightarrow> board_evaluation \<Rightarrow> bool" where
  "rebuilt_ledger env docs contents c e \<longleftrightarrow>
     (let H = reader_hash env; s = case_subject c; p = case_policy c;
          ledger = build_review_ledger H s p (case_advisories c) (case_reviews c) (case_challenges c) e in
      document_is env docs ''review-ledger.json'' ledger
      \<and> (\<exists>l d. ledger = Inr l \<and> document_named docs ''bundle-index.json'' = Inr d
          \<and> document_is env docs ''bundle-index.json'' (build_review_bundle_index H s p e l
               (filter (\<lambda>(name, _). name \<noteq> ''bundle-index.json'') contents) (index_metadata d))))"

definition same_evaluation :: "review_reader \<Rightarrow> board_evaluation \<Rightarrow> board_evaluation \<Rightarrow> bool" where
  "same_evaluation env e f \<longleftrightarrow> board_status_of f = board_status_of e
     \<and> external_verification_count f = external_verification_count e \<and> external_context_digest f = external_context_digest e
     \<and> (\<exists>v w. board_evaluation_dict (reader_hash env) e = Inr v \<and> board_evaluation_dict (reader_hash env) f = Inr w
          \<and> py_eq (reader_feq env) v (JObj (members_of w)))"

text \<open>
  The entries are exactly the required ones; the package inside was admitted, has the digest of the subject and is the subject; the
  documents are rebuilt; and the disposition that is written down is the verdict on the case under the trusted verifications.
\<close>

definition sound_package ::
  "package_env \<Rightarrow> external_verification list \<Rightarrow> zip_entry list \<Rightarrow> review_case \<Rightarrow> board_status \<Rightarrow> bool" where
  "sound_package env externals infos c verdict \<longleftrightarrow>
     (let H = reader_hash (pkg_reader env); s = case_subject c; p = case_policy c in
      distinct (map entry_name infos) \<and> set (map entry_name infos) = set required_entries
      \<and> (\<exists>contents body t e sd pd. read_zip_entries infos = Inr contents
          \<and> parse_documents (pkg_reader env) (snd (load_documents env contents)) = Inr c
          \<and> dict_get contents upstream_entry = Some body \<and> H body = wave12_archive s
          \<and> admit_package env body (board_admitted_at s) = Inr t \<and> subject_eq (reader_feq (pkg_reader env)) t s
          \<and> rebuilt_sets (pkg_reader env) (snd (load_documents env contents)) c
          \<and> evaluate_review_board H s p (case_advisories c) (case_reviews c) externals (case_challenges c) package_metadata = Inr e
          \<and> same_evaluation (pkg_reader env) e (case_evaluation c)
          \<and> rebuilt_ledger (pkg_reader env) (snd (load_documents env contents)) contents c e
          \<and> board_subject_digest H s = Inr sd \<and> board_policy_digest H p = Inr pd
          \<and> verdict = board_verdict H sd pd s p (case_advisories c) (case_reviews c) externals (case_challenges c))
      \<and> board_status_of (case_evaluation c) = verdict)"

lemma py_eq_text:
  assumes "py_eq feq (JObj d) (JObj e)" "dict_get d k = Some (JStr x)"
  shows "dict_get e k = Some (JStr x)"
proof -
  have "(k, JStr x) \<in> set d" using assms(2) by (rule dict_get_in)
  then have "case dict_get e k of None \<Rightarrow> False | Some y \<Rightarrow> py_eq feq (JStr x) y"
    using assms(1) by (simp add: list_all_iff del: py_eq.simps(2)) (elim conjE, drule (1) bspec, simp only: snd_conv fst_conv)
  then show ?thesis by (auto split: option.splits)
qed

lemma board_status_value_inj: "board_status_value a = board_status_value b \<Longrightarrow> a = b"
  by (cases a; cases b) simp_all

lemma signed_Inr: "signed H name d = Inr v \<Longrightarrow> \<exists>x. v = JObj (d @ [(name, JStr x)])"
  by (auto simp: signed_def res_bind_eq_Inr)

lemma dict_get_append_Some: "dict_get d k = Some v \<Longrightarrow> dict_get (d @ e) k = Some v"
  by (induction d) (auto split: if_splits)

lemma evaluation_status_text: "dict_get (board_evaluation_payload e) ''status'' = Some (JStr (board_status_value (board_status_of e)))"
  by (simp add: board_evaluation_payload_def)

lemma recheck_evaluation_silent:
  assumes "recheck_evaluation env c e = Inr []"
  shows "same_evaluation env e (case_evaluation c)"
proof -
  obtain v w where v: "board_evaluation_dict (reader_hash env) e = Inr v"
    and w: "board_evaluation_dict (reader_hash env) (case_evaluation c) = Inr w"
    and eq: "py_eq (reader_feq env) v (JObj (members_of w))"
    and outside: "external_verification_count e = external_verification_count (case_evaluation c)"
      "external_context_digest e = external_context_digest (case_evaluation c)"
    using assms by (auto simp: recheck_evaluation_def res_bind_eq_Inr mismatch_def split: if_splits)
  obtain x y where d: "v = JObj (board_evaluation_payload e @ [(''digest'', JStr x)])"
    "w = JObj (board_evaluation_payload (case_evaluation c) @ [(''digest'', JStr y)])"
    using signed_Inr [OF v [unfolded board_evaluation_dict_def]] signed_Inr [OF w [unfolded board_evaluation_dict_def]] by blast
  have "dict_get (board_evaluation_payload (case_evaluation c) @ [(''digest'', JStr y)]) ''status''
      = Some (JStr (board_status_value (board_status_of e)))"
    using py_eq_text [OF eq [unfolded d members_of.simps] dict_get_append_Some [OF evaluation_status_text]] .
  then have "board_status_of (case_evaluation c) = board_status_of e"
    using dict_get_append_Some [OF evaluation_status_text [of "case_evaluation c"], of "[(''digest'', JStr y)]"]
    by (metis board_status_value_inj json.inject(4) option.inject)
  with v w eq outside show ?thesis by (simp add: same_evaluation_def)
qed

lemma mismatch_silent [simp]: "mismatch feq x d code summary path = [] \<longleftrightarrow> py_eq feq x (JObj d)"
  by (simp add: mismatch_def)

lemma recheck_sets_silent: "recheck_sets env docs c = Inr [] \<Longrightarrow> rebuilt_sets env docs c"
  by (auto simp: recheck_sets_def rebuilt_sets_def document_is_def Let_def res_bind_eq_Inr simp del: py_eq.simps)

lemma recheck_ledger_silent: "recheck_ledger env docs contents c e = Inr ([], ledger, index) \<Longrightarrow> rebuilt_ledger env docs contents c e"
  by (auto simp: recheck_ledger_def rebuilt_ledger_def document_is_def index_metadata_def Let_def res_bind_eq_Inr simp del: py_eq.simps)

lemma check_upstream_silent:
  assumes "check_upstream env body s = Inr ([], ok)"
  shows "reader_hash (pkg_reader env) body = wave12_archive s"
    and "\<exists>t. admit_package env body (board_admitted_at s) = Inr t \<and> subject_eq (reader_feq (pkg_reader env)) t s"
  using assms by (auto simp: check_upstream_def split: if_splits sum.splits)

lemma counted_once: "\<forall>x \<in> set xs. count_list xs x \<le> 1 \<Longrightarrow> distinct xs"
proof (induction xs)
  case (Cons a xs)
  then have "count_list xs a = 0" by simp
  moreover have "\<forall>x \<in> set xs. count_list xs x \<le> 1"
  proof
    fix x assume "x \<in> set xs"
    then have "count_list (a # xs) x \<le> 1" using Cons.prems by simp
    then show "count_list xs x \<le> 1" by (simp split: if_splits)
  qed
  ultimately show ?case using Cons.IH by (simp add: count_list_0_iff)
qed simp

lemma archive_silent:
  assumes "archive_issues env infos = []"
  shows "distinct (map entry_name infos)" "set (map entry_name infos) = set required_entries"
proof -
  let ?ns = "map entry_name infos"
  have n: "filter (\<lambda>n. 1 < count_list ?ns n) ?ns = []" "filter (\<lambda>n. n \<notin> set ?ns) required_entries = []"
    "filter (\<lambda>n. n \<notin> set required_entries) ?ns = []"
    using assms by (simp_all add: archive_issues_def Let_def)
  from n(1) show "distinct ?ns" by (intro counted_once) (simp add: filter_empty_conv not_less)
  from n(2,3) show "set ?ns = set required_entries" by (auto simp: filter_empty_conv)
qed

lemma read_entries_names: "read_zip_entries infos = Inr d \<Longrightarrow> map fst d = map entry_name infos"
  by (induction infos arbitrary: d) (auto split: sum.splits)

lemma verify_case_silent:
  assumes "verify_case env externals base issues docs contents c = Inr v" "package_passed v"
  shows "issues = [] \<and> (\<exists>ok e. check_upstream env (case dict_get contents upstream_entry of None \<Rightarrow> [] | Some b \<Rightarrow> b) (case_subject c) = Inr ([], ok)
    \<and> evaluate_review_board (reader_hash (pkg_reader env)) (case_subject c) (case_policy c) (case_advisories c) (case_reviews c)
        externals (case_challenges c) package_metadata = Inr e
    \<and> recheck_sets (pkg_reader env) docs c = Inr []
    \<and> recheck_evaluation (pkg_reader env) c e = Inr []
    \<and> (\<exists>ledger index. recheck_ledger (pkg_reader env) docs contents c e = Inr ([], ledger, index))
    \<and> verified_status v = board_status_value (board_status_of e))
    \<and> (\<exists>sd. board_subject_digest (reader_hash (pkg_reader env)) (case_subject c) = Inr sd)
    \<and> (\<exists>pd. board_policy_digest (reader_hash (pkg_reader env)) (case_policy c) = Inr pd)"
  using assms by (auto simp: verify_case_def Let_def res_bind_eq_Inr package_passed_def)

lemma documents_complete:
  assumes l: "load_documents env contents = ([], docs)" and k: "set json_entries \<subseteq> set (dict_keys contents)"
  shows "\<not> list_ex (\<lambda>name. dict_get docs name = None) json_entries"
proof -
  have "dict_get docs n \<noteq> None" if n: "n \<in> set json_entries" for n
  proof -
    obtain body where "dict_get contents n = Some body" using n k dict_get_keys [of contents n] by blast
    moreover have "fst (load_document env contents n) = []" using l n by (simp add: load_documents_def Let_def)
    ultimately have "\<exists>d. snd (load_document env contents n) = [(n, d)]"
      by (auto simp: load_document_def split: option.splits json.splits)
    then obtain d where d: "snd (load_document env contents n) = [(n, d)]" by blast
    have "docs = concat (map (\<lambda>m. snd (load_document env contents m)) json_entries)"
      using l by (simp add: load_documents_def Let_def comp_def)
    then have "(n, d) \<in> set docs" using n d by force
    then show ?thesis using dict_get_keys [of docs n] by force
  qed
  then show ?thesis by (auto simp: list_ex_iff)
qed

lemma verify_reaches_case:
  assumes v: "verify_review_board_package env path archive externals meta = Inr v" and ok: "package_passed v"
  shows "\<exists>bytes infos contents docs base c. archive = Inr bytes \<and> zip_open env bytes = Inr infos
    \<and> archive_issues env infos = [] \<and> read_zip_entries infos = Inr contents \<and> load_documents env contents = ([], docs)
    \<and> parse_documents (pkg_reader env) docs = Inr c \<and> verify_case env externals base [] docs contents c = Inr v"
proof -
  obtain bytes where b: "archive = Inr bytes"
    using v ok by (cases archive) (auto simp: verify_review_board_package_def package_result_def package_passed_def)
  obtain infos where i: "zip_open env bytes = Inr infos"
    using v ok b by (cases "zip_open env bytes") (auto simp: verify_review_board_package_def Let_def package_result_def package_passed_def)
  note v1 = v [unfolded verify_review_board_package_def b sum.case Let_def i]
  have sane: "\<not> list_ex (\<lambda>i. structural_code (pkg_code i)) (archive_issues env infos)"
    using v1 ok by (auto simp: package_result_def package_passed_def split: if_splits)
  obtain contents where r: "read_zip_entries infos = Inr contents"
    using v1 ok sane by (cases "read_zip_entries infos") (auto simp: package_result_def package_passed_def)
  obtain is0 docs where l: "load_documents env contents = (is0, docs)" by (cases "load_documents env contents")
  have silent: "archive_issues env infos = [] \<and> is0 = []"
  proof (cases "list_ex (\<lambda>name. dict_get docs name = None) json_entries")
    case True
    then show ?thesis using v1 ok sane r l by (auto simp: package_result_def package_passed_def)
  next
    case False
    then show ?thesis using v1 ok sane r l
      by (cases "parse_documents (pkg_reader env) docs")
        (auto simp: package_result_def package_passed_def split: if_splits dest!: verify_case_silent)
  qed
  have "set json_entries \<subseteq> set (dict_keys contents)"
    using read_entries_names [OF r] archive_silent(2) silent by (auto simp: required_entries_def)
  then have "\<not> list_ex (\<lambda>name. dict_get docs name = None) json_entries"
    using documents_complete l silent by blast
  then show ?thesis using v1 ok sane r l silent b i
    by (cases "parse_documents (pkg_reader env) docs")
      (auto simp: package_result_def package_passed_def split: if_splits)
qed

lemma verified_sound:
  assumes v: "verify_review_board_package env path archive externals meta = Inr v" and ok: "package_passed v"
  shows "\<exists>bytes infos c verdict. archive = Inr bytes \<and> zip_open env bytes = Inr infos
    \<and> sound_package env externals infos c verdict \<and> verified_status v = board_status_value verdict"
proof -
  obtain bytes infos contents docs base c where b: "archive = Inr bytes" "zip_open env bytes = Inr infos"
    and silent: "archive_issues env infos = []"
    and r: "read_zip_entries infos = Inr contents" "load_documents env contents = ([], docs)"
      "parse_documents (pkg_reader env) docs = Inr c"
    and w: "verify_case env externals base [] docs contents c = Inr v"
    using verify_reaches_case [OF v ok] by blast
  note W = verify_case_silent [OF w ok]
  let ?H = "reader_hash (pkg_reader env)"
  obtain passed e sd pd where e: "check_upstream env (case dict_get contents upstream_entry of None \<Rightarrow> [] | Some b \<Rightarrow> b) (case_subject c)
      = Inr ([], passed)"
    "evaluate_review_board ?H (case_subject c) (case_policy c) (case_advisories c) (case_reviews c) externals (case_challenges c)
      package_metadata = Inr e" "recheck_evaluation (pkg_reader env) c e = Inr []" "recheck_sets (pkg_reader env) docs c = Inr []"
    "\<exists>ledger index. recheck_ledger (pkg_reader env) docs contents c e = Inr ([], ledger, index)"
    "verified_status v = board_status_value (board_status_of e)"
    and d: "board_subject_digest ?H (case_subject c) = Inr sd" "board_policy_digest ?H (case_policy c) = Inr pd"
    using W by blast
  note names = archive_silent [OF silent]
  have "upstream_entry \<in> set (dict_keys contents)"
    using names(2) read_entries_names [OF r(1)] by (simp add: required_entries_def)
  then obtain body where body: "dict_get contents upstream_entry = Some body" using dict_get_keys [of contents upstream_entry] by blast
  note up = check_upstream_silent [OF e(1) [unfolded body option.case]]
  have same: "same_evaluation (pkg_reader env) e (case_evaluation c)" "rebuilt_sets (pkg_reader env) docs c"
    "rebuilt_ledger (pkg_reader env) docs contents c e"
    using recheck_evaluation_silent [OF e(3)] recheck_sets_silent [OF e(4)] recheck_ledger_silent e(5) by blast+
  have status: "board_status_of (case_evaluation c) = board_status_of e" using same(1) by (simp add: same_evaluation_def)
  obtain t where t: "admit_package env body (board_admitted_at (case_subject c)) = Inr t"
    "subject_eq (reader_feq (pkg_reader env)) t (case_subject c)" using up by blast
  have docs: "snd (load_documents env contents) = docs" using r(2) by simp
  have "sound_package env externals infos c (board_status_of e)"
    unfolding sound_package_def Let_def
    by (rule conjI [OF names(1)], rule conjI [OF names(2)], rule conjI [OF _ status], rule exI [of _ contents], rule exI [of _ body],
        rule exI [of _ t], rule exI [of _ e], rule exI [of _ sd], rule exI [of _ pd])
      (intro conjI r(1) r(3) [folded docs] body up(1) t same(1) same(2,3) [folded docs] e(2) d board_decides [OF e(2) d])
  then show ?thesis using b e(6) by blast
qed

end
