(* ===== verification/Vault.thy ===== *)
theory Vault
  imports GovernanceReceipts Approvals Evidence Workspace
begin

text \<open>
  The vault (\<open>vault\<close>): the provenance ledger, sealed payloads with the part of the standard library's base64 they use, and the
  state store that keeps sealed entries.
\<close>

section \<open>Provenance\<close>

text \<open>
  The provenance ledger (\<open>vault/provenance.py\<close>): one chain of records per subject in a shared ledger. Its check is another instance
  of the chained receipts.
\<close>

record provenance_record =
  prov_id :: string
  prov_subject :: string
  prov_action :: string
  prov_fingerprint :: string
  prov_previous_id :: "string option"
  prov_previous_digest :: "string option"
  prov_digest :: string
  prov_created_at :: int
  prov_actor :: "string option"
  prov_metadata :: "json dict"

type_synonym provenance_ledger = "provenance_record list"

definition prov_identifier :: "string \<Rightarrow> string \<Rightarrow> string res" where
  "prov_identifier label value =
     (let cleaned = lower (strip value) in
      if cleaned = [] then Inl (ValueError (''Vault provenance '' @ label @ '' must not be empty.'')) else Inr cleaned)"

definition prov_payload :: "provenance_record \<Rightarrow> json" where
  "prov_payload r = JObj
     [(''record_id'', JStr (prov_id r)), (''subject'', JStr (prov_subject r)), (''action'', JStr (prov_action r)),
      (''fingerprint'', JStr (prov_fingerprint r)), (''previous_chain_digest'', json_opt (prov_previous_digest r)),
      (''actor'', json_opt (prov_actor r)), (''metadata'', JObj (prov_metadata r))]"

definition compute_prov_digest :: "(string \<Rightarrow> string) \<Rightarrow> provenance_record \<Rightarrow> string res" where
  "compute_prov_digest H r = plain_digest H (prov_payload r)"

definition prov_chain_of :: "string \<Rightarrow> provenance_ledger \<Rightarrow> provenance_ledger" where
  "prov_chain_of subject led = filter (\<lambda>r. prov_subject r = subject) led"

definition filter_by_subject :: "string \<Rightarrow> provenance_ledger \<Rightarrow> provenance_ledger res" where
  "filter_by_subject subject led = res_bind (prov_identifier ''subject'' subject) (\<lambda>s. Inr (prov_chain_of s led))"

definition latest_of_subject :: "string \<Rightarrow> provenance_ledger \<Rightarrow> provenance_record option res" where
  "latest_of_subject subject led =
     res_bind (filter_by_subject subject led) (\<lambda>rs. Inr (if rs = [] then None else Some (last rs)))"

definition latest_for_subject :: "provenance_ledger \<Rightarrow> string \<Rightarrow> provenance_record option" where
  "latest_for_subject led subject = List.find (\<lambda>r. prov_subject r = subject) (rev led)"

definition append_provenance ::
  "(string \<Rightarrow> string) \<Rightarrow> string \<Rightarrow> int \<Rightarrow> string \<Rightarrow> string \<Rightarrow> string \<Rightarrow> string option \<Rightarrow> json dict
    \<Rightarrow> provenance_ledger \<Rightarrow> (provenance_record \<times> provenance_ledger) res" where
  "append_provenance H fresh now subject action fingerprint actor metadata led =
     res_bind (prov_identifier ''subject'' subject) (\<lambda>s.
     res_bind (prov_identifier ''action'' action) (\<lambda>a.
     res_bind (prov_identifier ''fingerprint'' fingerprint) (\<lambda>f.
       let previous = latest_for_subject led s;
           draft = \<lparr>prov_id = ''prov-'' @ fresh, prov_subject = s, prov_action = a, prov_fingerprint = f,
             prov_previous_id = map_option prov_id previous, prov_previous_digest = map_option prov_digest previous,
             prov_digest = [], prov_created_at = now, prov_actor = filled_or_none actor, prov_metadata = metadata\<rparr>
       in res_bind (compute_prov_digest H draft) (\<lambda>d. let r = draft\<lparr>prov_digest := d\<rparr> in Inr (r, led @ [r])))))"

fun verify_provenance :: "(string \<Rightarrow> string) \<Rightarrow> provenance_record option \<Rightarrow> provenance_record list \<Rightarrow> bool res" where
  "verify_provenance H before [] = Inr True"
| "verify_provenance H before (r # rs) =
     (if prov_previous_id r \<noteq> map_option prov_id before then Inr False
      else if prov_previous_digest r \<noteq> map_option prov_digest before then Inr False
      else res_bind (compute_prov_digest H r) (\<lambda>d.
        if prov_digest r \<noteq> d then Inr False else verify_provenance H (Some r) rs))"

definition verify_subject_chain :: "(string \<Rightarrow> string) \<Rightarrow> provenance_ledger \<Rightarrow> string \<Rightarrow> bool res" where
  "verify_subject_chain H led subject =
     res_bind (prov_identifier ''subject'' subject) (\<lambda>s. verify_provenance H None (prov_chain_of s led))"

definition clear_provenance :: "provenance_ledger \<Rightarrow> provenance_ledger" where
  "clear_provenance led = []"

interpretation prov_chain: receipt_chain prov_id prov_previous_id prov_previous_digest prov_digest
  "compute_prov_digest H" "verify_provenance H" for H
  by unfold_locales (auto simp: res_bind_eq_Inr)

declare verify_provenance.simps(2) [simp del]

subsection \<open>The ledger stays verified\<close>

definition prov_verified :: "(string \<Rightarrow> string) \<Rightarrow> provenance_ledger \<Rightarrow> bool" where
  "prov_verified H led \<longleftrightarrow> (\<forall>s. verify_provenance H None (prov_chain_of s led) = Inr True)"

lemma prov_chain_snoc:
  "prov_chain_of s (led @ [r]) = (if prov_subject r = s then prov_chain_of s led @ [r] else prov_chain_of s led)"
  by (simp add: prov_chain_of_def)

lemma latest_for_subject_last: "latest_for_subject led s = last_or None (prov_chain_of s led)"
  by (simp add: latest_for_subject_def prov_chain_of_def find_rev)

lemma compute_prov_digest_cong [simp]: "compute_prov_digest H (r\<lparr>prov_digest := d\<rparr>) = compute_prov_digest H r"
  by (simp add: compute_prov_digest_def prov_payload_def)

lemma append_provenance_Inr:
  assumes "append_provenance H fresh now subject action fp actor metadata led = Inr (r, led')"
  shows "led' = led @ [r]" "prov_identifier ''subject'' subject = Inr (prov_subject r)"
    "prov_previous_id r = map_option prov_id (latest_for_subject led (prov_subject r))"
    "prov_previous_digest r = map_option prov_digest (latest_for_subject led (prov_subject r))"
    "compute_prov_digest H r = Inr (prov_digest r)"
    "prov_identifier ''fingerprint'' fp = Inr (prov_fingerprint r)"
  using assms by (auto simp: append_provenance_def Let_def res_bind_eq_Inr compute_prov_digest_def prov_payload_def)

lemma append_provenance_verified:
  assumes "prov_verified H led" and "append_provenance H fresh now subject action fp actor metadata led = Inr (r, led')"
  shows "prov_verified H led'"
  using assms(1) append_provenance_Inr [OF assms(2)]
  by (auto simp: prov_verified_def prov_chain_snoc prov_chain.check_snoc latest_for_subject_last)

text \<open>The ledgers that appends and clearings write, whatever the identifiers and the clock.\<close>

inductive provenance_history :: "(string \<Rightarrow> string) \<Rightarrow> provenance_ledger \<Rightarrow> bool" for H where
  provenance_new: "provenance_history H []"
| provenance_append: "provenance_history H led \<Longrightarrow>
     append_provenance H fresh now subject action fp actor metadata led = Inr (r, led') \<Longrightarrow> provenance_history H led'"
| provenance_clear: "provenance_history H led \<Longrightarrow> provenance_history H (clear_provenance led)"

lemma provenance_history_verified: "provenance_history H led \<Longrightarrow> prov_verified H led"
  by (induction rule: provenance_history.induct)
    (auto simp: prov_verified_def prov_chain_of_def clear_provenance_def dest: append_provenance_verified [unfolded prov_verified_def]
      intro: append_provenance_verified [unfolded prov_verified_def prov_chain_of_def, rule_format])

section \<open>Seals\<close>

text \<open>
  Sealed payloads (\<open>vault/seal.py\<close>) with the part of the standard library's base64 they use. HMAC is a parameter \<open>mac\<close> of
  a secret and a text.
\<close>

subsection \<open>Base64\<close>

definition b64_alphabet :: string where
  "b64_alphabet = ''ABCDEFGHIJKLMNOPQRSTUVWXYZabcdefghijklmnopqrstuvwxyz0123456789+/''"

definition b64_char :: "nat \<Rightarrow> char" where
  "b64_char n = b64_alphabet ! n"

text \<open>The value of a character of the alphabet, as the decoder's table has it.\<close>

definition b64_value :: "char \<Rightarrow> nat option" where
  "b64_value c =
     (let n = code_point c in
      if 65 \<le> n \<and> n \<le> 90 then Some (n - 65)
      else if 97 \<le> n \<and> n \<le> 122 then Some (n - 71)
      else if 48 \<le> n \<and> n \<le> 57 then Some (n + 4)
      else if n = 43 then Some 62 else if n = 47 then Some 63 else None)"

fun b64_encode :: "string \<Rightarrow> string" where
  "b64_encode [] = []"
| "b64_encode [a] = (let x = code_point a in [b64_char (x div 4), b64_char (x mod 4 * 16), CHR ''='', CHR ''=''])"
| "b64_encode [a, b] = (let x = code_point a; y = code_point b in
     [b64_char (x div 4), b64_char (x mod 4 * 16 + y div 16), b64_char (y mod 16 * 4), CHR ''=''])"
| "b64_encode (a # b # c # s) = (let x = code_point a; y = code_point b; z = code_point c in
     b64_char (x div 4) # b64_char (x mod 4 * 16 + y div 16) # b64_char (y mod 16 * 4 + z div 64)
       # b64_char (z mod 64) # b64_encode s)"

text \<open>
  The decoder without validation: it skips what is not in the alphabet and stops at the padding that completes a group
  of four. \<open>q\<close> is the position in the group, \<open>p\<close> the padding seen in it, \<open>l\<close> the bits left over.
\<close>

fun b64_scan :: "nat \<Rightarrow> nat \<Rightarrow> nat \<Rightarrow> string \<Rightarrow> string res" where
  "b64_scan q p l [] =
     (if q = 0 then Inr []
      else if q = 1 then Inl (ValueError ''Invalid base64-encoded string: number of data characters cannot be 1 more than a multiple of 4'')
      else Inl (ValueError ''Incorrect padding''))"
| "b64_scan q p l (c # s) =
     (if c = CHR ''='' then (if 2 \<le> q \<and> 4 \<le> q + (p + 1) then Inr [] else b64_scan q (if 2 \<le> q then p + 1 else p) l s)
      else case b64_value c of
        None \<Rightarrow> b64_scan q p l s
      | Some v \<Rightarrow>
          if q = 0 then b64_scan 1 0 v s
          else if q = 1 then res_bind (b64_scan 2 0 (v mod 16) s) (\<lambda>bs. Inr (char_of (l * 4 + v div 16) # bs))
          else if q = 2 then res_bind (b64_scan 3 0 (v mod 4) s) (\<lambda>bs. Inr (char_of (l * 16 + v div 4) # bs))
          else res_bind (b64_scan 0 0 0 s) (\<lambda>bs. Inr (char_of (l * 64 + v) # bs)))"

text \<open>\<open>base64.b64decode(text.encode("ascii"))\<close>\<close>

definition b64_decode :: "string \<Rightarrow> string res" where
  "b64_decode s =
     (if list_ex (\<lambda>c. 128 \<le> code_point c) s then Inl (ValueError ''ordinal not in range(128)'') else b64_scan 0 0 0 s)"

subsection \<open>Seals\<close>

record sealed_payload =
  seal_purpose :: string
  payload_b64 :: string
  seal_digest :: string
  seal_created_at :: datetime
  seal_algorithm :: string

definition payload_bytes :: "sealed_payload \<Rightarrow> string res" where
  "payload_bytes s = b64_decode (payload_b64 s)"

text \<open>\<open>payload_dict\<close>: the bytes decoded as UTF-8 and parsed.\<close>

definition payload_dict :: "json_loads \<Rightarrow> sealed_payload \<Rightarrow> json res" where
  "payload_dict loads s =
     res_bind (payload_bytes s) (\<lambda>bs. case utf8_decode bs of
       None \<Rightarrow> Inl (ValueError ''invalid start byte'')
     | Some t \<Rightarrow> (case loads t of None \<Rightarrow> Inl (ValueError ''Expecting value'') | Some v \<Rightarrow> Inr v))"

definition seal_bytes :: "json \<Rightarrow> string res" where
  "seal_bytes v =
     (if holds_other v then Inl (ValueError ''Payload is not JSON-serializable: Object is not JSON serializable'')
      else Inr (utf8 (json_dumps False v)))"

definition seal_material :: "string \<Rightarrow> string \<Rightarrow> string" where
  "seal_material purpose bytes = utf8 purpose @ CHR 0x00 # bytes"

definition secret_bytes :: "string \<Rightarrow> string res" where
  "secret_bytes secret = (if utf8 secret = [] then Inl (ValueError ''Vault secret must not be empty.'') else Inr (utf8 secret))"

definition vault_text :: "string \<Rightarrow> string \<Rightarrow> string res" where
  "vault_text message value = (let cleaned = strip value in if cleaned = [] then Inl (ValueError message) else Inr cleaned)"

definition seal_payload ::
  "(string \<Rightarrow> string \<Rightarrow> string) \<Rightarrow> int \<Rightarrow> json \<Rightarrow> string \<Rightarrow> string \<Rightarrow> sealed_payload res" where
  "seal_payload mac now v secret purpose =
     res_bind (vault_text ''Vault purpose must not be empty.'' purpose) (\<lambda>p.
     res_bind (seal_bytes v) (\<lambda>bs.
     res_bind (secret_bytes secret) (\<lambda>k.
       Inr \<lparr>seal_purpose = p, payload_b64 = b64_encode bs, seal_digest = mac k (seal_material p bs),
            seal_created_at = Aware now, seal_algorithm = ''hmac-sha256''\<rparr>)))"

definition verify_seal :: "(string \<Rightarrow> string \<Rightarrow> string) \<Rightarrow> sealed_payload \<Rightarrow> string \<Rightarrow> bool res" where
  "verify_seal mac s secret =
     res_bind (payload_bytes s) (\<lambda>bs.
     res_bind (secret_bytes secret) (\<lambda>k. Inr (seal_digest s = mac k (seal_material (seal_purpose s) bs))))"

definition fingerprint_bytes :: "(string \<Rightarrow> string) \<Rightarrow> string \<Rightarrow> string" where
  "fingerprint_bytes H data = H data"

definition zeroize_text :: "string \<Rightarrow> string" where
  "zeroize_text value = replicate (length value) CHR ''*''"

subsection \<open>What is encoded is decoded\<close>

lemma b64_table: "list_all (\<lambda>(n, c). b64_value c = Some n \<and> c \<noteq> CHR ''='' \<and> code_point c < 128) (enumerate 0 b64_alphabet)"
  by (simp add: b64_alphabet_def b64_value_def code_point_def Let_def)

lemma b64_char_value: "n < 64 \<Longrightarrow> b64_value (b64_char n) = Some n \<and> b64_char n \<noteq> CHR ''='' \<and> code_point (b64_char n) < 128"
proof -
  assume n: "n < 64"
  have "length b64_alphabet = 64" by (simp add: b64_alphabet_def)
  with n have "(n, b64_char n) \<in> set (enumerate 0 b64_alphabet)" by (simp add: in_set_enumerate_eq b64_char_def)
  then show ?thesis using b64_table by (auto simp: list_all_iff)
qed

lemma byte_parts: "code_point c div 4 < 64" "code_point c div 16 < 16" "code_point c div 64 < 4"
proof -
  have "code_point c < 256" by (simp add: code_point_def)
  then show "code_point c div 4 < 64" "code_point c div 16 < 16" "code_point c div 64 < 4" by simp_all
qed

lemma sextets: "y < 16 \<Longrightarrow> x mod 4 * 16 + y < (64 :: nat)" "y < 4 \<Longrightarrow> x mod 16 * 4 + y < (64 :: nat)"
  using mod_less_divisor [of 4 x] mod_less_divisor [of 16 x] by linarith+

lemma char_of_code_point [simp]: "char_of (code_point c) = c"
  by (simp add: code_point_def)

lemma b64_scan_encode: "b64_scan 0 0 0 (b64_encode bs) = Inr bs"
proof (induction bs rule: b64_encode.induct)
  case (2 a)
  have "code_point a div 4 < 64" "code_point a mod 4 * 16 < 64" using byte_parts [of a] by simp_all
  from this [THEN b64_char_value] show ?case by (simp add: Let_def)
next
  case (3 a b)
  have "code_point a div 4 < 64" "code_point a mod 4 * 16 + code_point b div 16 < 64" "code_point b mod 16 * 4 < 64"
    using byte_parts [of a] byte_parts [of b] by (simp_all add: sextets)
  from this [THEN b64_char_value] show ?case using byte_parts [of b] by (simp add: Let_def)
next
  case (4 a b c s)
  have "code_point a div 4 < 64" "code_point a mod 4 * 16 + code_point b div 16 < 64"
    "code_point b mod 16 * 4 + code_point c div 64 < 64" "code_point c mod 64 < 64"
    using byte_parts [of a] byte_parts [of b] byte_parts [of c] by (simp_all add: sextets)
  from this [THEN b64_char_value] show ?case using 4 byte_parts [of b] byte_parts [of c] by (simp add: Let_def)
qed simp

section \<open>The state store\<close>

text \<open>
  The integrity-protected state store (\<open>vault/state_store.py\<close>). The disk is an association list from absolute paths, the lists of
  their components, to nodes: a file with the JSON document of its text (None where the text is not JSON), a directory, or a symbolic
  link with its target. A document that is written is read back as it was. A key is the name of a file, so one with slashes or dots in
  it names a file elsewhere, and several keys may name one file: entries are kept by file, not by key. Permissions and
  the longest name a file system takes are left out. \<open>VaultStateIntegrityError\<close>, a RuntimeError, is \<open>OtherError\<close>.
\<close>

datatype vault_node = VaultFile "json option" | VaultDir | VaultLink string

type_synonym vault_disk = "(fs_path \<times> vault_node) list"

text \<open>
  How the operating system follows a path from the directory \<open>done\<close>: every component but the last is a directory or leads to one, \<open>..\<close> is
  the directory above, a link is replaced by its target, of which at most \<open>n\<close> are followed. None is a path that leads nowhere; otherwise the
  result is a directory, a file, or a place in a directory where there is nothing.
\<close>

function os_walk :: "nat \<Rightarrow> vault_disk \<Rightarrow> fs_path \<Rightarrow> string list \<Rightarrow> fs_path option" where
  "os_walk n disk done [] = Some done"
| "os_walk n disk done (c # cs) =
     (if c = ''..'' then os_walk n disk (butlast done) cs
      else case map_of disk (done @ [c]) of
        Some VaultDir \<Rightarrow> os_walk n disk (done @ [c]) cs
      | Some (VaultLink target) \<Rightarrow>
          (case n of
             0 \<Rightarrow> None
           | Suc k \<Rightarrow> os_walk k disk (if path_is_absolute target then [] else done) (path_parts target @ cs))
      | _ \<Rightarrow> if cs = [] then Some (done @ [c]) else None)"
  by pat_completeness auto
termination
  by (relation "measures [\<lambda>(n, disk, done, cs). n, \<lambda>(n, disk, done, cs). length cs]") auto

text \<open>The links Linux follows in one path.\<close>

definition max_links :: nat where
  "max_links = 40"

record vault_entry =
  vault_key :: string
  vault_purpose :: string
  vault_sealed :: sealed_payload
  vault_path :: "string list"

record vault_env =
  vault_mac :: "string \<Rightarrow> string \<Rightarrow> string"
  vault_rt :: py_runtime
  vault_parse :: iso_parser
  vault_secret :: string
  vault_namespace :: string
  vault_root :: fs_path

text \<open>\<open>__init__\<close>: the namespace is kept stripped and is not empty.\<close>

definition vault_init :: "vault_env \<Rightarrow> vault_env res" where
  "vault_init env =
     res_bind (vault_text ''Vault state purpose namespace must not be empty.'' (vault_namespace env)) (\<lambda>n.
       Inr (env\<lparr>vault_namespace := n\<rparr>))"

text \<open>\<open>mkdir(parents=True, exist_ok=True)\<close> of the resolved root.\<close>

fun vault_make_dirs :: "fs_path \<Rightarrow> string list \<Rightarrow> vault_disk \<Rightarrow> vault_disk res" where
  "vault_make_dirs done [] disk = Inr disk"
| "vault_make_dirs done (c # cs) disk =
     (case map_of disk (done @ [c]) of
        Some VaultDir \<Rightarrow> vault_make_dirs (done @ [c]) cs disk
      | None \<Rightarrow> vault_make_dirs (done @ [c]) cs (AList.update (done @ [c]) VaultDir disk)
      | _ \<Rightarrow> Inl (OSError ''File exists''))"

definition vault_open :: "vault_env \<Rightarrow> vault_disk \<Rightarrow> (vault_env \<times> vault_disk) res" where
  "vault_open env disk =
     res_bind (vault_init env) (\<lambda>e.
     res_bind (vault_make_dirs [] (vault_root e) disk) (\<lambda>d. Inr (e, d)))"

definition vault_key_of :: "string \<Rightarrow> string res" where
  "vault_key_of value =
     (let cleaned = lower (strip value) in
      if cleaned = [] then Inl (ValueError ''Vault state key must not be empty.'') else Inr cleaned)"

definition entry_purpose :: "vault_env \<Rightarrow> string \<Rightarrow> string" where
  "entry_purpose env key = vault_namespace env @ '':'' @ key"

definition entry_document :: "py_runtime \<Rightarrow> string \<Rightarrow> string \<Rightarrow> sealed_payload \<Rightarrow> json" where
  "entry_document rt key purpose s = JObj
     [(''key'', JStr key), (''purpose'', JStr purpose),
      (''sealed'', JObj
        [(''purpose'', JStr (seal_purpose s)), (''payload_b64'', JStr (payload_b64 s)), (''digest'', JStr (seal_digest s)),
         (''created_at'', JStr (datetime_isoformat rt (seal_created_at s))), (''algorithm'', JStr (seal_algorithm s))])]"

text \<open>\<open>_entry_path\<close>: the components of the path of a key's file, and where they lead.\<close>

definition entry_path :: "vault_env \<Rightarrow> string \<Rightarrow> string list" where
  "entry_path env key =
     (let name = key @ ''.json'' in (if path_is_absolute name then [] else vault_root env) @ path_parts name)"

definition entry_file :: "vault_env \<Rightarrow> vault_disk \<Rightarrow> string \<Rightarrow> fs_path option" where
  "entry_file env disk key = os_walk max_links disk [] (entry_path env key)"

text \<open>A path with a null character in it cannot be opened, and does not exist.\<close>

definition takes_file :: "vault_node option \<Rightarrow> bool" where
  "takes_file x = (case x of None \<Rightarrow> True | Some (VaultFile _) \<Rightarrow> True | _ \<Rightarrow> False)"

definition vault_put ::
  "vault_env \<Rightarrow> int \<Rightarrow> string \<Rightarrow> json \<Rightarrow> vault_disk \<Rightarrow> (vault_entry \<times> vault_disk) res" where
  "vault_put env now key v disk =
     res_bind (vault_key_of key) (\<lambda>k.
     let purpose = entry_purpose env k in
     res_bind (seal_payload (vault_mac env) now v (vault_secret env) purpose) (\<lambda>s.
       if CHR 0x00 \<in> set k then Inl (ValueError ''embedded null byte'')
       else case entry_file env disk k of
         None \<Rightarrow> Inl (OSError ''No such file or directory'')
       | Some p \<Rightarrow>
           if p = [] \<or> \<not> takes_file (map_of disk p) then Inl (OSError ''Is a directory'')
           else Inr (\<lparr>vault_key = k, vault_purpose = purpose, vault_sealed = s, vault_path = entry_path env k\<rparr>,
             AList.update p (VaultFile (Some (entry_document (vault_rt env) k purpose s))) disk)))"

definition decode_sealed :: "iso_parser \<Rightarrow> py_runtime \<Rightarrow> json \<Rightarrow> sealed_payload res" where
  "decode_sealed parse rt v =
     res_bind (field_of v ''purpose'') (\<lambda>p.
     res_bind (field_of v ''payload_b64'') (\<lambda>b.
     res_bind (field_of v ''digest'') (\<lambda>d.
     res_bind (res_bind (field_of v ''created_at'') (\<lambda>x. fromisoformat parse (py_str rt x))) (\<lambda>c.
     res_bind (optional_field v ''algorithm'') (\<lambda>a.
       Inr \<lparr>seal_purpose = py_str rt p, payload_b64 = py_str rt b, seal_digest = py_str rt d, seal_created_at = c,
            seal_algorithm = (case a of None \<Rightarrow> ''hmac-sha256'' | Some x \<Rightarrow> py_str rt x)\<rparr>)))))"

definition entry_failure :: "py_error \<Rightarrow> py_error" where
  "entry_failure e =
     (case e of
        KeyError k \<Rightarrow> OtherError (''Stored state entry is malformed: missing field '' @ k @ ''.'')
      | _ \<Rightarrow> if is_value_error e then OtherError (''Stored state entry is invalid: '' @ error_text e) else e)"

definition decode_entry :: "iso_parser \<Rightarrow> py_runtime \<Rightarrow> json \<Rightarrow> fs_path \<Rightarrow> vault_entry res" where
  "decode_entry parse rt raw p' =
     (case
        res_bind (res_bind (field_of raw ''sealed'') (decode_sealed parse rt)) (\<lambda>s.
        res_bind (res_bind (field_of raw ''key'') (\<lambda>x. vault_key_of (py_str rt x))) (\<lambda>k.
        res_bind (res_bind (field_of raw ''purpose'') (\<lambda>x. vault_text ''Vault state purpose must not be empty.'' (py_str rt x))) (\<lambda>p.
          Inr \<lparr>vault_key = k, vault_purpose = p, vault_sealed = s, vault_path = p'\<rparr>)))
      of Inl e \<Rightarrow> Inl (entry_failure e) | Inr x \<Rightarrow> Inr x)"

definition integrity_error :: "string \<Rightarrow> string \<Rightarrow> py_error" where
  "integrity_error what k = OtherError (what @ '' for '' @ in_quotes k @ ''.'')"

text \<open>The node \<open>exists\<close> finds for a key.\<close>

definition entry_node :: "vault_env \<Rightarrow> vault_disk \<Rightarrow> string \<Rightarrow> (fs_path \<times> vault_node) option" where
  "entry_node env disk k =
     (if CHR 0x00 \<in> set k then None
      else case entry_file env disk k of
        None \<Rightarrow> None
      | Some p \<Rightarrow> if p = [] then Some (p, VaultDir) else map_option (Pair p) (map_of disk p))"

definition vault_get :: "vault_env \<Rightarrow> string \<Rightarrow> vault_disk \<Rightarrow> vault_entry option res" where
  "vault_get env key disk =
     res_bind (vault_key_of key) (\<lambda>k.
     case entry_node env disk k of
       None \<Rightarrow> Inr None
     | Some (p, VaultFile None) \<Rightarrow> Inl (ValueError ''Expecting value'')
     | Some (p, VaultFile (Some raw)) \<Rightarrow>
         res_bind (decode_entry (vault_parse env) (vault_rt env) raw p) (\<lambda>e.
         if vault_key e \<noteq> k then Inl (integrity_error ''Stored key mismatch'' k)
         else if vault_purpose e \<noteq> entry_purpose env k then Inl (integrity_error ''Stored purpose mismatch'' k)
         else res_bind (verify_seal (vault_mac env) (vault_sealed e) (vault_secret env)) (\<lambda>ok.
           if \<not> ok then Inl (integrity_error ''Integrity verification failed'' k) else Inr (Some e)))
     | _ \<Rightarrow> Inl (OSError ''Is a directory''))"

text \<open>\<open>unlink\<close> removes the last component of the path itself, a link and not what it leads to.\<close>

definition unlink_place :: "vault_env \<Rightarrow> vault_disk \<Rightarrow> string \<Rightarrow> fs_path option" where
  "unlink_place env disk k =
     map_option (\<lambda>d. d @ [last (entry_path env k)]) (os_walk max_links disk [] (butlast (entry_path env k)))"

definition remove_node :: "fs_path \<Rightarrow> vault_disk \<Rightarrow> vault_disk res" where
  "remove_node p disk =
     (if map_of disk p = Some VaultDir then Inl (OSError ''Is a directory'') else Inr (AList.delete p disk))"

definition vault_delete :: "vault_env \<Rightarrow> string \<Rightarrow> vault_disk \<Rightarrow> (bool \<times> vault_disk) res" where
  "vault_delete env key disk =
     res_bind (vault_key_of key) (\<lambda>k.
     if entry_node env disk k = None then Inr (False, disk)
     else case unlink_place env disk k of
       None \<Rightarrow> Inl (OSError ''No such file or directory'')
     | Some p \<Rightarrow> res_bind (remove_node p disk) (\<lambda>d. Inr (True, d)))"

text \<open>\<open>glob("*.json")\<close> sees the nodes of the root directory itself, of every kind, in the order the disk lists them.\<close>

definition vault_listing :: "vault_env \<Rightarrow> vault_disk \<Rightarrow> fs_path list" where
  "vault_listing env disk =
     filter (\<lambda>p. p \<noteq> [] \<and> butlast p = vault_root env \<and> ends_with (last p) ''.json'') (remdups (map fst disk))"

definition json_stem :: "string \<Rightarrow> string" where
  "json_stem name = (if name = ''.json'' then name else take (length name - 5) name)"

definition vault_keys :: "vault_env \<Rightarrow> vault_disk \<Rightarrow> string list" where
  "vault_keys env disk = sort (map (\<lambda>p. json_stem (last p)) (vault_listing env disk))"

text \<open>\<open>clear\<close> stops at a directory of such a name; what it removed before stays removed.\<close>

fun remove_nodes :: "fs_path list \<Rightarrow> vault_disk \<Rightarrow> unit res \<times> vault_disk" where
  "remove_nodes [] disk = (Inr (), disk)"
| "remove_nodes (p # ps) disk = (case remove_node p disk of Inl e \<Rightarrow> (Inl e, disk) | Inr d \<Rightarrow> remove_nodes ps d)"

definition vault_clear :: "vault_env \<Rightarrow> vault_disk \<Rightarrow> unit res \<times> vault_disk" where
  "vault_clear env disk = remove_nodes (vault_listing env disk) disk"

subsection \<open>What a seal binds\<close>

lemma utf8_char_low: "x \<in> set (utf8_char d) \<Longrightarrow> code_point x < 128 \<Longrightarrow> x = d"
proof -
  have d: "code_point d < 256" by (simp add: code_point_def)
  have "128 \<le> (192 + code_point d div 64) mod 256" "128 \<le> (128 + code_point d mod 64) mod 256"
    using d by (simp_all add: less_mult_imp_div_less)
  then have "128 \<le> code_point (char_of (192 + code_point d div 64))" "128 \<le> code_point (char_of (128 + code_point d mod 64))"
    unfolding code_point_def by (simp_all only: of_char_of)
  then show "x \<in> set (utf8_char d) \<Longrightarrow> code_point x < 128 \<Longrightarrow> x = d"
    unfolding utf8_char_def Let_def by (cases "code_point d < 128") auto
qed

lemma utf8_no_null: "CHR 0x00 \<notin> set s \<Longrightarrow> CHR 0x00 \<notin> set (utf8 s)"
proof
  assume s: "CHR 0x00 \<notin> set s" and "CHR 0x00 \<in> set (utf8 s)"
  then obtain d where "d \<in> set s" "CHR 0x00 \<in> set (utf8_char d)" by (auto simp: utf8_def)
  moreover have "code_point (CHR 0x00) < 128" by (simp add: code_point_def)
  ultimately show False using s utf8_char_low by blast
qed

lemma split_at_null:
  "a @ CHR 0x00 # x = b @ CHR 0x00 # y \<Longrightarrow> CHR 0x00 \<notin> set a \<Longrightarrow> CHR 0x00 \<notin> set b \<Longrightarrow> a = b \<and> x = y"
  by (induction a arbitrary: b) (auto simp: Cons_eq_append_conv append_eq_Cons_conv neq_Nil_conv split: list.splits)

text \<open>The digest of a seal binds its purpose and its bytes, as long as the texts under the digest do not collide.\<close>

lemma seal_material_inj:
  assumes "seal_material p bs = seal_material q cs" "CHR 0x00 \<notin> set p" "CHR 0x00 \<notin> set q"
  shows "p = q \<and> bs = cs"
  using split_at_null [OF assms(1) [unfolded seal_material_def] utf8_no_null [OF assms(2)] utf8_no_null [OF assms(3)]] utf8_inj
  by auto

subsection \<open>What is stored is read back\<close>

lemma strip_lower_strip: "strip (lower (strip s)) = lower (strip s)"
proof (cases "strip s = []")
  case False
  have "trimmed_by is_space (strip s)" using trimmed_strip_by [of is_space s] by (simp add: strip_def)
  then have "trimmed_by is_space (lower (strip s))" using False by (simp add: trimmed_by_def lower_def hd_map last_map)
  then show ?thesis by (simp add: strip_def strip_by_trimmed_id)
next
  case True
  moreover have "lower [] = []" "strip [] = []" by code_simp+
  ultimately show ?thesis by (simp only:)
qed

lemma vault_key_normal:
  assumes "vault_key_of key = Inr k"
  shows "k \<noteq> []" "strip k = k" "vault_key_of k = Inr k"
proof -
  have k: "k = lower (strip key)" "k \<noteq> []" using assms by (auto simp: vault_key_of_def Let_def split: if_splits)
  then show "k \<noteq> []" "strip k = k" by (simp_all add: strip_lower_strip)
  have "lower k = k" unfolding k(1) lower_def by (simp add: comp_def lower_char_idem)
  then show "vault_key_of k = Inr k" using \<open>k \<noteq> []\<close> \<open>strip k = k\<close> by (simp add: vault_key_of_def)
qed

definition vault_ready :: "vault_env \<Rightarrow> bool" where
  "vault_ready env \<longleftrightarrow> vault_init env = Inr env \<and> vault_secret env \<noteq> []"

lemma entry_purpose_normal:
  assumes "vault_ready env" "vault_key_of key = Inr k"
  shows "strip (entry_purpose env k) = entry_purpose env k" "entry_purpose env k \<noteq> []"
proof -
  have n: "strip (vault_namespace env) = vault_namespace env" "vault_namespace env \<noteq> []"
    using assms(1) by (cases env; auto simp: vault_ready_def vault_init_def vault_text_def Let_def split: if_splits)+
  note k = vault_key_normal [OF assms(2)]
  have "trimmed_by is_space (vault_namespace env)" "trimmed_by is_space k"
    using trimmed_strip_by [of is_space "vault_namespace env"] trimmed_strip_by [of is_space k] n k by (simp_all add: strip_def)
  then have "trimmed_by is_space (entry_purpose env k)" using n k by (simp add: trimmed_by_def entry_purpose_def)
  then show "strip (entry_purpose env k) = entry_purpose env k" by (simp add: strip_def strip_by_trimmed_id)
  show "entry_purpose env k \<noteq> []" using n by (simp add: entry_purpose_def)
qed

lemma b64_encode_ascii: "list_all (\<lambda>c. code_point c < 128) (b64_encode bs)"
proof (induction bs rule: b64_encode.induct)
  case (2 a)
  have "code_point a div 4 < 64" "code_point a mod 4 * 16 < 64" using byte_parts [of a] by simp_all
  from this [THEN b64_char_value] show ?case by (simp add: Let_def code_point_def)
next
  case (3 a b)
  have "code_point a div 4 < 64" "code_point a mod 4 * 16 + code_point b div 16 < 64" "code_point b mod 16 * 4 < 64"
    using byte_parts [of a] byte_parts [of b] by (simp_all add: sextets)
  from this [THEN b64_char_value] show ?case by (simp add: Let_def code_point_def)
next
  case (4 a b c s)
  have "code_point a div 4 < 64" "code_point a mod 4 * 16 + code_point b div 16 < 64"
    "code_point b mod 16 * 4 + code_point c div 64 < 64" "code_point c mod 64 < 64"
    using byte_parts [of a] byte_parts [of b] byte_parts [of c] by (simp_all add: sextets)
  from this [THEN b64_char_value] show ?case using 4 by (simp add: Let_def)
qed simp

lemma b64_roundtrip: "b64_decode (b64_encode bs) = Inr bs"
proof -
  have "\<not> list_ex (\<lambda>c. 128 \<le> code_point c) (b64_encode bs)"
    using b64_encode_ascii [of bs] by (auto simp: list_all_iff list_ex_iff)
  then show ?thesis by (simp add: b64_decode_def b64_scan_encode)
qed

lemma decode_entry_document:
  assumes "vault_key_of key = Inr k" "strip p = p" "p \<noteq> []"
    and "fromisoformat parse (datetime_isoformat rt (seal_created_at s)) = Inr (seal_created_at s)"
  shows "decode_entry parse rt (entry_document rt k p s) f
     = Inr \<lparr>vault_key = k, vault_purpose = p, vault_sealed = s, vault_path = f\<rparr>"
proof -
  have "decode_sealed parse rt (JObj [(''purpose'', JStr (seal_purpose s)), (''payload_b64'', JStr (payload_b64 s)),
      (''digest'', JStr (seal_digest s)), (''created_at'', JStr (datetime_isoformat rt (seal_created_at s))),
      (''algorithm'', JStr (seal_algorithm s))]) = Inr s"
    using assms(4) by (simp add: decode_sealed_def field_of_def optional_field_def)
  then show ?thesis
    using assms(2,3) vault_key_normal [OF assms(1)]
    by (simp add: decode_entry_def entry_document_def field_of_def vault_text_def)
qed

text \<open>What an entry that is put looks like, and the file it is in.\<close>

lemma vault_put_Inr:
  assumes env: "vault_ready env" and put: "vault_put env now key v disk = Inr (e, disk')"
  obtains k f where "vault_key_of key = Inr k" "vault_key e = k" "vault_purpose e = entry_purpose env k"
    "vault_path e = entry_path env k" "\<not> holds_other v" "CHR 0x00 \<notin> set k"
    "vault_sealed e = \<lparr>seal_purpose = entry_purpose env k, payload_b64 = b64_encode (utf8 (json_dumps False v)),
      seal_digest = vault_mac env (utf8 (vault_secret env)) (seal_material (entry_purpose env k) (utf8 (json_dumps False v))),
      seal_created_at = Aware now, seal_algorithm = ''hmac-sha256''\<rparr>"
    "entry_file env disk k = Some f" "f \<noteq> []" "takes_file (map_of disk f)"
    "disk' = AList.update f (VaultFile (Some (entry_document (vault_rt env) k (entry_purpose env k) (vault_sealed e)))) disk"
proof -
  obtain k where key: "vault_key_of key = Inr k" using put by (auto simp: vault_put_def res_bind_eq_Inr)
  note p = entry_purpose_normal [OF env key]
  have secret: "secret_bytes (vault_secret env) = Inr (utf8 (vault_secret env))"
  proof -
    have "utf8 (vault_secret env) \<noteq> []" using env utf8_inj [of "vault_secret env" "[]"] unfolding vault_ready_def by (force simp: utf8_def)
    then show ?thesis by (simp add: secret_bytes_def)
  qed
  have json: "\<not> holds_other v" using put by (auto simp: vault_put_def Let_def seal_payload_def seal_bytes_def res_bind_eq_Inr split: if_splits)
  obtain f where f: "entry_file env disk k = Some f"
    using put key by (auto simp: vault_put_def Let_def res_bind_eq_Inr split: if_splits option.splits)
  show thesis
    using put p f by (intro that [OF key _ _ _ json _ _ f])
      (auto simp: vault_put_def key Let_def seal_payload_def seal_bytes_def json secret vault_text_def split: if_splits)
qed

text \<open>Where the file of an entry lies is not changed by writing a file, in which no walk goes on.\<close>

lemma os_walk_file:
  assumes "takes_file (map_of disk p)"
  shows "os_walk n (AList.update p (VaultFile d) disk) done cs = os_walk n disk done cs"
  using assms
proof (induction n disk "done" cs rule: os_walk.induct)
  case (2 n disk "done" c cs)
  show ?case
  proof (cases "c = ''..''")
    case False
    show ?thesis
    proof (cases "p = done @ [c]")
      case True
      with 2(4) False show ?thesis by (auto simp: update_conv' takes_file_def split: option.splits vault_node.splits)
    next
      case p: False
      note IH = 2(1) [OF _ 2(4)] 2(2) [OF False _ _ 2(4)] 2(3) [OF False _ _ _ 2(4)]
      from p have m: "map_of (AList.update p (VaultFile d) disk) (done @ [c]) = map_of disk (done @ [c])"
        by (simp add: update_conv')
      show ?thesis
      proof (cases "map_of disk (done @ [c])")
        case None
        with m False show ?thesis by simp
      next
        case (Some x)
        show ?thesis
        proof (cases x)
          case (VaultLink target)
          with m False Some show ?thesis by (cases n) (simp_all add: IH(3))
        qed (use m False Some IH(2) in simp_all)
      qed
    qed
  qed (use 2 in simp)
qed simp

lemma entry_file_file:
  "takes_file (map_of disk p) \<Longrightarrow> entry_file env (AList.update p (VaultFile d) disk) k = entry_file env disk k"
  by (simp add: entry_file_def os_walk_file)

lemma entry_node_file:
  assumes "takes_file (map_of disk p)" "p \<noteq> []"
  shows "entry_node env (AList.update p (VaultFile d) disk) k =
    (if CHR 0x00 \<notin> set k \<and> entry_file env disk k = Some p then Some (p, VaultFile d) else entry_node env disk k)"
  using assms by (auto simp: entry_node_def entry_file_file update_conv' split: option.splits)

text \<open>
  The file of an accepted document is read as its payload, whatever key the seal in it was made for: the seal's own purpose is what
  is verified, and it is not compared with the one of the key.
\<close>

lemma vault_get_sealed:
  assumes env: "vault_ready env" and put: "vault_put env now key v disk = Inr (e, disk')"
    and k: "vault_key_of key' = Inr k'" and node: "entry_node env disk2 k'
      = Some (f, VaultFile (Some (entry_document (vault_rt env) k' (entry_purpose env k') (vault_sealed e))))"
    and at_time: "fromisoformat (vault_parse env) (datetime_isoformat (vault_rt env) (Aware now)) = Inr (Aware now)"
  shows "vault_get env key' disk2
     = Inr (Some \<lparr>vault_key = k', vault_purpose = entry_purpose env k', vault_sealed = vault_sealed e, vault_path = f\<rparr>)
    \<and> payload_bytes (vault_sealed e) = seal_bytes v"
proof -
  obtain k where e: "\<not> holds_other v"
    "vault_sealed e = \<lparr>seal_purpose = entry_purpose env k, payload_b64 = b64_encode (utf8 (json_dumps False v)),
      seal_digest = vault_mac env (utf8 (vault_secret env)) (seal_material (entry_purpose env k) (utf8 (json_dumps False v))),
      seal_created_at = Aware now, seal_algorithm = ''hmac-sha256''\<rparr>"
    by (rule vault_put_Inr [OF env put])
  have "utf8 (vault_secret env) \<noteq> []" using env utf8_inj [of "vault_secret env" "[]"] unfolding vault_ready_def by (force simp: utf8_def)
  then have verified: "verify_seal (vault_mac env) (vault_sealed e) (vault_secret env) = Inr True"
    by (simp add: verify_seal_def payload_bytes_def e(2) b64_roundtrip secret_bytes_def)
  have "seal_created_at (vault_sealed e) = Aware now" by (simp add: e(2))
  then have "decode_entry (vault_parse env) (vault_rt env) (entry_document (vault_rt env) k' (entry_purpose env k') (vault_sealed e)) f
      = Inr \<lparr>vault_key = k', vault_purpose = entry_purpose env k', vault_sealed = vault_sealed e, vault_path = f\<rparr>"
    using decode_entry_document [OF k entry_purpose_normal [OF env k]] at_time by simp
  moreover have "payload_bytes (vault_sealed e) = seal_bytes v" by (simp add: payload_bytes_def e b64_roundtrip seal_bytes_def)
  ultimately show ?thesis by (simp add: vault_get_def k node verified)
qed

text \<open>What is put under a key is read back under it, and every key of another file reads as before.\<close>

lemma vault_put_get:
  assumes "vault_ready env" "vault_put env now key v disk = Inr (e, disk')"
    and "fromisoformat (vault_parse env) (datetime_isoformat (vault_rt env) (Aware now)) = Inr (Aware now)"
    and "entry_file env disk (vault_key e) = Some f"
  shows "vault_get env key disk' = Inr (Some (e\<lparr>vault_path := f\<rparr>)) \<and> payload_bytes (vault_sealed e) = seal_bytes v"
proof -
  obtain k f' where p: "vault_key_of key = Inr k" "vault_key e = k" "vault_purpose e = entry_purpose env k" "CHR 0x00 \<notin> set k"
    "entry_file env disk k = Some f'" "f' \<noteq> []" "takes_file (map_of disk f')"
    "disk' = AList.update f' (VaultFile (Some (entry_document (vault_rt env) k (entry_purpose env k) (vault_sealed e)))) disk"
    by (rule vault_put_Inr [OF assms(1,2)])
  have "f' = f" using assms(4) p(2,5) by simp
  have "entry_node env disk' k = Some (f, VaultFile (Some (entry_document (vault_rt env) k (entry_purpose env k) (vault_sealed e))))"
    using p(4-7) \<open>f' = f\<close> by (simp add: p(8) entry_node_file)
  from vault_get_sealed [OF assms(1,2) p(1) this assms(3)] show ?thesis
    using p(2,3) by (cases e) simp
qed

lemma vault_put_others:
  assumes "vault_ready env" "vault_put env now key v disk = Inr (e, disk')"
    and "vault_key_of other = Inr k'" "entry_file env disk k' \<noteq> entry_file env disk (vault_key e)"
  shows "vault_get env other disk' = vault_get env other disk"
proof -
  obtain k f d where p: "vault_key e = k" "entry_file env disk k = Some f" "f \<noteq> []" "takes_file (map_of disk f)"
    "disk' = AList.update f (VaultFile (Some d)) disk"
    by (rule vault_put_Inr [OF assms(1,2)]) blast
  then have "entry_node env disk' k' = entry_node env disk k'" using assms(4) by (simp add: entry_node_file)
  then show ?thesis by (simp add: vault_get_def assms(3))
qed

text \<open>
  A root that \<open>__init__\<close> has resolved and made is reached through directories alone; where it holds no links either, keys without
  slashes have a file each.
\<close>

definition plain_root :: "vault_env \<Rightarrow> vault_disk \<Rightarrow> bool" where
  "plain_root env disk \<longleftrightarrow> ''..'' \<notin> set (vault_root env)
     \<and> (\<forall>i < length (vault_root env). map_of disk (take (Suc i) (vault_root env)) = Some VaultDir)
     \<and> (\<forall>name t. map_of disk (vault_root env @ [name]) \<noteq> Some (VaultLink t))"

lemma os_walk_dirs:
  "''..'' \<notin> set cs \<Longrightarrow> \<forall>i < length cs. map_of disk (done @ take (Suc i) cs) = Some VaultDir \<Longrightarrow>
     os_walk n disk done (cs @ rest) = os_walk n disk (done @ cs) rest"
proof (induction cs arbitrary: "done")
  case (Cons c cs)
  have "map_of disk (done @ [c]) = Some VaultDir" using Cons.prems(2) by force
  moreover have "\<forall>i < length cs. map_of disk ((done @ [c]) @ take (Suc i) cs) = Some VaultDir"
    using Cons.prems(2) by force
  ultimately show ?case using Cons.IH [of "done @ [c]"] Cons.prems(1) by auto
qed simp

lemma plain_key_file:
  assumes "plain_root env disk" "k \<noteq> []" "CHR ''/'' \<notin> set k"
  shows "entry_file env disk k = Some (vault_root env @ [k @ ''.json''])"
proof -
  have "CHR ''/'' \<notin> set (k @ ''.json'')" using assms(3) by simp
  moreover have n: "k @ ''.json'' \<noteq> ''.''" "k @ ''.json'' \<noteq> ''..''"
    by (auto dest: arg_cong [where f = length])
  ultimately have "path_parts (k @ ''.json'') = [k @ ''.json'']" by (simp add: path_parts_def split_on_free)
  moreover have "\<not> path_is_absolute (k @ ''.json'')"
    using assms(2,3) by (cases k) (auto simp: path_is_absolute_def)
  ultimately have "entry_path env k = vault_root env @ [k @ ''.json'']" by (simp add: entry_path_def Let_def)
  moreover have "os_walk max_links disk [] (vault_root env @ [k @ ''.json''])
      = os_walk max_links disk (vault_root env) [k @ ''.json'']"
    using os_walk_dirs [of "vault_root env" disk "[]"] assms(1) by (simp add: plain_root_def)
  ultimately show ?thesis
    using assms(1) n(2) by (auto simp: entry_file_def plain_root_def split: option.splits vault_node.splits)
qed

lemma plain_keys_differ:
  assumes "plain_root env disk" "k \<noteq> []" "CHR ''/'' \<notin> set k" "k' \<noteq> []" "CHR ''/'' \<notin> set k'" "k \<noteq> k'"
  shows "entry_file env disk k \<noteq> entry_file env disk k'"
  using plain_key_file [OF assms(1-3)] plain_key_file [OF assms(1,4,5)] assms(6) by simp

text \<open>Other keys can share a file: what is put under one of them replaces the entry of the other.\<close>

lemma dotted_key_shares_file: "entry_file env disk ''./x'' = entry_file env disk ''x''"
proof -
  have "path_parts (''./x'' @ ''.json'') = path_parts (''x'' @ ''.json'')"
    "path_is_absolute (''./x'' @ ''.json'') = path_is_absolute (''x'' @ ''.json'')" by code_simp+
  then show ?thesis unfolding entry_file_def entry_path_def Let_def by (simp only:)
qed

text \<open>What is read back is sealed for its own purpose, and keeping the digest of a seal keeps its purpose and its bytes.\<close>

lemma vault_get_sound:
  assumes "vault_get env key disk = Inr (Some e)"
  shows "\<exists>k bs. vault_key_of key = Inr k \<and> vault_key e = k \<and> vault_purpose e = entry_purpose env k
    \<and> payload_bytes (vault_sealed e) = Inr bs
    \<and> seal_digest (vault_sealed e) = vault_mac env (utf8 (vault_secret env)) (seal_material (seal_purpose (vault_sealed e)) bs)"
proof -
  obtain k where k: "vault_key_of key = Inr k" using assms by (auto simp: vault_get_def res_bind_eq_Inr)
  obtain p node where n: "entry_node env disk k = Some (p, node)"
    using assms k by (cases "entry_node env disk k") (auto simp: vault_get_def)
  obtain raw where "node = VaultFile (Some raw)"
  proof (cases node)
    case (VaultFile d)
    with assms k n that show thesis by (cases d) (auto simp: vault_get_def)
  qed (use assms k n in \<open>simp_all add: vault_get_def\<close>)
  with assms k n show ?thesis
    by (auto simp: vault_get_def verify_seal_def secret_bytes_def res_bind_eq_Inr split: if_split_asm)
qed

lemma one_null_split:
  assumes "a @ CHR 0x00 # x = b @ CHR 0x00 # y" "CHR 0x00 \<notin> set b" "CHR 0x00 \<notin> set y"
  shows "a = b \<and> x = y"
proof -
  have "length (filter ((=) CHR 0x00) (a @ CHR 0x00 # x)) = length (filter ((=) CHR 0x00) (b @ CHR 0x00 # y))"
    using assms(1) by simp
  moreover have "filter ((=) CHR 0x00) b = []" "filter ((=) CHR 0x00) y = []"
    using assms(2,3) by (auto simp: filter_empty_conv)
  ultimately have "filter ((=) CHR 0x00) a = []" by simp
  then have "CHR 0x00 \<notin> set a" by (auto simp: filter_empty_conv)
  from split_at_null [OF assms(1) this assms(2)] show ?thesis .
qed

lemma vault_tamper:
  assumes env: "vault_ready env" "CHR 0x00 \<notin> set (vault_namespace env)"
    and put: "vault_put env now key v disk = Inr (e, disk')" "CHR 0x00 \<notin> set (json_dumps False v)"
    and get: "vault_get env key' disk2 = Inr (Some x)"
    and same: "seal_digest (vault_sealed x) = seal_digest (vault_sealed e)"
    and mac: "\<And>bs. vault_mac env (utf8 (vault_secret env)) (seal_material (seal_purpose (vault_sealed x)) bs)
        = vault_mac env (utf8 (vault_secret env)) (seal_material (seal_purpose (vault_sealed e)) (utf8 (json_dumps False v)))
      \<Longrightarrow> seal_material (seal_purpose (vault_sealed x)) bs
        = seal_material (seal_purpose (vault_sealed e)) (utf8 (json_dumps False v))"
  shows "seal_purpose (vault_sealed x) = entry_purpose env (vault_key e) \<and> payload_bytes (vault_sealed x) = seal_bytes v"
proof -
  obtain k where e: "vault_key e = k" "CHR 0x00 \<notin> set k" "\<not> holds_other v"
    "vault_sealed e = \<lparr>seal_purpose = entry_purpose env k, payload_b64 = b64_encode (utf8 (json_dumps False v)),
      seal_digest = vault_mac env (utf8 (vault_secret env)) (seal_material (entry_purpose env k) (utf8 (json_dumps False v))),
      seal_created_at = Aware now, seal_algorithm = ''hmac-sha256''\<rparr>"
    by (rule vault_put_Inr [OF env(1) put(1)])
  obtain bs where x: "payload_bytes (vault_sealed x) = Inr bs"
    "seal_digest (vault_sealed x) = vault_mac env (utf8 (vault_secret env)) (seal_material (seal_purpose (vault_sealed x)) bs)"
    using vault_get_sound [OF get] by blast
  have "seal_material (seal_purpose (vault_sealed x)) bs = seal_material (entry_purpose env k) (utf8 (json_dumps False v))"
    using mac [of bs] x(2) same by (simp add: e(4))
  moreover have "CHR 0x00 \<notin> set (utf8 (entry_purpose env k))" "CHR 0x00 \<notin> set (utf8 (json_dumps False v))"
    using env(2) e(2) put(2) by (auto intro!: utf8_no_null simp: entry_purpose_def)
  ultimately have "utf8 (seal_purpose (vault_sealed x)) = utf8 (entry_purpose env k) \<and> bs = utf8 (json_dumps False v)"
    unfolding seal_material_def by (rule one_null_split)
  then show ?thesis using utf8_inj x(1) e(1,3) by (auto simp: seal_bytes_def)
qed

end
