(* ===== verification/BoardProperties.thy ===== *)
theory BoardProperties
  imports GatewayFixtures ReviewPackages Vault
begin

text \<open>
  The properties of the review board and of the vault, each with a concrete instance where it has hypotheses.
\<close>

section \<open>The review board\<close>

text \<open>C7: The status of an evaluation is exactly what the case demands: blocked iff something blocks it (a verification without its review,
  an advisory, review or challenge bound to another case, a review the producer gives itself, one with an undeclared recusal or a
  contradicted identity, an authenticated rejection or request for changes where the policy says so, an open challenge where it says
  so); else approved iff the authenticated approvals bound to this very case make the quorum the policy asks for; else a human review
  is required.
\<close>

theorem board_status_exact:
  assumes "evaluate_review_board H s p advisories reviews vs challenges meta = Inr e"
    and "board_subject_digest H s = Inr sd" "board_policy_digest H p = Inr pd"
  shows "board_status_of e = board_verdict H sd pd s p advisories reviews vs challenges"
  using board_decides [OF assms] .

definition ex_case :: board_subject where
  "ex_case = \<lparr>board_repository = ''core'', board_revision = ''r1'', board_scope = ''all'', board_producer = ''bot'',
     wave12_archive = ex_hash [], wave12_manifest = ex_hash [], wave12_profile = ex_hash [],
     board_admitted_at = ''1970-01-01T00:00:00+00:00'', board_subject_metadata = []\<rparr>"

definition ex_board_policy :: board_policy where
  "ex_board_policy = \<lparr>board_policy_id = ''small'', board_policy_version = ''1'', supported_roles = [ROLE_QA, ROLE_SECURITY],
     board_required_roles = [ROLE_QA], minimum_human_approvals = 1, require_distinct_reviewers = True,
     require_each_required_role = True, require_external_identity = True, block_on_reject = True,
     block_on_request_changes = True, block_on_open_challenge = True, prevent_self_approval = True,
     board_policy_metadata = []\<rparr>"

definition ex_human_review :: human_review where
  "ex_human_review = \<lparr>review_id = ''rev-1'', reviewer_id = ''dana'', review_role_of = ROLE_QA, review_decision_of = REVIEW_APPROVE,
     review_subject_digest = ex_hash [], review_policy_digest = ex_hash [], reviewed_at = ''1970-01-01T00:00:00+00:00'',
     authentication_of = EXTERNALLY_VERIFIED, review_rationale = ''fine'', identity_ref = ''id'', identity_sha256 = ex_hash [],
     authority_ref = ''role'', authority_sha256 = ex_hash [], conflict_declared = False, recused = False,
     review_evidence_refs = [], review_metadata = []\<rparr>"

definition ex_verification :: external_verification where
  "ex_verification = \<lparr>verified_review_id = ''rev-1'', verified_reviewer_id = ''dana'', verified_role = ROLE_QA,
     verified_identity_sha256 = ex_hash [], verified_authority_sha256 = ex_hash [], verified_review_digest = ex_hash [],
     verifier_id = ''idp'', review_verified_at = ''1970-01-01T00:00:00+00:00'', verification_metadata = []\<rparr>"

lemma ex_board_digests:
  "board_subject_digest ex_hash ex_case = Inr (ex_hash [])" "board_policy_digest ex_hash ex_board_policy = Inr (ex_hash [])"
  by (simp_all add: board_subject_digest_def board_policy_digest_def ex_digest board_subject_payload_def board_policy_payload_def
    ex_case_def ex_board_policy_def)

lemma ex_review_digest: "human_review_digest ex_hash ex_human_review = Inr (ex_hash [])"
  by (simp add: human_review_digest_def ex_digest human_review_payload_def ex_human_review_def)

lemma ex_confirmed: "verification_matches ex_hash ex_verification ex_human_review = Inr True"
  by (simp add: verification_matches_def ex_review_digest, simp add: ex_verification_def ex_human_review_def)

lemma ex_context: "context_digest ex_hash [ex_verification] = Inr (ex_hash [])"
  by (simp add: context_digest_def external_verification_dict_def external_verification_payload_def ex_digest ex_verification_def)

lemma split_on_all: "filter (\<lambda>w. w \<noteq> []) (split_on a s) = [] \<longleftrightarrow> set s \<subseteq> {a}"
  by (induction a s rule: split_on.induct) (auto split: list.splits)

lemma normalize_text_ok: "\<not> blank s \<Longrightarrow> \<exists>x. normalize_text label s = Inr x"
proof -
  assume s: "\<not> blank s"
  then have "strip s \<noteq> []" by (simp add: blank_def)
  then have "\<not> is_space (hd (strip s))" "hd (strip s) \<in> set (strip s)"
    using trimmed_strip_by [of is_space s] by (simp_all add: strip_def trimmed_by_def)
  then have "split_space (strip s) \<noteq> []" by (force simp: split_space_def split_on_all)
  moreover from this have "\<forall>w \<in> set (split_space (strip s)). w \<noteq> []" using split_space_words by blast
  ultimately have "join '' '' (split_space (strip s)) \<noteq> []" by (simp add: join_eq_Nil)
  then show ?thesis by (simp add: normalize_text_def Let_def)
qed

lemma board_finding_ok: "\<not> blank summary \<Longrightarrow> \<exists>f. board_finding_of code summary b role [] meta = Inr f"
  using normalize_text_ok [of summary "''summary''"] by (auto simp: board_finding_of_def board_finding_init_def normalize_optional_text_def)

lemma ex_review_passes:
  "evaluate_human_review ex_hash (ex_hash []) (ex_hash []) ex_case ex_board_policy (Some ex_verification) ex_human_review
     = Inr (True, [])"
proof -
  have "review_role_of ex_human_review \<in> set (supported_roles ex_board_policy)" "reviewer_id ex_human_review \<noteq> board_producer ex_case"
    "\<not> conflict_declared ex_human_review" "\<not> recused ex_human_review"
    "review_decision_of ex_human_review = REVIEW_APPROVE" "authentication_of ex_human_review = EXTERNALLY_VERIFIED"
    "review_subject_digest ex_human_review = ex_hash []" "review_policy_digest ex_human_review = ex_hash []"
    by (simp_all add: ex_human_review_def ex_board_policy_def ex_case_def)
  moreover have "verification_matches ex_hash ex_verification ex_human_review = Inr True" by (rule ex_confirmed)
  ultimately show ?thesis
    by (simp add: evaluate_human_review_def authenticate_review_def decide_review_def binding_findings_def)
qed

lemma ex_board_initialised:
  "\<exists>e. board_evaluation_init \<lparr>evaluated_subject_digest = ex_hash [], evaluated_policy_digest = ex_hash [],
         board_status_of = APPROVED_FOR_NEXT_GATE, board_findings = [f], qualifying_review_ids = [''rev-1''],
         qualifying_reviewer_ids = [''dana''], board_approved_roles = roles, missing_required_roles = missing,
         machine_advisory_count = 0, human_review_count = 1, external_verification_count = 1,
         external_context_digest = ex_hash [], open_challenge_count = 0, board_evaluation_metadata = []\<rparr> = Inr e"
proof -
  have "normalize_sha256 (ex_hash []) = Inr (ex_hash [])" by code_simp
  moreover have "\<exists>x. normalize_identifier_tuple ''qualifying_review_ids'' [''rev-1''] = Inr x \<and> True"
    "\<exists>x. normalize_identifier_tuple ''qualifying_reviewer_ids'' [''dana''] = Inr x \<and> True"
    by (rule ok_withD, code_simp)+
  ultimately show ?thesis by (auto simp: board_evaluation_init_def)
qed

lemma ex_board_approved:
  "\<exists>e. evaluate_review_board ex_hash ex_case ex_board_policy [] [ex_human_review] [ex_verification] [] [] = Inr e
     \<and> board_status_of e = APPROVED_FOR_NEXT_GATE"
proof -
  have ids: "review_id ex_human_review = ''rev-1''" "verified_review_id ex_verification = ''rev-1''"
    "reviewer_id ex_human_review = ''dana''" "review_role_of ex_human_review = ROLE_QA"
    by (simp_all add: ex_human_review_def ex_verification_def)
  have met: "quorum_findings ex_board_policy [ex_human_review] = []" "quorum_met ex_board_policy [ex_human_review]"
    by (simp_all add: quorum_findings_def quorum_met_def roles_missing_def distinct_ids_def ids ex_board_policy_def)
  obtain f where f: "board_finding_of BOARD_APPROVAL_REQUIREMENTS_SATISFIED
            (''Configured role coverage, external identity state, and human quorum requirements are satisfied for the ''
              @ ''bound evidence package.'') False None [] [] = Inr f"
    using board_finding_ok by (fastforce simp: blank_iff is_space_def code_point_def)
  have "\<exists>e. evaluate_review_board ex_hash ex_case ex_board_policy [] [ex_human_review] [ex_verification] [] [] = Inr e"
    unfolding evaluate_review_board_def
    by (simp add: require_unique_def orphan_findings_def ids ex_board_digests verification_for_def ex_review_passes met f [simplified]
      ex_context ex_board_initialised distinct_ids_def)
  then obtain e where e: "evaluate_review_board ex_hash ex_case ex_board_policy [] [ex_human_review] [ex_verification] [] [] = Inr e" ..
  have "board_verdict ex_hash (ex_hash []) (ex_hash []) ex_case ex_board_policy [] [ex_human_review] [ex_verification] []
     = APPROVED_FOR_NEXT_GATE"
  proof -
    have silent: "\<not> review_blocks ex_hash (ex_hash []) (ex_hash []) ex_case ex_board_policy [ex_verification] ex_human_review"
      by (simp add: review_blocks_def contradicted_def own_case_def ex_confirmed, simp add: ex_human_review_def ex_board_policy_def ex_case_def)
    have "authenticated ex_hash ex_board_policy [ex_verification] ex_human_review"
      by (simp add: authenticated_def ex_confirmed ids, simp add: ex_human_review_def)
    then have "review_counts ex_hash (ex_hash []) (ex_hash []) ex_case ex_board_policy [ex_verification] ex_human_review"
      by (simp add: review_counts_def own_case_def, simp add: ex_human_review_def ex_board_policy_def ex_case_def)
    then have "{r \<in> set [ex_human_review]. review_counts ex_hash (ex_hash []) (ex_hash []) ex_case ex_board_policy [ex_verification] r}
        = {ex_human_review}" by auto
    then show ?thesis using silent
      by (simp add: board_verdict_def case_blocks_def ids review_quorum_def, simp add: ex_board_policy_def)
  qed
  with board_decides [OF e ex_board_digests] have "board_status_of e = APPROVED_FOR_NEXT_GATE" by (rule trans)
  with e show ?thesis by (intro exI conjI)
qed

theorem board_status_exact_witness:
  "board_verdict ex_hash (ex_hash []) (ex_hash []) ex_case ex_board_policy [] [ex_human_review] [ex_verification] []
     = APPROVED_FOR_NEXT_GATE"
proof -
  obtain e where e: "evaluate_review_board ex_hash ex_case ex_board_policy [] [ex_human_review] [ex_verification] [] [] = Inr e"
    "board_status_of e = APPROVED_FOR_NEXT_GATE" using ex_board_approved by blast
  show ?thesis using board_status_exact [OF e(1) ex_board_digests] e(2) by simp
qed

section \<open>Review packages\<close>

text \<open>C8: A package passes its verification only if it is what it says: its entries are exactly the required ones; the package inside has
  the digest the case names and was itself admitted as the subject of the case; the advisory, review and challenge sets, the ledger and
  the bundle index are equal to the ones rebuilt from the case and the package's bytes; the evaluation written down is, member by member,
  the one an independent evaluation of the case gives under the verifications that the verifier brought along; and its status, which is
  reported, is the board's verdict.
\<close>

theorem verified_package_sound:
  assumes "verify_review_board_package env path archive externals meta = Inr v" "package_passed v"
  shows "\<exists>bytes infos c verdict. archive = Inr bytes \<and> zip_open env bytes = Inr infos
    \<and> sound_package env externals infos c verdict \<and> verified_status v = board_status_value verdict"
  using verified_sound [OF assms] .

text \<open>A package of a case without reviews, with the decoder and the admission as tables.\<close>

lemma ex_signed: "serializable (JObj d) \<Longrightarrow> signed ex_hash n d = Inr (JObj (d @ [(n, JStr (ex_hash []))]))"
  by (simp add: signed_def ex_digest)

definition ex_reader :: review_reader where
  "ex_reader = \<lparr>reader_hash = ex_hash, reader_parse = ex_parse, reader_rt = ex_runtime, reader_feq = (\<lambda>_ _. False)\<rparr>"

definition ex_open_policy :: board_policy where
  "ex_open_policy = ex_board_policy\<lparr>require_each_required_role := False\<rparr>"

definition ex_subject_members :: "json dict" where
  "ex_subject_members = members_of (board_subject_payload ex_case) @ [(''digest'', JStr (ex_hash []))]"

definition ex_policy_members :: "json dict" where
  "ex_policy_members = members_of (board_policy_payload ex_open_policy) @ [(''digest'', JStr (ex_hash []))]"

lemma ex_subject_written: "board_subject_dict ex_hash ex_case = Inr (JObj ex_subject_members)"
  by (simp add: board_subject_dict_def ex_signed board_subject_payload_def ex_case_def ex_subject_members_def)

lemma ex_policy_written: "board_policy_dict ex_hash ex_open_policy = Inr (JObj ex_policy_members)"
  by (simp add: board_policy_dict_def ex_signed board_policy_payload_def ex_board_policy_def ex_open_policy_def ex_policy_members_def)

lemma ex_open_digests:
  "board_subject_digest ex_hash ex_case = Inr (ex_hash [])" "board_policy_digest ex_hash ex_open_policy = Inr (ex_hash [])"
  by (simp_all add: board_subject_digest_def board_policy_digest_def ex_digest board_subject_payload_def board_policy_payload_def
    ex_case_def ex_board_policy_def ex_open_policy_def)

lemma ex_case_made: "board_subject_init ex_parse ex_runtime ex_case = Inr ex_case"
  by code_simp

lemma ex_policy_made: "board_policy_init ex_open_policy = Inr ex_open_policy"
  by code_simp

lemma ex_subject_read: "parse_board_subject ex_reader ex_subject_members = Inr ex_case"
proof -
  have made: "board_subject_init ex_parse ex_runtime \<lparr>board_repository = ''core'', board_revision = ''r1'', board_scope = ''all'',
     board_producer = ''bot'', wave12_archive = ex_hash [], wave12_manifest = ex_hash [], wave12_profile = ex_hash [],
     board_admitted_at = ''1970-01-01T00:00:00+00:00'', board_subject_metadata = []\<rparr> = Inr ex_case"
    using ex_case_made by (simp add: ex_case_def)
  have "plain (JObj ex_subject_members)" by (simp add: ex_subject_members_def board_subject_payload_def ex_case_def)
  then have written: "canonical_or (reader_feq ex_reader) ''review-board subject'' (board_subject_dict (reader_hash ex_reader) ex_case)
      ex_subject_members ex_case = Inr ex_case"
    by (simp add: ex_reader_def ex_subject_written canonical_plain)
  have fields: "string_field ''document'' ex_subject_members ''repository'' = Inr ''core''"
    "string_field ''document'' ex_subject_members ''revision'' = Inr ''r1''" "string_field ''document'' ex_subject_members ''scope'' = Inr ''all''"
    "string_field ''document'' ex_subject_members ''producer_agent_id'' = Inr ''bot''"
    "string_field ''document'' ex_subject_members ''wave12_archive_sha256'' = Inr (ex_hash [])"
    "string_field ''document'' ex_subject_members ''wave12_manifest_digest'' = Inr (ex_hash [])"
    "string_field ''document'' ex_subject_members ''wave12_profile_digest'' = Inr (ex_hash [])"
    "string_field ''document'' ex_subject_members ''admitted_at'' = Inr ''1970-01-01T00:00:00+00:00''"
    "mapping_field ''document'' ex_subject_members ''metadata'' = Inr []"
    "string_field ''document'' ex_subject_members ''schema_version'' = Inr ''wave13.review_board_subject.v1''"
    "string_field ''document'' ex_subject_members ''digest'' = Inr (ex_hash [])"
    by (simp_all add: string_field_def mapping_field_def ex_subject_members_def board_subject_payload_def ex_case_def)
  show ?thesis using made written by (simp add: parse_board_subject_def fields) (simp add: ex_reader_def)
qed

lemma plain_serializable: "plain v \<Longrightarrow> serializable v"
  by (induction v rule: plain.induct) (auto simp: list_all_iff)

lemma ex_members_plain: "plain (JObj ex_subject_members)" "plain (JObj ex_policy_members)"
  by (simp_all add: ex_subject_members_def board_subject_payload_def ex_case_def ex_policy_members_def board_policy_payload_def
    ex_open_policy_def ex_board_policy_def list_all_iff)

lemma ex_policy_read: "parse_board_policy ex_reader ex_policy_members = Inr ex_open_policy"
proof -
  have made: "board_policy_init \<lparr>board_policy_id = ''small'', board_policy_version = ''1'', supported_roles = [ROLE_QA, ROLE_SECURITY],
     board_required_roles = [ROLE_QA], minimum_human_approvals = 1, require_distinct_reviewers = True,
     require_each_required_role = False, require_external_identity = True, block_on_reject = True,
     block_on_request_changes = True, block_on_open_challenge = True, prevent_self_approval = True,
     board_policy_metadata = []\<rparr> = Inr ex_open_policy"
    using ex_policy_made by (simp add: ex_open_policy_def ex_board_policy_def)
  have written: "canonical_or (reader_feq ex_reader) ''review-board policy'' (board_policy_dict (reader_hash ex_reader) ex_open_policy)
      ex_policy_members ex_open_policy = Inr ex_open_policy"
    by (simp add: ex_reader_def ex_policy_written canonical_plain ex_members_plain del: plain.simps)
  have fields: "string_field ''document'' ex_policy_members ''policy_id'' = Inr ''small''"
    "string_field ''document'' ex_policy_members ''version'' = Inr ''1''"
    "string_tuple_field ''document'' ex_policy_members ''supported_roles'' = Inr [''qa'', ''security'']"
    "string_tuple_field ''document'' ex_policy_members ''required_roles'' = Inr [''qa'']"
    "integer_field ''document'' ex_policy_members ''minimum_human_approvals'' = Inr 1"
    "bool_field ''document'' ex_policy_members ''require_distinct_reviewers'' = Inr True"
    "bool_field ''document'' ex_policy_members ''require_each_required_role'' = Inr False"
    "bool_field ''document'' ex_policy_members ''require_external_identity_verification'' = Inr True"
    "bool_field ''document'' ex_policy_members ''block_on_authenticated_reject'' = Inr True"
    "bool_field ''document'' ex_policy_members ''block_on_authenticated_request_changes'' = Inr True"
    "bool_field ''document'' ex_policy_members ''block_on_open_challenge'' = Inr True"
    "bool_field ''document'' ex_policy_members ''prevent_subject_producer_self_approval'' = Inr True"
    "mapping_field ''document'' ex_policy_members ''metadata'' = Inr []"
    "string_field ''document'' ex_policy_members ''schema_version'' = Inr ''wave13.review_board_policy.v1''"
    "string_field ''document'' ex_policy_members ''digest'' = Inr (ex_hash [])"
    by (simp_all add: string_field_def mapping_field_def string_tuple_field_def integer_field_def bool_field_def
      ex_policy_members_def board_policy_payload_def ex_open_policy_def ex_board_policy_def)
  have roles: "review_role_named ''qa'' = Inr ROLE_QA" "review_role_named ''security'' = Inr ROLE_SECURITY"
    by (simp_all add: review_role_named_def enum_value_def all_review_roles_def)
  show ?thesis using made written by (simp add: parse_board_policy_def fields roles)
qed

definition ok_members :: "json res \<Rightarrow> json dict" where
  "ok_members v = (case v of Inr x \<Rightarrow> members_of x | Inl _ \<Rightarrow> [])"

definition ex_case_members :: "json dict" where
  "ex_case_members = ok_members (build_review_case ex_hash ex_case ex_open_policy)"

lemmas ex_parts = ex_members_plain ex_members_plain [THEN plain_serializable]

lemma ex_case_written: "build_review_case ex_hash ex_case ex_open_policy = Inr (JObj ex_case_members)"
  "plain (JObj ex_case_members)"
  "mapping_field ''document'' ex_case_members ''subject'' = Inr ex_subject_members"
  "mapping_field ''document'' ex_case_members ''policy'' = Inr ex_policy_members"
  using ex_parts
  by (simp_all add: ex_case_members_def ok_members_def build_review_case_def ex_subject_written ex_policy_written ex_open_digests
    ex_signed mapping_field_def)

lemma ex_case_read: "parse_review_case ex_reader ex_case_members = Inr (ex_case, ex_open_policy)"
  by (simp add: parse_review_case_def ex_case_written(3,4) ex_subject_read ex_policy_read)
    (simp add: ex_reader_def ex_case_written(1) canonical_plain ex_case_written(2) del: plain.simps)

definition ex_advisory_members :: "json dict" where
  "ex_advisory_members = ok_members (build_machine_advisory_set ex_hash ex_case ex_open_policy [])"

definition ex_review_members :: "json dict" where
  "ex_review_members = ok_members (build_human_review_set ex_hash ex_case ex_open_policy [])"

definition ex_challenge_members :: "json dict" where
  "ex_challenge_members = ok_members (build_challenge_set ex_hash ex_case [])"

lemma ex_sets_written:
  "build_machine_advisory_set ex_hash ex_case ex_open_policy [] = Inr (JObj ex_advisory_members)"
  "build_human_review_set ex_hash ex_case ex_open_policy [] = Inr (JObj ex_review_members)"
  "build_challenge_set ex_hash ex_case [] = Inr (JObj ex_challenge_members)"
  "plain (JObj ex_advisory_members)" "plain (JObj ex_review_members)" "plain (JObj ex_challenge_members)"
  "parse_machine_advisories ex_reader ex_advisory_members = Inr []"
  "parse_human_reviews ex_reader ex_review_members = Inr []"
  "parse_evidence_challenges ex_reader ex_challenge_members = Inr []"
  by (simp_all add: ex_advisory_members_def ex_review_members_def ex_challenge_members_def ok_members_def
    build_machine_advisory_set_def build_human_review_set_def build_challenge_set_def ex_open_digests ex_signed
    parse_machine_advisories_def parse_human_reviews_def parse_evidence_challenges_def object_list_field_def require_unique_ids_def)

definition ex_min_finding :: board_finding where
  "ex_min_finding = \<lparr>board_code_of = MINIMUM_HUMAN_APPROVALS_NOT_MET,
     board_summary = ''Qualifying externally verified human approvals do not meet the configured minimum.'',
     board_blocking = False, board_role = None, board_object = [],
     board_metadata = [(''required'', JInt 1), (''observed'', JInt 0)]\<rparr>"

lemma ex_min_found:
  "board_finding_of MINIMUM_HUMAN_APPROVALS_NOT_MET
     ''Qualifying externally verified human approvals do not meet the configured minimum.'' False None []
     [(''required'', JInt 1), (''observed'', JInt 0)] = Inr ex_min_finding"
proof -
  let ?ws = "[''Qualifying'', ''externally'', ''verified'', ''human'', ''approvals'', ''do'', ''not'', ''meet'', ''the'',
    ''configured'', ''minimum.'']"
  have "join '' '' ?ws = ''Qualifying externally verified human approvals do not meet the configured minimum.''" by simp
  moreover have "\<forall>w \<in> set ?ws. w \<noteq> [] \<and> (\<forall>c \<in> set w. \<not> is_space c)" by (simp add: is_space_def code_point_def)
  ultimately have "canonical_text ''Qualifying externally verified human approvals do not meet the configured minimum.''"
    unfolding canonical_text_def by (metis list.discI)
  from normalize_text_canonical [OF this] show ?thesis
    by (simp add: board_finding_of_def board_finding_init_def ex_min_finding_def normalize_optional_text_def)
qed

definition ex_evaluation :: board_evaluation where
  "ex_evaluation = \<lparr>evaluated_subject_digest = ex_hash [], evaluated_policy_digest = ex_hash [],
     board_status_of = HUMAN_REVIEW_REQUIRED, board_findings = [ex_min_finding], qualifying_review_ids = [],
     qualifying_reviewer_ids = [], board_approved_roles = [], missing_required_roles = [ROLE_QA],
     machine_advisory_count = 0, human_review_count = 0, external_verification_count = 0,
     external_context_digest = ex_hash [], open_challenge_count = 0, board_evaluation_metadata = package_metadata\<rparr>"

lemma ex_evaluation_made: "board_evaluation_init ex_evaluation = Inr ex_evaluation"
proof -
  have "normalize_sha256 (ex_hash []) = Inr (ex_hash [])" by code_simp
  moreover have "normalize_identifier_tuple l [] = Inr []" for l by (simp add: normalize_identifier_tuple_def)
  moreover have "unique_sorted_roles [ROLE_QA] = [ROLE_QA]" "unique_sorted_roles [] = []" by code_simp+
  ultimately show ?thesis by (simp add: board_evaluation_init_def ex_evaluation_def)
qed

lemma ex_evaluated:
  "evaluate_review_board ex_hash ex_case ex_open_policy [] [] [] [] package_metadata = Inr ex_evaluation"
proof -
  have q: "quorum_findings ex_open_policy [] = [board_finding_of MINIMUM_HUMAN_APPROVALS_NOT_MET
     ''Qualifying externally verified human approvals do not meet the configured minimum.'' False None []
     [(''required'', JInt 1), (''observed'', JInt 0)]]" "\<not> quorum_met ex_open_policy []" "roles_missing ex_open_policy [] = [ROLE_QA]"
    "distinct_ids [] = []"
    by (simp_all add: quorum_findings_def quorum_met_def roles_missing_def distinct_ids_def ex_open_policy_def ex_board_policy_def)
  have c: "context_digest ex_hash [] = Inr (ex_hash [])" by (simp add: context_digest_def ex_digest)
  have r: "unique_sorted_roles [] = []" by code_simp
  have b: "\<not> board_blocking ex_min_finding" by (simp add: ex_min_finding_def)
  show ?thesis using ex_evaluation_made
    by (simp add: evaluate_review_board_def require_unique_def orphan_findings_def ex_open_digests q c r b ex_min_found)
      (simp add: ex_evaluation_def)
qed

definition ex_evaluation_members :: "json dict" where
  "ex_evaluation_members = ok_members (board_evaluation_dict ex_hash ex_evaluation)"

definition ex_finding_members :: "json dict" where
  "ex_finding_members = members_of (board_finding_dict ex_min_finding)"

lemma ex_finding_read: "parse_board_finding ex_reader (0, ex_finding_members) = Inr ex_min_finding"
proof -
  have plain: "plain (JObj ex_finding_members)" "board_finding_dict ex_min_finding = JObj ex_finding_members"
    by (simp_all add: ex_finding_members_def board_finding_dict_def ex_min_finding_def)
  have fields: "string_field l ex_finding_members ''role'' = Inr []"
    "string_field l ex_finding_members ''code'' = Inr ''minimum_human_approvals_not_met''"
    "string_field l ex_finding_members ''summary'' = Inr ''Qualifying externally verified human approvals do not meet the configured minimum.''"
    "bool_field l ex_finding_members ''blocking'' = Inr False" "string_field l ex_finding_members ''object_id'' = Inr []"
    "mapping_field l ex_finding_members ''metadata'' = Inr [(''required'', JInt 1), (''observed'', JInt 0)]" for l
    by (simp_all add: string_field_def mapping_field_def bool_field_def ex_finding_members_def board_finding_dict_def ex_min_finding_def)
  have code: "board_code_named ''minimum_human_approvals_not_met'' = Inr MINIMUM_HUMAN_APPROVALS_NOT_MET"
    by (simp add: board_code_named_def enum_value_def)
  show ?thesis
    by (simp add: parse_board_finding_def fields code ex_min_found plain(2) canonical_plain plain(1) del: plain.simps)
qed

lemma ex_evaluation_written:
  "board_evaluation_dict ex_hash ex_evaluation = Inr (JObj ex_evaluation_members)" "plain (JObj ex_evaluation_members)"
  "board_evaluation_digest ex_hash ex_evaluation = Inr (ex_hash [])"
  by (simp_all add: ex_evaluation_members_def ok_members_def board_evaluation_dict_def board_evaluation_payload_def ex_signed
    board_evaluation_digest_def ex_digest ex_evaluation_def board_finding_dict_def ex_min_finding_def package_metadata_def)

lemma ex_evaluation_read: "parse_board_evaluation ex_reader ex_evaluation_members = Inr ex_evaluation"
proof -
  have shape: "ex_evaluation_members = board_evaluation_payload ex_evaluation @ [(''digest'', JStr (ex_hash []))]"
    using ex_evaluation_written(1) by (auto simp: board_evaluation_dict_def dest!: signed_Inr)
      (simp add: ex_evaluation_members_def ok_members_def board_evaluation_dict_def board_evaluation_payload_def ex_signed
        ex_evaluation_def board_finding_dict_def ex_min_finding_def package_metadata_def)
  note expand = shape board_evaluation_payload_def ex_evaluation_def
  have fields: "object_list_field ''document'' ex_evaluation_members ''findings'' = Inr [ex_finding_members]"
    "string_field ''document'' ex_evaluation_members ''subject_digest'' = Inr (ex_hash [])"
    "string_field ''document'' ex_evaluation_members ''policy_digest'' = Inr (ex_hash [])"
    "string_field ''document'' ex_evaluation_members ''status'' = Inr ''human_review_required''"
    "string_tuple_field ''document'' ex_evaluation_members ''qualifying_review_ids'' = Inr []"
    "string_tuple_field ''document'' ex_evaluation_members ''qualifying_reviewer_ids'' = Inr []"
    "string_tuple_field ''document'' ex_evaluation_members ''approved_roles'' = Inr []"
    "string_tuple_field ''document'' ex_evaluation_members ''missing_required_roles'' = Inr [''qa'']"
    "integer_field ''document'' ex_evaluation_members ''machine_advisory_count'' = Inr 0"
    "integer_field ''document'' ex_evaluation_members ''human_review_count'' = Inr 0"
    "integer_field ''document'' ex_evaluation_members ''external_verification_count'' = Inr 0"
    "string_field ''document'' ex_evaluation_members ''external_verification_context_digest'' = Inr (ex_hash [])"
    "integer_field ''document'' ex_evaluation_members ''open_challenge_count'' = Inr 0"
    "mapping_field ''document'' ex_evaluation_members ''metadata'' = Inr package_metadata"
    "string_field ''document'' ex_evaluation_members ''schema_version'' = Inr ''wave13.review_board_evaluation.v1''"
    "bool_field ''document'' ex_evaluation_members ''approved_for_next_gate'' = Inr False"
    "integer_field ''document'' ex_evaluation_members ''blocking_finding_count'' = Inr 0"
    "\<exists>t. string_field ''document'' ex_evaluation_members ''scope_note'' = Inr t"
    "string_field ''document'' ex_evaluation_members ''digest'' = Inr (ex_hash [])"
    by (simp_all add: expand object_list_field_def string_field_def string_tuple_field_def integer_field_def mapping_field_def
      bool_field_def blocking_findings_def ex_finding_members_def board_finding_dict_def) (simp add: ex_min_finding_def)
  have named: "board_status_named ''human_review_required'' = Inr HUMAN_REVIEW_REQUIRED" "review_role_named ''qa'' = Inr ROLE_QA"
    by (simp_all add: board_status_named_def review_role_named_def enum_value_def all_review_roles_def)
  obtain t where remark: "string_field ''document'' ex_evaluation_members ''scope_note'' = Inr t" using fields(18) by blast
  have written: "canonical_or (reader_feq ex_reader) ''review-board evaluation'' (board_evaluation_dict (reader_hash ex_reader) ex_evaluation)
      ex_evaluation_members ex_evaluation = Inr ex_evaluation"
    by (simp add: ex_reader_def ex_evaluation_written canonical_plain del: plain.simps)
  show ?thesis using ex_evaluation_made [unfolded ex_evaluation_def, folded ex_evaluation_def] written
    by (simp add: parse_board_evaluation_def fields remark named ex_finding_read) (simp add: ex_evaluation_def)
qed

definition ex_ledger_members :: "json dict" where
  "ex_ledger_members = ok_members (build_review_ledger ex_hash ex_case ex_open_policy [] [] [] ex_evaluation)"

lemma ex_ledger_written:
  "build_review_ledger ex_hash ex_case ex_open_policy [] [] [] ex_evaluation = Inr (JObj ex_ledger_members)"
  "plain (JObj ex_ledger_members)" "text_member (JObj ex_ledger_members) ''digest'' = Inr (ex_hash [])"
  by (simp_all add: ex_ledger_members_def ok_members_def build_review_ledger_def ledger_specs_def ex_open_digests
    ex_evaluation_written(3) Let_def ex_digest ex_signed text_member_def)

definition ex_contents :: "string dict" where
  "ex_contents = map (\<lambda>n. (n, n)) required_entries"

definition ex_index_members :: "json dict" where
  "ex_index_members = ok_members (build_review_bundle_index ex_hash ex_case ex_open_policy ex_evaluation (JObj ex_ledger_members)
     (filter (\<lambda>(name, _). name \<noteq> ''bundle-index.json'') ex_contents) [])"

lemma ex_index_written:
  "build_review_bundle_index ex_hash ex_case ex_open_policy ex_evaluation (JObj ex_ledger_members)
     (filter (\<lambda>(name, _). name \<noteq> ''bundle-index.json'') ex_contents) [] = Inr (JObj ex_index_members)"
  "plain (JObj ex_index_members)" "dict_get ex_index_members ''metadata'' = Some (JObj [])"
  "\<exists>x. text_member (JObj ex_index_members) ''bundle_index_digest'' = Inr x"
  by (simp_all add: ex_index_members_def ok_members_def build_review_bundle_index_def ex_open_digests ex_evaluation_written(3)
    ex_ledger_written(3) ex_signed list_all_iff split_beta) (simp add: text_member_def)

fun ex_document :: "string \<Rightarrow> json dict" where
  "ex_document n =
     (if n = ''review-case.json'' then ex_case_members else if n = ''machine-advisories.json'' then ex_advisory_members
      else if n = ''human-reviews.json'' then ex_review_members else if n = ''evidence-challenges.json'' then ex_challenge_members
      else if n = ''board-evaluation.json'' then ex_evaluation_members else if n = ''review-ledger.json'' then ex_ledger_members
      else ex_index_members)"

text \<open>Every entry has its name for its bytes, and the decoder knows which document that is.\<close>

definition ex_package :: package_env where
  "ex_package = \<lparr>pkg_reader = ex_reader, pkg_loads = (\<lambda>t. Some (JObj (ex_document t))),
     zip_open = (\<lambda>_. Inr (map (\<lambda>n. \<lparr>entry_name = n, entry_mode = 33188, entry_size = 1, entry_packed = 1, entry_body = Inr n\<rparr>)
       required_entries)), admit_package = (\<lambda>_ _. Inr ex_case), size_quotient = (\<lambda>_ _. JFloat ''1.0''),
     above_ratio = (\<lambda>_. False), max_entries = 64, max_entry_bytes = 67108864, max_uncompressed = 134217728\<rparr>"

definition ex_infos :: "zip_entry list" where
  "ex_infos = map (\<lambda>n. \<lparr>entry_name = n, entry_mode = 33188, entry_size = 1, entry_packed = 1, entry_body = Inr n\<rparr>) required_entries"

lemma ex_names_safe: "list_all (\<lambda>n. safe_archive_path n \<and> last n \<noteq> CHR ''/'' \<and> utf8_decode n = Some n) required_entries"
  by code_simp

lemma ex_archive_silent: "archive_issues ex_package ex_infos = []"
proof -
  have n: "map entry_name ex_infos = required_entries" "sum_list (map entry_size ex_infos) = 8" "length ex_infos = 8"
    by (simp_all add: ex_infos_def comp_def required_entries_def json_entries_def)
  have "validate_zip_info ex_package i = []" if "i \<in> set ex_infos" for i
    using that ex_names_safe by (auto simp: ex_infos_def validate_zip_info_def ex_package_def is_link_mode_def list_all_iff Let_def)
  then have "concat (map (validate_zip_info ex_package) ex_infos) = []" by simp
  moreover have "filter (\<lambda>n. 1 < count_list required_entries n) required_entries = []"
    by (simp add: required_entries_def json_entries_def upstream_entry_def)
  ultimately show ?thesis by (simp add: archive_issues_def n) (simp add: ex_package_def)
qed

lemma ex_contents_read: "read_zip_entries ex_infos = Inr ex_contents"
  by (simp add: ex_infos_def ex_contents_def required_entries_def json_entries_def)

lemma ex_content: "n \<in> set required_entries \<Longrightarrow> dict_get ex_contents n = Some n"
  unfolding ex_contents_def by (simp add: map_of_map_restrict)

lemma ex_documents_loaded: "load_documents ex_package ex_contents = ([], map (\<lambda>n. (n, ex_document n)) json_entries)"
proof -
  have "load_document ex_package ex_contents n = ([], [(n, ex_document n)])" if "n \<in> set json_entries" for n
  proof -
    have "n \<in> set required_entries" using that by (simp add: required_entries_def)
    moreover from this have "dict_get ex_contents n = Some n" by (rule ex_content)
    ultimately show ?thesis using ex_names_safe by (simp add: load_document_def ex_package_def list_all_iff del: ex_document.simps)
  qed
  then show ?thesis by (simp add: load_documents_def Let_def cong: map_cong del: ex_document.simps)
qed

lemma ex_documents_parsed:
  "parse_documents ex_reader (map (\<lambda>n. (n, ex_document n)) json_entries) = Inr
     \<lparr>case_subject = ex_case, case_policy = ex_open_policy, case_advisories = [], case_reviews = [], case_challenges = [],
      case_evaluation = ex_evaluation\<rparr>"
  by (simp add: parse_documents_def document_named_def json_entries_def ex_case_read ex_sets_written ex_evaluation_read)

lemma ex_package_verified:
  "\<exists>v. verify_review_board_package ex_package ''board.zip'' (Inr ''zip'') [] [] = Inr v \<and> package_passed v
    \<and> verified_status v = ''human_review_required''"
proof -
  let ?docs = "map (\<lambda>n. (n, ex_document n)) json_entries"
  have env: "zip_open ex_package x = Inr ex_infos" "pkg_reader ex_package = ex_reader" for x
    by (simp_all add: ex_package_def ex_infos_def)
  have reader: "reader_hash ex_reader = ex_hash" "reader_feq ex_reader = (\<lambda>_ _. False)" by (simp_all add: ex_reader_def)
  have named: "document_named ?docs ''machine-advisories.json'' = Inr ex_advisory_members"
    "document_named ?docs ''human-reviews.json'' = Inr ex_review_members"
    "document_named ?docs ''evidence-challenges.json'' = Inr ex_challenge_members"
    "document_named ?docs ''review-ledger.json'' = Inr ex_ledger_members"
    "document_named ?docs ''bundle-index.json'' = Inr ex_index_members"
    by (simp_all add: document_named_def json_entries_def)
  have complete: "\<not> list_ex (\<lambda>name. dict_get ?docs name = None) json_entries"
    by (auto simp: list_ex_iff map_of_map_restrict simp del: ex_document.simps)
  have body: "dict_get ex_contents upstream_entry = Some upstream_entry"
    by (rule ex_content) (simp add: required_entries_def)
  have upstream: "check_upstream ex_package upstream_entry ex_case = Inr ([], True)"
    by (simp add: check_upstream_def env reader) (simp add: ex_package_def subject_eq_def ex_case_def ex_hash_def)
  have quiet: "mismatch f (JObj d) d c m q = []" if "plain (JObj d)" for f d c m q
    using py_eq_plain [OF that] by (simp add: mismatch_def del: py_eq.simps)
  note [simp del] = plain.simps py_eq.simps ex_document.simps
  have sets: "recheck_sets ex_reader ?docs \<lparr>case_subject = ex_case, case_policy = ex_open_policy, case_advisories = [], case_reviews = [],
      case_challenges = [], case_evaluation = ex_evaluation\<rparr> = Inr []"
    by (simp add: recheck_sets_def reader named ex_sets_written quiet)
  have again: "recheck_evaluation ex_reader \<lparr>case_subject = ex_case, case_policy = ex_open_policy, case_advisories = [], case_reviews = [],
      case_challenges = [], case_evaluation = ex_evaluation\<rparr> ex_evaluation = Inr []"
    by (simp add: recheck_evaluation_def reader ex_evaluation_written quiet)
  have ledger: "recheck_ledger ex_reader ?docs ex_contents \<lparr>case_subject = ex_case, case_policy = ex_open_policy, case_advisories = [],
      case_reviews = [], case_challenges = [], case_evaluation = ex_evaluation\<rparr> ex_evaluation
      = Inr ([], JObj ex_ledger_members, JObj ex_index_members)"
    by (simp add: recheck_ledger_def reader named ex_ledger_written ex_index_written quiet)
  obtain x where x: "text_member (JObj ex_index_members) ''bundle_index_digest'' = Inr x" using ex_index_written(4) by blast
  show ?thesis
    by (simp add: verify_review_board_package_def env ex_archive_silent ex_contents_read ex_documents_loaded complete
      ex_documents_parsed verify_case_def body upstream reader sets ex_evaluated again ledger ex_open_digests
      ex_evaluation_written ex_ledger_written x package_passed_def) (simp add: ex_evaluation_def)
qed

theorem verified_package_sound_witness:
  "\<exists>c. sound_package ex_package [] ex_infos c HUMAN_REVIEW_REQUIRED"
proof -
  obtain v where v: "verify_review_board_package ex_package ''board.zip'' (Inr ''zip'') [] [] = Inr v" "package_passed v"
    "verified_status v = ''human_review_required''" using ex_package_verified by blast
  obtain bytes infos c verdict where s: "zip_open ex_package bytes = Inr infos" "sound_package ex_package [] infos c verdict"
    "verified_status v = board_status_value verdict"
    using verified_package_sound [OF v(1,2)] by blast
  have "infos = ex_infos" using s(1) by (simp add: ex_package_def ex_infos_def)
  moreover have "verdict = HUMAN_REVIEW_REQUIRED" using s(3) v(3) by (cases verdict) simp_all
  ultimately show ?thesis using s(2) by blast
qed

section \<open>The vault\<close>

text \<open>C23: What is put under a key is what is read back under it, sealed with the bytes of its JSON text, and every key whose
  path leads to another file reads as before. In a root that holds no links these are all the other keys, where the keys have no
  slashes. (Keys that name the same file, as \<open>x\<close> and \<open>./x\<close> do, overwrite each other.)
\<close>

theorem vault_reads_back:
  assumes "vault_ready env" "vault_put env now key v disk = Inr (e, disk')"
    and "fromisoformat (vault_parse env) (datetime_isoformat (vault_rt env) (Aware now)) = Inr (Aware now)"
  shows "\<exists>f. entry_file env disk (vault_key e) = Some f
    \<and> vault_get env key disk' = Inr (Some (e\<lparr>vault_path := f\<rparr>)) \<and> payload_bytes (vault_sealed e) = seal_bytes v
    \<and> (\<forall>other k. vault_key_of other = Inr k \<and> entry_file env disk k \<noteq> Some f \<longrightarrow>
          vault_get env other disk' = vault_get env other disk)
    \<and> (plain_root env disk \<and> CHR ''/'' \<notin> set (vault_key e) \<longrightarrow>
          (\<forall>other k. vault_key_of other = Inr k \<and> CHR ''/'' \<notin> set k \<and> k \<noteq> vault_key e \<longrightarrow>
             vault_get env other disk' = vault_get env other disk))"
proof -
  obtain k f where k: "vault_key_of key = Inr k" "vault_key e = k" "entry_file env disk k = Some f"
    by (rule vault_put_Inr [OF assms(1,2)])
  have others: "vault_get env other disk' = vault_get env other disk"
    if "vault_key_of other = Inr k'" "entry_file env disk k' \<noteq> Some f" for other k'
    using vault_put_others [OF assms(1,2) that(1)] that(2) k(2,3) by simp
  have "vault_get env other disk' = vault_get env other disk"
    if "plain_root env disk" "CHR ''/'' \<notin> set k" "vault_key_of other = Inr k'" "CHR ''/'' \<notin> set k'" "k' \<noteq> k" for other k'
    using plain_keys_differ [OF that(1) vault_key_normal(1) [OF that(3)] that(4) vault_key_normal(1) [OF k(1)] that(2,5)]
      others [OF that(3)] k(3) by simp
  with others vault_put_get [OF assms, of f] k show ?thesis by auto
qed

definition ex_vault :: vault_env where
  "ex_vault = \<lparr>vault_mac = ex_hmac, vault_rt = ex_runtime, vault_parse = ex_parse, vault_secret = ''k'', vault_namespace = ''ns'',
     vault_root = [''v'']\<rparr>"

definition ex_disk :: vault_disk where
  "ex_disk = [([''v''], VaultDir)]"

lemma ex_vault_ready: "vault_ready ex_vault"
proof -
  have "vault_text ''Vault state purpose namespace must not be empty.'' ''ns'' = Inr ''ns''" by code_simp
  then show ?thesis by (simp add: vault_ready_def vault_init_def ex_vault_def)
qed

lemma ex_vault_time: "fromisoformat (vault_parse ex_vault) (datetime_isoformat (vault_rt ex_vault) (Aware 0)) = Inr (Aware 0)"
  by code_simp

lemma ex_vault_put: "\<exists>r. vault_put ex_vault 0 ''Box'' (JInt 7) ex_disk = Inr r \<and> vault_key (fst r) = ''box''"
  by (rule ok_withD) code_simp

lemma ex_disk_plain: "plain_root ex_vault ex_disk"
  by (simp add: plain_root_def ex_vault_def ex_disk_def)

theorem vault_reads_back_witness:
  "\<exists>e disk. vault_put ex_vault 0 ''Box'' (JInt 7) ex_disk = Inr (e, disk)
    \<and> vault_get ex_vault ''Box'' disk = Inr (Some (e\<lparr>vault_path := [''v'', ''box.json'']\<rparr>))
    \<and> payload_bytes (vault_sealed e) = seal_bytes (JInt 7)
    \<and> vault_get ex_vault ''till'' disk = vault_get ex_vault ''till'' ex_disk"
proof -
  obtain e disk where p: "vault_put ex_vault 0 ''Box'' (JInt 7) ex_disk = Inr (e, disk)" "vault_key e = ''box''"
    using ex_vault_put by fastforce
  have "entry_file ex_vault ex_disk ''box'' = Some [''v'', ''box.json'']" "vault_key_of ''till'' = Inr ''till''" by code_simp+
  with vault_reads_back [OF ex_vault_ready p(1) ex_vault_time] p ex_disk_plain show ?thesis
    by (intro exI [of _ e] exI [of _ disk]) auto
qed




end
