(* ===== verification/Spec2Isabelle.thy ===== *)
theory Spec2Isabelle
  imports AgentProperties GatewayProperties OperationProperties ToolProperties KernelProperties RunProperties
    BoardProperties
begin

text \<open>
  IX-BlackFox: who may let a tool act, and what is recorded of it.

  \<^bold>\<open>The program.\<close> IX-BlackFox (Python, \<open>src/src/ix_blackfox\<close>) governs what software agents may
  do. Agents are registered with scoped capability grants (\<open>agents\<close>); a request is authorized against
  the registry; the live gateway (\<open>live_gateway\<close>) turns a call into an exact subject, authenticates the
  caller, verifies signed evidence bound to the subject, decides, reserves single-use evidence and
  appends a hash-chained receipt; the integration mesh keeps a ledger of request ids; the operation
  coordinator (\<open>autonomy\<close>) runs plans of several steps, each dispatch under an approved snapshot, a
  budget and independently observed outcomes. The tools themselves (\<open>tools\<close>) are called through a
  governed gateway that evaluates a policy on the tool's manifest and the risk of its arguments and
  records chained receipts; one tool applies patches to the files of a workspace. The runtime
  (\<open>runtime\<close>) runs a task from end to end: it is watched for replays, classified (\<open>runtime/inference.py\<close>) and
  routed (\<open>switchboard\<close>), advised on by models (\<open>brains\<close>), decided on by a preflight and the approvals
  in its metadata, given to a pack (\<open>packs\<close>) or not, checked (\<open>sentinel\<close>), evaluated and verified (\<open>eval\<close>),
  and reported with a chain of receipts.

  \<^bold>\<open>The theories, in the order of the imports.\<close>
  \<^item> \<open>PyPrelude\<close>, \<open>PyText\<close>, \<open>PyTime\<close>: results with Python's exceptions as a sum (\<open>res\<close>), the loops that
    may raise (\<open>res_map\<close>, \<open>res_fold\<close>, \<open>res_filter\<close>, \<open>res_any\<close>), the predicate \<open>ensures\<close> with its
    introduction rules, dictionaries as association lists, strings and times.
  \<^item> \<open>Normalize\<close>: \<open>operating/models.py\<close>, the normalisation of names, texts and paths.
  \<^item> \<open>PyJson\<close>, \<open>JsonEncoding\<close>, \<open>JsonSize\<close>: JSON values, \<open>canonical_bytes\<close> and \<open>digest\<close> of
    \<open>authority_crypto/encoding.py\<close>, \<open>digest_payload\<close>; that the encodings are injective up to key order,
    so that digests bind; a size bound.
  \<^item> \<open>AgentModels\<close>, \<open>Capabilities\<close>, \<open>Registry\<close>, \<open>Authorization\<close>, \<open>HumanAuthority\<close>, \<open>ToolRequests\<close>:
    \<open>agents/models.py\<close>, \<open>capabilities.py\<close>, \<open>registry.py\<close>, \<open>authorization.py\<close>, \<open>authority.py\<close>,
    \<open>tool_gateway.py\<close> with the requests of \<open>tools/contracts.py\<close>. \<open>Registry\<close> states its contract as a
    locale of keyed directories and interprets it on the model.
  \<^item> \<open>Evidence\<close>, \<open>LiveAuthority\<close>, \<open>EnterpriseIdentity\<close>, \<open>ReceiptStore\<close>, \<open>ReceiptChain\<close>, \<open>Gateway\<close>:
    \<open>live_gateway/models.py\<close>, \<open>evidence.py\<close>, \<open>authority.py\<close>, \<open>enterprise_identity.py\<close>,
    \<open>receipts.py\<close>, and the decision core of \<open>service.py\<close> with the routes of \<open>config.py\<close>.
  \<^item> \<open>MeshLedger\<close>: \<open>integration_mesh/ledger.py\<close>.
  \<^item> \<open>Operations\<close>, \<open>Coordinator\<close>, \<open>CoordinatorSafety\<close>, \<open>CoordinatorRuns\<close>: \<open>autonomy/contracts.py\<close>,
    \<open>store.py\<close> and \<open>coordinator.py\<close>; what each transaction does to the stored state; the step relation
    \<open>op_step\<close> of the transactions in any interleaving and its invariants.
  \<^item> \<open>PyState\<close>: code that changes a state and may raise, with the relation \<open>st_keeps\<close> every run respects.
  \<^item> \<open>ToolPolicy\<close>, \<open>ToolReceipts\<close>, \<open>ToolGateway\<close>, \<open>ToolRuns\<close>: \<open>tools/manifest.py\<close>, \<open>risk.py\<close>,
    \<open>policy.py\<close>, \<open>receipts.py\<close> and \<open>gateway.py\<close>. A tool is a function on the ledger and a state of
    its own; its duty to keep the ledger is the locale \<open>recording_tool\<close>.
  \<^item> \<open>Workspace\<close>, \<open>Patches\<close>, \<open>PatchApply\<close>, \<open>PatchSafety\<close>: \<open>tools/workspace.py\<close>, \<open>patch.py\<close> and
    \<open>patch_apply.py\<close> over a file system of files, directories and symbolic links; what applying a
    patch may touch, and the specification it refines. The patch tool interprets \<open>recording_tool\<close>.
  \<^item> \<open>Tasks\<close>, \<open>SharedState\<close>, \<open>KernelRuntime\<close>: \<open>kernel/tasks.py\<close>, \<open>state.py\<close> and \<open>runtime.py\<close>; the
    lifecycle of tasks, histories of the shared state, and the kernel's lifecycle between threads.
  \<^item> \<open>ChainedReceipts\<close>: the locale \<open>receipt_chain\<close> of ledgers whose receipts name the one before,
    interpreted on tool receipts and, in \<open>GovernanceReceipts\<close>, on those of governed actions.
  \<^item> \<open>Governance\<close>, \<open>GovernanceReceipts\<close>, \<open>Approvals\<close>: \<open>governance/models.py\<close>, \<open>policy.py\<close>, \<open>receipt.py\<close>
    and \<open>approval.py\<close>.
  \<^item> \<open>Fixtures\<close>, \<open>GatewayFixtures\<close>, \<open>OperationFixtures\<close>, \<open>ToolFixtures\<close>: the concrete values the witnesses use, among
    them a whole run of one operation up to its dispatch.
  \<^item> \<open>TaskIntake\<close>, \<open>Switchboard\<close>, \<open>Safeguards\<close>, \<open>Preflight\<close>, \<open>RuntimeApproval\<close>: \<open>runtime/replay.py\<close> and
    \<open>inference.py\<close>, \<open>switchboard/models.py\<close> and \<open>runtime.py\<close>, \<open>brains/safety.py\<close>, \<open>runtime/governance.py\<close> with the tickets of
    \<open>forge/execution_ticket.py\<close>, and \<open>runtime/approval.py\<close>: what is decided of a task before a pack is called.
  \<^item> \<open>Sentinel\<close>, \<open>RunVerification\<close>, \<open>RunMemory\<close>, \<open>EventBus\<close>, \<open>Packs\<close>, \<open>Escalation\<close>, \<open>RunReceipts\<close>:
    \<open>sentinel\<close>, \<open>eval\<close>, \<open>memory\<close>, \<open>bus\<close>, \<open>packs\<close>, \<open>brains/escalation.py\<close> and \<open>runtime/receipts.py\<close>: the
    parts a run uses.
  \<^item> \<open>RunReport\<close>, \<open>Orchestrator\<close>, \<open>RunConclusion\<close>: \<open>runtime/orchestrator.py\<close>; the report with its documents,
    the way of a task up to the gate, and what follows it, up to \<open>execute_task\<close> and \<open>run_prompt\<close>. The four
    copies of the conclusion in \<open>execute_task\<close> are one definition, \<open>conclude\<close>.
  \<^item> \<open>RunGate\<close>, \<open>RunTotal\<close>, \<open>RunDocuments\<close>, \<open>RunVerdict\<close>, \<open>RunEnds\<close>, \<open>RunWhole\<close>, \<open>RunOutcome\<close>: what is true of every
    run: which steps leave the packs' world alone, total correctness of the steps (\<open>ends\<close>), that what is written is
    JSON, the verdict, and both halves of a run.
  \<^item> \<open>ReviewBoard\<close>, \<open>ReviewPolicy\<close>: \<open>review_board/models.py\<close> and \<open>policy.py\<close>: the case put before a board of
    humans, and what the board decides of it. \<open>ReviewDocuments\<close>: the documents of \<open>package.py\<close> and the strict
    readers of \<open>parsing.py\<close>, under Python's equality of decoded values. \<open>ReviewPackages\<close>: \<open>verify.py\<close>.
  \<^item> \<open>Vault\<close>: \<open>vault/provenance.py\<close>, \<open>seal.py\<close> and \<open>state_store.py\<close>, with the
    base64 they use. The ledger interprets \<open>receipt_chain\<close> once more.
  \<^item> \<open>AgentProperties\<close>, \<open>GatewayProperties\<close>, \<open>OperationProperties\<close>, \<open>ToolProperties\<close>, \<open>KernelProperties\<close>,
    \<open>RuntimeProperties\<close>, \<open>RunProperties\<close>, \<open>BoardProperties\<close>: the properties, each under its number, with witnesses.

  \<^bold>\<open>How state and operations correspond.\<close> A dataclass is a record, its \<open>__post_init__\<close> a function
  \<open>..._init\<close> from the fields as given to the fields as kept or an error; an enumeration is a datatype
  with a function to its values; \<open>to_dict\<close> is a function \<open>..._dict\<close> to JSON. A method that raises
  returns \<open>Inl\<close> of the exception (\<open>py_error\<close>), in the order of the code's checks. A database table is a
  list or dictionary of rows and a transaction is a function from the tables to the new tables or an
  error, on which nothing changes. Integers are Python's, so \<open>int\<close>; a bound of the code (53 bits in
  canonical JSON, 128 attempts) is a check of the model. Strings are lists of code points below 256.
  The \<open>while\<close> loops (\<open>collapse_dashes\<close>, \<open>dependency_walk\<close>) are functions with a termination proof, so no
  fuel is needed; the \<open>for\<close> loops are folds. The file system is a function from absolute paths to
  nodes; \<open>link_bound\<close> is the number of symbolic links the operating system follows before it reports
  a loop, and every statement holds for each bound. The vault's disk is an association list of such nodes,
  walked as Linux walks a path (\<open>os_walk\<close>, with its bound of 40 links): its entries are kept by file, and several keys may name one.

  \<^bold>\<open>Parameters.\<close> SHA-256 (\<open>H\<close>), HMAC, \<open>json.loads\<close>, \<open>datetime.fromisoformat\<close>, the texts only the
  interpreter knows (\<open>py_runtime\<close>), PyJWT, the clock readings of a transaction and fresh ids are
  arguments. Nothing is assumed of them, except that a property about digests asks that \<open>H\<close> does not
  collide on the texts at hand, one about stored receipts that the parser reads back what was
  written, one about sealed entries the same of timestamps and that the MAC does not collide on two texts, and one about
  tokens that PyJWT refuses expired ones (\<open>jwt_refuses_expired\<close>). The verification of signed receipts is a parameter of the coordinator. In a run the lanes that
  ask models (\<open>run_lanes\<close>) act on a world of their own and the packs on theirs; loading a pack,
  joining and resolving paths, the texts of floats and the classifier's score are arguments too. The
  properties of a run name what they ask of them: \<open>lanes_assess\<close> (an assessment is one its constructor
  accepts), \<open>lanes_answer\<close> (the lanes return, with JSON), \<open>pack_answers\<close> (a pack returns an accepted
  result or raises with a text that is not blank) and \<open>found_pack\<close> (the pack of a route is there).

  \<^bold>\<open>What the lemmas show.\<close> \<open>Authorization\<close>: what an ALLOW means, and every cause of the other decisions.
  \<open>Capabilities\<close>: the posture findings are the declarative rules. \<open>EnterpriseIdentity\<close>: accepted
  chains are linked, unexpired and narrowing, in paths where none drops the limits above it. \<open>Evidence\<close>: an artifact passes exactly under the
  declarative conditions. \<open>ReceiptChain\<close>: what a verified chain is, that appending keeps it, and that
  its head binds it. \<open>ReceiptStore\<close>: claims are granted once. \<open>CoordinatorSafety\<close>: readiness, the guard,
  what each transaction may change. \<open>CoordinatorRuns\<close>: the budget, finality of closing and the
  history of an operation, by induction over \<open>op_run\<close>. \<open>ToolPolicy\<close>: the evaluation is a table of
  block and review conditions, and an ALLOW is only ever given to tools that read. \<open>ToolReceipts\<close>:
  appending keeps every chain verified, and a chain's last digest determines what it covers.
  \<open>ToolGateway\<close>, \<open>ToolRuns\<close>: a tool runs only after an ALLOW and two receipts, and then it does run.
  \<open>PatchSafety\<close>: what a patch writes stays in the workspace, and refines the changes it lists.
  \<open>Tasks\<close>: every record of a task is consistent, and there are at most four. \<open>SharedState\<close>: an entry
  that is not removed only gets newer, so a compare-and-set replaces what was read. \<open>KernelRuntime\<close>:
  when a stopped kernel stays stopped, and the run in which it does not. \<open>Governance\<close>: the policy is a
  table. \<open>GovernanceReceipts\<close>: appending keeps the chain of every intent. \<open>Approvals\<close>: what the
  constructors make is read back from its document, and a decision is final. \<open>Switchboard\<close>: the route taken is the
  first best one of the best tier. \<open>TaskIntake\<close>: the replay guard knows exactly its window. \<open>Preflight\<close>,
  \<open>RuntimeApproval\<close>: both are total, and tables; what an approval without a status does is a lemma
  there, and the properties speak of approvals that state theirs, as the documented contract asks. \<open>Sentinel\<close>: a run of checks never raises, and the default ones
  find nothing serious in consistent observations. \<open>Escalation\<close>: the decision is a sum and a budget. \<open>RunGate\<close>:
  whatever the rest does, the packs' world changes only past an open gate. \<open>RunWhole\<close>, \<open>RunOutcome\<close>: a run whose
  parts keep to their duties ends, with the status of its table and a verified chain. \<open>ReviewPolicy\<close>: the board's
  status is the verdict on the case, in which machine advisories have no part. \<open>ReviewPackages\<close>: a package
  that passes carries the documents rebuilt from its case and the verdict on it. \<open>Vault\<close>: what is stored is read
  back, which keys share a file, and what a seal binds.

  \<^bold>\<open>Not modelled.\<close> The HTTP and MCP handlers around the gateway's decision and the parser of its
  configuration file; the signing mode of the receipt store with its outbox, and signature
  verification; the connectors of the mesh; the tools that read files, list directories
  and run tests; the writing of review packages; inside a run, the calls of models with their prompts and providers; of the runtime the
  repair loops, bundles and command lines; and the subsystems that report on, render or plan
  around what the core decided (\<open>authoring\<close>, \<open>assurance\<close>, \<open>audit\<close>, \<open>operating\<close>, \<open>reliability\<close>, \<open>repository\<close> and others, see the manifest): they hold no state the modelled parts read. Text
  outside Latin-1, surrogates and the depth limit of the JSON encoder do not occur in the model, nor do
  directories that cannot be made and files that cannot be written during a run. Concurrency is the
  interleaving of whole transactions, as SQLite serialises them.
\<close>

end
